(* ===== verification/Prelude.thy ===== *)
theory Prelude
  imports Complex_Main
begin

text \<open>
  What every component shares: the values and the pieces of the JavaScript standard library
  that the TypeScript sources use (strings, numbers, JSON values), errors as values with the
  combinators that sequence handlers, and the rows of a database table as lists with the
  operations a Prisma client offers on them.

  Strings are lists of code units restricted to one byte (Latin-1), so that \<open>length\<close>,
  \<open>trim\<close>, \<open>toLowerCase\<close> and \<open>slice\<close> agree with JavaScript on such strings. Finite numbers
  are rationals; a double stands for the decimal that JavaScript prints for it. Instants
  (\<open>Date\<close>) are integers, milliseconds since the epoch. Properties that a plain object inherits
  from \<open>Object.prototype\<close> are not modelled.
\<close>

named_theorems err_simps \<open>a step of a handler that succeeds, read backwards\<close>
named_theorems row_simps \<open>what the operations on the rows of a table do\<close>

section \<open>Errors\<close>

text \<open>
  The exceptions of the NestJS handlers, with their messages; \<open>Unique\<close> is Prisma's P2002 and
  \<open>NotFound\<close> its P2025.
\<close>

datatype error =
    BadRequest string
  | Unauthorized string
  | Forbidden string
  | Conflict string
  | TooManyRequests string int int int \<comment> \<open>scope, limit, retryAfterSeconds, resetAt\<close>
  | NonRetryable string \<comment> \<open>\<open>NonRetryableJobError\<close>\<close>
  | Failure string \<comment> \<open>\<open>new Error(message)\<close>\<close>
  | Unique string
  | NotFound

type_synonym 'a res = "error + 'a"

fun message :: "error \<Rightarrow> string" where
  "message (BadRequest m) = m"
| "message (Unauthorized m) = m"
| "message (Forbidden m) = m"
| "message (Conflict m) = m"
| "message (TooManyRequests _ _ _ _) = ''Rate limit exceeded.''"
| "message (NonRetryable m) = m"
| "message (Failure m) = m"
| "message (Unique m) = m"
| "message NotFound = ''Record to update not found.''"

text \<open>Sequencing: an exception ends the handler. \<open>failIf\<close> is \<open>if (c) throw e\<close>, \<open>require\<close> is
  \<open>if (!x) throw e\<close> for a row that was looked up.\<close>

definition bindE :: "'e + 'a \<Rightarrow> ('a \<Rightarrow> 'e + 'b) \<Rightarrow> 'e + 'b" where
  "bindE m f = (case m of Inl e \<Rightarrow> Inl e | Inr x \<Rightarrow> f x)"

definition failIf :: "bool \<Rightarrow> 'e \<Rightarrow> 'e + unit" where
  "failIf c e = (if c then Inl e else Inr ())"

definition require :: "'a option \<Rightarrow> 'e \<Rightarrow> 'e + 'a" where
  "require x e = (case x of None \<Rightarrow> Inl e | Some v \<Rightarrow> Inr v)"

fun foldE :: "('a \<Rightarrow> 's \<Rightarrow> 'e + 's) \<Rightarrow> 'a list \<Rightarrow> 's \<Rightarrow> 'e + 's" where
  "foldE f [] s = Inr s"
| "foldE f (x # xs) s = bindE (f x s) (foldE f xs)"

lemma bindE_Inl [simp]: "bindE (Inl e) f = Inl e"
  by (simp add: bindE_def)

lemma bindE_Inr [simp]: "bindE (Inr x) f = f x"
  by (simp add: bindE_def)

lemma bindE_eq_Inr [err_simps]: "bindE m f = Inr y \<longleftrightarrow> (\<exists>x. m = Inr x \<and> f x = Inr y)"
  by (cases m) auto

lemma bindE_cong [fundef_cong]:
  "m = m' \<Longrightarrow> (\<And>x. m' = Inr x \<Longrightarrow> f x = g x) \<Longrightarrow> bindE m f = bindE m' g"
  by (cases m') auto

lemma failIf_eq_Inr [err_simps]: "failIf c e = Inr u \<longleftrightarrow> \<not> c"
  by (simp add: failIf_def)

lemma failIf_True [simp]: "failIf True e = Inl e"
  and failIf_False [simp]: "failIf False e = Inr ()"
  by (simp_all add: failIf_def)

lemma require_eq_Inr [err_simps]: "require x e = Inr v \<longleftrightarrow> x = Some v"
  by (cases x) (simp_all add: require_def)

lemma require_None [simp]: "require None e = Inl e"
  and require_Some [simp]: "require (Some v) e = Inr v"
  by (simp_all add: require_def)

text \<open>An invariant that every step of a loop keeps holds after the loop.\<close>

lemma foldE_invariant:
  assumes "foldE f xs s = Inr t" and "P s"
    and "\<And>x s s'. x \<in> set xs \<Longrightarrow> P s \<Longrightarrow> f x s = Inr s' \<Longrightarrow> P s'"
  shows "P t"
  using assms
proof (induction xs arbitrary: s)
  case Nil
  then show ?case by simp
next
  case (Cons x xs)
  from Cons.prems(1) obtain u where u: "f x s = Inr u" and rest: "foldE f xs u = Inr t"
    by (auto simp: bindE_eq_Inr)
  have "P u" using Cons.prems(2,3) u by (meson list.set_intros(1))
  with rest show ?case using Cons.IH Cons.prems(3) by (meson list.set_intros(2))
qed

section \<open>Strings\<close>

text \<open>JavaScript white space and line terminators below code unit 256.\<close>

definition is_space :: "char \<Rightarrow> bool" where
  "is_space c \<longleftrightarrow> (of_char c :: nat) \<in> {9, 10, 11, 12, 13, 32, 160}"

definition trim :: "string \<Rightarrow> string" where
  "trim s = rev (dropWhile is_space (rev (dropWhile is_space s)))"

definition lower_char :: "char \<Rightarrow> char" where
  "lower_char c =
     (let n = of_char c :: nat
      in if (65 \<le> n \<and> n \<le> 90) \<or> (192 \<le> n \<and> n \<le> 222 \<and> n \<noteq> 215) then char_of (n + 32) else c)"

text \<open>\<open>toUpperCase\<close>; the letters whose capital is outside Latin-1 or longer than one unit stay
  as they are.\<close>

definition upper_char :: "char \<Rightarrow> char" where
  "upper_char c =
     (let n = of_char c :: nat
      in if (97 \<le> n \<and> n \<le> 122) \<or> (224 \<le> n \<and> n \<le> 254 \<and> n \<noteq> 247) then char_of (n - 32) else c)"

definition toLowerCase :: "string \<Rightarrow> string" where
  "toLowerCase = map lower_char"

definition toUpperCase :: "string \<Rightarrow> string" where
  "toUpperCase = map upper_char"

definition startsWith :: "string \<Rightarrow> string \<Rightarrow> bool" where
  "startsWith s p \<longleftrightarrow> take (length p) s = p"

definition endsWith :: "string \<Rightarrow> string \<Rightarrow> bool" where
  "endsWith s p \<longleftrightarrow> startsWith (rev s) (rev p)"

definition is_digit :: "char \<Rightarrow> bool" where
  "is_digit c \<longleftrightarrow> 48 \<le> (of_char c :: nat) \<and> (of_char c :: nat) \<le> 57"

definition is_hex :: "char \<Rightarrow> bool" where
  "is_hex c \<longleftrightarrow> is_digit c \<or> (let n = of_char c :: nat in (65 \<le> n \<and> n \<le> 70) \<or> (97 \<le> n \<and> n \<le> 102))"

definition is_alpha :: "char \<Rightarrow> bool" where
  "is_alpha c \<longleftrightarrow> (let n = of_char c :: nat in (65 \<le> n \<and> n \<le> 90) \<or> (97 \<le> n \<and> n \<le> 122))"

fun split_on :: "char \<Rightarrow> string \<Rightarrow> string list" where
  "split_on d [] = [[]]"
| "split_on d (c # cs) =
     (if c = d then [] # split_on d cs
      else case split_on d cs of [] \<Rightarrow> [[c]] | w # ws \<Rightarrow> (c # w) # ws)"

fun join :: "string \<Rightarrow> string list \<Rightarrow> string" where
  "join sep [] = []"
| "join sep [w] = w"
| "join sep (w # ws) = w @ sep @ join sep ws"

fun digits :: "nat \<Rightarrow> string" where
  "digits n = (if n < 10 then [char_of (48 + n)] else digits (n div 10) @ [char_of (48 + n mod 10)])"

declare digits.simps [simp del]

definition show_int :: "int \<Rightarrow> string" where
  "show_int i = (if i < 0 then CHR ''-'' # digits (nat (- i)) else digits (nat i))"

lemma dropWhile_idem' [simp]: "dropWhile P (dropWhile P xs) = dropWhile P xs"
  by (induction xs) auto

lemma trim_Nil [simp]: "trim [] = []"
  by (simp add: trim_def)

lemma split_on_not_Nil [simp]: "split_on d s \<noteq> []"
  by (induction s) (auto split: list.splits)

text \<open>Splitting a joined list gives the list back when no part holds the separator.\<close>

lemma split_on_no_sep: "d \<notin> set w \<Longrightarrow> split_on d w = [w]"
  by (induction w) auto

lemma split_on_append: "d \<notin> set w \<Longrightarrow> split_on d (w @ d # rest) = w # split_on d rest"
  by (induction w) auto

lemma split_on_join:
  assumes "ws \<noteq> []" and "\<And>w. w \<in> set ws \<Longrightarrow> d \<notin> set w"
  shows "split_on d (join [d] ws) = ws"
  using assms
proof (induction "[d]" ws rule: join.induct)
  case (3 w v vs)
  then show ?case by (simp add: split_on_append)
qed (simp_all add: split_on_no_sep)

section \<open>Numbers\<close>

datatype jsnum = Fin rat | NaN | PosInf | NegInf

text \<open>\<open>clampNumber\<close> and its kin: the floor of a finite number, forced into a range, or a fallback.\<close>

definition clampNumber :: "jsnum option \<Rightarrow> int \<Rightarrow> int \<Rightarrow> int \<Rightarrow> int" where
  "clampNumber v lo hi fallback =
     (case v of Some (Fin r) \<Rightarrow> min hi (max lo \<lfloor>r\<rfloor>) | _ \<Rightarrow> fallback)"

lemma clampNumber_bounds:
  assumes "lo \<le> hi" and "lo \<le> fallback" and "fallback \<le> hi"
  shows "lo \<le> clampNumber v lo hi fallback \<and> clampNumber v lo hi fallback \<le> hi"
  using assms by (auto simp: clampNumber_def split: option.splits jsnum.splits)

text \<open>\<open>Number(text)\<close>: white space around the literal is dropped, the empty text is zero, and a text
  that is no numeric literal is \<open>NaN\<close>. The value is exact; it is infinite from the bound on at which
  rounding to a double gives infinity.\<close>

definition dec_val :: "string \<Rightarrow> nat" where
  "dec_val s = foldl (\<lambda>n c. 10 * n + (of_char c - 48)) 0 s"

definition exponent_of :: "string \<Rightarrow> int option" where
  "exponent_of s =
     (case s of
        [] \<Rightarrow> Some 0
      | c # r \<Rightarrow>
          (if c \<noteq> CHR ''e'' \<and> c \<noteq> CHR ''E'' then None
           else let ds = (case r of [] \<Rightarrow> [] | d # ds \<Rightarrow>
                            (if d = CHR ''+'' \<or> d = CHR ''-'' then ds else d # ds))
                in if ds = [] \<or> \<not> list_all is_digit ds then None
                   else Some (if take 1 r = ''-'' then - int (dec_val ds) else int (dec_val ds))))"

definition decimal_of :: "string \<Rightarrow> jsnum" where
  "decimal_of s =
     (let i = takeWhile is_digit s;
          r = dropWhile is_digit s;
          point = (take 1 r = ''.'');
          f = (if point then takeWhile is_digit (drop 1 r) else []);
          rest = (if point then dropWhile is_digit (drop 1 r) else r)
      in if i @ f = [] then NaN
         else case exponent_of rest of
                None \<Rightarrow> NaN
              | Some x \<Rightarrow>
                  (let k = x - int (length f);
                       m = of_nat (dec_val (i @ f)) :: rat;
                       v = (if 0 \<le> k then m * 10 ^ nat k else m / 10 ^ nat (- k))
                   in if v \<ge> 2 ^ 1024 - 2 ^ 970 then PosInf else Fin v))"

fun negate :: "jsnum \<Rightarrow> jsnum" where
  "negate (Fin r) = Fin (- r)"
| "negate NaN = NaN"
| "negate PosInf = NegInf"
| "negate NegInf = PosInf"

definition radix_digit :: "char \<Rightarrow> nat" where
  "radix_digit c =
     (if is_digit c then of_char c - 48 else if (of_char c :: nat) \<ge> 97 then of_char c - 87 else of_char c - 55)"

definition radix_of :: "nat \<Rightarrow> string \<Rightarrow> jsnum" where
  "radix_of b s =
     (if s \<noteq> [] \<and> list_all (\<lambda>c. is_hex c \<and> radix_digit c < b) s
      then Fin (of_nat (foldl (\<lambda>n c. b * n + radix_digit c) 0 s)) else NaN)"

definition unsigned_number :: "string \<Rightarrow> jsnum" where
  "unsigned_number t = (if t = ''Infinity'' then PosInf else decimal_of t)"

definition Number_of :: "string \<Rightarrow> jsnum" where
  "Number_of s =
     (let t = trim s; p = take 2 t in
      if t = [] then Fin 0
      else if p = ''0x'' \<or> p = ''0X'' then radix_of 16 (drop 2 t)
      else if p = ''0o'' \<or> p = ''0O'' then radix_of 8 (drop 2 t)
      else if p = ''0b'' \<or> p = ''0B'' then radix_of 2 (drop 2 t)
      else if take 1 t = ''-'' then negate (unsigned_number (drop 1 t))
      else if take 1 t = ''+'' then unsigned_number (drop 1 t)
      else unsigned_number t)"

text \<open>\<open>Math.round\<close> rounds halves up; \<open>Math.ceil\<close> of a quotient of integers.\<close>

definition math_round :: "rat \<Rightarrow> int" where
  "math_round r = \<lfloor>r + 1 / 2\<rfloor>"

lemma math_round_of_int [simp]: "math_round (of_int n) = n"
proof -
  have "\<lfloor>(1 / 2 :: rat)\<rfloor> = 0" by (simp add: floor_eq_iff)
  then show ?thesis by (simp add: math_round_def)
qed

lemma math_round_mono: "r \<le> s \<Longrightarrow> math_round r \<le> math_round s"
  by (simp add: math_round_def floor_mono)

text \<open>\<open>Number::toString\<close>: the shortest decimal \<open>s * 10 ^ - j\<close> (no double needs more than 400
  places), printed with a point or with an exponent.\<close>

fun places :: "nat \<Rightarrow> nat \<Rightarrow> rat \<Rightarrow> nat" where
  "places 0 j r = j"
| "places (Suc fuel) j r = (if of_int \<lfloor>r\<rfloor> = r then j else places fuel (Suc j) (r * 10))"

definition strip_zeros :: "string \<Rightarrow> string" where
  "strip_zeros s = rev (dropWhile (\<lambda>c. c = CHR ''0'') (rev s))"

definition pos_text :: "rat \<Rightarrow> string" where
  "pos_text r =
     (let j = places 400 0 r;
          all = digits (nat \<lfloor>r * 10 ^ j\<rfloor>);
          n = int (length all) - int j;
          s = (if strip_zeros all = [] then ''0'' else strip_zeros all);
          k = int (length s);
          mant = (if k = 1 then s else take 1 s @ ''.'' @ drop 1 s)
      in if k \<le> n \<and> n \<le> 21 then s @ replicate (nat (n - k)) (CHR ''0'')
         else if 0 < n \<and> n \<le> 21 then take (nat n) s @ ''.'' @ drop (nat n) s
         else if - 6 < n \<and> n \<le> 0 then ''0.'' @ replicate (nat (- n)) (CHR ''0'') @ s
         else mant @ ''e'' @ (if n - 1 < 0 then ''-'' else ''+'') @ digits (nat \<bar>n - 1\<bar>))"

definition num_text :: "jsnum \<Rightarrow> string" where
  "num_text x =
     (case x of Fin r \<Rightarrow> (if r = 0 then ''0'' else if r < 0 then CHR ''-'' # pos_text (- r) else pos_text r)
      | NaN \<Rightarrow> ''NaN'' | PosInf \<Rightarrow> ''Infinity'' | NegInf \<Rightarrow> ''-Infinity'')"

section \<open>JSON and plain JavaScript values\<close>

text \<open>The properties of an object are listed in the order the engine enumerates them.\<close>

datatype jval =
    JUndef
  | JNull
  | JBool bool
  | JNum jsnum
  | JStr string
  | JArr "jval list"
  | JObj "(string \<times> jval) list"

text \<open>Reading a property that is not there gives \<open>undefined\<close>.\<close>

definition getProp :: "(string \<times> jval) list \<Rightarrow> string \<Rightarrow> jval" where
  "getProp ob k = (case map_of ob k of None \<Rightarrow> JUndef | Some v \<Rightarrow> v)"

text \<open>\<open>value && typeof value === "object" && !Array.isArray(value)\<close>, with \<open>{}\<close> otherwise.\<close>

definition asRecord :: "jval \<Rightarrow> (string \<times> jval) list" where
  "asRecord v = (case v of JObj ob \<Rightarrow> ob | _ \<Rightarrow> [])"

text \<open>\<open>result[key] = value\<close> on a plain object: a key that exists keeps its place.\<close>

fun set_prop :: "string \<Rightarrow> 'v \<Rightarrow> (string \<times> 'v) list \<Rightarrow> (string \<times> 'v) list" where
  "set_prop k v [] = [(k, v)]"
| "set_prop k v ((k', v') # ob) = (if k = k' then (k, v) # ob else (k', v') # set_prop k v ob)"

lemma map_of_set_prop [simp]: "map_of (set_prop k v ob) = (map_of ob)(k \<mapsto> v)"
  by (induction ob) (auto simp: fun_eq_iff)

definition truthy :: "jval \<Rightarrow> bool" where
  "truthy v = (case v of JUndef \<Rightarrow> False | JNull \<Rightarrow> False | JBool b \<Rightarrow> b
     | JNum n \<Rightarrow> n \<noteq> NaN \<and> n \<noteq> Fin 0 | JStr s \<Rightarrow> s \<noteq> [] | JArr _ \<Rightarrow> True | JObj _ \<Rightarrow> True)"

text \<open>\<open>typeof value === "string" && value.trim() ? value.trim() : undefined\<close>\<close>

definition asString :: "jval \<Rightarrow> string option" where
  "asString v = (case v of JStr s \<Rightarrow> (if trim s = [] then None else Some (trim s)) | _ \<Rightarrow> None)"

text \<open>\<open>String(value)\<close>; an array joins its elements, null and undefined ones as the empty string.\<close>

fun String_of :: "jval \<Rightarrow> string" where
  "String_of JUndef = ''undefined''"
| "String_of JNull = ''null''"
| "String_of (JBool b) = (if b then ''true'' else ''false'')"
| "String_of (JNum n) = num_text n"
| "String_of (JStr s) = s"
| "String_of (JArr xs) =
     join '','' (map (\<lambda>x. case x of JUndef \<Rightarrow> [] | JNull \<Rightarrow> [] | _ \<Rightarrow> String_of x) xs)"
| "String_of (JObj ob) = ''[object Object]''"

text \<open>\<open>JSON.parse(JSON.stringify(value))\<close>: properties that are \<open>undefined\<close> disappear; in an array they
  become null, as do numbers that are not finite.\<close>

fun toJson :: "jval \<Rightarrow> jval" where
  "toJson (JNum n) = (case n of Fin r \<Rightarrow> JNum n | _ \<Rightarrow> JNull)"
| "toJson (JArr xs) = JArr (map (\<lambda>x. case toJson x of JUndef \<Rightarrow> JNull | y \<Rightarrow> y) xs)"
| "toJson (JObj ob) = JObj (filter (\<lambda>(k, v). v \<noteq> JUndef) (map (\<lambda>(k, v). (k, toJson v)) ob))"
| "toJson v = v"

text \<open>\<open>asNumber\<close>: a number, or a text read as one, floored and forced into a range.\<close>

definition asNumber :: "jval \<Rightarrow> int \<Rightarrow> int \<Rightarrow> int \<Rightarrow> int" where
  "asNumber v lo hi fallback =
     (let parsed = (case v of JNum n \<Rightarrow> n | JStr s \<Rightarrow> Number_of s | _ \<Rightarrow> NaN)
      in clampNumber (Some parsed) lo hi fallback)"

lemma asNumber_cases: "asNumber v lo hi fallback = fallback \<or> (lo \<le> hi \<longrightarrow> lo \<le> asNumber v lo hi fallback)"
  by (auto simp: asNumber_def clampNumber_def Let_def split: jsnum.splits)

text \<open>A regular expression that is a fixed sequence of character classes, anchored at both ends.\<close>

definition matches :: "(char \<Rightarrow> bool) list \<Rightarrow> string \<Rightarrow> bool" where
  "matches ps s \<longleftrightarrow> list_all2 (\<lambda>p c. p c) ps s"

definition dash :: "char \<Rightarrow> bool" where
  "dash c \<longleftrightarrow> c = CHR ''-''"

lemma matches_length: "matches ps s \<Longrightarrow> length s = length ps"
  by (simp add: matches_def list_all2_lengthD)

definition jstr :: "string option \<Rightarrow> jval" where
  "jstr x = (case x of None \<Rightarrow> JUndef | Some s \<Rightarrow> JStr s)"

definition jint :: "int \<Rightarrow> jval" where
  "jint i = JNum (Fin (of_int i))"

definition orElse :: "'a option \<Rightarrow> 'a option \<Rightarrow> 'a option" where
  \<comment> \<open>\<open>a ?? b\<close>\<close>
  "orElse a b = (case a of None \<Rightarrow> b | Some x \<Rightarrow> Some x)"

definition getOr :: "'a option \<Rightarrow> 'a \<Rightarrow> 'a" where
  \<comment> \<open>\<open>a ?? b\<close> where \<open>b\<close> is not nullish\<close>
  "getOr a b = (case a of None \<Rightarrow> b | Some x \<Rightarrow> x)"

text \<open>A text that is there and not empty, and \<open>a || b\<close> on texts.\<close>

definition truthy_text :: "string option \<Rightarrow> bool" where
  "truthy_text x = (case x of None \<Rightarrow> False | Some s \<Rightarrow> s \<noteq> [])"

definition or_text :: "string option \<Rightarrow> string option \<Rightarrow> string option" where
  "or_text a b = (case a of None \<Rightarrow> b | Some s \<Rightarrow> (if s = [] then b else a))"

lemma orElse_simps [simp]: "orElse None b = b" "orElse (Some x) b = Some x"
  by (simp_all add: orElse_def)

lemma getOr_simps [simp]: "getOr None b = b" "getOr (Some x) b = x"
  by (simp_all add: getOr_def)

section \<open>Dates\<close>

text \<open>\<open>padStart(n, "0")\<close>, and \<open>Date.prototype.toISOString\<close> over the proleptic Gregorian calendar.\<close>

definition padStart :: "nat \<Rightarrow> string \<Rightarrow> string" where
  "padStart n s = replicate (n - length s) (CHR ''0'') @ s"

definition civil_from_days :: "int \<Rightarrow> int \<times> int \<times> int" where
  "civil_from_days days =
     (let z = days + 719468;
          era = z div 146097;
          doe = z mod 146097;
          yoe = (doe - doe div 1460 + doe div 36524 - doe div 146096) div 365;
          doy = doe - (365 * yoe + yoe div 4 - yoe div 100);
          mp = (5 * doy + 2) div 153;
          d = doy - (153 * mp + 2) div 5 + 1;
          m = (if mp < 10 then mp + 3 else mp - 9);
          y = yoe + era * 400
      in (if m \<le> 2 then y + 1 else y, m, d))"

definition getUTCFullYear :: "int \<Rightarrow> int" where
  "getUTCFullYear t = fst (civil_from_days (t div 86400000))"

definition year_text :: "int \<Rightarrow> string" where
  "year_text y =
     (if 0 \<le> y \<and> y \<le> 9999 then padStart 4 (digits (nat y))
      else if y < 0 then ''-'' @ padStart 6 (digits (nat (- y)))
      else ''+'' @ padStart 6 (digits (nat y)))"

definition toISOString :: "int \<Rightarrow> string" where
  "toISOString t =
     (let (y, m, d) = civil_from_days (t div 86400000);
          r = t mod 86400000;
          two = (\<lambda>n. padStart 2 (digits (nat n)))
      in year_text y @ ''-'' @ two m @ ''-'' @ two d @ ''T'' @
         two (r div 3600000) @ '':'' @ two (r div 60000 mod 60) @ '':'' @
         two (r div 1000 mod 60) @ ''.'' @ padStart 3 (digits (nat (r mod 1000))) @ ''Z'')"

end
