(* ===== verification/Table.thy ===== *)
theory Table
  imports Prelude
begin

text \<open>
  A database table is the list of its rows in insertion order. The operations are those of the
  Prisma client that the services call: \<open>findUnique\<close> and \<open>findFirst\<close> (\<open>find_by\<close>, \<open>List.find\<close>),
  \<open>update\<close> by key (\<open>update_by\<close>, an error when the row is missing), \<open>updateMany\<close> (\<open>update_rows\<close>),
  and a unique index checked after the write (\<open>check_unique\<close>). Columns with null are not compared
  by a unique index, so its key is an option.

  The locale \<open>table\<close> is the interface between a component and one table of the database record:
  a field and its update function, with the law that relates them.
\<close>

definition find_by :: "('r \<Rightarrow> string) \<Rightarrow> string \<Rightarrow> 'r list \<Rightarrow> 'r option" where
  "find_by key k rows = List.find (\<lambda>r. key r = k) rows"

definition update_rows :: "('r \<Rightarrow> bool) \<Rightarrow> ('r \<Rightarrow> 'r) \<Rightarrow> 'r list \<Rightarrow> 'r list" where
  "update_rows p f rows = map (\<lambda>r. if p r then f r else r) rows"

definition set_by :: "('r \<Rightarrow> string) \<Rightarrow> string \<Rightarrow> ('r \<Rightarrow> 'r) \<Rightarrow> 'r list \<Rightarrow> 'r list" where
  "set_by key k f rows = update_rows (\<lambda>r. key r = k) f rows"

definition update_by :: "('r \<Rightarrow> string) \<Rightarrow> string \<Rightarrow> ('r \<Rightarrow> 'r) \<Rightarrow> 'r list \<Rightarrow> 'r list res" where
  "update_by key k f rows =
     (case find_by key k rows of None \<Rightarrow> Inl NotFound | Some r \<Rightarrow> Inr (set_by key k f rows))"

definition check_unique :: "string \<Rightarrow> ('r \<Rightarrow> 'k option) \<Rightarrow> 'r list \<Rightarrow> 'r list res" where
  "check_unique index key rows =
     (if distinct (List.map_filter key rows) then Inr rows else Inl (Unique index))"

section \<open>Rows after an operation\<close>

lemma find_by_Nil [simp]: "find_by key k [] = None"
  by (simp add: find_by_def)

lemma find_by_Cons [simp]:
  "find_by key k (r # rs) = (if key r = k then Some r else find_by key k rs)"
  by (simp add: find_by_def)

lemma find_by_Some: "find_by key k rows = Some r \<Longrightarrow> r \<in> set rows \<and> key r = k"
  by (induction rows) (auto split: if_splits)

lemma find_by_key: "find_by key k rows = Some r \<Longrightarrow> key r = k"
  by (simp add: find_by_Some)

lemma find_by_None: "find_by key k rows = None \<longleftrightarrow> k \<notin> key ` set rows"
  by (induction rows) auto

lemma find_by_append [row_simps]:
  "find_by key k (rows @ more) =
     (case find_by key k rows of None \<Rightarrow> find_by key k more | Some r \<Rightarrow> Some r)"
  by (induction rows) auto

lemma update_rows_Nil [simp]: "update_rows p f [] = []"
  by (simp add: update_rows_def)

lemma update_rows_Cons [simp]:
  "update_rows p f (r # rs) = (if p r then f r else r) # update_rows p f rs"
  by (simp add: update_rows_def)

lemma length_update_rows [row_simps]: "length (update_rows p f rows) = length rows"
  by (simp add: update_rows_def)

lemma set_update_rows: "set (update_rows p f rows) = (\<lambda>r. if p r then f r else r) ` set rows"
  by (simp add: update_rows_def)

lemma set_by_Nil [simp]: "set_by key k f [] = []"
  by (simp add: set_by_def)

lemma set_by_Cons [simp]:
  "set_by key k f (r # rs) = (if key r = k then f r else r) # set_by key k f rs"
  by (simp add: set_by_def)

lemma set_by_same [row_simps]:
  assumes "\<And>r. key (f r) = key r"
  shows "find_by key k (set_by key k f rows) = map_option f (find_by key k rows)"
  by (induction rows) (auto simp: assms)

lemma set_by_other [row_simps]:
  assumes "\<And>r. key (f r) = key r" and "k \<noteq> k'"
  shows "find_by key k (set_by key k' f rows) = find_by key k rows"
  using assms by (induction rows) auto

lemma keys_set_by [row_simps]:
  assumes "\<And>r. key (f r) = key r"
  shows "map key (set_by key k f rows) = map key rows"
  using assms by (induction rows) auto

lemma map_set_by [row_simps]:
  assumes "\<And>r. g (f r) = g r"
  shows "map g (set_by key k f rows) = map g rows"
  using assms by (induction rows) auto

lemma set_by_id [row_simps]: "k \<notin> key ` set rows \<Longrightarrow> set_by key k f rows = rows"
  by (induction rows) auto

lemma in_set_by:
  "r \<in> set (set_by key k f rows) \<longleftrightarrow>
     (r \<in> set rows \<and> key r \<noteq> k) \<or> (\<exists>r' \<in> set rows. key r' = k \<and> r = f r')"
  by (induction rows) auto

lemma update_by_eq_Inr [err_simps]:
  "update_by key k f rows = Inr rows' \<longleftrightarrow>
     k \<in> key ` set rows \<and> rows' = set_by key k f rows"
proof (cases "find_by key k rows")
  case None
  then have "k \<notin> key ` set rows" by (rule find_by_None [THEN iffD1])
  with None show ?thesis by (simp add: update_by_def)
next
  case (Some r)
  from find_by_Some [OF this] have "k \<in> key ` set rows" by blast
  with Some show ?thesis by (auto simp: update_by_def)
qed

lemma check_unique_eq_Inr [err_simps]:
  "check_unique index key rows = Inr rows' \<longleftrightarrow>
     distinct (List.map_filter key rows) \<and> rows' = rows"
  by (auto simp: check_unique_def)

lemma find_Some_in: "List.find P xs = Some x \<Longrightarrow> x \<in> set xs \<and> P x"
  by (induction xs) (auto split: if_splits)

lemma find_append:
  "List.find q (xs @ ys) = (case List.find q xs of None \<Rightarrow> List.find q ys | Some x \<Rightarrow> Some x)"
  by (induction xs) auto

lemma find_None_iff': "List.find P xs = None \<longleftrightarrow> (\<forall>x \<in> set xs. \<not> P x)"
  by (induction xs) auto

text \<open>In a table with distinct keys a row is found by its key, and only one row has the key.\<close>

lemma find_by_distinct:
  "distinct (map key rows) \<Longrightarrow> r \<in> set rows \<Longrightarrow> find_by key (key r) rows = Some r"
  by (induction rows) force+

lemma distinct_key_eq:
  fixes key :: "'r \<Rightarrow> string"
  shows "distinct (map key rows) \<Longrightarrow> r \<in> set rows \<Longrightarrow> s \<in> set rows \<Longrightarrow> key r = key s \<Longrightarrow> r = s"
  unfolding distinct_map by (blast dest: inj_onD)

text \<open>A sum over the rows when one row of a keyed table is replaced.\<close>

lemma sum_list_set_by:
  fixes w :: "'r \<Rightarrow> int"
  assumes "distinct (map key rows)" and "r \<in> set rows" and "key r = k"
  shows "sum_list (map w (set_by key k f rows)) = sum_list (map w rows) - w r + w (f r)"
  using assms
proof (induction rows)
  case Nil
  then show ?case by simp
next
  case (Cons a rows)
  show ?case
  proof (cases "a = r")
    case True
    with Cons.prems have "set_by key k f rows = rows" by (auto intro: set_by_id)
    with True Cons.prems show ?thesis by simp
  next
    case False
    with Cons.prems have "key a \<noteq> k" by (auto simp: image_iff)
    with False Cons show ?thesis by simp
  qed
qed

text \<open>A column that tells the rows of a kind apart still does after an update that keeps it.\<close>

definition tells_apart :: "('r \<Rightarrow> bool) \<Rightarrow> ('r \<Rightarrow> 'c) \<Rightarrow> 'r list \<Rightarrow> bool" where
  "tells_apart p g rows \<longleftrightarrow> (\<forall>a \<in> set rows. \<forall>b \<in> set rows. p a \<longrightarrow> p b \<longrightarrow> g a = g b \<longrightarrow> a = b)"

lemma tells_apart_set_by:
  assumes "tells_apart p g rows" and "\<And>r. r \<in> set rows \<Longrightarrow> key r = k \<Longrightarrow> p (f r) \<Longrightarrow> p r \<and> g (f r) = g r"
  shows "tells_apart p g (set_by key k f rows)"
proof -
  have old: "\<exists>a \<in> set rows. x = (if key a = k then f a else a) \<and> p a \<and> g a = g x" if "x \<in> set (set_by key k f rows)" "p x" for x
    using that assms(2) unfolding set_by_def set_update_rows by (auto split: if_splits)
  show ?thesis
    unfolding tells_apart_def
  proof (intro ballI impI)
    fix x y
    assume h: "x \<in> set (set_by key k f rows)" "y \<in> set (set_by key k f rows)" "p x" "p y" "g x = g y"
    obtain a where a: "a \<in> set rows" "x = (if key a = k then f a else a)" "p a" "g a = g x" using old [OF h(1,3)] by blast
    obtain b where b: "b \<in> set rows" "y = (if key b = k then f b else b)" "p b" "g b = g y" using old [OF h(2,4)] by blast
    have "a = b" using assms(1) a b h(5) unfolding tells_apart_def by metis
    with a(2) b(2) show "x = y" by simp
  qed
qed

section \<open>A table of the database\<close>

locale table =
  fixes rows :: "'d \<Rightarrow> 'r list"
    and modify :: "('r list \<Rightarrow> 'r list) \<Rightarrow> 'd \<Rightarrow> 'd"
    and key :: "'r \<Rightarrow> string"
  assumes rows_modify: "rows (modify f d) = f (rows d)"
begin

lemma find_after_set:
  assumes "\<And>r. key (f r) = key r"
  shows "find_by key k (rows (modify (set_by key k' f) d)) =
     (if k = k' then map_option f (find_by key k (rows d)) else find_by key k (rows d))"
  using assms by (simp add: rows_modify row_simps)

lemma find_after_insert:
  assumes "key r \<notin> key ` set (rows d)"
  shows "find_by key k (rows (modify (\<lambda>rs. rs @ [r]) d)) =
     (if k = key r then Some r else find_by key k (rows d))"
  using assms by (auto simp: rows_modify row_simps find_by_None [symmetric] split: option.splits)

lemma keys_after_set:
  assumes "\<And>r. key (f r) = key r"
  shows "map key (rows (modify (set_by key k f) d)) = map key (rows d)"
  using assms by (simp add: rows_modify row_simps)

lemma distinct_after_insert:
  assumes "distinct (map key (rows d))" and "key r \<notin> key ` set (rows d)"
  shows "distinct (map key (rows (modify (\<lambda>rs. rs @ [r]) d)))"
  using assms by (simp add: rows_modify)

end

end
