(* ===== verification/Schema.thy ===== *)
theory Schema
  imports Table
begin

text \<open>
  The data model of \<open>packages/database/prisma/schema.prisma\<close>: its enums as datatypes, the models
  that the services below read or write as records (with the columns that these services use), and
  the database as a record of tables. Constructors and fields carry a short prefix, since the
  enums and the models share names.

  \<open>env\<close> holds what a handler takes from outside the repository: the clock, the stream of random
  UUIDs that \<open>randomUUID()\<close> and the \<open>uuid()\<close> defaults draw from (\<open>draws\<close> of the database counts the
  draws), SHA-256, and the formats that zod checks.
\<close>

section \<open>Enums\<close>

datatype user_role =
    ACADID_SUPER_ADMIN | REGISTRAR | EXAM_OFFICER | DATA_ENTRY_OFFICER | DEPARTMENTAL_OFFICER
  | READ_ONLY | STUDENT | GUARDIAN | VERIFIER

fun role_text :: "user_role \<Rightarrow> string" where
  "role_text ACADID_SUPER_ADMIN = ''ACADID_SUPER_ADMIN''"
| "role_text REGISTRAR = ''REGISTRAR''"
| "role_text EXAM_OFFICER = ''EXAM_OFFICER''"
| "role_text DATA_ENTRY_OFFICER = ''DATA_ENTRY_OFFICER''"
| "role_text DEPARTMENTAL_OFFICER = ''DEPARTMENTAL_OFFICER''"
| "role_text READ_ONLY = ''READ_ONLY''"
| "role_text STUDENT = ''STUDENT''"
| "role_text GUARDIAN = ''GUARDIAN''"
| "role_text VERIFIER = ''VERIFIER''"

datatype auth_kind = USER | API_KEY

datatype institution_status = Inst_ACTIVE | Inst_SUSPENDED
datatype grant_status = Grant_ACTIVE | Grant_SUSPENDED | Grant_TERMINATED
datatype member_status = Member_INVITED | Member_ACTIVE | Member_SUSPENDED | Member_DISABLED
datatype session_status = Session_DRAFT | Session_ACTIVE | Session_CLOSED | Session_SEALED
datatype reopen_status = Reopen_REQUESTED | Reopen_APPROVED | Reopen_REJECTED | Reopen_CANCELLED
datatype structure_status = Structure_ACTIVE | Structure_ARCHIVED

datatype structure_type =
    LEVEL | CLASS | ARM | STREAM | SUBJECT | FACULTY | DEPARTMENT | PROGRAMME | COURSE

datatype enrolment_status =
    En_ACTIVE | En_PENDING_ROLLOVER | En_PROMOTED | En_REPEATED | En_TRANSFERRED_OUT
  | En_WITHDRAWN | En_GRADUATED | En_SUSPENDED | En_SEALED | En_CLOSED

datatype exit_type = Exit_GRADUATE | Exit_TRANSFER | Exit_WITHDRAW

datatype record_status =
    Rec_DRAFT | Rec_SUBMITTED | Rec_REVIEWED | Rec_APPROVED | Rec_PUBLISHED | Rec_REJECTED
  | Rec_SEALED | Rec_AMENDED

datatype grading_status = Rule_DRAFT | Rule_ACTIVE | Rule_ARCHIVED
datatype upload_mode = SUBJECT_BY_SUBJECT | MASTER_SHEET | COURSE_BASED | MANUAL_ENTRY
datatype lead_status = Lead_NEW | Lead_CONTACTED | Lead_INVITED | Lead_CONVERTED | Lead_DISMISSED
datatype application_status = App_PENDING | App_APPROVED | App_REJECTED

datatype grading_engine = PRIMARY_SECONDARY | TERTIARY_GPA

datatype rollover_decision =
    PROMOTED | REPEATED | TRANSFERRED_OUT | WITHDRAWN | GRADUATED | SUSPENDED | SEALED

datatype access_request_status = Dev_PENDING | Dev_APPROVED | Dev_REJECTED | Dev_SUSPENDED
datatype rollover_status = Roll_PENDING | Roll_APPROVED | Roll_CANCELLED

datatype transfer_status =
    Tr_REQUESTED | Tr_IN_REVIEW | Tr_APPROVED | Tr_REJECTED | Tr_CANCELLED | Tr_COMPLETED
  | Tr_DISPUTED

datatype dispute_status = Disp_OPEN | Disp_RESOLVED | Disp_ESCALATED
datatype dispute_priority = Prio_LOW | Prio_NORMAL | Prio_HIGH | Prio_CRITICAL

datatype credential_type = TRANSCRIPT | RESULT_SLIP | CERTIFICATE
datatype credential_status = Cred_ACTIVE | Cred_SUSPENDED | Cred_REVOKED | Cred_SUPERSEDED | Cred_EXPIRED

datatype request_status =
    RR_SUBMITTED | RR_AWAITING_PAYMENT | RR_ASSIGNED | RR_INSTITUTION_REVIEW
  | RR_NEEDS_MORE_INFORMATION | RR_APPROVED | RR_REJECTED | RR_FULFILLED | RR_DISPUTED
  | RR_ESCALATED | RR_CANCELLED

datatype payment_status = Pay_NOT_REQUIRED | Pay_PENDING | Pay_PAID | Pay_WAIVED | Pay_REFUNDED
datatype escrow_status = Esc_NONE | Esc_HELD | Esc_RELEASED | Esc_REFUND_PENDING | Esc_REFUNDED

datatype revenue_category = VERIFICATION_FEE | CREDENTIAL_EXPORT_FEE | INSTITUTION_SUBSCRIPTION
datatype revenue_status = Rev_PENDING | Rev_BILLABLE | Rev_INVOICED | Rev_PAID | Rev_WAIVED | Rev_FAILED

datatype job_type =
    BULK_STUDENT_UPLOAD | RESULT_BATCH_VALIDATION | CREDENTIAL_GENERATION | PDF_GENERATION
  | SMS_EMAIL_DELIVERY | PAYSTACK_PAYMENT_CONFIRMATION | RECORD_REQUEST_DEADLINE
  | WEBHOOK_DELIVERY | PUSH_NOTIFICATION | LIVE_RESULTS_CALLBACK | EXAM_BODY_INGEST
  | RATE_LIMIT_BUCKET_CLEANUP | IDEMPOTENCY_RECORD_CLEANUP

datatype job_status = Job_QUEUED | Job_RUNNING | Job_RETRYING | Job_SUCCEEDED | Job_FAILED | Job_CANCELLED
datatype delivery_status =
    Dlv_PENDING | Dlv_DELIVERED | Dlv_RETRYING | Dlv_FAILED | Dlv_CANCELLED
datatype endpoint_status = Ep_ACTIVE | Ep_SUSPENDED | Ep_DISABLED
datatype notification_channel = PUSH | EMAIL | SMS | WEBHOOK
datatype notification_status = Ntf_PENDING | Ntf_SENT | Ntf_FAILED | Ntf_CANCELLED
datatype grant_scope = Scope_FULL | Scope_GPA | Scope_SEMESTER | Scope_SUBJECT
datatype verification_outcome = CONFIRMED | DENIED | DISCREPANCY | Out_REVOKED
datatype period_type = Period_TERM | Period_SEMESTER
datatype identity_status = Ident_VERIFIED | Ident_UNVERIFIED | Ident_PENDING_REVIEW
datatype api_key_owner = Owner_PRODUCT | Owner_INSTITUTION
datatype api_key_environment = SANDBOX | PRODUCTION
datatype api_key_status = Key_ACTIVE | Key_REVOKED | Key_EXPIRED
datatype heartbeat_status = Beat_ACTIVE | Beat_DRAINING | Beat_STOPPED
datatype idempotency_status = Idem_IN_PROGRESS | Idem_SUCCEEDED | Idem_FAILED

fun session_status_text :: "session_status \<Rightarrow> string" where
  "session_status_text Session_DRAFT = ''DRAFT''"
| "session_status_text Session_ACTIVE = ''ACTIVE''"
| "session_status_text Session_CLOSED = ''CLOSED''"
| "session_status_text Session_SEALED = ''SEALED''"

fun period_type_text :: "period_type \<Rightarrow> string" where
  "period_type_text Period_TERM = ''TERM''"
| "period_type_text Period_SEMESTER = ''SEMESTER''"

section \<open>The authenticated caller (\<open>AuthTokenPayload\<close>)\<close>

record auth_token =
  au_sub :: string
  au_role :: user_role
  au_kind :: "auth_kind option"
  au_institutionUuid :: "string option"
  au_institutionUserId :: "string option"
  au_assignedScopes :: jval
  au_apiKeyId :: "string option"
  au_clientId :: "string option"
  au_ownerIsProduct :: bool
  au_productCode :: "string option"
  au_institutionId :: "string option"
  au_rateLimitPerMinute :: "int option"
  au_email :: string
  au_fullName :: string
  au_learnerId :: "string option"
  au_permissions :: "string list"

section \<open>Rows\<close>

record institution =
  in_uuid :: string
  in_institutionId :: string
  in_officialName :: string
  in_type :: string
  in_institutionCategory :: string
  in_academicTemplateCode :: string
  in_state :: string
  in_tier :: string
  in_mouSignedAt :: "int option"
  in_status :: institution_status

record learner =
  le_uuid :: string
  le_ain :: string
  le_fullName :: string
  le_dateOfBirth :: int
  le_phone :: "string option"
  le_ninEncrypted :: "string option"
  le_jambId :: "string option"
  le_identityStatus :: identity_status

record user =
  us_uuid :: string
  us_email :: string
  us_passwordHash :: string
  us_fullName :: string
  us_phone :: "string option"
  us_role :: user_role
  us_learnerId :: "string option"
  us_mfaEnabled :: bool
  us_totpSecretEncrypted :: "string option"
  us_totpEnabledAt :: "int option"

record mfa_recovery_code =
  mr_uuid :: string
  mr_userId :: string
  mr_codeHash :: string
  mr_usedAt :: "int option"
  mr_createdAt :: int

record api_key_row =
  ak_uuid :: string
  ak_ownerType :: api_key_owner
  ak_institutionId :: "string option"
  ak_productCode :: "string option"
  ak_productName :: "string option"
  ak_clientId :: string
  ak_clientSecretHash :: string
  ak_label :: string
  ak_scopes :: "string list"
  ak_environment :: api_key_environment
  ak_status :: api_key_status
  ak_rateLimitPerMinute :: int
  ak_expiresAt :: "int option"
  ak_lastUsedAt :: "int option"
  ak_revokedAt :: "int option"
  ak_revokedReason :: "string option"
  ak_createdById :: "string option"

record authority_grant =
  ag_uuid :: string
  ag_institutionId :: string
  ag_mouDocumentUrl :: string
  ag_signedByName :: string
  ag_signedByTitle :: string
  ag_effectiveFrom :: int
  ag_expiresAt :: "int option"
  ag_permissions :: jval
  ag_status :: grant_status

record institution_user =
  iu_uuid :: string
  iu_userId :: string
  iu_institutionId :: string
  iu_role :: user_role
  iu_status :: member_status
  iu_assignedScopes :: jval
  iu_permissions :: "string list"
  iu_invitedById :: "string option"
  iu_inviteTokenHash :: "string option"
  iu_invitedAt :: "int option"
  iu_inviteExpiresAt :: "int option"
  iu_inviteAcceptedAt :: "int option"
  iu_lastLoginAt :: "int option"
  iu_suspendedAt :: "int option"
  iu_twoFactorRequired :: bool

record academic_session =
  se_uuid :: string
  se_institutionId :: string
  se_label :: string
  se_periodType :: period_type
  se_periodLabel :: string
  se_status :: session_status
  se_startDate :: "int option"
  se_endDate :: "int option"
  se_isCurrent :: bool
  se_createdById :: "string option"

record reopen_request =
  ro_uuid :: string
  ro_institutionId :: string
  ro_sessionId :: string
  ro_requestedById :: "string option"
  ro_status :: reopen_status
  ro_requestedStatus :: session_status
  ro_reason :: string
  ro_dueAt :: int
  ro_reviewedById :: "string option"
  ro_reviewReason :: "string option"
  ro_reviewedAt :: "int option"

record academic_structure =
  st_uuid :: string
  st_institutionId :: string
  st_parentId :: "string option"
  st_type :: structure_type
  st_name :: string
  st_code :: "string option"
  st_status :: structure_status
  st_creditUnits :: "int option"
  st_metadata :: jval
  st_createdById :: "string option"

record grading_rule_set =
  gr_uuid :: string
  gr_engine :: grading_engine
  gr_gradePointMax :: "rat option"
  gr_institutionId :: string
  gr_name :: string
  gr_status :: grading_status
  gr_scale :: jval
  gr_passMark :: "rat option"
  gr_maxScore :: rat
  gr_effectiveFrom :: "int option"
  gr_effectiveTo :: "int option"
  gr_createdById :: "string option"
  gr_updatedAt :: int

record enrolment =
  en_uuid :: string
  en_learnerId :: string
  en_institutionId :: string
  en_academicSessionId :: "string option"
  en_structureScopeId :: "string option"
  en_studentNumber :: string
  en_level :: string
  en_programme :: string
  en_entryDate :: int
  en_exitDate :: "int option"
  en_exitType :: "exit_type option"
  en_status :: enrolment_status

record result_batch =
  rb_uuid :: string
  rb_institutionId :: string
  rb_status :: record_status
  rb_rejectionCount :: int
  rb_submittedAt :: "int option"
  rb_reviewedAt :: "int option"
  rb_approvedAt :: "int option"
  rb_publishedAt :: "int option"
  rb_academicSessionId :: "string option"
  rb_structureScopeId :: "string option"
  rb_gradingRuleSetId :: "string option"
  rb_uploadMode :: upload_mode
  rb_title :: string
  rb_batchLabel :: "string option"
  rb_createdById :: string
  rb_createdByInstitutionUserId :: "string option"
  rb_recordCount :: nat
  rb_validationSummary :: jval

record academic_record =
  ar_uuid :: string
  ar_enrolmentId :: string
  ar_resultBatchId :: "string option"
  ar_academicSessionId :: "string option"
  ar_gradingRuleSetId :: "string option"
  ar_periodLabel :: string
  ar_subjectCode :: string
  ar_subjectName :: string
  ar_totalScore :: rat
  ar_grade :: string
  ar_gradePoint :: "rat option"
  ar_creditUnits :: "rat option"
  ar_qualityPoints :: "rat option"
  ar_status :: record_status
  ar_publishedAt :: "int option"
  ar_createdAt :: int
  ar_structureScopeId :: "string option"
  ar_periodType :: period_type
  ar_caScore :: "rat option"
  ar_examScore :: "rat option"

record academic_standing =
  sd_enrolmentId :: string
  sd_learnerId :: string
  sd_institutionId :: string
  sd_latestAcademicSessionId :: "string option"
  sd_latestPeriodLabel :: "string option"
  sd_attemptedCreditUnits :: rat
  sd_earnedCreditUnits :: rat
  sd_qualityPoints :: rat
  sd_cgpa :: "rat option"
  sd_gradePointMax :: rat
  sd_classification :: "string option"
  sd_classificationSystem :: string
  sd_includedRecordCount :: nat
  sd_periodCount :: nat
  sd_computedAt :: int

record rollover_record =
  rl_uuid :: string
  rl_institutionId :: string
  rl_learnerId :: string
  rl_enrolmentId :: "string option"
  rl_fromSessionId :: string
  rl_toSessionId :: "string option"
  rl_fromStructureId :: "string option"
  rl_toStructureId :: "string option"
  rl_decision :: rollover_decision
  rl_status :: rollover_status
  rl_reason :: "string option"
  rl_createdById :: "string option"
  rl_approvedById :: "string option"
  rl_approvedAt :: "int option"
  rl_disputeId :: "string option"
  rl_disputedAt :: "int option"
  rl_disputeResolutionNote :: "string option"

record transfer_request =
  tr_uuid :: string
  tr_transferId :: string
  tr_learnerId :: string
  tr_fromInstitutionId :: string
  tr_toInstitutionId :: "string option"
  tr_fromEnrolmentId :: "string option"
  tr_fromSessionId :: "string option"
  tr_fromStructureId :: "string option"
  tr_toInstitutionNameSubmitted :: "string option"
  tr_toInstitutionContactEmail :: "string option"
  tr_reason :: "string option"
  tr_status :: transfer_status
  tr_requestedById :: "string option"
  tr_requestedAt :: int
  tr_reviewedById :: "string option"
  tr_reviewedAt :: "int option"
  tr_completedAt :: "int option"
  tr_rejectedAt :: "int option"
  tr_cancelledAt :: "int option"
  tr_rolloverRecordId :: "string option"
  tr_disputeId :: "string option"
  tr_notes :: jval

record dispute =
  di_uuid :: string
  di_title :: string
  di_description :: string
  di_category :: string
  di_priority :: dispute_priority
  di_status :: dispute_status
  di_institutionId :: "string option"
  di_learnerId :: "string option"
  di_reporterName :: "string option"
  di_reporterEmail :: "string option"
  di_resolvedAt :: "int option"
  di_resolutionNote :: "string option"

record credential =
  cr_uuid :: string
  cr_credentialRef :: string
  cr_learnerId :: string
  cr_institutionId :: string
  cr_academicRecordId :: "string option"
  cr_recordRequestId :: "string option"
  cr_type :: credential_type
  cr_scope :: jval
  cr_vcPayload :: jval
  cr_signature :: string
  cr_status :: credential_status
  cr_issuedAt :: int
  cr_revokedAt :: "int option"
  cr_revocationReason :: "string option"

record access_grant =
  xg_uuid :: string
  xg_learnerId :: string
  xg_credentialId :: string
  xg_tokenHash :: string
  xg_scope :: grant_scope
  xg_recipientLabel :: string
  xg_expiresAt :: "int option"
  xg_revokedAt :: "int option"
  xg_maxViews :: "int option"
  xg_viewCount :: int
  xg_createdAt :: int

record verification_event =
  ve_uuid :: string
  ve_credentialId :: string
  ve_accessGrantId :: "string option"
  ve_verifierType :: string
  ve_verifierName :: "string option"
  ve_verifierEmailEncrypted :: "string option"
  ve_ipAddressHash :: "string option"
  ve_outcome :: verification_outcome
  ve_scopeViewed :: jval
  ve_verifiedAt :: int

record record_request =
  rr_uuid :: string
  rr_requestId :: string
  rr_learnerId :: "string option"
  rr_institutionId :: "string option"
  rr_educationLevel :: string
  rr_yearsAttendedFrom :: "int option"
  rr_yearsAttendedTo :: "int option"
  rr_studentNumber :: "string option"
  rr_departmentOrClass :: "string option"
  rr_recordTypesRequested :: "string list"
  rr_status :: request_status
  rr_paymentStatus :: payment_status
  rr_escrowStatus :: escrow_status
  rr_paymentReference :: "string option"
  rr_paymentProvider :: "string option"
  rr_amountMinor :: "int option"
  rr_currency :: string
  rr_paymentHeldAt :: "int option"
  rr_paymentReleasedAt :: "int option"
  rr_refundRequestedAt :: "int option"
  rr_assignedToId :: "string option"
  rr_assignedAt :: "int option"
  rr_fulfilledCredentialId :: "string option"
  rr_rejectionReason :: "string option"
  rr_rejectedAt :: "int option"
  rr_escalationReason :: "string option"
  rr_escalatedAt :: "int option"
  rr_resolutionNote :: "string option"
  rr_fulfilledAt :: "int option"
  rr_notes :: jval
  rr_institutionNameSubmitted :: string
  rr_proofDocumentUrls :: "string list"
  rr_requesterName :: "string option"
  rr_requesterEmail :: "string option"

record invitation_lead =
  il_uuid :: string
  il_institutionName :: string
  il_institutionNameKey :: string
  il_educationLevel :: "string option"
  il_demandCount :: int
  il_requesterCount :: int
  il_latestRecordRequestId :: "string option"
  il_latestRecordRequestCode :: "string option"
  il_recordRequestIds :: "string list"
  il_status :: lead_status
  il_lastRequestedAt :: int
  il_metadata :: jval

record institution_application =
  ap_uuid :: string
  ap_officialName :: string
  ap_type :: string
  ap_institutionCategory :: string
  ap_academicTemplateCode :: string
  ap_state :: string
  ap_address :: string
  ap_contactPersonName :: string
  ap_contactEmail :: string
  ap_studentVolume :: int
  ap_documentUploads :: jval
  ap_mouAcceptedAt :: "int option"
  ap_status :: application_status
  ap_reviewFeedback :: "string option"
  ap_reviewedById :: "string option"
  ap_reviewedAt :: "int option"
  ap_approvedInstitutionId :: "string option"
  ap_createdAt :: int

record developer_access_request =
  dv_uuid :: string
  dv_institutionId :: string
  dv_requestedById :: "string option"
  dv_developerName :: string
  dv_developerEmail :: string
  dv_developerPhone :: "string option"
  dv_reason :: string
  dv_requestedScopes :: "string list"
  dv_status :: access_request_status
  dv_reviewFeedback :: "string option"
  dv_reviewedById :: "string option"
  dv_reviewedAt :: "int option"
  dv_approvedAt :: "int option"
  dv_suspendedAt :: "int option"
  dv_createdAt :: int

record revenue_entry =
  rv_uuid :: string
  rv_category :: revenue_category
  rv_status :: revenue_status
  rv_amountMinor :: int
  rv_currency :: string
  rv_institutionId :: "string option"
  rv_credentialId :: "string option"
  rv_sourceType :: string
  rv_sourceId :: "string option"
  rv_description :: string
  rv_paidAt :: "int option"
  rv_metadata :: jval
  rv_verificationEventId :: "string option"

record audit_event =
  ae_requestId :: "string option"
  ae_actorType :: "string option"
  ae_actorUserId :: "string option"
  ae_clientId :: "string option"
  ae_actorId :: "string option"
  ae_actorRole :: "string option"
  ae_institutionId :: "string option"
  ae_role :: "string option"
  ae_endpoint :: "string option"
  ae_httpMethod :: "string option"
  ae_action :: string
  ae_targetType :: string
  ae_targetId :: "string option"
  ae_entityType :: "string option"
  ae_entityId :: "string option"
  ae_outcome :: string
  ae_reason :: "string option"
  ae_ipAddressHash :: "string option"
  ae_userAgentHash :: "string option"
  ae_metadata :: jval

record background_job =
  bj_uuid :: string
  bj_type :: job_type
  bj_queue :: string
  bj_status :: job_status
  bj_institutionId :: "string option"
  bj_createdById :: "string option"
  bj_relatedEntityType :: "string option"
  bj_relatedEntityId :: "string option"
  bj_priority :: int
  bj_payload :: jval
  bj_result :: jval
  bj_error :: "string option"
  bj_progress :: int
  bj_attempts :: int
  bj_maxAttempts :: int
  bj_runAfter :: int
  bj_lockedAt :: "int option"
  bj_lockedBy :: "string option"
  bj_startedAt :: "int option"
  bj_completedAt :: "int option"
  bj_failedAt :: "int option"
  bj_createdAt :: int

record domain_event =
  de_uuid :: string
  de_type :: string
  de_aggregateType :: string
  de_aggregateId :: string
  de_institutionId :: "string option"
  de_jobId :: "string option"
  de_payload :: jval

record webhook_endpoint =
  we_uuid :: string
  we_status :: endpoint_status
  we_secretEncrypted :: string

record webhook_delivery =
  wd_uuid :: string
  wd_jobId :: "string option"
  wd_eventId :: "string option"
  wd_institutionId :: "string option"
  wd_webhookEndpointId :: "string option"
  wd_targetUrl :: string
  wd_eventType :: string
  wd_payload :: jval
  wd_status :: delivery_status
  wd_attempts :: int
  wd_nextAttemptAt :: int
  wd_lastStatusCode :: "int option"
  wd_lastError :: "string option"
  wd_deliveredAt :: "int option"
  wd_createdAt :: int

record notification =
  nt_uuid :: string
  nt_jobId :: "string option"
  nt_institutionId :: "string option"
  nt_learnerId :: "string option"
  nt_userId :: "string option"
  nt_channel :: notification_channel
  nt_type :: string
  nt_title :: string
  nt_body :: string
  nt_payload :: jval
  nt_status :: notification_status
  nt_sentAt :: "int option"
  nt_failedAt :: "int option"
  nt_error :: "string option"

record worker_heartbeat =
  wh_workerId :: string
  wh_hostname :: "string option"
  wh_processId :: "int option"
  wh_queues :: "string list"
  wh_status :: heartbeat_status
  wh_concurrency :: int
  wh_currentJobId :: "string option"
  wh_currentQueue :: "string option"
  wh_lastStartedAt :: "int option"
  wh_lastSeenAt :: int
  wh_metadata :: jval

record idempotency_record =
  ir_uuid :: string
  ir_scope :: string
  ir_keyHash :: string
  ir_requestHash :: string
  ir_operation :: string
  ir_status :: idempotency_status
  ir_actorType :: "string option"
  ir_actorUserId :: "string option"
  ir_clientId :: "string option"
  ir_institutionId :: "string option"
  ir_jobId :: "string option"
  ir_response :: "jval option"
  ir_error :: "string option"
  ir_expiresAt :: int

record rate_bucket =
  rt_scope :: string
  rt_keyHash :: string
  rt_windowStart :: int
  rt_windowSeconds :: int
  rt_count :: int
  rt_limit :: int
  rt_firstRequestAt :: int
  rt_lastRequestAt :: int

section \<open>The database and the environment\<close>

record db =
  draws :: nat
  institutions :: "institution list"
  learners :: "learner list"
  authorityGrants :: "authority_grant list"
  institutionUsers :: "institution_user list"
  academicSessions :: "academic_session list"
  reopenRequests :: "reopen_request list"
  academicStructures :: "academic_structure list"
  gradingRuleSets :: "grading_rule_set list"
  enrolments :: "enrolment list"
  resultBatches :: "result_batch list"
  academicRecords :: "academic_record list"
  academicStandings :: "academic_standing list"
  rolloverRecords :: "rollover_record list"
  transferRequests :: "transfer_request list"
  disputes :: "dispute list"
  credentials :: "credential list"
  recordRequests :: "record_request list"
  revenueEntries :: "revenue_entry list"
  auditEvents :: "audit_event list"
  backgroundJobs :: "background_job list"
  domainEvents :: "domain_event list"
  webhookEndpoints :: "webhook_endpoint list"
  webhookDeliveries :: "webhook_delivery list"
  notifications :: "notification list"
  idempotencyRecords :: "idempotency_record list"
  rateLimitBuckets :: "rate_bucket list"
  rateLimitSetting :: "jval option"
  users :: "user list"
  mfaRecoveryCodes :: "mfa_recovery_code list"
  apiKeys :: "api_key_row list"
  accessGrants :: "access_grant list"
  verificationEvents :: "verification_event list"
  workerHeartbeats :: "worker_heartbeat list"
  invitationLeads :: "invitation_lead list"
  institutionApplications :: "institution_application list"
  developerAccessRequests :: "developer_access_request list"

record env =
  now :: int
  gen :: "nat \<Rightarrow> string"
  sha256 :: "string \<Rightarrow> string"
  zod_uuid :: "string \<Rightarrow> bool"
  zod_email :: "string \<Rightarrow> bool"
  Date_parse :: "string \<Rightarrow> int option" \<comment> \<open>\<open>new Date(text)\<close>, \<open>None\<close> when the date is invalid\<close>
  zod_datetime :: "string \<Rightarrow> int option" \<comment> \<open>the instant of an accepted \<open>datetime()\<close> string\<close>

definition empty_db :: db where
  "empty_db = \<lparr>draws = 0, institutions = [], learners = [], authorityGrants = [],
     institutionUsers = [], academicSessions = [], reopenRequests = [], academicStructures = [],
     gradingRuleSets = [], enrolments = [], resultBatches = [], academicRecords = [],
     academicStandings = [], rolloverRecords = [], transferRequests = [], disputes = [],
     credentials = [], recordRequests = [], revenueEntries = [], auditEvents = [],
     backgroundJobs = [], domainEvents = [], webhookEndpoints = [], webhookDeliveries = [],
     notifications = [], idempotencyRecords = [], rateLimitBuckets = [], rateLimitSetting = None, users = [],
     mfaRecoveryCodes = [], apiKeys = [], accessGrants = [], verificationEvents = [], workerHeartbeats = [],
     invitationLeads = [], institutionApplications = [], developerAccessRequests = []\<rparr>"

text \<open>The next random UUID.\<close>

definition fresh :: "env \<Rightarrow> db \<Rightarrow> string" where
  "fresh e d = gen e (draws d)"

definition drawn :: "db \<Rightarrow> db" where
  "drawn d = d\<lparr>draws := Suc (draws d)\<rparr>"

section \<open>The tables\<close>

interpretation batch_tab: table resultBatches resultBatches_update rb_uuid
  by unfold_locales simp

interpretation record_tab: table academicRecords academicRecords_update ar_uuid
  by unfold_locales simp

interpretation enrolment_tab: table enrolments enrolments_update en_uuid
  by unfold_locales simp

interpretation session_tab: table academicSessions academicSessions_update se_uuid
  by unfold_locales simp

interpretation transfer_tab: table transferRequests transferRequests_update tr_uuid
  by unfold_locales simp

interpretation job_tab: table backgroundJobs backgroundJobs_update bj_uuid
  by unfold_locales simp

interpretation delivery_tab: table webhookDeliveries webhookDeliveries_update wd_uuid
  by unfold_locales simp

interpretation notification_tab: table notifications notifications_update nt_uuid
  by unfold_locales simp

interpretation dispute_tab: table disputes disputes_update di_uuid
  by unfold_locales simp

interpretation reopen_tab: table reopenRequests reopenRequests_update ro_uuid
  by unfold_locales simp

interpretation request_tab: table recordRequests recordRequests_update rr_uuid
  by unfold_locales simp

end
