(* ===== verification/Authority.thy ===== *)
theory Authority
  imports Schema
begin

text \<open>
  \<open>platform/services/authority.service.ts\<close>: who may act for which institution. The service reads
  the database and writes nothing, so its operations return \<open>unit res\<close> or a value; an error is
  the exception the handler throws. \<open>may_operate\<close> is the contract that the governance handlers
  rely on, stated as the locale \<open>institution_guard\<close> and interpreted on the service's model.
\<close>

section \<open>Permissions of an authority grant\<close>

definition permissionAllows :: "jval \<Rightarrow> string \<Rightarrow> bool" where
  "permissionAllows permissions permission =
     (case permissions of
        JObj record \<Rightarrow>
          (if getProp record ''all'' = JBool True \<or> getProp record permission = JBool True then True
           else
             (case (case getProp record ''allowed'' of
                      JUndef \<Rightarrow> getProp record ''permissions''
                    | JNull \<Rightarrow> getProp record ''permissions''
                    | v \<Rightarrow> v) of
                JArr allowed \<Rightarrow> JStr permission \<in> set allowed
              | _ \<Rightarrow> False))
      | _ \<Rightarrow> False)"

definition version_digit :: "char \<Rightarrow> bool" where
  "version_digit c \<longleftrightarrow> c \<in> set ''12345''"

definition variant_digit :: "char \<Rightarrow> bool" where
  "variant_digit c \<longleftrightarrow> c \<in> set ''89abAB''"

definition uuidPattern :: "string \<Rightarrow> bool" where
  "uuidPattern = matches (replicate 8 is_hex @ [dash] @ replicate 4 is_hex @ [dash] @
     [version_digit] @ replicate 3 is_hex @ [dash] @ [variant_digit] @ replicate 3 is_hex @
     [dash] @ replicate 12 is_hex)"

definition institutionWhere :: "string \<Rightarrow> institution \<Rightarrow> bool" where
  "institutionWhere ref i \<longleftrightarrow> in_institutionId i = ref \<or> (uuidPattern ref \<and> in_uuid i = ref)"

section \<open>Acting for an institution\<close>

text \<open>The relation filter \<open>institution: { status: "ACTIVE" }\<close>.\<close>

definition active_institution :: "db \<Rightarrow> string \<Rightarrow> bool" where
  "active_institution d i =
     (case find_by in_uuid i (institutions d) of None \<Rightarrow> False | Some r \<Rightarrow> in_status r = Inst_ACTIVE)"

definition membershipFilter :: "db \<Rightarrow> auth_token \<Rightarrow> string \<Rightarrow> institution_user \<Rightarrow> bool" where
  "membershipFilter d actor institutionId m \<longleftrightarrow>
     iu_userId m = au_sub actor \<and> iu_institutionId m = institutionId \<and>
     iu_role m = au_role actor \<and> iu_status m = Member_ACTIVE \<and>
     active_institution d (iu_institutionId m)"

definition assertActorCanOperateInstitution :: "db \<Rightarrow> auth_token \<Rightarrow> string \<Rightarrow> unit res" where
  "assertActorCanOperateInstitution d actor institutionId =
     (if au_role actor = ACADID_SUPER_ADMIN then Inr ()
      else if au_kind actor = Some API_KEY then
        (if au_institutionUuid actor = Some institutionId then Inr ()
         else Inl (Forbidden ''API key is not assigned to this institution.''))
      else
        (case List.find (\<lambda>m. (truthy_text (au_institutionUserId actor) \<longrightarrow>
                               au_institutionUserId actor = Some (iu_uuid m)) \<and>
                             membershipFilter d actor institutionId m) (institutionUsers d) of
           None \<Rightarrow> Inl (Forbidden ''User is not assigned to this institution.'')
         | Some m \<Rightarrow> Inr ()))"

record institution_authority =
  ia_institutionUuid :: string
  ia_institutionId :: string
  ia_authorityGrantId :: string

definition grantInForce :: "int \<Rightarrow> string \<Rightarrow> authority_grant \<Rightarrow> bool" where
  "grantInForce t permission g \<longleftrightarrow>
     ag_effectiveFrom g \<le> t \<and>
     (case ag_expiresAt g of None \<Rightarrow> True | Some x \<Rightarrow> x > t) \<and>
     permissionAllows (ag_permissions g) permission"

definition assertInstitutionCan ::
    "env \<Rightarrow> db \<Rightarrow> string \<Rightarrow> string \<Rightarrow> auth_token option \<Rightarrow> institution_authority res" where
  "assertInstitutionCan e d institutionRef permission actor =
     bindE (require (List.find (institutionWhere institutionRef) (institutions d))
              (BadRequest ''Institution not found.'')) (\<lambda>institution.
     bindE (failIf (in_status institution \<noteq> Inst_ACTIVE)
              (BadRequest ''Institution is suspended.'')) (\<lambda>_.
     bindE (case actor of None \<Rightarrow> Inr ()
            | Some a \<Rightarrow> assertActorCanOperateInstitution d a (in_uuid institution)) (\<lambda>_.
     bindE (require
              (List.find (grantInForce (now e) permission)
                 (sort_key (\<lambda>g. - ag_effectiveFrom g)
                    (filter (\<lambda>g. ag_institutionId g = in_uuid institution \<and> ag_status g = Grant_ACTIVE)
                       (authorityGrants d))))
              (BadRequest (''Institution does not have authority to '' @ permission @ ''.''))) (\<lambda>grant.
     Inr \<lparr>ia_institutionUuid = in_uuid institution, ia_institutionId = in_institutionId institution,
          ia_authorityGrantId = ag_uuid grant\<rparr>))))"

section \<open>The institutions of an actor\<close>

definition institutionIdsForActor :: "db \<Rightarrow> auth_token \<Rightarrow> string list option" where
  "institutionIdsForActor d actor =
     (if au_role actor = ACADID_SUPER_ADMIN then None
      else if au_kind actor = Some API_KEY then
        Some (case au_institutionUuid actor of None \<Rightarrow> [] | Some i \<Rightarrow> (if i = [] then [] else [i]))
      else Some (map iu_institutionId
        (filter (\<lambda>m. iu_userId m = au_sub actor \<and> iu_role m = au_role actor \<and>
                     iu_status m = Member_ACTIVE \<and> active_institution d (iu_institutionId m))
           (institutionUsers d))))"

datatype workspace_scope = PLATFORM | INSTITUTION "string list" "string option"

definition workspaceScopeForActor :: "db \<Rightarrow> auth_token \<Rightarrow> workspace_scope" where
  "workspaceScopeForActor d actor =
     (if au_role actor = ACADID_SUPER_ADMIN then PLATFORM
      else let ids = getOr (institutionIdsForActor d actor) []
           in INSTITUTION ids (case ids of [] \<Rightarrow> None | i # _ \<Rightarrow> Some i))"

text \<open>\<open>{ [institutionField]: { in: ids } }\<close>, or no filter at all for the platform.\<close>

definition institutionWhereForActor :: "db \<Rightarrow> auth_token \<Rightarrow> string option \<Rightarrow> bool" where
  "institutionWhereForActor d actor field =
     (case institutionIdsForActor d actor of
        None \<Rightarrow> True
      | Some ids \<Rightarrow> (case field of None \<Rightarrow> False | Some i \<Rightarrow> i \<in> set ids))"

section \<open>Assigned academic scopes\<close>

type_synonym scope_target = "(string \<times> string option) list"

definition normaliseAssignedScopes :: "jval \<Rightarrow> (string \<times> jval) list list" where
  "normaliseAssignedScopes value =
     (case value of
        JArr xs \<Rightarrow> List.map_filter (\<lambda>x. case x of JObj ob \<Rightarrow> Some ob | _ \<Rightarrow> None) xs
      | _ \<Rightarrow> [])"

definition normaliseScopeKey :: "string \<Rightarrow> string" where
  "normaliseScopeKey key =
     toLowerCase (concat (map (\<lambda>c. if 65 \<le> (of_char c :: nat) \<and> (of_char c :: nat) \<le> 90
                                   then [CHR ''_'', lower_char c] else [c]) key))"

definition normaliseScopeValue :: "jval \<Rightarrow> string" where
  "normaliseScopeValue value = toLowerCase (trim (String_of value))"

definition scopeMatchesTarget :: "(string \<times> jval) list \<Rightarrow> scope_target \<Rightarrow> bool" where
  "scopeMatchesTarget scope target =
     (let entries = filter (\<lambda>(k, v). v \<noteq> JUndef \<and> v \<noteq> JNull \<and> trim (String_of v) \<noteq> []) scope
      in entries \<noteq> [] \<and>
         list_all (\<lambda>(k, v).
           case map_of target (normaliseScopeKey k) of
             Some (Some expected) \<Rightarrow> toLowerCase (trim expected) = normaliseScopeValue v
           | _ \<Rightarrow> False) entries)"

fun type_key :: "structure_type \<Rightarrow> string" where
  "type_key LEVEL = ''level''"
| "type_key CLASS = ''class''"
| "type_key ARM = ''arm''"
| "type_key STREAM = ''stream''"
| "type_key SUBJECT = ''subject''"
| "type_key FACULTY = ''faculty''"
| "type_key DEPARTMENT = ''department''"
| "type_key PROGRAMME = ''programme''"
| "type_key COURSE = ''course''"

definition put_if :: "bool \<Rightarrow> string \<Rightarrow> string option \<Rightarrow> scope_target \<Rightarrow> scope_target" where
  "put_if c k v target = (if c then set_prop k v target else target)"

definition addNode :: "academic_structure \<Rightarrow> scope_target \<Rightarrow> scope_target" where
  "addNode node target =
     (let typeKey = type_key (st_type node);
          code = truthy_text (st_code node)
      in put_if (st_type node = ARM) ''class_arm'' (Some (st_name node))
        (put_if (st_type node = SUBJECT \<and> code) ''subject_code'' (st_code node)
        (put_if (st_type node = SUBJECT) ''subject'' (Some (st_name node))
        (put_if (st_type node = COURSE \<and> code) ''course_code'' (st_code node)
        (put_if code (typeKey @ ''_code'') (st_code node)
        (set_prop (typeKey @ ''_id'') (Some (st_uuid node))
        (set_prop typeKey (Some (st_name node)) target)))))))"

text \<open>The walk up the parents. It stops at the root or at a node it has seen; the nodes not yet
  seen are fewer at every step.\<close>

function structureWalk ::
    "academic_structure list \<Rightarrow> string \<Rightarrow> string option \<Rightarrow> string list \<Rightarrow> scope_target \<Rightarrow> scope_target res" where
  "structureWalk structures institutionId currentId visited target =
     (case currentId of
        None \<Rightarrow> Inr target
      | Some c \<Rightarrow>
          (if c = [] \<or> c \<in> set visited then Inr target
           else
             (case find_by st_uuid c structures of
                None \<Rightarrow> Inl (Forbidden ''Academic scope is outside this institution.'')
              | Some node \<Rightarrow>
                  (if st_institutionId node \<noteq> institutionId
                   then Inl (Forbidden ''Academic scope is outside this institution.'')
                   else structureWalk structures institutionId (st_parentId node) (c # visited)
                          (addNode node target)))))"
  by pat_completeness auto
termination
proof (relation "measure (\<lambda>(structures, i, c, visited, t). card (st_uuid ` set structures - set visited))")
  fix structures :: "academic_structure list" and institutionId :: string
    and currentId :: "string option" and visited :: "string list" and target :: scope_target and c node
  assume "\<not> (c = [] \<or> c \<in> set visited)" and found: "find_by st_uuid c structures = Some node"
  then have "c \<in> st_uuid ` set structures - set visited"
    using find_by_Some [OF found] by auto
  then have "card (st_uuid ` set structures - set (c # visited))
      < card (st_uuid ` set structures - set visited)"
    by (intro psubset_card_mono) auto
  then show "((structures, institutionId, st_parentId node, c # visited, addNode node target),
      structures, institutionId, currentId, visited, target)
      \<in> measure (\<lambda>(structures, i, c, visited, t). card (st_uuid ` set structures - set visited))"
    by simp
qed auto

declare structureWalk.simps [simp del]

definition academicStructureScopeTarget :: "db \<Rightarrow> string \<Rightarrow> string \<Rightarrow> scope_target res" where
  "academicStructureScopeTarget d institutionId structureScopeId =
     structureWalk (academicStructures d) institutionId (Some structureScopeId) []
       [(''structure_scope_id'', Some structureScopeId), (''structureScopeId'', Some structureScopeId)]"

definition assignedScopesForActor :: "db \<Rightarrow> auth_token \<Rightarrow> string \<Rightarrow> (string \<times> jval) list list" where
  "assignedScopesForActor d actor institutionId =
     (let tokenScopes = normaliseAssignedScopes (au_assignedScopes actor)
      in if tokenScopes \<noteq> [] then tokenScopes
         else if \<not> truthy_text (au_institutionUserId actor) then []
         else
           (case List.find (\<lambda>m. au_institutionUserId actor = Some (iu_uuid m) \<and>
                                membershipFilter d actor institutionId m) (institutionUsers d) of
              None \<Rightarrow> []
            | Some m \<Rightarrow> normaliseAssignedScopes (iu_assignedScopes m)))"

definition assertActorAssignedScope ::
    "db \<Rightarrow> auth_token \<Rightarrow> string \<Rightarrow> string option \<Rightarrow> scope_target option \<Rightarrow> unit res" where
  "assertActorAssignedScope d actor institutionId structureScopeId inputTarget =
     bindE (assertActorCanOperateInstitution d actor institutionId) (\<lambda>_.
     if au_role actor = ACADID_SUPER_ADMIN \<or> au_role actor = REGISTRAR \<or> au_kind actor = Some API_KEY
     then Inr ()
     else
       (let assigned = assignedScopesForActor d actor institutionId;
            denied = Forbidden ''User is not assigned to this academic scope.''
        in bindE (failIf (assigned = []) denied) (\<lambda>_.
           bindE (case structureScopeId of
                    None \<Rightarrow> Inr []
                  | Some s \<Rightarrow> (if s = [] then Inr [] else academicStructureScopeTarget d institutionId s))
             (\<lambda>structureTarget.
           let target = fold (\<lambda>(k, v). set_prop k v) structureTarget (getOr inputTarget [])
           in if target = [] then Inr ()
              else failIf (\<not> list_ex (\<lambda>scope. scopeMatchesTarget scope target) assigned) denied))))"

section \<open>The contract of the guard\<close>

definition may_operate :: "db \<Rightarrow> auth_token \<Rightarrow> string \<Rightarrow> bool" where
  "may_operate d a i \<longleftrightarrow>
     au_role a = ACADID_SUPER_ADMIN \<or>
     (if au_kind a = Some API_KEY then au_institutionUuid a = Some i
      else active_institution d i \<and>
        (\<exists>m \<in> set (institutionUsers d).
           iu_userId m = au_sub a \<and> iu_institutionId m = i \<and> iu_role m = au_role a \<and>
           iu_status m = Member_ACTIVE \<and>
           (truthy_text (au_institutionUserId a) \<longrightarrow> au_institutionUserId a = Some (iu_uuid m))))"

lemma may_operate_cong:
  assumes "institutions d' = institutions d" and "institutionUsers d' = institutionUsers d"
  shows "may_operate d' a i \<longleftrightarrow> may_operate d a i"
  unfolding may_operate_def active_institution_def assms ..

lemma find_case_unit:
  "(case List.find P xs of None \<Rightarrow> Inl e | Some m \<Rightarrow> Inr ()) = Inr () \<longleftrightarrow> (\<exists>x \<in> set xs. P x)"
proof (cases "List.find P xs")
  case None
  then show ?thesis using find_None_iff' [of P xs] by simp
next
  case (Some x)
  from Some find_Some_in [OF Some] show ?thesis by auto
qed

text \<open>The guard lets an actor through exactly when \<open>may_operate\<close> says so: the founder always, an
  API key for its own institution only, and a person only through an active membership with the
  token's role in an active institution (and, when the token names a membership, that one).\<close>

theorem assertActor_iff:
  "assertActorCanOperateInstitution d a i = Inr () \<longleftrightarrow> may_operate d a i"
  by (auto simp: assertActorCanOperateInstitution_def may_operate_def membershipFilter_def
      find_case_unit)

text \<open>What a handler may conclude once the guard has passed. The guard's model provides it.\<close>

locale institution_guard =
  fixes guard :: "db \<Rightarrow> auth_token \<Rightarrow> string \<Rightarrow> unit res"
    and allowed :: "db \<Rightarrow> auth_token \<Rightarrow> string \<Rightarrow> bool"
  assumes guard_sound: "guard d a i = Inr u \<Longrightarrow> allowed d a i"
    and guard_complete: "allowed d a i \<Longrightarrow> guard d a i = Inr ()"
    and guard_denies: "\<not> allowed d a i \<Longrightarrow> \<exists>m. guard d a i = Inl (Forbidden m)"
begin

lemma guarded: "bindE (guard d a i) f = Inr y \<longleftrightarrow> allowed d a i \<and> f () = Inr y"
  using guard_sound guard_complete by (auto simp: bindE_eq_Inr)

lemma denied: "\<not> allowed d a i \<Longrightarrow> \<exists>m. bindE (guard d a i) f = Inl (Forbidden m)"
  using guard_denies by fastforce

lemma let_through: "allowed d a i \<Longrightarrow> bindE (guard d a i) f = f ()"
  using guard_complete by simp

end

lemma assertActor_sound:
  "assertActorCanOperateInstitution d a i = Inr u \<Longrightarrow> may_operate d a i"
  by (cases u) (auto simp: assertActorCanOperateInstitution_def may_operate_def membershipFilter_def
      split: if_splits option.splits dest!: find_Some_in)

lemma assertActor_complete:
  "may_operate d a i \<Longrightarrow> assertActorCanOperateInstitution d a i = Inr ()"
  by (auto simp: assertActorCanOperateInstitution_def may_operate_def membershipFilter_def
      find_case_unit split: if_splits)

lemma assertActor_denies:
  assumes "\<not> may_operate d a i"
  shows "\<exists>m. assertActorCanOperateInstitution d a i = Inl (Forbidden m)"
proof -
  have "assertActorCanOperateInstitution d a i \<noteq> Inr ()"
    using assms assertActor_sound by blast
  then show ?thesis
    by (auto simp: assertActorCanOperateInstitution_def split: if_splits option.splits)
qed

interpretation guard: institution_guard assertActorCanOperateInstitution may_operate
  by unfold_locales (auto intro: assertActor_sound assertActor_complete assertActor_denies)

text \<open>A person of a suspended institution can do nothing there.\<close>

lemma suspended_not_operable:
  assumes "au_role a \<noteq> ACADID_SUPER_ADMIN" and "au_kind a \<noteq> Some API_KEY"
    and "\<not> active_institution d i"
  shows "\<not> may_operate d a i"
  using assms by (simp add: may_operate_def)

section \<open>Authority grants\<close>

lemma assertInstitutionCan_helper:
  assumes "assertInstitutionCan e d ref permission (Some a) = Inr ok"
  shows "\<exists>i \<in> set (institutions d). \<exists>g \<in> set (authorityGrants d).
     institutionWhere ref i \<and> in_status i = Inst_ACTIVE \<and> may_operate d a (in_uuid i) \<and>
     ag_institutionId g = in_uuid i \<and> ag_status g = Grant_ACTIVE \<and>
     grantInForce (now e) permission g"
  using assms assertActor_sound
  by (fastforce simp: assertInstitutionCan_def err_simps dest!: find_Some_in)

text \<open>An institution may do something only while it is active and only under one of its own grants
  that is active, has started, has not expired and names the permission; and a named actor must be
  allowed to act for it.\<close>

theorem assertInstitutionCan_sound:
  assumes "assertInstitutionCan e d ref permission actor = Inr ok"
  shows "\<exists>i \<in> set (institutions d). \<exists>g \<in> set (authorityGrants d).
     institutionWhere ref i \<and> in_status i = Inst_ACTIVE \<and>
     (\<forall>a. actor = Some a \<longrightarrow> may_operate d a (in_uuid i)) \<and>
     ag_institutionId g = in_uuid i \<and> ag_status g = Grant_ACTIVE \<and>
     grantInForce (now e) permission g \<and>
     ok = \<lparr>ia_institutionUuid = in_uuid i, ia_institutionId = in_institutionId i,
           ia_authorityGrantId = ag_uuid g\<rparr>"
proof -
  let ?mine = "\<lambda>i. filter (\<lambda>g. ag_institutionId g = in_uuid i \<and> ag_status g = Grant_ACTIVE)
      (authorityGrants d)"
  obtain i g where i: "List.find (institutionWhere ref) (institutions d) = Some i"
    and active: "in_status i = Inst_ACTIVE"
    and actor: "(case actor of None \<Rightarrow> Inr ()
        | Some a \<Rightarrow> assertActorCanOperateInstitution d a (in_uuid i)) = Inr ()"
    and g: "List.find (grantInForce (now e) permission)
        (sort_key (\<lambda>g. - ag_effectiveFrom g) (?mine i)) = Some g"
    and ok: "ok = \<lparr>ia_institutionUuid = in_uuid i, ia_institutionId = in_institutionId i,
        ia_authorityGrantId = ag_uuid g\<rparr>"
    using assms by (auto simp: assertInstitutionCan_def err_simps)
  have "\<forall>a. actor = Some a \<longrightarrow> may_operate d a (in_uuid i)"
    using actor assertActor_sound by auto
  with find_Some_in [OF i] active find_Some_in [OF g] ok show ?thesis by auto
qed

text \<open>The guard reads three tables only.\<close>

lemma assertActor_cong:
  assumes "institutions d' = institutions d" and "institutionUsers d' = institutionUsers d"
  shows "assertActorCanOperateInstitution d' a i = assertActorCanOperateInstitution d a i"
  using assms
  by (simp add: assertActorCanOperateInstitution_def membershipFilter_def active_institution_def)

lemma assertInstitutionCan_cong:
  assumes "institutions d' = institutions d" and "institutionUsers d' = institutionUsers d"
    and "authorityGrants d' = authorityGrants d"
  shows "assertInstitutionCan e d' ref p a = assertInstitutionCan e d ref p a"
  unfolding assertInstitutionCan_def assertActor_cong [OF assms(1,2)] assms ..

section \<open>The tenant of an academic scope\<close>

inductive ancestor :: "academic_structure list \<Rightarrow> string \<Rightarrow> string \<Rightarrow> bool"
  for structures :: "academic_structure list" and start :: string where
  self: "ancestor structures start start"
| parent: "ancestor structures start c \<Longrightarrow> find_by st_uuid c structures = Some node \<Longrightarrow>
     st_parentId node = Some p \<Longrightarrow> p \<noteq> [] \<Longrightarrow> ancestor structures start p"

definition in_tenant :: "academic_structure list \<Rightarrow> string \<Rightarrow> string \<Rightarrow> bool" where
  "in_tenant structures i c \<longleftrightarrow>
     (\<exists>node. find_by st_uuid c structures = Some node \<and> st_institutionId node = i)"

text \<open>The nodes seen so far lie in the tenant, and their parents are seen or come next. When the walk
  ends well, the seen nodes are closed under parents.\<close>

definition walk_inv :: "academic_structure list \<Rightarrow> string \<Rightarrow> string option \<Rightarrow> string set \<Rightarrow> bool" where
  "walk_inv S i cur V \<longleftrightarrow>
     (\<forall>c \<in> V. in_tenant S i c \<and>
        (\<forall>node p. find_by st_uuid c S = Some node \<longrightarrow> st_parentId node = Some p \<longrightarrow> p \<noteq> [] \<longrightarrow>
           p \<in> V \<or> cur = Some p))"

lemma structureWalk_closed:
  assumes "structureWalk S i cur V t = Inr t'" and "walk_inv S i cur (set V)"
  shows "\<exists>W. set V \<subseteq> W \<and> walk_inv S i None W \<and> (\<forall>c. cur = Some c \<longrightarrow> c \<noteq> [] \<longrightarrow> c \<in> W)"
  using assms
proof (induction S i cur V t rule: structureWalk.induct)
  case (1 S i cur V t)
  show ?case
  proof (cases "cur = None \<or> (\<exists>c. cur = Some c \<and> (c = [] \<or> c \<in> set V))")
    case True
    then have "walk_inv S i None (set V)"
      using "1.prems"(2) by (auto simp: walk_inv_def)
    with True show ?thesis by (intro exI [of _ "set V"]) auto
  next
    case False
    then obtain c where c: "cur = Some c" "c \<noteq> []" "c \<notin> set V" by auto
    with "1.prems"(1) obtain node where node: "find_by st_uuid c S = Some node"
      "st_institutionId node = i"
      and rest: "structureWalk S i (st_parentId node) (c # V) (addNode node t) = Inr t'"
      by (subst (asm) structureWalk.simps) (auto split: option.splits if_splits)
    have "walk_inv S i (st_parentId node) (set (c # V))"
      using "1.prems"(2) c node by (auto simp: walk_inv_def in_tenant_def)
    from "1.IH" [OF c(1) _ node(1) _ rest this] c node obtain W where
      "set (c # V) \<subseteq> W" "walk_inv S i None W" by auto
    with c show ?thesis by (intro exI [of _ W]) auto
  qed
qed

text \<open>C5. The walk up the academic structure never leaves the institution: when it succeeds, the scope
  and every ancestor of it is a structure of that institution (the walk ends on a cycle, too).\<close>

theorem structureScope_in_tenant:
  assumes "academicStructureScopeTarget d i s = Inr t" and "s \<noteq> []"
    and "ancestor (academicStructures d) s c"
  shows "in_tenant (academicStructures d) i c"
proof -
  let ?S = "academicStructures d"
  obtain W where W: "walk_inv ?S i None W" and s: "s \<in> W"
    using structureWalk_closed [OF assms(1) [unfolded academicStructureScopeTarget_def]] assms(2)
    by (auto simp: walk_inv_def)
  from assms(3) have "c \<in> W"
  proof induction
    case self
    show ?case by (rule s)
  next
    case (parent c node p)
    then show ?case using W by (auto simp: walk_inv_def)
  qed
  with W show ?thesis by (simp add: walk_inv_def)
qed

section \<open>Assigned scopes\<close>

text \<open>A person who is neither founder nor registrar passes only with an assigned scope, and when the
  request names a scope one of the assigned scopes must match it.\<close>

lemma assertActorAssignedScope_sound:
  assumes "assertActorAssignedScope d a i (Some s) target = Inr ()" and "s \<noteq> []"
    and "au_role a \<noteq> ACADID_SUPER_ADMIN" and "au_role a \<noteq> REGISTRAR" and "au_kind a \<noteq> Some API_KEY"
  shows "\<exists>t. academicStructureScopeTarget d i s = Inr t \<and>
     (let wanted = fold (\<lambda>(k, v). set_prop k v) t (getOr target [])
      in wanted = [] \<or> (\<exists>scope \<in> set (assignedScopesForActor d a i). scopeMatchesTarget scope wanted))"
proof -
  from assms obtain t where "academicStructureScopeTarget d i s = Inr t"
    by (auto simp: assertActorAssignedScope_def err_simps Let_def)
  with assms show ?thesis
    by (auto simp: assertActorAssignedScope_def err_simps Let_def list_ex_iff split: if_splits)
qed

text \<open>Whatever an actor may operate is in the list of its institutions.\<close>

lemma operable_listed:
  assumes "may_operate d a i" and "institutionIdsForActor d a = Some ids" and "i \<noteq> []"
  shows "i \<in> set ids"
  using assms by (auto simp: institutionIdsForActor_def may_operate_def split: if_splits)

end
