(* ===== verification/AuditTrail.thy ===== *)
theory AuditTrail
  imports Authority
begin

text \<open>
  \<open>platform/services/audit.service.ts\<close> and \<open>AuditEventInput\<close> of \<open>packages/audit/src/index.ts\<close>: every
  governance action appends one event. \<open>governanceActor\<close> and \<open>humanActor\<close> are the two ways the
  governance handlers fill in the actor.
\<close>

record audit_input =
  ai_requestId :: "string option"
  ai_actorType :: "string option"
  ai_actorUserId :: "string option"
  ai_clientId :: "string option"
  ai_actorId :: "string option"
  ai_actorRole :: "string option"
  ai_institutionId :: "string option"
  ai_role :: "string option"
  ai_endpoint :: "string option"
  ai_httpMethod :: "string option"
  ai_action :: string
  ai_targetType :: string
  ai_targetId :: "string option"
  ai_entityType :: "string option"
  ai_entityId :: "string option"
  ai_outcome :: string
  ai_reason :: "string option"
  ai_ipAddressHash :: "string option"
  ai_userAgentHash :: "string option"
  ai_metadata :: jval

definition inferActorType :: "audit_input \<Rightarrow> string" where
  "inferActorType event =
     (if truthy_text (ai_clientId event) then ''API_KEY''
      else if truthy_text (ai_actorId event) then ''USER''
      else ''SYSTEM'')"

definition audit_row :: "audit_input \<Rightarrow> audit_event" where
  "audit_row event = \<lparr>
     ae_requestId = ai_requestId event,
     ae_actorType = Some (getOr (ai_actorType event) (inferActorType event)),
     ae_actorUserId = orElse (ai_actorUserId event) (ai_actorId event),
     ae_clientId = ai_clientId event,
     ae_actorId = ai_actorId event,
     ae_actorRole = ai_actorRole event,
     ae_institutionId = ai_institutionId event,
     ae_role = orElse (ai_role event) (ai_actorRole event),
     ae_endpoint = ai_endpoint event,
     ae_httpMethod = ai_httpMethod event,
     ae_action = ai_action event,
     ae_targetType = ai_targetType event,
     ae_targetId = ai_targetId event,
     ae_entityType = Some (getOr (ai_entityType event) (ai_targetType event)),
     ae_entityId = orElse (ai_entityId event) (ai_targetId event),
     ae_outcome = ai_outcome event,
     ae_reason = ai_reason event,
     ae_ipAddressHash = ai_ipAddressHash event,
     ae_userAgentHash = ai_userAgentHash event,
     ae_metadata = ai_metadata event\<rparr>"

definition audit_write :: "audit_input \<Rightarrow> db \<Rightarrow> db" where
  "audit_write event d = d\<lparr>auditEvents := auditEvents d @ [audit_row event]\<rparr>"

text \<open>An event with an action, a target, an outcome and metadata; the other fields absent.\<close>

definition audit_event_of :: "string \<Rightarrow> string \<Rightarrow> string \<Rightarrow> string option \<Rightarrow> jval \<Rightarrow> audit_input" where
  "audit_event_of action targetType targetId institutionId metadata = \<lparr>
     ai_requestId = None, ai_actorType = None, ai_actorUserId = None, ai_clientId = None,
     ai_actorId = None, ai_actorRole = None, ai_institutionId = institutionId, ai_role = None,
     ai_endpoint = None, ai_httpMethod = None, ai_action = action, ai_targetType = targetType,
     ai_targetId = Some targetId, ai_entityType = None, ai_entityId = None,
     ai_outcome = ''SUCCESS'', ai_reason = None, ai_ipAddressHash = None,
     ai_userAgentHash = None, ai_metadata = metadata\<rparr>"

text \<open>\<open>actorId: auth.kind === "API_KEY" ? undefined : auth.sub\<close> and the same for the role.\<close>

definition governanceActor :: "auth_token \<Rightarrow> audit_input \<Rightarrow> audit_input" where
  "governanceActor auth event =
     (if au_kind auth = Some API_KEY then event
      else event\<lparr>ai_actorId := Some (au_sub auth), ai_actorRole := Some (role_text (au_role auth))\<rparr>)"

definition humanActor :: "auth_token \<Rightarrow> audit_input \<Rightarrow> audit_input" where
  "humanActor auth event =
     event\<lparr>ai_actorId := Some (au_sub auth), ai_actorRole := Some (role_text (au_role auth))\<rparr>"

text \<open>Writing an audit event changes the audit table and nothing else.\<close>

lemma audit_write_auditEvents [simp]:
  "auditEvents (audit_write ev d) = auditEvents d @ [audit_row ev]"
  by (simp add: audit_write_def)

lemma audit_write_frame [simp]:
  "draws (audit_write ev d) = draws d"
  "institutions (audit_write ev d) = institutions d"
  "learners (audit_write ev d) = learners d"
  "authorityGrants (audit_write ev d) = authorityGrants d"
  "institutionUsers (audit_write ev d) = institutionUsers d"
  "academicSessions (audit_write ev d) = academicSessions d"
  "reopenRequests (audit_write ev d) = reopenRequests d"
  "academicStructures (audit_write ev d) = academicStructures d"
  "gradingRuleSets (audit_write ev d) = gradingRuleSets d"
  "enrolments (audit_write ev d) = enrolments d"
  "resultBatches (audit_write ev d) = resultBatches d"
  "academicRecords (audit_write ev d) = academicRecords d"
  "academicStandings (audit_write ev d) = academicStandings d"
  "rolloverRecords (audit_write ev d) = rolloverRecords d"
  "transferRequests (audit_write ev d) = transferRequests d"
  "disputes (audit_write ev d) = disputes d"
  "credentials (audit_write ev d) = credentials d"
  "recordRequests (audit_write ev d) = recordRequests d"
  "revenueEntries (audit_write ev d) = revenueEntries d"
  "backgroundJobs (audit_write ev d) = backgroundJobs d"
  "domainEvents (audit_write ev d) = domainEvents d"
  "webhookEndpoints (audit_write ev d) = webhookEndpoints d"
  "webhookDeliveries (audit_write ev d) = webhookDeliveries d"
  "notifications (audit_write ev d) = notifications d"
  "idempotencyRecords (audit_write ev d) = idempotencyRecords d"
  "rateLimitBuckets (audit_write ev d) = rateLimitBuckets d"
  "rateLimitSetting (audit_write ev d) = rateLimitSetting d"
  "users (audit_write ev d) = users d"
  "mfaRecoveryCodes (audit_write ev d) = mfaRecoveryCodes d"
  "apiKeys (audit_write ev d) = apiKeys d"
  "accessGrants (audit_write ev d) = accessGrants d"
  "verificationEvents (audit_write ev d) = verificationEvents d"
  "workerHeartbeats (audit_write ev d) = workerHeartbeats d"
  "invitationLeads (audit_write ev d) = invitationLeads d"
  "institutionApplications (audit_write ev d) = institutionApplications d"
  "developerAccessRequests (audit_write ev d) = developerAccessRequests d"
  by (simp_all add: audit_write_def)

end
