(* ===== verification/Sample.thy ===== *)
theory Sample
  imports AuditTrail
begin

text \<open>
  The concrete inputs of the witnesses: an environment, callers, and a small database with one
  active institution, its authority grant, a registrar, an enrolled learner and two sessions.
\<close>

definition sample_env :: env where
  "sample_env = \<lparr>now = 1000, gen = (\<lambda>n. replicate n (CHR ''u'')), sha256 = (\<lambda>s. ''h'' @ s),
     zod_uuid = (\<lambda>s. s \<noteq> []), zod_email = (\<lambda>s. s \<noteq> []),
     Date_parse = (\<lambda>s. None), zod_datetime = (\<lambda>s. None)\<rparr>"

definition school :: string where
  "school = ''11111111-1111-4111-8111-111111111111''"

definition founder :: auth_token where
  "founder = \<lparr>au_sub = ''founder'', au_role = ACADID_SUPER_ADMIN, au_kind = Some USER,
     au_institutionUuid = None, au_institutionUserId = None, au_assignedScopes = JUndef,
     au_apiKeyId = None, au_clientId = None, au_ownerIsProduct = False, au_productCode = None,
     au_institutionId = None, au_rateLimitPerMinute = None, au_email = ''founder@acadid.local'',
     au_fullName = ''Founder'', au_learnerId = None, au_permissions = []\<rparr>"

definition registrar :: auth_token where
  "registrar = founder\<lparr>au_sub := ''reg'', au_role := REGISTRAR, au_institutionUuid := Some school\<rparr>"

definition api_key :: auth_token where
  "api_key = founder\<lparr>au_sub := ''key'', au_role := REGISTRAR, au_kind := Some API_KEY,
     au_institutionUuid := Some school, au_apiKeyId := Some ''key''\<rparr>"

definition sample_db :: db where
  "sample_db = empty_db\<lparr>
     institutions := [\<lparr>in_uuid = school, in_institutionId = ''ACD-1'', in_officialName = ''School'', in_type = ''SECONDARY'', in_institutionCategory = ''SECONDARY'',
                       in_academicTemplateCode = ''SECONDARY_TERM_CLASS_SUBJECT'', in_state = ''Lagos'', in_tier = ''FOUNDING'', in_mouSignedAt = None,
                       in_status = Inst_ACTIVE\<rparr>],
     learners := [\<lparr>le_uuid = ''l1'', le_ain = ''AIN-NG-2024-0000001'', le_fullName = ''Ada'',
                   le_dateOfBirth = 0, le_phone = None, le_ninEncrypted = None, le_jambId = None,
                   le_identityStatus = Ident_VERIFIED\<rparr>],
     authorityGrants := [\<lparr>ag_uuid = ''g1'', ag_institutionId = school, ag_mouDocumentUrl = ''mou'', ag_signedByName = ''Bo'', ag_signedByTitle = ''Head'',
                          ag_effectiveFrom = 10,
                          ag_expiresAt = None, ag_permissions = JObj [(''all'', JBool True)],
                          ag_status = Grant_ACTIVE\<rparr>],
     institutionUsers := [\<lparr>iu_uuid = ''m1'', iu_userId = ''reg'', iu_institutionId = school,
                           iu_role = REGISTRAR, iu_status = Member_ACTIVE, iu_assignedScopes = JArr [],
                           iu_permissions = [], iu_invitedById = None, iu_inviteTokenHash = None,
                           iu_invitedAt = None, iu_inviteExpiresAt = None, iu_inviteAcceptedAt = None,
                           iu_lastLoginAt = None, iu_suspendedAt = None, iu_twoFactorRequired = False\<rparr>],
     academicSessions := [\<lparr>se_uuid = ''s1'', se_institutionId = school, se_label = ''2023'', se_periodType = Period_SEMESTER,
                           se_periodLabel = ''First Semester'',
                           se_status = Session_ACTIVE, se_startDate = None, se_endDate = None,
                           se_isCurrent = False, se_createdById = None\<rparr>,
                          \<lparr>se_uuid = ''s2'', se_institutionId = school, se_label = ''2024'', se_periodType = Period_SEMESTER,
                           se_periodLabel = ''First Semester'',
                           se_status = Session_ACTIVE, se_startDate = None, se_endDate = None,
                           se_isCurrent = False, se_createdById = None\<rparr>],
     academicStructures := [\<lparr>st_uuid = ''c1'', st_institutionId = school, st_parentId = None,
                             st_type = CLASS, st_name = ''JSS1'', st_code = None,
                             st_status = Structure_ACTIVE, st_creditUnits = None, st_metadata = JNull,
                             st_createdById = None\<rparr>],
     enrolments := [\<lparr>en_uuid = ''e1'', en_learnerId = ''l1'', en_institutionId = school,
                     en_academicSessionId = Some ''s1'', en_structureScopeId = Some ''c1'',
                     en_studentNumber = ''007'', en_level = ''JSS1'', en_programme = ''Junior'',
                     en_entryDate = 5, en_exitDate = None, en_exitType = None,
                     en_status = En_ACTIVE\<rparr>]\<rparr>"

lemmas sample_defs = sample_env_def school_def founder_def registrar_def api_key_def sample_db_def
  empty_db_def

lemma uuid_school: "uuidPattern school"
  by code_simp

lemma inj_sample_gen: "inj (gen sample_env)"
  by (auto simp: inj_def sample_env_def dest: arg_cong [of _ _ length])

lemma founder_may_operate: "may_operate d founder i"
  by (simp add: may_operate_def founder_def)

lemma registrar_may_operate: "may_operate sample_db registrar school"
  by (simp add: may_operate_def sample_defs active_institution_def truthy_text_def)

lemma permission_sample: "permissionAllows (JObj [(''all'', JBool True)]) p"
  by (simp add: permissionAllows_def getProp_def)

lemma sample_institution_can:
  assumes "institutions d = institutions sample_db" and "authorityGrants d = authorityGrants sample_db"
  shows "assertInstitutionCan sample_env d school p (Some founder) =
    Inr \<lparr>ia_institutionUuid = school, ia_institutionId = ''ACD-1'', ia_authorityGrantId = ''g1''\<rparr>"
proof -
  have i: "institutions sample_db = [\<lparr>in_uuid = school, in_institutionId = ''ACD-1'',
      in_officialName = ''School'', in_type = ''SECONDARY'', in_institutionCategory = ''SECONDARY'',
      in_academicTemplateCode = ''SECONDARY_TERM_CLASS_SUBJECT'', in_state = ''Lagos'', in_tier = ''FOUNDING'', in_mouSignedAt = None,
      in_status = Inst_ACTIVE\<rparr>]"
    and g: "authorityGrants sample_db = [\<lparr>ag_uuid = ''g1'', ag_institutionId = school,
      ag_mouDocumentUrl = ''mou'', ag_signedByName = ''Bo'', ag_signedByTitle = ''Head'',
      ag_effectiveFrom = 10, ag_expiresAt = None, ag_permissions = JObj [(''all'', JBool True)],
      ag_status = Grant_ACTIVE\<rparr>]"
    by (simp_all add: sample_db_def)
  have op: "assertActorCanOperateInstitution d founder school = Inr ()"
    using founder_may_operate assertActor_complete by blast
  show ?thesis
    by (simp add: assertInstitutionCan_def assms i g op institutionWhere_def uuid_school
        grantInForce_def permission_sample sample_env_def)
qed

text \<open>Witnesses of the authority properties.\<close>

theorem assertInstitutionCan_sound_witness:
  "\<exists>i \<in> set (institutions sample_db). \<exists>g \<in> set (authorityGrants sample_db).
     institutionWhere school i \<and> in_status i = Inst_ACTIVE \<and>
     (\<forall>a. Some founder = Some a \<longrightarrow> may_operate sample_db a (in_uuid i)) \<and>
     ag_institutionId g = in_uuid i \<and> ag_status g = Grant_ACTIVE \<and>
     grantInForce (now sample_env) ''upload_results'' g \<and>
     \<lparr>ia_institutionUuid = school, ia_institutionId = ''ACD-1'', ia_authorityGrantId = ''g1''\<rparr> =
       \<lparr>ia_institutionUuid = in_uuid i, ia_institutionId = in_institutionId i,
        ia_authorityGrantId = ag_uuid g\<rparr>"
  by (rule assertInstitutionCan_sound [OF sample_institution_can]) simp_all

theorem structureScope_in_tenant_witness:
  "in_tenant (academicStructures sample_db) school ''c1''"
proof (rule structureScope_in_tenant)
  show "academicStructureScopeTarget sample_db school ''c1'' =
      Inr [(''structure_scope_id'', Some ''c1''), (''structureScopeId'', Some ''c1''),
           (''class'', Some ''JSS1''), (''class_id'', Some ''c1'')]"
    by (simp add: academicStructureScopeTarget_def structureWalk.simps sample_defs addNode_def
        put_if_def truthy_text_def)
  show "''c1'' \<noteq> ([] :: string)" by simp
  show "ancestor (academicStructures sample_db) ''c1'' ''c1''" by (rule ancestor.self)
qed

end
