(* ===== verification/ResultBatches.thy ===== *)
theory ResultBatches
  imports Sample
begin

text \<open>
  The result batches of \<open>gateway/governance/governance.service.ts\<close>: the transitions submit, review
  and approve, the rejection, and the publication, which signs one credential per academic record
  and recomputes the academic standing of every enrolment concerned. The signer is the argument
  \<open>sign\<close>, which gives the proof object and the signature of a payload.

  Sums and quotients of credit units and grade points are exact rationals where the code computes
  with doubles.
\<close>

section \<open>Academic standing\<close>

definition decimalToNumber :: "rat option \<Rightarrow> rat" where
  "decimalToNumber v = (case v of None \<Rightarrow> 0 | Some x \<Rightarrow> x)"

definition round_to :: "rat \<Rightarrow> nat \<Rightarrow> rat" where
  "round_to v precision = of_int (math_round (v * 10 ^ precision)) / 10 ^ precision"

definition classifyCgpa :: "rat \<Rightarrow> rat \<Rightarrow> string" where
  "classifyCgpa cgpa gradePointMax =
     (let normalized = (if gradePointMax > 0 then (cgpa / gradePointMax) * 5 else cgpa)
      in if normalized \<ge> 9 / 2 then ''First Class''
         else if normalized \<ge> 7 / 2 then ''Second Class Upper''
         else if normalized \<ge> 12 / 5 then ''Second Class Lower''
         else if normalized \<ge> 3 / 2 then ''Third Class''
         else if normalized \<ge> 1 then ''Pass''
         else ''Fail'')"

definition ruleSetOf :: "db \<Rightarrow> academic_record \<Rightarrow> grading_rule_set option" where
  "ruleSetOf d r =
     (case ar_gradingRuleSetId r of None \<Rightarrow> None | Some g \<Rightarrow> find_by gr_uuid g (gradingRuleSets d))"

definition max_of :: "rat list \<Rightarrow> rat" where
  "max_of xs = fold max (tl xs) (hd xs)"

definition resolveGradePointMax :: "db \<Rightarrow> academic_record list \<Rightarrow> rat" where
  "resolveGradePointMax d records =
     (let configuredMax = filter (\<lambda>v. v > 0)
            (map (\<lambda>r. case ruleSetOf d r of None \<Rightarrow> 0 | Some g \<Rightarrow> decimalToNumber (gr_gradePointMax g)) records)
      in if configuredMax \<noteq> [] then max_of configuredMax
         else
           let observedMax = filter (\<lambda>v. v > 0) (map (\<lambda>r. decimalToNumber (ar_gradePoint r)) records)
           in if observedMax \<noteq> [] \<and> max_of observedMax \<le> 4 then 4 else 5)"

text \<open>\<open>orderBy: [{ publishedAt: "desc" }, { createdAt: "desc" }]\<close>; PostgreSQL puts nulls first.\<close>

definition latestFirst :: "academic_record list \<Rightarrow> academic_record list" where
  "latestFirst rs =
     sort_key (\<lambda>r. if ar_publishedAt r = None then 0 else (1 :: nat))
       (sort_key (\<lambda>r. - decimalToNumber (map_option of_int (ar_publishedAt r)))
         (sort_key (\<lambda>r. - ar_createdAt r) rs))"

definition countedRecords :: "db \<Rightarrow> string \<Rightarrow> academic_record list" where
  "countedRecords d enrolmentId =
     latestFirst (filter (\<lambda>r. ar_enrolmentId r = enrolmentId \<and> ar_status r = Rec_PUBLISHED \<and>
                              ar_gradePoint r \<noteq> None \<and> ar_creditUnits r \<noteq> None) (academicRecords d))"

definition rollupRecords :: "db \<Rightarrow> string \<Rightarrow> academic_record list" where
  "rollupRecords d enrolmentId =
     (let records = countedRecords d enrolmentId;
          tertiary = filter (\<lambda>r. case ruleSetOf d r of None \<Rightarrow> False | Some g \<Rightarrow> gr_engine g = TERTIARY_GPA) records
      in if tertiary \<noteq> [] then tertiary else records)"

definition standingOf :: "env \<Rightarrow> db \<Rightarrow> enrolment \<Rightarrow> academic_standing" where
  "standingOf e d enrolment =
     (let rollup = rollupRecords d (en_uuid enrolment);
          attempted = round_to (sum_list (map (\<lambda>r. decimalToNumber (ar_creditUnits r)) rollup)) 4;
          quality = round_to (sum_list (map (\<lambda>r. decimalToNumber (ar_qualityPoints r)) rollup)) 4;
          earned = round_to (sum_list (map (\<lambda>r.
            if decimalToNumber (ar_gradePoint r) > 0 then decimalToNumber (ar_creditUnits r) else 0) rollup)) 4;
          cgpa = (if attempted > 0 then Some (round_to (quality / attempted) 4) else None);
          gradePointMax = resolveGradePointMax d rollup
      in \<lparr>sd_enrolmentId = en_uuid enrolment,
          sd_learnerId = en_learnerId enrolment,
          sd_institutionId = en_institutionId enrolment,
          sd_latestAcademicSessionId = (case rollup of [] \<Rightarrow> None | r # _ \<Rightarrow> ar_academicSessionId r),
          sd_latestPeriodLabel = (case rollup of [] \<Rightarrow> None | r # _ \<Rightarrow> Some (ar_periodLabel r)),
          sd_attemptedCreditUnits = attempted,
          sd_earnedCreditUnits = earned,
          sd_qualityPoints = quality,
          sd_cgpa = cgpa,
          sd_gradePointMax = gradePointMax,
          sd_classification = map_option (\<lambda>c. classifyCgpa c gradePointMax) cgpa,
          sd_classificationSystem =
            (if gradePointMax \<le> 4 then ''NIGERIAN_TERTIARY_4_POINT'' else ''NIGERIAN_TERTIARY_5_POINT''),
          sd_includedRecordCount = length rollup,
          sd_periodCount = card (set (map (\<lambda>r. (getOr (ar_academicSessionId r) ''none'') @ '':'' @
            ar_periodLabel r) rollup)),
          sd_computedAt = now e\<rparr>)"

text \<open>\<open>academicStanding.upsert\<close> by enrolment; an enrolment that is gone is skipped.\<close>

definition recomputeAcademicStanding :: "env \<Rightarrow> string \<Rightarrow> db \<Rightarrow> db" where
  "recomputeAcademicStanding e enrolmentId d =
     (case find_by en_uuid enrolmentId (enrolments d) of
        None \<Rightarrow> d
      | Some enrolment \<Rightarrow>
          (let s = standingOf e d enrolment
           in if find_by sd_enrolmentId enrolmentId (academicStandings d) = None
              then d\<lparr>academicStandings := academicStandings d @ [s]\<rparr>
              else d\<lparr>academicStandings := set_by sd_enrolmentId enrolmentId (\<lambda>_. s) (academicStandings d)\<rparr>))"

section \<open>Transitions\<close>

datatype batch_transition = SUBMITTED | REVIEWED | APPROVED

fun transition_action :: "batch_transition \<Rightarrow> string" where
  "transition_action SUBMITTED = ''result_batch.submitted''"
| "transition_action REVIEWED = ''result_batch.reviewed''"
| "transition_action APPROVED = ''result_batch.approved''"

fun transitionData :: "int \<Rightarrow> batch_transition \<Rightarrow> result_batch \<Rightarrow> result_batch" where
  "transitionData t SUBMITTED b = b\<lparr>rb_status := Rec_SUBMITTED, rb_submittedAt := Some t\<rparr>"
| "transitionData t REVIEWED b = b\<lparr>rb_status := Rec_REVIEWED, rb_reviewedAt := Some t\<rparr>"
| "transitionData t APPROVED b = b\<lparr>rb_status := Rec_APPROVED, rb_approvedAt := Some t\<rparr>"

definition apiKeyMetadata :: "auth_token \<Rightarrow> jval" where
  "apiKeyMetadata auth = JObj [(''apiKeyId'', jstr (au_apiKeyId auth))]"

definition transitionBatch ::
    "env \<Rightarrow> db \<Rightarrow> auth_token \<Rightarrow> string \<Rightarrow> batch_transition \<Rightarrow> (result_batch \<times> db) res" where
  "transitionBatch e d auth batchId status =
     bindE (require (find_by rb_uuid batchId (resultBatches d)) (BadRequest ''Result batch not found.'')) (\<lambda>existing.
     bindE (assertActorCanOperateInstitution d auth (rb_institutionId existing)) (\<lambda>_.
     bindE (update_by rb_uuid batchId (transitionData (now e) status) (resultBatches d)) (\<lambda>batches.
     Inr (transitionData (now e) status existing,
       audit_write (governanceActor auth (audit_event_of (transition_action status) ''ResultBatch'' batchId
           (Some (rb_institutionId existing)) (apiKeyMetadata auth)))
         (d\<lparr>resultBatches := batches\<rparr>)))))"

definition rejectBatch ::
    "env \<Rightarrow> db \<Rightarrow> auth_token \<Rightarrow> string \<Rightarrow> string \<Rightarrow> (result_batch \<times> db) res" where
  "rejectBatch e d auth batchId reason =
     (let back = (\<lambda>b. b\<lparr>rb_status := Rec_DRAFT, rb_rejectionCount := rb_rejectionCount b + 1\<rparr>)
      in bindE (require (find_by rb_uuid batchId (resultBatches d)) (BadRequest ''Result batch not found.'')) (\<lambda>existing.
         bindE (assertActorCanOperateInstitution d auth (rb_institutionId existing)) (\<lambda>_.
         bindE (update_by rb_uuid batchId back (resultBatches d)) (\<lambda>batches.
         Inr (back existing,
           audit_write ((governanceActor auth (audit_event_of ''result_batch.reject'' ''ResultBatch'' batchId
               (Some (rb_institutionId existing)) (apiKeyMetadata auth)))\<lparr>ai_reason := Some reason\<rparr>)
             (d\<lparr>resultBatches := batches\<rparr>))))))"

section \<open>Publication\<close>

definition jrat :: "rat \<Rightarrow> jval" where
  "jrat r = JNum (Fin r)"

definition jnull :: "string option \<Rightarrow> jval" where
  "jnull x = (case x of None \<Rightarrow> JNull | Some s \<Rightarrow> JStr s)"

text \<open>The foreign key from a record to its enrolment gives the learner.\<close>

definition learnerOf :: "db \<Rightarrow> academic_record \<Rightarrow> string" where
  "learnerOf d r =
     (case find_by en_uuid (ar_enrolmentId r) (enrolments d) of None \<Rightarrow> [] | Some en \<Rightarrow> en_learnerId en)"

definition recordPayload :: "env \<Rightarrow> db \<Rightarrow> string \<Rightarrow> string \<Rightarrow> academic_record \<Rightarrow> (string \<times> jval) list" where
  "recordPayload e d issuer credentialRef r =
     [(''@context'', JArr [JStr ''https://www.w3.org/ns/credentials/v2'']),
      (''id'', JStr (''urn:uuid:'' @ credentialRef)),
      (''type'', JArr [JStr ''VerifiableCredential'', JStr ''AcadIDAcademicRecordCredential'']),
      (''issuer'', JStr issuer),
      (''validFrom'', JStr (toISOString (now e))),
      (''credentialSubject'', JObj
        [(''learnerId'', JStr (learnerOf d r)),
         (''academicRecordId'', JStr (ar_uuid r)),
         (''periodLabel'', JStr (ar_periodLabel r)),
         (''subjectCode'', JStr (ar_subjectCode r)),
         (''subjectName'', JStr (ar_subjectName r)),
         (''totalScore'', jrat (ar_totalScore r)),
         (''grade'', JStr (ar_grade r)),
         (''gradePoint'', case ar_gradePoint r of None \<Rightarrow> JUndef | Some x \<Rightarrow> jrat x),
         (''creditUnits'', case ar_creditUnits r of None \<Rightarrow> JUndef | Some x \<Rightarrow> jrat x),
         (''qualityPoints'', case ar_qualityPoints r of None \<Rightarrow> JUndef | Some x \<Rightarrow> jrat x),
         (''gradingRuleSetId'', jnull (ar_gradingRuleSetId r))])]"

text \<open>The signed credentials of the batch: a fresh reference each, before the transaction starts.\<close>

definition signedCredential ::
    "env \<Rightarrow> (jval \<Rightarrow> jval \<times> string) \<Rightarrow> string \<Rightarrow> string \<Rightarrow> db \<Rightarrow> academic_record \<Rightarrow> credential" where
  "signedCredential e sign issuer institutionId d r =
     (let ref = fresh e d;
          payload = recordPayload e d issuer ref r;
          signed = sign (JObj payload)
      in \<lparr>cr_uuid = [], cr_credentialRef = ref, cr_learnerId = learnerOf d r,
          cr_institutionId = institutionId, cr_academicRecordId = Some (ar_uuid r),
          cr_recordRequestId = None, cr_type = RESULT_SLIP,
          cr_scope = JObj [(''academicRecordId'', JStr (ar_uuid r))],
          cr_vcPayload = JObj (payload @ [(''proof'', fst signed)]), cr_signature = snd signed,
          cr_status = Cred_ACTIVE, cr_issuedAt = now e, cr_revokedAt = None, cr_revocationReason = None\<rparr>)"

fun signRecords ::
    "env \<Rightarrow> (jval \<Rightarrow> jval \<times> string) \<Rightarrow> string \<Rightarrow> string \<Rightarrow> academic_record list \<Rightarrow> db \<Rightarrow>
     credential list \<times> db" where
  "signRecords e sign issuer institutionId [] d = ([], d)"
| "signRecords e sign issuer institutionId (r # rs) d =
     (let rest = signRecords e sign issuer institutionId rs (drawn d)
      in (signedCredential e sign issuer institutionId d r # fst rest, snd rest))"

text \<open>\<open>tx.credential.create\<close>, whose key is drawn by the default and whose reference is unique.\<close>

definition createCredential :: "env \<Rightarrow> credential \<Rightarrow> db \<Rightarrow> db res" where
  "createCredential e c d =
     bindE (check_unique ''Credential_credentialRef_key'' (\<lambda>c. Some (cr_credentialRef c))
       (credentials d @ [c\<lparr>cr_uuid := fresh e d\<rparr>])) (\<lambda>rows.
     Inr (drawn (d\<lparr>credentials := rows\<rparr>)))"

definition first_occurrences :: "'a list \<Rightarrow> 'a list" where
  "first_occurrences xs = rev (remdups (rev xs))"

definition batchRecords :: "db \<Rightarrow> string \<Rightarrow> academic_record list" where
  "batchRecords d batchId = filter (\<lambda>r. ar_resultBatchId r = Some batchId) (academicRecords d)"

definition publishedBatch :: "int \<Rightarrow> result_batch \<Rightarrow> result_batch" where
  "publishedBatch t b = b\<lparr>rb_status := Rec_PUBLISHED, rb_publishedAt := Some t\<rparr>"

definition publishedRecord :: "int \<Rightarrow> academic_record \<Rightarrow> academic_record" where
  "publishedRecord t r = r\<lparr>ar_status := Rec_PUBLISHED, ar_publishedAt := Some t\<rparr>"

definition publishBatch ::
    "env \<Rightarrow> (jval \<Rightarrow> jval \<times> string) \<Rightarrow> db \<Rightarrow> auth_token \<Rightarrow> string \<Rightarrow> (result_batch \<times> db) res" where
  "publishBatch e sign d auth batchId =
     bindE (require (find_by rb_uuid batchId (resultBatches d)) (BadRequest ''Result batch not found.'')) (\<lambda>batch.
     bindE (assertInstitutionCan e d (rb_institutionId batch) ''publish_credentials'' (Some auth)) (\<lambda>_.
     bindE (failIf (rb_status batch \<noteq> Rec_APPROVED)
              (BadRequest ''Only approved batches can be published.'')) (\<lambda>_.
     let records = batchRecords d batchId;
         issuer = (case find_by in_uuid (rb_institutionId batch) (institutions d) of
                     None \<Rightarrow> [] | Some i \<Rightarrow> in_institutionId i);
         signing = signRecords e sign issuer (rb_institutionId batch) records d; 
         signed = fst signing;
         d1 = snd signing
     in
     bindE (update_by rb_uuid batchId (publishedBatch (now e)) (resultBatches d1)) (\<lambda>batches.
     let d2 = d1\<lparr>resultBatches := batches,
                 academicRecords := update_rows (\<lambda>r. ar_resultBatchId r = Some batchId)
                   (publishedRecord (now e)) (academicRecords d1)\<rparr>
     in
     bindE (foldE (createCredential e) signed d2) (\<lambda>d3.
     let d4 = fold (recomputeAcademicStanding e) (first_occurrences (map ar_enrolmentId records)) d3
     in Inr (publishedBatch (now e) batch,
          audit_write (governanceActor auth (audit_event_of ''result_batch.publish'' ''ResultBatch'' batchId
            (Some (rb_institutionId batch)) (apiKeyMetadata auth))) d4))))))"

section \<open>What publication does\<close>

lemma signRecords_db: "snd (signRecords e sign issuer i rs d) = d\<lparr>draws := draws d + length rs\<rparr>"
  by (induction rs arbitrary: d) (auto simp: Let_def drawn_def)

lemma signRecords_targets:
  "map cr_academicRecordId (fst (signRecords e sign issuer i rs d)) = map (\<lambda>r. Some (ar_uuid r)) rs"
  by (induction rs arbitrary: d) (auto simp: Let_def signedCredential_def)

lemma signRecords_length [simp]: "length (fst (signRecords e sign issuer i rs d)) = length rs"
  by (induction rs arbitrary: d) (auto simp: Let_def)

text \<open>A credential that holds a payload with its proof, and the signature of the payload.\<close>

definition signed_by :: "(jval \<Rightarrow> jval \<times> string) \<Rightarrow> credential \<Rightarrow> bool" where
  "signed_by sign c \<longleftrightarrow> (\<exists>ob. ''proof'' \<notin> fst ` set ob \<and>
     cr_vcPayload c = JObj (ob @ [(''proof'', fst (sign (JObj ob)))]) \<and> cr_signature c = snd (sign (JObj ob)))"

lemma signedCredential_signed: "signed_by sign (signedCredential e sign issuer i d r)"
  unfolding signed_by_def
  by (rule exI [of _ "recordPayload e d issuer (fresh e d) r"]) (simp add: signedCredential_def Let_def recordPayload_def)

lemma signRecords_kind:
  "c \<in> set (fst (signRecords e sign issuer i rs d)) \<Longrightarrow>
     cr_status c = Cred_ACTIVE \<and> cr_type c = RESULT_SLIP \<and> cr_institutionId c = i \<and>
     cr_recordRequestId c = None \<and> signed_by sign c"
proof (induction rs arbitrary: d)
  case (Cons r rs)
  then show ?case using signedCredential_signed by (auto simp: Let_def) (simp_all add: signedCredential_def Let_def)
qed simp

lemma signRecords_refs:
  "map cr_credentialRef (fst (signRecords e sign issuer i rs d)) =
     map (gen e) [draws d..<draws d + length rs]"
  by (induction rs arbitrary: d)
    (simp_all add: Let_def signedCredential_def fresh_def drawn_def upt_conv_Cons del: upt_Suc)

lemma createCredential_eq_Inr [err_simps]:
  "createCredential e c d = Inr d' \<longleftrightarrow>
     distinct (map cr_credentialRef (credentials d)) \<and>
     cr_credentialRef c \<notin> cr_credentialRef ` set (credentials d) \<and>
     d' = d\<lparr>draws := Suc (draws d), credentials := credentials d @ [c\<lparr>cr_uuid := fresh e d\<rparr>]\<rparr>"
  by (auto simp: createCredential_def err_simps drawn_def map_filter_simps map_filter_def comp_def)

text \<open>The credentials of a batch are appended in order, one per signed payload; the transaction
  succeeds when every reference is new.\<close>

lemma createAll_eq_Inr:
  assumes "foldE (createCredential e) cs d = Inr d'"
  shows "\<exists>new. credentials d' = credentials d @ new \<and> length new = length cs \<and>
     map (\<lambda>c. c\<lparr>cr_uuid := []\<rparr>) new = map (\<lambda>c. c\<lparr>cr_uuid := []\<rparr>) cs \<and>
     d' = d\<lparr>draws := draws d + length cs, credentials := credentials d @ new\<rparr>"
  using assms
proof (induction cs arbitrary: d)
  case Nil
  then show ?case by simp
next
  case (Cons c cs)
  from Cons.prems obtain u where u: "createCredential e c d = Inr u"
    and rest: "foldE (createCredential e) cs u = Inr d'" by (auto simp: err_simps)
  from Cons.IH [OF rest] obtain new where new: "length new = length cs"
    "map (\<lambda>c. c\<lparr>cr_uuid := []\<rparr>) new = map (\<lambda>c. c\<lparr>cr_uuid := []\<rparr>) cs"
    "d' = u\<lparr>draws := draws u + length cs, credentials := credentials u @ new\<rparr>" by auto
  with u show ?case
    by (intro exI [of _ "c\<lparr>cr_uuid := fresh e d\<rparr> # new"]) (auto simp: err_simps)
qed

lemma createAll_succeeds:
  assumes "distinct (map cr_credentialRef (credentials d) @ map cr_credentialRef cs)"
  shows "\<exists>d'. foldE (createCredential e) cs d = Inr d'"
  using assms
proof (induction cs arbitrary: d)
  case Nil
  then show ?case by simp
next
  case (Cons c cs)
  let ?u = "d\<lparr>draws := Suc (draws d), credentials := credentials d @ [c\<lparr>cr_uuid := fresh e d\<rparr>]\<rparr>"
  have "createCredential e c d = Inr ?u" using Cons.prems by (auto simp: err_simps)
  moreover have "distinct (map cr_credentialRef (credentials ?u) @ map cr_credentialRef cs)"
    using Cons.prems by auto
  ultimately show ?case using Cons.IH by simp
qed

lemma recompute_frame:
  "draws (recomputeAcademicStanding e x d) = draws d"
  "institutions (recomputeAcademicStanding e x d) = institutions d"
  "authorityGrants (recomputeAcademicStanding e x d) = authorityGrants d"
  "institutionUsers (recomputeAcademicStanding e x d) = institutionUsers d"
  "enrolments (recomputeAcademicStanding e x d) = enrolments d"
  "resultBatches (recomputeAcademicStanding e x d) = resultBatches d"
  "academicRecords (recomputeAcademicStanding e x d) = academicRecords d"
  "credentials (recomputeAcademicStanding e x d) = credentials d"
  by (simp_all add: recomputeAcademicStanding_def Let_def split: option.splits)

lemma recompute_fold_frame [simp]:
  "draws (fold (recomputeAcademicStanding e) xs d) = draws d"
  "institutions (fold (recomputeAcademicStanding e) xs d) = institutions d"
  "authorityGrants (fold (recomputeAcademicStanding e) xs d) = authorityGrants d"
  "institutionUsers (fold (recomputeAcademicStanding e) xs d) = institutionUsers d"
  "enrolments (fold (recomputeAcademicStanding e) xs d) = enrolments d"
  "resultBatches (fold (recomputeAcademicStanding e) xs d) = resultBatches d"
  "academicRecords (fold (recomputeAcademicStanding e) xs d) = academicRecords d"
  "credentials (fold (recomputeAcademicStanding e) xs d) = credentials d"
  by (induction xs arbitrary: d) (simp_all add: recompute_frame)

text \<open>Everything a successful publication says about the state before and after it.\<close>

lemma publishBatch_Inr:
  assumes "publishBatch e sign d auth b = Inr (batch', d')"
  obtains batch ok new where
    "find_by rb_uuid b (resultBatches d) = Some batch"
    and "rb_status batch = Rec_APPROVED"
    and "assertInstitutionCan e d (rb_institutionId batch) ''publish_credentials'' (Some auth) = Inr ok"
    and "batch' = publishedBatch (now e) batch"
    and "resultBatches d' = set_by rb_uuid b (publishedBatch (now e)) (resultBatches d)"
    and "academicRecords d' = update_rows (\<lambda>r. ar_resultBatchId r = Some b)
           (publishedRecord (now e)) (academicRecords d)"
    and "credentials d' = credentials d @ new"
    and "map cr_academicRecordId new = map (\<lambda>r. Some (ar_uuid r)) (batchRecords d b)"
    and "\<And>c. c \<in> set new \<Longrightarrow> cr_status c = Cred_ACTIVE \<and> cr_type c = RESULT_SLIP \<and>
           cr_institutionId c = rb_institutionId batch \<and> cr_recordRequestId c = None \<and> signed_by sign c"
    and "institutions d' = institutions d" and "authorityGrants d' = authorityGrants d"
    and "institutionUsers d' = institutionUsers d" and "enrolments d' = enrolments d"
    and "draws d' = draws d + 2 * length (batchRecords d b)"
    and "map cr_credentialRef new = map (gen e) [draws d..<draws d + length (batchRecords d b)]"
proof -
  let ?P = "\<lambda>r. ar_resultBatchId r = Some b"
  obtain batch ok where batch: "find_by rb_uuid b (resultBatches d) = Some batch"
    and ok: "assertInstitutionCan e d (rb_institutionId batch) ''publish_credentials'' (Some auth) = Inr ok"
    and approved: "rb_status batch = Rec_APPROVED"
    using assms by (auto simp: publishBatch_def err_simps)
  define issuer where "issuer = (case find_by in_uuid (rb_institutionId batch) (institutions d) of
      None \<Rightarrow> [] | Some i \<Rightarrow> in_institutionId i)"
  define signing where "signing = signRecords e sign issuer (rb_institutionId batch) (batchRecords d b) d"
  define d2 where "d2 = (snd signing)\<lparr>
      resultBatches := set_by rb_uuid b (publishedBatch (now e)) (resultBatches d),
      academicRecords := update_rows ?P (publishedRecord (now e)) (academicRecords d)\<rparr>"
  have sd: "snd signing = d\<lparr>draws := draws d + length (batchRecords d b)\<rparr>"
    by (simp add: signing_def signRecords_db)
  obtain d3 where d3: "foldE (createCredential e) (fst signing) d2 = Inr d3"
    and d': "d' = audit_write (governanceActor auth (audit_event_of ''result_batch.publish'' ''ResultBatch'' b
            (Some (rb_institutionId batch)) (apiKeyMetadata auth)))
          (fold (recomputeAcademicStanding e) (first_occurrences (map ar_enrolmentId (batchRecords d b))) d3)"
    and batch': "batch' = publishedBatch (now e) batch"
    using assms batch ok approved
    by (auto simp: publishBatch_def err_simps Let_def signing_def [symmetric] issuer_def [symmetric]
        d2_def sd)
  obtain new where new: "length new = length (fst signing)"
    "map (\<lambda>c. c\<lparr>cr_uuid := []\<rparr>) new = map (\<lambda>c. c\<lparr>cr_uuid := []\<rparr>) (fst signing)"
    "d3 = d2\<lparr>draws := draws d2 + length (fst signing), credentials := credentials d2 @ new\<rparr>"
    using createAll_eq_Inr [OF d3] by auto
  have same: "map g new = map g (fst signing)" if "\<And>c. g (c\<lparr>cr_uuid := []\<rparr>) = g c" for g :: "credential \<Rightarrow> 'x"
    using arg_cong [OF new(2), of "map g"] that by (simp add: comp_def)
  have targets: "map cr_academicRecordId new = map (\<lambda>r. Some (ar_uuid r)) (batchRecords d b)"
    using same [of cr_academicRecordId] by (simp add: signing_def signRecords_targets)
  have refs: "map cr_credentialRef new = map (gen e) [draws d..<draws d + length (batchRecords d b)]"
    using same [of cr_credentialRef] by (simp add: signing_def signRecords_refs)
  let ?kind = "\<lambda>c. (cr_status c, cr_type c, cr_institutionId c, cr_recordRequestId c, cr_vcPayload c, cr_signature c)"
  have kind: "cr_status c = Cred_ACTIVE \<and> cr_type c = RESULT_SLIP \<and>
      cr_institutionId c = rb_institutionId batch \<and> cr_recordRequestId c = None \<and> signed_by sign c" if "c \<in> set new" for c
  proof -
    have "?kind c \<in> set (map ?kind (fst signing))"
      using that same [of ?kind] by (metis (no_types, lifting) imageI list.set_map credential.select_convs
          credential.update_convs(1) credential.surjective)
    then obtain c' where "?kind c = ?kind c'" "c' \<in> set (fst signing)" by auto
    with signRecords_kind [of c' e sign issuer "rb_institutionId batch" "batchRecords d b" d] show ?thesis
      by (auto simp: signing_def signed_by_def)
  qed
  show thesis
    by (rule that [OF batch approved ok batch']) (use targets kind refs new(3) d' sd in
        \<open>auto simp: d2_def signing_def\<close>)
qed

text \<open>C2. A successful publication requires an approved batch of an institution that is active, has the
  authority to publish credentials and accepts the caller. Afterwards the batch and all its records
  are PUBLISHED, each record has exactly one new active credential of the institution, no other
  batch or record has changed, and the credentials issued before are still there, unchanged.\<close>

theorem publishBatch_publishes:
  assumes "publishBatch e sign d auth b = Inr (batch', d')"
  shows "\<exists>batch i new.
     find_by rb_uuid b (resultBatches d) = Some batch \<and> rb_status batch = Rec_APPROVED \<and>
     i \<in> set (institutions d) \<and> institutionWhere (rb_institutionId batch) i \<and>
     in_status i = Inst_ACTIVE \<and> may_operate d auth (in_uuid i) \<and>
     (\<exists>g \<in> set (authorityGrants d). ag_institutionId g = in_uuid i \<and> ag_status g = Grant_ACTIVE \<and>
        grantInForce (now e) ''publish_credentials'' g) \<and>
     find_by rb_uuid b (resultBatches d') = Some (publishedBatch (now e) batch) \<and>
     (\<forall>c. c \<noteq> b \<longrightarrow> find_by rb_uuid c (resultBatches d') = find_by rb_uuid c (resultBatches d)) \<and>
     academicRecords d' = map (\<lambda>r. if ar_resultBatchId r = Some b then publishedRecord (now e) r else r)
       (academicRecords d) \<and>
     credentials d' = credentials d @ new \<and>
     map cr_academicRecordId new = map (\<lambda>r. Some (ar_uuid r)) (batchRecords d b) \<and>
     (\<forall>c \<in> set new. cr_status c = Cred_ACTIVE \<and> cr_type c = RESULT_SLIP \<and>
        cr_institutionId c = rb_institutionId batch)"
proof -
  from assms obtain batch ok new where batch: "find_by rb_uuid b (resultBatches d) = Some batch"
    and approved: "rb_status batch = Rec_APPROVED"
    and ok: "assertInstitutionCan e d (rb_institutionId batch) ''publish_credentials'' (Some auth) = Inr ok"
    and batches: "resultBatches d' = set_by rb_uuid b (publishedBatch (now e)) (resultBatches d)"
    and records: "academicRecords d' = update_rows (\<lambda>r. ar_resultBatchId r = Some b)
           (publishedRecord (now e)) (academicRecords d)"
    and new: "credentials d' = credentials d @ new"
      "map cr_academicRecordId new = map (\<lambda>r. Some (ar_uuid r)) (batchRecords d b)"
      "\<And>c. c \<in> set new \<Longrightarrow> cr_status c = Cred_ACTIVE \<and> cr_type c = RESULT_SLIP \<and>
           cr_institutionId c = rb_institutionId batch \<and> cr_recordRequestId c = None"
    by (rule publishBatch_Inr) blast
  from assertInstitutionCan_helper [OF ok] obtain i g where "i \<in> set (institutions d)"
    "institutionWhere (rb_institutionId batch) i" "in_status i = Inst_ACTIVE"
    "may_operate d auth (in_uuid i)" "g \<in> set (authorityGrants d)" "ag_institutionId g = in_uuid i"
    "ag_status g = Grant_ACTIVE" "grantInForce (now e) ''publish_credentials'' g" by auto
  then show ?thesis
    using batch approved new batches records
    by (intro exI [of _ batch] exI [of _ i] exI [of _ new])
      (auto simp: row_simps publishedBatch_def update_rows_def)
qed

lemma find_by_append_other:
  "find_by key k (rows @ [r]) = (if find_by key k rows = None \<and> key r = k then Some r else find_by key k rows)"
  by (simp add: row_simps split: option.splits)

text \<open>The conditions under which a publication goes through: the references it draws are new.\<close>

lemma publishBatch_succeeds:
  assumes "find_by rb_uuid b (resultBatches d) = Some batch" and "rb_status batch = Rec_APPROVED"
    and "assertInstitutionCan e d (rb_institutionId batch) ''publish_credentials'' (Some auth) = Inr ok"
    and inj: "inj (gen e)" and distinct: "distinct (map cr_credentialRef (credentials d))"
    and "\<And>c k. c \<in> set (credentials d) \<Longrightarrow> draws d \<le> k \<Longrightarrow> cr_credentialRef c \<noteq> gen e k"
  shows "\<exists>d'. publishBatch e sign d auth b = Inr (publishedBatch (now e) batch, d')"
proof -
  define issuer where "issuer = (case find_by in_uuid (rb_institutionId batch) (institutions d) of
      None \<Rightarrow> [] | Some i \<Rightarrow> in_institutionId i)"
  define signing where "signing = signRecords e sign issuer (rb_institutionId batch) (batchRecords d b) d"
  define d2 where "d2 = (snd signing)\<lparr>
      resultBatches := set_by rb_uuid b (publishedBatch (now e)) (resultBatches d),
      academicRecords := update_rows (\<lambda>r. ar_resultBatchId r = Some b) (publishedRecord (now e))
        (academicRecords d)\<rparr>"
  have sd: "snd signing = d\<lparr>draws := draws d + length (batchRecords d b)\<rparr>"
    by (simp add: signing_def signRecords_db)
  have "credentials d2 = credentials d" by (simp add: d2_def sd)
  moreover have "map cr_credentialRef (fst signing) = map (gen e) [draws d..<draws d + length (batchRecords d b)]"
    by (simp add: signing_def signRecords_refs)
  ultimately have "distinct (map cr_credentialRef (credentials d2) @ map cr_credentialRef (fst signing))"
    using distinct assms(6) inj_on_subset [OF inj subset_UNIV]
    by (auto simp: distinct_map [of "gen e"])
  then obtain d3 where "foldE (createCredential e) (fst signing) d2 = Inr d3"
    using createAll_succeeds by blast
  moreover have "update_by rb_uuid b (publishedBatch (now e)) (resultBatches d) =
      Inr (set_by rb_uuid b (publishedBatch (now e)) (resultBatches d))"
    using assms(1) by (simp add: update_by_def)
  ultimately show ?thesis
    using assms(1,2,3)
    by (simp add: publishBatch_def Let_def signing_def [symmetric] issuer_def [symmetric] d2_def sd)
qed

lemma transitionBatch_helper:
  assumes "find_by rb_uuid b (resultBatches d) = Some batch"
    and "may_operate d auth (rb_institutionId batch)"
  shows "\<exists>r. transitionBatch e d auth b s = Inr r"
  using assms assertActor_complete by (simp add: transitionBatch_def update_by_def)

text \<open>Nothing in the transitions looks at the status the batch has: whoever may operate the
  institution can move a batch to any of the three states from every state, PUBLISHED included.\<close>

theorem transitionBatch_any_status:
  "(\<exists>r. transitionBatch e d auth b s = Inr r) \<longleftrightarrow>
     (\<exists>batch. find_by rb_uuid b (resultBatches d) = Some batch \<and>
        may_operate d auth (rb_institutionId batch))"
  using assertActor_sound assertActor_complete
  by (auto simp: transitionBatch_def err_simps update_by_def)

lemma transitionBatch_Inr:
  assumes "transitionBatch e d auth b s = Inr (batch', d')"
  obtains batch ev where "find_by rb_uuid b (resultBatches d) = Some batch"
    and "batch' = transitionData (now e) s batch"
    and "d' = audit_write ev (d\<lparr>resultBatches := set_by rb_uuid b (transitionData (now e) s) (resultBatches d)\<rparr>)"
  using assms by (auto simp: transitionBatch_def err_simps)

lemma transitionData_uuid [simp]: "rb_uuid (transitionData t s b) = rb_uuid b"
  by (cases s) simp_all

lemma transitionData_institution [simp]: "rb_institutionId (transitionData t s b) = rb_institutionId b"
  by (cases s) simp_all

lemma batchRecords_after_publish:
  "academicRecords d' = update_rows (\<lambda>r. ar_resultBatchId r = Some b) (publishedRecord t) (academicRecords d) \<Longrightarrow>
   map ar_uuid (batchRecords d' b) = map ar_uuid (batchRecords d b)"
proof (simp add: batchRecords_def)
  fix rs
  show "map ar_uuid (filter (\<lambda>r. ar_resultBatchId r = Some b)
      (update_rows (\<lambda>r. ar_resultBatchId r = Some b) (publishedRecord t) (rs :: academic_record list))) =
    map ar_uuid (filter (\<lambda>r. ar_resultBatchId r = Some b) rs)"
    by (induction rs) (auto simp: publishedRecord_def)
qed

text \<open>A published batch can be published again. After a publication the same caller can approve the
  batch once more and publish it a second time, and every record then carries two credentials.\<close>

theorem publish_twice:
  assumes first: "publishBatch e sign d auth b = Inr (batch1, d1)"
    and caller: "\<And>batch. find_by rb_uuid b (resultBatches d) = Some batch \<Longrightarrow>
      may_operate d auth (rb_institutionId batch)"
    and inj: "inj (gen e)" and distinct: "distinct (map cr_credentialRef (credentials d))"
    and fresh: "\<And>c k. c \<in> set (credentials d) \<Longrightarrow> draws d \<le> k \<Longrightarrow> cr_credentialRef c \<noteq> gen e k"
  shows "\<exists>batch2 d2 batch3 d3.
     transitionBatch e d1 auth b APPROVED = Inr (batch2, d2) \<and>
     publishBatch e sign d2 auth b = Inr (batch3, d3) \<and>
     map cr_academicRecordId (credentials d3) = map cr_academicRecordId (credentials d) @
       map (\<lambda>r. Some (ar_uuid r)) (batchRecords d b) @ map (\<lambda>r. Some (ar_uuid r)) (batchRecords d b)"
proof -
  from first obtain batch ok new where batch: "find_by rb_uuid b (resultBatches d) = Some batch"
    and ok: "assertInstitutionCan e d (rb_institutionId batch) ''publish_credentials'' (Some auth) = Inr ok"
    and batches: "resultBatches d1 = set_by rb_uuid b (publishedBatch (now e)) (resultBatches d)"
    and records: "academicRecords d1 = update_rows (\<lambda>r. ar_resultBatchId r = Some b)
           (publishedRecord (now e)) (academicRecords d)"
    and new: "credentials d1 = credentials d @ new"
      "map cr_academicRecordId new = map (\<lambda>r. Some (ar_uuid r)) (batchRecords d b)"
      "map cr_credentialRef new = map (gen e) [draws d..<draws d + length (batchRecords d b)]"
    and frame: "institutions d1 = institutions d" "authorityGrants d1 = authorityGrants d"
      "institutionUsers d1 = institutionUsers d"
    and draws1: "draws d1 = draws d + 2 * length (batchRecords d b)"
    by (rule publishBatch_Inr) blast
  have b1: "find_by rb_uuid b (resultBatches d1) = Some (publishedBatch (now e) batch)"
    using batch batches by (simp add: row_simps publishedBatch_def)
  have "may_operate d1 auth (rb_institutionId (publishedBatch (now e) batch))"
    using caller [OF batch] may_operate_cong [OF frame(1,3)] by (simp add: publishedBatch_def)
  then obtain batch2 d2 where step: "transitionBatch e d1 auth b APPROVED = Inr (batch2, d2)"
    using transitionBatch_helper [OF b1] by fastforce
  then obtain ev where d2: "d2 = audit_write ev
      (d1\<lparr>resultBatches := set_by rb_uuid b (transitionData (now e) APPROVED) (resultBatches d1)\<rparr>)"
    by (rule transitionBatch_Inr) blast
  let ?batch2 = "transitionData (now e) APPROVED (publishedBatch (now e) batch)"
  have b2: "find_by rb_uuid b (resultBatches d2) = Some ?batch2"
    using b1 d2 by (simp add: row_simps)
  have uuids: "map ar_uuid (batchRecords d2 b) = map ar_uuid (batchRecords d b)"
    using batchRecords_after_publish [OF records] d2 by (simp add: batchRecords_def)
  have "\<exists>d3. publishBatch e sign d2 auth b = Inr (publishedBatch (now e) ?batch2, d3)"
  proof (rule publishBatch_succeeds [OF b2 _ _ inj])
    show "assertInstitutionCan e d2 (rb_institutionId ?batch2) ''publish_credentials'' (Some auth) = Inr ok"
      using ok frame d2 assertInstitutionCan_cong [of d2 d] by (simp add: publishedBatch_def)
    show "distinct (map cr_credentialRef (credentials d2))"
      using distinct new(1,3) fresh inj_on_subset [OF inj subset_UNIV] d2
      by (auto simp: distinct_map [of "gen e"])
    fix c k assume "c \<in> set (credentials d2)" "draws d2 \<le> k"
    moreover have "cr_credentialRef c \<noteq> gen e k" if "c \<in> set new" "draws d1 \<le> k" for c k
    proof -
      from that(1) have "cr_credentialRef c \<in> set (map cr_credentialRef new)" by simp
      then obtain m where "cr_credentialRef c = gen e m" "m < draws d + length (batchRecords d b)"
        unfolding new(3) by auto
      with that(2) draws1 injD [OF inj] show ?thesis by fastforce
    qed
    ultimately show "cr_credentialRef c \<noteq> gen e k" using fresh new(1) draws1 d2 by auto
  qed simp
  then obtain d3 where d3: "publishBatch e sign d2 auth b = Inr (publishedBatch (now e) ?batch2, d3)"
    by blast
  then obtain new2 where "credentials d3 = credentials d2 @ new2"
    "map cr_academicRecordId new2 = map (\<lambda>r. Some (ar_uuid r)) (batchRecords d2 b)"
    by (rule publishBatch_Inr) blast
  moreover have "map (\<lambda>r. Some (ar_uuid r)) (batchRecords d2 b) = map (\<lambda>r. Some (ar_uuid r)) (batchRecords d b)"
    using arg_cong [OF uuids, of "map Some"] by (simp add: comp_def)
  ultimately show ?thesis using step d3 new(1,2) d2 by auto
qed

section \<open>What the standing says\<close>

lemma round_to_of_int [simp]: "round_to (of_int k) p = of_int k"
proof -
  have "of_int k * (10 :: rat) ^ p = of_int (k * 10 ^ p)" by simp
  then have "math_round (of_int k * (10 :: rat) ^ p) = k * 10 ^ p" by (metis math_round_of_int)
  then show ?thesis by (simp add: round_to_def)
qed

lemma round_to_mono: "x \<le> y \<Longrightarrow> round_to x p \<le> round_to y p"
  by (simp add: round_to_def divide_right_mono math_round_mono mult_right_mono)

lemma round_to_nonneg: "0 \<le> x \<Longrightarrow> 0 \<le> round_to x p"
  using round_to_mono [of 0 x p] round_to_of_int [of 0 p] by simp

lemma round_to_le_int: "x \<le> of_int k \<Longrightarrow> round_to x p \<le> of_int k"
  using round_to_mono [of x "of_int k" p] by simp

lemma sum_list_le:
  fixes f g :: "'a \<Rightarrow> rat"
  shows "(\<And>x. x \<in> set xs \<Longrightarrow> f x \<le> g x) \<Longrightarrow> sum_list (map f xs) \<le> sum_list (map g xs)"
  by (induction xs) (auto intro: add_mono)

lemma sum_list_int:
  fixes f :: "'a \<Rightarrow> rat"
  assumes "\<And>x. x \<in> set xs \<Longrightarrow> f x \<in> \<int>"
  shows "\<exists>k. sum_list (map f xs) = of_int k"
  using assms
proof (induction xs)
  case Nil
  show ?case by (intro exI [of _ 0]) simp
next
  case (Cons x xs)
  then obtain k where k: "sum_list (map f xs) = of_int k" by auto
  from Cons.prems have "f x \<in> \<int>" by simp
  then obtain l where "f x = of_int l" by (rule Ints_cases)
  with k show ?case by (intro exI [of _ "l + k"]) simp
qed

text \<open>A graded record whose quality points are grade point times credit units, on a scale up to \<open>m\<close>.\<close>

definition consistent_record :: "rat \<Rightarrow> academic_record \<Rightarrow> bool" where
  "consistent_record m r \<longleftrightarrow>
     decimalToNumber (ar_creditUnits r) \<in> \<int> \<and> 0 \<le> decimalToNumber (ar_creditUnits r) \<and>
     0 \<le> decimalToNumber (ar_gradePoint r) \<and> decimalToNumber (ar_gradePoint r) \<le> m \<and>
     decimalToNumber (ar_qualityPoints r) =
       decimalToNumber (ar_gradePoint r) * decimalToNumber (ar_creditUnits r)"

text \<open>With whole credit units, a whole grade point scale and consistent records, rounding cannot
  push the standing out of its scale: the CGPA lies between 0 and the grade point maximum, and the
  credit units earned do not exceed those attempted.\<close>

theorem standing_in_scale:
  assumes records: "\<And>r. r \<in> set (rollupRecords d (en_uuid en)) \<Longrightarrow>
      consistent_record (sd_gradePointMax (standingOf e d en)) r"
    and scale: "sd_gradePointMax (standingOf e d en) \<in> \<int>"
  shows "(case sd_cgpa (standingOf e d en) of
       None \<Rightarrow> sd_attemptedCreditUnits (standingOf e d en) = 0
     | Some c \<Rightarrow> 0 \<le> c \<and> c \<le> sd_gradePointMax (standingOf e d en)) \<and>
     0 \<le> sd_earnedCreditUnits (standingOf e d en) \<and>
     sd_earnedCreditUnits (standingOf e d en) \<le> sd_attemptedCreditUnits (standingOf e d en)"
proof -
  let ?rs = "rollupRecords d (en_uuid en)"
  let ?m = "sd_gradePointMax (standingOf e d en)"
  let ?A = "sum_list (map (\<lambda>r. decimalToNumber (ar_creditUnits r)) ?rs)"
  let ?Q = "sum_list (map (\<lambda>r. decimalToNumber (ar_qualityPoints r)) ?rs)"
  let ?E = "sum_list (map (\<lambda>r. if decimalToNumber (ar_gradePoint r) > 0
      then decimalToNumber (ar_creditUnits r) else 0) ?rs)"
  have units: "decimalToNumber (ar_creditUnits r) \<in> \<int>" "0 \<le> decimalToNumber (ar_creditUnits r)"
    and point: "0 \<le> decimalToNumber (ar_gradePoint r)" "decimalToNumber (ar_gradePoint r) \<le> ?m"
    and quality: "decimalToNumber (ar_qualityPoints r) =
      decimalToNumber (ar_gradePoint r) * decimalToNumber (ar_creditUnits r)"
    if "r \<in> set ?rs" for r
    using records [OF that] by (simp_all add: consistent_record_def)
  obtain a where a: "?A = of_int a"
    using sum_list_int [of ?rs "\<lambda>r. decimalToNumber (ar_creditUnits r)"] units(1) by blast
  obtain m where m: "?m = of_int m" using scale by (auto elim: Ints_cases)
  have "sum_list (map (\<lambda>_. 0) ?rs) \<le> ?A" by (rule sum_list_le) (rule units(2))
  then have A0: "0 \<le> ?A" by simp
  have "sum_list (map (\<lambda>_. 0) ?rs) \<le> ?Q"
    by (rule sum_list_le) (simp add: quality point(1) units(2))
  then have Q0: "0 \<le> ?Q" by simp
  have "sum_list (map (\<lambda>_. 0) ?rs) \<le> ?E" by (rule sum_list_le) (simp add: units(2))
  then have E0: "0 \<le> ?E" by simp
  have EA: "?E \<le> ?A" by (rule sum_list_le) (simp add: units(2))
  have "?Q \<le> sum_list (map (\<lambda>r. ?m * decimalToNumber (ar_creditUnits r)) ?rs)"
    by (rule sum_list_le) (simp only: quality mult_right_mono [OF point(2) units(2)])
  then have "?Q \<le> of_int (m * a)" by (simp add: sum_list_const_mult a m)
  then have "round_to ?Q 4 \<le> of_int (m * a)" by (rule round_to_le_int)
  then have QA: "round_to ?Q 4 / of_int a \<le> of_int m" if "0 < a"
    using that by (simp add: divide_le_eq)
  have at: "sd_attemptedCreditUnits (standingOf e d en) = of_int a"
    and ea: "sd_earnedCreditUnits (standingOf e d en) = round_to ?E 4"
    and cg: "sd_cgpa (standingOf e d en) =
      (if 0 < a then Some (round_to (round_to ?Q 4 / of_int a) 4) else None)"
    by (simp_all add: standingOf_def Let_def a)
  have "0 \<le> a" using A0 a by simp
  moreover have "round_to ?E 4 \<le> of_int a" using EA a by (intro round_to_le_int) simp
  moreover have "0 \<le> round_to ?E 4" using E0 by (rule round_to_nonneg)
  moreover have "0 \<le> round_to (round_to ?Q 4 / of_int a) 4" if "0 < a"
    using that Q0 by (intro round_to_nonneg divide_nonneg_pos) (auto intro: round_to_nonneg)
  ultimately show ?thesis
    using QA m by (auto simp: at ea cg intro: round_to_le_int)
qed

text \<open>The class of degree depends on the CGPA relative to its scale only: the same performance on a
  4 point and on a 5 point scale gets the same class.\<close>

theorem classifyCgpa_scale:
  assumes "0 < k" and "0 < m"
  shows "classifyCgpa (k * c) (k * m) = classifyCgpa c m"
  using assms by (simp add: classifyCgpa_def Let_def)

section \<open>Witnesses\<close>

definition sample_batch_db :: db where
  "sample_batch_db = sample_db\<lparr>
     resultBatches := [\<lparr>rb_uuid = ''b1'', rb_institutionId = school, rb_status = Rec_APPROVED,
       rb_rejectionCount = 0, rb_submittedAt = None, rb_reviewedAt = None, rb_approvedAt = Some 900,
       rb_publishedAt = None, rb_academicSessionId = Some ''s1'', rb_structureScopeId = None,
       rb_gradingRuleSetId = None, rb_uploadMode = COURSE_BASED, rb_title = ''First'', rb_batchLabel = None,
       rb_createdById = ''reg'', rb_createdByInstitutionUserId = None, rb_recordCount = 1,
       rb_validationSummary = JNull\<rparr>],
     academicRecords := [\<lparr>ar_uuid = ''r1'', ar_enrolmentId = ''e1'', ar_resultBatchId = Some ''b1'',
       ar_academicSessionId = Some ''s1'', ar_gradingRuleSetId = None, ar_periodLabel = ''First'',
       ar_subjectCode = ''MTH'', ar_subjectName = ''Mathematics'', ar_totalScore = 72,
       ar_grade = ''A'', ar_gradePoint = Some 5, ar_creditUnits = Some 3, ar_qualityPoints = Some 15,
       ar_status = Rec_PUBLISHED, ar_publishedAt = Some 950, ar_createdAt = 800, ar_structureScopeId = None,
       ar_periodType = Period_SEMESTER, ar_caScore = None, ar_examScore = None\<rparr>]\<rparr>"

definition sample_sign :: "jval \<Rightarrow> jval \<times> string" where
  "sample_sign payload = (JObj [(''jws'', JStr ''s'')], ''s'')"

lemma sample_batch_facts:
  "find_by rb_uuid ''b1'' (resultBatches sample_batch_db) =
     Some (hd (resultBatches sample_batch_db))"
  "rb_status (hd (resultBatches sample_batch_db)) = Rec_APPROVED"
  "rb_institutionId (hd (resultBatches sample_batch_db)) = school"
  "credentials sample_batch_db = []"
  "institutions sample_batch_db = institutions sample_db"
  "authorityGrants sample_batch_db = authorityGrants sample_db"
  "map (\<lambda>r. Some (ar_uuid r)) (batchRecords sample_batch_db ''b1'') = [Some ''r1'']"
  by (simp_all add: sample_batch_db_def sample_db_def empty_db_def batchRecords_def)

lemma sample_publishes:
  "\<exists>d'. publishBatch sample_env sign sample_batch_db founder ''b1'' =
     Inr (publishedBatch (now sample_env) (hd (resultBatches sample_batch_db)), d')"
  by (rule publishBatch_succeeds [OF sample_batch_facts(1,2) _ inj_sample_gen])
    (simp_all add: sample_batch_facts(3-6) sample_institution_can)

theorem publishBatch_publishes_witness:
  "\<exists>batch' d'. publishBatch sample_env sample_sign sample_batch_db founder ''b1'' = Inr (batch', d') \<and>
     map cr_academicRecordId (credentials d') = [Some ''r1'']"
proof -
  obtain batch' d' where ok:
    "publishBatch sample_env sample_sign sample_batch_db founder ''b1'' = Inr (batch', d')"
    using sample_publishes by blast
  from publishBatch_publishes [OF ok] obtain new where
    "credentials d' = credentials sample_batch_db @ new"
    "map cr_academicRecordId new = map (\<lambda>r. Some (ar_uuid r)) (batchRecords sample_batch_db ''b1'')"
    by blast
  with ok sample_batch_facts show ?thesis by auto
qed

theorem publish_twice_witness:
  "\<exists>batch1 d1 batch2 d2 batch3 d3.
     publishBatch sample_env sample_sign sample_batch_db founder ''b1'' = Inr (batch1, d1) \<and>
     transitionBatch sample_env d1 founder ''b1'' APPROVED = Inr (batch2, d2) \<and>
     publishBatch sample_env sample_sign d2 founder ''b1'' = Inr (batch3, d3) \<and>
     map cr_academicRecordId (credentials d3) = [Some ''r1'', Some ''r1'']"
proof -
  obtain batch' d' where ok:
    "publishBatch sample_env sample_sign sample_batch_db founder ''b1'' = Inr (batch', d')"
    using sample_publishes by blast
  from publish_twice [OF ok _ inj_sample_gen] ok show ?thesis
    by (auto simp: sample_batch_facts founder_may_operate)
qed

theorem standing_in_scale_witness:
  "\<exists>c. sd_cgpa (standingOf sample_env sample_batch_db (hd (enrolments sample_db))) = Some c \<and>
     0 \<le> c \<and> c \<le> 5"
proof -
  let ?s = "standingOf sample_env sample_batch_db (hd (enrolments sample_db))"
  have roll: "rollupRecords sample_batch_db (en_uuid (hd (enrolments sample_db))) =
      academicRecords sample_batch_db"
    by (simp add: rollupRecords_def countedRecords_def latestFirst_def sample_batch_db_def sample_db_def
        ruleSetOf_def)
  have m: "sd_gradePointMax ?s = 5"
    by (simp add: standingOf_def Let_def roll)
      (simp add: resolveGradePointMax_def sample_batch_db_def ruleSetOf_def decimalToNumber_def max_of_def)
  have r: "consistent_record (sd_gradePointMax ?s) r" if "r \<in> set (academicRecords sample_batch_db)" for r
    using that unfolding m by (simp add: sample_batch_db_def consistent_record_def decimalToNumber_def)
  have "sum_list (map (\<lambda>r. decimalToNumber (ar_creditUnits r)) (academicRecords sample_batch_db)) = of_int 3"
    by (simp add: sample_batch_db_def decimalToNumber_def)
  then have "sd_attemptedCreditUnits ?s = of_int 3"
    unfolding standingOf_def Let_def by (simp only: roll round_to_of_int academic_standing.simps)
  then have "0 < sd_attemptedCreditUnits ?s" by simp
  then have "sd_cgpa ?s \<noteq> None"
    by (simp add: standingOf_def Let_def)
  moreover have "sd_gradePointMax ?s \<in> \<int>" unfolding m by simp
  ultimately show ?thesis
    using standing_in_scale [of sample_batch_db "hd (enrolments sample_db)" sample_env, unfolded roll, OF r]
    by (auto simp: m)
qed

theorem classifyCgpa_scale_witness: "classifyCgpa (5 / 4 * 3) (5 / 4 * 4) = classifyCgpa 3 4"
  by (rule classifyCgpa_scale) simp_all

end
