(* ===== verification/RecordRequests.thy ===== *)
theory RecordRequests
  imports ResultBatches
begin

text \<open>
  The record requests of \<open>gateway/governance/governance.service.ts\<close> (review, payment confirmation,
  refund, fulfilment) with the zod schemas of \<open>packages/shared/src/schemas.ts\<close> they parse their
  bodies with. A body is \<open>None\<close> when it does not have the shape of the schema, so that \<open>safeParse\<close>
  fails; otherwise its record holds the fields, and \<open>..._ok\<close> is the schema's length and range checks.

  The payment of a request is held in escrow until a credential is published or the money goes
  back; the lemmas say what the four operations and their repetitions keep of that.
\<close>

section \<open>Bodies\<close>

definition safeParse :: "('b \<Rightarrow> bool) \<Rightarrow> 'b option \<Rightarrow> 'b res" where
  "safeParse ok body =
     (case body of
        None \<Rightarrow> Inl (BadRequest ''validation'')
      | Some b \<Rightarrow> (if ok b then Inr b else Inl (BadRequest ''validation'')))"

lemma safeParse_eq_Inr [err_simps]: "safeParse ok body = Inr b \<longleftrightarrow> body = Some b \<and> ok b"
  by (cases body) (auto simp: safeParse_def)

definition len_in :: "nat \<Rightarrow> nat \<Rightarrow> string \<Rightarrow> bool" where
  "len_in lo hi s \<longleftrightarrow> lo \<le> length s \<and> length s \<le> hi"

definition opt_ok :: "('a \<Rightarrow> bool) \<Rightarrow> 'a option \<Rightarrow> bool" where
  "opt_ok p x = (case x of None \<Rightarrow> True | Some v \<Rightarrow> p v)"

lemma opt_ok_simps [simp]: "opt_ok p None" "opt_ok p (Some x) \<longleftrightarrow> p x"
  by (simp_all add: opt_ok_def)

record review_body =
  rvb_status :: request_status
  rvb_note :: "string option"
  rvb_assignedToId :: "string option"
  rvb_rejectionReason :: "string option"
  rvb_escalationReason :: "string option"
  rvb_resolutionNote :: "string option"

definition reviewRecordRequest_ok :: "env \<Rightarrow> review_body \<Rightarrow> bool" where
  "reviewRecordRequest_ok e b \<longleftrightarrow>
     opt_ok (len_in 0 2000) (rvb_note b) \<and> opt_ok (zod_uuid e) (rvb_assignedToId b) \<and>
     opt_ok (len_in 0 1000) (rvb_rejectionReason b) \<and> opt_ok (len_in 0 1000) (rvb_escalationReason b) \<and>
     opt_ok (len_in 0 2000) (rvb_resolutionNote b)"

record confirm_body =
  cfb_paymentReference :: string
  cfb_amountMinor :: "int option"
  cfb_currency :: "string option"
  cfb_paymentProvider :: "string option"
  cfb_paidAt :: "string option"
  cfb_note :: "string option"

definition amount_ok :: "int \<Rightarrow> bool" where
  "amount_ok n \<longleftrightarrow> 0 < n \<and> n \<le> 100000000"

definition confirmRecordRequestPayment_ok :: "env \<Rightarrow> confirm_body \<Rightarrow> bool" where
  "confirmRecordRequestPayment_ok e b \<longleftrightarrow>
     len_in 3 160 (cfb_paymentReference b) \<and> opt_ok amount_ok (cfb_amountMinor b) \<and>
     opt_ok (\<lambda>s. length s = 3) (cfb_currency b) \<and> opt_ok (len_in 2 60) (cfb_paymentProvider b) \<and>
     opt_ok (\<lambda>s. zod_datetime e s \<noteq> None) (cfb_paidAt b) \<and> opt_ok (len_in 0 1000) (cfb_note b)"

datatype refund_action = REQUEST | CONFIRM

record refund_body =
  rfb_action :: "refund_action option"
  rfb_reason :: string
  rfb_amountMinor :: "int option"
  rfb_refundReference :: "string option"
  rfb_paymentProvider :: "string option"
  rfb_refundedAt :: "string option"
  rfb_note :: "string option"

definition refundRecordRequestPayment_ok :: "env \<Rightarrow> refund_body \<Rightarrow> bool" where
  "refundRecordRequestPayment_ok e b \<longleftrightarrow>
     len_in 3 1000 (rfb_reason b) \<and> opt_ok amount_ok (rfb_amountMinor b) \<and>
     opt_ok (len_in 3 160) (rfb_refundReference b) \<and> opt_ok (len_in 2 60) (rfb_paymentProvider b) \<and>
     opt_ok (\<lambda>s. zod_datetime e s \<noteq> None) (rfb_refundedAt b) \<and> opt_ok (len_in 0 1000) (rfb_note b)"

record fulfill_body =
  ffb_credentialType :: "credential_type option"
  ffb_note :: "string option"
  ffb_releasePayment :: "bool option"

definition fulfillRecordRequest_ok :: "fulfill_body \<Rightarrow> bool" where
  "fulfillRecordRequest_ok b \<longleftrightarrow> opt_ok (len_in 0 2000) (ffb_note b)"

text \<open>\<open>parsed.data.paidAt ? new Date(parsed.data.paidAt) : new Date()\<close>\<close>

definition dateOr :: "env \<Rightarrow> string option \<Rightarrow> int" where
  "dateOr e x =
     (case x of None \<Rightarrow> now e | Some s \<Rightarrow> (if s = [] then now e else getOr (zod_datetime e s) (now e)))"

section \<open>Notes and texts\<close>

definition appendRecordRequestNote :: "jval \<Rightarrow> (string \<times> jval) list \<Rightarrow> jval" where
  "appendRecordRequestNote existing note =
     (case existing of JArr notes \<Rightarrow> JArr (notes @ [JObj note]) | _ \<Rightarrow> JArr [JObj note])"

fun request_status_text :: "request_status \<Rightarrow> string" where
  "request_status_text RR_SUBMITTED = ''SUBMITTED''"
| "request_status_text RR_AWAITING_PAYMENT = ''AWAITING_PAYMENT''"
| "request_status_text RR_ASSIGNED = ''ASSIGNED''"
| "request_status_text RR_INSTITUTION_REVIEW = ''INSTITUTION_REVIEW''"
| "request_status_text RR_NEEDS_MORE_INFORMATION = ''NEEDS_MORE_INFORMATION''"
| "request_status_text RR_APPROVED = ''APPROVED''"
| "request_status_text RR_REJECTED = ''REJECTED''"
| "request_status_text RR_FULFILLED = ''FULFILLED''"
| "request_status_text RR_DISPUTED = ''DISPUTED''"
| "request_status_text RR_ESCALATED = ''ESCALATED''"
| "request_status_text RR_CANCELLED = ''CANCELLED''"

fun payment_text :: "payment_status \<Rightarrow> string" where
  "payment_text Pay_NOT_REQUIRED = ''NOT_REQUIRED''"
| "payment_text Pay_PENDING = ''PENDING''"
| "payment_text Pay_PAID = ''PAID''"
| "payment_text Pay_WAIVED = ''WAIVED''"
| "payment_text Pay_REFUNDED = ''REFUNDED''"

fun escrow_text :: "escrow_status \<Rightarrow> string" where
  "escrow_text Esc_NONE = ''NONE''"
| "escrow_text Esc_HELD = ''HELD''"
| "escrow_text Esc_RELEASED = ''RELEASED''"
| "escrow_text Esc_REFUND_PENDING = ''REFUND_PENDING''"
| "escrow_text Esc_REFUNDED = ''REFUNDED''"

fun credential_type_text :: "credential_type \<Rightarrow> string" where
  "credential_type_text TRANSCRIPT = ''TRANSCRIPT''"
| "credential_type_text RESULT_SLIP = ''RESULT_SLIP''"
| "credential_type_text CERTIFICATE = ''CERTIFICATE''"

definition jopt_int :: "int option \<Rightarrow> jval" where
  "jopt_int x = (case x of None \<Rightarrow> JNull | Some i \<Rightarrow> jint i)"

section \<open>Review\<close>

definition assertRecordRequestReviewer :: "db \<Rightarrow> auth_token \<Rightarrow> record_request \<Rightarrow> unit res" where
  "assertRecordRequestReviewer d auth r =
     (if truthy_text (rr_institutionId r)
      then assertActorCanOperateInstitution d auth (getOr (rr_institutionId r) [])
      else failIf (au_role auth \<noteq> ACADID_SUPER_ADMIN)
             (Forbidden ''Only founder operations can review unassigned record requests.''))"

definition listRecordRequests :: "db \<Rightarrow> auth_token \<Rightarrow> request_status option \<Rightarrow> record_request list" where
  "listRecordRequests d auth status =
     take 200 (filter (\<lambda>r. institutionWhereForActor d auth (rr_institutionId r) \<and>
                           opt_ok (\<lambda>s. rr_status r = s) status) (rev (recordRequests d)))"

definition reviewedRequest ::
    "env \<Rightarrow> auth_token \<Rightarrow> review_body \<Rightarrow> record_request \<Rightarrow> record_request" where
  "reviewedRequest e auth b r =
     (let status = rvb_status b
      in r\<lparr>rr_status := status,
          rr_notes := appendRecordRequestNote (rr_notes r)
            [(''at'', JStr (toISOString (now e))), (''by'', JStr (au_sub auth)),
             (''role'', JStr (role_text (au_role auth))),
             (''status'', JStr (request_status_text status)), (''note'', jstr (rvb_note b))],
          rr_assignedToId := orElse (rvb_assignedToId b) (rr_assignedToId r),
          rr_assignedAt := (if truthy_text (rvb_assignedToId b) then Some (now e) else rr_assignedAt r),
          rr_rejectionReason :=
            (if status = RR_REJECTED
             then orElse (orElse (rvb_rejectionReason b) (rvb_note b)) (rr_rejectionReason r)
             else rr_rejectionReason r),
          rr_rejectedAt := (if status = RR_REJECTED then Some (now e) else rr_rejectedAt r),
          rr_escalationReason :=
            (if status = RR_ESCALATED
             then orElse (orElse (rvb_escalationReason b) (rvb_note b)) (rr_escalationReason r)
             else rr_escalationReason r),
          rr_escalatedAt := (if status = RR_ESCALATED then Some (now e) else rr_escalatedAt r)\<rparr>)"

definition reviewRecordRequest ::
    "env \<Rightarrow> db \<Rightarrow> auth_token \<Rightarrow> string \<Rightarrow> review_body option \<Rightarrow> (record_request \<times> db) res" where
  "reviewRecordRequest e d auth rid body =
     bindE (safeParse (reviewRecordRequest_ok e) body) (\<lambda>parsed.
     bindE (require (find_by rr_uuid rid (recordRequests d)) (BadRequest ''Record request not found.'')) (\<lambda>existing.
     bindE (assertRecordRequestReviewer d auth existing) (\<lambda>_.
     bindE (failIf (rvb_status parsed = RR_FULFILLED)
       (BadRequest ''Use the record request fulfillment endpoint to publish a credential and release payment.'')) (\<lambda>_.
     bindE (update_by rr_uuid rid (reviewedRequest e auth parsed) (recordRequests d)) (\<lambda>rows.
     let request = reviewedRequest e auth parsed existing
     in Inr (request,
       audit_write (governanceActor auth (audit_event_of ''record_request.review'' ''RecordRequest''
           (rr_uuid request) (rr_institutionId request)
           (JObj [(''requestId'', JStr (rr_requestId request)),
                  (''status'', JStr (request_status_text (rvb_status parsed))),
                  (''apiKeyId'', jstr (au_apiKeyId auth))])))
         (d\<lparr>recordRequests := rows\<rparr>)))))))"

section \<open>Payment\<close>

definition closedRequest :: "record_request \<Rightarrow> bool" where
  "closedRequest r \<longleftrightarrow> rr_status r \<in> {RR_REJECTED, RR_CANCELLED, RR_FULFILLED}"

definition afterPayment :: "request_status \<Rightarrow> request_status" where
  "afterPayment s = (if s = RR_AWAITING_PAYMENT then RR_SUBMITTED else s)"

definition paidRequest ::
    "int \<Rightarrow> int \<Rightarrow> (string \<times> jval) list \<Rightarrow> string \<Rightarrow> string \<Rightarrow> string \<Rightarrow> record_request \<Rightarrow> record_request" where
  "paidRequest paidAt amount note reference provider currency r =
     r\<lparr>rr_status := afterPayment (rr_status r), rr_paymentStatus := Pay_PAID,
       rr_escrowStatus := Esc_HELD, rr_paymentReference := Some reference,
       rr_paymentProvider := Some provider, rr_amountMinor := Some amount,
       rr_currency := currency, rr_paymentHeldAt := Some paidAt,
       rr_notes := appendRecordRequestNote (rr_notes r) note\<rparr>"

text \<open>The row data of a confirmation: \<open>expected\<close> is the amount that goes into escrow.\<close>

definition confirmedRequest ::
    "env \<Rightarrow> auth_token \<Rightarrow> confirm_body \<Rightarrow> int \<Rightarrow> record_request \<Rightarrow> record_request \<Rightarrow> record_request" where
  "confirmedRequest e auth b expected existing =
     (let paidAt = dateOr e (cfb_paidAt b);
          note = [(''at'', JStr (toISOString paidAt)), (''by'', JStr (au_sub auth)),
                  (''role'', JStr (role_text (au_role auth))),
                  (''status'', JStr (request_status_text (rr_status existing))),
                  (''note'', JStr (getOr (cfb_note b) ''Payment confirmed and held in escrow.'')),
                  (''paymentReference'', JStr (cfb_paymentReference b))]
      in paidRequest paidAt expected note (cfb_paymentReference b)
           (getOr (cfb_paymentProvider b) ''PAYSTACK'') (getOr (cfb_currency b) ''NGN''))"

definition confirmRecordRequestPayment ::
    "env \<Rightarrow> db \<Rightarrow> auth_token \<Rightarrow> string \<Rightarrow> confirm_body option \<Rightarrow> (record_request \<times> db) res" where
  "confirmRecordRequestPayment e d auth rid body =
     bindE (safeParse (confirmRecordRequestPayment_ok e) body) (\<lambda>parsed.
     bindE (require (find_by rr_uuid rid (recordRequests d)) (BadRequest ''Record request not found.'')) (\<lambda>existing.
     bindE (assertRecordRequestReviewer d auth existing) (\<lambda>_.
     bindE (failIf (closedRequest existing)
       (BadRequest ''Payment cannot be confirmed for a closed record request.'')) (\<lambda>_.
     let expected = getOr (orElse (rr_amountMinor existing) (cfb_amountMinor parsed)) 0
     in
     bindE (failIf (expected \<le> 0) (BadRequest ''Record request does not have a payable amount.'')) (\<lambda>_.
     bindE (failIf (\<exists>a. cfb_amountMinor parsed = Some a \<and> a \<noteq> 0 \<and> a < expected)
       (BadRequest ''Confirmed payment amount is below the required record request amount.'')) (\<lambda>_.
     let pay = confirmedRequest e auth parsed expected existing;
         request = pay existing
     in
     bindE (update_by rr_uuid rid pay (recordRequests d)) (\<lambda>rows.
     Inr (request,
       audit_write (governanceActor auth (audit_event_of ''record_request.payment_confirmed'' ''RecordRequest''
           (rr_uuid request) (rr_institutionId request)
           (JObj [(''requestId'', JStr (rr_requestId request)),
                  (''amountMinor'', jopt_int (rr_amountMinor request)),
                  (''currency'', JStr (rr_currency request)),
                  (''paymentProvider'', jnull (rr_paymentProvider request)),
                  (''escrowStatus'', JStr (escrow_text (rr_escrowStatus request))),
                  (''apiKeyId'', jstr (au_apiKeyId auth))])))
         (d\<lparr>recordRequests := rows\<rparr>)))))))))"

definition createRevenueEntry :: "env \<Rightarrow> revenue_entry \<Rightarrow> db \<Rightarrow> db" where
  "createRevenueEntry e r d =
     drawn (d\<lparr>revenueEntries := revenueEntries d @ [r\<lparr>rv_uuid := fresh e d\<rparr>]\<rparr>)"

definition refundedRequest ::
    "auth_token \<Rightarrow> refund_body \<Rightarrow> refund_action \<Rightarrow> int \<Rightarrow> int \<Rightarrow> record_request \<Rightarrow> record_request" where
  "refundedRequest auth b action t amount r =
     (let confirm = (action = CONFIRM);
          text = (if confirm then ''REFUNDED'' else ''REFUND_PENDING'')
      in r\<lparr>rr_status := (if confirm \<and> rr_status r \<notin> {RR_REJECTED, RR_CANCELLED} then RR_CANCELLED
                         else rr_status r),
          rr_paymentStatus := (if confirm then Pay_REFUNDED else rr_paymentStatus r),
          rr_escrowStatus := (if confirm then Esc_REFUNDED else Esc_REFUND_PENDING),
          rr_refundRequestedAt := orElse (rr_refundRequestedAt r) (Some t),
          rr_paymentProvider := orElse (rfb_paymentProvider b) (rr_paymentProvider r),
          rr_rejectionReason := orElse (rr_rejectionReason r) (if confirm then Some (rfb_reason b) else None),
          rr_resolutionNote := (if confirm then Some (rfb_reason b) else rr_resolutionNote r),
          rr_notes := appendRecordRequestNote (rr_notes r)
            [(''at'', JStr (toISOString t)), (''by'', JStr (au_sub auth)),
             (''role'', JStr (role_text (au_role auth))), (''status'', JStr text),
             (''note'', JStr (getOr (rfb_note b) (rfb_reason b))), (''reason'', JStr (rfb_reason b)),
             (''amountMinor'', jint amount), (''refundReference'', jstr (rfb_refundReference b))]\<rparr>)"

definition refundEntry :: "refund_body \<Rightarrow> int \<Rightarrow> int \<Rightarrow> record_request \<Rightarrow> revenue_entry" where
  "refundEntry b t amount r =
     \<lparr>rv_uuid = [], rv_category = CREDENTIAL_EXPORT_FEE, rv_status = Rev_PAID, rv_amountMinor = - amount,
      rv_currency = rr_currency r, rv_institutionId = rr_institutionId r, rv_credentialId = None,
      rv_sourceType = ''RecordRequestRefund'', rv_sourceId = Some (rr_uuid r),
      rv_description = ''Record request payment refunded before credential fulfillment'',
      rv_paidAt = Some t,
      rv_metadata = JObj [(''requestId'', JStr (rr_requestId r)),
        (''paymentReference'', jnull (rr_paymentReference r)),
        (''refundReference'', jstr (rfb_refundReference b)),
        (''paymentProvider'', jnull (orElse (rfb_paymentProvider b) (rr_paymentProvider r))),
        (''reason'', JStr (rfb_reason b))], rv_verificationEventId = None\<rparr>"

definition refundRecordRequestPayment ::
    "env \<Rightarrow> db \<Rightarrow> auth_token \<Rightarrow> string \<Rightarrow> refund_body option \<Rightarrow> (record_request \<times> db) res" where
  "refundRecordRequestPayment e d auth rid body =
     bindE (safeParse (refundRecordRequestPayment_ok e) body) (\<lambda>parsed.
     bindE (require (find_by rr_uuid rid (recordRequests d)) (BadRequest ''Record request not found.'')) (\<lambda>existing.
     bindE (assertRecordRequestReviewer d auth existing) (\<lambda>_.
     let action = getOr (rfb_action parsed) REQUEST;
         esc = rr_escrowStatus existing
     in
     bindE (failIf (rr_fulfilledCredentialId existing \<noteq> None \<or> rr_status existing = RR_FULFILLED \<or>
                    esc = Esc_RELEASED)
       (BadRequest ''Fulfilled or released record requests require manual finance review before refund.'')) (\<lambda>_.
     bindE (failIf (rr_paymentStatus existing \<noteq> Pay_PAID)
       (BadRequest ''Only paid record requests can be refunded.'')) (\<lambda>_.
     bindE (failIf (action = REQUEST \<and> esc \<noteq> Esc_HELD)
       (BadRequest ''Only paid record requests held in escrow can enter refund review.'')) (\<lambda>_.
     bindE (failIf (action = CONFIRM \<and> esc \<notin> {Esc_HELD, Esc_REFUND_PENDING})
       (BadRequest ''Only paid record requests held or pending refund can be confirmed as refunded.'')) (\<lambda>_.
     let amount = getOr (orElse (rfb_amountMinor parsed) (rr_amountMinor existing)) 0
     in
     bindE (failIf (amount \<le> 0) (BadRequest ''Refund amount is required.'')) (\<lambda>_.
     bindE (failIf (\<exists>a. rr_amountMinor existing = Some a \<and> a \<noteq> 0 \<and> amount > a)
       (BadRequest ''Refund amount cannot exceed the paid record request amount.'')) (\<lambda>_.
     bindE (failIf (action = CONFIRM \<and> \<not> truthy_text (rfb_refundReference parsed))
       (BadRequest ''Refund reference is required when confirming a refund.'')) (\<lambda>_.
     let t = dateOr e (rfb_refundedAt parsed);
         refund = refundedRequest auth parsed action t amount;
         request = refund existing
     in
     bindE (update_by rr_uuid (rr_uuid existing) refund (recordRequests d)) (\<lambda>rows.
     let d1 = d\<lparr>recordRequests := rows\<rparr>;
         d2 = (if action = CONFIRM then createRevenueEntry e (refundEntry parsed t amount existing) d1 else d1)
     in Inr (request,
       audit_write (governanceActor auth (audit_event_of
           (if action = CONFIRM then ''record_request.payment_refunded'' else ''record_request.refund_requested'')
           ''RecordRequest'' (rr_uuid request) (rr_institutionId request)
           (JObj [(''requestId'', JStr (rr_requestId request)), (''amountMinor'', jint amount),
                  (''currency'', JStr (rr_currency request)),
                  (''paymentProvider'', jnull (orElse (rfb_paymentProvider parsed) (rr_paymentProvider existing))),
                  (''paymentReference'', jnull (rr_paymentReference existing)),
                  (''refundReference'', jstr (rfb_refundReference parsed)),
                  (''escrowStatus'', JStr (escrow_text (rr_escrowStatus request))),
                  (''paymentStatus'', JStr (payment_text (rr_paymentStatus request))),
                  (''apiKeyId'', jstr (au_apiKeyId auth))]))) d2))))))))))))"

section \<open>Fulfilment\<close>

definition requestPayload ::
    "env \<Rightarrow> string \<Rightarrow> record_request \<Rightarrow> learner \<Rightarrow> institution \<Rightarrow> (string \<times> jval) list" where
  "requestPayload e credentialRef r l i =
     [(''@context'', JArr [JStr ''https://www.w3.org/ns/credentials/v2'']),
      (''id'', JStr (''urn:uuid:'' @ credentialRef)),
      (''type'', JArr [JStr ''VerifiableCredential'', JStr ''AcadIDHistoricalRecordCredential'']),
      (''issuer'', JStr (in_institutionId i)),
      (''validFrom'', JStr (toISOString (now e))),
      (''credentialSubject'', JObj
        [(''learnerId'', jnull (rr_learnerId r)), (''ain'', JStr (le_ain l)),
         (''recordRequestId'', JStr (rr_uuid r)), (''requestId'', JStr (rr_requestId r)),
         (''institutionName'', JStr (in_officialName i)), (''institutionId'', JStr (in_institutionId i)),
         (''educationLevel'', JStr (rr_educationLevel r)),
         (''yearsAttendedFrom'', jopt_int (rr_yearsAttendedFrom r)),
         (''yearsAttendedTo'', jopt_int (rr_yearsAttendedTo r)),
         (''studentNumber'', jnull (rr_studentNumber r)),
         (''departmentOrClass'', jnull (rr_departmentOrClass r)),
         (''recordTypesRequested'', JArr (map JStr (rr_recordTypesRequested r)))])]"

definition requestCredential ::
    "env \<Rightarrow> (jval \<Rightarrow> jval \<times> string) \<Rightarrow> string \<Rightarrow> credential_type \<Rightarrow> record_request \<Rightarrow> learner \<Rightarrow>
     institution \<Rightarrow> credential" where
  "requestCredential e sign credentialRef kind r l i =
     (let payload = requestPayload e credentialRef r l i;
          signed = sign (JObj payload)
      in \<lparr>cr_uuid = [], cr_credentialRef = credentialRef, cr_learnerId = getOr (rr_learnerId r) [],
          cr_institutionId = getOr (rr_institutionId r) [], cr_academicRecordId = None,
          cr_recordRequestId = Some (rr_uuid r), cr_type = kind,
          cr_scope = JObj [(''recordRequestId'', JStr (rr_uuid r)), (''requestId'', JStr (rr_requestId r)),
                           (''recordTypesRequested'', JArr (map JStr (rr_recordTypesRequested r)))],
          cr_vcPayload = JObj (payload @ [(''proof'', fst signed)]), cr_signature = snd signed,
          cr_status = Cred_ACTIVE, cr_issuedAt = now e, cr_revokedAt = None, cr_revocationReason = None\<rparr>)"

definition fulfilledRequest ::
    "env \<Rightarrow> auth_token \<Rightarrow> fulfill_body \<Rightarrow> bool \<Rightarrow> string \<Rightarrow> string \<Rightarrow> record_request \<Rightarrow> record_request" where
  "fulfilledRequest e auth b release credentialRef credentialId r =
     r\<lparr>rr_status := RR_FULFILLED, rr_fulfilledAt := Some (now e),
       rr_fulfilledCredentialId := Some credentialId,
       rr_resolutionNote := orElse (ffb_note b) (rr_resolutionNote r),
       rr_escrowStatus := (if release then Esc_RELEASED else rr_escrowStatus r),
       rr_paymentReleasedAt := (if release then Some (now e) else rr_paymentReleasedAt r),
       rr_notes := appendRecordRequestNote (rr_notes r)
         [(''at'', JStr (toISOString (now e))), (''by'', JStr (au_sub auth)),
          (''role'', JStr (role_text (au_role auth))), (''status'', JStr ''FULFILLED''),
          (''note'', JStr (getOr (ffb_note b)
             ''Record request fulfilled and credential published to learner passport.'')),
          (''credentialRef'', JStr credentialRef)]\<rparr>"

definition releaseEntry :: "env \<Rightarrow> string \<Rightarrow> int \<Rightarrow> record_request \<Rightarrow> revenue_entry" where
  "releaseEntry e credentialId amount r =
     \<lparr>rv_uuid = [], rv_category = CREDENTIAL_EXPORT_FEE, rv_status = Rev_PAID, rv_amountMinor = amount,
      rv_currency = rr_currency r, rv_institutionId = rr_institutionId r,
      rv_credentialId = Some credentialId, rv_sourceType = ''RecordRequest'',
      rv_sourceId = Some (rr_uuid r),
      rv_description = ''Record request payment released after credential publication'',
      rv_paidAt = Some (now e),
      rv_metadata = JObj [(''requestId'', JStr (rr_requestId r)),
        (''paymentReference'', jnull (rr_paymentReference r)),
        (''paymentProvider'', jnull (rr_paymentProvider r))], rv_verificationEventId = None\<rparr>"

definition payable :: "record_request \<Rightarrow> bool" where
  "payable r \<longleftrightarrow> (case rr_amountMinor r of None \<Rightarrow> False | Some a \<Rightarrow> a > 0)"

definition fulfillRecordRequest ::
    "env \<Rightarrow> (jval \<Rightarrow> jval \<times> string) \<Rightarrow> db \<Rightarrow> auth_token \<Rightarrow> string \<Rightarrow> fulfill_body option \<Rightarrow>
     (record_request \<times> db) res" where
  "fulfillRecordRequest e sign d auth rid body =
     bindE (safeParse fulfillRecordRequest_ok body) (\<lambda>parsed.
     bindE (require (find_by rr_uuid rid (recordRequests d)) (BadRequest ''Record request not found.'')) (\<lambda>request.
     bindE (assertRecordRequestReviewer d auth request) (\<lambda>_.
     bindE (require (case rr_learnerId request of None \<Rightarrow> None
                     | Some l \<Rightarrow> (if l = [] then None else find_by le_uuid l (learners d)))
       (BadRequest ''Record request must be linked to a learner before fulfillment.'')) (\<lambda>learner.
     bindE (require (case rr_institutionId request of None \<Rightarrow> None
                     | Some i \<Rightarrow> (if i = [] then None else find_by in_uuid i (institutions d)))
       (BadRequest ''Record request must be assigned to an active institution before fulfillment.'')) (\<lambda>institution.
     bindE (failIf (rr_fulfilledCredentialId request \<noteq> None)
       (BadRequest ''Record request has already been fulfilled.'')) (\<lambda>_.
     bindE (failIf (payable request \<and>
                    rr_paymentStatus request \<notin> {Pay_PAID, Pay_WAIVED, Pay_NOT_REQUIRED})
       (BadRequest ''Record request payment must be paid, waived, or not required before fulfillment.'')) (\<lambda>_.
     bindE (failIf (rr_paymentStatus request = Pay_PAID \<and> rr_escrowStatus request \<noteq> Esc_HELD)
       (BadRequest ''Paid record request funds must be held in escrow before fulfillment.'')) (\<lambda>_.
     let credentialRef = fresh e d;
         kind = getOr (ffb_credentialType parsed) TRANSCRIPT;
         c = requestCredential e sign credentialRef kind request learner institution;
         release = (getOr (ffb_releasePayment parsed) True \<and> rr_paymentStatus request = Pay_PAID);
         d0 = drawn d;
         credentialId = fresh e d0;
         fulfil = fulfilledRequest e auth parsed release credentialRef credentialId;
         updated = fulfil request
     in
     bindE (createCredential e c d0) (\<lambda>d1.
     bindE (update_by rr_uuid (rr_uuid request) fulfil (recordRequests d1)) (\<lambda>rows.
     bindE (check_unique ''RecordRequest_fulfilledCredentialId_key'' rr_fulfilledCredentialId rows) (\<lambda>rows.
     let d2 = d1\<lparr>recordRequests := rows\<rparr>;
         d3 = (if release \<and> payable request
               then createRevenueEntry e (releaseEntry e credentialId (getOr (rr_amountMinor request) 0) request) d2
               else d2)
     in Inr (updated,
       audit_write (governanceActor auth (audit_event_of ''record_request.fulfill'' ''RecordRequest''
           (rr_uuid request) (rr_institutionId request)
           (JObj [(''requestId'', JStr (rr_requestId request)), (''credentialRef'', JStr credentialRef),
                  (''credentialType'', JStr (credential_type_text kind)),
                  (''paymentStatus'', JStr (payment_text (rr_paymentStatus updated))),
                  (''escrowStatus'', JStr (escrow_text (rr_escrowStatus updated))),
                  (''paymentReleased'', JBool release),
                  (''apiKeyId'', jstr (au_apiKeyId auth))]))) d3))))))))))))"

end
