(* ===== verification/Paystack.thy ===== *)
theory Paystack
  imports RecordRequests
begin

text \<open>
  The background job that confirms the payment of a record request:
  \<open>processPaystackPaymentConfirmation\<close> and \<open>findRecordRequestForPayment\<close> of
  \<open>jobs/job-worker.service.ts\<close>. The update of the request and the audit event are one transaction. When a job names
  its request by nothing but the payment reference, and several requests match, the code asks for any one of them
  (\<open>findFirst\<close> without an order); the model takes the first in the order of insertion.
\<close>

definition asDate :: "env \<Rightarrow> jval \<Rightarrow> int option" where
  "asDate e v = (case asString v of None \<Rightarrow> None | Some t \<Rightarrow> Date_parse e t)"

definition findRecordRequestForPayment ::
    "db \<Rightarrow> string option \<Rightarrow> string option \<Rightarrow> string \<Rightarrow> record_request option" where
  "findRecordRequestForPayment d recordRequestId requestId reference =
     (let byUuid = (case recordRequestId of None \<Rightarrow> None
            | Some i \<Rightarrow> (if i \<noteq> [] \<and> uuidPattern i then find_by rr_uuid i (recordRequests d) else None));
          byId = (case requestId of None \<Rightarrow> None
            | Some i \<Rightarrow> (if i \<noteq> [] then find_by rr_requestId i (recordRequests d) else None))
      in orElse byUuid (orElse byId
           (List.find (\<lambda>r. rr_paymentReference r = Some reference \<or> rr_requestId r = reference)
              (recordRequests d))))"

definition MAX_SAFE_INTEGER :: int where
  "MAX_SAFE_INTEGER = 9007199254740991"

definition paystackNote :: "string \<Rightarrow> int \<Rightarrow> string \<Rightarrow> record_request \<Rightarrow> (string \<times> jval) list" where
  "paystackNote jobId paidAt reference r =
     [(''at'', JStr (toISOString paidAt)), (''by'', JStr ''paystack-webhook''), (''role'', JStr ''SYSTEM''),
      (''status'', JStr (request_status_text (rr_status r))),
      (''note'', JStr ''Payment confirmed by signed Paystack webhook and held in escrow.''),
      (''paymentReference'', JStr reference), (''jobId'', JStr jobId)]"

text \<open>The audit row is created in the transaction itself, not through the audit service.\<close>

definition paystackEvent :: "string \<Rightarrow> string \<Rightarrow> record_request \<Rightarrow> audit_event" where
  "paystackEvent jobId reference r = \<lparr>
     ae_requestId = None, ae_actorType = Some ''SYSTEM'', ae_actorUserId = None, ae_clientId = None,
     ae_actorId = None, ae_actorRole = None, ae_institutionId = rr_institutionId r, ae_role = None,
     ae_endpoint = None, ae_httpMethod = None, ae_action = ''record_request.payment_confirmed'',
     ae_targetType = ''RecordRequest'', ae_targetId = Some (rr_uuid r),
     ae_entityType = Some ''RecordRequest'', ae_entityId = Some (rr_uuid r), ae_outcome = ''SUCCESS'',
     ae_reason = None, ae_ipAddressHash = None, ae_userAgentHash = None,
     ae_metadata = toJson (JObj [(''source'', JStr ''paystack_webhook''),
       (''requestId'', JStr (rr_requestId r)), (''reference'', JStr reference),
       (''amountMinor'', jopt_int (rr_amountMinor r)), (''currency'', JStr (rr_currency r)),
       (''paymentProvider'', JStr ''PAYSTACK''),
       (''escrowStatus'', JStr (escrow_text (rr_escrowStatus r))), (''jobId'', JStr jobId)])\<rparr>"

text \<open>The part of the processor after the request was found.\<close>

definition confirmFoundRequest ::
    "db \<Rightarrow> string \<Rightarrow> string \<Rightarrow> int \<Rightarrow> string \<Rightarrow> int \<Rightarrow> record_request \<Rightarrow> (jval \<times> db) res" where
  "confirmFoundRequest d jobId ref amountMinor currency paidAt request =
     bindE (failIf (closedRequest request)
       (NonRetryable (''Payment cannot be confirmed for closed record request '' @
          rr_requestId request @ ''.''))) (\<lambda>_.
     if rr_paymentStatus request = Pay_PAID then
       (if \<not> truthy_text (rr_paymentReference request) \<or> rr_paymentReference request = Some ref
        then Inr (toJson (JObj [(''mode'', JStr ''already_confirmed''),
          (''recordRequestId'', JStr (rr_uuid request)), (''requestId'', JStr (rr_requestId request)),
          (''reference'', JStr ref), (''paymentStatus'', JStr (payment_text (rr_paymentStatus request))),
          (''escrowStatus'', JStr (escrow_text (rr_escrowStatus request)))]), d)
        else Inl (NonRetryable (''Record request '' @ rr_requestId request @
          '' is already paid with another reference.'')))
     else
       let expectedAmount = getOr (rr_amountMinor request) amountMinor
       in
       bindE (failIf (expectedAmount \<le> 0)
         (NonRetryable (''Record request '' @ rr_requestId request @
            '' does not have a payable amount.''))) (\<lambda>_.
       bindE (failIf (amountMinor < expectedAmount)
         (NonRetryable (''Paystack payment '' @ ref @ '' is below the required amount for '' @
            rr_requestId request @ ''.''))) (\<lambda>_.
       bindE (failIf (rr_currency request \<noteq> [] \<and> toUpperCase (rr_currency request) \<noteq> currency)
         (NonRetryable (''Paystack payment '' @ ref @ '' currency does not match record request '' @
            rr_requestId request @ ''.''))) (\<lambda>_.
       let pay = paidRequest paidAt expectedAmount (paystackNote jobId paidAt ref request)
                   ref ''PAYSTACK'' currency;
           updated = pay request
       in
       bindE (update_by rr_uuid (rr_uuid request) pay (recordRequests d)) (\<lambda>rows.
       Inr (toJson (JObj [(''mode'', JStr ''record_request_payment_confirmed''),
              (''recordRequestId'', JStr (rr_uuid updated)), (''requestId'', JStr (rr_requestId updated)),
              (''status'', JStr (request_status_text (rr_status updated))),
              (''paymentStatus'', JStr (payment_text (rr_paymentStatus updated))),
              (''escrowStatus'', JStr (escrow_text (rr_escrowStatus updated))),
              (''reference'', jnull (rr_paymentReference updated)),
              (''amountMinor'', jopt_int (rr_amountMinor updated)),
              (''currency'', JStr (rr_currency updated))]),
            d\<lparr>recordRequests := rows,
              auditEvents := auditEvents d @ [paystackEvent jobId ref updated]\<rparr>))))))"

definition processPaystackPaymentConfirmation :: "env \<Rightarrow> db \<Rightarrow> background_job \<Rightarrow> (jval \<times> db) res" where
  "processPaystackPaymentConfirmation e d job =
     (let payload = asRecord (bj_payload job);
          event = asString (getProp payload ''event'');
          reference = asString (getProp payload ''reference'');
          status = asString (getProp payload ''status'');
          amountMinor = asNumber (getProp payload ''amountMinor'') 1 MAX_SAFE_INTEGER 0;
          currency = toUpperCase (getOr (asString (getProp payload ''currency'')) ''NGN'');
          paidAt = getOr (asDate e (getProp payload ''paidAt'')) (now e);
          ref = getOr reference []
      in
      if event \<noteq> Some ''charge.success'' then
        Inr (toJson (JObj [(''mode'', JStr ''ignored_paystack_event''), (''event'', jstr event),
          (''message'', JStr ''Only charge.success events confirm record request payments.'')]), d)
      else if truthy_text status \<and> status \<noteq> Some ''success'' then
        Inr (toJson (JObj [(''mode'', JStr ''ignored_paystack_status''), (''event'', jstr event),
          (''status'', jstr status), (''reference'', jstr reference)]), d)
      else
        bindE (failIf (\<not> truthy_text reference)
          (NonRetryable ''Paystack payment confirmation requires a transaction reference.'')) (\<lambda>_.
        bindE (failIf (amountMinor = 0)
          (NonRetryable ''Paystack payment confirmation requires a positive amount.'')) (\<lambda>_.
        bindE (require (findRecordRequestForPayment d (asString (getProp payload ''recordRequestId''))
                          (asString (getProp payload ''requestId'')) ref)
          (Failure (''Record request for Paystack reference '' @ ref @ '' was not found.'')))
          (confirmFoundRequest d (bj_uuid job) ref amountMinor currency paidAt))))"

declare toJson.simps [simp del]

end
