(* ===== verification/Escrow.thy ===== *)
theory Escrow
  imports Paystack
begin

text \<open>
  The money of a record request. The abstract machine keeps, for one request, its payment and
  escrow columns, whether a credential was published for it, and how many confirmations, releases
  and refunds the audit log and the revenue ledger hold. Every handler of \<open>RecordRequests\<close>
  simulates a step of it, so that the invariants of the machine are invariants of the database. The last
  sections are about running the payment job again, on the database it left and on a later one.
\<close>

section \<open>The machine\<close>

record account =
  ac_payment :: payment_status
  ac_escrow :: escrow_status
  ac_published :: bool
  ac_confirmed :: nat
  ac_released :: nat
  ac_refunded :: nat

inductive escrow_step :: "account \<Rightarrow> account \<Rightarrow> bool" where
  keep: "escrow_step a a"
| pay: "escrow_step a (a\<lparr>ac_payment := Pay_PAID, ac_escrow := Esc_HELD,
          ac_confirmed := Suc (ac_confirmed a)\<rparr>)"
| ask: "ac_payment a = Pay_PAID \<Longrightarrow> ac_escrow a = Esc_HELD \<Longrightarrow> \<not> ac_published a \<Longrightarrow>
    escrow_step a (a\<lparr>ac_escrow := Esc_REFUND_PENDING\<rparr>)"
| refund: "ac_payment a = Pay_PAID \<Longrightarrow> ac_escrow a \<in> {Esc_HELD, Esc_REFUND_PENDING} \<Longrightarrow>
    \<not> ac_published a \<Longrightarrow>
    escrow_step a (a\<lparr>ac_payment := Pay_REFUNDED, ac_escrow := Esc_REFUNDED,
      ac_refunded := Suc (ac_refunded a)\<rparr>)"
| publish: "\<not> ac_published a \<Longrightarrow> (ac_payment a = Pay_PAID \<longrightarrow> ac_escrow a = Esc_HELD) \<Longrightarrow>
    escrow_step a (a\<lparr>ac_published := True\<rparr>)"
| release: "\<not> ac_published a \<Longrightarrow> ac_payment a = Pay_PAID \<Longrightarrow> ac_escrow a = Esc_HELD \<Longrightarrow> n \<le> 1 \<Longrightarrow>
    escrow_step a (a\<lparr>ac_published := True, ac_escrow := Esc_RELEASED,
      ac_released := ac_released a + n\<rparr>)"

inductive_cases escrow_stepE: "escrow_step a b"

text \<open>The payment that is neither released nor refunded yet.\<close>

definition in_escrow :: "account \<Rightarrow> nat" where
  "in_escrow a = (if ac_escrow a \<in> {Esc_HELD, Esc_REFUND_PENDING} then 1 else 0)"

definition columns_agree :: "payment_status \<Rightarrow> escrow_status \<Rightarrow> bool \<Rightarrow> bool" where
  "columns_agree p s published \<longleftrightarrow>
     (p = Pay_PAID \<longleftrightarrow> s \<in> {Esc_HELD, Esc_REFUND_PENDING, Esc_RELEASED}) \<and>
     (p = Pay_REFUNDED \<longleftrightarrow> s = Esc_REFUNDED) \<and>
     (s = Esc_RELEASED \<longrightarrow> published)"

definition account_ok :: "account \<Rightarrow> bool" where
  "account_ok a \<longleftrightarrow>
     columns_agree (ac_payment a) (ac_escrow a) (ac_published a) \<and>
     ac_released a + ac_refunded a + in_escrow a \<le> ac_confirmed a \<and>
     ac_released a \<le> (if ac_published a then 1 else 0)"

lemma account_ok_step: "escrow_step a b \<Longrightarrow> account_ok a \<Longrightarrow> account_ok b"
  by (erule escrow_stepE) (auto simp: account_ok_def columns_agree_def in_escrow_def split: if_splits)

text \<open>A request whose credential is published while the money is still held.\<close>

definition stranded :: "account \<Rightarrow> bool" where
  "stranded a \<longleftrightarrow> ac_payment a = Pay_PAID \<and> ac_escrow a = Esc_HELD \<and> ac_published a"

lemma stranded_step:
  "escrow_step a b \<Longrightarrow> stranded a \<Longrightarrow>
   stranded b \<and> ac_released b = ac_released a \<and> ac_refunded b = ac_refunded a"
  by (erule escrow_stepE) (auto simp: stranded_def)

section \<open>The account of a request in the database\<close>

definition entries_of :: "string \<Rightarrow> string \<Rightarrow> revenue_entry list \<Rightarrow> nat" where
  "entries_of source rid entries =
     length (filter (\<lambda>v. rv_sourceType v = source \<and> rv_sourceId v = Some rid) entries)"

definition events_of :: "string \<Rightarrow> string \<Rightarrow> audit_event list \<Rightarrow> nat" where
  "events_of action rid events =
     length (filter (\<lambda>a. ae_action a = action \<and> ae_targetId a = Some rid) events)"

definition account_of :: "db \<Rightarrow> record_request \<Rightarrow> account" where
  "account_of d r =
     \<lparr>ac_payment = rr_paymentStatus r, ac_escrow = rr_escrowStatus r,
      ac_published = (rr_fulfilledCredentialId r \<noteq> None),
      ac_confirmed = events_of ''record_request.payment_confirmed'' (rr_uuid r) (auditEvents d),
      ac_released = entries_of ''RecordRequest'' (rr_uuid r) (revenueEntries d),
      ac_refunded = entries_of ''RecordRequestRefund'' (rr_uuid r) (revenueEntries d)\<rparr>"

lemma entries_of_append [simp]:
  "entries_of s rid (xs @ ys) = entries_of s rid xs + entries_of s rid ys"
  by (simp add: entries_of_def)

lemma events_of_append [simp]:
  "events_of s rid (xs @ ys) = events_of s rid xs + events_of s rid ys"
  by (simp add: events_of_def)

lemma entries_of_simps [simp]:
  "entries_of s rid [] = 0"
  "entries_of s rid [v] = (if rv_sourceType v = s \<and> rv_sourceId v = Some rid then 1 else 0)"
  by (simp_all add: entries_of_def)

lemma events_of_simps [simp]:
  "events_of s rid [] = 0"
  "events_of s rid [v] = (if ae_action v = s \<and> ae_targetId v = Some rid then 1 else 0)"
  by (simp_all add: events_of_def)

lemma governance_row [simp]:
  "ae_action (audit_row (governanceActor auth ev)) = ai_action ev"
  "ae_targetId (audit_row (governanceActor auth ev)) = ai_targetId ev"
  by (simp_all add: audit_row_def governanceActor_def)

lemma audit_event_of_fields [simp]:
  "ai_action (audit_event_of a t i n m) = a" "ai_targetId (audit_event_of a t i n m) = Some i"
  by (simp_all add: audit_event_of_def)

section \<open>What one handler does to the tables\<close>

text \<open>
  \<open>request_effect d d' rid f es action\<close>: the row \<open>rid\<close> is replaced by its image under \<open>f\<close>, the
  ledger gets the entries \<open>es\<close>, and one audit event with this action and target is appended.
\<close>

definition request_effect ::
    "db \<Rightarrow> db \<Rightarrow> string \<Rightarrow> (record_request \<Rightarrow> record_request) \<Rightarrow> revenue_entry list \<Rightarrow> string \<Rightarrow> bool" where
  "request_effect d d' rid f es action \<longleftrightarrow>
     recordRequests d' = set_by rr_uuid rid f (recordRequests d) \<and>
     revenueEntries d' = revenueEntries d @ es \<and>
     (\<exists>a. auditEvents d' = auditEvents d @ [a] \<and> ae_action a = action \<and> ae_targetId a = Some rid)"

lemma reviewedRequest_fields [simp]:
  "rr_uuid (reviewedRequest e auth b r) = rr_uuid r"
  "rr_paymentStatus (reviewedRequest e auth b r) = rr_paymentStatus r"
  "rr_escrowStatus (reviewedRequest e auth b r) = rr_escrowStatus r"
  "rr_amountMinor (reviewedRequest e auth b r) = rr_amountMinor r"
  "rr_fulfilledCredentialId (reviewedRequest e auth b r) = rr_fulfilledCredentialId r"
  "rr_status (reviewedRequest e auth b r) = rvb_status b"
  by (simp_all add: reviewedRequest_def Let_def)

lemma paidRequest_fields [simp]:
  "rr_uuid (paidRequest t a n ref p c r) = rr_uuid r"
  "rr_paymentStatus (paidRequest t a n ref p c r) = Pay_PAID"
  "rr_escrowStatus (paidRequest t a n ref p c r) = Esc_HELD"
  "rr_amountMinor (paidRequest t a n ref p c r) = Some a"
  "rr_fulfilledCredentialId (paidRequest t a n ref p c r) = rr_fulfilledCredentialId r"
  by (simp_all add: paidRequest_def)

lemma refundedRequest_fields [simp]:
  "rr_uuid (refundedRequest auth b act t a r) = rr_uuid r"
  "rr_paymentStatus (refundedRequest auth b act t a r) =
     (if act = CONFIRM then Pay_REFUNDED else rr_paymentStatus r)"
  "rr_escrowStatus (refundedRequest auth b act t a r) =
     (if act = CONFIRM then Esc_REFUNDED else Esc_REFUND_PENDING)"
  "rr_amountMinor (refundedRequest auth b act t a r) = rr_amountMinor r"
  "rr_fulfilledCredentialId (refundedRequest auth b act t a r) = rr_fulfilledCredentialId r"
  by (simp_all add: refundedRequest_def Let_def)

lemma fulfilledRequest_fields [simp]:
  "rr_uuid (fulfilledRequest e auth b rel cref cid r) = rr_uuid r"
  "rr_paymentStatus (fulfilledRequest e auth b rel cref cid r) = rr_paymentStatus r"
  "rr_escrowStatus (fulfilledRequest e auth b rel cref cid r) =
     (if rel then Esc_RELEASED else rr_escrowStatus r)"
  "rr_amountMinor (fulfilledRequest e auth b rel cref cid r) = rr_amountMinor r"
  "rr_status (fulfilledRequest e auth b rel cref cid r) = RR_FULFILLED"
  "rr_fulfilledCredentialId (fulfilledRequest e auth b rel cref cid r) = Some cid"
  by (simp_all add: fulfilledRequest_def)

lemma entry_fields [simp]:
  "rv_sourceType (refundEntry b t a r) = ''RecordRequestRefund''"
  "rv_sourceId (refundEntry b t a r) = Some (rr_uuid r)"
  "rv_amountMinor (refundEntry b t a r) = - a"
  "rv_sourceType (releaseEntry e cid a r) = ''RecordRequest''"
  "rv_sourceId (releaseEntry e cid a r) = Some (rr_uuid r)"
  "rv_amountMinor (releaseEntry e cid a r) = a"
  "rv_credentialId (releaseEntry e cid a r) = Some cid"
  by (simp_all add: refundEntry_def releaseEntry_def)

lemma createRevenueEntry_tables [simp]:
  "revenueEntries (createRevenueEntry e v d) = revenueEntries d @ [v\<lparr>rv_uuid := fresh e d\<rparr>]"
  "recordRequests (createRevenueEntry e v d) = recordRequests d"
  "auditEvents (createRevenueEntry e v d) = auditEvents d"
  "credentials (createRevenueEntry e v d) = credentials d"
  by (simp_all add: createRevenueEntry_def drawn_def)

lemma drawn_tables [simp]:
  "revenueEntries (drawn d) = revenueEntries d"
  "recordRequests (drawn d) = recordRequests d"
  "auditEvents (drawn d) = auditEvents d"
  "credentials (drawn d) = credentials d"
  by (simp_all add: drawn_def)

inductive request_change ::
    "env \<Rightarrow> auth_token \<Rightarrow> string \<Rightarrow> db \<Rightarrow> db \<Rightarrow> record_request \<Rightarrow> record_request \<Rightarrow> bool"
  for e auth rid d d' x where
  reviewed: "find_by rr_uuid rid (recordRequests d) = Some x \<Longrightarrow> rvb_status b \<noteq> RR_FULFILLED \<Longrightarrow>
    r = reviewedRequest e auth b x \<Longrightarrow>
    request_effect d d' rid (reviewedRequest e auth b) [] ''record_request.review'' \<Longrightarrow>
    request_change e auth rid d d' x r"
| confirmed: "find_by rr_uuid rid (recordRequests d) = Some x \<Longrightarrow> \<not> closedRequest x \<Longrightarrow>
    0 < a \<Longrightarrow> (\<forall>m. rr_amountMinor x = Some m \<longrightarrow> a = m) \<Longrightarrow>
    r = paidRequest t a n ref p c x \<Longrightarrow>
    request_effect d d' rid (paidRequest t a n ref p c) [] ''record_request.payment_confirmed'' \<Longrightarrow>
    request_change e auth rid d d' x r"
| refund_asked: "find_by rr_uuid rid (recordRequests d) = Some x \<Longrightarrow>
    rr_fulfilledCredentialId x = None \<Longrightarrow> rr_paymentStatus x = Pay_PAID \<Longrightarrow>
    rr_escrowStatus x = Esc_HELD \<Longrightarrow> r = refundedRequest auth b REQUEST t a x \<Longrightarrow>
    request_effect d d' rid (refundedRequest auth b REQUEST t a) [] ''record_request.refund_requested'' \<Longrightarrow>
    request_change e auth rid d d' x r"
| refunded: "find_by rr_uuid rid (recordRequests d) = Some x \<Longrightarrow>
    rr_fulfilledCredentialId x = None \<Longrightarrow> rr_paymentStatus x = Pay_PAID \<Longrightarrow>
    rr_escrowStatus x \<in> {Esc_HELD, Esc_REFUND_PENDING} \<Longrightarrow>
    0 < a \<Longrightarrow> (\<forall>m. rr_amountMinor x = Some m \<longrightarrow> m \<noteq> 0 \<longrightarrow> a \<le> m) \<Longrightarrow>
    r = refundedRequest auth b CONFIRM t a x \<Longrightarrow>
    request_effect d d' rid (refundedRequest auth b CONFIRM t a)
      [(refundEntry b t a x)\<lparr>rv_uuid := i\<rparr>] ''record_request.payment_refunded'' \<Longrightarrow>
    request_change e auth rid d d' x r"
| fulfilled: "find_by rr_uuid rid (recordRequests d) = Some x \<Longrightarrow>
    rr_fulfilledCredentialId x = None \<Longrightarrow>
    (rr_paymentStatus x = Pay_PAID \<longrightarrow> rr_escrowStatus x = Esc_HELD) \<Longrightarrow>
    (rel \<longrightarrow> rr_paymentStatus x = Pay_PAID) \<Longrightarrow>
    r = fulfilledRequest e auth b rel cref cid x \<Longrightarrow>
    request_effect d d' rid (fulfilledRequest e auth b rel cref cid)
      (if rel \<and> payable x
       then [(releaseEntry e cid (getOr (rr_amountMinor x) 0) x)\<lparr>rv_uuid := i\<rparr>] else [])
      ''record_request.fulfill'' \<Longrightarrow>
    request_change e auth rid d d' x r"

inductive_cases request_changeE: "request_change e auth rid d d' x r"

lemma review_change:
  assumes "reviewRecordRequest e d auth rid body = Inr (r, d')"
  shows "\<exists>x. request_change e auth rid d d' x r"
proof -
  have "find_by rr_uuid rid (recordRequests d) = Some x \<Longrightarrow> request_change e auth rid d d' x r" for x
    using assms unfolding reviewRecordRequest_def
    by (clarsimp simp: err_simps Let_def)
      (rule request_change.reviewed, auto simp: request_effect_def dest: find_by_key)
  then show ?thesis using assms unfolding reviewRecordRequest_def by (auto simp: err_simps)
qed

lemma confirm_change:
  assumes "confirmRecordRequestPayment e d auth rid body = Inr (r, d')"
  shows "\<exists>x. request_change e auth rid d d' x r"
proof -
  have "find_by rr_uuid rid (recordRequests d) = Some x \<Longrightarrow> request_change e auth rid d d' x r" for x
    using assms unfolding confirmRecordRequestPayment_def confirmedRequest_def
    by (clarsimp simp: err_simps Let_def)
      (rule request_change.confirmed, auto simp: request_effect_def dest: find_by_key)
  then show ?thesis using assms unfolding confirmRecordRequestPayment_def by (auto simp: err_simps)
qed

lemma refund_change:
  assumes "refundRecordRequestPayment e d auth rid body = Inr (r, d')"
  shows "\<exists>x. request_change e auth rid d d' x r"
proof -
  have "request_change e auth rid d d' x r" if "find_by rr_uuid rid (recordRequests d) = Some x" for x
    using assms that find_by_key [OF that] unfolding refundRecordRequestPayment_def
    apply (clarsimp simp: err_simps Let_def)
    subgoal for b
      by (cases "getOr (rfb_action b) REQUEST")
        (simp_all, rule request_change.refund_asked, simp_all add: request_effect_def,
         rule request_change.refunded
           [where b = b and i = "fresh e (d\<lparr>recordRequests := set_by rr_uuid (rr_uuid x)
               (refundedRequest auth b CONFIRM (dateOr e (rfb_refundedAt b))
                 (getOr (orElse (rfb_amountMinor b) (rr_amountMinor x)) 0)) (recordRequests d)\<rparr>)"],
         auto simp: request_effect_def)
    done
  then show ?thesis using assms unfolding refundRecordRequestPayment_def by (auto simp: err_simps)
qed

lemma fulfill_change:
  assumes "fulfillRecordRequest e sign d auth rid body = Inr (r, d')"
  shows "\<exists>x. request_change e auth rid d d' x r"
proof -
  have "request_change e auth rid d d' x r" if "find_by rr_uuid rid (recordRequests d) = Some x" for x
    using assms that find_by_key [OF that] unfolding fulfillRecordRequest_def
    apply (clarsimp simp: err_simps Let_def createCredential_def split del: if_split)
    subgoal for b
      by (rule request_change.fulfilled
           [where b = b and rel = "getOr (ffb_releasePayment b) True \<and> rr_paymentStatus x = Pay_PAID"
              and cref = "fresh e d" and cid = "fresh e (drawn d)"
              and i = "fresh e (drawn (drawn d))"])
        (auto simp: request_effect_def fresh_def drawn_def)
    done
  then show ?thesis using assms unfolding fulfillRecordRequest_def by (auto simp: err_simps)
qed

lemma find_Some_by_key:
  assumes "distinct (map key rows)" and "List.find P rows = Some r"
  shows "find_by key (key r) rows = Some r"
  using assms find_by_distinct find_Some_in by metis

lemma found_by_uuid:
  assumes "findRecordRequestForPayment d i j ref = Some x" and "distinct (map rr_uuid (recordRequests d))"
  shows "find_by rr_uuid (rr_uuid x) (recordRequests d) = Some x"
proof -
  have by_find: "find_by key k rows = List.find (\<lambda>r. key r = k) rows"
    for key :: "record_request \<Rightarrow> string" and k rows
    by (simp add: find_by_def)
  from assms(1) have "\<exists>P. List.find P (recordRequests d) = Some x"
    unfolding findRecordRequestForPayment_def by_find Let_def orElse_def
    by (auto split: option.splits if_splits)
  then show ?thesis by (elim exE) (rule find_Some_by_key [OF assms(2)])
qed

lemma found_request_change:
  assumes "confirmFoundRequest d jobId ref amount cur t x = Inr (v, d')"
    and "find_by rr_uuid (rr_uuid x) (recordRequests d) = Some x"
  shows "d' = d \<or> (\<exists>r. request_change e auth (rr_uuid x) d d' x r)"
proof (cases "rr_paymentStatus x = Pay_PAID")
  case True
  then show ?thesis using assms(1)
    by (auto simp: confirmFoundRequest_def err_simps split: if_split_asm)
next
  case False
  let ?a = "getOr (rr_amountMinor x) amount"
  let ?f = "paidRequest t ?a (paystackNote jobId t ref x) ref ''PAYSTACK'' cur"
  have "\<not> closedRequest x" and a: "0 < ?a" and eff: "request_effect d d' (rr_uuid x) ?f []
      ''record_request.payment_confirmed''"
    using assms(1) False
    by (auto simp: confirmFoundRequest_def err_simps Let_def request_effect_def paystackEvent_def)
  from request_change.confirmed [OF assms(2) this(1) a _ refl eff] show ?thesis
    by (cases "rr_amountMinor x") auto
qed

text \<open>The job either leaves the database as it is or confirms the payment of one request.\<close>

lemma paystack_change:
  assumes "processPaystackPaymentConfirmation e d job = Inr (v, d')"
    and "distinct (map rr_uuid (recordRequests d))"
  shows "d' = d \<or> (\<exists>x r. request_change e auth (rr_uuid x) d d' x r)"
proof -
  from assms(1) consider "d' = d" | x i j ref jobId amount cur t
    where "findRecordRequestForPayment d i j ref = Some x"
      and "confirmFoundRequest d jobId ref amount cur t x = Inr (v, d')"
    unfolding processPaystackPaymentConfirmation_def
    by (auto simp: err_simps Let_def split: if_split_asm)
  then show ?thesis
    by cases (blast dest: found_by_uuid [OF _ assms(2)] found_request_change)+
qed

lemma fulfill_shape:
  assumes "fulfillRecordRequest e sign d auth rid (Some b) = Inr (r, d')"
    and "find_by rr_uuid rid (recordRequests d) = Some x"
  shows "r = fulfilledRequest e auth b (getOr (ffb_releasePayment b) True \<and> rr_paymentStatus x = Pay_PAID)
      (fresh e d) (fresh e (drawn d)) x \<and>
    (rr_paymentStatus x = Pay_PAID \<longrightarrow> rr_escrowStatus x = Esc_HELD)"
  using assms unfolding fulfillRecordRequest_def
  by (clarsimp simp: err_simps Let_def simp del: fulfilledRequest_fields split del: if_split)

lemma refund_shape:
  assumes "refundRecordRequestPayment e d auth rid (Some b) = Inr (r, d')"
    and "find_by rr_uuid rid (recordRequests d) = Some x" and "rfb_action b = Some CONFIRM"
    and a: "a = getOr (orElse (rfb_amountMinor b) (rr_amountMinor x)) 0"
    and t: "t = dateOr e (rfb_refundedAt b)"
  shows "r = refundedRequest auth b CONFIRM t a x \<and> rr_fulfilledCredentialId x = None \<and>
    rr_paymentStatus x = Pay_PAID \<and> 0 < a \<and> (\<forall>m. rr_amountMinor x = Some m \<longrightarrow> m \<noteq> 0 \<longrightarrow> a \<le> m) \<and>
    (\<exists>i. revenueEntries d' = revenueEntries d @ [(refundEntry b t a x)\<lparr>rv_uuid := i\<rparr>])"
  using assms(1,2) unfolding refundRecordRequestPayment_def
  by (clarsimp simp: err_simps Let_def assms(3) a [symmetric] t [symmetric] simp del: refundedRequest_fields)
    (use a in auto)

section \<open>Runs of the system\<close>

text \<open>
  A step is one successful call of a handler, by any caller, at any time and with any body, or
  one run of the payment job. A handler that throws leaves the database as it was.
\<close>

inductive request_step :: "(jval \<Rightarrow> jval \<times> string) \<Rightarrow> db \<Rightarrow> db \<Rightarrow> bool"
  for sign d d' where
  review: "reviewRecordRequest e d auth rid body = Inr (r, d') \<Longrightarrow> request_step sign d d'"
| confirm: "confirmRecordRequestPayment e d auth rid body = Inr (r, d') \<Longrightarrow> request_step sign d d'"
| refund: "refundRecordRequestPayment e d auth rid body = Inr (r, d') \<Longrightarrow> request_step sign d d'"
| fulfill: "fulfillRecordRequest e sign d auth rid body = Inr (r, d') \<Longrightarrow> request_step sign d d'"
| paystack: "processPaystackPaymentConfirmation e d job = Inr (v, d') \<Longrightarrow> request_step sign d d'"

inductive_cases request_stepE: "request_step sign d d'"

abbreviation request_ids :: "db \<Rightarrow> string list" where
  "request_ids d \<equiv> map rr_uuid (recordRequests d)"

lemma step_change:
  assumes "request_step sign d d'" and "distinct (request_ids d)"
  shows "d' = d \<or> (\<exists>e auth rid x r. request_change e auth rid d d' x r)"
  using assms(1)
  by (cases rule: request_step.cases)
    (metis review_change, metis confirm_change, metis refund_change, metis fulfill_change,
     metis paystack_change [OF _ assms(2)])

lemma change_ids:
  assumes "request_change e auth rid d d' x r"
  shows "request_ids d' = request_ids d"
  using assms by (cases rule: request_change.cases) (simp_all add: request_effect_def row_simps)

lemma step_ids:
  assumes "request_step sign d d'" and "distinct (request_ids d)"
  shows "request_ids d' = request_ids d"
  using step_change [OF assms] change_ids by auto

text \<open>A handler moves the account of its own request by one step and keeps all others.\<close>

lemma change_other:
  assumes "request_change e auth rid d d' x r" and "k \<noteq> rid"
    and "find_by rr_uuid k (recordRequests d) = Some y"
  shows "find_by rr_uuid k (recordRequests d') = Some y \<and> account_of d' y = account_of d y"
  using assms find_by_key [OF assms(3)]
  by (cases rule: request_change.cases)
    (auto simp: request_effect_def row_simps account_of_def dest!: find_by_key)

lemma change_own:
  assumes "request_change e auth rid d d' x r"
  shows "find_by rr_uuid rid (recordRequests d) = Some x \<and>
    find_by rr_uuid rid (recordRequests d') = Some r \<and>
    escrow_step (account_of d x) (account_of d' r)"
  using assms
proof (cases rule: request_change.cases)
  case (reviewed b)
  with escrow_step.keep [of "account_of d x"] show ?thesis
    by (auto simp: request_effect_def row_simps account_of_def dest!: find_by_key)
next
  case (confirmed a t n ref p c)
  with escrow_step.pay [of "account_of d x"] show ?thesis
    by (auto simp: request_effect_def row_simps account_of_def dest!: find_by_key)
next
  case (refund_asked b t a)
  with escrow_step.ask [of "account_of d x"] show ?thesis
    by (auto simp: request_effect_def row_simps account_of_def dest!: find_by_key)
next
  case (refunded a b t i)
  with escrow_step.refund [of "account_of d x"] show ?thesis
    by (auto simp: request_effect_def row_simps account_of_def dest!: find_by_key)
next
  case (fulfilled rel b cref cid i)
  show ?thesis
  proof (cases rel)
    case True
    with fulfilled escrow_step.release [of "account_of d x" "if payable x then 1 else 0"] show ?thesis
      by (auto simp: request_effect_def row_simps account_of_def dest!: find_by_key split: if_splits)
  next
    case False
    with fulfilled escrow_step.publish [of "account_of d x"] show ?thesis
      by (auto simp: request_effect_def row_simps account_of_def dest!: find_by_key)
  qed
qed

lemma step_account:
  assumes "request_step sign d d'" and "distinct (request_ids d)"
    and "find_by rr_uuid k (recordRequests d) = Some x"
  shows "\<exists>y. find_by rr_uuid k (recordRequests d') = Some y \<and> escrow_step (account_of d x) (account_of d' y)"
  using step_change [OF assms(1,2)] assms(3) change_own change_other escrow_step.keep
  by (metis option.inject)

lemma runs_ids:
  assumes "(request_step sign)\<^sup>*\<^sup>* d d'" and "distinct (request_ids d)"
  shows "request_ids d' = request_ids d"
  using assms by (induction rule: rtranclp_induct) (auto dest: step_ids)

text \<open>What every step of the machine keeps, every run of the system keeps.\<close>

lemma runs_invariant:
  assumes "(request_step sign)\<^sup>*\<^sup>* d d'" and "distinct (request_ids d)"
    and "find_by rr_uuid k (recordRequests d) = Some x" and "P (account_of d x)"
    and P: "\<And>a b. escrow_step a b \<Longrightarrow> P a \<Longrightarrow> P b"
  shows "\<exists>y. find_by rr_uuid k (recordRequests d') = Some y \<and> P (account_of d' y)"
  using assms(1)
proof (induction rule: rtranclp_induct)
  case base
  then show ?case using assms(3,4) by blast
next
  case (step d1 d2)
  then obtain y where y: "find_by rr_uuid k (recordRequests d1) = Some y" "P (account_of d1 y)"
    by blast
  have "distinct (request_ids d1)" using runs_ids [OF step(1) assms(2)] assms(2) by simp
  from step_account [OF step(2) this y(1)] P y(2) show ?case by blast
qed

definition money_accounted :: "db \<Rightarrow> record_request \<Rightarrow> bool" where
  "money_accounted d r \<longleftrightarrow>
     columns_agree (rr_paymentStatus r) (rr_escrowStatus r) (rr_fulfilledCredentialId r \<noteq> None) \<and>
     entries_of ''RecordRequest'' (rr_uuid r) (revenueEntries d) +
       entries_of ''RecordRequestRefund'' (rr_uuid r) (revenueEntries d) +
       (if rr_escrowStatus r \<in> {Esc_HELD, Esc_REFUND_PENDING} then 1 else 0)
     \<le> events_of ''record_request.payment_confirmed'' (rr_uuid r) (auditEvents d) \<and>
     entries_of ''RecordRequest'' (rr_uuid r) (revenueEntries d) \<le>
       (if rr_fulfilledCredentialId r \<noteq> None then 1 else 0)"

lemma money_accounted_iff: "money_accounted d r \<longleftrightarrow> account_ok (account_of d r)"
  by (simp add: money_accounted_def account_ok_def account_of_def in_escrow_def)

text \<open>C4. Every successful call of a record request handler, and every run of the Paystack job, is a
  step of the escrow machine for each request: no request appears or disappears, at most one
  account moves, and it moves only along a transition of the machine.\<close>

theorem handlers_refine_escrow:
  assumes "request_step sign d d'" and "distinct (request_ids d)"
  shows "request_ids d' = request_ids d \<and>
    (\<forall>k x. find_by rr_uuid k (recordRequests d) = Some x \<longrightarrow>
       (\<exists>y. find_by rr_uuid k (recordRequests d') = Some y \<and>
            escrow_step (account_of d x) (account_of d' y)))"
  using step_ids [OF assms] step_account [OF assms] by blast

text \<open>C1. In every run, the payment and escrow columns of a request agree, the money of a request is
  released at most once and only when a credential was published for it, and the releases, the refunds
  and the payment still in escrow together never exceed the payments that were confirmed.\<close>

theorem escrow_never_overdrawn:
  assumes "(request_step sign)\<^sup>*\<^sup>* d d'" and "distinct (request_ids d)"
    and "\<forall>r \<in> set (recordRequests d). money_accounted d r"
  shows "\<forall>r \<in> set (recordRequests d'). money_accounted d' r"
proof
  fix r
  assume r: "r \<in> set (recordRequests d')"
  have ids: "request_ids d' = request_ids d" by (rule runs_ids [OF assms(1,2)])
  have found: "find_by rr_uuid (rr_uuid r) (recordRequests d') = Some r"
    using r ids assms(2) by (simp add: find_by_distinct)
  have "rr_uuid r \<in> set (request_ids d)" using r ids by (metis imageI list.set_map)
  then obtain x where "x \<in> set (recordRequests d)" and "rr_uuid x = rr_uuid r" by auto
  then have "find_by rr_uuid (rr_uuid r) (recordRequests d) = Some x"
    using assms(2) find_by_distinct by metis
  moreover have "account_ok (account_of d x)"
    using \<open>x \<in> set (recordRequests d)\<close> assms(3) by (simp add: money_accounted_iff)
  ultimately obtain y where "find_by rr_uuid (rr_uuid r) (recordRequests d') = Some y"
    and "account_ok (account_of d' y)"
    using runs_invariant [OF assms(1,2), where P = account_ok] account_ok_step by blast
  with found show "money_accounted d' r" by (simp add: money_accounted_iff)
qed

text \<open>A paid request that is fulfilled without releasing the payment keeps its money in escrow for
  ever: whatever is called afterwards, the request stays paid and held, and no release or refund of
  it is ever entered in the ledger.\<close>

theorem unreleased_payment_stranded:
  assumes "fulfillRecordRequest e sign d auth rid (Some b) = Inr (r, d1)"
    and "ffb_releasePayment b = Some False" and "rr_paymentStatus r = Pay_PAID"
    and "distinct (request_ids d)" and "(request_step sign)\<^sup>*\<^sup>* d1 d2"
  shows "\<exists>y. find_by rr_uuid rid (recordRequests d2) = Some y \<and>
    rr_paymentStatus y = Pay_PAID \<and> rr_escrowStatus y = Esc_HELD \<and>
    entries_of ''RecordRequest'' rid (revenueEntries d2) =
      entries_of ''RecordRequest'' rid (revenueEntries d1) \<and>
    entries_of ''RecordRequestRefund'' rid (revenueEntries d2) =
      entries_of ''RecordRequestRefund'' rid (revenueEntries d1)"
proof -
  from fulfill_change [OF assms(1)] obtain x where c: "request_change e auth rid d d1 x r" by blast
  note own = change_own [OF c]
  have held: "rr_escrowStatus r = Esc_HELD" "rr_fulfilledCredentialId r \<noteq> None"
    using fulfill_shape [OF assms(1), of x] own assms(2,3) by simp_all
  let ?P = "\<lambda>a. stranded a \<and> ac_released a = entries_of ''RecordRequest'' rid (revenueEntries d1) \<and>
    ac_refunded a = entries_of ''RecordRequestRefund'' rid (revenueEntries d1)"
  have "rr_uuid r = rid" using own by (elim conjE) (rule find_by_key)
  then have "?P (account_of d1 r)" using held assms(3) by (simp add: stranded_def account_of_def)
  moreover have "distinct (request_ids d1)" using change_ids [OF c] assms(4) by simp
  ultimately obtain y where y: "find_by rr_uuid rid (recordRequests d2) = Some y" "?P (account_of d2 y)"
    using runs_invariant [OF assms(5), of rid r ?P] own stranded_step by force
  then have "rr_uuid y = rid" by (elim conjE) (rule find_by_key)
  with y show ?thesis by (auto simp: stranded_def account_of_def)
qed

lemma fulfill_parts:
  assumes "fulfillRecordRequest e sign d auth rid (Some b) = Inr (r, d')"
  obtains x l i where "find_by rr_uuid rid (recordRequests d) = Some x"
    "assertRecordRequestReviewer d auth x = Inr ()" "rr_fulfilledCredentialId x = None"
    "find_by le_uuid (getOr (rr_learnerId x) []) (learners d) = Some l" "rr_learnerId x \<noteq> None"
    "find_by in_uuid (getOr (rr_institutionId x) []) (institutions d) = Some i" "rr_institutionId x \<noteq> None"
    "credentials d' = credentials d @
      [(requestCredential e sign (fresh e d) (getOr (ffb_credentialType b) TRANSCRIPT) x l i)
         \<lparr>cr_uuid := fresh e (drawn d)\<rparr>]"
    "map rv_amountMinor (revenueEntries d') = map rv_amountMinor (revenueEntries d) @
      (if ffb_releasePayment b \<noteq> Some False \<and> rr_paymentStatus x = Pay_PAID \<and> payable x
       then [getOr (rr_amountMinor x) 0] else [])"
proof -
  obtain x where x: "find_by rr_uuid rid (recordRequests d) = Some x"
    using fulfill_change [OF assms] change_own by blast
  have rel: "(getOr (ffb_releasePayment b) True) = (ffb_releasePayment b \<noteq> Some False)"
    by (cases "ffb_releasePayment b") auto
  have "\<exists>l i. assertRecordRequestReviewer d auth x = Inr () \<and> rr_fulfilledCredentialId x = None \<and>
    find_by le_uuid (getOr (rr_learnerId x) []) (learners d) = Some l \<and> rr_learnerId x \<noteq> None \<and>
    find_by in_uuid (getOr (rr_institutionId x) []) (institutions d) = Some i \<and> rr_institutionId x \<noteq> None \<and>
    credentials d' = credentials d @
      [(requestCredential e sign (fresh e d) (getOr (ffb_credentialType b) TRANSCRIPT) x l i)
         \<lparr>cr_uuid := fresh e (drawn d)\<rparr>] \<and>
    map rv_amountMinor (revenueEntries d') = map rv_amountMinor (revenueEntries d) @
      (if ffb_releasePayment b \<noteq> Some False \<and> rr_paymentStatus x = Pay_PAID \<and> payable x
       then [getOr (rr_amountMinor x) 0] else [])"
    using assms x unfolding fulfillRecordRequest_def
    apply (clarsimp simp: err_simps Let_def createCredential_def rel split del: if_split)
    apply (auto split: option.splits if_splits)
    done
  with x that show thesis by blast
qed

text \<open>A successful fulfilment publishes exactly one new credential, issued by the institution of
  the request to its learner and linked to the request both ways, and enters the payment in the
  revenue ledger exactly when it was paid, payable and not withheld.\<close>

theorem fulfillRecordRequest_publishes:
  assumes "fulfillRecordRequest e sign d auth rid (Some b) = Inr (r, d')"
  shows "\<exists>x l i. find_by rr_uuid rid (recordRequests d) = Some x \<and>
    assertRecordRequestReviewer d auth x = Inr () \<and> rr_fulfilledCredentialId x = None \<and>
    l \<in> set (learners d) \<and> rr_learnerId x = Some (le_uuid l) \<and>
    i \<in> set (institutions d) \<and> rr_institutionId x = Some (in_uuid i) \<and>
    credentials d' = credentials d @
      [(requestCredential e sign (fresh e d) (getOr (ffb_credentialType b) TRANSCRIPT) x l i)
         \<lparr>cr_uuid := fresh e (drawn d)\<rparr>] \<and>
    rr_status r = RR_FULFILLED \<and> rr_fulfilledCredentialId r = Some (fresh e (drawn d)) \<and>
    map rv_amountMinor (revenueEntries d') = map rv_amountMinor (revenueEntries d) @
      (case rr_amountMinor x of
         Some a \<Rightarrow> (if 0 < a \<and> rr_paymentStatus x = Pay_PAID \<and> ffb_releasePayment b \<noteq> Some False
                   then [a] else [])
       | None \<Rightarrow> [])"
proof -
  obtain x l i where x: "find_by rr_uuid rid (recordRequests d) = Some x" and
    parts: "assertRecordRequestReviewer d auth x = Inr ()" "rr_fulfilledCredentialId x = None"
    "find_by le_uuid (getOr (rr_learnerId x) []) (learners d) = Some l" "rr_learnerId x \<noteq> None"
    "find_by in_uuid (getOr (rr_institutionId x) []) (institutions d) = Some i" "rr_institutionId x \<noteq> None"
    "credentials d' = credentials d @
      [(requestCredential e sign (fresh e d) (getOr (ffb_credentialType b) TRANSCRIPT) x l i)
         \<lparr>cr_uuid := fresh e (drawn d)\<rparr>]"
    "map rv_amountMinor (revenueEntries d') = map rv_amountMinor (revenueEntries d) @
      (if ffb_releasePayment b \<noteq> Some False \<and> rr_paymentStatus x = Pay_PAID \<and> payable x
       then [getOr (rr_amountMinor x) 0] else [])"
    by (rule fulfill_parts [OF assms])
  have "l \<in> set (learners d) \<and> rr_learnerId x = Some (le_uuid l)"
    using find_by_Some [OF parts(3)] parts(4) by auto
  moreover have "i \<in> set (institutions d) \<and> rr_institutionId x = Some (in_uuid i)"
    using find_by_Some [OF parts(5)] parts(6) by auto
  moreover have "rr_status r = RR_FULFILLED \<and> rr_fulfilledCredentialId r = Some (fresh e (drawn d))"
    using fulfill_shape [OF assms x] by simp
  ultimately show ?thesis using x parts
    by (intro exI [of _ x] exI [of _ l] exI [of _ i]) (auto simp: payable_def split: option.splits)
qed

text \<open>A confirmed refund is only possible for a paid request that was not fulfilled, and it appends
  exactly one negative ledger entry, of at most the amount paid; the request is then refunded, its
  escrow is closed, and the same refund cannot be confirmed again.\<close>

theorem refund_confirmed_once:
  assumes "refundRecordRequestPayment e d auth rid (Some b) = Inr (r, d')"
    and "rfb_action b = Some CONFIRM"
  shows "\<exists>x a v. find_by rr_uuid rid (recordRequests d) = Some x \<and>
    rr_paymentStatus x = Pay_PAID \<and> rr_fulfilledCredentialId x = None \<and>
    revenueEntries d' = revenueEntries d @ [v] \<and> rv_sourceId v = Some rid \<and>
    rv_amountMinor v = - a \<and> 0 < a \<and> (\<forall>m. rr_amountMinor x = Some m \<longrightarrow> m \<noteq> 0 \<longrightarrow> a \<le> m) \<and>
    rr_paymentStatus r = Pay_REFUNDED \<and> rr_escrowStatus r = Esc_REFUNDED \<and>
    (\<forall>e' auth' body y. refundRecordRequestPayment e' d' auth' rid body \<noteq> Inr y)"
proof -
  from refund_change [OF assms(1)] obtain x where c: "request_change e auth rid d d' x r" by blast
  from change_own [OF c] have found: "find_by rr_uuid rid (recordRequests d) = Some x"
    "find_by rr_uuid rid (recordRequests d') = Some r" by simp_all
  then have ids: "rr_uuid x = rid" using find_by_key [of rr_uuid rid _ x] by blast
  let ?a = "getOr (orElse (rfb_amountMinor b) (rr_amountMinor x)) 0"
  let ?t = "dateOr e (rfb_refundedAt b)"
  note parts = refund_shape [OF assms(1) found(1) assms(2) refl refl]
  have "refundRecordRequestPayment e' d' auth' rid body \<noteq> Inr y" for e' auth' body y
    using found(2) parts unfolding refundRecordRequestPayment_def by (clarsimp simp: err_simps)
  then show ?thesis using parts found ids
    by (intro exI [of _ x] exI [of _ ?a]) auto
qed

lemma find_set_by:
  fixes key :: "'r \<Rightarrow> string"
  assumes "distinct (map key rows)" and "\<And>r. key (f r) = key r"
    and "List.find P rows = Some x" and "P (f x)"
  shows "List.find P (set_by key (key x) f rows) = Some (f x)"
  using assms(1,3)
proof (induction rows)
  case Nil
  then show ?case by simp
next
  case (Cons a rows)
  show ?case
  proof (cases "P a")
    case True
    then show ?thesis using Cons.prems assms(4) by simp
  next
    case False
    then have "List.find P rows = Some x" using Cons.prems by simp
    then have "x \<in> set rows" by (simp add: find_Some_in)
    then have "key a \<noteq> key x" using Cons.prems by auto
    then show ?thesis using Cons False by simp
  qed
qed

lemma find_by_eq: "find_by key k rows = List.find (\<lambda>r. key r = k) rows"
  by (simp add: find_by_def)

lemma find_by_set_by_other_column:
  assumes "\<And>r. col (f r) = col r" and "find_by col k rows = None"
  shows "find_by col k (set_by key i f rows) = None"
  using assms by (induction rows) (auto split: if_splits)

text \<open>After the payment is written, the lookup of the job finds the same request.\<close>

lemma found_again:
  fixes d :: db
  assumes "findRecordRequestForPayment d i j ref = Some x" and "distinct (request_ids d)"
    and "recordRequests d' = set_by rr_uuid (rr_uuid x) (paidRequest t a n ref p c) (recordRequests d)"
  shows "findRecordRequestForPayment d' i j ref = Some (paidRequest t a n ref p c x)"
proof -
  let ?f = "paidRequest t a n ref p c"
  have cols: "rr_uuid (?f r) = rr_uuid r" "rr_requestId (?f r) = rr_requestId r"
    "rr_paymentReference (?f r) = Some ref" for r
    by (simp_all add: paidRequest_def)
  have hit: "find_by col k (recordRequests d') = Some (?f x)"
    if "find_by col k (recordRequests d) = Some x" and "\<And>r. col (?f r) = col r"
    for col k
    unfolding assms(3) find_by_eq using that find_by_key [of col k _ x]
    by (intro find_set_by [OF assms(2)]) (auto simp: cols find_by_eq)
  have hit3: "List.find (\<lambda>r. rr_paymentReference r = Some ref \<or> rr_requestId r = ref) (recordRequests d')
      = Some (?f x)"
    if "List.find (\<lambda>r. rr_paymentReference r = Some ref \<or> rr_requestId r = ref) (recordRequests d) = Some x"
    unfolding assms(3) using that by (intro find_set_by [OF assms(2)]) (auto simp: cols)
  have miss: "find_by rr_uuid k (recordRequests d') = None"
    if "find_by rr_uuid k (recordRequests d) = None" for k
    unfolding assms(3) using that cols by (intro find_by_set_by_other_column) auto
  have miss2: "find_by rr_requestId k (recordRequests d') = None"
    if "find_by rr_requestId k (recordRequests d) = None" for k
    unfolding assms(3) using that cols by (intro find_by_set_by_other_column) auto
  show ?thesis using assms(1) hit [of rr_uuid] hit [of rr_requestId] hit3 miss miss2 cols
    unfolding findRecordRequestForPayment_def Let_def orElse_def
    by (auto split: option.splits if_splits)
qed

lemma found_request_replay:
  assumes "confirmFoundRequest d jobId ref amount cur t x = Inr (v, d')"
    and "findRecordRequestForPayment d i j ref = Some x" and "distinct (request_ids d)"
  shows "\<exists>y v'. findRecordRequestForPayment d' i j ref = Some y \<and>
    confirmFoundRequest d' jobId' ref amount cur t' y = Inr (v', d')"
proof (cases "rr_paymentStatus x = Pay_PAID")
  case True
  then have "d' = d" using assms(1)
    by (auto simp: confirmFoundRequest_def err_simps split: if_split_asm)
  with True assms(1,2) show ?thesis
    by (auto simp: confirmFoundRequest_def err_simps split: if_split_asm)
next
  case False
  let ?f = "paidRequest t (getOr (rr_amountMinor x) amount) (paystackNote jobId t ref x) ref ''PAYSTACK'' cur"
  have open_x: "\<not> closedRequest x" and rows: "recordRequests d' = set_by rr_uuid (rr_uuid x) ?f (recordRequests d)"
    using assms(1) False by (auto simp: confirmFoundRequest_def err_simps Let_def)
  have "\<not> closedRequest (?f x)" and "rr_paymentReference (?f x) = Some ref"
    using open_x by (auto simp: closedRequest_def paidRequest_def afterPayment_def)
  with found_again [OF assms(2,3) rows] show ?thesis
    by (auto simp: confirmFoundRequest_def)
qed

lemma confirmation_replays:
  assumes "processPaystackPaymentConfirmation e d job = Inr (v, d')"
    and "distinct (request_ids d)"
  shows "\<exists>v'. processPaystackPaymentConfirmation e' d' job = Inr (v', d')"
proof -
  let ?p = "asRecord (bj_payload job)"
  let ?ref = "getOr (asString (getProp ?p ''reference'')) []"
  let ?i = "asString (getProp ?p ''recordRequestId'')" and ?j = "asString (getProp ?p ''requestId'')"
  let ?amount = "asNumber (getProp ?p ''amountMinor'') 1 MAX_SAFE_INTEGER 0"
  let ?cur = "toUpperCase (getOr (asString (getProp ?p ''currency'')) ''NGN'')"
  let ?t = "\<lambda>e. getOr (asDate e (getProp ?p ''paidAt'')) (now e)"
  show ?thesis
  proof (cases "asString (getProp ?p ''event'') \<noteq> Some ''charge.success'' \<or>
      (truthy_text (asString (getProp ?p ''status'')) \<and> asString (getProp ?p ''status'') \<noteq> Some ''success'')")
    case True
    then show ?thesis using assms(1)
      unfolding processPaystackPaymentConfirmation_def by (auto simp: Let_def split: if_split_asm)
  next
    case False
    then obtain x where x: "findRecordRequestForPayment d ?i ?j ?ref = Some x"
        "confirmFoundRequest d (bj_uuid job) ?ref ?amount ?cur (?t e) x = Inr (v, d')"
      and ok: "truthy_text (asString (getProp ?p ''reference''))" "?amount \<noteq> 0"
      using assms(1) unfolding processPaystackPaymentConfirmation_def
      by (auto simp: Let_def err_simps split: if_split_asm)
    from found_request_replay [OF x(2,1) assms(2)] obtain y v'
      where "findRecordRequestForPayment d' ?i ?j ?ref = Some y"
        "confirmFoundRequest d' (bj_uuid job) ?ref ?amount ?cur (?t e') y = Inr (v', d')" by blast
    with False ok show ?thesis
      unfolding processPaystackPaymentConfirmation_def by (auto simp: Let_def)
  qed
qed

section \<open>Running the payment job again on a later database\<close>

text \<open>
  The request a job names by its own identifiers: by \<open>recordRequestId\<close> if that is a uuid, by
  \<open>requestId\<close> otherwise. A job that names none is matched by its payment reference only.
\<close>

definition job_field :: "background_job \<Rightarrow> string \<Rightarrow> string" where
  "job_field job name = getOr (asString (getProp (asRecord (bj_payload job)) name)) []"

definition named_request :: "db \<Rightarrow> background_job \<Rightarrow> record_request option" where
  "named_request d job =
     (let i = job_field job ''recordRequestId''; j = job_field job ''requestId''
      in if i \<noteq> [] \<and> uuidPattern i then find_by rr_uuid i (recordRequests d)
         else if j \<noteq> [] then find_by rr_requestId j (recordRequests d) else None)"

lemma named_request_found:
  assumes "named_request d job = Some x"
  shows "findRecordRequestForPayment d (asString (getProp (asRecord (bj_payload job)) ''recordRequestId''))
    (asString (getProp (asRecord (bj_payload job)) ''requestId'')) ref = Some x"
  using assms unfolding named_request_def findRecordRequestForPayment_def Let_def orElse_def job_field_def
  by (auto split: option.splits if_splits)

text \<open>A row is still found, and a row is still missed, when the two identifying columns stay.\<close>

definition same_columns :: "record_request \<Rightarrow> record_request \<Rightarrow> bool" where
  "same_columns r s \<longleftrightarrow> rr_uuid s = rr_uuid r \<and> rr_requestId s = rr_requestId r"

lemma find_by_same_columns:
  assumes "list_all2 same_columns rows rows'" and "key = rr_uuid \<or> key = rr_requestId"
  shows "rel_option same_columns (find_by key k rows) (find_by key k rows')"
  using assms by (induction rule: list_all2_induct) (auto simp: same_columns_def)

lemma set_by_same_columns:
  assumes "\<And>r. same_columns r (f r)"
  shows "list_all2 same_columns rows (set_by rr_uuid k f rows)"
  using assms by (induction rows) (auto simp: same_columns_def)

lemma change_same_columns:
  assumes "request_change e auth rid d d' x r"
  shows "list_all2 same_columns (recordRequests d) (recordRequests d')"
  using assms
  by (cases rule: request_change.cases)
    (auto simp: request_effect_def same_columns_def reviewedRequest_def paidRequest_def
      refundedRequest_def fulfilledRequest_def Let_def intro!: set_by_same_columns)

text \<open>
  What may happen between two runs of the job: calls of the handlers above, runs of the payment
  job, and steps of other parts of the program, which append requests and change none.
\<close>

inductive later_step :: "(jval \<Rightarrow> jval \<times> string) \<Rightarrow> db \<Rightarrow> db \<Rightarrow> bool" for sign d d' where
  handled: "request_step sign d d' \<Longrightarrow> later_step sign d d'"
| elsewhere: "recordRequests d' = recordRequests d @ new \<Longrightarrow> distinct (request_ids d') \<Longrightarrow>
    later_step sign d d'"

definition was_paid :: "record_request \<Rightarrow> bool" where
  "was_paid r \<longleftrightarrow> rr_paymentStatus r \<in> {Pay_PAID, Pay_REFUNDED}"

definition named_paid :: "db \<Rightarrow> background_job \<Rightarrow> string \<Rightarrow> bool" where
  "named_paid d job k \<longleftrightarrow> distinct (request_ids d) \<and>
     (\<exists>y. named_request d job = Some y \<and> rr_uuid y = k \<and> was_paid y)"

lemma named_request_same:
  assumes "list_all2 same_columns (recordRequests d) (recordRequests d')"
    and "named_request d job = Some y"
  shows "\<exists>z. named_request d' job = Some z \<and> rr_uuid z = rr_uuid y"
proof -
  have keep: "\<exists>z. find_by key k (recordRequests d') = Some z \<and> rr_uuid z = rr_uuid y"
    if "find_by key k (recordRequests d) = Some y" and "key = rr_uuid \<or> key = rr_requestId" for key k
    using find_by_same_columns [OF assms(1) that(2), of k] that(1)
    by (auto simp: option_rel_Some1 same_columns_def)
  show ?thesis using assms(2) keep unfolding named_request_def Let_def by (auto split: if_split_asm)
qed

lemma named_request_more:
  assumes "recordRequests d' = recordRequests d @ new" and "named_request d job = Some y"
  shows "named_request d' job = Some y"
  using assms unfolding named_request_def Let_def by (auto simp: find_by_append split: if_split_asm)

lemma named_request_row:
  assumes "named_request d job = Some y" and "distinct (request_ids d)"
  shows "find_by rr_uuid (rr_uuid y) (recordRequests d) = Some y"
  using found_by_uuid [OF named_request_found [OF assms(1)] assms(2)] .

lemma named_paid_later:
  assumes "later_step sign d d'" and "named_paid d job k"
  shows "named_paid d' job k"
proof -
  from assms(2) obtain y where ids: "distinct (request_ids d)"
    and y: "named_request d job = Some y" "rr_uuid y = k" "was_paid y"
    by (auto simp: named_paid_def)
  from assms(1) show ?thesis
  proof (cases rule: later_step.cases)
    case handled
    from step_change [OF this ids] have "list_all2 same_columns (recordRequests d) (recordRequests d')"
      by (auto simp: same_columns_def list.rel_refl dest: change_same_columns)
    from named_request_same [OF this y(1)] obtain z
      where z: "named_request d' job = Some z" "rr_uuid z = k" using y(2) by auto
    have ids': "distinct (request_ids d')" using step_ids [OF handled ids] ids by simp
    from step_account [OF handled ids named_request_row [OF y(1) ids]] named_request_row [OF z(1) ids']
    have "escrow_step (account_of d y) (account_of d' z)" using y(2) z(2) by auto
    then have "was_paid z" using y(3) by (cases rule: escrow_step.cases) (auto simp: was_paid_def account_of_def)
    with z ids' show ?thesis by (auto simp: named_paid_def)
  next
    case (elsewhere new)
    with y named_request_more [OF elsewhere(1) y(1)] show ?thesis by (auto simp: named_paid_def)
  qed
qed

lemma named_paid_for_ever:
  assumes "(later_step sign)\<^sup>*\<^sup>* d d'" and "named_paid d job k"
  shows "named_paid d' job k"
  using assms by (induction rule: rtranclp_induct) (auto dest: named_paid_later)

text \<open>The job once it has passed its first checks, and those checks.\<close>

definition confirms_a_charge :: "background_job \<Rightarrow> bool" where
  "confirms_a_charge job \<longleftrightarrow>
     (let p = asRecord (bj_payload job); status = asString (getProp p ''status'')
      in asString (getProp p ''event'') = Some ''charge.success'' \<and>
         \<not> (truthy_text status \<and> status \<noteq> Some ''success''))"

abbreviation job_amount :: "background_job \<Rightarrow> int" where
  "job_amount job \<equiv> asNumber (getProp (asRecord (bj_payload job)) ''amountMinor'') 1 MAX_SAFE_INTEGER 0"

abbreviation job_currency :: "background_job \<Rightarrow> string" where
  "job_currency job \<equiv> toUpperCase (getOr (asString (getProp (asRecord (bj_payload job)) ''currency'')) ''NGN'')"

lemma paystack_ignores:
  assumes "\<not> confirms_a_charge job"
  shows "\<exists>v. \<forall>d. processPaystackPaymentConfirmation e d job = Inr (v, d)"
  using assms unfolding processPaystackPaymentConfirmation_def confirms_a_charge_def
  by (auto simp: Let_def)

lemma paystack_run:
  assumes "confirms_a_charge job" and "named_request d job = Some x"
  shows "processPaystackPaymentConfirmation e d job =
    bindE (failIf (job_field job ''reference'' = [])
      (NonRetryable ''Paystack payment confirmation requires a transaction reference.'')) (\<lambda>_.
    bindE (failIf (job_amount job = 0)
      (NonRetryable ''Paystack payment confirmation requires a positive amount.'')) (\<lambda>_.
    confirmFoundRequest d (bj_uuid job) (job_field job ''reference'') (job_amount job) (job_currency job)
      (getOr (asDate e (getProp (asRecord (bj_payload job)) ''paidAt'')) (now e)) x))"
proof -
  have found: "findRecordRequestForPayment d (asString (getProp (asRecord (bj_payload job)) ''recordRequestId''))
    (asString (getProp (asRecord (bj_payload job)) ''requestId'')) ref = Some x" for ref
    by (rule named_request_found [OF assms(2)])
  have "truthy_text r \<longleftrightarrow> getOr r [] \<noteq> []" for r :: "string option"
    by (cases r) (simp_all add: truthy_text_def)
  with assms(1) found show ?thesis
    unfolding processPaystackPaymentConfirmation_def confirms_a_charge_def job_field_def Let_def
    by (auto simp: err_simps)
qed

lemma confirm_when_paid:
  assumes "rr_paymentStatus y = Pay_PAID"
  shows "case confirmFoundRequest d j ref n c t y of
      Inr (v, d') \<Rightarrow> d' = d
    | Inl err \<Rightarrow> (\<exists>m. err = NonRetryable m) \<and>
        (closedRequest y \<or> rr_paymentReference y \<noteq> None \<and> rr_paymentReference y \<noteq> Some ref)"
  using assms by (auto simp: confirmFoundRequest_def failIf_def bindE_def truthy_text_def split: option.splits)

text \<open>What a run that ended without an error leaves behind.\<close>

lemma confirmed_leaves:
  assumes "processPaystackPaymentConfirmation e d job = Inr (v, d1)" and "confirms_a_charge job"
    and "named_request d job = Some x" and "distinct (request_ids d)"
  shows "job_field job ''reference'' \<noteq> [] \<and> job_amount job \<noteq> 0 \<and> named_paid d1 job (rr_uuid x)"
proof -
  let ?ref = "job_field job ''reference''"
  have ok: "?ref \<noteq> []" "job_amount job \<noteq> 0"
    and run: "\<exists>t. confirmFoundRequest d (bj_uuid job) ?ref (job_amount job) (job_currency job) t x = Inr (v, d1)"
    using assms(1) unfolding paystack_run [OF assms(2,3)] by (auto simp: err_simps)
  have "named_paid d1 job (rr_uuid x)"
  proof (cases "rr_paymentStatus x = Pay_PAID")
    case True
    then have "d1 = d" using run by (auto simp: confirmFoundRequest_def err_simps split: if_split_asm)
    with True assms(3,4) show ?thesis by (auto simp: named_paid_def was_paid_def)
  next
    case False
    then obtain t a nt c where rows: "recordRequests d1 =
        set_by rr_uuid (rr_uuid x) (paidRequest t a nt ?ref ''PAYSTACK'' c) (recordRequests d)"
      using run by (auto simp: confirmFoundRequest_def err_simps Let_def)
    have ids: "request_ids d1 = request_ids d" unfolding rows by (simp add: row_simps)
    have "list_all2 same_columns (recordRequests d) (recordRequests d1)"
      unfolding rows by (rule set_by_same_columns) (simp add: same_columns_def paidRequest_def)
    from named_request_same [OF this assms(3)] obtain z
      where z: "named_request d1 job = Some z" "rr_uuid z = rr_uuid x" by blast
    have "find_by rr_uuid (rr_uuid x) (recordRequests d1) =
        map_option (paidRequest t a nt ?ref ''PAYSTACK'' c) (find_by rr_uuid (rr_uuid x) (recordRequests d))"
      unfolding rows by (simp add: row_simps)
    with named_request_row [OF z(1)] named_request_row [OF assms(3,4)] z(2) ids assms(4)
    have "z = paidRequest t a nt ?ref ''PAYSTACK'' c x" by simp
    with z ids assms(4) show ?thesis by (auto simp: named_paid_def was_paid_def)
  qed
  with ok show ?thesis by blast
qed


lemma upper_upper: "toUpperCase (toUpperCase s) = toUpperCase s"
proof -
  have "upper_char (upper_char c) = upper_char c" for c
  proof -
    have "(of_char c :: nat) < 256" by (rule nat_of_char_less_256)
    then show ?thesis by (auto simp: upper_char_def Let_def of_char_of)
  qed
  then show ?thesis by (simp add: toUpperCase_def)
qed

text \<open>What the first, confirming run checked and wrote.\<close>

lemma confirming_run:
  assumes "processPaystackPaymentConfirmation e d job = Inr (v, d1)" and "d1 \<noteq> d"
    and "named_request d job = Some x" and "distinct (request_ids d)"
  obtains t a nt where "confirms_a_charge job" "0 < a" "a \<le> job_amount job" "rr_paymentStatus x \<noteq> Pay_PAID"
    "find_by rr_uuid (rr_uuid x) (recordRequests d1) =
       Some (paidRequest t a nt (job_field job ''reference'') ''PAYSTACK'' (job_currency job) x)"
proof -
  have charge: "confirms_a_charge job" using paystack_ignores [of job e] assms(1,2) by force
  let ?ref = "job_field job ''reference''" and ?c = "job_currency job"
  obtain t where run: "confirmFoundRequest d (bj_uuid job) ?ref (job_amount job) ?c t x = Inr (v, d1)"
    using assms(1) unfolding paystack_run [OF charge assms(3)] by (auto simp: err_simps)
  have unpaid: "rr_paymentStatus x \<noteq> Pay_PAID"
    using run assms(2) by (auto simp: confirmFoundRequest_def err_simps split: if_split_asm)
  let ?a = "getOr (rr_amountMinor x) (job_amount job)"
  have a: "0 < ?a" "?a \<le> job_amount job"
    using run unpaid by (auto simp: confirmFoundRequest_def err_simps Let_def)
  have rows: "recordRequests d1 = set_by rr_uuid (rr_uuid x)
      (paidRequest t ?a (paystackNote (bj_uuid job) t ?ref x) ?ref ''PAYSTACK'' ?c) (recordRequests d)"
    using run unpaid by (auto simp: confirmFoundRequest_def err_simps Let_def)
  have "find_by rr_uuid (rr_uuid x) (recordRequests d1) =
      Some (paidRequest t ?a (paystackNote (bj_uuid job) t ?ref x) ?ref ''PAYSTACK'' ?c x)"
    unfolding rows using named_request_row [OF assms(3,4)] by (simp add: row_simps)
  from that [OF charge a unpaid this] show thesis .
qed

lemma review_shape:
  assumes "reviewRecordRequest e d auth rid (Some b) = Inr (q, d')"
    and "find_by rr_uuid rid (recordRequests d) = Some r"
  shows "q = reviewedRequest e auth b r \<and> rvb_status b \<noteq> RR_FULFILLED"
  using assms unfolding reviewRecordRequest_def
  by (clarsimp simp: err_simps Let_def simp del: reviewedRequest_fields)

text \<open>A request that is not closed, not paid and has the amount and currency of the job is confirmed.\<close>

lemma confirm_when_unpaid:
  assumes "find_by rr_uuid (rr_uuid y) (recordRequests d) = Some y" and "\<not> closedRequest y"
    and "rr_paymentStatus y \<noteq> Pay_PAID" and "rr_amountMinor y = Some a" and "0 < a" and "a \<le> n"
    and "toUpperCase (rr_currency y) = c"
  shows "\<exists>v d' z. confirmFoundRequest d j ref n c t y = Inr (v, d') \<and>
    find_by rr_uuid (rr_uuid y) (recordRequests d') = Some z \<and>
    rr_paymentStatus z = Pay_PAID \<and> rr_escrowStatus z = Esc_HELD"
  using assms by (simp add: confirmFoundRequest_def Let_def update_by_def row_simps failIf_def bindE_def)

text \<open>Which counter of the account a step moves is told by the payment column.\<close>

lemma escrow_step_counts:
  assumes "escrow_step a b"
  shows "ac_payment a \<noteq> Pay_PAID \<Longrightarrow> ac_payment b = Pay_PAID \<Longrightarrow>
      ac_confirmed b = Suc (ac_confirmed a) \<and> ac_refunded b = ac_refunded a"
    and "ac_payment a = Pay_PAID \<Longrightarrow> ac_payment b = Pay_REFUNDED \<Longrightarrow>
      ac_confirmed b = ac_confirmed a \<and> ac_refunded b = Suc (ac_refunded a)"
    and "ac_payment a = Pay_REFUNDED \<Longrightarrow> ac_payment b = Pay_REFUNDED \<Longrightarrow>
      ac_confirmed b = ac_confirmed a \<and> ac_refunded b = ac_refunded a"
  using assms by (auto elim!: escrow_stepE)

lemma account_step:
  assumes "request_step sign d d'" and "distinct (request_ids d)"
    and "find_by rr_uuid k (recordRequests d) = Some x" and "find_by rr_uuid k (recordRequests d') = Some y"
  shows "escrow_step (account_of d x) (account_of d' y)"
  using step_account [OF assms(1-3)] assms(4) by auto

text \<open>C36. A refunded payment can be confirmed a second time. The payment job confirms the payment of a
  request, an operator confirms its refund, and a reviewer gives the request, which the refund had
  cancelled, an open status again, which the review handler allows. Then a redelivery of the same job
  passes every check of the worker: the request counts as paid and held in escrow again, with one refund
  in the ledger and two confirmations of the one payment in the audit log.\<close>

theorem refunded_payment_confirmed_again:
  assumes "processPaystackPaymentConfirmation e1 d job = Inr (v1, d1)" and "d1 \<noteq> d"
    and "distinct (request_ids d)" and "named_request d job = Some x"
    and "refundRecordRequestPayment e2 d1 auth (rr_uuid x) (Some b) = Inr (r, d2)"
    and "rfb_action b = Some CONFIRM"
    and "reviewRecordRequest e3 d2 auth' (rr_uuid x) (Some rb) = Inr (q, d3)"
    and "rvb_status rb \<notin> {RR_REJECTED, RR_CANCELLED}" and "bj_payload job' = bj_payload job"
  shows "\<exists>v4 d4 z. processPaystackPaymentConfirmation e4 d3 job' = Inr (v4, d4) \<and>
    find_by rr_uuid (rr_uuid x) (recordRequests d4) = Some z \<and>
    rr_paymentStatus z = Pay_PAID \<and> rr_escrowStatus z = Esc_HELD \<and>
    entries_of ''RecordRequestRefund'' (rr_uuid x) (revenueEntries d4) =
      entries_of ''RecordRequestRefund'' (rr_uuid x) (revenueEntries d) + 1 \<and>
    events_of ''record_request.payment_confirmed'' (rr_uuid x) (auditEvents d4) =
      events_of ''record_request.payment_confirmed'' (rr_uuid x) (auditEvents d) + 2"
proof -
  let ?k = "rr_uuid x" and ?ref = "job_field job ''reference''" and ?c = "job_currency job"
  from confirming_run [OF assms(1,2,4,3)] obtain t a nt where charge: "confirms_a_charge job"
    and a: "0 < a" "a \<le> job_amount job" "rr_paymentStatus x \<noteq> Pay_PAID"
    and row1: "find_by rr_uuid ?k (recordRequests d1) = Some (paidRequest t a nt ?ref ''PAYSTACK'' ?c x)"
    (is "_ = Some ?x1") by blast
  note steps = request_step.paystack [OF assms(1)] request_step.refund [OF assms(5)]
    request_step.review [OF assms(7)]
  have ids: "distinct (request_ids d1)" "distinct (request_ids d2)" "distinct (request_ids d3)"
    using assms(3) step_ids [OF steps(1)] step_ids [OF steps(2)] step_ids [OF steps(3)] by simp_all
  from refund_change [OF assms(5)] change_own have row2: "find_by rr_uuid ?k (recordRequests d2) = Some r"
    by blast
  from review_change [OF assms(7)] change_own have row3: "find_by rr_uuid ?k (recordRequests d3) = Some q"
    by blast
  obtain t' a' where r: "r = refundedRequest auth b CONFIRM t' a' ?x1"
    using refund_shape [OF assms(5) row1 assms(6) refl refl] by blast
  have q: "q = reviewedRequest e3 auth' rb r" "rvb_status rb \<noteq> RR_FULFILLED"
    using review_shape [OF assms(7) row2] by simp_all
  have "rr_currency q = ?c" unfolding q r by (simp add: reviewedRequest_def refundedRequest_def paidRequest_def Let_def)
  moreover have fields: "rr_uuid q = ?k" "rr_amountMinor q = Some a" "rr_paymentStatus q = Pay_REFUNDED"
    "rr_status q = rvb_status rb" "rr_paymentStatus r = Pay_REFUNDED" unfolding q r by simp_all
  ultimately have "toUpperCase (rr_currency q) = ?c" "\<not> closedRequest q"
    using q(2) assms(8) by (auto simp: upper_upper closedRequest_def)
  note again = confirm_when_unpaid [of q d3, OF _ this(2) _ fields(2) a(1,2) this(1)]
  have left: "job_field job ''reference'' \<noteq> []" "job_amount job \<noteq> 0" "named_paid d1 job ?k"
    using confirmed_leaves [OF assms(1) charge assms(4,3)] by simp_all
  have "named_paid d3 job ?k"
    by (rule named_paid_later [OF later_step.handled [OF steps(3)]],
      rule named_paid_later [OF later_step.handled [OF steps(2)] left(3)])
  then obtain z where "named_request d3 job = Some z" "rr_uuid z = ?k" by (auto simp: named_paid_def)
  with row3 named_request_row [OF _ ids(3), of job z] have named: "named_request d3 job' = Some q"
    "confirms_a_charge job'" "job_field job' = job_field job"
    using charge assms(9) by (simp_all add: confirms_a_charge_def named_request_def job_field_def fun_eq_iff)
  obtain v4 d4 z where run4: "processPaystackPaymentConfirmation e4 d3 job' = Inr (v4, d4)"
    and row4: "find_by rr_uuid ?k (recordRequests d4) = Some z" "rr_paymentStatus z = Pay_PAID"
      "rr_escrowStatus z = Esc_HELD"
    using again row3 fields left unfolding paystack_run [OF named(2,1)]
    by (fastforce simp: failIf_def bindE_def named(3) assms(9))
  have accounts: "escrow_step (account_of d x) (account_of d1 ?x1)"
    "escrow_step (account_of d1 ?x1) (account_of d2 r)" "escrow_step (account_of d2 r) (account_of d3 q)"
    "escrow_step (account_of d3 q) (account_of d4 z)"
    using account_step [OF steps(1) assms(3) named_request_row [OF assms(4,3)] row1]
      account_step [OF steps(2) ids(1) row1 row2] account_step [OF steps(3) ids(2) row2 row3]
      account_step [OF request_step.paystack [OF run4] ids(3) row3 row4(1)] by simp_all
  have k: "rr_uuid r = ?k" "rr_uuid z = ?k" "rr_uuid q = ?k"
    using find_by_key row2 row4(1) row3 by metis+
  have "entries_of ''RecordRequestRefund'' ?k (revenueEntries d4) =
      entries_of ''RecordRequestRefund'' ?k (revenueEntries d) + 1 \<and>
    events_of ''record_request.payment_confirmed'' ?k (auditEvents d4) =
      events_of ''record_request.payment_confirmed'' ?k (auditEvents d) + 2"
    using escrow_step_counts(1) [OF accounts(1)] escrow_step_counts(2) [OF accounts(2)]
      escrow_step_counts(3) [OF accounts(3)] escrow_step_counts(1) [OF accounts(4)] a(3) fields row4 k
    by (simp add: account_of_def)
  with run4 row4 show ?thesis by blast
qed

section \<open>Witnesses\<close>

definition sample_request :: record_request where
  "sample_request = \<lparr>rr_uuid = ''r1'', rr_requestId = ''REQ-1'', rr_learnerId = Some ''l1'',
     rr_institutionId = Some school, rr_educationLevel = ''SECONDARY'', rr_yearsAttendedFrom = None,
     rr_yearsAttendedTo = None, rr_studentNumber = None, rr_departmentOrClass = None,
     rr_recordTypesRequested = [''TRANSCRIPT''], rr_status = RR_AWAITING_PAYMENT,
     rr_paymentStatus = Pay_PENDING, rr_escrowStatus = Esc_NONE, rr_paymentReference = None,
     rr_paymentProvider = None, rr_amountMinor = Some 500, rr_currency = ''NGN'', rr_paymentHeldAt = None,
     rr_paymentReleasedAt = None, rr_refundRequestedAt = None, rr_assignedToId = None, rr_assignedAt = None,
     rr_fulfilledCredentialId = None, rr_rejectionReason = None, rr_rejectedAt = None,
     rr_escalationReason = None, rr_escalatedAt = None, rr_resolutionNote = None, rr_fulfilledAt = None,
     rr_notes = JArr [], rr_institutionNameSubmitted = ''School'', rr_proofDocumentUrls = [],
     rr_requesterName = None, rr_requesterEmail = None\<rparr>"

definition unpaid_db :: db where
  "unpaid_db = sample_db\<lparr>recordRequests := [sample_request]\<rparr>"

definition paid_db :: db where
  "paid_db = sample_db\<lparr>recordRequests :=
     [sample_request\<lparr>rr_status := RR_SUBMITTED, rr_paymentStatus := Pay_PAID, rr_escrowStatus := Esc_HELD\<rparr>]\<rparr>"

definition plain_sign :: "jval \<Rightarrow> jval \<times> string" where
  "plain_sign v = (JNull, ''sig'')"

definition confirm_sample :: confirm_body where
  "confirm_sample = \<lparr>cfb_paymentReference = ''ref-1'', cfb_amountMinor = Some 500, cfb_currency = None,
     cfb_paymentProvider = None, cfb_paidAt = None, cfb_note = None\<rparr>"

definition fulfill_sample :: "bool \<Rightarrow> fulfill_body" where
  "fulfill_sample release = \<lparr>ffb_credentialType = None, ffb_note = None, ffb_releasePayment = Some release\<rparr>"

definition refund_sample :: refund_body where
  "refund_sample = \<lparr>rfb_action = Some CONFIRM, rfb_reason = ''late'', rfb_amountMinor = Some 400,
     rfb_refundReference = Some ''rf-1'', rfb_paymentProvider = None, rfb_refundedAt = None,
     rfb_note = None\<rparr>"

definition paystack_job :: background_job where
  "paystack_job = \<lparr>bj_uuid = ''j1'', bj_type = PAYSTACK_PAYMENT_CONFIRMATION,
     bj_queue = ''payments.paystack'', bj_status = Job_RUNNING, bj_institutionId = None,
     bj_createdById = None, bj_relatedEntityType = None, bj_relatedEntityId = None, bj_priority = 0,
     bj_payload = JObj [(''event'', JStr ''charge.success''), (''reference'', JStr ''ref-1''),
       (''requestId'', JStr ''REQ-1''), (''amountMinor'', jint 500)],
     bj_result = JNull, bj_error = None, bj_progress = 10, bj_attempts = 1, bj_maxAttempts = 3,
     bj_runAfter = 0, bj_lockedAt = Some 0, bj_lockedBy = Some ''w'', bj_startedAt = Some 0,
     bj_completedAt = None, bj_failedAt = None, bj_createdAt = 0\<rparr>"

lemmas request_samples = unpaid_db_def paid_db_def sample_request_def confirm_sample_def
  fulfill_sample_def refund_sample_def

lemma founder_operates: "assertActorCanOperateInstitution d founder i = Inr ()"
  using founder_may_operate assertActor_complete by blast

lemma founder_reviews: "assertRecordRequestReviewer d founder r = Inr ()"
  by (simp add: assertRecordRequestReviewer_def founder_operates) (simp add: founder_def)

lemma confirm_runs:
  "\<exists>r d'. confirmRecordRequestPayment sample_env unpaid_db founder ''r1'' (Some confirm_sample) = Inr (r, d')"
  by (simp add: confirmRecordRequestPayment_def safeParse_def founder_reviews Let_def update_by_def
      confirmRecordRequestPayment_ok_def request_samples len_in_def amount_ok_def closedRequest_def)

lemma refund_runs_on:
  assumes "recordRequests d = [y]" and "rr_uuid y = ''r1''" and "rr_paymentStatus y = Pay_PAID"
    and "rr_escrowStatus y = Esc_HELD" and "rr_fulfilledCredentialId y = None"
    and "rr_amountMinor y = Some 500" and "rr_status y = RR_SUBMITTED"
  shows "\<exists>r d' z. refundRecordRequestPayment sample_env d founder ''r1'' (Some refund_sample) = Inr (r, d') \<and>
    recordRequests d' = [z] \<and> rr_uuid z = ''r1''"
  using assms by (simp add: refundRecordRequestPayment_def safeParse_def founder_reviews Let_def update_by_def
      refundRecordRequestPayment_ok_def refund_sample_def len_in_def amount_ok_def truthy_text_def row_simps)

lemma refund_runs:
  "\<exists>r d'. refundRecordRequestPayment sample_env paid_db founder ''r1'' (Some refund_sample) = Inr (r, d')"
  using refund_runs_on [of paid_db "sample_request\<lparr>rr_status := RR_SUBMITTED, rr_paymentStatus := Pay_PAID,
      rr_escrowStatus := Esc_HELD\<rparr>"]
  by (auto simp: paid_db_def sample_request_def)

definition review_sample :: review_body where
  "review_sample = \<lparr>rvb_status = RR_INSTITUTION_REVIEW, rvb_note = None, rvb_assignedToId = None,
     rvb_rejectionReason = None, rvb_escalationReason = None, rvb_resolutionNote = None\<rparr>"

lemma review_runs_on:
  assumes "recordRequests d = [z]" and "rr_uuid z = ''r1''"
  shows "\<exists>q d'. reviewRecordRequest sample_env d founder ''r1'' (Some review_sample) = Inr (q, d')"
  using assms by (simp add: reviewRecordRequest_def safeParse_def founder_reviews Let_def update_by_def
      reviewRecordRequest_ok_def review_sample_def)

lemma fulfill_runs:
  "\<exists>r d'. fulfillRecordRequest sample_env plain_sign paid_db founder ''r1'' (Some (fulfill_sample release)) =
     Inr (r, d') \<and> rr_paymentStatus r = Pay_PAID"
  by (simp add: fulfillRecordRequest_def safeParse_def founder_reviews Let_def update_by_def
      fulfillRecordRequest_ok_def request_samples sample_db_def createCredential_def check_unique_def
      empty_db_def school_def map_filter_simps)

lemma paystack_runs:
  "\<exists>v d' y. processPaystackPaymentConfirmation sample_env unpaid_db paystack_job = Inr (v, d') \<and>
     recordRequests d' = [y] \<and> rr_uuid y = ''r1'' \<and> rr_paymentStatus y = Pay_PAID \<and>
     rr_escrowStatus y = Esc_HELD \<and> rr_fulfilledCredentialId y = None \<and> rr_amountMinor y = Some 500 \<and>
     rr_status y = RR_SUBMITTED"
  by (simp add: processPaystackPaymentConfirmation_def confirmFoundRequest_def Let_def update_by_def
      paystack_job_def request_samples getProp_def asRecord_def asString_def trim_def is_space_def
      jint_def asNumber_def clampNumber_def MAX_SAFE_INTEGER_def truthy_text_def
      findRecordRequestForPayment_def uuidPattern_def matches_def closedRequest_def
      toUpperCase_def upper_char_def row_simps paidRequest_def afterPayment_def)

lemma paystack_job_names: "named_request unpaid_db paystack_job = Some sample_request"
  by (simp add: named_request_def job_field_def paystack_job_def unpaid_db_def sample_request_def
      getProp_def asRecord_def asString_def trim_def is_space_def)

theorem handlers_refine_escrow_witness:
  "\<exists>d' y. find_by rr_uuid ''r1'' (recordRequests d') = Some y \<and>
     escrow_step (account_of unpaid_db sample_request) (account_of d' y)"
proof -
  obtain r d' where "confirmRecordRequestPayment sample_env unpaid_db founder ''r1'' (Some confirm_sample) = Inr (r, d')"
    using confirm_runs by blast
  from handlers_refine_escrow [OF request_step.confirm [OF this]]
  have "find_by rr_uuid ''r1'' (recordRequests unpaid_db) = Some sample_request \<longrightarrow>
      (\<exists>y. find_by rr_uuid ''r1'' (recordRequests d') = Some y \<and>
         escrow_step (account_of unpaid_db sample_request) (account_of d' y))"
    by (simp add: unpaid_db_def)
  moreover have "find_by rr_uuid ''r1'' (recordRequests unpaid_db) = Some sample_request"
    by (simp add: unpaid_db_def sample_request_def)
  ultimately show ?thesis by blast
qed

theorem escrow_never_overdrawn_witness:
  "\<exists>d'. request_step plain_sign unpaid_db d' \<and> (\<forall>r \<in> set (recordRequests d'). money_accounted d' r)"
proof -
  obtain r d' where "confirmRecordRequestPayment sample_env unpaid_db founder ''r1'' (Some confirm_sample) = Inr (r, d')"
    using confirm_runs by blast
  then have step: "request_step plain_sign unpaid_db d'" by (rule request_step.confirm)
  have "\<forall>r \<in> set (recordRequests unpaid_db). money_accounted unpaid_db r"
    by (simp add: request_samples money_accounted_def columns_agree_def sample_db_def empty_db_def)
  with escrow_never_overdrawn [OF r_into_rtranclp [of "request_step plain_sign", OF step]] step
  show ?thesis by (auto simp: unpaid_db_def)
qed

theorem unreleased_payment_stranded_witness:
  "\<exists>r d1 y. fulfillRecordRequest sample_env plain_sign paid_db founder ''r1'' (Some (fulfill_sample False)) =
       Inr (r, d1) \<and> find_by rr_uuid ''r1'' (recordRequests d1) = Some y \<and>
     rr_paymentStatus y = Pay_PAID \<and> rr_escrowStatus y = Esc_HELD"
proof -
  obtain r d1 where run: "fulfillRecordRequest sample_env plain_sign paid_db founder ''r1'' (Some (fulfill_sample False)) = Inr (r, d1)"
    and "rr_paymentStatus r = Pay_PAID" using fulfill_runs by blast
  from unreleased_payment_stranded [OF this(1) _ this(2) _ rtranclp.rtrancl_refl]
  obtain y where "find_by rr_uuid ''r1'' (recordRequests d1) = Some y" "rr_paymentStatus y = Pay_PAID"
    "rr_escrowStatus y = Esc_HELD" by (auto simp: fulfill_sample_def paid_db_def)
  with run show ?thesis by blast
qed

theorem fulfillRecordRequest_publishes_witness:
  "\<exists>r d' c. fulfillRecordRequest sample_env plain_sign paid_db founder ''r1'' (Some (fulfill_sample True)) =
      Inr (r, d') \<and> credentials d' = credentials paid_db @ [c] \<and>
    map rv_amountMinor (revenueEntries d') = map rv_amountMinor (revenueEntries paid_db) @ [500]"
proof -
  obtain r d' where run: "fulfillRecordRequest sample_env plain_sign paid_db founder ''r1'' (Some (fulfill_sample True)) = Inr (r, d')"
    using fulfill_runs by blast
  from fulfillRecordRequest_publishes [OF this] run show ?thesis
    by (auto simp: fulfill_sample_def paid_db_def sample_request_def)
qed

theorem refund_confirmed_once_witness:
  "\<exists>r d'. refundRecordRequestPayment sample_env paid_db founder ''r1'' (Some refund_sample) = Inr (r, d') \<and>
     rr_paymentStatus r = Pay_REFUNDED \<and> rr_escrowStatus r = Esc_REFUNDED"
proof -
  obtain r d' where run: "refundRecordRequestPayment sample_env paid_db founder ''r1'' (Some refund_sample) = Inr (r, d')"
    using refund_runs by blast
  from refund_confirmed_once [OF this] run show ?thesis by (auto simp: refund_sample_def)
qed


theorem refunded_payment_confirmed_again_witness:
  "\<exists>v1 d1 r d2 q d3 v4 d4 z.
     processPaystackPaymentConfirmation sample_env unpaid_db paystack_job = Inr (v1, d1) \<and>
     refundRecordRequestPayment sample_env d1 founder ''r1'' (Some refund_sample) = Inr (r, d2) \<and>
     reviewRecordRequest sample_env d2 founder ''r1'' (Some review_sample) = Inr (q, d3) \<and>
     processPaystackPaymentConfirmation sample_env d3 paystack_job = Inr (v4, d4) \<and>
     find_by rr_uuid ''r1'' (recordRequests d4) = Some z \<and>
     rr_paymentStatus z = Pay_PAID \<and> rr_escrowStatus z = Esc_HELD"
proof -
  obtain v1 d1 y where run: "processPaystackPaymentConfirmation sample_env unpaid_db paystack_job = Inr (v1, d1)"
    and y: "recordRequests d1 = [y]" "rr_uuid y = ''r1''" "rr_paymentStatus y = Pay_PAID"
      "rr_escrowStatus y = Esc_HELD" "rr_fulfilledCredentialId y = None" "rr_amountMinor y = Some 500"
      "rr_status y = RR_SUBMITTED"
    using paystack_runs by blast
  from refund_runs_on [OF y] obtain r d2 z
    where refund: "refundRecordRequestPayment sample_env d1 founder ''r1'' (Some refund_sample) = Inr (r, d2)"
      and z: "recordRequests d2 = [z]" "rr_uuid z = ''r1''" by blast
  from review_runs_on [OF z] obtain q d3
    where review: "reviewRecordRequest sample_env d2 founder ''r1'' (Some review_sample) = Inr (q, d3)" by blast
  have changed: "d1 \<noteq> unpaid_db" using y(1,3) by (auto simp: unpaid_db_def sample_request_def)
  have key: "rr_uuid sample_request = ''r1''" by (simp add: sample_request_def)
  have "distinct (request_ids unpaid_db)" by (simp add: unpaid_db_def)
  from refunded_payment_confirmed_again [OF run changed this paystack_job_names, unfolded key,
      OF refund _ review _ refl, of sample_env]
  obtain v4 d4 z4 where "processPaystackPaymentConfirmation sample_env d3 paystack_job = Inr (v4, d4)"
    "find_by rr_uuid ''r1'' (recordRequests d4) = Some z4" "rr_paymentStatus z4 = Pay_PAID"
    "rr_escrowStatus z4 = Esc_HELD" by (auto simp: refund_sample_def review_sample_def)
  with run refund review show ?thesis by blast
qed

end
