(* ===== verification/Rollovers.thy ===== *)
theory Rollovers
  imports RecordRequests
begin

text \<open>
  The end-of-session rollover of \<open>gateway/governance/governance.service.ts\<close>: preview of the
  candidates, and the confirmation that moves every enrolment to its decision, writes its rollover
  record and opens the next enrolment of those who stay. The transaction of the confirmation is a
  fold over the decisions; an error in it leaves the database as it was.

  Foreign keys are checked for the ids that come from the body; the unique index of \<open>Enrolment\<close>
  is checked after every statement, as PostgreSQL does.
\<close>

section \<open>Institutions of a human session\<close>

text \<open>The pattern of the private \<open>isUuid\<close> of this service, with the groups it has.\<close>

definition version_1_5 :: "char \<Rightarrow> bool" where
  "version_1_5 c \<longleftrightarrow> c \<in> set ''12345''"

definition isUuid :: "string \<Rightarrow> bool" where
  "isUuid = matches (replicate 8 is_hex @ [dash] @ replicate 4 is_hex @ [dash] @
     [version_1_5] @ replicate 3 is_hex @ [dash] @ [variant_digit] @ replicate 12 is_hex)"

definition institutionRefWhere :: "string \<Rightarrow> institution \<Rightarrow> bool" where
  "institutionRefWhere ref i = (if isUuid ref then in_uuid i = ref else in_institutionId i = ref)"

definition resolveHumanInstitution :: "db \<Rightarrow> auth_token \<Rightarrow> string \<Rightarrow> institution res" where
  "resolveHumanInstitution d auth ref =
     bindE (failIf (au_kind auth = Some API_KEY)
       (Forbidden ''Human institution session is required for governance actions.'')) (\<lambda>_.
     bindE (require (List.find (institutionRefWhere ref) (institutions d))
       (BadRequest ''Active institution not found.'')) (\<lambda>i.
     bindE (failIf (in_status i \<noteq> Inst_ACTIVE) (BadRequest ''Active institution not found.'')) (\<lambda>_.
     bindE (assertActorCanOperateInstitution d auth (in_uuid i)) (\<lambda>_. Inr i))))"

lemma resolve_sound:
  assumes "resolveHumanInstitution d auth ref = Inr i"
  shows "i \<in> set (institutions d) \<and> in_status i = Inst_ACTIVE \<and> au_kind auth \<noteq> Some API_KEY \<and>
    assertActorCanOperateInstitution d auth (in_uuid i) = Inr ()"
  using assms unfolding resolveHumanInstitution_def by (auto simp: err_simps dest: find_Some_in)

section \<open>Scope checks\<close>

definition usable_session :: "db \<Rightarrow> string \<Rightarrow> string \<Rightarrow> bool" where
  "usable_session d inst s =
     (case find_by se_uuid s (academicSessions d) of None \<Rightarrow> False
      | Some r \<Rightarrow> se_institutionId r = inst \<and> se_status r \<noteq> Session_SEALED)"

definition usable_structure :: "db \<Rightarrow> string \<Rightarrow> string \<Rightarrow> bool" where
  "usable_structure d inst s =
     (case find_by st_uuid s (academicStructures d) of None \<Rightarrow> False
      | Some r \<Rightarrow> st_institutionId r = inst \<and> st_status r = Structure_ACTIVE)"

text \<open>\<open>given x p\<close>: the check runs only when the optional id is there (and not empty).\<close>

definition given :: "string option \<Rightarrow> (string \<Rightarrow> bool) \<Rightarrow> bool" where
  "given x p = (case x of None \<Rightarrow> True | Some s \<Rightarrow> s = [] \<or> p s)"

definition assertRolloverScope ::
    "db \<Rightarrow> string \<Rightarrow> string \<Rightarrow> string option \<Rightarrow> string option \<Rightarrow> string option \<Rightarrow> unit res" where
  "assertRolloverScope d inst fromSessionId toSessionId fromStructureId toStructureId =
     bindE (failIf (\<not> usable_session d inst fromSessionId)
       (BadRequest ''Source academic session must belong to the institution and must not be sealed.'')) (\<lambda>_.
     bindE (failIf (\<not> given toSessionId (usable_session d inst))
       (BadRequest ''Target academic session must belong to the institution and must not be sealed.'')) (\<lambda>_.
     bindE (failIf (\<not> given fromStructureId (usable_structure d inst))
       (BadRequest ''Source academic structure must be active and belong to the institution.'')) (\<lambda>_.
     failIf (\<not> given toStructureId (usable_structure d inst))
       (BadRequest ''Target academic structure must be active and belong to the institution.''))))"

fun decision_text :: "rollover_decision \<Rightarrow> string" where
  "decision_text PROMOTED = ''PROMOTED''"
| "decision_text REPEATED = ''REPEATED''"
| "decision_text TRANSFERRED_OUT = ''TRANSFERRED_OUT''"
| "decision_text WITHDRAWN = ''WITHDRAWN''"
| "decision_text GRADUATED = ''GRADUATED''"
| "decision_text SUSPENDED = ''SUSPENDED''"
| "decision_text SEALED = ''SEALED''"

definition stays :: "rollover_decision \<Rightarrow> bool" where
  "stays c \<longleftrightarrow> c = PROMOTED \<or> c = REPEATED"

definition assertDecisionTarget ::
    "db \<Rightarrow> string \<Rightarrow> rollover_decision \<Rightarrow> string option \<Rightarrow> string option \<Rightarrow> unit res" where
  "assertDecisionTarget d inst decision toSessionId toStructureId =
     (if \<not> stays decision then Inr ()
      else if \<not> truthy_text toSessionId
      then Inl (BadRequest (decision_text decision @ '' rollover decisions require a target academic session.''))
      else assertRolloverScope d inst (getOr toSessionId []) toSessionId None toStructureId)"

fun enrolmentStatusForDecision :: "rollover_decision \<Rightarrow> enrolment_status" where
  "enrolmentStatusForDecision PROMOTED = En_PROMOTED"
| "enrolmentStatusForDecision REPEATED = En_REPEATED"
| "enrolmentStatusForDecision TRANSFERRED_OUT = En_TRANSFERRED_OUT"
| "enrolmentStatusForDecision WITHDRAWN = En_WITHDRAWN"
| "enrolmentStatusForDecision GRADUATED = En_GRADUATED"
| "enrolmentStatusForDecision SUSPENDED = En_SUSPENDED"
| "enrolmentStatusForDecision SEALED = En_SEALED"

definition terminalDecision :: "rollover_decision \<Rightarrow> bool" where
  "terminalDecision c \<longleftrightarrow> c = TRANSFERRED_OUT \<or> c = WITHDRAWN \<or> c = GRADUATED"

fun exitTypeForDecision :: "rollover_decision \<Rightarrow> exit_type option" where
  "exitTypeForDecision TRANSFERRED_OUT = Some Exit_TRANSFER"
| "exitTypeForDecision WITHDRAWN = Some Exit_WITHDRAW"
| "exitTypeForDecision GRADUATED = Some Exit_GRADUATE"
| "exitTypeForDecision c = None"

definition levelForTargetStructure :: "db \<Rightarrow> string option \<Rightarrow> string \<Rightarrow> string" where
  "levelForTargetStructure d structureId fallbackLevel =
     (if \<not> truthy_text structureId then fallbackLevel
      else case find_by st_uuid (getOr structureId []) (academicStructures d) of
             None \<Rightarrow> fallbackLevel | Some s \<Rightarrow> st_name s)"

section \<open>Preview\<close>

record preview_body =
  pvb_institutionId :: string
  pvb_fromSessionId :: string
  pvb_toSessionId :: "string option"
  pvb_fromStructureId :: "string option"
  pvb_toStructureId :: "string option"
  pvb_decision :: "rollover_decision option"
  pvb_enrolmentIds :: "string list option"
  pvb_limit :: "int option"

definition previewRollover_ok :: "env \<Rightarrow> preview_body \<Rightarrow> bool" where
  "previewRollover_ok e b \<longleftrightarrow>
     pvb_institutionId b \<noteq> [] \<and> zod_uuid e (pvb_fromSessionId b) \<and> opt_ok (zod_uuid e) (pvb_toSessionId b) \<and>
     opt_ok (zod_uuid e) (pvb_fromStructureId b) \<and> opt_ok (zod_uuid e) (pvb_toStructureId b) \<and>
     opt_ok (\<lambda>xs. list_all (zod_uuid e) xs \<and> length xs \<le> 500) (pvb_enrolmentIds b) \<and>
     opt_ok (\<lambda>n. 1 \<le> n \<and> n \<le> 500) (pvb_limit b)"

record candidate =
  ca_enrolmentId :: string
  ca_learnerId :: string
  ca_studentNumber :: string
  ca_currentLevel :: string
  ca_currentProgramme :: string
  ca_fromSessionId :: "string option"
  ca_fromStructureId :: "string option"
  ca_recommendedDecision :: rollover_decision
  ca_toSessionId :: "string option"
  ca_toStructureId :: "string option"
  ca_blockedByExistingRollover :: "rollover_record option"

definition open_rollover :: "string \<Rightarrow> rollover_record \<Rightarrow> bool" where
  "open_rollover fromSessionId r \<longleftrightarrow> rl_fromSessionId r = fromSessionId \<and> rl_status r \<in> {Roll_PENDING, Roll_APPROVED}"

definition in_scope :: "string \<Rightarrow> string \<Rightarrow> string option \<Rightarrow> enrolment \<Rightarrow> bool" where
  "in_scope inst fromSessionId fromStructureId x \<longleftrightarrow>
     en_institutionId x = inst \<and> en_academicSessionId x = Some fromSessionId \<and> en_status x = En_ACTIVE \<and>
     (truthy_text fromStructureId \<longrightarrow> en_structureScopeId x = fromStructureId)"

text \<open>\<open>collate\<close> is the order of the database on texts; sorting twice, the second time stably, orders
  by level and then by student number.\<close>

definition previewRollover ::
    "(string \<Rightarrow> 'k::linorder) \<Rightarrow> env \<Rightarrow> db \<Rightarrow> auth_token \<Rightarrow> preview_body option \<Rightarrow> (candidate list \<times> db) res" where
  "previewRollover collate e d auth body =
     bindE (safeParse (previewRollover_ok e) body) (\<lambda>p.
     bindE (resolveHumanInstitution d auth (pvb_institutionId p)) (\<lambda>inst.
     bindE (assertRolloverScope d (in_uuid inst) (pvb_fromSessionId p) (pvb_toSessionId p)
              (pvb_fromStructureId p) (pvb_toStructureId p)) (\<lambda>_.
     let rows = take (nat (getOr (pvb_limit p) 200))
           (sort_key (\<lambda>x. collate (en_level x)) (sort_key (\<lambda>x. collate (en_studentNumber x))
             (filter (\<lambda>x. in_scope (in_uuid inst) (pvb_fromSessionId p) (pvb_fromStructureId p) x \<and>
                         opt_ok (\<lambda>ids. en_uuid x \<in> set ids) (pvb_enrolmentIds p)) (enrolments d))));
         candidates = map (\<lambda>x. \<lparr>ca_enrolmentId = en_uuid x, ca_learnerId = en_learnerId x,
             ca_studentNumber = en_studentNumber x, ca_currentLevel = en_level x,
             ca_currentProgramme = en_programme x, ca_fromSessionId = en_academicSessionId x,
             ca_fromStructureId = en_structureScopeId x,
             ca_recommendedDecision = getOr (pvb_decision p) PROMOTED,
             ca_toSessionId = pvb_toSessionId p, ca_toStructureId = pvb_toStructureId p,
             ca_blockedByExistingRollover =
               List.find (\<lambda>r. rl_enrolmentId r = Some (en_uuid x) \<and> open_rollover (pvb_fromSessionId p) r)
                 (rolloverRecords d)\<rparr>) rows
     in Inr (candidates,
       audit_write (humanActor auth (audit_event_of ''rollover.preview'' ''AcademicSession''
           (pvb_fromSessionId p) (Some (in_uuid inst))
           (JObj [(''candidateCount'', jint (int (length candidates))),
                  (''fromStructureId'', jstr (pvb_fromStructureId p)),
                  (''toSessionId'', jstr (pvb_toSessionId p)),
                  (''toStructureId'', jstr (pvb_toStructureId p))]))) d))))"

section \<open>Confirmation\<close>

record decision_body =
  dcb_enrolmentId :: string
  dcb_decision :: rollover_decision
  dcb_toSessionId :: "string option"
  dcb_toStructureId :: "string option"
  dcb_reason :: "string option"

record confirm_rollover_body =
  crb_institutionId :: string
  crb_fromSessionId :: string
  crb_toSessionId :: "string option"
  crb_fromStructureId :: "string option"
  crb_toStructureId :: "string option"
  crb_decisions :: "decision_body list"

definition confirmRollover_ok :: "env \<Rightarrow> confirm_rollover_body \<Rightarrow> bool" where
  "confirmRollover_ok e b \<longleftrightarrow>
     crb_institutionId b \<noteq> [] \<and> zod_uuid e (crb_fromSessionId b) \<and> opt_ok (zod_uuid e) (crb_toSessionId b) \<and>
     opt_ok (zod_uuid e) (crb_fromStructureId b) \<and> opt_ok (zod_uuid e) (crb_toStructureId b) \<and>
     1 \<le> length (crb_decisions b) \<and> length (crb_decisions b) \<le> 500 \<and>
     list_all (\<lambda>c. zod_uuid e (dcb_enrolmentId c) \<and> opt_ok (zod_uuid e) (dcb_toSessionId c) \<and>
                   opt_ok (zod_uuid e) (dcb_toStructureId c) \<and> opt_ok (len_in 0 1000) (dcb_reason c))
       (crb_decisions b)"

definition enrolment_key :: "enrolment \<Rightarrow> (string \<times> string \<times> enrolment_status) option" where
  "enrolment_key x = Some (en_institutionId x, en_studentNumber x, en_status x)"

definition saveEnrolments :: "enrolment list \<Rightarrow> db \<Rightarrow> db res" where
  "saveEnrolments rows d =
     bindE (check_unique ''Enrolment_institutionId_studentNumber_status_key'' enrolment_key rows) (\<lambda>rows.
     Inr (d\<lparr>enrolments := rows\<rparr>))"

definition createRolloverRecord :: "env \<Rightarrow> rollover_record \<Rightarrow> db \<Rightarrow> db res" where
  "createRolloverRecord e r d =
     bindE (failIf (\<not> opt_ok (\<lambda>s. find_by se_uuid s (academicSessions d) \<noteq> None) (rl_toSessionId r) \<or>
                    \<not> opt_ok (\<lambda>s. find_by st_uuid s (academicStructures d) \<noteq> None) (rl_toStructureId r))
       (Failure ''Foreign key constraint violated'')) (\<lambda>_.
     Inr (drawn (d\<lparr>rolloverRecords := rolloverRecords d @ [r\<lparr>rl_uuid := fresh e d\<rparr>]\<rparr>)))"

definition leftEnrolment :: "int \<Rightarrow> rollover_decision \<Rightarrow> enrolment \<Rightarrow> enrolment" where
  "leftEnrolment t decision x =
     x\<lparr>en_status := enrolmentStatusForDecision decision,
       en_exitDate := (if terminalDecision decision then Some t else en_exitDate x),
       en_exitType := orElse (exitTypeForDecision decision) (en_exitType x)\<rparr>"

definition rolloverRow ::
    "auth_token \<Rightarrow> int \<Rightarrow> string \<Rightarrow> string \<Rightarrow> enrolment \<Rightarrow> string option \<Rightarrow> string option \<Rightarrow>
     decision_body \<Rightarrow> rollover_record" where
  "rolloverRow auth t inst fromSessionId x toSessionId toStructureId c =
     \<lparr>rl_uuid = [], rl_institutionId = inst, rl_learnerId = en_learnerId x,
      rl_enrolmentId = Some (en_uuid x), rl_fromSessionId = fromSessionId, rl_toSessionId = toSessionId,
      rl_fromStructureId = en_structureScopeId x, rl_toStructureId = toStructureId,
      rl_decision = dcb_decision c, rl_status = Roll_APPROVED, rl_reason = dcb_reason c,
      rl_createdById = au_institutionUserId auth, rl_approvedById = au_institutionUserId auth,
      rl_approvedAt = Some t, rl_disputeId = None, rl_disputedAt = None,
      rl_disputeResolutionNote = None\<rparr>"

definition nextEnrolment ::
    "db \<Rightarrow> int \<Rightarrow> string \<Rightarrow> enrolment \<Rightarrow> string option \<Rightarrow> string option \<Rightarrow> string \<Rightarrow> enrolment" where
  "nextEnrolment d t inst x toSessionId toStructureId i =
     \<lparr>en_uuid = i, en_learnerId = en_learnerId x, en_institutionId = inst,
      en_academicSessionId = toSessionId, en_structureScopeId = toStructureId,
      en_studentNumber = en_studentNumber x,
      en_level = levelForTargetStructure d toStructureId (en_level x), en_programme = en_programme x,
      en_entryDate = t, en_exitDate = None, en_exitType = None, en_status = En_ACTIVE\<rparr>"

record rollover_result =
  rs_rolloverId :: string
  rs_enrolmentId :: string
  rs_learnerId :: string
  rs_decision :: rollover_decision
  rs_status :: rollover_status
  rs_newEnrolmentId :: "string option"

definition decisionSession :: "confirm_rollover_body \<Rightarrow> decision_body \<Rightarrow> string option" where
  "decisionSession b c = orElse (dcb_toSessionId c) (crb_toSessionId b)"

definition decisionStructure :: "confirm_rollover_body \<Rightarrow> decision_body \<Rightarrow> string option" where
  "decisionStructure b c = orElse (dcb_toStructureId c) (crb_toStructureId b)"

text \<open>One pass of the loop over the decisions. \<open>known\<close> are the enrolments read before the transaction.\<close>

definition rolloverOne ::
    "env \<Rightarrow> auth_token \<Rightarrow> string \<Rightarrow> confirm_rollover_body \<Rightarrow> enrolment list \<Rightarrow> decision_body \<Rightarrow>
     rollover_result list \<times> db \<Rightarrow> (rollover_result list \<times> db) res" where
  "rolloverOne e auth inst b known c acc =
     (let (rows, d) = acc in
      bindE (require (find_by en_uuid (dcb_enrolmentId c) known)
        (BadRequest ''Rollover decision references an unknown enrolment.'')) (\<lambda>x.
      let decision = dcb_decision c;
          toSessionId = decisionSession b c;
          toStructureId = orElse (decisionStructure b c)
            (if decision = REPEATED then en_structureScopeId x else None)
      in
      bindE (update_by en_uuid (en_uuid x) (leftEnrolment (now e) decision) (enrolments d)) (\<lambda>es.
      bindE (saveEnrolments es d) (\<lambda>d1.
      bindE (createRolloverRecord e
        (rolloverRow auth (now e) inst (crb_fromSessionId b) x toSessionId toStructureId c) d1) (\<lambda>d2.
      bindE (if stays decision
             then saveEnrolments (enrolments d2 @
                    [nextEnrolment d2 (now e) inst x toSessionId toStructureId (fresh e d2)]) (drawn d2)
             else Inr d2) (\<lambda>d3.
      Inr (rows @ [\<lparr>rs_rolloverId = fresh e d1, rs_enrolmentId = en_uuid x, rs_learnerId = en_learnerId x,
                    rs_decision = decision, rs_status = Roll_APPROVED,
                    rs_newEnrolmentId = (if stays decision then Some (fresh e d2) else None)\<rparr>], d3)))))))"

definition decisionCounts :: "rollover_result list \<Rightarrow> (string \<times> jval) list" where
  "decisionCounts rs =
     map (\<lambda>(k, n). (k, jint n))
       (foldl (\<lambda>counts r. set_prop (decision_text (rs_decision r))
          (getOr (map_of counts (decision_text (rs_decision r))) 0 + 1) counts) [] rs)"

definition confirmRollover ::
    "env \<Rightarrow> db \<Rightarrow> auth_token \<Rightarrow> confirm_rollover_body option \<Rightarrow> (rollover_result list \<times> db) res" where
  "confirmRollover e d auth body =
     bindE (safeParse (confirmRollover_ok e) body) (\<lambda>b.
     bindE (resolveHumanInstitution d auth (crb_institutionId b)) (\<lambda>inst.
     bindE (assertRolloverScope d (in_uuid inst) (crb_fromSessionId b) (crb_toSessionId b)
              (crb_fromStructureId b) (crb_toStructureId b)) (\<lambda>_.
     let ids = map dcb_enrolmentId (crb_decisions b);
         known = filter (\<lambda>x. en_uuid x \<in> set ids \<and>
           in_scope (in_uuid inst) (crb_fromSessionId b) (crb_fromStructureId b) x) (enrolments d)
     in
     bindE (failIf (\<exists>i \<in> set ids. find_by en_uuid i known = None)
       (BadRequest ''Some rollover decisions reference inactive or out-of-scope enrolments.'')) (\<lambda>_.
     bindE (failIf (\<exists>r \<in> set (rolloverRecords d). truthy_text (rl_enrolmentId r) \<and>
                      getOr (rl_enrolmentId r) [] \<in> set ids \<and> open_rollover (crb_fromSessionId b) r)
       (BadRequest ''Some enrolments already have pending or approved rollover records.'')) (\<lambda>_.
     bindE (foldE (\<lambda>c _. assertDecisionTarget d (in_uuid inst) (dcb_decision c)
               (decisionSession b c) (decisionStructure b c)) (crb_decisions b) ()) (\<lambda>_.
     bindE (foldE (rolloverOne e auth (in_uuid inst) b known) (crb_decisions b) ([], d)) (\<lambda>(rows, d1).
     Inr (rows,
       audit_write (humanActor auth (audit_event_of ''rollover.confirm'' ''AcademicSession''
           (crb_fromSessionId b) (Some (in_uuid inst))
           (JObj [(''confirmedCount'', jint (int (length rows))),
                  (''decisions'', JObj (decisionCounts rows))]))) d1))))))))"

section \<open>One decision\<close>

abbreviation enrolment_index :: "enrolment list \<Rightarrow> bool" where
  "enrolment_index xs \<equiv> distinct (map (\<lambda>x. (en_institutionId x, en_studentNumber x, en_status x)) xs)"

lemma map_filter_enrolment_key:
  "List.map_filter enrolment_key xs = map (\<lambda>x. (en_institutionId x, en_studentNumber x, en_status x)) xs"
  by (induction xs) (simp_all add: map_filter_simps enrolment_key_def)

lemma index_eq:
  "enrolment_index xs \<Longrightarrow> x \<in> set xs \<Longrightarrow> y \<in> set xs \<Longrightarrow> en_institutionId x = en_institutionId y \<Longrightarrow>
   en_studentNumber x = en_studentNumber y \<Longrightarrow> en_status x = en_status y \<Longrightarrow> x = y"
  by (auto simp: distinct_map inj_on_def)

lemma saveEnrolments_Inr [err_simps]:
  "saveEnrolments rows d = Inr d' \<longleftrightarrow> enrolment_index rows \<and> d' = d\<lparr>enrolments := rows\<rparr>"
  by (auto simp: saveEnrolments_def err_simps map_filter_enrolment_key)

lemma leftEnrolment_fields [simp]:
  "en_uuid (leftEnrolment t c x) = en_uuid x"
  "en_institutionId (leftEnrolment t c x) = en_institutionId x"
  "en_studentNumber (leftEnrolment t c x) = en_studentNumber x"
  "en_learnerId (leftEnrolment t c x) = en_learnerId x"
  "en_status (leftEnrolment t c x) = enrolmentStatusForDecision c"
  by (simp_all add: leftEnrolment_def)

lemma rolloverOne_effect:
  assumes "rolloverOne e auth inst b known c (rows, d) = Inr (rows', d')"
  shows "\<exists>x n i r res. find_by en_uuid (dcb_enrolmentId c) known = Some x \<and>
    enrolments d' = set_by en_uuid (dcb_enrolmentId c) (leftEnrolment (now e) (dcb_decision c)) (enrolments d) @
      (if stays (dcb_decision c) then [n] else []) \<and>
    en_uuid n = gen e i \<and> en_learnerId n = en_learnerId x \<and> en_institutionId n = inst \<and>
    en_studentNumber n = en_studentNumber x \<and> en_status n = En_ACTIVE \<and>
    en_academicSessionId n = decisionSession b c \<and>
    enrolment_index (enrolments d') \<and>
    rolloverRecords d' = rolloverRecords d @ [r] \<and> rl_enrolmentId r = Some (dcb_enrolmentId c) \<and>
    rl_decision r = dcb_decision c \<and> rl_status r = Roll_APPROVED \<and> rl_institutionId r = inst \<and>
    rl_fromSessionId r = crb_fromSessionId b \<and>
    rows' = rows @ [res] \<and> rs_enrolmentId res = dcb_enrolmentId c"
proof -
  from assms obtain x where x: "find_by en_uuid (dcb_enrolmentId c) known = Some x"
    unfolding rolloverOne_def by (auto simp: err_simps)
  let ?c = "dcb_decision c"
  let ?str = "orElse (decisionStructure b c) (if ?c = REPEATED then en_structureScopeId x else None)"
  let ?es = "set_by en_uuid (dcb_enrolmentId c) (leftEnrolment (now e) ?c) (enrolments d)"
  let ?d1 = "d\<lparr>enrolments := ?es\<rparr>"
  let ?r = "(rolloverRow auth (now e) inst (crb_fromSessionId b) x (decisionSession b c) ?str c)
    \<lparr>rl_uuid := fresh e ?d1\<rparr>"
  let ?d2 = "drawn (?d1\<lparr>rolloverRecords := rolloverRecords d @ [?r]\<rparr>)"
  let ?n = "nextEnrolment ?d2 (now e) inst x (decisionSession b c) ?str (fresh e ?d2)"
  have id: "en_uuid x = dcb_enrolmentId c" using x by (rule find_by_key)
  have "enrolments d' = ?es @ (if stays ?c then [?n] else []) \<and> enrolment_index (enrolments d') \<and>
    rolloverRecords d' = rolloverRecords d @ [?r] \<and> (\<exists>res. rows' = rows @ [res] \<and> rs_enrolmentId res = dcb_enrolmentId c)"
    using assms x unfolding rolloverOne_def
    by (auto simp: err_simps Let_def id createRolloverRecord_def drawn_def split: if_splits)
  then show ?thesis using x id
    by (intro exI [of _ x] exI [of _ ?n] exI [of _ "draws ?d2"] exI [of _ ?r])
      (auto simp: nextEnrolment_def rolloverRow_def fresh_def)
qed

lemma find_by_append_Some: "find_by key k xs = Some y \<Longrightarrow> find_by key k (xs @ ys) = Some y"
  by (simp add: row_simps)

section \<open>All decisions\<close>

definition decision_for :: "string \<Rightarrow> decision_body list \<Rightarrow> rollover_decision option" where
  "decision_for k cs = map_option dcb_decision (List.find (\<lambda>c. dcb_enrolmentId c = k) cs)"

text \<open>What becomes of an enrolment: the decision for it, if there is one.\<close>

definition decided :: "int \<Rightarrow> decision_body list \<Rightarrow> enrolment \<Rightarrow> enrolment" where
  "decided t cs x = (case decision_for (en_uuid x) cs of None \<Rightarrow> x | Some c \<Rightarrow> leftEnrolment t c x)"

lemma decided_fields [simp]:
  "en_uuid (decided t cs x) = en_uuid x" "en_institutionId (decided t cs x) = en_institutionId x"
  "en_studentNumber (decided t cs x) = en_studentNumber x"
  by (simp_all add: decided_def split: option.splits)

lemma decision_for_fresh: "k \<notin> dcb_enrolmentId ` set cs \<Longrightarrow> decision_for k cs = None"
  by (induction cs) (auto simp: decision_for_def)

lemma decision_for_member:
  "distinct (map dcb_enrolmentId cs) \<Longrightarrow> c \<in> set cs \<Longrightarrow>
   decision_for (dcb_enrolmentId c) cs = Some (dcb_decision c)"
  by (induction cs) (force simp: decision_for_def)+

lemma rollover_fold:
  assumes "foldE (rolloverOne e auth inst b known) cs (rows, d) = Inr (rows', d')"
    and "distinct (map dcb_enrolmentId cs)"
    and new: "\<And>i. gen e i \<notin> dcb_enrolmentId ` set cs"
  shows "map rs_enrolmentId rows' = map rs_enrolmentId rows @ map dcb_enrolmentId cs \<and>
    (\<forall>k y. find_by en_uuid k (enrolments d) = Some y \<longrightarrow>
       find_by en_uuid k (enrolments d') = Some (decided (now e) cs y)) \<and>
    (\<forall>y \<in> set (enrolments d). decided (now e) cs y \<in> set (enrolments d')) \<and>
    (cs \<noteq> [] \<longrightarrow> enrolment_index (enrolments d')) \<and>
    (\<forall>r \<in> set (rolloverRecords d). r \<in> set (rolloverRecords d')) \<and>
    (\<forall>c \<in> set cs. \<exists>r \<in> set (rolloverRecords d'). rl_enrolmentId r = Some (dcb_enrolmentId c) \<and>
       rl_decision r = dcb_decision c \<and> rl_status r = Roll_APPROVED \<and> rl_institutionId r = inst \<and>
       rl_fromSessionId r = crb_fromSessionId b) \<and>
    (\<forall>c \<in> set cs. stays (dcb_decision c) \<longrightarrow> (\<exists>n \<in> set (enrolments d'). \<exists>x.
       find_by en_uuid (dcb_enrolmentId c) known = Some x \<and> en_learnerId n = en_learnerId x \<and>
       en_institutionId n = inst \<and> en_studentNumber n = en_studentNumber x \<and>
       en_status n = En_ACTIVE \<and> en_academicSessionId n = decisionSession b c))"
  using assms
proof (induction cs arbitrary: rows d)
  case Nil
  then show ?case by (simp add: decided_def decision_for_def)
next
  case (Cons c cs)
  from Cons.prems(1) obtain rows1 d1
    where one: "rolloverOne e auth inst b known c (rows, d) = Inr (rows1, d1)"
      and rest: "foldE (rolloverOne e auth inst b known) cs (rows1, d1) = Inr (rows', d')"
    by (auto simp: err_simps)
  note IH = Cons.IH [OF rest]
  from Cons.prems(2,3) have d2: "distinct (map dcb_enrolmentId cs)" and nw: "\<And>i. gen e i \<notin> dcb_enrolmentId ` set cs"
    and notin: "dcb_enrolmentId c \<notin> dcb_enrolmentId ` set cs" by auto
  note IH = IH [OF d2 nw]
  let ?left = "leftEnrolment (now e) (dcb_decision c)"
  obtain x n i r res where x: "find_by en_uuid (dcb_enrolmentId c) known = Some x"
    and es: "enrolments d1 = set_by en_uuid (dcb_enrolmentId c) ?left (enrolments d) @
      (if stays (dcb_decision c) then [n] else [])"
    and n: "en_uuid n = gen e i" "en_learnerId n = en_learnerId x" "en_institutionId n = inst"
      "en_studentNumber n = en_studentNumber x" "en_status n = En_ACTIVE"
      "en_academicSessionId n = decisionSession b c"
    and idx: "enrolment_index (enrolments d1)"
    and rs: "rolloverRecords d1 = rolloverRecords d @ [r]" "rl_enrolmentId r = Some (dcb_enrolmentId c)"
      "rl_decision r = dcb_decision c" "rl_status r = Roll_APPROVED" "rl_institutionId r = inst"
      "rl_fromSessionId r = crb_fromSessionId b"
    and res: "rows1 = rows @ [res]" "rs_enrolmentId res = dcb_enrolmentId c"
    using rolloverOne_effect [OF one] by blast
  have here: "decided (now e) (c # cs) y = decided (now e) cs (if en_uuid y = dcb_enrolmentId c then ?left y else y)" for y
    using decision_for_fresh [OF notin] by (auto simp: decided_def decision_for_def)
  have keep: "decided (now e) cs n = n"
    using nw n(1) decision_for_fresh [of "en_uuid n" cs] by (simp add: decided_def)
  have A: "map rs_enrolmentId rows' = map rs_enrolmentId rows @ map dcb_enrolmentId (c # cs)"
    using IH res by simp
  have B: "find_by en_uuid k (enrolments d') = Some (decided (now e) (c # cs) y)"
    if y: "find_by en_uuid k (enrolments d) = Some y" for k y
  proof -
    have "find_by en_uuid k (enrolments d1) = Some (if en_uuid y = dcb_enrolmentId c then ?left y else y)"
      using y find_by_key [OF y] unfolding es
      by (intro find_by_append_Some) (auto simp: set_by_same set_by_other)
    with IH here show ?thesis by simp
  qed
  have B': "decided (now e) (c # cs) y \<in> set (enrolments d')" if "y \<in> set (enrolments d)" for y
  proof -
    have "(if en_uuid y = dcb_enrolmentId c then ?left y else y) \<in> set (enrolments d1)"
      using that by (auto simp: es in_set_by)
    with IH here show ?thesis by simp
  qed
  have C: "enrolment_index (enrolments d')"
  proof (cases "cs = []")
    case True
    with rest idx show ?thesis by simp
  next
    case False
    with IH show ?thesis by blast
  qed
  have D: "r \<in> set (rolloverRecords d')" "\<forall>r \<in> set (rolloverRecords d). r \<in> set (rolloverRecords d')"
    using IH rs(1) by auto
  have E: "stays (dcb_decision c) \<Longrightarrow> n \<in> set (enrolments d')"
  proof -
    assume "stays (dcb_decision c)"
    then have "n \<in> set (enrolments d1)" by (simp add: es)
    with IH keep show ?thesis by metis
  qed
  show ?case using A B B' C D E IH rs(2-6) n(2-6) x by (auto 0 4)
qed

lemma foldE_unit:
  assumes "foldE (\<lambda>c _. f c) cs () = Inr u"
  shows "\<forall>c \<in> set cs. f c = Inr ()"
  using assms by (induction cs) (auto simp: err_simps)

definition known_enrolments :: "db \<Rightarrow> string \<Rightarrow> confirm_rollover_body \<Rightarrow> enrolment list" where
  "known_enrolments d inst b =
     filter (\<lambda>x. en_uuid x \<in> set (map dcb_enrolmentId (crb_decisions b)) \<and>
       in_scope inst (crb_fromSessionId b) (crb_fromStructureId b) x) (enrolments d)"

lemma confirmRollover_parts:
  assumes "confirmRollover e d auth (Some b) = Inr (rows, d')"
  shows "\<exists>inst d1. resolveHumanInstitution d auth (crb_institutionId b) = Inr inst \<and>
    crb_decisions b \<noteq> [] \<and>
    assertRolloverScope d (in_uuid inst) (crb_fromSessionId b) (crb_toSessionId b)
      (crb_fromStructureId b) (crb_toStructureId b) = Inr () \<and>
    (\<forall>c \<in> set (crb_decisions b). find_by en_uuid (dcb_enrolmentId c) (known_enrolments d (in_uuid inst) b) \<noteq> None) \<and>
    (\<forall>r \<in> set (rolloverRecords d). truthy_text (rl_enrolmentId r) \<longrightarrow>
       getOr (rl_enrolmentId r) [] \<in> dcb_enrolmentId ` set (crb_decisions b) \<longrightarrow>
       \<not> open_rollover (crb_fromSessionId b) r) \<and>
    (\<forall>c \<in> set (crb_decisions b). assertDecisionTarget d (in_uuid inst) (dcb_decision c)
       (decisionSession b c) (decisionStructure b c) = Inr ()) \<and>
    foldE (rolloverOne e auth (in_uuid inst) b (known_enrolments d (in_uuid inst) b)) (crb_decisions b) ([], d) =
      Inr (rows, d1) \<and>
    enrolments d' = enrolments d1 \<and> rolloverRecords d' = rolloverRecords d1"
  using assms unfolding confirmRollover_def
  by (auto simp: err_simps Let_def known_enrolments_def confirmRollover_ok_def dest!: foldE_unit)

lemma known_in:
  "find_by en_uuid k (known_enrolments d inst b) = Some x \<Longrightarrow>
   x \<in> set (enrolments d) \<and> en_uuid x = k \<and> in_scope inst (crb_fromSessionId b) (crb_fromStructureId b) x"
  by (drule find_by_Some) (simp add: known_enrolments_def)

lemma found_active:
  assumes "\<forall>c \<in> set (crb_decisions b). find_by en_uuid (dcb_enrolmentId c) (known_enrolments d inst b) \<noteq> None"
    and "k \<in> dcb_enrolmentId ` set (crb_decisions b)"
  shows "\<exists>z \<in> set (enrolments d). en_uuid z = k \<and> en_status z = En_ACTIVE \<and> en_institutionId z = inst"
proof -
  from assms obtain z where "find_by en_uuid k (known_enrolments d inst b) = Some z" by auto
  from known_in [OF this] show ?thesis by (auto simp: in_scope_def)
qed

lemma found_ids:
  assumes "\<forall>c \<in> set (crb_decisions b). find_by en_uuid (dcb_enrolmentId c) (known_enrolments d inst b) \<noteq> None"
  shows "dcb_enrolmentId ` set (crb_decisions b) \<subseteq> en_uuid ` set (enrolments d)"
proof
  fix k
  assume "k \<in> dcb_enrolmentId ` set (crb_decisions b)"
  from found_active [OF assms this] show "k \<in> en_uuid ` set (enrolments d)" by auto
qed

lemma scope_target:
  assumes "assertDecisionTarget d inst c s t = Inr ()" and "stays c"
  shows "\<exists>i. s = Some i \<and> usable_session d inst i"
  using assms unfolding assertDecisionTarget_def assertRolloverScope_def
  by (cases s) (auto simp: err_simps truthy_text_def given_def split: if_splits)

lemma scope_source:
  "assertRolloverScope d inst f s t u = Inr () \<Longrightarrow> usable_session d inst f"
  by (simp add: assertRolloverScope_def err_simps)

text \<open>C3. A successful rollover carries out every decision: with one decision per enrolment, each
  decided enrolment gets the status of its decision, each has an approved rollover record, each learner
  who stays has one new active enrolment in the target session under the same student number, and no
  other enrolment changes.\<close>

theorem confirmRollover_decides:
  assumes "confirmRollover e d auth (Some b) = Inr (rows, d')"
    and "distinct (map dcb_enrolmentId (crb_decisions b))"
    and "\<forall>i. gen e i \<notin> en_uuid ` set (enrolments d)"
  shows "map rs_enrolmentId rows = map dcb_enrolmentId (crb_decisions b) \<and>
    (\<forall>k y. find_by en_uuid k (enrolments d) = Some y \<longrightarrow>
       find_by en_uuid k (enrolments d') = Some (decided (now e) (crb_decisions b) y)) \<and>
    (\<forall>c \<in> set (crb_decisions b). \<exists>r \<in> set (rolloverRecords d').
       rl_enrolmentId r = Some (dcb_enrolmentId c) \<and> rl_decision r = dcb_decision c \<and>
       rl_status r = Roll_APPROVED) \<and>
    (\<forall>c \<in> set (crb_decisions b). stays (dcb_decision c) \<longrightarrow>
       (\<exists>n \<in> set (enrolments d'). \<exists>x \<in> set (enrolments d).
          en_uuid x = dcb_enrolmentId c \<and> en_status x = En_ACTIVE \<and> en_learnerId n = en_learnerId x \<and>
          en_studentNumber n = en_studentNumber x \<and> en_institutionId n = en_institutionId x \<and>
          en_status n = En_ACTIVE \<and> en_academicSessionId n = decisionSession b c)) \<and>
    enrolment_index (enrolments d')"
proof -
  from confirmRollover_parts [OF assms(1)] obtain inst :: institution and d1
    where ne: "crb_decisions b \<noteq> []"
      and found: "\<forall>c \<in> set (crb_decisions b). find_by en_uuid (dcb_enrolmentId c) (known_enrolments d (in_uuid inst) b) \<noteq> None"
      and fold: "foldE (rolloverOne e auth (in_uuid inst) b (known_enrolments d (in_uuid inst) b)) (crb_decisions b) ([], d) =
        Inr (rows, d1)"
      and same: "enrolments d' = enrolments d1" "rolloverRecords d' = rolloverRecords d1"
    by blast
  have fresh: "gen e i \<notin> dcb_enrolmentId ` set (crb_decisions b)" for i
    using found_ids [OF found] assms(3) by blast
  note R = rollover_fold [OF fold assms(2) fresh]
  have stay: "\<exists>n \<in> set (enrolments d'). \<exists>x \<in> set (enrolments d).
          en_uuid x = dcb_enrolmentId c \<and> en_status x = En_ACTIVE \<and> en_learnerId n = en_learnerId x \<and>
          en_studentNumber n = en_studentNumber x \<and> en_institutionId n = en_institutionId x \<and>
          en_status n = En_ACTIVE \<and> en_academicSessionId n = decisionSession b c"
    if c: "c \<in> set (crb_decisions b)" "stays (dcb_decision c)" for c
  proof -
    from R c obtain n x where "n \<in> set (enrolments d1)" and
      x: "find_by en_uuid (dcb_enrolmentId c) (known_enrolments d (in_uuid inst) b) = Some x"
      and "en_learnerId n = en_learnerId x" "en_institutionId n = in_uuid inst"
        "en_studentNumber n = en_studentNumber x" "en_status n = En_ACTIVE"
        "en_academicSessionId n = decisionSession b c" by blast
    with known_in [OF x] same show ?thesis
      by (intro bexI [of _ n] bexI [of _ x]) (auto simp: in_scope_def)
  qed
  have recs: "\<forall>c \<in> set (crb_decisions b). \<exists>r \<in> set (rolloverRecords d').
       rl_enrolmentId r = Some (dcb_enrolmentId c) \<and> rl_decision r = dcb_decision c \<and> rl_status r = Roll_APPROVED"
    using R unfolding same by blast
  from R same ne have "map rs_enrolmentId rows = map dcb_enrolmentId (crb_decisions b)"
    "\<forall>k y. find_by en_uuid k (enrolments d) = Some y \<longrightarrow>
       find_by en_uuid k (enrolments d') = Some (decided (now e) (crb_decisions b) y)"
    "enrolment_index (enrolments d')" by auto
  with stay recs show ?thesis by blast
qed

text \<open>C6. A student can be promoted at most once in an institution: while an enrolment with the same
  student number is marked promoted there, no confirmation that promotes the student succeeds.\<close>

theorem second_promotion_fails:
  assumes "c \<in> set (crb_decisions b)" and "dcb_decision c = PROMOTED"
    and "x \<in> set (enrolments d)" and "en_uuid x = dcb_enrolmentId c"
    and "y \<in> set (enrolments d)" and "en_uuid y \<noteq> en_uuid x" and "en_status y = En_PROMOTED"
    and "en_institutionId y = en_institutionId x" and "en_studentNumber y = en_studentNumber x"
    and "distinct (map en_uuid (enrolments d))"
    and "distinct (map dcb_enrolmentId (crb_decisions b))"
    and "\<forall>i. gen e i \<notin> en_uuid ` set (enrolments d)"
  shows "confirmRollover e d auth (Some b) \<noteq> Inr result"
proof
  assume "confirmRollover e d auth (Some b) = Inr result"
  then obtain rows d' where run: "confirmRollover e d auth (Some b) = Inr (rows, d')" by (cases result) simp
  from confirmRollover_parts [OF run] obtain inst :: institution and d1
    where ne: "crb_decisions b \<noteq> []"
      and found: "\<forall>c \<in> set (crb_decisions b). find_by en_uuid (dcb_enrolmentId c) (known_enrolments d (in_uuid inst) b) \<noteq> None"
      and fold: "foldE (rolloverOne e auth (in_uuid inst) b (known_enrolments d (in_uuid inst) b)) (crb_decisions b) ([], d) =
        Inr (rows, d1)"
    by blast
  have fresh: "gen e i \<notin> dcb_enrolmentId ` set (crb_decisions b)" for i
    using found_ids [OF found] assms(12) by blast
  note R = rollover_fold [OF fold assms(11) fresh]
  have "decision_for (en_uuid x) (crb_decisions b) = Some PROMOTED"
    using decision_for_member [OF assms(11,1)] assms(2,4) by simp
  then have x': "decided (now e) (crb_decisions b) x = leftEnrolment (now e) PROMOTED x" by (simp add: decided_def)
  have "decision_for (en_uuid y) (crb_decisions b) = None"
  proof (rule decision_for_fresh, rule notI)
    assume "en_uuid y \<in> dcb_enrolmentId ` set (crb_decisions b)"
    then obtain z where "z \<in> set (enrolments d)" "en_uuid z = en_uuid y" "en_status z = En_ACTIVE"
      using found_active [OF found] by blast
    with assms(5,7,10) show False using distinct_key_eq by (metis enrolment_status.distinct(3))
  qed
  then have y': "decided (now e) (crb_decisions b) y = y" by (simp add: decided_def)
  have "leftEnrolment (now e) PROMOTED x \<in> set (enrolments d1)" "y \<in> set (enrolments d1)"
    using R assms(3,5) x' y' by metis+
  moreover have "enrolment_index (enrolments d1)" using R ne by blast
  ultimately have "leftEnrolment (now e) PROMOTED x = y"
    using assms(7-9) by (intro index_eq [of "enrolments d1"]) simp_all
  with assms(6) leftEnrolment_fields(1) show False by metis
qed

text \<open>A rollover stays inside its institution and its session: it is confirmed by a human caller
  who may operate the institution, the source session and every target session belong to it and are
  not sealed, and an enrolment of another institution, of another session or no longer active is
  left as it was.\<close>

theorem confirmRollover_isolated:
  assumes "confirmRollover e d auth (Some b) = Inr (rows, d')"
    and "distinct (map dcb_enrolmentId (crb_decisions b))" and "distinct (map en_uuid (enrolments d))"
    and "\<forall>i. gen e i \<notin> en_uuid ` set (enrolments d)"
  shows "\<exists>inst. assertActorCanOperateInstitution d auth inst = Inr () \<and> au_kind auth \<noteq> Some API_KEY \<and>
    usable_session d inst (crb_fromSessionId b) \<and>
    (\<forall>c \<in> set (crb_decisions b). stays (dcb_decision c) \<longrightarrow>
       (\<exists>s. decisionSession b c = Some s \<and> usable_session d inst s)) \<and>
    (\<forall>y \<in> set (enrolments d). en_institutionId y \<noteq> inst \<or>
       en_academicSessionId y \<noteq> Some (crb_fromSessionId b) \<or> en_status y \<noteq> En_ACTIVE \<longrightarrow>
       y \<in> set (enrolments d'))"
proof -
  from confirmRollover_parts [OF assms(1)] obtain inst :: institution and d1
    where res: "resolveHumanInstitution d auth (crb_institutionId b) = Inr inst"
      and scope: "assertRolloverScope d (in_uuid inst) (crb_fromSessionId b) (crb_toSessionId b)
        (crb_fromStructureId b) (crb_toStructureId b) = Inr ()"
      and found: "\<forall>c \<in> set (crb_decisions b). find_by en_uuid (dcb_enrolmentId c) (known_enrolments d (in_uuid inst) b) \<noteq> None"
      and targets: "\<forall>c \<in> set (crb_decisions b). assertDecisionTarget d (in_uuid inst) (dcb_decision c)
        (decisionSession b c) (decisionStructure b c) = Inr ()"
      and fold: "foldE (rolloverOne e auth (in_uuid inst) b (known_enrolments d (in_uuid inst) b)) (crb_decisions b) ([], d) =
        Inr (rows, d1)"
      and same: "enrolments d' = enrolments d1"
    by blast
  have fresh: "gen e i \<notin> dcb_enrolmentId ` set (crb_decisions b)" for i
    using found_ids [OF found] assms(4) by blast
  note R = rollover_fold [OF fold assms(2) fresh]
  have kept: "y \<in> set (enrolments d')" if y: "y \<in> set (enrolments d)" and out: "en_institutionId y \<noteq> in_uuid inst \<or>
       en_academicSessionId y \<noteq> Some (crb_fromSessionId b) \<or> en_status y \<noteq> En_ACTIVE" for y
  proof -
    have "en_uuid y \<notin> dcb_enrolmentId ` set (crb_decisions b)"
    proof
      assume "en_uuid y \<in> dcb_enrolmentId ` set (crb_decisions b)"
      then obtain z where z: "find_by en_uuid (en_uuid y) (known_enrolments d (in_uuid inst) b) = Some z"
        using found by auto
      then have "z = y" using known_in [OF z] distinct_key_eq [OF assms(3)] y by metis
      then show False using known_in [OF z] out by (auto simp: in_scope_def)
    qed
    then have "decided (now e) (crb_decisions b) y = y" by (simp add: decided_def decision_for_fresh)
    with R y same show ?thesis by metis
  qed
  show ?thesis
    using resolve_sound [OF res] scope_source [OF scope] targets scope_target kept
    by (intro exI [of _ "in_uuid inst"]) blast
qed

text \<open>The private UUID test of the governance service never holds for a UUID, so that an
  institution is never found by its UUID: a human caller who names an institution that way is told
  that there is no active institution, unless the UUID is some institution's public id.\<close>

theorem resolve_by_uuid_fails:
  assumes "uuidPattern ref" and "\<forall>i \<in> set (institutions d). in_institutionId i \<noteq> ref"
    and "au_kind auth \<noteq> Some API_KEY"
  shows "resolveHumanInstitution d auth ref = Inl (BadRequest ''Active institution not found.'')"
proof -
  have "\<not> isUuid ref"
    using assms(1) by (auto simp: isUuid_def uuidPattern_def dest!: matches_length)
  then have "List.find (institutionRefWhere ref) (institutions d) = None"
    using assms(2) by (simp add: find_None_iff' institutionRefWhere_def)
  then show ?thesis using assms(3) by (simp add: resolveHumanInstitution_def)
qed

section \<open>Witnesses\<close>

definition rollover_sample :: "rollover_decision \<Rightarrow> confirm_rollover_body" where
  "rollover_sample decision = \<lparr>crb_institutionId = ''ACD-1'', crb_fromSessionId = ''s1'',
     crb_toSessionId = Some ''s2'', crb_fromStructureId = None, crb_toStructureId = None,
     crb_decisions = [\<lparr>dcb_enrolmentId = ''e1'', dcb_decision = decision, dcb_toSessionId = None,
                       dcb_toStructureId = Some ''c1'', dcb_reason = None\<rparr>]\<rparr>"

lemma rollover_runs:
  "case confirmRollover sample_env sample_db registrar (Some (rollover_sample PROMOTED)) of
     Inl _ \<Rightarrow> False | Inr (rows, d') \<Rightarrow> map rs_enrolmentId rows = [''e1'']"
  by code_simp

lemma sample_draws_new: "gen sample_env i \<notin> en_uuid ` set (enrolments sample_db)"
proof -
  have "replicate i (CHR ''u'') \<noteq> ''e1''" by (cases i) auto
  then show ?thesis by (simp add: sample_defs)
qed

lemma rollover_sample_ids: "distinct (map dcb_enrolmentId (crb_decisions (rollover_sample c)))"
  by (simp add: rollover_sample_def)

lemma sample_rolls:
  obtains rows d' where
    "confirmRollover sample_env sample_db registrar (Some (rollover_sample PROMOTED)) = Inr (rows, d')"
  using rollover_runs by (auto split: sum.splits)

theorem confirmRollover_decides_witness:
  "\<exists>rows d' n. confirmRollover sample_env sample_db registrar (Some (rollover_sample PROMOTED)) = Inr (rows, d') \<and>
     n \<in> set (enrolments d') \<and> en_status n = En_ACTIVE \<and> en_academicSessionId n = Some ''s2'' \<and>
     en_learnerId n = ''l1''"
proof -
  obtain rows d' where run:
    "confirmRollover sample_env sample_db registrar (Some (rollover_sample PROMOTED)) = Inr (rows, d')"
    by (rule sample_rolls)
  have "\<forall>c \<in> set (crb_decisions (rollover_sample PROMOTED)). stays (dcb_decision c) \<longrightarrow>
       (\<exists>n \<in> set (enrolments d'). \<exists>x \<in> set (enrolments sample_db).
          en_uuid x = dcb_enrolmentId c \<and> en_status x = En_ACTIVE \<and> en_learnerId n = en_learnerId x \<and>
          en_studentNumber n = en_studentNumber x \<and> en_institutionId n = en_institutionId x \<and>
          en_status n = En_ACTIVE \<and> en_academicSessionId n = decisionSession (rollover_sample PROMOTED) c)"
    using confirmRollover_decides [OF run rollover_sample_ids] sample_draws_new by blast
  then have "\<exists>n \<in> set (enrolments d'). en_status n = En_ACTIVE \<and> en_academicSessionId n = Some ''s2'' \<and>
      en_learnerId n = ''l1''"
    by (simp add: rollover_sample_def stays_def decisionSession_def sample_defs) blast
  with run show ?thesis by blast
qed

definition promoted_db :: db where
  "promoted_db = sample_db\<lparr>enrolments := enrolments sample_db @
     [(hd (enrolments sample_db))\<lparr>en_uuid := ''e0'', en_status := En_PROMOTED\<rparr>]\<rparr>"

theorem second_promotion_fails_witness:
  "\<forall>result. confirmRollover sample_env promoted_db registrar (Some (rollover_sample PROMOTED)) \<noteq> Inr result"
proof
  fix result
  have new: "\<forall>i. gen sample_env i \<notin> en_uuid ` set (enrolments promoted_db)"
  proof
    fix i
    have "replicate i (CHR ''u'') \<noteq> ''e1''" "replicate i (CHR ''u'') \<noteq> ''e0''" by (cases i; auto)+
    then show "gen sample_env i \<notin> en_uuid ` set (enrolments promoted_db)"
      by (simp add: promoted_db_def sample_defs)
  qed
  show "confirmRollover sample_env promoted_db registrar (Some (rollover_sample PROMOTED)) \<noteq> Inr result"
    by (rule second_promotion_fails [OF _ _ _ _ _ _ _ _ _ _ rollover_sample_ids new,
          where c = "hd (crb_decisions (rollover_sample PROMOTED))"
          and x = "hd (enrolments promoted_db)" and y = "last (enrolments promoted_db)"])
      (simp_all add: rollover_sample_def promoted_db_def sample_defs)
qed

theorem confirmRollover_isolated_witness:
  "\<exists>rows d' inst. confirmRollover sample_env sample_db registrar (Some (rollover_sample PROMOTED)) = Inr (rows, d') \<and>
     usable_session sample_db inst ''s1'' \<and> usable_session sample_db inst ''s2''"
proof -
  obtain rows d' where run:
    "confirmRollover sample_env sample_db registrar (Some (rollover_sample PROMOTED)) = Inr (rows, d')"
    by (rule sample_rolls)
  have ids: "distinct (map en_uuid (enrolments sample_db))" by (simp add: sample_defs)
  have new: "\<forall>i. gen sample_env i \<notin> en_uuid ` set (enrolments sample_db)" using sample_draws_new by blast
  from confirmRollover_isolated [OF run rollover_sample_ids ids new] obtain inst
    where "usable_session sample_db inst (crb_fromSessionId (rollover_sample PROMOTED))"
      and "\<forall>c \<in> set (crb_decisions (rollover_sample PROMOTED)). stays (dcb_decision c) \<longrightarrow>
       (\<exists>s. decisionSession (rollover_sample PROMOTED) c = Some s \<and> usable_session sample_db inst s)" by blast
  then have "usable_session sample_db inst ''s1''" "usable_session sample_db inst ''s2''"
    by (simp_all add: rollover_sample_def stays_def decisionSession_def)
  with run show ?thesis by blast
qed

theorem resolve_by_uuid_fails_witness:
  "school \<in> in_uuid ` set (institutions sample_db) \<and>
   resolveHumanInstitution sample_db registrar school = Inl (BadRequest ''Active institution not found.'')"
proof -
  have "resolveHumanInstitution sample_db registrar school = Inl (BadRequest ''Active institution not found.'')"
    by (rule resolve_by_uuid_fails [OF uuid_school]) (simp_all add: sample_defs)
  then show ?thesis by (simp add: sample_db_def)
qed

end
