(* ===== verification/Transfers.thy ===== *)
theory Transfers
  imports Rollovers
begin

text \<open>
  The transfer requests of \<open>gateway/governance/governance.service.ts\<close> and the disputes of rollover
  records, which move a transfer with them. The approval of a transfer, the opening and the
  resolution of a dispute are transactions; a generated UUID is taken to be new.

  The transfer machine \<open>transfer_step\<close> is what the three handlers may do to one transfer; its
  invariants hold in every reachable state.
\<close>

section \<open>Bodies\<close>

record create_transfer_body =
  ctb_institutionId :: string
  ctb_enrolmentId :: string
  ctb_toInstitutionId :: "string option"
  ctb_toInstitutionNameSubmitted :: "string option"
  ctb_toInstitutionContactEmail :: "string option"
  ctb_reason :: "string option"

definition createTransferRequest_ok :: "env \<Rightarrow> create_transfer_body \<Rightarrow> bool" where
  "createTransferRequest_ok e b \<longleftrightarrow>
     ctb_institutionId b \<noteq> [] \<and> zod_uuid e (ctb_enrolmentId b) \<and> opt_ok (zod_uuid e) (ctb_toInstitutionId b) \<and>
     opt_ok (len_in 2 180) (ctb_toInstitutionNameSubmitted b) \<and>
     opt_ok (\<lambda>s. zod_email e s \<and> length s \<le> 254) (ctb_toInstitutionContactEmail b) \<and>
     opt_ok (len_in 10 2000) (ctb_reason b) \<and>
     (truthy_text (ctb_toInstitutionId b) \<or> truthy_text (ctb_toInstitutionNameSubmitted b))"

datatype transfer_decision = TR_APPROVE | TR_REJECT | TR_CANCEL

fun transfer_decision_text :: "transfer_decision \<Rightarrow> string" where
  "transfer_decision_text TR_APPROVE = ''APPROVE''"
| "transfer_decision_text TR_REJECT = ''REJECT''"
| "transfer_decision_text TR_CANCEL = ''CANCEL''"

record review_transfer_body =
  rtb_decision :: transfer_decision
  rtb_note :: "string option"

definition reviewTransferRequest_ok :: "review_transfer_body \<Rightarrow> bool" where
  "reviewTransferRequest_ok b \<longleftrightarrow> opt_ok (len_in 0 2000) (rtb_note b)"

record create_dispute_body =
  cdb_title :: "string option"
  cdb_reason :: string
  cdb_priority :: "dispute_priority option"
  cdb_reporterName :: "string option"
  cdb_reporterEmail :: "string option"

definition createRolloverDispute_ok :: "env \<Rightarrow> create_dispute_body \<Rightarrow> bool" where
  "createRolloverDispute_ok e b \<longleftrightarrow>
     opt_ok (len_in 3 180) (cdb_title b) \<and> len_in 10 2000 (cdb_reason b) \<and>
     opt_ok (len_in 2 120) (cdb_reporterName b) \<and>
     opt_ok (\<lambda>s. zod_email e s \<and> length s \<le> 254) (cdb_reporterEmail b)"

definition resolveRolloverDispute_ok :: "string \<Rightarrow> bool" where
  "resolveRolloverDispute_ok resolutionNote \<longleftrightarrow> len_in 10 2000 resolutionNote"

section \<open>Opening a transfer\<close>

text \<open>The loaded enrolment, when it is the active one of the institution.\<close>

definition active_enrolment :: "db \<Rightarrow> string \<Rightarrow> string \<Rightarrow> enrolment option" where
  "active_enrolment d inst i =
     (case find_by en_uuid i (enrolments d) of
        None \<Rightarrow> None
      | Some x \<Rightarrow> (if en_institutionId x \<noteq> inst \<or> en_status x \<noteq> En_ACTIVE then None else Some x))"

definition nextTransferRequestId :: "env \<Rightarrow> db \<Rightarrow> string" where
  "nextTransferRequestId e d =
     ''TRF-'' @ show_int (getUTCFullYear (now e)) @ ''-'' @
     toUpperCase (take 10 (filter (\<lambda>c. c \<noteq> CHR ''-'') (fresh e d)))"

definition appendTimelineNote :: "jval \<Rightarrow> (string \<times> jval) list \<Rightarrow> jval" where
  "appendTimelineNote existing note =
     (case existing of JArr notes \<Rightarrow> JArr (notes @ [JObj note]) | _ \<Rightarrow> JArr [JObj note])"

definition timelineNote :: "env \<Rightarrow> auth_token \<Rightarrow> string \<Rightarrow> string option \<Rightarrow> (string \<times> jval) list" where
  "timelineNote e auth status note =
     [(''at'', JStr (toISOString (now e))), (''by'', JStr (au_sub auth)),
      (''role'', JStr (role_text (au_role auth))), (''status'', JStr status), (''note'', jstr note)]"

definition newTransfer ::
    "env \<Rightarrow> auth_token \<Rightarrow> create_transfer_body \<Rightarrow> string \<Rightarrow> institution option \<Rightarrow> enrolment \<Rightarrow>
     string \<Rightarrow> string \<Rightarrow> transfer_request" where
  "newTransfer e auth p inst target x transferId i =
     \<lparr>tr_uuid = i, tr_transferId = transferId, tr_learnerId = en_learnerId x, tr_fromInstitutionId = inst,
      tr_toInstitutionId = map_option in_uuid target, tr_fromEnrolmentId = Some (en_uuid x),
      tr_fromSessionId = en_academicSessionId x, tr_fromStructureId = en_structureScopeId x,
      tr_toInstitutionNameSubmitted =
        orElse (ctb_toInstitutionNameSubmitted p) (map_option in_officialName target),
      tr_toInstitutionContactEmail = ctb_toInstitutionContactEmail p, tr_reason = ctb_reason p,
      tr_status = Tr_REQUESTED, tr_requestedById = au_institutionUserId auth, tr_requestedAt = now e,
      tr_reviewedById = None, tr_reviewedAt = None, tr_completedAt = None, tr_rejectedAt = None,
      tr_cancelledAt = None, tr_rolloverRecordId = None, tr_disputeId = None,
      tr_notes = JArr [JObj (timelineNote e auth ''REQUESTED''
        (Some (getOr (ctb_reason p) ''Transfer request opened.'')))]\<rparr>"

text \<open>The first draw is the random part of the transfer id, the second the key of the row.\<close>

definition createTransfer :: "env \<Rightarrow> transfer_request \<Rightarrow> db \<Rightarrow> (transfer_request \<times> db) res" where
  "createTransfer e t d =
     (let row = t\<lparr>tr_uuid := fresh e d\<rparr> in
      bindE (check_unique ''TransferRequest_transferId_key'' (\<lambda>t. Some (tr_transferId t))
        (transferRequests d @ [row])) (\<lambda>rows.
      Inr (row, drawn (d\<lparr>transferRequests := rows\<rparr>))))"

definition learner_ain :: "db \<Rightarrow> string \<Rightarrow> jval" where
  "learner_ain d i = jstr (map_option le_ain (find_by le_uuid i (learners d)))"

definition createTransferRequest ::
    "env \<Rightarrow> db \<Rightarrow> auth_token \<Rightarrow> create_transfer_body option \<Rightarrow> (transfer_request \<times> db) res" where
  "createTransferRequest e d auth body =
     bindE (safeParse (createTransferRequest_ok e) body) (\<lambda>p.
     bindE (resolveHumanInstitution d auth (ctb_institutionId p)) (\<lambda>inst.
     bindE (require (active_enrolment d (in_uuid inst) (ctb_enrolmentId p))
       (BadRequest ''Active source enrolment not found for this institution.'')) (\<lambda>x.
     let wanted = truthy_text (ctb_toInstitutionId p);
         target = (if wanted then find_by in_uuid (getOr (ctb_toInstitutionId p) []) (institutions d) else None)
     in
     bindE (failIf (wanted \<and> (target = None \<or> map_option in_status target \<noteq> Some Inst_ACTIVE))
       (BadRequest ''Target institution must be active.'')) (\<lambda>_.
     bindE (failIf (map_option in_uuid target = Some (in_uuid inst))
       (BadRequest ''Transfer target institution must be different from the source institution.'')) (\<lambda>_.
     bindE (createTransfer e
       (newTransfer e auth p (in_uuid inst) target x (nextTransferRequestId e d) []) (drawn d)) (\<lambda>(transfer, d1).
     Inr (transfer,
       audit_write (humanActor auth (audit_event_of ''transfer_request.create'' ''TransferRequest''
           (tr_uuid transfer) (Some (in_uuid inst))
           (JObj [(''transferId'', JStr (tr_transferId transfer)), (''learnerId'', JStr (en_learnerId x)),
                  (''learnerAin'', learner_ain d (en_learnerId x)),
                  (''toInstitutionId'', jstr (map_option in_institutionId target)),
                  (''toInstitutionNameSubmitted'', jnull (tr_toInstitutionNameSubmitted transfer))]))) d1)))))))"

section \<open>Listing\<close>

datatype transfer_direction = Dir_INCOMING | Dir_OUTGOING | Dir_ALL

definition transfer_filter :: "string option \<Rightarrow> transfer_direction \<Rightarrow> transfer_request \<Rightarrow> bool" where
  "transfer_filter actorInstitutionId direction t =
     (if \<not> truthy_text actorInstitutionId then True
      else case direction of
        Dir_ALL \<Rightarrow> Some (tr_fromInstitutionId t) = actorInstitutionId \<or> tr_toInstitutionId t = actorInstitutionId
      | Dir_INCOMING \<Rightarrow> tr_toInstitutionId t = actorInstitutionId
      | Dir_OUTGOING \<Rightarrow> Some (tr_fromInstitutionId t) = actorInstitutionId)"

definition listTransferRequests ::
    "db \<Rightarrow> auth_token \<Rightarrow> transfer_status option \<Rightarrow> transfer_direction option \<Rightarrow> string option \<Rightarrow>
     transfer_request list res" where
  "listTransferRequests d auth status directionOpt institutionRef =
     (let founder = (au_role auth = ACADID_SUPER_ADMIN);
          direction = getOr directionOpt Dir_ALL;
          inst = (if truthy_text institutionRef \<and> founder
                  then List.find (institutionRefWhere (getOr institutionRef [])) (institutions d) else None);
          actorInstitutionId = (if founder then map_option in_uuid inst else au_institutionUuid auth)
      in
      bindE (failIf (\<not> founder \<and> \<not> truthy_text actorInstitutionId)
        (Forbidden ''Institution-scoped session is required to list transfer requests.'')) (\<lambda>_.
      Inr (take 200 (filter (\<lambda>t. transfer_filter actorInstitutionId direction t \<and>
                                 opt_ok (\<lambda>s. tr_status t = s) status) (rev (transferRequests d))))))"

section \<open>Review\<close>

definition closedTransfer :: "transfer_request \<Rightarrow> bool" where
  "closedTransfer t \<longleftrightarrow> tr_status t \<in> {Tr_REJECTED, Tr_CANCELLED, Tr_COMPLETED}"

definition refusedTransfer ::
    "env \<Rightarrow> auth_token \<Rightarrow> review_transfer_body \<Rightarrow> transfer_request \<Rightarrow> transfer_request" where
  "refusedTransfer e auth b t =
     (let rejected = (rtb_decision b = TR_REJECT)
      in t\<lparr>tr_status := (if rejected then Tr_REJECTED else Tr_CANCELLED),
           tr_notes := appendTimelineNote (tr_notes t)
             (timelineNote e auth (transfer_decision_text (rtb_decision b)) (rtb_note b)),
           tr_reviewedById := au_institutionUserId auth, tr_reviewedAt := Some (now e),
           tr_rejectedAt := (if rejected then Some (now e) else tr_rejectedAt t),
           tr_cancelledAt := (if rejected then tr_cancelledAt t else Some (now e))\<rparr>)"

definition completedTransfer ::
    "env \<Rightarrow> auth_token \<Rightarrow> review_transfer_body \<Rightarrow> string \<Rightarrow> transfer_request \<Rightarrow> transfer_request" where
  "completedTransfer e auth b rolloverId t =
     t\<lparr>tr_status := Tr_COMPLETED, tr_rolloverRecordId := Some rolloverId,
       tr_reviewedById := au_institutionUserId auth, tr_reviewedAt := Some (now e),
       tr_completedAt := Some (now e),
       tr_notes := appendTimelineNote (tr_notes t)
         (timelineNote e auth (transfer_decision_text (rtb_decision b)) (rtb_note b))\<rparr>"

definition transferRollover ::
    "env \<Rightarrow> auth_token \<Rightarrow> review_transfer_body \<Rightarrow> transfer_request \<Rightarrow> enrolment \<Rightarrow> string \<Rightarrow> rollover_record" where
  "transferRollover e auth b t x fromSessionId =
     \<lparr>rl_uuid = [], rl_institutionId = tr_fromInstitutionId t, rl_learnerId = tr_learnerId t,
      rl_enrolmentId = Some (en_uuid x), rl_fromSessionId = fromSessionId, rl_toSessionId = None,
      rl_fromStructureId = orElse (tr_fromStructureId t) (en_structureScopeId x), rl_toStructureId = None,
      rl_decision = TRANSFERRED_OUT, rl_status = Roll_APPROVED,
      rl_reason = orElse (rtb_note b) (tr_reason t),
      rl_createdById = orElse (tr_requestedById t) (au_institutionUserId auth),
      rl_approvedById = au_institutionUserId auth, rl_approvedAt = Some (now e),
      rl_disputeId = None, rl_disputedAt = None, rl_disputeResolutionNote = None\<rparr>"

definition transferredEnrolment :: "int \<Rightarrow> enrolment \<Rightarrow> enrolment" where
  "transferredEnrolment t x =
     x\<lparr>en_status := En_TRANSFERRED_OUT, en_exitDate := Some t, en_exitType := Some Exit_TRANSFER\<rparr>"

text \<open>The transaction of an approval.\<close>

definition approveTransfer ::
    "env \<Rightarrow> auth_token \<Rightarrow> review_transfer_body \<Rightarrow> transfer_request \<Rightarrow> db \<Rightarrow> (string \<times> db) res" where
  "approveTransfer e auth b t d =
     bindE (require (if truthy_text (tr_fromEnrolmentId t)
                     then active_enrolment d (tr_fromInstitutionId t) (getOr (tr_fromEnrolmentId t) []) else None)
       (BadRequest ''Active source enrolment is no longer available for transfer.'')) (\<lambda>x.
     bindE (update_by en_uuid (en_uuid x) (transferredEnrolment (now e)) (enrolments d)) (\<lambda>es.
     bindE (saveEnrolments es d) (\<lambda>d1.
     bindE (require (orElse (tr_fromSessionId t) (en_academicSessionId x))
       (Failure ''Argument fromSessionId is missing.'')) (\<lambda>fromSessionId.
     bindE (createRolloverRecord e (transferRollover e auth b t x fromSessionId) d1) (\<lambda>d2.
     bindE (update_by tr_uuid (tr_uuid t) (completedTransfer e auth b (fresh e d1)) (transferRequests d2)) (\<lambda>rows.
     Inr (fresh e d1, d2\<lparr>transferRequests := rows\<rparr>)))))))"

definition reviewTransferRequest ::
    "env \<Rightarrow> db \<Rightarrow> auth_token \<Rightarrow> string \<Rightarrow> review_transfer_body option \<Rightarrow> (transfer_request \<times> string option \<times> db) res" where
  "reviewTransferRequest e d auth i body =
     bindE (safeParse reviewTransferRequest_ok body) (\<lambda>b.
     bindE (require (find_by tr_uuid i (transferRequests d)) (BadRequest ''Transfer request not found.'')) (\<lambda>existing.
     bindE (assertActorCanOperateInstitution d auth (tr_fromInstitutionId existing)) (\<lambda>_.
     bindE (failIf (closedTransfer existing)
       (BadRequest ''Closed transfer requests cannot be reviewed again.'')) (\<lambda>_.
     let event = (\<lambda>action metadata. (humanActor auth (audit_event_of action ''TransferRequest''
           (tr_uuid existing) (Some (tr_fromInstitutionId existing)) (JObj metadata)))
           \<lparr>ai_reason := rtb_note b\<rparr>)
     in
     if rtb_decision b = TR_REJECT \<or> rtb_decision b = TR_CANCEL then
       bindE (update_by tr_uuid (tr_uuid existing) (refusedTransfer e auth b) (transferRequests d)) (\<lambda>rows.
       Inr (refusedTransfer e auth b existing, None,
         audit_write (event (if rtb_decision b = TR_REJECT then ''transfer_request.reject''
                             else ''transfer_request.cancel'')
             [(''transferId'', JStr (tr_transferId existing))])
           (d\<lparr>transferRequests := rows\<rparr>)))
     else
       bindE (approveTransfer e auth b existing d) (\<lambda>(rolloverId, d1).
       Inr (completedTransfer e auth b rolloverId existing, Some rolloverId,
         audit_write (event ''transfer_request.complete''
             [(''transferId'', JStr (tr_transferId existing)), (''rolloverId'', JStr rolloverId),
              (''learnerId'', JStr (tr_learnerId existing))]) d1))))))"

section \<open>Disputes of a rollover record\<close>

definition transferOf :: "db \<Rightarrow> rollover_record \<Rightarrow> transfer_request option" where
  "transferOf d r = List.find (\<lambda>t. tr_rolloverRecordId t = Some (rl_uuid r)) (transferRequests d)"

text \<open>\<open>rollover.transferRequest && await tx.transferRequest.update(...)\<close>\<close>

definition updateTransferOf ::
    "db \<Rightarrow> rollover_record \<Rightarrow> (transfer_request \<Rightarrow> transfer_request) \<Rightarrow> transfer_request list res" where
  "updateTransferOf d r f =
     (case transferOf d r of
        None \<Rightarrow> Inr (transferRequests d)
      | Some t \<Rightarrow> update_by tr_uuid (tr_uuid t) f (transferRequests d))"

definition disputeOf :: "db \<Rightarrow> rollover_record \<Rightarrow> dispute option" where
  "disputeOf d r = (case rl_disputeId r of None \<Rightarrow> None | Some i \<Rightarrow> find_by di_uuid i (disputes d))"

definition newDispute :: "rollover_record \<Rightarrow> create_dispute_body \<Rightarrow> string \<Rightarrow> dispute" where
  "newDispute r b i =
     \<lparr>di_uuid = i,
      di_title = getOr (cdb_title b) (''Rollover dispute: '' @ decision_text (rl_decision r)),
      di_description = cdb_reason b, di_category = ''ROLLOVER'',
      di_priority = getOr (cdb_priority b) Prio_NORMAL, di_status = Disp_OPEN,
      di_institutionId = Some (rl_institutionId r), di_learnerId = Some (rl_learnerId r),
      di_reporterName = cdb_reporterName b, di_reporterEmail = cdb_reporterEmail b,
      di_resolvedAt = None, di_resolutionNote = None\<rparr>"

definition disputedRollover :: "int \<Rightarrow> string \<Rightarrow> rollover_record \<Rightarrow> rollover_record" where
  "disputedRollover t disputeId r = r\<lparr>rl_disputeId := Some disputeId, rl_disputedAt := Some t\<rparr>"

definition disputedTransfer ::
    "env \<Rightarrow> auth_token \<Rightarrow> string \<Rightarrow> string \<Rightarrow> transfer_request \<Rightarrow> transfer_request" where
  "disputedTransfer e auth reason disputeId t =
     t\<lparr>tr_status := Tr_DISPUTED, tr_disputeId := Some disputeId,
       tr_notes := appendTimelineNote (tr_notes t) (timelineNote e auth ''DISPUTED'' (Some reason))\<rparr>"

definition createRolloverDispute ::
    "env \<Rightarrow> db \<Rightarrow> auth_token \<Rightarrow> string \<Rightarrow> create_dispute_body option \<Rightarrow>
     (dispute \<times> rollover_record \<times> transfer_request option \<times> db) res" where
  "createRolloverDispute e d auth rolloverId body =
     bindE (safeParse (createRolloverDispute_ok e) body) (\<lambda>b.
     bindE (require (find_by rl_uuid rolloverId (rolloverRecords d)) (BadRequest ''Rollover record not found.'')) (\<lambda>r.
     bindE (assertActorCanOperateInstitution d auth (rl_institutionId r)) (\<lambda>_.
     bindE (failIf (truthy_text (rl_disputeId r) \<or> disputeOf d r \<noteq> None)
       (BadRequest ''Rollover record already has an open dispute link.'')) (\<lambda>_.
     let dispute = newDispute r b (fresh e d);
         disputeId = di_uuid dispute;
         d1 = drawn (d\<lparr>disputes := disputes d @ [dispute]\<rparr>)
     in
     bindE (update_by rl_uuid (rl_uuid r) (disputedRollover (now e) disputeId) (rolloverRecords d1)) (\<lambda>rollovers.
     bindE (updateTransferOf d r (disputedTransfer e auth (cdb_reason b) disputeId)) (\<lambda>transfers.
     let transfer = map_option (disputedTransfer e auth (cdb_reason b) disputeId) (transferOf d r) in
     Inr (dispute, disputedRollover (now e) disputeId r, transfer,
       audit_write ((humanActor auth (audit_event_of ''rollover.dispute.create'' ''RolloverRecord''
           (rl_uuid r) (Some (rl_institutionId r))
           (JObj [(''disputeId'', JStr disputeId), (''decision'', JStr (decision_text (rl_decision r))),
                  (''learnerAin'', learner_ain d (rl_learnerId r)),
                  (''transferId'', jstr (map_option tr_transferId transfer))])))
           \<lparr>ai_reason := Some (cdb_reason b)\<rparr>)
         (d1\<lparr>rolloverRecords := rollovers, transferRequests := transfers\<rparr>))))))))"

definition resolvedDispute :: "int \<Rightarrow> string \<Rightarrow> dispute \<Rightarrow> dispute" where
  "resolvedDispute t note x =
     x\<lparr>di_status := Disp_RESOLVED, di_resolvedAt := Some t, di_resolutionNote := Some note\<rparr>"

definition resolvedTransfer :: "env \<Rightarrow> auth_token \<Rightarrow> string \<Rightarrow> transfer_request \<Rightarrow> transfer_request" where
  "resolvedTransfer e auth note t =
     t\<lparr>tr_status := (if tr_status t = Tr_DISPUTED then Tr_COMPLETED else tr_status t),
       tr_notes := appendTimelineNote (tr_notes t) (timelineNote e auth ''RESOLVED'' (Some note))\<rparr>"

definition resolvedRollover :: "string \<Rightarrow> rollover_record \<Rightarrow> rollover_record" where
  "resolvedRollover note r = r\<lparr>rl_disputeResolutionNote := Some note\<rparr>"

definition resolveRolloverDispute ::
    "env \<Rightarrow> db \<Rightarrow> auth_token \<Rightarrow> string \<Rightarrow> string option \<Rightarrow>
     (dispute \<times> rollover_record \<times> transfer_request option \<times> db) res" where
  "resolveRolloverDispute e d auth rolloverId body =
     bindE (safeParse resolveRolloverDispute_ok body) (\<lambda>note.
     bindE (require (find_by rl_uuid rolloverId (rolloverRecords d)) (BadRequest ''Rollover record not found.'')) (\<lambda>r.
     bindE (assertActorCanOperateInstitution d auth (rl_institutionId r)) (\<lambda>_.
     bindE (require (if truthy_text (rl_disputeId r) then disputeOf d r else None)
       (BadRequest ''Rollover record does not have a dispute to resolve.'')) (\<lambda>dispute.
     bindE (update_by di_uuid (di_uuid dispute) (resolvedDispute (now e) note) (disputes d)) (\<lambda>ds.
     bindE (update_by rl_uuid (rl_uuid r) (resolvedRollover note) (rolloverRecords d)) (\<lambda>rollovers.
     bindE (updateTransferOf d r (resolvedTransfer e auth note)) (\<lambda>transfers.
     let transfer = map_option (resolvedTransfer e auth note) (transferOf d r) in
     Inr (resolvedDispute (now e) note dispute, resolvedRollover note r, transfer,
       audit_write ((humanActor auth (audit_event_of ''rollover.dispute.resolve'' ''RolloverRecord''
           (rl_uuid r) (Some (rl_institutionId r))
           (JObj [(''disputeId'', JStr (getOr (rl_disputeId r) [])),
                  (''transferId'', jstr (map_option tr_transferId transfer))])))
           \<lparr>ai_reason := Some note\<rparr>)
         (d\<lparr>disputes := ds, rolloverRecords := rollovers, transferRequests := transfers\<rparr>)))))))))"

section \<open>Effects of the handlers\<close>

lemma active_enrolment_Some:
  "active_enrolment d inst i = Some x \<longleftrightarrow>
     find_by en_uuid i (enrolments d) = Some x \<and> en_institutionId x = inst \<and> en_status x = En_ACTIVE"
  by (auto simp: active_enrolment_def split: option.splits if_splits)

lemma transfer_change_fields [simp]:
  "tr_uuid (refusedTransfer e auth b t) = tr_uuid t"
  "tr_uuid (completedTransfer e auth b k t) = tr_uuid t"
  "tr_uuid (disputedTransfer e auth s k t) = tr_uuid t"
  "tr_uuid (resolvedTransfer e auth s t) = tr_uuid t"
  "tr_fromEnrolmentId (refusedTransfer e auth b t) = tr_fromEnrolmentId t"
  "tr_fromEnrolmentId (completedTransfer e auth b k t) = tr_fromEnrolmentId t"
  "tr_fromEnrolmentId (disputedTransfer e auth s k t) = tr_fromEnrolmentId t"
  "tr_fromEnrolmentId (resolvedTransfer e auth s t) = tr_fromEnrolmentId t"
  "tr_rolloverRecordId (refusedTransfer e auth b t) = tr_rolloverRecordId t"
  "tr_rolloverRecordId (completedTransfer e auth b k t) = Some k"
  "tr_rolloverRecordId (disputedTransfer e auth s k t) = tr_rolloverRecordId t"
  "tr_rolloverRecordId (resolvedTransfer e auth s t) = tr_rolloverRecordId t"
  "tr_status (completedTransfer e auth b k t) = Tr_COMPLETED"
  "tr_status (disputedTransfer e auth s k t) = Tr_DISPUTED"
  by (simp_all add: refusedTransfer_def completedTransfer_def disputedTransfer_def resolvedTransfer_def Let_def)

lemma rollover_change_fields [simp]:
  "rl_uuid (disputedRollover n k r) = rl_uuid r" "rl_uuid (resolvedRollover s r) = rl_uuid r"
  "rl_enrolmentId (disputedRollover n k r) = rl_enrolmentId r"
  "rl_enrolmentId (resolvedRollover s r) = rl_enrolmentId r"
  "rl_decision (disputedRollover n k r) = rl_decision r"
  "rl_decision (resolvedRollover s r) = rl_decision r"
  by (simp_all add: disputedRollover_def resolvedRollover_def)

lemma transferredEnrolment_fields [simp]:
  "en_uuid (transferredEnrolment n x) = en_uuid x"
  "en_status (transferredEnrolment n x) = En_TRANSFERRED_OUT"
  by (simp_all add: transferredEnrolment_def)

lemma createTransfer_effect:
  assumes "createTransfer e row d = Inr (t, d')"
  shows "transferRequests d' = transferRequests d @ [t] \<and> enrolments d' = enrolments d \<and>
    rolloverRecords d' = rolloverRecords d \<and> tr_status t = tr_status row \<and>
    tr_rolloverRecordId t = tr_rolloverRecordId row"
  using assms unfolding createTransfer_def Let_def by (auto simp: err_simps drawn_def)

lemma newTransfer_fields [simp]:
  "tr_status (newTransfer e auth p inst target x k i) = Tr_REQUESTED"
  "tr_rolloverRecordId (newTransfer e auth p inst target x k i) = None"
  by (simp_all add: newTransfer_def)

lemma createTransferRequest_effect:
  assumes "createTransferRequest e d auth body = Inr (t, d')"
  shows "transferRequests d' = transferRequests d @ [t] \<and> enrolments d' = enrolments d \<and>
    rolloverRecords d' = rolloverRecords d \<and> tr_status t = Tr_REQUESTED \<and> tr_rolloverRecordId t = None"
proof -
  from assms obtain p inst target x ev d1 where
    "createTransfer e (newTransfer e auth p inst target x (nextTransferRequestId e d) []) (drawn d) = Inr (t, d1)"
    and d': "d' = audit_write ev d1"
    unfolding createTransferRequest_def Let_def bindE_eq_Inr by (auto simp: err_simps)
  from createTransfer_effect [OF this(1)] d' show ?thesis by (simp add: drawn_def)
qed

lemma approveTransfer_effect:
  assumes "approveTransfer e auth b t d = Inr (k, d')"
  shows "\<exists>x r. active_enrolment d (tr_fromInstitutionId t) (en_uuid x) = Some x \<and>
    tr_fromEnrolmentId t = Some (en_uuid x) \<and>
    enrolments d' = set_by en_uuid (en_uuid x) (transferredEnrolment (now e)) (enrolments d) \<and>
    rolloverRecords d' = rolloverRecords d @ [r] \<and> rl_uuid r = k \<and> rl_decision r = TRANSFERRED_OUT \<and>
    rl_enrolmentId r = Some (en_uuid x) \<and> rl_learnerId r = tr_learnerId t \<and> rl_status r = Roll_APPROVED \<and>
    transferRequests d' = set_by tr_uuid (tr_uuid t) (completedTransfer e auth b k) (transferRequests d)"
proof -
  from assms obtain x where req: "(if truthy_text (tr_fromEnrolmentId t)
      then active_enrolment d (tr_fromInstitutionId t) (getOr (tr_fromEnrolmentId t) []) else None) = Some x"
    unfolding approveTransfer_def by (auto simp: err_simps)
  then obtain i where i: "tr_fromEnrolmentId t = Some i"
      and x: "active_enrolment d (tr_fromInstitutionId t) i = Some x"
    by (cases "tr_fromEnrolmentId t") (auto simp: truthy_text_def getOr_def split: if_splits)
  have id: "i = en_uuid x" using x unfolding active_enrolment_Some by (blast dest: find_by_key)
  let ?d1 = "d\<lparr>enrolments := set_by en_uuid (en_uuid x) (transferredEnrolment (now e)) (enrolments d)\<rparr>"
  from assms obtain s where "k = fresh e ?d1" and
    "d' = (drawn (?d1\<lparr>rolloverRecords := rolloverRecords d @
        [(transferRollover e auth b t x s)\<lparr>rl_uuid := fresh e ?d1\<rparr>]\<rparr>))
      \<lparr>transferRequests := set_by tr_uuid (tr_uuid t) (completedTransfer e auth b (fresh e ?d1)) (transferRequests d)\<rparr>"
    unfolding approveTransfer_def req
    by (auto simp: err_simps createRolloverRecord_def drawn_def)
  then show ?thesis using x i unfolding id
    by (intro exI [of _ x] exI [of _ "(transferRollover e auth b t x s)\<lparr>rl_uuid := fresh e ?d1\<rparr>"])
      (simp add: transferRollover_def drawn_def)
qed

text \<open>What a review leaves behind.\<close>

definition refused_effect :: "transfer_request \<Rightarrow> (transfer_request \<Rightarrow> transfer_request) \<Rightarrow> db \<Rightarrow> db \<Rightarrow> bool" where
  "refused_effect t f d d' \<longleftrightarrow>
     transferRequests d' = set_by tr_uuid (tr_uuid t) f (transferRequests d) \<and>
     enrolments d' = enrolments d \<and> rolloverRecords d' = rolloverRecords d"

definition approved_effect ::
    "env \<Rightarrow> transfer_request \<Rightarrow> (transfer_request \<Rightarrow> transfer_request) \<Rightarrow> string \<Rightarrow> db \<Rightarrow> db \<Rightarrow> bool" where
  "approved_effect e t f k d d' \<longleftrightarrow>
     (\<exists>x r. active_enrolment d (tr_fromInstitutionId t) (en_uuid x) = Some x \<and>
       tr_fromEnrolmentId t = Some (en_uuid x) \<and>
       enrolments d' = set_by en_uuid (en_uuid x) (transferredEnrolment (now e)) (enrolments d) \<and>
       rolloverRecords d' = rolloverRecords d @ [r] \<and> rl_uuid r = k \<and> rl_decision r = TRANSFERRED_OUT \<and>
       rl_enrolmentId r = Some (en_uuid x) \<and> rl_learnerId r = tr_learnerId t \<and> rl_status r = Roll_APPROVED \<and>
       transferRequests d' = set_by tr_uuid (tr_uuid t) f (transferRequests d))"

lemma review_effect:
  assumes "reviewTransferRequest e d auth i body = Inr (t', ro, d')"
  shows "\<exists>b t. body = Some b \<and> find_by tr_uuid i (transferRequests d) = Some t \<and> \<not> closedTransfer t \<and>
    assertActorCanOperateInstitution d auth (tr_fromInstitutionId t) = Inr () \<and>
    (rtb_decision b \<noteq> TR_APPROVE \<and> t' = refusedTransfer e auth b t \<and> ro = None \<and>
       refused_effect t (refusedTransfer e auth b) d d' \<or>
     rtb_decision b = TR_APPROVE \<and> (\<exists>k. ro = Some k \<and> t' = completedTransfer e auth b k t \<and>
       approved_effect e t (completedTransfer e auth b k) k d d'))"
proof -
  from assms obtain b t where b: "body = Some b" "find_by tr_uuid i (transferRequests d) = Some t"
      "\<not> closedTransfer t" "assertActorCanOperateInstitution d auth (tr_fromInstitutionId t) = Inr ()"
    unfolding reviewTransferRequest_def by (auto simp: err_simps)
  show ?thesis
  proof (cases "rtb_decision b = TR_APPROVE")
    case True
    with assms b obtain k d1 where ap: "approveTransfer e auth b t d = Inr (k, d1)"
        and r: "ro = Some k" "t' = completedTransfer e auth b k t"
        and d': "transferRequests d' = transferRequests d1" "enrolments d' = enrolments d1"
          "rolloverRecords d' = rolloverRecords d1"
      unfolding reviewTransferRequest_def by (auto simp: err_simps Let_def)
    from approveTransfer_effect [OF ap] have "approved_effect e t (completedTransfer e auth b k) k d d'"
      unfolding approved_effect_def d' .
    with True b r show ?thesis by blast
  next
    case False
    then have "rtb_decision b = TR_REJECT \<or> rtb_decision b = TR_CANCEL" by (cases "rtb_decision b") auto
    with assms b False have "t' = refusedTransfer e auth b t \<and> ro = None \<and> refused_effect t (refusedTransfer e auth b) d d'"
      unfolding reviewTransferRequest_def refused_effect_def by (auto simp: err_simps Let_def)
    with False b show ?thesis by blast
  qed
qed

lemma transferOf_Some:
  "transferOf d r = Some t \<Longrightarrow> t \<in> set (transferRequests d) \<and> tr_rolloverRecordId t = Some (rl_uuid r)"
  unfolding transferOf_def by (auto dest: find_Some_in)

definition moved_transfer :: "db \<Rightarrow> rollover_record \<Rightarrow> (transfer_request \<Rightarrow> transfer_request) \<Rightarrow> transfer_request list" where
  "moved_transfer d r f =
     (case transferOf d r of None \<Rightarrow> transferRequests d
      | Some t \<Rightarrow> set_by tr_uuid (tr_uuid t) f (transferRequests d))"

lemma updateTransferOf_eq: "updateTransferOf d r f = Inr (moved_transfer d r f)"
proof (cases "transferOf d r")
  case (Some t)
  then have "tr_uuid t \<in> tr_uuid ` set (transferRequests d)" by (simp add: transferOf_Some)
  with Some show ?thesis
    by (cases "update_by tr_uuid (tr_uuid t) f (transferRequests d)")
      (auto simp: updateTransferOf_def moved_transfer_def update_by_eq_Inr update_by_def find_by_None split: option.splits)
qed (simp add: updateTransferOf_def moved_transfer_def)

lemma disputes_effect:
  assumes "createRolloverDispute e d auth i body = Inr (dis, r', tr, d')"
  shows "\<exists>b r. body = Some b \<and> find_by rl_uuid i (rolloverRecords d) = Some r \<and>
    assertActorCanOperateInstitution d auth (rl_institutionId r) = Inr () \<and>
    \<not> truthy_text (rl_disputeId r) \<and> enrolments d' = enrolments d \<and>
    rolloverRecords d' = set_by rl_uuid (rl_uuid r) (disputedRollover (now e) (fresh e d)) (rolloverRecords d) \<and>
    disputes d' = disputes d @ [newDispute r b (fresh e d)] \<and>
    transferRequests d' = moved_transfer d r (disputedTransfer e auth (cdb_reason b) (fresh e d))"
proof -
  have k: "di_uuid (newDispute r b i) = i" for r b i by (simp add: newDispute_def)
  from assms obtain b r where "body = Some b" "find_by rl_uuid i (rolloverRecords d) = Some r"
    "assertActorCanOperateInstitution d auth (rl_institutionId r) = Inr ()"
    "\<not> truthy_text (rl_disputeId r)" "disputeOf d r = None"
    unfolding createRolloverDispute_def by (auto simp: err_simps)
  then show ?thesis
    using assms unfolding createRolloverDispute_def updateTransferOf_eq Let_def k
    by (auto simp: err_simps drawn_def)
qed

lemma resolve_effect:
  assumes "resolveRolloverDispute e d auth i body = Inr (dis, r', tr, d')"
  shows "\<exists>note r. body = Some note \<and> find_by rl_uuid i (rolloverRecords d) = Some r \<and>
    assertActorCanOperateInstitution d auth (rl_institutionId r) = Inr () \<and>
    enrolments d' = enrolments d \<and>
    rolloverRecords d' = set_by rl_uuid (rl_uuid r) (resolvedRollover note) (rolloverRecords d) \<and>
    transferRequests d' = moved_transfer d r (resolvedTransfer e auth note)"
proof -
  from assms obtain s r where "body = Some s" "find_by rl_uuid i (rolloverRecords d) = Some r"
    "assertActorCanOperateInstitution d auth (rl_institutionId r) = Inr ()"
    "truthy_text (rl_disputeId r)"
    unfolding resolveRolloverDispute_def by (auto simp: err_simps split: if_splits)
  then show ?thesis
    using assms unfolding resolveRolloverDispute_def updateTransferOf_eq Let_def
    by (auto simp: err_simps)
qed

section \<open>The transfer machine\<close>

text \<open>A transfer as the machine sees it: its status and the rollover record that carried it out.\<close>

type_synonym transfer_view = "transfer_status \<times> string option"

definition transfer_view_of :: "transfer_request \<Rightarrow> transfer_view" where
  "transfer_view_of t = (tr_status t, tr_rolloverRecordId t)"

inductive transfer_step :: "transfer_view \<Rightarrow> transfer_view \<Rightarrow> bool" where
  refuse: "s \<notin> {Tr_REJECTED, Tr_CANCELLED, Tr_COMPLETED} \<Longrightarrow> s' \<in> {Tr_REJECTED, Tr_CANCELLED} \<Longrightarrow>
    transfer_step (s, k) (s', k)"
| complete: "s \<notin> {Tr_REJECTED, Tr_CANCELLED, Tr_COMPLETED} \<Longrightarrow> transfer_step (s, k) (Tr_COMPLETED, Some k')"
| raise_dispute: "transfer_step (s, Some k) (Tr_DISPUTED, Some k)"
| settle_dispute: "transfer_step (Tr_DISPUTED, Some k) (Tr_COMPLETED, Some k)"

declare transfer_step.intros [intro]

inductive_cases transfer_step_cases [elim!]: "transfer_step (s, k) (s', k')"

text \<open>The handlers that change transfers, as one relation on the database. A new row has a key of its own.\<close>

inductive transfer_op :: "db \<Rightarrow> db \<Rightarrow> bool" where
  open_transfer: "createTransferRequest e d auth body = Inr (t, d') \<Longrightarrow>
    tr_uuid t \<notin> tr_uuid ` set (transferRequests d) \<Longrightarrow> transfer_op d d'"
| review_transfer: "reviewTransferRequest e d auth i body' = Inr (t, ro, d') \<Longrightarrow> transfer_op d d'"
| open_dispute: "createRolloverDispute e d auth i body'' = Inr (dis, r, tr, d') \<Longrightarrow> transfer_op d d'"
| close_dispute: "resolveRolloverDispute e d auth i note = Inr (dis, r, tr, d') \<Longrightarrow> transfer_op d d'"

definition rows_refine :: "transfer_request list \<Rightarrow> transfer_request list \<Rightarrow> bool" where
  "rows_refine rows rows' \<longleftrightarrow>
     (\<forall>t \<in> set rows. \<exists>t' \<in> set rows'. tr_uuid t' = tr_uuid t \<and>
       (transfer_view_of t' = transfer_view_of t \<or> transfer_step (transfer_view_of t) (transfer_view_of t'))) \<and>
     (\<forall>t' \<in> set rows'. tr_uuid t' \<in> tr_uuid ` set rows \<or> transfer_view_of t' = (Tr_REQUESTED, None))"

lemma rows_refine_refl: "rows_refine rows rows"
  by (auto simp: rows_refine_def)

lemma rows_refine_set_by:
  assumes "distinct (map tr_uuid rows)" and "t0 \<in> set rows" and key: "\<And>t. tr_uuid (f t) = tr_uuid t"
    and step: "transfer_view_of (f t0) = transfer_view_of t0 \<or> transfer_step (transfer_view_of t0) (transfer_view_of (f t0))"
  shows "rows_refine rows (set_by tr_uuid (tr_uuid t0) f rows)"
proof -
  have old: "\<exists>t' \<in> set (set_by tr_uuid (tr_uuid t0) f rows). tr_uuid t' = tr_uuid t \<and>
    (transfer_view_of t' = transfer_view_of t \<or> transfer_step (transfer_view_of t) (transfer_view_of t'))"
    if "t \<in> set rows" for t
  proof (cases "tr_uuid t = tr_uuid t0")
    case True
    then have t: "t = t0" using assms(1,2) that by (blast dest: distinct_key_eq)
    have "f t0 \<in> set (set_by tr_uuid (tr_uuid t0) f rows)" using assms(2) by (auto simp: in_set_by)
    then show ?thesis using step key unfolding t by blast
  next
    case False
    with that have "t \<in> set (set_by tr_uuid (tr_uuid t0) f rows)" by (simp add: in_set_by)
    then show ?thesis by blast
  qed
  have "tr_uuid ` set (set_by tr_uuid (tr_uuid t0) f rows) = tr_uuid ` set rows"
    using key by (simp flip: set_map add: keys_set_by)
  with old show ?thesis unfolding rows_refine_def by blast
qed

lemma transfer_view_changes [simp]:
  "transfer_view_of (refusedTransfer e auth b t) =
     (if rtb_decision b = TR_REJECT then Tr_REJECTED else Tr_CANCELLED, tr_rolloverRecordId t)"
  "transfer_view_of (completedTransfer e auth b k t) = (Tr_COMPLETED, Some k)"
  "transfer_view_of (disputedTransfer e auth s k t) = (Tr_DISPUTED, tr_rolloverRecordId t)"
  "transfer_view_of (resolvedTransfer e auth s t) =
     (if tr_status t = Tr_DISPUTED then Tr_COMPLETED else tr_status t, tr_rolloverRecordId t)"
  by (simp_all add: transfer_view_of_def refusedTransfer_def completedTransfer_def disputedTransfer_def
      resolvedTransfer_def Let_def)

lemma transfer_op_refines:
  assumes "transfer_op d d'" and "distinct (map tr_uuid (transferRequests d))"
  shows "rows_refine (transferRequests d) (transferRequests d')"
  using assms(1)
proof cases
  case (open_transfer e auth body t)
  from createTransferRequest_effect [OF this(1)] show ?thesis
    by (auto simp: rows_refine_def transfer_view_of_def)
next
  case (review_transfer e auth i body' t' ro)
  from review_effect [OF this] obtain b t f where
      t: "find_by tr_uuid i (transferRequests d) = Some t" "\<not> closedTransfer t"
      and d': "transferRequests d' = set_by tr_uuid (tr_uuid t) f (transferRequests d)"
      and f: "f = refusedTransfer e auth b \<or> (\<exists>k. f = completedTransfer e auth b k)"
    unfolding refused_effect_def approved_effect_def by blast
  have step: "transfer_step (transfer_view_of t) (transfer_view_of (f t))"
    using f t(2) by (auto simp: closedTransfer_def transfer_view_of_def [of t])
  show ?thesis unfolding d'
    using find_by_Some [OF t(1)] f step by (intro rows_refine_set_by [OF assms(2)]) auto
next
  case (open_dispute e auth i body'' dis r0 tr)
  from disputes_effect [OF this] obtain r :: rollover_record and b :: create_dispute_body and k where
      d': "transferRequests d' = moved_transfer d r (disputedTransfer e auth (cdb_reason b) k)"
    by (elim exE conjE) (rule that)
  show ?thesis
  proof (cases "transferOf d r")
    case (Some t)
    from transferOf_Some [OF this] show ?thesis unfolding d' moved_transfer_def Some option.case
      by (intro rows_refine_set_by [OF assms(2)]) (auto simp: transfer_view_of_def [of t])
  qed (simp add: d' moved_transfer_def rows_refine_refl)
next
  case (close_dispute e auth i s0 dis r0 tr)
  from resolve_effect [OF this] obtain r :: rollover_record and s where
      d': "transferRequests d' = moved_transfer d r (resolvedTransfer e auth s)"
    by (elim exE conjE) (rule that)
  show ?thesis
  proof (cases "transferOf d r")
    case (Some t)
    from transferOf_Some [OF this] show ?thesis unfolding d' moved_transfer_def Some option.case
      by (intro rows_refine_set_by [OF assms(2)]) (auto simp: transfer_view_of_def [of t])
  qed (simp add: d' moved_transfer_def rows_refine_refl)
qed

text \<open>The review of transfers and the disputes of their rollover records move every transfer by a
  step of the transfer machine or leave its status and its rollover record alone, and no transfer
  disappears; a transfer that appears is a requested one without a rollover record.\<close>

theorem transfer_handlers_refine:
  assumes "transfer_op d d'" and "distinct (map tr_uuid (transferRequests d))"
  shows "(\<forall>t \<in> set (transferRequests d). \<exists>t' \<in> set (transferRequests d'). tr_uuid t' = tr_uuid t \<and>
      (transfer_view_of t' = transfer_view_of t \<or> transfer_step (transfer_view_of t) (transfer_view_of t'))) \<and>
    (\<forall>t' \<in> set (transferRequests d'). tr_uuid t' \<in> tr_uuid ` set (transferRequests d) \<or>
      transfer_view_of t' = (Tr_REQUESTED, None))"
  using transfer_op_refines [OF assms] unfolding rows_refine_def .

section \<open>A student leaves once\<close>

text \<open>Keys are unique, and a transfer with a rollover record has taken its enrolment out of the
  institution; no other transfer has taken the same enrolment.\<close>

definition moved_out :: "db \<Rightarrow> transfer_request \<Rightarrow> bool" where
  "moved_out d t \<longleftrightarrow> (\<exists>x \<in> set (enrolments d). tr_fromEnrolmentId t = Some (en_uuid x) \<and> en_status x = En_TRANSFERRED_OUT)"

definition transfers_ok :: "db \<Rightarrow> bool" where
  "transfers_ok d \<longleftrightarrow>
     distinct (map tr_uuid (transferRequests d)) \<and> distinct (map en_uuid (enrolments d)) \<and>
     (\<forall>t \<in> set (transferRequests d). tr_status t \<in> {Tr_COMPLETED, Tr_DISPUTED} \<longrightarrow> tr_rolloverRecordId t \<noteq> None) \<and>
     (\<forall>t \<in> set (transferRequests d). tr_rolloverRecordId t \<noteq> None \<longrightarrow> moved_out d t) \<and>
     (\<forall>t \<in> set (transferRequests d). \<forall>t' \<in> set (transferRequests d).
        tr_rolloverRecordId t \<noteq> None \<longrightarrow> tr_rolloverRecordId t' \<noteq> None \<longrightarrow>
        tr_fromEnrolmentId t = tr_fromEnrolmentId t' \<longrightarrow> t = t')"

lemma transfers_ok_set_by:
  assumes ok: "transfers_ok d" and es: "enrolments d' = enrolments d"
    and rows: "transferRequests d' = set_by tr_uuid k f (transferRequests d)"
    and f: "\<And>t. tr_uuid (f t) = tr_uuid t" "\<And>t. tr_fromEnrolmentId (f t) = tr_fromEnrolmentId t"
      "\<And>t. tr_rolloverRecordId (f t) = tr_rolloverRecordId t"
    and st: "\<And>t. t \<in> set (transferRequests d) \<Longrightarrow> tr_uuid t = k \<Longrightarrow>
      tr_status (f t) \<in> {Tr_COMPLETED, Tr_DISPUTED} \<Longrightarrow> tr_rolloverRecordId t \<noteq> None"
  shows "transfers_ok d'"
proof -
  have "distinct (map tr_uuid (transferRequests d'))"
    using ok unfolding rows transfers_ok_def by (simp add: keys_set_by f)
  moreover have old: "\<exists>t0 \<in> set (transferRequests d). tr_uuid t = tr_uuid t0 \<and> (t = t0 \<and> tr_uuid t0 \<noteq> k \<or> t = f t0 \<and> tr_uuid t0 = k) \<and>
      tr_fromEnrolmentId t = tr_fromEnrolmentId t0 \<and> tr_rolloverRecordId t = tr_rolloverRecordId t0"
    if "t \<in> set (transferRequests d')" for t
    using that f unfolding rows in_set_by by auto
  have "moved_out d' t = moved_out d t" for t by (simp add: moved_out_def es)
  moreover have "tr_rolloverRecordId t \<noteq> None" if "t \<in> set (transferRequests d')" "tr_status t \<in> {Tr_COMPLETED, Tr_DISPUTED}" for t
    using old [OF that(1)] that(2) ok st unfolding transfers_ok_def by metis
  moreover have "moved_out d t" if "t \<in> set (transferRequests d')" "tr_rolloverRecordId t \<noteq> None" for t
    using old [OF that(1)] that(2) ok unfolding transfers_ok_def moved_out_def by metis
  moreover have "t = t'" if "t \<in> set (transferRequests d')" "t' \<in> set (transferRequests d')"
      "tr_rolloverRecordId t \<noteq> None" "tr_rolloverRecordId t' \<noteq> None" "tr_fromEnrolmentId t = tr_fromEnrolmentId t'" for t t'
    using old [OF that(1)] old [OF that(2)] that(3-5) ok unfolding transfers_ok_def by metis
  moreover have "distinct (map en_uuid (enrolments d'))" using ok es unfolding transfers_ok_def by simp
  ultimately show ?thesis unfolding transfers_ok_def by simp
qed

lemma transfers_ok_approve:
  assumes ok: "transfers_ok d" and k: "find_by tr_uuid k (transferRequests d) = Some t0"
    and x: "active_enrolment d inst (en_uuid x) = Some x" "tr_fromEnrolmentId t0 = Some (en_uuid x)"
    and es: "enrolments d' = set_by en_uuid (en_uuid x) (transferredEnrolment n) (enrolments d)"
    and rows: "transferRequests d' = set_by tr_uuid (tr_uuid t0) (completedTransfer e auth b i) (transferRequests d)"
  shows "transfers_ok d'"
proof -
  let ?f = "completedTransfer e auth b i"
  have t0: "t0 \<in> set (transferRequests d)" using find_by_Some [OF k] by simp
  have x0: "x \<in> set (enrolments d)" "en_status x = En_ACTIVE"
    using x(1) unfolding active_enrolment_Some by (auto dest: find_by_Some)
  have dt: "distinct (map tr_uuid (transferRequests d))" and de: "distinct (map en_uuid (enrolments d))"
    using ok unfolding transfers_ok_def by simp_all
  have free: "tr_fromEnrolmentId t \<noteq> Some (en_uuid x)" if "t \<in> set (transferRequests d)" "tr_rolloverRecordId t \<noteq> None" for t
  proof
    assume a: "tr_fromEnrolmentId t = Some (en_uuid x)"
    from ok that have "moved_out d t" unfolding transfers_ok_def by blast
    then obtain y where "y \<in> set (enrolments d)" "en_uuid y = en_uuid x" "en_status y = En_TRANSFERRED_OUT"
      using a unfolding moved_out_def by auto
    with x0 distinct_key_eq [OF de] show False by fastforce
  qed
  have new: "t \<in> set (transferRequests d') \<longleftrightarrow> t = ?f t0 \<or> t \<in> set (transferRequests d) \<and> t \<noteq> t0" for t
  proof -
    have "s \<in> set (transferRequests d) \<Longrightarrow> tr_uuid s = tr_uuid t0 \<longleftrightarrow> s = t0" for s
      using distinct_key_eq [OF dt _ t0] by metis
    then show ?thesis unfolding rows in_set_by using t0 by metis
  qed
  have out: "moved_out d' (?f t0)" using x x0 unfolding moved_out_def es
    by (intro bexI [of _ "transferredEnrolment n x"]) (auto simp: in_set_by)
  have keep: "moved_out d' t" if "moved_out d t" for t
  proof -
    from that obtain y where y: "y \<in> set (enrolments d)" "tr_fromEnrolmentId t = Some (en_uuid y)"
      "en_status y = En_TRANSFERRED_OUT" unfolding moved_out_def by blast
    let ?y = "if en_uuid y = en_uuid x then transferredEnrolment n y else y"
    have "?y \<in> set (enrolments d')" using y(1) unfolding es in_set_by by auto
    then show ?thesis using y unfolding moved_out_def by (intro bexI [of _ ?y]) auto
  qed
  have "distinct (map tr_uuid (transferRequests d')) \<and> distinct (map en_uuid (enrolments d'))"
    using dt de unfolding rows es by (simp add: keys_set_by)
  moreover have "\<forall>t \<in> set (transferRequests d'). tr_status t \<in> {Tr_COMPLETED, Tr_DISPUTED} \<longrightarrow> tr_rolloverRecordId t \<noteq> None"
    using ok unfolding transfers_ok_def by (auto simp: new)
  moreover have "\<forall>t \<in> set (transferRequests d'). tr_rolloverRecordId t \<noteq> None \<longrightarrow> moved_out d' t"
    using ok out keep unfolding transfers_ok_def by (auto simp: new)
  moreover have "t = t'" if "t \<in> set (transferRequests d')" "t' \<in> set (transferRequests d')"
      "tr_rolloverRecordId t \<noteq> None" "tr_rolloverRecordId t' \<noteq> None" "tr_fromEnrolmentId t = tr_fromEnrolmentId t'" for t t'
  proof (cases "t = ?f t0 \<or> t' = ?f t0")
    case True
    then have "tr_fromEnrolmentId t = Some (en_uuid x)" "tr_fromEnrolmentId t' = Some (en_uuid x)"
      using that(5) x(2) by auto
    then show ?thesis using that(1-4) free unfolding new by blast
  next
    case False
    then show ?thesis using that ok unfolding new transfers_ok_def by blast
  qed
  ultimately show ?thesis unfolding transfers_ok_def by blast
qed

lemma transfers_ok_moved:
  assumes "transfers_ok d" and "enrolments d' = enrolments d"
    and rows: "transferRequests d' = moved_transfer d r f"
    and "\<And>t. tr_uuid (f t) = tr_uuid t" "\<And>t. tr_fromEnrolmentId (f t) = tr_fromEnrolmentId t"
      "\<And>t. tr_rolloverRecordId (f t) = tr_rolloverRecordId t"
  shows "transfers_ok d'"
proof (cases "transferOf d r")
  case None
  with assms show ?thesis unfolding transfers_ok_def moved_out_def moved_transfer_def by simp
next
  case (Some t)
  note link = transferOf_Some [OF this]
  have "distinct (map tr_uuid (transferRequests d))" using assms(1) unfolding transfers_ok_def by simp
  then have "tr_rolloverRecordId s \<noteq> None" if "s \<in> set (transferRequests d)" "tr_uuid s = tr_uuid t" for s
    using link that by (metis distinct_key_eq option.distinct(1))
  then show ?thesis
    using rows Some by (intro transfers_ok_set_by [OF assms(1,2) _ assms(4-6)]) (auto simp: moved_transfer_def)
qed

lemma transfer_op_ok:
  assumes "transfer_op d d'" and ok: "transfers_ok d"
  shows "transfers_ok d'"
  using assms(1)
proof cases
  case (open_transfer e auth body t)
  from createTransferRequest_effect [OF this(1)] this(2) ok show ?thesis
    unfolding transfers_ok_def moved_out_def by auto
next
  case (review_transfer e auth i body' t' ro)
  from review_effect [OF this] obtain b t where t: "find_by tr_uuid i (transferRequests d) = Some t" "\<not> closedTransfer t"
      and eff: "refused_effect t (refusedTransfer e auth b) d d' \<or>
        (\<exists>k. approved_effect e t (completedTransfer e auth b k) k d d')" by blast
  from eff show ?thesis
  proof
    assume "refused_effect t (refusedTransfer e auth b) d d'"
    then show ?thesis unfolding refused_effect_def
      by (intro transfers_ok_set_by [OF ok, of d' "tr_uuid t" "refusedTransfer e auth b"])
        (auto simp: refusedTransfer_def Let_def split: if_splits)
  next
    assume "\<exists>k. approved_effect e t (completedTransfer e auth b k) k d d'"
    then show ?thesis unfolding approved_effect_def by (blast intro: transfers_ok_approve [OF ok t(1)])
  qed
next
  case (open_dispute e auth i body'' dis r0 tr)
  from disputes_effect [OF this] obtain r :: rollover_record and b :: create_dispute_body and k where
      d': "enrolments d' = enrolments d" "transferRequests d' = moved_transfer d r (disputedTransfer e auth (cdb_reason b) k)"
    by (elim exE conjE) (rule that)
  show ?thesis by (rule transfers_ok_moved [OF ok d']) simp_all
next
  case (close_dispute e auth i s0 dis r0 tr)
  from resolve_effect [OF this] obtain r :: rollover_record and s where
      d': "enrolments d' = enrolments d" "transferRequests d' = moved_transfer d r (resolvedTransfer e auth s)"
    by (elim exE conjE) (rule that)
  show ?thesis by (rule transfers_ok_moved [OF ok d']) simp_all
qed

lemma transfer_ops_ok: "transfer_op\<^sup>*\<^sup>* d d' \<Longrightarrow> transfers_ok d \<Longrightarrow> transfers_ok d'"
  by (induction rule: rtranclp_induct) (blast intro: transfer_op_ok)+

text \<open>C7. However transfers are opened, reviewed, disputed and resolved, the enrolment of a completed or
  disputed transfer has left its institution, and no second transfer ever completes for it.\<close>

theorem student_leaves_once:
  assumes "transfer_op\<^sup>*\<^sup>* d d'" and "transfers_ok d"
    and "t \<in> set (transferRequests d')" and "tr_status t \<in> {Tr_COMPLETED, Tr_DISPUTED}"
  shows "moved_out d' t \<and> (\<forall>t' \<in> set (transferRequests d').
    tr_status t' \<in> {Tr_COMPLETED, Tr_DISPUTED} \<and> tr_fromEnrolmentId t' = tr_fromEnrolmentId t \<longrightarrow> t' = t)"
  using transfer_ops_ok [OF assms(1,2)] assms(3,4) unfolding transfers_ok_def by blast

section \<open>What a review does\<close>

text \<open>The whole database after a review: an audit event, and otherwise only what is named.\<close>

lemma approveTransfer_frame:
  assumes "approveTransfer e auth b t d = Inr (k, d')"
  shows "\<exists>x r. active_enrolment d (tr_fromInstitutionId t) (en_uuid x) = Some x \<and>
    tr_fromEnrolmentId t = Some (en_uuid x) \<and> rl_uuid r = k \<and> rl_decision r = TRANSFERRED_OUT \<and>
    rl_enrolmentId r = Some (en_uuid x) \<and> rl_learnerId r = tr_learnerId t \<and> rl_status r = Roll_APPROVED \<and>
    d' = drawn (d\<lparr>enrolments := set_by en_uuid (en_uuid x) (transferredEnrolment (now e)) (enrolments d),
      rolloverRecords := rolloverRecords d @ [r],
      transferRequests := set_by tr_uuid (tr_uuid t) (completedTransfer e auth b k) (transferRequests d)\<rparr>)"
proof -
  from approveTransfer_effect [OF assms] obtain x r where
      x: "active_enrolment d (tr_fromInstitutionId t) (en_uuid x) = Some x" "tr_fromEnrolmentId t = Some (en_uuid x)"
      and r: "rl_uuid r = k" "rl_decision r = TRANSFERRED_OUT" "rl_enrolmentId r = Some (en_uuid x)"
        "rl_learnerId r = tr_learnerId t" "rl_status r = Roll_APPROVED"
      and d': "enrolments d' = set_by en_uuid (en_uuid x) (transferredEnrolment (now e)) (enrolments d)"
        "rolloverRecords d' = rolloverRecords d @ [r]"
        "transferRequests d' = set_by tr_uuid (tr_uuid t) (completedTransfer e auth b k) (transferRequests d)"
    by blast
  from assms have "d' = (drawn d)\<lparr>enrolments := enrolments d', rolloverRecords := rolloverRecords d',
      transferRequests := transferRequests d'\<rparr>"
    unfolding approveTransfer_def by (auto simp: err_simps createRolloverRecord_def drawn_def)
  moreover have "(drawn d)\<lparr>enrolments := es, rolloverRecords := rs, transferRequests := ts\<rparr> =
      drawn (d\<lparr>enrolments := es, rolloverRecords := rs, transferRequests := ts\<rparr>)" for es rs ts
    by (simp add: drawn_def)
  ultimately have "d' = drawn (d\<lparr>enrolments := enrolments d', rolloverRecords := rolloverRecords d',
      transferRequests := transferRequests d'\<rparr>)" by metis
  then show ?thesis using x r d' by (metis (no_types))
qed

lemma review_refuses:
  assumes "reviewTransferRequest e d auth i (Some b) = Inr (t', ro, d')" and "rtb_decision b \<noteq> TR_APPROVE"
    and "find_by tr_uuid i (transferRequests d) = Some t"
  shows "\<exists>ev. d' = audit_write ev
    (d\<lparr>transferRequests := set_by tr_uuid i (refusedTransfer e auth b) (transferRequests d)\<rparr>)"
proof -
  have i: "tr_uuid t = i" using find_by_Some [OF assms(3)] by simp
  have "rtb_decision b = TR_REJECT \<or> rtb_decision b = TR_CANCEL" using assms(2) by (cases "rtb_decision b") auto
  with assms(1,3) i show ?thesis
    unfolding reviewTransferRequest_def by (auto simp: err_simps Let_def)
qed

lemma review_approves:
  assumes "reviewTransferRequest e d auth i (Some b) = Inr (t', ro, d')" and "rtb_decision b = TR_APPROVE"
    and "find_by tr_uuid i (transferRequests d) = Some t"
  shows "\<exists>k d1 ev. approveTransfer e auth b t d = Inr (k, d1) \<and> ro = Some k \<and> d' = audit_write ev d1"
  using assms unfolding reviewTransferRequest_def by (auto simp: err_simps Let_def)

text \<open>C8. A review is accepted only from someone who may operate the source institution, and only while the
  transfer is not rejected, cancelled or completed. Apart from its audit event a refusal changes nothing in
  the database but that one transfer, which is rejected or cancelled; an approval takes the active source
  enrolment out of the institution, adds one approved rollover for it, completes the transfer with that
  rollover and changes nothing else.\<close>

theorem reviewTransferRequest_decides:
  assumes "reviewTransferRequest e d auth i (Some b) = Inr (t', ro, d')"
  shows "\<exists>t ev. find_by tr_uuid i (transferRequests d) = Some t \<and>
    tr_status t \<notin> {Tr_REJECTED, Tr_CANCELLED, Tr_COMPLETED} \<and>
    assertActorCanOperateInstitution d auth (tr_fromInstitutionId t) = Inr () \<and>
    find_by tr_uuid i (transferRequests d') = Some t' \<and>
    (if rtb_decision b = TR_APPROVE
     then \<exists>x r. find_by en_uuid (en_uuid x) (enrolments d) = Some x \<and>
       tr_fromEnrolmentId t = Some (en_uuid x) \<and> en_institutionId x = tr_fromInstitutionId t \<and>
       en_status x = En_ACTIVE \<and> ro = Some (rl_uuid r) \<and>
       rl_decision r = TRANSFERRED_OUT \<and> rl_status r = Roll_APPROVED \<and> rl_enrolmentId r = Some (en_uuid x) \<and>
       rl_learnerId r = tr_learnerId t \<and> t' = completedTransfer e auth b (rl_uuid r) t \<and>
       d' = audit_write ev (drawn (d\<lparr>
         enrolments := set_by en_uuid (en_uuid x) (transferredEnrolment (now e)) (enrolments d),
         rolloverRecords := rolloverRecords d @ [r],
         transferRequests := set_by tr_uuid i (completedTransfer e auth b (rl_uuid r)) (transferRequests d)\<rparr>))
     else t' = refusedTransfer e auth b t \<and> ro = None \<and>
       d' = audit_write ev
         (d\<lparr>transferRequests := set_by tr_uuid i (refusedTransfer e auth b) (transferRequests d)\<rparr>))"
proof -
  from review_effect [OF assms] obtain t where t: "find_by tr_uuid i (transferRequests d) = Some t" "\<not> closedTransfer t"
      "assertActorCanOperateInstitution d auth (tr_fromInstitutionId t) = Inr ()"
    and eff: "rtb_decision b \<noteq> TR_APPROVE \<and> t' = refusedTransfer e auth b t \<and> ro = None \<or>
      rtb_decision b = TR_APPROVE \<and> (\<exists>k. ro = Some k \<and> t' = completedTransfer e auth b k t)" by auto
  have i: "tr_uuid t = i" using find_by_Some [OF t(1)] by simp
  show ?thesis
  proof (cases "rtb_decision b = TR_APPROVE")
    case True
    from review_approves [OF assms True t(1)] obtain k d1 ev where
        ap: "approveTransfer e auth b t d = Inr (k, d1)" and d': "ro = Some k" "d' = audit_write ev d1" by blast
    from approveTransfer_frame [OF ap] obtain x r where
        x: "active_enrolment d (tr_fromInstitutionId t) (en_uuid x) = Some x" "tr_fromEnrolmentId t = Some (en_uuid x)"
        and r: "rl_uuid r = k" "rl_decision r = TRANSFERRED_OUT" "rl_enrolmentId r = Some (en_uuid x)"
          "rl_learnerId r = tr_learnerId t" "rl_status r = Roll_APPROVED"
        and d1: "d1 = drawn (d\<lparr>enrolments := set_by en_uuid (en_uuid x) (transferredEnrolment (now e)) (enrolments d),
          rolloverRecords := rolloverRecords d @ [r],
          transferRequests := set_by tr_uuid (tr_uuid t) (completedTransfer e auth b k) (transferRequests d)\<rparr>)"
      by blast
    have t': "t' = completedTransfer e auth b k t" using eff True d'(1) by simp
    have "find_by tr_uuid i (transferRequests d') = Some t'"
      using t(1) i unfolding d'(2) d1 t' by (simp add: set_by_same drawn_def)
    with True t x r t' d' d1 i show ?thesis unfolding active_enrolment_Some
      by (intro exI [of _ t] exI [of _ ev]) (auto simp: closedTransfer_def intro!: exI [of _ x] exI [of _ r])
  next
    case False
    from review_refuses [OF assms False t(1)] obtain ev where d': "d' = audit_write ev
      (d\<lparr>transferRequests := set_by tr_uuid i (refusedTransfer e auth b) (transferRequests d)\<rparr>)" by blast
    have "find_by tr_uuid i (transferRequests d') = Some t'"
      using t(1) i eff False unfolding d' by (simp add: set_by_same)
    with False t eff d' show ?thesis by (intro exI [of _ t] exI [of _ ev]) (simp add: closedTransfer_def)
  qed
qed

section \<open>A disputed transfer can still be rejected\<close>

text \<open>A completed transfer whose rollover record is disputed counts as open again: the source
  institution can then reject it, although the student has left and the rollover stands; the resolution
  of the dispute does not bring the completion back.\<close>

theorem disputed_transfer_rejected:
  assumes "createRolloverDispute e d auth i body = Inr (dis, r, Some t, d1)"
    and "find_by tr_uuid (tr_uuid t) (transferRequests d1) = Some t"
    and "assertActorCanOperateInstitution d1 auth (tr_fromInstitutionId t) = Inr ()"
    and "opt_ok (len_in 0 2000) n"
  shows "\<exists>t' d2. reviewTransferRequest e' d1 auth (tr_uuid t) (Some \<lparr>rtb_decision = TR_REJECT, rtb_note = n\<rparr>) =
      Inr (t', None, d2) \<and> tr_status t' = Tr_REJECTED \<and> tr_rolloverRecordId t' = tr_rolloverRecordId t \<and>
    enrolments d2 = enrolments d1 \<and> rolloverRecords d2 = rolloverRecords d1 \<and>
    tr_status (resolvedTransfer e'' auth'' s t') = Tr_REJECTED"
proof -
  have st: "tr_status t = Tr_DISPUTED"
    using assms(1) unfolding createRolloverDispute_def updateTransferOf_eq Let_def by (auto simp: err_simps)
  have "tr_uuid t \<in> tr_uuid ` set (transferRequests d1)" using find_by_Some [OF assms(2)] by blast
  then have u: "update_by tr_uuid (tr_uuid t) f (transferRequests d1) = Inr (set_by tr_uuid (tr_uuid t) f (transferRequests d1))" for f
    by (simp add: update_by_eq_Inr)
  show ?thesis
    using assms(2-4) st
    by (simp add: reviewTransferRequest_def safeParse_def reviewTransferRequest_ok_def require_def failIf_def
        closedTransfer_def u Let_def refusedTransfer_def resolvedTransfer_def)
qed

section \<open>Witnesses\<close>

definition sample_transfer :: transfer_request where
  "sample_transfer = newTransfer sample_env registrar
     \<lparr>ctb_institutionId = ''ACD-1'', ctb_enrolmentId = ''e1'', ctb_toInstitutionId = None,
      ctb_toInstitutionNameSubmitted = Some ''Other'', ctb_toInstitutionContactEmail = None, ctb_reason = None\<rparr>
     school None (hd (enrolments sample_db)) ''TRF-1'' ''t1''"

definition transfer_db :: db where
  "transfer_db = sample_db\<lparr>draws := 3, transferRequests := [sample_transfer]\<rparr>"

definition approve_sample :: review_transfer_body where
  "approve_sample = \<lparr>rtb_decision = TR_APPROVE, rtb_note = None\<rparr>"

lemma transfer_runs:
  "case reviewTransferRequest sample_env transfer_db registrar ''t1'' (Some approve_sample) of
     Inl _ \<Rightarrow> False | Inr (t, ro, d') \<Rightarrow> ro = Some ''uuu''"
  by code_simp

lemma sample_review:
  obtains t d' where
    "reviewTransferRequest sample_env transfer_db registrar ''t1'' (Some approve_sample) = Inr (t, Some ''uuu'', d')"
  using transfer_runs by (auto split: sum.splits)

lemma transfer_db_ok: "transfers_ok transfer_db"
  by (simp add: transfers_ok_def transfer_db_def sample_transfer_def newTransfer_def sample_defs)

theorem transfer_handlers_refine_witness:
  "\<exists>d' t'. transfer_op transfer_db d' \<and> t' \<in> set (transferRequests d') \<and> tr_uuid t' = ''t1''"
proof -
  obtain t d' where "reviewTransferRequest sample_env transfer_db registrar ''t1'' (Some approve_sample) =
      Inr (t, Some ''uuu'', d')" by (rule sample_review)
  then have op: "transfer_op transfer_db d'" by (rule review_transfer)
  have "distinct (map tr_uuid (transferRequests transfer_db))" using transfer_db_ok by (simp add: transfers_ok_def)
  from transfer_handlers_refine [OF op this] op show ?thesis
    by (auto simp: transfer_db_def sample_transfer_def newTransfer_def)
qed

theorem reviewTransferRequest_decides_witness:
  "\<exists>t d'. reviewTransferRequest sample_env transfer_db registrar ''t1'' (Some approve_sample) = Inr (t, Some ''uuu'', d') \<and>
     find_by tr_uuid ''t1'' (transferRequests d') = Some t"
proof -
  obtain t d' where run: "reviewTransferRequest sample_env transfer_db registrar ''t1'' (Some approve_sample) =
      Inr (t, Some ''uuu'', d')" by (rule sample_review)
  from reviewTransferRequest_decides [OF this] have "find_by tr_uuid ''t1'' (transferRequests d') = Some t"
    by (elim exE conjE)
  with run show ?thesis by blast
qed

theorem student_leaves_once_witness:
  "\<exists>d' t. transfer_op\<^sup>*\<^sup>* transfer_db d' \<and> t \<in> set (transferRequests d') \<and> tr_status t = Tr_COMPLETED \<and> moved_out d' t"
proof -
  obtain t d' where run: "reviewTransferRequest sample_env transfer_db registrar ''t1'' (Some approve_sample) =
      Inr (t, Some ''uuu'', d')" by (rule sample_review)
  then have "transfer_op transfer_db d'" by (rule review_transfer)
  then have ops: "transfer_op\<^sup>*\<^sup>* transfer_db d'" by blast
  from review_effect [OF run] obtain t0 k where "t = completedTransfer sample_env registrar approve_sample k t0"
      and eff: "approved_effect sample_env t0 (completedTransfer sample_env registrar approve_sample k) k transfer_db d'"
      and t0: "find_by tr_uuid ''t1'' (transferRequests transfer_db) = Some t0"
    by (auto simp: approve_sample_def)
  then have t: "t \<in> set (transferRequests d')" "tr_status t = Tr_COMPLETED"
    using find_by_Some [OF t0] unfolding approved_effect_def by (auto simp: in_set_by)
  with student_leaves_once [OF ops transfer_db_ok t(1)] have "moved_out d' t" by simp
  with ops t show ?thesis by blast
qed

definition moved_db :: db where
  "moved_db = transfer_db\<lparr>
     transferRequests := [completedTransfer sample_env registrar approve_sample ''r1'' sample_transfer],
     rolloverRecords := [(transferRollover sample_env registrar approve_sample sample_transfer
       (hd (enrolments sample_db)) ''s1'')\<lparr>rl_uuid := ''r1''\<rparr>]\<rparr>"

definition dispute_sample :: create_dispute_body where
  "dispute_sample = \<lparr>cdb_title = None, cdb_reason = ''wrong student'', cdb_priority = None,
     cdb_reporterName = None, cdb_reporterEmail = None\<rparr>"

lemma dispute_runs:
  "case createRolloverDispute sample_env moved_db registrar ''r1'' (Some dispute_sample) of
     Inl _ \<Rightarrow> False | Inr (dis, r, tr, d1) \<Rightarrow>
       (case tr of None \<Rightarrow> False
        | Some t \<Rightarrow> find_by tr_uuid (tr_uuid t) (transferRequests d1) = Some t \<and>
            assertActorCanOperateInstitution d1 registrar (tr_fromInstitutionId t) = Inr ())"
  by code_simp

theorem disputed_transfer_rejected_witness:
  "\<exists>d1 t t' d2. reviewTransferRequest sample_env d1 registrar (tr_uuid t)
       (Some \<lparr>rtb_decision = TR_REJECT, rtb_note = None\<rparr>) = Inr (t', None, d2) \<and>
     createRolloverDispute sample_env moved_db registrar ''r1'' (Some dispute_sample) =
       Inr (newDispute (hd (rolloverRecords moved_db)) dispute_sample ''uuu'',
            disputedRollover 1000 ''uuu'' (hd (rolloverRecords moved_db)), Some t, d1) \<and>
     tr_status t' = Tr_REJECTED"
proof -
  obtain dis r t d1 where run: "createRolloverDispute sample_env moved_db registrar ''r1'' (Some dispute_sample) =
      Inr (dis, r, Some t, d1)"
    and t: "find_by tr_uuid (tr_uuid t) (transferRequests d1) = Some t"
      "assertActorCanOperateInstitution d1 registrar (tr_fromInstitutionId t) = Inr ()"
    using dispute_runs by (auto split: sum.splits option.splits)
  have dis: "dis = newDispute (hd (rolloverRecords moved_db)) dispute_sample ''uuu''"
      "r = disputedRollover 1000 ''uuu'' (hd (rolloverRecords moved_db))"
    using run unfolding createRolloverDispute_def updateTransferOf_eq Let_def
    by (auto simp: err_simps moved_db_def transfer_db_def fresh_def sample_env_def newDispute_def transferRollover_def
        numeral_eq_Suc)
  have n: "opt_ok (len_in 0 2000) None" by simp
  from disputed_transfer_rejected [OF run t n] obtain t' d2 where
    "reviewTransferRequest sample_env d1 registrar (tr_uuid t) (Some \<lparr>rtb_decision = TR_REJECT, rtb_note = None\<rparr>) =
      Inr (t', None, d2)" "tr_status t' = Tr_REJECTED" by blast
  with run show ?thesis unfolding dis by blast
qed

end
