(* ===== verification/Reopen.thy ===== *)
theory Reopen
  imports RecordRequests
begin

text \<open>
  The reopening of sealed academic sessions of \<open>gateway/governance/governance.service.ts\<close>: an
  institution asks, and only the founder role reopens. \<open>reopen_op\<close> is the two handlers as one relation;
  its invariant is that a session never has two open requests.
\<close>

record request_reopen_body =
  qob_reason :: string
  qob_requestedStatus :: "session_status option"

definition open_status :: "session_status \<Rightarrow> bool" where
  "open_status s \<longleftrightarrow> s = Session_ACTIVE \<or> s = Session_CLOSED"

definition requestSealedSessionReopen_ok :: "request_reopen_body \<Rightarrow> bool" where
  "requestSealedSessionReopen_ok b \<longleftrightarrow> len_in 10 2000 (qob_reason b) \<and> opt_ok open_status (qob_requestedStatus b)"

datatype reopen_decision = RO_APPROVE | RO_REJECT

record review_reopen_body =
  vob_decision :: reopen_decision
  vob_reason :: string
  vob_newStatus :: "session_status option"

definition reviewSealedSessionReopen_ok :: "review_reopen_body \<Rightarrow> bool" where
  "reviewSealedSessionReopen_ok b \<longleftrightarrow> len_in 10 2000 (vob_reason b) \<and> opt_ok open_status (vob_newStatus b)"

fun reopen_status_text :: "reopen_status \<Rightarrow> string" where
  "reopen_status_text Reopen_REQUESTED = ''REQUESTED''"
| "reopen_status_text Reopen_APPROVED = ''APPROVED''"
| "reopen_status_text Reopen_REJECTED = ''REJECTED''"
| "reopen_status_text Reopen_CANCELLED = ''CANCELLED''"

text \<open>The session with its institution, when the institution is active.\<close>

definition activeSession :: "db \<Rightarrow> string \<Rightarrow> (academic_session \<times> institution) option" where
  "activeSession d sessionId =
     (case find_by se_uuid sessionId (academicSessions d) of
        None \<Rightarrow> None
      | Some s \<Rightarrow> (case find_by in_uuid (se_institutionId s) (institutions d) of
          None \<Rightarrow> None
        | Some i \<Rightarrow> (if in_status i \<noteq> Inst_ACTIVE then None else Some (s, i))))"

definition open_request :: "string \<Rightarrow> reopen_request \<Rightarrow> bool" where
  "open_request sessionId r \<longleftrightarrow> ro_sessionId r = sessionId \<and> ro_status r = Reopen_REQUESTED"

text \<open>The newest open request of a session.\<close>

definition openRequest :: "db \<Rightarrow> string \<Rightarrow> reopen_request option" where
  "openRequest d sessionId = List.find (open_request sessionId) (rev (reopenRequests d))"

definition newReopenRequest :: "env \<Rightarrow> auth_token \<Rightarrow> request_reopen_body \<Rightarrow> academic_session \<Rightarrow> string \<Rightarrow> reopen_request" where
  "newReopenRequest e auth b s i =
     \<lparr>ro_uuid = i, ro_institutionId = se_institutionId s, ro_sessionId = se_uuid s,
      ro_requestedById = au_institutionUserId auth, ro_status = Reopen_REQUESTED,
      ro_requestedStatus = getOr (qob_requestedStatus b) Session_ACTIVE, ro_reason = qob_reason b,
      ro_dueAt = now e + 72 * 60 * 60 * 1000, ro_reviewedById = None, ro_reviewReason = None,
      ro_reviewedAt = None\<rparr>"

definition session_metadata :: "academic_session \<Rightarrow> (string \<times> jval) list" where
  "session_metadata s =
     [(''sessionLabel'', JStr (se_label s)), (''periodType'', JStr (period_type_text (se_periodType s))),
      (''periodLabel'', JStr (se_periodLabel s))]"

definition requestSealedSessionReopen ::
    "env \<Rightarrow> db \<Rightarrow> auth_token \<Rightarrow> string \<Rightarrow> request_reopen_body option \<Rightarrow> (reopen_request \<times> db) res" where
  "requestSealedSessionReopen e d auth sessionId body =
     bindE (safeParse requestSealedSessionReopen_ok body) (\<lambda>b.
     bindE (failIf (au_kind auth = Some API_KEY)
       (Forbidden ''Human institution session is required for sealed-session escalation.'')) (\<lambda>_.
     bindE (require (activeSession d sessionId)
       (BadRequest ''Active institution academic session not found.'')) (\<lambda>(s, inst).
     bindE (assertActorCanOperateInstitution d auth (se_institutionId s)) (\<lambda>_.
     bindE (failIf (se_status s \<noteq> Session_SEALED)
       (BadRequest ''Only sealed academic sessions require reopen escalation.'')) (\<lambda>_.
     case openRequest d (se_uuid s) of
       Some r \<Rightarrow> Inr (r, d)
     | None \<Rightarrow>
         let r = newReopenRequest e auth b s (fresh e d) in
         Inr (r,
           audit_write ((humanActor auth (audit_event_of ''academic_session.reopen_requested''
               ''SealedSessionReopenRequest'' (ro_uuid r) (Some (se_institutionId s))
               (JObj ((''requestedStatus'', JStr (session_status_text (ro_requestedStatus r))) # session_metadata s))))
               \<lparr>ai_entityType := Some ''AcademicSession'', ai_entityId := Some (se_uuid s),
                ai_reason := Some (qob_reason b)\<rparr>)
             (drawn (d\<lparr>reopenRequests := reopenRequests d @ [r]\<rparr>))))))))"

definition reviewedReopen :: "env \<Rightarrow> auth_token \<Rightarrow> review_reopen_body \<Rightarrow> reopen_request \<Rightarrow> reopen_request" where
  "reviewedReopen e auth b r =
     r\<lparr>ro_status := (if vob_decision b = RO_APPROVE then Reopen_APPROVED else Reopen_REJECTED),
       ro_reviewedById := Some (au_sub auth), ro_reviewReason := Some (vob_reason b),
       ro_reviewedAt := Some (now e)\<rparr>"

definition reopened :: "review_reopen_body \<Rightarrow> academic_session \<Rightarrow> academic_session" where
  "reopened b s =
     (if vob_decision b = RO_APPROVE then s\<lparr>se_status := getOr (vob_newStatus b) Session_ACTIVE\<rparr> else s)"

definition reviewSealedSessionReopen ::
    "env \<Rightarrow> db \<Rightarrow> auth_token \<Rightarrow> string \<Rightarrow> review_reopen_body option \<Rightarrow>
     (reopen_request \<times> academic_session \<times> db) res" where
  "reviewSealedSessionReopen e d auth sessionId body =
     bindE (safeParse reviewSealedSessionReopen_ok body) (\<lambda>b.
     bindE (failIf (au_role auth \<noteq> ACADID_SUPER_ADMIN)
       (Forbidden ''Only Founder Admin can review sealed-session reopen requests.'')) (\<lambda>_.
     bindE (require (activeSession d sessionId)
       (BadRequest ''Active institution academic session not found.'')) (\<lambda>(s, inst).
     bindE (failIf (se_status s \<noteq> Session_SEALED)
       (BadRequest ''Only sealed academic sessions can be reviewed for reopen.'')) (\<lambda>_.
     bindE (require (openRequest d (se_uuid s))
       (BadRequest ''No open sealed-session reopen request found for this session.'')) (\<lambda>r.
     bindE (if vob_decision b = RO_APPROVE
            then update_by se_uuid (se_uuid s) (reopened b) (academicSessions d)
            else Inr (academicSessions d)) (\<lambda>sessions.
     bindE (update_by ro_uuid (ro_uuid r) (reviewedReopen e auth b) (reopenRequests d)) (\<lambda>requests.
     Inr (reviewedReopen e auth b r, reopened b s,
       audit_write ((humanActor auth (audit_event_of
           (if vob_decision b = RO_APPROVE then ''academic_session.reopen_approved''
            else ''academic_session.reopen_rejected'')
           ''SealedSessionReopenRequest'' (ro_uuid r) (Some (se_institutionId s))
           (JObj ([(''requestStatus'', JStr (reopen_status_text (ro_status (reviewedReopen e auth b r)))),
                   (''previousStatus'', JStr (session_status_text (se_status s))),
                   (''newStatus'', JStr (session_status_text (se_status (reopened b s))))] @ session_metadata s))))
           \<lparr>ai_entityType := Some ''AcademicSession'', ai_entityId := Some (se_uuid s),
            ai_reason := Some (vob_reason b)\<rparr>)
         (d\<lparr>academicSessions := sessions, reopenRequests := requests\<rparr>)))))))))"

section \<open>Effects\<close>

lemma activeSession_Some:
  assumes "activeSession d i = Some (s, inst)"
  shows "s \<in> set (academicSessions d) \<and> se_uuid s = i \<and> inst \<in> set (institutions d) \<and> in_status inst = Inst_ACTIVE"
  using assms unfolding activeSession_def by (auto split: option.splits if_splits dest: find_by_Some)

lemma openRequest_Some:
  "openRequest d i = Some r \<Longrightarrow> r \<in> set (reopenRequests d) \<and> open_request i r"
  unfolding openRequest_def by (auto dest: find_Some_in)

lemma openRequest_None: "openRequest d i = None \<longleftrightarrow> (\<forall>r \<in> set (reopenRequests d). \<not> open_request i r)"
  unfolding openRequest_def by (simp add: find_None_iff')

lemma request_effect:
  assumes "requestSealedSessionReopen e d auth i body = Inr (r, d')"
  shows "\<exists>b s inst. body = Some b \<and> au_kind auth \<noteq> Some API_KEY \<and> activeSession d i = Some (s, inst) \<and>
    se_status s = Session_SEALED \<and> assertActorCanOperateInstitution d auth (se_institutionId s) = Inr () \<and>
    (openRequest d i = Some r \<and> d' = d \<or>
     openRequest d i = None \<and> r = newReopenRequest e auth b s (fresh e d) \<and>
       academicSessions d' = academicSessions d \<and> reopenRequests d' = reopenRequests d @ [r])"
proof -
  from assms obtain b s inst where p: "body = Some b" "au_kind auth \<noteq> Some API_KEY"
      "activeSession d i = Some (s, inst)" "se_status s = Session_SEALED"
      "assertActorCanOperateInstitution d auth (se_institutionId s) = Inr ()"
    unfolding requestSealedSessionReopen_def by (auto simp: err_simps)
  have i: "se_uuid s = i" using activeSession_Some [OF p(3)] by simp
  show ?thesis
  proof (cases "openRequest d i")
    case None
    with assms p i have "r = newReopenRequest e auth b s (fresh e d) \<and>
        academicSessions d' = academicSessions d \<and> reopenRequests d' = reopenRequests d @ [r]"
      unfolding requestSealedSessionReopen_def Let_def by (auto simp: err_simps drawn_def)
    with None p show ?thesis by blast
  next
    case (Some r0)
    with assms p i have "r = r0 \<and> d' = d"
      unfolding requestSealedSessionReopen_def by (auto simp: err_simps)
    with Some p show ?thesis by blast
  qed
qed

lemma review_reopen_effect:
  assumes "reviewSealedSessionReopen e d auth i body = Inr (r', s', d')"
  shows "\<exists>b s inst r. body = Some b \<and> reviewSealedSessionReopen_ok b \<and> au_role auth = ACADID_SUPER_ADMIN \<and>
    activeSession d i = Some (s, inst) \<and> se_status s = Session_SEALED \<and> openRequest d i = Some r \<and>
    r' = reviewedReopen e auth b r \<and> s' = reopened b s \<and>
    academicSessions d' = set_by se_uuid i (reopened b) (academicSessions d) \<and>
    reopenRequests d' = set_by ro_uuid (ro_uuid r) (reviewedReopen e auth b) (reopenRequests d)"
proof -
  from assms obtain b s inst r where p: "body = Some b" "reviewSealedSessionReopen_ok b"
      "au_role auth = ACADID_SUPER_ADMIN" "activeSession d i = Some (s, inst)" "se_status s = Session_SEALED"
      "openRequest d (se_uuid s) = Some r"
    unfolding reviewSealedSessionReopen_def by (auto simp: err_simps)
  have i: "se_uuid s = i" using activeSession_Some [OF p(4)] by simp
  have same: "set_by se_uuid i (reopened b) rows = rows" if "vob_decision b \<noteq> RO_APPROVE" for rows
    using that by (induction rows) (simp_all add: reopened_def)
  have "i \<in> se_uuid ` set (academicSessions d)" using activeSession_Some [OF p(4)] by blast
  then have u1: "update_by se_uuid i f (academicSessions d) = Inr (set_by se_uuid i f (academicSessions d))" for f
    by (simp add: update_by_eq_Inr)
  have "ro_uuid r \<in> ro_uuid ` set (reopenRequests d)" using openRequest_Some [OF p(6)] by blast
  then have u2: "update_by ro_uuid (ro_uuid r) f (reopenRequests d) = Inr (set_by ro_uuid (ro_uuid r) f (reopenRequests d))" for f
    by (simp add: update_by_eq_Inr)
  have "r' = reviewedReopen e auth b r \<and> s' = reopened b s \<and>
    academicSessions d' = set_by se_uuid i (reopened b) (academicSessions d) \<and>
    reopenRequests d' = set_by ro_uuid (ro_uuid r) (reviewedReopen e auth b) (reopenRequests d)"
    using assms p(2-5) p(6) [unfolded i] unfolding p(1) reviewSealedSessionReopen_def
    by (auto simp: safeParse_def require_def failIf_def i same u1 u2 split: if_splits)
  with p i show ?thesis by blast
qed

section \<open>Only the founder reopens, one request at a time\<close>

inductive reopen_op :: "db \<Rightarrow> db \<Rightarrow> bool" where
  ask: "requestSealedSessionReopen e d auth i body = Inr (r, d') \<Longrightarrow> reopen_op d d'"
| answer: "reviewSealedSessionReopen e d auth i body' = Inr (r, s, d') \<Longrightarrow> reopen_op d d'"

text \<open>A session has one open request at most, and keys are unique.\<close>

definition reopen_ok :: "db \<Rightarrow> bool" where
  "reopen_ok d \<longleftrightarrow> distinct (map se_uuid (academicSessions d)) \<and>
     distinct (map ro_sessionId (filter (\<lambda>r. ro_status r = Reopen_REQUESTED) (reopenRequests d)))"

lemma reviewedReopen_fields [simp]:
  "ro_sessionId (reviewedReopen e auth b r) = ro_sessionId r"
  "ro_status (reviewedReopen e auth b r) \<noteq> Reopen_REQUESTED"
  by (simp_all add: reviewedReopen_def)

lemma reopened_fields [simp]: "se_uuid (reopened b s) = se_uuid s"
  by (simp add: reopened_def)

lemma open_after_review:
  "set (map ro_sessionId (filter (\<lambda>r. ro_status r = Reopen_REQUESTED) (set_by ro_uuid k (reviewedReopen e auth b) rs)))
     \<subseteq> set (map ro_sessionId (filter (\<lambda>r. ro_status r = Reopen_REQUESTED) rs)) \<and>
   (distinct (map ro_sessionId (filter (\<lambda>r. ro_status r = Reopen_REQUESTED) rs)) \<longrightarrow>
    distinct (map ro_sessionId (filter (\<lambda>r. ro_status r = Reopen_REQUESTED) (set_by ro_uuid k (reviewedReopen e auth b) rs))))"
  by (induction rs) auto

lemma reopen_op_ok:
  assumes "reopen_op d d'" and "reopen_ok d"
  shows "reopen_ok d'"
  using assms(1)
proof cases
  case (ask e auth i body r)
  from request_effect [OF this] obtain b s inst where
      s: "activeSession d i = Some (s, inst)" and
      c: "d' = d \<or> openRequest d i = None \<and> r = newReopenRequest e auth b s (fresh e d) \<and>
       academicSessions d' = academicSessions d \<and> reopenRequests d' = reopenRequests d @ [r]" by blast
  from c show ?thesis
  proof
    assume n: "openRequest d i = None \<and> r = newReopenRequest e auth b s (fresh e d) \<and>
       academicSessions d' = academicSessions d \<and> reopenRequests d' = reopenRequests d @ [r]"
    then have "i \<notin> ro_sessionId ` set (filter (\<lambda>r. ro_status r = Reopen_REQUESTED) (reopenRequests d))"
      unfolding openRequest_None open_request_def by auto
    moreover have "ro_sessionId r = i" "ro_status r = Reopen_REQUESTED"
      using n activeSession_Some [OF s] by (simp_all add: newReopenRequest_def)
    ultimately show ?thesis using n assms(2) by (simp add: reopen_ok_def)
  qed (simp add: assms(2))
next
  case (answer e auth i body' r s)
  from review_reopen_effect [OF this] obtain b :: review_reopen_body and r0 :: reopen_request where
    "academicSessions d' = set_by se_uuid i (reopened b) (academicSessions d)"
    "reopenRequests d' = set_by ro_uuid (ro_uuid r0) (reviewedReopen e auth b) (reopenRequests d)" by blast
  with assms(2) open_after_review show ?thesis by (simp add: reopen_ok_def keys_set_by)
qed

text \<open>C10. A sealed session has at most one open request for its reopening, however the requests and the
  reviews come; asking again answers with the request that is already open and writes nothing.\<close>

theorem one_open_reopen_request:
  assumes "reopen_op\<^sup>*\<^sup>* d d'" and "reopen_ok d"
  shows "reopen_ok d' \<and>
    (openRequest d' i = Some r \<longrightarrow> requestSealedSessionReopen e d' auth i body = Inr (r', d'') \<longrightarrow> r' = r \<and> d'' = d')"
proof
  show "reopen_ok d'" using assms by (induction rule: rtranclp_induct) (auto intro: reopen_op_ok)
  show "openRequest d' i = Some r \<longrightarrow> requestSealedSessionReopen e d' auth i body = Inr (r', d'') \<longrightarrow> r' = r \<and> d'' = d'"
    by (auto dest: request_effect)
qed

text \<open>C9. A request for a reopening changes no session. A review changes only the session it is for, only
  when the founder role gives it, only when the session is sealed and an open request for it exists, and
  only to active or closed; the request is closed with it.\<close>

theorem sealed_session_reopened_by_founder:
  assumes "reopen_op d d'" and "reopen_ok d" and "s \<in> set (academicSessions d)" and "s \<notin> set (academicSessions d')"
  shows "\<exists>e auth i b r s' rq. reviewSealedSessionReopen e d auth i (Some b) = Inr (r, s', d') \<and>
    au_role auth = ACADID_SUPER_ADMIN \<and> vob_decision b = RO_APPROVE \<and> se_uuid s = i \<and>
    se_status s = Session_SEALED \<and> openRequest d i = Some rq \<and> openRequest d' i = None \<and>
    s' = s\<lparr>se_status := se_status s'\<rparr> \<and> se_status s' \<in> {Session_ACTIVE, Session_CLOSED} \<and>
    s' \<in> set (academicSessions d')"
  using assms(1)
proof cases
  case (ask e auth i body r)
  from request_effect [OF this] assms(3,4) show ?thesis by auto
next
  case (answer e auth i body' r s')
  from review_reopen_effect [OF this] obtain b s0 inst rq where
      b: "body' = Some b" "reviewSealedSessionReopen_ok b" "au_role auth = ACADID_SUPER_ADMIN"
      and s0: "activeSession d i = Some (s0, inst)" "se_status s0 = Session_SEALED" "s' = reopened b s0"
      and rq: "openRequest d i = Some rq"
      and d': "academicSessions d' = set_by se_uuid i (reopened b) (academicSessions d)"
        "reopenRequests d' = set_by ro_uuid (ro_uuid rq) (reviewedReopen e auth b) (reopenRequests d)" by blast
  have id: "s0 \<in> set (academicSessions d)" "se_uuid s0 = i" using activeSession_Some [OF s0(1)] by simp_all
  have "se_uuid s = i" using assms(3,4) unfolding d' in_set_by by blast
  with id assms(2,3) have s: "s = s0" unfolding reopen_ok_def by (metis distinct_key_eq)
  have in': "reopened b s0 \<in> set (academicSessions d')" using id unfolding d' in_set_by by blast
  have ap: "vob_decision b = RO_APPROVE"
  proof (rule ccontr)
    assume "vob_decision b \<noteq> RO_APPROVE"
    then have "reopened b s0 = s0" by (simp add: reopened_def)
    with in' s assms(4) show False by simp
  qed
  have st: "s' = s\<lparr>se_status := se_status s'\<rparr> \<and> se_status s' \<in> {Session_ACTIVE, Session_CLOSED}"
    using b(2) ap unfolding s0(3) s reviewSealedSessionReopen_ok_def
    by (cases "vob_newStatus b") (auto simp: reopened_def getOr_def open_status_def)
  have one: "rq \<in> set (reopenRequests d)" "open_request i rq" using openRequest_Some [OF rq] by simp_all
  have "r' = rq" if "r' \<in> set (reopenRequests d)" "open_request i r'" for r'
  proof -
    have "inj_on ro_sessionId (set (filter (\<lambda>r. ro_status r = Reopen_REQUESTED) (reopenRequests d)))"
      using assms(2) unfolding reopen_ok_def by (simp add: distinct_map)
    with that one show ?thesis by (auto simp: open_request_def dest: inj_onD)
  qed
  then have "openRequest d' i = None"
    unfolding openRequest_None d' by (auto simp: in_set_by open_request_def)
  with answer b ap s0 s id rq st in' show ?thesis by metis
qed

section \<open>Witnesses\<close>

definition sealed_db :: db where
  "sealed_db = sample_db\<lparr>academicSessions := [(hd (academicSessions sample_db))\<lparr>se_status := Session_SEALED\<rparr>]\<rparr>"

definition ask_sample :: request_reopen_body where
  "ask_sample = \<lparr>qob_reason = ''marks missing'', qob_requestedStatus = None\<rparr>"

definition answer_sample :: review_reopen_body where
  "answer_sample = \<lparr>vob_decision = RO_APPROVE, vob_reason = ''marks missing'', vob_newStatus = None\<rparr>"

lemma sealed_db_ok: "reopen_ok sealed_db"
  by (simp add: reopen_ok_def sealed_db_def sample_defs)

lemma reopen_runs:
  "case requestSealedSessionReopen sample_env sealed_db registrar ''s1'' (Some ask_sample) of
     Inl _ \<Rightarrow> False
   | Inr (r, d1) \<Rightarrow> openRequest d1 ''s1'' = Some r \<and>
       (case requestSealedSessionReopen sample_env d1 registrar ''s1'' (Some ask_sample) of Inl _ \<Rightarrow> False | Inr _ \<Rightarrow> True) \<and>
       (case reviewSealedSessionReopen sample_env d1 founder ''s1'' (Some answer_sample) of
          Inl _ \<Rightarrow> False | Inr (r', s', d2) \<Rightarrow> hd (academicSessions d1) \<notin> set (academicSessions d2) \<and>
            hd (academicSessions d1) \<in> set (academicSessions d1))"
  by code_simp

lemma reopen_sample:
  obtains r d1 r2 d1' r' s' d2 where "requestSealedSessionReopen sample_env sealed_db registrar ''s1'' (Some ask_sample) = Inr (r, d1)"
    and "openRequest d1 ''s1'' = Some r"
    and "requestSealedSessionReopen sample_env d1 registrar ''s1'' (Some ask_sample) = Inr (r2, d1')"
    and "reviewSealedSessionReopen sample_env d1 founder ''s1'' (Some answer_sample) = Inr (r', s', d2)"
    and "hd (academicSessions d1) \<in> set (academicSessions d1)" and "hd (academicSessions d1) \<notin> set (academicSessions d2)"
proof -
  from reopen_runs obtain r d1 where 1: "requestSealedSessionReopen sample_env sealed_db registrar ''s1'' (Some ask_sample) = Inr (r, d1)"
    by (auto split: sum.splits)
  note rest = reopen_runs [unfolded 1]
  from rest obtain r2 d1' where 2: "requestSealedSessionReopen sample_env d1 registrar ''s1'' (Some ask_sample) = Inr (r2, d1')"
    by (cases "requestSealedSessionReopen sample_env d1 registrar ''s1'' (Some ask_sample)") auto
  from rest obtain r' s' d2 where 3: "reviewSealedSessionReopen sample_env d1 founder ''s1'' (Some answer_sample) = Inr (r', s', d2)"
    by (cases "reviewSealedSessionReopen sample_env d1 founder ''s1'' (Some answer_sample)") auto
  show thesis using rest by (intro that [OF 1 _ 2 3]) (simp_all add: 3)
qed

theorem one_open_reopen_request_witness:
  "\<exists>r d1. requestSealedSessionReopen sample_env sealed_db registrar ''s1'' (Some ask_sample) = Inr (r, d1) \<and>
     requestSealedSessionReopen sample_env d1 registrar ''s1'' (Some ask_sample) = Inr (r, d1)"
proof -
  obtain r d1 r2 d1' r' s' d2 where run: "requestSealedSessionReopen sample_env sealed_db registrar ''s1'' (Some ask_sample) = Inr (r, d1)"
    and o: "openRequest d1 ''s1'' = Some r"
    and again: "requestSealedSessionReopen sample_env d1 registrar ''s1'' (Some ask_sample) = Inr (r2, d1')"
    by (rule reopen_sample)
  have "reopen_op\<^sup>*\<^sup>* sealed_db d1" using ask [OF run] by blast
  from one_open_reopen_request [OF this sealed_db_ok] o again have "r2 = r \<and> d1' = d1" by blast
  with run again show ?thesis by blast
qed

theorem sealed_session_reopened_by_founder_witness:
  "\<exists>d1 d2 s. reopen_op d1 d2 \<and> s \<in> set (academicSessions d1) \<and> s \<notin> set (academicSessions d2) \<and>
     se_status s = Session_SEALED"
proof -
  obtain r d1 r2 d1' r' s' d2 where run: "requestSealedSessionReopen sample_env sealed_db registrar ''s1'' (Some ask_sample) = Inr (r, d1)"
    and rev: "reviewSealedSessionReopen sample_env d1 founder ''s1'' (Some answer_sample) = Inr (r', s', d2)"
    and s: "hd (academicSessions d1) \<in> set (academicSessions d1)" "hd (academicSessions d1) \<notin> set (academicSessions d2)"
    by (rule reopen_sample)
  have op: "reopen_op d1 d2" using answer [OF rev] .
  have ok: "reopen_ok d1" using reopen_op_ok [OF ask [OF run] sealed_db_ok] .
  from sealed_session_reopened_by_founder [OF op ok s] op s show ?thesis by blast
qed

end
