(* ===== verification/Json.thy ===== *)
theory Json
  imports Prelude "HOL-Library.Multiset"
begin

text \<open>
  \<open>JSON.stringify\<close> and the \<open>stableStringify\<close> of the idempotency and queue services, which writes the
  properties of an object in the order of \<open>localeCompare\<close>. The order of the locale is an argument: a
  function into some linear order, which two texts share when \<open>localeCompare\<close> gives zero.
\<close>

definition nibble :: "nat \<Rightarrow> char" where
  "nibble n = (if n < 10 then char_of (48 + n) else char_of (87 + n))"

definition json_char :: "char \<Rightarrow> string" where
  "json_char c =
     (let n = of_char c :: nat; b = char_of (92 :: nat) in
      if n = 34 then [b, c] else if n = 92 then [b, c]
      else if n = 8 then [b, CHR ''b''] else if n = 9 then [b, CHR ''t'']
      else if n = 10 then [b, CHR ''n''] else if n = 12 then [b, CHR ''f'']
      else if n = 13 then [b, CHR ''r'']
      else if n < 32 then [b, CHR ''u'', CHR ''0'', CHR ''0'', nibble (n div 16), nibble (n mod 16)]
      else [c])"

definition quote_mark :: char where
  "quote_mark = char_of (34 :: nat)"

definition json_quote :: "string \<Rightarrow> string" where
  "json_quote s = quote_mark # concat (map json_char s) @ [quote_mark]"

definition json_number :: "jsnum \<Rightarrow> string" where
  "json_number n = (case n of Fin r \<Rightarrow> num_text n | _ \<Rightarrow> ''null'')"

text \<open>\<open>undefined\<close> is \<open>None\<close>: it is left out of an object and becomes null in an array.\<close>

fun JSON_stringify :: "jval \<Rightarrow> string option" where
  "JSON_stringify JUndef = None"
| "JSON_stringify JNull = Some ''null''"
| "JSON_stringify (JBool b) = Some (if b then ''true'' else ''false'')"
| "JSON_stringify (JNum n) = Some (json_number n)"
| "JSON_stringify (JStr s) = Some (json_quote s)"
| "JSON_stringify (JArr xs) = Some (''['' @ join '','' (map (\<lambda>x. getOr (JSON_stringify x) ''null'') xs) @ '']'')"
| "JSON_stringify (JObj ob) = Some (''{'' @ join '',''
     (map (\<lambda>(k, s). json_quote k @ '':'' @ s)
       (List.map_filter (\<lambda>(k, s). map_option (Pair k) s) (map (\<lambda>(k, v). (k, JSON_stringify v)) ob))) @ ''}'')"

text \<open>In an array \<open>join\<close> turns \<open>undefined\<close> into the empty text.\<close>

fun stableStringify :: "(string \<Rightarrow> 'k::linorder) \<Rightarrow> jval \<Rightarrow> string option" where
  "stableStringify collate (JArr xs) =
     Some (''['' @ join '','' (map (\<lambda>x. getOr (stableStringify collate x) []) xs) @ '']'')"
| "stableStringify collate (JObj ob) = Some (''{'' @ join '',''
     (map (\<lambda>(k, s). json_quote k @ '':'' @ s)
       (sort_key (\<lambda>(k, s). collate k)
         (List.map_filter (\<lambda>(k, s). map_option (Pair k) s)
           (map (\<lambda>(k, v). (k, stableStringify collate v)) ob)))) @ ''}'')"
| "stableStringify collate v = JSON_stringify v"

section \<open>The order of the properties does not matter\<close>

text \<open>Two values that differ in the order of the properties of their objects only, at any depth.\<close>

inductive same_json :: "jval \<Rightarrow> jval \<Rightarrow> bool" where
  same: "same_json v v"
| arr: "list_all2 same_json xs ys \<Longrightarrow> same_json (JArr xs) (JArr ys)"
| obj: "list_all2 (\<lambda>p q. fst p = fst q \<and> same_json (snd p) (snd q)) ob ob' \<Longrightarrow> mset ob' = mset ob'' \<Longrightarrow>
    distinct (map fst ob) \<Longrightarrow> same_json (JObj ob) (JObj ob'')"

text \<open>
  The same for one locale. \<open>localeCompare\<close> gives zero for some different texts, and properties with
  such names stay in the order they have: the names of an object whose properties change place must be
  told apart by the locale.
\<close>

inductive same_in_locale :: "(string \<Rightarrow> 'k::linorder) \<Rightarrow> jval \<Rightarrow> jval \<Rightarrow> bool" for collate where
  same: "same_in_locale collate v v"
| arr: "list_all2 (same_in_locale collate) xs ys \<Longrightarrow> same_in_locale collate (JArr xs) (JArr ys)"
| obj: "list_all2 (\<lambda>p q. fst p = fst q \<and> same_in_locale collate (snd p) (snd q)) ob ob' \<Longrightarrow>
    same_in_locale collate (JObj ob) (JObj ob')"
| reorder: "mset ob = mset ob' \<Longrightarrow> distinct (map (\<lambda>p. collate (fst p)) ob) \<Longrightarrow>
    same_in_locale collate (JObj ob) (JObj ob')"
| twice: "same_in_locale collate u v \<Longrightarrow> same_in_locale collate v w \<Longrightarrow> same_in_locale collate u w"

lemma sort_key_perm:
  assumes "mset xs = mset ys" and "inj_on f (set xs)"
  shows "sort_key f xs = sort_key f ys"
  using assms by (intro sort_key_inj_key_eq) simp_all

definition members :: "(string \<Rightarrow> 'k::linorder) \<Rightarrow> (string \<times> jval) list \<Rightarrow> (string \<times> string) list" where
  "members collate ob =
     List.map_filter (\<lambda>(k, s). map_option (Pair k) s) (map (\<lambda>(k, v). (k, stableStringify collate v)) ob)"

lemma members_simps [simp]:
  "members collate [] = []"
  "members collate (p # ob) =
     (case stableStringify collate (snd p) of None \<Rightarrow> members collate ob
      | Some s \<Rightarrow> (fst p, s) # members collate ob)"
  by (cases p; cases "stableStringify collate (snd p)"; simp add: members_def map_filter_simps)+

lemma fst_members: "fst ` set (members collate ob) \<subseteq> fst ` set ob"
  by (induction ob) (auto split: option.splits)

lemma distinct_members:
  "distinct (map (\<lambda>p. f (fst p)) ob) \<Longrightarrow> distinct (map (\<lambda>p. f (fst p)) (members collate ob))"
proof (induction ob)
  case (Cons p ob)
  have "(\<lambda>p. f (fst p)) ` set (members collate ob) \<subseteq> (\<lambda>p. f (fst p)) ` set ob"
    using image_mono [OF fst_members [of collate ob], of f] by (simp add: image_image)
  with Cons show ?case by (auto split: option.splits)
qed simp

lemma mset_members:
  assumes "mset ob = mset ob'"
  shows "mset (members collate ob) = mset (members collate ob')"
proof -
  have "members collate xs = List.map_filter
      (\<lambda>p. map_option (Pair (fst p)) (stableStringify collate (snd p))) xs" for xs
    by (induction xs) (auto simp: map_filter_simps split: option.splits)
  then show ?thesis using assms by (simp add: List.map_filter_def)
qed

lemma members_cong:
  assumes "list_all2 (\<lambda>p q. fst p = fst q \<and> stableStringify collate (snd p) = stableStringify collate (snd q)) ob ob'"
  shows "members collate ob = members collate ob'"
  using assms by (induction rule: list_all2_induct) (simp_all split: option.splits)

lemma stableStringify_same:
  assumes "same_in_locale collate v w"
  shows "stableStringify collate v = stableStringify collate w"
  using assms
proof (induction rule: same_in_locale.induct)
  case (same v)
  then show ?case ..
next
  case (arr xs ys)
  then have "map (\<lambda>x. getOr (stableStringify collate x) []) xs = map (\<lambda>x. getOr (stableStringify collate x) []) ys"
    by (induction rule: list_all2_induct) simp_all
  then show ?case by simp
next
  case (obj ob ob')
  have "members collate ob = members collate ob'"
    using obj by (intro members_cong) (auto elim!: list_all2_mono)
  then show ?case by (simp add: members_def)
next
  case (reorder ob ob')
  have "inj_on (\<lambda>(k, s). collate k) (set (members collate ob))"
    using distinct_members [OF reorder(2), of collate] by (simp add: distinct_map case_prod_beta')
  from sort_key_perm [OF mset_members [OF reorder(1)] this] show ?case by (simp add: members_def)
next
  case (twice u v w)
  then show ?case by simp
qed

end
