(* ===== verification/Idempotency.thy ===== *)
theory Idempotency
  imports Sample Json
begin

text \<open>
  \<open>platform/services/idempotency.service.ts\<close>: a handler runs under a key; its response is stored, and a
  later request with the same scope and key gets the stored response instead of running the handler.
  A handler returns its outcome together with the database it leaves, since what it wrote before an
  error stays. The locale \<open>idempotent_handler\<close> is what the service relies on: a handler does not write
  idempotency records itself.
\<close>

record idempotency_input =
  ip_scope :: string
  ip_key :: string
  ip_operation :: string
  ip_request :: jval
  ip_auth :: "auth_token option"
  ip_institutionId :: "string option"
  ip_ttlHours :: "jsnum option"

definition clampHours :: "jsnum option \<Rightarrow> int" where
  "clampHours v = clampNumber v 1 (24 * 30) 24"

definition key_char :: "char \<Rightarrow> bool" where
  "key_char c \<longleftrightarrow> is_alpha c \<or> is_digit c \<or> c \<in> set ''._:-''"

definition normaliseKey :: "string \<Rightarrow> string res" where
  "normaliseKey key =
     (let trimmed = trim key in
      bindE (failIf (length trimmed < 8 \<or> length trimmed > 200)
        (BadRequest ''Idempotency key must be between 8 and 200 characters.'')) (\<lambda>_.
      bindE (failIf (\<not> list_all key_char trimmed)
        (BadRequest ''Idempotency key may only contain letters, numbers, dots, underscores, colons, and hyphens.''))
        (\<lambda>_. Inr trimmed)))"

definition same_key :: "string \<Rightarrow> string \<Rightarrow> idempotency_record \<Rightarrow> bool" where
  "same_key scope keyHash r \<longleftrightarrow> ir_scope r = scope \<and> ir_keyHash r = keyHash"

fun kind_text :: "auth_kind \<Rightarrow> string" where
  "kind_text USER = ''USER''"
| "kind_text API_KEY = ''API_KEY''"

definition createRecord :: "env \<Rightarrow> db \<Rightarrow> idempotency_input \<Rightarrow> string \<Rightarrow> string \<Rightarrow> (idempotency_record \<times> db) res" where
  "createRecord e d input keyHash requestHash =
     (let auth = ip_auth input;
          record = \<lparr>ir_uuid = fresh e d, ir_scope = ip_scope input, ir_keyHash = keyHash,
            ir_requestHash = requestHash, ir_operation = ip_operation input, ir_status = Idem_IN_PROGRESS,
            ir_actorType = (case auth of None \<Rightarrow> None | Some a \<Rightarrow> map_option kind_text (au_kind a)),
            ir_actorUserId = (case auth of None \<Rightarrow> None
              | Some a \<Rightarrow> (if au_kind a = Some API_KEY then None else Some (au_sub a))),
            ir_clientId = (case auth of None \<Rightarrow> None | Some a \<Rightarrow> au_clientId a),
            ir_institutionId = orElse (ip_institutionId input)
              (case auth of None \<Rightarrow> None | Some a \<Rightarrow> au_institutionUuid a),
            ir_jobId = None, ir_response = None, ir_error = None,
            ir_expiresAt = now e + clampHours (ip_ttlHours input) * 60 * 60 * 1000\<rparr>
      in bindE (failIf (\<exists>r \<in> set (idempotencyRecords d). same_key (ip_scope input) keyHash r)
           (Conflict ''An idempotent request with this key is already being recorded.'')) (\<lambda>_.
         Inr (record, drawn (d\<lparr>idempotencyRecords := idempotencyRecords d @ [record]\<rparr>))))"

definition saveResponse :: "jval \<Rightarrow> string option \<Rightarrow> idempotency_record \<Rightarrow> idempotency_record" where
  "saveResponse response jobId r =
     r\<lparr>ir_status := Idem_SUCCEEDED, ir_response := Some (toJson response),
       ir_jobId := orElse jobId (ir_jobId r), ir_error := None\<rparr>"

definition saveFailure :: "error \<Rightarrow> idempotency_record \<Rightarrow> idempotency_record" where
  "saveFailure err r = r\<lparr>ir_status := Idem_FAILED, ir_error := Some (take 1000 (message err))\<rparr>"

definition has_response :: "idempotency_record \<Rightarrow> bool" where
  "has_response r = (case ir_response r of None \<Rightarrow> False | Some v \<Rightarrow> truthy v)"

text \<open>What an existing record answers, without looking at the caller.\<close>

definition answerExisting :: "string \<Rightarrow> idempotency_record \<Rightarrow> jval res" where
  "answerExisting requestHash r =
     (if ir_requestHash r \<noteq> requestHash
      then Inl (BadRequest ''Idempotency key was already used with a different request payload.'')
      else if has_response r then Inr (getOr (ir_response r) JNull)
      else if ir_status r = Idem_IN_PROGRESS
      then Inl (Conflict ''An idempotent request with this key is still processing.'')
      else Inl (Conflict ''An idempotent request with this key previously failed. Use a new key after resolving the error.''))"

text \<open>Hashing the text of an \<open>undefined\<close> request raises a type error.\<close>

definition execute ::
    "(string \<Rightarrow> 'k::linorder) \<Rightarrow> env \<Rightarrow> db \<Rightarrow> idempotency_input \<Rightarrow> (db \<Rightarrow> jval res \<times> db) \<Rightarrow>
     (jval \<Rightarrow> string option) \<Rightarrow> jval res \<times> db" where
  "execute collate e d input handler responseJobId =
     (case normaliseKey (ip_key input) of
        Inl err \<Rightarrow> (Inl err, d)
      | Inr key \<Rightarrow>
          (case stableStringify collate (ip_request input) of
             None \<Rightarrow> (Inl (Failure ''data must be of type string''), d)
           | Some text \<Rightarrow>
               let keyHash = sha256 e key; requestHash = sha256 e text in
               (case List.find (same_key (ip_scope input) keyHash) (idempotencyRecords d) of
                  Some existing \<Rightarrow> (answerExisting requestHash existing, d)
                | None \<Rightarrow>
                    (case createRecord e d input keyHash requestHash of
                       Inl err \<Rightarrow> (Inl err, d)
                     | Inr (record, d1) \<Rightarrow>
                         (case handler d1 of
                            (Inr response, d2) \<Rightarrow>
                              (Inr response, d2\<lparr>idempotencyRecords := set_by ir_uuid (ir_uuid record)
                                 (saveResponse response (responseJobId response)) (idempotencyRecords d2)\<rparr>)
                          | (Inl err, d2) \<Rightarrow>
                              (Inl err, d2\<lparr>idempotencyRecords := set_by ir_uuid (ir_uuid record)
                                 (saveFailure err) (idempotencyRecords d2)\<rparr>))))))"

definition cleanupExpiredRecords :: "env \<Rightarrow> db \<Rightarrow> jsnum option \<Rightarrow> (nat \<times> int \<times> int) \<times> db" where
  "cleanupExpiredRecords e d olderThanHoursOpt =
     (let olderThanHours = clampHours (orElse olderThanHoursOpt (Some (Fin 24)));
          cutoff = now e - olderThanHours * 60 * 60 * 1000;
          kept = filter (\<lambda>r. \<not> ir_expiresAt r < cutoff) (idempotencyRecords d)
      in ((length (idempotencyRecords d) - length kept, olderThanHours, cutoff),
          d\<lparr>idempotencyRecords := kept\<rparr>))"

definition keyFromHeaders :: "(string \<times> string list) list \<Rightarrow> string option" where
  "keyFromHeaders headers =
     (let v = orElse (map_of headers ''x-idempotency-key'') (map_of headers ''idempotency-key'');
          raw = (case v of None \<Rightarrow> None | Some xs \<Rightarrow> (case xs of [] \<Rightarrow> None | x # _ \<Rightarrow> Some x))
      in case raw of None \<Rightarrow> None | Some s \<Rightarrow> (if trim s = [] then None else Some (trim s)))"

section \<open>The handler runs once\<close>

lemma find_set_by_only:
  assumes "List.find q xs = None" and "q r" and "key r = k" and "\<And>r. q (f r) \<longleftrightarrow> q r"
  shows "List.find q (set_by key k f (xs @ [r])) = Some (f r)"
  using assms by (induction xs) (auto split: if_splits)

text \<open>The answer to a repetition of a request that ended with \<open>r\<close>.\<close>

definition replayed :: "jval res \<Rightarrow> jval res" where
  "replayed r =
     (case r of
        Inr v \<Rightarrow> (if truthy (toJson v) then Inr (toJson v)
                  else Inl (Conflict ''An idempotent request with this key previously failed. Use a new key after resolving the error.''))
      | Inl _ \<Rightarrow> Inl (Conflict ''An idempotent request with this key previously failed. Use a new key after resolving the error.''))"

locale idempotent_handler =
  fixes handler :: "db \<Rightarrow> jval res \<times> db"
  assumes frame: "idempotencyRecords (snd (handler d)) = idempotencyRecords d"
begin

text \<open>The record that the first execution leaves for its key.\<close>

lemma record_after:
  assumes "execute collate e d input handler jobId = (r, d')"
    and "normaliseKey (ip_key input) = Inr key"
    and "stableStringify collate (ip_request input) = Some text"
    and "List.find (same_key (ip_scope input) (sha256 e key)) (idempotencyRecords d) = None"
  shows "\<exists>rec. List.find (same_key (ip_scope input) (sha256 e key)) (idempotencyRecords d') = Some rec \<and>
    ir_requestHash rec = sha256 e text \<and>
    (case r of Inr v \<Rightarrow> ir_response rec = Some (toJson v) \<and> ir_status rec = Idem_SUCCEEDED
     | Inl err \<Rightarrow> ir_response rec = None \<and> ir_status rec = Idem_FAILED)"
proof -
  let ?q = "same_key (ip_scope input) (sha256 e key)"
  have none: "\<not> (\<exists>r \<in> set (idempotencyRecords d). ?q r)"
    using assms(4) by (simp add: find_None_iff')
  obtain rec d1 where create: "createRecord e d input (sha256 e key) (sha256 e text) = Inr (rec, d1)"
    using none by (auto simp: createRecord_def Let_def)
  have rec: "?q rec" "ir_requestHash rec = sha256 e text" "ir_response rec = None"
    and rows: "idempotencyRecords d1 = idempotencyRecords d @ [rec]"
    using create by (auto simp: createRecord_def Let_def err_simps same_key_def drawn_def)
  obtain h d2 where run: "handler d1 = (h, d2)" by (cases "handler d1")
  have rows2: "idempotencyRecords d2 = idempotencyRecords d @ [rec]" using frame [of d1] run rows by simp
  show ?thesis
  proof (cases h)
    case (Inl err)
    have "List.find ?q (set_by ir_uuid (ir_uuid rec) (saveFailure err) (idempotencyRecords d @ [rec])) =
        Some (saveFailure err rec)"
      using rec(1) by (intro find_set_by_only [OF assms(4)]) (auto simp: same_key_def saveFailure_def)
    with Inl assms(1-4) create run rows2 rec show ?thesis
      by (auto simp: execute_def Let_def saveFailure_def)
  next
    case (Inr v)
    have "List.find ?q (set_by ir_uuid (ir_uuid rec) (saveResponse v (jobId v)) (idempotencyRecords d @ [rec])) =
        Some (saveResponse v (jobId v) rec)"
      using rec(1) by (intro find_set_by_only [OF assms(4)]) (auto simp: same_key_def saveResponse_def)
    with Inr assms(1-4) create run rows2 rec show ?thesis
      by (auto simp: execute_def Let_def saveResponse_def)
  qed
qed

text \<open>A later execution under the same key, on any database that still finds the record of the key as
  the first one left it, never runs its handler: the database stays as it is.\<close>

lemma later_execution:
  assumes "execute collate e d input handler jobId = (r, d')"
    and "normaliseKey (ip_key input) = Inr key"
    and "stableStringify collate (ip_request input) = Some text"
    and "List.find (same_key (ip_scope input) (sha256 e key)) (idempotencyRecords d) = None"
    and "List.find (same_key (ip_scope input) (sha256 e key)) (idempotencyRecords d'') =
      List.find (same_key (ip_scope input) (sha256 e key)) (idempotencyRecords d')"
    and "ip_scope input' = ip_scope input" and "normaliseKey (ip_key input') = Inr key"
    and "stableStringify collate (ip_request input') = Some text'" and "sha256 e' = sha256 e"
  shows "execute collate e' d'' input' handler' jobId' =
    (if sha256 e text' = sha256 e text then replayed r
     else Inl (BadRequest ''Idempotency key was already used with a different request payload.''), d'')"
proof -
  obtain rec where rec: "List.find (same_key (ip_scope input) (sha256 e key)) (idempotencyRecords d') = Some rec"
    "ir_requestHash rec = sha256 e text"
    "case r of Inr v \<Rightarrow> ir_response rec = Some (toJson v) \<and> ir_status rec = Idem_SUCCEEDED
     | Inl err \<Rightarrow> ir_response rec = None \<and> ir_status rec = Idem_FAILED"
    using record_after [OF assms(1-4)] by blast
  have "execute collate e' d'' input' handler' jobId' = (answerExisting (sha256 e text') rec, d'')"
    using rec(1) assms(5-9) by (simp add: execute_def Let_def)
  with rec(2,3) show ?thesis
    by (cases r) (auto simp: answerExisting_def has_response_def replayed_def)
qed

end

end
