(* ===== verification/RetryPolicy.thy ===== *)
theory RetryPolicy
  imports Schema
begin

text \<open>
  \<open>platform/services/retry-policy.service.ts\<close>: the policy of every job type, whether a job that
  failed is tried again, and the delay before the next attempt, an exponential back-off with jitter.
  The random number is an argument; the jitter ratio and the delays are exact rationals.
\<close>

record retry_policy =
  rp_maxAttempts :: int
  rp_baseDelayMs :: int
  rp_maxDelayMs :: int
  rp_jitterRatio :: rat

definition minute :: int where
  "minute = 60 * 1000"

definition defaultPolicy :: retry_policy where
  "defaultPolicy = \<lparr>rp_maxAttempts = 3, rp_baseDelayMs = 30 * 1000, rp_maxDelayMs = 15 * minute,
     rp_jitterRatio = 1 / 5\<rparr>"

definition policy_with :: "int \<Rightarrow> int \<Rightarrow> int \<Rightarrow> retry_policy" where
  "policy_with n base limit = defaultPolicy\<lparr>rp_maxAttempts := n, rp_baseDelayMs := base, rp_maxDelayMs := limit\<rparr>"

fun policies :: "job_type \<Rightarrow> retry_policy" where
  "policies BULK_STUDENT_UPLOAD = policy_with 3 (20 * 1000) (10 * minute)"
| "policies RESULT_BATCH_VALIDATION = policy_with 3 (20 * 1000) (10 * minute)"
| "policies CREDENTIAL_GENERATION = policy_with 5 (30 * 1000) (20 * minute)"
| "policies PDF_GENERATION = policy_with 5 (30 * 1000) (20 * minute)"
| "policies SMS_EMAIL_DELIVERY = policy_with 5 (45 * 1000) (30 * minute)"
| "policies PUSH_NOTIFICATION = policy_with 5 (30 * 1000) (20 * minute)"
| "policies PAYSTACK_PAYMENT_CONFIRMATION = policy_with 10 minute (60 * minute)"
| "policies RECORD_REQUEST_DEADLINE = policy_with 4 (2 * minute) (30 * minute)"
| "policies WEBHOOK_DELIVERY = policy_with 8 (30 * 1000) (30 * minute)"
| "policies LIVE_RESULTS_CALLBACK = policy_with 8 (30 * 1000) (30 * minute)"
| "policies EXAM_BODY_INGEST = policy_with 8 minute (45 * minute)"
| "policies RATE_LIMIT_BUCKET_CLEANUP = (policy_with 2 (5 * minute) (15 * minute))\<lparr>rp_jitterRatio := 1 / 10\<rparr>"
| "policies IDEMPOTENCY_RECORD_CLEANUP = (policy_with 2 (5 * minute) (15 * minute))\<lparr>rp_jitterRatio := 1 / 10\<rparr>"

definition policyFor :: "job_type \<Rightarrow> retry_policy" where
  "policyFor type = policies type"

definition maxAttemptsFor :: "job_type \<Rightarrow> int" where
  "maxAttemptsFor type = rp_maxAttempts (policyFor type)"

definition shouldRetry :: "job_type \<Rightarrow> int \<Rightarrow> int option \<Rightarrow> bool \<Rightarrow> bool" where
  "shouldRetry type attempts maxAttempts nonRetryable =
     (if nonRetryable then False else attempts < getOr maxAttempts (maxAttemptsFor type))"

definition jitterMs :: "int \<Rightarrow> rat \<Rightarrow> rat \<Rightarrow> int" where
  "jitterMs delay ratio random =
     (let boundedRandom = min 1 (max 0 random) in math_round (of_int delay * ratio * boundedRandom))"

definition exponentialDelay :: "job_type \<Rightarrow> int \<Rightarrow> int" where
  "exponentialDelay type attempts =
     (let policy = policyFor type; exponent = max 0 (attempts - 1)
      in min (rp_maxDelayMs policy) (rp_baseDelayMs policy * 2 ^ nat exponent))"

definition delayMs :: "job_type \<Rightarrow> int \<Rightarrow> rat \<Rightarrow> int" where
  "delayMs type attempts random =
     (let d = exponentialDelay type attempts
      in max 1000 (d + jitterMs d (rp_jitterRatio (policyFor type)) random))"

definition nextRunAfter :: "job_type \<Rightarrow> int \<Rightarrow> int \<Rightarrow> rat \<Rightarrow> int" where
  "nextRunAfter type attempts t random = t + delayMs type attempts random"

section \<open>Bounds\<close>

lemma policies_range:
  "1 \<le> rp_maxAttempts (policies t) \<and> rp_maxAttempts (policies t) \<le> 10 \<and>
   20000 \<le> rp_baseDelayMs (policies t) \<and> rp_baseDelayMs (policies t) \<le> rp_maxDelayMs (policies t) \<and>
   rp_maxDelayMs (policies t) \<le> 60 * minute \<and>
   0 \<le> rp_jitterRatio (policies t) \<and> rp_jitterRatio (policies t) \<le> 1 / 5"
  by (cases t) (simp_all add: policy_with_def defaultPolicy_def minute_def)

lemma exponentialDelay_range:
  "rp_baseDelayMs (policies t) \<le> exponentialDelay t a \<and> exponentialDelay t a \<le> rp_maxDelayMs (policies t)"
proof -
  have "1 * rp_baseDelayMs (policies t) \<le> 2 ^ nat (max 0 (a - 1)) * rp_baseDelayMs (policies t)"
    using policies_range [of t] by (intro mult_right_mono) simp_all
  then show ?thesis using policies_range [of t]
    by (simp add: exponentialDelay_def policyFor_def Let_def mult.commute)
qed

lemma exponentialDelay_mono:
  assumes "a \<le> b"
  shows "exponentialDelay t a \<le> exponentialDelay t b"
proof -
  have "rp_baseDelayMs (policies t) * 2 ^ nat (max 0 (a - 1)) \<le> rp_baseDelayMs (policies t) * 2 ^ nat (max 0 (b - 1))"
    using assms policies_range [of t] by (intro mult_left_mono power_increasing) auto
  then show ?thesis by (simp add: exponentialDelay_def policyFor_def Let_def min.coboundedI2)
qed

lemma jitterMs_range:
  assumes "0 \<le> d" and "0 \<le> ratio"
  shows "0 \<le> jitterMs d ratio x \<and> jitterMs d ratio x \<le> math_round (of_int d * ratio)"
proof
  have "math_round (of_int 0) \<le> jitterMs d ratio x"
    unfolding jitterMs_def Let_def using assms by (intro math_round_mono) simp
  then show "0 \<le> jitterMs d ratio x" unfolding math_round_of_int .
  have "of_int d * ratio * min 1 (max 0 x) \<le> of_int d * ratio * 1"
    using assms by (intro mult_left_mono) simp_all
  then show "jitterMs d ratio x \<le> math_round (of_int d * ratio)"
    unfolding jitterMs_def Let_def by (intro math_round_mono) simp
qed

lemma jitterMs_mono:
  assumes "c \<le> d" and "0 \<le> ratio"
  shows "jitterMs c ratio x \<le> jitterMs d ratio x"
  unfolding jitterMs_def Let_def using assms by (intro math_round_mono mult_right_mono) simp_all

text \<open>Whatever the random number, the delay before an attempt is never shorter than the base delay
  of the job type, never longer than its maximum plus the jitter of the maximum (at most 72 minutes for
  any type), and with the same random number it never shrinks from one attempt to the next.\<close>

theorem retry_delay_bounds:
  "rp_baseDelayMs (policyFor type) \<le> delayMs type attempts x \<and>
   delayMs type attempts x \<le> rp_maxDelayMs (policyFor type) +
     math_round (of_int (rp_maxDelayMs (policyFor type)) * rp_jitterRatio (policyFor type)) \<and>
   delayMs type attempts x \<le> 72 * minute \<and>
   delayMs type attempts x \<le> delayMs type (attempts + 1) x"
proof -
  let ?p = "policies type" and ?d = "exponentialDelay type"
  note P = policies_range [of type] and R = exponentialDelay_range [of type]
  have j: "0 \<le> jitterMs (?d a) (rp_jitterRatio ?p) x \<and>
      jitterMs (?d a) (rp_jitterRatio ?p) x \<le> math_round (of_int (?d a) * rp_jitterRatio ?p)" for a
    using jitterMs_range P R [of a] by simp
  have top: "math_round (of_int (?d a) * rp_jitterRatio ?p) \<le> math_round (of_int (rp_maxDelayMs ?p) * rp_jitterRatio ?p)" for a
    using P R [of a] by (intro math_round_mono mult_right_mono) simp_all
  have "of_int (rp_maxDelayMs ?p) * rp_jitterRatio ?p \<le> of_int (60 * minute) * (1 / 5)"
    using P by (intro mult_mono) (simp_all add: minute_def)
  then have "math_round (of_int (rp_maxDelayMs ?p) * rp_jitterRatio ?p) \<le> math_round (of_int (12 * minute))"
    by (intro math_round_mono) (simp add: minute_def)
  then have cap: "math_round (of_int (rp_maxDelayMs ?p) * rp_jitterRatio ?p) \<le> 12 * minute"
    unfolding math_round_of_int .
  have mono: "?d attempts + jitterMs (?d attempts) (rp_jitterRatio ?p) x \<le>
      ?d (attempts + 1) + jitterMs (?d (attempts + 1)) (rp_jitterRatio ?p) x"
    using exponentialDelay_mono [of attempts "attempts + 1" type]
      jitterMs_mono [of "?d attempts" "?d (attempts + 1)" "rp_jitterRatio ?p" x] P by simp
  show ?thesis
    using j [of attempts] top [of attempts] cap mono P R [of attempts]
    by (auto simp: delayMs_def policyFor_def Let_def minute_def)
qed

end
