(* ===== verification/Queue.thy ===== *)
theory Queue
  imports Idempotency RetryPolicy "HOL-Library.Char_ord" "HOL-Library.List_Lexorder"
begin

text \<open>
  \<open>platform/services/queue.service.ts\<close>: jobs, webhook deliveries and notifications are rows; a job of a
  protected type, or one enqueued with a key, is created under the idempotency service. The optional
  service is present. \<open>createJob\<close> is the handler that the interface \<open>idempotent_handler\<close> asks for.
\<close>

fun job_type_text :: "job_type \<Rightarrow> string" where
  "job_type_text BULK_STUDENT_UPLOAD = ''BULK_STUDENT_UPLOAD''"
| "job_type_text RESULT_BATCH_VALIDATION = ''RESULT_BATCH_VALIDATION''"
| "job_type_text CREDENTIAL_GENERATION = ''CREDENTIAL_GENERATION''"
| "job_type_text PDF_GENERATION = ''PDF_GENERATION''"
| "job_type_text SMS_EMAIL_DELIVERY = ''SMS_EMAIL_DELIVERY''"
| "job_type_text PAYSTACK_PAYMENT_CONFIRMATION = ''PAYSTACK_PAYMENT_CONFIRMATION''"
| "job_type_text RECORD_REQUEST_DEADLINE = ''RECORD_REQUEST_DEADLINE''"
| "job_type_text WEBHOOK_DELIVERY = ''WEBHOOK_DELIVERY''"
| "job_type_text PUSH_NOTIFICATION = ''PUSH_NOTIFICATION''"
| "job_type_text LIVE_RESULTS_CALLBACK = ''LIVE_RESULTS_CALLBACK''"
| "job_type_text EXAM_BODY_INGEST = ''EXAM_BODY_INGEST''"
| "job_type_text RATE_LIMIT_BUCKET_CLEANUP = ''RATE_LIMIT_BUCKET_CLEANUP''"
| "job_type_text IDEMPOTENCY_RECORD_CLEANUP = ''IDEMPOTENCY_RECORD_CLEANUP''"

fun queueByJobType :: "job_type \<Rightarrow> string" where
  "queueByJobType BULK_STUDENT_UPLOAD = ''ingestion.bulk''"
| "queueByJobType RESULT_BATCH_VALIDATION = ''results.validation''"
| "queueByJobType CREDENTIAL_GENERATION = ''credentials.generation''"
| "queueByJobType PDF_GENERATION = ''documents.pdf''"
| "queueByJobType SMS_EMAIL_DELIVERY = ''notifications.delivery''"
| "queueByJobType PAYSTACK_PAYMENT_CONFIRMATION = ''payments.paystack''"
| "queueByJobType RECORD_REQUEST_DEADLINE = ''record-requests.deadlines''"
| "queueByJobType WEBHOOK_DELIVERY = ''webhooks.delivery''"
| "queueByJobType PUSH_NOTIFICATION = ''notifications.push''"
| "queueByJobType LIVE_RESULTS_CALLBACK = ''live-results.callbacks''"
| "queueByJobType EXAM_BODY_INGEST = ''exam-body.ingest''"
| "queueByJobType RATE_LIMIT_BUCKET_CLEANUP = ''platform.maintenance''"
| "queueByJobType IDEMPOTENCY_RECORD_CLEANUP = ''platform.maintenance''"

fun job_status_text :: "job_status \<Rightarrow> string" where
  "job_status_text Job_QUEUED = ''QUEUED''"
| "job_status_text Job_RUNNING = ''RUNNING''"
| "job_status_text Job_RETRYING = ''RETRYING''"
| "job_status_text Job_SUCCEEDED = ''SUCCEEDED''"
| "job_status_text Job_FAILED = ''FAILED''"
| "job_status_text Job_CANCELLED = ''CANCELLED''"

record enqueue_input =
  ej_type :: job_type
  ej_queue :: "string option"
  ej_institutionId :: "string option"
  ej_createdById :: "string option"
  ej_relatedEntityType :: "string option"
  ej_relatedEntityId :: "string option"
  ej_priority :: "int option"
  ej_maxAttempts :: "int option"
  ej_runAfter :: "int option"
  ej_payload :: jval
  ej_eventType :: "string option"
  ej_eventPayload :: "jval option"
  ej_idempotencyKey :: "string option"
  ej_idempotencyScope :: "string option"
  ej_idempotencyTtlHours :: "jsnum option"

definition jor_null :: "string option \<Rightarrow> jval" where
  "jor_null x = (case x of None \<Rightarrow> JNull | Some s \<Rightarrow> JStr s)"

section \<open>Jobs\<close>

definition newJob :: "env \<Rightarrow> db \<Rightarrow> enqueue_input \<Rightarrow> background_job" where
  "newJob e d input = \<lparr>bj_uuid = fresh e d, bj_type = ej_type input,
     bj_queue = getOr (ej_queue input) (queueByJobType (ej_type input)), bj_status = Job_QUEUED,
     bj_institutionId = ej_institutionId input, bj_createdById = ej_createdById input,
     bj_relatedEntityType = ej_relatedEntityType input, bj_relatedEntityId = ej_relatedEntityId input,
     bj_priority = getOr (ej_priority input) 0, bj_payload = ej_payload input, bj_result = JNull,
     bj_error = None, bj_progress = 0, bj_attempts = 0,
     bj_maxAttempts = getOr (ej_maxAttempts input) (maxAttemptsFor (ej_type input)),
     bj_runAfter = getOr (ej_runAfter input) (now e), bj_lockedAt = None, bj_lockedBy = None,
     bj_startedAt = None, bj_completedAt = None, bj_failedAt = None, bj_createdAt = now e\<rparr>"

definition newEvent :: "env \<Rightarrow> db \<Rightarrow> string \<Rightarrow> string \<Rightarrow> string \<Rightarrow> string option \<Rightarrow> jval \<Rightarrow> domain_event" where
  "newEvent e d type aggregateType jobId institutionId payload =
     \<lparr>de_uuid = fresh e d, de_type = type, de_aggregateType = aggregateType, de_aggregateId = jobId,
      de_institutionId = institutionId, de_jobId = Some jobId, de_payload = payload\<rparr>"

definition addJob :: "background_job \<Rightarrow> db \<Rightarrow> db" where
  "addJob job d = drawn (d\<lparr>backgroundJobs := backgroundJobs d @ [job]\<rparr>)"

definition addEvent :: "domain_event \<Rightarrow> db \<Rightarrow> db" where
  "addEvent event d = drawn (d\<lparr>domainEvents := domainEvents d @ [event]\<rparr>)"

definition toJobAcceptedResponse :: "background_job \<Rightarrow> string \<Rightarrow> jval" where
  "toJobAcceptedResponse job eventId =
     JObj [(''id'', JStr (bj_uuid job)), (''jobId'', JStr (bj_uuid job)),
           (''type'', JStr (job_type_text (bj_type job))), (''queue'', JStr (bj_queue job)),
           (''status'', JStr (job_status_text (bj_status job))), (''eventId'', JStr eventId),
           (''pollingUrl'', JStr (''/jobs/'' @ bj_uuid job))]"

definition queuedType :: "enqueue_input \<Rightarrow> string" where
  "queuedType input = getOr (ej_eventType input) (toLowerCase (job_type_text (ej_type input)) @ ''.queued'')"

definition createJob :: "env \<Rightarrow> enqueue_input \<Rightarrow> db \<Rightarrow> jval res \<times> db" where
  "createJob e input d =
     (let job = newJob e d input;
          d1 = addJob job d;
          event = newEvent e d1 (queuedType input) ''BackgroundJob'' (bj_uuid job) (ej_institutionId input)
            (getOr (ej_eventPayload input)
              (JObj [(''jobId'', JStr (bj_uuid job)), (''type'', JStr (job_type_text (ej_type input))),
                     (''queue'', JStr (bj_queue job)), (''status'', JStr (job_status_text (bj_status job)))]))
      in (Inr (toJobAcceptedResponse job (de_uuid event)), addEvent event d1))"

definition jobRequest :: "enqueue_input \<Rightarrow> jval" where
  "jobRequest input =
     JObj [(''type'', JStr (job_type_text (ej_type input))),
           (''institutionId'', jor_null (ej_institutionId input)),
           (''relatedEntityType'', jor_null (ej_relatedEntityType input)),
           (''relatedEntityId'', jor_null (ej_relatedEntityId input)),
           (''payload'', ej_payload input)]"

definition protectedTypes :: "job_type list" where
  "protectedTypes = [BULK_STUDENT_UPLOAD, RESULT_BATCH_VALIDATION, CREDENTIAL_GENERATION, PDF_GENERATION,
     PAYSTACK_PAYMENT_CONFIRMATION]"

definition autoIdempotencyKey :: "(string \<Rightarrow> 'k::linorder) \<Rightarrow> env \<Rightarrow> enqueue_input \<Rightarrow> string option" where
  "autoIdempotencyKey collate e input =
     (if ej_type input \<notin> set protectedTypes then None
      else Some (''auto:'' @ sha256 e (getOr (stableStringify collate (jobRequest input)) [])))"

definition jobInput :: "enqueue_input \<Rightarrow> string \<Rightarrow> idempotency_input" where
  "jobInput input key =
     \<lparr>ip_scope = getOr (ej_idempotencyScope input) (''job:'' @ job_type_text (ej_type input)),
      ip_key = key, ip_operation = queuedType input, ip_request = jobRequest input, ip_auth = None,
      ip_institutionId = ej_institutionId input, ip_ttlHours = ej_idempotencyTtlHours input\<rparr>"

definition responseJobId :: "jval \<Rightarrow> string option" where
  "responseJobId response = (case getProp (asRecord response) ''jobId'' of JStr s \<Rightarrow> Some s | _ \<Rightarrow> None)"

definition enqueueJob :: "(string \<Rightarrow> 'k::linorder) \<Rightarrow> env \<Rightarrow> db \<Rightarrow> enqueue_input \<Rightarrow> jval res \<times> db" where
  "enqueueJob collate e d input =
     (let key = orElse (ej_idempotencyKey input) (autoIdempotencyKey collate e input) in
      if truthy_text key
      then execute collate e d (jobInput input (getOr key [])) (createJob e input) responseJobId
      else createJob e input d)"

section \<open>Webhook deliveries and notifications\<close>

record webhook_input =
  wi_jobId :: "string option"
  wi_eventId :: "string option"
  wi_institutionId :: "string option"
  wi_webhookEndpointId :: "string option"
  wi_targetUrl :: string
  wi_eventType :: string
  wi_payload :: jval

definition plain_job :: "job_type \<Rightarrow> string option \<Rightarrow> jval \<Rightarrow> enqueue_input" where
  "plain_job type institutionId payload =
     \<lparr>ej_type = type, ej_queue = None, ej_institutionId = institutionId, ej_createdById = None,
      ej_relatedEntityType = None, ej_relatedEntityId = None, ej_priority = None, ej_maxAttempts = None,
      ej_runAfter = None, ej_payload = payload, ej_eventType = None, ej_eventPayload = None,
      ej_idempotencyKey = None, ej_idempotencyScope = None, ej_idempotencyTtlHours = None\<rparr>"

definition webhookPayload :: "webhook_input \<Rightarrow> (string \<times> jval) list" where
  "webhookPayload input =
     [(''webhookEndpointId'', jor_null (wi_webhookEndpointId input)),
      (''targetUrl'', JStr (wi_targetUrl input)), (''eventType'', JStr (wi_eventType input))]"

definition enqueueWebhookDelivery :: "env \<Rightarrow> db \<Rightarrow> webhook_input \<Rightarrow> jval \<times> db" where
  "enqueueWebhookDelivery e d input =
     (let job = newJob e d ((plain_job WEBHOOK_DELIVERY (wi_institutionId input)
              (JObj ([(''eventId'', jor_null (wi_eventId input)), (''sourceJobId'', jor_null (wi_jobId input))] @
                     webhookPayload input)))
            \<lparr>ej_relatedEntityType := Some ''WebhookDelivery'', ej_priority := Some 1\<rparr>);
          d1 = addJob job d;
          event = newEvent e d1 (wi_eventType input @ ''.webhook_queued'') ''WebhookDelivery'' (bj_uuid job)
            (wi_institutionId input)
            (JObj ([(''jobId'', JStr (bj_uuid job)), (''sourceJobId'', jor_null (wi_jobId input))] @
                   webhookPayload input));
          d2 = addEvent event d1;
          delivery = \<lparr>wd_uuid = fresh e d2, wd_jobId = Some (bj_uuid job),
            wd_eventId = Some (getOr (wi_eventId input) (de_uuid event)),
            wd_institutionId = wi_institutionId input, wd_webhookEndpointId = wi_webhookEndpointId input,
            wd_targetUrl = wi_targetUrl input, wd_eventType = wi_eventType input, wd_payload = wi_payload input,
            wd_status = Dlv_PENDING, wd_attempts = 0, wd_nextAttemptAt = now e, wd_lastStatusCode = None,
            wd_lastError = None, wd_deliveredAt = None, wd_createdAt = now e\<rparr>;
          d3 = drawn (d2\<lparr>webhookDeliveries := webhookDeliveries d2 @ [delivery]\<rparr>);
          d4 = d3\<lparr>backgroundJobs := set_by bj_uuid (bj_uuid job)
            (\<lambda>j. j\<lparr>bj_relatedEntityId := Some (wd_uuid delivery),
                   bj_payload := JObj ([(''eventId'', jor_null (wi_eventId input)),
                     (''queueEventId'', JStr (de_uuid event)), (''sourceJobId'', jor_null (wi_jobId input)),
                     (''deliveryId'', JStr (wd_uuid delivery))] @ webhookPayload input)\<rparr>) (backgroundJobs d3)\<rparr>
      in (JObj [(''id'', JStr (wd_uuid delivery)), (''jobId'', JStr (bj_uuid job)),
                (''eventId'', JStr (de_uuid event)), (''status'', JStr ''PENDING''),
                (''eventType'', JStr (wd_eventType delivery)),
                (''idempotencyKey'', JStr (''whd_'' @ wd_uuid delivery)),
                (''nextAttemptAt'', JStr (toISOString (wd_nextAttemptAt delivery))),
                (''pollingUrl'', JStr (''/jobs/'' @ bj_uuid job))], d4))"

record notification_input =
  ni_jobId :: "string option"
  ni_institutionId :: "string option"
  ni_learnerId :: "string option"
  ni_userId :: "string option"
  ni_channel :: notification_channel
  ni_type :: string
  ni_title :: string
  ni_body :: string
  ni_payload :: jval

fun channel_text :: "notification_channel \<Rightarrow> string" where
  "channel_text PUSH = ''PUSH''"
| "channel_text EMAIL = ''EMAIL''"
| "channel_text SMS = ''SMS''"
| "channel_text WEBHOOK = ''WEBHOOK''"

definition enqueueNotification :: "env \<Rightarrow> db \<Rightarrow> notification_input \<Rightarrow> jval \<times> db" where
  "enqueueNotification e d input =
     (let n = \<lparr>nt_uuid = fresh e d, nt_jobId = ni_jobId input, nt_institutionId = ni_institutionId input,
            nt_learnerId = ni_learnerId input, nt_userId = ni_userId input, nt_channel = ni_channel input,
            nt_type = ni_type input, nt_title = ni_title input, nt_body = ni_body input,
            nt_payload = ni_payload input, nt_status = Ntf_PENDING, nt_sentAt = None, nt_failedAt = None,
            nt_error = None\<rparr>
      in (JObj [(''id'', JStr (nt_uuid n)), (''status'', JStr ''PENDING''),
                (''channel'', JStr (channel_text (nt_channel n))), (''type'', JStr (nt_type n))],
          drawn (d\<lparr>notifications := notifications d @ [n]\<rparr>)))"

section \<open>Reading a job\<close>

definition assertCanReadJob :: "db \<Rightarrow> auth_token \<Rightarrow> background_job \<Rightarrow> unit res" where
  "assertCanReadJob d auth job =
     (if au_role auth = ACADID_SUPER_ADMIN then Inr ()
      else if truthy_text (bj_institutionId job)
      then assertActorCanOperateInstitution d auth (getOr (bj_institutionId job) [])
      else if au_kind auth \<noteq> Some API_KEY \<and> bj_createdById job = Some (au_sub auth) then Inr ()
      else Inl (Forbidden ''You do not have access to this job.''))"

text \<open>The job row stands for the view of it; its last ten events and notifications come with it.\<close>

definition readJob :: "db \<Rightarrow> auth_token \<Rightarrow> string \<Rightarrow> (background_job \<times> domain_event list \<times> notification list) res" where
  "readJob d auth i =
     bindE (require (find_by bj_uuid i (backgroundJobs d)) (BadRequest ''Job not found.'')) (\<lambda>job.
     bindE (assertCanReadJob d auth job) (\<lambda>_.
     Inr (job,
       take 10 (rev (filter (\<lambda>v. de_jobId v = Some i) (domainEvents d))),
       take 10 (rev (filter (\<lambda>n. nt_jobId n = Some i) (notifications d))))))"

section \<open>Jobs are created once\<close>

lemma createJob_frame: "idempotencyRecords (snd (createJob e input d)) = idempotencyRecords d"
  by (simp add: createJob_def addJob_def addEvent_def drawn_def Let_def)

interpretation job_handler: idempotent_handler "createJob e input" for e input
  by unfold_locales (rule createJob_frame)

text \<open>SHA-256 in hexadecimal: 64 lower case digits.\<close>

definition hex_digest :: "(string \<Rightarrow> string) \<Rightarrow> bool" where
  "hex_digest h \<longleftrightarrow> (\<forall>s. length (h s) = 64 \<and> list_all (\<lambda>c. is_digit c \<or> c \<in> set ''abcdef'') (h s))"

lemma hex_not_space: "is_digit c \<or> c \<in> set ''abcdef'' \<Longrightarrow> \<not> is_space c \<and> key_char c"
proof (elim disjE)
  assume "is_digit c"
  then show ?thesis by (simp add: is_digit_def is_space_def key_char_def)
next
  assume "c \<in> set ''abcdef''"
  then show ?thesis by (simp add: is_space_def key_char_def is_alpha_def) (elim disjE; simp)
qed

lemma trim_id:
  assumes "s \<noteq> []" and "\<not> is_space (hd s)" and "\<not> is_space (last s)"
  shows "trim s = s"
proof -
  have "dropWhile is_space s = s" using assms(1,2) by (cases s) auto
  moreover have "dropWhile is_space (rev s) = rev s" using assms(1,3) by (cases s rule: rev_cases) auto
  ultimately show ?thesis by (simp add: trim_def)
qed

lemma normaliseKey_auto:
  assumes "hex_digest h"
  shows "normaliseKey (''auto:'' @ h s) = Inr (''auto:'' @ h s)"
proof -
  from assms have len: "length (h s) = 64" and hex: "list_all (\<lambda>c. is_digit c \<or> c \<in> set ''abcdef'') (h s)"
    by (auto simp: hex_digest_def)
  have chars: "\<forall>c \<in> set (h s). \<not> is_space c \<and> key_char c"
    using hex hex_not_space by (simp add: list_all_iff)
  have "h s \<noteq> []" using len by auto
  then have "\<not> is_space (last (''auto:'' @ h s))" using chars by simp
  moreover have "\<not> is_space (hd (''auto:'' @ h s))" by (simp add: is_space_def)
  ultimately have "trim (''auto:'' @ h s) = ''auto:'' @ h s" by (intro trim_id) simp_all
  moreover have "list_all key_char (''auto:'' @ h s)"
    using chars by (simp add: list_all_iff key_char_def is_alpha_def)
  ultimately show ?thesis using len by (simp add: normaliseKey_def Let_def)
qed

lemma jobRequest_text: "\<exists>text. stableStringify collate (jobRequest input) = Some text"
  by (simp add: jobRequest_def)

text \<open>The key hash under which a protected job is recorded.\<close>

definition job_key_hash :: "(string \<Rightarrow> 'k::linorder) \<Rightarrow> env \<Rightarrow> enqueue_input \<Rightarrow> string" where
  "job_key_hash collate e input = sha256 e (getOr (autoIdempotencyKey collate e input) [])"

definition find_job_record ::
    "(string \<Rightarrow> 'k::linorder) \<Rightarrow> env \<Rightarrow> enqueue_input \<Rightarrow> db \<Rightarrow> idempotency_record option" where
  "find_job_record collate e input d =
     List.find (same_key (ip_scope (jobInput input [])) (job_key_hash collate e input)) (idempotencyRecords d)"

lemma enqueue_protected:
  assumes "ej_type input \<in> set protectedTypes" and "ej_idempotencyKey input = None"
  shows "enqueueJob collate e d input =
    execute collate e d (jobInput input (getOr (autoIdempotencyKey collate e input) [])) (createJob e input) responseJobId"
  using assms by (simp add: enqueueJob_def autoIdempotencyKey_def truthy_text_def Let_def)

lemma accepted_replay:
  "replayed (Inr (toJobAcceptedResponse job i)) = Inr (toJobAcceptedResponse job i)"
  by (simp add: replayed_def toJobAcceptedResponse_def truthy_def)

text \<open>What enqueuing adds to the table of jobs.\<close>

lemma execute_jobs:
  "execute collate e d input (createJob e job) jobId = (r, d1) \<Longrightarrow>
     backgroundJobs d1 = backgroundJobs d \<or> (\<exists>d0. backgroundJobs d1 = backgroundJobs d @ [newJob e d0 job])"
  by (auto simp: execute_def Let_def createRecord_def err_simps createJob_def addJob_def addEvent_def drawn_def
      split: sum.splits option.splits prod.splits if_splits)

lemma enqueued_job:
  assumes "enqueueJob collate e d input = (r, d1)" and "job \<in> set (backgroundJobs d1)" and "job \<notin> set (backgroundJobs d)"
  shows "\<exists>d0. job = newJob e d0 input"
proof (cases "truthy_text (orElse (ej_idempotencyKey input) (autoIdempotencyKey collate e input))")
  case True
  with assms(1) have "execute collate e d (jobInput input (getOr (orElse (ej_idempotencyKey input)
      (autoIdempotencyKey collate e input)) [])) (createJob e input) responseJobId = (r, d1)"
    by (simp add: enqueueJob_def Let_def)
  from execute_jobs [OF this] assms(2,3) show ?thesis by auto
next
  case False
  with assms have "backgroundJobs d1 = backgroundJobs d @ [newJob e d input]"
    by (auto simp: enqueueJob_def Let_def createJob_def addJob_def addEvent_def drawn_def)
  with assms(2,3) show ?thesis by auto
qed

lemma newJob_same:
  "bj_createdById (newJob e d j) = bj_createdById (newJob e' d' j)" "bj_payload (newJob e d j) = bj_payload (newJob e' d' j)"
  by (simp_all add: newJob_def)

lemma first_keyed:
  assumes "normaliseKey key = Inr k" and "key \<noteq> []" and "ej_idempotencyKey job = Some key" and "idempotencyRecords d = []"
  shows "\<exists>v d1 d0. enqueueJob collate e d job = (Inr v, d1) \<and> newJob e d0 job \<in> set (backgroundJobs d1)"
proof -
  obtain w where w: "stableStringify collate (jobRequest job) = Some w" using jobRequest_text by blast
  obtain r d0 where create: "createRecord e d (jobInput job key) (sha256 e k) (sha256 e w) = Inr (r, d0)"
    using assms(4) by (auto simp: createRecord_def Let_def)
  have "newJob e d0 job \<in> set (backgroundJobs (snd (createJob e job d0)))" "\<exists>v. fst (createJob e job d0) = Inr v"
    by (simp_all add: createJob_def Let_def addEvent_def addJob_def drawn_def)
  then obtain v d2 where run: "createJob e job d0 = (Inr v, d2)" "newJob e d0 job \<in> set (backgroundJobs d2)"
    by (metis prod.collapse)
  with w create assms show ?thesis
    by (auto simp: enqueueJob_def orElse_def getOr_def truthy_text_def execute_def jobInput_def Let_def)
qed


section \<open>Witness\<close>

definition digest_env :: env where
  "digest_env = sample_env\<lparr>sha256 := \<lambda>s. replicate 64 (CHR ''a'')\<rparr>"

definition sample_job :: "(string \<times> jval) list \<Rightarrow> enqueue_input" where
  "sample_job ob = plain_job PAYSTACK_PAYMENT_CONFIRMATION None (JObj ob)"


end
