(* ===== verification/RateLimit.thy ===== *)
theory RateLimit
  imports Sample
begin

text \<open>
  \<open>platform/services/rate-limit.service.ts\<close>: fixed windows counted in buckets of the database, the
  policy control stored as a platform setting (normalised, and cached by the service for 15 seconds),
  and the key of a request. SHA-256 and the clock are fields of the environment.
\<close>

section \<open>Policy control\<close>

record emergency =
  em_enabled :: bool
  em_limitPerMinute :: int
  em_reason :: "string option"

record scope_override =
  ov_limit :: int
  ov_windowSeconds :: int

record policy_control =
  pc_emergency :: emergency
  pc_productDefaultsPerMinute :: "(string \<times> int) list"
  pc_sandbox :: int
  pc_production :: int
  pc_institutionOverridesPerMinute :: "(string \<times> int) list"
  pc_scopeOverrides :: "(string \<times> scope_override) list"

definition defaultRateLimitPolicyControl :: policy_control where
  "defaultRateLimitPolicyControl = \<lparr>
     pc_emergency = \<lparr>em_enabled = False, em_limitPerMinute = 60, em_reason = None\<rparr>,
     pc_productDefaultsPerMinute = [(''INSTITUTION_PORTAL'', 1000), (''STUDENT_APP'', 2000),
       (''EMPLOYER_VERIFICATION_PORTAL'', 1500), (''EXAM_BODY_API'', 2000)],
     pc_sandbox = 500, pc_production = 2000, pc_institutionOverridesPerMinute = [],
     pc_scopeOverrides = []\<rparr>"

definition asNumberOpt :: "jval \<Rightarrow> jsnum option" where
  "asNumberOpt v = (case v of JNum n \<Rightarrow> Some n | JStr s \<Rightarrow> Some (Number_of s) | _ \<Rightarrow> None)"

definition put_number :: "(string \<times> int) list \<Rightarrow> int \<Rightarrow> int \<Rightarrow> string \<times> jval \<Rightarrow> (string \<times> int) list \<Rightarrow> (string \<times> int) list" where
  "put_number fallback lo hi entry result =
     (let cleanKey = trim (fst entry) in
      if cleanKey = [] then result
      else set_prop cleanKey
        (clampNumber (asNumberOpt (snd entry)) lo hi
           (getOr (orElse (map_of result cleanKey) (map_of fallback cleanKey)) lo)) result)"

definition normaliseNumberRecord :: "jval \<Rightarrow> (string \<times> int) list \<Rightarrow> int \<Rightarrow> int \<Rightarrow> (string \<times> int) list" where
  "normaliseNumberRecord v fallback lo hi = fold (put_number fallback lo hi) (asRecord v) fallback"

definition put_override :: "string \<times> jval \<Rightarrow> (string \<times> scope_override) list \<Rightarrow> (string \<times> scope_override) list" where
  "put_override entry result =
     (case snd entry of
        JObj record \<Rightarrow>
          (if trim (fst entry) = [] then result
           else set_prop (trim (fst entry))
             \<lparr>ov_limit = clampNumber (asNumberOpt (getProp record ''limit'')) 1 100000 100,
              ov_windowSeconds = clampNumber (asNumberOpt (getProp record ''windowSeconds'')) 1 3600 60\<rparr> result)
      | _ \<Rightarrow> result)"

definition normaliseScopeOverrides :: "jval \<Rightarrow> (string \<times> scope_override) list" where
  "normaliseScopeOverrides v = fold put_override (asRecord v) []"

definition normalisePolicyControl :: "jval \<Rightarrow> policy_control" where
  "normalisePolicyControl v =
     (let source = asRecord v;
          emergencySource = asRecord (getProp source ''emergency'');
          institutionDefaults = asRecord (getProp source ''institutionDefaultsPerMinute'')
      in \<lparr>pc_emergency = \<lparr>em_enabled = (getProp emergencySource ''enabled'' = JBool True),
            em_limitPerMinute = clampNumber (asNumberOpt (getProp emergencySource ''limitPerMinute'')) 1 100000
              (em_limitPerMinute (pc_emergency defaultRateLimitPolicyControl)),
            em_reason = map_option (take 500) (asString (getProp emergencySource ''reason''))\<rparr>,
          pc_productDefaultsPerMinute = normaliseNumberRecord (getProp source ''productDefaultsPerMinute'')
            (pc_productDefaultsPerMinute defaultRateLimitPolicyControl) 1 100000,
          pc_sandbox = clampNumber (asNumberOpt (getProp institutionDefaults ''sandbox'')) 1 100000
            (pc_sandbox defaultRateLimitPolicyControl),
          pc_production = clampNumber (asNumberOpt (getProp institutionDefaults ''production'')) 1 100000
            (pc_production defaultRateLimitPolicyControl),
          pc_institutionOverridesPerMinute =
            normaliseNumberRecord (getProp source ''institutionOverridesPerMinute'') [] 1 100000,
          pc_scopeOverrides = normaliseScopeOverrides (getProp source ''scopeOverrides'')\<rparr>)"

text \<open>The service keeps the control it read and the instant at which it forgets it.\<close>

type_synonym policy_cache = "(policy_control \<times> int) option"

definition readPolicyControl :: "env \<Rightarrow> db \<Rightarrow> policy_cache \<Rightarrow> policy_control \<times> policy_cache" where
  "readPolicyControl e d cache =
     (case cache of
        Some (v, expiresAt) \<Rightarrow>
          (if expiresAt > now e then (v, cache)
           else let v = normalisePolicyControl (getOr (rateLimitSetting d) JUndef)
                in (v, Some (v, now e + 15000)))
      | None \<Rightarrow>
          let v = normalisePolicyControl (getOr (rateLimitSetting d) JUndef)
          in (v, Some (v, now e + 15000)))"

definition clearPolicyCache :: "policy_cache \<Rightarrow> policy_cache" where
  "clearPolicyCache cache = None"

definition applyEmergencyCap :: "int \<Rightarrow> policy_control \<Rightarrow> int" where
  "applyEmergencyCap limit policy =
     (if \<not> em_enabled (pc_emergency policy) then limit
      else min limit (em_limitPerMinute (pc_emergency policy)))"

section \<open>Buckets\<close>

definition hashKey :: "env \<Rightarrow> string \<Rightarrow> string" where
  "hashKey e key = sha256 e key"

definition windowStart :: "env \<Rightarrow> int \<Rightarrow> int" where
  "windowStart e windowSeconds = now e div (windowSeconds * 1000) * windowSeconds * 1000"

definition same_bucket :: "string \<Rightarrow> string \<Rightarrow> int \<Rightarrow> rate_bucket \<Rightarrow> bool" where
  "same_bucket scope keyHash t b \<longleftrightarrow> rt_scope b = scope \<and> rt_keyHash b = keyHash \<and> rt_windowStart b = t"

definition hitBucket :: "int \<Rightarrow> int \<Rightarrow> int \<Rightarrow> rate_bucket \<Rightarrow> rate_bucket" where
  "hitBucket t limit windowSeconds b =
     b\<lparr>rt_count := rt_count b + 1, rt_limit := limit, rt_windowSeconds := windowSeconds, rt_lastRequestAt := t\<rparr>"

definition newBucket :: "int \<Rightarrow> string \<Rightarrow> string \<Rightarrow> int \<Rightarrow> int \<Rightarrow> int \<Rightarrow> rate_bucket" where
  "newBucket t scope keyHash start windowSeconds limit =
     \<lparr>rt_scope = scope, rt_keyHash = keyHash, rt_windowStart = start, rt_windowSeconds = windowSeconds,
      rt_count = 1, rt_limit = limit, rt_firstRequestAt = t, rt_lastRequestAt = t\<rparr>"

record rate_result =
  ra_scope :: string
  ra_count :: int
  ra_limit :: int
  ra_remaining :: int
  ra_resetAt :: int

text \<open>The count is written even when the request is refused.\<close>

definition assertAllowed ::
    "env \<Rightarrow> db \<Rightarrow> string \<Rightarrow> string \<Rightarrow> int \<Rightarrow> int option \<Rightarrow> rate_result res \<times> db" where
  "assertAllowed e d scope key limit windowSecondsOpt =
     (let windowSeconds = getOr windowSecondsOpt 60;
          start = windowStart e windowSeconds;
          keyHash = hashKey e key;
          hit = same_bucket scope keyHash start;
          (bucket, rows) =
            (case List.find hit (rateLimitBuckets d) of
               Some b \<Rightarrow> (hitBucket (now e) limit windowSeconds b,
                          update_rows hit (hitBucket (now e) limit windowSeconds) (rateLimitBuckets d))
             | None \<Rightarrow> (newBucket (now e) scope keyHash start windowSeconds limit,
                        rateLimitBuckets d @ [newBucket (now e) scope keyHash start windowSeconds limit]));
          resetAt = rt_windowStart bucket + rt_windowSeconds bucket * 1000;
          d' = d\<lparr>rateLimitBuckets := rows\<rparr>
      in if rt_count bucket > rt_limit bucket
         then (Inl (TooManyRequests scope (rt_limit bucket)
                 (max 1 (- ((now e - resetAt) div 1000))) resetAt), d')
         else (Inr \<lparr>ra_scope = scope, ra_count = rt_count bucket, ra_limit = rt_limit bucket,
                    ra_remaining = max 0 (rt_limit bucket - rt_count bucket), ra_resetAt = resetAt\<rparr>, d'))"

definition clampHoursTo :: "jsnum option \<Rightarrow> int \<Rightarrow> int" where
  "clampHoursTo v hi = clampNumber v 1 hi 24"

definition cleanupExpiredBuckets :: "env \<Rightarrow> db \<Rightarrow> jsnum option \<Rightarrow> (int \<times> int \<times> nat) \<times> db" where
  "cleanupExpiredBuckets e d olderThanHoursOpt =
     (let olderThanHours = clampHoursTo olderThanHoursOpt 720;
          cutoff = now e - olderThanHours * 60 * 60 * 1000;
          kept = filter (\<lambda>b. \<not> rt_windowStart b < cutoff) (rateLimitBuckets d)
      in ((cutoff, olderThanHours, length (rateLimitBuckets d) - length kept), d\<lparr>rateLimitBuckets := kept\<rparr>))"

section \<open>Requests\<close>

datatype header = One string | Many "string list"

record http_request =
  hr_headers :: "(string \<times> header) list"
  hr_body :: jval
  hr_ip :: "string option"
  hr_remoteAddress :: "string option"
  hr_auth :: "auth_token option"

datatype key_strategy = By_ip | By_auth | By_ip_and_body

record rate_limit_policy =
  po_scope :: string
  po_limit :: int
  po_windowSeconds :: "int option"
  po_key :: "key_strategy option"
  po_bodyField :: "string option"

definition firstHeader :: "header option \<Rightarrow> string option" where
  "firstHeader v =
     (case v of None \<Rightarrow> None | Some (One s) \<Rightarrow> Some s
      | Some (Many xs) \<Rightarrow> (case xs of [] \<Rightarrow> None | x # _ \<Rightarrow> Some x))"

definition ipAddress :: "http_request \<Rightarrow> string" where
  "ipAddress request =
     (let forwarded = map_option (\<lambda>h. trim (hd (split_on (CHR '','') h)))
            (firstHeader (map_of (hr_headers request) ''x-forwarded-for''))
      in getOr (or_text forwarded
           (or_text (firstHeader (map_of (hr_headers request) ''x-real-ip''))
             (or_text (hr_ip request) (or_text (hr_remoteAddress request) (Some ''unknown''))))) ''unknown'')"

definition readBodyField :: "jval \<Rightarrow> string \<Rightarrow> string" where
  "readBodyField body field =
     (case body of
        JObj record \<Rightarrow> (case getProp record field of JStr s \<Rightarrow> take 254 (toLowerCase (trim s)) | _ \<Rightarrow> [])
      | _ \<Rightarrow> [])"

definition keyForRequest :: "http_request \<Rightarrow> rate_limit_policy \<Rightarrow> string" where
  "keyForRequest request policy =
     (case getOr (po_key policy) By_ip of
        By_auth \<Rightarrow>
          (case hr_auth request of
             Some a \<Rightarrow>
               (if truthy_text (au_apiKeyId a) then ''api-key:'' @ getOr (au_apiKeyId a) []
                else if au_sub a \<noteq> [] then ''user:'' @ au_sub a
                else ''ip:'' @ ipAddress request)
           | None \<Rightarrow> ''ip:'' @ ipAddress request)
      | By_ip_and_body \<Rightarrow>
          (let bodyValue = (if truthy_text (po_bodyField policy)
                 then readBodyField (hr_body request) (getOr (po_bodyField policy) []) else [])
           in ''ip-body:'' @ ipAddress request @ '':'' @ (if bodyValue = [] then ''none'' else bodyValue))
      | By_ip \<Rightarrow> ''ip:'' @ ipAddress request)"

section \<open>Checks of a request\<close>

definition effectiveRequestPolicy :: "policy_control \<Rightarrow> rate_limit_policy \<Rightarrow> string \<times> int \<times> int" where
  "effectiveRequestPolicy control policy =
     (let override = map_of (pc_scopeOverrides control) (po_scope policy);
          limit = getOr (map_option ov_limit override) (po_limit policy);
          windowSeconds = getOr (orElse (map_option ov_windowSeconds override) (po_windowSeconds policy)) 60
      in (po_scope policy, applyEmergencyCap limit control, windowSeconds))"

definition assertRequestAllowed ::
    "env \<Rightarrow> db \<times> policy_cache \<Rightarrow> http_request \<Rightarrow> rate_limit_policy \<Rightarrow>
     rate_result res \<times> db \<times> policy_cache" where
  "assertRequestAllowed e st request policy =
     (let (d, cache) = st;
          (control, cache') = readPolicyControl e d cache;
          (scope, limit, windowSeconds) = effectiveRequestPolicy control policy;
          (result, d') = assertAllowed e d scope (keyForRequest request policy) limit (Some windowSeconds)
      in (result, d', cache'))"

definition apiKeyLimitFromPolicy :: "auth_token \<Rightarrow> policy_control \<Rightarrow> int option" where
  "apiKeyLimitFromPolicy auth policy =
     (if au_ownerIsProduct auth \<and> truthy_text (au_productCode auth)
      then orElse (map_of (pc_productDefaultsPerMinute policy) (getOr (au_productCode auth) []))
             (au_rateLimitPerMinute auth)
      else
        let overrides = map_of (pc_institutionOverridesPerMinute policy);
            overrideOf = (\<lambda>x. if truthy_text x then overrides (getOr x []) else None);
            institutionOverride = orElse (overrideOf (au_institutionUuid auth)) (overrideOf (au_institutionId auth))
        in if institutionOverride \<noteq> None \<and> institutionOverride \<noteq> Some 0 then institutionOverride
           else Some (getOr (au_rateLimitPerMinute auth) (pc_sandbox policy)))"

text \<open>\<open>None\<close> stands for the null of a caller that is not an API key or has no limit.\<close>

definition assertApiKeyAllowed ::
    "env \<Rightarrow> db \<times> policy_cache \<Rightarrow> auth_token \<Rightarrow> rate_result option res \<times> db \<times> policy_cache" where
  "assertApiKeyAllowed e st auth =
     (let (d, cache) = st in
      if au_kind auth \<noteq> Some API_KEY \<or> \<not> truthy_text (au_apiKeyId auth) then (Inr None, d, cache)
      else
        let (policy, cache') = readPolicyControl e d cache;
            configured = apiKeyLimitFromPolicy auth policy
        in if configured = None \<or> configured = Some 0 then (Inr None, d, cache')
           else
             let (result, d') = assertAllowed e d ''api-key.global''
                   (''api-key:'' @ getOr (au_apiKeyId auth) [])
                   (applyEmergencyCap (getOr configured 0) policy) (Some 60)
             in (map_sum id Some result, d', cache'))"

text \<open>\<open>guards/rate-limit.guard.ts\<close>: a handler without a policy is not limited.\<close>

definition canActivate ::
    "env \<Rightarrow> db \<times> policy_cache \<Rightarrow> http_request \<Rightarrow> rate_limit_policy option \<Rightarrow>
     (string \<times> string) list res \<times> db \<times> policy_cache" where
  "canActivate e st request policy =
     (case policy of
        None \<Rightarrow> (Inr [], st)
      | Some p \<Rightarrow>
          let (result, st') = assertRequestAllowed e st request p
          in (bindE result (\<lambda>r. Inr [(''X-RateLimit-Limit'', show_int (ra_limit r)),
                (''X-RateLimit-Remaining'', show_int (ra_remaining r)),
                (''X-RateLimit-Reset'', toISOString (ra_resetAt r))]), st'))"

section \<open>Counting\<close>

text \<open>The bucket of a call and what the database has counted in it.\<close>

definition counted :: "db \<Rightarrow> string \<times> string \<times> int \<Rightarrow> int" where
  "counted d k = (case k of (scope, keyHash, t) \<Rightarrow>
     (case List.find (same_bucket scope keyHash t) (rateLimitBuckets d) of None \<Rightarrow> 0 | Some b \<Rightarrow> rt_count b))"

record rate_call =
  rc_env :: env
  rc_scope :: string
  rc_key :: string
  rc_limit :: int
  rc_windowSeconds :: "int option"

definition bucket_of :: "rate_call \<Rightarrow> string \<times> string \<times> int" where
  "bucket_of c = (rc_scope c, hashKey (rc_env c) (rc_key c),
     windowStart (rc_env c) (getOr (rc_windowSeconds c) 60))"

definition do_call :: "rate_call \<Rightarrow> db \<Rightarrow> rate_result res \<times> db" where
  "do_call c d = assertAllowed (rc_env c) d (rc_scope c) (rc_key c) (rc_limit c) (rc_windowSeconds c)"

fun serve :: "rate_call list \<Rightarrow> db \<Rightarrow> (rate_call \<times> bool) list \<times> db" where
  "serve [] d = ([], d)"
| "serve (c # cs) d =
     (let (r, d') = do_call c d; (rest, d'') = serve cs d' in ((c, \<not> isl r) # rest, d''))"

lemma find_update_rows:
  assumes "\<And>b. q (f b) \<longleftrightarrow> q b"
  shows "List.find q (update_rows p f rows) =
    map_option (\<lambda>b. if p b then f b else b) (List.find q rows)"
  using assms by (induction rows) auto

lemma same_bucket_hit [simp]: "same_bucket s h t (hitBucket n l w b) = same_bucket s h t b"
  by (simp add: same_bucket_def hitBucket_def)

text \<open>One call raises the count of its own bucket by one, leaves all others, and passes exactly when the
  new count is within its limit.\<close>

lemma do_call_counted:
  "counted (snd (do_call c d)) k = counted d k + (if bucket_of c = k then 1 else 0)"
proof -
  obtain s h t where k: "k = (s, h, t)" by (cases k)
  let ?q = "same_bucket (rc_scope c) (hashKey (rc_env c) (rc_key c))
    (windowStart (rc_env c) (getOr (rc_windowSeconds c) 60))"
  show ?thesis
  proof (cases "List.find ?q (rateLimitBuckets d)")
    case None
    then show ?thesis
      by (auto simp: k counted_def do_call_def assertAllowed_def Let_def bucket_of_def find_append
          newBucket_def same_bucket_def split: option.splits)
  next
    case (Some b)
    from find_Some_in [OF Some] show ?thesis using Some
      by (cases "List.find (same_bucket s h t) (rateLimitBuckets d)")
        (auto simp: k counted_def do_call_def assertAllowed_def Let_def bucket_of_def find_update_rows
          hitBucket_def same_bucket_def dest: find_Some_in)
  qed
qed

lemma do_call_passes:
  "\<not> isl (fst (do_call c d)) \<longleftrightarrow> counted d (bucket_of c) + 1 \<le> rc_limit c"
  by (auto simp: do_call_def assertAllowed_def Let_def counted_def bucket_of_def newBucket_def hitBucket_def
      split: option.splits)

lemma serve_bound:
  assumes "\<forall>c \<in> set cs. bucket_of c = k \<longrightarrow> rc_limit c \<le> L"
  shows "counted d k + int (length (filter (\<lambda>(c, ok). bucket_of c = k \<and> ok) (fst (serve cs d)))) \<le>
    max (counted d k) L"
  using assms
proof (induction cs arbitrary: d)
  case Nil
  then show ?case by simp
next
  case (Cons c cs)
  obtain r d' where call: "do_call c d = (r, d')" by (cases "do_call c d")
  have count: "counted d' k = counted d k + (if bucket_of c = k then 1 else 0)"
    using do_call_counted [of c d k] call by simp
  have pass: "\<not> isl r \<longleftrightarrow> counted d (bucket_of c) + 1 \<le> rc_limit c"
    using do_call_passes [of c d] call by simp
  have IH: "counted d' k + int (length (filter (\<lambda>(c, ok). bucket_of c = k \<and> ok) (fst (serve cs d')))) \<le>
    max (counted d' k) L" using Cons by simp
  have "rc_limit c \<le> L" if "bucket_of c = k" using Cons.prems that by simp
  with IH count pass show ?case by (auto simp: call Let_def split: prod.splits if_splits)
qed

text \<open>C38. In one window of one key, at most the limit passes, whatever calls with other keys, scopes or
  windows come in between; and a call is refused only when the window already holds as many calls as
  its limit allows.\<close>

theorem rate_limit_window:
  assumes "\<forall>c \<in> set cs. bucket_of c = k \<longrightarrow> rc_limit c \<le> L" and "counted d k \<le> 0" and "0 \<le> L"
  shows "int (length (filter (\<lambda>(c, ok). bucket_of c = k \<and> ok) (fst (serve cs d)))) \<le> L - counted d k \<and>
    (\<forall>c d1. isl (fst (do_call c d1)) \<longleftrightarrow> rc_limit c \<le> counted d1 (bucket_of c))"
proof (intro conjI allI)
  show "int (length (filter (\<lambda>(c, ok). bucket_of c = k \<and> ok) (fst (serve cs d)))) \<le> L - counted d k"
    using serve_bound [OF assms(1), of d] assms(2,3) by simp
  show "isl (fst (do_call c d1)) \<longleftrightarrow> rc_limit c \<le> counted d1 (bucket_of c)" for c d1
    using do_call_passes [of c d1] by linarith
qed

lemma serve_distinct:
  assumes "distinct (map bucket_of cs)" and "\<forall>c \<in> set cs. counted d (bucket_of c) = 0 \<and> 1 \<le> rc_limit c"
  shows "\<forall>(c, ok) \<in> set (fst (serve cs d)). ok"
  using assms
proof (induction cs arbitrary: d)
  case Nil
  then show ?case by simp
next
  case (Cons c cs)
  obtain r d' where call: "do_call c d = (r, d')" by (cases "do_call c d")
  have "\<not> isl r" using do_call_passes [of c d] call Cons.prems by simp
  moreover have "\<forall>c' \<in> set cs. counted d' (bucket_of c') = 0 \<and> 1 \<le> rc_limit c'"
  proof
    fix c'
    assume c': "c' \<in> set cs"
    with Cons.prems(1) have "bucket_of c \<noteq> bucket_of c'" by (auto simp: image_iff)
    with do_call_counted [of c d "bucket_of c'"] call have "counted d' (bucket_of c') = counted d (bucket_of c')"
      by simp
    with Cons.prems(2) c' show "counted d' (bucket_of c') = 0 \<and> 1 \<le> rc_limit c'" by simp
  qed
  ultimately show ?case using Cons by (auto simp: call Let_def split: prod.splits)
qed

definition with_forwarded :: "http_request \<Rightarrow> string \<Rightarrow> http_request" where
  "with_forwarded request address =
     request\<lparr>hr_headers := (''x-forwarded-for'', One address) # hr_headers request\<rparr>"

definition address_text :: "string \<Rightarrow> bool" where
  "address_text a \<longleftrightarrow> a \<noteq> [] \<and> CHR '','' \<notin> set a \<and> trim a = a"

lemma ipAddress_forwarded: "address_text a \<Longrightarrow> ipAddress (with_forwarded request a) = a"
  by (simp add: ipAddress_def with_forwarded_def address_text_def firstHeader_def or_text_def split_on_no_sep)

text \<open>The limit by address can be evaded: the address is taken from the first entry of the
  X-Forwarded-For header that the client sends, so a client that writes another address into each
  request is never refused, however many requests it sends in a window.\<close>

theorem forwarded_address_evades_limit:
  assumes "inj (sha256 e)" and "distinct addresses" and "\<forall>a \<in> set addresses. address_text a"
    and "po_key policy = None" and "1 \<le> po_limit policy" and "rateLimitBuckets d = []"
    and "calls = map (\<lambda>a. \<lparr>rc_env = e, rc_scope = po_scope policy,
           rc_key = keyForRequest (with_forwarded request a) policy, rc_limit = po_limit policy,
           rc_windowSeconds = po_windowSeconds policy\<rparr>) addresses"
  shows "\<forall>(c, ok) \<in> set (fst (serve calls d)). ok"
proof (rule serve_distinct)
  have key: "keyForRequest (with_forwarded request a) policy = ''ip:'' @ a" if "a \<in> set addresses" for a
    using assms(3,4) that ipAddress_forwarded by (simp add: keyForRequest_def)
  have "distinct (map (\<lambda>a. (po_scope policy, sha256 e (''ip:'' @ a),
      windowStart e (getOr (po_windowSeconds policy) 60))) addresses)"
    using assms(1,2) by (auto simp: distinct_map inj_on_def dest: injD)
  moreover have "map bucket_of calls = map (\<lambda>a. (po_scope policy, sha256 e (''ip:'' @ a),
      windowStart e (getOr (po_windowSeconds policy) 60))) addresses"
    unfolding assms(7) using key by (simp add: bucket_of_def hashKey_def)
  ultimately show "distinct (map bucket_of calls)" by simp
  show "\<forall>c \<in> set calls. counted d (bucket_of c) = 0 \<and> 1 \<le> rc_limit c"
    using assms(5,6) unfolding assms(7) by (auto simp: counted_def bucket_of_def)
qed

section \<open>Ranges of the policy control\<close>

lemma set_set_prop: "set (set_prop k v ob) \<subseteq> insert (k, v) (set ob)"
  by (induction ob) (auto split: if_splits)

lemma put_number_range:
  assumes "\<forall>(k, n) \<in> set result. lo \<le> n \<and> n \<le> hi" and "\<forall>(k, n) \<in> set fallback. lo \<le> n \<and> n \<le> hi"
    and "lo \<le> hi"
  shows "\<forall>(k, n) \<in> set (put_number fallback lo hi entry result). lo \<le> n \<and> n \<le> hi"
proof -
  have start: "lo \<le> getOr (orElse (map_of result c) (map_of fallback c)) lo \<and>
      getOr (orElse (map_of result c) (map_of fallback c)) lo \<le> hi" for c
    using assms by (cases "map_of result c"; cases "map_of fallback c") (force dest: map_of_SomeD)+
  then have new: "lo \<le> clampNumber v lo hi (getOr (orElse (map_of result c) (map_of fallback c)) lo) \<and>
      clampNumber v lo hi (getOr (orElse (map_of result c) (map_of fallback c)) lo) \<le> hi" for v c
    using clampNumber_bounds [OF assms(3)] by blast
  have "case x of (k, n) \<Rightarrow> lo \<le> n \<and> n \<le> hi" if "x \<in> set (put_number fallback lo hi entry result)" for x
    using that assms(1) new unfolding put_number_def Let_def
    by (auto split: if_splits dest!: subsetD [OF set_set_prop])
  then show ?thesis by blast
qed

lemma normaliseNumberRecord_range:
  assumes "\<forall>(k, n) \<in> set fallback. lo \<le> n \<and> n \<le> hi" and "lo \<le> hi"
  shows "\<forall>(k, n) \<in> set (normaliseNumberRecord v fallback lo hi). lo \<le> n \<and> n \<le> hi"
proof -
  have "\<forall>(k, n) \<in> set (fold (put_number fallback lo hi) entries result). lo \<le> n \<and> n \<le> hi"
    if "\<forall>(k, n) \<in> set result. lo \<le> n \<and> n \<le> hi" for entries result
    using that
  proof (induction entries arbitrary: result)
    case (Cons x entries)
    show ?case using Cons.IH [OF put_number_range [OF Cons.prems assms]] by simp
  qed simp
  then show ?thesis using assms(1) by (simp add: normaliseNumberRecord_def)
qed

definition override_ok :: "scope_override \<Rightarrow> bool" where
  "override_ok v \<longleftrightarrow> 1 \<le> ov_limit v \<and> ov_limit v \<le> 100000 \<and> 1 \<le> ov_windowSeconds v \<and> ov_windowSeconds v \<le> 3600"

lemma put_override_range:
  assumes "\<forall>(k, v) \<in> set result. override_ok v"
  shows "\<forall>(k, v) \<in> set (put_override entry result). override_ok v"
proof -
  have "override_ok \<lparr>ov_limit = clampNumber a 1 100000 100, ov_windowSeconds = clampNumber b 1 3600 60\<rparr>"
    for a b
    using clampNumber_bounds [of 1 100000 100 a] clampNumber_bounds [of 1 3600 60 b]
    by (simp add: override_ok_def)
  then have "case x of (k, v) \<Rightarrow> override_ok v" if "x \<in> set (put_override entry result)" for x
    using that assms unfolding put_override_def
    by (auto split: jval.splits if_splits dest!: subsetD [OF set_set_prop])
  then show ?thesis by blast
qed

lemma normaliseScopeOverrides_range: "\<forall>(k, v) \<in> set (normaliseScopeOverrides w). override_ok v"
proof -
  have "\<forall>(k, v) \<in> set (fold put_override entries result). override_ok v"
    if "\<forall>(k, v) \<in> set result. override_ok v" for entries result
    using that
  proof (induction entries arbitrary: result)
    case (Cons x entries)
    show ?case using Cons.IH [OF put_override_range [OF Cons.prems]] by simp
  qed simp
  from this [of "[]"] show ?thesis by (simp add: normaliseScopeOverrides_def)
qed

text \<open>Whatever the stored platform setting is, the control that the service works with has every
  limit between 1 and 100000 and every window between one second and an hour, so that no setting can
  switch the limits off or divide by an empty window; under the emergency switch every limit is capped.\<close>

theorem policy_control_ranges:
  fixes v :: jval
  defines "c \<equiv> normalisePolicyControl v"
  shows "1 \<le> em_limitPerMinute (pc_emergency c) \<and> em_limitPerMinute (pc_emergency c) \<le> 100000 \<and>
    1 \<le> pc_sandbox c \<and> pc_sandbox c \<le> 100000 \<and> 1 \<le> pc_production c \<and> pc_production c \<le> 100000 \<and>
    list_all (\<lambda>(k, n). 1 \<le> n \<and> n \<le> 100000) (pc_productDefaultsPerMinute c) \<and>
    list_all (\<lambda>(k, n). 1 \<le> n \<and> n \<le> 100000) (pc_institutionOverridesPerMinute c) \<and>
    list_all (\<lambda>(k, w). override_ok w) (pc_scopeOverrides c) \<and>
    applyEmergencyCap n c \<le> (if em_enabled (pc_emergency c) then em_limitPerMinute (pc_emergency c) else n)"
proof -
  have products: "\<forall>(k, n) \<in> set (pc_productDefaultsPerMinute defaultRateLimitPolicyControl). 1 \<le> n \<and> n \<le> (100000 :: int)"
    by (simp add: defaultRateLimitPolicyControl_def)
  show ?thesis
    unfolding c_def normalisePolicyControl_def Let_def list_all_iff
    using clampNumber_bounds [of 1 100000 60] clampNumber_bounds [of 1 100000 500]
      clampNumber_bounds [of 1 100000 2000] normaliseNumberRecord_range [OF products]
      normaliseNumberRecord_range [of "[]" 1 100000] normaliseScopeOverrides_range
    by (simp add: defaultRateLimitPolicyControl_def applyEmergencyCap_def)
qed

section \<open>Witnesses\<close>

definition sample_call :: "string \<Rightarrow> rate_call" where
  "sample_call key = \<lparr>rc_env = sample_env, rc_scope = ''login'', rc_key = key, rc_limit = 2,
     rc_windowSeconds = None\<rparr>"

theorem rate_limit_window_witness:
  "map snd (fst (serve [sample_call ''a'', sample_call ''b'', sample_call ''a'', sample_call ''a''] empty_db)) =
     [True, True, True, False] \<and>
   length (filter (\<lambda>(c, ok). bucket_of c = bucket_of (sample_call ''a'') \<and> ok)
     (fst (serve [sample_call ''a'', sample_call ''b'', sample_call ''a'', sample_call ''a''] empty_db))) \<le> 2"
proof -
  let ?cs = "[sample_call ''a'', sample_call ''b'', sample_call ''a'', sample_call ''a'']"
  let ?k = "bucket_of (sample_call ''a'')"
  have limits: "\<forall>c \<in> set ?cs. bucket_of c = ?k \<longrightarrow> rc_limit c \<le> 2" by (simp add: sample_call_def)
  have zero: "counted empty_db ?k = 0" by (simp add: counted_def bucket_of_def empty_db_def)
  from rate_limit_window [OF limits, of empty_db] zero
  have "int (length (filter (\<lambda>(c, ok). bucket_of c = ?k \<and> ok) (fst (serve ?cs empty_db)))) \<le> 2" by simp
  moreover have "map snd (fst (serve ?cs empty_db)) = [True, True, True, False]" by code_simp
  ultimately show ?thesis by linarith
qed

definition sample_http :: http_request where
  "sample_http = \<lparr>hr_headers = [], hr_body = JUndef, hr_ip = Some ''10.0.0.1'', hr_remoteAddress = None,
     hr_auth = None\<rparr>"

definition sample_policy :: rate_limit_policy where
  "sample_policy = \<lparr>po_scope = ''login'', po_limit = 1, po_windowSeconds = Some 60, po_key = None,
     po_bodyField = None\<rparr>"

theorem forwarded_address_evades_limit_witness:
  "list_all snd (fst (serve (map (\<lambda>a. \<lparr>rc_env = sample_env, rc_scope = po_scope sample_policy,
       rc_key = keyForRequest (with_forwarded sample_http a) sample_policy, rc_limit = po_limit sample_policy,
       rc_windowSeconds = po_windowSeconds sample_policy\<rparr>) [''1.1.1.1'', ''1.1.1.2'', ''1.1.1.3'']) empty_db))"
  (is "list_all snd (fst (serve ?calls empty_db))")
proof -
  have "\<forall>(c, ok) \<in> set (fst (serve ?calls empty_db)). ok"
  proof (rule forwarded_address_evades_limit [OF _ _ _ _ _ _ refl])
    show "inj (sha256 sample_env)" by (simp add: sample_env_def inj_def)
    show "\<forall>a \<in> set [''1.1.1.1'', ''1.1.1.2'', ''1.1.1.3'']. address_text a"
      by (simp add: address_text_def trim_def is_space_def)
  qed (simp_all add: sample_policy_def empty_db_def)
  then show ?thesis by (auto simp: list_all_iff)
qed

end
