(* ===== verification/Http.thy ===== *)
theory Http
  imports Json
begin

text \<open>
  Outgoing HTTP requests. What a server answers is outside the program: a \<open>server\<close> maps the requests
  sent so far and the next one to a result, and the requests are logged in the order they are sent.
  Beside it, the encodings of the standard library that the services use: UTF-8, Base64 in its two
  alphabets, and \<open>application/x-www-form-urlencoded\<close>.
\<close>

record http_post =
  hp_url :: string
  hp_headers :: "(string \<times> string) list"
  hp_body :: string

text \<open>\<open>Http_error\<close> is a rejected \<open>fetch\<close> with its message. The text of a response is \<open>None\<close> when its body
  cannot be read.\<close>

datatype http_result = Http_error string | Http_response int "string option"

type_synonym http_log = "http_post list"
type_synonym server = "http_log \<Rightarrow> http_post \<Rightarrow> http_result"

text \<open>\<open>response.ok\<close>\<close>

definition status_ok :: "int \<Rightarrow> bool" where
  "status_ok status \<longleftrightarrow> 200 \<le> status \<and> status \<le> 299"

text \<open>\<open>HTTP 503: first 500 characters of the body\<close>\<close>

definition status_message :: "int \<Rightarrow> string option \<Rightarrow> string" where
  "status_message status body =
     ''HTTP '' @ show_int status @ (if truthy_text body then '': '' @ take 500 (getOr body []) else [])"

section \<open>UTF-8 and Base64\<close>

text \<open>The code units of a text below 256, as UTF-8 bytes.\<close>

definition utf8_char :: "char \<Rightarrow> nat list" where
  "utf8_char c = (let n = of_char c :: nat in if n < 128 then [n] else [192 + n div 64, 128 + n mod 64])"

definition utf8 :: "string \<Rightarrow> nat list" where
  "utf8 s = concat (map utf8_char s)"

fun of_utf8 :: "nat list \<Rightarrow> string" where
  "of_utf8 [] = []"
| "of_utf8 (b # bs) =
     (if b < 128 then char_of b # of_utf8 bs
      else case bs of [] \<Rightarrow> [] | c # cs \<Rightarrow> char_of ((b - 192) * 64 + (c - 128)) # of_utf8 cs)"

text \<open>Three bytes are four digits of six bits; the last one or two bytes are two or three digits, which
  the \<open>base64\<close> form pads with \<open>=\<close> and the \<open>base64url\<close> form does not.\<close>

fun sextets :: "nat list \<Rightarrow> nat list" where
  "sextets (a # b # c # bs) = a div 4 # (a mod 4 * 16 + b div 16) # (b mod 16 * 4 + c div 64) # c mod 64 # sextets bs"
| "sextets [a, b] = [a div 4, a mod 4 * 16 + b div 16, b mod 16 * 4]"
| "sextets [a] = [a div 4, a mod 4 * 16]"
| "sextets [] = []"

fun of_sextets :: "nat list \<Rightarrow> nat list" where
  "of_sextets (p # q # r # s # ds) =
     (p * 4 + q div 16) # (q mod 16 * 16 + r div 4) # (r mod 4 * 64 + s) # of_sextets ds"
| "of_sextets [p, q, r] = [p * 4 + q div 16, q mod 16 * 16 + r div 4]"
| "of_sextets [p, q] = [p * 4 + q div 16]"
| "of_sextets _ = []"

definition base64_digit :: "char \<Rightarrow> char \<Rightarrow> nat \<Rightarrow> char" where
  "base64_digit c62 c63 n =
     (if n < 26 then char_of (65 + n) else if n < 52 then char_of (71 + n)
      else if n < 62 then char_of (n - 4) else if n = 62 then c62 else c63)"

definition base64 :: "string \<Rightarrow> string" where
  "base64 s = (let ds = map (base64_digit (CHR ''+'') (CHR ''/'')) (sextets (utf8 s))
     in ds @ replicate ((4 - length ds mod 4) mod 4) (CHR ''=''))"

definition base64url_bytes :: "nat list \<Rightarrow> string" where
  "base64url_bytes bs = map (base64_digit (CHR ''-'') (CHR ''_'')) (sextets bs)"

definition base64url :: "string \<Rightarrow> string" where
  "base64url s = base64url_bytes (utf8 s)"

text \<open>\<open>Buffer.from(text, "base64url")\<close> takes the digits of both alphabets and skips everything else.\<close>

definition digit_value :: "char \<Rightarrow> nat option" where
  "digit_value c =
     (let n = of_char c :: nat in
      if 65 \<le> n \<and> n \<le> 90 then Some (n - 65) else if 97 \<le> n \<and> n \<le> 122 then Some (n - 71)
      else if 48 \<le> n \<and> n \<le> 57 then Some (n + 4)
      else if c = CHR ''-'' \<or> c = CHR ''+'' then Some 62 else if c = CHR ''_'' \<or> c = CHR ''/'' then Some 63 else None)"

definition from_base64url :: "string \<Rightarrow> nat list" where
  "from_base64url s = of_sextets (List.map_filter digit_value (takeWhile (\<lambda>c. c \<noteq> CHR ''='') s))"

section \<open>Forms\<close>

definition hex_digit :: "nat \<Rightarrow> char" where
  "hex_digit n = (if n < 10 then char_of (48 + n) else char_of (55 + n))"

definition form_byte :: "nat \<Rightarrow> string" where
  "form_byte n =
     (let c = char_of n in
      if is_alpha c \<or> is_digit c \<or> c \<in> set ''*-._'' then [c]
      else if n = 32 then ''+'' else [CHR ''%'', hex_digit (n div 16), hex_digit (n mod 16)])"

definition form_encode :: "string \<Rightarrow> string" where
  "form_encode s = concat (map form_byte (utf8 s))"

text \<open>\<open>new URLSearchParams(body).toString()\<close>\<close>

definition urlSearchParams :: "(string \<times> string) list \<Rightarrow> string" where
  "urlSearchParams ps = join ''&'' (map (\<lambda>(k, v). form_encode k @ ''='' @ form_encode v) ps)"

section \<open>Decoding gives the text back\<close>

lemma of_utf8_char: "of_utf8 (utf8_char c @ bs) = c # of_utf8 bs"
proof -
  have "of_char c < (256 :: nat)" by simp
  moreover have "char_of (of_char c :: nat) = c" by simp
  ultimately show ?thesis unfolding utf8_char_def Let_def by simp
qed

lemma of_utf8_utf8 [simp]: "of_utf8 (utf8 s) = s"
proof -
  have "of_utf8 (utf8 s @ []) = s"
    by (induction s) (simp_all add: utf8_def of_utf8_char)
  then show ?thesis by simp
qed

lemma utf8_bytes: "list_all (\<lambda>b. b < 256) (utf8 s)"
proof -
  have "list_all (\<lambda>b. b < 256) (utf8_char c)" for c
  proof -
    have "of_char c < (256 :: nat)" by simp
    then have "of_char c < (64 * 64 :: nat)" by (rule less_le_trans) simp
    then have "of_char c div 64 < (64 :: nat)" by (rule less_mult_imp_div_less)
    moreover have "of_char c mod 64 < (64 :: nat)" by simp
    ultimately show ?thesis unfolding utf8_char_def Let_def by (auto simp del: mod_less_divisor)
  qed
  then show ?thesis by (simp add: utf8_def list_all_iff)
qed

lemma pack_div: "y < m \<Longrightarrow> (x * m + y) div m = x" for x y m :: nat
  by simp

lemma pack_mod: "y < m \<Longrightarrow> (x * m + y) mod m = y" for x y m :: nat
  by simp

lemma byte_parts:
  fixes b :: nat
  assumes "b < 256"
  shows "b div 4 < 64" "b div 16 < 16" "b div 64 < 4"
  using assms by (auto intro: less_mult_imp_div_less)

lemma pack_less: "x < n \<Longrightarrow> y < m \<Longrightarrow> x * m + y < n * m" for x y m n :: nat
proof -
  assume "x < n" "y < m"
  then have "x * m + y < x * m + m" by simp
  also have "\<dots> = Suc x * m" by simp
  also have "\<dots> \<le> n * m" using \<open>x < n\<close> by (intro mult_right_mono) simp_all
  finally show ?thesis .
qed

lemma of_sextets_sextets: "list_all (\<lambda>b. b < 256) bs \<Longrightarrow> of_sextets (sextets bs) = bs"
proof (induction bs rule: sextets.induct)
  case (1 a b c bs)
  then have P: "b div 16 < 16" "c div 64 < 4" by (simp_all add: byte_parts)
  have "a div 4 * 4 + (a mod 4 * 16 + b div 16) div 16 = a"
    unfolding pack_div [OF P(1)] by (rule div_mult_mod_eq)
  moreover have "(a mod 4 * 16 + b div 16) mod 16 * 16 + (b mod 16 * 4 + c div 64) div 4 = b"
    unfolding pack_mod [OF P(1)] pack_div [OF P(2)] by (rule div_mult_mod_eq)
  moreover have "(b mod 16 * 4 + c div 64) mod 4 * 64 + c mod 64 = c"
    unfolding pack_mod [OF P(2)] by (rule div_mult_mod_eq)
  ultimately show ?case using 1 by simp
next
  case (2 a b)
  then have P: "b div 16 < 16" by (simp add: byte_parts)
  have "a div 4 * 4 + (a mod 4 * 16 + b div 16) div 16 = a"
    unfolding pack_div [OF P] by (rule div_mult_mod_eq)
  moreover have "(a mod 4 * 16 + b div 16) mod 16 * 16 + (b mod 16 * 4) div 4 = b"
    unfolding pack_mod [OF P] by simp
  ultimately show ?case by simp
next
  case (3 a)
  have "a div 4 * 4 + (a mod 4 * 16) div 16 = a" by simp
  then show ?case by simp
qed simp

lemma sextets_range: "list_all (\<lambda>b. b < 256) bs \<Longrightarrow> list_all (\<lambda>n. n < 64) (sextets bs)"
proof (induction bs rule: sextets.induct)
  case (1 a b c bs)
  have "a mod 4 * 16 + b div 16 < 4 * 16" "b mod 16 * 4 + c div 64 < 16 * 4"
    using 1(2) by (intro pack_less; simp add: byte_parts)+
  with 1 byte_parts [of a] show ?case by simp
next
  case (2 a b)
  have "a mod 4 * 16 + b div 16 < 4 * 16" "b mod 16 * 4 + 0 < 16 * 4"
    using 2 by (intro pack_less; simp add: byte_parts)+
  with 2 byte_parts [of a] show ?case by simp
next
  case (3 a)
  have "a mod 4 * 16 + 0 < 4 * 16" by (intro pack_less) simp_all
  with 3 byte_parts [of a] show ?case by simp
qed simp

lemma of_char_char: "k < 256 \<Longrightarrow> of_char (char_of k) = k" for k :: nat
  by simp

lemma digit_value_digit:
  assumes "n < 64"
  shows "digit_value (base64_digit (CHR ''-'') (CHR ''_'') n) = Some n \<and>
    base64_digit (CHR ''-'') (CHR ''_'') n \<noteq> CHR ''=''"
proof -
  have no: "k < 256 \<Longrightarrow> k \<noteq> 61 \<Longrightarrow> char_of k \<noteq> CHR ''=''" for k :: nat
  proof
    assume k: "k < 256" "k \<noteq> 61" and c: "char_of k = CHR ''=''"
    have "of_char (char_of k) = (61 :: nat)" unfolding c by simp
    with k show False by (simp only: of_char_char)
  qed
  consider "n < 26" | "26 \<le> n" "n < 52" | "52 \<le> n" "n < 62" | "n = 62" | "n = 63" using assms by linarith
  then show ?thesis
  proof cases
    case 1
    then show ?thesis using no [of "65 + n"]
      unfolding digit_value_def base64_digit_def Let_def by (simp only: of_char_char if_True) simp
  next
    case 2
    then show ?thesis using no [of "71 + n"] of_char_char [of "71 + n"]
      unfolding digit_value_def base64_digit_def Let_def by simp
  next
    case 3
    moreover have "48 \<le> n - 4" "n - 4 \<le> 57" using 3 by simp_all
    ultimately show ?thesis using no [of "n - 4"] of_char_char [of "n - 4"]
      unfolding digit_value_def base64_digit_def Let_def by simp
  qed (simp_all add: digit_value_def base64_digit_def)
qed

lemma from_base64url_bytes:
  assumes "list_all (\<lambda>b. b < 256) bs"
  shows "from_base64url (base64url_bytes bs) = bs"
proof -
  let ?d = "base64_digit (CHR ''-'') (CHR ''_'')"
  have "takeWhile (\<lambda>c. c \<noteq> CHR ''='') (map ?d ds) = map ?d ds \<and> List.map_filter digit_value (map ?d ds) = ds"
    if "list_all (\<lambda>n. n < 64) ds" for ds
    using that by (induction ds) (simp_all add: digit_value_digit map_filter_simps)
  from this [OF sextets_range [OF assms]]
  have "takeWhile (\<lambda>c. c \<noteq> CHR ''='') (map ?d (sextets bs)) = map ?d (sextets bs)"
    "List.map_filter digit_value (map ?d (sextets bs)) = sextets bs" by blast+
  then show ?thesis
    unfolding from_base64url_def base64url_bytes_def by (simp only: of_sextets_sextets [OF assms])
qed

lemma from_base64url [simp]: "of_utf8 (from_base64url (base64url s)) = s"
  by (simp add: base64url_def from_base64url_bytes utf8_bytes)

end
