(* ===== verification/Worker.thy ===== *)
theory Worker
  imports Queue RateLimit Paystack Http "HOL-Library.Product_Lexorder"
begin

text \<open>
  \<open>jobs/job-worker.service.ts\<close>: a worker claims a due job, runs the processor of its type, and completes,
  retries or fails it. Claiming and settling are one transaction each; a processor runs outside of them,
  so what it wrote before an error stays.

  A processor returns its outcome, the database it leaves and the log of its HTTP requests. The two
  processors of the ingestion service, and notification delivery, are fields of \<open>services\<close>.

  The polling loop around \<open>runOnce\<close> (\<open>startLoop\<close>) is not modelled; \<open>JobLifecycle\<close> lets any number of
  workers run in any interleaving.
\<close>

section \<open>What the worker relies on\<close>

type_synonym outcome = "jval res \<times> db \<times> http_log"

record services =
  sv_server :: server
  sv_hmac :: "string \<Rightarrow> string \<Rightarrow> string"
  sv_decrypt :: "string \<Rightarrow> string res"
  sv_webhookSecret :: "string option"
  sv_random :: "nat \<Rightarrow> rat"
  sv_hostname :: string
  sv_processId :: int
  sv_metadata :: jval
  sv_bulkStudentUpload :: "env \<Rightarrow> background_job \<Rightarrow> db \<Rightarrow> jval res \<times> db"
  sv_resultBatchValidation :: "env \<Rightarrow> background_job \<Rightarrow> db \<Rightarrow> jval res \<times> db"
  sv_deliverPendingForJob :: "env \<Rightarrow> string \<Rightarrow> db \<Rightarrow> http_log \<Rightarrow> jval \<times> db \<times> http_log"

definition workerQueues :: "string list" where
  "workerQueues = [''ingestion.bulk'', ''results.validation'', ''credentials.generation'', ''documents.pdf'',
     ''notifications.delivery'', ''payments.paystack'', ''record-requests.deadlines'', ''webhooks.delivery'',
     ''notifications.push'', ''live-results.callbacks'', ''exam-body.ingest'', ''platform.maintenance'']"

section \<open>Claiming\<close>

definition claimable :: "int \<Rightarrow> background_job \<Rightarrow> bool" where
  "claimable t j \<longleftrightarrow> (bj_status j = Job_QUEUED \<or> bj_status j = Job_RETRYING) \<and>
     bj_queue j \<in> set workerQueues \<and> bj_runAfter j \<le> t"

text \<open>\<open>ORDER BY priority DESC, runAfter ASC, createdAt ASC LIMIT 1\<close>\<close>

definition claim_key :: "background_job \<Rightarrow> int \<times> int \<times> int" where
  "claim_key j = (- bj_priority j, bj_runAfter j, bj_createdAt j)"

definition nextDue :: "int \<Rightarrow> background_job list \<Rightarrow> background_job option" where
  "nextDue t jobs = (case sort_key claim_key (filter (claimable t) jobs) of [] \<Rightarrow> None | j # _ \<Rightarrow> Some j)"

definition claimed :: "int \<Rightarrow> string \<Rightarrow> background_job \<Rightarrow> background_job" where
  "claimed t workerId j =
     j\<lparr>bj_status := Job_RUNNING, bj_lockedAt := Some t, bj_lockedBy := Some workerId,
       bj_startedAt := Some t, bj_attempts := bj_attempts j + 1, bj_error := None, bj_progress := 10\<rparr>"

definition claimNextJob :: "env \<Rightarrow> string \<Rightarrow> db \<Rightarrow> background_job option \<times> db" where
  "claimNextJob e workerId d =
     (case nextDue (now e) (backgroundJobs d) of
        None \<Rightarrow> (None, d)
      | Some j \<Rightarrow> (Some (claimed (now e) workerId j),
          d\<lparr>backgroundJobs := set_by bj_uuid (bj_uuid j) (claimed (now e) workerId) (backgroundJobs d)\<rparr>))"

section \<open>Heartbeats\<close>

record heartbeat_options =
  ho_concurrency :: "int option"
  ho_status :: "heartbeat_status option"
  ho_started :: bool
  ho_currentJob :: "background_job option"

definition newHeartbeat :: "env \<Rightarrow> services \<Rightarrow> string \<Rightarrow> heartbeat_options \<Rightarrow> worker_heartbeat" where
  "newHeartbeat e s workerId h =
     \<lparr>wh_workerId = workerId, wh_hostname = Some (sv_hostname s), wh_processId = Some (sv_processId s),
      wh_queues = workerQueues, wh_status = getOr (ho_status h) Beat_ACTIVE,
      wh_concurrency = getOr (ho_concurrency h) 1, wh_currentJobId = map_option bj_uuid (ho_currentJob h),
      wh_currentQueue = map_option bj_queue (ho_currentJob h),
      wh_lastStartedAt = (if ho_started h then Some (now e) else None), wh_lastSeenAt = now e,
      wh_metadata = toJson (sv_metadata s)\<rparr>"

definition beat :: "env \<Rightarrow> services \<Rightarrow> heartbeat_options \<Rightarrow> worker_heartbeat \<Rightarrow> worker_heartbeat" where
  "beat e s h r =
     (newHeartbeat e s (wh_workerId r) h)
       \<lparr>wh_lastStartedAt := (if ho_started h then Some (now e) else wh_lastStartedAt r)\<rparr>"

text \<open>An upsert; an error of it would only be logged.\<close>

definition recordHeartbeat :: "env \<Rightarrow> services \<Rightarrow> string \<Rightarrow> heartbeat_options \<Rightarrow> db \<Rightarrow> db" where
  "recordHeartbeat e s workerId h d =
     d\<lparr>workerHeartbeats :=
        (if workerId \<in> wh_workerId ` set (workerHeartbeats d)
         then set_by wh_workerId workerId (beat e s h) (workerHeartbeats d)
         else workerHeartbeats d @ [newHeartbeat e s workerId h])\<rparr>"

definition markWorkerStopped :: "env \<Rightarrow> services \<Rightarrow> string \<Rightarrow> db \<Rightarrow> db" where
  "markWorkerStopped e s workerId =
     recordHeartbeat e s workerId \<lparr>ho_concurrency = None, ho_status = Some Beat_STOPPED, ho_started = False,
       ho_currentJob = None\<rparr>"

section \<open>Settling a job\<close>

definition completedJob :: "int \<Rightarrow> jval \<Rightarrow> background_job \<Rightarrow> background_job" where
  "completedJob t result j =
     j\<lparr>bj_status := Job_SUCCEEDED, bj_result := result, bj_progress := 100, bj_lockedAt := None,
       bj_lockedBy := None, bj_completedAt := Some t\<rparr>"

definition job_event :: "env \<Rightarrow> db \<Rightarrow> background_job \<Rightarrow> string \<Rightarrow> (string \<times> jval) list \<Rightarrow> domain_event" where
  "job_event e d job suffix extra =
     newEvent e d (toLowerCase (job_type_text (bj_type job)) @ suffix) ''BackgroundJob'' (bj_uuid job)
       (bj_institutionId job)
       (toJson (JObj ([(''jobId'', JStr (bj_uuid job)), (''type'', JStr (job_type_text (bj_type job)))] @ extra)))"

definition completeJob :: "env \<Rightarrow> background_job \<Rightarrow> jval \<Rightarrow> db \<Rightarrow> db res" where
  "completeJob e job result d =
     bindE (update_by bj_uuid (bj_uuid job) (completedJob (now e) result) (backgroundJobs d)) (\<lambda>rows.
     let d1 = d\<lparr>backgroundJobs := rows\<rparr>
     in Inr (addEvent (job_event e d1 job ''.succeeded'' [(''result'', result)]) d1))"

definition nextRetryRunAfter :: "env \<Rightarrow> services \<Rightarrow> nat \<Rightarrow> background_job \<Rightarrow> int" where
  "nextRetryRunAfter e s draw job = nextRunAfter (bj_type job) (bj_attempts job) (now e) (sv_random s draw)"

definition failedJob :: "int \<Rightarrow> string \<Rightarrow> int option \<Rightarrow> background_job \<Rightarrow> background_job" where
  "failedJob t text retryAt j =
     j\<lparr>bj_status := (if retryAt \<noteq> None then Job_RETRYING else Job_FAILED), bj_error := Some text,
       bj_progress := (if retryAt \<noteq> None then 0 else 100), bj_lockedAt := None, bj_lockedBy := None,
       bj_runAfter := getOr retryAt (bj_runAfter j),
       bj_failedAt := (if retryAt \<noteq> None then bj_failedAt j else Some t)\<rparr>"

definition pendingDelivery :: "string \<Rightarrow> webhook_delivery \<Rightarrow> bool" where
  "pendingDelivery jobId w \<longleftrightarrow>
     wd_jobId w = Some jobId \<and> (wd_status w = Dlv_PENDING \<or> wd_status w = Dlv_RETRYING)"

definition failedDelivery :: "int \<Rightarrow> string \<Rightarrow> int option \<Rightarrow> webhook_delivery \<Rightarrow> webhook_delivery" where
  "failedDelivery t text retryAt w =
     w\<lparr>wd_status := (if retryAt \<noteq> None then Dlv_RETRYING else Dlv_FAILED), wd_lastError := Some text,
       wd_nextAttemptAt := getOr retryAt t\<rparr>"

definition isNonRetryable :: "error \<Rightarrow> bool" where
  "isNonRetryable err = (case err of NonRetryable _ \<Rightarrow> True | _ \<Rightarrow> False)"

definition retryTime :: "env \<Rightarrow> services \<Rightarrow> background_job \<Rightarrow> error \<Rightarrow> int option" where
  "retryTime e s job err =
     (if shouldRetry (bj_type job) (bj_attempts job) (Some (bj_maxAttempts job)) (isNonRetryable err)
      then Some (nextRetryRunAfter e s 2 job) else None)"

definition failOrRetryJob :: "env \<Rightarrow> services \<Rightarrow> background_job \<Rightarrow> error \<Rightarrow> db \<Rightarrow> db res" where
  "failOrRetryJob e s job err d =
     (let text = message err; retryAt = retryTime e s job err in
      bindE (update_by bj_uuid (bj_uuid job) (failedJob (now e) text retryAt) (backgroundJobs d)) (\<lambda>rows.
      let d1 = d\<lparr>backgroundJobs := rows\<rparr>;
          d2 = (if bj_type job = WEBHOOK_DELIVERY
                then d1\<lparr>webhookDeliveries := update_rows (pendingDelivery (bj_uuid job))
                       (failedDelivery (now e) text retryAt) (webhookDeliveries d1)\<rparr>
                else d1)
      in Inr (addEvent (job_event e d2 job (if retryAt \<noteq> None then ''.retrying'' else ''.failed'')
                [(''error'', JStr text), (''retrying'', JBool (retryAt \<noteq> None))]) d2)))"

section \<open>Webhook deliveries\<close>

text \<open>The secret of the endpoint, or the one of the environment when there is no endpoint.\<close>

definition resolveWebhookSecret :: "services \<Rightarrow> db \<Rightarrow> webhook_delivery \<Rightarrow> string option res" where
  "resolveWebhookSecret s d w =
     (case (case wd_webhookEndpointId w of None \<Rightarrow> None | Some i \<Rightarrow> find_by we_uuid i (webhookEndpoints d)) of
        None \<Rightarrow> Inr (sv_webhookSecret s)
      | Some ep \<Rightarrow>
          bindE (failIf (we_status ep \<noteq> Ep_ACTIVE)
            (Failure (''Webhook endpoint '' @ we_uuid ep @ '' is not active.''))) (\<lambda>_.
          bindE (sv_decrypt s (we_secretEncrypted ep)) (\<lambda>x. Inr (Some x))))"

definition serializeWebhookBody :: "env \<Rightarrow> webhook_delivery \<Rightarrow> int \<Rightarrow> string" where
  "serializeWebhookBody e w attempt =
     getOr (JSON_stringify (JObj [(''id'', JStr (wd_uuid w)), (''eventType'', JStr (wd_eventType w)),
       (''attempt'', jint attempt), (''payload'', wd_payload w), (''sentAt'', JStr (toISOString (now e)))])) []"

definition signedContent :: "env \<Rightarrow> webhook_delivery \<Rightarrow> string \<Rightarrow> string" where
  "signedContent e w body = show_int (now e div 1000) @ ''.'' @ wd_uuid w @ ''.'' @ body"

definition buildWebhookHeaders ::
    "env \<Rightarrow> services \<Rightarrow> db \<Rightarrow> webhook_delivery \<Rightarrow> string \<Rightarrow> (string \<times> string) list res" where
  "buildWebhookHeaders e s d w body =
     bindE (resolveWebhookSecret s d w) (\<lambda>secret.
     bindE (failIf (\<not> truthy_text secret)
       (Failure ''A webhook signing secret is required before webhook delivery can run.'')) (\<lambda>_.
     Inr ([(''content-type'', ''application/json''), (''user-agent'', ''AcadID-Webhook/1.0''),
           (''x-acadid-event'', wd_eventType w), (''x-acadid-delivery'', wd_uuid w)] @
          (case (case wd_webhookEndpointId w of None \<Rightarrow> None | Some i \<Rightarrow> find_by we_uuid i (webhookEndpoints d)) of
             None \<Rightarrow> [] | Some ep \<Rightarrow> [(''x-acadid-webhook-endpoint'', we_uuid ep)]) @
          [(''x-acadid-idempotency-key'', ''whd_'' @ wd_uuid w),
           (''x-acadid-timestamp'', show_int (now e div 1000)),
           (''x-acadid-signature'', ''v1='' @ sv_hmac s (getOr secret []) (signedContent e w body))])))"

definition setDelivery :: "string \<Rightarrow> (webhook_delivery \<Rightarrow> webhook_delivery) \<Rightarrow> db \<Rightarrow> db" where
  "setDelivery i f d = d\<lparr>webhookDeliveries := set_by wd_uuid i f (webhookDeliveries d)\<rparr>"

definition attemptedDelivery :: "int \<Rightarrow> webhook_delivery \<Rightarrow> webhook_delivery" where
  "attemptedDelivery retryAt w =
     w\<lparr>wd_status := Dlv_RETRYING, wd_attempts := wd_attempts w + 1, wd_lastStatusCode := None,
       wd_lastError := None, wd_nextAttemptAt := retryAt\<rparr>"

definition deliveredDelivery :: "int \<Rightarrow> int \<Rightarrow> webhook_delivery \<Rightarrow> webhook_delivery" where
  "deliveredDelivery t status w =
     w\<lparr>wd_status := Dlv_DELIVERED, wd_lastStatusCode := Some status, wd_lastError := None,
       wd_deliveredAt := Some t\<rparr>"

definition refusedDelivery :: "string \<Rightarrow> int option \<Rightarrow> int \<Rightarrow> webhook_delivery \<Rightarrow> webhook_delivery" where
  "refusedDelivery text status retryAt w =
     w\<lparr>wd_status := Dlv_RETRYING, wd_lastStatusCode := orElse status (wd_lastStatusCode w),
       wd_lastError := Some text, wd_nextAttemptAt := retryAt\<rparr>"

definition processWebhookDelivery :: "env \<Rightarrow> services \<Rightarrow> background_job \<Rightarrow> db \<Rightarrow> http_log \<Rightarrow> outcome" where
  "processWebhookDelivery e s job d sent =
     (case List.find (pendingDelivery (bj_uuid job)) (webhookDeliveries d) of
        None \<Rightarrow> (Inr (toJson (JObj [(''mode'', JStr ''no_pending_delivery''),
          (''message'', JStr ''No pending webhook delivery record was found for this job.'')])), d, sent)
      | Some w \<Rightarrow>
          (let attempt = wd_attempts w + 1; body = serializeWebhookBody e w attempt in
           case buildWebhookHeaders e s d w body of
             Inl err \<Rightarrow> (Inl err, d, sent)
           | Inr headers \<Rightarrow>
               (let i = wd_uuid w;
                    d1 = setDelivery i (attemptedDelivery (nextRetryRunAfter e s 0 job)) d;
                    post = \<lparr>hp_url = wd_targetUrl w, hp_headers = headers, hp_body = body\<rparr>;
                    sent' = sent @ [post];
                    failed = (\<lambda>text status. (Inl (Failure (''Webhook delivery '' @ i @ '' failed: '' @ text)),
                      setDelivery i (refusedDelivery text status (nextRetryRunAfter e s 1 job)) d1, sent'))
                in case sv_server s sent post of
                     Http_error text \<Rightarrow> failed text None
                   | Http_response status text \<Rightarrow>
                       (if \<not> status_ok status then failed (status_message status text) (Some status)
                        else (Inr (toJson (JObj [(''mode'', JStr ''delivered''), (''deliveryId'', JStr i),
                                (''eventType'', JStr (wd_eventType w)), (''statusCode'', jint status),
                                (''attempt'', jint attempt)])),
                              setDelivery i (deliveredDelivery (now e) status) d1, sent')))))"

section \<open>The other processors\<close>

definition processNotificationDelivery :: "env \<Rightarrow> services \<Rightarrow> background_job \<Rightarrow> db \<Rightarrow> http_log \<Rightarrow> outcome" where
  "processNotificationDelivery e s job d sent =
     (let (summary, d', sent') = sv_deliverPendingForJob s e (bj_uuid job) d sent
      in (Inr (toJson summary), d', sent'))"

definition processRateLimitBucketCleanup :: "env \<Rightarrow> background_job \<Rightarrow> db \<Rightarrow> jval res \<times> db" where
  "processRateLimitBucketCleanup e job d =
     (let olderThanHours = asNumber (getProp (asRecord (bj_payload job)) ''olderThanHours'') 1 720 24;
          ((cutoff, hours, deleted), d') = cleanupExpiredBuckets e d (Some (Fin (of_int olderThanHours)))
      in (Inr (toJson (JObj [(''mode'', JStr ''rate_limit_bucket_cleanup''), (''olderThanHours'', jint hours),
            (''cutoff'', JStr (toISOString cutoff)), (''deletedBuckets'', jint (int deleted))])), d'))"

definition processIdempotencyRecordCleanup :: "env \<Rightarrow> background_job \<Rightarrow> db \<Rightarrow> jval res \<times> db" where
  "processIdempotencyRecordCleanup e job d =
     (let olderThanHours = asNumber (getProp (asRecord (bj_payload job)) ''olderThanHours'') 1 2160 24;
          ((deleted, hours, cutoff), d') = cleanupExpiredRecords e d (Some (Fin (of_int olderThanHours)))
      in (Inr (toJson (JObj [(''mode'', JStr ''idempotency_record_cleanup''), (''olderThanHours'', jint hours),
            (''cutoff'', JStr (toISOString cutoff)), (''deletedRecords'', jint (int deleted))])), d'))"

definition processDeferredIntegration :: "background_job \<Rightarrow> db \<Rightarrow> jval res \<times> db" where
  "processDeferredIntegration job d =
     (Inr (toJson (JObj [(''mode'', JStr ''deferred_adapter''), (''type'', JStr (job_type_text (bj_type job))),
        (''message'', JStr ''Durable worker runtime is ready; this integration-specific processor is intentionally deferred.'')])), d)"

text \<open>A processor whose writes are one transaction leaves nothing behind when it fails; a processor without
  HTTP requests leaves the log alone.\<close>

definition transactional :: "(jval \<times> db) res \<Rightarrow> db \<Rightarrow> jval res \<times> db" where
  "transactional r d = (case r of Inl err \<Rightarrow> (Inl err, d) | Inr (v, d') \<Rightarrow> (Inr v, d'))"

definition silent :: "jval res \<times> db \<Rightarrow> http_log \<Rightarrow> outcome" where
  "silent r sent = (fst r, snd r, sent)"

definition processJob :: "env \<Rightarrow> services \<Rightarrow> background_job \<Rightarrow> db \<Rightarrow> http_log \<Rightarrow> outcome" where
  "processJob e s job d sent =
     (case bj_type job of
        BULK_STUDENT_UPLOAD \<Rightarrow> silent (sv_bulkStudentUpload s e job d) sent
      | RESULT_BATCH_VALIDATION \<Rightarrow> silent (sv_resultBatchValidation s e job d) sent
      | WEBHOOK_DELIVERY \<Rightarrow> processWebhookDelivery e s job d sent
      | PUSH_NOTIFICATION \<Rightarrow> processNotificationDelivery e s job d sent
      | SMS_EMAIL_DELIVERY \<Rightarrow> processNotificationDelivery e s job d sent
      | PAYSTACK_PAYMENT_CONFIRMATION \<Rightarrow>
          silent (transactional (processPaystackPaymentConfirmation e d job) d) sent
      | RATE_LIMIT_BUCKET_CLEANUP \<Rightarrow> silent (processRateLimitBucketCleanup e job d) sent
      | IDEMPOTENCY_RECORD_CLEANUP \<Rightarrow> silent (processIdempotencyRecordCleanup e job d) sent
      | _ \<Rightarrow> silent (processDeferredIntegration job d) sent)"

section \<open>The run of a worker\<close>

record run_result =
  wr_processed :: nat
  wr_succeeded :: nat
  wr_failed :: nat

definition beatOptions :: "nat \<Rightarrow> background_job option \<Rightarrow> heartbeat_options" where
  "beatOptions batchSize job =
     \<lparr>ho_concurrency = Some (int batchSize), ho_status = None, ho_started = False, ho_currentJob = job\<rparr>"

text \<open>One claimed job: \<open>True\<close> when it succeeded. An error while it is being completed is handled like an
  error of its processor; an error of \<open>failOrRetryJob\<close> ends the run.\<close>

definition settleJob :: "env \<Rightarrow> services \<Rightarrow> background_job \<Rightarrow> db \<Rightarrow> http_log \<Rightarrow> bool res \<times> db \<times> http_log" where
  "settleJob e s job d sent =
     (let (r, d1, sent1) = processJob e s job d sent;
          done = bindE r (\<lambda>v. completeJob e job v d1)
      in case done of
           Inr d2 \<Rightarrow> (Inr True, d2, sent1)
         | Inl err \<Rightarrow>
             (case failOrRetryJob e s job err d1 of
                Inr d2 \<Rightarrow> (Inr False, d2, sent1)
              | Inl err2 \<Rightarrow> (Inl err2, d1, sent1)))"

text \<open>\<open>left\<close> counts the rest of the batch; \<open>clock\<close> gives the time of every round.\<close>

fun runRounds ::
    "services \<Rightarrow> (nat \<Rightarrow> env) \<Rightarrow> string \<Rightarrow> nat \<Rightarrow> nat \<Rightarrow> run_result \<Rightarrow> db \<Rightarrow> http_log \<Rightarrow> run_result res \<times> db \<times> http_log" where
  "runRounds s clock workerId batchSize 0 result d sent = (Inr result, d, sent)"
| "runRounds s clock workerId batchSize (Suc left) result d sent =
     (let e = clock left in
      case claimNextJob e workerId d of
        (None, d1) \<Rightarrow> (Inr result, recordHeartbeat e s workerId (beatOptions batchSize None) d1, sent)
      | (Some job, d1) \<Rightarrow>
          (let d2 = recordHeartbeat e s workerId (beatOptions batchSize (Some job)) d1;
               (r, d3, sent1) = settleJob e s job d2 sent;
               d4 = recordHeartbeat e s workerId (beatOptions batchSize None) d3
           in case r of
                Inl err \<Rightarrow> (Inl err, d4, sent1)
              | Inr ok \<Rightarrow>
                  runRounds s clock workerId batchSize left
                    (result\<lparr>wr_processed := wr_processed result + 1,
                            wr_succeeded := wr_succeeded result + (if ok then 1 else 0),
                            wr_failed := wr_failed result + (if ok then 0 else 1)\<rparr>) d4 sent1))"

definition runOnce :: "services \<Rightarrow> (nat \<Rightarrow> env) \<Rightarrow> string \<Rightarrow> nat \<Rightarrow> db \<Rightarrow> http_log \<Rightarrow> run_result res \<times> db \<times> http_log" where
  "runOnce s clock workerId batchSize d sent =
     runRounds s clock workerId batchSize batchSize \<lparr>wr_processed = 0, wr_succeeded = 0, wr_failed = 0\<rparr>
       (recordHeartbeat (clock batchSize) s workerId (beatOptions batchSize None) d) sent"

end
