(* ===== verification/DeadLetters.thy ===== *)
theory DeadLetters
  imports Worker
begin

text \<open>
  The operator's controls over jobs of \<open>admin/admin.service.ts\<close>: retrying a failed job, retrying and
  replaying webhook deliveries, retrying a notification, and queuing the clean-up jobs. The role that
  may call them is checked by the guards of the controller.
\<close>

text \<open>\<open>actorUserId: auth.sub\<close> without an \<open>actorId\<close>, as some of the handlers write it.\<close>

definition operatorActor :: "auth_token \<Rightarrow> audit_input \<Rightarrow> audit_input" where
  "operatorActor auth event =
     event\<lparr>ai_actorUserId := Some (au_sub auth), ai_actorRole := Some (role_text (au_role auth))\<rparr>"

section \<open>Failed jobs\<close>

text \<open>The limit is computed from the job as it was read, the other columns are set on the row there is.\<close>

definition nextMaxAttempts :: "background_job \<Rightarrow> int" where
  "nextMaxAttempts existing =
     max (bj_maxAttempts existing) (max (bj_attempts existing + 1) (maxAttemptsFor (bj_type existing)))"

definition retriedJob :: "int \<Rightarrow> background_job \<Rightarrow> background_job \<Rightarrow> background_job" where
  "retriedJob t existing j =
     j\<lparr>bj_status := Job_RETRYING, bj_error := None, bj_progress := 0, bj_lockedAt := None,
       bj_lockedBy := None, bj_runAfter := t, bj_failedAt := None,
       bj_maxAttempts := nextMaxAttempts existing\<rparr>"

definition failedDeliveryOf :: "string \<Rightarrow> webhook_delivery \<Rightarrow> bool" where
  "failedDeliveryOf jobId w \<longleftrightarrow> wd_jobId w = Some jobId \<and> wd_status w = Dlv_FAILED"

definition requeuedDelivery :: "int \<Rightarrow> webhook_delivery \<Rightarrow> webhook_delivery" where
  "requeuedDelivery t w = w\<lparr>wd_status := Dlv_RETRYING, wd_nextAttemptAt := t, wd_lastError := None\<rparr>"

text \<open>The job is read and checked before the transaction starts, and the transaction does not look at its
  status again: the retry is two steps, between which other operations may run (\<open>JobLifecycle\<close>).\<close>

definition deadLetterJob :: "db \<Rightarrow> string \<Rightarrow> background_job res" where
  "deadLetterJob d i =
     bindE (require (find_by bj_uuid i (backgroundJobs d)) (BadRequest ''Dead-letter job not found.'')) (\<lambda>existing.
     bindE (failIf (bj_status existing \<noteq> Job_FAILED)
       (BadRequest ''Only failed dead-letter jobs can be retried.'')) (\<lambda>_.
     Inr existing))"

definition requeueJob :: "env \<Rightarrow> auth_token \<Rightarrow> background_job \<Rightarrow> db \<Rightarrow> (background_job \<times> db) res" where
  "requeueJob e auth existing d =
     bindE (update_by bj_uuid (bj_uuid existing) (retriedJob (now e) existing) (backgroundJobs d)) (\<lambda>rows.
     let job = getOr (find_by bj_uuid (bj_uuid existing) rows) existing;
         d1 = d\<lparr>backgroundJobs := rows\<rparr>;
         d2 = (if bj_type existing = WEBHOOK_DELIVERY
               then d1\<lparr>webhookDeliveries := update_rows (failedDeliveryOf (bj_uuid existing))
                      (requeuedDelivery (now e)) (webhookDeliveries d1)\<rparr>
               else d1);
         event = newEvent e d2 ''background_job.dead_letter_retry_queued'' ''BackgroundJob'' (bj_uuid existing)
           (bj_institutionId existing)
           (JObj [(''jobId'', JStr (bj_uuid existing)), (''type'', JStr (job_type_text (bj_type existing))),
                  (''queue'', JStr (bj_queue existing)), (''previousAttempts'', jint (bj_attempts existing)),
                  (''maxAttempts'', jint (nextMaxAttempts existing))])
     in Inr (job,
       audit_write (operatorActor auth (humanActor auth (audit_event_of ''background_job.dead_letter_retry_queued''
           ''BackgroundJob'' (bj_uuid existing) (bj_institutionId existing)
           (JObj [(''type'', JStr (job_type_text (bj_type existing))), (''queue'', JStr (bj_queue existing)),
                  (''attempts'', jint (bj_attempts existing))])))) (addEvent event d2)))"

definition retryDeadLetterJob :: "env \<Rightarrow> db \<Rightarrow> auth_token \<Rightarrow> string \<Rightarrow> (background_job \<times> db) res" where
  "retryDeadLetterJob e d auth i = bindE (deadLetterJob d i) (\<lambda>existing. requeueJob e auth existing d)"

section \<open>Webhook deliveries\<close>

definition deliveryPayload :: "webhook_delivery \<Rightarrow> (string \<times> jval) list" where
  "deliveryPayload w =
     [(''webhookEndpointId'', jor_null (wd_webhookEndpointId w)), (''targetUrl'', JStr (wd_targetUrl w)),
      (''eventType'', JStr (wd_eventType w))]"

definition webhookJob :: "webhook_delivery \<Rightarrow> string option \<Rightarrow> (string \<times> jval) list \<Rightarrow> enqueue_input" where
  "webhookJob w relatedEntityId payload =
     (plain_job WEBHOOK_DELIVERY (wd_institutionId w) (JObj payload))
       \<lparr>ej_queue := Some ''webhooks.delivery'', ej_relatedEntityType := Some ''WebhookDelivery'',
        ej_relatedEntityId := relatedEntityId, ej_priority := Some 1\<rparr>"

definition createWebhookJob :: "env \<Rightarrow> webhook_delivery \<Rightarrow> string \<Rightarrow> db \<Rightarrow> background_job \<times> db" where
  "createWebhookJob e w eventType d =
     (let job = newJob e d (webhookJob w (Some (wd_uuid w)) ((''deliveryId'', JStr (wd_uuid w)) # deliveryPayload w));
          d1 = addJob job d;
          event = newEvent e d1 eventType ''WebhookDelivery'' (wd_uuid w) (wd_institutionId w)
            (JObj ([(''deliveryId'', JStr (wd_uuid w)), (''jobId'', JStr (bj_uuid job))] @ deliveryPayload w))
      in (job, (addEvent (event\<lparr>de_jobId := Some (bj_uuid job)\<rparr>) d1)))"

definition retriedDelivery :: "int \<Rightarrow> string \<Rightarrow> webhook_delivery \<Rightarrow> webhook_delivery" where
  "retriedDelivery t jobId w =
     w\<lparr>wd_jobId := Some jobId, wd_status := Dlv_RETRYING, wd_nextAttemptAt := t,
       wd_lastStatusCode := None, wd_lastError := None\<rparr>"

definition retryWebhookDelivery ::
    "env \<Rightarrow> db \<Rightarrow> auth_token \<Rightarrow> string \<Rightarrow> (webhook_delivery \<times> background_job \<times> db) res" where
  "retryWebhookDelivery e d auth i =
     bindE (require (find_by wd_uuid i (webhookDeliveries d)) (BadRequest ''Webhook delivery not found.'')) (\<lambda>w.
     bindE (failIf (wd_status w = Dlv_DELIVERED)
       (BadRequest ''Delivered webhooks should be replayed, not retried.'')) (\<lambda>_.
     let (job, d1) = createWebhookJob e w ''webhook_delivery.retry_requested'' d in
     bindE (update_by wd_uuid (wd_uuid w) (retriedDelivery (now e) (bj_uuid job)) (webhookDeliveries d1)) (\<lambda>rows.
     Inr (retriedDelivery (now e) (bj_uuid job) w, job,
       audit_write (humanActor auth (audit_event_of ''webhook_delivery.retry'' ''WebhookDelivery'' (wd_uuid w)
           (wd_institutionId w)
           (JObj [(''jobId'', JStr (bj_uuid job)), (''eventType'', JStr (wd_eventType w))])))
         (d1\<lparr>webhookDeliveries := rows\<rparr>)))))"

definition replayedDelivery :: "int \<Rightarrow> string \<Rightarrow> string \<Rightarrow> string \<Rightarrow> webhook_delivery \<Rightarrow> webhook_delivery" where
  "replayedDelivery t i jobId eventId w =
     \<lparr>wd_uuid = i, wd_jobId = Some jobId, wd_eventId = Some eventId, wd_institutionId = wd_institutionId w,
      wd_webhookEndpointId = wd_webhookEndpointId w, wd_targetUrl = wd_targetUrl w,
      wd_eventType = wd_eventType w, wd_payload = wd_payload w, wd_status = Dlv_PENDING, wd_attempts = 0,
      wd_nextAttemptAt = t, wd_lastStatusCode = None, wd_lastError = None, wd_deliveredAt = None,
      wd_createdAt = t\<rparr>"

definition replayWebhookDelivery ::
    "env \<Rightarrow> db \<Rightarrow> auth_token \<Rightarrow> string \<Rightarrow> (webhook_delivery \<times> background_job \<times> db) res" where
  "replayWebhookDelivery e d auth i =
     bindE (require (find_by wd_uuid i (webhookDeliveries d)) (BadRequest ''Webhook delivery not found.'')) (\<lambda>w.
     let replayOf = (''replayOfDeliveryId'', JStr (wd_uuid w));
         job = newJob e d (webhookJob w None (replayOf # deliveryPayload w));
         d1 = addJob job d;
         event = newEvent e d1 ''webhook_delivery.replay_requested'' ''WebhookDelivery'' (wd_uuid w)
           (wd_institutionId w)
           (JObj [replayOf, (''jobId'', JStr (bj_uuid job)),
                  (''webhookEndpointId'', jor_null (wd_webhookEndpointId w)), (''eventType'', JStr (wd_eventType w))]);
         d2 = addEvent (event\<lparr>de_jobId := Some (bj_uuid job)\<rparr>) d1;
         delivery = replayedDelivery (now e) (fresh e d2) (bj_uuid job) (de_uuid event) w;
         d3 = drawn (d2\<lparr>webhookDeliveries := webhookDeliveries d2 @ [delivery]\<rparr>);
         link = (\<lambda>j. j\<lparr>bj_relatedEntityId := Some (wd_uuid delivery),
           bj_payload := JObj ([replayOf, (''deliveryId'', JStr (wd_uuid delivery))] @ deliveryPayload w)\<rparr>)
     in
     bindE (update_by bj_uuid (bj_uuid job) link (backgroundJobs d3)) (\<lambda>rows.
     Inr (delivery, link job,
       audit_write (humanActor auth (audit_event_of ''webhook_delivery.replay'' ''WebhookDelivery''
           (wd_uuid delivery) (wd_institutionId w)
           (JObj [replayOf, (''jobId'', JStr (bj_uuid job)), (''eventType'', JStr (wd_eventType w))])))
         (d3\<lparr>backgroundJobs := rows\<rparr>))))"

section \<open>Notifications\<close>

definition requeuedNotification :: "string \<Rightarrow> notification \<Rightarrow> notification" where
  "requeuedNotification jobId n =
     n\<lparr>nt_jobId := Some jobId, nt_status := Ntf_PENDING, nt_failedAt := None, nt_error := None\<rparr>"

definition notificationJob :: "auth_token \<Rightarrow> notification \<Rightarrow> enqueue_input" where
  "notificationJob auth n =
     (plain_job (if nt_channel n = PUSH then PUSH_NOTIFICATION else SMS_EMAIL_DELIVERY) (nt_institutionId n)
        (JObj [(''notificationId'', JStr (nt_uuid n)), (''channel'', JStr (channel_text (nt_channel n))),
               (''retry'', JBool True)]))
       \<lparr>ej_queue := Some (if nt_channel n = PUSH then ''notifications.push'' else ''notifications.delivery''),
        ej_createdById := Some (au_sub auth), ej_relatedEntityType := Some ''Notification'',
        ej_relatedEntityId := Some (nt_uuid n), ej_priority := Some 1\<rparr>"

definition retryNotification :: "env \<Rightarrow> db \<Rightarrow> auth_token \<Rightarrow> string \<Rightarrow> (background_job \<times> db) res" where
  "retryNotification e d auth i =
     bindE (require (find_by nt_uuid i (notifications d)) (BadRequest ''Notification not found.'')) (\<lambda>n.
     bindE (failIf (nt_status n \<noteq> Ntf_FAILED) (BadRequest ''Only failed notifications can be retried.'')) (\<lambda>_.
     bindE (failIf (nt_channel n = WEBHOOK)
       (BadRequest ''Webhook notifications must be retried from webhook delivery controls.'')) (\<lambda>_.
     let job = newJob e d (notificationJob auth n);
         d1 = addJob job d
     in
     bindE (update_by nt_uuid (nt_uuid n) (requeuedNotification (bj_uuid job)) (notifications d1)) (\<lambda>rows.
     let d2 = d1\<lparr>notifications := rows\<rparr>;
         event = newEvent e d2 ''notification.retry_queued'' ''Notification'' (nt_uuid n) (nt_institutionId n)
           (JObj [(''notificationId'', JStr (nt_uuid n)), (''channel'', JStr (channel_text (nt_channel n))),
                  (''jobId'', JStr (bj_uuid job))])
     in Inr (job,
       audit_write (operatorActor auth (audit_event_of ''notification.retry_queued'' ''Notification'' (nt_uuid n)
           (nt_institutionId n)
           (JObj [(''jobId'', JStr (bj_uuid job)), (''channel'', JStr (channel_text (nt_channel n)))])))
         (addEvent (event\<lparr>de_jobId := Some (bj_uuid job)\<rparr>) d2))))))"

section \<open>Clean-up jobs\<close>

definition cleanupJob :: "auth_token \<Rightarrow> job_type \<Rightarrow> string \<Rightarrow> string \<Rightarrow> int \<Rightarrow> enqueue_input" where
  "cleanupJob auth type entity eventType olderThanHours =
     (plain_job type None (JObj [(''olderThanHours'', jint olderThanHours)]))
       \<lparr>ej_createdById := Some (au_sub auth), ej_relatedEntityType := Some entity, ej_priority := Some (- 5),
        ej_maxAttempts := Some 2, ej_eventType := Some eventType\<rparr>"

definition queueCleanup ::
    "(string \<Rightarrow> 'k::linorder) \<Rightarrow> env \<Rightarrow> db \<Rightarrow> auth_token \<Rightarrow> job_type \<Rightarrow> string \<Rightarrow> string \<Rightarrow> int \<Rightarrow> jval res \<times> db" where
  "queueCleanup collate e d auth type entity eventType olderThanHours =
     (case enqueueJob collate e d (cleanupJob auth type entity eventType olderThanHours) of
        (Inl err, d1) \<Rightarrow> (Inl err, d1)
      | (Inr response, d1) \<Rightarrow>
          (Inr (JObj (asRecord response @ [(''olderThanHours'', jint olderThanHours)])),
           audit_write ((operatorActor auth (audit_event_of eventType entity [] None
               (JObj [(''jobId'', getProp (asRecord response) ''jobId''), (''olderThanHours'', jint olderThanHours)])))
               \<lparr>ai_targetId := None\<rparr>) d1))"

definition queueRateLimitBucketCleanup ::
    "(string \<Rightarrow> 'k::linorder) \<Rightarrow> env \<Rightarrow> db \<Rightarrow> auth_token \<Rightarrow> jval \<Rightarrow> jval res \<times> db" where
  "queueRateLimitBucketCleanup collate e d auth input =
     queueCleanup collate e d auth RATE_LIMIT_BUCKET_CLEANUP ''RateLimitBucket'' ''rate_limit_bucket.cleanup_queued''
       (asNumber (getProp (asRecord input) ''olderThanHours'') 1 720 24)"

definition queueIdempotencyRecordCleanup ::
    "(string \<Rightarrow> 'k::linorder) \<Rightarrow> env \<Rightarrow> db \<Rightarrow> auth_token \<Rightarrow> jval \<Rightarrow> jval res \<times> db" where
  "queueIdempotencyRecordCleanup collate e d auth input =
     queueCleanup collate e d auth IDEMPOTENCY_RECORD_CLEANUP ''IdempotencyRecord'' ''idempotency_record.cleanup_queued''
       (asNumber (getProp (asRecord input) ''olderThanHours'') 1 2160 24)"

section \<open>Effects on the job table\<close>

lemma deadLetterJob_Inr:
  "deadLetterJob d i = Inr j \<longleftrightarrow> find_by bj_uuid i (backgroundJobs d) = Some j \<and> bj_status j = Job_FAILED"
  unfolding deadLetterJob_def by (auto simp: err_simps)

lemma requeueJob_effect:
  assumes "requeueJob e auth existing d = Inr (job, d')"
  shows "bj_uuid existing \<in> bj_uuid ` set (backgroundJobs d) \<and>
    backgroundJobs d' = set_by bj_uuid (bj_uuid existing) (retriedJob (now e) existing) (backgroundJobs d)"
  using assms unfolding requeueJob_def Let_def by (auto simp: err_simps addEvent_def drawn_def)

lemma retryDeadLetterJob_effect:
  assumes "retryDeadLetterJob e d auth i = Inr (job, d')"
  shows "\<exists>j. find_by bj_uuid i (backgroundJobs d) = Some j \<and> bj_status j = Job_FAILED \<and>
    backgroundJobs d' = set_by bj_uuid i (retriedJob (now e) j) (backgroundJobs d)"
proof -
  from assms obtain j where j: "find_by bj_uuid i (backgroundJobs d) = Some j" "bj_status j = Job_FAILED"
      and run: "requeueJob e auth j d = Inr (job, d')"
    unfolding retryDeadLetterJob_def by (auto simp: bindE_eq_Inr deadLetterJob_Inr)
  have "bj_uuid j = i" using find_by_Some [OF j(1)] by simp
  with j requeueJob_effect [OF run] show ?thesis by auto
qed

text \<open>The audit trail names the operator for the retry of a failed job, but calls the actor of a retried
  notification \<open>SYSTEM\<close>, although the operator's id is given: without \<open>actorId\<close> the type is inferred to be
  the system.\<close>

theorem operator_audited_as_system:
  assumes "retryNotification e d auth i = Inr (job, d')"
  shows "\<exists>ev. auditEvents d' = auditEvents d @ [ev] \<and> ae_action ev = ''notification.retry_queued'' \<and>
    ae_actorUserId ev = Some (au_sub auth) \<and> ae_actorType ev = Some ''SYSTEM''"
proof -
  from assms obtain n where n: "find_by nt_uuid i (notifications d) = Some n" "nt_status n = Ntf_FAILED"
      "nt_channel n \<noteq> WEBHOOK"
    unfolding retryNotification_def by (auto simp: err_simps)
  with assms show ?thesis
    unfolding retryNotification_def Let_def
    by (auto simp: err_simps addEvent_def addJob_def drawn_def audit_row_def operatorActor_def audit_event_of_def
        inferActorType_def truthy_text_def getOr_def orElse_def)
qed

definition undelivered_db :: db where
  "undelivered_db = sample_db\<lparr>notifications :=
     [\<lparr>nt_uuid = ''n1'', nt_jobId = None, nt_institutionId = Some school, nt_learnerId = None, nt_userId = None,
       nt_channel = SMS, nt_type = ''otp'', nt_title = ''Code'', nt_body = ''1234'', nt_payload = JNull,
       nt_status = Ntf_FAILED, nt_sentAt = None, nt_failedAt = Some 5, nt_error = Some ''down''\<rparr>]\<rparr>"

lemma undelivered_retry:
  obtains job d' where "retryNotification sample_env undelivered_db founder ''n1'' = Inr (job, d')"
proof -
  have "case retryNotification sample_env undelivered_db founder ''n1'' of Inl _ \<Rightarrow> False | Inr _ \<Rightarrow> True"
    by code_simp
  with that show ?thesis by (auto split: sum.splits)
qed

theorem operator_audited_as_system_witness:
  "\<exists>job d' ev. retryNotification sample_env undelivered_db founder ''n1'' = Inr (job, d') \<and>
     auditEvents d' = auditEvents undelivered_db @ [ev] \<and> ae_actorUserId ev = Some ''founder'' \<and>
     ae_actorType ev = Some ''SYSTEM''"
proof -
  obtain job d' where run: "retryNotification sample_env undelivered_db founder ''n1'' = Inr (job, d')"
    by (rule undelivered_retry)
  show ?thesis using operator_audited_as_system [OF run] run by (auto simp: founder_def)
qed

end
