(* ===== verification/Webhooks.thy ===== *)
theory Webhooks
  imports Worker
begin

text \<open>
  What one run of the webhook job of \<open>Worker\<close> does: at most one signed request, and a delivery whose status
  and attempts tell what happened.
\<close>

definition signature_of :: "services \<Rightarrow> env \<Rightarrow> webhook_delivery \<Rightarrow> string \<Rightarrow> string \<Rightarrow> string" where
  "signature_of s e w secret body = ''v1='' @ sv_hmac s secret (signedContent e w body)"

lemma buildWebhookHeaders_signed:
  assumes "buildWebhookHeaders e s d w body = Inr headers"
  shows "\<exists>secret. resolveWebhookSecret s d w = Inr (Some secret) \<and> secret \<noteq> [] \<and>
    map_of headers ''x-acadid-signature'' = Some (signature_of s e w secret body)"
proof -
  obtain secret where secret: "resolveWebhookSecret s d w = Inr secret" "truthy_text secret"
    using assms unfolding buildWebhookHeaders_def by (auto simp: err_simps)
  then obtain k where k: "secret = Some k" "k \<noteq> []" by (auto simp: truthy_text_def split: option.splits)
  with assms secret show ?thesis
    unfolding buildWebhookHeaders_def by (auto simp: signature_of_def split: option.splits)
qed

text \<open>The delivery after a request, by what the endpoint answered.\<close>

definition answeredDelivery :: "env \<Rightarrow> services \<Rightarrow> background_job \<Rightarrow> http_result \<Rightarrow> webhook_delivery \<Rightarrow> webhook_delivery" where
  "answeredDelivery e s job answer w =
     (let w1 = attemptedDelivery (nextRetryRunAfter e s 0 job) w in
      case answer of
        Http_error reason \<Rightarrow> refusedDelivery reason None (nextRetryRunAfter e s 1 job) w1
      | Http_response code body \<Rightarrow>
          (if status_ok code then deliveredDelivery (now e) code w1
           else refusedDelivery (status_message code body) (Some code) (nextRetryRunAfter e s 1 job) w1))"

definition accepted :: "http_result \<Rightarrow> bool" where
  "accepted answer = (case answer of Http_response code body \<Rightarrow> status_ok code | Http_error _ \<Rightarrow> False)"

lemma set_by_twice:
  assumes "\<And>r. key (f r) = key r"
  shows "set_by key k g (set_by key k f rows) = set_by key k (\<lambda>r. g (f r)) rows"
  using assms by (auto simp: set_by_def update_rows_def)

lemma answeredDelivery_status:
  "wd_status (answeredDelivery e s job answer w) = (if accepted answer then Dlv_DELIVERED else Dlv_RETRYING)"
  "wd_attempts (answeredDelivery e s job answer w) = wd_attempts w + 1"
  "wd_uuid (answeredDelivery e s job answer w) = wd_uuid w"
  by (simp_all add: answeredDelivery_def accepted_def deliveredDelivery_def refusedDelivery_def
      attemptedDelivery_def Let_def split: http_result.splits)

lemma attempted_uuid [simp]: "wd_uuid (attemptedDelivery t w) = wd_uuid w"
  by (simp add: attemptedDelivery_def)

lemma answeredDelivery_error:
  "answeredDelivery e s job (Http_error reason) =
     (\<lambda>w. refusedDelivery reason None (nextRetryRunAfter e s 1 job) (attemptedDelivery (nextRetryRunAfter e s 0 job) w))"
  by (simp add: answeredDelivery_def fun_eq_iff)

lemma answeredDelivery_response:
  "answeredDelivery e s job (Http_response code body) =
     (if status_ok code
      then (\<lambda>w. deliveredDelivery (now e) code (attemptedDelivery (nextRetryRunAfter e s 0 job) w))
      else (\<lambda>w. refusedDelivery (status_message code body) (Some code) (nextRetryRunAfter e s 1 job)
              (attemptedDelivery (nextRetryRunAfter e s 0 job) w)))"
  by (simp add: answeredDelivery_def fun_eq_iff)

lemma processWebhookDelivery_run:
  assumes "List.find (pendingDelivery (bj_uuid job)) (webhookDeliveries d) = Some w"
    and "buildWebhookHeaders e s d w (serializeWebhookBody e w (wd_attempts w + 1)) = Inr headers"
    and "post = \<lparr>hp_url = wd_targetUrl w, hp_headers = headers, hp_body = serializeWebhookBody e w (wd_attempts w + 1)\<rparr>"
  shows "\<exists>r. processWebhookDelivery e s job d sent =
      (r, setDelivery (wd_uuid w) (answeredDelivery e s job (sv_server s sent post)) d, sent @ [post]) \<and>
    ((\<exists>v. r = Inr v) \<longleftrightarrow> accepted (sv_server s sent post))"
  using assms
  by (auto simp: processWebhookDelivery_def answeredDelivery_error answeredDelivery_response accepted_def
      setDelivery_def set_by_twice Let_def split: http_result.splits)


section \<open>Witness\<close>

definition hook_services :: services where
  "hook_services =
     \<lparr>sv_server = (\<lambda>_ _. Http_response 200 None), sv_hmac = (\<lambda>k m. k @ m), sv_decrypt = (\<lambda>s. Inr s),
      sv_webhookSecret = Some ''secret'', sv_random = (\<lambda>_. 0), sv_hostname = ''host'', sv_processId = 1,
      sv_metadata = JNull, sv_bulkStudentUpload = (\<lambda>e job d. (Inr JNull, d)),
      sv_resultBatchValidation = (\<lambda>e job d. (Inr JNull, d)),
      sv_deliverPendingForJob = (\<lambda>e i d sent. (JNull, d, sent))\<rparr>"

definition hook_queue :: "background_job \<times> db" where
  "hook_queue = (let d = snd (enqueueWebhookDelivery sample_env empty_db
       \<lparr>wi_jobId = None, wi_eventId = None, wi_institutionId = None, wi_webhookEndpointId = None,
        wi_targetUrl = ''https://a'', wi_eventType = ''ping'', wi_payload = JNull\<rparr>)
     in (hd (backgroundJobs d), d))"

lemma hook_run:
  obtains r d' post where "processWebhookDelivery sample_env hook_services (fst hook_queue) (snd hook_queue) [] = (r, d', [post])"
proof -
  have "case processWebhookDelivery sample_env hook_services (fst hook_queue) (snd hook_queue) [] of
      (r, d', sent) \<Rightarrow> length sent = 1" by code_simp
  with that show ?thesis by (auto split: prod.splits simp: length_Suc_conv)
qed


end
