(* ===== verification/RowMachine.thy ===== *)
theory RowMachine
  imports Table
begin

text \<open>
  A table whose rows are state machines: rows are added, and one row at a time makes a move. The locale
  \<open>row_machine\<close> is the contract between the moves of a row and the invariants of its table: the key of a
  row never changes and every move keeps the row well formed. Rows are never removed.
\<close>

inductive rows_step :: "('r \<Rightarrow> string) \<Rightarrow> ('r \<Rightarrow> 'r \<Rightarrow> bool) \<Rightarrow> ('r \<Rightarrow> bool) \<Rightarrow> 'r list \<Rightarrow> 'r list \<Rightarrow> bool"
  for key :: "'r \<Rightarrow> string" and move :: "'r \<Rightarrow> 'r \<Rightarrow> bool" and new :: "'r \<Rightarrow> bool"
where
  stay: "rows_step key move new rs rs"
| add: "new r \<Longrightarrow> key r \<notin> key ` set rs \<Longrightarrow> rows_step key move new rs (rs @ [r])"
| move: "find_by key k rs = Some r \<Longrightarrow> move r r' \<Longrightarrow>
    rows_step key move new rs (set_by key k (\<lambda>_. r') rs)"

inductive_cases rows_stepE: "rows_step key move new rs rs'"

lemma set_by_const:
  assumes "distinct (map key rs)" and "find_by key k rs = Some r"
  shows "set_by key k f rs = set_by key k (\<lambda>_. f r) rs"
proof -
  have "\<And>r'. r' \<in> set rs \<Longrightarrow> key r' = k \<Longrightarrow> r' = r"
    using assms find_by_distinct [of key rs] by fastforce
  then show ?thesis by (auto simp: set_by_def update_rows_def)
qed

locale row_machine =
  fixes key :: "'r \<Rightarrow> string" and move :: "'r \<Rightarrow> 'r \<Rightarrow> bool" and new :: "'r \<Rightarrow> bool" and ok :: "'r \<Rightarrow> bool"
  assumes move_key: "move r r' \<Longrightarrow> key r' = key r"
    and ok_move: "ok r \<Longrightarrow> move r r' \<Longrightarrow> ok r'"
    and ok_new: "new r \<Longrightarrow> ok r"
begin

lemma keys_const:
  assumes "find_by key k rs = Some r" and "move r r'"
  shows "map key (set_by key k (\<lambda>_. r') rs) = map key rs"
  using move_key [OF assms(2)] find_by_key [OF assms(1)] by (auto simp: set_by_def update_rows_def)

lemma distinct_step:
  assumes "rows_step key move new rs rs'" and "distinct (map key rs)"
  shows "distinct (map key rs')"
  using assms by (elim rows_stepE) (simp_all add: keys_const)

lemma ok_step:
  assumes "rows_step key move new rs rs'" and "list_all ok rs"
  shows "list_all ok rs'"
  using assms
proof (cases rule: rows_step.cases)
  case move': (move k r r')
  have "ok r" using find_by_Some [OF move'(2)] assms(2) by (simp add: list_all_iff)
  then have "ok r'" using move'(3) ok_move by blast
  with move' assms(2) show ?thesis by (auto simp: list_all_iff in_set_by)
qed (simp_all add: ok_new)

text \<open>The row under a key stays, or makes a move.\<close>

lemma row_step:
  assumes "rows_step key move new rs rs'" and "find_by key k rs = Some r"
  shows "find_by key k rs' = Some r \<or> (\<exists>r'. move r r' \<and> find_by key k rs' = Some r')"
  using assms
proof (cases rule: rows_step.cases)
  case move': (move k' q q')
  show ?thesis
  proof (cases "k = k'")
    case True
    with move' assms(2) have "q = r" by simp
    moreover have "find_by key k (set_by key k (\<lambda>_. q') rs) = Some q'"
      using assms(2) move_key [OF move'(3)] find_by_key [OF move'(2)] True by (induction rs) (auto split: if_splits)
    ultimately show ?thesis using move' True by auto
  next
    case False
    have "key q' = k'" using move_key [OF move'(3)] find_by_key [OF move'(2)] by simp
    with False have "find_by key k (set_by key k' (\<lambda>_. q') rs) = find_by key k rs"
      by (induction rs) auto
    with move' assms(2) show ?thesis by simp
  qed
qed (simp_all add: row_simps)

lemma final_step:
  assumes "rows_step key move new rs rs'" and "find_by key k rs = Some r" and "\<And>r'. \<not> move r r'"
  shows "find_by key k rs' = Some r"
  using row_step [OF assms(1,2)] assms(3) by blast

end

end
