(* ===== verification/JobLifecycle.thy ===== *)
theory JobLifecycle
  imports DeadLetters Webhooks RowMachine
begin

text \<open>
  What the workers of one database, the services that enqueue jobs and the operators do to the job table
  in any interleaving. A state is the database with the jobs that are claimed and not settled yet; a
  worker that dies drops its claim. A retry by an operator reads the job first and writes later. Every step
  but a retry whose job changed in between is a step of the table of jobs as a state machine
  (\<open>job_move\<close>), from which the life cycle of a job follows.
\<close>

section \<open>The life of a job\<close>

inductive job_move :: "background_job \<Rightarrow> background_job \<Rightarrow> bool" where
  claim: "bj_status j \<in> {Job_QUEUED, Job_RETRYING} \<Longrightarrow> job_move j (claimed t w j)"
| succeed: "bj_status j = Job_RUNNING \<Longrightarrow> job_move j (completedJob t v j)"
| retry: "bj_status j = Job_RUNNING \<Longrightarrow> bj_attempts j < bj_maxAttempts j \<Longrightarrow>
    job_move j (failedJob t msg (Some t') j)"
| give_up: "bj_status j = Job_RUNNING \<Longrightarrow> job_move j (failedJob t msg None j)"
| requeue: "bj_status j = Job_FAILED \<Longrightarrow> job_move j (retriedJob t j j)"

inductive_cases job_moveE: "job_move j j'"

lemmas job_row_defs = claimed_def completedJob_def failedJob_def retriedJob_def nextMaxAttempts_def

definition new_job :: "background_job \<Rightarrow> bool" where
  "new_job j \<longleftrightarrow> bj_status j = Job_QUEUED \<and> bj_attempts j = 0 \<and> bj_lockedBy j = None \<and> bj_lockedAt j = None"

text \<open>The attempts stay within the limit of the job, and exactly the running jobs are locked.\<close>

definition job_ok :: "background_job \<Rightarrow> bool" where
  "job_ok j \<longleftrightarrow>
     0 \<le> bj_attempts j \<and> bj_attempts j \<le> max 1 (bj_maxAttempts j) \<and>
     (bj_status j = Job_QUEUED \<longrightarrow> bj_attempts j = 0) \<and>
     (bj_status j = Job_RETRYING \<longrightarrow> bj_attempts j < bj_maxAttempts j) \<and>
     (bj_status j = Job_RUNNING \<longrightarrow> 1 \<le> bj_attempts j) \<and>
     (bj_status j = Job_RUNNING \<longleftrightarrow> bj_lockedBy j \<noteq> None) \<and>
     (bj_status j = Job_RUNNING \<longleftrightarrow> bj_lockedAt j \<noteq> None)"

lemma job_move_uuid: "job_move j j' \<Longrightarrow> bj_uuid j' = bj_uuid j"
  by (erule job_moveE) (simp_all add: job_row_defs)

lemma job_ok_move: "job_ok j \<Longrightarrow> job_move j j' \<Longrightarrow> job_ok j'"
  by (erule job_moveE) (auto simp: job_ok_def job_row_defs)

lemma job_ok_new: "new_job j \<Longrightarrow> job_ok j"
  by (simp add: job_ok_def new_job_def)

interpretation jobs: row_machine bj_uuid job_move new_job job_ok
  by unfold_locales (blast intro: job_move_uuid job_ok_move job_ok_new)+

abbreviation job_table_step :: "background_job list \<Rightarrow> background_job list \<Rightarrow> bool" where
  "job_table_step \<equiv> rows_step bj_uuid job_move new_job"

text \<open>A settled job makes no move; a failed one only moves when an operator retries it.\<close>

lemma job_settled: "bj_status j \<in> {Job_SUCCEEDED, Job_CANCELLED} \<Longrightarrow> \<not> job_move j j'"
  by (auto elim: job_moveE)

section \<open>The steps of the system\<close>

text \<open>The processors of \<open>services\<close> belong to parts of the system that do not write the table of jobs.\<close>

definition services_ok :: "services \<Rightarrow> bool" where
  "services_ok s \<longleftrightarrow>
     (\<forall>e job d. backgroundJobs (snd (sv_bulkStudentUpload s e job d)) = backgroundJobs d) \<and>
     (\<forall>e job d. backgroundJobs (snd (sv_resultBatchValidation s e job d)) = backgroundJobs d) \<and>
     (\<forall>e i d sent. backgroundJobs (fst (snd (sv_deliverPendingForJob s e i d sent))) = backgroundJobs d)"

type_synonym cluster = "db \<times> background_job list"

abbreviation fresh_job :: "env \<Rightarrow> db \<Rightarrow> bool" where
  "fresh_job e d \<equiv> fresh e d \<notin> bj_uuid ` set (backgroundJobs d)"

inductive worker_step :: "services \<Rightarrow> cluster \<Rightarrow> cluster \<Rightarrow> bool" for s :: services where
  claim: "claimNextJob e w d = (Some job, d') \<Longrightarrow> worker_step s (d, cs) (d', cs @ [job])"
| process: "job \<in> set cs \<Longrightarrow> processJob e s job d sent = (r, d', sent') \<Longrightarrow> worker_step s (d, cs) (d', cs)"
| complete: "job \<in> set cs \<Longrightarrow> completeJob e job v d = Inr d' \<Longrightarrow> worker_step s (d, cs) (d', remove1 job cs)"
| fail: "job \<in> set cs \<Longrightarrow> failOrRetryJob e s job err d = Inr d' \<Longrightarrow> worker_step s (d, cs) (d', remove1 job cs)"
| crash: "worker_step s (d, cs) (d, remove1 job cs)"
| enqueue: "fresh_job e d \<Longrightarrow> createJob e input d = (r, d') \<Longrightarrow> worker_step s (d, cs) (d', cs)"
| webhook: "fresh_job e d \<Longrightarrow> enqueueWebhookDelivery e d hook = (v, d') \<Longrightarrow> worker_step s (d, cs) (d', cs)"
| retry_delivery: "fresh_job e d \<Longrightarrow> retryWebhookDelivery e d auth i = Inr (delivery, job, d') \<Longrightarrow>
    worker_step s (d, cs) (d', cs)"
| replay_delivery: "fresh_job e d \<Longrightarrow> replayWebhookDelivery e d auth i = Inr (delivery, job, d') \<Longrightarrow>
    worker_step s (d, cs) (d', cs)"
| retry_notification: "fresh_job e d \<Longrightarrow> retryNotification e d auth i = Inr (job, d') \<Longrightarrow>
    worker_step s (d, cs) (d', cs)"
| retry_job: "retryDeadLetterJob e d auth i = Inr (job, d') \<Longrightarrow> worker_step s (d, cs) (d', cs)"
| elsewhere: "backgroundJobs d' = backgroundJobs d \<Longrightarrow> worker_step s (d, cs) (d', cs)"

inductive_cases worker_stepE: "worker_step s c c'"

section \<open>The job table after an operation\<close>

lemma nextDue_Some:
  assumes "nextDue t jobs = Some j"
  shows "j \<in> set jobs \<and> claimable t j \<and> (\<forall>j' \<in> set jobs. claimable t j' \<longrightarrow> claim_key j \<le> claim_key j')"
proof -
  obtain rest where r: "sort_key claim_key (filter (claimable t) jobs) = j # rest"
    using assms by (auto simp: nextDue_def split: list.splits)
  have set: "set (j # rest) = set (filter (claimable t) jobs)" unfolding r [symmetric] by simp
  have "sorted (map claim_key (j # rest))" unfolding r [symmetric] by simp
  then have "\<forall>j' \<in> set (j # rest). claim_key j \<le> claim_key j'" by simp
  then show ?thesis using set by auto
qed

lemma nextDue_None: "nextDue t jobs = None \<longleftrightarrow> filter (claimable t) jobs = []"
proof -
  have "length (sort_key claim_key (filter (claimable t) jobs)) = length (filter (claimable t) jobs)"
    by simp
  then show ?thesis
    by (cases "filter (claimable t) jobs"; cases "sort_key claim_key (filter (claimable t) jobs)")
      (simp_all only: nextDue_def list.simps list.size, simp_all)
qed

lemma confirmFoundRequest_jobs:
  assumes "confirmFoundRequest d i ref amount currency paidAt request = Inr (v, d')"
  shows "backgroundJobs d' = backgroundJobs d"
  using assms unfolding confirmFoundRequest_def
  by (simp add: err_simps Let_def split: if_splits) auto

lemma processPaystack_jobs:
  assumes "processPaystackPaymentConfirmation e d job = Inr (v, d')"
  shows "backgroundJobs d' = backgroundJobs d"
  using assms confirmFoundRequest_jobs unfolding processPaystackPaymentConfirmation_def
  by (simp add: err_simps Let_def split: if_splits) blast+

lemma processJob_jobs:
  assumes "services_ok s" and "processJob e s job d sent = (r, d', sent')"
  shows "backgroundJobs d' = backgroundJobs d"
proof -
  have hook: "backgroundJobs (fst (snd (processWebhookDelivery e s job d sent))) = backgroundJobs d"
    unfolding processWebhookDelivery_def Let_def setDelivery_def
    by (auto split: option.splits sum.splits http_result.splits if_splits)
  have push: "backgroundJobs (fst (snd (processNotificationDelivery e s job d sent))) = backgroundJobs d"
    using assms(1) unfolding processNotificationDelivery_def services_ok_def
    by (cases "sv_deliverPendingForJob s e (bj_uuid job) d sent") (metis (no_types, lifting) case_prod_conv fst_conv snd_conv)
  have "backgroundJobs (fst (snd (processJob e s job d sent))) = backgroundJobs d"
    using assms(1) processPaystack_jobs hook push
    by (cases "bj_type job")
      (auto simp: processJob_def silent_def transactional_def services_ok_def processDeferredIntegration_def
        processRateLimitBucketCleanup_def processIdempotencyRecordCleanup_def cleanupExpiredBuckets_def
        cleanupExpiredRecords_def Let_def split: sum.splits prod.splits)
  then show ?thesis using assms(2) by simp
qed

lemma completeJob_eq:
  assumes "find_by bj_uuid (bj_uuid job) (backgroundJobs d) = Some j"
  shows "\<exists>d'. completeJob e job v d = Inr d' \<and>
    backgroundJobs d' = set_by bj_uuid (bj_uuid job) (completedJob (now e) v) (backgroundJobs d)"
  using assms by (simp add: completeJob_def update_by_def Let_def addEvent_def drawn_def)

lemma completeJob_jobs:
  assumes "completeJob e job v d = Inr d'"
  shows "backgroundJobs d' = set_by bj_uuid (bj_uuid job) (completedJob (now e) v) (backgroundJobs d)"
  using assms by (auto simp: completeJob_def Let_def err_simps addEvent_def drawn_def)

lemma failOrRetryJob_eq:
  assumes "find_by bj_uuid (bj_uuid job) (backgroundJobs d) = Some j"
  shows "\<exists>d'. failOrRetryJob e s job err d = Inr d' \<and> backgroundJobs d' =
    set_by bj_uuid (bj_uuid job) (failedJob (now e) (message err) (retryTime e s job err)) (backgroundJobs d)"
  using assms by (simp add: failOrRetryJob_def update_by_def Let_def addEvent_def drawn_def)

lemma failOrRetryJob_jobs:
  assumes "failOrRetryJob e s job err d = Inr d'"
  shows "backgroundJobs d' =
    set_by bj_uuid (bj_uuid job) (failedJob (now e) (message err) (retryTime e s job err)) (backgroundJobs d)"
  using assms by (auto simp: failOrRetryJob_def Let_def err_simps addEvent_def drawn_def split: if_splits)

text \<open>Every operation that enqueues a job appends one new row.\<close>

lemma newJob_new: "new_job (newJob e d input)" "bj_uuid (newJob e d input) = fresh e d"
  by (simp_all add: newJob_def new_job_def)

lemma link_appended:
  assumes "fresh_job e d"
  shows "set_by bj_uuid (fresh e d) f (backgroundJobs d @ [newJob e d input]) = backgroundJobs d @ [f (newJob e d input)]"
  using set_by_id [OF assms, of f] by (simp add: set_by_def update_rows_def newJob_def)

definition appends_job :: "string \<Rightarrow> db \<Rightarrow> db \<Rightarrow> bool" where
  "appends_job i d d' \<longleftrightarrow> (\<exists>j. new_job j \<and> bj_uuid j = i \<and> backgroundJobs d' = backgroundJobs d @ [j])"

lemma createJob_appends: "appends_job (fresh e d) d (snd (createJob e input d))"
  using newJob_new [of e d input]
  by (simp add: appends_job_def createJob_def Let_def addJob_def addEvent_def drawn_def)

lemma webhook_appends:
  assumes "fresh_job e d"
  shows "appends_job (fresh e d) d (snd (enqueueWebhookDelivery e d hook))"
  using newJob_new unfolding new_job_def
  by (simp add: appends_job_def enqueueWebhookDelivery_def Let_def addJob_def addEvent_def drawn_def new_job_def
      link_appended [OF assms])

lemma retryWebhookDelivery_appends:
  assumes "retryWebhookDelivery e d auth i = Inr (delivery, job, d')"
  shows "appends_job (fresh e d) d d'"
  using assms newJob_new
  by (auto simp: appends_job_def retryWebhookDelivery_def createWebhookJob_def err_simps Let_def addJob_def
      addEvent_def drawn_def)

lemma replayWebhookDelivery_appends:
  assumes "fresh_job e d" and "replayWebhookDelivery e d auth i = Inr (delivery, job, d')"
  shows "appends_job (fresh e d) d d'"
  using assms(2) newJob_new
  by (auto simp: link_appended [OF assms(1)] appends_job_def replayWebhookDelivery_def err_simps Let_def addJob_def addEvent_def drawn_def
      new_job_def)

lemma retryNotification_appends:
  assumes "retryNotification e d auth i = Inr (job, d')"
  shows "appends_job (fresh e d) d d'"
  using assms newJob_new
  by (auto simp: appends_job_def retryNotification_def err_simps Let_def addJob_def addEvent_def drawn_def)

section \<open>Refinement and invariant\<close>

text \<open>Every claim is the row of a running job, and no job is claimed twice.\<close>

definition claims_ok :: "cluster \<Rightarrow> bool" where
  "claims_ok c \<longleftrightarrow> distinct (map bj_uuid (snd c)) \<and>
     list_all (\<lambda>job. bj_status job = Job_RUNNING \<and>
       find_by bj_uuid (bj_uuid job) (backgroundJobs (fst c)) = Some job) (snd c)"

definition lifecycle_ok :: "cluster \<Rightarrow> bool" where
  "lifecycle_ok c \<longleftrightarrow> distinct (map bj_uuid (backgroundJobs (fst c))) \<and>
     list_all job_ok (backgroundJobs (fst c)) \<and> claims_ok c"

lemma claimed_row:
  assumes "lifecycle_ok (d, cs)" and "job \<in> set cs"
  shows "find_by bj_uuid (bj_uuid job) (backgroundJobs d) = Some job" and "bj_status job = Job_RUNNING"
  using assms by (auto simp: lifecycle_ok_def claims_ok_def list_all_iff)

lemma job_stay: "job_table_step js js"
  by (rule rows_step.stay)

lemma job_add: "new_job j \<Longrightarrow> bj_uuid j \<notin> bj_uuid ` set js \<Longrightarrow> job_table_step js (js @ [j])"
  by (rule rows_step.add)

lemma one_move:
  assumes "distinct (map bj_uuid js)" and "find_by bj_uuid i js = Some j" and "job_move j (f j)"
  shows "job_table_step js (set_by bj_uuid i f js)"
  using rows_step.move [of bj_uuid i js j job_move "f j" new_job] assms set_by_const [of bj_uuid js i j f] by simp

lemma appends_step:
  assumes "appends_job (fresh e d) d d'" and "fresh_job e d"
  shows "job_table_step (backgroundJobs d) (backgroundJobs d')"
proof -
  from assms(1) obtain j where "new_job j" "bj_uuid j = fresh e d" "backgroundJobs d' = backgroundJobs d @ [j]"
    unfolding appends_job_def by blast
  with assms(2) show ?thesis using job_add [of j] by simp
qed

lemma claimNextJob_Some:
  assumes "claimNextJob e w d = (Some job, d')"
  shows "\<exists>j. nextDue (now e) (backgroundJobs d) = Some j \<and> job = claimed (now e) w j \<and>
    backgroundJobs d' = set_by bj_uuid (bj_uuid j) (claimed (now e) w) (backgroundJobs d)"
  using assms by (auto simp: claimNextJob_def split: option.splits)

lemma claim_found:
  assumes "distinct (map bj_uuid (backgroundJobs d))" and "nextDue t (backgroundJobs d) = Some j"
  shows "find_by bj_uuid (bj_uuid j) (backgroundJobs d) = Some j" and "bj_status j \<in> {Job_QUEUED, Job_RETRYING}"
  using nextDue_Some [OF assms(2)] find_by_distinct [OF assms(1)] by (auto simp: claimable_def)

lemma retryTime_Some: "retryTime e s job err = Some t \<Longrightarrow> bj_attempts job < bj_maxAttempts job"
  by (auto simp: retryTime_def shouldRetry_def split: if_splits)

lemma failedJob_move:
  assumes "bj_status job = Job_RUNNING"
  shows "job_move job (failedJob t msg (retryTime e s job err) job)"
  using assms retryTime_Some by (cases "retryTime e s job err") (auto intro: job_move.intros)

lemma table_step:
  assumes "services_ok s" and ok: "lifecycle_ok (d, cs)" and "worker_step s (d, cs) (d', cs')"
  shows "job_table_step (backgroundJobs d) (backgroundJobs d')"
proof -
  have dist: "distinct (map bj_uuid (backgroundJobs d))" using ok by (simp add: lifecycle_ok_def)
  from assms(3) show ?thesis
  proof (cases rule: worker_step.cases)
    case (claim e w job)
    then obtain j where j: "nextDue (now e) (backgroundJobs d) = Some j"
        "backgroundJobs d' = set_by bj_uuid (bj_uuid j) (claimed (now e) w) (backgroundJobs d)"
      using claimNextJob_Some by blast
    have "job_move j (claimed (now e) w j)" by (rule job_move.claim [OF claim_found(2) [OF dist j(1)]])
    then show ?thesis unfolding j(2) by (rule one_move [OF dist claim_found(1) [OF dist j(1)]])
  next
    case (process job e sent r sent')
    then show ?thesis using processJob_jobs [OF assms(1), of e job d sent r d' sent'] job_stay by simp
  next
    case (complete job e v)
    then show ?thesis using claimed_row [OF ok] completeJob_jobs
      by (simp add: job_move.succeed one_move [OF dist, where j = job])
  next
    case (fail job e err)
    then show ?thesis using claimed_row [OF ok] failOrRetryJob_jobs
      by (simp add: failedJob_move one_move [OF dist, where j = job])
  next
    case (retry_job e auth i job)
    then obtain j where "find_by bj_uuid i (backgroundJobs d) = Some j" "bj_status j = Job_FAILED"
        "backgroundJobs d' = set_by bj_uuid i (retriedJob (now e) j) (backgroundJobs d)"
      using retryDeadLetterJob_effect by blast
    then show ?thesis by (simp add: job_move.requeue one_move [OF dist, where j = j])
  next
    case (enqueue e input r)
    then show ?thesis using createJob_appends [of e d input] by (auto intro: appends_step)
  next
    case (webhook e hook v)
    then show ?thesis using webhook_appends [of e d hook] by (auto intro: appends_step)
  qed (auto intro: job_stay appends_step dest: retryWebhookDelivery_appends replayWebhookDelivery_appends
      retryNotification_appends)
qed

lemma distinct_remove1: "distinct (map f cs) \<Longrightarrow> distinct (map f (remove1 c cs))"
  by (induction cs) (auto simp: image_iff dest: notin_set_remove1)

lemma removed_key: "distinct (map f cs) \<Longrightarrow> c \<in> set cs \<Longrightarrow> f c \<notin> f ` set (remove1 c cs)"
  by (induction cs) (auto simp: image_iff)

text \<open>The claims after one row was written, and after a row was added.\<close>

lemma claims_set:
  assumes "claims_ok (d, cs)" and "backgroundJobs d' = set_by bj_uuid i f (backgroundJobs d)"
    and "\<And>j. bj_uuid (f j) = bj_uuid j" and "i \<notin> bj_uuid ` set cs"
  shows "claims_ok (d', cs)"
proof -
  have "find_by bj_uuid (bj_uuid job) (set_by bj_uuid i f (backgroundJobs d)) = find_by bj_uuid (bj_uuid job) (backgroundJobs d)"
    if "job \<in> set cs" for job
    using that assms(4) by (intro set_by_other assms(3)) blast
  with assms(1,2) show ?thesis by (simp add: claims_ok_def list_all_iff)
qed

lemma claims_append:
  assumes "claims_ok (d, cs)" and "appends_job i d d'"
  shows "claims_ok (d', cs)"
  using assms by (auto simp: claims_ok_def list_all_iff appends_job_def row_simps)

lemma claims_same: "claims_ok (d, cs) \<Longrightarrow> backgroundJobs d' = backgroundJobs d \<Longrightarrow> claims_ok (d', cs)"
  by (simp add: claims_ok_def)

lemma claims_drop: "claims_ok (d, cs) \<Longrightarrow> claims_ok (d, remove1 job cs)"
  using set_remove1_subset [of job cs] by (auto simp: claims_ok_def list_all_iff distinct_remove1)

lemma claims_settled:
  assumes "claims_ok (d, cs)" and "job \<in> set cs" and "\<And>j. bj_uuid (f j) = bj_uuid j"
    and "backgroundJobs d' = set_by bj_uuid (bj_uuid job) f (backgroundJobs d)"
  shows "claims_ok (d', remove1 job cs)"
  using claims_set [OF claims_drop [OF assms(1)] assms(4,3)] removed_key [OF _ assms(2), of bj_uuid] assms(1)
  by (simp add: claims_ok_def)

lemma claims_not_running:
  assumes "claims_ok (d, cs)" and "find_by bj_uuid i (backgroundJobs d) = Some j" and "bj_status j \<noteq> Job_RUNNING"
  shows "i \<notin> bj_uuid ` set cs"
  using assms by (auto simp: claims_ok_def list_all_iff)

lemma claims_claim:
  assumes "claims_ok (d, cs)" and "distinct (map bj_uuid (backgroundJobs d))"
    and "claimNextJob e w d = (Some job, d')"
  shows "claims_ok (d', cs @ [job])"
proof -
  obtain j where j: "nextDue (now e) (backgroundJobs d) = Some j" "job = claimed (now e) w j"
      "backgroundJobs d' = set_by bj_uuid (bj_uuid j) (claimed (now e) w) (backgroundJobs d)"
    using claimNextJob_Some [OF assms(3)] by blast
  note found = claim_found [OF assms(2) j(1)]
  have free: "bj_uuid j \<notin> bj_uuid ` set cs"
    using claims_not_running [OF assms(1) found(1)] found(2) by auto
  have "claims_ok (d', cs)" by (rule claims_set [OF assms(1) j(3) _ free]) (simp add: claimed_def)
  moreover have "find_by bj_uuid (bj_uuid job) (backgroundJobs d') = Some job"
    unfolding j(2,3) using found(1) by (simp add: set_by_same claimed_def)
  ultimately show ?thesis using free j(2) by (simp add: claims_ok_def claimed_def)
qed

lemma claims_step:
  assumes "services_ok s" and ok: "lifecycle_ok (d, cs)" and "worker_step s (d, cs) (d', cs')"
  shows "claims_ok (d', cs')"
proof -
  have claims: "claims_ok (d, cs)" and dist: "distinct (map bj_uuid (backgroundJobs d))"
    using ok by (simp_all add: lifecycle_ok_def)
  from assms(3) show ?thesis
  proof (cases rule: worker_step.cases)
    case (claim e w job)
    with claims dist show ?thesis by (simp add: claims_claim)
  next
    case (process job e sent r sent')
    then show ?thesis using claims_same [OF claims] processJob_jobs [OF assms(1), of e job d sent r d' sent'] by simp
  next
    case (complete job e v)
    then show ?thesis
      using claims_settled [OF claims, of job "completedJob (now e) v"] completeJob_jobs by (simp add: completedJob_def)
  next
    case (fail job e err)
    then show ?thesis
      using claims_settled [OF claims, of job "failedJob (now e) (message err) (retryTime e s job err)"]
        failOrRetryJob_jobs by (simp add: failedJob_def)
  next
    case (retry_job e auth i job)
    then obtain j where j: "find_by bj_uuid i (backgroundJobs d) = Some j" "bj_status j = Job_FAILED"
        "backgroundJobs d' = set_by bj_uuid i (retriedJob (now e) j) (backgroundJobs d)"
      using retryDeadLetterJob_effect by blast
    have "claims_ok (d', cs)"
      by (rule claims_set [OF claims j(3)]) (simp_all add: retriedJob_def claims_not_running [OF claims j(1)] j(2))
    with retry_job show ?thesis by simp
  next
    case (crash job)
    then show ?thesis using claims_drop [OF claims] by simp
  next
    case (enqueue e input r)
    then show ?thesis using claims_append [OF claims createJob_appends [of e d input]] by simp
  next
    case (webhook e hook v)
    then show ?thesis using claims_append [OF claims webhook_appends [of e d hook]] by simp
  next
    case (retry_delivery e auth i delivery job)
    then show ?thesis using claims_append [OF claims retryWebhookDelivery_appends [of e d auth i]] by simp
  next
    case (replay_delivery e auth i delivery job)
    then show ?thesis using claims_append [OF claims replayWebhookDelivery_appends [of e d auth i]] by simp
  next
    case (retry_notification e auth i job)
    then show ?thesis using claims_append [OF claims retryNotification_appends [of e d auth i]] by simp
  next
    case elsewhere
    then show ?thesis using claims_same [OF claims] by simp
  qed
qed

lemma lifecycle_step:
  assumes "services_ok s" and "lifecycle_ok c" and "worker_step s c c'"
  shows "lifecycle_ok c'"
proof -
  obtain d cs d' cs' where c: "c = (d, cs)" "c' = (d', cs')" by (cases c, cases c')
  note step = table_step [OF assms(1) assms(2) [unfolded c] assms(3) [unfolded c]]
  show ?thesis
    using claims_step [OF assms(1) assms(2) [unfolded c] assms(3) [unfolded c]]
      jobs.distinct_step [OF step] jobs.ok_step [OF step] assms(2)
    by (simp add: lifecycle_ok_def c)
qed

lemma lifecycle_steps:
  assumes "(worker_step s)\<^sup>*\<^sup>* c c'" and "services_ok s" and "lifecycle_ok c"
  shows "lifecycle_ok c'"
  using assms by (induction rule: rtranclp_induct) (auto intro: lifecycle_step)

lemma lifecycle_start:
  "distinct (map bj_uuid (backgroundJobs d)) \<Longrightarrow> list_all job_ok (backgroundJobs d) \<Longrightarrow> lifecycle_ok (d, [])"
  by (simp add: lifecycle_ok_def claims_ok_def)

section \<open>A job is one machine\<close>

text \<open>The row of a job under every step: it stays, or makes a move.\<close>

lemma steps_row:
  assumes "(worker_step s)\<^sup>*\<^sup>* c c'" and "services_ok s" and "lifecycle_ok c"
    and "find_by bj_uuid i (backgroundJobs (fst c)) = Some j" and "P j"
    and "\<And>d cs d' cs' q q'. lifecycle_ok (d, cs) \<Longrightarrow> worker_step s (d, cs) (d', cs') \<Longrightarrow>
      find_by bj_uuid i (backgroundJobs d) = Some q \<Longrightarrow> P q \<Longrightarrow>
      find_by bj_uuid i (backgroundJobs d') = Some q' \<Longrightarrow> job_move q q' \<Longrightarrow> P q'"
  shows "\<exists>q. find_by bj_uuid i (backgroundJobs (fst c')) = Some q \<and> P q"
  using assms(1)
proof (induction rule: rtranclp_induct)
  case base
  show ?case using assms(4,5) by blast
next
  case (step c1 c2)
  then obtain q where q: "find_by bj_uuid i (backgroundJobs (fst c1)) = Some q" "P q" by blast
  obtain d cs d' cs' where c: "c1 = (d, cs)" "c2 = (d', cs')" by (cases c1, cases c2)
  have ok: "lifecycle_ok (d, cs)" using lifecycle_steps [OF step(1) assms(2,3)] c by simp
  note move = jobs.row_step [OF table_step [OF assms(2) ok step(2) [unfolded c]]]
  show ?case using move [of i q] q assms(6) [OF ok step(2) [unfolded c]] c by auto
qed

section \<open>An operator's retry takes two steps\<close>

text \<open>The handler reads the failed job, and later requeues it in a transaction that does not look at it
  again. The third part of a state holds the jobs read by retries under way; a retry may also end without
  its second step. A retry is overtaken when the row of its job is no longer the one it read. In
  \<open>worker_step\<close> a retry is one step, which is what one that is not overtaken amounts to.\<close>

type_synonym console = "db \<times> background_job list \<times> background_job list"

definition overtaken :: "db \<Rightarrow> background_job \<Rightarrow> bool" where
  "overtaken d existing \<longleftrightarrow> find_by bj_uuid (bj_uuid existing) (backgroundJobs d) \<noteq> Some existing"

inductive console_step :: "services \<Rightarrow> bool \<Rightarrow> console \<Rightarrow> console \<Rightarrow> bool" for s :: services where
  work: "worker_step s (d, cs) (d', cs') \<Longrightarrow> console_step s False (d, cs, ps) (d', cs', ps)"
| look: "deadLetterJob d i = Inr existing \<Longrightarrow> console_step s False (d, cs, ps) (d, cs, existing # ps)"
| commit: "existing \<in> set ps \<Longrightarrow> requeueJob e auth existing d = Inr (job, d') \<Longrightarrow>
    console_step s (overtaken d existing) (d, cs, ps) (d', cs, remove1 existing ps)"
| abandon: "console_step s False (d, cs, ps) (d, cs, remove1 existing ps)"

definition all_failed :: "background_job list \<Rightarrow> bool" where
  "all_failed ps \<longleftrightarrow> list_all (\<lambda>j. bj_status j = Job_FAILED) ps"

lemma all_failed_step:
  assumes "console_step s b (d, cs, ps) (d', cs', ps')" and "all_failed ps"
  shows "all_failed ps'"
  using assms set_remove1_subset [of _ ps]
  by (cases rule: console_step.cases) (auto simp: all_failed_def list_all_iff deadLetterJob_Inr dest: notin_set_remove1)

text \<open>A step without an overtaken retry is a step of the workers, or none.\<close>

lemma console_works:
  assumes "console_step s b (d, cs, ps) (d', cs', ps')" and "\<not> b" and "all_failed ps"
  shows "worker_step s (d, cs) (d', cs')"
  using assms(1)
proof (cases rule: console_step.cases)
  case (commit existing e auth job)
  have row: "find_by bj_uuid (bj_uuid existing) (backgroundJobs d) = Some existing"
    using commit(1) assms(2) by (simp add: overtaken_def)
  have "bj_status existing = Job_FAILED" using commit assms(3) by (auto simp: all_failed_def list_all_iff)
  then have "deadLetterJob d (bj_uuid existing) = Inr existing" using row by (simp add: deadLetterJob_Inr)
  then have "retryDeadLetterJob e d auth (bj_uuid existing) = Inr (job, d')"
    using commit by (simp add: retryDeadLetterJob_def)
  then show ?thesis unfolding commit(2) by (rule worker_step.retry_job)
qed (auto intro: worker_step.elsewhere)

abbreviation steady_step :: "services \<Rightarrow> console \<Rightarrow> console \<Rightarrow> bool" where
  "steady_step s \<equiv> console_step s False"

lemma steady_steps_work:
  assumes "(steady_step s)\<^sup>*\<^sup>* c c'" and "all_failed (snd (snd c))"
  shows "(worker_step s)\<^sup>*\<^sup>* (fst c, fst (snd c)) (fst c', fst (snd c')) \<and> all_failed (snd (snd c'))"
  using assms(1)
proof (induction rule: rtranclp_induct)
  case base
  show ?case using assms(2) by simp
next
  case (step c1 c2)
  obtain d cs ps d' cs' ps' where c: "c1 = (d, cs, ps)" "c2 = (d', cs', ps')" by (cases c1, cases c2)
  have "worker_step s (d, cs) (d', cs')" "all_failed ps'"
    using console_works [of s False d cs ps d' cs' ps'] all_failed_step [of s False d cs ps d' cs' ps'] step(2,3) c
    by simp_all
  with step(3) show ?case unfolding c by (auto intro: rtranclp.rtrancl_into_rtrancl)
qed

lemma steady_lifecycle:
  assumes "services_ok s" and "distinct (map bj_uuid (backgroundJobs d0))" and "list_all job_ok (backgroundJobs d0)"
    and "(steady_step s)\<^sup>*\<^sup>* (d0, [], []) (d, cs, ps)"
  shows "lifecycle_ok (d, cs)" and "all_failed ps"
proof -
  have "all_failed (snd (snd (d0, [], [])))" by (simp add: all_failed_def)
  from steady_steps_work [OF assms(4) this] have run: "(worker_step s)\<^sup>*\<^sup>* (d0, []) (d, cs)" and ps: "all_failed ps"
    by simp_all
  show "lifecycle_ok (d, cs)" by (rule lifecycle_steps [OF run assms(1) lifecycle_start [OF assms(2,3)]])
  show "all_failed ps" by (rule ps)
qed

text \<open>C11. Whatever the interleaving of workers, services and operators, as long as no operator's retry was
  overtaken (the job it read changed before it wrote), a job goes through the states of one machine: every
  step adds one new queued job, moves one job along an edge of \<open>job_move\<close>, or leaves the table of jobs
  alone. The only step that is no such step is an overtaken retry: it puts the one job it had read back to
  \<open>RETRYING\<close> without a lock, whatever the job is doing now, and nothing else in the table changes.\<close>

theorem console_steps_refine_job_machine:
  assumes "services_ok s" and "distinct (map bj_uuid (backgroundJobs d0))" and "list_all job_ok (backgroundJobs d0)"
    and "(steady_step s)\<^sup>*\<^sup>* (d0, [], []) (d, cs, ps)" and "console_step s late (d, cs, ps) (d', cs', ps')"
  shows "if late
    then \<exists>existing \<in> set ps. \<exists>t. bj_status existing = Job_FAILED \<and> overtaken d existing \<and>
      backgroundJobs d' = set_by bj_uuid (bj_uuid existing) (retriedJob t existing) (backgroundJobs d)
    else job_table_step (backgroundJobs d) (backgroundJobs d')"
proof (cases late)
  case True
  from assms(5) True obtain existing e auth job where
      x: "existing \<in> set ps" "overtaken d existing" and run: "requeueJob e auth existing d = Inr (job, d')"
    by (cases rule: console_step.cases) auto
  have "bj_status existing = Job_FAILED"
    using steady_lifecycle(2) [OF assms(1-4)] x(1) by (simp add: all_failed_def list_all_iff)
  with True x requeueJob_effect [OF run] show ?thesis by auto
next
  case False
  note ok = steady_lifecycle [OF assms(1-4)]
  from False console_works [OF assms(5) _ ok(2)] table_step [OF assms(1) ok(1)] show ?thesis by simp
qed

text \<open>C12. In every state that workers, services and operators reach from a well-formed table of jobs, in any
  interleaving in which no operator's retry was overtaken: no job is in the hands of two workers, a claimed
  job is running, a job is never attempted more often than its limit allows, and exactly the running jobs
  are locked.\<close>

theorem job_lifecycle:
  assumes "services_ok s" and "distinct (map bj_uuid (backgroundJobs d0))" and "list_all job_ok (backgroundJobs d0)"
    and "(steady_step s)\<^sup>*\<^sup>* (d0, [], []) (d, cs, ps)"
  shows "distinct (map bj_uuid cs) \<and> list_all (\<lambda>job. job \<in> set (backgroundJobs d) \<and> bj_status job = Job_RUNNING) cs \<and>
    list_all (\<lambda>j. 0 \<le> bj_attempts j \<and> bj_attempts j \<le> max 1 (bj_maxAttempts j) \<and>
      (bj_status j = Job_RUNNING \<longleftrightarrow> bj_lockedBy j \<noteq> None)) (backgroundJobs d)"
  using steady_lifecycle(1) [OF assms]
  by (auto simp: lifecycle_ok_def claims_ok_def list_all_iff job_ok_def dest: find_by_Some)


text \<open>A job that succeeded is never touched again.\<close>

theorem succeeded_job_final:
  assumes "services_ok s" and "lifecycle_ok (d, cs)" and "(worker_step s)\<^sup>*\<^sup>* (d, cs) (d', cs')"
    and "find_by bj_uuid i (backgroundJobs d) = Some j" and "bj_status j \<in> {Job_SUCCEEDED, Job_CANCELLED}"
  shows "find_by bj_uuid i (backgroundJobs d') = Some j"
  using steps_row [OF assms(3,1,2), of i j "\<lambda>q. q = j"] assms(4) job_settled [OF assms(5)] by auto

text \<open>The row of a running job that nobody holds.\<close>

lemma unheld_step:
  assumes "services_ok s" and ok: "lifecycle_ok (d, cs)" and "worker_step s (d, cs) (d', cs')"
    and row: "find_by bj_uuid i (backgroundJobs d) = Some j" "bj_status j = Job_RUNNING" and free: "i \<notin> bj_uuid ` set cs"
  shows "find_by bj_uuid i (backgroundJobs d') = Some j \<and> i \<notin> bj_uuid ` set cs'"
proof -
  have dist: "distinct (map bj_uuid (backgroundJobs d))" using ok by (simp add: lifecycle_ok_def)
  have drop: "i \<notin> bj_uuid ` set (remove1 job cs)" for job using free set_remove1_subset [of job cs] by blast
  have grows: "find_by bj_uuid i (backgroundJobs d') = Some j" if "appends_job k d d'" for k
    using that row by (auto simp: appends_job_def row_simps)
  from assms(3) show ?thesis
  proof (cases rule: worker_step.cases)
    case (claim e w job)
    then obtain q where q: "nextDue (now e) (backgroundJobs d) = Some q" "job = claimed (now e) w q"
        "backgroundJobs d' = set_by bj_uuid (bj_uuid q) (claimed (now e) w) (backgroundJobs d)"
      using claimNextJob_Some by blast
    have "i \<noteq> bj_uuid q" using claim_found [OF dist q(1)] row by auto
    then show ?thesis using q row free claim by (simp add: set_by_other claimed_def)
  next
    case (process job e sent r sent')
    then show ?thesis using row free processJob_jobs [OF assms(1), of e job d sent r d' sent'] by simp
  next
    case (complete job e v)
    then have "i \<noteq> bj_uuid job" using free by blast
    then show ?thesis using complete row drop completeJob_jobs [of e job v d d'] by (simp add: set_by_other completedJob_def)
  next
    case (fail job e err)
    then have "i \<noteq> bj_uuid job" using free by blast
    then show ?thesis using fail row drop failOrRetryJob_jobs [of e s job err d d']
      by (simp add: set_by_other failedJob_def)
  next
    case (retry_job e auth k job)
    then obtain q where q: "find_by bj_uuid k (backgroundJobs d) = Some q" "bj_status q = Job_FAILED"
        "backgroundJobs d' = set_by bj_uuid k (retriedJob (now e) q) (backgroundJobs d)"
      using retryDeadLetterJob_effect by blast
    then have "i \<noteq> k" using row by auto
    then show ?thesis using q row free retry_job by (simp add: set_by_other retriedJob_def)
  next
    case (crash job)
    then show ?thesis using row drop by simp
  next
    case (enqueue e input r)
    then show ?thesis using grows [of "fresh e d"] createJob_appends [of e d input] free by simp
  next
    case (webhook e hook v)
    then show ?thesis using grows [of "fresh e d"] webhook_appends [of e d hook] free by simp
  next
    case (retry_delivery e auth k delivery job)
    then show ?thesis using grows retryWebhookDelivery_appends [of e d auth k] free by simp
  next
    case (replay_delivery e auth k delivery job)
    then show ?thesis using grows replayWebhookDelivery_appends [of e d auth k] free by simp
  next
    case (retry_notification e auth k job)
    then show ?thesis using grows retryNotification_appends [of e d auth k] free by simp
  next
    case elsewhere
    then show ?thesis using row free by simp
  qed
qed

lemma unheld_steps:
  assumes "(worker_step s)\<^sup>*\<^sup>* c c'" and "services_ok s" and "lifecycle_ok c"
    and "find_by bj_uuid i (backgroundJobs (fst c)) = Some j" and "bj_status j = Job_RUNNING"
    and "i \<notin> bj_uuid ` set (snd c)"
  shows "find_by bj_uuid i (backgroundJobs (fst c')) = Some j \<and> i \<notin> bj_uuid ` set (snd c')"
  using assms(1)
proof (induction rule: rtranclp_induct)
  case base
  show ?case using assms(4,6) by blast
next
  case (step c1 c2)
  obtain d cs d' cs' where c: "c1 = (d, cs)" "c2 = (d', cs')" by (cases c1, cases c2)
  have ok: "lifecycle_ok (d, cs)" using lifecycle_steps [OF step(1) assms(2,3)] c by simp
  show ?case using unheld_step [OF assms(2) ok step(2) [unfolded c] _ assms(5)] step(3) c by simp
qed

lemma retry_refused:
  assumes "find_by bj_uuid i (backgroundJobs d) = Some j" and "bj_status j \<noteq> Job_FAILED"
  shows "retryDeadLetterJob e d auth i = Inl (BadRequest ''Only failed dead-letter jobs can be retried.'')"
  unfolding retryDeadLetterJob_def deadLetterJob_def
  by (simp only: assms require_Some bindE_Inr bindE_Inl not_False_eq_True failIf_True)


section \<open>A run settles what it takes\<close>

text \<open>A job that waits for a worker, and one that a worker has dealt with: it is not locked, and succeeded,
  failed for good, or is to be retried after the time \<open>t\<close>.\<close>

definition waiting_job :: "background_job \<Rightarrow> bool" where
  "waiting_job j \<longleftrightarrow> bj_status j = Job_QUEUED \<or> bj_status j = Job_RETRYING"

definition settled_job :: "int \<Rightarrow> background_job \<Rightarrow> bool" where
  "settled_job t j \<longleftrightarrow> bj_lockedBy j = None \<and> bj_lockedAt j = None \<and>
     (bj_status j = Job_SUCCEEDED \<or> bj_status j = Job_FAILED \<or> bj_status j = Job_RETRYING \<and> t < bj_runAfter j)"

definition run_row :: "int \<Rightarrow> background_job \<Rightarrow> background_job \<Rightarrow> bool" where
  "run_row t j j' \<longleftrightarrow> bj_uuid j' = bj_uuid j \<and>
     (j' = j \<or> waiting_job j \<and> bj_attempts j < bj_attempts j' \<and> settled_job t j')"

abbreviation successes :: "db \<Rightarrow> nat" where
  "successes d \<equiv> length (filter (\<lambda>j. bj_status j = Job_SUCCEEDED) (backgroundJobs d))"

abbreviation attempts_made :: "db \<Rightarrow> int" where
  "attempts_made d \<equiv> sum_list (map bj_attempts (backgroundJobs d))"

definition run_effect :: "int \<Rightarrow> nat \<Rightarrow> nat \<Rightarrow> db \<Rightarrow> db \<Rightarrow> bool" where
  "run_effect t a n d d' \<longleftrightarrow> list_all2 (run_row t) (backgroundJobs d) (backgroundJobs d') \<and>
     successes d' = successes d + a \<and> attempts_made d' = attempts_made d + int n"

lemma run_row_trans: "run_row t j j' \<Longrightarrow> run_row t j' j'' \<Longrightarrow> run_row t j j''"
  by (auto simp: run_row_def)

lemma run_effect_refl: "backgroundJobs d' = backgroundJobs d \<Longrightarrow> run_effect t 0 0 d d'"
  by (simp add: run_effect_def run_row_def list_all2_same)

lemma run_effect_trans: "run_effect t a n d d' \<Longrightarrow> run_effect t b m d' d'' \<Longrightarrow> run_effect t (a + b) (n + m) d d''"
  unfolding run_effect_def by (auto intro: list_all2_trans [OF run_row_trans])

lemma run_effect_uuids:
  assumes "run_effect t a n d d'"
  shows "map bj_uuid (backgroundJobs d') = map bj_uuid (backgroundJobs d)"
proof -
  have "list_all2 (\<lambda>j j'. bj_uuid j = bj_uuid j') (backgroundJobs d) (backgroundJobs d')"
    using assms by (auto simp: run_effect_def run_row_def elim: list_all2_mono)
  then show ?thesis by (induction rule: list_all2_induct) simp_all
qed

lemma successes_sum: "int (successes d) = sum_list (map (\<lambda>j. of_bool (bj_status j = Job_SUCCEEDED)) (backgroundJobs d))"
proof -
  have "int (length (filter P js)) = sum_list (map (\<lambda>j. of_bool (P j)) js)" for P :: "background_job \<Rightarrow> bool" and js
    by (induction js) auto
  then show ?thesis .
qed

lemma heartbeat_jobs [simp]: "backgroundJobs (recordHeartbeat e s w h d) = backgroundJobs d"
  by (simp add: recordHeartbeat_def)

lemma retry_later: "retryTime e s job err = Some t \<Longrightarrow> now e < t"
  by (auto simp: retryTime_def nextRetryRunAfter_def nextRunAfter_def delayMs_def Let_def split: if_splits)

text \<open>Settling a claimed job does not fail: its row ends as a success or a failure that is settled.\<close>

lemma settleJob_row:
  assumes "services_ok s" and "find_by bj_uuid (bj_uuid job) (backgroundJobs d) = Some job"
  shows "\<exists>ok d' sent' f. settleJob e s job d sent = (Inr ok, d', sent') \<and>
    backgroundJobs d' = set_by bj_uuid (bj_uuid job) f (backgroundJobs d) \<and>
    (\<forall>j. bj_uuid (f j) = bj_uuid j \<and> bj_attempts (f j) = bj_attempts j \<and> settled_job (now e) (f j) \<and>
      (bj_status (f j) = Job_SUCCEEDED \<longleftrightarrow> ok))"
proof -
  obtain r d1 sent1 where run: "processJob e s job d sent = (r, d1, sent1)" by (cases "processJob e s job d sent")
  have jobs: "backgroundJobs d1 = backgroundJobs d" by (rule processJob_jobs [OF assms(1) run])
  have row: "find_by bj_uuid (bj_uuid job) (backgroundJobs d1) = Some job" using assms(2) jobs by simp
  show ?thesis
  proof (cases r)
    case (Inl err)
    obtain d2 where d2: "failOrRetryJob e s job err d1 = Inr d2"
        "backgroundJobs d2 = set_by bj_uuid (bj_uuid job) (failedJob (now e) (message err) (retryTime e s job err)) (backgroundJobs d1)"
      using failOrRetryJob_eq [OF row] by blast
    have "settled_job (now e) (failedJob (now e) (message err) (retryTime e s job err) j)" for j
      using retry_later [of e s job err]
      by (cases "retryTime e s job err") (auto simp: settled_job_def failedJob_def)
    with d2 run Inl jobs show ?thesis
      by (intro exI [of _ False] exI [of _ d2] exI [of _ sent1]
          exI [of _ "failedJob (now e) (message err) (retryTime e s job err)"])
        (simp add: settleJob_def failedJob_def)
  next
    case (Inr v)
    obtain d2 where d2: "completeJob e job v d1 = Inr d2"
        "backgroundJobs d2 = set_by bj_uuid (bj_uuid job) (completedJob (now e) v) (backgroundJobs d1)"
      using completeJob_eq [OF row] by blast
    with run Inr jobs show ?thesis
      by (intro exI [of _ True] exI [of _ d2] exI [of _ sent1] exI [of _ "completedJob (now e) v"])
        (simp add: settleJob_def completedJob_def settled_job_def)
  qed
qed

lemma set_by_all2:
  assumes "\<And>x. x \<in> set rs \<Longrightarrow> R x (if key x = i then f x else x)"
  shows "list_all2 R rs (set_by key i f rs)"
  using assms by (simp add: set_by_def update_rows_def list.rel_map list_all2_same)

text \<open>One round: the job that is claimed is settled, the others stay.\<close>

lemma round_effect:
  assumes "services_ok s" and dist: "distinct (map bj_uuid (backgroundJobs d))"
    and "claimNextJob e w d = (Some job, d1)" and "backgroundJobs d2 = backgroundJobs d1" and "t \<le> now e"
  shows "\<exists>ok d3 sent3. settleJob e s job d2 sent = (Inr ok, d3, sent3) \<and> run_effect t (if ok then 1 else 0) 1 d d3"
proof -
  obtain j where j: "nextDue (now e) (backgroundJobs d) = Some j" "job = claimed (now e) w j"
      "backgroundJobs d1 = set_by bj_uuid (bj_uuid j) (claimed (now e) w) (backgroundJobs d)"
    using claimNextJob_Some [OF assms(3)] by blast
  note found = claim_found [OF dist j(1)]
  have id: "bj_uuid job = bj_uuid j" by (simp add: j(2) claimed_def)
  have "find_by bj_uuid (bj_uuid job) (backgroundJobs d2) = Some job"
    unfolding assms(4) j(3) id using found(1) j(2) by (simp add: set_by_same claimed_def)
  from settleJob_row [OF assms(1) this, of e sent] obtain ok d3 sent3 f where
      run: "settleJob e s job d2 sent = (Inr ok, d3, sent3)"
      and d3: "backgroundJobs d3 = set_by bj_uuid (bj_uuid job) f (backgroundJobs d2)"
      and f: "\<And>j. bj_uuid (f j) = bj_uuid j \<and> bj_attempts (f j) = bj_attempts j \<and> settled_job (now e) (f j) \<and>
        (bj_status (f j) = Job_SUCCEEDED \<longleftrightarrow> ok)" by blast
  let ?g = "\<lambda>r. f (claimed (now e) w r)"
  have jobs: "backgroundJobs d3 = set_by bj_uuid (bj_uuid j) ?g (backgroundJobs d)"
    unfolding d3 assms(4) j(3) id by (rule set_by_twice) (simp add: claimed_def)
  have g: "bj_uuid (?g r) = bj_uuid r" "bj_attempts (?g r) = bj_attempts r + 1" "settled_job t (?g r)"
      "bj_status (?g r) = Job_SUCCEEDED \<longleftrightarrow> ok" for r
    using f [of "claimed (now e) w r"] assms(5) by (auto simp: claimed_def settled_job_def)
  have "run_row t x (if bj_uuid x = bj_uuid j then ?g x else x)" if "x \<in> set (backgroundJobs d)" for x
  proof (cases "bj_uuid x = bj_uuid j")
    case True
    then have "x = j" using that dist nextDue_Some [OF j(1)] by (blast dest: distinct_key_eq)
    then show ?thesis using g [of j] found(2) by (auto simp: run_row_def waiting_job_def)
  qed (simp add: run_row_def)
  then have rows: "list_all2 (run_row t) (backgroundJobs d) (backgroundJobs d3)"
    unfolding jobs by (rule set_by_all2)
  have mem: "j \<in> set (backgroundJobs d)" using nextDue_Some [OF j(1)] by simp
  note sums = sum_list_set_by [OF dist mem]
  have "int (successes d3) = int (successes d) + of_bool ok"
    using sums [OF refl, of "\<lambda>j. of_bool (bj_status j = Job_SUCCEEDED)" ?g] g(4) found(2)
    unfolding successes_sum unfolding jobs by auto
  then have count: "successes d3 = successes d + (if ok then 1 else 0)" by (cases ok) simp_all
  have "attempts_made d3 = attempts_made d + 1"
    using sums [OF refl, of bj_attempts ?g] g(2) by (simp add: jobs)
  with rows count run show ?thesis by (auto simp: run_effect_def)
qed

lemma claim_none:
  assumes "claimNextJob e w d = (None, d1)"
  shows "\<forall>j \<in> set (backgroundJobs d). \<not> claimable (now e) j" and "d1 = d"
  using assms nextDue_None [of "now e" "backgroundJobs d"]
  by (auto simp: claimNextJob_def filter_empty_conv split: option.splits)

text \<open>The rounds: \<open>p\<close> jobs are processed; fewer than the batch only if nothing was due at the last look.\<close>

definition rounds_result ::
    "(nat \<Rightarrow> env) \<Rightarrow> int \<Rightarrow> nat \<Rightarrow> run_result \<Rightarrow> db \<Rightarrow> run_result \<Rightarrow> db \<Rightarrow> bool" where
  "rounds_result clock t n result d r d' \<longleftrightarrow> (\<exists>a b. a + b \<le> n \<and>
     wr_processed r = wr_processed result + a + b \<and> wr_succeeded r = wr_succeeded result + a \<and>
     wr_failed r = wr_failed result + b \<and> run_effect t a (a + b) d d' \<and>
     (a + b < n \<longrightarrow> (\<forall>j \<in> set (backgroundJobs d'). \<not> claimable (now (clock (n - (a + b) - 1))) j)))"

lemma rounds_result_step:
  assumes "run_effect t (if ok then 1 else 0) 1 d d3" and "backgroundJobs d4 = backgroundJobs d3"
    and "rounds_result clock t n (result\<lparr>wr_processed := wr_processed result + 1,
        wr_succeeded := wr_succeeded result + (if ok then 1 else 0),
        wr_failed := wr_failed result + (if ok then 0 else 1)\<rparr>) d4 r d'"
  shows "rounds_result clock t (Suc n) result d r d'"
proof -
  from assms(3) obtain a b where ab: "a + b \<le> n" "wr_processed r = wr_processed result + 1 + a + b"
      "wr_succeeded r = wr_succeeded result + (if ok then 1 else 0) + a"
      "wr_failed r = wr_failed result + (if ok then 0 else 1) + b"
      "run_effect t a (a + b) d4 d'"
      "a + b < n \<longrightarrow> (\<forall>j \<in> set (backgroundJobs d'). \<not> claimable (now (clock (n - (a + b) - 1))) j)"
    unfolding rounds_result_def by auto
  have "run_effect t (if ok then 1 else 0) 1 d d4" using assms(1,2) by (simp add: run_effect_def)
  from run_effect_trans [OF this ab(5)]
  have "run_effect t ((if ok then 1 else 0) + a) (1 + (a + b)) d d'" .
  then show ?thesis unfolding rounds_result_def using ab
    by (intro exI [of _ "(if ok then 1 else 0) + a"] exI [of _ "(if ok then 0 else 1) + b"]) (cases ok; simp)
qed

lemma runRounds_result:
  assumes "services_ok s"
  shows "distinct (map bj_uuid (backgroundJobs d)) \<Longrightarrow> \<forall>i < n. t \<le> now (clock i) \<Longrightarrow>
    \<exists>r d' sent'. runRounds s clock w k n result d sent = (Inr r, d', sent') \<and> rounds_result clock t n result d r d'"
proof (induction n arbitrary: result d sent)
  case 0
  then show ?case by (simp add: rounds_result_def run_effect_refl)
next
  case (Suc n)
  show ?case
  proof (cases "claimNextJob (clock n) w d")
    case (Pair claim d1)
    show ?thesis
    proof (cases claim)
      case None
      note none = claim_none [OF Pair [unfolded None]]
      let ?d = "recordHeartbeat (clock n) s w (beatOptions k None) d1"
      have "run_effect t 0 0 d ?d" using none(2) by (simp add: run_effect_refl)
      then have "rounds_result clock t (Suc n) result d result ?d"
        unfolding rounds_result_def using none by (intro exI [of _ 0]) simp
      then show ?thesis using Pair None by simp
    next
      case (Some job)
      let ?d2 = "recordHeartbeat (clock n) s w (beatOptions k (Some job)) d1"
      obtain ok d3 sent3 where run: "settleJob (clock n) s job ?d2 sent = (Inr ok, d3, sent3)"
          "run_effect t (if ok then 1 else 0) 1 d d3"
        using round_effect [OF assms Suc.prems(1) Pair [unfolded Some], of ?d2 t sent] Suc.prems(2) by auto
      let ?d4 = "recordHeartbeat (clock n) s w (beatOptions k None) d3"
      let ?result = "result\<lparr>wr_processed := wr_processed result + 1,
        wr_succeeded := wr_succeeded result + (if ok then 1 else 0),
        wr_failed := wr_failed result + (if ok then 0 else 1)\<rparr>"
      have "distinct (map bj_uuid (backgroundJobs ?d4))"
        using run_effect_uuids [OF run(2)] Suc.prems(1) by simp
      then obtain r d' sent' where rest: "runRounds s clock w k n ?result ?d4 sent3 = (Inr r, d', sent')"
          "rounds_result clock t n ?result ?d4 r d'"
        using Suc.IH [of ?d4 ?result sent3] Suc.prems(2) by auto
      have "rounds_result clock t (Suc n) result d r d'"
        by (rule rounds_result_step [OF run(2) _ rest(2)]) simp
      then show ?thesis using Pair Some run(1) rest(1) by (simp add: Let_def)
    qed
  qed
qed

text \<open>C15. A run of a worker, alone on the table and with a clock that is read anew in every round and never
  goes back, returns. Every job stays as it was or is settled: one that waited has been attempted and now
  has succeeded, failed for good, or waits for a retry at a time after the start of the run, and its lock is
  gone. The counts are those of the table: the attempts made, and the jobs that succeeded. When the run
  processed fewer jobs than its batch allows, no job was due at its last look, and every job that was due at
  its start is settled.\<close>

theorem runOnce_settles:
  assumes "services_ok s" and "distinct (map bj_uuid (backgroundJobs d))"
    and "\<forall>i j. i \<le> j \<longrightarrow> now (clock j) \<le> now (clock i)"
  shows "\<exists>r d' sent'. runOnce s clock w batchSize d sent = (Inr r, d', sent') \<and>
    wr_processed r = wr_succeeded r + wr_failed r \<and> wr_processed r \<le> batchSize \<and>
    list_all2 (\<lambda>j j'. bj_uuid j' = bj_uuid j \<and>
      (j' = j \<or> waiting_job j \<and> bj_attempts j < bj_attempts j' \<and> settled_job (now (clock batchSize)) j'))
      (backgroundJobs d) (backgroundJobs d') \<and>
    sum_list (map bj_attempts (backgroundJobs d')) = sum_list (map bj_attempts (backgroundJobs d)) + int (wr_processed r) \<and>
    length (filter (\<lambda>j. bj_status j = Job_SUCCEEDED) (backgroundJobs d')) =
      length (filter (\<lambda>j. bj_status j = Job_SUCCEEDED) (backgroundJobs d)) + wr_succeeded r \<and>
    (wr_processed r < batchSize \<longrightarrow>
      (\<forall>j \<in> set (backgroundJobs d'). \<not> claimable (now (clock (batchSize - wr_processed r - 1))) j) \<and>
      list_all2 (\<lambda>j j'. claimable (now (clock batchSize)) j \<longrightarrow> settled_job (now (clock batchSize)) j')
        (backgroundJobs d) (backgroundJobs d'))"
proof -
  let ?t = "now (clock batchSize)" and ?zero = "\<lparr>wr_processed = 0, wr_succeeded = 0, wr_failed = 0\<rparr>"
  let ?d = "recordHeartbeat (clock batchSize) s w (beatOptions batchSize None) d"
  have "\<forall>i < batchSize. ?t \<le> now (clock i)" using assms(3) by simp
  then obtain r d' sent' where run: "runOnce s clock w batchSize d sent = (Inr r, d', sent')"
      and "rounds_result clock ?t batchSize ?zero ?d r d'"
    using runRounds_result [OF assms(1), of ?d batchSize ?t clock w batchSize ?zero sent] assms(2)
    by (auto simp: runOnce_def)
  then obtain a b where ab: "a + b \<le> batchSize" "wr_processed r = a + b" "wr_succeeded r = a" "wr_failed r = b"
      "run_effect ?t a (a + b) ?d d'"
      "a + b < batchSize \<longrightarrow> (\<forall>j \<in> set (backgroundJobs d'). \<not> claimable (now (clock (batchSize - (a + b) - 1))) j)"
    unfolding rounds_result_def by auto
  have rows: "list_all2 (run_row ?t) (backgroundJobs d) (backgroundJobs d')"
    using ab(5) by (simp add: run_effect_def)
  have due: "list_all2 (\<lambda>j j'. claimable ?t j \<longrightarrow> settled_job ?t j') (backgroundJobs d) (backgroundJobs d')"
    if few: "a + b < batchSize"
  proof -
    have "?t \<le> now (clock (batchSize - (a + b) - 1))" using assms(3) by simp
    then have "\<And>j. j \<in> set (backgroundJobs d') \<Longrightarrow> \<not> claimable ?t j"
      using ab(6) few by (fastforce simp: claimable_def)
    then show ?thesis using rows
      by (auto simp: list_all2_conv_all_nth run_row_def) (metis nth_mem)
  qed
  show ?thesis
    using run ab rows [unfolded run_row_def] due by (intro exI [of _ r] exI [of _ d'] exI [of _ sent'])
      (simp add: run_effect_def)
qed

section \<open>Witnesses\<close>

definition queued_db :: db where
  "queued_db = snd (createJob sample_env (plain_job RECORD_REQUEST_DEADLINE None (JObj [])) empty_db)"

definition running_job :: background_job where
  "running_job = the (fst (claimNextJob sample_env ''w1'' queued_db))"

definition running_db :: db where
  "running_db = snd (claimNextJob sample_env ''w1'' queued_db)"

definition finished_db :: db where
  "finished_db = (case completeJob sample_env running_job JNull running_db of Inr d \<Rightarrow> d | _ \<Rightarrow> running_db)"

lemma hook_services_ok: "services_ok hook_services"
  by (simp add: services_ok_def hook_services_def)

lemma sample_claim: "claimNextJob sample_env ''w1'' queued_db = (Some running_job, running_db)"
proof -
  have "fst (claimNextJob sample_env ''w1'' queued_db) \<noteq> None" by code_simp
  then show ?thesis by (auto simp: running_job_def running_db_def prod_eq_iff)
qed

lemma sample_enqueue_step: "worker_step hook_services (empty_db, []) (queued_db, [])"
  by (rule worker_step.enqueue [of sample_env _ "plain_job RECORD_REQUEST_DEADLINE None (JObj [])"])
    (simp_all add: empty_db_def queued_db_def prod_eq_iff)

lemma sample_claim_step: "worker_step hook_services (queued_db, []) (running_db, [running_job])"
  using worker_step.claim [OF sample_claim, of hook_services "[]"] by simp

lemma sample_steps: "(worker_step hook_services)\<^sup>*\<^sup>* (empty_db, []) (running_db, [running_job])"
  using sample_enqueue_step sample_claim_step by (meson rtranclp.rtrancl_into_rtrancl r_into_rtranclp)

lemma sample_running_ok: "lifecycle_ok (running_db, [running_job])"
  by (rule lifecycle_steps [OF sample_steps hook_services_ok lifecycle_start]) (simp_all add: empty_db_def)

lemma sample_finished: "completeJob sample_env running_job JNull running_db = Inr finished_db"
proof -
  have "case completeJob sample_env running_job JNull running_db of Inr _ \<Rightarrow> True | Inl _ \<Rightarrow> False" by code_simp
  then show ?thesis by (auto simp: finished_db_def split: sum.splits)
qed

lemma sample_finished_step: "worker_step hook_services (running_db, [running_job]) (finished_db, [])"
  using worker_step.complete [OF _ sample_finished, of "[running_job]" hook_services] by simp

lemma sample_console: "(steady_step hook_services)\<^sup>*\<^sup>* (empty_db, [], []) (running_db, [running_job], [])"
  using console_step.work [OF sample_enqueue_step, of "[]"] console_step.work [OF sample_claim_step, of "[]"]
  by (meson rtranclp.rtrancl_into_rtrancl r_into_rtranclp)

theorem console_steps_refine_job_machine_witness:
  "job_table_step (backgroundJobs running_db) (backgroundJobs finished_db)"
  using console_steps_refine_job_machine [OF hook_services_ok _ _ sample_console
      console_step.work [OF sample_finished_step]] by (simp add: empty_db_def)

theorem job_lifecycle_witness:
  "running_job \<in> set (backgroundJobs running_db) \<and> bj_status running_job = Job_RUNNING"
  using job_lifecycle [OF hook_services_ok _ _ sample_console] by (simp add: empty_db_def)


theorem succeeded_job_final_witness:
  "\<exists>j. find_by bj_uuid (bj_uuid running_job) (backgroundJobs finished_db) = Some j \<and> bj_status j = Job_SUCCEEDED"
proof -
  let ?j = "completedJob (now sample_env) JNull running_job"
  have row: "find_by bj_uuid (bj_uuid running_job) (backgroundJobs finished_db) = Some ?j"
    using claimed_row(1) [OF sample_running_ok, of running_job] completeJob_jobs [OF sample_finished]
    by (simp add: set_by_same completedJob_def)
  have "lifecycle_ok (finished_db, [])" by (rule lifecycle_step [OF hook_services_ok sample_running_ok sample_finished_step])
  then have "find_by bj_uuid (bj_uuid running_job) (backgroundJobs finished_db) = Some ?j"
    by (rule succeeded_job_final [OF hook_services_ok _ rtranclp.rtrancl_refl row]) (simp add: completedJob_def)
  then show ?thesis by (auto simp: completedJob_def)
qed


theorem runOnce_settles_witness:
  "\<exists>r d' sent'. runOnce hook_services (\<lambda>i. sample_env\<lparr>now := 2000 - int i\<rparr>) ''w1'' 5 queued_db [] = (Inr r, d', sent') \<and>
     (wr_processed r < 5 \<longrightarrow> list_all2 (\<lambda>j j'. claimable 1995 j \<longrightarrow> settled_job 1995 j')
       (backgroundJobs queued_db) (backgroundJobs d'))"
proof -
  have "distinct (map bj_uuid (backgroundJobs queued_db))" by code_simp
  then show ?thesis
    using runOnce_settles [OF hook_services_ok, of queued_db "\<lambda>i. sample_env\<lparr>now := 2000 - int i\<rparr>" "''w1''" 5 "[]"]
    by auto
qed

end
