(* ===== verification/NotificationDelivery.thy ===== *)
theory NotificationDelivery
  imports Worker
begin

text \<open>
  \<open>platform/services/notification-delivery.service.ts\<close>: the pending notifications of a job are sent one
  after the other through the providers that the environment configures, or only marked as sent when
  there is none (a dry run). A failure of a provider marks the notification and is not an error of the job.
  A notification that was read is still there when it is written, since none is ever deleted.
\<close>

section \<open>Configuration and results\<close>

text \<open>The environment variables that the service reads.\<close>

record notify_env =
  ne_emailFrom :: "string option"
  ne_resendKey :: "string option"
  ne_sendgridKey :: "string option"
  ne_termiiKey :: "string option"
  ne_termiiSenderId :: "string option"
  ne_smsSenderId :: "string option"
  ne_termiiChannel :: "string option"
  ne_twilioSid :: "string option"
  ne_twilioToken :: "string option"
  ne_twilioFrom :: "string option"
  ne_expoToken :: "string option"
  ne_requireProvider :: "string option"

record sent_result =
  sr_provider :: string
  sr_dryRun :: bool
  sr_destination :: string

record delivery_result =
  dr_id :: string
  dr_channel :: notification_channel
  dr_provider :: string
  dr_dryRun :: bool
  dr_sent :: bool
  dr_destination :: "string option"
  dr_error :: "string option"

section \<open>Helpers\<close>

fun firstString :: "jval list \<Rightarrow> string option" where
  "firstString [] = None"
| "firstString (v # vs) =
     (case v of JStr s \<Rightarrow> (if trim s \<noteq> [] then Some (trim s) else firstString vs) | _ \<Rightarrow> firstString vs)"

text \<open>\<open>value.match(/<([^>]+)>/)?.[1] ?? value\<close>: the text behind the first \<open><\<close> that a later \<open>>\<close> closes.\<close>

fun bracketed :: "string \<Rightarrow> string option" where
  "bracketed [] = None"
| "bracketed (c # cs) =
     (let inner = takeWhile (\<lambda>x. x \<noteq> CHR 0x3E) cs in
      if c = CHR 0x3C \<and> inner \<noteq> [] \<and> length inner < length cs then Some inner else bracketed cs)"

definition emailAddress :: "string \<Rightarrow> string" where
  "emailAddress value = getOr (bracketed value) value"

definition requireProviderOrDryRun :: "notify_env \<Rightarrow> string \<Rightarrow> unit res" where
  "requireProviderOrDryRun ne channel =
     failIf (ne_requireProvider ne = Some ''true'') (Failure (channel @ '' notification provider is not configured.''))"

definition assertOk :: "http_result \<Rightarrow> unit res" where
  "assertOk response =
     (case response of
        Http_error reason \<Rightarrow> Inl (Failure reason)
      | Http_response status body \<Rightarrow>
          failIf (\<not> status_ok status) (Failure (''Notification provider failed with '' @ status_message status body)))"

definition post :: "server \<Rightarrow> http_post \<Rightarrow> http_log \<Rightarrow> unit res \<times> http_log" where
  "post server request sent = (assertOk (server sent request), sent @ [request])"

definition postJson ::
    "server \<Rightarrow> string \<Rightarrow> jval \<Rightarrow> (string \<times> string) list \<Rightarrow> http_log \<Rightarrow> unit res \<times> http_log" where
  "postJson server url body headers =
     post server \<lparr>hp_url = url, hp_headers = (''content-type'', ''application/json'') # headers,
       hp_body = getOr (JSON_stringify body) []\<rparr>"

definition postForm ::
    "server \<Rightarrow> string \<Rightarrow> (string \<times> string) list \<Rightarrow> (string \<times> string) list \<Rightarrow> http_log \<Rightarrow> unit res \<times> http_log" where
  "postForm server url body headers =
     post server \<lparr>hp_url = url,
       hp_headers = (''content-type'', ''application/x-www-form-urlencoded'') # headers,
       hp_body = urlSearchParams body\<rparr>"

text \<open>\<open>await this.postJson(...); return result\<close>\<close>

definition after_post :: "unit res \<times> http_log \<Rightarrow> sent_result \<Rightarrow> sent_result res \<times> http_log" where
  "after_post r result = (bindE (fst r) (\<lambda>_. Inr result), snd r)"

section \<open>The channels\<close>

definition user_of :: "db \<Rightarrow> notification \<Rightarrow> user option" where
  "user_of d n = (case nt_userId n of None \<Rightarrow> None | Some i \<Rightarrow> find_by us_uuid i (users d))"

definition notified_learner :: "db \<Rightarrow> notification \<Rightarrow> learner option" where
  "notified_learner d n = (case nt_learnerId n of None \<Rightarrow> None | Some i \<Rightarrow> find_by le_uuid i (learners d))"

definition studentUserProfile :: "db \<Rightarrow> learner \<Rightarrow> user option" where
  "studentUserProfile d l = List.find (\<lambda>u. us_learnerId u = Some (le_uuid l)) (users d)"

definition emailDestination :: "db \<Rightarrow> notification \<Rightarrow> string option" where
  "emailDestination d n =
     (let payload = asRecord (nt_payload n) in
      orElse (firstString [getProp payload ''to'', getProp payload ''email'', getProp payload ''emailAddress''])
        (orElse (map_option us_email (user_of d n))
          (case notified_learner d n of None \<Rightarrow> None | Some l \<Rightarrow> map_option us_email (studentUserProfile d l))))"

definition sendEmail :: "notify_env \<Rightarrow> server \<Rightarrow> db \<Rightarrow> notification \<Rightarrow> http_log \<Rightarrow> sent_result res \<times> http_log" where
  "sendEmail ne server d n sent =
     (let dest = emailDestination d n; to = getOr dest [];
          sender = getOr (orElse (firstString [getProp (asRecord (nt_payload n)) ''from'']) (ne_emailFrom ne))
            ''ACAD.ID <no-reply@acadid.local>''
      in
      if \<not> truthy_text dest then (Inl (Failure ''Email notification requires a destination email.''), sent)
      else if truthy_text (ne_resendKey ne) then
        after_post (postJson server ''https://api.resend.com/emails''
            (JObj [(''from'', JStr sender), (''to'', JArr [JStr to]), (''subject'', JStr (nt_title n)),
                   (''text'', JStr (nt_body n))])
            [(''authorization'', ''Bearer '' @ getOr (ne_resendKey ne) [])] sent)
          \<lparr>sr_provider = ''resend'', sr_dryRun = False, sr_destination = to\<rparr>
      else if truthy_text (ne_sendgridKey ne) then
        after_post (postJson server ''https://api.sendgrid.com/v3/mail/send''
            (JObj [(''personalizations'', JArr [JObj [(''to'', JArr [JObj [(''email'', JStr to)]])]]),
                   (''from'', JObj [(''email'', JStr (emailAddress sender))]), (''subject'', JStr (nt_title n)),
                   (''content'', JArr [JObj [(''type'', JStr ''text/plain''), (''value'', JStr (nt_body n))]])])
            [(''authorization'', ''Bearer '' @ getOr (ne_sendgridKey ne) [])] sent)
          \<lparr>sr_provider = ''sendgrid'', sr_dryRun = False, sr_destination = to\<rparr>
      else
        (bindE (requireProviderOrDryRun ne ''email'') (\<lambda>_.
           Inr \<lparr>sr_provider = ''dry-run-email'', sr_dryRun = True, sr_destination = to\<rparr>), sent))"

definition smsDestination :: "db \<Rightarrow> notification \<Rightarrow> string option" where
  "smsDestination d n =
     (let payload = asRecord (nt_payload n) in
      orElse (firstString [getProp payload ''to'', getProp payload ''phone'', getProp payload ''phoneNumber''])
        (orElse (case user_of d n of None \<Rightarrow> None | Some u \<Rightarrow> us_phone u)
          (case notified_learner d n of None \<Rightarrow> None | Some l \<Rightarrow> le_phone l)))"

definition sendSms :: "notify_env \<Rightarrow> server \<Rightarrow> db \<Rightarrow> notification \<Rightarrow> http_log \<Rightarrow> sent_result res \<times> http_log" where
  "sendSms ne server d n sent =
     (let dest = smsDestination d n; to = getOr dest []; sid = getOr (ne_twilioSid ne) [] in
      if \<not> truthy_text dest then (Inl (Failure ''SMS notification requires a destination phone number.''), sent)
      else if truthy_text (ne_termiiKey ne) then
        after_post (postJson server ''https://api.ng.termii.com/api/sms/send''
            (JObj [(''api_key'', JStr (getOr (ne_termiiKey ne) [])), (''to'', JStr to),
                   (''from'', JStr (getOr (orElse (ne_termiiSenderId ne) (ne_smsSenderId ne)) ''ACADID'')),
                   (''sms'', JStr (nt_body n)), (''type'', JStr ''plain''),
                   (''channel'', JStr (getOr (ne_termiiChannel ne) ''generic''))]) [] sent)
          \<lparr>sr_provider = ''termii'', sr_dryRun = False, sr_destination = to\<rparr>
      else if truthy_text (ne_twilioSid ne) \<and> truthy_text (ne_twilioToken ne) \<and> truthy_text (ne_twilioFrom ne) then
        after_post (postForm server
            (''https://api.twilio.com/2010-04-01/Accounts/'' @ sid @ ''/Messages.json'')
            [(''To'', to), (''From'', getOr (ne_twilioFrom ne) []), (''Body'', nt_body n)]
            [(''authorization'', ''Basic '' @ base64 (sid @ '':'' @ getOr (ne_twilioToken ne) []))] sent)
          \<lparr>sr_provider = ''twilio'', sr_dryRun = False, sr_destination = to\<rparr>
      else
        (bindE (requireProviderOrDryRun ne ''sms'') (\<lambda>_.
           Inr \<lparr>sr_provider = ''dry-run-sms'', sr_dryRun = True, sr_destination = to\<rparr>), sent))"

definition sendPush :: "notify_env \<Rightarrow> server \<Rightarrow> notification \<Rightarrow> http_log \<Rightarrow> sent_result res \<times> http_log" where
  "sendPush ne server n sent =
     (let payload = asRecord (nt_payload n);
          dest = firstString [getProp payload ''to'', getProp payload ''pushToken'',
            getProp payload ''deviceToken'', getProp payload ''expoPushToken''];
          to = getOr dest []
      in
      if \<not> truthy_text dest then (Inl (Failure ''Push notification requires a destination push token.''), sent)
      else
        after_post (postJson server ''https://exp.host/--/api/v2/push/send''
            (JObj [(''to'', JStr to), (''title'', JStr (nt_title n)), (''body'', JStr (nt_body n)),
                   (''data'', JObj (foldl (\<lambda>ob (k, v). set_prop k v ob) [(''type'', JStr (nt_type n))]
                      (asRecord (getProp payload ''data''))))])
            (if truthy_text (ne_expoToken ne)
             then [(''authorization'', ''Bearer '' @ getOr (ne_expoToken ne) [])] else []) sent)
          \<lparr>sr_provider = ''expo'', sr_dryRun = False, sr_destination = to\<rparr>)"

definition send :: "notify_env \<Rightarrow> server \<Rightarrow> db \<Rightarrow> notification \<Rightarrow> http_log \<Rightarrow> sent_result res \<times> http_log" where
  "send ne server d n sent =
     (case nt_channel n of
        EMAIL \<Rightarrow> sendEmail ne server d n sent
      | SMS \<Rightarrow> sendSms ne server d n sent
      | PUSH \<Rightarrow> sendPush ne server n sent
      | WEBHOOK \<Rightarrow> (Inl (Failure ''Webhook notifications must use the WebhookDelivery queue.''), sent))"

section \<open>Delivering the notifications of a job\<close>

definition sentNotification :: "int \<Rightarrow> notification \<Rightarrow> notification" where
  "sentNotification t n = n\<lparr>nt_status := Ntf_SENT, nt_sentAt := Some t, nt_failedAt := None, nt_error := None\<rparr>"

definition failedNotification :: "int \<Rightarrow> string \<Rightarrow> notification \<Rightarrow> notification" where
  "failedNotification t reason n =
     n\<lparr>nt_status := Ntf_FAILED, nt_failedAt := Some t, nt_error := Some (take 1000 reason)\<rparr>"

definition setNotification :: "string \<Rightarrow> (notification \<Rightarrow> notification) \<Rightarrow> db \<Rightarrow> db" where
  "setNotification i f d = d\<lparr>notifications := set_by nt_uuid i f (notifications d)\<rparr>"

definition deliverOne ::
    "notify_env \<Rightarrow> server \<Rightarrow> env \<Rightarrow> notification \<Rightarrow> db \<Rightarrow> http_log \<Rightarrow> delivery_result \<times> db \<times> http_log" where
  "deliverOne ne server e n d sent =
     (let (r, sent') = send ne server d n sent in
      case r of
        Inr s \<Rightarrow>
          (\<lparr>dr_id = nt_uuid n, dr_channel = nt_channel n, dr_provider = sr_provider s, dr_dryRun = sr_dryRun s,
            dr_sent = True, dr_destination = Some (sr_destination s), dr_error = None\<rparr>,
           setNotification (nt_uuid n) (sentNotification (now e)) d, sent')
      | Inl err \<Rightarrow>
          (\<lparr>dr_id = nt_uuid n, dr_channel = nt_channel n, dr_provider = ''none'', dr_dryRun = False,
            dr_sent = False, dr_destination = None, dr_error = Some (message err)\<rparr>,
           setNotification (nt_uuid n) (failedNotification (now e) (message err)) d, sent'))"

definition pendingNotification :: "string \<Rightarrow> notification \<Rightarrow> bool" where
  "pendingNotification jobId n \<longleftrightarrow> nt_jobId n = Some jobId \<and> nt_status n = Ntf_PENDING"

fun deliverAll ::
    "notify_env \<Rightarrow> server \<Rightarrow> env \<Rightarrow> notification list \<Rightarrow> db \<Rightarrow> http_log \<Rightarrow> delivery_result list \<times> db \<times> http_log" where
  "deliverAll ne server e [] d sent = ([], d, sent)"
| "deliverAll ne server e (n # ns) d sent =
     (let (r, d1, sent1) = deliverOne ne server e n d sent;
          (rs, d2, sent2) = deliverAll ne server e ns d1 sent1
      in (r # rs, d2, sent2))"

definition result_json :: "delivery_result \<Rightarrow> jval" where
  "result_json r =
     JObj ([(''id'', JStr (dr_id r)), (''channel'', JStr (channel_text (dr_channel r))),
            (''status'', JStr (if dr_sent r then ''SENT'' else ''FAILED'')),
            (''provider'', JStr (dr_provider r)), (''dryRun'', JBool (dr_dryRun r)),
            (''destination'', jor_null (dr_destination r))] @
           (case dr_error r of None \<Rightarrow> [] | Some reason \<Rightarrow> [(''error'', JStr reason)]))"

definition summary_json :: "delivery_result list \<Rightarrow> jval" where
  "summary_json results =
     (let delivered = length (filter dr_sent results) in
      JObj [(''mode'', JStr ''notification_delivery''), (''processed'', jint (int (length results))),
            (''delivered'', jint (int delivered)), (''failed'', jint (int (length results) - int delivered)),
            (''dryRun'', jint (int (length (filter dr_dryRun results)))),
            (''providers'', JArr (map JStr (rev (remdups (rev (map dr_provider results)))))),
            (''results'', JArr (map result_json results))])"

definition deliverPendingForJob ::
    "notify_env \<Rightarrow> server \<Rightarrow> env \<Rightarrow> string \<Rightarrow> db \<Rightarrow> http_log \<Rightarrow> jval \<times> db \<times> http_log" where
  "deliverPendingForJob ne server e jobId d sent =
     (let (results, d', sent') =
            deliverAll ne server e (take 100 (filter (pendingNotification jobId) (notifications d))) d sent
      in (summary_json results, d', sent'))"

section \<open>What a delivery run does\<close>

lemma post_log: "snd (post server request sent) = sent @ [request]"
  by (simp add: post_def)

lemmas post_logs = post_log postJson_def postForm_def after_post_def

text \<open>Sending reads the users and the learners only, and makes at most one request.\<close>

lemma send_log: "snd (send ne server d n sent) = sent \<or> (\<exists>p. snd (send ne server d n sent) = sent @ [p])"
  by (cases "nt_channel n")
    (simp_all add: send_def sendEmail_def sendSms_def sendPush_def post_logs Let_def)

lemma destination_frame:
  assumes "users d' = users d" and "learners d' = learners d"
  shows "emailDestination d' n = emailDestination d n" and "smsDestination d' n = smsDestination d n"
  using assms
  by (simp_all add: emailDestination_def smsDestination_def user_of_def notified_learner_def
      studentUserProfile_def cong: option.case_cong)

lemma send_frame:
  assumes "users d' = users d" and "learners d' = learners d"
  shows "send ne server d' n sent = send ne server d n sent"
  unfolding send_def sendEmail_def sendSms_def destination_frame [OF assms] ..

text \<open>The row that one delivery writes, given the result of sending.\<close>

definition settledNotification :: "int \<Rightarrow> sent_result res \<Rightarrow> notification \<Rightarrow> notification" where
  "settledNotification t r n =
     (case r of Inr _ \<Rightarrow> sentNotification t n | Inl err \<Rightarrow> failedNotification t (message err) n)"

lemma settled_simps [simp]:
  "nt_uuid (settledNotification t r n) = nt_uuid n"
  "nt_status (settledNotification t r n) = (case r of Inr _ \<Rightarrow> Ntf_SENT | Inl _ \<Rightarrow> Ntf_FAILED)"
  by (simp_all add: settledNotification_def sentNotification_def failedNotification_def split: sum.splits)

lemma settled_cases:
  "settledNotification t (Inr v) = sentNotification t"
  "settledNotification t (Inl err) = failedNotification t (message err)"
  by (simp_all add: settledNotification_def fun_eq_iff)

lemma deliverOne_effect:
  assumes "deliverOne ne server e n d sent = (r, d', sent')"
  shows "d' = setNotification (nt_uuid n) (settledNotification (now e) (fst (send ne server d n sent))) d \<and>
    sent' = snd (send ne server d n sent) \<and> dr_id r = nt_uuid n \<and>
    (dr_sent r \<longleftrightarrow> (\<exists>v. fst (send ne server d n sent) = Inr v))"
  using assms
  by (cases "send ne server d n sent"; cases "fst (send ne server d n sent)")
    (auto simp: deliverOne_def settled_cases)

lemma deliverAll_frame:
  "deliverAll ne server e ns d sent = (rs, d', sent') \<Longrightarrow>
   (\<exists>rows. d' = d\<lparr>notifications := rows\<rparr>) \<and> length rs = length ns \<and> length sent' \<le> length sent + length ns"
proof (induction ns arbitrary: d sent rs d' sent')
  case Nil
  then show ?case by (auto intro: exI [of _ "notifications d"])
next
  case (Cons n ns)
  obtain r d1 sent1 where one: "deliverOne ne server e n d sent = (r, d1, sent1)"
    by (cases "deliverOne ne server e n d sent")
  obtain rs2 d2 sent2 where rest: "deliverAll ne server e ns d1 sent1 = (rs2, d2, sent2)"
    by (cases "deliverAll ne server e ns d1 sent1")
  have "length sent1 \<le> Suc (length sent)"
    using deliverOne_effect [OF one] send_log [of ne server d n sent] by auto
  with Cons.IH [OF rest] Cons.prems one rest deliverOne_effect [OF one] show ?case
    by (auto simp: setNotification_def)
qed

lemma deliverAll_other:
  "deliverAll ne server e ns d sent = (rs, d', sent') \<Longrightarrow> i \<notin> nt_uuid ` set ns \<Longrightarrow>
   find_by nt_uuid i (notifications d') = find_by nt_uuid i (notifications d)"
proof (induction ns arbitrary: d sent rs d' sent')
  case Nil
  then show ?case by simp
next
  case (Cons n ns)
  obtain r d1 sent1 where one: "deliverOne ne server e n d sent = (r, d1, sent1)"
    by (cases "deliverOne ne server e n d sent")
  obtain rs2 d2 sent2 where rest: "deliverAll ne server e ns d1 sent1 = (rs2, d2, sent2)"
    by (cases "deliverAll ne server e ns d1 sent1")
  have "find_by nt_uuid i (notifications d1) = find_by nt_uuid i (notifications d)"
    using deliverOne_effect [OF one] Cons.prems(2) by (simp add: setNotification_def set_by_other)
  with Cons.IH [OF rest] Cons.prems one rest show ?case by simp
qed

text \<open>Each notification of the list is settled by its own result of sending.\<close>

lemma deliverAll_row:
  "deliverAll ne server e ns d sent = (rs, d', sent') \<Longrightarrow> distinct (map nt_uuid ns) \<Longrightarrow> n \<in> set ns \<Longrightarrow>
   find_by nt_uuid (nt_uuid n) (notifications d) = Some n \<Longrightarrow>
   \<exists>log. find_by nt_uuid (nt_uuid n) (notifications d') =
     Some (settledNotification (now e) (fst (send ne server d n log)) n)"
proof (induction ns arbitrary: d sent rs d' sent')
  case Nil
  then show ?case by simp
next
  case (Cons m ns)
  obtain r d1 sent1 where one: "deliverOne ne server e m d sent = (r, d1, sent1)"
    by (cases "deliverOne ne server e m d sent")
  obtain rs2 d2 sent2 where rest: "deliverAll ne server e ns d1 sent1 = (rs2, d2, sent2)"
    by (cases "deliverAll ne server e ns d1 sent1")
  have last: "d' = d2" using Cons.prems(1) one rest by simp
  note eff = deliverOne_effect [OF one]
  show ?case
  proof (cases "n = m")
    case True
    have "find_by nt_uuid (nt_uuid n) (notifications d1) =
        Some (settledNotification (now e) (fst (send ne server d n sent)) n)"
      using eff Cons.prems(4) True by (simp add: setNotification_def set_by_same)
    moreover have "nt_uuid n \<notin> nt_uuid ` set ns" using Cons.prems(2) True by auto
    ultimately show ?thesis using deliverAll_other [OF rest] last by auto
  next
    case False
    have ns: "n \<in> set ns" "nt_uuid n \<noteq> nt_uuid m" using False Cons.prems(2,3) by (auto simp: image_iff)
    have "find_by nt_uuid (nt_uuid n) (notifications d1) = Some n"
      using eff Cons.prems(4) ns(2) by (simp add: setNotification_def set_by_other)
    then obtain log where "find_by nt_uuid (nt_uuid n) (notifications d2) =
        Some (settledNotification (now e) (fst (send ne server d1 n log)) n)"
      using Cons.IH [OF rest] Cons.prems(2) ns(1) by auto
    moreover have "send ne server d1 n log = send ne server d n log"
      using eff by (intro send_frame) (simp_all add: setNotification_def)
    ultimately show ?thesis using last by auto
  qed
qed

lemma distinct_batch: "distinct (map f xs) \<Longrightarrow> distinct (map f (take k (filter P xs)))"
  by (simp add: distinct_map_filter take_map [symmetric])

text \<open>A delivery run settles the first hundred pending notifications of its job, each by at most one
  request: it is \<open>SENT\<close> when sending it succeeded and \<open>FAILED\<close> otherwise. Every other notification, and
  every other table, stays as it was.\<close>

theorem deliverPendingForJob_settles:
  assumes "deliverPendingForJob ne server e jobId d sent = (v, d', sent')" and "distinct (map nt_uuid (notifications d))"
    and "batch = take 100 (filter (pendingNotification jobId) (notifications d))" and "n \<in> set (notifications d)"
  shows "(if n \<in> set batch
      then \<exists>log. find_by nt_uuid (nt_uuid n) (notifications d') =
             Some (settledNotification (now e) (fst (send ne server d n log)) n)
      else find_by nt_uuid (nt_uuid n) (notifications d') = Some n) \<and>
    length sent' \<le> length sent + length batch \<and> (\<exists>rows. d' = d\<lparr>notifications := rows\<rparr>)"
proof -
  obtain rs where run: "deliverAll ne server e batch d sent = (rs, d', sent')"
    using assms(1,3) by (auto simp: deliverPendingForJob_def split: prod.splits)
  have row: "find_by nt_uuid (nt_uuid n) (notifications d) = Some n"
    by (rule find_by_distinct [OF assms(2,4)])
  have dist: "distinct (map nt_uuid batch)" unfolding assms(3) by (rule distinct_batch [OF assms(2)])
  have sub: "set batch \<subseteq> set (notifications d)" unfolding assms(3) by (auto dest: in_set_takeD)
  show ?thesis
  proof (cases "n \<in> set batch")
    case True
    then show ?thesis using deliverAll_row [OF run dist True row] deliverAll_frame [OF run] by simp
  next
    case False
    then have "nt_uuid n \<notin> nt_uuid ` set batch"
      using distinct_key_eq [OF assms(2) assms(4)] sub by blast
    then show ?thesis using deliverAll_other [OF run] row deliverAll_frame [OF run] False by simp
  qed
qed

section \<open>A failed notification is not tried again\<close>

lemma settleJob_succeeds:
  assumes "processJob e s job d sent = (Inr v, d1, sent1)"
    and "find_by bj_uuid (bj_uuid job) (backgroundJobs d1) = Some job"
  shows "\<exists>d2. settleJob e s job d sent = (Inr True, d2, sent1) \<and> notifications d2 = notifications d1 \<and>
    find_by bj_uuid (bj_uuid job) (backgroundJobs d2) = Some (completedJob (now e) v job)"
proof -
  have "completeJob e job v d1 = Inr (addEvent (job_event e
      (d1\<lparr>backgroundJobs := set_by bj_uuid (bj_uuid job) (completedJob (now e) v) (backgroundJobs d1)\<rparr>)
      job ''.succeeded'' [(''result'', v)])
      (d1\<lparr>backgroundJobs := set_by bj_uuid (bj_uuid job) (completedJob (now e) v) (backgroundJobs d1)\<rparr>))"
    using assms(2) by (simp add: completeJob_def update_by_def Let_def)
  with assms show ?thesis
    by (simp add: settleJob_def addEvent_def drawn_def set_by_same completedJob_def)
qed

text \<open>A notification that the provider refuses is \<open>FAILED\<close> while its job is \<open>SUCCEEDED\<close>: the job does
  not fail, so the retry policy of its type never gives the notification a second attempt.\<close>

theorem failed_notification_not_retried:
  assumes "sv_deliverPendingForJob s = deliverPendingForJob ne (sv_server s)"
    and "bj_type job \<in> {SMS_EMAIL_DELIVERY, PUSH_NOTIFICATION}"
    and "find_by bj_uuid (bj_uuid job) (backgroundJobs d) = Some job"
    and "distinct (map nt_uuid (notifications d))"
    and "n \<in> set (take 100 (filter (pendingNotification (bj_uuid job)) (notifications d)))"
    and "\<And>log. \<exists>err. fst (send ne (sv_server s) d n log) = Inl err"
  shows "\<exists>d' sent' n' v. settleJob e s job d sent = (Inr True, d', sent') \<and>
    find_by nt_uuid (nt_uuid n) (notifications d') = Some n' \<and> nt_status n' = Ntf_FAILED \<and>
    find_by bj_uuid (bj_uuid job) (backgroundJobs d') = Some (completedJob (now e) v job)"
proof -
  let ?batch = "take 100 (filter (pendingNotification (bj_uuid job)) (notifications d))"
  obtain rs d1 sent1 where run: "deliverAll ne (sv_server s) e ?batch d sent = (rs, d1, sent1)"
    by (cases "deliverAll ne (sv_server s) e ?batch d sent")
  have n: "n \<in> set (notifications d)" using assms(5) by (auto dest: in_set_takeD)
  obtain log where n': "find_by nt_uuid (nt_uuid n) (notifications d1) =
      Some (settledNotification (now e) (fst (send ne (sv_server s) d n log)) n)"
    using deliverAll_row [OF run distinct_batch [OF assms(4)] assms(5) find_by_distinct [OF assms(4) n]] by blast
  obtain err where err: "fst (send ne (sv_server s) d n log) = Inl err" using assms(6) by blast
  have jobs: "backgroundJobs d1 = backgroundJobs d" using deliverAll_frame [OF run] by auto
  have "processJob e s job d sent = (Inr (toJson (summary_json rs)), d1, sent1)"
    using assms(1,2) run
    by (auto simp: processJob_def processNotificationDelivery_def deliverPendingForJob_def)
  from settleJob_succeeds [OF this] assms(3) jobs obtain d2 where
      "settleJob e s job d sent = (Inr True, d2, sent1)" "notifications d2 = notifications d1"
      "find_by bj_uuid (bj_uuid job) (backgroundJobs d2) = Some (completedJob (now e) (toJson (summary_json rs)) job)"
    by auto
  with n' err show ?thesis by auto
qed

section \<open>Witnesses\<close>

definition no_providers :: notify_env where
  "no_providers = \<lparr>ne_emailFrom = None, ne_resendKey = None, ne_sendgridKey = None, ne_termiiKey = None,
     ne_termiiSenderId = None, ne_smsSenderId = None, ne_termiiChannel = None, ne_twilioSid = None,
     ne_twilioToken = None, ne_twilioFrom = None, ne_expoToken = None, ne_requireProvider = None\<rparr>"

definition notify_services :: services where
  "notify_services =
     \<lparr>sv_server = (\<lambda>_ _. Http_response 500 None), sv_hmac = (\<lambda>k m. k @ m), sv_decrypt = (\<lambda>s. Inr s),
      sv_webhookSecret = None, sv_random = (\<lambda>_. 0), sv_hostname = ''host'', sv_processId = 1,
      sv_metadata = JNull, sv_bulkStudentUpload = (\<lambda>e job d. (Inr JNull, d)),
      sv_resultBatchValidation = (\<lambda>e job d. (Inr JNull, d)),
      sv_deliverPendingForJob = deliverPendingForJob no_providers (\<lambda>_ _. Http_response 500 None)\<rparr>"

definition email_note :: notification where
  "email_note = \<lparr>nt_uuid = ''n1'', nt_jobId = Some ''j1'', nt_institutionId = None, nt_learnerId = None,
     nt_userId = None, nt_channel = EMAIL, nt_type = ''otp'', nt_title = ''Code'', nt_body = ''1234'',
     nt_payload = JObj [(''to'', JStr '' a@b '')], nt_status = Ntf_PENDING, nt_sentAt = None, nt_failedAt = None,
     nt_error = None\<rparr>"

definition push_note :: notification where
  "push_note = email_note\<lparr>nt_uuid := ''n2'', nt_channel := PUSH\<rparr>"

definition notify_job :: background_job where
  "notify_job = claimed 1000 ''w1''
     ((newJob sample_env empty_db (plain_job SMS_EMAIL_DELIVERY None JNull))\<lparr>bj_uuid := ''j1''\<rparr>)"

definition notify_db :: db where
  "notify_db = empty_db\<lparr>notifications := [email_note, push_note], backgroundJobs := [notify_job]\<rparr>"

lemmas notify_defs = notify_db_def email_note_def push_note_def empty_db_def

theorem deliverPendingForJob_settles_witness:
  "\<exists>v d' sent' n'. deliverPendingForJob no_providers (\<lambda>_ _. Http_response 500 None) sample_env ''j1'' notify_db [] =
     (v, d', sent') \<and> find_by nt_uuid ''n1'' (notifications d') = Some n' \<and> nt_status n' = Ntf_SENT"
proof -
  let ?server = "\<lambda>_ _. Http_response 500 None"
  obtain v d' sent' where run: "deliverPendingForJob no_providers ?server sample_env ''j1'' notify_db [] = (v, d', sent')"
    by (cases "deliverPendingForJob no_providers ?server sample_env ''j1'' notify_db []")
  let ?batch = "take 100 (filter (pendingNotification ''j1'') (notifications notify_db))"
  have batch: "email_note \<in> set ?batch" "email_note \<in> set (notifications notify_db)"
    by (simp_all add: notify_defs pendingNotification_def)
  have dist: "distinct (map nt_uuid (notifications notify_db))" by (simp add: notify_defs)
  obtain log where row: "find_by nt_uuid (nt_uuid email_note) (notifications d') =
      Some (settledNotification (now sample_env) (fst (send no_providers ?server notify_db email_note log)) email_note)"
    using deliverPendingForJob_settles [OF run dist refl batch(2)] batch(1) by auto
  have "\<exists>v. fst (send no_providers ?server notify_db email_note log) = Inr v"
    by (simp add: send_def sendEmail_def emailDestination_def email_note_def asRecord_def getProp_def trim_def
        is_space_def no_providers_def requireProviderOrDryRun_def truthy_text_def)
  with row run show ?thesis by (auto simp: email_note_def)
qed

theorem failed_notification_not_retried_witness:
  "\<exists>d' sent' n' v. settleJob sample_env notify_services notify_job notify_db [] = (Inr True, d', sent') \<and>
     find_by nt_uuid ''n2'' (notifications d') = Some n' \<and> nt_status n' = Ntf_FAILED \<and>
     find_by bj_uuid ''j1'' (backgroundJobs d') = Some (completedJob 1000 v notify_job)"
proof -
  have id: "nt_uuid push_note = ''n2''" "bj_uuid notify_job = ''j1''" "now sample_env = 1000"
    by (simp_all add: push_note_def notify_job_def claimed_def sample_env_def)
  have refused: "\<exists>err. fst (send no_providers (sv_server notify_services) notify_db push_note log) = Inl err" for log
    by (simp add: send_def sendPush_def push_note_def email_note_def asRecord_def getProp_def trim_def is_space_def
        post_def postJson_def after_post_def no_providers_def notify_services_def assertOk_def status_ok_def truthy_text_def Let_def)
  show ?thesis
    using failed_notification_not_retried [of notify_services no_providers notify_job notify_db push_note sample_env "[]"]
      refused id
    by (simp add: notify_services_def notify_db_def pendingNotification_def push_note_def email_note_def empty_db_def
        notify_job_def claimed_def newJob_def plain_job_def)
qed

end
