(* ===== verification/JsonParse.thy ===== *)
theory JsonParse
  imports Http
begin

text \<open>
  \<open>JSON.parse\<close>: the grammar of RFC 8259 as a recursive descent. Fuel bounds the depth: entering a value or a
  list costs one unit and every second unit is paid for by a character, so twice the length of the text
  is enough. A code unit above 255 (\<open>\u0100\<close> and up) cannot be represented and is refused; the array
  indices among the keys of an object stay in place. The last section shows that \<open>toJson\<close>, which the
  services write as \<open>JSON.parse(JSON.stringify(value))\<close>, is just that.
\<close>

section \<open>The parser\<close>

definition json_space :: "char \<Rightarrow> bool" where
  "json_space c \<longleftrightarrow> (of_char c :: nat) \<in> {9, 10, 13, 32}"

definition skip :: "string \<Rightarrow> string" where
  "skip = dropWhile json_space"

definition hex_val :: "string \<Rightarrow> nat" where
  "hex_val s = foldl (\<lambda>n c. 16 * n + radix_digit c) 0 s"

text \<open>An escape: the character it stands for, and how many further characters it takes.\<close>

definition unescape :: "char \<Rightarrow> string \<Rightarrow> (char \<times> nat) option" where
  "unescape c r =
     (let n = of_char c :: nat in
      if n = 34 \<or> n = 92 \<or> n = 47 then Some (c, 0)
      else if c = CHR ''b'' then Some (char_of (8 :: nat), 0)
      else if c = CHR ''f'' then Some (char_of (12 :: nat), 0)
      else if c = CHR ''n'' then Some (char_of (10 :: nat), 0)
      else if c = CHR ''r'' then Some (char_of (13 :: nat), 0)
      else if c = CHR ''t'' then Some (char_of (9 :: nat), 0)
      else if c = CHR ''u'' \<and> length (take 4 r) = 4 \<and> list_all is_hex (take 4 r) \<and> hex_val (take 4 r) < 256
      then Some (char_of (hex_val (take 4 r)), 4)
      else None)"

function parse_string :: "string \<Rightarrow> (string \<times> string) option" where
  "parse_string s =
     (case s of [] \<Rightarrow> None
      | c # cs \<Rightarrow>
          (let n = of_char c :: nat in
           if n = 34 then Some ([], cs)
           else if n < 32 then None
           else if n \<noteq> 92 then map_option (\<lambda>(t, r). (c # t, r)) (parse_string cs)
           else case cs of [] \<Rightarrow> None
                | d # r \<Rightarrow> (case unescape d r of None \<Rightarrow> None
                    | Some (x, k) \<Rightarrow> map_option (\<lambda>(t, r'). (x # t, r')) (parse_string (drop k r)))))"
  by pat_completeness auto
termination by (relation "measure length") auto

declare parse_string.simps [simp del]

definition fraction_length :: "string \<Rightarrow> nat option" where
  "fraction_length s =
     (if take 1 s = ''.'' then (let f = takeWhile is_digit (drop 1 s) in if f = [] then None else Some (Suc (length f)))
      else Some 0)"

definition exponent_length :: "string \<Rightarrow> nat option" where
  "exponent_length s =
     (if take 1 s = ''e'' \<or> take 1 s = ''E''
      then (let sign = (if take 1 (drop 1 s) = ''+'' \<or> take 1 (drop 1 s) = ''-'' then 1 else 0);
                ds = takeWhile is_digit (drop (Suc sign) s)
            in if ds = [] then None else Some (Suc sign + length ds))
      else Some 0)"

definition parse_number :: "string \<Rightarrow> (jval \<times> string) option" where
  "parse_number s =
     (let neg = (take 1 s = ''-''); u = (if neg then drop 1 s else s);
          i = takeWhile is_digit u; r = dropWhile is_digit u
      in if i = [] \<or> (take 1 i = ''0'' \<and> i \<noteq> ''0'') then None
         else case fraction_length r of None \<Rightarrow> None
              | Some f \<Rightarrow> (case exponent_length (drop f r) of None \<Rightarrow> None
                  | Some x \<Rightarrow>
                      (let v = decimal_of (i @ take (f + x) r)
                       in Some (JNum (if neg then negate v else v), drop (f + x) r))))"

definition literal :: "string \<Rightarrow> jval \<Rightarrow> string \<Rightarrow> (jval \<times> string) option" where
  "literal word v s = (if startsWith s word then Some (v, drop (length word) s) else None)"

fun parse_value :: "nat \<Rightarrow> string \<Rightarrow> (jval \<times> string) option"
  and parse_elements :: "nat \<Rightarrow> string \<Rightarrow> (jval list \<times> string) option"
  and parse_members :: "nat \<Rightarrow> string \<Rightarrow> ((string \<times> jval) list \<times> string) option" where
  "parse_value 0 s = None"
| "parse_value (Suc n) s =
     (case skip s of [] \<Rightarrow> None
      | c # cs \<Rightarrow>
          (if c = quote_mark then map_option (\<lambda>(t, r). (JStr t, r)) (parse_string cs)
           else if c = CHR ''['' then
             (if take 1 (skip cs) = '']'' then Some (JArr [], drop 1 (skip cs))
              else map_option (\<lambda>(xs, r). (JArr xs, r)) (parse_elements n cs))
           else if c = CHR ''{'' then
             (if take 1 (skip cs) = ''}'' then Some (JObj [], drop 1 (skip cs))
              else map_option (\<lambda>(ps, r). (JObj (foldl (\<lambda>ob (k, v). set_prop k v ob) [] ps), r)) (parse_members n cs))
           else if c = CHR ''t'' then literal ''true'' (JBool True) (c # cs)
           else if c = CHR ''f'' then literal ''false'' (JBool False) (c # cs)
           else if c = CHR ''n'' then literal ''null'' JNull (c # cs)
           else parse_number (c # cs)))"
| "parse_elements 0 s = None"
| "parse_elements (Suc n) s =
     (case parse_value n s of None \<Rightarrow> None
      | Some (v, r) \<Rightarrow>
          (case skip r of [] \<Rightarrow> None
           | c # t \<Rightarrow> (if c = CHR '','' then map_option (\<lambda>(vs, u). (v # vs, u)) (parse_elements n t)
                       else if c = CHR '']'' then Some ([v], t) else None)))"
| "parse_members 0 s = None"
| "parse_members (Suc n) s =
     (case skip s of [] \<Rightarrow> None
      | q # cs \<Rightarrow>
          (if q \<noteq> quote_mark then None
           else case parse_string cs of None \<Rightarrow> None
           | Some (k, r) \<Rightarrow>
               (if take 1 (skip r) \<noteq> '':'' then None
                else case parse_value n (drop 1 (skip r)) of None \<Rightarrow> None
                | Some (v, u) \<Rightarrow>
                    (case skip u of [] \<Rightarrow> None
                     | c # t \<Rightarrow> (if c = CHR '','' then map_option (\<lambda>(ps, w). ((k, v) # ps, w)) (parse_members n t)
                                 else if c = CHR ''}'' then Some ([(k, v)], t) else None)))))"

definition JSON_parse :: "string \<Rightarrow> jval option" where
  "JSON_parse s =
     (case parse_value (2 * length s) s of
        Some (v, r) \<Rightarrow> (if skip r = [] then Some v else None)
      | None \<Rightarrow> None)"

section \<open>Texts\<close>

lemma nibble_hex:
  assumes "m < 16"
  shows "is_hex (nibble m)" and "radix_digit (nibble m) = m"
proof -
  have small: "of_char (char_of (48 + m)) = 48 + m" "of_char (char_of (87 + m)) = 87 + m"
    using assms by (simp_all add: of_char_char)
  show "is_hex (nibble m)" and "radix_digit (nibble m) = m"
    using assms small
    by (cases "m < 10"; simp add: nibble_def is_hex_def is_digit_def radix_digit_def Let_def)+
qed

lemma char_of_eq: "(of_char c :: nat) = k \<Longrightarrow> c = char_of k"
  by auto

lemma unescape_control:
  assumes "(of_char c :: nat) < 32"
  shows "unescape (CHR ''u'') (CHR ''0'' # CHR ''0'' # nibble (of_char c div 16) # nibble (of_char c mod 16) # rest) =
    Some (c, 4)"
proof -
  have hi: "of_char c div 16 < (16 :: nat)" and lo: "of_char c mod 16 < (16 :: nat)" using assms by simp_all
  have zero: "is_hex (CHR ''0'')" "radix_digit (CHR ''0'') = 0"
    by (simp_all add: is_hex_def is_digit_def radix_digit_def)
  have "hex_val [CHR ''0'', CHR ''0'', nibble (of_char c div 16), nibble (of_char c mod 16)] = of_char c"
    by (simp add: hex_val_def zero nibble_hex [OF hi] nibble_hex [OF lo])
  then show ?thesis using assms by (simp add: unescape_def zero nibble_hex [OF hi] nibble_hex [OF lo] Let_def)
qed

lemma parse_string_char: "parse_string (json_char c @ rest) = map_option (\<lambda>(t, r). (c # t, r)) (parse_string rest)"
proof -
  let ?n = "of_char c :: nat"
  consider "?n \<in> {8, 9, 10, 12, 13, 34, 92}" | "?n < 32" "?n \<notin> {8, 9, 10, 12, 13}" | "32 \<le> ?n" "?n \<noteq> 34" "?n \<noteq> 92"
    by fastforce
  then show ?thesis
  proof cases
    case 1
    then show ?thesis
      by (auto dest!: char_of_eq simp: json_char_def unescape_def Let_def parse_string.simps [of "_ # _ # _"])
  next
    case 2
    then have "json_char c = [char_of (92 :: nat), CHR ''u'', CHR ''0'', CHR ''0'', nibble (?n div 16), nibble (?n mod 16)]"
      by (simp add: json_char_def Let_def)
    then show ?thesis using unescape_control [OF 2(1), of rest]
      by (simp add: parse_string.simps [of "_ # _ # _"])
  next
    case 3
    then show ?thesis by (simp add: json_char_def Let_def parse_string.simps [of "_ # _"])
  qed
qed

lemma parse_string_quoted:
  "parse_string (concat (map json_char s) @ quote_mark # rest) = Some (s, rest)"
proof (induction s)
  case Nil
  then show ?case by (simp add: quote_mark_def parse_string.simps [of "_ # _"])
next
  case (Cons c s)
  then show ?case by (simp add: parse_string_char)
qed

section \<open>Whole numbers\<close>

lemma digits_all: "list_all is_digit (digits n)" and digits_not_Nil [simp]: "digits n \<noteq> []"
proof -
  have digit: "is_digit (char_of (48 + m))" if "m < 10" for m :: nat
    using that of_char_of [of "48 + m"] by (simp add: is_digit_def)
  show "list_all is_digit (digits n)"
    by (induction n rule: digits.induct) (subst digits.simps, simp add: digit list_all_append [symmetric] del: list_all_append, auto simp: digit)
  show "digits n \<noteq> []" by (subst digits.simps) simp
qed

lemma dec_val_snoc: "dec_val (s @ [c]) = 10 * dec_val s + (of_char c - 48)"
  by (simp add: dec_val_def)

lemma dec_val_digits [simp]: "dec_val (digits n) = n"
proof (induction n rule: digits.induct)
  case (1 n)
  show ?case
  proof (cases "n < 10")
    case True
    then show ?thesis by (subst digits.simps) (simp add: dec_val_def of_char_char)
  next
    case False
    have "of_char (char_of (48 + n mod 10)) = 48 + n mod 10" by (rule of_char_char) simp
    then have "dec_val (digits n) = 10 * (n div 10) + n mod 10"
      using False 1 by (subst digits.simps) (simp add: dec_val_snoc)
    then show ?thesis by simp
  qed
qed

lemma digits_length: "n < 10 ^ k \<Longrightarrow> 0 < k \<Longrightarrow> length (digits n) \<le> k"
proof (induction n arbitrary: k rule: digits.induct)
  case (1 n)
  show ?case
  proof (cases "n < 10")
    case True
    then show ?thesis using 1(3) by (subst digits.simps) simp
  next
    case False
    then obtain m where k: "k = Suc m" "0 < m" using 1(2,3) by (cases k; cases "k - 1") auto
    have "n div 10 < 10 ^ m" using 1(2) k(1) by (simp add: less_mult_imp_div_less mult.commute)
    then show ?thesis using 1(1) False k by (subst digits.simps) simp
  qed
qed

lemma digits_lead: "0 < n \<Longrightarrow> hd (digits n) \<noteq> CHR ''0''"
proof (induction n rule: digits.induct)
  case (1 n)
  show ?case
  proof (cases "n < 10")
    case True
    have "of_char (char_of (48 + n)) = 48 + n" using True by (intro of_char_char) simp
    have "char_of (48 + n) \<noteq> CHR ''0''"
    proof
      assume zero: "char_of (48 + n) = CHR ''0''"
      have "of_char (char_of (48 + n)) = (48 :: nat)" unfolding zero by simp
      with \<open>of_char (char_of (48 + n)) = 48 + n\<close> 1(2) show False by simp
    qed
    then show ?thesis using True by (subst digits.simps) simp
  next
    case False
    then show ?thesis using 1 by (subst digits.simps) simp
  qed
qed

lemma strip_zeros_pad: "strip_zeros s @ replicate (length s - length (strip_zeros s)) (CHR ''0'') = s"
proof -
  have "rev s = takeWhile (\<lambda>c. c = CHR ''0'') (rev s) @ dropWhile (\<lambda>c. c = CHR ''0'') (rev s)" by simp
  moreover have "takeWhile (\<lambda>c. c = CHR ''0'') (rev s) = replicate (length (takeWhile (\<lambda>c. c = CHR ''0'') (rev s))) (CHR ''0'')"
    by (induction s rule: rev_induct) auto
  moreover have "length (takeWhile (\<lambda>c. c = CHR ''0'') (rev s)) = length s - length (strip_zeros s)"
    unfolding strip_zeros_def length_rev
    by (metis add_diff_cancel_right' length_append length_rev takeWhile_dropWhile_id)
  ultimately show ?thesis unfolding strip_zeros_def by (metis rev_append rev_replicate rev_rev_ident)
qed

lemma places_int: "places fuel j (of_int k) = j"
  by (cases fuel) simp_all

lemma pos_text_nat:
  assumes "0 < n" and "n < 10 ^ 21"
  shows "pos_text (of_nat n) = digits n"
proof -
  have places: "places 400 0 (of_nat n :: rat) = 0" using places_int [of 400 0 "int n"] by simp
  have "length (digits n) \<le> 21" using digits_length [OF assms(2)] by simp
  moreover have "strip_zeros (digits n) \<noteq> []"
  proof
    assume "strip_zeros (digits n) = []"
    then have "digits n = replicate (length (digits n)) (CHR ''0'')" using strip_zeros_pad [of "digits n"] by simp
    then have "hd (digits n) = CHR ''0''" by (metis digits_not_Nil hd_replicate length_0_conv)
    with digits_lead [OF assms(1)] show False by simp
  qed
  moreover have "length (strip_zeros (digits n)) \<le> length (digits n)"
    by (metis length_append le_add1 strip_zeros_pad)
  ultimately show ?thesis
    using strip_zeros_pad [of "digits n"] by (simp add: pos_text_def places Let_def nat_diff_distrib flip: of_nat_diff)
qed

definition whole :: "jsnum \<Rightarrow> bool" where
  "whole n = (case n of Fin r \<Rightarrow> of_int \<lfloor>r\<rfloor> = r \<and> \<bar>r\<bar> < 10 ^ 21 | _ \<Rightarrow> True)"

text \<open>A text that no number goes on with.\<close>

definition ends_number :: "string \<Rightarrow> bool" where
  "ends_number s \<longleftrightarrow> (case s of [] \<Rightarrow> True | c # _ \<Rightarrow> \<not> is_digit c \<and> c \<notin> set ''.eE'')"

lemma ends_lengths:
  assumes "ends_number s"
  shows "takeWhile is_digit s = []" "dropWhile is_digit s = s" "fraction_length s = Some 0" "exponent_length s = Some 0"
  using assms by (cases s; auto simp: ends_number_def fraction_length_def exponent_length_def)+

lemma decimal_of_digits:
  assumes "n < 10 ^ 21"
  shows "decimal_of (digits n) = Fin (of_nat n)"
proof -
  have take: "takeWhile is_digit (digits n) = digits n" "dropWhile is_digit (digits n) = []"
    using digits_all [of n] by (simp_all add: list_all_iff)
  have "(of_nat n :: rat) < 10 ^ 21" using assms by (metis of_nat_less_iff of_nat_numeral of_nat_power)
  moreover have "(10 ^ 21 :: rat) \<le> 2 ^ 1024 - 2 ^ 970" by simp
  ultimately have "\<not> (2 ^ 1024 - 2 ^ 970 \<le> (of_nat n :: rat))" by linarith
  then show ?thesis by (simp add: decimal_of_def take exponent_of_def Let_def)
qed

lemma parse_number_digits:
  assumes "n < 10 ^ 21" and "ends_number rest"
  shows "parse_number (digits n @ rest) = Some (JNum (Fin (of_nat n)), rest)"
    and "parse_number (CHR ''-'' # digits n @ rest) = Some (JNum (Fin (- of_nat n)), rest)"
proof -
  have all: "\<forall>c \<in> set (digits n). is_digit c" using digits_all [of n] by (simp add: list_all_iff)
  have split: "takeWhile is_digit (digits n @ rest) = digits n" "dropWhile is_digit (digits n @ rest) = rest"
    using all ends_lengths [OF assms(2)] by (simp_all add: takeWhile_append2 dropWhile_append2)
  have lead: "take 1 (digits n) = ''0'' \<longrightarrow> digits n = ''0''"
  proof (cases "n = 0")
    case True
    then show ?thesis by (simp add: digits.simps)
  next
    case False
    then show ?thesis using digits_lead [of n] by (cases "digits n") simp_all
  qed
  have minus: "take 1 (digits n @ rest) \<noteq> ''-''"
    using all by (cases "digits n") (auto simp: is_digit_def)
  show "parse_number (digits n @ rest) = Some (JNum (Fin (of_nat n)), rest)"
    using lead minus by (simp add: parse_number_def Let_def split ends_lengths [OF assms(2)] decimal_of_digits [OF assms(1)])
  show "parse_number (CHR ''-'' # digits n @ rest) = Some (JNum (Fin (- of_nat n)), rest)"
    using lead by (simp add: parse_number_def Let_def split ends_lengths [OF assms(2)] decimal_of_digits [OF assms(1)])
qed

lemma digits_zero: "digits 0 = ''0''"
  by code_simp

lemma parse_number_whole:
  assumes "whole n" and "n = Fin r" and "ends_number rest"
  shows "parse_number (num_text n @ rest) = Some (JNum n, rest)" and "num_text n \<noteq> []"
    and "hd (num_text n) = CHR ''-'' \<or> is_digit (hd (num_text n))"
proof -
  obtain i where i: "r = of_int i" "\<bar>r\<bar> < 10 ^ 21" using assms(1,2) by (auto simp: whole_def)
  have "of_int \<bar>i\<bar> < (of_int (10 ^ 21) :: rat)" using i by simp
  then have bound: "\<bar>i\<bar> < 10 ^ 21" by (simp only: of_int_less_iff)
  define m where "m = nat \<bar>i\<bar>"
  have m: "m < 10 ^ 21" using bound by (simp add: m_def nat_less_iff)
  have lead: "is_digit (hd (digits m))"
    using digits_all [of m] by (cases "digits m") (simp_all add: list_all_iff)
  consider "i = 0" | "0 < i" | "i < 0" by linarith
  then have "parse_number (num_text n @ rest) = Some (JNum n, rest) \<and> num_text n \<noteq> [] \<and>
      (hd (num_text n) = CHR ''-'' \<or> is_digit (hd (num_text n)))"
  proof cases
    case 1
    then show ?thesis using parse_number_digits(1) [of 0 rest] assms(2,3) i
      by (simp add: num_text_def digits_zero is_digit_def)
  next
    case 2
    have r: "r = of_nat m" "0 < m" using 2 i(1) by (simp_all add: m_def)
    show ?thesis using parse_number_digits(1) [OF m assms(3)] lead pos_text_nat [OF r(2) m] r assms(2)
      by (auto simp: num_text_def)
  next
    case 3
    have r: "r = - of_nat m" "0 < m" using 3 i(1) by (simp_all add: m_def)
    show ?thesis using parse_number_digits(2) [OF m assms(3)] pos_text_nat [OF r(2) m] r assms(2)
      by (auto simp: num_text_def)
  qed
  then show "parse_number (num_text n @ rest) = Some (JNum n, rest)" "num_text n \<noteq> []"
      "hd (num_text n) = CHR ''-'' \<or> is_digit (hd (num_text n))" by blast+
qed

section \<open>Parsing what was printed\<close>

text \<open>A value whose numbers are whole and small enough to be printed in full, and whose objects have distinct
  keys.\<close>

fun wire :: "jval \<Rightarrow> bool" where
  "wire (JNum n) \<longleftrightarrow> whole n"
| "wire (JArr xs) \<longleftrightarrow> list_all wire xs"
| "wire (JObj ob) \<longleftrightarrow> distinct (map fst ob) \<and> list_all (\<lambda>p. wire (snd p)) ob"
| "wire _ \<longleftrightarrow> True"

text \<open>The text of a value starts with a character that is no white space and closes no list.\<close>

definition opens :: "string \<Rightarrow> bool" where
  "opens s \<longleftrightarrow> s \<noteq> [] \<and> \<not> json_space (hd s) \<and> hd s \<notin> set '']},:''"

lemma quote_mark_char: "quote_mark = CHR 0x22"
  by code_simp

lemma stringify_opens:
  assumes "JSON_stringify v = Some t" and "wire v"
  shows "opens t"
proof (cases v)
  case (JNum n)
  show ?thesis
  proof (cases n)
    case (Fin r)
    have "ends_number []" by (simp add: ends_number_def)
    then show ?thesis using parse_number_whole(2,3) [of n r "[]"] Fin JNum assms
      by (auto simp: opens_def json_number_def json_space_def is_digit_def)
  qed (use JNum assms in \<open>auto simp: opens_def json_number_def json_space_def\<close>)
qed (use assms in \<open>auto simp: opens_def json_space_def json_quote_def quote_mark_char split: if_splits\<close>)

lemma skip_opens: "opens t \<Longrightarrow> skip (t @ rest) = t @ rest"
  by (cases t) (simp_all add: opens_def skip_def)

lemma toJson_undef: "toJson v = JUndef \<longleftrightarrow> v = JUndef"
  by (cases v) (simp_all add: toJson.simps split: jsnum.splits)

lemma stringify_undef: "JSON_stringify v = None \<longleftrightarrow> v = JUndef"
  by (cases v) simp_all

lemma fold_set_prop:
  assumes "distinct (map fst (acc @ ps))"
  shows "foldl (\<lambda>ob (k, v). set_prop k v ob) acc ps = acc @ ps"
  using assms
proof (induction ps arbitrary: acc)
  case (Cons p ps)
  obtain k v where p: "p = (k, v)" by (cases p)
  have new: "k \<notin> fst ` set acc" using Cons.prems p by auto
  have "set_prop k v acc = acc @ [(k, v)]" using new by (induction acc) auto
  then show ?case using Cons.IH [of "acc @ [(k, v)]"] Cons.prems p by simp
qed simp

definition ends_value :: "string \<Rightarrow> bool" where
  "ends_value s \<longleftrightarrow> s = [] \<or> hd s \<in> set '',]}''"

lemma ends_value_number: "ends_value s \<Longrightarrow> ends_number s"
  by (cases s) (auto simp: ends_value_def ends_number_def is_digit_def)

lemma skip_end: "ends_value s \<Longrightarrow> skip s = s"
  by (cases s) (auto simp: ends_value_def skip_def json_space_def)

text \<open>What is to be shown of every value, and its instances for the elements and the members of a list.\<close>

definition parses :: "jval \<Rightarrow> bool" where
  "parses v \<longleftrightarrow> (\<forall>t n rest. JSON_stringify v = Some t \<longrightarrow> 2 * length t \<le> n \<longrightarrow> ends_value rest \<longrightarrow>
     parse_value n (t @ rest) = Some (toJson v, rest))"

lemma parses_element:
  assumes "parses v" and "2 * length (getOr (JSON_stringify v) ''null'') \<le> n" and "ends_value rest"
  shows "parse_value n (getOr (JSON_stringify v) ''null'' @ rest) =
    Some (case toJson v of JUndef \<Rightarrow> JNull | y \<Rightarrow> y, rest)"
proof (cases "v = JUndef")
  case True
  obtain m where "n = Suc m" using assms(2) True by (cases n) simp_all
  then show ?thesis using True assms(3)
    by (simp add: toJson.simps skip_def json_space_def quote_mark_char literal_def startsWith_def)
next
  case False
  then obtain t where t: "JSON_stringify v = Some t" using stringify_undef by (cases "JSON_stringify v") auto
  have "parse_value n (t @ rest) = Some (toJson v, rest)" using assms t by (simp add: parses_def)
  moreover have "toJson v \<noteq> JUndef" using False toJson_undef by blast
  ultimately show ?thesis using t by (cases "toJson v") simp_all
qed

lemma parse_elements_join:
  assumes "xs \<noteq> []" and "list_all parses xs"
  shows "2 * length (join '','' (map (\<lambda>x. getOr (JSON_stringify x) ''null'') xs)) < n \<Longrightarrow>
    parse_elements n (join '','' (map (\<lambda>x. getOr (JSON_stringify x) ''null'') xs) @ CHR '']'' # rest) =
      Some (map (\<lambda>x. case toJson x of JUndef \<Rightarrow> JNull | y \<Rightarrow> y) xs, rest)"
  using assms
proof (induction xs arbitrary: n)
  case Nil
  then show ?case by simp
next
  case (Cons v vs)
  let ?s = "\<lambda>x. getOr (JSON_stringify x) ''null''"
  obtain m where n: "n = Suc m" using Cons.prems(1) by (cases n) simp_all
  have close: "ends_value (CHR '']'' # rest)" "ends_value (CHR '','' # u)" for u by (simp_all add: ends_value_def)
  show ?case
  proof (cases vs)
    case Nil
    have "parse_value m (?s v @ CHR '']'' # rest) = Some (case toJson v of JUndef \<Rightarrow> JNull | y \<Rightarrow> y, CHR '']'' # rest)"
      using Cons.prems n Nil close by (intro parses_element) simp_all
    then show ?thesis using n Nil skip_end [OF close(1)] by simp
  next
    case (Cons w ws)
    let ?rest = "join '','' (map ?s vs) @ CHR '']'' # rest"
    have len: "2 * length (?s v) \<le> m" "2 * length (join '','' (map ?s vs)) < m"
      using Cons.prems(1) n Cons by simp_all
    have "parse_value m (?s v @ CHR '','' # ?rest) = Some (case toJson v of JUndef \<Rightarrow> JNull | y \<Rightarrow> y, CHR '','' # ?rest)"
      using Cons.prems len close by (intro parses_element) simp_all
    moreover have "parse_elements m ?rest = Some (map (\<lambda>x. case toJson x of JUndef \<Rightarrow> JNull | y \<Rightarrow> y) vs, rest)"
      using Cons.IH [OF len(2)] Cons.prems Cons by simp
    ultimately show ?thesis using n Cons skip_end [OF close(2)] by simp
  qed
qed

definition texts :: "(string \<times> jval) list \<Rightarrow> (string \<times> string) list" where
  "texts ob = List.map_filter (\<lambda>(k, s). map_option (Pair k) s) (map (\<lambda>(k, v). (k, JSON_stringify v)) ob)"

definition member_text :: "string \<times> string \<Rightarrow> string" where
  "member_text = (\<lambda>(k, s). json_quote k @ '':'' @ s)"

lemma texts_defined: "texts ob = map (\<lambda>(k, v). (k, the (JSON_stringify v))) (filter (\<lambda>(k, v). v \<noteq> JUndef) ob)"
  by (induction ob) (auto simp: texts_def map_filter_simps stringify_undef [symmetric] split: option.splits)

lemma parse_members_join:
  assumes "ob \<noteq> []" and "list_all (\<lambda>p. parses (snd p) \<and> wire (snd p) \<and> snd p \<noteq> JUndef) ob"
  shows "2 * length (join '','' (map (\<lambda>(k, v). member_text (k, the (JSON_stringify v))) ob)) < n \<Longrightarrow>
    parse_members n (join '','' (map (\<lambda>(k, v). member_text (k, the (JSON_stringify v))) ob) @ CHR ''}'' # rest) =
      Some (map (\<lambda>(k, v). (k, toJson v)) ob, rest)"
  using assms
proof (induction ob arbitrary: n)
  case Nil
  then show ?case by simp
next
  case (Cons p ob)
  let ?s = "\<lambda>(k, v). member_text (k, the (JSON_stringify v))"
  obtain k v where p: "p = (k, v)" by (cases p)
  obtain t where t: "JSON_stringify v = Some t" using Cons.prems(3) p stringify_undef by (cases "JSON_stringify v") auto
  have opens: "opens t" using stringify_opens [OF t] Cons.prems(3) p by simp
  obtain m where n: "n = Suc m" using Cons.prems(1) by (cases n) simp_all
  have text_p: "?s p = quote_mark # concat (map json_char k) @ quote_mark # '':'' @ t"
    by (simp add: p t member_text_def json_quote_def)
  have head: "skip (quote_mark # u) = quote_mark # u" "skip (CHR '':'' # u) = CHR '':'' # u" for u
    by (simp_all add: skip_def json_space_def quote_mark_char)
  have close: "ends_value (CHR ''}'' # rest)" "ends_value (CHR '','' # u)" for u by (simp_all add: ends_value_def)
  have val: "parse_value m (t @ rest') = Some (toJson v, rest')" if "2 * length t \<le> m" "ends_value rest'" for rest'
    using that Cons.prems(3) p t by (simp add: parses_def)
  show ?case
  proof (cases ob)
    case Nil
    have "2 * length t \<le> m" using Cons.prems(1) n Nil text_p by simp
    then show ?thesis
      using val close(1) skip_end [OF close(1)] n Nil p text_p by (simp add: head parse_string_quoted)
  next
    case (Cons q qs)
    let ?rest = "join '','' (map ?s ob) @ CHR ''}'' # rest"
    have len: "2 * length t \<le> m" "2 * length (join '','' (map ?s ob)) < m"
      using Cons.prems(1) n Cons text_p by simp_all
    have "parse_members m ?rest = Some (map (\<lambda>(k, v). (k, toJson v)) ob, rest)"
      using Cons.IH [OF len(2)] Cons.prems Cons by simp
    then show ?thesis
      using val [OF len(1) close(2)] skip_end [OF close(2)] n Cons p text_p by (simp add: head parse_string_quoted)
  qed
qed

lemma parsesI:
  assumes "wire v"
    and "\<And>t m rest. JSON_stringify v = Some t \<Longrightarrow> opens t \<Longrightarrow> 2 * length t \<le> Suc m \<Longrightarrow> ends_value rest \<Longrightarrow>
      parse_value (Suc m) (t @ rest) = Some (toJson v, rest)"
  shows "parses v"
  unfolding parses_def
proof (intro allI impI)
  fix t n rest
  assume t: "JSON_stringify v = Some t" "2 * length t \<le> n" "ends_value rest"
  have opens: "opens t" by (rule stringify_opens [OF t(1) assms(1)])
  then have "t \<noteq> []" by (simp add: opens_def)
  then obtain m where "n = Suc m" using t(2) by (cases n) auto
  with assms(2) t opens show "parse_value n (t @ rest) = Some (toJson v, rest)" by simp
qed

lemmas literal_simps = literal_def startsWith_def skip_def json_space_def quote_mark_char toJson.simps

lemma parses_number:
  assumes "whole n"
  shows "parses (JNum n)"
proof (rule parsesI)
  fix t m rest
  assume t: "JSON_stringify (JNum n) = Some t" "opens t" "ends_value rest"
  show "parse_value (Suc m) (t @ rest) = Some (toJson (JNum n), rest)"
  proof (cases n)
    case (Fin r)
    have shape: "t = num_text n" using t(1) Fin by (simp add: json_number_def)
    note num = parse_number_whole [OF assms Fin ends_value_number [OF t(3)]]
    obtain c cs where c: "t = c # cs" using num(2) unfolding shape [symmetric] by (cases t) simp_all
    have "c = CHR ''-'' \<or> is_digit c" using num(3) c unfolding shape [symmetric] by simp
    then have "c \<noteq> quote_mark" "c \<notin> set ''[{tfn''" by (auto simp: is_digit_def quote_mark_char)
    then have "parse_value (Suc m) (t @ rest) = parse_number (t @ rest)"
      using skip_opens [OF t(2), of rest] c by simp
    then show ?thesis using num(1) shape Fin by (simp add: toJson.simps)
  qed (use t in \<open>auto simp: json_number_def literal_simps\<close>)
qed (use assms in simp)

lemma parses_string: "parses (JStr s)"
proof (rule parsesI)
  fix t m rest
  assume t: "JSON_stringify (JStr s) = Some t" "opens t"
  then have "t @ rest = quote_mark # concat (map json_char s) @ quote_mark # rest" by (auto simp: json_quote_def)
  then show "parse_value (Suc m) (t @ rest) = Some (toJson (JStr s), rest)"
    using skip_opens [OF t(2), of rest] by (simp add: parse_string_quoted toJson.simps)
qed simp

lemma element_opens: "wire v \<Longrightarrow> opens (getOr (JSON_stringify v) ''null'')"
  using stringify_opens by (cases "JSON_stringify v") (auto simp: opens_def json_space_def)

lemma join_Cons: "join sep (w # ws) = w @ (if ws = [] then [] else sep @ join sep ws)"
  by (cases ws) simp_all

lemma parses_array:
  assumes "list_all parses xs" and "list_all wire xs"
  shows "parses (JArr xs)"
proof (rule parsesI)
  fix t m rest
  let ?s = "\<lambda>x. getOr (JSON_stringify x) ''null''"
  assume t: "JSON_stringify (JArr xs) = Some t" "opens t" "2 * length t \<le> Suc m" "ends_value rest"
  then have shape: "t @ rest = CHR ''['' # join '','' (map ?s xs) @ CHR '']'' # rest" by auto
  show "parse_value (Suc m) (t @ rest) = Some (toJson (JArr xs), rest)"
  proof (cases xs)
    case Nil
    then show ?thesis using shape skip_opens [OF t(2), of rest]
      by (simp add: quote_mark_char toJson.simps skip_def json_space_def)
  next
    case (Cons x ys)
    have "opens (?s x)" using assms(2) Cons by (simp add: element_opens)
    then have "opens (join '','' (map ?s xs))" using Cons by (simp add: join_Cons opens_def)
    then have first: "take 1 (skip (join '','' (map ?s xs) @ CHR '']'' # rest)) \<noteq> '']''"
      by (subst skip_opens) (auto simp: opens_def neq_Nil_conv)
    have "parse_elements m (join '','' (map ?s xs) @ CHR '']'' # rest) =
        Some (map (\<lambda>x. case toJson x of JUndef \<Rightarrow> JNull | y \<Rightarrow> y) xs, rest)"
      using t Cons assms(1) by (intro parse_elements_join) auto
    then show ?thesis using first shape skip_opens [OF t(2), of rest] by (simp add: quote_mark_char toJson.simps)
  qed
qed (use assms in simp)

lemma parses_object:
  assumes "list_all (\<lambda>p. parses (snd p) \<and> wire (snd p)) ob" and "distinct (map fst ob)"
  shows "parses (JObj ob)"
proof (rule parsesI)
  fix t m rest
  let ?defined = "filter (\<lambda>(k, v). v \<noteq> JUndef) ob"
  let ?s = "\<lambda>(k, v). member_text (k, the (JSON_stringify v))"
  assume t: "JSON_stringify (JObj ob) = Some t" "opens t" "2 * length t \<le> Suc m" "ends_value rest"
  have members: "map (\<lambda>(k, s). json_quote k @ '':'' @ s)
      (List.map_filter (\<lambda>(k, s). map_option (Pair k) s) (map (\<lambda>(k, v). (k, JSON_stringify v)) ob)) = map ?s ?defined"
    using texts_defined [of ob] unfolding texts_def by (simp add: member_text_def comp_def case_prod_beta)
  have shape: "t @ rest = CHR ''{'' # join '','' (map ?s ?defined) @ CHR ''}'' # rest"
    using t(1) unfolding JSON_stringify.simps members by auto
  have json: "toJson (JObj ob) = JObj (map (\<lambda>(k, v). (k, toJson v)) ?defined)"
    by (induction ob) (auto simp: toJson.simps toJson_undef)
  show "parse_value (Suc m) (t @ rest) = Some (toJson (JObj ob), rest)"
  proof (cases "?defined = []")
    case True
    then show ?thesis using shape skip_opens [OF t(2), of rest] json
      by (simp add: quote_mark_char skip_def json_space_def)
  next
    case False
    then obtain p ps where p: "?defined = p # ps" by (cases ?defined) auto
    have "opens (?s p)" by (cases p) (simp add: opens_def member_text_def json_quote_def quote_mark_char json_space_def)
    then have "opens (join '','' (map ?s ?defined))" using p by (simp add: join_Cons opens_def)
    then have first: "take 1 (skip (join '','' (map ?s ?defined) @ CHR ''}'' # rest)) \<noteq> ''}''"
      by (subst skip_opens) (auto simp: opens_def neq_Nil_conv)
    have "2 * length (join '','' (map ?s ?defined)) < m"
      using t(1,3) unfolding JSON_stringify.simps members by auto
    then have "parse_members m (join '','' (map ?s ?defined) @ CHR ''}'' # rest) =
        Some (map (\<lambda>(k, v). (k, toJson v)) ?defined, rest)"
      using False assms(1) by (intro parse_members_join) (auto simp: list_all_iff)
    moreover have "distinct (map fst (map (\<lambda>(k, v). (k, toJson v)) ?defined))"
      using assms(2) by (simp add: comp_def case_prod_beta distinct_map_filter)
    note fold_set_prop [of "[]", unfolded append_Nil, OF this]
    then have "foldl (\<lambda>ob (k, v). set_prop k v ob) [] (map (\<lambda>(k, v). (k, toJson v)) ?defined) =
        map (\<lambda>(k, v). (k, toJson v)) ?defined"
      .
    ultimately show ?thesis using first shape skip_opens [OF t(2), of rest] json by (simp add: quote_mark_char)
  qed
qed (use assms in \<open>simp add: list_all_iff\<close>)

lemma wire_parses: "wire v \<Longrightarrow> parses v"
proof (induction v)
  case (JBool b)
  show ?case by (rule parsesI) (auto simp: literal_simps)
next
  case JNull
  show ?case by (rule parsesI) (auto simp: literal_simps)
next
  case (JNum n)
  then show ?case by (simp add: parses_number)
next
  case (JStr s)
  show ?case by (rule parses_string)
next
  case (JArr xs)
  then show ?case by (intro parses_array) (auto simp: list_all_iff)
next
  case (JObj ob)
  then show ?case by (intro parses_object) (auto simp: list_all_iff)
qed (simp add: parses_def)

lemma json_roundtrip:
  assumes "wire v" and "v \<noteq> JUndef"
  shows "\<exists>t. JSON_stringify v = Some t \<and> JSON_parse t = Some (toJson v)"
proof -
  obtain t where t: "JSON_stringify v = Some t" using assms(2) stringify_undef by (cases "JSON_stringify v") auto
  have "parse_value (2 * length t) (t @ []) = Some (toJson v, [])"
    using wire_parses [OF assms(1)] t unfolding parses_def by (simp add: ends_value_def)
  with t show ?thesis by (simp add: JSON_parse_def skip_def)
qed

text \<open>\<open>toJson\<close> is the round trip through the text: parsing what \<open>JSON.stringify\<close> prints for a value gives
  \<open>toJson\<close> of the value, for values with whole numbers of at most 21 digits.\<close>

theorem toJson_is_roundtrip:
  assumes "wire v" and "v \<noteq> JUndef"
  shows "\<exists>t. JSON_stringify v = Some t \<and> JSON_parse t = Some (toJson v)"
  by (rule json_roundtrip [OF assms])

theorem toJson_is_roundtrip_witness:
  "\<exists>t. JSON_stringify (JObj [(''a'', JArr [JNum (Fin (- 12)), JUndef, JStr [quote_mark]]), (''b'', JUndef)]) = Some t \<and>
     JSON_parse t = Some (JObj [(''a'', JArr [JNum (Fin (- 12)), JNull, JStr [quote_mark]])])"
proof -
  have "\<lfloor>- 12 :: rat\<rfloor> = - 12" using floor_of_int [of "- 12 :: int", where 'a = rat] by simp
  then have "wire (JObj [(''a'', JArr [JNum (Fin (- 12)), JUndef, JStr [quote_mark]]), (''b'', JUndef)])"
    by (simp add: whole_def)
  from toJson_is_roundtrip [OF this] show ?thesis by (simp add: toJson.simps)
qed

end
