(* ===== verification/Crypto.thy ===== *)
theory Crypto
  imports Http "HOL-Library.Char_ord" "HOL-Library.List_Lexorder"
begin

text \<open>
  \<open>packages/crypto\<close> and the key handling of \<open>platform/services\<close>: the canonical JSON of a credential, its
  JSON Web Signature over Ed25519, and the sealed texts of webhook and TOTP secrets (AES-256-GCM). The
  algorithms are the platform's: Ed25519 and AES are the fields of \<open>ed25519\<close> and \<open>aes_gcm\<close>, and what is
  relied on is stated as \<open>ed25519_ok\<close> and \<open>aes_gcm_ok\<close>.
\<close>

type_synonym bytes = "nat list"

section \<open>Canonical JSON\<close>

text \<open>The order in which an engine enumerates own properties: array indices first, in numeric order, then the
  others as they were added.\<close>

definition array_index :: "string \<Rightarrow> nat option" where
  "array_index s =
     (let n = dec_val s in if list_all is_digit s \<and> s = digits n \<and> n < 4294967295 then Some n else None)"

definition own_order :: "(string \<times> 'a) list \<Rightarrow> (string \<times> 'a) list" where
  "own_order ob =
     sort_key (\<lambda>p. getOr (array_index (fst p)) 0) (filter (\<lambda>p. array_index (fst p) \<noteq> None) ob) @
     filter (\<lambda>p. array_index (fst p) = None) ob"

text \<open>\<open>Array.prototype.sort\<close> compares code units.\<close>

fun sortJson :: "jval \<Rightarrow> jval" where
  "sortJson (JArr xs) = JArr (map sortJson xs)"
| "sortJson (JObj ob) = JObj (own_order (sort_key fst (map (\<lambda>(k, v). (k, sortJson v)) ob)))"
| "sortJson v = v"

definition canonicalJson :: "jval \<Rightarrow> string option" where
  "canonicalJson v = JSON_stringify (sortJson v)"

section \<open>Keys\<close>

record ed25519 =
  ed_private :: "string \<Rightarrow> (bytes \<Rightarrow> bytes) res" \<comment> \<open>\<open>createPrivateKey(pem)\<close>, as the function that signs\<close>
  ed_public :: "string \<Rightarrow> (bytes \<Rightarrow> bytes \<Rightarrow> bool) res" \<comment> \<open>\<open>createPublicKey(pem)\<close>, as the function that verifies\<close>
  ed_generate :: "string \<times> string"

record signer_options =
  so_privateKeyPem :: "string option"
  so_publicKeyPem :: "string option"
  so_verificationMethod :: "string option"
  so_requireConfiguredKeys :: bool

datatype key_source = CONFIGURED | EPHEMERAL_DEV

record signer =
  sg_private :: "bytes \<Rightarrow> bytes"
  sg_public :: "bytes \<Rightarrow> bytes \<Rightarrow> bool"
  sg_verificationMethod :: string
  sg_keySource :: key_source

definition defaultVerificationMethod :: string where
  "defaultVerificationMethod = ''did:web:localhost:acadid#dev-ed25519''"

definition resolveKeyMaterial :: "ed25519 \<Rightarrow> signer_options \<Rightarrow> (string \<times> string \<times> key_source) res" where
  "resolveKeyMaterial ed opts =
     bindE (failIf (truthy_text (so_privateKeyPem opts) \<noteq> truthy_text (so_publicKeyPem opts))
       (Failure ''Credential signing requires both private and public PEM keys.'')) (\<lambda>_.
     if truthy_text (so_privateKeyPem opts) \<and> truthy_text (so_publicKeyPem opts)
     then Inr (getOr (so_privateKeyPem opts) [], getOr (so_publicKeyPem opts) [], CONFIGURED)
     else bindE (failIf (so_requireConfiguredKeys opts)
       (Failure ''Configured credential signing keys are required in this environment.'')) (\<lambda>_.
     Inr (fst (ed_generate ed), snd (ed_generate ed), EPHEMERAL_DEV)))"

definition probe :: bytes where
  "probe = utf8 ''acadid-signing-key-self-test''"

definition assertKeyPairMatches :: "(bytes \<Rightarrow> bytes) \<Rightarrow> (bytes \<Rightarrow> bytes \<Rightarrow> bool) \<Rightarrow> unit res" where
  "assertKeyPairMatches privateKey publicKey =
     failIf (\<not> publicKey probe (privateKey probe))
       (Failure ''Credential signing private and public keys do not match.'')"

definition newSigner :: "ed25519 \<Rightarrow> signer_options \<Rightarrow> signer res" where
  "newSigner ed opts =
     bindE (resolveKeyMaterial ed opts) (\<lambda>(privatePem, publicPem, source).
     bindE (ed_private ed privatePem) (\<lambda>privateKey.
     bindE (ed_public ed publicPem) (\<lambda>publicKey.
     bindE (assertKeyPairMatches privateKey publicKey) (\<lambda>_.
     Inr \<lparr>sg_private = privateKey, sg_public = publicKey,
          sg_verificationMethod = getOr (so_verificationMethod opts) defaultVerificationMethod,
          sg_keySource = source\<rparr>))))"

text \<open>\<open>readPemFromEnv\<close>; \<open>parse\<close> is \<open>JSON.parse\<close>.\<close>

fun unescape_newlines :: "string \<Rightarrow> string" where
  "unescape_newlines (a # b # cs) =
     (if a = char_of (92 :: nat) \<and> b = CHR ''n'' then char_of (10 :: nat) # unescape_newlines cs
      else a # unescape_newlines (b # cs))"
| "unescape_newlines s = s"

definition readPemFromEnv :: "(string \<Rightarrow> string res) \<Rightarrow> string option \<Rightarrow> string option res" where
  "readPemFromEnv parse value =
     (case value of
        None \<Rightarrow> Inr None
      | Some s \<Rightarrow>
          (if s = [] then Inr None
           else if startsWith s [quote_mark] then bindE (parse s) (\<lambda>t. Inr (Some t))
           else Inr (Some (unescape_newlines s))))"

definition requiresConfiguredSigningKeys :: "string option \<Rightarrow> string option \<Rightarrow> bool" where
  "requiresConfiguredSigningKeys nodeEnv flag \<longleftrightarrow> nodeEnv = Some ''production'' \<or> flag = Some ''true''"

record signing_env =
  sge_privatePem :: "string option"
  sge_publicPem :: "string option"
  sge_method :: "string option"
  sge_nodeEnv :: "string option"
  sge_requireKeys :: "string option"

definition credentialSigningService :: "ed25519 \<Rightarrow> (string \<Rightarrow> string res) \<Rightarrow> signing_env \<Rightarrow> signer res" where
  "credentialSigningService ed parse se =
     bindE (readPemFromEnv parse (sge_privatePem se)) (\<lambda>privatePem.
     bindE (readPemFromEnv parse (sge_publicPem se)) (\<lambda>publicPem.
     newSigner ed \<lparr>so_privateKeyPem = privatePem, so_publicKeyPem = publicPem,
       so_verificationMethod = sge_method se,
       so_requireConfiguredKeys = requiresConfiguredSigningKeys (sge_nodeEnv se) (sge_requireKeys se)\<rparr>))"

section \<open>Signing\<close>

record credential_proof =
  pf_created :: string
  pf_verificationMethod :: string
  pf_jws :: string

record signed_payload =
  sp_payload :: jval
  sp_signature :: string
  sp_proof :: credential_proof

definition jwsHeader :: "signer \<Rightarrow> string" where
  "jwsHeader sg =
     getOr (JSON_stringify (JObj [(''alg'', JStr ''EdDSA''), (''b64'', JBool True), (''crit'', JArr [JStr ''b64'']),
       (''kid'', JStr (sg_verificationMethod sg)), (''typ'', JStr ''vc+ld+jws'')])) []"

text \<open>\<open>Buffer.from(undefined)\<close> is a type error.\<close>

definition encodedPayload :: "jval \<Rightarrow> string res" where
  "encodedPayload payload =
     bindE (require (canonicalJson payload) (Failure ''The first argument must be of type string.''))
       (\<lambda>json. Inr (base64url json))"

definition signPayload :: "int \<Rightarrow> signer \<Rightarrow> jval \<Rightarrow> signed_payload res" where
  "signPayload t sg payload =
     bindE (encodedPayload payload) (\<lambda>encoded.
     let signingInput = base64url (jwsHeader sg) @ ''.'' @ encoded;
         jws = signingInput @ ''.'' @ base64url_bytes (sg_private sg (utf8 signingInput))
     in Inr \<lparr>sp_payload = payload, sp_signature = jws,
             sp_proof = \<lparr>pf_created = toISOString t, pf_verificationMethod = sg_verificationMethod sg, pf_jws = jws\<rparr>\<rparr>)"

definition verifyPayload :: "signer \<Rightarrow> jval \<Rightarrow> string \<Rightarrow> bool res" where
  "verifyPayload sg payload signature =
     (case split_on (CHR ''.'') signature of
        encodedHeader # encoded # encodedSignature # _ \<Rightarrow>
          (if encodedHeader = [] \<or> encoded = [] \<or> encodedSignature = [] then Inr False
           else bindE (encodedPayload payload) (\<lambda>expectedPayload.
             if encoded \<noteq> expectedPayload then Inr False
             else Inr (sg_public sg (utf8 (encodedHeader @ ''.'' @ encoded)) (from_base64url encodedSignature))))
      | _ \<Rightarrow> Inr False)"

definition productionReady :: "signer \<Rightarrow> bool" where
  "productionReady sg \<longleftrightarrow> sg_keySource sg = CONFIGURED"

section \<open>Sealed secrets\<close>

text \<open>\<open>seal key iv plain\<close> gives the cipher text and the tag; \<open>unseal\<close> fails when the tag does not match.\<close>

record aes_gcm =
  gcm_seal :: "bytes \<Rightarrow> bytes \<Rightarrow> bytes \<Rightarrow> bytes \<times> bytes"
  gcm_unseal :: "bytes \<Rightarrow> bytes \<Rightarrow> bytes \<Rightarrow> bytes \<Rightarrow> bytes res"
  gcm_digest :: "string \<Rightarrow> bytes" \<comment> \<open>SHA-256\<close>

text \<open>The key of the webhook secrets and of the TOTP secrets: a variable of their own, or the JWT secret.\<close>

definition encryptionKey :: "aes_gcm \<Rightarrow> string option \<Rightarrow> string option \<Rightarrow> bytes" where
  "encryptionKey gcm ownKey jwtSecret =
     gcm_digest gcm (getOr (orElse ownKey jwtSecret) ''local-development-secret-change-before-pilot'')"

definition encryptSecret :: "aes_gcm \<Rightarrow> bytes \<Rightarrow> bytes \<Rightarrow> string \<Rightarrow> string" where
  "encryptSecret gcm key iv secret =
     (let (encrypted, tag) = gcm_seal gcm key iv (utf8 secret)
      in ''v1:'' @ base64url_bytes iv @ '':'' @ base64url_bytes tag @ '':'' @ base64url_bytes encrypted)"

definition decryptSecret :: "aes_gcm \<Rightarrow> string \<Rightarrow> bytes \<Rightarrow> string \<Rightarrow> string res" where
  "decryptSecret gcm kind key encoded =
     (case split_on (CHR '':'') encoded of
        version # iv # tag # encrypted # _ \<Rightarrow>
          (if version \<noteq> ''v1'' \<or> iv = [] \<or> tag = [] \<or> encrypted = []
           then Inl (Failure (''Invalid '' @ kind @ '' secret encoding.''))
           else bindE (gcm_unseal gcm key (from_base64url iv) (from_base64url tag) (from_base64url encrypted))
             (\<lambda>decrypted. Inr (of_utf8 decrypted)))
      | _ \<Rightarrow> Inl (Failure (''Invalid '' @ kind @ '' secret encoding.'')))"

definition createWebhookSecret :: "bytes \<Rightarrow> string" where
  "createWebhookSecret random = ''whsec_'' @ base64url_bytes random"

definition previewSecret :: "string \<Rightarrow> string" where
  "previewSecret secret = ''...'' @ drop (length secret - 6) secret"

section \<open>Canonical JSON is canonical\<close>

definition json_members :: "(string \<times> jval) list \<Rightarrow> (string \<times> string) list" where
  "json_members ob = List.map_filter (\<lambda>p. map_option (Pair (fst p)) (canonicalJson (snd p))) ob"

lemma json_members_simps [simp]:
  "json_members [] = []"
  "json_members (p # ob) =
     (case canonicalJson (snd p) of None \<Rightarrow> json_members ob | Some s \<Rightarrow> (fst p, s) # json_members ob)"
  by (simp_all add: json_members_def map_filter_simps split: option.splits)

text \<open>A stable sort goes past a partial map that keeps the keys.\<close>

lemma set_map_filter_iff: "q \<in> set (List.map_filter g xs) \<longleftrightarrow> (\<exists>p \<in> set xs. g p = Some q)"
  by (induction xs) (auto simp: map_filter_simps split: option.splits)

lemma map_filter_insort:
  assumes "\<And>p q. g p = Some q \<Longrightarrow> h q = h' p" and "sorted (map h' xs)"
  shows "List.map_filter g (insort_key h' x xs) =
    (case g x of None \<Rightarrow> List.map_filter g xs | Some y \<Rightarrow> insort_key h y (List.map_filter g xs))"
  using assms(2)
proof (induction xs)
  case Nil
  show ?case by (simp add: map_filter_simps split: option.splits)
next
  case (Cons z zs)
  show ?case
  proof (cases "h' x \<le> h' z")
    case True
    have "h' x \<le> h' p" if "p \<in> set (z # zs)" for p using that True Cons.prems by auto
    then have "h y \<le> h q" if y: "g x = Some y" and q: "q \<in> set (List.map_filter g (z # zs))" for y q
    proof -
      obtain p where "p \<in> set (z # zs)" "g p = Some q" using q unfolding set_map_filter_iff by blast
      with y show ?thesis using assms(1) \<open>\<And>p. p \<in> set (z # zs) \<Longrightarrow> h' x \<le> h' p\<close> by simp
    qed
    moreover have "List.map_filter g (x # z # zs) =
        (case g x of None \<Rightarrow> List.map_filter g (z # zs) | Some y \<Rightarrow> y # List.map_filter g (z # zs))"
      by (simp only: map_filter_simps)
    ultimately show ?thesis using True by (simp add: insort_is_Cons split: option.splits)
  next
    case False
    with Cons assms(1) show ?thesis by (auto simp: map_filter_simps split: option.splits)
  qed
qed

lemma map_filter_sort:
  assumes "\<And>p q. g p = Some q \<Longrightarrow> h q = h' p"
  shows "List.map_filter g (sort_key h' xs) = sort_key h (List.map_filter g xs)"
proof (induction xs)
  case (Cons x xs)
  have "sorted (map h' (sort_key h' xs))" by simp
  note ins = map_filter_insort [of g h h', OF assms this, of x]
  show ?case using Cons by (simp add: ins map_filter_simps split: option.splits)
qed (simp add: map_filter_simps)

lemma map_filter_filter:
  assumes "\<And>p q. g p = Some q \<Longrightarrow> fst q = fst p"
  shows "List.map_filter g (filter (\<lambda>p. P (fst p)) ys) = filter (\<lambda>p. P (fst p)) (List.map_filter g ys)"
  using assms by (induction ys) (auto simp: map_filter_simps split: option.splits)

lemma map_filter_append: "List.map_filter g (xs @ ys) = List.map_filter g xs @ List.map_filter g ys"
  by (simp add: List.map_filter_def)

lemma own_order_map_filter:
  assumes "\<And>p q. g p = Some q \<Longrightarrow> fst q = fst p"
  shows "List.map_filter g (own_order xs) = own_order (List.map_filter g xs)"
proof -
  have "List.map_filter g (sort_key (\<lambda>p. getOr (array_index (fst p)) 0) ys) =
      sort_key (\<lambda>p. getOr (array_index (fst p)) 0) (List.map_filter g ys)" for ys
    by (rule map_filter_sort) (simp add: assms)
  then show ?thesis
    unfolding own_order_def map_filter_append
    using map_filter_filter [OF assms, where P = "\<lambda>k. array_index k \<noteq> None" and ys = xs]
      map_filter_filter [OF assms, where P = "\<lambda>k. array_index k = None" and ys = xs] by simp
qed

lemma canonicalJson_obj:
  "canonicalJson (JObj ob) = Some (''{'' @ join '',''
     (map (\<lambda>(k, s). json_quote k @ '':'' @ s) (own_order (sort_key fst (json_members ob)))) @ ''}'')"
proof -
  let ?g = "\<lambda>p. map_option (Pair (fst p)) (JSON_stringify (snd p))"
  have "List.map_filter (\<lambda>(k, s). map_option (Pair k) s) (map (\<lambda>(k, v). (k, JSON_stringify v)) xs) = List.map_filter ?g xs"
    for xs :: "(string \<times> jval) list"
    by (induction xs) (auto simp: map_filter_simps split: option.splits)
  moreover have "List.map_filter ?g (own_order (sort_key fst xs)) = own_order (sort_key fst (List.map_filter ?g xs))" for xs
    by (subst own_order_map_filter, force, subst map_filter_sort [where h = fst], auto)
  moreover have "List.map_filter ?g (map (\<lambda>(k, v). (k, sortJson v)) ob) = json_members ob"
    by (induction ob) (auto simp: map_filter_simps canonicalJson_def split: option.splits)
  ultimately show ?thesis by (simp add: canonicalJson_def)
qed

lemma canonicalJson_arr:
  "canonicalJson (JArr xs) = Some (''['' @ join '','' (map (\<lambda>x. getOr (canonicalJson x) ''null'') xs) @ '']'')"
  by (simp add: canonicalJson_def comp_def)

lemma fst_json_members: "fst ` set (json_members ob) \<subseteq> fst ` set ob"
  by (induction ob) (auto split: option.splits)

lemma distinct_json_members: "distinct (map fst ob) \<Longrightarrow> distinct (map fst (json_members ob))"
proof (induction ob)
  case (Cons p ob)
  then show ?case using fst_json_members [of ob] by (auto split: option.splits)
qed simp

text \<open>The order of the properties does not matter.\<close>

lemma canonicalJson_same:
  assumes "same_json v w"
  shows "canonicalJson v = canonicalJson w"
  using assms
proof (induction rule: same_json.induct)
  case (same v)
  then show ?case ..
next
  case (arr xs ys)
  then have "map (\<lambda>x. getOr (canonicalJson x) ''null'') xs = map (\<lambda>x. getOr (canonicalJson x) ''null'') ys"
    by (induction rule: list_all2_induct) simp_all
  then show ?case by (simp add: canonicalJson_arr)
next
  case (obj ob ob' ob'')
  have eq: "json_members ob = json_members ob'"
    using obj(1) by (induction rule: list_all2_induct) (simp_all split: option.splits)
  have "inj_on fst (set (json_members ob'))"
    using distinct_json_members [OF obj(3)] unfolding eq by (simp add: distinct_map)
  moreover have "mset (json_members ob') = mset (json_members ob'')"
    using obj(2) by (simp add: json_members_def List.map_filter_def)
  ultimately have "sort_key fst (json_members ob') = sort_key fst (json_members ob'')"
    by (intro sort_key_perm)
  then show ?case by (simp add: canonicalJson_obj eq)
qed

text \<open>Nor does storing the value as JSON, which drops what is undefined.\<close>

lemma json_members_toJson:
  assumes "\<And>p. p \<in> set ob \<Longrightarrow> canonicalJson (toJson (snd p)) = canonicalJson (snd p)"
  shows "json_members (filter (\<lambda>(k, v). v \<noteq> JUndef) (map (\<lambda>(k, v). (k, toJson v)) ob)) = json_members ob"
  using assms
proof (induction ob)
  case (Cons p ob)
  obtain k v where p: "p = (k, v)" by (cases p)
  have "canonicalJson (toJson v) = canonicalJson v" using Cons.prems [of p] p by simp
  moreover have "canonicalJson JUndef = None" by (simp add: canonicalJson_def)
  ultimately show ?case using Cons p by (auto split: option.splits)
qed simp

lemma canonicalJson_toJson: "canonicalJson (toJson v) = canonicalJson v"
proof (induction v)
  case (JNum n)
  then show ?case by (simp add: canonicalJson_def json_number_def toJson.simps split: jsnum.splits)
next
  case (JArr xs)
  have "getOr (canonicalJson (case toJson x of JUndef \<Rightarrow> JNull | y \<Rightarrow> y)) ''null'' = getOr (canonicalJson x) ''null''"
    if "x \<in> set xs" for x
    using JArr [OF that] by (cases "toJson x") (simp_all add: canonicalJson_def)
  then show ?case by (simp add: toJson.simps canonicalJson_arr cong: map_cong)
next
  case (JObj ob)
  have "canonicalJson (toJson (snd p)) = canonicalJson (snd p)" if "p \<in> set ob" for p
    using JObj [OF that] by (cases p) simp
  from json_members_toJson [OF this] show ?case by (simp add: toJson.simps canonicalJson_obj)
qed (simp_all add: toJson.simps)

section \<open>Parts of a signature\<close>

lemma base64_digit_plain:
  "base64_digit (CHR ''-'') (CHR ''_'') n \<noteq> CHR ''.''" "base64_digit (CHR ''-'') (CHR ''_'') n \<noteq> CHR '':''"
proof -
  have no: "char_of k \<noteq> c" if "k < 256" "k \<noteq> of_char c" for k :: nat and c :: char
  proof
    assume "char_of k = c"
    then have "of_char (char_of k) = (of_char c :: nat)" by simp
    with that show False by (simp only: of_char_char)
  qed
  have "base64_digit (CHR ''-'') (CHR ''_'') n \<noteq> c" if "(of_char c :: nat) \<in> {46, 58}" for c
  proof -
    have c: "c \<noteq> CHR ''-''" "c \<noteq> CHR ''_''" using that by auto
    consider "n < 26" | "26 \<le> n" "n < 52" | "52 \<le> n" "n < 62" | "62 \<le> n" by linarith
    then show ?thesis
    proof cases
      case 1
      then show ?thesis using no [of "65 + n" c] that by (auto simp: base64_digit_def)
    next
      case 2
      then show ?thesis using no [of "71 + n" c] that by (auto simp: base64_digit_def)
    next
      case 3
      then show ?thesis using no [of "n - 4" c] that by (auto simp: base64_digit_def)
    next
      case 4
      then show ?thesis using c by (auto simp: base64_digit_def)
    qed
  qed
  from this [of "CHR ''.''"] this [of "CHR '':''"]
  show "base64_digit (CHR ''-'') (CHR ''_'') n \<noteq> CHR ''.''" "base64_digit (CHR ''-'') (CHR ''_'') n \<noteq> CHR '':''" by simp_all
qed

lemma base64url_plain: "CHR ''.'' \<notin> set (base64url_bytes bs)" "CHR '':'' \<notin> set (base64url_bytes bs)"
  using base64_digit_plain by (auto simp: base64url_bytes_def dest: sym)

lemma sextets_Nil: "sextets bs = [] \<longleftrightarrow> bs = []"
  by (cases bs rule: sextets.cases) simp_all

lemma base64url_Nil: "base64url_bytes bs = [] \<longleftrightarrow> bs = []"
  by (simp add: base64url_bytes_def sextets_Nil)

lemma utf8_Nil: "utf8 s = [] \<longleftrightarrow> s = []"
  by (cases s) (simp_all add: utf8_def utf8_char_def Let_def)

lemma utf8_inj: "utf8 s = utf8 t \<Longrightarrow> s = t"
  by (metis of_utf8_utf8)

lemma base64url_inj: "base64url s = base64url t \<Longrightarrow> s = t"
  by (metis from_base64url)

lemma split_on_parts: "w \<in> set (split_on d s) \<Longrightarrow> d \<notin> set w"
  by (induction s arbitrary: w) (auto split: if_splits list.splits)

lemma split_three:
  assumes "d \<notin> set a" and "d \<notin> set b" and "d \<notin> set c"
  shows "split_on d (a @ [d] @ b @ [d] @ c) = [a, b, c]"
  using assms by (simp add: split_on_append split_on_no_sep)

lemma stringify_obj_not_Nil: "JSON_stringify (JObj ob) \<noteq> Some []"
  by simp

lemma stringify_not_Nil: "JSON_stringify v \<noteq> Some []"
proof (cases v)
  case (JNum n)
  have "digits m \<noteq> []" for m by (subst digits.simps) simp
  moreover have "pos_text r \<noteq> []" for r
  proof -
    have "strip_zeros all \<noteq> [] \<Longrightarrow> take 1 (strip_zeros all) \<noteq> []" for all by simp
    then show ?thesis unfolding pos_text_def Let_def by auto
  qed
  ultimately show ?thesis using JNum by (auto simp: json_number_def num_text_def split: jsnum.splits)
qed (auto simp: json_quote_def)

section \<open>Signatures\<close>

text \<open>Ed25519: a private key makes signatures of 64 bytes, and a public key that accepts one of them belongs to
  it and accepts them all.\<close>

definition ed25519_ok :: "ed25519 \<Rightarrow> bool" where
  "ed25519_ok ed \<longleftrightarrow>
     (\<forall>pem pem' sk vk. ed_private ed pem = Inr sk \<longrightarrow> ed_public ed pem' = Inr vk \<longrightarrow> vk probe (sk probe) \<longrightarrow>
        (\<forall>m. vk m (sk m) \<and> length (sk m) = 64 \<and> list_all (\<lambda>b. b < 256) (sk m)))"

lemma newSigner_pair:
  assumes "newSigner ed opts = Inr sg" and "ed25519_ok ed"
  shows "sg_public sg m (sg_private sg m)" and "length (sg_private sg m) = 64"
    and "list_all (\<lambda>b. b < 256) (sg_private sg m)"
proof -
  obtain pem pem' where "ed_private ed pem = Inr (sg_private sg)" "ed_public ed pem' = Inr (sg_public sg)"
      "sg_public sg probe (sg_private sg probe)"
    using assms(1) by (auto simp: newSigner_def assertKeyPairMatches_def err_simps)
  then show "sg_public sg m (sg_private sg m)" "length (sg_private sg m) = 64"
      "list_all (\<lambda>b. b < 256) (sg_private sg m)"
    using assms(2) unfolding ed25519_ok_def by blast+
qed

lemma jws_parts:
  "split_on (CHR ''.'') (base64url h @ ''.'' @ base64url j @ ''.'' @ base64url_bytes b) =
     [base64url h, base64url j, base64url_bytes b]"
  using split_three [of "CHR ''.''" "base64url h" "base64url j" "base64url_bytes b"] base64url_plain
  by (simp add: base64url_def)

text \<open>What the service signs it also verifies: the stored JSON of a signed credential, with its properties
  in any order, verifies against the signature.\<close>

lemma signed_verifies:
  assumes "newSigner ed opts = Inr sg" and "ed25519_ok ed" and "signPayload t sg payload = Inr signed"
    and "same_json (toJson payload) stored"
  shows "verifyPayload sg stored (sp_signature signed) = Inr True"
proof -
  obtain json where json: "canonicalJson payload = Some json"
    using assms(3) by (auto simp: signPayload_def encodedPayload_def err_simps)
  have stored: "canonicalJson stored = Some json"
    using canonicalJson_same [OF assms(4)] canonicalJson_toJson [of payload] json by simp
  let ?input = "base64url (jwsHeader sg) @ ''.'' @ base64url json"
  let ?sig = "sg_private sg (utf8 ?input)"
  have signature: "sp_signature signed = ?input @ ''.'' @ base64url_bytes ?sig"
    using assms(3) json by (auto simp: signPayload_def encodedPayload_def Let_def)
  note pair = newSigner_pair [OF assms(1,2), of "utf8 ?input"]
  have "json \<noteq> []" using json stringify_not_Nil unfolding canonicalJson_def by auto
  moreover have "jwsHeader sg \<noteq> []" by (simp add: jwsHeader_def)
  moreover have "?sig \<noteq> []" using pair(2) by auto
  ultimately show ?thesis
    using pair(1) jws_parts [of "jwsHeader sg" json ?sig] from_base64url_bytes [OF pair(3)] stored
    by (simp add: verifyPayload_def signature encodedPayload_def base64url_Nil utf8_Nil base64url_def)
qed

text \<open>Only what was signed verifies: if every message that the public key accepts is the signing input of a
  payload that was signed, a payload that verifies has the canonical JSON of one that was signed.\<close>

theorem verified_credential_was_signed:
  assumes "verifyPayload sg payload signature = Inr True"
    and "\<And>m x. sg_public sg m x \<Longrightarrow>
      \<exists>p \<in> set signed. \<exists>encoded. encodedPayload p = Inr encoded \<and> m = utf8 (base64url (jwsHeader sg) @ ''.'' @ encoded)"
  shows "\<exists>p \<in> set signed. canonicalJson payload = canonicalJson p"
proof -
  obtain h e x rest where parts: "split_on (CHR ''.'') signature = h # e # x # rest"
      and enc: "encodedPayload payload = Inr e"
      and accepted: "sg_public sg (utf8 (h @ ''.'' @ e)) (from_base64url x)"
    using assms(1) by (auto simp: verifyPayload_def err_simps split: list.splits if_splits)
  obtain p encoded where p: "p \<in> set signed" "encodedPayload p = Inr encoded"
      "utf8 (h @ ''.'' @ e) = utf8 (base64url (jwsHeader sg) @ ''.'' @ encoded)"
    using assms(2) [OF accepted] by blast
  obtain j k where jk: "canonicalJson payload = Some j" "e = base64url j" "canonicalJson p = Some k" "encoded = base64url k"
    using enc p(2) by (auto simp: encodedPayload_def err_simps)
  have "CHR ''.'' \<notin> set h" using split_on_parts [of h "CHR ''.''" signature] parts by simp
  then have "split_on (CHR ''.'') (h @ ''.'' @ e) = [h, e]"
    using base64url_plain by (simp add: split_on_append split_on_no_sep jk(2) base64url_def)
  moreover have "split_on (CHR ''.'') (base64url (jwsHeader sg) @ ''.'' @ encoded) = [base64url (jwsHeader sg), encoded]"
    using base64url_plain by (simp add: split_on_append split_on_no_sep jk(4) base64url_def)
  ultimately have "[h, e] = [base64url (jwsHeader sg), encoded]" unfolding utf8_inj [OF p(3)] by (rule trans [OF sym])
  then have "e = encoded" by simp
  then have "j = k" using jk base64url_inj by simp
  then show ?thesis using jk p(1) by metis
qed

section \<open>Sealed secrets come back\<close>

definition aes_gcm_ok :: "aes_gcm \<Rightarrow> bool" where
  "aes_gcm_ok gcm \<longleftrightarrow>
     (\<forall>key iv plain c tag. list_all (\<lambda>b. b < 256) plain \<longrightarrow> gcm_seal gcm key iv plain = (c, tag) \<longrightarrow>
        length c = length plain \<and> length tag = 16 \<and> list_all (\<lambda>b. b < 256) c \<and> list_all (\<lambda>b. b < 256) tag \<and>
        gcm_unseal gcm key iv tag c = Inr plain)"

text \<open>A sealed secret opens under its key to the secret, unless it is empty: the empty secret is sealed to a
  text that the same service refuses as malformed.\<close>

theorem sealed_secret_opens:
  assumes "aes_gcm_ok gcm" and "list_all (\<lambda>b. b < 256) iv" and "iv \<noteq> []"
  shows "decryptSecret gcm kind key (encryptSecret gcm key iv secret) =
    (if secret = [] then Inl (Failure (''Invalid '' @ kind @ '' secret encoding.'')) else Inr secret)"
proof -
  obtain c tag where seal: "gcm_seal gcm key iv (utf8 secret) = (c, tag)" by (cases "gcm_seal gcm key iv (utf8 secret)")
  note ok = assms(1) [unfolded aes_gcm_ok_def, rule_format, OF utf8_bytes seal]
  have "split_on (CHR '':'') (''v1:'' @ base64url_bytes iv @ '':'' @ base64url_bytes tag @ '':'' @ base64url_bytes c) =
      [''v1'', base64url_bytes iv, base64url_bytes tag, base64url_bytes c]"
    using split_three [of "CHR '':''" "base64url_bytes iv" "base64url_bytes tag" "base64url_bytes c"] base64url_plain
    by simp
  moreover have "tag \<noteq> []" using ok by auto
  moreover have "c = [] \<longleftrightarrow> secret = []" using ok utf8_Nil [of secret] by (metis length_0_conv)
  ultimately show ?thesis
    using ok assms(2,3) by (simp add: encryptSecret_def decryptSecret_def seal base64url_Nil from_base64url_bytes)
qed

section \<open>Witnesses\<close>

definition toy_keys :: ed25519 where
  "toy_keys = \<lparr>ed_private = (\<lambda>_. Inr (\<lambda>m. replicate 64 (sum_list m mod 256))),
     ed_public = (\<lambda>_. Inr (\<lambda>m x. x = replicate 64 (sum_list m mod 256))), ed_generate = (''a'', ''b'')\<rparr>"

definition toy_options :: signer_options where
  "toy_options = \<lparr>so_privateKeyPem = None, so_publicKeyPem = None, so_verificationMethod = None,
     so_requireConfiguredKeys = False\<rparr>"

definition sample_payload :: jval where
  "sample_payload = JObj [(''id'', JStr ''1''), (''grade'', JStr ''A''), (''note'', JUndef)]"

lemma toy_keys_ok: "ed25519_ok toy_keys"
  by (auto simp: ed25519_ok_def toy_keys_def list_all_iff)

lemma signed_verifies_sample:
  "\<exists>sg signed. newSigner toy_keys toy_options = Inr sg \<and> signPayload 0 sg sample_payload = Inr signed \<and>
     verifyPayload sg (JObj [(''grade'', JStr ''A''), (''id'', JStr ''1'')]) (sp_signature signed) = Inr True"
proof -
  obtain sg where sg: "newSigner toy_keys toy_options = Inr sg"
    by (simp add: newSigner_def resolveKeyMaterial_def toy_options_def toy_keys_def truthy_text_def assertKeyPairMatches_def)
  obtain signed where signed: "signPayload 0 sg sample_payload = Inr signed"
    by (simp add: signPayload_def encodedPayload_def sample_payload_def canonicalJson_obj Let_def)
  have "same_json (JObj [(''id'', JStr ''1''), (''grade'', JStr ''A'')]) (JObj [(''grade'', JStr ''A''), (''id'', JStr ''1'')])"
    by (rule same_json.obj [of _ "[(''id'', JStr ''1''), (''grade'', JStr ''A'')]"]) (simp_all add: same_json.same)
  then have "same_json (toJson sample_payload) (JObj [(''grade'', JStr ''A''), (''id'', JStr ''1'')])"
    by (simp add: sample_payload_def toJson.simps)
  from signed_verifies [OF sg toy_keys_ok signed this] sg signed show ?thesis by blast
qed

definition one_signature :: "jval \<Rightarrow> signer" where
  "one_signature p = \<lparr>sg_private = (\<lambda>_. [1]),
     sg_public = (\<lambda>m x. \<exists>encoded. encodedPayload p = Inr encoded \<and>
       m = utf8 (base64url (getOr (JSON_stringify (JObj [(''alg'', JStr ''EdDSA''), (''b64'', JBool True),
         (''crit'', JArr [JStr ''b64'']), (''kid'', JStr ''k''), (''typ'', JStr ''vc+ld+jws'')])) []) @ ''.'' @ encoded)),
     sg_verificationMethod = ''k'', sg_keySource = CONFIGURED\<rparr>"

lemma one_signature_accepts:
  "verifyPayload (one_signature sample_payload) sample_payload
     (base64url (jwsHeader (one_signature sample_payload)) @ ''.'' @ base64url (the (canonicalJson sample_payload)) @ ''.'' @
      base64url_bytes [1]) = Inr True"
proof -
  obtain json where json: "canonicalJson sample_payload = Some json" by (simp add: sample_payload_def canonicalJson_obj)
  then have "json \<noteq> []" using stringify_not_Nil unfolding canonicalJson_def by auto
  moreover have "jwsHeader (one_signature sample_payload) \<noteq> []" by (simp add: jwsHeader_def)
  ultimately show ?thesis
    using json jws_parts [of "jwsHeader (one_signature sample_payload)" json "[1]"]
    by (simp add: verifyPayload_def encodedPayload_def base64url_Nil utf8_Nil base64url_def)
      (simp add: one_signature_def encodedPayload_def jwsHeader_def base64url_def)
qed

theorem verified_credential_was_signed_witness:
  "\<exists>p \<in> set [sample_payload]. canonicalJson sample_payload = canonicalJson p"
proof (rule verified_credential_was_signed [OF one_signature_accepts])
  fix m x
  assume "sg_public (one_signature sample_payload) m x"
  then show "\<exists>p \<in> set [sample_payload]. \<exists>encoded. encodedPayload p = Inr encoded \<and>
      m = utf8 (base64url (jwsHeader (one_signature sample_payload)) @ ''.'' @ encoded)"
    by (simp add: one_signature_def jwsHeader_def)
qed

definition toy_gcm :: aes_gcm where
  "toy_gcm = \<lparr>gcm_seal = (\<lambda>key iv p. (map (\<lambda>b. b mod 256) p, replicate 16 0)),
     gcm_unseal = (\<lambda>key iv tag c. Inr c), gcm_digest = utf8\<rparr>"

lemma toy_gcm_ok: "aes_gcm_ok toy_gcm"
proof -
  have "map (\<lambda>b. b mod 256) p = p" if "list_all (\<lambda>b. b < 256) p" for p :: bytes
    using that by (induction p) simp_all
  then show ?thesis by (auto simp: aes_gcm_ok_def toy_gcm_def list_all_iff)
qed

theorem sealed_secret_opens_witness:
  "decryptSecret toy_gcm ''webhook'' [7] (encryptSecret toy_gcm [7] [1, 2, 3] ''whsec_abc'') = Inr ''whsec_abc''"
  using sealed_secret_opens [OF toy_gcm_ok, of "[1, 2, 3]" "''webhook''" "[7]" "''whsec_abc''"] by simp

end
