(* ===== verification/Token.thy ===== *)
theory Token
  imports JsonParse Crypto RateLimit
begin

text \<open>
  \<open>auth/token.service.ts\<close>: bearer tokens are JSON Web Tokens under HMAC-SHA-256. The digest is a parameter,
  \<open>hmac key message\<close>. \<open>auth/guards\<close>: a request passes the authentication guard when its token verifies,
  the role guard when the role of the token is among the required ones, and the scope guard when the
  token grants every required scope. Equal byte buffers are equal texts, so \<open>timingSafeEqual\<close> is equality.
\<close>

section \<open>Signing\<close>

type_synonym hmac = "string \<Rightarrow> string \<Rightarrow> bytes"
type_synonym payload = "(string \<times> jval) list"

definition defaultTokenTtlSeconds :: int where
  "defaultTokenTtlSeconds = 60 * 60 * 8"

definition productionApiTokenTtlSeconds :: int where
  "productionApiTokenTtlSeconds = 60 * 60"

definition sandboxApiTokenTtlSeconds :: int where
  "sandboxApiTokenTtlSeconds = 60 * 60 * 24"

text \<open>\<open>JWT_SECRET\<close>\<close>

definition jwtSecret :: "string option \<Rightarrow> string" where
  "jwtSecret configured =
     (if \<not> truthy_text configured \<or> configured = Some ''replace-with-local-development-secret''
      then ''local-development-secret-change-before-pilot'' else getOr configured [])"

definition encodePart :: "jval \<Rightarrow> string" where
  "encodePart v = base64url (getOr (JSON_stringify v) [])"

definition tokenSignature :: "hmac \<Rightarrow> string \<Rightarrow> string \<Rightarrow> string" where
  "tokenSignature hmac key content = base64url_bytes (hmac key content)"

definition tokenPayload :: "int \<Rightarrow> payload \<Rightarrow> int \<Rightarrow> payload" where
  "tokenPayload t payload ttlSeconds =
     (let issued = t div 1000
      in set_prop ''exp'' (jint (issued + ttlSeconds)) (set_prop ''iat'' (jint issued) payload))"

definition signToken :: "hmac \<Rightarrow> string \<Rightarrow> int \<Rightarrow> payload \<Rightarrow> int \<Rightarrow> string" where
  "signToken hmac key t payload ttlSeconds =
     (let header = encodePart (JObj [(''alg'', JStr ''HS256''), (''typ'', JStr ''JWT'')]);
          body = encodePart (JObj (tokenPayload t payload ttlSeconds))
      in header @ ''.'' @ body @ ''.'' @ tokenSignature hmac key (header @ ''.'' @ body))"

definition signApiClient :: "hmac \<Rightarrow> string \<Rightarrow> int \<Rightarrow> payload \<Rightarrow> string" where
  "signApiClient hmac key t payload =
     signToken hmac key t payload
       (if getProp payload ''environment'' = JStr ''PRODUCTION'' then productionApiTokenTtlSeconds
        else sandboxApiTokenTtlSeconds)"

section \<open>Verification\<close>

text \<open>\<open>payload.exp < now\<close>: the operand as a number; an object or an array counts as not a number.\<close>

definition less_than :: "jval \<Rightarrow> int \<Rightarrow> bool" where
  "less_than v n =
     (case (case v of JNum x \<Rightarrow> x | JStr s \<Rightarrow> Number_of s | JBool b \<Rightarrow> Fin (if b then 1 else 0) | JNull \<Rightarrow> Fin 0 | _ \<Rightarrow> NaN) of
        Fin r \<Rightarrow> r < of_int n | NegInf \<Rightarrow> True | _ \<Rightarrow> False)"

definition verifyToken :: "hmac \<Rightarrow> string \<Rightarrow> int \<Rightarrow> string \<Rightarrow> payload res" where
  "verifyToken hmac key t token =
     (case split_on (CHR ''.'') token of
        header # body # signature # _ \<Rightarrow>
          bindE (failIf (header = [] \<or> body = [] \<or> signature = []) (Unauthorized ''Invalid bearer token.'')) (\<lambda>_.
          bindE (failIf (signature \<noteq> tokenSignature hmac key (header @ ''.'' @ body))
            (Unauthorized ''Invalid bearer token.'')) (\<lambda>_.
          bindE (require (JSON_parse (of_utf8 (from_base64url body))) (Unauthorized ''Invalid bearer token.'')) (\<lambda>v.
          bindE (failIf (v = JNull) (Failure ''Cannot read properties of null (reading 'sub')'')) (\<lambda>_.
          let payload = asRecord v in
          bindE (failIf (\<not> (list_all (\<lambda>k. truthy (getProp payload k)) [''sub'', ''email'', ''role'', ''exp'']))
            (Unauthorized ''Invalid bearer token.'')) (\<lambda>_.
          bindE (failIf (less_than (getProp payload ''exp'') (t div 1000)) (Unauthorized ''Bearer token expired.'')) (\<lambda>_.
          Inr payload))))))
      | _ \<Rightarrow> Inl (Unauthorized ''Invalid bearer token.''))"

section \<open>Guards\<close>

definition bearerToken :: "header option \<Rightarrow> string" where
  "bearerToken h =
     (let authorization = (case h of None \<Rightarrow> None | Some (One s) \<Rightarrow> Some s | Some (Many ss) \<Rightarrow> (case ss of [] \<Rightarrow> None | s # _ \<Rightarrow> Some s))
      in case authorization of None \<Rightarrow> []
         | Some s \<Rightarrow> (if startsWith s ''Bearer '' then drop (length ''Bearer '') s else []))"

definition rolesGuard :: "string list \<Rightarrow> payload \<Rightarrow> bool" where
  "rolesGuard requiredRoles auth \<longleftrightarrow> requiredRoles = [] \<or> getProp auth ''role'' \<in> JStr ` set requiredRoles"

text \<open>\<open>new Set(value ?? [])\<close> of a list of texts.\<close>

definition text_list :: "jval \<Rightarrow> string list" where
  "text_list v = (case v of JArr xs \<Rightarrow> List.map_filter (\<lambda>x. case x of JStr s \<Rightarrow> Some s | _ \<Rightarrow> None) xs | _ \<Rightarrow> [])"

definition scopesGuard :: "string list \<Rightarrow> payload \<Rightarrow> bool res" where
  "scopesGuard requiredScopes auth =
     (if requiredScopes = [] \<or> getProp auth ''role'' = JStr ''ACADID_SUPER_ADMIN'' then Inr True
      else
        let granted = text_list (getProp auth (if getProp auth ''kind'' = JStr ''API_KEY'' then ''scopes'' else ''permissions''))
        in if list_all (\<lambda>scope. scope \<in> set granted \<or> ''*'' \<in> set granted) requiredScopes then Inr True
           else Inl (Forbidden ''Authenticated actor scope does not allow this operation.''))"

section \<open>The caller of a request\<close>

definition text_prop :: "payload \<Rightarrow> string \<Rightarrow> string option" where
  "text_prop ob k = (case getProp ob k of JStr s \<Rightarrow> Some s | _ \<Rightarrow> None)"

definition role_of :: "string \<Rightarrow> user_role option" where
  "role_of s = List.find (\<lambda>r. role_text r = s) [ACADID_SUPER_ADMIN, REGISTRAR, EXAM_OFFICER, DATA_ENTRY_OFFICER,
     DEPARTMENTAL_OFFICER, READ_ONLY, STUDENT, GUARDIAN, VERIFIER]"

text \<open>\<open>as AuthTokenPayload\<close>: what the services read of a verified token.\<close>

definition auth_of :: "payload \<Rightarrow> auth_token option" where
  "auth_of ob =
     (case (text_prop ob ''sub'', case text_prop ob ''role'' of None \<Rightarrow> None | Some r \<Rightarrow> role_of r) of
        (Some sub, Some role) \<Rightarrow>
          Some \<lparr>au_sub = sub, au_role = role,
            au_kind = (if getProp ob ''kind'' = JStr ''API_KEY'' then Some API_KEY
                       else if getProp ob ''kind'' = JStr ''USER'' then Some USER else None),
            au_institutionUuid = text_prop ob ''institutionUuid'',
            au_institutionUserId = text_prop ob ''institutionUserId'',
            au_assignedScopes = getProp ob ''assignedScopes'', au_apiKeyId = text_prop ob ''apiKeyId'',
            au_clientId = text_prop ob ''clientId'',
            au_ownerIsProduct = (getProp ob ''apiKeyOwnerType'' = JStr ''PRODUCT''),
            au_productCode = text_prop ob ''productCode'', au_institutionId = text_prop ob ''institutionId'',
            au_rateLimitPerMinute = (case getProp ob ''rateLimitPerMinute'' of JNum (Fin r) \<Rightarrow> Some \<lfloor>r\<rfloor> | _ \<Rightarrow> None),
            au_email = getOr (text_prop ob ''email'') [], au_fullName = getOr (text_prop ob ''fullName'') [],
            au_learnerId = text_prop ob ''learnerId'', au_permissions = text_list (getProp ob ''permissions'')\<rparr>
      | _ \<Rightarrow> None)"

definition authGuard ::
    "hmac \<Rightarrow> string \<Rightarrow> env \<Rightarrow> db \<times> policy_cache \<Rightarrow> header option \<Rightarrow> payload res \<times> db \<times> policy_cache" where
  "authGuard hmac key e st authorization =
     (case verifyToken hmac key (now e) (bearerToken authorization) of
        Inl err \<Rightarrow> (Inl err, st)
      | Inr payload \<Rightarrow>
          (case auth_of payload of
             None \<Rightarrow> (Inr payload, st)
           | Some auth \<Rightarrow>
               (let (r, st') = assertApiKeyAllowed e st auth in (bindE r (\<lambda>_. Inr payload), st'))))"

section \<open>A signed token comes back\<close>

lemma keys_set_prop: "fst ` set (set_prop k v ob) = insert k (fst ` set ob)"
  by (induction k v ob rule: set_prop.induct) (simp_all add: insert_commute)

lemma distinct_set_prop: "distinct (map fst ob) \<Longrightarrow> distinct (map fst (set_prop k v ob))"
  by (induction k v ob rule: set_prop.induct) (simp_all add: keys_set_prop)

lemma wire_set_prop: "wire (JObj ob) \<Longrightarrow> wire v \<Longrightarrow> wire (JObj (set_prop k v ob))"
proof -
  assume ob: "wire (JObj ob)" and v: "wire v"
  have "list_all (\<lambda>p. wire (snd p)) (set_prop k v ob)" using ob v by (induction ob) auto
  with ob show ?thesis using distinct_set_prop [of ob k v] by simp
qed

lemma whole_int: "\<bar>i\<bar> < 10 ^ 21 \<Longrightarrow> wire (jint i)"
proof -
  assume "\<bar>i\<bar> < 10 ^ 21"
  then have "(of_int \<bar>i\<bar> :: rat) < of_int (10 ^ 21)" by (simp only: of_int_less_iff)
  then show ?thesis by (simp add: jint_def whole_def)
qed

lemma getProp_map_of: "getProp ob k = getOr (map_of ob k) JUndef"
  by (simp add: getProp_def split: option.splits)

lemma getProp_toJson:
  assumes "distinct (map fst ob)"
  shows "getProp (asRecord (toJson (JObj ob))) k = toJson (getProp ob k)"
  using assms
proof (induction ob)
  case Nil
  then show ?case by (simp add: getProp_def asRecord_def toJson.simps)
next
  case (Cons p ob)
  obtain k' v where p: "p = (k', v)" by (cases p)
  have "map_of (filter (\<lambda>(k, v). v \<noteq> JUndef) (map (\<lambda>(k, v). (k, toJson v)) ob)) k' = None"
    using Cons.prems p by (force simp: map_of_eq_None_iff)
  with Cons p show ?case
    by (auto simp: getProp_map_of asRecord_def toJson.simps toJson_undef)
qed

lemma tokenPayload_props:
  "getProp (tokenPayload t payload ttl) k =
     (if k = ''exp'' then jint (t div 1000 + ttl) else if k = ''iat'' then jint (t div 1000) else getProp payload k)"
  by (simp add: tokenPayload_def getProp_map_of Let_def)

lemma truthy_toJson: "truthy (toJson v) \<Longrightarrow> truthy v" and toJson_truthy: "truthy v \<Longrightarrow> v \<notin> {JNum PosInf, JNum NegInf} \<Longrightarrow> truthy (toJson v)"
  by (cases v; auto simp: truthy_def toJson.simps split: jsnum.splits)+

lemma signed_token_verifies:
  assumes "wire (JObj payload)" and "0 \<le> t" and "t < 10 ^ 20" and "0 < ttl" and "ttl < 10 ^ 20"
    and "list_all (\<lambda>k. \<exists>s. getProp payload k = JStr s \<and> s \<noteq> []) [''sub'', ''email'', ''role'']"
    and "\<And>m. hmac key m \<noteq> []"
  shows "\<exists>verified. verifyToken hmac key t' (signToken hmac key t payload ttl) =
      (if t div 1000 + ttl < t' div 1000 then Inl (Unauthorized ''Bearer token expired.'') else Inr verified) \<and>
    (\<forall>k. getProp verified k = toJson (getProp (tokenPayload t payload ttl) k))"
proof -
  let ?p = "tokenPayload t payload ttl" and ?h = "JObj [(''alg'', JStr ''HS256''), (''typ'', JStr ''JWT'')]"
  have small: "\<bar>t div 1000\<bar> < 10 ^ 21" "\<bar>t div 1000 + ttl\<bar> < 10 ^ 21" using assms(2-5) by auto
  have wire: "wire (JObj ?p)" unfolding tokenPayload_def Let_def
    by (intro wire_set_prop whole_int assms(1) small)
  obtain json where json: "JSON_stringify (JObj ?p) = Some json" "JSON_parse json = Some (toJson (JObj ?p))"
    using json_roundtrip [OF wire] by auto
  obtain h where h: "JSON_stringify ?h = Some h" "h \<noteq> []" by simp
  let ?v = "asRecord (toJson (JObj ?p))"
  have distinct: "distinct (map fst ?p)" using wire by simp
  note props = getProp_toJson [OF distinct]
  have shape: "toJson (JObj ?p) = JObj ?v" "toJson (JObj ?p) \<noteq> JNull" by (simp_all add: toJson.simps asRecord_def)
  have truthy: "list_all (\<lambda>k. truthy (getProp ?v k)) [''sub'', ''email'', ''role'', ''exp'']"
    using assms(2,4,6) unfolding props tokenPayload_props by (auto simp: truthy_def jint_def toJson.simps)
  have exp: "less_than (getProp ?v ''exp'') (t' div 1000) \<longleftrightarrow> t div 1000 + ttl < t' div 1000"
    unfolding props tokenPayload_props
    by (simp add: less_than_def jint_def toJson.simps of_int_add [symmetric] del: of_int_add)
  have "json \<noteq> []" using json(1) stringify_not_Nil by auto
  moreover have "split_on (CHR ''.'') (signToken hmac key t payload ttl) =
      [base64url h, base64url json, tokenSignature hmac key (base64url h @ ''.'' @ base64url json)]"
    unfolding signToken_def Let_def encodePart_def json(1) h(1) getOr_simps tokenSignature_def
    using split_three [of "CHR ''.''" "base64url h" "base64url json"
        "base64url_bytes (hmac key (base64url h @ ''.'' @ base64url json))"]
    by (simp add: base64url_plain base64url_def)
  ultimately have "verifyToken hmac key t' (signToken hmac key t payload ttl) =
      (if t div 1000 + ttl < t' div 1000 then Inl (Unauthorized ''Bearer token expired.'') else Inr ?v)"
    using h(2) assms(7) truthy exp shape json(2)
    by (simp add: verifyToken_def base64url_def base64url_Nil utf8_Nil tokenSignature_def from_base64url [unfolded base64url_def]
        failIf_def asRecord_def)
  then show ?thesis using props by blast
qed

text \<open>C39. A token verifies under the key that signed it, until it expires, and carries the properties that were
  signed; afterwards it is refused as expired.\<close>

theorem token_roundtrip:
  assumes "wire (JObj payload)" and "0 \<le> t" and "t < 10 ^ 20" and "0 < ttl" and "ttl < 10 ^ 20"
    and "list_all (\<lambda>k. \<exists>s. getProp payload k = JStr s \<and> s \<noteq> []) [''sub'', ''email'', ''role'']"
    and "\<And>m. hmac key m \<noteq> []"
  shows "\<exists>verified. verifyToken hmac key t' (signToken hmac key t payload ttl) =
      (if t div 1000 + ttl < t' div 1000 then Inl (Unauthorized ''Bearer token expired.'') else Inr verified) \<and>
    (\<forall>k. getProp verified k = toJson (getProp (tokenPayload t payload ttl) k))"
  using assms by (rule signed_token_verifies)

theorem token_roundtrip_witness:
  "\<exists>verified. verifyToken (\<lambda>k m. [1, 2]) ''key'' 5000000 (signToken (\<lambda>k m. [1, 2]) ''key'' 4000000
       [(''sub'', JStr ''u1''), (''email'', JStr ''a@b''), (''role'', JStr ''REGISTRAR'')] 3600) = Inr verified \<and>
     getProp verified ''role'' = JStr ''REGISTRAR''"
proof -
  let ?p = "[(''sub'', JStr ''u1''), (''email'', JStr ''a@b''), (''role'', JStr ''REGISTRAR'')]"
  have "\<exists>verified. verifyToken (\<lambda>k m. [1, 2]) ''key'' 5000000 (signToken (\<lambda>k m. [1, 2]) ''key'' 4000000 ?p 3600) =
      (if 4000000 div 1000 + 3600 < 5000000 div (1000 :: int) then Inl (Unauthorized ''Bearer token expired.'') else Inr verified) \<and>
    (\<forall>k. getProp verified k = toJson (getProp (tokenPayload 4000000 ?p 3600) k))"
    by (rule token_roundtrip) (simp_all add: getProp_def)
  then obtain verified where
    "verifyToken (\<lambda>k m. [1, 2]) ''key'' 5000000 (signToken (\<lambda>k m. [1, 2]) ''key'' 4000000 ?p 3600) = Inr verified"
    and role: "getProp verified ''role'' = toJson (getProp (tokenPayload 4000000 ?p 3600) ''role'')" by auto
  moreover have "getProp verified ''role'' = JStr ''REGISTRAR''"
    unfolding role tokenPayload_props by (simp add: getProp_def toJson.simps)
  ultimately show ?thesis by blast
qed

end
