(* ===== verification/Totp.thy ===== *)
theory Totp
  imports Crypto "HOL-Library.Word"
begin

text \<open>
  \<open>auth/totp.service.ts\<close>: time-based one-time passwords. A secret is the Base32 text of random bytes; a code is
  six digits cut from an HMAC-SHA-1 of the 30 second step, and a code of the step before or after counts as
  well. The digest is a parameter, \<open>hmac key message\<close>; a string of binary digits is a list of booleans.
\<close>

unbundle bit_operations_syntax

section \<open>Base32\<close>

definition alphabet :: string where
  "alphabet = ''ABCDEFGHIJKLMNOPQRSTUVWXYZ234567''"

text \<open>\<open>n.toString(2).padStart(w, "0")\<close> and \<open>Number.parseInt(bits, 2)\<close>\<close>

fun binary :: "nat \<Rightarrow> nat \<Rightarrow> bool list" where
  "binary 0 n = []"
| "binary (Suc w) n = binary w (n div 2) @ [odd n]"

definition of_bits :: "bool list \<Rightarrow> nat" where
  "of_bits = foldl (\<lambda>n b. 2 * n + of_bool b) 0"

definition padEnd :: "nat \<Rightarrow> bool list \<Rightarrow> bool list" where
  "padEnd n bs = bs @ replicate (n - length bs) False"

text \<open>The slices of a text from its start; in \<open>whole_slices\<close> only those of full length.\<close>

function slices :: "nat \<Rightarrow> 'a list \<Rightarrow> 'a list list" where
  "slices n xs = (if xs = [] \<or> n = 0 then [] else take n xs # slices n (drop n xs))"
  by pat_completeness auto
termination by (relation "measure (\<lambda>(n, xs). length xs)") auto

function whole_slices :: "nat \<Rightarrow> 'a list \<Rightarrow> 'a list list" where
  "whole_slices n xs = (if length xs < n \<or> n = 0 then [] else take n xs # whole_slices n (drop n xs))"
  by pat_completeness auto
termination by (relation "measure (\<lambda>(n, xs). length xs)") auto

declare slices.simps [simp del] whole_slices.simps [simp del]

text \<open>\<open>createSecret\<close>, of the bytes that \<open>randomBytes(20)\<close> gives\<close>

definition createSecret :: "bytes \<Rightarrow> string" where
  "createSecret random =
     map (\<lambda>chunk. alphabet ! of_bits (padEnd 5 chunk)) (slices 5 (concat (map (binary 8) random)))"

definition indexOf :: "char \<Rightarrow> string \<Rightarrow> nat option" where
  "indexOf c s = (if c \<in> set s then Some (length (takeWhile (\<lambda>x. x \<noteq> c) s)) else None)"

definition strip_padding :: "string \<Rightarrow> string" where
  "strip_padding s = rev (dropWhile (\<lambda>c. c = CHR ''='') (rev s))"

fun base32_bits :: "string \<Rightarrow> bool list res" where
  "base32_bits [] = Inr []"
| "base32_bits (c # cs) =
     bindE (require (indexOf c alphabet) (Failure ''Invalid base32 secret.'')) (\<lambda>v.
     bindE (base32_bits cs) (\<lambda>bits. Inr (binary 5 v @ bits)))"

definition decodeBase32 :: "string \<Rightarrow> bytes res" where
  "decodeBase32 secret =
     bindE (base32_bits (strip_padding (toUpperCase secret))) (\<lambda>bits. Inr (map of_bits (whole_slices 8 bits)))"

section \<open>Codes\<close>

definition byte_at :: "bytes \<Rightarrow> nat \<Rightarrow> 32 word" where
  "byte_at bs i = (if i < length bs then of_nat (bs ! i) else 0)"

text \<open>\<open>writeBigUInt64BE\<close>\<close>

definition counterBuffer :: "int \<Rightarrow> bytes res" where
  "counterBuffer counter =
     (if counter < 0 \<or> 2 ^ 64 \<le> counter then Inl (Failure ''The value of \"value\" is out of range.'')
      else Inr (map of_bits (whole_slices 8 (binary 64 (nat counter)))))"

definition truncated :: "bytes \<Rightarrow> 32 word" where
  "truncated digest =
     (let offset = unat (byte_at digest (length digest - 1) AND 0x0f)
      in push_bit 24 (byte_at digest offset AND 0x7f) OR
         push_bit 16 (byte_at digest (offset + 1) AND 0xff) OR
         push_bit 8 (byte_at digest (offset + 2) AND 0xff) OR
         (byte_at digest (offset + 3) AND 0xff))"

text \<open>The operators of JavaScript give a signed number of 32 bits, and \<open>%\<close> truncates.\<close>

definition code_text :: "bytes \<Rightarrow> string" where
  "code_text digest =
     (let binary = sint (truncated digest)
      in padStart 6 (show_int (sgn binary * (\<bar>binary\<bar> mod 1000000))))"

definition generateCode :: "(bytes \<Rightarrow> bytes \<Rightarrow> bytes) \<Rightarrow> string \<Rightarrow> int \<Rightarrow> string res" where
  "generateCode hmac secret counter =
     bindE (decodeBase32 secret) (\<lambda>key.
     bindE (counterBuffer counter) (\<lambda>buffer. Inr (code_text (hmac key buffer))))"

text \<open>\<open>Array.prototype.some\<close>, of a test that may throw\<close>

fun someE :: "('a \<Rightarrow> bool res) \<Rightarrow> 'a list \<Rightarrow> bool res" where
  "someE f [] = Inr False"
| "someE f (x # xs) = bindE (f x) (\<lambda>b. if b then Inr True else someE f xs)"

definition normalizedCode :: "string \<Rightarrow> string" where
  "normalizedCode code = filter (\<lambda>c. \<not> is_space c) code"

definition verifyCode :: "(bytes \<Rightarrow> bytes \<Rightarrow> bytes) \<Rightarrow> int \<Rightarrow> string \<Rightarrow> string \<Rightarrow> bool res" where
  "verifyCode hmac t secret code =
     (let normalized = normalizedCode code; step = t div 30000
      in if \<not> matches (replicate 6 is_digit) normalized then Inr False
         else someE (\<lambda>offset. bindE (generateCode hmac secret (step + offset)) (\<lambda>expected. Inr (expected = normalized)))
           [- 1, 0, 1])"

section \<open>The secret for an authenticator\<close>

definition uri_byte :: "nat \<Rightarrow> string" where
  "uri_byte n =
     (let c = char_of n in
      if is_alpha c \<or> is_digit c \<or> c \<in> set ''-_.!~*()'' \<or> n = 39 then [c]
      else [CHR ''%'', hex_digit (n div 16), hex_digit (n mod 16)])"

definition encodeURIComponent :: "string \<Rightarrow> string" where
  "encodeURIComponent s = concat (map uri_byte (utf8 s))"

definition createOtpAuthUrl :: "string \<Rightarrow> string \<Rightarrow> string option \<Rightarrow> string" where
  "createOtpAuthUrl secret accountName issuer =
     (let issuer = getOr issuer ''AcadID''
      in ''otpauth://totp/'' @ encodeURIComponent (issuer @ '':'' @ accountName) @ ''?'' @
         urlSearchParams [(''secret'', secret), (''issuer'', issuer), (''algorithm'', ''SHA1''), (''digits'', ''6''),
           (''period'', ''30'')])"

definition totpEncryptSecret :: "aes_gcm \<Rightarrow> bytes \<Rightarrow> bytes \<Rightarrow> string \<Rightarrow> string" where
  "totpEncryptSecret gcm key iv secret = encryptSecret gcm key iv secret"

definition totpDecryptSecret :: "aes_gcm \<Rightarrow> bytes \<Rightarrow> string \<Rightarrow> string res" where
  "totpDecryptSecret gcm key encoded = decryptSecret gcm ''TOTP'' key encoded"

section \<open>Bits\<close>

lemma length_binary [simp]: "length (binary w n) = w"
  by (induction w n rule: binary.induct) simp_all

lemma of_bits_Nil [simp]: "of_bits [] = 0"
  by (simp add: of_bits_def)

lemma of_bits_snoc [simp]: "of_bits (bs @ [b]) = 2 * of_bits bs + of_bool b"
  by (simp add: of_bits_def)

lemma of_bits_binary: "n < 2 ^ w \<Longrightarrow> of_bits (binary w n) = n"
proof (induction w n rule: binary.induct)
  case (2 w n)
  then have "n div 2 < 2 ^ w" by auto
  with 2 show ?case by simp
qed simp

lemma binary_of_bits: "binary (length bs) (of_bits bs) = bs"
  by (induction bs rule: rev_induct) simp_all

lemma of_bits_less: "of_bits bs < 2 ^ length bs"
  by (induction bs rule: rev_induct) auto

lemma slices_Nil [simp]: "slices n [] = []"
  by (simp add: slices.simps)

lemma whole_slices_append:
  "length x = n \<Longrightarrow> n > 0 \<Longrightarrow> whole_slices n (x @ xs) = x # whole_slices n xs"
  by (subst whole_slices.simps) simp

lemma whole_slices_short: "length xs < n \<Longrightarrow> whole_slices n xs = []"
  by (subst whole_slices.simps) simp

lemma whole_slices_concat:
  "(\<And>x. x \<in> set xss \<Longrightarrow> length x = n) \<Longrightarrow> n > 0 \<Longrightarrow> length rest < n \<Longrightarrow> whole_slices n (concat xss @ rest) = xss"
  by (induction xss) (simp_all add: whole_slices_short whole_slices_append)

lemma padded_slices:
  assumes "n > 0"
  shows "\<exists>k < n. concat (map (padEnd n) (slices n bs)) = bs @ replicate k False"
  using assms
proof (induction n bs rule: slices.induct)
  case (1 n xs)
  show ?case
  proof (cases "length xs \<le> n")
    case True
    then show ?thesis
    proof (cases "xs = []")
      case True
      then show ?thesis using 1 by auto
    next
      case False
      with True 1(2) have "slices n xs = [xs]" by (subst slices.simps) simp
      moreover have "n - length xs < n" using False 1(2) by (cases xs) auto
      ultimately show ?thesis by (auto simp: padEnd_def)
    qed
  next
    case False
    then obtain k where k: "k < n" "concat (map (padEnd n) (slices n (drop n xs))) = drop n xs @ replicate k False"
      using 1(1) [OF _ 1(2)] 1(2) by (cases "xs = []") auto
    have "concat (map (padEnd n) (slices n xs)) = take n xs @ concat (map (padEnd n) (slices n (drop n xs)))"
      using False 1(2) by (subst slices.simps) (auto simp: padEnd_def)
    with k have "concat (map (padEnd n) (slices n xs)) = xs @ replicate k False" by simp
    with k(1) show ?thesis by blast
  qed
qed

lemma length_padded_slices: "n > 0 \<Longrightarrow> x \<in> set (slices n bs) \<Longrightarrow> length (padEnd n x) = n"
  by (induction n bs rule: slices.induct) (subst (asm) (2) slices.simps, auto simp: padEnd_def split: if_splits)

section \<open>The Base32 text of a secret\<close>

lemma length_alphabet: "length alphabet = 32"
  by (simp add: alphabet_def)

lemma distinct_alphabet: "distinct alphabet"
  by (simp add: alphabet_def)

lemma alphabet_plain: "c \<in> set alphabet \<Longrightarrow> upper_char c = c \<and> c \<noteq> CHR ''=''"
  unfolding alphabet_def by (auto simp: upper_char_def)

lemma indexOf_nth: "distinct s \<Longrightarrow> i < length s \<Longrightarrow> indexOf (s ! i) s = Some i"
proof -
  assume s: "distinct s" "i < length s"
  then have "takeWhile (\<lambda>x. x \<noteq> s ! i) s = take i s"
    by (intro takeWhile_eq_take_P_nth) (auto simp: nth_eq_iff_index_eq)
  with s show ?thesis by (simp add: indexOf_def)
qed

lemma strip_padding_plain: "CHR ''='' \<notin> set s \<Longrightarrow> strip_padding s = s"
proof -
  assume "CHR ''='' \<notin> set s"
  then have "dropWhile (\<lambda>c. c = CHR ''='') (rev s) = rev s" by (cases "rev s") auto
  then show ?thesis by (simp add: strip_padding_def)
qed

lemma base32_bits_digits:
  "(\<And>g. g \<in> set gs \<Longrightarrow> length g = 5) \<Longrightarrow> base32_bits (map (\<lambda>g. alphabet ! of_bits g) gs) = Inr (concat gs)"
proof (induction gs)
  case (Cons g gs)
  then have g: "length g = 5" and "of_bits g < 32" using of_bits_less [of g] by auto
  then have "indexOf (alphabet ! of_bits g) alphabet = Some (of_bits g)"
    by (intro indexOf_nth distinct_alphabet) (simp add: length_alphabet)
  with Cons g binary_of_bits [of g] show ?case by simp
qed simp

text \<open>Decoding gives back the bytes that a secret was made of, whatever their number.\<close>

theorem secret_roundtrip:
  assumes "list_all (\<lambda>b. b < 256) random"
  shows "decodeBase32 (createSecret random) = Inr random"
proof -
  let ?bits = "concat (map (binary 8) random)" and ?gs = "map (padEnd 5) (slices 5 (concat (map (binary 8) random)))"
  have len: "length g = 5" if "g \<in> set ?gs" for g using that length_padded_slices [of 5] by auto
  have secret: "createSecret random = map (\<lambda>g. alphabet ! of_bits g) ?gs" by (simp add: createSecret_def)
  have chars: "c \<in> set alphabet" if c: "c \<in> set (createSecret random)" for c
  proof -
    obtain g where g: "g \<in> set ?gs" "c = alphabet ! of_bits g" using c secret by auto
    have "of_bits g < 32" using of_bits_less [of g] len [OF g(1)] by simp
    with g show ?thesis using length_alphabet by simp
  qed
  have "toUpperCase (createSecret random) = createSecret random"
    using chars alphabet_plain unfolding toUpperCase_def by (intro map_idI) blast
  moreover have "CHR ''='' \<notin> set (createSecret random)" using chars alphabet_plain by blast
  ultimately have clean: "strip_padding (toUpperCase (createSecret random)) = createSecret random"
    by (simp add: strip_padding_plain)
  obtain k where k: "k < 5" "concat ?gs = ?bits @ replicate k False" using padded_slices [of 5 ?bits] by auto
  have "whole_slices 8 (?bits @ replicate k False) = map (binary 8) random"
    using k(1) by (intro whole_slices_concat) auto
  moreover have "base32_bits (createSecret random) = Inr (concat ?gs)"
    unfolding secret by (rule base32_bits_digits) (rule len)
  moreover have "map (\<lambda>b. of_bits (binary 8 b)) random = random"
    using assms by (intro map_idI) (simp add: of_bits_binary list_all_iff)
  ultimately show ?thesis by (simp add: decodeBase32_def clean k(2) comp_def)
qed

theorem secret_roundtrip_witness:
  "decodeBase32 (createSecret [72, 101, 108, 108, 111, 255, 0]) = Inr [72, 101, 108, 108, 111, 255, 0]"
  by (rule secret_roundtrip) simp

section \<open>The codes that verify\<close>

lemma truncated_nonneg: "0 \<le> sint (truncated digest)"
proof -
  have "\<not> bit (truncated digest) 31"
    by (simp add: truncated_def Let_def bit_simps)
  then show ?thesis using bit_last_iff [of "truncated digest"] by simp
qed

lemma digits_digit: "list_all is_digit (digits n)"
proof (induction n rule: digits.induct)
  case (1 n)
  have d: "is_digit (char_of (48 + k :: nat))" if "k < 10" for k
    using that by (simp add: is_digit_def)
  show ?case using 1 d [of n] d [of "n mod 10"] by (subst digits.simps) simp
qed

lemma length_digits: "n < 10 ^ k \<Longrightarrow> 0 < k \<Longrightarrow> length (digits n) \<le> k"
proof (induction n arbitrary: k rule: digits.induct)
  case (1 n)
  show ?case
  proof (cases "n < 10")
    case True
    with 1 show ?thesis by (subst digits.simps) simp
  next
    case False
    then have "1 < k" using 1(2,3) by (cases "k = 1") auto
    then obtain m where m: "k = Suc m" "0 < m" by (cases k) auto
    then have "n div 10 < 10 ^ m" using 1(2) by auto
    with 1(1) [OF False this m(2)] False m show ?thesis by (subst digits.simps) simp
  qed
qed

lemma matches_replicate: "matches (replicate (length s) P) s \<longleftrightarrow> list_all P s"
  by (induction s) (simp_all add: matches_def)

lemma code_digits: "matches (replicate 6 is_digit) (code_text digest)"
proof -
  let ?n = "nat (sint (truncated digest) mod 1000000)"
  have nonneg: "sgn (sint (truncated digest)) * (\<bar>sint (truncated digest)\<bar> mod 1000000) = sint (truncated digest) mod 1000000"
    using truncated_nonneg [of digest] by (cases "sint (truncated digest) = 0") auto
  have "\<not> sint (truncated digest) mod 1000000 < 0" by (simp add: not_less)
  then have code: "code_text digest = padStart 6 (digits ?n)"
    unfolding code_text_def Let_def nonneg show_int_def by simp
  have "length (digits ?n) \<le> 6" by (intro length_digits) (auto simp: nat_less_iff)
  moreover have "is_digit (CHR ''0'')" by (simp add: is_digit_def)
  ultimately show ?thesis
    using digits_digit [of ?n] matches_replicate [of "code_text digest" is_digit]
    unfolding code padStart_def by (auto simp: list_all_iff)
qed

lemma normalized_digits: "matches (replicate 6 is_digit) c \<Longrightarrow> normalizedCode c = c"
proof -
  assume "matches (replicate 6 is_digit) c"
  then have "list_all is_digit c"
    by (auto simp: matches_def list_all2_conv_all_nth list_all_length)
  then have "\<forall>x \<in> set c. \<not> is_space x" by (auto simp: list_all_iff is_digit_def is_space_def)
  then show ?thesis by (simp add: normalizedCode_def)
qed

lemma counterBuffer_Inr: "0 \<le> c \<Longrightarrow> c < 2 ^ 64 \<Longrightarrow> \<exists>b. counterBuffer c = Inr b"
  by (simp add: counterBuffer_def)

lemma verifyCode_step:
  assumes "decodeBase32 secret = Inr key" and "30000 \<le> t" and "t < 2 ^ 64"
  shows "\<exists>c0 c1 c2. generateCode hmac secret (t div 30000 - 1) = Inr c0 \<and> generateCode hmac secret (t div 30000) = Inr c1 \<and>
    generateCode hmac secret (t div 30000 + 1) = Inr c2 \<and>
    verifyCode hmac t secret code = Inr (normalizedCode code \<in> {c0, c1, c2})"
proof -
  let ?s = "t div 30000"
  have "1 \<le> ?s" "?s + 1 < 2 ^ 64" using assms(2,3) by auto
  then have gen: "\<exists>g. generateCode hmac secret c = Inr (code_text (hmac key g))" if "c \<in> {?s - 1, ?s, ?s + 1}" for c
    using that counterBuffer_Inr [of c] assms(1) by (force simp: generateCode_def)
  obtain g0 g1 g2 where g: "generateCode hmac secret (?s - 1) = Inr (code_text (hmac key g0))"
      "generateCode hmac secret ?s = Inr (code_text (hmac key g1))"
      "generateCode hmac secret (?s + 1) = Inr (code_text (hmac key g2))"
    using gen by force
  have "verifyCode hmac t secret code =
      Inr (normalizedCode code \<in> {code_text (hmac key g0), code_text (hmac key g1), code_text (hmac key g2)})"
  proof (cases "matches (replicate 6 is_digit) (normalizedCode code)")
    case True
    have "someE (\<lambda>offset. bindE (generateCode hmac secret (?s + offset)) (\<lambda>expected. Inr (expected = n))) [- 1, 0, 1] =
        Inr (n \<in> {code_text (hmac key g0), code_text (hmac key g1), code_text (hmac key g2)})" for n
      using g by auto
    with True show ?thesis unfolding verifyCode_def Let_def by (simp only: if_False not_True_eq_False simp_thms)
  next
    case False
    then show ?thesis unfolding verifyCode_def Let_def using code_digits by auto
  qed
  with g show ?thesis by blast
qed

text \<open>A code verifies exactly when, without its white space, it is the code of the current step of 30 seconds
  or of one of its neighbours: nothing records that it was used before.\<close>

theorem verifyCode_window:
  assumes "decodeBase32 secret = Inr key" and "30000 \<le> t" and "t < 2 ^ 64"
  shows "verifyCode hmac t secret code = Inr b \<longleftrightarrow>
    (b \<longleftrightarrow> generateCode hmac secret (t div 30000 - 1) = Inr (normalizedCode code) \<or>
      generateCode hmac secret (t div 30000) = Inr (normalizedCode code) \<or>
      generateCode hmac secret (t div 30000 + 1) = Inr (normalizedCode code))"
  using verifyCode_step [OF assms, of hmac code] by auto

text \<open>The code of a step verifies for the step before it, itself, and the step after it.\<close>

lemma code_verifies:
  assumes "decodeBase32 secret = Inr key" and "30000 \<le> t" and "t < 2 ^ 64"
    and "generateCode hmac secret step = Inr code" and "\<bar>t div 30000 - step\<bar> \<le> 1"
  shows "verifyCode hmac t secret code = Inr True"
proof -
  have "normalizedCode code = code"
    using assms(4) code_digits normalized_digits by (auto simp: generateCode_def err_simps)
  moreover have "step = t div 30000 - 1 \<or> step = t div 30000 \<or> step = t div 30000 + 1"
    using assms(5) by linarith
  moreover obtain c0 c1 c2 where "generateCode hmac secret (t div 30000 - 1) = Inr c0"
      "generateCode hmac secret (t div 30000) = Inr c1" "generateCode hmac secret (t div 30000 + 1) = Inr c2"
      "verifyCode hmac t secret code = Inr (normalizedCode code \<in> {c0, c1, c2})"
    using verifyCode_step [OF assms(1-3), of hmac code] by blast
  ultimately show ?thesis using assms(4) by (elim disjE) simp_all
qed

definition toy_hmac :: "bytes \<Rightarrow> bytes \<Rightarrow> bytes" where
  "toy_hmac key m = replicate 20 (sum_list m mod 128)"

theorem verifyCode_window_witness: "verifyCode toy_hmac 60000 ''AAAA'' ''686 018'' = Inr True"
proof -
  have key: "decodeBase32 ''AAAA'' = Inr [0, 0]" by code_simp
  have "counterBuffer 2 = Inr [0, 0, 0, 0, 0, 0, 0, 2]" by code_simp
  moreover have "code_text (replicate 20 2) = ''686018''"
  proof -
    have "truncated d = 33686018" if "length d = 20" and "\<And>i. i < 20 \<Longrightarrow> byte_at d i = 2" for d
      using that by (simp add: truncated_def)
    from this [of "replicate 20 2"] have "truncated (replicate 20 2) = 33686018"
      by (simp add: byte_at_def)
    moreover have "digits 686018 = ''686018''" by (simp add: digits.simps char_of_def bit_0)
    ultimately show ?thesis by (simp add: code_text_def padStart_def show_int_def)
  qed
  moreover have "normalizedCode ''686 018'' = ''686018''" by (simp add: normalizedCode_def is_space_def)
  moreover have "toy_hmac [0, 0] [0, 0, 0, 0, 0, 0, 0, 2] = replicate 20 2" by (simp add: toy_hmac_def)
  ultimately have "generateCode toy_hmac ''AAAA'' 2 = Inr (normalizedCode ''686 018'')"
    by (simp only: generateCode_def key bindE_Inr)
  moreover have "60000 div 30000 = (2 :: int)" by simp
  ultimately show ?thesis using verifyCode_window [OF key, of 60000 toy_hmac "''686 018''" True] by (simp only:) simp
qed

end
