(* ===== verification/Auth.thy ===== *)
theory Auth
  imports Token Totp
begin

text \<open>
  \<open>auth/auth.service.ts\<close> and \<open>auth/password.service.ts\<close>: login with a second factor, invitations of institution
  staff, founder MFA with recovery codes, and tokens of API clients. A handler that writes before it may still
  throw returns its error beside the database; the others return the database with their result. \<open>secrets\<close>
  holds what comes from outside: random bytes (numbered by the draws of the database), the digests, and the
  environment variables.
\<close>

record secrets =
  sx_random :: "nat \<Rightarrow> nat \<Rightarrow> bytes" \<comment> \<open>the draw, and how many bytes\<close>
  sx_scrypt :: "string \<Rightarrow> string \<Rightarrow> bytes" \<comment> \<open>\<open>scryptSync(password, salt, 64)\<close>\<close>
  sx_hmac256 :: hmac
  sx_hmac1 :: "bytes \<Rightarrow> bytes \<Rightarrow> bytes"
  sx_gcm :: aes_gcm
  sx_jwtSecret :: "string option"
  sx_totpKey :: "string option"

definition randomBytes :: "secrets \<Rightarrow> db \<Rightarrow> nat \<Rightarrow> bytes" where
  "randomBytes sx d n = sx_random sx (draws d) n"

definition totpKey :: "secrets \<Rightarrow> bytes" where
  "totpKey sx = encryptionKey (sx_gcm sx) (sx_totpKey sx) (sx_jwtSecret sx)"

section \<open>Passwords\<close>

definition hex_lower :: "nat \<Rightarrow> char" where
  "hex_lower n = (if n < 10 then char_of (48 + n) else char_of (87 + n))"

definition hex :: "bytes \<Rightarrow> string" where
  "hex bs = concat (map (\<lambda>b. [hex_lower (b div 16), hex_lower (b mod 16)]) bs)"

text \<open>\<open>Buffer.from(text, "hex")\<close> stops at the first pair that is not hexadecimal.\<close>

fun from_hex :: "string \<Rightarrow> bytes" where
  "from_hex (a # b # cs) =
     (if is_hex a \<and> is_hex b then (16 * radix_digit a + radix_digit b) # from_hex cs else [])"
| "from_hex _ = []"

definition hashPassword :: "secrets \<Rightarrow> bytes \<Rightarrow> string \<Rightarrow> string" where
  "hashPassword sx random password =
     (let salt = hex random in ''scrypt:'' @ salt @ '':'' @ hex (sx_scrypt sx password salt))"

definition verifyPassword :: "secrets \<Rightarrow> string \<Rightarrow> string \<Rightarrow> bool" where
  "verifyPassword sx password encodedHash =
     (case split_on (CHR '':'') encodedHash of
        scheme # salt # expectedHash # _ \<Rightarrow>
          scheme = ''scrypt'' \<and> salt \<noteq> [] \<and> expectedHash \<noteq> [] \<and> sx_scrypt sx password salt = from_hex expectedHash
      | _ \<Rightarrow> False)"

section \<open>Second factor\<close>

definition normalizeRecoveryCode :: "string option \<Rightarrow> string" where
  "normalizeRecoveryCode code =
     (case code of None \<Rightarrow> []
      | Some s \<Rightarrow> filter (\<lambda>c. is_digit c \<or> 65 \<le> (of_char c :: nat) \<and> (of_char c :: nat) \<le> 90) (toUpperCase (trim s)))"

definition actorEvent :: "string \<Rightarrow> user_role \<Rightarrow> audit_input \<Rightarrow> audit_input" where
  "actorEvent userId role event = event\<lparr>ai_actorId := Some userId, ai_actorRole := Some (role_text role)\<rparr>"

definition usableCode :: "secrets \<Rightarrow> string \<Rightarrow> mfa_recovery_code \<Rightarrow> bool" where
  "usableCode sx normalized r \<longleftrightarrow> verifyPassword sx normalized (mr_codeHash r)"

definition unusedCode :: "string \<Rightarrow> mfa_recovery_code \<Rightarrow> bool" where
  "unusedCode userId r \<longleftrightarrow> mr_userId r = userId \<and> mr_usedAt r = None"

definition consumeRecoveryCode :: "secrets \<Rightarrow> env \<Rightarrow> db \<Rightarrow> string \<Rightarrow> string option \<Rightarrow> bool \<times> db" where
  "consumeRecoveryCode sx e d userId recoveryCode =
     (let normalized = normalizeRecoveryCode recoveryCode
      in if normalized = [] then (False, d)
         else case List.find (usableCode sx normalized) (take 20 (filter (unusedCode userId) (mfaRecoveryCodes d))) of
           None \<Rightarrow> (False, d)
         | Some matched \<Rightarrow>
             (True, audit_write (actorEvent userId ACADID_SUPER_ADMIN
                 (audit_event_of ''founder_mfa.recovery_code.consume'' ''User'' userId None JUndef))
               (d\<lparr>mfaRecoveryCodes := update_rows (\<lambda>r. mr_uuid r = mr_uuid matched \<and> mr_usedAt r = None)
                    (mr_usedAt_update (\<lambda>_. Some (now e))) (mfaRecoveryCodes d)\<rparr>)))"

definition checkMfa ::
    "secrets \<Rightarrow> env \<Rightarrow> db \<Rightarrow> user \<Rightarrow> string option \<Rightarrow> string option \<Rightarrow> string res \<times> db" where
  "checkMfa sx e d u totpCode recoveryCode =
     (if \<not> us_mfaEnabled u then (Inr ''NONE'', d)
      else if \<not> truthy_text (us_totpSecretEncrypted u) then (Inl (Unauthorized ''Authenticator code is required.''), d)
      else
        case (if truthy_text totpCode
              then bindE (totpDecryptSecret (sx_gcm sx) (totpKey sx) (getOr (us_totpSecretEncrypted u) [])) (\<lambda>secret.
                verifyCode (sx_hmac1 sx) (now e) secret (getOr totpCode []))
              else Inr False) of
          Inl err \<Rightarrow> (Inl err, d)
        | Inr True \<Rightarrow> (Inr ''TOTP'', d)
        | Inr False \<Rightarrow>
            (let (consumed, d') = consumeRecoveryCode sx e d (us_uuid u) recoveryCode
             in (if consumed then Inr ''RECOVERY_CODE'' else Inl (Unauthorized ''Invalid authenticator code.''), d')))"

section \<open>Login\<close>

fun defaultPermissionsForRole :: "user_role \<Rightarrow> string list" where
  "defaultPermissionsForRole ACADID_SUPER_ADMIN = [''*'']"
| "defaultPermissionsForRole REGISTRAR = [''staff:manage'', ''academic_setup:read'', ''academic_setup:write'',
     ''ingest:write'', ''govern:write'', ''govern:review'', ''govern:publish'', ''records:amend'',
     ''developer_tools:manage'', ''record_requests:approve'']"
| "defaultPermissionsForRole EXAM_OFFICER = [''academic_setup:read'', ''students:read'', ''results:read'',
     ''govern:write'', ''govern:review'', ''record_requests:verify'']"
| "defaultPermissionsForRole DATA_ENTRY_OFFICER = [''students:write'', ''ingest:write'', ''results:draft'',
     ''govern:submit'', ''record_requests:upload'']"
| "defaultPermissionsForRole DEPARTMENTAL_OFFICER = [''academic_setup:read'', ''students:read'', ''results:read'',
     ''ingest:write'', ''results:draft'', ''govern:review'', ''record_requests:verify'']"
| "defaultPermissionsForRole READ_ONLY = [''academic_setup:read'', ''students:read'', ''results:read'',
     ''credentials:read'', ''reports:read'']"
| "defaultPermissionsForRole STUDENT = [''access:read'']"
| "defaultPermissionsForRole _ = []"

definition assignedScopesOf :: "jval \<Rightarrow> jval" where
  "assignedScopesOf v = (case v of JArr xs \<Rightarrow> JArr xs | _ \<Rightarrow> JArr [])"

definition membershipsOf :: "db \<Rightarrow> string \<Rightarrow> institution_user list" where
  "membershipsOf d userId = filter (\<lambda>m. iu_userId m = userId \<and>
     iu_status m \<in> {Member_ACTIVE, Member_INVITED, Member_SUSPENDED}) (institutionUsers d)"

definition activeMembership :: "db \<Rightarrow> string \<Rightarrow> institution_user option" where
  "activeMembership d userId =
     List.find (\<lambda>m. iu_status m = Member_ACTIVE \<and> active_institution d (iu_institutionId m)) (membershipsOf d userId)"

definition invitedMembership :: "db \<Rightarrow> string \<Rightarrow> institution_user option" where
  "invitedMembership d userId = List.find (\<lambda>m. iu_status m = Member_INVITED) (membershipsOf d userId)"

record login_result =
  lg_accessToken :: string
  lg_user :: user
  lg_role :: user_role
  lg_permissions :: "string list"
  lg_membership :: "institution_user option"

definition loginPayload :: "db \<Rightarrow> user \<Rightarrow> institution_user option \<Rightarrow> user_role \<Rightarrow> string list \<Rightarrow> string \<Rightarrow> payload" where
  "loginPayload d u m role permissions sessionId =
     (let inst = (case m of None \<Rightarrow> None | Some m \<Rightarrow> find_by in_uuid (iu_institutionId m) (institutions d))
      in [(''sub'', JStr (us_uuid u)), (''email'', JStr (us_email u)), (''role'', JStr (role_text role)),
          (''fullName'', JStr (us_fullName u)), (''learnerId'', jstr (us_learnerId u)),
          (''institutionUuid'', jstr (map_option in_uuid inst)),
          (''institutionId'', jstr (map_option in_institutionId inst)),
          (''institutionName'', jstr (map_option in_officialName inst)),
          (''institutionUserId'', jstr (map_option iu_uuid m)),
          (''permissions'', JArr (map JStr permissions)),
          (''assignedScopes'', assignedScopesOf (case m of None \<Rightarrow> JUndef | Some m \<Rightarrow> iu_assignedScopes m)),
          (''sessionId'', JStr sessionId)])"

definition openSession :: "secrets \<Rightarrow> env \<Rightarrow> db \<Rightarrow> user \<Rightarrow> string \<Rightarrow> (login_result \<times> db) res" where
  "openSession sx e d u mfaMethod =
     (let m = activeMembership d (us_uuid u) in
      bindE (failIf (us_role u \<noteq> ACADID_SUPER_ADMIN \<and> m = None)
        (Unauthorized (if invitedMembership d (us_uuid u) \<noteq> None then ''Invitation has not been accepted yet.''
           else ''No active institution workspace is available for this user.''))) (\<lambda>_.
      let role = (case m of None \<Rightarrow> us_role u | Some m \<Rightarrow> iu_role m);
          own = (case m of None \<Rightarrow> [] | Some m \<Rightarrow> iu_permissions m);
          permissions = (if own \<noteq> [] then own else defaultPermissionsForRole role);
          accessToken = signToken (sx_hmac256 sx) (jwtSecret (sx_jwtSecret sx)) (now e)
            (loginPayload d u m role permissions (fresh e d)) defaultTokenTtlSeconds
      in bindE (case m of None \<Rightarrow> Inr (institutionUsers d)
           | Some m \<Rightarrow> update_by iu_uuid (iu_uuid m) (iu_lastLoginAt_update (\<lambda>_. Some (now e))) (institutionUsers d)) (\<lambda>members.
         Inr (\<lparr>lg_accessToken = accessToken, lg_user = u, lg_role = role, lg_permissions = permissions, lg_membership = m\<rparr>,
           audit_write (actorEvent (us_uuid u) role (audit_event_of ''auth.login'' ''User'' (us_uuid u)
               (map_option iu_institutionId m) (JObj [(''mfaMethod'', JStr mfaMethod)])))
             (drawn d\<lparr>institutionUsers := members\<rparr>)))))"

text \<open>A recovery code is used up even when the login then fails.\<close>

definition login ::
    "secrets \<Rightarrow> env \<Rightarrow> db \<Rightarrow> string \<Rightarrow> string \<Rightarrow> string option \<Rightarrow> string option \<Rightarrow> login_result res \<times> db" where
  "login sx e d email password totpCode recoveryCode =
     (case find_by us_email (toLowerCase (trim email)) (users d) of
        None \<Rightarrow> (Inl (Unauthorized ''Invalid email or password.''), d)
      | Some u \<Rightarrow>
          (if \<not> verifyPassword sx password (us_passwordHash u) then (Inl (Unauthorized ''Invalid email or password.''), d)
           else case checkMfa sx e d u totpCode recoveryCode of
             (Inl err, d') \<Rightarrow> (Inl err, d')
           | (Inr mfaMethod, d') \<Rightarrow>
               (case openSession sx e d' u mfaMethod of Inl err \<Rightarrow> (Inl err, d') | Inr (r, d'') \<Rightarrow> (Inr r, d''))))"

section \<open>Invitations\<close>

record invite_input =
  vi_institutionId :: "string option"
  vi_email :: "string option"
  vi_fullName :: "string option"
  vi_phone :: "string option"
  vi_role :: "string option"
  vi_permissions :: "string list option"
  vi_assignedScopes :: jval

definition staffRoles :: "user_role list" where
  "staffRoles = [REGISTRAR, EXAM_OFFICER, DATA_ENTRY_OFFICER, DEPARTMENTAL_OFFICER, READ_ONLY]"

definition parseInstitutionRole :: "string option \<Rightarrow> user_role res" where
  "parseInstitutionRole role =
     require (case role of None \<Rightarrow> None
        | Some s \<Rightarrow> List.find (\<lambda>r. role_text r = toUpperCase (trim s)) staffRoles)
       (BadRequest ''Role must be REGISTRAR, EXAM_OFFICER, DATA_ENTRY_OFFICER, DEPARTMENTAL_OFFICER, or READ_ONLY.'')"

definition resolveInviteInstitution :: "db \<Rightarrow> auth_token \<Rightarrow> string option \<Rightarrow> string res" where
  "resolveInviteInstitution d auth requested =
     (if au_role auth = ACADID_SUPER_ADMIN then
        let value = trim (getOr requested []) in
        bindE (failIf (value = [])
          (BadRequest ''institutionId is required for founder-created staff invitations.'')) (\<lambda>_.
        bindE (require (List.find (\<lambda>i. if uuidPattern value then in_uuid i = value else in_institutionId i = value)
            (institutions d)) (BadRequest ''Institution not found.'')) (\<lambda>i.
        Inr (in_uuid i)))
      else
        bindE (failIf (\<not> truthy_text (au_institutionUuid auth))
          (Forbidden ''Institution-scoped session is required.'')) (\<lambda>_.
        bindE (failIf (truthy_text requested \<and> requested \<noteq> au_institutionUuid auth \<and> requested \<noteq> au_institutionId auth)
          (Forbidden ''Cannot invite staff into another institution workspace.'')) (\<lambda>_.
        Inr (getOr (au_institutionUuid auth) []))))"

definition trimmed :: "string option \<Rightarrow> string option" where
  "trimmed x = (case x of None \<Rightarrow> None | Some s \<Rightarrow> (if trim s = [] then None else Some (trim s)))"

text \<open>\<open>tx.user.upsert\<close> by email: an existing account keeps its password and its role.\<close>

definition invitedUser :: "string \<Rightarrow> string option \<Rightarrow> user \<Rightarrow> user" where
  "invitedUser fullName phone u = u\<lparr>us_fullName := fullName, us_phone := orElse phone (us_phone u)\<rparr>"

definition newInvitedUser :: "string \<Rightarrow> string \<Rightarrow> string option \<Rightarrow> user_role \<Rightarrow> string \<Rightarrow> string \<Rightarrow> user" where
  "newInvitedUser email fullName phone role passwordHash i =
     \<lparr>us_uuid = i, us_email = email, us_passwordHash = passwordHash, us_fullName = fullName, us_phone = phone,
      us_role = role, us_learnerId = None, us_mfaEnabled = False, us_totpSecretEncrypted = None,
      us_totpEnabledAt = None\<rparr>"

definition upsertUser :: "env \<Rightarrow> db \<Rightarrow> string \<Rightarrow> string \<Rightarrow> string option \<Rightarrow> user_role \<Rightarrow> string \<Rightarrow> user \<times> db" where
  "upsertUser e d email fullName phone role passwordHash =
     (case find_by us_email email (users d) of
        Some u \<Rightarrow> (invitedUser fullName phone u, d\<lparr>users := set_by us_email email (invitedUser fullName phone) (users d)\<rparr>)
      | None \<Rightarrow>
          let u = newInvitedUser email fullName phone role passwordHash (fresh e d)
          in (u, drawn d\<lparr>users := users d @ [u]\<rparr>))"

definition memberKey :: "string \<Rightarrow> string \<Rightarrow> user_role \<Rightarrow> institution_user \<Rightarrow> bool" where
  "memberKey userId institutionId role m \<longleftrightarrow> iu_userId m = userId \<and> iu_institutionId m = institutionId \<and> iu_role m = role"

definition invitedMember ::
    "env \<Rightarrow> auth_token \<Rightarrow> string list \<Rightarrow> jval \<Rightarrow> string \<Rightarrow> institution_user \<Rightarrow> institution_user" where
  "invitedMember e auth permissions assignedScopes tokenHash m =
     m\<lparr>iu_status := Member_INVITED, iu_permissions := permissions, iu_assignedScopes := assignedScopes,
       iu_invitedById := Some (au_sub auth), iu_inviteTokenHash := Some tokenHash, iu_invitedAt := Some (now e),
       iu_inviteExpiresAt := Some (now e + 7 * 24 * 60 * 60 * 1000), iu_inviteAcceptedAt := None,
       iu_suspendedAt := None\<rparr>"

definition newMember :: "string \<Rightarrow> string \<Rightarrow> user_role \<Rightarrow> string \<Rightarrow> institution_user" where
  "newMember userId institutionId role i =
     \<lparr>iu_uuid = i, iu_userId = userId, iu_institutionId = institutionId, iu_role = role, iu_status = Member_INVITED,
      iu_assignedScopes = JArr [], iu_permissions = [], iu_invitedById = None, iu_inviteTokenHash = None,
      iu_invitedAt = None, iu_inviteExpiresAt = None, iu_inviteAcceptedAt = None, iu_lastLoginAt = None,
      iu_suspendedAt = None, iu_twoFactorRequired = False\<rparr>"

definition upsertMember ::
    "env \<Rightarrow> db \<Rightarrow> string \<Rightarrow> string \<Rightarrow> user_role \<Rightarrow> (institution_user \<Rightarrow> institution_user) \<Rightarrow> (institution_user \<times> db) res" where
  "upsertMember e d userId institutionId role f =
     (let (m, rows, d') = (case List.find (memberKey userId institutionId role) (institutionUsers d) of
            Some m \<Rightarrow> (f m, update_rows (memberKey userId institutionId role) f (institutionUsers d), d)
          | None \<Rightarrow>
              let m = f (newMember userId institutionId role (fresh e d)) in (m, institutionUsers d @ [m], drawn d))
      in bindE (check_unique ''inviteTokenHash'' iu_inviteTokenHash rows) (\<lambda>rows.
         Inr (m, d'\<lparr>institutionUsers := rows\<rparr>)))"

definition createInviteToken :: "bytes \<Rightarrow> string" where
  "createInviteToken random = ''inv_'' @ base64url_bytes random"

definition inviteInstitutionUser ::
    "secrets \<Rightarrow> env \<Rightarrow> db \<Rightarrow> auth_token \<Rightarrow> invite_input \<Rightarrow> (institution_user \<times> string \<times> db) res" where
  "inviteInstitutionUser sx e d auth input =
     bindE (failIf (au_kind auth = Some API_KEY)
       (Forbidden ''Human session is required to invite institution staff.'')) (\<lambda>_.
     bindE (parseInstitutionRole (vi_role input)) (\<lambda>role.
     bindE (resolveInviteInstitution d auth (vi_institutionId input)) (\<lambda>institutionUuid.
     bindE (failIf (au_role auth \<noteq> ACADID_SUPER_ADMIN \<and> au_role auth \<noteq> REGISTRAR)
       (Forbidden ''Only founders and registrars can invite institution users.'')) (\<lambda>_.
     bindE (failIf (au_role auth = REGISTRAR \<and> role = REGISTRAR)
       (Forbidden ''Registrar-to-registrar invitation requires founder approval.'')) (\<lambda>_.
     let email = toLowerCase (trim (getOr (vi_email input) [])); fullName = trim (getOr (vi_fullName input) []) in
     bindE (failIf (email = [] \<or> fullName = [])
       (BadRequest ''Invitee full name and email are required.'')) (\<lambda>_.
     bindE (failIf (\<not> active_institution d institutionUuid)
       (BadRequest ''Active institution workspace not found.'')) (\<lambda>_.
     let token = createInviteToken (randomBytes sx d 32); d1 = drawn d;
         permissions = (if getOr (vi_permissions input) [] \<noteq> [] then getOr (vi_permissions input) []
           else defaultPermissionsForRole role);
         scopes = assignedScopesOf (vi_assignedScopes input);
         passwordHash = hashPassword sx (randomBytes sx (drawn d1) 16) (base64url_bytes (randomBytes sx d1 32));
         (u, d2) = upsertUser e (drawn (drawn d1)) email fullName (trimmed (vi_phone input)) role passwordHash in
     bindE (upsertMember e d2 (us_uuid u) institutionUuid role
       (invitedMember e auth permissions scopes (sha256 e token))) (\<lambda>(m, d3).
     Inr (m, token, audit_write (actorEvent (au_sub auth) (au_role auth)
         (audit_event_of ''institution_user.invite'' ''InstitutionUser'' (iu_uuid m) (Some institutionUuid)
           (JObj [(''invitedEmail'', JStr email), (''role'', JStr (role_text role)),
             (''permissions'', JArr (map JStr permissions)), (''assignedScopes'', scopes)]))) d3)))))))))"

record accept_input =
  vp_token :: "string option"
  vp_password :: "string option"
  vp_fullName :: "string option"
  vp_phone :: "string option"

definition acceptedUser :: "string \<Rightarrow> accept_input \<Rightarrow> user \<Rightarrow> user" where
  "acceptedUser passwordHash input u =
     u\<lparr>us_passwordHash := passwordHash, us_fullName := getOr (trimmed (vp_fullName input)) (us_fullName u),
       us_phone := orElse (trimmed (vp_phone input)) (us_phone u)\<rparr>"

definition acceptedMember :: "int \<Rightarrow> institution_user \<Rightarrow> institution_user" where
  "acceptedMember t m = m\<lparr>iu_status := Member_ACTIVE, iu_inviteAcceptedAt := Some t, iu_inviteTokenHash := None\<rparr>"

definition acceptInstitutionInvite ::
    "secrets \<Rightarrow> env \<Rightarrow> db \<Rightarrow> accept_input \<Rightarrow> (institution_user \<times> db) res" where
  "acceptInstitutionInvite sx e d input =
     (let token = trim (getOr (vp_token input) []); password = getOr (vp_password input) [] in
     bindE (failIf (token = [] \<or> length password < 8)
       (BadRequest ''Invite token and a password of at least 8 characters are required.'')) (\<lambda>_.
     bindE (require (List.find (\<lambda>m. iu_inviteTokenHash m = Some (sha256 e token)) (institutionUsers d))
       (BadRequest ''Institution invitation is invalid or expired.'')) (\<lambda>m.
     bindE (failIf (iu_status m \<noteq> Member_INVITED \<or> (case iu_inviteExpiresAt m of None \<Rightarrow> True | Some t \<Rightarrow> t < now e))
       (BadRequest ''Institution invitation is invalid or expired.'')) (\<lambda>_.
     bindE (failIf (\<not> active_institution d (iu_institutionId m))
       (BadRequest ''Institution workspace is not active.'')) (\<lambda>_.
     bindE (update_by us_uuid (iu_userId m) (acceptedUser (hashPassword sx (randomBytes sx d 16) password) input) (users d)) (\<lambda>us.
     bindE (update_by iu_uuid (iu_uuid m) (acceptedMember (now e)) (institutionUsers d)) (\<lambda>members.
     Inr (acceptedMember (now e) m,
       audit_write (actorEvent (iu_userId m) (iu_role m)
           (audit_event_of ''institution_user.invite.accept'' ''InstitutionUser'' (iu_uuid m) (Some (iu_institutionId m)) JUndef))
         (drawn d\<lparr>users := us, institutionUsers := members\<rparr>)))))))))"

section \<open>Founder MFA\<close>

definition humanFounder :: "auth_token \<Rightarrow> bool" where
  "humanFounder auth \<longleftrightarrow> \<not> (au_kind auth = Some API_KEY \<or> au_role auth \<noteq> ACADID_SUPER_ADMIN)"

record totp_setup =
  ts_secret :: string
  ts_otpauthUrl :: string

definition setupTotp :: "secrets \<Rightarrow> db \<Rightarrow> auth_token \<Rightarrow> (totp_setup \<times> db) res" where
  "setupTotp sx d auth =
     bindE (failIf (\<not> humanFounder auth)
       (Unauthorized ''Only the AcadID founder admin can configure founder MFA.'')) (\<lambda>_.
     bindE (require (find_by us_uuid (au_sub auth) (users d)) (Unauthorized ''User not found.'')) (\<lambda>u.
     let secret = createSecret (randomBytes sx d 20);
         encrypted = totpEncryptSecret (sx_gcm sx) (totpKey sx) (randomBytes sx (drawn d) 12) secret in
     bindE (update_by us_uuid (us_uuid u)
         (\<lambda>u. u\<lparr>us_totpSecretEncrypted := Some encrypted, us_mfaEnabled := False, us_totpEnabledAt := None\<rparr>) (users d)) (\<lambda>us.
     Inr (\<lparr>ts_secret = secret, ts_otpauthUrl = createOtpAuthUrl secret (us_email u) None\<rparr>,
       (drawn (drawn d))\<lparr>users := us\<rparr>))))"

definition enableTotp :: "secrets \<Rightarrow> env \<Rightarrow> db \<Rightarrow> auth_token \<Rightarrow> string \<Rightarrow> db res" where
  "enableTotp sx e d auth code =
     bindE (failIf (\<not> humanFounder auth)
       (Unauthorized ''Only the AcadID founder admin can configure founder MFA.'')) (\<lambda>_.
     bindE (require (case find_by us_uuid (au_sub auth) (users d) of None \<Rightarrow> None | Some u \<Rightarrow>
         (if truthy_text (us_totpSecretEncrypted u) then us_totpSecretEncrypted u else None))
       (Unauthorized ''TOTP setup has not been started.'')) (\<lambda>encrypted.
     bindE (totpDecryptSecret (sx_gcm sx) (totpKey sx) encrypted) (\<lambda>secret.
     bindE (verifyCode (sx_hmac1 sx) (now e) secret code) (\<lambda>ok.
     bindE (failIf (\<not> ok) (Unauthorized ''Invalid authenticator code.'')) (\<lambda>_.
     bindE (update_by us_uuid (au_sub auth)
         (\<lambda>u. u\<lparr>us_mfaEnabled := True, us_totpEnabledAt := Some (now e)\<rparr>) (users d)) (\<lambda>us.
     Inr (d\<lparr>users := us\<rparr>)))))))"

definition assertFounderAuth :: "auth_token \<Rightarrow> unit res" where
  "assertFounderAuth auth =
     failIf (au_kind auth = Some API_KEY \<or> au_role auth \<noteq> ACADID_SUPER_ADMIN)
       (Unauthorized ''Only the AcadID founder admin can manage founder MFA.'')"

text \<open>How many codes are left, and when the newest code was made.\<close>

definition recoveryCodeStatus :: "db \<Rightarrow> auth_token \<Rightarrow> (nat \<times> int option) res" where
  "recoveryCodeStatus d auth =
     bindE (assertFounderAuth auth) (\<lambda>_.
     let own = filter (\<lambda>r. mr_userId r = au_sub auth) (mfaRecoveryCodes d)
     in Inr (length (filter (unusedCode (au_sub auth)) (mfaRecoveryCodes d)),
          if own = [] then None else Some (Max (mr_createdAt ` set own))))"

definition createRecoveryCode :: "bytes \<Rightarrow> string" where
  "createRecoveryCode random =
     (let value = take 12 (toUpperCase (filter (\<lambda>c. is_alpha c \<or> is_digit c) (base64url_bytes random)))
      in take 4 value @ ''-'' @ take 4 (drop 4 value) @ ''-'' @ drop 8 value)"

fun recoveryCodes :: "secrets \<Rightarrow> nat \<Rightarrow> db \<Rightarrow> string list \<times> db" where
  "recoveryCodes sx 0 d = ([], d)"
| "recoveryCodes sx (Suc n) d =
     (let code = createRecoveryCode (randomBytes sx d 10); (codes, d') = recoveryCodes sx n (drawn d) in (code # codes, d'))"

fun recoveryRows :: "secrets \<Rightarrow> env \<Rightarrow> string \<Rightarrow> string list \<Rightarrow> db \<Rightarrow> mfa_recovery_code list \<times> db" where
  "recoveryRows sx e userId [] d = ([], d)"
| "recoveryRows sx e userId (code # codes) d =
     (let r = \<lparr>mr_uuid = fresh e (drawn d), mr_userId = userId,
            mr_codeHash = hashPassword sx (randomBytes sx d 16) (normalizeRecoveryCode (Some code)), mr_usedAt = None,
            mr_createdAt = now e\<rparr>;
          (rows, d') = recoveryRows sx e userId codes (drawn (drawn d)) in (r # rows, d'))"

definition rotateRecoveryCodes :: "secrets \<Rightarrow> env \<Rightarrow> db \<Rightarrow> auth_token \<Rightarrow> string option \<Rightarrow> (string list \<times> db) res" where
  "rotateRecoveryCodes sx e d auth code =
     bindE (assertFounderAuth auth) (\<lambda>_.
     bindE (require (case find_by us_uuid (au_sub auth) (users d) of None \<Rightarrow> None | Some u \<Rightarrow>
         (if us_mfaEnabled u \<and> truthy_text (us_totpSecretEncrypted u) then us_totpSecretEncrypted u else None))
       (Unauthorized ''Enable founder TOTP before generating recovery codes.'')) (\<lambda>encrypted.
     bindE (if \<not> truthy_text code then Inr False
         else bindE (totpDecryptSecret (sx_gcm sx) (totpKey sx) encrypted) (\<lambda>secret.
           verifyCode (sx_hmac1 sx) (now e) secret (getOr code []))) (\<lambda>ok.
     bindE (failIf (\<not> ok) (Unauthorized ''Valid authenticator code is required to rotate recovery codes.'')) (\<lambda>_.
     let (codes, d1) = recoveryCodes sx 10 d; (rows, d2) = recoveryRows sx e (au_sub auth) codes d1 in
     Inr (codes, audit_write (humanActor auth (audit_event_of ''founder_mfa.recovery_codes.rotate'' ''User'' (au_sub auth)
         None (JObj [(''count'', jint (int (length codes)))])))
       (d2\<lparr>mfaRecoveryCodes := filter (\<lambda>r. mr_userId r \<noteq> au_sub auth) (mfaRecoveryCodes d) @ rows\<rparr>))))))"

section \<open>API clients\<close>

record api_token =
  at_accessToken :: string
  at_expiresIn :: int
  at_apiClient :: api_key_row

fun environment_text :: "api_key_environment \<Rightarrow> string" where
  "environment_text SANDBOX = ''SANDBOX''"
| "environment_text PRODUCTION = ''PRODUCTION''"

fun owner_text :: "api_key_owner \<Rightarrow> string" where
  "owner_text Owner_PRODUCT = ''PRODUCT''"
| "owner_text Owner_INSTITUTION = ''INSTITUTION''"

definition apiKeyInstitution :: "db \<Rightarrow> api_key_row \<Rightarrow> institution option" where
  "apiKeyInstitution d k = (case ak_institutionId k of None \<Rightarrow> None | Some i \<Rightarrow> find_by in_uuid i (institutions d))"

definition apiKeyUsable :: "secrets \<Rightarrow> env \<Rightarrow> db \<Rightarrow> string \<Rightarrow> api_key_row \<Rightarrow> bool" where
  "apiKeyUsable sx e d clientSecret k \<longleftrightarrow>
     verifyPassword sx clientSecret (ak_clientSecretHash k) \<and> ak_status k = Key_ACTIVE \<and>
     \<not> (ak_ownerType k = Owner_INSTITUTION \<and> map_option in_status (apiKeyInstitution d k) \<noteq> Some Inst_ACTIVE) \<and>
     \<not> (case ak_expiresAt k of None \<Rightarrow> False | Some t \<Rightarrow> t \<le> now e)"

definition apiClientPayload :: "db \<Rightarrow> api_key_row \<Rightarrow> payload" where
  "apiClientPayload d k =
     [(''sub'', JStr (ak_uuid k)), (''email'', JStr (ak_clientId k @ ''@api-key.acadid.local'')),
      (''fullName'', JStr (ak_label k)), (''role'', JStr ''REGISTRAR''), (''kind'', JStr ''API_KEY''),
      (''institutionId'', jstr (map_option in_institutionId (apiKeyInstitution d k))),
      (''institutionUuid'', jstr (map_option in_uuid (apiKeyInstitution d k))),
      (''apiKeyId'', JStr (ak_uuid k)), (''clientId'', JStr (ak_clientId k)),
      (''apiKeyOwnerType'', JStr (owner_text (ak_ownerType k))), (''productCode'', jstr (ak_productCode k)),
      (''productName'', jstr (ak_productName k)), (''scopes'', JArr (map JStr (ak_scopes k))),
      (''environment'', JStr (environment_text (ak_environment k))),
      (''rateLimitPerMinute'', jint (ak_rateLimitPerMinute k))]"

definition issueApiToken ::
    "secrets \<Rightarrow> env \<Rightarrow> db \<Rightarrow> string option \<Rightarrow> string option \<Rightarrow> (api_token \<times> db) res" where
  "issueApiToken sx e d clientId clientSecret =
     bindE (failIf (\<not> truthy_text clientId \<or> \<not> truthy_text clientSecret)
       (Unauthorized ''client_id and client_secret are required.'')) (\<lambda>_.
     bindE (require (case find_by ak_clientId (getOr clientId []) (apiKeys d) of None \<Rightarrow> None | Some k \<Rightarrow>
         (if apiKeyUsable sx e d (getOr clientSecret []) k then Some k else None))
       (Unauthorized ''Invalid API credentials.'')) (\<lambda>k.
     bindE (update_by ak_uuid (ak_uuid k) (ak_lastUsedAt_update (\<lambda>_. Some (now e))) (apiKeys d)) (\<lambda>keys.
     Inr (\<lparr>at_accessToken = signApiClient (sx_hmac256 sx) (jwtSecret (sx_jwtSecret sx)) (now e) (apiClientPayload d k),
         at_expiresIn = (if ak_environment k = PRODUCTION then 3600 else 86400), at_apiClient = k\<rparr>,
       d\<lparr>apiKeys := keys\<rparr>))))"

end
