(* ===== verification/Accounts.thy ===== *)
theory Accounts
  imports Auth Sample
begin

text \<open>
  What the handlers of \<open>Auth\<close> promise: a session opens only for a password and, where it is enabled, a second
  factor; a recovery code opens one session; no account becomes a learner's. And what they do not: an invitation
  into another institution replaces the password of an existing account.
\<close>

section \<open>Lookups after a write\<close>

lemma find_by_update_rows:
  assumes "\<And>r. key (f r) = key r"
  shows "find_by key k (update_rows p f rows) = map_option (\<lambda>r. if p r then f r else r) (find_by key k rows)"
  using assms by (induction rows) auto

section \<open>Passwords\<close>

lemma hex_digit_char:
  assumes "n < 16"
  shows "is_hex (hex_lower n) \<and> radix_digit (hex_lower n) = n \<and> hex_lower n \<noteq> CHR '':''"
proof -
  have small: "n < 10 \<or> 10 \<le> n \<and> n < 16" using assms by linarith
  have colon: "char_of k \<noteq> CHR '':''" if "k < 256" "k \<noteq> 58" for k :: nat
  proof
    assume "char_of k = CHR '':''"
    then have "of_char (char_of k) = (of_char (CHR '':'') :: nat)" by (rule arg_cong)
    with that show False by (simp add: of_char_char)
  qed
  from small show ?thesis
  proof
    assume n: "n < 10"
    then show ?thesis using colon [of "48 + n"] by (simp add: hex_lower_def is_hex_def is_digit_def radix_digit_def of_char_char)
  next
    assume n: "10 \<le> n \<and> n < 16"
    then show ?thesis using colon [of "87 + n"]
      by (simp add: hex_lower_def is_hex_def is_digit_def radix_digit_def of_char_char)
  qed
qed

lemma hex_Cons: "hex (b # bs) = hex_lower (b div 16) # hex_lower (b mod 16) # hex bs"
  by (simp add: hex_def)

lemma hex_Nil [simp]: "hex [] = []"
  by (simp add: hex_def)

lemma from_hex_hex: "list_all (\<lambda>b. b < 256) bs \<Longrightarrow> from_hex (hex bs) = bs"
proof (induction bs)
  case (Cons b bs)
  then have "b div 16 < 16" "b mod 16 < 16" by auto
  from hex_digit_char [OF this(1)] hex_digit_char [OF this(2)] Cons show ?case by (simp add: hex_Cons)
qed simp

lemma hex_plain: "list_all (\<lambda>b. b < 256) bs \<Longrightarrow> CHR '':'' \<notin> set (hex bs)"
proof (induction bs)
  case (Cons b bs)
  then have "b div 16 < 16" "b mod 16 < 16" by auto
  from hex_digit_char [OF this(1)] hex_digit_char [OF this(2)] Cons show ?case by (auto simp: hex_Cons)
qed simp

lemma hex_eq_Nil: "hex bs = [] \<longleftrightarrow> bs = []"
  by (cases bs) (simp_all add: hex_Cons)

text \<open>The digests are bytes, and \<open>randomBytes\<close> gives as many bytes as it is asked for.\<close>

definition secrets_ok :: "secrets \<Rightarrow> bool" where
  "secrets_ok sx \<longleftrightarrow>
     (\<forall>password salt. list_all (\<lambda>b. b < 256) (sx_scrypt sx password salt) \<and> sx_scrypt sx password salt \<noteq> []) \<and>
     (\<forall>k n. length (sx_random sx k n) = n \<and> list_all (\<lambda>b. b < 256) (sx_random sx k n))"

lemma verify_hashPassword:
  assumes "secrets_ok sx" and "list_all (\<lambda>b. b < 256) salt" and "salt \<noteq> []"
  shows "verifyPassword sx attempt (hashPassword sx salt password) \<longleftrightarrow>
    sx_scrypt sx attempt (hex salt) = sx_scrypt sx password (hex salt)"
proof -
  let ?h = "sx_scrypt sx password (hex salt)"
  have h: "list_all (\<lambda>b. b < 256) ?h" "?h \<noteq> []" using assms(1) by (auto simp: secrets_ok_def)
  have "split_on (CHR '':'') (''scrypt:'' @ hex salt @ '':'' @ hex ?h) = [''scrypt'', hex salt, hex ?h]"
    using split_three [of "CHR '':''" "''scrypt''" "hex salt" "hex ?h"] hex_plain assms(2) h(1) by simp
  then show ?thesis using assms(3) h by (auto simp: hashPassword_def Let_def verifyPassword_def hex_eq_Nil from_hex_hex)
qed

section \<open>Who logs in\<close>

definition second_factor :: "secrets \<Rightarrow> env \<Rightarrow> db \<Rightarrow> user \<Rightarrow> string option \<Rightarrow> string option \<Rightarrow> bool" where
  "second_factor sx e d u totpCode recoveryCode \<longleftrightarrow>
     (\<exists>secret code. totpCode = Some code \<and>
        totpDecryptSecret (sx_gcm sx) (totpKey sx) (getOr (us_totpSecretEncrypted u) []) = Inr secret \<and>
        verifyCode (sx_hmac1 sx) (now e) secret code = Inr True) \<or>
     (\<exists>c \<in> set (mfaRecoveryCodes d). unusedCode (us_uuid u) c \<and> usableCode sx (normalizeRecoveryCode recoveryCode) c)"

lemma consume_True:
  assumes "consumeRecoveryCode sx e d userId code = (True, d')"
  obtains c where "c \<in> set (mfaRecoveryCodes d)" "unusedCode userId c" "usableCode sx (normalizeRecoveryCode code) c"
    "d' = audit_write (actorEvent userId ACADID_SUPER_ADMIN
         (audit_event_of ''founder_mfa.recovery_code.consume'' ''User'' userId None JUndef))
       (d\<lparr>mfaRecoveryCodes := update_rows (\<lambda>r. mr_uuid r = mr_uuid c \<and> mr_usedAt r = None)
            (mr_usedAt_update (\<lambda>_. Some (now e))) (mfaRecoveryCodes d)\<rparr>)"
proof -
  let ?rows = "take 20 (filter (unusedCode userId) (mfaRecoveryCodes d))"
  obtain c where c: "List.find (usableCode sx (normalizeRecoveryCode code)) ?rows = Some c"
      "d' = audit_write (actorEvent userId ACADID_SUPER_ADMIN
         (audit_event_of ''founder_mfa.recovery_code.consume'' ''User'' userId None JUndef))
       (d\<lparr>mfaRecoveryCodes := update_rows (\<lambda>r. mr_uuid r = mr_uuid c \<and> mr_usedAt r = None)
            (mr_usedAt_update (\<lambda>_. Some (now e))) (mfaRecoveryCodes d)\<rparr>)"
    using assms by (auto simp: consumeRecoveryCode_def Let_def split: if_splits option.splits)
  have "c \<in> set ?rows" "usableCode sx (normalizeRecoveryCode code) c" using find_Some_in [OF c(1)] by simp_all
  then show thesis using that [of c] c(2) by (auto dest: in_set_takeD)
qed

lemma consume_frame:
  assumes "consumeRecoveryCode sx e d userId code = (b, d')"
  shows "users d' = users d \<and> institutionUsers d' = institutionUsers d \<and> institutions d' = institutions d \<and> draws d' = draws d"
  using assms by (auto simp: consumeRecoveryCode_def Let_def split: if_splits option.splits)

lemma checkMfa_Inr:
  assumes "checkMfa sx e d u totpCode recoveryCode = (Inr how, d')"
  shows "(\<not> us_mfaEnabled u \<and> d' = d) \<or> second_factor sx e d u totpCode recoveryCode"
proof (cases "us_mfaEnabled u")
  case True
  let ?v = "if truthy_text totpCode
            then bindE (totpDecryptSecret (sx_gcm sx) (totpKey sx) (getOr (us_totpSecretEncrypted u) [])) (\<lambda>secret.
              verifyCode (sx_hmac1 sx) (now e) secret (getOr totpCode []))
            else Inr False"
  have "\<exists>b. ?v = Inr b" using assms True by (cases ?v) (auto simp: checkMfa_def split: if_splits)
  then obtain b where b: "?v = Inr b" by blast
  show ?thesis
  proof (cases b)
    case True
    with b show ?thesis
      by (auto simp: second_factor_def err_simps truthy_text_def split: if_splits option.splits)
  next
    case False
    with b assms \<open>us_mfaEnabled u\<close> have "\<exists>d''. consumeRecoveryCode sx e d (us_uuid u) recoveryCode = (True, d'')"
      by (auto simp: checkMfa_def split: if_splits prod.splits)
    then show ?thesis by (auto elim!: consume_True simp: second_factor_def)
  qed
qed (use assms in \<open>simp add: checkMfa_def\<close>)

lemma checkMfa_frame:
  assumes "checkMfa sx e d u totpCode recoveryCode = (r, d')"
  shows "users d' = users d \<and> institutionUsers d' = institutionUsers d \<and> institutions d' = institutions d \<and> draws d' = draws d"
  using assms by (auto simp: checkMfa_def dest: consume_frame split: if_splits sum.splits bool.splits prod.splits)

lemma activeMembership_Some:
  assumes "activeMembership d userId = Some m"
  shows "m \<in> set (institutionUsers d)" and "iu_userId m = userId" and "iu_status m = Member_ACTIVE"
    and "active_institution d (iu_institutionId m)"
  using find_Some_in [OF assms [unfolded activeMembership_def]] by (auto simp: membershipsOf_def)

definition session_of :: "secrets \<Rightarrow> env \<Rightarrow> db \<Rightarrow> user \<Rightarrow> login_result" where
  "session_of sx e d u =
     (let m = activeMembership d (us_uuid u); role = (case m of None \<Rightarrow> us_role u | Some m \<Rightarrow> iu_role m);
          own = (case m of None \<Rightarrow> [] | Some m \<Rightarrow> iu_permissions m);
          permissions = (if own \<noteq> [] then own else defaultPermissionsForRole role)
      in \<lparr>lg_accessToken = signToken (sx_hmac256 sx) (jwtSecret (sx_jwtSecret sx)) (now e)
            (loginPayload d u m role permissions (fresh e d)) defaultTokenTtlSeconds,
          lg_user = u, lg_role = role, lg_permissions = permissions, lg_membership = m\<rparr>)"

lemma openSession_Inr:
  assumes "openSession sx e d u how = Inr (r, d')"
  shows "r = session_of sx e d u" and "us_role u = ACADID_SUPER_ADMIN \<or> activeMembership d (us_uuid u) \<noteq> None"
    and "users d' = users d" and "mfaRecoveryCodes d' = mfaRecoveryCodes d" and "institutions d' = institutions d"
    and "institutionUsers d' = (case activeMembership d (us_uuid u) of None \<Rightarrow> institutionUsers d
      | Some m \<Rightarrow> set_by iu_uuid (iu_uuid m) (iu_lastLoginAt_update (\<lambda>_. Some (now e))) (institutionUsers d))"
  using assms
  by (auto simp: openSession_def session_of_def Let_def err_simps drawn_def split: option.splits)

lemma openSession_member:
  assumes "activeMembership d (us_uuid u) = Some m"
  obtains d' where "openSession sx e d u how = Inr (session_of sx e d u, d')"
proof -
  have "find_by iu_uuid (iu_uuid m) (institutionUsers d) \<noteq> None"
    using activeMembership_Some(1) [OF assms] unfolding find_by_None by auto
  then show thesis using assms that by (auto simp: openSession_def session_of_def Let_def update_by_def)
qed

lemma login_Inr:
  assumes "login sx e d email password totpCode recoveryCode = (Inr r, d')"
  obtains u how d1 where "find_by us_email (toLowerCase (trim email)) (users d) = Some u"
    "verifyPassword sx password (us_passwordHash u)"
    "checkMfa sx e d u totpCode recoveryCode = (Inr how, d1)" "openSession sx e d1 u how = Inr (r, d')"
  using assms by (auto simp: login_def split: option.splits if_splits prod.splits sum.splits)

section \<open>The token of a session\<close>

lemma role_of_text: "role_of (role_text r) = Some r"
  by (cases r) (simp_all add: role_of_def)

lemma text_list_texts: "text_list (toJson (JArr (map JStr ss))) = ss"
  by (induction ss) (simp_all add: text_list_def List.map_filter_def toJson.simps)

lemma text_prop_jstr: "getProp ob k = toJson (jstr x) \<Longrightarrow> text_prop ob k = x"
  by (cases x) (simp_all add: text_prop_def jstr_def toJson.simps)

text \<open>The caller that the services see when the token of a session is presented.\<close>

definition session_caller :: "login_result \<Rightarrow> auth_token \<Rightarrow> bool" where
  "session_caller r caller \<longleftrightarrow>
     au_sub caller = us_uuid (lg_user r) \<and> au_role caller = lg_role r \<and> au_kind caller = None \<and>
     au_institutionUuid caller = map_option iu_institutionId (lg_membership r) \<and>
     au_institutionUserId caller = map_option iu_uuid (lg_membership r) \<and>
     au_permissions caller = lg_permissions r"

lemma loginPayload_caller:
  assumes "\<And>k. k \<noteq> ''exp'' \<Longrightarrow> k \<noteq> ''iat'' \<Longrightarrow> getProp payload k = toJson (getProp (loginPayload d u m role permissions sid) k)"
    and "case m of None \<Rightarrow> True | Some m \<Rightarrow> find_by in_uuid (iu_institutionId m) (institutions d) \<noteq> None"
    and "r = \<lparr>lg_accessToken = token, lg_user = u, lg_role = role, lg_permissions = permissions, lg_membership = m\<rparr>"
  shows "\<exists>caller. auth_of payload = Some caller \<and> session_caller r caller"
proof -
  have sub: "text_prop payload ''sub'' = Some (us_uuid u)" "text_prop payload ''role'' = Some (role_text role)"
    using assms(1) [of "''sub''"] assms(1) [of "''role''"]
    by (simp_all add: text_prop_def loginPayload_def Let_def getProp_def toJson.simps)
  have kind: "getProp payload ''kind'' = JUndef"
    using assms(1) [of "''kind''"] by (simp add: loginPayload_def Let_def getProp_def toJson.simps)
  have inst: "text_prop payload ''institutionUuid'' = map_option iu_institutionId m"
  proof (cases m)
    case None
    then have "getProp (loginPayload d u m role permissions sid) ''institutionUuid'' = jstr None"
      by (simp add: loginPayload_def Let_def getProp_def)
    with None show ?thesis by (intro text_prop_jstr) (simp add: assms(1))
  next
    case (Some q)
    with assms(2) obtain x where x: "find_by in_uuid (iu_institutionId q) (institutions d) = Some x" by auto
    then have "in_uuid x = iu_institutionId q" by (rule find_by_key)
    with Some x have "getProp (loginPayload d u m role permissions sid) ''institutionUuid'' = jstr (Some (iu_institutionId q))"
      by (simp add: loginPayload_def Let_def getProp_def)
    with Some show ?thesis by (intro text_prop_jstr) (simp add: assms(1))
  qed
  have "getProp (loginPayload d u m role permissions sid) ''institutionUserId'' = jstr (map_option iu_uuid m)"
      "getProp (loginPayload d u m role permissions sid) ''permissions'' = JArr (map JStr permissions)"
    by (simp_all add: loginPayload_def Let_def getProp_def)
  then have member: "text_prop payload ''institutionUserId'' = map_option iu_uuid m"
      and "getProp payload ''permissions'' = toJson (JArr (map JStr permissions))"
    using assms(1) [of "''institutionUserId''"] assms(1) [of "''permissions''"] by (simp_all add: text_prop_jstr)
  then have perms: "text_list (getProp payload ''permissions'') = permissions" by (simp only: text_list_texts)
  show ?thesis
    using sub kind inst member perms by (simp add: auth_of_def role_of_text session_caller_def assms(3))
qed

lemma session_token:
  assumes "openSession sx e d u how = Inr (r, d')" and "\<And>h m. sx_hmac256 sx h m \<noteq> []"
    and "us_uuid u \<noteq> []" and "us_email u \<noteq> []" and "0 \<le> now e" and "now e < 10 ^ 20"
    and "\<And>m. activeMembership d (us_uuid u) = Some m \<Longrightarrow> wire (iu_assignedScopes m)"
    and "t div 1000 \<le> now e div 1000 + defaultTokenTtlSeconds"
  shows "\<exists>payload caller. verifyToken (sx_hmac256 sx) (jwtSecret (sx_jwtSecret sx)) t (lg_accessToken r) = Inr payload \<and>
    auth_of payload = Some caller \<and> session_caller r caller"
proof -
  define m where "m = activeMembership d (us_uuid u)"
  define role where "role = (case m of None \<Rightarrow> us_role u | Some m \<Rightarrow> iu_role m)"
  define own where "own = (case m of None \<Rightarrow> [] | Some m \<Rightarrow> iu_permissions m)"
  define permissions where "permissions = (if own \<noteq> [] then own else defaultPermissionsForRole role)"
  define p where "p = loginPayload d u m role permissions (fresh e d)"
  define token where "token = signToken (sx_hmac256 sx) (jwtSecret (sx_jwtSecret sx)) (now e) p defaultTokenTtlSeconds"
  have r: "r = \<lparr>lg_accessToken = token, lg_user = u, lg_role = role, lg_permissions = permissions, lg_membership = m\<rparr>"
    using openSession_Inr(1) [OF assms(1)]
    by (simp add: session_of_def Let_def token_def p_def permissions_def own_def role_def m_def)
  have "wire (jstr x)" for x by (cases x) (simp_all add: jstr_def)
  moreover have "wire (assignedScopesOf (case m of None \<Rightarrow> JUndef | Some m \<Rightarrow> iu_assignedScopes m))"
  proof (cases m)
    case (Some q)
    then have "wire (iu_assignedScopes q)" using assms(7) m_def by simp
    with Some show ?thesis by (cases "iu_assignedScopes q") (simp_all add: assignedScopesOf_def)
  qed (simp add: assignedScopesOf_def)
  ultimately have wire: "wire (JObj p)" by (simp add: p_def loginPayload_def Let_def list_all_iff)
  have texts: "list_all (\<lambda>k. \<exists>s. getProp p k = JStr s \<and> s \<noteq> []) [''sub'', ''email'', ''role'']"
    using assms(3,4) by (cases role) (simp_all add: p_def loginPayload_def Let_def getProp_def)
  have ttl: "0 < defaultTokenTtlSeconds" "defaultTokenTtlSeconds < 10 ^ 20" by (simp_all add: defaultTokenTtlSeconds_def)
  obtain payload where payload: "verifyToken (sx_hmac256 sx) (jwtSecret (sx_jwtSecret sx)) t token = Inr payload"
      and props: "\<And>k. getProp payload k = toJson (getProp (tokenPayload (now e) p defaultTokenTtlSeconds) k)"
    using signed_token_verifies [where hmac = "sx_hmac256 sx" and key = "jwtSecret (sx_jwtSecret sx)" and t' = t,
        OF wire assms(5,6) ttl texts assms(2)] assms(8)
    unfolding token_def by auto
  have found: "case m of None \<Rightarrow> True | Some m \<Rightarrow> find_by in_uuid (iu_institutionId m) (institutions d) \<noteq> None"
    using activeMembership_Some(4) [of d "us_uuid u"] m_def by (auto simp: active_institution_def split: option.splits)
  have "\<exists>caller. auth_of payload = Some caller \<and> session_caller r caller"
    by (rule loginPayload_caller [OF _ found r]) (simp add: props tokenPayload_props p_def)
  with payload show ?thesis by (auto simp: r)
qed

text \<open>C34. A session opens only for the account of the email and its password; where MFA is enabled, only with
  a code of the authenticator or an unused recovery code. It is that of an active membership in an active
  institution, or of a founder without one; and for the eight hours of its life the token that is handed out
  verifies, and the caller that the services read out of it is that account, with the role, the institution
  and the permissions of that membership (its own ones, or the defaults of the role). This is for a clock
  of at most \<open>10 ^ 20\<close> milliseconds since 1970, accounts with an identifier and an address, and stored scopes
  whose numbers are whole.\<close>

theorem login_authenticates:
  assumes "login sx e d email password totpCode recoveryCode = (Inr r, d')"
    and "\<And>h m. sx_hmac256 sx h m \<noteq> []" and "us_uuid (lg_user r) \<noteq> []" and "us_email (lg_user r) \<noteq> []"
    and "0 \<le> now e" and "now e < 10 ^ 20" and "\<And>m. m \<in> set (institutionUsers d) \<Longrightarrow> wire (iu_assignedScopes m)"
    and "t div 1000 \<le> now e div 1000 + 8 * 60 * 60"
  shows "lg_user r \<in> set (users d) \<and> us_email (lg_user r) = toLowerCase (trim email) \<and>
    verifyPassword sx password (us_passwordHash (lg_user r)) \<and>
    (us_mfaEnabled (lg_user r) \<longrightarrow> second_factor sx e d (lg_user r) totpCode recoveryCode) \<and>
    (case lg_membership r of
       None \<Rightarrow> us_role (lg_user r) = ACADID_SUPER_ADMIN \<and> lg_role r = ACADID_SUPER_ADMIN \<and>
         lg_permissions r = defaultPermissionsForRole ACADID_SUPER_ADMIN
     | Some m \<Rightarrow> m \<in> set (institutionUsers d) \<and> iu_userId m = us_uuid (lg_user r) \<and> iu_status m = Member_ACTIVE \<and>
         active_institution d (iu_institutionId m) \<and> lg_role r = iu_role m \<and>
         lg_permissions r = (if iu_permissions m \<noteq> [] then iu_permissions m else defaultPermissionsForRole (iu_role m))) \<and>
    (\<exists>payload caller. verifyToken (sx_hmac256 sx) (jwtSecret (sx_jwtSecret sx)) t (lg_accessToken r) = Inr payload \<and>
       auth_of payload = Some caller \<and> au_sub caller = us_uuid (lg_user r) \<and> au_role caller = lg_role r \<and>
       au_institutionUuid caller = map_option iu_institutionId (lg_membership r) \<and>
       au_institutionUserId caller = map_option iu_uuid (lg_membership r) \<and> au_permissions caller = lg_permissions r)"
proof -
  from assms(1) obtain u how d1 where u: "find_by us_email (toLowerCase (trim email)) (users d) = Some u"
      and pw: "verifyPassword sx password (us_passwordHash u)"
      and mfa: "checkMfa sx e d u totpCode recoveryCode = (Inr how, d1)" and session: "openSession sx e d1 u how = Inr (r, d')"
    by (rule login_Inr)
  note frame = checkMfa_frame [OF mfa]
  have active: "active_institution d1 = active_institution d" using frame by (simp add: active_institution_def fun_eq_iff)
  note r = openSession_Inr(1,2) [OF session]
  have user: "lg_user r = u" using r(1) by (simp add: session_of_def Let_def)
  have member: "case lg_membership r of
       None \<Rightarrow> us_role u = ACADID_SUPER_ADMIN \<and> lg_role r = ACADID_SUPER_ADMIN \<and>
         lg_permissions r = defaultPermissionsForRole ACADID_SUPER_ADMIN
     | Some m \<Rightarrow> m \<in> set (institutionUsers d) \<and> iu_userId m = us_uuid u \<and> iu_status m = Member_ACTIVE \<and>
         active_institution d (iu_institutionId m) \<and> lg_role r = iu_role m \<and>
         lg_permissions r = (if iu_permissions m \<noteq> [] then iu_permissions m else defaultPermissionsForRole (iu_role m))"
  proof (cases "activeMembership d1 (us_uuid u)")
    case None
    with r show ?thesis by (simp add: session_of_def Let_def)
  next
    case (Some m)
    from activeMembership_Some [OF this] Some r frame active show ?thesis by (simp add: session_of_def Let_def)
  qed
  have ids: "us_uuid u \<noteq> []" "us_email u \<noteq> []" using assms(3,4) by (simp_all add: user)
  have scopes: "wire (iu_assignedScopes m)" if "activeMembership d1 (us_uuid u) = Some m" for m
    using assms(7) activeMembership_Some(1) [OF that] frame by simp
  have "t div 1000 \<le> now e div 1000 + defaultTokenTtlSeconds" using assms(8) by (simp add: defaultTokenTtlSeconds_def)
  from session_token [OF session assms(2) ids assms(5,6) scopes this] find_by_Some [OF u] pw checkMfa_Inr [OF mfa] member
  show ?thesis unfolding user session_caller_def by auto
qed

section \<open>Recovery codes\<close>

text \<open>A recovery code opens one session. If only one stored code of the account answers to it, then after a
  login that used it no later login gets in with it.\<close>

theorem recovery_code_used_once:
  assumes "login sx e d email password None recoveryCode = (Inr r, d')" and "us_mfaEnabled (lg_user r)"
    and "\<And>c c'. c \<in> set (mfaRecoveryCodes d) \<Longrightarrow> c' \<in> set (mfaRecoveryCodes d) \<Longrightarrow>
      usableCode sx (normalizeRecoveryCode recoveryCode) c \<Longrightarrow> usableCode sx (normalizeRecoveryCode recoveryCode) c' \<Longrightarrow> c = c'"
  shows "login sx e' d' email password None recoveryCode = (Inl (Unauthorized ''Invalid authenticator code.''), d')"
proof -
  let ?code = "normalizeRecoveryCode recoveryCode"
  from assms(1) obtain u how d1 where u: "find_by us_email (toLowerCase (trim email)) (users d) = Some u"
      and pw: "verifyPassword sx password (us_passwordHash u)"
      and mfa: "checkMfa sx e d u None recoveryCode = (Inr how, d1)" and session: "openSession sx e d1 u how = Inr (r, d')"
    by (rule login_Inr)
  have "lg_user r = u" using openSession_Inr(1) [OF session] by (simp add: session_of_def Let_def)
  with assms(2) have enabled: "us_mfaEnabled u" by simp
  with mfa have secret: "truthy_text (us_totpSecretEncrypted u)" by (auto simp: checkMfa_def split: if_splits)
  have "consumeRecoveryCode sx e d (us_uuid u) recoveryCode = (True, d1)"
    using mfa enabled by (auto simp: checkMfa_def truthy_text_def split: if_splits prod.splits)
  then obtain c where c: "c \<in> set (mfaRecoveryCodes d)" "usableCode sx ?code c"
      "mfaRecoveryCodes d1 = update_rows (\<lambda>r. mr_uuid r = mr_uuid c \<and> mr_usedAt r = None)
         (mr_usedAt_update (\<lambda>_. Some (now e))) (mfaRecoveryCodes d)"
    by (rule consume_True) simp
  have "\<not> usableCode sx ?code x" if x: "x \<in> set (take 20 (filter (unusedCode (us_uuid u)) (mfaRecoveryCodes d')))" for x
  proof
    assume usable: "usableCode sx ?code x"
    have "x \<in> set (mfaRecoveryCodes d1)" and unused: "mr_usedAt x = None"
      using x openSession_Inr(4) [OF session] by (auto dest!: in_set_takeD simp: unusedCode_def)
    then obtain y where y: "y \<in> set (mfaRecoveryCodes d)"
        "x = (if mr_uuid y = mr_uuid c \<and> mr_usedAt y = None then mr_usedAt_update (\<lambda>_. Some (now e)) y else y)"
      unfolding c(3) set_update_rows by blast
    then have "usableCode sx ?code y" using usable by (auto simp: usableCode_def split: if_splits)
    with assms(3) y(1) c(1,2) have "y = c" by blast
    with y(2) unused show False by (auto split: if_splits)
  qed
  then have "List.find (usableCode sx ?code) (take 20 (filter (unusedCode (us_uuid u)) (mfaRecoveryCodes d'))) = None"
    unfolding find_None_iff' by blast
  then have "consumeRecoveryCode sx e' d' (us_uuid u) recoveryCode = (False, d')"
    by (simp add: consumeRecoveryCode_def Let_def)
  then have "checkMfa sx e' d' u None recoveryCode = (Inl (Unauthorized ''Invalid authenticator code.''), d')"
    using enabled secret by (simp add: checkMfa_def truthy_text_def)
  moreover have "find_by us_email (toLowerCase (trim email)) (users d') = Some u"
    using u checkMfa_frame [OF mfa] openSession_Inr(3) [OF session] by simp
  ultimately show ?thesis using pw by (simp add: login_def)
qed

section \<open>Invitations\<close>

lemma drawn_frame [simp]:
  "users (drawn d) = users d" "institutionUsers (drawn d) = institutionUsers d" "institutions (drawn d) = institutions d"
  by (simp_all add: drawn_def)

lemma upsertUser_existing:
  "find_by us_email email (users d) = Some u \<Longrightarrow> upsertUser e d email name phone role h =
     (invitedUser name phone u, d\<lparr>users := set_by us_email email (invitedUser name phone) (users d)\<rparr>)"
  by (simp add: upsertUser_def)

lemma invite_existing:
  assumes "inviteInstitutionUser sx e d auth input = Inr (m, token, d1)"
    and "find_by us_email (toLowerCase (trim (getOr (vi_email input) []))) (users d) = Some u"
    and "\<And>role i. List.find (memberKey (us_uuid u) i role) (institutionUsers d) = None \<or> i \<noteq> iu_institutionId m"
  shows "institutionUsers d1 = institutionUsers d @ [m]" and "iu_userId m = us_uuid u" and "iu_status m = Member_INVITED"
    and "iu_role m \<in> set staffRoles" and "iu_inviteTokenHash m = Some (sha256 e token)"
    and "iu_inviteExpiresAt m = Some (now e + 7 * 24 * 60 * 60 * 1000)" and "active_institution d (iu_institutionId m)"
    and "institutions d1 = institutions d" and "\<exists>name phone. users d1 = set_by us_email (us_email u) (invitedUser name phone) (users d)"
    and "\<exists>random. token = createInviteToken random"
proof -
  have email: "us_email u = toLowerCase (trim (getOr (vi_email input) []))" using find_by_key [OF assms(2)] .
  define name phone where "name = trim (getOr (vi_fullName input) [])" and "phone = trimmed (vi_phone input)"
  define d2 where "d2 = (drawn (drawn (drawn d)))\<lparr>users := set_by us_email (us_email u) (invitedUser name phone) (users d)\<rparr>"
  define permissions where "permissions = (\<lambda>role. if getOr (vi_permissions input) [] \<noteq> [] then getOr (vi_permissions input) []
    else defaultPermissionsForRole role)"
  define scopes where "scopes = assignedScopesOf (vi_assignedScopes input)"
  have token: "token = createInviteToken (randomBytes sx d 32)"
    using assms(1,2) unfolding inviteInstitutionUser_def Let_def by (auto simp: err_simps upsertUser_existing)
  obtain role i d3 where role: "parseInstitutionRole (vi_role input) = Inr role" and inst: "active_institution d i"
      and up: "upsertMember e d2 (us_uuid u) i role (invitedMember e auth (permissions role) scopes (sha256 e token)) = Inr (m, d3)"
      and d3: "institutionUsers d1 = institutionUsers d3" "users d1 = users d3" "institutions d1 = institutions d3"
    using assms(1,2) unfolding inviteInstitutionUser_def Let_def d2_def name_def phone_def permissions_def scopes_def token email
    by (auto simp: err_simps upsertUser_existing email invitedUser_def)
  have "iu_institutionId m = i" using up
    by (auto simp: upsertMember_def invitedMember_def newMember_def memberKey_def Let_def err_simps dest!: find_Some_in split: option.splits)
  then have "List.find (memberKey (us_uuid u) i role) (institutionUsers d2) = None"
    using assms(3) [of i role] d2_def by (auto simp: drawn_def)
  then have m: "m = invitedMember e auth (permissions role) scopes (sha256 e token) (newMember (us_uuid u) i role (fresh e d2))"
      and rows: "institutionUsers d1 = institutionUsers d2 @ [m]" "users d1 = users d2" "institutions d1 = institutions d2"
    using up d3 by (auto simp: upsertMember_def Let_def err_simps drawn_def)
  show "institutionUsers d1 = institutionUsers d @ [m]" "institutions d1 = institutions d"
      "\<exists>name phone. users d1 = set_by us_email (us_email u) (invitedUser name phone) (users d)"
    using rows d2_def by (auto simp: drawn_def)
  show "iu_userId m = us_uuid u" "iu_status m = Member_INVITED" "iu_inviteTokenHash m = Some (sha256 e token)"
      "iu_inviteExpiresAt m = Some (now e + 7 * 24 * 60 * 60 * 1000)" "active_institution d (iu_institutionId m)"
    using m inst by (simp_all add: invitedMember_def newMember_def)
  show "iu_role m \<in> set staffRoles"
    using m role by (auto simp: invitedMember_def newMember_def parseInstitutionRole_def err_simps dest!: find_Some_in split: option.splits)
  show "\<exists>random. token = createInviteToken random" using token by blast
qed

lemma base64_digit_not_space: "\<not> is_space (base64_digit (CHR ''-'') (CHR ''_'') n)"
proof -
  consider "n < 26" | "26 \<le> n" "n < 52" | "52 \<le> n" "n < 62" | "62 \<le> n" by linarith
  then show ?thesis
  proof cases
    case 1
    then show ?thesis by (simp add: base64_digit_def is_space_def of_char_char)
  next
    case 2
    then show ?thesis by (simp add: base64_digit_def is_space_def of_char_char)
  next
    case 3
    then show ?thesis by (auto simp: base64_digit_def is_space_def of_char_char)
  next
    case 4
    then show ?thesis by (simp add: base64_digit_def is_space_def)
  qed
qed

lemma trim_plain: "(\<And>c. c \<in> set s \<Longrightarrow> \<not> is_space c) \<Longrightarrow> trim s = s"
proof -
  have drop: "dropWhile is_space t = t" if "\<And>c. c \<in> set t \<Longrightarrow> \<not> is_space c" for t
    using that by (cases t) auto
  assume "\<And>c. c \<in> set s \<Longrightarrow> \<not> is_space c"
  then show ?thesis using drop [of s] drop [of "rev s"] by (simp add: trim_def)
qed

lemma trim_token: "trim (createInviteToken random) = createInviteToken random"
proof (rule trim_plain)
  fix c
  assume "c \<in> set (createInviteToken random)"
  moreover have "\<not> is_space c" if "c \<in> set ''inv_''" using that by (auto simp: is_space_def)
  ultimately show "\<not> is_space c" using base64_digit_not_space by (auto simp: createInviteToken_def base64url_bytes_def)
qed

lemma accept_invited:
  assumes "secrets_ok sx" and "iu_inviteTokenHash m = Some (sha256 e token)" and "trim token = token" and "token \<noteq> []"
    and "institutionUsers d = others @ [m]" and "\<And>x. x \<in> set others \<Longrightarrow> iu_inviteTokenHash x \<noteq> Some (sha256 e token) \<and> iu_uuid x \<noteq> iu_uuid m"
    and "iu_status m = Member_INVITED" and "iu_inviteExpiresAt m = Some t" and "now e \<le> t"
    and "active_institution d (iu_institutionId m)" and "iu_userId m \<in> us_uuid ` set (users d)" and "8 \<le> length password"
  shows "\<exists>d'. acceptInstitutionInvite sx e d \<lparr>vp_token = Some token, vp_password = Some password, vp_fullName = None, vp_phone = None\<rparr> =
      Inr (acceptedMember (now e) m, d') \<and>
    users d' = set_by us_uuid (iu_userId m) (us_passwordHash_update (\<lambda>_. hashPassword sx (randomBytes sx d 16) password)) (users d) \<and>
    institutionUsers d' = others @ [acceptedMember (now e) m] \<and> institutions d' = institutions d"
proof -
  let ?input = "\<lparr>vp_token = Some token, vp_password = Some password, vp_fullName = None, vp_phone = None\<rparr>"
  have found: "List.find (\<lambda>m. iu_inviteTokenHash m = Some (sha256 e token)) (institutionUsers d) = Some m"
  proof -
    have "List.find (\<lambda>m. iu_inviteTokenHash m = Some (sha256 e token)) others = None"
      unfolding find_None_iff' using assms(6) by blast
    then show ?thesis using assms(2,5) by (simp add: find_append)
  qed
  have other: "iu_uuid m \<notin> iu_uuid ` set others" using assms(6) by (metis (no_types, lifting) imageE)
  then have "find_by iu_uuid (iu_uuid m) (institutionUsers d) = Some m"
    using assms(5) find_by_None [THEN iffD2, OF other] by (simp add: find_by_append)
  moreover have "set_by iu_uuid (iu_uuid m) (acceptedMember (now e)) (institutionUsers d) = others @ [acceptedMember (now e) m]"
    using assms(5) set_by_id [OF other] by (simp add: set_by_def update_rows_def)
  moreover have "acceptedUser h ?input = us_passwordHash_update (\<lambda>_. h)" for h
    by (rule ext) (simp add: acceptedUser_def trimmed_def)
  moreover obtain u where "find_by us_uuid (iu_userId m) (users d) = Some u"
    using assms(11) find_by_None [of us_uuid "iu_userId m" "users d"] by (cases "find_by us_uuid (iu_userId m) (users d)") auto
  ultimately show ?thesis
    using assms(3,4,7-10,12) found
    by (simp add: acceptInstitutionInvite_def Let_def update_by_def drawn_def)
qed

text \<open>A registrar takes over an account of another institution: the invitation of an address that already has
  an account shows its token to the registrar, and accepting it with a password of their own replaces the
  password of that account. Without MFA they then hold the owner's session in the owner's institution.\<close>

theorem invitation_takes_over_account:
  assumes "secrets_ok sx" and "inviteInstitutionUser sx e d auth input = Inr (m, token, d1)"
    and "find_by us_email (toLowerCase (trim (getOr (vi_email input) []))) (users d) = Some u" and "\<not> us_mfaEnabled u"
    and "activeMembership d (us_uuid u) = Some own"
    and "\<And>x. x \<in> set (institutionUsers d) \<Longrightarrow> iu_userId x = us_uuid u \<Longrightarrow> iu_institutionId x \<noteq> iu_institutionId m"
    and "\<And>x. x \<in> set (institutionUsers d) \<Longrightarrow> iu_inviteTokenHash x \<noteq> Some (sha256 e token) \<and> iu_uuid x \<noteq> iu_uuid m"
    and "sha256 e' = sha256 e" and "now e' \<le> now e + 7 * 24 * 60 * 60 * 1000" and "8 \<le> length password"
  shows "\<exists>d2 r d3.
    acceptInstitutionInvite sx e' d1 \<lparr>vp_token = Some token, vp_password = Some password, vp_fullName = None, vp_phone = None\<rparr> =
      Inr (acceptedMember (now e') m, d2) \<and>
    login sx e' d2 (getOr (vi_email input) []) password None None = (Inr r, d3) \<and>
    us_uuid (lg_user r) = us_uuid u \<and> lg_membership r = Some own \<and> lg_role r = iu_role own \<and>
    iu_institutionId own \<noteq> iu_institutionId m"
proof -
  let ?email = "toLowerCase (trim (getOr (vi_email input) []))"
  have email: "us_email u = ?email" using find_by_key [OF assms(3)] .
  have "List.find (memberKey (us_uuid u) i role) (institutionUsers d) = None \<or> i \<noteq> iu_institutionId m" for role i
    unfolding find_None_iff' using assms(6) by (auto simp: memberKey_def)
  note inv = invite_existing [OF assms(2,3) this]
  obtain name phone where users1: "users d1 = set_by us_email (us_email u) (invitedUser name phone) (users d)" using inv(9) by blast
  obtain random where token: "token = createInviteToken random" using inv(10) by blast
  have "u \<in> set (users d)" using find_by_Some [OF assms(3)] by blast
  then have "invitedUser name phone u \<in> set (users d1)" unfolding users1 in_set_by by blast
  then have "us_uuid (invitedUser name phone u) \<in> us_uuid ` set (users d1)" by (rule imageI)
  then have member: "iu_userId m \<in> us_uuid ` set (users d1)" using inv(2) by (simp add: invitedUser_def)
  have active1: "active_institution d1 = active_institution d" using inv(8) by (simp add: active_institution_def fun_eq_iff)
  have "token \<noteq> []" "trim token = token" using trim_token by (simp_all add: token createInviteToken_def)
  then obtain d2 where accepted: "acceptInstitutionInvite sx e' d1
        \<lparr>vp_token = Some token, vp_password = Some password, vp_fullName = None, vp_phone = None\<rparr> = Inr (acceptedMember (now e') m, d2)"
      and users2: "users d2 = set_by us_uuid (iu_userId m) (us_passwordHash_update (\<lambda>_. hashPassword sx (randomBytes sx d1 16) password)) (users d1)"
      and members2: "institutionUsers d2 = institutionUsers d @ [acceptedMember (now e') m]" and inst2: "institutions d2 = institutions d1"
    using accept_invited [of sx m e' token d1 "institutionUsers d" "now e + 7 * 24 * 60 * 60 * 1000" password]
      assms(1,7,8,9,10) inv active1 member by auto
  let ?u = "(invitedUser name phone u)\<lparr>us_passwordHash := hashPassword sx (randomBytes sx d1 16) password\<rparr>"
  have "find_by us_email ?email (users d2) = Some ?u"
    unfolding users2 users1 set_by_def using assms(3) inv(2) email by (simp add: find_by_update_rows invitedUser_def)
  moreover have "length (randomBytes sx d1 16) = 16" "list_all (\<lambda>b. b < 256) (randomBytes sx d1 16)"
    using assms(1) by (simp_all add: secrets_ok_def randomBytes_def)
  then have "verifyPassword sx password (us_passwordHash ?u)"
    using verify_hashPassword [OF assms(1), of "randomBytes sx d1 16" password password] by fastforce
  moreover have own: "activeMembership d2 (us_uuid ?u) = Some own"
    using assms(5) members2 inst2 inv(8)
    by (simp add: activeMembership_def membershipsOf_def find_append invitedUser_def active_institution_def)
  from own obtain d3 where "openSession sx e' d2 ?u ''NONE'' = Inr (session_of sx e' d2 ?u, d3)" by (rule openSession_member)
  ultimately have "login sx e' d2 (getOr (vi_email input) []) password None None = (Inr (session_of sx e' d2 ?u), d3)"
    using assms(4) by (simp add: login_def checkMfa_def invitedUser_def)
  moreover have "us_uuid (lg_user (session_of sx e' d2 ?u)) = us_uuid u" "lg_membership (session_of sx e' d2 ?u) = Some own"
      "lg_role (session_of sx e' d2 ?u) = iu_role own"
    using own by (simp_all add: session_of_def Let_def invitedUser_def)
  moreover have "iu_institutionId own \<noteq> iu_institutionId m" using activeMembership_Some [OF assms(5)] assms(6) by blast
  ultimately show ?thesis using accepted by blast
qed

section \<open>No session of a learner\<close>

definition staff_only :: "db \<Rightarrow> bool" where
  "staff_only d \<longleftrightarrow> list_all (\<lambda>m. iu_role m \<in> set staffRoles) (institutionUsers d)"

text \<open>Everything the authentication service writes.\<close>

inductive auth_op :: "secrets \<Rightarrow> db \<Rightarrow> db \<Rightarrow> bool" for sx where
  login: "login sx e d email password totpCode recoveryCode = (r, d') \<Longrightarrow> auth_op sx d d'"
| invite: "inviteInstitutionUser sx e d auth input = Inr (m, token, d') \<Longrightarrow> auth_op sx d d'"
| accept: "acceptInstitutionInvite sx e d accepted = Inr (m, d') \<Longrightarrow> auth_op sx d d'"
| set_up: "setupTotp sx d auth = Inr (s, d') \<Longrightarrow> auth_op sx d d'"
| enable: "enableTotp sx e d auth code = Inr d' \<Longrightarrow> auth_op sx d d'"
| rotate: "rotateRecoveryCodes sx e d auth rotation = Inr (codes, d') \<Longrightarrow> auth_op sx d d'"
| token: "issueApiToken sx e d clientId clientSecret = Inr (t, d') \<Longrightarrow> auth_op sx d d'"

lemma staff_set_by:
  "list_all (\<lambda>m. iu_role m \<in> S) ms \<Longrightarrow> (\<And>m. iu_role (f m) = iu_role m) \<Longrightarrow> list_all (\<lambda>m. iu_role m \<in> S) (update_rows p f ms)"
  by (induction ms) auto

lemma login_staff:
  assumes "login sx e d email password totpCode recoveryCode = (r, d')" and "staff_only d"
  shows "staff_only d'"
proof -
  have frame: "staff_only d1" if "checkMfa sx e d u totpCode recoveryCode = (how, d1)" for u how d1
    using checkMfa_frame [OF that] assms(2) by (simp add: staff_only_def)
  have session: "staff_only d2" if "openSession sx e d1 u how = Inr (s, d2)" "staff_only d1" for d1 d2 s u how
    using openSession_Inr(6) [OF that(1)] that(2) by (auto simp: staff_only_def set_by_def intro!: staff_set_by split: option.splits)
  show ?thesis
    using assms frame session
    by (auto simp: login_def split: option.splits if_splits prod.splits sum.splits)
qed

lemma invite_staff:
  assumes "inviteInstitutionUser sx e d auth input = Inr (m, token, d')" and "staff_only d"
  shows "staff_only d'"
proof -
  let ?u = "\<lambda>role. upsertUser e (drawn (drawn (drawn d))) (toLowerCase (trim (getOr (vi_email input) [])))
     (trim (getOr (vi_fullName input) [])) (trimmed (vi_phone input)) role
     (hashPassword sx (randomBytes sx (drawn (drawn d)) 16) (base64url_bytes (randomBytes sx (drawn d) 32)))"
  let ?f = "\<lambda>role. invitedMember e auth (if getOr (vi_permissions input) [] \<noteq> [] then getOr (vi_permissions input) []
     else defaultPermissionsForRole role) (assignedScopesOf (vi_assignedScopes input)) (sha256 e token)"
  obtain role i d2 where role: "parseInstitutionRole (vi_role input) = Inr role"
      and up: "upsertMember e (snd (?u role)) (us_uuid (fst (?u role))) i role (?f role) = Inr (m, d2)"
      and up': "institutionUsers d' = institutionUsers d2"
    using assms(1) unfolding inviteInstitutionUser_def Let_def split_beta by (auto simp: err_simps)
  have same: "institutionUsers (snd (?u role)) = institutionUsers d"
    by (auto simp: upsertUser_def Let_def drawn_def split: option.splits)
  have f: "iu_role (?f role x) = iu_role x" for x by (simp add: invitedMember_def)
  have "role \<in> set staffRoles"
    using role by (auto simp: parseInstitutionRole_def err_simps dest!: find_Some_in split: option.splits)
  then have "staff_only d2"
    using up assms(2) f same
    by (auto simp: upsertMember_def Let_def err_simps staff_only_def newMember_def drawn_def intro!: staff_set_by split: option.splits)
  with up' show ?thesis by (simp add: staff_only_def)
qed

lemma auth_op_staff: "auth_op sx d d' \<Longrightarrow> staff_only d \<Longrightarrow> staff_only d'"
proof (induction rule: auth_op.induct)
  case (accept e d accepted m d')
  then show ?case
    by (auto simp: acceptInstitutionInvite_def Let_def err_simps staff_only_def drawn_def set_by_def acceptedMember_def intro!: staff_set_by)
next
  case (rotate e d auth rotation codes d')
  have codes: "institutionUsers x = institutionUsers d0" if "recoveryCodes sx n d0 = (cs, x)" for n d0 cs x
    using that by (induction sx n d0 arbitrary: cs x rule: recoveryCodes.induct) (auto simp: Let_def drawn_def split: prod.splits)
  have rows: "institutionUsers x = institutionUsers d0" if "recoveryRows sx e i cs d0 = (rs, x)" for i cs d0 rs x
    using that by (induction sx e i cs d0 arbitrary: rs x rule: recoveryRows.induct) (auto simp: Let_def drawn_def split: prod.splits)
  show ?case using rotate by (auto simp: rotateRecoveryCodes_def err_simps staff_only_def dest!: codes rows split: prod.splits)
qed (auto simp: login_staff invite_staff staff_only_def setupTotp_def enableTotp_def issueApiToken_def Let_def err_simps drawn_def
      dest: login_staff invite_staff)

text \<open>No one gets the session of a learner. Memberships have one of the five staff roles, whatever the service
  does, and a login gives the role of a membership or the founder's: the guard of the learner's endpoints,
  which asks for \<open>STUDENT\<close>, refuses every session.\<close>

theorem no_learner_session:
  assumes "(auth_op sx)\<^sup>*\<^sup>* d0 d" and "staff_only d0"
    and "login sx e d email password totpCode recoveryCode = (Inr r, d')"
  shows "lg_role r \<noteq> STUDENT \<and> \<not> rolesGuard [''STUDENT''] [(''role'', JStr (role_text (lg_role r)))]"
proof -
  have staff: "staff_only d" using assms(1,2) by (induction rule: rtranclp_induct) (auto dest: auth_op_staff)
  from assms(3) obtain u how d1 where mfa: "checkMfa sx e d u totpCode recoveryCode = (Inr how, d1)"
      and session: "openSession sx e d1 u how = Inr (r, d')" by (rule login_Inr)
  have "lg_role r \<in> insert ACADID_SUPER_ADMIN (set staffRoles)"
  proof (cases "activeMembership d1 (us_uuid u)")
    case None
    then show ?thesis using openSession_Inr(1,2) [OF session] by (simp add: session_of_def Let_def)
  next
    case (Some m)
    then have "m \<in> set (institutionUsers d)" using activeMembership_Some(1) checkMfa_frame [OF mfa] by fastforce
    then show ?thesis
      using Some staff openSession_Inr(1) [OF session] by (auto simp: session_of_def Let_def staff_only_def list_all_iff)
  qed
  then show ?thesis by (auto simp: rolesGuard_def getProp_def staffRoles_def)
qed

section \<open>Witnesses\<close>

definition toy_secrets :: secrets where
  "toy_secrets = \<lparr>sx_random = (\<lambda>k n. replicate n (k mod 256)), sx_scrypt = (\<lambda>p s. 7 # utf8 p),
     sx_hmac256 = (\<lambda>k m. [1]), sx_hmac1 = toy_hmac, sx_gcm = toy_gcm, sx_jwtSecret = None, sx_totpKey = None\<rparr>"

lemma toy_secrets_ok: "secrets_ok toy_secrets"
  by (simp add: secrets_ok_def toy_secrets_def utf8_bytes list_all_iff [where xs = "replicate _ _"])

definition owner :: user where
  "owner = \<lparr>us_uuid = ''o'', us_email = ''o@b.edu'', us_passwordHash = ''scrypt:00:07616263'', us_fullName = ''Owner'',
     us_phone = None, us_role = REGISTRAR, us_learnerId = None, us_mfaEnabled = False, us_totpSecretEncrypted = None,
     us_totpEnabledAt = None\<rparr>"

definition owner_membership :: institution_user where
  "owner_membership = (newMember ''o'' ''b'' REGISTRAR ''m2'')\<lparr>iu_status := Member_ACTIVE\<rparr>"

text \<open>A second school with its registrar, whose password is \<open>abc\<close>.\<close>

definition two_schools :: db where
  "two_schools = sample_db\<lparr>
     institutions := institutions sample_db @ [\<lparr>in_uuid = ''b'', in_institutionId = ''ACD-2'', in_officialName = ''College'',
       in_type = ''TERTIARY'', in_institutionCategory = ''COLLEGE_OF_EDUCATION'',
       in_academicTemplateCode = ''COLLEGE_SEMESTER_NCE_COURSE'', in_state = ''Oyo'', in_tier = ''FOUNDING'', in_mouSignedAt = None,
       in_status = Inst_ACTIVE\<rparr>],
     institutionUsers := institutionUsers sample_db @ [owner_membership], users := [owner]\<rparr>"

lemma owner_active: "activeMembership two_schools (us_uuid owner) = Some owner_membership"
  by code_simp

lemma owner_logs_in:
  "\<exists>r d'. login toy_secrets sample_env two_schools ''o@b.edu'' ''abc'' None None = (Inr r, d') \<and> lg_user r = owner \<and>
     lg_role r = REGISTRAR"
proof -
  have "find_by us_email (toLowerCase (trim ''o@b.edu'')) (users two_schools) = Some owner" by code_simp
  moreover have "verifyPassword toy_secrets ''abc'' (us_passwordHash owner)" by code_simp
  moreover obtain d' where "openSession toy_secrets sample_env two_schools owner ''NONE'' =
      Inr (session_of toy_secrets sample_env two_schools owner, d')"
    using owner_active by (rule openSession_member)
  moreover have "lg_user (session_of toy_secrets sample_env two_schools owner) = owner"
      "lg_role (session_of toy_secrets sample_env two_schools owner) = REGISTRAR"
    using owner_active by (simp_all add: session_of_def Let_def owner_membership_def newMember_def)
  ultimately show ?thesis by (simp add: login_def checkMfa_def owner_def)
qed

theorem login_authenticates_witness:
  "\<exists>r d' payload caller. login toy_secrets sample_env two_schools ''o@b.edu'' ''abc'' None None = (Inr r, d') \<and>
     verifyToken (sx_hmac256 toy_secrets) (jwtSecret (sx_jwtSecret toy_secrets)) 1000 (lg_accessToken r) = Inr payload \<and>
     auth_of payload = Some caller \<and> au_sub caller = ''o'' \<and> au_role caller = REGISTRAR"
proof -
  obtain r d' where login: "login toy_secrets sample_env two_schools ''o@b.edu'' ''abc'' None None = (Inr r, d')"
      "lg_user r = owner" "lg_role r = REGISTRAR"
    using owner_logs_in by blast
  have digest: "sx_hmac256 toy_secrets h m \<noteq> []" for h m by (simp add: toy_secrets_def)
  have facts: "us_uuid (lg_user r) \<noteq> []" "us_email (lg_user r) \<noteq> []" "0 \<le> now sample_env" "now sample_env < 10 ^ 20"
      "(1000 :: int) div 1000 \<le> now sample_env div 1000 + 8 * 60 * 60"
    by (simp_all add: login(2) owner_def sample_env_def)
  have scopes: "wire (iu_assignedScopes m)" if "m \<in> set (institutionUsers two_schools)" for m
    using that by (auto simp: two_schools_def sample_db_def owner_membership_def newMember_def)
  have "us_uuid (lg_user r) = ''o''" by (simp add: login(2) owner_def)
  with login_authenticates [OF login(1) digest facts(1-4) scopes facts(5)] login(1,3) show ?thesis by auto
qed

theorem no_learner_session_witness:
  "\<exists>r d'. login toy_secrets sample_env two_schools ''o@b.edu'' ''abc'' None None = (Inr r, d') \<and>
     \<not> rolesGuard [''STUDENT''] [(''role'', JStr (role_text (lg_role r)))]"
proof -
  obtain r d' where login: "login toy_secrets sample_env two_schools ''o@b.edu'' ''abc'' None None = (Inr r, d')"
    using owner_logs_in by blast
  have "staff_only two_schools"
    by (simp add: staff_only_def two_schools_def sample_db_def owner_membership_def newMember_def staffRoles_def)
  then show ?thesis using no_learner_session [OF rtranclp.rtrancl_refl _ login] login by blast
qed

definition mfa_db :: db where
  "mfa_db = two_schools\<lparr>users := [owner\<lparr>us_mfaEnabled := True, us_totpSecretEncrypted := Some ''s''\<rparr>],
     mfaRecoveryCodes := [\<lparr>mr_uuid = ''c'', mr_userId = ''o'', mr_codeHash = ''scrypt:00:0741313233'', mr_usedAt = None,
       mr_createdAt = 0\<rparr>]\<rparr>"

lemma recovery_login:
  "\<exists>r d'. login toy_secrets sample_env mfa_db ''o@b.edu'' ''abc'' None (Some ''a-123'') = (Inr r, d') \<and> us_mfaEnabled (lg_user r)"
proof -
  let ?u = "owner\<lparr>us_mfaEnabled := True, us_totpSecretEncrypted := Some ''s''\<rparr>"
  have "find_by us_email (toLowerCase (trim ''o@b.edu'')) (users mfa_db) = Some ?u" by code_simp
  moreover have "verifyPassword toy_secrets ''abc'' (us_passwordHash ?u)" by code_simp
  moreover have "fst (consumeRecoveryCode toy_secrets sample_env mfa_db ''o'' (Some ''a-123''))" by code_simp
  then obtain d1 where consumed: "consumeRecoveryCode toy_secrets sample_env mfa_db ''o'' (Some ''a-123'') = (True, d1)"
    by (cases "consumeRecoveryCode toy_secrets sample_env mfa_db ''o'' (Some ''a-123'')") simp
  then have "checkMfa toy_secrets sample_env mfa_db ?u None (Some ''a-123'') = (Inr ''RECOVERY_CODE'', d1)"
    by (simp add: checkMfa_def truthy_text_def owner_def)
  moreover have "activeMembership d1 (us_uuid ?u) = Some owner_membership"
    using owner_active consume_frame [OF consumed]
    by (simp add: activeMembership_def membershipsOf_def active_institution_def mfa_db_def)
  then obtain d' where "openSession toy_secrets sample_env d1 ?u ''RECOVERY_CODE'' =
      Inr (session_of toy_secrets sample_env d1 ?u, d')" by (rule openSession_member)
  ultimately show ?thesis by (simp add: login_def session_of_def Let_def)
qed

theorem recovery_code_used_once_witness:
  "\<exists>r d'. login toy_secrets sample_env mfa_db ''o@b.edu'' ''abc'' None (Some ''a-123'') = (Inr r, d') \<and>
     login toy_secrets sample_env d' ''o@b.edu'' ''abc'' None (Some ''a-123'') =
       (Inl (Unauthorized ''Invalid authenticator code.''), d')"
proof -
  obtain r d' where login: "login toy_secrets sample_env mfa_db ''o@b.edu'' ''abc'' None (Some ''a-123'') = (Inr r, d')"
      "us_mfaEnabled (lg_user r)"
    using recovery_login by blast
  have "login toy_secrets sample_env d' ''o@b.edu'' ''abc'' None (Some ''a-123'') =
      (Inl (Unauthorized ''Invalid authenticator code.''), d')"
    by (rule recovery_code_used_once [OF login]) (auto simp: mfa_db_def)
  with login(1) show ?thesis by blast
qed

end
