(* ===== verification/Access.thy ===== *)
theory Access
  imports Auth RecordRequests Idempotency
begin

text \<open>
  \<open>gateway/access/access.service.ts\<close>: what a learner does with the passport. Reading it, sharing a credential
  by a link with an expiry and a view limit, revoking a link, and requesting records from an institution, which
  counts the demand for an institution that is not registered. The schemas of the bodies are those of
  \<open>packages/shared/src/schemas.ts\<close>. Rows of a table stand in the order of creation; rows of the same instant
  keep that order when a list is sorted by date.
\<close>

section \<open>Bodies\<close>

record share_body =
  sb_credentialRef :: string
  sb_scope :: "grant_scope option"
  sb_recipientLabel :: string
  sb_expiresAt :: "string option"
  sb_maxViews :: "int option"

definition createAccessGrant_ok :: "env \<Rightarrow> share_body \<Rightarrow> bool" where
  "createAccessGrant_ok e b \<longleftrightarrow>
     sb_credentialRef b \<noteq> [] \<and> 2 \<le> length (sb_recipientLabel b) \<and>
     opt_ok (\<lambda>s. zod_datetime e s \<noteq> None) (sb_expiresAt b) \<and>
     opt_ok (\<lambda>n. 0 < n \<and> n \<le> 100) (sb_maxViews b)"

record revoke_body =
  kb_accessGrantId :: string

definition revokeAccessGrant_ok :: "env \<Rightarrow> revoke_body \<Rightarrow> bool" where
  "revokeAccessGrant_ok e b \<longleftrightarrow> zod_uuid e (kb_accessGrantId b)"

record request_body =
  qb_learnerId :: "string option"
  qb_institutionId :: "string option"
  qb_institutionNameSubmitted :: string
  qb_educationLevel :: string
  qb_yearsAttendedFrom :: "int option"
  qb_yearsAttendedTo :: "int option"
  qb_studentNumber :: "string option"
  qb_departmentOrClass :: "string option"
  qb_recordTypesRequested :: "string list"
  qb_proofDocumentUrls :: "string list option"
  qb_requesterName :: "string option"
  qb_requesterEmail :: "string option"

definition year_ok :: "int \<Rightarrow> bool" where
  "year_ok y \<longleftrightarrow> 1900 \<le> y \<and> y \<le> 2100"

definition createRecordRequest_ok :: "env \<Rightarrow> request_body \<Rightarrow> bool" where
  "createRecordRequest_ok e b \<longleftrightarrow>
     opt_ok (zod_uuid e) (qb_learnerId b) \<and> opt_ok (zod_uuid e) (qb_institutionId b) \<and>
     len_in 2 180 (qb_institutionNameSubmitted b) \<and> len_in 2 80 (qb_educationLevel b) \<and>
     opt_ok year_ok (qb_yearsAttendedFrom b) \<and> opt_ok year_ok (qb_yearsAttendedTo b) \<and>
     opt_ok (len_in 1 80) (qb_studentNumber b) \<and> opt_ok (len_in 1 120) (qb_departmentOrClass b) \<and>
     list_all (len_in 2 80) (qb_recordTypesRequested b) \<and>
     1 \<le> length (qb_recordTypesRequested b) \<and> length (qb_recordTypesRequested b) \<le> 12 \<and>
     opt_ok (\<lambda>us. list_all (len_in 3 500) us \<and> length us \<le> 20) (qb_proofDocumentUrls b) \<and>
     opt_ok (len_in 2 120) (qb_requesterName b) \<and>
     opt_ok (\<lambda>s. zod_email e s \<and> length s \<le> 254) (qb_requesterEmail b) \<and>
     opt_ok (\<lambda>a. opt_ok (\<lambda>z. a \<le> z) (qb_yearsAttendedTo b)) (qb_yearsAttendedFrom b)"

section \<open>The passport\<close>

definition requireLearner :: "auth_token \<Rightarrow> string res" where
  "requireLearner auth =
     bindE (failIf (\<not> truthy_text (au_learnerId auth))
       (BadRequest ''Authenticated account is not linked to a learner passport.'')) (\<lambda>_.
     Inr (getOr (au_learnerId auth) []))"

definition newest :: "('a \<Rightarrow> int) \<Rightarrow> 'a list \<Rightarrow> 'a list" where
  "newest t = sort_key (\<lambda>x. - t x)"

definition by_ref :: "('r \<Rightarrow> string) \<Rightarrow> 'r list \<Rightarrow> string option \<Rightarrow> 'r option" where
  \<comment> \<open>the row that an optional foreign key points at\<close>
  "by_ref key rows k = (case k of None \<Rightarrow> None | Some i \<Rightarrow> find_by key i rows)"

record passport =
  pp_learner :: learner
  pp_enrolments :: "(enrolment \<times> academic_standing option \<times> institution option) list"
  pp_recordRequests :: "(record_request \<times> credential option) list"

definition passport :: "db \<Rightarrow> auth_token \<Rightarrow> passport res" where
  "passport d auth =
     bindE (requireLearner auth) (\<lambda>learnerId.
     bindE (require (find_by le_uuid learnerId (learners d)) (BadRequest ''Learner passport not found.'')) (\<lambda>l.
     Inr \<lparr>pp_learner = l,
       pp_enrolments = map (\<lambda>en. (en, find_by sd_enrolmentId (en_uuid en) (academicStandings d),
           find_by in_uuid (en_institutionId en) (institutions d)))
         (filter (\<lambda>en. en_learnerId en = learnerId) (enrolments d)),
       pp_recordRequests = map (\<lambda>r. (r, by_ref cr_uuid (credentials d) (rr_fulfilledCredentialId r)))
         (take 20 (filter (\<lambda>r. rr_learnerId r = Some learnerId) (rev (recordRequests d))))\<rparr>))"

definition academicStanding ::
    "db \<Rightarrow> auth_token \<Rightarrow> (academic_standing \<times> institution option \<times> enrolment option) list res" where
  "academicStanding d auth =
     bindE (requireLearner auth) (\<lambda>learnerId.
     Inr (map (\<lambda>s. (s, find_by in_uuid (sd_institutionId s) (institutions d),
             find_by en_uuid (sd_enrolmentId s) (enrolments d)))
       (newest sd_computedAt (filter (\<lambda>s. sd_learnerId s = learnerId) (academicStandings d)))))"

definition ownCredentials ::
    "db \<Rightarrow> auth_token \<Rightarrow> (credential \<times> record_request option \<times> institution option) list res" where
  "ownCredentials d auth =
     bindE (requireLearner auth) (\<lambda>learnerId.
     Inr (map (\<lambda>c. (c, by_ref rr_uuid (recordRequests d) (cr_recordRequestId c),
             find_by in_uuid (cr_institutionId c) (institutions d)))
       (newest cr_issuedAt (filter (\<lambda>c. cr_learnerId c = learnerId) (credentials d)))))"

definition verificationLog :: "db \<Rightarrow> auth_token \<Rightarrow> (verification_event \<times> credential) list res" where
  "verificationLog d auth =
     bindE (requireLearner auth) (\<lambda>learnerId.
     Inr (take 100 (List.map_filter (\<lambda>v. case find_by cr_uuid (ve_credentialId v) (credentials d) of
            Some c \<Rightarrow> (if cr_learnerId c = learnerId then Some (v, c) else None)
          | None \<Rightarrow> None)
       (newest ve_verifiedAt (verificationEvents d)))))"

definition listOwnRecordRequests ::
    "db \<Rightarrow> auth_token \<Rightarrow> (record_request \<times> institution option \<times> credential option) list res" where
  "listOwnRecordRequests d auth =
     bindE (requireLearner auth) (\<lambda>learnerId.
     Inr (map (\<lambda>r. (r, by_ref in_uuid (institutions d) (rr_institutionId r),
             by_ref cr_uuid (credentials d) (rr_fulfilledCredentialId r)))
       (take 100 (filter (\<lambda>r. rr_learnerId r = Some learnerId) (rev (recordRequests d))))))"

section \<open>Share links\<close>

fun scope_text :: "grant_scope \<Rightarrow> string" where
  "scope_text Scope_FULL = ''FULL''"
| "scope_text Scope_GPA = ''GPA''"
| "scope_text Scope_SEMESTER = ''SEMESTER''"
| "scope_text Scope_SUBJECT = ''SUBJECT''"

record share_link =
  sl_token :: string
  sl_verifyUrl :: string
  sl_grant :: access_grant

definition newGrant :: "env \<Rightarrow> string \<Rightarrow> string \<Rightarrow> string \<Rightarrow> string \<Rightarrow> share_body \<Rightarrow> access_grant" where
  "newGrant e uuid learnerId credentialId token b =
     \<lparr>xg_uuid = uuid, xg_learnerId = learnerId, xg_credentialId = credentialId,
      xg_tokenHash = sha256 e token, xg_scope = getOr (sb_scope b) Scope_FULL,
      xg_recipientLabel = sb_recipientLabel b,
      xg_expiresAt = (case sb_expiresAt b of None \<Rightarrow> None | Some s \<Rightarrow> zod_datetime e s),
      xg_revokedAt = None, xg_maxViews = sb_maxViews b, xg_viewCount = 0, xg_createdAt = now e\<rparr>"

definition createShareLink ::
    "secrets \<Rightarrow> env \<Rightarrow> db \<Rightarrow> auth_token \<Rightarrow> share_body option \<Rightarrow> (share_link \<times> db) res" where
  "createShareLink sx e d auth body =
     bindE (requireLearner auth) (\<lambda>learnerId.
     bindE (safeParse (createAccessGrant_ok e) body) (\<lambda>parsed.
     bindE (require (List.find (\<lambda>c. cr_credentialRef c = sb_credentialRef parsed \<and> cr_learnerId c = learnerId)
         (credentials d)) (BadRequest ''Credential not found for learner.'')) (\<lambda>c.
     bindE (failIf (cr_status c \<noteq> Cred_ACTIVE) (BadRequest ''Only active credentials can be shared.'')) (\<lambda>_.
     let token = base64url_bytes (randomBytes sx d 32);
         grant = newGrant e (fresh e (drawn d)) learnerId (cr_uuid c) token parsed in
     bindE (check_unique ''AccessGrant_tokenHash_key'' (\<lambda>g. Some (xg_tokenHash g)) (accessGrants d @ [grant])) (\<lambda>rows.
     Inr (\<lparr>sl_token = token, sl_verifyUrl = ''/verify/'' @ token, sl_grant = grant\<rparr>,
       audit_write (humanActor auth (audit_event_of ''access_grant.create'' ''AccessGrant'' (xg_uuid grant) None
           (JObj [(''credentialRef'', JStr (sb_credentialRef parsed)), (''scope'', JStr (scope_text (xg_scope grant))),
                  (''recipientLabel'', JStr (xg_recipientLabel grant))])))
         (drawn (drawn (d\<lparr>accessGrants := rows\<rparr>)))))))))"

text \<open>The row is updated before its owner is compared, so the error leaves the update in place.\<close>

definition revokeRow :: "env \<Rightarrow> db \<Rightarrow> auth_token \<Rightarrow> revoke_body option \<Rightarrow> (string \<times> access_grant \<times> db) res" where
  "revokeRow e d auth body =
     bindE (requireLearner auth) (\<lambda>learnerId.
     bindE (safeParse (revokeAccessGrant_ok e) body) (\<lambda>parsed.
     bindE (update_by xg_uuid (kb_accessGrantId parsed) (xg_revokedAt_update (\<lambda>_. Some (now e))) (accessGrants d)) (\<lambda>rows.
     bindE (require (find_by xg_uuid (kb_accessGrantId parsed) rows) NotFound) (\<lambda>grant.
     Inr (learnerId, grant, d\<lparr>accessGrants := rows\<rparr>)))))"

definition revokeGrant ::
    "env \<Rightarrow> db \<Rightarrow> auth_token \<Rightarrow> revoke_body option \<Rightarrow> access_grant res \<times> db" where
  "revokeGrant e d auth body =
     (case revokeRow e d auth body of
        Inl err \<Rightarrow> (Inl err, d)
      | Inr (learnerId, grant, d1) \<Rightarrow>
          (if xg_learnerId grant \<noteq> learnerId
           then (Inl (BadRequest ''Access Grant does not belong to learner.''), d1)
           else (Inr grant, audit_write (humanActor auth
             (audit_event_of ''access_grant.revoke'' ''AccessGrant'' (xg_uuid grant) None JUndef)) d1)))"

section \<open>Record requests\<close>

text \<open>\<open>Number.parseInt(raw, 10)\<close> on a text, and the fee of a request; numbers are exact.\<close>

definition parseInt :: "string \<Rightarrow> int option" where
  "parseInt s =
     (let t = dropWhile is_space s;
          neg = (take 1 t = ''-'');
          r = (if neg \<or> take 1 t = ''+'' then drop 1 t else t);
          ds = takeWhile is_digit r
      in if ds = [] then None else Some (if neg then - int (dec_val ds) else int (dec_val ds)))"

definition feeMinor :: "string option \<Rightarrow> int" where
  "feeMinor raw =
     (if \<not> truthy_text raw then 0
      else case parseInt (getOr raw []) of None \<Rightarrow> 0 | Some n \<Rightarrow> (if 0 < n then n else 0))"

definition requestIdOf :: "secrets \<Rightarrow> env \<Rightarrow> db \<Rightarrow> string" where
  "requestIdOf sx e d =
     ''REQ-'' @ show_int (getUTCFullYear (now e)) @ ''-'' @ toUpperCase (hex (randomBytes sx d 4))"

fun nextRecordRequestId :: "secrets \<Rightarrow> env \<Rightarrow> nat \<Rightarrow> db \<Rightarrow> (string \<times> db) res" where
  "nextRecordRequestId sx e 0 d = Inl (BadRequest ''Could not allocate a record request ID.'')"
| "nextRecordRequestId sx e (Suc n) d =
     (if find_by rr_requestId (requestIdOf sx e d) (recordRequests d) = None
      then Inr (requestIdOf sx e d, drawn d)
      else nextRecordRequestId sx e n (drawn d))"

definition key_part :: "char \<Rightarrow> bool" where
  "key_part c \<longleftrightarrow> is_digit c \<or> 97 \<le> (of_char c :: nat) \<and> (of_char c :: nat) \<le> 122"

text \<open>\<open>replace(/[^a-z0-9]+/g, "-")\<close>: a run of other characters becomes one dash.\<close>

fun dash_runs :: "bool \<Rightarrow> string \<Rightarrow> string" where
  "dash_runs dashed [] = []"
| "dash_runs dashed (c # cs) =
     (if key_part c then c # dash_runs False cs
      else if dashed then dash_runs True cs else CHR ''-'' # dash_runs True cs)"

definition strip_dashes :: "string \<Rightarrow> string" where
  "strip_dashes s = rev (dropWhile dash (rev (dropWhile dash s)))"

definition invitationLeadKey :: "env \<Rightarrow> string \<Rightarrow> string" where
  "invitationLeadKey e name =
     (let normalized = take 120 (strip_dashes (dash_runs False (toLowerCase (trim name))))
      in if normalized = [] then take 32 (sha256 e name) else normalized)"

text \<open>\<open>Array.from(new Set([...ids, id]))\<close>\<close>

definition add_once :: "string list \<Rightarrow> string \<Rightarrow> string list" where
  "add_once ids i = first_occurrences (ids @ [i])"

definition leadMetadata :: "auth_token \<Rightarrow> request_body \<Rightarrow> jval" where
  "leadMetadata auth b = JObj [(''source'', JStr ''record_request''),
     (''latestEducationLevel'', JStr (qb_educationLevel b)),
     (''latestRequesterEmail'', JStr (getOr (qb_requesterEmail b) (au_email auth)))]"

definition requesterIncrement :: "auth_token \<Rightarrow> request_body \<Rightarrow> int" where
  "requesterIncrement auth b = (if truthy_text (qb_requesterEmail b) \<or> au_email auth \<noteq> [] then 1 else 0)"

definition demandedLead :: "env \<Rightarrow> auth_token \<Rightarrow> record_request \<Rightarrow> request_body \<Rightarrow> invitation_lead \<Rightarrow> invitation_lead" where
  "demandedLead e auth request b l =
     l\<lparr>il_demandCount := il_demandCount l + 1,
       il_requesterCount := il_requesterCount l + requesterIncrement auth b,
       il_latestRecordRequestId := Some (rr_uuid request),
       il_latestRecordRequestCode := Some (rr_requestId request),
       il_recordRequestIds := add_once (il_recordRequestIds l) (rr_uuid request),
       il_educationLevel := Some (qb_educationLevel b), il_lastRequestedAt := now e,
       il_status := (if il_status l = Lead_DISMISSED then Lead_NEW else il_status l),
       il_metadata := leadMetadata auth b\<rparr>"

definition newLead :: "env \<Rightarrow> auth_token \<Rightarrow> string \<Rightarrow> record_request \<Rightarrow> request_body \<Rightarrow> invitation_lead" where
  "newLead e auth uuid request b =
     (let institutionName = trim (qb_institutionNameSubmitted b)
      in \<lparr>il_uuid = uuid, il_institutionName = institutionName,
          il_institutionNameKey = invitationLeadKey e institutionName,
          il_educationLevel = Some (qb_educationLevel b), il_demandCount = 1,
          il_requesterCount = requesterIncrement auth b,
          il_latestRecordRequestId = Some (rr_uuid request),
          il_latestRecordRequestCode = Some (rr_requestId request),
          il_recordRequestIds = [rr_uuid request], il_status = Lead_NEW, il_lastRequestedAt = now e,
          il_metadata = leadMetadata auth b\<rparr>)"

definition leadEvent :: "auth_token \<Rightarrow> string \<Rightarrow> record_request \<Rightarrow> request_body \<Rightarrow> invitation_lead \<Rightarrow> audit_input" where
  "leadEvent auth action request b l =
     humanActor auth (audit_event_of action ''InvitationLead'' (il_uuid l) None
       (JObj [(''institutionName'', JStr (trim (qb_institutionNameSubmitted b))),
              (''requestId'', JStr (rr_requestId request)), (''demandCount'', jint (il_demandCount l))]))"

definition createInvitationLeadForUnregisteredInstitution ::
    "env \<Rightarrow> db \<Rightarrow> auth_token \<Rightarrow> record_request \<Rightarrow> request_body \<Rightarrow> invitation_lead option \<times> db" where
  "createInvitationLeadForUnregisteredInstitution e d auth request b =
     (if truthy_text (qb_institutionId b) \<or> truthy_text (rr_institutionId request) then (None, d)
      else case find_by il_institutionNameKey (invitationLeadKey e (trim (qb_institutionNameSubmitted b))) (invitationLeads d) of
        Some existing \<Rightarrow>
          (let l = demandedLead e auth request b existing
           in (Some l, audit_write (leadEvent auth ''invitation_lead.update'' request b l)
                (d\<lparr>invitationLeads := set_by il_uuid (il_uuid existing) (demandedLead e auth request b) (invitationLeads d)\<rparr>)))
      | None \<Rightarrow>
          (let l = newLead e auth (fresh e d) request b
           in (Some l, audit_write (leadEvent auth ''invitation_lead.create'' request b l)
                (drawn (d\<lparr>invitationLeads := invitationLeads d @ [l]\<rparr>)))))"

definition newRequest ::
    "auth_token \<Rightarrow> string \<Rightarrow> string \<Rightarrow> string \<Rightarrow> int \<Rightarrow> request_body \<Rightarrow> record_request" where
  "newRequest auth uuid requestId learnerId amountMinor b =
     \<lparr>rr_uuid = uuid, rr_requestId = requestId, rr_learnerId = Some learnerId,
      rr_institutionId = qb_institutionId b, rr_educationLevel = qb_educationLevel b,
      rr_yearsAttendedFrom = qb_yearsAttendedFrom b, rr_yearsAttendedTo = qb_yearsAttendedTo b,
      rr_studentNumber = qb_studentNumber b, rr_departmentOrClass = qb_departmentOrClass b,
      rr_recordTypesRequested = qb_recordTypesRequested b,
      rr_status = (if amountMinor > 0 then RR_AWAITING_PAYMENT else RR_SUBMITTED),
      rr_paymentStatus = (if amountMinor > 0 then Pay_PENDING else Pay_NOT_REQUIRED),
      rr_escrowStatus = Esc_NONE, rr_paymentReference = None, rr_paymentProvider = None,
      rr_amountMinor = (if amountMinor > 0 then Some amountMinor else None), rr_currency = ''NGN'',
      rr_paymentHeldAt = None, rr_paymentReleasedAt = None, rr_refundRequestedAt = None,
      rr_assignedToId = None, rr_assignedAt = None, rr_fulfilledCredentialId = None,
      rr_rejectionReason = None, rr_rejectedAt = None, rr_escalationReason = None,
      rr_escalatedAt = None, rr_resolutionNote = None, rr_fulfilledAt = None, rr_notes = JArr [],
      rr_institutionNameSubmitted = qb_institutionNameSubmitted b,
      rr_proofDocumentUrls = getOr (qb_proofDocumentUrls b) [],
      rr_requesterName = Some (getOr (qb_requesterName b) (au_fullName auth)),
      rr_requesterEmail = Some (getOr (qb_requesterEmail b) (au_email auth))\<rparr>"

text \<open>\<open>fee\<close> is \<open>ACADID_RECORD_REQUEST_FEE_MINOR\<close>. The database refuses an amount that is no 32-bit integer and
  the id of a learner or an institution that it does not have.\<close>

definition createRecordRequestRecord ::
    "secrets \<Rightarrow> env \<Rightarrow> string option \<Rightarrow> db \<Rightarrow> auth_token \<Rightarrow> request_body option \<Rightarrow>
     (record_request \<times> invitation_lead option \<times> db) res" where
  "createRecordRequestRecord sx e fee d auth body =
     bindE (requireLearner auth) (\<lambda>learnerId.
     bindE (safeParse (createRecordRequest_ok e) body) (\<lambda>parsed.
     bindE (failIf (truthy_text (qb_learnerId parsed) \<and> qb_learnerId parsed \<noteq> Some learnerId)
       (BadRequest ''Record request learnerId must match the authenticated learner.'')) (\<lambda>_.
     bindE (nextRecordRequestId sx e 6 d) (\<lambda>(requestId, d1).
     let request = newRequest auth (fresh e d1) requestId learnerId (feeMinor fee) parsed in
     bindE (failIf (feeMinor fee > 2147483647) (Failure ''Value out of range for the type.'')) (\<lambda>_.
     bindE (failIf (find_by le_uuid learnerId (learners d) = None) (Failure ''Foreign key constraint failed.'')) (\<lambda>_.
     bindE (failIf (\<not> opt_ok (\<lambda>i. find_by in_uuid i (institutions d) \<noteq> None) (qb_institutionId parsed))
       (Failure ''Foreign key constraint failed.'')) (\<lambda>_.
     bindE (check_unique ''RecordRequest_requestId_key'' (\<lambda>r. Some (rr_requestId r)) (recordRequests d @ [request])) (\<lambda>rows.
     let d2 = audit_write (humanActor auth (audit_event_of ''record_request.create'' ''RecordRequest'' (rr_uuid request)
             (rr_institutionId request)
             (JObj [(''requestId'', JStr requestId),
                    (''recordTypesRequested'', JArr (map JStr (rr_recordTypesRequested request)))])))
           (drawn (d1\<lparr>recordRequests := rows\<rparr>));
         (lead, d3) = createInvitationLeadForUnregisteredInstitution e d2 auth request parsed
     in Inr (request, lead, d3)))))))))"

text \<open>The endpoint with an idempotency key; \<open>raw\<close> is the body as received and \<open>render\<close> the JSON of the answer.\<close>

definition createRecordRequest ::
    "(string \<Rightarrow> 'k::linorder) \<Rightarrow> (record_request \<Rightarrow> invitation_lead option \<Rightarrow> jval) \<Rightarrow> secrets \<Rightarrow> env \<Rightarrow>
     string option \<Rightarrow> db \<Rightarrow> auth_token \<Rightarrow> jval \<Rightarrow> request_body option \<Rightarrow> string option \<Rightarrow> jval res \<times> db" where
  "createRecordRequest collate render sx e fee d auth raw body idempotencyKey =
     (let handler = (\<lambda>d. case createRecordRequestRecord sx e fee d auth body of
            Inl err \<Rightarrow> (Inl err, d)
          | Inr (request, lead, d') \<Rightarrow> (Inr (render request lead), d'))
      in if truthy_text idempotencyKey
         then execute collate e d \<lparr>ip_scope = ''access:record_request'', ip_key = getOr idempotencyKey [],
                ip_operation = ''record_request.create'', ip_request = raw, ip_auth = Some auth,
                ip_institutionId = None, ip_ttlHours = Some (Fin 72)\<rparr> handler (\<lambda>_. None)
         else handler d)"

end
