(* ===== verification/Verification.thy ===== *)
theory Verification
  imports Access
begin

text \<open>
  \<open>gateway/verification/verification.service.ts\<close>: the public verification of a credential by a share link, by
  its reference, by the AIN of a learner, and in bulk. The visit of a share link reads the grant first and
  counts the view in a transaction of its own, so it is two definitions, \<open>checkToken\<close> and \<open>commitView\<close>, and
  \<open>verifyShareLink\<close> runs them without anything between. A verification by reference writes its event and then,
  outside a transaction, its fee; \<open>verifyReference\<close> is a run of it without anything between. \<open>bulkVerify\<close> starts
  its lookups together (\<open>Promise.all\<close>); the model runs them one after the other, in the order of the answers, which
  is one of the orders the database may see.
\<close>

record verification_context =
  vc_ipAddress :: "string option"
  vc_verifierName :: "string option"
  vc_verifierEmail :: "string option"

text \<open>\<open>VERIFICATION_EVENT_ENCRYPTION_KEY\<close> and \<open>ACADID_VERIFICATION_FEE_MINOR\<close>\<close>

record verification_env =
  vx_key :: "string option"
  vx_fee :: "string option"

record verification_answer =
  va_outcome :: string
  va_reason :: "string option"
  va_cryptographicStatus :: "string option"
  va_credential :: jval

fun credential_status_text :: "credential_status \<Rightarrow> string" where
  "credential_status_text Cred_ACTIVE = ''ACTIVE''"
| "credential_status_text Cred_SUSPENDED = ''SUSPENDED''"
| "credential_status_text Cred_REVOKED = ''REVOKED''"
| "credential_status_text Cred_SUPERSEDED = ''SUPERSEDED''"
| "credential_status_text Cred_EXPIRED = ''EXPIRED''"

definition denied :: "string \<Rightarrow> verification_answer" where
  "denied reason = \<lparr>va_outcome = ''DENIED'', va_reason = Some reason, va_cryptographicStatus = None,
     va_credential = JUndef\<rparr>"

section \<open>Events and fees\<close>

definition hashOptional :: "env \<Rightarrow> string option \<Rightarrow> string option" where
  "hashOptional e v =
     (case v of None \<Rightarrow> None | Some s \<Rightarrow> (if trim s = [] then None else Some (sha256 e (trim s))))"

definition encryptOptional ::
    "secrets \<Rightarrow> verification_env \<Rightarrow> db \<Rightarrow> string option \<Rightarrow> string option \<times> db" where
  "encryptOptional sx vx d v =
     (let normalized = (case v of None \<Rightarrow> [] | Some s \<Rightarrow> toLowerCase (trim s))
      in if normalized = [] then (None, d)
         else (Some (encryptSecret (sx_gcm sx) (encryptionKey (sx_gcm sx) (vx_key vx) (sx_jwtSecret sx))
                 (randomBytes sx d 12) normalized), drawn d))"

definition createEvent ::
    "secrets \<Rightarrow> verification_env \<Rightarrow> env \<Rightarrow> string \<Rightarrow> string option \<Rightarrow> string \<Rightarrow> string option \<Rightarrow>
     verification_context \<Rightarrow> verification_outcome \<Rightarrow> jval \<Rightarrow> db \<Rightarrow> verification_event \<times> db" where
  "createEvent sx vx e credentialId grantId verifierType verifierName ctx outcome scopeViewed d =
     (let (email, d1) = encryptOptional sx vx d (vc_verifierEmail ctx);
          ev = \<lparr>ve_uuid = fresh e d1, ve_credentialId = credentialId, ve_accessGrantId = grantId,
                ve_verifierType = verifierType, ve_verifierName = verifierName,
                ve_verifierEmailEncrypted = email, ve_ipAddressHash = hashOptional e (vc_ipAddress ctx),
                ve_outcome = outcome, ve_scopeViewed = scopeViewed, ve_verifiedAt = now e\<rparr>
      in (ev, drawn (d1\<lparr>verificationEvents := verificationEvents d1 @ [ev]\<rparr>)))"

definition recordVerification ::
    "secrets \<Rightarrow> verification_env \<Rightarrow> env \<Rightarrow> string \<Rightarrow> string option \<Rightarrow> verification_outcome \<Rightarrow> jval \<Rightarrow> string \<Rightarrow>
     verification_context \<Rightarrow> db \<Rightarrow> db" where
  "recordVerification sx vx e credentialId grantId outcome scopeViewed verifierType ctx d =
     snd (createEvent sx vx e credentialId grantId verifierType (vc_verifierName ctx) ctx outcome scopeViewed d)"

definition verificationEntry :: "int \<Rightarrow> verification_event \<Rightarrow> string \<Rightarrow> string \<Rightarrow> revenue_entry" where
  "verificationEntry amountMinor ev institutionId description =
     \<lparr>rv_uuid = [], rv_category = VERIFICATION_FEE, rv_status = Rev_BILLABLE, rv_amountMinor = amountMinor,
      rv_currency = ''NGN'', rv_institutionId = Some institutionId, rv_credentialId = Some (ve_credentialId ev),
      rv_sourceType = ''VerificationEvent'', rv_sourceId = Some (ve_uuid ev), rv_description = description,
      rv_paidAt = None, rv_metadata = JObj [(''configuredBy'', JStr ''ACADID_VERIFICATION_FEE_MINOR'')],
      rv_verificationEventId = Some (ve_uuid ev)\<rparr>"

definition recordVerificationRevenue ::
    "verification_env \<Rightarrow> env \<Rightarrow> verification_event \<Rightarrow> string \<Rightarrow> string \<Rightarrow> db \<Rightarrow> db res" where
  "recordVerificationRevenue vx e ev institutionId description d =
     (let amountMinor = feeMinor (vx_fee vx)
      in if amountMinor \<le> 0 then Inr d
         else bindE (failIf (amountMinor > 2147483647) (Failure ''Value out of range for the type.'')) (\<lambda>_.
           Inr (createRevenueEntry e (verificationEntry amountMinor ev institutionId description) d)))"

section \<open>Share links\<close>

definition deniedReason :: "env \<Rightarrow> access_grant \<Rightarrow> string option" where
  "deniedReason e g =
     (if xg_revokedAt g \<noteq> None then Some ''Verification link has been revoked.''
      else if (case xg_expiresAt g of None \<Rightarrow> False | Some t \<Rightarrow> t \<le> now e) then Some ''Verification link has expired.''
      else if (case xg_maxViews g of None \<Rightarrow> False | Some m \<Rightarrow> m \<le> xg_viewCount g)
      then Some ''Verification link view limit has been reached.''
      else None)"

definition credentialBase :: "credential \<Rightarrow> learner \<Rightarrow> institution \<Rightarrow> (string \<times> jval) list" where
  "credentialBase c l i =
     [(''credentialRef'', JStr (cr_credentialRef c)), (''type'', JStr (credential_type_text (cr_type c))),
      (''status'', JStr (credential_status_text (cr_status c))), (''issuedAt'', JStr (toISOString (cr_issuedAt c))),
      (''institution'', JObj [(''institutionId'', JStr (in_institutionId i)), (''officialName'', JStr (in_officialName i))]),
      (''learner'', JObj [(''ain'', JStr (le_ain l)), (''fullName'', JStr (le_fullName l))])]"

definition scopeCredential :: "grant_scope \<Rightarrow> credential \<Rightarrow> learner \<Rightarrow> institution \<Rightarrow> jval" where
  "scopeCredential scope c l i =
     (if scope = Scope_FULL then JObj (credentialBase c l i @ [(''vcPayload'', cr_vcPayload c)])
      else JObj (credentialBase c l i @ [(''scope'', JStr (scope_text scope)), (''credentialSummary'', cr_scope c)]))"

text \<open>A grant with its credential, and the learner and the institution of that.\<close>

definition grantWithCredential ::
    "db \<Rightarrow> access_grant \<Rightarrow> (credential \<times> learner \<times> institution) res" where
  "grantWithCredential d g =
     bindE (require (find_by cr_uuid (xg_credentialId g) (credentials d)) (Failure ''Inconsistent query result.'')) (\<lambda>c.
     bindE (require (find_by le_uuid (cr_learnerId c) (learners d)) (Failure ''Inconsistent query result.'')) (\<lambda>l.
     bindE (require (find_by in_uuid (cr_institutionId c) (institutions d)) (Failure ''Inconsistent query result.'')) (\<lambda>i.
     Inr (c, l, i))))"

datatype link_check =
    Unknown_link
  | Link_denied access_grant string
  | Link_inactive access_grant credential
  | Link_open access_grant credential jval

definition checkToken :: "env \<Rightarrow> db \<Rightarrow> string \<Rightarrow> link_check res" where
  "checkToken e d token =
     (case find_by xg_tokenHash (sha256 e token) (accessGrants d) of
        None \<Rightarrow> Inr Unknown_link
      | Some g \<Rightarrow>
          bindE (grantWithCredential d g) (\<lambda>(c, l, i).
          Inr (case deniedReason e g of
             Some reason \<Rightarrow> Link_denied g reason
           | None \<Rightarrow> (if cr_status c \<noteq> Cred_ACTIVE then Link_inactive g c
                      else Link_open g c (scopeCredential (xg_scope g) c l i)))))"

definition viewed :: "access_grant \<Rightarrow> access_grant" where
  "viewed g = g\<lparr>xg_viewCount := xg_viewCount g + 1\<rparr>"

text \<open>The transaction: all of it or nothing.\<close>

definition commitView ::
    "secrets \<Rightarrow> verification_env \<Rightarrow> env \<Rightarrow> verification_context \<Rightarrow> access_grant \<Rightarrow> credential \<Rightarrow> jval \<Rightarrow> db \<Rightarrow>
     db res" where
  "commitView sx vx e ctx g c scopeViewed d =
     bindE (update_by xg_uuid (xg_uuid g) viewed (accessGrants d)) (\<lambda>rows.
     let (ev, d1) = createEvent sx vx e (cr_uuid c) (Some (xg_uuid g)) ''SHARE_LINK''
           (orElse (vc_verifierName ctx) (Some (xg_recipientLabel g))) ctx CONFIRMED scopeViewed
           (d\<lparr>accessGrants := rows\<rparr>)
     in recordVerificationRevenue vx e ev (cr_institutionId c) ''Share-link credential verification fee'' d1)"

definition confirmedView :: "jval \<Rightarrow> verification_answer" where
  "confirmedView scopeViewed =
     \<lparr>va_outcome = ''CONFIRMED'', va_reason = None, va_cryptographicStatus = None, va_credential = scopeViewed\<rparr>"

definition answerLink ::
    "secrets \<Rightarrow> verification_env \<Rightarrow> env \<Rightarrow> verification_context \<Rightarrow> link_check \<Rightarrow> db \<Rightarrow>
     verification_answer res \<times> db" where
  "answerLink sx vx e ctx check d =
     (case check of
        Unknown_link \<Rightarrow> (Inr (denied ''Verification link not found.''), d)
      | Link_denied g reason \<Rightarrow>
          (Inr (denied reason),
           recordVerification sx vx e (xg_credentialId g) (Some (xg_uuid g)) DENIED (JObj []) ''SHARE_LINK'' ctx d)
      | Link_inactive g c \<Rightarrow>
          (Inr ((denied (credential_status_text (cr_status c)))
             \<lparr>va_outcome := (if cr_status c = Cred_REVOKED then ''REVOKED'' else ''DENIED'')\<rparr>),
           recordVerification sx vx e (cr_uuid c) (Some (xg_uuid g)) Out_REVOKED (JObj []) ''SHARE_LINK'' ctx d)
      | Link_open g c scopeViewed \<Rightarrow>
          (case commitView sx vx e ctx g c scopeViewed d of
             Inl err \<Rightarrow> (Inl err, d)
           | Inr d' \<Rightarrow> (Inr (confirmedView scopeViewed), d')))"

definition verifyShareLink ::
    "secrets \<Rightarrow> verification_env \<Rightarrow> env \<Rightarrow> db \<Rightarrow> string \<Rightarrow> verification_context \<Rightarrow>
     verification_answer res \<times> db" where
  "verifyShareLink sx vx e d token ctx =
     (case checkToken e d token of
        Inl err \<Rightarrow> (Inl err, d)
      | Inr check \<Rightarrow> answerLink sx vx e ctx check d)"

section \<open>References\<close>

definition unsignedPayload :: "jval \<Rightarrow> jval" where
  "unsignedPayload payload =
     (case payload of JObj ob \<Rightarrow> JObj (filter (\<lambda>p. fst p \<noteq> ''proof'') ob) | v \<Rightarrow> v)"

definition jdate :: "int option \<Rightarrow> jval" where
  "jdate t = (case t of None \<Rightarrow> JNull | Some x \<Rightarrow> JStr (toISOString x))"

definition publicReferenceCredential :: "credential \<Rightarrow> institution \<Rightarrow> jval" where
  "publicReferenceCredential c i = JObj
     [(''credentialRef'', JStr (cr_credentialRef c)), (''status'', JStr (credential_status_text (cr_status c))),
      (''issuedAt'', JStr (toISOString (cr_issuedAt c))), (''revokedAt'', jdate (cr_revokedAt c)),
      (''revocationReason'', jnull (cr_revocationReason c)), (''signature'', JStr (cr_signature c)),
      (''vcPayload'', cr_vcPayload c),
      (''institution'', JObj [(''institutionId'', JStr (in_institutionId i)), (''officialName'', JStr (in_officialName i))])]"

definition cryptographicallyValid :: "signer \<Rightarrow> credential \<Rightarrow> bool res" where
  "cryptographicallyValid sg c =
     (if cr_signature c = [] then Inr False else verifyPayload sg (unsignedPayload (cr_vcPayload c)) (cr_signature c))"

definition verifyReference ::
    "secrets \<Rightarrow> verification_env \<Rightarrow> signer \<Rightarrow> env \<Rightarrow> db \<Rightarrow> string \<Rightarrow> verification_context \<Rightarrow>
     verification_answer res \<times> db" where
  "verifyReference sx vx sg e d refnum ctx =
     (case find_by cr_credentialRef refnum (credentials d) of
        None \<Rightarrow> (Inr (denied ''Credential reference not found.''), d)
      | Some c \<Rightarrow>
          (case find_by in_uuid (cr_institutionId c) (institutions d) of
             None \<Rightarrow> (Inl (Failure ''Inconsistent query result.''), d)
           | Some i \<Rightarrow>
               (if cr_status c = Cred_REVOKED
                then (Inr \<lparr>va_outcome = ''REVOKED'', va_reason = None, va_cryptographicStatus = None,
                           va_credential = publicReferenceCredential c i\<rparr>,
                      recordVerification sx vx e (cr_uuid c) None Out_REVOKED
                        (JObj [(''credentialRef'', JStr (cr_credentialRef c))]) ''CREDENTIAL_REFERENCE'' ctx d)
                else
                  (case cryptographicallyValid sg c of
                     Inl err \<Rightarrow> (Inl err, d)
                   | Inr valid \<Rightarrow>
                       (let status = (if valid then ''VALID'' else ''INVALID'');
                            (ev, d1) = createEvent sx vx e (cr_uuid c) None ''CREDENTIAL_REFERENCE'' (vc_verifierName ctx) ctx
                              (if valid then CONFIRMED else DISCREPANCY)
                              (JObj [(''credentialRef'', JStr (cr_credentialRef c)), (''cryptographicStatus'', JStr status)]) d;
                            answer = \<lparr>va_outcome = ''CONFIRMED'', va_reason = None,
                              va_cryptographicStatus = Some status, va_credential = publicReferenceCredential c i\<rparr>
                        in if valid
                           then (case recordVerificationRevenue vx e ev (in_uuid i) ''Credential reference verification fee'' d1 of
                                   Inl err \<Rightarrow> (Inl err, d1)
                                 | Inr d2 \<Rightarrow> (Inr answer, d2))
                           else (Inr answer, d1))))))"

definition readCredentialStatus :: "db \<Rightarrow> string \<Rightarrow> jval" where
  "readCredentialStatus d credId =
     (case find_by cr_credentialRef credId (credentials d) of
        None \<Rightarrow> JObj [(''outcome'', JStr ''DENIED''), (''reason'', JStr ''Credential not found.'')]
      | Some c \<Rightarrow> JObj [(''credentialRef'', JStr (cr_credentialRef c)),
          (''status'', JStr (credential_status_text (cr_status c))), (''revokedAt'', jdate (cr_revokedAt c)),
          (''revocationReason'', jnull (cr_revocationReason c))])"

section \<open>Learners by AIN\<close>

definition normalizeIdentifier :: "string \<Rightarrow> string" where
  "normalizeIdentifier s = take 120 (trim s)"

record ain_answer =
  aa_outcome :: string
  aa_learner :: "learner option"
  aa_activeCredentialCount :: nat
  aa_credentials :: "credential list"

definition lookupAin ::
    "secrets \<Rightarrow> verification_env \<Rightarrow> env \<Rightarrow> db \<Rightarrow> string \<Rightarrow> verification_context \<Rightarrow> (ain_answer \<times> db) res" where
  "lookupAin sx vx e d ain ctx =
     bindE (failIf (normalizeIdentifier ain = []) (BadRequest ''AIN is required.'')) (\<lambda>_.
     Inr (case find_by le_ain (normalizeIdentifier ain) (learners d) of
        None \<Rightarrow> (\<lparr>aa_outcome = ''DENIED'', aa_learner = None, aa_activeCredentialCount = 0, aa_credentials = []\<rparr>, d)
      | Some l \<Rightarrow>
          (let own = filter (\<lambda>c. cr_learnerId c = le_uuid l) (credentials d);
               visible = take 10 (newest cr_issuedAt own);
               active = length (filter (\<lambda>c. cr_status c = Cred_ACTIVE) own);
               scopeViewed = JObj [(''ain'', JStr (le_ain l)), (''activeCredentialCount'', jint (int active)),
                 (''credentialRefs'', JArr (map (\<lambda>c. JStr (cr_credentialRef c)) visible))];
               eventCredential = orElse (List.find (\<lambda>c. cr_status c = Cred_ACTIVE) visible)
                 (case visible of [] \<Rightarrow> None | c # _ \<Rightarrow> Some c);
               d' = (case eventCredential of
                       None \<Rightarrow> d
                     | Some c \<Rightarrow> snd (createEvent sx vx e (cr_uuid c) None ''AIN_LOOKUP'' (vc_verifierName ctx) ctx
                         (if active > 0 then CONFIRMED else DENIED) scopeViewed d))
           in (\<lparr>aa_outcome = ''CONFIRMED'', aa_learner = Some l, aa_activeCredentialCount = active,
                aa_credentials = visible\<rparr>, d'))))"

section \<open>Bulk verification\<close>

definition nullish :: "jval \<Rightarrow> bool" where
  "nullish v \<longleftrightarrow> v = JUndef \<or> v = JNull"

definition coalesce :: "jval \<Rightarrow> jval \<Rightarrow> jval" where
  "coalesce a b = (if nullish a then b else a)"

fun normalizeItems :: "nat \<Rightarrow> string list \<Rightarrow> jval list \<Rightarrow> string list" where
  "normalizeItems limit unique [] = unique"
| "normalizeItems limit unique (item # items) =
     (let n = normalizeIdentifier (String_of item);
          unique' = (if n \<noteq> [] \<and> n \<notin> set unique then unique @ [n] else unique)
      in if length unique' > limit then unique' else normalizeItems limit unique' items)"

definition normalizeList :: "jval \<Rightarrow> nat \<Rightarrow> string list" where
  "normalizeList value limit =
     normalizeItems limit [] (case value of JArr xs \<Rightarrow> xs | v \<Rightarrow> (if nullish v then [] else [v]))"

definition bulkRefs :: "jval \<Rightarrow> string list" where
  "bulkRefs body =
     (let p = asRecord body in
      normalizeList (coalesce (coalesce (getProp p ''credentialRefs'') (getProp p ''references'')) (getProp p ''refnums'')) 50)"

definition bulkAins :: "jval \<Rightarrow> string list" where
  "bulkAins body = (let p = asRecord body in normalizeList (coalesce (getProp p ''ains'') (getProp p ''ain'')) 50)"

text \<open>All lookups run, also when one of them fails; the first failure is the answer.\<close>

fun run_all :: "('a \<Rightarrow> db \<Rightarrow> 'b res \<times> db) \<Rightarrow> 'a list \<Rightarrow> db \<Rightarrow> 'b list res \<times> db" where
  "run_all f [] d = (Inr [], d)"
| "run_all f (x # xs) d =
     (let (r, d1) = f x d; (rs, d2) = run_all f xs d1
      in (bindE r (\<lambda>y. bindE rs (\<lambda>ys. Inr (y # ys))), d2))"

record bulk_answer =
  ba_total :: nat
  ba_confirmed :: nat
  ba_revoked :: nat
  ba_denied :: nat
  ba_credentials :: "(string \<times> verification_answer) list"
  ba_learnerLookups :: "(string \<times> ain_answer) list"

definition bulkVerify ::
    "secrets \<Rightarrow> verification_env \<Rightarrow> signer \<Rightarrow> env \<Rightarrow> db \<Rightarrow> jval \<Rightarrow> verification_context \<Rightarrow> bulk_answer res \<times> db" where
  "bulkVerify sx vx sg e d body ctx =
     (let refs = bulkRefs body; ains = bulkAins body; total = length refs + length ains in
      if total = 0 then (Inl (BadRequest ''Provide at least one credentialRefs or ains value.''), d)
      else if total > 50 then (Inl (BadRequest ''Bulk verification accepts a maximum of 50 identifiers per request.''), d)
      else
        let (cs, d1) = run_all (\<lambda>r d. verifyReference sx vx sg e d r ctx) refs d;
            (ls, d2) = run_all (\<lambda>a d. case lookupAin sx vx e d a ctx of Inl err \<Rightarrow> (Inl err, d) | Inr (x, d') \<Rightarrow> (Inr x, d')) ains d1
        in (bindE cs (\<lambda>cs. bindE ls (\<lambda>ls.
              let outcomes = map va_outcome cs @ map aa_outcome ls
              in Inr \<lparr>ba_total = total, ba_confirmed = length (filter (\<lambda>x. x = ''CONFIRMED'') outcomes),
                   ba_revoked = length (filter (\<lambda>x. x = ''REVOKED'') outcomes),
                   ba_denied = length (filter (\<lambda>x. x = ''DENIED'') outcomes),
                   ba_credentials = zip refs cs, ba_learnerLookups = zip ains ls\<rparr>)), d2))"

section \<open>The signer of the publications\<close>

text \<open>What \<open>publishBatch\<close> and \<open>fulfillRecordRequest\<close> take from \<open>CredentialSigningService.sign\<close>: the proof and the
  signature of a payload. The payloads are objects, whose canonical text exists.\<close>

definition signWith :: "int \<Rightarrow> signer \<Rightarrow> jval \<Rightarrow> jval \<times> string" where
  "signWith t sg payload =
     (case signPayload t sg payload of
        Inl err \<Rightarrow> (JUndef, [])
      | Inr sp \<Rightarrow>
          (JObj [(''type'', JStr ''JsonWebSignature2020''), (''proofPurpose'', JStr ''assertionMethod''),
                 (''created'', JStr (pf_created (sp_proof sp))),
                 (''verificationMethod'', JStr (pf_verificationMethod (sp_proof sp))),
                 (''jws'', JStr (pf_jws (sp_proof sp)))],
           sp_signature sp))"

end
