(* ===== verification/Sharing.thy ===== *)
theory Sharing
  imports Verification Accounts
begin

text \<open>
  The properties of share links and public verification. \<open>link_step\<close> is the system that the services
  \<open>Access\<close> and \<open>Verification\<close> form: visitors whose grant has been read and whose view is not counted yet
  are pending, and any operation may run between the two halves of a visit.
\<close>

section \<open>What the operations write\<close>

lemma drawn_link_tables [simp]:
  "accessGrants (drawn d) = accessGrants d" "verificationEvents (drawn d) = verificationEvents d"
  "learners (drawn d) = learners d"
  by (simp_all add: drawn_def)

lemma encryptOptional_tables [simp]:
  "accessGrants (snd (encryptOptional sx vx d v)) = accessGrants d"
  "verificationEvents (snd (encryptOptional sx vx d v)) = verificationEvents d"
  "revenueEntries (snd (encryptOptional sx vx d v)) = revenueEntries d"
  "credentials (snd (encryptOptional sx vx d v)) = credentials d"
  by (simp_all add: encryptOptional_def Let_def drawn_def)

text \<open>\<open>event_of\<close> is the event that a creation appends.\<close>

lemma createEvent_effect:
  assumes "createEvent sx vx e cid gid kind name ctx outcome sv d = (ev, d')"
  shows "accessGrants d' = accessGrants d" and "revenueEntries d' = revenueEntries d"
    and "credentials d' = credentials d" and "verificationEvents d' = verificationEvents d @ [ev]"
    and "ve_credentialId ev = cid" and "ve_accessGrantId ev = gid" and "ve_verifierType ev = kind"
    and "ve_outcome ev = outcome" and "ve_scopeViewed ev = sv"
  using assms by (auto simp: createEvent_def Let_def split_beta drawn_def)

lemma revenue_effect:
  assumes "recordVerificationRevenue vx e ev i text d = Inr d'"
  shows "accessGrants d' = accessGrants d" and "verificationEvents d' = verificationEvents d"
    and "credentials d' = credentials d"
    and "\<exists>u. revenueEntries d' = revenueEntries d @
      (if 0 < feeMinor (vx_fee vx) then [(verificationEntry (feeMinor (vx_fee vx)) ev i text)\<lparr>rv_uuid := u\<rparr>] else [])"
  using assms
  by (auto simp: recordVerificationRevenue_def Let_def createRevenueEntry_def drawn_def err_simps split: if_splits)

definition charged :: "verification_event \<Rightarrow> bool" where
  "charged v \<longleftrightarrow> ve_outcome v = CONFIRMED \<and> ve_verifierType v \<in> {''SHARE_LINK'', ''CREDENTIAL_REFERENCE''}"

definition fees :: "db \<Rightarrow> (string option \<times> string option \<times> int) list" where
  "fees d = map (\<lambda>v. (rv_sourceId v, rv_credentialId v, rv_amountMinor v))
     (filter (\<lambda>v. rv_category v = VERIFICATION_FEE) (revenueEntries d))"

definition due_fees :: "int \<Rightarrow> db \<Rightarrow> (string option \<times> string option \<times> int) list" where
  "due_fees fee d = map (\<lambda>v. (Some (ve_uuid v), Some (ve_credentialId v), fee)) (filter charged (verificationEvents d))"

text \<open>A step keeps the grants, and bills the events that it adds.\<close>

definition bills :: "verification_env \<Rightarrow> db \<Rightarrow> db \<Rightarrow> bool" where
  "bills vx d d' \<longleftrightarrow>
     (0 < feeMinor (vx_fee vx) \<longrightarrow> feeMinor (vx_fee vx) \<le> 2147483647 \<longrightarrow> fees d = due_fees (feeMinor (vx_fee vx)) d \<longrightarrow>
      fees d' = due_fees (feeMinor (vx_fee vx)) d')"

definition quiet :: "verification_env \<Rightarrow> db \<Rightarrow> db \<Rightarrow> bool" where
  "quiet vx d d' \<longleftrightarrow> accessGrants d' = accessGrants d \<and> credentials d' = credentials d \<and> bills vx d d'"

lemma quiet_refl [simp]: "quiet vx d d"
  by (simp add: quiet_def bills_def)

lemma quiet_trans: "quiet vx d d' \<Longrightarrow> quiet vx d' d'' \<Longrightarrow> quiet vx d d''"
  by (simp add: quiet_def bills_def)

lemma fees_append:
  "revenueEntries d' = revenueEntries d @ vs \<Longrightarrow> fees d' = fees d @ map (\<lambda>v. (rv_sourceId v, rv_credentialId v, rv_amountMinor v))
     (filter (\<lambda>v. rv_category v = VERIFICATION_FEE) vs)"
  by (simp add: fees_def)

lemma due_append:
  "verificationEvents d' = verificationEvents d @ vs \<Longrightarrow>
   due_fees fee d' = due_fees fee d @ map (\<lambda>v. (Some (ve_uuid v), Some (ve_credentialId v), fee)) (filter charged vs)"
  by (simp add: due_fees_def)

lemma event_quiet:
  assumes "createEvent sx vx e cid gid kind name ctx outcome sv d = (ev, d')"
    and "outcome \<noteq> CONFIRMED \<or> kind \<notin> {''SHARE_LINK'', ''CREDENTIAL_REFERENCE''}"
  shows "quiet vx d d'"
proof -
  note ev = createEvent_effect [OF assms(1)]
  have "\<not> charged ev" using ev(7,8) assms(2) by (auto simp: charged_def)
  then show ?thesis
    using ev(1,2,3,4) by (simp add: quiet_def bills_def fees_def due_fees_def)
qed

lemma recordVerification_quiet:
  assumes "outcome \<noteq> CONFIRMED"
  shows "quiet vx d (recordVerification sx vx e cid gid outcome sv kind ctx d)"
  using event_quiet [of sx vx e cid gid kind "vc_verifierName ctx" ctx outcome sv d] assms
  by (simp add: recordVerification_def prod_eq_iff)

lemma charged_event_bills:
  assumes "createEvent sx vx e cid gid kind name ctx CONFIRMED sv d = (ev, d1)"
    and "kind \<in> {''SHARE_LINK'', ''CREDENTIAL_REFERENCE''}"
    and "recordVerificationRevenue vx e ev i text d1 = Inr d'"
  shows "bills vx d d' \<and> accessGrants d' = accessGrants d \<and> credentials d' = credentials d"
proof -
  note ev = createEvent_effect [OF assms(1)] and rev = revenue_effect [OF assms(3)]
  have "charged ev" using ev(7,8) assms(2) by (simp add: charged_def)
  then have due: "due_fees fee d' = due_fees fee d @ [(Some (ve_uuid ev), Some cid, fee)]" for fee
    using ev(4,5) rev(2) due_append [of d' d "[ev]" fee] by simp
  obtain u where "revenueEntries d' = revenueEntries d @
      (if 0 < feeMinor (vx_fee vx) then [(verificationEntry (feeMinor (vx_fee vx)) ev i text)\<lparr>rv_uuid := u\<rparr>] else [])"
    using rev(4) ev(2) by auto
  from fees_append [OF this]
  have "0 < feeMinor (vx_fee vx) \<Longrightarrow> fees d' = fees d @ [(Some (ve_uuid ev), Some cid, feeMinor (vx_fee vx))]"
    using ev(5) by (simp add: verificationEntry_def)
  with due ev(1,3) rev(1,3) show ?thesis by (simp add: bills_def)
qed

lemma verifyReference_quiet: "quiet vx d (snd (verifyReference sx vx sg e d refnum ctx))"
proof (cases "find_by cr_credentialRef refnum (credentials d)")
  case (Some c)
  show ?thesis
  proof (cases "find_by in_uuid (cr_institutionId c) (institutions d)")
    case (Some i)
    have rev: "quiet vx d (recordVerification sx vx e (cr_uuid c) None Out_REVOKED sv k ctx d)" for sv k
      by (rule recordVerification_quiet) simp
    have valid: "quiet vx d (snd (case recordVerificationRevenue vx e ev u label d1 of
        Inl err \<Rightarrow> (Inl err, d1) | Inr d2 \<Rightarrow> (Inr a, d2)))"
      if "createEvent sx vx e (cr_uuid c) None ''CREDENTIAL_REFERENCE'' (vc_verifierName ctx) ctx CONFIRMED sv d = (ev, d1)"
      for ev d1 u label sv and a :: verification_answer
    proof (cases "recordVerificationRevenue vx e ev u label d1")
      case (Inl err)
      then have "feeMinor (vx_fee vx) > 2147483647"
        by (auto simp: recordVerificationRevenue_def Let_def failIf_def split: if_splits)
      with Inl createEvent_effect [OF that] show ?thesis by (simp add: quiet_def bills_def)
    next
      case (Inr d2)
      with charged_event_bills [OF that _ Inr] show ?thesis by (simp add: quiet_def)
    qed
    have invalid: "quiet vx d d1"
      if "createEvent sx vx e (cr_uuid c) None ''CREDENTIAL_REFERENCE'' (vc_verifierName ctx) ctx DISCREPANCY sv d = (ev, d1)"
      for ev d1 sv
      by (rule event_quiet [OF that]) simp
    show ?thesis
      using rev valid invalid \<open>find_by cr_credentialRef refnum (credentials d) = Some c\<close> Some
      by (auto simp: verifyReference_def Let_def split: sum.split prod.split)
  qed (simp add: verifyReference_def Some)
qed (simp add: verifyReference_def)

lemma lookupAin_quiet:
  assumes "lookupAin sx vx e d ain ctx = Inr (a, d')"
  shows "quiet vx d d'"
proof -
  have ev: "quiet vx d (snd (createEvent sx vx e cid None ''AIN_LOOKUP'' name ctx outcome sv d))" for cid name outcome sv
  proof -
    obtain ev d1 where c: "createEvent sx vx e cid None ''AIN_LOOKUP'' name ctx outcome sv d = (ev, d1)" by fastforce
    have "quiet vx d d1" by (rule event_quiet [OF c]) simp
    with c show ?thesis by simp
  qed
  then show ?thesis
    using assms by (auto simp: lookupAin_def err_simps Let_def split: option.splits)
qed

lemma run_all_quiet:
  assumes "\<And>x d. quiet vx d (snd (f x d))"
  shows "quiet vx d (snd (run_all f xs d))"
proof (induction xs arbitrary: d)
  case (Cons x xs)
  then show ?case using assms quiet_trans by (fastforce simp: split_beta Let_def)
qed simp

lemma bulkVerify_quiet: "quiet vx d (snd (bulkVerify sx vx sg e d body ctx))"
proof -
  let ?f = "\<lambda>r d. verifyReference sx vx sg e d r ctx"
  let ?g = "\<lambda>a d. case lookupAin sx vx e d a ctx of Inl err \<Rightarrow> (Inl err, d) | Inr (x, d') \<Rightarrow> (Inr x, d')"
  have "quiet vx d (snd (run_all ?f xs d))" for xs d by (rule run_all_quiet) (rule verifyReference_quiet)
  moreover have "quiet vx d (snd (run_all ?g xs d))" for xs d
    by (rule run_all_quiet) (auto split: sum.split intro: lookupAin_quiet)
  ultimately show ?thesis
    using quiet_trans by (fastforce simp: bulkVerify_def split_beta Let_def)
qed

lemma request_frame:
  assumes "createRecordRequestRecord sx e fee d auth body = Inr (r, l, d')"
  shows "accessGrants d' = accessGrants d \<and> credentials d' = credentials d \<and> revenueEntries d' = revenueEntries d \<and>
    verificationEvents d' = verificationEvents d"
proof -
  have ids: "nextRecordRequestId sx e n d = Inr (i, d1) \<Longrightarrow> \<exists>k. d1 = d\<lparr>draws := draws d + k\<rparr>" for n i d1 and d :: db
  proof (induction n arbitrary: d)
    case (Suc n)
    show ?case
    proof (cases "find_by rr_requestId (requestIdOf sx e d) (recordRequests d) = None")
      case True
      with Suc.prems show ?thesis by (auto simp: drawn_def intro!: exI [of _ 1])
    next
      case False
      with Suc.prems have "nextRecordRequestId sx e n (drawn d) = Inr (i, d1)" by simp
      from Suc.IH [OF this] obtain k where "d1 = (drawn d)\<lparr>draws := draws (drawn d) + k\<rparr>" by blast
      then show ?thesis by (auto simp: drawn_def intro!: exI [of _ "Suc k"])
    qed
  qed simp
  have leads: "accessGrants d'' = accessGrants d \<and> credentials d'' = credentials d \<and> revenueEntries d'' = revenueEntries d \<and>
      verificationEvents d'' = verificationEvents d"
    if "createInvitationLeadForUnregisteredInstitution e d auth q b = (l, d'')" for d d'' q b l
    using that by (auto simp: createInvitationLeadForUnregisteredInstitution_def Let_def drawn_def split: option.splits if_splits)
  from assms show ?thesis
    by (auto simp: createRecordRequestRecord_def err_simps Let_def drawn_def dest!: ids leads split: prod.splits)
qed

section \<open>The machine\<close>

type_synonym visit = "access_grant \<times> credential \<times> jval"

text \<open>At most \<open>N\<close> visitors are pending; the identifiers of new grants are new.\<close>

inductive link_step :: "nat \<Rightarrow> verification_env \<Rightarrow> db \<times> visit list \<Rightarrow> db \<times> visit list \<Rightarrow> bool" for N vx where
  share: "createShareLink sx e d auth body = Inr (l, d') \<Longrightarrow> fresh e (drawn d) \<notin> xg_uuid ` set (accessGrants d) \<Longrightarrow>
    link_step N vx (d, p) (d', p)"
| revoke: "revokeGrant e d auth body = (r, d') \<Longrightarrow> link_step N vx (d, p) (d', p)"
| request: "createRecordRequestRecord sx e fee d auth body = Inr (r, l, d') \<Longrightarrow> link_step N vx (d, p) (d', p)"
| check: "checkToken e d token = Inr (Link_open g c v) \<Longrightarrow> length p < N \<Longrightarrow> link_step N vx (d, p) (d, (g, c, v) # p)"
| refuse: "checkToken e d token = Inr k \<Longrightarrow> (\<forall>g c v. k \<noteq> Link_open g c v) \<Longrightarrow>
    answerLink sx vx e ctx k d = (a, d') \<Longrightarrow> link_step N vx (d, p) (d', p)"
| commit: "(g, c, v) \<in> set p \<Longrightarrow> answerLink sx vx e ctx (Link_open g c v) d = (a, d') \<Longrightarrow>
    link_step N vx (d, p) (d', remove1 (g, c, v) p)"
| reference: "verifyReference sx vx sg e d refnum ctx = (a, d') \<Longrightarrow> link_step N vx (d, p) (d', p)"
| lookup: "lookupAin sx vx e d ain ctx = Inr (b, d') \<Longrightarrow> link_step N vx (d, p) (d', p)"
| bulk: "bulkVerify sx vx sg e d body ctx = (c, d') \<Longrightarrow> link_step N vx (d, p) (d', p)"

abbreviation link_steps :: "nat \<Rightarrow> verification_env \<Rightarrow> db \<times> visit list \<Rightarrow> db \<times> visit list \<Rightarrow> bool" where
  "link_steps N vx \<equiv> (link_step N vx)\<^sup>*\<^sup>*"

definition pending_for :: "string \<Rightarrow> visit list \<Rightarrow> nat" where
  "pending_for u p = length (filter (\<lambda>x. xg_uuid (fst x) = u) p)"

definition within_limit :: "nat \<Rightarrow> visit list \<Rightarrow> access_grant \<Rightarrow> bool" where
  "within_limit N p g \<longleftrightarrow>
     (case xg_maxViews g of None \<Rightarrow> True | Some m \<Rightarrow> xg_viewCount g + int (pending_for (xg_uuid g) p) \<le> m + int N - 1)"

definition links_ok :: "nat \<Rightarrow> db \<times> visit list \<Rightarrow> bool" where
  "links_ok N s \<longleftrightarrow> distinct (map xg_uuid (accessGrants (fst s))) \<and> length (snd s) \<le> N \<and>
     (\<forall>g \<in> set (accessGrants (fst s)). within_limit N (snd s) g)"

lemma pending_le: "pending_for u p \<le> length p"
  by (simp add: pending_for_def)

lemma pending_Cons [simp]: "pending_for u (x # p) = (if xg_uuid (fst x) = u then 1 else 0) + pending_for u p"
  by (simp add: pending_for_def)

lemma pending_remove1:
  "x \<in> set p \<Longrightarrow> pending_for u p = pending_for u (remove1 x p) + (if xg_uuid (fst x) = u then 1 else 0)"
  by (induction p) (auto simp: pending_for_def)

lemma revoke_tables:
  assumes "revokeGrant e d auth body = (r, d')"
  shows "verificationEvents d' = verificationEvents d \<and> revenueEntries d' = revenueEntries d \<and> credentials d' = credentials d \<and>
    (accessGrants d' = accessGrants d \<or>
    (\<exists>u. accessGrants d' = set_by xg_uuid u (xg_revokedAt_update (\<lambda>_. Some (now e))) (accessGrants d)))"
proof (cases "revokeRow e d auth body")
  case (Inr x)
  obtain l g d1 where x: "x = (l, g, d1)" by (cases x)
  have "\<exists>u. d1 = d\<lparr>accessGrants := set_by xg_uuid u (xg_revokedAt_update (\<lambda>_. Some (now e))) (accessGrants d)\<rparr>"
    using Inr x by (auto simp: revokeRow_def err_simps)
  moreover have "d' = d1 \<or> (\<exists>ev. d' = audit_write ev d1)"
    using assms Inr x by (auto simp: revokeGrant_def split: if_splits)
  ultimately show ?thesis by auto
qed (use assms in \<open>simp add: revokeGrant_def\<close>)

lemma share_grants:
  assumes "createShareLink sx e d auth body = Inr (l, d')"
  shows "\<exists>b lid cid. body = Some b \<and> createAccessGrant_ok e b \<and>
    sl_grant l = newGrant e (fresh e (drawn d)) lid cid (base64url_bytes (randomBytes sx d 32)) b \<and>
    accessGrants d' = accessGrants d @ [sl_grant l] \<and> credentials d' = credentials d \<and>
    revenueEntries d' = revenueEntries d \<and> verificationEvents d' = verificationEvents d"
  using assms unfolding createShareLink_def by (clarsimp simp: err_simps Let_def drawn_def) blast

lemma check_grant:
  assumes "checkToken e d token = Inr (Link_open g c v)"
  shows "g \<in> set (accessGrants d)" and "deniedReason e g = None" and "cr_status c = Cred_ACTIVE"
    and "xg_tokenHash g = sha256 e token" and "c \<in> set (credentials d)" and "cr_uuid c = xg_credentialId g"
proof -
  obtain g' where g': "find_by xg_tokenHash (sha256 e token) (accessGrants d) = Some g'"
    using assms by (cases "find_by xg_tokenHash (sha256 e token) (accessGrants d)") (auto simp: checkToken_def)
  from assms g' have run: "bindE (grantWithCredential d g') (\<lambda>(c, l, i). Inr (case deniedReason e g' of
      Some reason \<Rightarrow> Link_denied g' reason
    | None \<Rightarrow> (if cr_status c \<noteq> Cred_ACTIVE then Link_inactive g' c
               else Link_open g' c (scopeCredential (xg_scope g') c l i)))) = Inr (Link_open g c v)"
    by (simp add: checkToken_def)
  then obtain c' l i where c': "grantWithCredential d g' = Inr (c', l, i)" by (auto simp: bindE_eq_Inr)
  have "deniedReason e g' = None"
    using run c' by (cases "deniedReason e g'") simp_all
  with run c' have "g' = g \<and> deniedReason e g = None \<and> cr_status c = Cred_ACTIVE \<and> c' = c"
    by (simp split: if_splits)
  moreover from c' have "c' \<in> set (credentials d) \<and> cr_uuid c' = xg_credentialId g'"
    by (auto simp: err_simps grantWithCredential_def dest: find_by_Some)
  moreover have "g' \<in> set (accessGrants d) \<and> xg_tokenHash g' = sha256 e token" using find_by_Some [OF g'] .
  ultimately show "g \<in> set (accessGrants d)" "deniedReason e g = None" "cr_status c = Cred_ACTIVE"
    "xg_tokenHash g = sha256 e token" "c \<in> set (credentials d)" "cr_uuid c = xg_credentialId g" by simp_all
qed

lemma commit_effect:
  assumes "commitView sx vx e ctx g c v d = Inr d'"
  shows "accessGrants d' = set_by xg_uuid (xg_uuid g) viewed (accessGrants d)" and "credentials d' = credentials d"
    and "bills vx d d'"
    and "\<exists>ev. verificationEvents d' = verificationEvents d @ [ev] \<and> ve_outcome ev = CONFIRMED \<and>
      ve_accessGrantId ev = Some (xg_uuid g) \<and> ve_scopeViewed ev = v"
proof -
  let ?d = "d\<lparr>accessGrants := set_by xg_uuid (xg_uuid g) viewed (accessGrants d)\<rparr>"
  obtain ev d1 where ev: "createEvent sx vx e (cr_uuid c) (Some (xg_uuid g)) ''SHARE_LINK''
      (orElse (vc_verifierName ctx) (Some (xg_recipientLabel g))) ctx CONFIRMED v ?d = (ev, d1)"
    by (meson surj_pair)
  with assms have rev: "recordVerificationRevenue vx e ev (cr_institutionId c) ''Share-link credential verification fee'' d1 = Inr d'"
    by (auto simp: commitView_def err_simps)
  note eff = createEvent_effect [OF ev] and reff = revenue_effect [OF rev]
  have "bills vx ?d d'" using charged_event_bills [OF ev _ rev] by simp
  then show "bills vx d d'" by (simp add: bills_def fees_def due_fees_def)
  show "accessGrants d' = set_by xg_uuid (xg_uuid g) viewed (accessGrants d)" "credentials d' = credentials d"
    "\<exists>ev. verificationEvents d' = verificationEvents d @ [ev] \<and> ve_outcome ev = CONFIRMED \<and>
      ve_accessGrantId ev = Some (xg_uuid g) \<and> ve_scopeViewed ev = v"
    using eff reff by auto
qed

lemma commit_succeeds:
  assumes "xg_uuid g \<in> xg_uuid ` set (accessGrants d)" and "feeMinor (vx_fee vx) \<le> 2147483647"
  shows "\<exists>d'. commitView sx vx e ctx g c v d = Inr d'"
proof -
  have "update_by xg_uuid (xg_uuid g) viewed (accessGrants d) = Inr (set_by xg_uuid (xg_uuid g) viewed (accessGrants d))"
    using assms(1) by (simp add: update_by_eq_Inr)
  then show ?thesis using assms(2) by (simp add: commitView_def split_beta recordVerificationRevenue_def Let_def)
qed

section \<open>The view limit\<close>

lemma viewed_fields [simp]:
  "xg_uuid (viewed g) = xg_uuid g" "xg_maxViews (viewed g) = xg_maxViews g" "xg_viewCount (viewed g) = xg_viewCount g + 1"
  by (simp_all add: viewed_def)

lemma limit_open:
  assumes "deniedReason e g = None" and "length p < N"
  shows "within_limit N ((g, c, v) # p) g"
  using assms pending_le [of "xg_uuid g" p]
  by (auto simp: within_limit_def deniedReason_def split: option.splits if_splits)

lemma links_ok_step:
  assumes "link_step N vx s s'" and "links_ok N s"
  shows "links_ok N s'"
  using assms
proof (cases rule: link_step.cases)
  case (share sx e d auth body l d' p)
  obtain b lid cid where new: "createAccessGrant_ok e b"
    "sl_grant l = newGrant e (fresh e (drawn d)) lid cid (base64url_bytes (randomBytes sx d 32)) b"
    "accessGrants d' = accessGrants d @ [sl_grant l]"
    using share_grants [OF share(3)] by blast
  have len: "length p \<le> N" using share(1) assms(2) by (simp add: links_ok_def)
  then have "within_limit N p (sl_grant l)"
    using new(1) pending_le [of "fresh e (drawn d)" p]
    by (auto simp: new(2) newGrant_def within_limit_def createAccessGrant_ok_def split: option.splits)
  moreover have "xg_uuid (sl_grant l) \<notin> xg_uuid ` set (accessGrants d)" using share(4) by (simp add: new(2) newGrant_def)
  ultimately show ?thesis using assms(2) share(1,2) new(3) by (simp add: links_ok_def)
next
  case (revoke e d auth body r d' p)
  from revoke_tables [OF revoke(3)] show ?thesis
  proof (elim conjE disjE exE)
    fix u assume rows: "accessGrants d' = set_by xg_uuid u (xg_revokedAt_update (\<lambda>_. Some (now e))) (accessGrants d)"
    have "within_limit N p (xg_revokedAt_update (\<lambda>_. Some (now e)) g) = within_limit N p g" for g
      by (simp add: within_limit_def split: option.split)
    with rows assms(2) revoke(1,2) show ?thesis by (auto simp: links_ok_def keys_set_by in_set_by)
  qed (use assms(2) revoke(1,2) in \<open>simp add: links_ok_def\<close>)
next
  case (request sx e fee d auth body r l d' p)
  with request_frame [OF request(3)] assms(2) show ?thesis by (simp add: links_ok_def)
next
  case (check e d token g c v p)
  have g: "g \<in> set (accessGrants d)" "deniedReason e g = None" using check_grant [OF check(3)] by simp_all
  have "within_limit N ((g, c, v) # p) h" if h: "h \<in> set (accessGrants d)" for h
  proof (cases "xg_uuid h = xg_uuid g")
    case True
    with h g(1) assms(2) check(1) have "h = g" by (auto simp: links_ok_def intro: distinct_key_eq)
    with limit_open [OF g(2) check(4)] show ?thesis by simp
  next
    case False
    with h assms(2) check(1) show ?thesis by (auto simp: links_ok_def within_limit_def split: option.splits)
  qed
  with assms(2) check(1,2,4) show ?thesis by (simp add: links_ok_def)
next
  case (refuse e d token k sx ctx a d' p)
  have "accessGrants d' = accessGrants d"
    using refuse(4,5) recordVerification_quiet [of _ vx] by (auto simp: answerLink_def quiet_def split: link_check.splits)
  with refuse(1,2) assms(2) show ?thesis by (simp add: links_ok_def)
next
  case (commit g c v p sx e ctx d a d')
  let ?q = "remove1 (g, c, v) p"
  have len: "length ?q \<le> length p" by (simp add: length_remove1)
  have less: "pending_for u ?q \<le> pending_for u p" for u using pending_remove1 [OF commit(3), of u] by simp
  show ?thesis
  proof (cases "accessGrants d' = accessGrants d")
    case True
    have "within_limit N ?q h" if "within_limit N p h" for h
      using that less [of "xg_uuid h"] by (auto simp: within_limit_def split: option.splits)
    with True len commit(1,2) assms(2) show ?thesis by (auto simp: links_ok_def)
  next
    case False
    then have "commitView sx vx e ctx g c v d = Inr d'"
      using commit(4) by (auto simp: answerLink_def split: sum.splits)
    from commit_effect(1) [OF this]
    have rows: "accessGrants d' = set_by xg_uuid (xg_uuid g) viewed (accessGrants d)" .
    have "within_limit N ?q (if xg_uuid h = xg_uuid g then viewed h else h)" if "within_limit N p h" for h
      using that pending_remove1 [OF commit(3), of "xg_uuid h"]
      by (auto simp: within_limit_def split: option.splits)
    with rows len commit(1,2) assms(2) show ?thesis by (fastforce simp: links_ok_def keys_set_by in_set_by)
  qed
next
  case (reference sx sg e d refnum ctx a d' p)
  then show ?thesis using verifyReference_quiet [of vx d sx sg e refnum ctx] assms(2) by (simp add: links_ok_def quiet_def)
next
  case (lookup sx e d ain ctx b d' p)
  then show ?thesis using lookupAin_quiet [OF lookup(3)] assms(2) by (simp add: links_ok_def quiet_def)
next
  case (bulk sx sg e d body ctx c d' p)
  then show ?thesis using bulkVerify_quiet [of vx d sx sg e body ctx] assms(2) by (simp add: links_ok_def quiet_def)
qed

lemma links_ok_steps: "link_steps N vx s s' \<Longrightarrow> links_ok N s \<Longrightarrow> links_ok N s'"
  by (induction rule: rtranclp_induct) (auto intro: links_ok_step)

text \<open>C16. A share link is not viewed more often than its limit allows, up to the number of visitors that are in
  the middle of a visit at one time less one: with one visitor at a time the limit is exact. The bound holds
  after any operations on grants, requests and verifications in any order.\<close>

theorem share_link_views_bounded:
  assumes "link_steps N vx (d, []) (d', p)" and "links_ok N (d, [])"
    and "g \<in> set (accessGrants d')" and "xg_maxViews g = Some m"
  shows "xg_viewCount g \<le> m + int N - 1"
  using links_ok_steps [OF assms(1,2)] assms(3,4) by (fastforce simp: links_ok_def within_limit_def)

text \<open>The limit is checked before the transaction that counts the view: two visitors who both read a link
  with one view left are both answered with the credential, and the count exceeds the limit.\<close>

theorem concurrent_visits_exceed_limit:
  assumes "checkToken e d token = Inr (Link_open g c v)" and "xg_maxViews g = Some (xg_viewCount g + 1)"
    and "distinct (map xg_uuid (accessGrants d))" and "feeMinor (vx_fee vx) \<le> 2147483647"
  shows "\<exists>d1 d2 h. answerLink sx vx e ctx (Link_open g c v) d = (Inr (confirmedView v), d1) \<and>
    answerLink sx' vx e ctx' (Link_open g c v) d1 = (Inr (confirmedView v), d2) \<and>
    h \<in> set (accessGrants d2) \<and> xg_uuid h = xg_uuid g \<and> xg_maxViews h = xg_maxViews g \<and>
    xg_viewCount h = xg_viewCount g + 2"
proof -
  have g: "g \<in> set (accessGrants d)" using check_grant [OF assms(1)] by simp
  then obtain d1 where d1: "commitView sx vx e ctx g c v d = Inr d1" using commit_succeeds [OF imageI assms(4)] by blast
  have rows: "accessGrants d1 = set_by xg_uuid (xg_uuid g) viewed (accessGrants d)" by (rule commit_effect [OF d1])
  then have "viewed g \<in> set (accessGrants d1)" using g by (auto simp: in_set_by)
  moreover from this have "xg_uuid g \<in> xg_uuid ` set (accessGrants d1)" by (metis viewed_fields(1) imageI)
  then obtain d2 where d2: "commitView sx' vx e ctx' g c v d1 = Inr d2" using commit_succeeds [OF _ assms(4)] by blast
  ultimately have "viewed (viewed g) \<in> set (accessGrants d2)"
    using commit_effect(1) [OF d2] by (auto simp: in_set_by intro: bexI [of _ "viewed g"])
  with d1 d2 show ?thesis
    by (intro exI [of _ d1] exI [of _ d2] exI [of _ "viewed (viewed g)"]) (simp add: answerLink_def)
qed

section \<open>Fees\<close>

lemma refuse_quiet:
  assumes "answerLink sx vx e ctx k d = (a, d')" and "\<forall>g c v. k \<noteq> Link_open g c v"
  shows "quiet vx d d'"
  using assms recordVerification_quiet [of _ vx] by (auto simp: answerLink_def split: link_check.splits)

lemma answer_bills:
  assumes "answerLink sx vx e ctx (Link_open g c v) d = (a, d')"
  shows "bills vx d d'"
proof (cases "commitView sx vx e ctx g c v d")
  case (Inr d2)
  with assms commit_effect(3) [OF Inr] show ?thesis by (simp add: answerLink_def)
qed (use assms in \<open>simp add: answerLink_def bills_def\<close>)

lemma unbilled: "revenueEntries d' = revenueEntries d \<Longrightarrow> verificationEvents d' = verificationEvents d \<Longrightarrow> bills vx d d'"
  by (simp add: bills_def fees_def due_fees_def)

lemma link_step_bills:
  assumes "link_step N vx s s'"
  shows "bills vx (fst s) (fst s')"
  using assms
proof (cases rule: link_step.cases)
  case (share sx e d auth body l d' p)
  with share_grants [OF share(3)] show ?thesis by (auto intro: unbilled)
next
  case (revoke e d auth body r d' p)
  with revoke_tables [OF revoke(3)] show ?thesis by (auto intro: unbilled)
next
  case (request sx e fee d auth body r l d' p)
  with request_frame [OF request(3)] show ?thesis by (auto intro: unbilled)
next
  case (refuse e d token k sx ctx a d' p)
  with refuse_quiet [OF refuse(5,4)] show ?thesis by (simp add: quiet_def)
next
  case (commit g c v p sx e ctx d a d')
  with answer_bills [OF commit(4)] show ?thesis by simp
next
  case (reference sx sg e d refnum ctx a d' p)
  then show ?thesis using verifyReference_quiet [of vx d sx sg e refnum ctx] by (simp add: quiet_def)
next
  case (lookup sx e d ain ctx b d' p)
  then show ?thesis using lookupAin_quiet [OF lookup(3)] by (simp add: quiet_def)
next
  case (bulk sx sg e d body ctx c d' p)
  then show ?thesis using bulkVerify_quiet [of vx d sx sg e body ctx] by (simp add: quiet_def)
qed (simp add: bills_def)

text \<open>With a fee configured, the ledger holds exactly one verification fee for every confirmed share-link or
  reference verification, in the same order and for the same credential, and none for anything else, after any
  run of the services in which a verification by reference is not interrupted between its event and its fee, and
  the lookups of a bulk verification run one after the other.\<close>

theorem verification_fees_match:
  assumes "link_steps N vx (d, p) (d', p')" and "0 < feeMinor (vx_fee vx)" and "feeMinor (vx_fee vx) \<le> 2147483647"
    and "fees d = due_fees (feeMinor (vx_fee vx)) d"
  shows "fees d' = due_fees (feeMinor (vx_fee vx)) d'"
proof -
  have "bills vx d (fst s)" if "link_steps N vx (d, p) s" for s
    using that
  proof (induction rule: rtranclp_induct)
    case (step y z)
    then show ?case using link_step_bills [OF step(2)] by (simp add: bills_def)
  qed (simp add: bills_def)
  from this [OF assms(1)] assms(2-4) show ?thesis by (simp add: bills_def)
qed

section \<open>The life of a link\<close>

text \<open>The token that a learner gets for an active credential of theirs opens it: any later visit before the
  expiry is answered with the credential in the scope that was chosen, and counted.\<close>

theorem shared_link_opens:
  assumes "createShareLink sx e d auth (Some b) = Inr (l, d')" and "sha256 e' = sha256 e"
    and "\<And>t. xg_expiresAt (sl_grant l) = Some t \<Longrightarrow> now e' < t"
    and "\<forall>c \<in> set (credentials d). find_by cr_uuid (cr_uuid c) (credentials d) = Some c \<and>
      find_by le_uuid (cr_learnerId c) (learners d) \<noteq> None \<and> find_by in_uuid (cr_institutionId c) (institutions d) \<noteq> None"
    and "feeMinor (vx_fee vx) \<le> 2147483647"
  shows "\<exists>c lr i d''. c \<in> set (credentials d) \<and> cr_credentialRef c = sb_credentialRef b \<and> cr_status c = Cred_ACTIVE \<and>
    au_learnerId auth = Some (cr_learnerId c) \<and> le_uuid lr = cr_learnerId c \<and> in_uuid i = cr_institutionId c \<and>
    verifyShareLink sx' vx e' d' (sl_token l) ctx = (Inr (confirmedView (scopeCredential (getOr (sb_scope b) Scope_FULL) c lr i)), d'') \<and>
    find_by xg_uuid (xg_uuid (sl_grant l)) (accessGrants d'') \<noteq> None"
proof -
  let ?token = "base64url_bytes (randomBytes sx d 32)"
  from assms(1) obtain lid c where run: "au_learnerId auth = Some lid" "createAccessGrant_ok e b"
      "List.find (\<lambda>c. cr_credentialRef c = sb_credentialRef b \<and> cr_learnerId c = lid) (credentials d) = Some c"
      "cr_status c = Cred_ACTIVE"
    and l: "sl_grant l = newGrant e (fresh e (drawn d)) lid (cr_uuid c) ?token b" "sl_token l = ?token"
    and dist: "distinct (List.map_filter (\<lambda>g. Some (xg_tokenHash g)) (accessGrants d @ [sl_grant l]))"
    and d': "accessGrants d' = accessGrants d @ [sl_grant l]" "credentials d' = credentials d"
      "learners d' = learners d" "institutions d' = institutions d"
    by (auto simp: createShareLink_def requireLearner_def truthy_text_def err_simps Let_def drawn_def split: option.splits)
  have c: "c \<in> set (credentials d)" "cr_credentialRef c = sb_credentialRef b" "cr_learnerId c = lid"
    using find_Some_in [OF run(3)] by simp_all
  obtain lr i where rows: "find_by cr_uuid (cr_uuid c) (credentials d) = Some c"
      "find_by le_uuid lid (learners d) = Some lr" "find_by in_uuid (cr_institutionId c) (institutions d) = Some i"
    using assms(4) c by blast
  have hash: "xg_tokenHash (sl_grant l) = sha256 e ?token" by (simp add: l(1) newGrant_def)
  have "find_by xg_tokenHash (sha256 e ?token) (accessGrants d) = None"
    using dist by (auto simp: find_by_None hash List.map_filter_def comp_def)
  then have found: "find_by xg_tokenHash (sha256 e' (sl_token l)) (accessGrants d') = Some (sl_grant l)"
    using hash by (simp add: d'(1) l(2) assms(2) find_by_append)
  have g: "xg_credentialId (sl_grant l) = cr_uuid c" "xg_scope (sl_grant l) = getOr (sb_scope b) Scope_FULL"
    "xg_revokedAt (sl_grant l) = None" "xg_viewCount (sl_grant l) = 0" "xg_maxViews (sl_grant l) = sb_maxViews b"
    by (simp_all add: l(1) newGrant_def)
  have "deniedReason e' (sl_grant l) = None"
    using assms(3) run(2) by (auto simp: deniedReason_def g createAccessGrant_ok_def split: option.splits)
  then have check: "checkToken e' d' (sl_token l) =
      Inr (Link_open (sl_grant l) c (scopeCredential (getOr (sb_scope b) Scope_FULL) c lr i))"
  proof -
    have "grantWithCredential d' (sl_grant l) = Inr (c, lr, i)"
      using rows c(3) by (simp add: grantWithCredential_def g d')
    with \<open>deniedReason e' (sl_grant l) = None\<close> run(4) show ?thesis by (simp add: checkToken_def found g)
  qed
  let ?v = "scopeCredential (getOr (sb_scope b) Scope_FULL) c lr i"
  have "sl_grant l \<in> set (accessGrants d')" by (simp add: d'(1))
  then obtain d'' where commit: "commitView sx' vx e' ctx (sl_grant l) c ?v d' = Inr d''"
    using commit_succeeds [OF imageI assms(5)] by blast
  have "viewed (sl_grant l) \<in> set (accessGrants d'')"
    using commit_effect(1) [OF commit] \<open>sl_grant l \<in> set (accessGrants d')\<close> by (auto simp: in_set_by)
  then have "find_by xg_uuid (xg_uuid (sl_grant l)) (accessGrants d'') \<noteq> None"
    by (metis find_by_None imageI viewed_fields(1))
  with check commit c run(1,4) find_by_key [OF rows(2)] find_by_key [OF rows(3)] show ?thesis
    by (intro exI [of _ c] exI [of _ lr] exI [of _ i] exI [of _ d'']) (simp add: verifyShareLink_def answerLink_def)
qed

text \<open>Any learner can end any share link whose identifier they know: the row is revoked before its owner is
  compared, so the request of another learner is answered with an error and leaves no audit event, but the link
  is dead for every visitor.\<close>

theorem foreign_grant_revoked:
  assumes "au_learnerId auth = Some other" and "other \<noteq> []" and "zod_uuid e u"
    and "find_by xg_uuid u (accessGrants d) = Some g" and "xg_learnerId g \<noteq> other"
  shows "\<exists>d'. revokeGrant e d auth (Some \<lparr>kb_accessGrantId = u\<rparr>) =
      (Inl (BadRequest ''Access Grant does not belong to learner.''), d') \<and>
    auditEvents d' = auditEvents d \<and>
    (\<forall>h \<in> set (accessGrants d'). xg_uuid h = u \<longrightarrow> deniedReason e' h = Some ''Verification link has been revoked.'')"
proof -
  let ?f = "xg_revokedAt_update (\<lambda>_. Some (now e))"
  let ?rows = "set_by xg_uuid u ?f (accessGrants d)"
  have dead: "\<forall>h \<in> set ?rows. xg_uuid h = u \<longrightarrow> deniedReason e' h = Some ''Verification link has been revoked.''"
  proof (intro ballI impI)
    fix h assume "h \<in> set ?rows" and "xg_uuid h = u"
    then obtain r where "h = ?f r" unfolding in_set_by by blast
    then show "deniedReason e' h = Some ''Verification link has been revoked.''" by (simp add: deniedReason_def)
  qed
  have "update_by xg_uuid u ?f (accessGrants d) = Inr ?rows"
    using assms(4) by (simp add: update_by_def)
  moreover have "find_by xg_uuid u (set_by xg_uuid u ?f (accessGrants d)) = Some (?f g)"
    using assms(4) by (simp add: set_by_same)
  ultimately have row: "revokeRow e d auth (Some \<lparr>kb_accessGrantId = u\<rparr>) =
      Inr (other, ?f g, d\<lparr>accessGrants := set_by xg_uuid u ?f (accessGrants d)\<rparr>)"
    using assms(1-3) by (simp add: revokeRow_def requireLearner_def truthy_text_def safeParse_def revokeAccessGrant_ok_def)
  have "revokeGrant e d auth (Some \<lparr>kb_accessGrantId = u\<rparr>) =
      (Inl (BadRequest ''Access Grant does not belong to learner.''), d\<lparr>accessGrants := ?rows\<rparr>)"
    using assms(5) by (simp add: revokeGrant_def row)
  with dead show ?thesis by (intro exI [of _ "d\<lparr>accessGrants := ?rows\<rparr>"]) simp
qed

section \<open>Witnesses\<close>

definition ada :: auth_token where
  "ada = founder\<lparr>au_sub := ''ada'', au_role := STUDENT, au_learnerId := Some ''l1''\<rparr>"

definition eve :: auth_token where
  "eve = founder\<lparr>au_sub := ''eve'', au_role := STUDENT, au_learnerId := Some ''l2''\<rparr>"

definition slip :: credential where
  "slip = \<lparr>cr_uuid = ''c1'', cr_credentialRef = ''ref-1'', cr_learnerId = ''l1'', cr_institutionId = school,
     cr_academicRecordId = None, cr_recordRequestId = None, cr_type = RESULT_SLIP, cr_scope = JObj [],
     cr_vcPayload = JObj [(''id'', JStr ''urn:uuid:ref-1'')], cr_signature = ''x'', cr_status = Cred_ACTIVE,
     cr_issuedAt = 900, cr_revokedAt = None, cr_revocationReason = None\<rparr>"

definition slip_grant :: access_grant where
  "slip_grant = \<lparr>xg_uuid = ''x1'', xg_learnerId = ''l1'', xg_credentialId = ''c1'', xg_tokenHash = ''ht'',
     xg_scope = Scope_FULL, xg_recipientLabel = ''Employer'', xg_expiresAt = None, xg_revokedAt = None,
     xg_maxViews = Some 1, xg_viewCount = 0, xg_createdAt = 950\<rparr>"

definition slip_db :: db where
  "slip_db = sample_db\<lparr>credentials := [slip], accessGrants := [slip_grant]\<rparr>"

definition one_kobo :: verification_env where
  "one_kobo = \<lparr>vx_key = None, vx_fee = Some ''1''\<rparr>"

definition visitor :: verification_context where
  "visitor = \<lparr>vc_ipAddress = None, vc_verifierName = None, vc_verifierEmail = Some ''hr@firm.ng''\<rparr>"

lemma one_kobo_fee: "feeMinor (vx_fee one_kobo) = 1"
  by code_simp

lemma slip_check: "\<exists>v. checkToken sample_env slip_db ''t'' = Inr (Link_open slip_grant slip v)"
  by (simp add: checkToken_def grantWithCredential_def deniedReason_def slip_db_def slip_grant_def slip_def sample_db_def
      sample_env_def empty_db_def)

lemma slip_links_ok: "links_ok 1 (slip_db, [])"
  by (simp add: links_ok_def within_limit_def slip_db_def slip_grant_def pending_for_def)

lemma slip_visit: "\<exists>d'. link_steps 1 one_kobo (slip_db, []) (d', []) \<and> accessGrants d' = [viewed slip_grant] \<and>
    length (verificationEvents d') = 1"
proof -
  obtain v where v: "checkToken sample_env slip_db ''t'' = Inr (Link_open slip_grant slip v)" using slip_check by blast
  have rows: "accessGrants slip_db = [slip_grant]" "verificationEvents slip_db = []"
    by (simp_all add: slip_db_def sample_db_def empty_db_def)
  obtain d' where d': "commitView toy_secrets one_kobo sample_env visitor slip_grant slip v slip_db = Inr d'"
    using commit_succeeds [of slip_grant slip_db one_kobo toy_secrets sample_env visitor slip v]
    by (auto simp: rows one_kobo_fee)
  have "link_step 1 one_kobo (slip_db, []) (slip_db, [(slip_grant, slip, v)])" by (rule link_step.check [OF v]) simp
  moreover have "link_step 1 one_kobo (slip_db, [(slip_grant, slip, v)]) (d', remove1 (slip_grant, slip, v) [(slip_grant, slip, v)])"
    by (rule link_step.commit [where sx = toy_secrets and e = sample_env and ctx = visitor]) (simp_all add: answerLink_def d')
  ultimately have "link_steps 1 one_kobo (slip_db, []) (d', [])" by (simp add: converse_rtranclp_into_rtranclp)
  with commit_effect(1,4) [OF d'] show ?thesis by (auto simp: rows)
qed

theorem share_link_views_bounded_witness:
  "\<exists>d' g. link_steps 1 one_kobo (slip_db, []) (d', []) \<and> g \<in> set (accessGrants d') \<and> xg_maxViews g = Some 1 \<and>
     xg_viewCount g = 1 \<and> xg_viewCount g \<le> 1 + int 1 - 1"
proof -
  from slip_visit obtain d' where d': "link_steps 1 one_kobo (slip_db, []) (d', [])" "accessGrants d' = [viewed slip_grant]"
    by blast
  have g: "viewed slip_grant \<in> set (accessGrants d')" "xg_maxViews (viewed slip_grant) = Some 1"
    "xg_viewCount (viewed slip_grant) = 1" using d'(2) by (simp_all add: slip_grant_def)
  from share_link_views_bounded [OF d'(1) slip_links_ok g(1,2)] d'(1) g show ?thesis by blast
qed

theorem concurrent_visits_exceed_limit_witness:
  "\<exists>v d1 d2 h. checkToken sample_env slip_db ''t'' = Inr (Link_open slip_grant slip v) \<and>
     answerLink toy_secrets one_kobo sample_env visitor (Link_open slip_grant slip v) slip_db = (Inr (confirmedView v), d1) \<and>
     answerLink toy_secrets one_kobo sample_env visitor (Link_open slip_grant slip v) d1 = (Inr (confirmedView v), d2) \<and>
     h \<in> set (accessGrants d2) \<and> xg_maxViews h = Some 1 \<and> xg_viewCount h = 2"
proof -
  obtain v where v: "checkToken sample_env slip_db ''t'' = Inr (Link_open slip_grant slip v)" using slip_check by blast
  have "xg_maxViews slip_grant = Some (xg_viewCount slip_grant + 1)" by (simp add: slip_grant_def)
  from concurrent_visits_exceed_limit [OF v this, where vx = one_kobo and sx = toy_secrets and ctx = visitor
      and sx' = toy_secrets and ctx' = visitor] v
  show ?thesis by (auto simp: slip_db_def one_kobo_fee) (auto simp: slip_grant_def)
qed

theorem verification_fees_match_witness:
  "\<exists>d'. link_steps 1 one_kobo (slip_db, []) (d', []) \<and> length (verificationEvents d') = 1 \<and> fees d' = due_fees 1 d'"
proof -
  from slip_visit obtain d' where d': "link_steps 1 one_kobo (slip_db, []) (d', [])" "length (verificationEvents d') = 1"
    by blast
  have "fees slip_db = due_fees (feeMinor (vx_fee one_kobo)) slip_db"
    by (simp add: fees_def due_fees_def slip_db_def sample_db_def empty_db_def)
  from verification_fees_match [OF d'(1) _ _ this] d' show ?thesis by (auto simp: one_kobo_fee)
qed

definition slip_share :: share_body where
  "slip_share = \<lparr>sb_credentialRef = ''ref-1'', sb_scope = Some Scope_GPA, sb_recipientLabel = ''Employer'',
     sb_expiresAt = None, sb_maxViews = Some 2\<rparr>"

lemma slip_shared: "\<exists>l d'. createShareLink toy_secrets sample_env slip_db ada (Some slip_share) = Inr (l, d') \<and>
    xg_expiresAt (sl_grant l) = None"
proof -
  have "case createShareLink toy_secrets sample_env slip_db ada (Some slip_share) of Inl _ \<Rightarrow> False
     | Inr (l, d') \<Rightarrow> xg_expiresAt (sl_grant l) = None" by code_simp
  then show ?thesis by (auto split: sum.splits)
qed

theorem shared_link_opens_witness:
  "\<exists>l d' lr i d''. createShareLink toy_secrets sample_env slip_db ada (Some slip_share) = Inr (l, d') \<and>
     verifyShareLink toy_secrets one_kobo sample_env d' (sl_token l) visitor =
       (Inr (confirmedView (scopeCredential Scope_GPA slip lr i)), d'')"
proof -
  obtain l d' where l: "createShareLink toy_secrets sample_env slip_db ada (Some slip_share) = Inr (l, d')"
      "xg_expiresAt (sl_grant l) = None" using slip_shared by blast
  have "\<forall>c \<in> set (credentials slip_db). find_by cr_uuid (cr_uuid c) (credentials slip_db) = Some c \<and>
      find_by le_uuid (cr_learnerId c) (learners slip_db) \<noteq> None \<and>
      find_by in_uuid (cr_institutionId c) (institutions slip_db) \<noteq> None"
    by (simp add: slip_db_def slip_def sample_db_def)
  from shared_link_opens [OF l(1) refl _ this, where vx = one_kobo and sx' = toy_secrets and ctx = visitor] l
  show ?thesis by (auto simp: one_kobo_fee slip_db_def slip_share_def)
qed

theorem foreign_grant_revoked_witness:
  "\<exists>d'. revokeGrant sample_env slip_db eve (Some \<lparr>kb_accessGrantId = ''x1''\<rparr>) =
       (Inl (BadRequest ''Access Grant does not belong to learner.''), d') \<and>
     auditEvents d' = [] \<and> deniedReason sample_env (hd (accessGrants d')) = Some ''Verification link has been revoked.''"
proof -
  have "find_by xg_uuid ''x1'' (accessGrants slip_db) = Some slip_grant" by (simp add: slip_db_def slip_grant_def)
  from foreign_grant_revoked [OF _ _ _ this, where auth = eve and other = "''l2''" and e = sample_env and e' = sample_env] obtain d' where
    d': "revokeGrant sample_env slip_db eve (Some \<lparr>kb_accessGrantId = ''x1''\<rparr>) =
       (Inl (BadRequest ''Access Grant does not belong to learner.''), d')" "auditEvents d' = auditEvents slip_db"
    "\<forall>h \<in> set (accessGrants d'). xg_uuid h = ''x1'' \<longrightarrow> deniedReason sample_env h = Some ''Verification link has been revoked.''"
    by (auto simp: eve_def slip_grant_def sample_env_def)
  have "accessGrants d' = [slip_grant] \<or> (\<exists>u. accessGrants d' = set_by xg_uuid u (xg_revokedAt_update (\<lambda>_. Some (now sample_env))) [slip_grant])"
    using revoke_tables [OF d'(1)] by (simp add: slip_db_def)
  then have "hd (accessGrants d') \<in> set (accessGrants d') \<and> xg_uuid (hd (accessGrants d')) = ''x1''"
    by (auto simp: slip_grant_def)
  with d' show ?thesis by (intro exI [of _ d']) (simp add: slip_db_def sample_db_def empty_db_def)
qed

end
