(* ===== verification/References.thy ===== *)
theory References
  imports Sharing Escrow
begin

text \<open>
  Verification by reference, over the credentials that the publication of result batches and the fulfilment of
  record requests store: what the services sign and store also verifies, through the JSON column that may list
  the properties in another order. And what the answer of the endpoint is worth.
\<close>

section \<open>Published credentials\<close>

lemma fulfilled_signed:
  assumes "fulfillRecordRequest e sign d auth rid body = Inr (r, d')"
    and "c \<in> set (credentials d')" and "c \<notin> set (credentials d)"
  shows "signed_by sign c \<and> cr_status c = Cred_ACTIVE"
proof -
  have signed: "signed_by sign ((requestCredential e sign ref kind x l i)\<lparr>cr_uuid := u\<rparr>)" for ref kind x l i u
    unfolding signed_by_def
    by (rule exI [of _ "requestPayload e ref x l i"]) (simp add: requestCredential_def Let_def requestPayload_def)
  obtain b where "body = Some b" using assms(1) by (cases body) (auto simp: fulfillRecordRequest_def safeParse_def)
  from fulfill_parts [OF assms(1) [unfolded this]] obtain x l i where "credentials d' = credentials d @
      [(requestCredential e sign (fresh e d) (getOr (ffb_credentialType b) TRANSCRIPT) x l i)\<lparr>cr_uuid := fresh e (drawn d)\<rparr>]" .
  with assms(2,3) have "c = (requestCredential e sign (fresh e d) (getOr (ffb_credentialType b) TRANSCRIPT) x l i)
      \<lparr>cr_uuid := fresh e (drawn d)\<rparr>" by auto
  with signed show ?thesis by (auto simp: requestCredential_def Let_def)
qed

lemma published_signed:
  assumes "publishBatch e sign d auth b = Inr (batch, d')"
    and "c \<in> set (credentials d')" and "c \<notin> set (credentials d)"
  shows "signed_by sign c \<and> cr_status c = Cred_ACTIVE"
  using assms(2,3) by (rule_tac publishBatch_Inr [OF assms(1)]) auto

text \<open>Leaving out the proof of a stored credential gives its payload back, up to the order of properties.\<close>

lemma unsigned_same:
  assumes "same_json (toJson (JObj (ob @ [(''proof'', p)]))) v" and "''proof'' \<notin> fst ` set ob"
  shows "same_json (toJson (JObj ob)) (unsignedPayload v)"
proof -
  let ?keep = "filter (\<lambda>q. fst q \<noteq> ''proof'')"
  let ?json = "\<lambda>ob. filter (\<lambda>(k, v). v \<noteq> JUndef) (map (\<lambda>(k, v). (k, toJson v)) ob)"
  have own: "?keep (?json (ob @ [(''proof'', p)])) = ?json ob"
    using assms(2) by (induction ob) auto
  show ?thesis
    using assms(1)
  proof (cases rule: same_json.cases)
    case same
    then have "unsignedPayload v = toJson (JObj ob)" using own by (simp add: unsignedPayload_def)
    then show ?thesis by (simp only: same_json.same)
  next
    case (arr xs ys)
    then show ?thesis by simp
  next
    case (obj xs ys zs)
    let ?R = "\<lambda>p q. fst p = fst q \<and> same_json (snd p) (snd q)"
    have "list_all2 ?R (?keep xs) (?keep ys)"
      using obj(3) by (induction rule: list_all2_induct) auto
    moreover have "mset (?keep ys) = mset (?keep zs)" using obj(4) by (simp add: mset_filter)
    moreover have "distinct (map fst (?keep xs))" using obj(5) by (rule distinct_map_filter)
    ultimately have "same_json (JObj (?keep xs)) (JObj (?keep zs))" by (rule same_json.obj)
    moreover have "?keep xs = ?json ob" using obj(1) own by simp
    ultimately show ?thesis using obj(2) by (simp add: unsignedPayload_def)
  qed
qed

lemma signPayload_obj: "\<exists>s. signPayload t sg (JObj ob) = Inr s"
  by (simp add: signPayload_def encodedPayload_def canonicalJson_obj require_def Let_def)

lemma stored_credential_verifies:
  assumes "newSigner ed opts = Inr sg" and "ed25519_ok ed" and "signed_by (signWith t sg) c"
    and "same_json (toJson (cr_vcPayload c)) v"
  shows "cryptographicallyValid sg (c\<lparr>cr_vcPayload := v\<rparr>) = Inr True"
proof -
  obtain ob where ob: "''proof'' \<notin> fst ` set ob" "cr_vcPayload c = JObj (ob @ [(''proof'', fst (signWith t sg (JObj ob)))])"
      "cr_signature c = snd (signWith t sg (JObj ob))"
    using assms(3) unfolding signed_by_def by blast
  obtain s where s: "signPayload t sg (JObj ob) = Inr s" using signPayload_obj by blast
  have "same_json (toJson (JObj ob)) (unsignedPayload v)" by (rule unsigned_same [OF assms(4) [unfolded ob(2)] ob(1)])
  from signed_verifies [OF assms(1,2) s this]
  have ok: "verifyPayload sg (unsignedPayload v) (sp_signature s) = Inr True" .
  moreover have "sp_signature s \<noteq> []" using s by (auto simp: signPayload_def Let_def err_simps)
  ultimately show ?thesis using ob(3) s by (simp add: cryptographicallyValid_def signWith_def)
qed

text \<open>C17. A credential that the publication of a batch or the fulfilment of a record request stores verifies by its
  reference: signed with the configured key pair, stored as JSON in any order of properties, looked up at any
  later time, it is answered as CONFIRMED and VALID, and the event is recorded as CONFIRMED.\<close>

theorem published_credential_verifies:
  assumes "newSigner ed opts = Inr sg" and "ed25519_ok ed"
    and "publishBatch e (signWith t sg) d auth b = Inr (batch, d') \<or>
      fulfillRecordRequest e (signWith t sg) d auth rid body = Inr (r, d')"
    and "c \<in> set (credentials d')" and "c \<notin> set (credentials d)"
    and "same_json (toJson (cr_vcPayload c)) v"
    and "find_by cr_credentialRef (cr_credentialRef c) (credentials d2) = Some (c\<lparr>cr_vcPayload := v\<rparr>)"
    and "find_by in_uuid (cr_institutionId c) (institutions d2) = Some i"
    and "feeMinor (vx_fee vx) \<le> 2147483647"
  shows "\<exists>a d3 ev. verifyReference sx vx sg e2 d2 (cr_credentialRef c) ctx = (Inr a, d3) \<and>
    va_outcome a = ''CONFIRMED'' \<and> va_cryptographicStatus a = Some ''VALID'' \<and>
    verificationEvents d3 = verificationEvents d2 @ [ev] \<and> ve_outcome ev = CONFIRMED \<and> ve_credentialId ev = cr_uuid c"
proof -
  have signed: "signed_by (signWith t sg) c" and active: "cr_status c = Cred_ACTIVE"
    using assms(3) published_signed [OF _ assms(4,5)] fulfilled_signed [OF _ assms(4,5)] by blast+
  let ?c = "c\<lparr>cr_vcPayload := v\<rparr>"
  let ?sv = "JObj [(''credentialRef'', JStr (cr_credentialRef ?c)), (''cryptographicStatus'', JStr ''VALID'')]"
  have valid: "cryptographicallyValid sg ?c = Inr True"
    by (rule stored_credential_verifies [OF assms(1,2) signed assms(6)])
  obtain ev d1 where ev: "createEvent sx vx e2 (cr_uuid ?c) None ''CREDENTIAL_REFERENCE'' (vc_verifierName ctx) ctx
      CONFIRMED ?sv d2 = (ev, d1)" by fastforce
  obtain d3 where rev: "recordVerificationRevenue vx e2 ev (in_uuid i) ''Credential reference verification fee'' d1 = Inr d3"
    using assms(9) by (fastforce simp: recordVerificationRevenue_def Let_def)
  have "\<exists>a. verifyReference sx vx sg e2 d2 (cr_credentialRef c) ctx = (Inr a, d3) \<and>
      va_outcome a = ''CONFIRMED'' \<and> va_cryptographicStatus a = Some ''VALID''"
    using ev rev by (simp add: verifyReference_def assms(7,8) valid active Let_def)
  moreover have "verificationEvents d3 = verificationEvents d2 @ [ev] \<and> ve_outcome ev = CONFIRMED \<and> ve_credentialId ev = cr_uuid c"
    using createEvent_effect [OF ev] revenue_effect [OF rev] by simp
  ultimately show ?thesis by blast
qed

text \<open>The outcome that the endpoint answers does not depend on the signature: for every credential that is not
  revoked the answer is CONFIRMED, also for one that is suspended, superseded or expired, and also when the
  payload was tampered with, although the recorded event then says DISCREPANCY and no fee is charged.\<close>

theorem reference_confirmed_without_signature:
  assumes "find_by cr_credentialRef refnum (credentials d) = Some c" and "cr_status c \<noteq> Cred_REVOKED"
    and "find_by in_uuid (cr_institutionId c) (institutions d) = Some i"
    and "cryptographicallyValid sg c = Inr False"
  shows "\<exists>a d' ev. verifyReference sx vx sg e d refnum ctx = (Inr a, d') \<and> va_outcome a = ''CONFIRMED'' \<and>
    va_cryptographicStatus a = Some ''INVALID'' \<and> va_credential a = publicReferenceCredential c i \<and>
    verificationEvents d' = verificationEvents d @ [ev] \<and> ve_outcome ev = DISCREPANCY \<and>
    revenueEntries d' = revenueEntries d"
proof -
  let ?sv = "JObj [(''credentialRef'', JStr (cr_credentialRef c)), (''cryptographicStatus'', JStr ''INVALID'')]"
  obtain ev d1 where ev: "createEvent sx vx e (cr_uuid c) None ''CREDENTIAL_REFERENCE'' (vc_verifierName ctx) ctx
      DISCREPANCY ?sv d = (ev, d1)" by fastforce
  show ?thesis
    using createEvent_effect [OF ev] ev by (simp add: verifyReference_def assms Let_def)
qed

section \<open>Witnesses\<close>

theorem published_credential_verifies_witness:
  "\<exists>sg batch d' c a d3. newSigner toy_keys toy_options = Inr sg \<and>
     publishBatch sample_env (signWith 0 sg) sample_batch_db founder ''b1'' = Inr (batch, d') \<and> c \<in> set (credentials d') \<and>
     verifyReference toy_secrets one_kobo sg sample_env (d'\<lparr>credentials := [c\<lparr>cr_vcPayload := toJson (cr_vcPayload c)\<rparr>]\<rparr>)
       (cr_credentialRef c) visitor = (Inr a, d3) \<and> va_cryptographicStatus a = Some ''VALID''"
proof -
  obtain sg where sg: "newSigner toy_keys toy_options = Inr sg"
    by (simp add: newSigner_def resolveKeyMaterial_def toy_options_def toy_keys_def truthy_text_def assertKeyPairMatches_def)
  obtain batch d' where run: "publishBatch sample_env (signWith 0 sg) sample_batch_db founder ''b1'' = Inr (batch, d')"
    using sample_publishes by blast
  obtain c where c: "c \<in> set (credentials d')" "cr_institutionId c = school" "institutions d' = institutions sample_db"
  proof (rule publishBatch_Inr [OF run])
    fix b new
    assume b: "find_by rb_uuid ''b1'' (resultBatches sample_batch_db) = Some b"
      and "credentials d' = credentials sample_batch_db @ new"
      and new: "map cr_academicRecordId new = map (\<lambda>r. Some (ar_uuid r)) (batchRecords sample_batch_db ''b1'')"
      and inst: "institutions d' = institutions sample_batch_db"
      and kind: "\<And>c. c \<in> set new \<Longrightarrow> cr_status c = Cred_ACTIVE \<and> cr_type c = RESULT_SLIP \<and>
           cr_institutionId c = rb_institutionId b \<and> cr_recordRequestId c = None \<and> signed_by (signWith 0 sg) c"
    moreover from new have "length new = 1" unfolding sample_batch_facts(7) by (metis length_map length_Cons list.size(3) One_nat_def)
    then obtain c where "new = [c]" by (cases new) auto
    moreover have "rb_institutionId b = school" using b sample_batch_facts(1,3) by simp
    ultimately show thesis by (intro that [of c]) (auto simp: sample_batch_facts(5))
  qed
  let ?c = "c\<lparr>cr_vcPayload := toJson (cr_vcPayload c)\<rparr>"
  have "find_by in_uuid (cr_institutionId c) (institutions (d'\<lparr>credentials := [?c]\<rparr>)) = Some (hd (institutions sample_db))"
    by (simp add: c sample_db_def)
  moreover have "c \<notin> set (credentials sample_batch_db)" by (simp add: sample_batch_facts(4))
  moreover have "find_by cr_credentialRef (cr_credentialRef c) (credentials (d'\<lparr>credentials := [?c]\<rparr>)) = Some ?c" by simp
  ultimately obtain a d3 where "verifyReference toy_secrets one_kobo sg sample_env (d'\<lparr>credentials := [?c]\<rparr>)
      (cr_credentialRef c) visitor = (Inr a, d3)" "va_cryptographicStatus a = Some ''VALID''"
    using published_credential_verifies [OF sg toy_keys_ok disjI1 [OF run] c(1) _ same_json.same, where ?d2.0 = "d'\<lparr>credentials := [?c]\<rparr>" and
        i = "hd (institutions sample_db)" and vx = one_kobo and sx = toy_secrets and ?e2.0 = sample_env and ctx = visitor]
    by (auto simp: one_kobo_fee)
  with sg run c(1) show ?thesis by blast
qed

theorem reference_confirmed_without_signature_witness:
  "\<exists>sg a d'. newSigner toy_keys toy_options = Inr sg \<and>
     verifyReference toy_secrets one_kobo sg sample_env slip_db ''ref-1'' visitor = (Inr a, d') \<and>
     va_outcome a = ''CONFIRMED'' \<and> va_cryptographicStatus a = Some ''INVALID'' \<and> length (verificationEvents d') = 1"
proof -
  obtain sg where sg: "newSigner toy_keys toy_options = Inr sg"
    by (simp add: newSigner_def resolveKeyMaterial_def toy_options_def toy_keys_def truthy_text_def assertKeyPairMatches_def)
  have c: "find_by cr_credentialRef ''ref-1'' (credentials slip_db) = Some slip" "cr_status slip \<noteq> Cred_REVOKED"
    "find_by in_uuid (cr_institutionId slip) (institutions slip_db) = Some (hd (institutions sample_db))"
    by (simp_all add: slip_db_def slip_def sample_db_def)
  have bad: "cryptographicallyValid sg slip = Inr False"
    by (simp add: cryptographicallyValid_def slip_def verifyPayload_def)
  from reference_confirmed_without_signature [OF c bad, where sx = toy_secrets and vx = one_kobo and e = sample_env and ctx = visitor] sg
  show ?thesis by (auto simp: slip_db_def sample_db_def empty_db_def)
qed

end
