(* ===== verification/Demand.thy ===== *)
theory Demand
  imports Access Accounts
begin

text \<open>
  The invitation leads that record requests leave behind: the demand counter of a lead against its
  specification, the number of requests for an institution that is not registered under the same name key.
\<close>

definition unregistered :: "record_request \<Rightarrow> bool" where
  "unregistered r \<longleftrightarrow> \<not> truthy_text (rr_institutionId r)"

definition demand :: "env \<Rightarrow> db \<Rightarrow> string \<Rightarrow> record_request list" where
  "demand e d key = filter (\<lambda>r. unregistered r \<and> invitationLeadKey e (trim (rr_institutionNameSubmitted r)) = key) (recordRequests d)"

definition lead_exact :: "env \<Rightarrow> db \<Rightarrow> invitation_lead \<Rightarrow> bool" where
  "lead_exact e d l \<longleftrightarrow>
     il_recordRequestIds l = map rr_uuid (demand e d (il_institutionNameKey l)) \<and>
     il_demandCount l = int (length (demand e d (il_institutionNameKey l))) \<and>
     0 \<le> il_requesterCount l \<and> il_requesterCount l \<le> il_demandCount l"

definition leads_exact :: "env \<Rightarrow> db \<Rightarrow> bool" where
  "leads_exact e d \<longleftrightarrow>
     distinct (map rr_uuid (recordRequests d)) \<and> distinct (map il_uuid (invitationLeads d)) \<and>
     distinct (map il_institutionNameKey (invitationLeads d)) \<and>
     (\<forall>l \<in> set (invitationLeads d). lead_exact e d l) \<and>
     (\<forall>r \<in> set (recordRequests d). unregistered r \<longrightarrow>
        invitationLeadKey e (trim (rr_institutionNameSubmitted r)) \<in> il_institutionNameKey ` set (invitationLeads d))"

lemma first_occurrences_snoc: "distinct xs \<Longrightarrow> x \<notin> set xs \<Longrightarrow> first_occurrences (xs @ [x]) = xs @ [x]"
  by (simp add: first_occurrences_def distinct_remdups_id)

lemma key_depends: "sha256 e' = sha256 e \<Longrightarrow> invitationLeadKey e' n = invitationLeadKey e n"
  by (simp add: invitationLeadKey_def)

text \<open>A request that was created: its columns, and what happens to the leads.\<close>

lemma nextRecordRequestId_draws: "nextRecordRequestId sx e n d = Inr (i, d1) \<Longrightarrow> \<exists>k. d1 = d\<lparr>draws := k\<rparr>"
proof (induction n arbitrary: d)
  case (Suc n)
  show ?case
  proof (cases "find_by rr_requestId (requestIdOf sx e d) (recordRequests d) = None")
    case True
    with Suc.prems show ?thesis by (auto simp: drawn_def)
  next
    case False
    with Suc.prems have "nextRecordRequestId sx e n (drawn d) = Inr (i, d1)" by simp
    from Suc.IH [OF this] show ?thesis by (auto simp: drawn_def)
  qed
qed simp

lemma request_created:
  assumes "createRecordRequestRecord sx e fee d auth body = Inr (r, lead, d')"
  obtains b k where "body = Some b" "createRecordRequest_ok e b" "rr_institutionId r = qb_institutionId b"
    "rr_institutionNameSubmitted r = qb_institutionNameSubmitted b" "rr_learnerId r = au_learnerId auth"
    "rr_escrowStatus r = Esc_NONE" "distinct (map rr_requestId (recordRequests d @ [r]))"
    "recordRequests d' = recordRequests d @ [r]"
    "if unregistered r then
       case find_by il_institutionNameKey (invitationLeadKey e (trim (rr_institutionNameSubmitted r))) (invitationLeads d) of
         Some l \<Rightarrow> lead = Some (demandedLead e auth r b l) \<and>
           invitationLeads d' = set_by il_uuid (il_uuid l) (demandedLead e auth r b) (invitationLeads d)
       | None \<Rightarrow> lead = Some (newLead e auth k r b) \<and> invitationLeads d' = invitationLeads d @ [newLead e auth k r b]
     else lead = None \<and> invitationLeads d' = invitationLeads d"
proof -
  from assms obtain lid b i d1 where body: "requireLearner auth = Inr lid" "body = Some b" "createRecordRequest_ok e b"
      and i: "nextRecordRequestId sx e 6 d = Inr (i, d1)" and r: "r = newRequest auth (fresh e d1) i lid (feeMinor fee) b"
    by (auto simp: createRecordRequestRecord_def err_simps Let_def split: prod.splits)
  from nextRecordRequestId_draws [OF i] obtain k where k: "d1 = d\<lparr>draws := k\<rparr>" by blast
  define d2 where "d2 = audit_write (humanActor auth (audit_event_of ''record_request.create'' ''RecordRequest'' (rr_uuid r)
             (rr_institutionId r)
             (JObj [(''requestId'', JStr i), (''recordTypesRequested'', JArr (map JStr (rr_recordTypesRequested r)))])))
           (drawn (d1\<lparr>recordRequests := recordRequests d @ [r]\<rparr>))"
  have run: "distinct (map rr_requestId (recordRequests d @ [r]))"
      "createInvitationLeadForUnregisteredInstitution e d2 auth r b = (lead, d')"
    using assms body i k r
    by (auto simp: createRecordRequestRecord_def err_simps Let_def d2_def List.map_filter_def comp_def split: prod.splits)
  have d2: "recordRequests d2 = recordRequests d @ [r]" "invitationLeads d2 = invitationLeads d"
    by (simp_all add: d2_def drawn_def k)
  have cols: "rr_institutionId r = qb_institutionId b" "rr_institutionNameSubmitted r = qb_institutionNameSubmitted b"
    "rr_learnerId r = Some lid" "rr_escrowStatus r = Esc_NONE" by (simp_all add: r newRequest_def)
  have "Some lid = au_learnerId auth"
    using body(1) by (auto simp: requireLearner_def truthy_text_def err_simps split: option.splits)
  moreover have "recordRequests d' = recordRequests d @ [r]"
    using run(2) d2 by (auto simp: createInvitationLeadForUnregisteredInstitution_def Let_def drawn_def split: option.splits if_splits)
  moreover have "if unregistered r then
       case find_by il_institutionNameKey (invitationLeadKey e (trim (rr_institutionNameSubmitted r))) (invitationLeads d) of
         Some l \<Rightarrow> lead = Some (demandedLead e auth r b l) \<and>
           invitationLeads d' = set_by il_uuid (il_uuid l) (demandedLead e auth r b) (invitationLeads d)
       | None \<Rightarrow> lead = Some (newLead e auth (fresh e d2) r b) \<and> invitationLeads d' = invitationLeads d @ [newLead e auth (fresh e d2) r b]
     else lead = None \<and> invitationLeads d' = invitationLeads d"
    using run(2) d2 cols
    by (auto simp: createInvitationLeadForUnregisteredInstitution_def Let_def drawn_def unregistered_def split: option.splits if_splits)
  ultimately show thesis using that [of b "fresh e d2"] body cols run(1) by simp
qed

lemma demandedLead_fields [simp]:
  "il_uuid (demandedLead e auth r b l) = il_uuid l"
  "il_institutionNameKey (demandedLead e auth r b l) = il_institutionNameKey l"
  by (simp_all add: demandedLead_def)

lemma requesterIncrement_range: "0 \<le> requesterIncrement auth b" "requesterIncrement auth b \<le> 1"
  by (simp_all add: requesterIncrement_def)

lemma demand_snoc:
  "recordRequests d' = recordRequests d @ [r] \<Longrightarrow> demand e d' key = demand e d key @
     (if unregistered r \<and> invitationLeadKey e (trim (rr_institutionNameSubmitted r)) = key then [r] else [])"
  by (simp add: demand_def)

lemma leads_exact_create:
  assumes "createRecordRequestRecord sx e fee d auth body = Inr (r, lead, d')" and "leads_exact e d"
    and "distinct (map rr_uuid (recordRequests d'))" and "distinct (map il_uuid (invitationLeads d'))"
  shows "leads_exact e d'"
proof -
  let ?key = "invitationLeadKey e (trim (rr_institutionNameSubmitted r))"
  obtain b k where b: "rr_institutionNameSubmitted r = qb_institutionNameSubmitted b"
    and rows: "recordRequests d' = recordRequests d @ [r]"
    and leads: "if unregistered r then
       case find_by il_institutionNameKey ?key (invitationLeads d) of
         Some l \<Rightarrow> lead = Some (demandedLead e auth r b l) \<and>
           invitationLeads d' = set_by il_uuid (il_uuid l) (demandedLead e auth r b) (invitationLeads d)
       | None \<Rightarrow> lead = Some (newLead e auth k r b) \<and> invitationLeads d' = invitationLeads d @ [newLead e auth k r b]
     else lead = None \<and> invitationLeads d' = invitationLeads d"
    by (rule request_created [OF assms(1)])
  note snoc = demand_snoc [OF rows]
  have ids: "distinct (map rr_uuid (recordRequests d'))" by (rule assms(3))
  then have fresh: "rr_uuid r \<notin> rr_uuid ` set (recordRequests d)" by (simp add: rows)
  have same: "lead_exact e d' l" if "l \<in> set (invitationLeads d)" "\<not> unregistered r \<or> il_institutionNameKey l \<noteq> ?key" for l
    using that assms(2) by (auto simp: leads_exact_def lead_exact_def snoc)
  show ?thesis
  proof (cases "unregistered r")
    case False
    with leads rows ids assms(2) same show ?thesis by (auto simp: leads_exact_def)
  next
    case un: True
    show ?thesis
    proof (cases "find_by il_institutionNameKey ?key (invitationLeads d)")
      case None
      let ?l = "newLead e auth k r b"
      have new: "invitationLeads d' = invitationLeads d @ [?l]" "lead = Some ?l" using leads un None by simp_all
      have key: "il_institutionNameKey ?l = ?key" "il_institutionNameKey ?l \<notin> il_institutionNameKey ` set (invitationLeads d)"
        using None by (simp_all add: newLead_def Let_def b find_by_None)
      have uuid: "il_uuid ?l \<notin> il_uuid ` set (invitationLeads d)" using assms(4) by (simp add: new(1))
      have "demand e d ?key = []"
        using assms(2) key unfolding leads_exact_def demand_def filter_empty_conv by metis
      then have "lead_exact e d' ?l"
        using requesterIncrement_range [of auth b] un
        by (simp add: lead_exact_def snoc key(1)) (simp add: newLead_def Let_def)
      moreover have "lead_exact e d' h" if "h \<in> set (invitationLeads d)" for h
        using same [OF that] that key by (metis imageI)
      ultimately show ?thesis
        using key uuid new(1) rows ids assms(2) un by (auto simp: leads_exact_def)
    next
      case (Some l)
      let ?f = "demandedLead e auth r b"
      have l: "l \<in> set (invitationLeads d)" "il_institutionNameKey l = ?key" using find_by_Some [OF Some] by simp_all
      have rows': "invitationLeads d' = set_by il_uuid (il_uuid l) ?f (invitationLeads d)" using leads un Some by simp
      have exact: "lead_exact e d l" using l(1) assms(2) by (simp add: leads_exact_def)
      have "set (map rr_uuid (demand e d ?key)) \<subseteq> rr_uuid ` set (recordRequests d)" by (auto simp: demand_def)
      moreover have "distinct (map rr_uuid (demand e d ?key))"
        using assms(2) by (simp add: leads_exact_def demand_def distinct_map_filter)
      ultimately have "add_once (map rr_uuid (demand e d ?key)) (rr_uuid r) = map rr_uuid (demand e d ?key) @ [rr_uuid r]"
        unfolding add_once_def using fresh by (intro first_occurrences_snoc) blast+
      then have fl: "lead_exact e d' (?f l)"
        using exact requesterIncrement_range [of auth b] un
        by (simp add: lead_exact_def snoc l(2)) (simp add: demandedLead_def)
      have other: "lead_exact e d' h" if "h \<in> set (invitationLeads d)" "il_uuid h \<noteq> il_uuid l" for h
      proof -
        have "il_institutionNameKey h \<noteq> ?key"
          using that l assms(2) by (auto simp: leads_exact_def dest: distinct_key_eq [of il_institutionNameKey])
        with same that(1) show ?thesis by blast
      qed
      have one: "h = l" if "h \<in> set (invitationLeads d)" "il_uuid h = il_uuid l" for h
        using that l(1) assms(2) by (auto simp: leads_exact_def dest: distinct_key_eq [of il_uuid])
      have "lead_exact e d' h" if "h \<in> set (invitationLeads d')" for h
        using that other one fl unfolding rows' in_set_by by auto
      moreover have "il_institutionNameKey ` set (invitationLeads d') = il_institutionNameKey ` set (invitationLeads d)"
        using map_set_by [of il_institutionNameKey ?f il_uuid "il_uuid l" "invitationLeads d"] unfolding rows' by (metis demandedLead_fields(2) set_map)
      moreover have "?key \<in> il_institutionNameKey ` set (invitationLeads d)" using l by (metis imageI)
      ultimately show ?thesis
        using ids assms(2) un by (auto simp: leads_exact_def rows keys_set_by map_set_by rows')
    qed
  qed
qed

text \<open>Requests of any learners at any times; the environment digests as \<open>e\<close> does, and the primary keys hold.\<close>

inductive requests_run :: "env \<Rightarrow> db \<Rightarrow> db \<Rightarrow> bool" for e d where
  start: "requests_run e d d"
| request: "requests_run e d d1 \<Longrightarrow> createRecordRequestRecord sx e' fee d1 auth body = Inr (r, lead, d2) \<Longrightarrow>
    sha256 e' = sha256 e \<Longrightarrow> distinct (map rr_uuid (recordRequests d2)) \<Longrightarrow> distinct (map il_uuid (invitationLeads d2)) \<Longrightarrow>
    requests_run e d d2"

lemma leads_exact_depends: "sha256 e' = sha256 e \<Longrightarrow> leads_exact e' d \<longleftrightarrow> leads_exact e d"
proof -
  assume "sha256 e' = sha256 e"
  then have "invitationLeadKey e' = invitationLeadKey e" using key_depends by blast
  then show ?thesis by (simp add: leads_exact_def lead_exact_def demand_def)
qed

text \<open>C24. Where the generated primary keys are new and the leads were exact at the start, after any sequence of record
  requests, handled one after the other, every lead lists exactly the requests made for its institution name
  without a registered institution, in their order, and its demand counter is their number; and for every such
  request there is one lead, that of its name, and it lists the request.\<close>

theorem demand_counted:
  assumes "requests_run e d d'" and "leads_exact e d"
  shows "(\<forall>l \<in> set (invitationLeads d').
      il_recordRequestIds l = map rr_uuid (demand e d' (il_institutionNameKey l)) \<and>
      il_demandCount l = int (length (demand e d' (il_institutionNameKey l)))) \<and>
    (\<forall>r \<in> set (recordRequests d'). unregistered r \<longrightarrow> (\<exists>!h. h \<in> set (invitationLeads d') \<and>
      il_institutionNameKey h = invitationLeadKey e (trim (rr_institutionNameSubmitted r)))) \<and>
    (\<forall>r \<in> set (recordRequests d'). unregistered r \<longrightarrow>
      (\<exists>h \<in> set (invitationLeads d'). rr_uuid r \<in> set (il_recordRequestIds h)))"
proof -
  have ok: "leads_exact e d'"
    using assms
  proof (induction rule: requests_run.induct)
    case (request d1 sx e' fee auth body r lead d2)
    then have "leads_exact e' d1" using leads_exact_depends [of e' e d1] by simp
    from leads_exact_create [OF request(2) this request(4,5)] show ?case
      using leads_exact_depends [OF request(3), of d2] by simp
  qed
  then have exact: "lead_exact e d' h" if "h \<in> set (invitationLeads d')" for h using that by (simp add: leads_exact_def)
  have lead: "\<exists>h. h \<in> set (invitationLeads d') \<and>
      il_institutionNameKey h = invitationLeadKey e (trim (rr_institutionNameSubmitted r))"
    if "r \<in> set (recordRequests d')" "unregistered r" for r
    using ok that unfolding leads_exact_def by (metis imageE)
  have one: "h = k" if "h \<in> set (invitationLeads d')" "k \<in> set (invitationLeads d')"
      "il_institutionNameKey h = il_institutionNameKey k" for h k
    using ok that by (auto simp: leads_exact_def dest: distinct_key_eq [of il_institutionNameKey])
  have listed: "\<exists>h \<in> set (invitationLeads d'). rr_uuid r \<in> set (il_recordRequestIds h)"
    if r: "r \<in> set (recordRequests d')" "unregistered r" for r
  proof -
    let ?key = "invitationLeadKey e (trim (rr_institutionNameSubmitted r))"
    obtain h where h: "h \<in> set (invitationLeads d')" "il_institutionNameKey h = ?key" using lead [OF r] by blast
    have "r \<in> set (demand e d' ?key)" using r by (simp add: demand_def)
    with exact [OF h(1)] h(2) have "rr_uuid r \<in> set (il_recordRequestIds h)" by (simp add: lead_exact_def)
    with h(1) show ?thesis by blast
  qed
  have counts: "\<forall>l \<in> set (invitationLeads d').
      il_recordRequestIds l = map rr_uuid (demand e d' (il_institutionNameKey l)) \<and>
      il_demandCount l = int (length (demand e d' (il_institutionNameKey l)))"
    using exact by (simp add: lead_exact_def)
  have "\<forall>r \<in> set (recordRequests d'). unregistered r \<longrightarrow> (\<exists>!h. h \<in> set (invitationLeads d') \<and>
      il_institutionNameKey h = invitationLeadKey e (trim (rr_institutionNameSubmitted r)))"
    using lead one by metis
  with counts listed show ?thesis by blast
qed

text \<open>Two requests for the same school, spelled differently.\<close>

definition pupil :: auth_token where
  "pupil = founder\<lparr>au_sub := ''ada'', au_role := STUDENT, au_learnerId := Some ''l1''\<rparr>"

definition request_for :: "string \<Rightarrow> request_body" where
  "request_for name = \<lparr>qb_learnerId = None, qb_institutionId = None, qb_institutionNameSubmitted = name,
     qb_educationLevel = ''Secondary'', qb_yearsAttendedFrom = Some 1990, qb_yearsAttendedTo = Some 1996,
     qb_studentNumber = None, qb_departmentOrClass = None, qb_recordTypesRequested = [''WAEC''],
     qb_proofDocumentUrls = None, qb_requesterName = None, qb_requesterEmail = None\<rparr>"

lemma first_request:
  "\<exists>r l d1. createRecordRequestRecord toy_secrets sample_env None sample_db pupil (Some (request_for ''Old School'')) = Inr (r, l, d1) \<and>
     distinct (map rr_uuid (recordRequests d1)) \<and> distinct (map il_uuid (invitationLeads d1)) \<and>
     (case createRecordRequestRecord toy_secrets sample_env None d1 pupil (Some (request_for '' old  SCHOOL.'')) of
        Inl _ \<Rightarrow> False
      | Inr (r2, l2, d2) \<Rightarrow> distinct (map rr_uuid (recordRequests d2)) \<and> distinct (map il_uuid (invitationLeads d2)) \<and>
        map il_demandCount (invitationLeads d2) = [2] \<and> map il_institutionNameKey (invitationLeads d2) = [''old-school''])"
  (is "\<exists>r l d1. _ = _ \<and> ?P d1")
proof -
  have "case createRecordRequestRecord toy_secrets sample_env None sample_db pupil (Some (request_for ''Old School'')) of
      Inl _ \<Rightarrow> False | Inr (r1, l1, d1) \<Rightarrow> ?P d1" by code_simp
  then show ?thesis
    by (cases "createRecordRequestRecord toy_secrets sample_env None sample_db pupil (Some (request_for ''Old School''))") force+
qed

lemma two_requests:
  "\<exists>d2. requests_run sample_env sample_db d2 \<and> map il_demandCount (invitationLeads d2) = [2] \<and>
     map il_institutionNameKey (invitationLeads d2) = [''old-school'']"
proof -
  obtain r1 l1 d1 where run: "createRecordRequestRecord toy_secrets sample_env None sample_db pupil (Some (request_for ''Old School'')) =
      Inr (r1, l1, d1)" "distinct (map rr_uuid (recordRequests d1))" "distinct (map il_uuid (invitationLeads d1))"
    and more: "case createRecordRequestRecord toy_secrets sample_env None d1 pupil (Some (request_for '' old  SCHOOL.'')) of
        Inl _ \<Rightarrow> False
      | Inr (r2, l2, d2) \<Rightarrow> distinct (map rr_uuid (recordRequests d2)) \<and> distinct (map il_uuid (invitationLeads d2)) \<and>
        map il_demandCount (invitationLeads d2) = [2] \<and> map il_institutionNameKey (invitationLeads d2) = [''old-school'']"
    using first_request by blast
  obtain r2 l2 d2 where next_run: "createRecordRequestRecord toy_secrets sample_env None d1 pupil (Some (request_for '' old  SCHOOL.'')) =
      Inr (r2, l2, d2)"
  proof (cases "createRecordRequestRecord toy_secrets sample_env None d1 pupil (Some (request_for '' old  SCHOOL.''))")
    case (Inl err)
    with more show ?thesis by simp
  next
    case (Inr x)
    with that show ?thesis by (cases x) blast
  qed
  have keys: "distinct (map rr_uuid (recordRequests d2))" "distinct (map il_uuid (invitationLeads d2))"
      "map il_demandCount (invitationLeads d2) = [2]" "map il_institutionNameKey (invitationLeads d2) = [''old-school'']"
    using more [unfolded next_run, simplified] by blast+
  have first: "requests_run sample_env sample_db d1" by (rule requests_run.request [OF requests_run.start run(1) refl run(2,3)])
  have "requests_run sample_env sample_db d2" by (rule requests_run.request [OF first next_run refl keys(1,2)])
  with keys(3,4) show ?thesis by (intro exI [of _ d2] conjI)
qed

theorem demand_counted_witness:
  "\<exists>d2 l. requests_run sample_env sample_db d2 \<and> l \<in> set (invitationLeads d2) \<and> il_institutionNameKey l = ''old-school'' \<and>
     il_demandCount l = 2 \<and> length (demand sample_env d2 ''old-school'') = 2"
proof -
  obtain d2 where d2: "requests_run sample_env sample_db d2" "map il_demandCount (invitationLeads d2) = [2]"
      "map il_institutionNameKey (invitationLeads d2) = [''old-school'']"
    using two_requests by (elim exE conjE) (rule that)
  obtain l where l: "invitationLeads d2 = [l]" using d2(2) by (cases "invitationLeads d2") auto
  have fields: "il_demandCount l = 2" "il_institutionNameKey l = ''old-school''" using d2(2,3) by (simp_all add: l)
  have "leads_exact sample_env sample_db" by (simp add: leads_exact_def sample_db_def empty_db_def)
  from demand_counted [OF d2(1) this] have "il_demandCount l = int (length (demand sample_env d2 ''old-school''))"
    by (simp add: l fields)
  with d2(1) l fields show ?thesis by (intro exI [of _ d2] exI [of _ l]) simp
qed

end
