(* ===== verification/AcademicSetup.thy ===== *)
theory AcademicSetup
  imports Rollovers "HOL-Library.Char_ord" "HOL-Library.List_Lexorder"
begin

text \<open>
  The academic setup of \<open>gateway/ingestion/ingestion.service.ts\<close>: sessions, structures and grading rule sets of
  an institution, with the zod schemas of their bodies. Dates in bodies are \<open>z.string().date()\<close>. Scores and points
  are rationals: a body with the number \<open>1e999\<close>, which JavaScript reads as \<open>Infinity\<close> and the schema accepts as a
  lower end of a band, is outside the model, and so is the rounding of a \<open>DECIMAL(65,30)\<close> column.
\<close>

section \<open>Dates\<close>

definition leap :: "nat \<Rightarrow> bool" where
  "leap y \<longleftrightarrow> y mod 4 = 0 \<and> (y mod 100 \<noteq> 0 \<or> y mod 400 = 0)"

definition month_days :: "nat \<Rightarrow> nat \<Rightarrow> nat" where
  "month_days y m = (if m = 2 then (if leap y then 29 else 28) else if m \<in> {4, 6, 9, 11} then 30 else 31)"

definition days_from_civil :: "int \<Rightarrow> int \<Rightarrow> int \<Rightarrow> int" where
  "days_from_civil y0 m d =
     (let y = (if m \<le> 2 then y0 - 1 else y0);
          era = y div 400;
          yoe = y mod 400;
          mp = (if m > 2 then m - 3 else m + 9);
          doy = (153 * mp + 2) div 5 + d - 1;
          doe = yoe * 365 + yoe div 4 - yoe div 100 + doy
      in era * 146097 + doe - 719468)"

text \<open>The instant of a text that \<open>date()\<close> accepts, midnight in UTC.\<close>

definition zod_date :: "string \<Rightarrow> int option" where
  "zod_date s =
     (let y = dec_val (take 4 s); m = dec_val (take 2 (drop 5 s)); d = dec_val (drop 8 s)
      in if matches (replicate 4 is_digit @ [dash] @ replicate 2 is_digit @ [dash] @ replicate 2 is_digit) s \<and>
            1 \<le> m \<and> m \<le> 12 \<and> 1 \<le> d \<and> d \<le> month_days y m
         then Some (days_from_civil (int y) (int m) (int d) * 86400000) else None)"

definition is_date :: "string \<Rightarrow> bool" where
  "is_date s \<longleftrightarrow> zod_date s \<noteq> None"

text \<open>\<open>x ? new Date(x) : undefined\<close>\<close>

definition dateOf :: "string option \<Rightarrow> int option" where
  "dateOf x = (case x of None \<Rightarrow> None | Some s \<Rightarrow> zod_date s)"

definition ordered_dates :: "string option \<Rightarrow> string option \<Rightarrow> bool" where
  "ordered_dates a b \<longleftrightarrow> opt_ok (\<lambda>s. opt_ok (\<lambda>t. s \<le> t) b) a"

section \<open>Fields of an update\<close>

text \<open>A field that is \<open>nullable().optional()\<close>.\<close>

datatype 'a patch = Absent | Null | Put 'a

fun patch_ok :: "('a \<Rightarrow> bool) \<Rightarrow> 'a patch \<Rightarrow> bool" where
  "patch_ok p Absent = True"
| "patch_ok p Null = True"
| "patch_ok p (Put x) = p x"

fun patched :: "'a patch \<Rightarrow> 'a option \<Rightarrow> 'a option" where
  "patched Absent old = old"
| "patched Null old = None"
| "patched (Put x) old = Some x"

fun patch_value :: "'a patch \<Rightarrow> 'a option" where
  "patch_value (Put x) = Some x"
| "patch_value _ = None"

fun patch_map :: "('a \<Rightarrow> 'b) \<Rightarrow> 'a patch \<Rightarrow> 'b patch" where
  "patch_map f Absent = Absent"
| "patch_map f Null = Null"
| "patch_map f (Put x) = Put (f x)"

definition patched_date :: "string patch \<Rightarrow> int option \<Rightarrow> int option" where
  "patched_date p old = (case p of Put s \<Rightarrow> zod_date s | Null \<Rightarrow> None | Absent \<Rightarrow> old)"

section \<open>The institution of a human caller\<close>

definition resolveReadableInstitution :: "db \<Rightarrow> auth_token \<Rightarrow> string \<Rightarrow> institution res" where
  "resolveReadableInstitution d auth ref =
     bindE (require (List.find (institutionRefWhere ref) (institutions d))
       (BadRequest ''Active institution not found.'')) (\<lambda>i.
     bindE (failIf (in_status i \<noteq> Inst_ACTIVE) (BadRequest ''Active institution not found.'')) (\<lambda>_.
     bindE (if au_role auth \<noteq> ACADID_SUPER_ADMIN then assertActorCanOperateInstitution d auth (in_uuid i) else Inr ())
       (\<lambda>_. Inr i)))"

definition setupInstitution :: "db \<Rightarrow> auth_token \<Rightarrow> string \<Rightarrow> institution res" where
  \<comment> \<open>\<open>resolveHumanInstitution\<close> of this service\<close>
  "setupInstitution d auth ref =
     bindE (failIf (au_kind auth = Some API_KEY)
       (Forbidden ''Human institution session is required for academic setup.'')) (\<lambda>_.
     bindE (resolveReadableInstitution d auth ref) (\<lambda>i.
     bindE (assertActorCanOperateInstitution d auth (in_uuid i)) (\<lambda>_. Inr i)))"

definition academicSetupWhere :: "db \<Rightarrow> auth_token \<Rightarrow> string option \<Rightarrow> (string \<Rightarrow> bool) res" where
  "academicSetupWhere d auth ref =
     (if truthy_text ref
      then bindE (resolveReadableInstitution d auth (getOr ref [])) (\<lambda>i. Inr (\<lambda>x. x = in_uuid i))
      else Inr (\<lambda>x. institutionWhereForActor d auth (Some x)))"

section \<open>Sessions\<close>

record session_body =
  sn_institutionId :: string
  sn_sessionLabel :: string
  sn_periodType :: period_type
  sn_periodLabel :: string
  sn_startDate :: "string option"
  sn_endDate :: "string option"
  sn_status :: "session_status option"
  sn_isCurrent :: "bool option"

definition createAcademicSession_ok :: "session_body \<Rightarrow> bool" where
  "createAcademicSession_ok b \<longleftrightarrow>
     sn_institutionId b \<noteq> [] \<and> len_in 3 40 (sn_sessionLabel b) \<and> len_in 3 80 (sn_periodLabel b) \<and>
     opt_ok is_date (sn_startDate b) \<and> opt_ok is_date (sn_endDate b) \<and>
     ordered_dates (sn_startDate b) (sn_endDate b)"

definition session_key :: "academic_session \<Rightarrow> (string \<times> string \<times> period_type \<times> string) option" where
  "session_key s = Some (se_institutionId s, se_label s, se_periodType s, se_periodLabel s)"

definition check_sessions :: "academic_session list \<Rightarrow> academic_session list res" where
  "check_sessions = check_unique ''AcademicSession_institutionId_sessionLabel_periodType_periodLabel_key'' session_key"

definition newSession :: "auth_token \<Rightarrow> string \<Rightarrow> string \<Rightarrow> session_body \<Rightarrow> academic_session" where
  "newSession auth uuid inst b =
     \<lparr>se_uuid = uuid, se_institutionId = inst, se_label = trim (sn_sessionLabel b),
      se_periodType = sn_periodType b, se_periodLabel = trim (sn_periodLabel b),
      se_status = getOr (sn_status b) Session_DRAFT, se_startDate = dateOf (sn_startDate b),
      se_endDate = dateOf (sn_endDate b), se_isCurrent = getOr (sn_isCurrent b) False,
      se_createdById = au_institutionUserId auth\<rparr>"

definition sessionsOf :: "bool \<Rightarrow> string \<Rightarrow> (academic_session \<Rightarrow> bool) \<Rightarrow> academic_session list \<Rightarrow> academic_session list" where
  \<comment> \<open>\<open>updateMany\<close> of the current sessions of an institution, when the session becomes the current one\<close>
  "sessionsOf current inst p rows =
     (if current then update_rows (\<lambda>s. se_institutionId s = inst \<and> se_isCurrent s \<and> p s)
        (se_isCurrent_update (\<lambda>_. False)) rows else rows)"

definition createAcademicSession :: "env \<Rightarrow> db \<Rightarrow> auth_token \<Rightarrow> session_body option \<Rightarrow> (academic_session \<times> db) res" where
  "createAcademicSession e d auth body =
     bindE (safeParse createAcademicSession_ok body) (\<lambda>parsed.
     bindE (setupInstitution d auth (sn_institutionId parsed)) (\<lambda>i.
     let session = newSession auth (fresh e d) (in_uuid i) parsed in
     bindE (check_sessions (sessionsOf (getOr (sn_isCurrent parsed) False) (in_uuid i) (\<lambda>_. True) (academicSessions d) @ [session]))
       (\<lambda>rows.
     Inr (session,
       audit_write (humanActor auth (audit_event_of ''academic_session.create'' ''AcademicSession'' (se_uuid session)
           (Some (in_uuid i))
           (JObj [(''sessionLabel'', JStr (se_label session)), (''periodType'', JStr (period_type_text (se_periodType session))),
                  (''periodLabel'', JStr (se_periodLabel session)), (''status'', JStr (session_status_text (se_status session))),
                  (''isCurrent'', JBool (se_isCurrent session))])))
         (drawn (d\<lparr>academicSessions := rows\<rparr>))))))"

definition listAcademicSessions :: "db \<Rightarrow> auth_token \<Rightarrow> string option \<Rightarrow> academic_session list res" where
  "listAcademicSessions d auth ref =
     bindE (academicSetupWhere d auth ref) (\<lambda>where'.
     Inr (take 200 (sort_key (\<lambda>s. if se_isCurrent s then 0 else (1 :: nat))
       (filter (\<lambda>s. where' (se_institutionId s)) (rev (academicSessions d))))))"

record session_patch =
  sp_sessionLabel :: "string option"
  sp_periodType :: "period_type option"
  sp_periodLabel :: "string option"
  sp_startDate :: "string patch"
  sp_endDate :: "string patch"
  sp_status :: "session_status option"
  sp_isCurrent :: "bool option"

definition updateAcademicSession_ok :: "session_patch \<Rightarrow> bool" where
  "updateAcademicSession_ok b \<longleftrightarrow>
     opt_ok (len_in 3 40) (sp_sessionLabel b) \<and> opt_ok (len_in 3 80) (sp_periodLabel b) \<and>
     patch_ok is_date (sp_startDate b) \<and> patch_ok is_date (sp_endDate b) \<and>
     ordered_dates (patch_value (sp_startDate b)) (patch_value (sp_endDate b))"

definition patchedSession :: "session_patch \<Rightarrow> academic_session \<Rightarrow> academic_session" where
  "patchedSession b s =
     s\<lparr>se_label := getOr (map_option trim (sp_sessionLabel b)) (se_label s),
       se_periodType := getOr (sp_periodType b) (se_periodType s),
       se_periodLabel := getOr (map_option trim (sp_periodLabel b)) (se_periodLabel s),
       se_startDate := patched_date (sp_startDate b) (se_startDate s),
       se_endDate := patched_date (sp_endDate b) (se_endDate s),
       se_status := getOr (sp_status b) (se_status s),
       se_isCurrent := getOr (sp_isCurrent b) (se_isCurrent s)\<rparr>"

definition updateAcademicSession ::
    "db \<Rightarrow> auth_token \<Rightarrow> string \<Rightarrow> session_patch option \<Rightarrow> (academic_session \<times> db) res" where
  "updateAcademicSession d auth i body =
     bindE (safeParse updateAcademicSession_ok body) (\<lambda>parsed.
     bindE (require (find_by se_uuid i (academicSessions d)) (BadRequest ''Academic session not found.'')) (\<lambda>existing.
     bindE (setupInstitution d auth (se_institutionId existing)) (\<lambda>_.
     let rows = sessionsOf (getOr (sp_isCurrent parsed) False) (se_institutionId existing) (\<lambda>s. se_uuid s \<noteq> i) (academicSessions d);
         session = patchedSession parsed existing in
     bindE (update_by se_uuid i (patchedSession parsed) rows) (\<lambda>rows.
     bindE (check_sessions rows) (\<lambda>rows.
     Inr (session,
       audit_write (humanActor auth (audit_event_of ''academic_session.update'' ''AcademicSession'' (se_uuid session)
           (Some (se_institutionId session))
           (JObj [(''status'', JStr (session_status_text (se_status session))), (''isCurrent'', JBool (se_isCurrent session))])))
         (d\<lparr>academicSessions := rows\<rparr>)))))))"

section \<open>Structures\<close>

fun structure_text :: "structure_type \<Rightarrow> string" where
  "structure_text LEVEL = ''LEVEL''"
| "structure_text CLASS = ''CLASS''"
| "structure_text ARM = ''ARM''"
| "structure_text STREAM = ''STREAM''"
| "structure_text SUBJECT = ''SUBJECT''"
| "structure_text FACULTY = ''FACULTY''"
| "structure_text DEPARTMENT = ''DEPARTMENT''"
| "structure_text PROGRAMME = ''PROGRAMME''"
| "structure_text COURSE = ''COURSE''"

fun structure_status_text :: "structure_status \<Rightarrow> string" where
  "structure_status_text Structure_ACTIVE = ''ACTIVE''"
| "structure_status_text Structure_ARCHIVED = ''ARCHIVED''"

fun type_rank :: "structure_type \<Rightarrow> nat" where
  "type_rank LEVEL = 0" | "type_rank CLASS = 1" | "type_rank ARM = 2" | "type_rank STREAM = 3"
| "type_rank SUBJECT = 4" | "type_rank FACULTY = 5" | "type_rank DEPARTMENT = 6" | "type_rank PROGRAMME = 7"
| "type_rank COURSE = 8"

definition assertParentStructure :: "db \<Rightarrow> string \<Rightarrow> string option \<Rightarrow> unit res" where
  "assertParentStructure d inst parentId =
     (if \<not> truthy_text parentId then Inr ()
      else failIf (\<not> (case find_by st_uuid (getOr parentId []) (academicStructures d) of
                         None \<Rightarrow> False | Some p \<Rightarrow> st_institutionId p = inst))
             (BadRequest ''Parent academic structure must belong to the same institution.''))"

record structure_body =
  su_institutionId :: string
  su_parentId :: "string option"
  su_type :: structure_type
  su_name :: string
  su_code :: "string option"
  su_creditUnits :: "int option"
  su_metadata :: "(string \<times> jval) list option"
  su_status :: "structure_status option"

definition credits_ok :: "int \<Rightarrow> bool" where
  "credits_ok n \<longleftrightarrow> 0 \<le> n \<and> n \<le> 60"

definition createAcademicStructure_ok :: "env \<Rightarrow> structure_body \<Rightarrow> bool" where
  "createAcademicStructure_ok e b \<longleftrightarrow>
     su_institutionId b \<noteq> [] \<and> opt_ok (zod_uuid e) (su_parentId b) \<and> len_in 1 160 (su_name b) \<and>
     opt_ok (len_in 1 80) (su_code b) \<and> opt_ok credits_ok (su_creditUnits b)"

definition newStructure :: "auth_token \<Rightarrow> string \<Rightarrow> string \<Rightarrow> structure_body \<Rightarrow> academic_structure" where
  "newStructure auth uuid inst b =
     \<lparr>st_uuid = uuid, st_institutionId = inst, st_parentId = su_parentId b, st_type = su_type b,
      st_name = trim (su_name b), st_code = map_option trim (su_code b),
      st_status = getOr (su_status b) Structure_ACTIVE, st_creditUnits = su_creditUnits b,
      st_metadata = (case su_metadata b of None \<Rightarrow> JNull | Some ob \<Rightarrow> toJson (JObj ob)),
      st_createdById = au_institutionUserId auth\<rparr>"

definition createAcademicStructure ::
    "env \<Rightarrow> db \<Rightarrow> auth_token \<Rightarrow> structure_body option \<Rightarrow> (academic_structure \<times> db) res" where
  "createAcademicStructure e d auth body =
     bindE (safeParse (createAcademicStructure_ok e) body) (\<lambda>parsed.
     bindE (setupInstitution d auth (su_institutionId parsed)) (\<lambda>i.
     bindE (assertParentStructure d (in_uuid i) (su_parentId parsed)) (\<lambda>_.
     let s = newStructure auth (fresh e d) (in_uuid i) parsed in
     Inr (s, audit_write (humanActor auth (audit_event_of ''academic_structure.create'' ''AcademicStructure'' (st_uuid s)
           (Some (in_uuid i))
           (JObj [(''type'', JStr (structure_text (st_type s))), (''name'', JStr (st_name s)),
                  (''parentId'', jnull (st_parentId s))])))
         (drawn (d\<lparr>academicStructures := academicStructures d @ [s]\<rparr>))))))"

definition listAcademicStructures ::
    "(string \<Rightarrow> 'k::linorder) \<Rightarrow> db \<Rightarrow> auth_token \<Rightarrow> string option \<Rightarrow> string option \<Rightarrow> structure_type option \<Rightarrow>
     academic_structure list res" where
  "listAcademicStructures collate d auth ref parentId type =
     bindE (academicSetupWhere d auth ref) (\<lambda>where'.
     Inr (take 500
       (sort_key (\<lambda>s. if st_parentId s = None then 1 else (0 :: nat))
         (sort_key (\<lambda>s. getOr (st_parentId s) [])
           (sort_key (\<lambda>s. type_rank (st_type s))
             (sort_key (\<lambda>s. collate (st_name s))
               (filter (\<lambda>s. where' (st_institutionId s) \<and>
                  (truthy_text parentId \<longrightarrow> st_parentId s = parentId) \<and> opt_ok (\<lambda>t. st_type s = t) type)
                 (academicStructures d))))))))"

record structure_patch =
  sq_parentId :: "string patch"
  sq_type :: "structure_type option"
  sq_name :: "string option"
  sq_code :: "string patch"
  sq_creditUnits :: "int patch"
  sq_metadata :: "(string \<times> jval) list patch"
  sq_status :: "structure_status option"

definition updateAcademicStructure_ok :: "env \<Rightarrow> structure_patch \<Rightarrow> bool" where
  "updateAcademicStructure_ok e b \<longleftrightarrow>
     patch_ok (zod_uuid e) (sq_parentId b) \<and> opt_ok (len_in 1 160) (sq_name b) \<and>
     patch_ok (len_in 1 80) (sq_code b) \<and> patch_ok credits_ok (sq_creditUnits b)"

definition patchedStructure :: "structure_patch \<Rightarrow> academic_structure \<Rightarrow> academic_structure" where
  "patchedStructure b s =
     s\<lparr>st_parentId := patched (sq_parentId b) (st_parentId s), st_type := getOr (sq_type b) (st_type s),
       st_name := getOr (map_option trim (sq_name b)) (st_name s),
       st_code := patched (patch_map trim (sq_code b)) (st_code s),
       st_creditUnits := patched (sq_creditUnits b) (st_creditUnits s),
       st_metadata := (case sq_metadata b of Absent \<Rightarrow> st_metadata s | Null \<Rightarrow> JNull | Put ob \<Rightarrow> toJson (JObj ob)),
       st_status := getOr (sq_status b) (st_status s)\<rparr>"

definition updateAcademicStructure ::
    "env \<Rightarrow> db \<Rightarrow> auth_token \<Rightarrow> string \<Rightarrow> structure_patch option \<Rightarrow> (academic_structure \<times> db) res" where
  "updateAcademicStructure e d auth i body =
     bindE (safeParse (updateAcademicStructure_ok e) body) (\<lambda>parsed.
     bindE (require (find_by st_uuid i (academicStructures d)) (BadRequest ''Academic structure not found.'')) (\<lambda>existing.
     bindE (setupInstitution d auth (st_institutionId existing)) (\<lambda>_.
     let parent = patch_value (sq_parentId parsed) in
     bindE (failIf (truthy_text parent \<and> parent = Some i)
       (BadRequest ''Academic structure cannot be its own parent.'')) (\<lambda>_.
     bindE (assertParentStructure d (st_institutionId existing) parent) (\<lambda>_.
     let s = patchedStructure parsed existing in
     bindE (update_by st_uuid i (patchedStructure parsed) (academicStructures d)) (\<lambda>rows.
     Inr (s, audit_write (humanActor auth (audit_event_of ''academic_structure.update'' ''AcademicStructure'' (st_uuid s)
           (Some (st_institutionId s))
           (JObj [(''type'', JStr (structure_text (st_type s))), (''status'', JStr (structure_status_text (st_status s))),
                  (''parentId'', jnull (st_parentId s))])))
         (d\<lparr>academicStructures := rows\<rparr>))))))))"

section \<open>Grading rule sets\<close>

record scale_band =
  bd_minScore :: rat
  bd_maxScore :: rat
  bd_grade :: string
  bd_remark :: "string option"
  bd_gradePoint :: "rat option"
  bd_pass :: "bool option"

text \<open>A band of a body, whose upper end may be missing.\<close>

record band_body =
  bn_minScore :: rat
  bn_maxScore :: "rat option"
  bn_grade :: string
  bn_remark :: "string option"
  bn_gradePoint :: "rat option"
  bn_pass :: "bool option"

definition gradingScaleBand_ok :: "band_body \<Rightarrow> bool" where
  "gradingScaleBand_ok b \<longleftrightarrow>
     0 \<le> bn_minScore b \<and> opt_ok (\<lambda>m. 0 \<le> m \<and> bn_minScore b \<le> m) (bn_maxScore b) \<and> len_in 1 20 (bn_grade b) \<and>
     opt_ok (len_in 1 120) (bn_remark b) \<and> opt_ok (\<lambda>g. 0 \<le> g \<and> g \<le> 20) (bn_gradePoint b)"

definition sort_scale :: "scale_band list \<Rightarrow> scale_band list" where
  "sort_scale = sort_key (\<lambda>b. - bd_minScore b)"

definition bandOf :: "rat \<Rightarrow> band_body \<Rightarrow> scale_band" where
  "bandOf maxScore b =
     \<lparr>bd_minScore = bn_minScore b, bd_maxScore = getOr (bn_maxScore b) maxScore, bd_grade = bn_grade b,
      bd_remark = bn_remark b, bd_gradePoint = bn_gradePoint b, bd_pass = bn_pass b\<rparr>"

text \<open>\<open>normalizeScale\<close> of a stored scale, which is JSON, and of the bands of a body, which the schema has
  checked. A remark, a grade point or a pass flag of a stored band has its type or is absent, as this service
  writes it.\<close>

definition number_of :: "jval \<Rightarrow> rat option" where
  "number_of v = (case v of JNum (Fin r) \<Rightarrow> Some r | _ \<Rightarrow> None)"

definition text_of :: "jval \<Rightarrow> string option" where
  "text_of v = (case v of JStr s \<Rightarrow> Some s | _ \<Rightarrow> None)"

definition bool_of :: "jval \<Rightarrow> bool option" where
  "bool_of v = (case v of JBool b \<Rightarrow> Some b | _ \<Rightarrow> None)"

definition bandOfJson :: "rat \<Rightarrow> jval \<Rightarrow> scale_band res" where
  "bandOfJson maxScore v =
     (case v of
        JObj ob \<Rightarrow>
          (case (number_of (getProp ob ''minScore''), text_of (getProp ob ''grade'')) of
             (Some m, Some g) \<Rightarrow> Inr
               \<lparr>bd_minScore = m, bd_maxScore = getOr (number_of (getProp ob ''maxScore'')) maxScore, bd_grade = g,
                bd_remark = text_of (getProp ob ''remark''), bd_gradePoint = number_of (getProp ob ''gradePoint''),
                bd_pass = bool_of (getProp ob ''pass'')\<rparr>
           | _ \<Rightarrow> Inl (BadRequest ''Each grading scale band requires minScore and grade.''))
      | JArr xs \<Rightarrow> Inl (BadRequest ''Each grading scale band requires minScore and grade.'')
      | _ \<Rightarrow> Inl (BadRequest ''Each grading scale band must be an object.''))"

fun mapE :: "('a \<Rightarrow> 'b res) \<Rightarrow> 'a list \<Rightarrow> 'b list res" where
  "mapE f [] = Inr []"
| "mapE f (x # xs) = bindE (f x) (\<lambda>y. bindE (mapE f xs) (\<lambda>ys. Inr (y # ys)))"

definition normalizeScale :: "jval \<Rightarrow> rat \<Rightarrow> scale_band list res" where
  "normalizeScale scale maxScore =
     (case scale of
        JArr xs \<Rightarrow> bindE (mapE (bandOfJson maxScore) xs) (\<lambda>bs. Inr (sort_scale bs))
      | _ \<Rightarrow> Inl (BadRequest ''Grading scale must be an array of bands.''))"

definition normalizeBands :: "rat \<Rightarrow> band_body list \<Rightarrow> scale_band list" where
  "normalizeBands maxScore bs = sort_scale (map (bandOf maxScore) bs)"

definition jopt :: "('a \<Rightarrow> jval) \<Rightarrow> 'a option \<Rightarrow> jval" where
  "jopt f x = (case x of None \<Rightarrow> JUndef | Some v \<Rightarrow> f v)"

definition bandJson :: "scale_band \<Rightarrow> jval" where
  "bandJson b = JObj [(''minScore'', jrat (bd_minScore b)), (''maxScore'', jrat (bd_maxScore b)),
     (''grade'', JStr (bd_grade b)), (''remark'', jopt JStr (bd_remark b)),
     (''gradePoint'', jopt jrat (bd_gradePoint b)), (''pass'', jopt JBool (bd_pass b))]"

definition scaleJson :: "scale_band list \<Rightarrow> jval" where
  "scaleJson bs = toJson (JArr (map bandJson bs))"

fun engine_text :: "grading_engine \<Rightarrow> string" where
  "engine_text PRIMARY_SECONDARY = ''PRIMARY_SECONDARY''"
| "engine_text TERTIARY_GPA = ''TERTIARY_GPA''"

fun rule_status_text :: "grading_status \<Rightarrow> string" where
  "rule_status_text Rule_DRAFT = ''DRAFT''"
| "rule_status_text Rule_ACTIVE = ''ACTIVE''"
| "rule_status_text Rule_ARCHIVED = ''ARCHIVED''"

record rule_body =
  ru_institutionId :: string
  ru_name :: string
  ru_engine :: grading_engine
  ru_status :: "grading_status option"
  ru_scale :: "band_body list"
  ru_passMark :: "rat option"
  ru_maxScore :: "rat option"
  ru_gradePointMax :: "rat option"
  ru_effectiveFrom :: "string option"
  ru_effectiveTo :: "string option"

definition scale_ok :: "band_body list \<Rightarrow> bool" where
  "scale_ok bs \<longleftrightarrow> 1 \<le> length bs \<and> length bs \<le> 30 \<and> list_all gradingScaleBand_ok bs"

definition max_ok :: "rat \<Rightarrow> bool" where
  "max_ok m \<longleftrightarrow> 0 < m \<and> m \<le> 1000"

definition point_max_ok :: "rat \<Rightarrow> bool" where
  "point_max_ok m \<longleftrightarrow> 0 < m \<and> m \<le> 20"

definition createGradingRuleSet_ok :: "rule_body \<Rightarrow> bool" where
  "createGradingRuleSet_ok b \<longleftrightarrow>
     ru_institutionId b \<noteq> [] \<and> len_in 2 160 (ru_name b) \<and> scale_ok (ru_scale b) \<and>
     opt_ok (\<lambda>m. 0 \<le> m) (ru_passMark b) \<and> opt_ok max_ok (ru_maxScore b) \<and> opt_ok point_max_ok (ru_gradePointMax b) \<and>
     opt_ok is_date (ru_effectiveFrom b) \<and> opt_ok is_date (ru_effectiveTo b) \<and>
     ordered_dates (ru_effectiveFrom b) (ru_effectiveTo b)"

definition newRuleSet :: "env \<Rightarrow> auth_token \<Rightarrow> string \<Rightarrow> string \<Rightarrow> rule_body \<Rightarrow> grading_rule_set" where
  "newRuleSet e auth uuid inst b =
     \<lparr>gr_uuid = uuid, gr_engine = ru_engine b, gr_gradePointMax = ru_gradePointMax b, gr_institutionId = inst,
      gr_name = trim (ru_name b), gr_status = getOr (ru_status b) Rule_ACTIVE,
      gr_scale = scaleJson (normalizeBands (getOr (ru_maxScore b) 100) (ru_scale b)), gr_passMark = ru_passMark b,
      gr_maxScore = getOr (ru_maxScore b) 100, gr_effectiveFrom = dateOf (ru_effectiveFrom b),
      gr_effectiveTo = dateOf (ru_effectiveTo b), gr_createdById = au_institutionUserId auth, gr_updatedAt = now e\<rparr>"

definition createGradingRuleSet :: "env \<Rightarrow> db \<Rightarrow> auth_token \<Rightarrow> rule_body option \<Rightarrow> (grading_rule_set \<times> db) res" where
  "createGradingRuleSet e d auth body =
     bindE (safeParse createGradingRuleSet_ok body) (\<lambda>parsed.
     bindE (setupInstitution d auth (ru_institutionId parsed)) (\<lambda>i.
     let g = newRuleSet e auth (fresh e d) (in_uuid i) parsed in
     Inr (g, audit_write (humanActor auth (audit_event_of ''grading_rule_set.create'' ''GradingRuleSet'' (gr_uuid g)
           (Some (in_uuid i))
           (JObj [(''name'', JStr (gr_name g)), (''engine'', JStr (engine_text (gr_engine g))),
                  (''status'', JStr (rule_status_text (gr_status g))), (''scaleBands'', jint (int (length (ru_scale parsed))))])))
         (drawn (d\<lparr>gradingRuleSets := gradingRuleSets d @ [g]\<rparr>)))))"

fun rule_status_rank :: "grading_status \<Rightarrow> nat" where
  "rule_status_rank Rule_DRAFT = 0" | "rule_status_rank Rule_ACTIVE = 1" | "rule_status_rank Rule_ARCHIVED = 2"

definition listGradingRuleSets :: "db \<Rightarrow> auth_token \<Rightarrow> string option \<Rightarrow> grading_rule_set list res" where
  "listGradingRuleSets d auth ref =
     bindE (academicSetupWhere d auth ref) (\<lambda>where'.
     Inr (take 100 (sort_key (\<lambda>g. rule_status_rank (gr_status g)) (sort_key (\<lambda>g. - gr_updatedAt g)
       (filter (\<lambda>g. where' (gr_institutionId g)) (gradingRuleSets d))))))"

record rule_patch =
  rq_name :: "string option"
  rq_engine :: "grading_engine option"
  rq_status :: "grading_status option"
  rq_scale :: "band_body list option"
  rq_passMark :: "rat patch"
  rq_maxScore :: "rat option"
  rq_gradePointMax :: "rat patch"
  rq_effectiveFrom :: "string patch"
  rq_effectiveTo :: "string patch"

definition updateGradingRuleSet_ok :: "rule_patch \<Rightarrow> bool" where
  "updateGradingRuleSet_ok b \<longleftrightarrow>
     opt_ok (len_in 2 160) (rq_name b) \<and> opt_ok scale_ok (rq_scale b) \<and> patch_ok (\<lambda>m. 0 \<le> m) (rq_passMark b) \<and>
     opt_ok max_ok (rq_maxScore b) \<and> patch_ok point_max_ok (rq_gradePointMax b) \<and>
     patch_ok is_date (rq_effectiveFrom b) \<and> patch_ok is_date (rq_effectiveTo b) \<and>
     ordered_dates (patch_value (rq_effectiveFrom b)) (patch_value (rq_effectiveTo b))"

definition patchedRuleSet :: "env \<Rightarrow> rule_patch \<Rightarrow> grading_rule_set \<Rightarrow> grading_rule_set" where
  "patchedRuleSet e b g =
     g\<lparr>gr_name := getOr (map_option trim (rq_name b)) (gr_name g), gr_engine := getOr (rq_engine b) (gr_engine g),
       gr_status := getOr (rq_status b) (gr_status g),
       gr_scale := (case rq_scale b of None \<Rightarrow> gr_scale g
         | Some bs \<Rightarrow> scaleJson (normalizeBands (getOr (rq_maxScore b) (gr_maxScore g)) bs)),
       gr_passMark := patched (rq_passMark b) (gr_passMark g), gr_maxScore := getOr (rq_maxScore b) (gr_maxScore g),
       gr_gradePointMax := patched (rq_gradePointMax b) (gr_gradePointMax g),
       gr_effectiveFrom := patched_date (rq_effectiveFrom b) (gr_effectiveFrom g),
       gr_effectiveTo := patched_date (rq_effectiveTo b) (gr_effectiveTo g), gr_updatedAt := now e\<rparr>"

definition updateGradingRuleSet ::
    "env \<Rightarrow> db \<Rightarrow> auth_token \<Rightarrow> string \<Rightarrow> rule_patch option \<Rightarrow> (grading_rule_set \<times> db) res" where
  "updateGradingRuleSet e d auth i body =
     bindE (safeParse updateGradingRuleSet_ok body) (\<lambda>parsed.
     bindE (require (find_by gr_uuid i (gradingRuleSets d)) (BadRequest ''Grading rule set not found.'')) (\<lambda>existing.
     bindE (setupInstitution d auth (gr_institutionId existing)) (\<lambda>_.
     let g = patchedRuleSet e parsed existing in
     bindE (update_by gr_uuid i (patchedRuleSet e parsed) (gradingRuleSets d)) (\<lambda>rows.
     Inr (g, audit_write (humanActor auth (audit_event_of ''grading_rule_set.update'' ''GradingRuleSet'' (gr_uuid g)
           (Some (gr_institutionId g))
           (JObj [(''engine'', JStr (engine_text (gr_engine g))), (''status'', JStr (rule_status_text (gr_status g)))])))
         (d\<lparr>gradingRuleSets := rows\<rparr>))))))"

end
