(* ===== verification/SetupRules.thy ===== *)
theory SetupRules
  imports AcademicSetup
begin

text \<open>
  The properties of the academic setup: the tree of structures stays inside a tenant, an institution has at most
  one current session, a stored grading scale reads back as it was given, and the update handlers, which look
  the institution up by its UUID, never get past that lookup.
\<close>

section \<open>The scale as it is stored\<close>

lemma undef_of_jopt [simp]: "jopt f x = JUndef \<longleftrightarrow> x = None \<or> (\<exists>v. x = Some v \<and> f v = JUndef)"
  by (cases x) (auto simp: jopt_def)

lemma bandOfJson_bandJson: "bandOfJson m (toJson (bandJson b)) = Inr b"
  by (cases "bd_remark b"; cases "bd_gradePoint b"; cases "bd_pass b")
    (simp_all add: bandJson_def bandOfJson_def jopt_def jrat_def getProp_def number_of_def text_of_def bool_of_def)

lemma mapE_ok: "(\<And>x. x \<in> set xs \<Longrightarrow> f (g x) = Inr x) \<Longrightarrow> mapE f (map g xs) = Inr xs"
  by (induction xs) simp_all

lemma normalizeScale_scaleJson: "normalizeScale (scaleJson bs) m = Inr (sort_scale bs)"
proof -
  have "toJson (bandJson b) \<noteq> JUndef" for b by (simp add: bandJson_def)
  then have "(case toJson (bandJson b) of JUndef \<Rightarrow> JNull | y \<Rightarrow> y) = toJson (bandJson b)" for b
    by (cases "toJson (bandJson b)") auto
  then have "scaleJson bs = JArr (map (\<lambda>b. toJson (bandJson b)) bs)"
    by (simp add: scaleJson_def comp_def)
  then show ?thesis by (simp add: normalizeScale_def mapE_ok bandOfJson_bandJson)
qed

lemma sort_scale_idem [simp]: "sort_scale (sort_scale bs) = sort_scale bs"
  by (simp add: sort_scale_def sort_key_id_if_sorted)

text \<open>The scale that a rule set is created with is the scale that grading reads from its JSON column later:
  the same bands, in descending order of their lower ends, with the maximum score as the upper end of a band
  that has none; the maximum in force when it is read does not matter.\<close>

theorem stored_scale_roundtrip:
  assumes "createGradingRuleSet e d auth (Some b) = Inr (g, d')"
  shows "find_by gr_uuid (gr_uuid g) (gradingRuleSets d') \<noteq> None \<and>
    normalizeScale (gr_scale g) m = Inr (normalizeBands (getOr (ru_maxScore b) 100) (ru_scale b))"
proof -
  obtain i where i: "setupInstitution d auth (ru_institutionId b) = Inr i"
    using assms by (auto simp: createGradingRuleSet_def err_simps)
  with assms have g: "g = newRuleSet e auth (fresh e d) (in_uuid i) b" and "gradingRuleSets d' = gradingRuleSets d @ [g]"
    by (auto simp: createGradingRuleSet_def err_simps Let_def drawn_def)
  then have "g \<in> set (gradingRuleSets d')" by simp
  then have "find_by gr_uuid (gr_uuid g) (gradingRuleSets d') \<noteq> None" unfolding find_by_None by blast
  then show ?thesis
    by (simp add: g newRuleSet_def normalizeScale_scaleJson normalizeBands_def)
qed

section \<open>Updates\<close>

lemma setup_by_uuid_fails:
  assumes "uuidPattern ref" and "\<forall>i \<in> set (institutions d). in_institutionId i \<noteq> ref"
  shows "\<exists>err. setupInstitution d auth ref = Inl err"
proof -
  have "\<not> Rollovers.isUuid ref"
    using assms(1) by (auto simp: Rollovers.isUuid_def uuidPattern_def dest!: matches_length)
  then have "List.find (institutionRefWhere ref) (institutions d) = None"
    using assms(2) by (simp add: find_None_iff' institutionRefWhere_def)
  then show ?thesis by (cases "au_kind auth = Some API_KEY") (simp_all add: setupInstitution_def resolveReadableInstitution_def)
qed

lemma update_fails:
  assumes fails: "\<And>x. x \<in> set rows \<Longrightarrow> \<exists>err. lookup (inst x) = Inl err"
  shows "\<exists>err. bindE parse (\<lambda>p. bindE (require (find_by key i rows) e) (\<lambda>x. bindE (lookup (inst x)) (f p x))) = Inl err"
proof (cases parse)
  case (Inr p)
  show ?thesis
  proof (cases "find_by key i rows")
    case None
    with Inr show ?thesis by simp
  next
    case (Some x)
    with find_by_Some [OF Some] fails obtain err where "lookup (inst x) = Inl err" by blast
    with Some Inr show ?thesis by simp
  qed
qed simp

text \<open>No session, structure or grading rule set can be updated: the handlers pass the UUID of the row's
  institution to a lookup whose pattern of a UUID lacks a group, so it is compared with the public identifiers
  and no active institution is found, for every caller and every body.\<close>

theorem academic_setup_never_updated:
  assumes "\<forall>i \<in> set (institutions d). uuidPattern (in_uuid i)"
    and "\<forall>i \<in> set (institutions d). \<forall>j \<in> set (institutions d). in_institutionId i \<noteq> in_uuid j"
    and "\<forall>s \<in> set (academicSessions d). se_institutionId s \<in> in_uuid ` set (institutions d)"
    and "\<forall>s \<in> set (academicStructures d). st_institutionId s \<in> in_uuid ` set (institutions d)"
    and "\<forall>g \<in> set (gradingRuleSets d). gr_institutionId g \<in> in_uuid ` set (institutions d)"
  shows "(\<exists>err. updateAcademicSession d auth i b1 = Inl err) \<and> (\<exists>err. updateAcademicStructure e d auth i b2 = Inl err) \<and>
    (\<exists>err. updateGradingRuleSet e d auth i b3 = Inl err)"
proof -
  have fails: "\<exists>err. setupInstitution d auth u = Inl err" if "u \<in> in_uuid ` set (institutions d)" for u
    using that assms(1,2) by (intro setup_by_uuid_fails) auto
  show ?thesis
    unfolding updateAcademicSession_def updateAcademicStructure_def updateGradingRuleSet_def
    by (intro conjI update_fails fails) (simp_all add: assms)
qed

section \<open>The setup of an institution stays consistent\<close>

inductive setup_step :: "db \<Rightarrow> db \<Rightarrow> bool" where
  new_session: "createAcademicSession e d auth b = Inr (s, d') \<Longrightarrow> fresh e d \<notin> se_uuid ` set (academicSessions d) \<Longrightarrow>
    setup_step d d'"
| old_session: "updateAcademicSession d auth i b = Inr (s, d') \<Longrightarrow> setup_step d d'"
| new_structure: "createAcademicStructure e d auth b = Inr (t, d') \<Longrightarrow>
    fresh e d \<notin> st_uuid ` set (academicStructures d) \<Longrightarrow> setup_step d d'"
| old_structure: "updateAcademicStructure e d auth i b = Inr (t, d') \<Longrightarrow> setup_step d d'"
| new_rule: "createGradingRuleSet e d auth b = Inr (g, d') \<Longrightarrow> setup_step d d'"
| old_rule: "updateGradingRuleSet e d auth i b = Inr (g, d') \<Longrightarrow> setup_step d d'"

definition one_current :: "academic_session list \<Rightarrow> bool" where
  "one_current rows \<longleftrightarrow> (\<forall>s \<in> set rows. \<forall>t \<in> set rows. se_isCurrent s \<longrightarrow> se_isCurrent t \<longrightarrow>
     se_institutionId s = se_institutionId t \<longrightarrow> se_uuid s = se_uuid t)"

definition parents_in_tenant :: "academic_structure list \<Rightarrow> bool" where
  "parents_in_tenant rows \<longleftrightarrow> (\<forall>s \<in> set rows. truthy_text (st_parentId s) \<longrightarrow>
     (\<exists>p. find_by st_uuid (getOr (st_parentId s) []) rows = Some p \<and> st_institutionId p = st_institutionId s))"

lemma current_cleared:
  assumes "s \<in> set (sessionsOf c inst p rows)" and "se_isCurrent s"
  shows "s \<in> set rows \<and> (c \<longrightarrow> se_institutionId s = inst \<longrightarrow> \<not> p s)"
  using assms by (auto simp: sessionsOf_def set_update_rows split: if_splits)

lemma patchedSession_fields [simp]:
  "se_uuid (patchedSession b s) = se_uuid s" "se_institutionId (patchedSession b s) = se_institutionId s"
  "se_isCurrent (patchedSession b s) = getOr (sp_isCurrent b) (se_isCurrent s)"
  by (simp_all add: patchedSession_def)

lemma newSession_fields [simp]:
  "se_uuid (newSession auth u inst b) = u" "se_institutionId (newSession auth u inst b) = inst"
  "se_isCurrent (newSession auth u inst b) = getOr (sn_isCurrent b) False"
  by (simp_all add: newSession_def)

lemma sessions_keep: "\<exists>t \<in> set rows. se_uuid t = se_uuid s \<and> se_institutionId t = se_institutionId s"
  if "s \<in> set (sessionsOf c inst p rows)"
  using that by (auto simp: sessionsOf_def set_update_rows split: if_splits intro: bexI)

lemma one_current_update:
  assumes "one_current rows" and "find_by se_uuid i rows = Some x" and "distinct (map se_uuid rows)"
  shows "one_current (set_by se_uuid i (patchedSession b) (sessionsOf (getOr (sp_isCurrent b) False) (se_institutionId x)
    (\<lambda>s. se_uuid s \<noteq> i) rows))"
proof -
  let ?c = "getOr (sp_isCurrent b) False"
  let ?old = "sessionsOf ?c (se_institutionId x) (\<lambda>s. se_uuid s \<noteq> i) rows"
  have x: "x \<in> set rows" "se_uuid x = i" using find_by_Some [OF assms(2)] by simp_all
  have row: "(\<exists>r \<in> set rows. se_uuid r = se_uuid s \<and> se_institutionId r = se_institutionId s \<and>
      (se_isCurrent r \<or> se_uuid s = i \<and> ?c) \<and> (?c \<longrightarrow> se_institutionId s = se_institutionId x \<longrightarrow> se_uuid s = i))"
    if s: "s \<in> set (set_by se_uuid i (patchedSession b) ?old)" "se_isCurrent s" for s
  proof -
    from s(1) consider "s \<in> set ?old" "se_uuid s \<noteq> i" | t where "t \<in> set ?old" "se_uuid t = i" "s = patchedSession b t"
      unfolding in_set_by by blast
    then show ?thesis
    proof cases
      case 1
      with current_cleared [OF 1(1) s(2)] s(2) show ?thesis by blast
    next
      case 2
      show ?thesis
      proof (cases ?c)
        case True
        with 2 sessions_keep [OF 2(1)] show ?thesis by auto
      next
        case False
        with 2 s(2) have "se_isCurrent t" by (cases "sp_isCurrent b") auto
        with 2 current_cleared [OF 2(1)] False show ?thesis by auto
      qed
    qed
  qed
  have same: "r = x" if "r \<in> set rows" "se_uuid r = i" for r
    using that x assms(3) by (auto dest: distinct_key_eq [of se_uuid])
  show ?thesis
    unfolding one_current_def
  proof (intro ballI impI)
    fix s t assume s: "s \<in> set (set_by se_uuid i (patchedSession b) ?old)" "se_isCurrent s"
      and t: "t \<in> set (set_by se_uuid i (patchedSession b) ?old)" "se_isCurrent t"
      and inst: "se_institutionId s = se_institutionId t"
    from row [OF s] row [OF t] inst assms(1) same show "se_uuid s = se_uuid t"
      unfolding one_current_def by metis
  qed
qed

lemma one_current_append:
  assumes "one_current rows" and "se_uuid s \<notin> se_uuid ` set rows"
  shows "one_current (sessionsOf (se_isCurrent s) (se_institutionId s) (\<lambda>_. True) rows @ [s])"
proof -
  let ?old = "sessionsOf (se_isCurrent s) (se_institutionId s) (\<lambda>_. True) rows"
  have old: "t \<in> set rows \<and> (se_isCurrent s \<longrightarrow> se_institutionId t \<noteq> se_institutionId s)"
    if "t \<in> set ?old" "se_isCurrent t" for t
    using current_cleared [OF that] by blast
  show ?thesis
    unfolding one_current_def
  proof (intro ballI impI)
    fix t u assume t: "t \<in> set (?old @ [s])" "se_isCurrent t" and u: "u \<in> set (?old @ [s])" "se_isCurrent u"
      and inst: "se_institutionId t = se_institutionId u"
    have "t \<in> set rows \<and> (se_isCurrent s \<longrightarrow> se_institutionId t \<noteq> se_institutionId s) \<or> t = s"
      and "u \<in> set rows \<and> (se_isCurrent s \<longrightarrow> se_institutionId u \<noteq> se_institutionId s) \<or> u = s"
      using old t u by auto
    then show "se_uuid t = se_uuid u"
      using assms(1) t(2) u(2) inst unfolding one_current_def by metis
  qed
qed

lemma uuids_sessionsOf [simp]: "map se_uuid (sessionsOf c inst p rows) = map se_uuid rows"
  by (auto simp: sessionsOf_def update_rows_def)

lemma parents_append:
  assumes "parents_in_tenant rows" and "assertParentStructure d (st_institutionId s) (st_parentId s) = Inr ()"
    and "rows = academicStructures d"
  shows "parents_in_tenant (rows @ [s])"
  using assms unfolding parents_in_tenant_def assertParentStructure_def
  by (fastforce simp: row_simps err_simps split: option.splits if_splits)

lemma parents_update:
  assumes "parents_in_tenant rows" and "find_by st_uuid i rows = Some x" and "rows = academicStructures d"
    and "assertParentStructure d (st_institutionId x) (patch_value (sq_parentId b)) = Inr ()"
    and "distinct (map st_uuid rows)"
  shows "parents_in_tenant (set_by st_uuid i (patchedStructure b) rows)"
  unfolding parents_in_tenant_def
proof (intro ballI impI)
  let ?rows = "set_by st_uuid i (patchedStructure b) rows"
  fix s assume s: "s \<in> set ?rows" and up: "truthy_text (st_parentId s)"
  have x: "x \<in> set rows" "st_uuid x = i" using find_by_Some [OF assms(2)] by simp_all
  have found: "\<exists>q. find_by st_uuid k ?rows = Some q \<and> st_institutionId q = st_institutionId p"
    if "find_by st_uuid k rows = Some p" for k p
    using that
    by (cases "k = i") (simp_all add: set_by_same set_by_other patchedStructure_def)
  have "\<exists>p. find_by st_uuid (getOr (st_parentId s) []) rows = Some p \<and> st_institutionId p = st_institutionId s"
  proof (cases "s \<in> set rows \<and> st_uuid s \<noteq> i")
    case True
    with up assms(1) show ?thesis unfolding parents_in_tenant_def by blast
  next
    case False
    with s obtain t where t: "t \<in> set rows" "st_uuid t = i" "s = patchedStructure b t"
      unfolding in_set_by by blast
    have "t = x" using distinct_key_eq [OF assms(5) t(1) x(1)] t(2) x(2) by simp
    show ?thesis
    proof (cases "sq_parentId b")
      case Absent
      with up t have "truthy_text (st_parentId t)" by (simp add: patchedStructure_def)
      with assms(1) t(1) obtain p where "find_by st_uuid (getOr (st_parentId t) []) rows = Some p"
        "st_institutionId p = st_institutionId t" unfolding parents_in_tenant_def by blast
      with Absent t show ?thesis by (simp add: patchedStructure_def)
    next
      case Null
      with up t show ?thesis by (simp add: patchedStructure_def truthy_text_def)
    next
      case (Put k)
      with up t assms(3,4) \<open>t = x\<close> show ?thesis
        by (auto simp: patchedStructure_def assertParentStructure_def err_simps split: option.splits)
    qed
  qed
  then show "\<exists>p. find_by st_uuid (getOr (st_parentId s) []) ?rows = Some p \<and> st_institutionId p = st_institutionId s"
    using found by metis
qed

definition setup_ok :: "db \<Rightarrow> bool" where
  "setup_ok d \<longleftrightarrow> distinct (map se_uuid (academicSessions d)) \<and> distinct (map st_uuid (academicStructures d)) \<and>
     one_current (academicSessions d) \<and> parents_in_tenant (academicStructures d)"

lemma setup_ok_step: "setup_step d d' \<Longrightarrow> setup_ok d \<Longrightarrow> setup_ok d'"
proof (induction rule: setup_step.induct)
  case (new_session e d auth b s d')
  then obtain i p where s: "s = newSession auth (fresh e d) i p"
    and "academicSessions d' = sessionsOf (getOr (sn_isCurrent p) False) i (\<lambda>_. True) (academicSessions d) @ [s]"
    and "academicStructures d' = academicStructures d"
    by (fastforce simp: createAcademicSession_def err_simps Let_def drawn_def check_sessions_def)
  with new_session(2,3) show ?case
    using one_current_append [of "academicSessions d" s] by (simp add: setup_ok_def)
next
  case (old_session d auth i b s d')
  then obtain p x where "find_by se_uuid i (academicSessions d) = Some x"
    and "academicSessions d' = set_by se_uuid i (patchedSession p) (sessionsOf (getOr (sp_isCurrent p) False)
      (se_institutionId x) (\<lambda>s. se_uuid s \<noteq> i) (academicSessions d))"
    and "academicStructures d' = academicStructures d"
    by (auto simp: updateAcademicSession_def err_simps Let_def check_sessions_def)
  with old_session(2) show ?case
    using one_current_update [of "academicSessions d" i x p] by (simp add: setup_ok_def keys_set_by)
next
  case (new_structure e d auth b t d')
  then obtain i p where t: "t = newStructure auth (fresh e d) i p"
    and "assertParentStructure d i (su_parentId p) = Inr ()"
    and "academicStructures d' = academicStructures d @ [t]" and "academicSessions d' = academicSessions d"
    by (fastforce simp: createAcademicStructure_def err_simps Let_def drawn_def)
  with new_structure(2,3) show ?case
    using parents_append [of "academicStructures d" d t] by (simp add: setup_ok_def newStructure_def)
next
  case (old_structure e d auth i b t d')
  then obtain p x where "find_by st_uuid i (academicStructures d) = Some x"
    and "assertParentStructure d (st_institutionId x) (patch_value (sq_parentId p)) = Inr ()"
    and "academicStructures d' = set_by st_uuid i (patchedStructure p) (academicStructures d)"
    and "academicSessions d' = academicSessions d"
    by (auto simp: updateAcademicStructure_def err_simps Let_def)
  with old_structure(2) show ?case
    using parents_update [of "academicStructures d" i x d p] by (simp add: setup_ok_def keys_set_by patchedStructure_def)
next
  case (new_rule e d auth b g d')
  then have "academicStructures d' = academicStructures d \<and> academicSessions d' = academicSessions d"
    by (auto simp: createGradingRuleSet_def err_simps Let_def drawn_def)
  with new_rule(2) show ?case by (simp add: setup_ok_def)
next
  case (old_rule e d auth i b g d')
  then have "academicStructures d' = academicStructures d \<and> academicSessions d' = academicSessions d"
    by (auto simp: updateGradingRuleSet_def err_simps Let_def)
  with old_rule(2) show ?case by (simp add: setup_ok_def)
qed

text \<open>C28. However the setup handlers are called, an institution has at most one current session and the
  parent of every structure is a structure of the same institution, when this holds to begin with and the
  database draws new UUIDs.\<close>

theorem academic_setup_consistent:
  assumes "setup_step\<^sup>*\<^sup>* d d'" and "distinct (map se_uuid (academicSessions d))"
    and "distinct (map st_uuid (academicStructures d))" and "one_current (academicSessions d)"
    and "parents_in_tenant (academicStructures d)"
  shows "one_current (academicSessions d') \<and> parents_in_tenant (academicStructures d')"
proof -
  have "setup_ok d" using assms(2-) by (simp add: setup_ok_def)
  with assms(1) have "setup_ok d'" by (induction) (blast intro: setup_ok_step)+
  then show ?thesis by (simp add: setup_ok_def)
qed

section \<open>Witnesses\<close>

definition third_session :: session_body where
  "third_session = \<lparr>sn_institutionId = ''ACD-1'', sn_sessionLabel = ''2025'', sn_periodType = Period_SEMESTER,
     sn_periodLabel = ''First Semester'', sn_startDate = Some ''2025-09-01'', sn_endDate = None, sn_status = None,
     sn_isCurrent = Some True\<rparr>"

definition pass_fail :: rule_body where
  "pass_fail = \<lparr>ru_institutionId = ''ACD-1'', ru_name = ''Scale'', ru_engine = TERTIARY_GPA, ru_status = None,
     ru_scale = [\<lparr>bn_minScore = 0, bn_maxScore = Some 39, bn_grade = ''F'', bn_remark = None, bn_gradePoint = Some 0, bn_pass = None\<rparr>,
       \<lparr>bn_minScore = 40, bn_maxScore = None, bn_grade = ''P'', bn_remark = None, bn_gradePoint = Some 5, bn_pass = Some True\<rparr>],
     ru_passMark = None, ru_maxScore = None, ru_gradePointMax = Some 5, ru_effectiveFrom = None, ru_effectiveTo = None\<rparr>"

lemma sample_rule_created:
  "case createGradingRuleSet sample_env sample_db founder (Some pass_fail) of
     Inl _ \<Rightarrow> False | Inr (g, d') \<Rightarrow> gr_maxScore g = 100 \<and> gradingRuleSets d' = [g]"
  by code_simp

lemma sample_session_created:
  "case createAcademicSession sample_env sample_db founder (Some third_session) of
     Inl _ \<Rightarrow> False | Inr (s, d') \<Rightarrow> map se_isCurrent (academicSessions d') = [False, False, True]"
  by code_simp

theorem stored_scale_roundtrip_witness:
  "case createGradingRuleSet sample_env sample_db founder (Some pass_fail) of
     Inl _ \<Rightarrow> False
   | Inr (g, d') \<Rightarrow> normalizeScale (gr_scale g) 50 = Inr (normalizeBands 100 (ru_scale pass_fail))"
proof -
  obtain g d' where run: "createGradingRuleSet sample_env sample_db founder (Some pass_fail) = Inr (g, d')"
    using sample_rule_created by (auto split: sum.splits)
  have "getOr (ru_maxScore pass_fail) 100 = 100" by (simp add: pass_fail_def)
  with stored_scale_roundtrip [OF run, of 50] show ?thesis by (simp add: run)
qed

theorem academic_setup_never_updated_witness:
  "\<exists>err. updateAcademicSession sample_db founder ''s1''
     (Some \<lparr>sp_sessionLabel = None, sp_periodType = None, sp_periodLabel = None, sp_startDate = Absent,
        sp_endDate = Absent, sp_status = None, sp_isCurrent = Some True\<rparr>) = Inl err"
proof -
  have "(\<forall>i \<in> set (institutions sample_db). uuidPattern (in_uuid i)) \<and>
      (\<forall>i \<in> set (institutions sample_db). \<forall>j \<in> set (institutions sample_db). in_institutionId i \<noteq> in_uuid j)"
    by code_simp
  moreover have "(\<forall>s \<in> set (academicSessions sample_db). se_institutionId s \<in> in_uuid ` set (institutions sample_db)) \<and>
      (\<forall>s \<in> set (academicStructures sample_db). st_institutionId s \<in> in_uuid ` set (institutions sample_db)) \<and>
      (\<forall>g \<in> set (gradingRuleSets sample_db). gr_institutionId g \<in> in_uuid ` set (institutions sample_db))"
    by code_simp
  ultimately show ?thesis
    using academic_setup_never_updated [of sample_db founder "''s1''"] by blast
qed

theorem academic_setup_consistent_witness:
  "case createAcademicSession sample_env sample_db founder (Some third_session) of
     Inl _ \<Rightarrow> False | Inr (s, d') \<Rightarrow> one_current (academicSessions d') \<and> parents_in_tenant (academicStructures d')"
proof -
  obtain s d' where run: "createAcademicSession sample_env sample_db founder (Some third_session) = Inr (s, d')"
    using sample_session_created by (auto split: sum.splits)
  have "fresh sample_env sample_db \<notin> se_uuid ` set (academicSessions sample_db)"
    by code_simp
  with run have "setup_step\<^sup>*\<^sup>* sample_db d'" by (blast intro: setup_step.new_session)
  moreover have "distinct (map se_uuid (academicSessions sample_db)) \<and> distinct (map st_uuid (academicStructures sample_db))"
    by code_simp
  moreover have "one_current (academicSessions sample_db) \<and> parents_in_tenant (academicStructures sample_db)"
    by (simp add: one_current_def parents_in_tenant_def sample_defs truthy_text_def)
  ultimately show ?thesis using academic_setup_consistent [of sample_db d'] by (simp add: run)
qed

end
