(* ===== verification/Csv.thy ===== *)
theory Csv
  imports Json
begin

text \<open>
  The CSV reader of \<open>jobs/bulk-upload-parser.service.ts\<close>: \<open>csvRecords\<close> scans the text once, with a flag for
  quotes, the current cell, the current record and the records so far; \<open>normaliseHeader\<close> and \<open>headerMap\<close> give
  the columns their meaning. A reference writer quotes every cell, and reading what it writes gives the records
  back.
\<close>

section \<open>Records\<close>

definition line_feed :: char where "line_feed = char_of (10 :: nat)"
definition carriage_return :: char where "carriage_return = char_of (13 :: nat)"

definition next_is :: "char \<Rightarrow> string \<Rightarrow> bool" where
  "next_is c s = (case s of [] \<Rightarrow> False | d # _ \<Rightarrow> d = c)"

definition push_record :: "string list \<Rightarrow> string list list \<Rightarrow> string list list" where
  "push_record row rows = (if \<exists>cell \<in> set row. cell \<noteq> [] then rows @ [row] else rows)"

fun scan :: "string \<Rightarrow> bool \<Rightarrow> string \<Rightarrow> string list \<Rightarrow> string list list \<Rightarrow> string list list" where
  "scan [] inQuotes current row rows = push_record (row @ [trim current]) rows"
| "scan (c # rest) inQuotes current row rows =
     (if c = quote_mark \<and> inQuotes \<and> next_is quote_mark rest
      then scan (tl rest) inQuotes (current @ [quote_mark]) row rows
      else if c = quote_mark then scan rest (\<not> inQuotes) current row rows
      else if c = CHR '','' \<and> \<not> inQuotes then scan rest inQuotes [] (row @ [trim current]) rows
      else if (c = line_feed \<or> c = carriage_return) \<and> \<not> inQuotes
      then scan (if c = carriage_return \<and> next_is line_feed rest then tl rest else rest) inQuotes [] []
        (push_record (row @ [trim current]) rows)
      else scan rest inQuotes (current @ [c]) row rows)"

definition csvRecords :: "string \<Rightarrow> string list list" where
  "csvRecords text = scan text False [] [] []"

section \<open>Headers\<close>

definition alphanumeric :: "char \<Rightarrow> bool" where
  "alphanumeric c \<longleftrightarrow> is_alpha c \<or> is_digit c"

text \<open>\<open>replace(/[^a-zA-Z0-9]+/g, "_")\<close>: the flag tells that the run of other characters has begun.\<close>

fun underscored :: "bool \<Rightarrow> string \<Rightarrow> string" where
  "underscored run [] = []"
| "underscored run (c # cs) =
     (if alphanumeric c then c # underscored False cs
      else if run then underscored True cs
      else CHR ''_'' # underscored True cs)"

definition strip_underscores :: "string \<Rightarrow> string" where
  "strip_underscores s = rev (dropWhile (\<lambda>c. c = CHR ''_'') (rev (dropWhile (\<lambda>c. c = CHR ''_'') s)))"

text \<open>A byte order mark is white space, which \<open>trim\<close> has removed before the replacement looks for it.\<close>

definition normaliseHeader :: "string \<Rightarrow> string" where
  "normaliseHeader value = toLowerCase (strip_underscores (underscored False (trim value)))"

definition headerMap :: "(string \<times> string) list" where
  "headerMap =
     [(''fullname'', ''fullName''), (''full_name'', ''fullName''), (''name'', ''fullName''), (''studentname'', ''fullName''),
      (''student_name'', ''fullName''), (''learnername'', ''fullName''), (''learner_name'', ''fullName''),
      (''dateofbirth'', ''dateOfBirth''), (''date_of_birth'', ''dateOfBirth''), (''dob'', ''dateOfBirth''),
      (''birthdate'', ''dateOfBirth''), (''birth_date'', ''dateOfBirth''), (''studentnumber'', ''studentNumber''),
      (''student_number'', ''studentNumber''), (''admissionnumber'', ''studentNumber''),
      (''admission_number'', ''studentNumber''), (''admissionno'', ''studentNumber''), (''admission_no'', ''studentNumber''),
      (''schoolid'', ''studentNumber''), (''school_id'', ''studentNumber''), (''learnerid'', ''studentNumber''),
      (''learner_id'', ''studentNumber''), (''level'', ''level''), (''class'', ''level''), (''gradelevel'', ''level''),
      (''grade_level'', ''level''), (''programme'', ''programme''), (''program'', ''programme''),
      (''department'', ''programme''), (''track'', ''programme''), (''phone'', ''phone''), (''phonenumber'', ''phone''),
      (''phone_number'', ''phone''), (''mobile'', ''phone'')]"

definition cell_at :: "'a list \<Rightarrow> nat \<Rightarrow> 'a option" where
  "cell_at xs n = (if n < length xs then Some (xs ! n) else None)"

fun put_cell :: "(string \<Rightarrow> string option) \<Rightarrow> nat \<times> string \<Rightarrow> (string \<times> jval) list \<Rightarrow> (string \<times> jval) list" where
  "put_cell cell (n, header) row =
     (case map_of headerMap header of
        None \<Rightarrow> row
      | Some field \<Rightarrow> set_prop field (JStr (trim (getOr (cell header) []))) row)"

text \<open>The record of a row: a column whose header is known sets its field, a later column replaces an earlier one.\<close>

definition mapRecord :: "string list \<Rightarrow> string list \<Rightarrow> jval" where
  "mapRecord headers record =
     JObj (fold (\<lambda>(n, header). put_cell (\<lambda>_. cell_at record n) (n, header)) (enumerate 0 headers) [])"

definition blank :: "string list \<Rightarrow> bool" where
  "blank record \<longleftrightarrow> (\<forall>cell \<in> set record. trim cell = [])"

definition parseCsv :: "string \<Rightarrow> jval list res" where
  "parseCsv text =
     (case csvRecords text of
        header # first # more \<Rightarrow>
          Inr (map (mapRecord (map normaliseHeader header)) (filter (\<lambda>r. \<not> blank r) (first # more)))
      | _ \<Rightarrow> Inl (NonRetryable ''CSV upload must include a header row and at least one student row.''))"

section \<open>Writing and reading\<close>

definition quoted :: "string \<Rightarrow> string" where
  "quoted s = quote_mark # concat (map (\<lambda>c. if c = quote_mark then [quote_mark, quote_mark] else [c]) s) @ [quote_mark]"

definition plain :: "string \<Rightarrow> bool" where
  "plain s \<longleftrightarrow> set s \<inter> {quote_mark, CHR '','', line_feed, carriage_return} = {}"

text \<open>The writer quotes the cells that the flag asks for.\<close>

definition csv_cell :: "bool \<times> string \<Rightarrow> string" where
  "csv_cell cell = (if fst cell then quoted (snd cell) else snd cell)"

definition csv_line :: "(bool \<times> string) list \<Rightarrow> string" where
  "csv_line row = join '','' (map csv_cell row)"

definition csv_text :: "(bool \<times> string) list list \<Rightarrow> string" where
  "csv_text rows = join [line_feed] (map csv_line rows)"

lemma separators [simp]:
  "CHR '','' \<noteq> quote_mark" "line_feed \<noteq> quote_mark" "line_feed \<noteq> CHR '',''" "line_feed \<noteq> carriage_return"
  "quote_mark \<noteq> CHR '',''" "quote_mark \<noteq> line_feed" "CHR '','' \<noteq> line_feed"
  by code_simp+

text \<open>The inside of a quoted cell, up to the quote that ends it.\<close>

lemma scan_quoted:
  assumes "\<not> next_is quote_mark rest"
  shows "scan (concat (map (\<lambda>c. if c = quote_mark then [quote_mark, quote_mark] else [c]) s) @ quote_mark # rest) True cur row rows =
    scan rest False (cur @ s) row rows"
  using assms by (induction s arbitrary: cur) (simp_all add: next_is_def)

lemma scan_plain: "plain s \<Longrightarrow> scan (s @ rest) False cur row rows = scan rest False (cur @ s) row rows"
  by (induction s arbitrary: cur) (auto simp: plain_def)

definition writable :: "bool \<times> string \<Rightarrow> bool" where
  "writable cell \<longleftrightarrow> trim (snd cell) = snd cell \<and> (fst cell \<or> plain (snd cell))"

lemma scan_cell:
  "\<not> next_is quote_mark rest \<Longrightarrow> writable cell \<Longrightarrow>
     scan (csv_cell cell @ rest) False cur row rows = scan rest False (cur @ snd cell) row rows"
  by (auto simp: csv_cell_def writable_def quoted_def scan_quoted scan_plain next_is_def)

lemma scan_line:
  assumes "cells \<noteq> []" and "list_all writable cells" and "\<not> next_is quote_mark rest"
  shows "scan (csv_line cells @ rest) False [] row rows =
    scan rest False (snd (last cells)) (row @ map snd (butlast cells)) rows"
  using assms
proof (induction cells arbitrary: row)
  case Nil
  then show ?case by simp
next
  case (Cons s cells)
  show ?case
  proof (cases cells)
    case Nil
    with Cons.prems show ?thesis by (simp add: csv_line_def scan_cell)
  next
    case (Cons t ts)
    then have "csv_line (s # cells) @ rest = csv_cell s @ CHR '','' # csv_line cells @ rest"
      by (simp add: csv_line_def)
    moreover have "scan (csv_cell s @ CHR '','' # csv_line cells @ rest) False [] row rows =
        scan (csv_line cells @ rest) False [] (row @ [trim (snd s)]) rows"
      using Cons.prems by (subst scan_cell) (simp_all add: next_is_def)
    moreover have "trim (snd s) = snd s" using Cons.prems by (simp add: writable_def)
    ultimately show ?thesis using Cons.IH [of "row @ [snd s]"] Cons.prems \<open>cells = t # ts\<close> by simp
  qed
qed

definition written :: "(bool \<times> string) list \<Rightarrow> bool" where
  "written row \<longleftrightarrow> (\<exists>cell \<in> set row. snd cell \<noteq> []) \<and> list_all writable row"

text \<open>A whole line, up to its end.\<close>

lemma scan_written:
  assumes "written r"
  shows "scan (csv_line r) False [] [] rows = rows @ [map snd r]"
    and "scan (csv_line r @ line_feed # rest) False [] [] rows = scan rest False [] [] (rows @ [map snd r])"
proof -
  have r: "r \<noteq> []" "list_all writable r" "\<exists>cell \<in> set r. snd cell \<noteq> []" using assms by (auto simp: written_def)
  then have "trim (snd (last r)) = snd (last r)" by (simp add: list_all_iff writable_def)
  moreover have "map snd (butlast r) @ [snd (last r)] = map snd r"
    using r(1) by (metis append_butlast_last_id map_append list.simps(8,9))
  moreover have "\<exists>cell \<in> set (map snd r). cell \<noteq> []" using r(3) by auto
  ultimately show "scan (csv_line r) False [] [] rows = rows @ [map snd r]"
    and "scan (csv_line r @ line_feed # rest) False [] [] rows = scan rest False [] [] (rows @ [map snd r])"
    using scan_line [OF r(1,2), of "[]" "[]" rows] scan_line [OF r(1,2), of "line_feed # rest" "[]" rows]
    by (simp_all add: next_is_def push_record_def)
qed

lemma scan_rows:
  "list_all written (r # rs) \<Longrightarrow> scan (csv_text (r # rs)) False [] [] rows = rows @ map (map snd) (r # rs)"
proof (induction rs arbitrary: r rows)
  case Nil
  then show ?case by (simp add: csv_text_def scan_written)
next
  case (Cons s rs)
  have "csv_text (r # s # rs) = csv_line r @ line_feed # csv_text (s # rs)" by (simp add: csv_text_def)
  with Cons show ?case by (simp add: scan_written)
qed

text \<open>A table of trimmed cells whose records are not empty reads back from its CSV text as it was: with every
  cell in quotes, doubled inside, or bare when it holds no quote, comma or line break.\<close>

lemma csv_table_roundtrip:
  assumes "rows \<noteq> []" and "list_all written rows"
  shows "csvRecords (csv_text rows) = map (map snd) rows"
  using assms by (cases rows) (simp_all add: csvRecords_def scan_rows)

text \<open>For example:\<close>

definition two_lines :: "(bool \<times> string) list list" where
  "two_lines = [[(False, ''Full Name''), (True, ''class'')], [(True, ''Okafor, Ada '' @ [quote_mark, CHR ''A'', quote_mark]), (False, [])]]"

lemma two_lines_read: "csvRecords (csv_text two_lines) = map (map snd) two_lines"
  by (rule csv_table_roundtrip) code_simp+

end
