(* ===== verification/Register.thy ===== *)
theory Register
  imports AcademicSetup JsonParse
begin

text \<open>
  The student register of \<open>gateway/ingestion/ingestion.service.ts\<close> (\<open>ingestStudents\<close>) with \<open>formatAin\<close> of the
  shared package. One call runs in a transaction: a row whose student number has an active enrolment is left
  alone, a learner is matched by full name and date of birth, and a new learner gets the next AIN, whose number
  is the count of all learners.
\<close>

section \<open>The register\<close>

definition formatAin :: "string \<Rightarrow> int \<Rightarrow> nat \<Rightarrow> string" where
  "formatAin countryCode firstEnrollmentYear sequence =
     ''AIN-'' @ toUpperCase (trim countryCode) @ ''-'' @ show_int firstEnrollmentYear @ ''-'' @
     padStart 7 (digits sequence)"

record register_row =
  sr_fullName :: string
  sr_dateOfBirth :: string
  sr_studentNumber :: string
  sr_level :: string
  sr_programme :: string
  sr_phone :: "string option"

record register_body =
  sg_institutionId :: string
  sg_entryDate :: "string option"
  sg_rows :: "register_row list"

definition studentRegisterRow_ok :: "register_row \<Rightarrow> bool" where
  "studentRegisterRow_ok r \<longleftrightarrow>
     2 \<le> length (sr_fullName r) \<and> is_date (sr_dateOfBirth r) \<and> sr_studentNumber r \<noteq> [] \<and>
     sr_level r \<noteq> [] \<and> sr_programme r \<noteq> []"

definition ingestStudentRegister_ok :: "register_body \<Rightarrow> bool" where
  "ingestStudentRegister_ok b \<longleftrightarrow>
     sg_institutionId b \<noteq> [] \<and> opt_ok is_date (sg_entryDate b) \<and>
     1 \<le> length (sg_rows b) \<and> length (sg_rows b) \<le> 500 \<and> list_all studentRegisterRow_ok (sg_rows b)"

record register_entry =
  re_studentNumber :: string
  re_ain :: string
  re_status :: string

text \<open>The local variables of the transaction, with the database it works on.\<close>

record register_run =
  rr_sequence :: nat
  rr_createdLearners :: nat
  rr_linkedLearners :: nat
  rr_createdEnrolments :: nat
  rr_existingEnrolments :: nat
  rr_rows :: "register_entry list"
  rr_db :: db

definition activeEnrolment :: "string \<Rightarrow> string \<Rightarrow> enrolment \<Rightarrow> bool" where
  "activeEnrolment inst number x \<longleftrightarrow>
     en_institutionId x = inst \<and> en_studentNumber x = number \<and> en_status x = En_ACTIVE"

definition same_person :: "register_row \<Rightarrow> learner \<Rightarrow> bool" where
  "same_person row l \<longleftrightarrow>
     le_fullName l = sr_fullName row \<and> Some (le_dateOfBirth l) = zod_date (sr_dateOfBirth row)"

definition newLearner :: "string \<Rightarrow> string \<Rightarrow> register_row \<Rightarrow> learner" where
  "newLearner uuid ain row =
     \<lparr>le_uuid = uuid, le_ain = ain, le_fullName = sr_fullName row,
      le_dateOfBirth = getOr (zod_date (sr_dateOfBirth row)) 0, le_phone = sr_phone row, le_ninEncrypted = None,
      le_jambId = None, le_identityStatus = Ident_UNVERIFIED\<rparr>"

definition ain_key :: "learner \<Rightarrow> string option" where
  "ain_key l = Some (le_ain l)"

definition createLearner :: "env \<Rightarrow> string \<Rightarrow> register_row \<Rightarrow> db \<Rightarrow> (learner \<times> db) res" where
  "createLearner e ain row d =
     (let l = newLearner (fresh e d) ain row
      in bindE (check_unique ''Learner_ain_key'' ain_key (learners d @ [l])) (\<lambda>rows.
         Inr (l, drawn (d\<lparr>learners := rows\<rparr>))))"

definition registered :: "string \<Rightarrow> string \<Rightarrow> string \<Rightarrow> int \<Rightarrow> register_row \<Rightarrow> enrolment" where
  "registered uuid learnerId inst entryDate row =
     \<lparr>en_uuid = uuid, en_learnerId = learnerId, en_institutionId = inst, en_academicSessionId = None,
      en_structureScopeId = None, en_studentNumber = sr_studentNumber row, en_level = sr_level row,
      en_programme = sr_programme row, en_entryDate = entryDate, en_exitDate = None, en_exitType = None,
      en_status = En_ACTIVE\<rparr>"

text \<open>The learner of a row: found by name and date of birth, or created with the next number.\<close>

definition learnerFor :: "env \<Rightarrow> int \<Rightarrow> register_row \<Rightarrow> register_run \<Rightarrow> (learner \<times> register_run) res" where
  "learnerFor e entryDate row run =
     (case List.find (same_person row) (learners (rr_db run)) of
        Some l \<Rightarrow> Inr (l, run\<lparr>rr_linkedLearners := rr_linkedLearners run + 1\<rparr>)
      | None \<Rightarrow>
          (let n = rr_sequence run + 1
           in bindE (createLearner e (formatAin ''NG'' (getUTCFullYear entryDate) n) row (rr_db run)) (\<lambda>(l, d).
              Inr (l, run\<lparr>rr_sequence := n, rr_createdLearners := rr_createdLearners run + 1, rr_db := d\<rparr>))))"

definition registerRow :: "env \<Rightarrow> string \<Rightarrow> int \<Rightarrow> register_row \<Rightarrow> register_run \<Rightarrow> register_run res" where
  "registerRow e inst entryDate row run =
     (case List.find (activeEnrolment inst (sr_studentNumber row)) (enrolments (rr_db run)) of
        Some x \<Rightarrow>
          Inr (run\<lparr>rr_existingEnrolments := rr_existingEnrolments run + 1,
                    rr_rows := rr_rows run @
                      [\<lparr>re_studentNumber = sr_studentNumber row,
                        re_ain = (case find_by le_uuid (en_learnerId x) (learners (rr_db run)) of
                                    None \<Rightarrow> [] | Some l \<Rightarrow> le_ain l),
                        re_status = ''already_enrolled''\<rparr>]\<rparr>)
      | None \<Rightarrow>
          bindE (learnerFor e entryDate row run) (\<lambda>(l, run).
          let d = rr_db run in
          bindE (saveEnrolments (enrolments d @ [registered (fresh e d) (le_uuid l) inst entryDate row]) (drawn d)) (\<lambda>d.
          Inr (run\<lparr>rr_createdEnrolments := rr_createdEnrolments run + 1, rr_db := d,
                    rr_rows := rr_rows run @
                      [\<lparr>re_studentNumber = sr_studentNumber row, re_ain = le_ain l, re_status = ''enrolled''\<rparr>]\<rparr>))))"

definition startRun :: "db \<Rightarrow> register_run" where
  "startRun d = \<lparr>rr_sequence = length (learners d), rr_createdLearners = 0, rr_linkedLearners = 0,
     rr_createdEnrolments = 0, rr_existingEnrolments = 0, rr_rows = [], rr_db = d\<rparr>"

text \<open>\<open>new Date(entryDate ?? today)\<close>\<close>

definition entryDateOf :: "env \<Rightarrow> string option \<Rightarrow> int" where
  "entryDateOf e entry = getOr (dateOf entry) (now e div 86400000 * 86400000)"

definition ingestStudents :: "env \<Rightarrow> db \<Rightarrow> auth_token \<Rightarrow> register_body option \<Rightarrow> (register_run \<times> db) res" where
  "ingestStudents e d auth body =
     bindE (safeParse ingestStudentRegister_ok body) (\<lambda>parsed.
     bindE (assertInstitutionCan e d (sg_institutionId parsed) ''ingest_students'' (Some auth)) (\<lambda>authority.
     bindE (foldE (registerRow e (ia_institutionUuid authority) (entryDateOf e (sg_entryDate parsed))) (sg_rows parsed)
       (startRun d)) (\<lambda>run.
     Inr (run, audit_write (governanceActor auth (audit_event_of ''ingest.students'' ''Institution''
           (ia_institutionUuid authority) (Some (ia_institutionUuid authority))
           (JObj [(''apiKeyId'', jstr (au_apiKeyId auth)), (''authorityGrantId'', JStr (ia_authorityGrantId authority)),
                  (''createdLearners'', jint (int (rr_createdLearners run))),
                  (''linkedLearners'', jint (int (rr_linkedLearners run))),
                  (''createdEnrolments'', jint (int (rr_createdEnrolments run))),
                  (''existingEnrolments'', jint (int (rr_existingEnrolments run)))])))
         (rr_db run)))))"

section \<open>AINs\<close>

lemma digits_are_digits: "set (digits n) \<subseteq> {c. is_digit c}"
proof (induction n rule: digits.induct)
  case (1 n)
  have "is_digit (char_of (48 + k :: nat))" if "k < 10" for k
    using that by (auto simp: is_digit_def)
  with 1 show ?case by (auto simp: digits.simps [of n])
qed

lemma dec_val_zeros: "dec_val (replicate k (CHR ''0'') @ s) = dec_val s"
  by (induction k) (simp_all add: dec_val_def)

lemma dec_val_padStart [simp]: "dec_val (padStart k (digits n)) = n"
  by (simp add: padStart_def dec_val_zeros)

lemma last_part: "CHR ''-'' \<notin> set s \<Longrightarrow> takeWhile (\<lambda>c. c \<noteq> CHR ''-'') (rev (p @ ''-'' @ s)) = rev s"
  by (simp add: takeWhile_append)

definition ain_number :: "string \<Rightarrow> nat" where
  "ain_number ain = dec_val (rev (takeWhile (\<lambda>c. c \<noteq> CHR ''-'') (rev ain)))"

text \<open>The number of a learner can be read back from the AIN.\<close>

lemma ain_number_formatAin: "ain_number (formatAin c y n) = n"
proof -
  have "CHR ''-'' \<notin> set (padStart 7 (digits n))"
    using digits_are_digits [of n] by (auto simp: padStart_def is_digit_def)
  from last_part [OF this, of "''AIN-'' @ toUpperCase (trim c) @ ''-'' @ show_int y"] show ?thesis
    by (simp add: ain_number_def formatAin_def)
qed

section \<open>One row\<close>

definition ains_ok :: "learner list \<Rightarrow> bool" where
  "ains_ok ls \<longleftrightarrow> distinct (map le_ain ls) \<and> (\<forall>l \<in> set ls. ain_number (le_ain l) \<le> length ls)"

abbreviation persons :: "learner list \<Rightarrow> (string \<times> int) list" where
  "persons ls \<equiv> map (\<lambda>l. (le_fullName l, le_dateOfBirth l)) ls"

definition run_ok :: "register_run \<Rightarrow> bool" where
  "run_ok run \<longleftrightarrow> rr_sequence run = length (learners (rr_db run)) \<and> ains_ok (learners (rr_db run)) \<and>
     enrolment_index (enrolments (rr_db run))"

text \<open>What every step of the run keeps: rows are only added, and a person is added once.\<close>

definition grows :: "db \<Rightarrow> db \<Rightarrow> bool" where
  "grows d d' \<longleftrightarrow> (\<exists>more. learners d' = learners d @ more) \<and> (\<exists>more. enrolments d' = enrolments d @ more) \<and>
     (distinct (persons (learners d)) \<longrightarrow> distinct (persons (learners d')))"

lemma grows_refl [simp]: "grows d d"
  by (auto simp: grows_def)

lemma grows_trans: "grows d1 d2 \<Longrightarrow> grows d2 d3 \<Longrightarrow> grows d1 d3"
  unfolding grows_def by (metis append.assoc)

lemma map_filter_ain: "List.map_filter ain_key ls = map le_ain ls"
  by (induction ls) (simp_all add: map_filter_simps ain_key_def)

lemma createLearner_total:
  assumes "ains_ok (learners d)" and "ain_number ain = length (learners d) + 1"
  shows "\<exists>d'. createLearner e ain row d = Inr (newLearner (fresh e d) ain row, d') \<and>
    learners d' = learners d @ [newLearner (fresh e d) ain row] \<and> enrolments d' = enrolments d \<and> ains_ok (learners d')"
proof -
  have "ain \<notin> le_ain ` set (learners d)" using assms by (auto simp: ains_ok_def)
  with assms show ?thesis
    by (fastforce simp: createLearner_def Let_def check_unique_def map_filter_ain newLearner_def ains_ok_def drawn_def)
qed

lemma learnerFor_total:
  assumes "run_ok run" and "is_date (sr_dateOfBirth row)"
  shows "\<exists>l run'. learnerFor e t row run = Inr (l, run') \<and> run_ok run' \<and> grows (rr_db run) (rr_db run') \<and>
    enrolments (rr_db run') = enrolments (rr_db run)"
proof (cases "List.find (same_person row) (learners (rr_db run))")
  case (Some l)
  with assms show ?thesis by (simp add: learnerFor_def run_ok_def)
next
  case None
  let ?d = "rr_db run" and ?ain = "formatAin ''NG'' (getUTCFullYear t) (rr_sequence run + 1)"
  obtain d' where d': "createLearner e ?ain row ?d = Inr (newLearner (fresh e ?d) ?ain row, d')"
    "learners d' = learners ?d @ [newLearner (fresh e ?d) ?ain row]" "enrolments d' = enrolments ?d" "ains_ok (learners d')"
    using createLearner_total [of ?d ?ain e row] assms(1) by (auto simp: run_ok_def ain_number_formatAin)
  have "(sr_fullName row, getOr (zod_date (sr_dateOfBirth row)) 0) \<notin> set (persons (learners ?d))"
    using None assms(2) by (auto simp: find_None_iff' same_person_def is_date_def)
  then have "grows ?d d'" using d' by (auto simp: grows_def newLearner_def)
  with None d' assms(1) show ?thesis by (simp add: learnerFor_def run_ok_def Let_def)
qed

lemma registerRow_total:
  assumes "run_ok run" and "is_date (sr_dateOfBirth row)"
  shows "\<exists>run'. registerRow e inst t row run = Inr run' \<and> run_ok run' \<and> grows (rr_db run) (rr_db run') \<and>
    length (rr_rows run') = length (rr_rows run) + 1 \<and>
    (\<exists>x \<in> set (enrolments (rr_db run')). activeEnrolment inst (sr_studentNumber row) x)"
proof (cases "List.find (activeEnrolment inst (sr_studentNumber row)) (enrolments (rr_db run))")
  case (Some x)
  with find_Some_in [OF Some] assms show ?thesis by (auto simp: registerRow_def run_ok_def)
next
  case None
  obtain l run1 where run1: "learnerFor e t row run = Inr (l, run1)" "run_ok run1" "grows (rr_db run) (rr_db run1)"
    "enrolments (rr_db run1) = enrolments (rr_db run)"
    using learnerFor_total [OF assms] by blast
  let ?x = "registered (fresh e (rr_db run1)) (le_uuid l) inst t row"
  have "enrolment_index (enrolments (rr_db run1) @ [?x])"
    using None run1(2,4) by (auto simp: run_ok_def find_None_iff' activeEnrolment_def registered_def)
  moreover have rows: "rr_rows run1 = rr_rows run"
    using run1(1) by (auto simp: learnerFor_def Let_def err_simps split: option.splits)
  ultimately show ?thesis using None run1
    by (auto simp: registerRow_def Let_def err_simps saveEnrolments_def check_unique_def map_filter_enrolment_key
        run_ok_def grows_def drawn_def activeEnrolment_def registered_def)
qed

lemma registerRows_total:
  assumes "run_ok run" and "\<forall>row \<in> set rows. is_date (sr_dateOfBirth row)"
  shows "\<exists>run'. foldE (registerRow e inst t) rows run = Inr run' \<and> run_ok run' \<and> grows (rr_db run) (rr_db run') \<and>
    length (rr_rows run') = length (rr_rows run) + length rows \<and>
    (\<forall>row \<in> set rows. \<exists>x \<in> set (enrolments (rr_db run')). activeEnrolment inst (sr_studentNumber row) x)"
  using assms
proof (induction rows arbitrary: run)
  case Nil
  then show ?case by simp
next
  case (Cons row rows)
  from registerRow_total [OF Cons.prems(1)] Cons.prems(2) obtain run1 where run1:
    "registerRow e inst t row run = Inr run1" "run_ok run1" "grows (rr_db run) (rr_db run1)"
    "length (rr_rows run1) = length (rr_rows run) + 1"
    "\<exists>x \<in> set (enrolments (rr_db run1)). activeEnrolment inst (sr_studentNumber row) x"
    by fastforce
  from Cons.IH [OF run1(2)] Cons.prems(2) obtain run2 where run2:
    "foldE (registerRow e inst t) rows run1 = Inr run2" "run_ok run2" "grows (rr_db run1) (rr_db run2)"
    "length (rr_rows run2) = length (rr_rows run1) + length rows"
    "\<forall>row \<in> set rows. \<exists>x \<in> set (enrolments (rr_db run2)). activeEnrolment inst (sr_studentNumber row) x"
    by auto
  have "set (enrolments (rr_db run1)) \<subseteq> set (enrolments (rr_db run2))" using run2(3) by (auto simp: grows_def)
  with run1 run2 grows_trans [OF run1(3) run2(3)] show ?case by auto
qed

section \<open>The whole register\<close>

text \<open>C25. A register that passes the schema and the authority check is taken over completely: no unique index
  stands in its way, every row ends up with exactly one active enrolment of its student number at the
  institution, the rows that were there stay, AINs remain unique with numbers up to the count of learners, and
  no name and date of birth is given to two learners.\<close>

theorem register_enrols_everyone:
  assumes "ingestStudentRegister_ok b" and "assertInstitutionCan e d (sg_institutionId b) ''ingest_students'' (Some auth) = Inr a"
    and "ains_ok (learners d)" and "enrolment_index (enrolments d)" and "distinct (persons (learners d))"
  shows "\<exists>run d'. ingestStudents e d auth (Some b) = Inr (run, d') \<and> length (rr_rows run) = length (sg_rows b) \<and>
    (\<forall>row \<in> set (sg_rows b). \<exists>!x. x \<in> set (enrolments d') \<and>
       activeEnrolment (ia_institutionUuid a) (sr_studentNumber row) x) \<and>
    (\<exists>more. enrolments d' = enrolments d @ more) \<and> (\<exists>more. learners d' = learners d @ more) \<and>
    ains_ok (learners d') \<and> enrolment_index (enrolments d') \<and> distinct (persons (learners d'))"
proof -
  let ?inst = "ia_institutionUuid a" and ?t = "entryDateOf e (sg_entryDate b)"
  have "run_ok (startRun d)" using assms(3,4) by (simp add: run_ok_def startRun_def)
  moreover have "\<forall>row \<in> set (sg_rows b). is_date (sr_dateOfBirth row)"
    using assms(1) by (auto simp: ingestStudentRegister_ok_def studentRegisterRow_ok_def list_all_iff)
  ultimately obtain run where run: "foldE (registerRow e ?inst ?t) (sg_rows b) (startRun d) = Inr run" "run_ok run"
    "grows d (rr_db run)" "length (rr_rows run) = length (sg_rows b)"
    "\<forall>row \<in> set (sg_rows b). \<exists>x \<in> set (enrolments (rr_db run)). activeEnrolment ?inst (sr_studentNumber row) x"
    using registerRows_total [of "startRun d" "sg_rows b" e ?inst ?t] by (auto simp: startRun_def)
  have index: "enrolment_index (enrolments (rr_db run))" using run(2) by (simp add: run_ok_def)
  have once: "x = y" if "x \<in> set (enrolments (rr_db run))" "y \<in> set (enrolments (rr_db run))"
    "activeEnrolment ?inst n x" "activeEnrolment ?inst n y" for x y n
    using index_eq [OF index that(1,2)] that(3,4) by (simp add: activeEnrolment_def)
  have everyone: "\<exists>!x. x \<in> set (enrolments (rr_db run)) \<and> activeEnrolment ?inst (sr_studentNumber row) x"
    if "row \<in> set (sg_rows b)" for row
    using run(5) that once by blast
  obtain d' where d': "ingestStudents e d auth (Some b) = Inr (run, d')" "learners d' = learners (rr_db run)"
    "enrolments d' = enrolments (rr_db run)"
    using assms(1,2) run(1) by (simp add: ingestStudents_def safeParse_def)
  with run(2-4) everyone assms(5) show ?thesis by (auto simp: run_ok_def grows_def)
qed

section \<open>Witness\<close>

definition two_pupils :: register_body where
  "two_pupils = \<lparr>sg_institutionId = ''ACD-1'', sg_entryDate = Some ''2024-09-01'', sg_rows =
     [\<lparr>sr_fullName = ''Ada'', sr_dateOfBirth = ''1970-01-01'', sr_studentNumber = ''007'', sr_level = ''JSS1'',
       sr_programme = ''Junior'', sr_phone = None\<rparr>,
      \<lparr>sr_fullName = ''Bola'', sr_dateOfBirth = ''2012-02-29'', sr_studentNumber = ''008'', sr_level = ''JSS1'',
       sr_programme = ''Junior'', sr_phone = None\<rparr>]\<rparr>"

theorem register_enrols_everyone_witness:
  "case ingestStudents sample_env sample_db founder (Some two_pupils) of
     Inl _ \<Rightarrow> False
   | Inr (run, d') \<Rightarrow> length (rr_rows run) = 2 \<and> ains_ok (learners d') \<and> distinct (persons (learners d')) \<and>
       (\<exists>!x. x \<in> set (enrolments d') \<and> activeEnrolment school ''008'' x)"
proof -
  have ok: "ingestStudentRegister_ok two_pupils" by code_simp
  have can: "assertInstitutionCan sample_env sample_db (sg_institutionId two_pupils) ''ingest_students'' (Some founder) =
      Inr \<lparr>ia_institutionUuid = school, ia_institutionId = ''ACD-1'', ia_authorityGrantId = ''g1''\<rparr>"
    by code_simp
  have ains: "ains_ok (learners sample_db)" by code_simp
  have rows: "enrolment_index (enrolments sample_db) \<and> distinct (persons (learners sample_db))" by code_simp
  obtain run d' where run: "ingestStudents sample_env sample_db founder (Some two_pupils) = Inr (run, d')"
    and "length (rr_rows run) = length (sg_rows two_pupils)" "ains_ok (learners d')" "distinct (persons (learners d'))"
    and each: "\<forall>row \<in> set (sg_rows two_pupils). \<exists>!x. x \<in> set (enrolments d') \<and> activeEnrolment school (sr_studentNumber row) x"
    using register_enrols_everyone [OF ok can ains rows [THEN conjunct1] rows [THEN conjunct2]] by auto
  moreover have "\<exists>!x. x \<in> set (enrolments d') \<and> activeEnrolment school ''008'' x"
    using each by (simp add: two_pupils_def)
  moreover have "length (sg_rows two_pupils) = 2" by (simp add: two_pupils_def)
  ultimately show ?thesis by simp
qed

end
