(* ===== verification/Grading.thy ===== *)
theory Grading
  imports AcademicSetup
begin

text \<open>
  The grading of result rows in \<open>gateway/ingestion/ingestion.service.ts\<close>: the grading rule that applies to an
  upload, the band of a score, and the grades, warnings and grade point average of a batch. Scores, points and
  credit units are exact rationals where the code computes with doubles.
\<close>

section \<open>Rules\<close>

datatype rule_source = CONFIGURED | DEFAULT_FALLBACK

fun source_text :: "rule_source \<Rightarrow> string" where
  "source_text CONFIGURED = ''CONFIGURED''"
| "source_text DEFAULT_FALLBACK = ''DEFAULT_FALLBACK''"

record resolved_rule =
  rv_uuid :: "string option"
  rv_name :: string
  rv_engine :: grading_engine
  rv_source :: rule_source
  rv_scale :: "scale_band list"
  rv_passMark :: "rat option"
  rv_maxScore :: rat
  rv_gradePointMax :: "rat option"

definition default_band :: "grading_engine \<Rightarrow> rat \<Rightarrow> rat \<Rightarrow> string \<Rightarrow> rat \<Rightarrow> bool \<Rightarrow> scale_band" where
  "default_band engine lo hi grade point pass =
     \<lparr>bd_minScore = lo, bd_maxScore = hi, bd_grade = grade, bd_remark = None,
      bd_gradePoint = (if engine = TERTIARY_GPA then Some point else None), bd_pass = Some pass\<rparr>"

definition baseScale :: "grading_engine \<Rightarrow> scale_band list" where
  "baseScale engine =
     [default_band engine 70 100 ''A'' 5 True, default_band engine 60 (6999 / 100) ''B'' 4 True,
      default_band engine 50 (5999 / 100) ''C'' 3 True, default_band engine 45 (4999 / 100) ''D'' 2 True,
      default_band engine 40 (4499 / 100) ''E'' 1 True, default_band engine 0 (3999 / 100) ''F'' 0 False]"

definition defaultGradingRule :: "grading_engine \<Rightarrow> resolved_rule" where
  "defaultGradingRule engine =
     \<lparr>rv_uuid = None,
      rv_name = (if engine = TERTIARY_GPA then ''AcadID MVP 5-point GPA fallback''
                 else ''AcadID MVP primary/secondary fallback''),
      rv_engine = engine, rv_source = DEFAULT_FALLBACK, rv_scale = baseScale engine, rv_passMark = Some 40,
      rv_maxScore = 100, rv_gradePointMax = (if engine = TERTIARY_GPA then Some 5 else None)\<rparr>"

definition configuredRule :: "grading_rule_set \<Rightarrow> resolved_rule res" where
  "configuredRule g =
     bindE (normalizeScale (gr_scale g) (gr_maxScore g)) (\<lambda>scale.
     Inr \<lparr>rv_uuid = Some (gr_uuid g), rv_name = gr_name g, rv_engine = gr_engine g, rv_source = CONFIGURED,
          rv_scale = scale, rv_passMark = gr_passMark g, rv_maxScore = gr_maxScore g,
          rv_gradePointMax = gr_gradePointMax g\<rparr>)"

definition expectedEngine :: "upload_mode \<Rightarrow> grading_engine" where
  "expectedEngine mode = (if mode = COURSE_BASED then TERTIARY_GPA else PRIMARY_SECONDARY)"

text \<open>\<open>orderBy: [{ effectiveFrom: "desc" }, { updatedAt: "desc" }]\<close>; PostgreSQL puts nulls first.\<close>

definition latestRules :: "grading_rule_set list \<Rightarrow> grading_rule_set list" where
  "latestRules gs =
     sort_key (\<lambda>g. if gr_effectiveFrom g = None then 0 else (1 :: nat))
       (sort_key (\<lambda>g. - getOr (gr_effectiveFrom g) 0) (sort_key (\<lambda>g. - gr_updatedAt g) gs))"

definition resolveGradingRule :: "db \<Rightarrow> string \<Rightarrow> upload_mode \<Rightarrow> string option \<Rightarrow> resolved_rule res" where
  "resolveGradingRule d inst mode gradingRuleSetId =
     (if truthy_text gradingRuleSetId
      then
        let bad = BadRequest ''Active grading rule set must belong to the institution.''
        in bindE (require (find_by gr_uuid (getOr gradingRuleSetId []) (gradingRuleSets d)) bad) (\<lambda>g.
           bindE (failIf (gr_institutionId g \<noteq> inst \<or> gr_status g = Rule_ARCHIVED) bad) (\<lambda>_. configuredRule g))
      else
        case latestRules (filter (\<lambda>g. gr_institutionId g = inst \<and> gr_engine g = expectedEngine mode \<and>
               gr_status g = Rule_ACTIVE) (gradingRuleSets d)) of
          [] \<Rightarrow> Inr (defaultGradingRule (expectedEngine mode))
        | g # _ \<Rightarrow> configuredRule g)"

section \<open>Rows\<close>

record result_row =
  rw_studentNumber :: string
  rw_periodType :: period_type
  rw_periodLabel :: string
  rw_subjectCode :: string
  rw_subjectName :: string
  rw_caScore :: "rat option"
  rw_examScore :: "rat option"
  rw_totalScore :: rat
  rw_grade :: "string option"
  rw_creditUnits :: "rat option"

definition resultRow_ok :: "result_row \<Rightarrow> bool" where
  "resultRow_ok r \<longleftrightarrow>
     rw_studentNumber r \<noteq> [] \<and> rw_periodLabel r \<noteq> [] \<and> rw_subjectCode r \<noteq> [] \<and> rw_subjectName r \<noteq> [] \<and>
     opt_ok (\<lambda>x. 0 \<le> x) (rw_caScore r) \<and> opt_ok (\<lambda>x. 0 \<le> x) (rw_examScore r) \<and> 0 \<le> rw_totalScore r \<and>
     opt_ok (\<lambda>g. g \<noteq> []) (rw_grade r) \<and> opt_ok (\<lambda>c. 0 \<le> c \<and> c \<le> 60) (rw_creditUnits r)"

definition findBand :: "rat \<Rightarrow> scale_band list \<Rightarrow> scale_band option" where
  "findBand totalScore scale = List.find (\<lambda>b. bd_minScore b \<le> totalScore \<and> totalScore \<le> bd_maxScore b) scale"

record graded_row =
  gw_row :: result_row
  gw_grade :: string
  gw_gradePoint :: "rat option"
  gw_creditUnits :: "rat option"
  gw_qualityPoints :: "rat option"

text \<open>The local variables of \<open>gradeRows\<close>.\<close>

record grading =
  gd_rows :: "graded_row list"
  gd_warnings :: "jval list"
  gd_attempted :: rat
  gd_earned :: rat
  gd_quality :: rat

definition both :: "('a \<Rightarrow> 'b \<Rightarrow> 'c) \<Rightarrow> 'a option \<Rightarrow> 'b option \<Rightarrow> 'c option" where
  "both f x y = (case x of None \<Rightarrow> None | Some a \<Rightarrow> map_option (f a) y)"

definition gradedRow :: "result_row \<Rightarrow> scale_band \<Rightarrow> graded_row" where
  "gradedRow row band =
     \<lparr>gw_row = row, gw_grade = bd_grade band, gw_gradePoint = bd_gradePoint band, gw_creditUnits = rw_creditUnits row,
      gw_qualityPoints = both (\<lambda>c p. round_to (c * p) 4) (rw_creditUnits row) (bd_gradePoint band)\<rparr>"

definition aboveMax :: "nat \<Rightarrow> result_row \<Rightarrow> resolved_rule \<Rightarrow> jval list" where
  "aboveMax index row rule =
     (if rw_totalScore row > rv_maxScore rule
      then [JObj [(''row'', jint (int index + 1)), (''studentNumber'', JStr (rw_studentNumber row)),
                  (''code'', JStr ''SCORE_ABOVE_MAX''),
                  (''message'', JStr (''Total score '' @ num_text (Fin (rw_totalScore row)) @
                     '' is above grading max score '' @ num_text (Fin (rv_maxScore rule)) @ ''.''))]]
      else [])"

definition same_grade :: "string \<Rightarrow> string \<Rightarrow> bool" where
  "same_grade g h \<longleftrightarrow> toUpperCase (trim g) = toUpperCase (trim h)"

definition overridden :: "nat \<Rightarrow> result_row \<Rightarrow> scale_band \<Rightarrow> jval list" where
  "overridden index row band =
     (if truthy_text (rw_grade row) \<and> \<not> same_grade (getOr (rw_grade row) []) (bd_grade band)
      then [JObj [(''row'', jint (int index + 1)), (''studentNumber'', JStr (rw_studentNumber row)),
                  (''code'', JStr ''UPLOADED_GRADE_OVERRIDDEN''), (''uploadedGrade'', JStr (getOr (rw_grade row) [])),
                  (''computedGrade'', JStr (bd_grade band))]]
      else [])"

definition counts_units :: "resolved_rule \<Rightarrow> graded_row \<Rightarrow> bool" where
  "counts_units rule g \<longleftrightarrow> rv_engine rule = TERTIARY_GPA \<and> gw_creditUnits g \<noteq> None \<and> gw_gradePoint g \<noteq> None"

definition passes :: "resolved_rule \<Rightarrow> result_row \<Rightarrow> scale_band \<Rightarrow> bool" where
  "passes rule row band = getOr (bd_pass band) (getOr (rv_passMark rule) 0 \<le> rw_totalScore row)"

definition gradeRow :: "resolved_rule \<Rightarrow> nat \<times> result_row \<Rightarrow> grading \<Rightarrow> grading res" where
  "gradeRow rule ir st =
     (let (index, row) = ir in
      bindE (require (findBand (rw_totalScore row) (rv_scale rule))
        (BadRequest ''Result score does not match any configured grading band.'')) (\<lambda>band.
      let g = gradedRow row band;
          units = getOr (gw_creditUnits g) 0
      in Inr (st\<lparr>gd_rows := gd_rows st @ [g],
                 gd_warnings := gd_warnings st @ aboveMax index row rule @ overridden index row band,
                 gd_attempted := gd_attempted st + (if counts_units rule g then units else 0),
                 gd_quality := gd_quality st + (if counts_units rule g then getOr (gw_qualityPoints g) 0 else 0),
                 gd_earned := gd_earned st + (if counts_units rule g \<and> passes rule row band then units else 0)\<rparr>)))"

definition fallbackUsed :: "resolved_rule \<Rightarrow> jval list" where
  "fallbackUsed rule =
     (if rv_source rule = DEFAULT_FALLBACK
      then [JObj [(''code'', JStr ''DEFAULT_GRADING_RULE_USED''),
                  (''message'', JStr ''No active configured grading rule set was found, so AcadID used the MVP fallback scale.'')]]
      else [])"

definition gpaOf :: "grading \<Rightarrow> rat option" where
  "gpaOf st = (if gd_attempted st > 0 then Some (round_to (gd_quality st / gd_attempted st) 4) else None)"

definition gradeRows :: "result_row list \<Rightarrow> resolved_rule \<Rightarrow> grading res" where
  "gradeRows rows rule =
     bindE (foldE (gradeRow rule) (enumerate 0 rows)
       \<lparr>gd_rows = [], gd_warnings = [], gd_attempted = 0, gd_earned = 0, gd_quality = 0\<rparr>) (\<lambda>st.
     Inr (st\<lparr>gd_warnings := gd_warnings st @ fallbackUsed rule\<rparr>))"

definition jrat_or_null :: "rat option \<Rightarrow> jval" where
  "jrat_or_null x = (case x of None \<Rightarrow> JNull | Some r \<Rightarrow> jrat r)"

definition gradingSummary :: "resolved_rule \<Rightarrow> grading \<Rightarrow> jval" where
  "gradingSummary rule st =
     JObj [(''ruleSetId'', jnull (rv_uuid rule)), (''ruleSetName'', JStr (rv_name rule)),
           (''source'', JStr (source_text (rv_source rule))), (''engine'', JStr (engine_text (rv_engine rule))),
           (''maxScore'', jrat (rv_maxScore rule)), (''gradePointMax'', jrat_or_null (rv_gradePointMax rule)),
           (''attemptedCreditUnits'', jrat (gd_attempted st)), (''earnedCreditUnits'', jrat (gd_earned st)),
           (''qualityPoints'', jrat (round_to (gd_quality st) 4)), (''gpa'', jrat_or_null (gpaOf st))]"

section \<open>The band of a score\<close>

definition in_band :: "rat \<Rightarrow> scale_band \<Rightarrow> bool" where
  "in_band t b \<longleftrightarrow> bd_minScore b \<le> t \<and> t \<le> bd_maxScore b"

lemma find_first_sorted:
  fixes f :: "'a \<Rightarrow> 'k::linorder"
  assumes "sorted (map f xs)" and "List.find P xs = Some x" and "y \<in> set xs" and "P y"
  shows "f x \<le> f y"
  using assms by (induction xs) (auto split: if_splits dest: find_Some_in)

text \<open>A score gets the band with the highest lower end among the bands that hold it, however the bands of
  the scale were written down and also when they overlap; it gets none only when no band holds it.\<close>

theorem findBand_highest:
  "case findBand t (sort_scale bs) of
     None \<Rightarrow> \<forall>b \<in> set bs. \<not> in_band t b
   | Some b \<Rightarrow> b \<in> set bs \<and> in_band t b \<and> (\<forall>c \<in> set bs. in_band t c \<longrightarrow> bd_minScore c \<le> bd_minScore b)"
proof (cases "findBand t (sort_scale bs)")
  case None
  then have "\<forall>b \<in> set bs. \<not> in_band t b"
    unfolding findBand_def by (auto simp: find_None_iff' sort_scale_def in_band_def)
  with None show ?thesis by simp
next
  case (Some b)
  have "bd_minScore c \<le> bd_minScore b" if "c \<in> set bs" "in_band t c" for c
    using find_first_sorted [of "\<lambda>b. - bd_minScore b" "sort_scale bs" _ b c] Some that
    by (simp add: findBand_def sort_scale_def in_band_def)
  moreover have "b \<in> set bs \<and> in_band t b"
    using find_Some_in [OF Some [unfolded findBand_def]] by (simp add: sort_scale_def in_band_def)
  ultimately show ?thesis using Some by simp
qed

lemma findBand_in: "findBand t scale = Some b \<Longrightarrow> b \<in> set scale \<and> in_band t b"
  unfolding findBand_def in_band_def by (drule find_Some_in) simp

text \<open>The fallback scale has a band for every score from 0 to 100 with at most two decimals, and none for a
  score between two of its bands, such as 39.995, or above 100.\<close>

theorem default_scale_bands:
  "(\<forall>k. 0 \<le> k \<and> k \<le> 10000 \<longrightarrow> findBand (of_int k / 100) (baseScale engine) \<noteq> None) \<and>
   findBand (39995 / 1000) (baseScale engine) = None \<and> (\<forall>t > 100. findBand t (baseScale engine) = None)"
proof -
  have steps: "(of_int k / 100 :: rat) \<le> of_int j / 100 \<longleftrightarrow> k \<le> j" "(of_int j / 100 :: rat) \<le> of_int k / 100 \<longleftrightarrow> j \<le> k"
    for j k :: int by (simp_all add: divide_le_cancel)
  have "findBand (of_int k / 100) (baseScale engine) \<noteq> None" if "0 \<le> k" "k \<le> 10000" for k
    using that steps [of k 10000] steps [of k 7000] steps [of k 6999] steps [of k 6000] steps [of k 5999]
      steps [of k 5000] steps [of k 4999] steps [of k 4500] steps [of k 4499] steps [of k 4000] steps [of k 3999] steps [of k 0]
    by (simp add: findBand_def baseScale_def default_band_def)
  then show ?thesis by (auto simp: findBand_def baseScale_def default_band_def)
qed

section \<open>The totals of a batch\<close>

definition bandFor :: "resolved_rule \<Rightarrow> result_row \<Rightarrow> scale_band" where
  "bandFor rule row = (case findBand (rw_totalScore row) (rv_scale rule) of Some b \<Rightarrow> b | None \<Rightarrow> hd (rv_scale rule))"

definition gradedAs :: "resolved_rule \<Rightarrow> result_row \<Rightarrow> graded_row" where
  "gradedAs rule row = gradedRow row (bandFor rule row)"

definition units_of :: "resolved_rule \<Rightarrow> result_row \<Rightarrow> rat" where
  "units_of rule row = (if counts_units rule (gradedAs rule row) then getOr (rw_creditUnits row) 0 else 0)"

definition quality_of :: "resolved_rule \<Rightarrow> result_row \<Rightarrow> rat" where
  "quality_of rule row =
     (if counts_units rule (gradedAs rule row) then getOr (gw_qualityPoints (gradedAs rule row)) 0 else 0)"

definition earned_of :: "resolved_rule \<Rightarrow> result_row \<Rightarrow> rat" where
  "earned_of rule row = (if passes rule row (bandFor rule row) then units_of rule row else 0)"

lemma gradeRow_Inr:
  assumes "gradeRow rule (i, row) st = Inr st'"
  shows "findBand (rw_totalScore row) (rv_scale rule) = Some (bandFor rule row) \<and>
    gd_rows st' = gd_rows st @ [gradedAs rule row] \<and>
    gd_warnings st' = gd_warnings st @ aboveMax i row rule @ overridden i row (bandFor rule row) \<and>
    gd_attempted st' = gd_attempted st + units_of rule row \<and> gd_quality st' = gd_quality st + quality_of rule row \<and>
    gd_earned st' = gd_earned st + earned_of rule row"
proof -
  obtain b where b: "findBand (rw_totalScore row) (rv_scale rule) = Some b"
    using assms by (auto simp: gradeRow_def err_simps)
  then have "bandFor rule row = b" by (simp add: bandFor_def)
  moreover have "gw_creditUnits (gradedRow row b) = rw_creditUnits row" by (simp add: gradedRow_def)
  ultimately show ?thesis using assms b
    by (auto simp: gradeRow_def Let_def gradedAs_def units_of_def quality_of_def earned_of_def)
qed

lemma gradeRows_fold:
  assumes "foldE (gradeRow rule) (enumerate n rows) st = Inr st'"
  shows "(\<forall>row \<in> set rows. findBand (rw_totalScore row) (rv_scale rule) = Some (bandFor rule row)) \<and>
    gd_rows st' = gd_rows st @ map (gradedAs rule) rows \<and>
    gd_warnings st' = gd_warnings st @
      concat (map (\<lambda>(i, row). aboveMax i row rule @ overridden i row (bandFor rule row)) (enumerate n rows)) \<and>
    gd_attempted st' = gd_attempted st + sum_list (map (units_of rule) rows) \<and>
    gd_quality st' = gd_quality st + sum_list (map (quality_of rule) rows) \<and>
    gd_earned st' = gd_earned st + sum_list (map (earned_of rule) rows)"
  using assms
proof (induction rows arbitrary: n st)
  case Nil
  then show ?case by simp
next
  case (Cons row rows)
  from Cons.prems obtain st1 where st1: "gradeRow rule (n, row) st = Inr st1"
    and rest: "foldE (gradeRow rule) (enumerate (Suc n) rows) st1 = Inr st'" by (auto simp: err_simps)
  from Cons.IH [OF rest] gradeRow_Inr [OF st1] show ?case by auto
qed

lemma gradeRows_Inr:
  assumes "gradeRows rows rule = Inr st"
  shows "(\<forall>row \<in> set rows. findBand (rw_totalScore row) (rv_scale rule) = Some (bandFor rule row)) \<and>
    gd_rows st = map (gradedAs rule) rows \<and>
    gd_warnings st = concat (map (\<lambda>(i, row). aboveMax i row rule @ overridden i row (bandFor rule row)) (enumerate 0 rows)) @
      fallbackUsed rule \<and>
    gd_attempted st = sum_list (map (units_of rule) rows) \<and> gd_quality st = sum_list (map (quality_of rule) rows) \<and>
    gd_earned st = sum_list (map (earned_of rule) rows)"
  using assms gradeRows_fold [of rule 0 rows] by (fastforce simp: gradeRows_def err_simps)

text \<open>C27. With whole credit units and a scale whose points lie between 0 and \<open>m\<close>, the grade point average of a
  batch lies between 0 and \<open>m\<close>, and the credit units earned lie between 0 and those attempted.\<close>

theorem gpa_in_scale:
  assumes "gradeRows rows rule = Inr st"
    and units: "\<forall>row \<in> set rows. 0 \<le> getOr (rw_creditUnits row) 0 \<and> getOr (rw_creditUnits row) 0 \<in> \<int>"
    and points: "\<forall>b \<in> set (rv_scale rule). 0 \<le> getOr (bd_gradePoint b) 0 \<and> getOr (bd_gradePoint b) 0 \<le> of_int m"
  shows "0 \<le> gd_earned st \<and> gd_earned st \<le> gd_attempted st \<and>
    (case gpaOf st of None \<Rightarrow> gd_attempted st = 0 | Some g \<Rightarrow> 0 \<le> g \<and> g \<le> of_int m)"
proof -
  note st = gradeRows_Inr [OF assms(1)]
  have quality: "0 \<le> quality_of rule row \<and> quality_of rule row \<le> of_int m * units_of rule row" if "row \<in> set rows" for row
  proof (cases "counts_units rule (gradedAs rule row)")
    case True
    let ?b = "bandFor rule row"
    obtain c p where c: "rw_creditUnits row = Some c" and p: "bd_gradePoint ?b = Some p"
      using True by (auto simp: counts_units_def gradedAs_def gradedRow_def)
    have "?b \<in> set (rv_scale rule)" using st that findBand_in by blast
    with points p have p': "0 \<le> p" "p \<le> of_int m" by fastforce+
    from units that c have c': "0 \<le> c" "c \<in> \<int>" by fastforce+
    then obtain k where k: "c = of_int k" by (auto elim: Ints_cases)
    have "c * p \<le> of_int m * c" using mult_right_mono [OF p'(2) c'(1)] by (simp add: mult.commute)
    then have "round_to (c * p) 4 \<le> of_int m * c" using round_to_le_int [of "c * p" "m * k" 4] k by simp
    moreover have "0 \<le> round_to (c * p) 4" using p'(1) c'(1) by (intro round_to_nonneg) simp
    moreover have "quality_of rule row = round_to (c * p) 4" "units_of rule row = c"
      using True c p by (simp_all add: quality_of_def units_of_def gradedAs_def gradedRow_def both_def)
    ultimately show ?thesis by simp
  qed (simp add: quality_of_def units_of_def)
  have unit: "0 \<le> units_of rule row" if "row \<in> set rows" for row using units that by (simp add: units_of_def)
  have "sum_list (map (earned_of rule) rows) \<le> sum_list (map (units_of rule) rows)"
    by (rule sum_list_le) (simp add: earned_of_def unit)
  moreover have "sum_list (map (\<lambda>_. 0) rows) \<le> sum_list (map (earned_of rule) rows)"
    by (rule sum_list_le) (simp add: earned_of_def unit)
  moreover have "sum_list (map (\<lambda>_. 0) rows) \<le> sum_list (map (quality_of rule) rows)"
    by (rule sum_list_le) (simp add: quality)
  moreover have "sum_list (map (quality_of rule) rows) \<le> sum_list (map (\<lambda>row. of_int m * units_of rule row) rows)"
    by (rule sum_list_le) (simp add: quality)
  ultimately have "0 \<le> gd_earned st" "gd_earned st \<le> gd_attempted st" "0 \<le> gd_quality st"
    "gd_quality st \<le> of_int m * gd_attempted st"
    using st by (simp_all add: sum_list_const_mult)
  moreover from this have "gd_quality st / gd_attempted st \<le> of_int m" if "0 < gd_attempted st"
    using that by (simp add: divide_le_eq)
  ultimately show ?thesis
    by (auto simp: gpaOf_def intro: round_to_le_int round_to_nonneg)
qed

text \<open>The warning about a score above the maximum is never given under a rule whose bands end at its
  maximum, as those do that leave their upper end out: such a score has no band and the batch is refused.\<close>

theorem score_above_max_refused:
  assumes "\<forall>b \<in> set (rv_scale rule). bd_maxScore b \<le> rv_maxScore rule" and "row \<in> set rows"
    and "rw_totalScore row > rv_maxScore rule"
  shows "\<exists>err. gradeRows rows rule = Inl err"
proof (cases "gradeRows rows rule")
  case (Inr st)
  with gradeRows_Inr assms(2) have "findBand (rw_totalScore row) (rv_scale rule) = Some (bandFor rule row)" by blast
  from findBand_in [OF this] assms(1,3) show ?thesis by (force simp: in_band_def)
qed simp

section \<open>Witnesses\<close>

definition course :: "rat \<Rightarrow> result_row" where
  "course t = \<lparr>rw_studentNumber = ''007'', rw_periodType = Period_SEMESTER, rw_periodLabel = ''First Semester'',
     rw_subjectCode = ''MTH'', rw_subjectName = ''Mathematics'', rw_caScore = None, rw_examScore = None,
     rw_totalScore = t, rw_grade = Some '' a '', rw_creditUnits = Some 3\<rparr>"

lemma courses_graded:
  "case gradeRows [course 72, course 30] (defaultGradingRule TERTIARY_GPA) of
     Inl _ \<Rightarrow> False | Inr st \<Rightarrow> map gw_grade (gd_rows st) = [''A'', ''F''] \<and> gpaOf st = Some (5 / 2) \<and>
       gd_earned st = 3 \<and> gd_attempted st = 6 \<and> length (gd_warnings st) = 2"
  by code_simp

theorem gpa_in_scale_witness:
  "case gradeRows [course 72, course 30] (defaultGradingRule TERTIARY_GPA) of
     Inl _ \<Rightarrow> False | Inr st \<Rightarrow> gd_earned st \<le> gd_attempted st \<and> (case gpaOf st of None \<Rightarrow> False | Some g \<Rightarrow> g \<le> 5)"
proof -
  obtain st where run: "gradeRows [course 72, course 30] (defaultGradingRule TERTIARY_GPA) = Inr st"
    and g: "gpaOf st = Some (5 / 2)"
    using courses_graded by (auto split: sum.splits)
  have rows: "\<forall>row \<in> set [course 72, course 30]. 0 \<le> getOr (rw_creditUnits row) 0 \<and> getOr (rw_creditUnits row) 0 \<in> \<int>"
    by (simp add: course_def)
  have "\<forall>b \<in> set (rv_scale (defaultGradingRule TERTIARY_GPA)). 0 \<le> getOr (bd_gradePoint b) 0 \<and>
      getOr (bd_gradePoint b) 0 \<le> of_int 5"
    by (simp add: defaultGradingRule_def baseScale_def default_band_def)
  from gpa_in_scale [OF run rows this] show ?thesis by (simp add: run g)
qed

theorem score_above_max_refused_witness:
  "\<exists>err. gradeRows [course 101] (defaultGradingRule PRIMARY_SECONDARY) = Inl err"
  by (rule score_above_max_refused [of _ "course 101"])
    (simp_all add: defaultGradingRule_def baseScale_def default_band_def course_def)

end
