(* ===== verification/Ingestion.thy ===== *)
theory Ingestion
  imports Grading Queue
begin

text \<open>
  The result batches of \<open>gateway/ingestion/ingestion.service.ts\<close>: \<open>ingestResults\<close>, which grades the rows and stores
  a draft batch with its records, the jobs for batches and registers that are worked off later, and the reads.
\<close>

section \<open>The body\<close>

record results_body =
  ib_institutionId :: string
  ib_createdById :: "string option"
  ib_title :: string
  ib_academicSessionId :: "string option"
  ib_structureScopeId :: "string option"
  ib_gradingRuleSetId :: "string option"
  ib_uploadMode :: "upload_mode option"
  ib_batchLabel :: "string option"
  ib_rows :: "result_row list"

definition ingestResultBatch_ok :: "env \<Rightarrow> results_body \<Rightarrow> bool" where
  "ingestResultBatch_ok e b \<longleftrightarrow>
     ib_institutionId b \<noteq> [] \<and> opt_ok (zod_uuid e) (ib_createdById b) \<and> 2 \<le> length (ib_title b) \<and>
     opt_ok (zod_uuid e) (ib_academicSessionId b) \<and> opt_ok (zod_uuid e) (ib_structureScopeId b) \<and>
     opt_ok (zod_uuid e) (ib_gradingRuleSetId b) \<and> opt_ok (len_in 2 160) (ib_batchLabel b) \<and>
     1 \<le> length (ib_rows b) \<and> length (ib_rows b) \<le> 1000 \<and> list_all resultRow_ok (ib_rows b)"

definition modeOf :: "results_body \<Rightarrow> upload_mode" where
  "modeOf b = getOr (ib_uploadMode b) MASTER_SHEET"

fun upload_text :: "upload_mode \<Rightarrow> string" where
  "upload_text SUBJECT_BY_SUBJECT = ''SUBJECT_BY_SUBJECT''"
| "upload_text MASTER_SHEET = ''MASTER_SHEET''"
| "upload_text COURSE_BASED = ''COURSE_BASED''"
| "upload_text MANUAL_ENTRY = ''MANUAL_ENTRY''"

section \<open>Ingesting results\<close>

definition assertBatchScopeBelongsToInstitution :: "db \<Rightarrow> string \<Rightarrow> string option \<Rightarrow> string option \<Rightarrow> unit res" where
  "assertBatchScopeBelongsToInstitution d inst sessionId structureId =
     bindE (failIf (\<not> given sessionId (usable_session d inst))
       (BadRequest ''Academic session must belong to the institution and must not be sealed.'')) (\<lambda>_.
     failIf (\<not> given structureId (usable_structure d inst))
       (BadRequest ''Academic structure scope must be active and belong to the institution.''))"

definition batchTarget :: "results_body \<Rightarrow> scope_target" where
  "batchTarget b =
     (let row = hd (ib_rows b)
      in [(''upload_mode'', Some (upload_text (modeOf b))), (''period_type'', Some (period_type_text (rw_periodType row))),
          (''period_label'', Some (rw_periodLabel row)), (''subject'', Some (rw_subjectName row)),
          (''subject_code'', Some (rw_subjectCode row))])"

text \<open>\<open>new Map(enrolments.map(...))\<close>: the last active enrolment of a number counts.\<close>

definition enrolmentOf :: "db \<Rightarrow> string \<Rightarrow> string \<Rightarrow> enrolment option" where
  "enrolmentOf d inst number =
     List.find (\<lambda>x. en_institutionId x = inst \<and> en_studentNumber x = number \<and> en_status x = En_ACTIVE) (rev (enrolments d))"

definition newBatch :: "auth_token \<Rightarrow> string \<Rightarrow> string \<Rightarrow> results_body \<Rightarrow> resolved_rule \<Rightarrow> grading \<Rightarrow> result_batch" where
  "newBatch auth uuid inst b rule st =
     \<lparr>rb_uuid = uuid, rb_institutionId = inst, rb_status = Rec_DRAFT, rb_rejectionCount = 0, rb_submittedAt = None,
      rb_reviewedAt = None, rb_approvedAt = None, rb_publishedAt = None,
      rb_academicSessionId = ib_academicSessionId b, rb_structureScopeId = ib_structureScopeId b,
      rb_gradingRuleSetId = rv_uuid rule, rb_uploadMode = modeOf b, rb_title = ib_title b,
      rb_batchLabel = ib_batchLabel b, rb_createdById = getOr (ib_createdById b) (au_sub auth),
      rb_createdByInstitutionUserId = (if au_kind auth = Some API_KEY then None else au_institutionUserId auth),
      rb_recordCount = length (ib_rows b),
      rb_validationSummary = JObj [(''acceptedRows'', jint (int (length (ib_rows b)))), (''rejectedRows'', jint 0),
        (''warnings'', JArr (gd_warnings st)), (''grading'', gradingSummary rule st)]\<rparr>"

definition newRecord :: "env \<Rightarrow> db \<Rightarrow> string \<Rightarrow> string \<Rightarrow> results_body \<Rightarrow> resolved_rule \<Rightarrow> nat \<times> graded_row \<Rightarrow> academic_record" where
  "newRecord e d inst batchId b rule ig =
     (let (n, g) = ig; row = gw_row g
      in \<lparr>ar_uuid = gen e n,
          ar_enrolmentId = (case enrolmentOf d inst (rw_studentNumber row) of None \<Rightarrow> [] | Some x \<Rightarrow> en_uuid x),
          ar_resultBatchId = Some batchId, ar_academicSessionId = ib_academicSessionId b,
          ar_gradingRuleSetId = rv_uuid rule, ar_periodLabel = rw_periodLabel row,
          ar_subjectCode = rw_subjectCode row, ar_subjectName = rw_subjectName row,
          ar_totalScore = rw_totalScore row, ar_grade = gw_grade g, ar_gradePoint = gw_gradePoint g,
          ar_creditUnits = gw_creditUnits g, ar_qualityPoints = gw_qualityPoints g, ar_status = Rec_DRAFT,
          ar_publishedAt = None, ar_createdAt = now e, ar_structureScopeId = ib_structureScopeId b,
          ar_periodType = rw_periodType row, ar_caScore = rw_caScore row, ar_examScore = rw_examScore row\<rparr>)"

text \<open>The transaction: the batch draws one UUID and every record one.\<close>

definition storeBatch ::
    "env \<Rightarrow> auth_token \<Rightarrow> string \<Rightarrow> results_body \<Rightarrow> resolved_rule \<Rightarrow> grading \<Rightarrow> db \<Rightarrow> result_batch \<times> db" where
  "storeBatch e auth inst b rule st d =
     (let batch = newBatch auth (fresh e d) inst b rule st;
          records = map (newRecord e d inst (rb_uuid batch) b rule) (enumerate (draws d + 1) (gd_rows st))
      in (batch, d\<lparr>resultBatches := resultBatches d @ [batch], academicRecords := academicRecords d @ records,
                    draws := draws d + 1 + length records\<rparr>))"

definition ingestResults :: "env \<Rightarrow> db \<Rightarrow> auth_token \<Rightarrow> results_body option \<Rightarrow> ((result_batch \<times> grading) \<times> db) res" where
  "ingestResults e d auth body =
     bindE (safeParse (ingestResultBatch_ok e) body) (\<lambda>parsed.
     bindE (assertInstitutionCan e d (ib_institutionId parsed) ''ingest_results'' (Some auth)) (\<lambda>authority.
     let inst = ia_institutionUuid authority in
     bindE (assertBatchScopeBelongsToInstitution d inst (ib_academicSessionId parsed) (ib_structureScopeId parsed)) (\<lambda>_.
     bindE (assertActorAssignedScope d auth inst (ib_structureScopeId parsed) (Some (batchTarget parsed))) (\<lambda>_.
     bindE (failIf (au_kind auth \<noteq> Some API_KEY \<and> ib_createdById parsed \<noteq> Some (au_sub auth))
       (BadRequest ''Result batch creator must match the authenticated user.'')) (\<lambda>_.
     bindE (failIf (\<exists>row \<in> set (ib_rows parsed). enrolmentOf d inst (rw_studentNumber row) = None)
       (BadRequest ''Some result rows reference students without active enrolments.'')) (\<lambda>_.
     bindE (resolveGradingRule d inst (modeOf parsed) (ib_gradingRuleSetId parsed)) (\<lambda>rule.
     bindE (gradeRows (ib_rows parsed) rule) (\<lambda>st.
     let (batch, d1) = storeBatch e auth inst parsed rule st d in
     Inr ((batch, st),
       audit_write ((audit_event_of ''ingest.results'' ''ResultBatch'' (rb_uuid batch) (Some inst)
           (JObj [(''apiKeyId'', jstr (au_apiKeyId auth)), (''authorityGrantId'', JStr (ia_authorityGrantId authority)),
                  (''rowCount'', jint (int (length (ib_rows parsed)))),
                  (''academicSessionId'', jstr (ib_academicSessionId parsed)),
                  (''structureScopeId'', jstr (ib_structureScopeId parsed)),
                  (''uploadMode'', JStr (upload_text (modeOf parsed))), (''gradingRuleSetId'', jstr (rv_uuid rule)),
                  (''gradingRuleSource'', JStr (source_text (rv_source rule))), (''gpa'', jrat_or_null (gpaOf st))]))
           \<lparr>ai_actorId := (if au_kind auth = Some API_KEY then None else Some (rb_createdById batch)),
             ai_actorRole := (if au_kind auth = Some API_KEY then None else Some (role_text (au_role auth)))\<rparr>)
         d1)))))))))"

section \<open>Jobs\<close>

definition requestedBy :: "auth_token \<Rightarrow> jval" where
  "requestedBy auth =
     JObj [(''kind'', JStr (kind_text (getOr (au_kind auth) USER))),
           (''sub'', if au_kind auth = Some API_KEY then JUndef else JStr (au_sub auth)),
           (''role'', JStr (role_text (au_role auth))), (''institutionUserId'', jstr (au_institutionUserId auth)),
           (''apiKeyId'', jstr (au_apiKeyId auth)), (''clientId'', jstr (au_clientId auth)),
           (''productCode'', jstr (au_productCode auth))]"

definition resultRowJson :: "result_row \<Rightarrow> jval" where
  "resultRowJson r =
     JObj [(''studentNumber'', JStr (rw_studentNumber r)), (''periodType'', JStr (period_type_text (rw_periodType r))),
           (''periodLabel'', JStr (rw_periodLabel r)), (''subjectCode'', JStr (rw_subjectCode r)),
           (''subjectName'', JStr (rw_subjectName r)), (''caScore'', jopt jrat (rw_caScore r)),
           (''examScore'', jopt jrat (rw_examScore r)), (''totalScore'', jrat (rw_totalScore r)),
           (''grade'', jstr (rw_grade r)), (''creditUnits'', jopt jrat (rw_creditUnits r))]"

definition resultsJson :: "results_body \<Rightarrow> jval" where
  "resultsJson b =
     JObj [(''institutionId'', JStr (ib_institutionId b)), (''createdById'', jstr (ib_createdById b)),
           (''title'', JStr (ib_title b)), (''academicSessionId'', jstr (ib_academicSessionId b)),
           (''structureScopeId'', jstr (ib_structureScopeId b)), (''gradingRuleSetId'', jstr (ib_gradingRuleSetId b)),
           (''uploadMode'', JStr (upload_text (modeOf b))), (''batchLabel'', jstr (ib_batchLabel b)),
           (''rows'', JArr (map resultRowJson (ib_rows b)))]"

definition ingestionJob ::
    "job_type \<Rightarrow> auth_token \<Rightarrow> institution_authority \<Rightarrow> string \<Rightarrow> jval \<Rightarrow> string \<Rightarrow> jval \<Rightarrow> string option \<Rightarrow> string \<Rightarrow> enqueue_input" where
  "ingestionJob type auth authority related request eventType eventPayload key scope =
     (plain_job type (Some (ia_institutionUuid authority))
       (toJson (JObj [(''request'', request), (''requestedBy'', requestedBy auth),
          (''authorityGrantId'', JStr (ia_authorityGrantId authority))])))
     \<lparr>ej_createdById := (if au_kind auth = Some API_KEY then None else Some (au_sub auth)),
      ej_relatedEntityType := Some related, ej_eventType := Some eventType,
      ej_eventPayload := Some (toJson eventPayload), ej_idempotencyKey := key, ej_idempotencyScope := Some scope\<rparr>"

text \<open>A handler that has answered with an error before it enqueues leaves the database as it was.\<close>

definition after_checks :: "'a res \<Rightarrow> db \<Rightarrow> ('a \<Rightarrow> jval res \<times> db) \<Rightarrow> jval res \<times> db" where
  "after_checks checks d f = (case checks of Inl err \<Rightarrow> (Inl err, d) | Inr x \<Rightarrow> f x)"

definition queued_answer :: "string \<Rightarrow> (string \<times> jval) list \<Rightarrow> jval \<Rightarrow> jval" where
  "queued_answer operation own job =
     JObj ([(''accepted'', JBool True), (''door'', JStr ''ingestion''), (''operation'', JStr operation),
            (''processing'', JStr ''QUEUED'')] @ own @ [(''job'', job)])"

definition resultsJob :: "auth_token \<Rightarrow> institution_authority \<Rightarrow> results_body \<Rightarrow> string option \<Rightarrow> enqueue_input" where
  "resultsJob auth authority b key =
     ingestionJob RESULT_BATCH_VALIDATION auth authority ''ResultBatchDraft'' (resultsJson b)
       ''result_batch.validation_queued''
       (JObj [(''institutionId'', JStr (ia_institutionId authority)), (''academicSessionId'', jnull (ib_academicSessionId b)),
              (''structureScopeId'', jnull (ib_structureScopeId b)), (''rowCount'', jint (int (length (ib_rows b))))])
       key ''gateway:ingest:results_async''"

definition queueResultBatchValidation ::
    "(string \<Rightarrow> 'k::linorder) \<Rightarrow> env \<Rightarrow> db \<Rightarrow> auth_token \<Rightarrow> results_body option \<Rightarrow> string option \<Rightarrow> jval res \<times> db" where
  "queueResultBatchValidation collate e d auth body key =
     after_checks
       (bindE (safeParse (ingestResultBatch_ok e) body) (\<lambda>parsed.
        bindE (assertInstitutionCan e d (ib_institutionId parsed) ''ingest_results'' (Some auth)) (\<lambda>authority.
        bindE (assertBatchScopeBelongsToInstitution d (ia_institutionUuid authority) (ib_academicSessionId parsed)
          (ib_structureScopeId parsed)) (\<lambda>_.
        bindE (assertActorAssignedScope d auth (ia_institutionUuid authority) (ib_structureScopeId parsed) None) (\<lambda>_.
        Inr (parsed, authority)))))) d
       (\<lambda>(parsed, authority).
        let (r, d1) = enqueueJob collate e d (resultsJob auth authority parsed key)
        in (bindE r (\<lambda>job. Inr (queued_answer ''result-batch-validation''
              [(''institutionId'', JStr (ia_institutionId authority)), (''rowCount'', jint (int (length (ib_rows parsed))))]
              job)), d1))"

text \<open>A JSON body is never a class with inherited properties, so \<open>"institutionId" in body\<close> looks at its own ones.\<close>

definition resolveBulkUploadInstitutionRef :: "auth_token \<Rightarrow> jval \<Rightarrow> string res" where
  "resolveBulkUploadInstitutionRef auth body =
     (let named = (case body of
                     JObj ob \<Rightarrow> (case getProp ob ''institutionId'' of
                                   JStr s \<Rightarrow> (if trim s = [] then None else Some (trim s)) | _ \<Rightarrow> None)
                   | _ \<Rightarrow> None);
          own = orElse (au_institutionId auth) (au_institutionUuid auth)
      in case named of
           Some s \<Rightarrow> Inr s
         | None \<Rightarrow> (if truthy_text own then Inr (getOr own [])
                    else Inl (BadRequest ''Bulk upload requires an institutionId.'')))"

definition uploadJob :: "env \<Rightarrow> auth_token \<Rightarrow> institution_authority \<Rightarrow> jval \<Rightarrow> string option \<Rightarrow> enqueue_input" where
  "uploadJob e auth authority body key =
     ingestionJob BULK_STUDENT_UPLOAD auth authority ''ImportFile'' body ''bulk_student_upload.queued''
       (JObj [(''institutionId'', JStr (ia_institutionId authority)), (''submittedAt'', JStr (toISOString (now e)))])
       key ''gateway:ingest:bulk_upload''"

definition createBulkUpload ::
    "(string \<Rightarrow> 'k::linorder) \<Rightarrow> env \<Rightarrow> db \<Rightarrow> auth_token \<Rightarrow> jval \<Rightarrow> string option \<Rightarrow> jval res \<times> db" where
  "createBulkUpload collate e d auth body key =
     after_checks
       (bindE (resolveBulkUploadInstitutionRef auth body) (\<lambda>ref.
        assertInstitutionCan e d ref ''ingest_students'' (Some auth))) d
       (\<lambda>authority.
        let (r, d1) = enqueueJob collate e d (uploadJob e auth authority body key)
        in (bindE r (\<lambda>job. Inr (queued_answer ''bulk-upload''
              [(''institutionId'', JStr (ia_institutionId authority))] job)), d1))"

section \<open>Reads\<close>

definition listBatches :: "db \<Rightarrow> auth_token \<Rightarrow> result_batch list" where
  "listBatches d auth = filter (\<lambda>b. institutionWhereForActor d auth (Some (rb_institutionId b))) (rev (resultBatches d))"

definition readBatch :: "db \<Rightarrow> auth_token \<Rightarrow> string \<Rightarrow> (result_batch \<times> academic_record list) res" where
  "readBatch d auth i =
     bindE (require (find_by rb_uuid i (resultBatches d)) (BadRequest ''Result batch not found.'')) (\<lambda>batch.
     bindE (assertActorCanOperateInstitution d auth (rb_institutionId batch)) (\<lambda>_.
     Inr (batch, filter (\<lambda>r. ar_resultBatchId r = Some i) (academicRecords d))))"

section \<open>A stored batch\<close>

definition graded_record :: "db \<Rightarrow> string \<Rightarrow> string \<Rightarrow> resolved_rule \<Rightarrow> result_row \<Rightarrow> academic_record \<Rightarrow> bool" where
  "graded_record d inst batchId rule row r \<longleftrightarrow>
     (\<exists>x \<in> set (enrolments d). en_institutionId x = inst \<and> en_studentNumber x = rw_studentNumber row \<and>
        en_status x = En_ACTIVE \<and> ar_enrolmentId r = en_uuid x) \<and>
     (case findBand (rw_totalScore row) (rv_scale rule) of
        None \<Rightarrow> False
      | Some band \<Rightarrow> ar_grade r = bd_grade band \<and> ar_gradePoint r = bd_gradePoint band \<and>
          ar_qualityPoints r = both (\<lambda>c p. round_to (c * p) 4) (rw_creditUnits row) (bd_gradePoint band)) \<and>
     ar_creditUnits r = rw_creditUnits row \<and> ar_totalScore r = rw_totalScore row \<and>
     ar_subjectCode r = rw_subjectCode row \<and> ar_gradingRuleSetId r = rv_uuid rule \<and>
     ar_resultBatchId r = Some batchId \<and> ar_status r = Rec_DRAFT \<and> ar_publishedAt r = None"

lemma enrolmentOf_Some:
  "enrolmentOf d inst n = Some x \<Longrightarrow>
     x \<in> set (enrolments d) \<and> en_institutionId x = inst \<and> en_studentNumber x = n \<and> en_status x = En_ACTIVE"
  unfolding enrolmentOf_def by (drule find_Some_in) simp

lemma list_all2_enumerate:
  "(\<And>n x. x \<in> set xs \<Longrightarrow> P x (f (n, x))) \<Longrightarrow> list_all2 P xs (map f (enumerate k xs))"
  by (induction xs arbitrary: k) simp_all

lemma map_enumerate: "map f (enumerate k (map g xs)) = map (\<lambda>(n, x). f (n, g x)) (enumerate k xs)"
  by (induction xs arbitrary: k) simp_all

lemma stored_records:
  assumes "gradeRows (ib_rows b) rule = Inr st" and "\<forall>row \<in> set (ib_rows b). enrolmentOf d inst (rw_studentNumber row) \<noteq> None"
    and "storeBatch e auth inst b rule st d = (batch, d')"
  shows "\<exists>new. resultBatches d' = resultBatches d @ [batch] \<and> academicRecords d' = academicRecords d @ new \<and>
    list_all2 (graded_record d inst (rb_uuid batch) rule) (ib_rows b) new \<and> batch = newBatch auth (fresh e d) inst b rule st"
proof -
  note st = gradeRows_Inr [OF assms(1)]
  let ?new = "map (newRecord e d inst (rb_uuid batch) b rule) (enumerate (draws d + 1) (gd_rows st))"
  have "graded_record d inst (rb_uuid batch) rule row (newRecord e d inst (rb_uuid batch) b rule (n, gradedAs rule row))"
    if row: "row \<in> set (ib_rows b)" for n row
  proof -
    from assms(2) row obtain x where x: "enrolmentOf d inst (rw_studentNumber row) = Some x" by blast
    from st row have "findBand (rw_totalScore row) (rv_scale rule) = Some (bandFor rule row)" by blast
    with x enrolmentOf_Some [OF x] show ?thesis
      by (auto simp: graded_record_def newRecord_def Let_def gradedAs_def gradedRow_def)
  qed
  then have "list_all2 (graded_record d inst (rb_uuid batch) rule) (ib_rows b)
      (map (\<lambda>(n, row). newRecord e d inst (rb_uuid batch) b rule (n, gradedAs rule row)) (enumerate (draws d + 1) (ib_rows b)))"
    by (intro list_all2_enumerate) simp
  then have "list_all2 (graded_record d inst (rb_uuid batch) rule) (ib_rows b) ?new"
    using st by (simp add: map_enumerate)
  moreover have "resultBatches d' = resultBatches d @ [batch] \<and> academicRecords d' = academicRecords d @ ?new \<and>
      batch = newBatch auth (fresh e d) inst b rule st"
    using assms(3) by (auto simp: storeBatch_def Let_def)
  ultimately show ?thesis by blast
qed

text \<open>C26. A batch that is taken in is a draft of the caller's institution, created by the caller when that is a
  person, with one draft record per row: each belongs to the active enrolment of the row's student number and has
  the grade, the grade point and the quality points of the band of its score, whatever grade was uploaded.\<close>

theorem ingestResults_grades:
  assumes "ingestResults e d auth (Some b) = Inr ((batch, st), d')"
  shows "\<exists>a rule new. assertInstitutionCan e d (ib_institutionId b) ''ingest_results'' (Some auth) = Inr a \<and>
    resolveGradingRule d (ia_institutionUuid a) (modeOf b) (ib_gradingRuleSetId b) = Inr rule \<and>
    gradeRows (ib_rows b) rule = Inr st \<and>
    resultBatches d' = resultBatches d @ [batch] \<and> academicRecords d' = academicRecords d @ new \<and>
    rb_status batch = Rec_DRAFT \<and> rb_institutionId batch = ia_institutionUuid a \<and>
    (au_kind auth = Some API_KEY \<or> rb_createdById batch = au_sub auth) \<and>
    list_all2 (graded_record d (ia_institutionUuid a) (rb_uuid batch) rule) (ib_rows b) new"
proof -
  obtain a rule d1 where run: "assertInstitutionCan e d (ib_institutionId b) ''ingest_results'' (Some auth) = Inr a"
    "resolveGradingRule d (ia_institutionUuid a) (modeOf b) (ib_gradingRuleSetId b) = Inr rule"
    "gradeRows (ib_rows b) rule = Inr st"
    "storeBatch e auth (ia_institutionUuid a) b rule st d = (batch, d1)"
    and all: "\<forall>row \<in> set (ib_rows b). enrolmentOf d (ia_institutionUuid a) (rw_studentNumber row) \<noteq> None"
    and human: "au_kind auth = Some API_KEY \<or> ib_createdById b = Some (au_sub auth)"
    and d': "resultBatches d' = resultBatches d1" "academicRecords d' = academicRecords d1"
  proof -
    from assms obtain a rule where "assertInstitutionCan e d (ib_institutionId b) ''ingest_results'' (Some auth) = Inr a"
      "resolveGradingRule d (ia_institutionUuid a) (modeOf b) (ib_gradingRuleSetId b) = Inr rule"
      "gradeRows (ib_rows b) rule = Inr st"
      "\<not> (\<exists>row \<in> set (ib_rows b). enrolmentOf d (ia_institutionUuid a) (rw_studentNumber row) = None)"
      "au_kind auth = Some API_KEY \<or> ib_createdById b = Some (au_sub auth)"
      and "fst (storeBatch e auth (ia_institutionUuid a) b rule st d) = batch"
      "resultBatches d' = resultBatches (snd (storeBatch e auth (ia_institutionUuid a) b rule st d))"
      "academicRecords d' = academicRecords (snd (storeBatch e auth (ia_institutionUuid a) b rule st d))"
      by (auto simp: ingestResults_def Let_def err_simps split_beta)
    then show thesis
      by (intro that [of a rule "snd (storeBatch e auth (ia_institutionUuid a) b rule st d)"]) (auto simp: prod_eq_iff)
  qed
  from stored_records [OF run(3) all run(4)] obtain new where
    "resultBatches d1 = resultBatches d @ [batch]" "academicRecords d1 = academicRecords d @ new"
    "list_all2 (graded_record d (ia_institutionUuid a) (rb_uuid batch) rule) (ib_rows b) new"
    "batch = newBatch auth (fresh e d) (ia_institutionUuid a) b rule st" by blast
  moreover from this(4) human have "au_kind auth = Some API_KEY \<or> rb_createdById batch = au_sub auth"
    by (auto simp: newBatch_def)
  moreover from calculation(4) have "rb_status batch = Rec_DRAFT" "rb_institutionId batch = ia_institutionUuid a"
    by (simp_all add: newBatch_def)
  ultimately show ?thesis using run d' by auto
qed

section \<open>Idempotency keys of uploads\<close>

lemma execute_known:
  assumes "normaliseKey (ip_key input) = Inr key"
    and "List.find (same_key (ip_scope input) (sha256 e key)) (idempotencyRecords d) \<noteq> None"
  shows "snd (execute collate e d input handler jobId) = d"
  using assms by (auto simp: execute_def Let_def split: option.split)

lemma executed_known:
  assumes "execute collate e d (jobInput job key) (createJob e job) jobId = (Inr v, d1)"
  shows "\<exists>k. normaliseKey key = Inr k \<and>
    List.find (same_key (ip_scope (jobInput job key)) (sha256 e k)) (idempotencyRecords d1) \<noteq> None"
proof -
  have ip: "ip_key (jobInput job key) = key" "ip_request (jobInput job key) = jobRequest job"
    by (simp_all add: jobInput_def)
  obtain k where k: "normaliseKey key = Inr k"
    using assms by (cases "normaliseKey key") (simp_all add: execute_def ip)
  obtain w where w: "stableStringify collate (jobRequest job) = Some w" using jobRequest_text by blast
  show ?thesis
  proof (cases "List.find (same_key (ip_scope (jobInput job key)) (sha256 e k)) (idempotencyRecords d)")
    case None
    from job_handler.record_after [OF assms, unfolded ip, OF k w None] k show ?thesis by auto
  next
    case (Some r)
    with execute_known [of "jobInput job key" k e d collate "createJob e job" jobId] assms k show ?thesis
      by (auto simp: ip)
  qed
qed

lemma uploadJob_key: "ej_idempotencyKey (uploadJob e auth a body k) = k"
  by (simp add: uploadJob_def ingestionJob_def)

lemma enqueue_with_key:
  "key \<noteq> [] \<Longrightarrow> enqueueJob collate e d (uploadJob e auth a body (Some key)) =
     execute collate e d (jobInput (uploadJob e auth a body (Some key)) key)
       (createJob e (uploadJob e auth a body (Some key))) responseJobId"
  by (simp add: enqueueJob_def uploadJob_key orElse_def truthy_text_def Let_def)

lemma upload_scope: "ip_scope (jobInput (uploadJob e auth a body k) key) = ''gateway:ingest:bulk_upload''"
  by (simp add: jobInput_def uploadJob_def ingestionJob_def)

lemma upload_key: "ip_key (jobInput job key) = key"
  by (simp add: jobInput_def)

text \<open>The scope of the idempotency key of an upload does not name the institution: once one institution has
  had an upload accepted under a key, no upload of any other caller under the same key is queued, and the
  database stays as it is.\<close>

theorem upload_key_shared:
  assumes "createBulkUpload collate e d auth body (Some key) = (Inr answer, d1)" and "key \<noteq> []"
    and "sha256 e' = sha256 e" and "idempotencyRecords d2 = idempotencyRecords d1"
  shows "snd (createBulkUpload collate e' d2 auth' body' (Some key)) = d2"
proof -
  obtain a v where run: "enqueueJob collate e d (uploadJob e auth a body (Some key)) = (Inr v, d1)"
    using assms(1) by (auto simp: createBulkUpload_def after_checks_def bindE_def split: sum.splits prod.splits)
  from executed_known [OF run [unfolded enqueue_with_key [OF assms(2)]]] obtain k where
    k: "normaliseKey key = Inr k" "List.find (same_key ''gateway:ingest:bulk_upload'' (sha256 e' k)) (idempotencyRecords d2) \<noteq> None"
    unfolding upload_scope assms(3,4) by blast
  have "snd (enqueueJob collate e' d2 (uploadJob e' auth' a' body' (Some key))) = d2" for a'
    unfolding enqueue_with_key [OF assms(2)]
    by (rule execute_known [where key = k]) (simp_all only: upload_key upload_scope k not_False_eq_True)
  then show ?thesis
    by (auto simp: createBulkUpload_def after_checks_def split: sum.splits prod.splits) (metis snd_conv)+
qed

section \<open>Witnesses\<close>

definition two_courses :: results_body where
  "two_courses = \<lparr>ib_institutionId = ''ACD-1'', ib_createdById = Some ''founder'', ib_title = ''First'',
     ib_academicSessionId = Some ''s1'', ib_structureScopeId = Some ''c1'', ib_gradingRuleSetId = None,
     ib_uploadMode = Some COURSE_BASED, ib_batchLabel = None, ib_rows = [course 72, course 30]\<rparr>"

lemma sample_ingested:
  "case ingestResults sample_env sample_db founder (Some two_courses) of
     Inl _ \<Rightarrow> False
   | Inr ((batch, st), d') \<Rightarrow> map ar_grade (academicRecords d') = [''A'', ''F'']"
  by code_simp

theorem ingestResults_grades_witness:
  "case ingestResults sample_env sample_db founder (Some two_courses) of
     Inl _ \<Rightarrow> False | Inr ((batch, st), d') \<Rightarrow> rb_status batch = Rec_DRAFT \<and> rb_createdById batch = ''founder''"
proof -
  obtain batch st d' where run: "ingestResults sample_env sample_db founder (Some two_courses) = Inr ((batch, st), d')"
    using sample_ingested by (auto split: sum.splits prod.splits)
  have "au_kind founder = Some USER \<and> au_sub founder = ''founder''" by (simp add: founder_def)
  with ingestResults_grades [OF run] show ?thesis by (auto simp: run)
qed

definition upload_body :: jval where
  "upload_body = JObj [(''institutionId'', JStr ''ACD-1'')]"

lemma first_upload:
  assumes "normaliseKey key = Inr k" and "key \<noteq> []" and "idempotencyRecords d = []"
  shows "\<exists>v d1. enqueueJob collate e d (uploadJob e auth a body (Some key)) = (Inr v, d1)"
proof -
  let ?job = "uploadJob e auth a body (Some key)"
  obtain w where w: "stableStringify collate (jobRequest ?job) = Some w" using jobRequest_text by blast
  obtain r d0 where create: "createRecord e d (jobInput ?job key) (sha256 e k) (sha256 e w) = Inr (r, d0)"
    using assms(3) by (auto simp: createRecord_def Let_def)
  obtain v d2 where "createJob e ?job d0 = (Inr v, d2)" by (simp add: createJob_def Let_def)
  with w create assms show ?thesis
    by (simp add: enqueue_with_key execute_def upload_key jobInput_def Let_def)
qed

lemma sample_upload:
  "\<exists>v d1. createBulkUpload (\<lambda>s. s) sample_env sample_db founder upload_body (Some ''term-1-upload'') = (Inr v, d1)"
proof -
  have checks: "bindE (resolveBulkUploadInstitutionRef founder upload_body)
      (\<lambda>ref. assertInstitutionCan sample_env sample_db ref ''ingest_students'' (Some founder)) =
      Inr \<lparr>ia_institutionUuid = school, ia_institutionId = ''ACD-1'', ia_authorityGrantId = ''g1''\<rparr>"
    by code_simp
  have none: "idempotencyRecords sample_db = []" "''term-1-upload'' \<noteq> []" by (simp_all add: sample_db_def empty_db_def)
  have "normaliseKey ''term-1-upload'' = Inr ''term-1-upload''" by code_simp
  then obtain v d1 where "enqueueJob (\<lambda>s. s) sample_env sample_db (uploadJob sample_env founder
      \<lparr>ia_institutionUuid = school, ia_institutionId = ''ACD-1'', ia_authorityGrantId = ''g1''\<rparr> upload_body
      (Some ''term-1-upload'')) = (Inr v, d1)"
    using first_upload [of "''term-1-upload''" _ sample_db] none by blast
  then show ?thesis unfolding createBulkUpload_def after_checks_def checks by simp
qed

theorem upload_key_shared_witness:
  "case createBulkUpload (\<lambda>s. s) sample_env sample_db founder upload_body (Some ''term-1-upload'') of
     (Inl _, _) \<Rightarrow> False
   | (Inr _, d1) \<Rightarrow> snd (createBulkUpload (\<lambda>s. s) sample_env d1 registrar JNull (Some ''term-1-upload'')) = d1"
proof -
  obtain v d1 where run:
    "createBulkUpload (\<lambda>s. s) sample_env sample_db founder upload_body (Some ''term-1-upload'') = (Inr v, d1)"
    using sample_upload by blast
  show ?thesis using upload_key_shared [OF run, of sample_env d1 registrar JNull] by (simp add: run)
qed

end
