(* ===== verification/UploadJobs.thy ===== *)
theory UploadJobs
  imports Csv Register Ingestion Worker
begin

text \<open>
  The two ingestion jobs of \<open>jobs/job-worker.service.ts\<close>, which call the handlers of the ingestion service, and
  the rest of \<open>jobs/bulk-upload-parser.service.ts\<close>. The bodies arrive as JSON, so the zod schemas are decoders
  here. Files, object storage, downloads, Base64 and the spreadsheet reader are the parameter \<open>upload_io\<close>.
\<close>

section \<open>Schemas on JSON\<close>

text \<open>A field that may be missing: \<open>None\<close> is a rejected value.\<close>

definition optional :: "(jval \<Rightarrow> 'a option) \<Rightarrow> jval \<Rightarrow> 'a option option" where
  "optional f v = (if v = JUndef then Some None else map_option Some (f v))"

fun all_some :: "('a \<Rightarrow> 'b option) \<Rightarrow> 'a list \<Rightarrow> 'b list option" where
  "all_some f [] = Some []"
| "all_some f (x # xs) =
     (case f x of None \<Rightarrow> None | Some y \<Rightarrow> (case all_some f xs of None \<Rightarrow> None | Some ys \<Rightarrow> Some (y # ys)))"

definition array_of :: "(jval \<Rightarrow> 'a option) \<Rightarrow> jval \<Rightarrow> 'a list option" where
  "array_of f v = (case v of JArr xs \<Rightarrow> all_some f xs | _ \<Rightarrow> None)"

definition registerRow_of :: "jval \<Rightarrow> register_row option" where
  "registerRow_of v =
     (case v of
        JObj ob \<Rightarrow>
          (case (text_of (getProp ob ''fullName''), text_of (getProp ob ''dateOfBirth''), text_of (getProp ob ''studentNumber''),
                 text_of (getProp ob ''level''), text_of (getProp ob ''programme''), optional text_of (getProp ob ''phone'')) of
             (Some n, Some b, Some s, Some l, Some p, Some ph) \<Rightarrow>
               Some \<lparr>sr_fullName = n, sr_dateOfBirth = b, sr_studentNumber = s, sr_level = l, sr_programme = p, sr_phone = ph\<rparr>
           | _ \<Rightarrow> None)
      | _ \<Rightarrow> None)"

definition registerBody_of :: "jval \<Rightarrow> register_body option" where
  "registerBody_of v =
     (case v of
        JObj ob \<Rightarrow>
          (case (text_of (getProp ob ''institutionId''), optional text_of (getProp ob ''entryDate''),
                 array_of registerRow_of (getProp ob ''rows'')) of
             (Some i, Some e, Some rows) \<Rightarrow> Some \<lparr>sg_institutionId = i, sg_entryDate = e, sg_rows = rows\<rparr>
           | _ \<Rightarrow> None)
      | _ \<Rightarrow> None)"

definition enum_of :: "('a \<Rightarrow> string) \<Rightarrow> 'a list \<Rightarrow> jval \<Rightarrow> 'a option" where
  "enum_of f xs v = (case v of JStr s \<Rightarrow> List.find (\<lambda>x. f x = s) xs | _ \<Rightarrow> None)"

definition resultRow_of :: "jval \<Rightarrow> result_row option" where
  "resultRow_of v =
     (case v of
        JObj ob \<Rightarrow>
          (case (text_of (getProp ob ''studentNumber''), enum_of period_type_text [Period_TERM, Period_SEMESTER] (getProp ob ''periodType''),
                 text_of (getProp ob ''periodLabel''), text_of (getProp ob ''subjectCode''), text_of (getProp ob ''subjectName'')) of
             (Some n, Some t, Some p, Some c, Some s) \<Rightarrow>
               (case (optional number_of (getProp ob ''caScore''), optional number_of (getProp ob ''examScore''),
                      number_of (getProp ob ''totalScore''), optional text_of (getProp ob ''grade''),
                      optional number_of (getProp ob ''creditUnits'')) of
                  (Some ca, Some ex, Some tot, Some g, Some u) \<Rightarrow>
                    Some \<lparr>rw_studentNumber = n, rw_periodType = t, rw_periodLabel = p, rw_subjectCode = c,
                      rw_subjectName = s, rw_caScore = ca, rw_examScore = ex, rw_totalScore = tot, rw_grade = g,
                      rw_creditUnits = u\<rparr>
                | _ \<Rightarrow> None)
           | _ \<Rightarrow> None)
      | _ \<Rightarrow> None)"

definition uploadModes :: "upload_mode list" where
  "uploadModes = [SUBJECT_BY_SUBJECT, MASTER_SHEET, COURSE_BASED, MANUAL_ENTRY]"

definition resultsBody_of :: "jval \<Rightarrow> results_body option" where
  "resultsBody_of v =
     (case v of
        JObj ob \<Rightarrow>
          (case (text_of (getProp ob ''institutionId''), optional text_of (getProp ob ''createdById''),
                 text_of (getProp ob ''title''), optional text_of (getProp ob ''academicSessionId''),
                 optional text_of (getProp ob ''structureScopeId''), optional text_of (getProp ob ''gradingRuleSetId'')) of
             (Some i, Some c, Some t, Some a, Some s, Some g) \<Rightarrow>
               (case (optional (enum_of upload_text uploadModes) (getProp ob ''uploadMode''),
                      optional text_of (getProp ob ''batchLabel''), array_of resultRow_of (getProp ob ''rows'')) of
                  (Some m, Some l, Some rows) \<Rightarrow>
                    Some \<lparr>ib_institutionId = i, ib_createdById = c, ib_title = t, ib_academicSessionId = a,
                      ib_structureScopeId = s, ib_gradingRuleSetId = g, ib_uploadMode = m, ib_batchLabel = l, ib_rows = rows\<rparr>
                | _ \<Rightarrow> None)
           | _ \<Rightarrow> None)
      | _ \<Rightarrow> None)"

section \<open>The upload parser\<close>

text \<open>A cell of a sheet: a text, number, flag or nothing, or a date, whose text depends on the time zone.\<close>

datatype sheet_cell = Cell jval | Date_cell int

datatype upload_content = Text_content string | Buffer "nat list"

record upload_io =
  uo_base64 :: "string \<Rightarrow> nat list" \<comment> \<open>\<open>Buffer.from(text, "base64")\<close>\<close>
  uo_path :: "string \<Rightarrow> string res" \<comment> \<open>\<open>fileURLToPath\<close>\<close>
  uo_exists :: "string \<Rightarrow> bool"
  uo_read :: "string \<Rightarrow> nat list res"
  uo_object :: "(string \<Rightarrow> nat list res) option" \<comment> \<open>the optional object storage\<close>
  uo_fetch :: "string \<Rightarrow> (int \<times> nat list) res" \<comment> \<open>the status and the body\<close>
  uo_sheet :: "upload_content \<Rightarrow> sheet_cell list list res" \<comment> \<open>\<open>readSheet\<close>\<close>
  uo_dateText :: "int \<Rightarrow> string" \<comment> \<open>\<open>String(date)\<close>\<close>

definition stringField :: "(string \<times> jval) list \<Rightarrow> string \<Rightarrow> string option" where
  "stringField request field = asString (getProp request field)"

definition pathFromStorageUrl :: "upload_io \<Rightarrow> string option \<Rightarrow> string option res" where
  "pathFromStorageUrl io url =
     (case url of None \<Rightarrow> Inr None
      | Some u \<Rightarrow> if startsWith u ''file://'' then bindE (uo_path io u) (\<lambda>p. Inr (Some p)) else Inr None)"

definition readStored :: "upload_io \<Rightarrow> string \<Rightarrow> upload_content option res" where
  "readStored io url =
     (if startsWith url ''storage://'' then
        (case uo_object io of
           None \<Rightarrow> Inl (BadRequest ''Object storage download is not available in this runtime.'')
         | Some read \<Rightarrow> bindE (read url) (\<lambda>b. Inr (Some (Buffer b))))
      else if startsWith url ''http://'' \<or> startsWith url ''https://'' then
        bindE (uo_fetch io url) (\<lambda>(status, b).
        bindE (failIf (\<not> status_ok status) (BadRequest (''Could not fetch upload file: '' @ show_int status))) (\<lambda>_.
        Inr (Some (Buffer b))))
      else Inr None)"

definition readUploadContent :: "upload_io \<Rightarrow> (string \<times> jval) list \<Rightarrow> upload_content option res" where
  "readUploadContent io request =
     (case stringField request ''csvText'' of
        Some s \<Rightarrow> Inr (Some (Text_content s))
      | None \<Rightarrow>
     (case stringField request ''contentBase64'' of
        Some s \<Rightarrow> Inr (Some (Buffer (uo_base64 io s)))
      | None \<Rightarrow>
        bindE (case stringField request ''filePath'' of
                 Some p \<Rightarrow> Inr (Some p)
               | None \<Rightarrow> pathFromStorageUrl io (stringField request ''storageUrl'')) (\<lambda>path.
        if truthy_text path then
          bindE (failIf (\<not> uo_exists io (getOr path [])) (NonRetryable ''Bulk upload file path does not exist.'')) (\<lambda>_.
          bindE (uo_read io (getOr path [])) (\<lambda>b. Inr (Some (Buffer b))))
        else
          (case stringField request ''storageUrl'' of None \<Rightarrow> Inr None | Some url \<Rightarrow> readStored io url))))"

definition detectFormat :: "(string \<times> jval) list \<Rightarrow> string option \<Rightarrow> string" where
  "detectFormat request fileName =
     (let explicit = map_option toLowerCase (stringField request ''format'');
          name = getOr (orElse (map_option toLowerCase fileName)
            (map_option toLowerCase (stringField request ''storageUrl''))) []
      in if explicit = Some ''xlsx'' \<or> explicit = Some ''xls'' \<or> endsWith name ''.xlsx'' \<or> endsWith name ''.xls''
         then ''xlsx'' else ''csv'')"

text \<open>\<open>String(value ?? "").trim()\<close>\<close>

definition normaliseCell :: "upload_io \<Rightarrow> sheet_cell option \<Rightarrow> string" where
  "normaliseCell io cell =
     (case cell of None \<Rightarrow> []
      | Some (Date_cell t) \<Rightarrow> trim (uo_dateText io t)
      | Some (Cell v) \<Rightarrow> (if v = JNull \<or> v = JUndef then [] else trim (String_of v)))"

definition mapSheetRecord :: "upload_io \<Rightarrow> string list \<Rightarrow> sheet_cell list \<Rightarrow> jval" where
  "mapSheetRecord io headers record =
     JObj (fold (\<lambda>(n, header) row. case map_of headerMap header of None \<Rightarrow> row
        | Some field \<Rightarrow> set_prop field (JStr (normaliseCell io (cell_at record n))) row) (enumerate 0 headers) [])"

definition parseXlsx :: "upload_io \<Rightarrow> upload_content \<Rightarrow> jval list res" where
  "parseXlsx io content =
     bindE (uo_sheet io content) (\<lambda>sheet.
     case sheet of
       header # first # others \<Rightarrow>
         Inr (map (mapSheetRecord io (map (\<lambda>c. normaliseHeader (normaliseCell io (Some c))) header))
           (filter (\<lambda>r. \<exists>c \<in> set r. normaliseCell io (Some c) \<noteq> []) (first # others)))
     | _ \<Rightarrow> Inl (NonRetryable ''XLSX upload must include a header row and at least one student row.''))"

definition content_text :: "upload_content \<Rightarrow> string" where
  "content_text c = (case c of Text_content s \<Rightarrow> s | Buffer b \<Rightarrow> of_utf8 b)"

record parsed_upload =
  pu_input :: register_body
  pu_format :: string
  pu_fileName :: "string option"
  pu_rowCount :: nat

text \<open>The list of zod issues is left out of the message.\<close>

definition validateUpload :: "string \<Rightarrow> string option \<Rightarrow> jval list \<Rightarrow> string \<Rightarrow> string option \<Rightarrow> parsed_upload res" where
  "validateUpload institutionId entryDate rows format fileName =
     (case registerBody_of (JObj [(''institutionId'', JStr institutionId), (''entryDate'', jstr entryDate), (''rows'', JArr rows)]) of
        Some b \<Rightarrow>
          (if ingestStudentRegister_ok b
           then Inr \<lparr>pu_input = b, pu_format = format, pu_fileName = fileName, pu_rowCount = length rows\<rparr>
           else Inl (NonRetryable ''Bulk student upload validation failed''))
      | None \<Rightarrow> Inl (NonRetryable ''Bulk student upload validation failed''))"

definition inlineRows :: "(string \<times> jval) list \<Rightarrow> jval list" where
  "inlineRows request = (case getProp request ''rows'' of JArr xs \<Rightarrow> xs | _ \<Rightarrow> [])"

definition parseStudentUpload :: "upload_io \<Rightarrow> (string \<times> jval) list \<Rightarrow> parsed_upload res" where
  "parseStudentUpload io request =
     bindE (require (stringField request ''institutionId'') (NonRetryable ''Bulk upload file is missing institutionId.''))
       (\<lambda>institutionId.
     let entryDate = stringField request ''entryDate''; fileName = stringField request ''fileName'' in
     if inlineRows request \<noteq> [] then validateUpload institutionId entryDate (inlineRows request) ''inline_rows'' fileName
     else
       bindE (readUploadContent io request) (\<lambda>content.
       bindE (require content
         (NonRetryable ''Bulk upload needs rows, csvText, contentBase64, filePath, or a readable storageUrl.'')) (\<lambda>content.
       let format = detectFormat request fileName in
       bindE (if format = ''xlsx'' then parseXlsx io content else parseCsv (content_text content)) (\<lambda>rows.
       validateUpload institutionId entryDate rows format fileName))))"

section \<open>The jobs\<close>

definition systemAuth :: "background_job \<Rightarrow> auth_token" where
  "systemAuth job =
     \<lparr>au_sub = getOr (bj_createdById job) ''acadid-worker'', au_role = ACADID_SUPER_ADMIN, au_kind = Some USER,
      au_institutionUuid = None, au_institutionUserId = None, au_assignedScopes = JUndef, au_apiKeyId = None,
      au_clientId = None, au_ownerIsProduct = False, au_productCode = None, au_institutionId = None,
      au_rateLimitPerMinute = None, au_email = ''worker@acadid.internal'', au_fullName = ''AcadID Background Worker'',
      au_learnerId = None, au_permissions = []\<rparr>"

definition isMetadataOnlyUpload :: "(string \<times> jval) list \<Rightarrow> bool" where
  "isMetadataOnlyUpload request \<longleftrightarrow>
     \<not> truthy (getProp request ''csvText'') \<and> \<not> truthy (getProp request ''contentBase64'') \<and>
     \<not> truthy (getProp request ''filePath'') \<and>
     (case getProp request ''storageUrl'' of JStr s \<Rightarrow> startsWith s ''pending://'' | _ \<Rightarrow> False)"

definition or_null :: "jval \<Rightarrow> jval" where
  "or_null v = (if v = JUndef then JNull else v)"

definition is_array :: "jval \<Rightarrow> bool" where
  "is_array v = (case v of JArr xs \<Rightarrow> True | _ \<Rightarrow> False)"

definition jobRequestOf :: "background_job \<Rightarrow> jval" where
  "jobRequestOf job = getProp (asRecord (bj_payload job)) ''request''"

definition processBulkStudentUpload :: "upload_io \<Rightarrow> env \<Rightarrow> background_job \<Rightarrow> db \<Rightarrow> (jval \<times> db) res" where
  "processBulkStudentUpload io e job d =
     (let request = asRecord (jobRequestOf job) in
      if \<not> is_array (getProp request ''rows'') \<and> isMetadataOnlyUpload request
      then Inr (toJson (JObj [(''mode'', JStr ''metadata_only''),
          (''message'', JStr ''Bulk upload job accepted. File parser will run when rows, csvText, contentBase64, filePath, or readable storageUrl is attached.''),
          (''fileName'', or_null (getProp request ''fileName'')), (''uploadType'', or_null (getProp request ''uploadType'')),
          (''storageUrl'', or_null (getProp request ''storageUrl''))]), d)
      else
        bindE (parseStudentUpload io request) (\<lambda>parsed.
        bindE (ingestStudents e d (systemAuth job) (Some (pu_input parsed))) (\<lambda>(run, d').
        Inr (toJson (JObj [(''mode'', JStr ''processed_file''),
          (''source'', JObj [(''format'', JStr (pu_format parsed)), (''fileName'', jnull (pu_fileName parsed)),
             (''rowCount'', jint (int (pu_rowCount parsed)))]),
          (''createdLearners'', jint (int (rr_createdLearners run))), (''linkedLearners'', jint (int (rr_linkedLearners run))),
          (''createdEnrolments'', jint (int (rr_createdEnrolments run))),
          (''existingEnrolments'', jint (int (rr_existingEnrolments run))), (''rowCount'', jint (int (length (rr_rows run))))]), d'))))"

definition processResultBatchValidation :: "env \<Rightarrow> background_job \<Rightarrow> db \<Rightarrow> (jval \<times> db) res" where
  "processResultBatchValidation e job d =
     bindE (ingestResults e d (systemAuth job) (resultsBody_of (jobRequestOf job))) (\<lambda>((batch, st), d').
     Inr (toJson (JObj [(''mode'', JStr ''draft_batch_created''), (''batchId'', JStr (rb_uuid batch)),
        (''status'', JStr ''DRAFT''),
        (''institutionId'', case find_by in_uuid (rb_institutionId batch) (institutions d) of
           None \<Rightarrow> JNull | Some i \<Rightarrow> JStr (in_institutionId i)),
        (''rowCount'', jint (int (rb_recordCount batch)))]), d'))"

end
