(* ===== verification/IngestionJobs.thy ===== *)
theory IngestionJobs
  imports UploadJobs
begin

text \<open>
  From the request to the job and from the job to the database: an upload reads back as it was written, it ends in
  the institution that its sender may operate, and what the way over the queue changes.
\<close>

section \<open>Frames\<close>

text \<open>
  What an intake of students may do to the database: new learners, active enrolments at one institution and audit
  events of it, each after the rows that were there, and a number of drawn identifiers. Every other table is as it was.
\<close>

definition only_enrols :: "string \<Rightarrow> db \<Rightarrow> db \<Rightarrow> bool" where
  "only_enrols inst d d' \<longleftrightarrow> (\<exists>ls xs as n.
     d' = d\<lparr>learners := learners d @ ls, enrolments := enrolments d @ xs, auditEvents := auditEvents d @ as, draws := n\<rparr> \<and>
     (\<forall>x \<in> set xs. en_institutionId x = inst \<and> en_status x = En_ACTIVE) \<and>
     (\<forall>a \<in> set as. ae_institutionId a = Some inst))"

lemma only_enrols_tables:
  assumes "only_enrols inst d d'"
  shows "backgroundJobs d' = backgroundJobs d"
  using assms by (auto simp: only_enrols_def)

lemma only_enrols_refl [simp]: "only_enrols inst d d"
  unfolding only_enrols_def by (intro exI [of _ "[]"] exI [of _ "draws d"]) simp

lemma only_enrols_trans:
  assumes "only_enrols inst d1 d2" and "only_enrols inst d2 d3"
  shows "only_enrols inst d1 d3"
proof -
  from assms(1) obtain ls xs as n where one: "d2 = d1\<lparr>learners := learners d1 @ ls, enrolments := enrolments d1 @ xs,
      auditEvents := auditEvents d1 @ as, draws := n\<rparr>" "\<forall>x \<in> set xs. en_institutionId x = inst \<and> en_status x = En_ACTIVE"
      "\<forall>a \<in> set as. ae_institutionId a = Some inst"
    by (auto simp: only_enrols_def)
  from assms(2) obtain ls' xs' as' n' where two: "d3 = d2\<lparr>learners := learners d2 @ ls', enrolments := enrolments d2 @ xs',
      auditEvents := auditEvents d2 @ as', draws := n'\<rparr>" "\<forall>x \<in> set xs'. en_institutionId x = inst \<and> en_status x = En_ACTIVE"
      "\<forall>a \<in> set as'. ae_institutionId a = Some inst"
    by (auto simp: only_enrols_def)
  have "d3 = d1\<lparr>learners := learners d1 @ ls @ ls', enrolments := enrolments d1 @ xs @ xs',
      auditEvents := auditEvents d1 @ as @ as', draws := n'\<rparr>" using one(1) two(1) by simp
  with one(2,3) two(2,3) show ?thesis
    unfolding only_enrols_def by (intro exI [of _ "ls @ ls'"] exI [of _ "xs @ xs'"] exI [of _ "as @ as'"] exI [of _ n']) auto
qed

text \<open>The three kinds of rows an intake writes.\<close>

lemma only_enrols_rows:
  "only_enrols inst d (drawn (d\<lparr>learners := learners d @ [l]\<rparr>))"
  "en_institutionId x = inst \<Longrightarrow> en_status x = En_ACTIVE \<Longrightarrow>
     only_enrols inst d ((drawn d)\<lparr>enrolments := enrolments d @ [x]\<rparr>)"
  "ae_institutionId a = Some inst \<Longrightarrow> only_enrols inst d (d\<lparr>auditEvents := auditEvents d @ [a]\<rparr>)"
proof -
  show "only_enrols inst d (drawn (d\<lparr>learners := learners d @ [l]\<rparr>))"
    unfolding only_enrols_def drawn_def by (intro exI [of _ "[l]"] exI [of _ "[]"] exI [of _ "Suc (draws d)"]) simp
  show "only_enrols inst d ((drawn d)\<lparr>enrolments := enrolments d @ [x]\<rparr>)"
    if "en_institutionId x = inst" "en_status x = En_ACTIVE"
    unfolding only_enrols_def drawn_def using that
    by (intro exI [of _ "[]"] exI [of _ "[x]"] exI [of _ "Suc (draws d)"]) simp
  show "only_enrols inst d (d\<lparr>auditEvents := auditEvents d @ [a]\<rparr>)" if "ae_institutionId a = Some inst"
    unfolding only_enrols_def using that
    by (intro exI [of _ "[]"] exI [of _ "[a]"] exI [of _ "draws d"]) simp
qed

lemma learnerFor_enrols:
  assumes "learnerFor e t row run = Inr (l, run')"
  shows "only_enrols inst (rr_db run) (rr_db run')"
proof (cases "List.find (same_person row) (learners (rr_db run))")
  case (Some x)
  with assms show ?thesis by (auto simp: learnerFor_def)
next
  case None
  with assms obtain d' where "createLearner e (formatAin ''NG'' (getUTCFullYear t) (rr_sequence run + 1)) row (rr_db run) = Inr (l, d')"
    and "rr_db run' = d'" by (fastforce simp: learnerFor_def Let_def err_simps)
  then have "rr_db run' = drawn ((rr_db run)\<lparr>learners := learners (rr_db run) @ [l]\<rparr>)"
    by (auto simp: createLearner_def Let_def err_simps check_unique_def split: if_split_asm)
  then show ?thesis using only_enrols_rows(1) by simp
qed

lemma registerRow_enrols:
  assumes "registerRow e inst t row run = Inr run'"
  shows "only_enrols inst (rr_db run) (rr_db run')"
proof (cases "List.find (activeEnrolment inst (sr_studentNumber row)) (enrolments (rr_db run))")
  case (Some x)
  with assms have "rr_db run' = rr_db run" by (auto simp: registerRow_def)
  then show ?thesis by simp
next
  case None
  with assms obtain l run1 where run1: "learnerFor e t row run = Inr (l, run1)"
    and saved: "rr_db run' = (drawn (rr_db run1))\<lparr>enrolments := enrolments (rr_db run1) @
      [registered (fresh e (rr_db run1)) (le_uuid l) inst t row]\<rparr>"
    by (auto simp: registerRow_def Let_def err_simps saveEnrolments_def check_unique_def split: if_split_asm)
  have "only_enrols inst (rr_db run1) (rr_db run')"
    unfolding saved by (rule only_enrols_rows(2)) (simp_all add: registered_def)
  with learnerFor_enrols [OF run1] show ?thesis by (rule only_enrols_trans)
qed

lemma registerRows_enrol:
  "foldE (registerRow e inst t) rows run = Inr run' \<Longrightarrow> only_enrols inst (rr_db run) (rr_db run')"
  by (erule foldE_invariant [where P = "\<lambda>r. only_enrols inst (rr_db run) (rr_db r)"])
    (auto intro: only_enrols_trans registerRow_enrols)

lemma ingestStudents_enrols:
  assumes "ingestStudents e d auth (Some b) = Inr (run, d')"
  shows "\<exists>a. assertInstitutionCan e d (sg_institutionId b) ''ingest_students'' (Some auth) = Inr a \<and>
    only_enrols (ia_institutionUuid a) d d'"
proof -
  have "\<exists>a. assertInstitutionCan e d (sg_institutionId b) ''ingest_students'' (Some auth) = Inr a \<and>
      foldE (registerRow e (ia_institutionUuid a) (entryDateOf e (sg_entryDate b))) (sg_rows b) (startRun d) = Inr run \<and>
      (\<exists>m. d' = audit_write (governanceActor auth (audit_event_of ''ingest.students'' ''Institution''
        (ia_institutionUuid a) (Some (ia_institutionUuid a)) m)) (rr_db run))"
    using assms unfolding ingestStudents_def
    by (clarsimp simp: err_simps) (rule exI, rule refl)
  then obtain a where a: "assertInstitutionCan e d (sg_institutionId b) ''ingest_students'' (Some auth) = Inr a"
    and run: "foldE (registerRow e (ia_institutionUuid a) (entryDateOf e (sg_entryDate b))) (sg_rows b) (startRun d) = Inr run"
    and d': "\<exists>m. d' = audit_write (governanceActor auth (audit_event_of ''ingest.students'' ''Institution''
      (ia_institutionUuid a) (Some (ia_institutionUuid a)) m)) (rr_db run)" by blast
  have event: "ae_institutionId (audit_row (governanceActor auth (audit_event_of x y i j m))) = j" for x y i j m
    by (simp add: audit_row_def governanceActor_def audit_event_of_def)
  have "only_enrols (ia_institutionUuid a) d (rr_db run)" using registerRows_enrol [OF run] by (simp add: startRun_def)
  moreover have "only_enrols (ia_institutionUuid a) (rr_db run) d'"
    using d' only_enrols_rows(3) [OF event] by (auto simp: audit_write_def)
  ultimately show ?thesis using a only_enrols_trans by blast
qed

lemma ingestResults_frame:
  assumes "ingestResults e d auth body = Inr ((batch, st), d')"
  shows "backgroundJobs d' = backgroundJobs d"
  using assms by (auto simp: ingestResults_def Let_def err_simps split_beta storeBatch_def)

section \<open>The real processors\<close>

lemma processed_upload:
  assumes "processBulkStudentUpload io e job d = Inr (v, d')"
  shows "d' = d \<or> (\<exists>parsed run. parseStudentUpload io (asRecord (jobRequestOf job)) = Inr parsed \<and>
    ingestStudents e d (systemAuth job) (Some (pu_input parsed)) = Inr (run, d'))"
proof (cases "\<not> is_array (getProp (asRecord (jobRequestOf job)) ''rows'') \<and> isMetadataOnlyUpload (asRecord (jobRequestOf job))")
  case True
  with assms show ?thesis by (simp add: processBulkStudentUpload_def Let_def del: toJson.simps)
next
  case False
  then have "processBulkStudentUpload io e job d \<noteq> Inr (v, d') \<or> ?thesis"
    unfolding processBulkStudentUpload_def Let_def if_not_P [OF False]
    by (auto simp: bindE_eq_Inr simp del: toJson.simps)
  with assms show ?thesis by blast
qed

lemma processed_enrols:
  assumes "processBulkStudentUpload io e job d = Inr (v, d')"
  shows "d' = d \<or> (\<exists>parsed a. parseStudentUpload io (asRecord (jobRequestOf job)) = Inr parsed \<and>
    assertInstitutionCan e d (sg_institutionId (pu_input parsed)) ''ingest_students'' (Some (systemAuth job)) = Inr a \<and>
    only_enrols (ia_institutionUuid a) d d')"
proof (rule disjE [OF processed_upload [OF assms]])
  assume "\<exists>parsed run. parseStudentUpload io (asRecord (jobRequestOf job)) = Inr parsed \<and>
    ingestStudents e d (systemAuth job) (Some (pu_input parsed)) = Inr (run, d')"
  then obtain parsed run where parsed: "parseStudentUpload io (asRecord (jobRequestOf job)) = Inr parsed"
    and run: "ingestStudents e d (systemAuth job) (Some (pu_input parsed)) = Inr (run, d')" by blast
  from ingestStudents_enrols [OF run] parsed show ?thesis by blast
qed blast

text \<open>With the jobs of the ingestion service in their place the services meet what the life cycle of jobs asks
  of them: a processor leaves the table of jobs alone.\<close>

lemma processors_ok:
  "backgroundJobs (snd (transactional (processBulkStudentUpload io e job d) d)) = backgroundJobs d"
  "backgroundJobs (snd (transactional (processResultBatchValidation e job d) d)) = backgroundJobs d"
proof -
  have "backgroundJobs d' = backgroundJobs d" if "processBulkStudentUpload io e job d = Inr (v, d')" for v d'
    using processed_enrols [OF that] only_enrols_tables by metis
  then show "backgroundJobs (snd (transactional (processBulkStudentUpload io e job d) d)) = backgroundJobs d"
    by (auto simp: transactional_def split: sum.split)
  have "backgroundJobs d' = backgroundJobs d" if "processResultBatchValidation e job d = Inr (v, d')" for v d'
    using that ingestResults_frame by (fastforce simp: processResultBatchValidation_def err_simps)
  then show "backgroundJobs (snd (transactional (processResultBatchValidation e job d) d)) = backgroundJobs d"
    by (auto simp: transactional_def split: sum.split)
qed

section \<open>What was queued\<close>

lemma queued_upload:
  assumes "createBulkUpload collate e d auth body key = (r, d1)" and "job \<in> set (backgroundJobs d1)"
    and "job \<notin> set (backgroundJobs d)"
  shows "\<exists>ref (a :: institution_authority). resolveBulkUploadInstitutionRef auth body = Inr ref \<and>
    assertInstitutionCan e d ref ''ingest_students'' (Some auth) = Inr a \<and>
    bj_institutionId job = Some (ia_institutionUuid a) \<and>
    bj_payload job = toJson (JObj [(''request'', body), (''requestedBy'', requestedBy auth),
      (''authorityGrantId'', JStr (ia_authorityGrantId a))])"
proof -
  have "d1 \<noteq> d" using assms(2,3) by blast
  with assms(1) obtain ref a where ref: "resolveBulkUploadInstitutionRef auth body = Inr ref"
    and a: "assertInstitutionCan e d ref ''ingest_students'' (Some auth) = Inr a"
    and run: "snd (enqueueJob collate e d (uploadJob e auth a body key)) = d1"
    by (auto simp: createBulkUpload_def after_checks_def err_simps split: sum.splits prod.splits)
  obtain q where "enqueueJob collate e d (uploadJob e auth a body key) = (q, d1)"
    using run by (metis prod.collapse)
  from enqueued_job [OF this assms(2,3)] obtain d0 where "job = newJob e d0 (uploadJob e auth a body key)" by blast
  with ref a show ?thesis by (auto simp: newJob_def uploadJob_def ingestionJob_def plain_job_def)
qed

lemma jobRequestOf_payload:
  "bj_payload job = toJson (JObj [(''request'', body), (''requestedBy'', x), (''authorityGrantId'', y)]) \<Longrightarrow>
     jobRequestOf job = toJson body"
  by (simp add: jobRequestOf_def asRecord_def getProp_def)

lemma parsed_institution:
  assumes "parseStudentUpload io request = Inr parsed"
  shows "stringField request ''institutionId'' = Some (sg_institutionId (pu_input parsed))"
proof -
  have named: "sg_institutionId (pu_input p) = i" if "validateUpload i entry rows fmt name = Inr p" for i entry rows fmt name p
    using that by (auto simp: validateUpload_def registerBody_of_def getProp_def text_of_def split: option.splits if_splits)
  from assms obtain i where i: "stringField request ''institutionId'' = Some i"
    by (auto simp: parseStudentUpload_def err_simps)
  moreover have "\<exists>rows fmt. validateUpload i (stringField request ''entryDate'') rows fmt (stringField request ''fileName'') = Inr parsed"
    using assms i by (auto simp: parseStudentUpload_def Let_def bindE_eq_Inr split: if_splits)
  ultimately show ?thesis using named by blast
qed

lemma institution_of_ref:
  "assertInstitutionCan e d ref p actor = Inr a \<Longrightarrow>
     map_option in_uuid (List.find (institutionWhere ref) (institutions d)) = Some (ia_institutionUuid a)"
  by (auto simp: assertInstitutionCan_def err_simps)

lemma upload_ref:
  assumes "resolveBulkUploadInstitutionRef auth body = Inr ref" and "stringField (asRecord body) ''institutionId'' = Some i"
  shows "ref = i"
  using assms
  by (auto simp: resolveBulkUploadInstitutionRef_def stringField_def asString_def asRecord_def getProp_def Let_def
      split: jval.splits if_splits option.splits)

text \<open>
  Between the two the table of institutions may change: institutions are added, renamed, suspended and activated,
  but none is removed and none changes its identifiers, for which the program has no operation.
\<close>

definition institution_ids :: "db \<Rightarrow> (string \<times> string) list" where
  "institution_ids d = map (\<lambda>i. (in_uuid i, in_institutionId i)) (institutions d)"

lemma same_institution_found:
  assumes "List.find (institutionWhere ref) rows = Some i"
    and "map (\<lambda>i. (in_uuid i, in_institutionId i)) rows' = map (\<lambda>i. (in_uuid i, in_institutionId i)) rows @ added"
  shows "\<exists>j. List.find (institutionWhere ref) rows' = Some j \<and> in_uuid j = in_uuid i"
  using assms
proof (induction rows arbitrary: rows')
  case (Cons x rows)
  then obtain y ys where rows': "rows' = y # ys" "in_uuid y = in_uuid x" "in_institutionId y = in_institutionId x"
    "map (\<lambda>i. (in_uuid i, in_institutionId i)) ys = map (\<lambda>i. (in_uuid i, in_institutionId i)) rows @ added"
    by (cases rows') auto
  then have "institutionWhere ref y = institutionWhere ref x" by (simp add: institutionWhere_def)
  with Cons.IH [OF _ rows'(4)] Cons.prems(1) rows' show ?case by (auto split: if_split_asm)
qed simp

text \<open>C32. The job of an upload stays in the institution of the upload, although it runs with the rights of the
  platform. Whenever it is worked off, on any later database whose institutions kept their identifiers (others may
  have been added, suspended or activated meanwhile), all it does is to append learners, active enrolments at one
  institution and audit events of that institution; every other row of the database stays as it is. That institution
  is the one the job is recorded for, and the sender was allowed to operate it when the upload was accepted. The
  body is one that JSON can hold, as a parsed request body is.\<close>

theorem upload_stays_in_tenant:
  assumes "createBulkUpload collate e d auth body key = (r, d1)" and "toJson body = body"
    and "job \<in> set (backgroundJobs d1)" and "job \<notin> set (backgroundJobs d)"
    and "institution_ids d2 = institution_ids d @ added" and "bj_payload job' = bj_payload job"
    and "processBulkStudentUpload io e2 job' d2 = Inr (v, d3)"
  shows "\<exists>inst. may_operate d auth inst \<and> bj_institutionId job = Some inst \<and> only_enrols inst d2 d3"
proof -
  from queued_upload [OF assms(1,3,4)] obtain ref a where ref: "resolveBulkUploadInstitutionRef auth body = Inr ref"
    and a: "assertInstitutionCan e d ref ''ingest_students'' (Some auth) = Inr a"
    and inst: "bj_institutionId job = Some (ia_institutionUuid a)"
    and "bj_payload job = toJson (JObj [(''request'', body), (''requestedBy'', requestedBy auth),
      (''authorityGrantId'', JStr (ia_authorityGrantId a))])" by blast
  then have request: "jobRequestOf job' = body" using assms(2,6) jobRequestOf_payload by metis
  have may: "may_operate d auth (ia_institutionUuid a)"
    using a assertActor_sound by (auto simp: assertInstitutionCan_def err_simps)
  have "only_enrols (ia_institutionUuid a) d2 d3"
  proof (rule disjE [OF processed_enrols [OF assms(7)]])
    assume "\<exists>parsed b. parseStudentUpload io (asRecord (jobRequestOf job')) = Inr parsed \<and>
      assertInstitutionCan e2 d2 (sg_institutionId (pu_input parsed)) ''ingest_students'' (Some (systemAuth job')) = Inr b \<and>
      only_enrols (ia_institutionUuid b) d2 d3"
    then obtain parsed b where "parseStudentUpload io (asRecord body) = Inr parsed"
      and b: "assertInstitutionCan e2 d2 (sg_institutionId (pu_input parsed)) ''ingest_students'' (Some (systemAuth job')) = Inr b"
      and only: "only_enrols (ia_institutionUuid b) d2 d3" unfolding request by blast
    from upload_ref [OF ref parsed_institution [OF this(1)]] have "ref = sg_institutionId (pu_input parsed)" .
    with institution_of_ref [OF a] institution_of_ref [OF b]
      same_institution_found [of ref "institutions d" _ "institutions d2" added] assms(5)
    have "ia_institutionUuid b = ia_institutionUuid a" unfolding institution_ids_def by fastforce
    with only show ?thesis by simp
  qed simp
  with may inst show ?thesis by blast
qed

text \<open>An upload whose body names no institution is accepted for the institution of the caller's token, and its
  job can never be worked off: the parser looks for the institution in the body only.\<close>

theorem unnamed_upload_never_processed:
  assumes "createBulkUpload collate e d auth body key = (r, d1)" and "toJson body = body"
    and "job \<in> set (backgroundJobs d1)" and "job \<notin> set (backgroundJobs d)"
    and "stringField (asRecord body) ''institutionId'' = None" and "\<not> isMetadataOnlyUpload (asRecord body)"
  shows "processBulkStudentUpload io e2 job d2 = Inl (NonRetryable ''Bulk upload file is missing institutionId.'')"
proof -
  from queued_upload [OF assms(1,3,4)] obtain ref a where
    "bj_payload job = toJson (JObj [(''request'', body), (''requestedBy'', requestedBy auth),
      (''authorityGrantId'', JStr (ia_authorityGrantId (a :: institution_authority)))])" by (elim exE conjE) (rule that)
  then have "jobRequestOf job = body" using assms(2) jobRequestOf_payload by metis
  with assms(5,6) show ?thesis
    by (simp add: processBulkStudentUpload_def parseStudentUpload_def Let_def del: toJson.simps)
qed

section \<open>Queued batches\<close>

lemma queued_batch:
  assumes "queueResultBatchValidation collate e d auth body key = (r, d1)" and "job \<in> set (backgroundJobs d1)"
    and "job \<notin> set (backgroundJobs d)"
  shows "\<exists>b (a :: institution_authority). body = Some b \<and> bj_createdById job = (if au_kind auth = Some API_KEY then None else Some (au_sub auth)) \<and>
    bj_payload job = toJson (JObj [(''request'', resultsJson b), (''requestedBy'', requestedBy auth),
      (''authorityGrantId'', JStr (ia_authorityGrantId a))])"
proof -
  have "d1 \<noteq> d" using assms(2,3) by blast
  with assms(1) obtain b a q where b: "body = Some b" and "enqueueJob collate e d (resultsJob auth a b key) = (q, d1)"
    by (auto simp: queueResultBatchValidation_def after_checks_def err_simps split: sum.splits prod.splits)
  from enqueued_job [OF this(2) assms(2,3)] obtain d0 where "job = newJob e d0 (resultsJob auth a b key)" by blast
  then have "bj_createdById job = (if au_kind auth = Some API_KEY then None else Some (au_sub auth))"
    "bj_payload job = toJson (JObj [(''request'', resultsJson b), (''requestedBy'', requestedBy auth),
      (''authorityGrantId'', JStr (ia_authorityGrantId a))])"
    by (simp_all add: newJob_def resultsJob_def ingestionJob_def plain_job_def del: toJson.simps)
  with b show ?thesis by blast
qed

text \<open>A batch that an API client queues is accepted and its job never succeeds: the worker acts as a person
  under its own name, and the creator of the batch, which the schema wants to be a UUID, would have to be that
  name.\<close>

theorem api_batch_never_processed:
  assumes "queueResultBatchValidation collate e d auth body key = (r, d1)" and "au_kind auth = Some API_KEY"
    and "job \<in> set (backgroundJobs d1)" and "job \<notin> set (backgroundJobs d)" and "\<not> zod_uuid e2 ''acadid-worker''"
  shows "\<exists>err. processResultBatchValidation e2 job d2 = Inl err"
proof -
  have "bj_createdById job = None" using queued_batch [OF assms(1,3,4)] assms(2) by auto
  then have "au_sub (systemAuth job) = ''acadid-worker''" "au_kind (systemAuth job) = Some USER"
    by (simp_all add: systemAuth_def)
  with assms(5) have "ingestResults e2 d2 (systemAuth job) b \<noteq> Inr x" for b x
    by (auto simp: ingestResults_def Let_def err_simps ingestResultBatch_ok_def opt_ok_def)
  then show ?thesis
    by (cases "ingestResults e2 d2 (systemAuth job) (resultsBody_of (jobRequestOf job))")
      (auto simp: processResultBatchValidation_def)
qed

section \<open>A register as a file\<close>

definition register_header :: "string list" where
  "register_header = [''Full name'', ''Date of birth'', ''Student number'', ''Level'', ''Programme'', ''Phone'']"

definition register_cells :: "register_row \<Rightarrow> string list" where
  "register_cells r = [sr_fullName r, sr_dateOfBirth r, sr_studentNumber r, sr_level r, sr_programme r, getOr (sr_phone r) []]"

definition register_csv :: "register_row list \<Rightarrow> string" where
  "register_csv rows = csv_text (map (map (Pair True)) (register_header # map register_cells rows))"

text \<open>A row whose cells neither begin nor end with white space, which the parser would cut off, and the row
  that is read back for it: a file has no missing cells, so a missing phone comes back as an empty one.\<close>

definition tidy_row :: "register_row \<Rightarrow> bool" where
  "tidy_row r \<longleftrightarrow> list_all (\<lambda>s. trim s = s) (register_cells r) \<and> sr_fullName r \<noteq> []"

definition read_back :: "register_row \<Rightarrow> register_row" where
  "read_back r = r\<lparr>sr_phone := Some (getOr (sr_phone r) [])\<rparr>"

lemma headers_known: "map normaliseHeader register_header =
    [''full_name'', ''date_of_birth'', ''student_number'', ''level'', ''programme'', ''phone'']"
  by code_simp

lemma mapped_row:
  assumes "tidy_row r"
  shows "registerRow_of (mapRecord (map normaliseHeader register_header) (register_cells r)) = Some (read_back r)"
  using assms unfolding headers_known
  by (cases r) (simp add: mapRecord_def register_cells_def cell_at_def headerMap_def tidy_row_def registerRow_of_def
      getProp_def text_of_def optional_def read_back_def)

lemma all_some_map: "(\<And>x. x \<in> set xs \<Longrightarrow> f (g x) = Some (h x)) \<Longrightarrow> all_some f (map g xs) = Some (map h xs)"
  by (induction xs) simp_all

lemma parsed_csv:
  assumes "rows \<noteq> []" and "list_all tidy_row rows"
  shows "parseCsv (register_csv rows) =
    Inr (map (\<lambda>r. mapRecord (map normaliseHeader register_header) (register_cells r)) rows)"
proof -
  have written: "written (map (Pair True) (register_cells r))" if "tidy_row r" for r
    using that by (auto simp: written_def writable_def tidy_row_def register_cells_def)
  moreover have "written (map (Pair True) register_header)" by code_simp
  ultimately have "list_all written (map (map (Pair True)) (register_header # map register_cells rows))"
    using assms(2) by (auto simp: list_all_iff)
  from csv_table_roundtrip [OF _ this] have records: "csvRecords (register_csv rows) = register_header # map register_cells rows"
    by (simp add: register_csv_def comp_def)
  have "\<not> blank (register_cells r)" if "tidy_row r" for r
    using that by (auto simp: blank_def tidy_row_def register_cells_def)
  then have "filter (\<lambda>r. \<not> blank r) (map register_cells rows) = map register_cells rows"
    using assms(2) by (auto simp: list_all_iff filter_map comp_def filter_id_conv)
  with records assms(1) show ?thesis by (cases rows) (simp_all add: parseCsv_def comp_def)
qed

text \<open>C33. A register written as a CSV file, with every cell quoted, comes out of the upload parser as the
  register it was: the header of the file is recognised, every row becomes the row of the register, and the schema
  accepts them. Two things do not survive, and the statement has them: cells must not begin or end with white space,
  and a row without a phone comes back with an empty one.\<close>

theorem csv_upload_roundtrip:
  assumes "ingestStudentRegister_ok b" and "list_all (\<lambda>r. \<forall>s \<in> set (register_cells r). trim s = s) (sg_rows b)"
    and "stringField request ''institutionId'' = Some (sg_institutionId b)"
    and "stringField request ''entryDate'' = sg_entryDate b"
    and "stringField request ''csvText'' = Some (register_csv (sg_rows b))"
    and "inlineRows request = []" and "detectFormat request (stringField request ''fileName'') = ''csv''"
  shows "parseStudentUpload io request = Inr \<lparr>pu_input = b\<lparr>sg_rows := map read_back (sg_rows b)\<rparr>,
    pu_format = ''csv'', pu_fileName = stringField request ''fileName'', pu_rowCount = length (sg_rows b)\<rparr>"
proof -
  let ?rows = "map (\<lambda>r. mapRecord (map normaliseHeader register_header) (register_cells r)) (sg_rows b)"
  let ?b = "b\<lparr>sg_rows := map read_back (sg_rows b)\<rparr>"
  have tidy: "list_all tidy_row (sg_rows b)"
    using assms(1,2) by (auto simp: tidy_row_def list_all_iff ingestStudentRegister_ok_def studentRegisterRow_ok_def)
  have ok: "ingestStudentRegister_ok ?b"
    using assms(1) by (auto simp: ingestStudentRegister_ok_def studentRegisterRow_ok_def list_all_iff read_back_def)
  have "sg_rows b \<noteq> []" using assms(1) by (auto simp: ingestStudentRegister_ok_def)
  from parsed_csv [OF this tidy] have csv: "parseCsv (register_csv (sg_rows b)) = Inr ?rows" .
  have "all_some registerRow_of ?rows = Some (map read_back (sg_rows b))"
    using tidy by (intro all_some_map mapped_row) (simp add: list_all_iff)
  then have "validateUpload (sg_institutionId b) (sg_entryDate b) ?rows ''csv'' name =
      Inr \<lparr>pu_input = ?b, pu_format = ''csv'', pu_fileName = name, pu_rowCount = length (sg_rows b)\<rparr>" for name
    using ok by (cases "sg_entryDate b"; cases b)
      (simp_all add: validateUpload_def registerBody_of_def getProp_def text_of_def optional_def array_of_def jstr_def
        ingestStudentRegister_ok_def)
  with assms(3-7) csv show ?thesis
    by (simp add: parseStudentUpload_def readUploadContent_def content_text_def Let_def)
qed

section \<open>Assigned scopes\<close>

text \<open>An officer whose scope is one subject, and a batch of another subject.\<close>

definition officer :: auth_token where
  "officer = registrar\<lparr>au_role := DATA_ENTRY_OFFICER, au_assignedScopes := JArr [JObj [(''subjectCode'', JStr ''ENG'')]]\<rparr>"

definition officer_db :: db where
  "officer_db = sample_db\<lparr>institutionUsers := map (iu_role_update (\<lambda>_. DATA_ENTRY_OFFICER)) (institutionUsers sample_db)\<rparr>"

definition other_subject :: results_body where
  "other_subject = two_courses\<lparr>ib_createdById := Some ''reg'', ib_structureScopeId := None, ib_rows := [course 72]\<rparr>"

definition officer_authority :: institution_authority where
  "officer_authority = \<lparr>ia_institutionUuid = school, ia_institutionId = ''ACD-1'', ia_authorityGrantId = ''g1''\<rparr>"

definition officer_job :: background_job where
  "officer_job = newJob sample_env officer_db (resultsJob officer officer_authority other_subject (Some ''batch-key-1''))"

lemma job_parts:
  assumes "bj_createdById job = bj_createdById job'" and "bj_payload job = bj_payload job'"
  shows "systemAuth job = systemAuth job'" and "jobRequestOf job = jobRequestOf job'"
  using assms by (simp_all add: systemAuth_def jobRequestOf_def)

lemma processing_depends:
  "bj_createdById job = bj_createdById job' \<Longrightarrow> bj_payload job = bj_payload job' \<Longrightarrow>
     processResultBatchValidation e job d = processResultBatchValidation e job' d"
  unfolding processResultBatchValidation_def using job_parts [of job job'] by simp

lemma officer_checks:
  "bindE (safeParse (ingestResultBatch_ok sample_env) (Some other_subject)) (\<lambda>parsed.
   bindE (assertInstitutionCan sample_env officer_db (ib_institutionId parsed) ''ingest_results'' (Some officer)) (\<lambda>authority.
   bindE (assertBatchScopeBelongsToInstitution officer_db (ia_institutionUuid authority) (ib_academicSessionId parsed)
     (ib_structureScopeId parsed)) (\<lambda>_.
   bindE (assertActorAssignedScope officer_db officer (ia_institutionUuid authority) (ib_structureScopeId parsed) None) (\<lambda>_.
   Inr (parsed, authority))))) = Inr (other_subject, officer_authority)"
  by code_simp

text \<open>The queue is a way around the assigned scopes: what an officer of one subject may not store directly is
  accepted for the queue, where only a named structure is compared with the scopes, and the worker stores it with
  the rights of the platform.\<close>

theorem queued_batch_escapes_scope:
  "ingestResults sample_env officer_db officer (Some other_subject) =
     Inl (Forbidden ''User is not assigned to this academic scope.'') \<and>
   (\<exists>v d1 job w d2.
      queueResultBatchValidation (\<lambda>s. s) sample_env officer_db officer (Some other_subject) (Some ''batch-key-1'') = (Inr v, d1) \<and>
      job \<in> set (backgroundJobs d1) \<and> processResultBatchValidation sample_env job officer_db = Inr (w, d2) \<and>
      map ar_subjectCode (academicRecords d2) = [''MTH''])"
proof
  show "ingestResults sample_env officer_db officer (Some other_subject) =
      Inl (Forbidden ''User is not assigned to this academic scope.'')"
    by code_simp
  let ?job = "resultsJob officer officer_authority other_subject (Some ''batch-key-1'')"
  have key: "normaliseKey ''batch-key-1'' = Inr ''batch-key-1''" by code_simp
  have "ej_idempotencyKey ?job = Some ''batch-key-1''" by (simp add: resultsJob_def ingestionJob_def)
  moreover have "idempotencyRecords officer_db = []" by (simp add: officer_db_def sample_db_def empty_db_def)
  ultimately obtain v d1 d0 where run: "enqueueJob (\<lambda>s. s) sample_env officer_db ?job = (Inr v, d1)"
    and job: "newJob sample_env d0 ?job \<in> set (backgroundJobs d1)"
    using first_keyed [OF key, of ?job officer_db "\<lambda>s. s" sample_env] by auto
  have "\<exists>w d2. processResultBatchValidation sample_env officer_job officer_db = Inr (w, d2) \<and>
      map ar_subjectCode (academicRecords d2) = [''MTH'']"
  proof -
    have "case processResultBatchValidation sample_env officer_job officer_db of
        Inl _ \<Rightarrow> False | Inr (w, d2) \<Rightarrow> map ar_subjectCode (academicRecords d2) = [''MTH'']"
      by code_simp
    then show ?thesis by (auto split: sum.splits)
  qed
  moreover have "processResultBatchValidation sample_env (newJob sample_env d0 ?job) officer_db =
      processResultBatchValidation sample_env officer_job officer_db"
    unfolding officer_job_def by (rule processing_depends) (rule newJob_same)+
  moreover have "\<exists>v. queueResultBatchValidation (\<lambda>s. s) sample_env officer_db officer (Some other_subject) (Some ''batch-key-1'') =
      (Inr v, d1)"
    unfolding queueResultBatchValidation_def after_checks_def officer_checks by (simp add: run)
  ultimately show "\<exists>v d1 job w d2.
      queueResultBatchValidation (\<lambda>s. s) sample_env officer_db officer (Some other_subject) (Some ''batch-key-1'') = (Inr v, d1) \<and>
      job \<in> set (backgroundJobs d1) \<and> processResultBatchValidation sample_env job officer_db = Inr (w, d2) \<and>
      map ar_subjectCode (academicRecords d2) = [''MTH'']"
    using job by metis
qed

section \<open>Witnesses\<close>

definition no_io :: upload_io where
  "no_io = \<lparr>uo_base64 = (\<lambda>_. []), uo_path = (\<lambda>_. Inl NotFound), uo_exists = (\<lambda>_. False), uo_read = (\<lambda>_. Inl NotFound),
     uo_object = None, uo_fetch = (\<lambda>_. Inl NotFound), uo_sheet = (\<lambda>_. Inl NotFound), uo_dateText = (\<lambda>_. [])\<rparr>"

lemma first_upload_job:
  assumes "bindE (resolveBulkUploadInstitutionRef auth body)
      (\<lambda>ref. assertInstitutionCan sample_env d ref ''ingest_students'' (Some auth)) = Inr officer_authority"
    and "idempotencyRecords d = []"
  shows "\<exists>v d1 d0. createBulkUpload (\<lambda>s. s) sample_env d auth body (Some ''upload-key-1'') = (Inr v, d1) \<and>
    newJob sample_env d0 (uploadJob sample_env auth officer_authority body (Some ''upload-key-1'')) \<in> set (backgroundJobs d1)"
proof -
  have key: "normaliseKey ''upload-key-1'' = Inr ''upload-key-1''" by code_simp
  obtain v d1 d0 where run: "enqueueJob (\<lambda>s. s) sample_env d
      (uploadJob sample_env auth officer_authority body (Some ''upload-key-1'')) = (Inr v, d1)"
    and job: "newJob sample_env d0 (uploadJob sample_env auth officer_authority body (Some ''upload-key-1''))
      \<in> set (backgroundJobs d1)"
    using first_keyed [OF key _ uploadJob_key assms(2), where collate = "\<lambda>s. s" and e = sample_env] by force
  obtain w where "createBulkUpload (\<lambda>s. s) sample_env d auth body (Some ''upload-key-1'') = (Inr w, d1)"
    unfolding createBulkUpload_def after_checks_def assms(1) by (simp add: run)
  with job show ?thesis by blast
qed

definition inline_upload :: jval where
  "inline_upload = JObj [(''institutionId'', JStr ''ACD-1''), (''rows'', JArr [JObj [(''fullName'', JStr ''Bola''),
     (''dateOfBirth'', JStr ''2012-02-29''), (''studentNumber'', JStr ''008''), (''level'', JStr ''JSS1''),
     (''programme'', JStr ''Junior'')]])]"

lemma bulk_depends:
  "bj_createdById job = bj_createdById job' \<Longrightarrow> bj_payload job = bj_payload job' \<Longrightarrow>
     processBulkStudentUpload io e job d = processBulkStudentUpload io e job' d"
  unfolding processBulkStudentUpload_def by (simp only: job_parts [of job job'])

theorem upload_stays_in_tenant_witness:
  "\<exists>job v d3. processBulkStudentUpload no_io sample_env job sample_db = Inr (v, d3) \<and> bj_institutionId job = Some school \<and>
     only_enrols school sample_db d3 \<and> length (enrolments d3) = 2"
proof -
  let ?input = "uploadJob sample_env founder officer_authority inline_upload (Some ''upload-key-1'')"
  have checks: "bindE (resolveBulkUploadInstitutionRef founder inline_upload)
      (\<lambda>ref. assertInstitutionCan sample_env sample_db ref ''ingest_students'' (Some founder)) = Inr officer_authority"
    by code_simp
  have none: "idempotencyRecords sample_db = []" "backgroundJobs sample_db = []" by (simp_all add: sample_db_def empty_db_def)
  obtain v d1 d0 where queued: "createBulkUpload (\<lambda>s. s) sample_env sample_db founder inline_upload (Some ''upload-key-1'') = (Inr v, d1)"
    and job: "newJob sample_env d0 ?input \<in> set (backgroundJobs d1)"
    using first_upload_job [OF checks none(1)] by blast
  have "case processBulkStudentUpload no_io sample_env (newJob sample_env sample_db ?input) sample_db of
      Inl _ \<Rightarrow> False | Inr (w, d3) \<Rightarrow> length (enrolments d3) = 2"
    by code_simp
  moreover have "processBulkStudentUpload no_io sample_env (newJob sample_env d0 ?input) sample_db =
      processBulkStudentUpload no_io sample_env (newJob sample_env sample_db ?input) sample_db"
    by (rule bulk_depends) (rule newJob_same)+
  ultimately obtain w d3 where run: "processBulkStudentUpload no_io sample_env (newJob sample_env d0 ?input) sample_db = Inr (w, d3)"
    and two: "length (enrolments d3) = 2" by (auto split: sum.splits)
  have json: "toJson inline_upload = inline_upload" by code_simp
  have inst: "bj_institutionId (newJob sample_env d0 ?input) = Some school"
    by (simp add: newJob_def uploadJob_def ingestionJob_def plain_job_def officer_authority_def)
  have "newJob sample_env d0 ?input \<notin> set (backgroundJobs sample_db)" by (simp add: none)
  from upload_stays_in_tenant [OF queued json job this _ refl run, of "[]"] inst have "only_enrols school sample_db d3" by simp
  with run two inst show ?thesis by blast
qed

theorem csv_upload_roundtrip_witness:
  "case parseStudentUpload no_io [(''institutionId'', JStr ''ACD-1''), (''csvText'', JStr (register_csv
      [\<lparr>sr_fullName = ''Okafor, Ada'', sr_dateOfBirth = ''2012-02-29'', sr_studentNumber = ''008'', sr_level = ''JSS1'',
        sr_programme = ''Junior'', sr_phone = None\<rparr>]))] of
     Inl _ \<Rightarrow> False
   | Inr p \<Rightarrow> map sr_fullName (sg_rows (pu_input p)) = [''Okafor, Ada''] \<and> map sr_phone (sg_rows (pu_input p)) = [Some []]"
proof -
  let ?row = "\<lparr>sr_fullName = ''Okafor, Ada'', sr_dateOfBirth = ''2012-02-29'', sr_studentNumber = ''008'', sr_level = ''JSS1'',
      sr_programme = ''Junior'', sr_phone = None\<rparr> :: register_row"
  let ?b = "\<lparr>sg_institutionId = ''ACD-1'', sg_entryDate = None, sg_rows = [?row]\<rparr>"
  let ?request = "[(''institutionId'', JStr ''ACD-1''), (''csvText'', JStr (register_csv [?row]))]"
  have ok: "ingestStudentRegister_ok ?b" by code_simp
  have tidy: "list_all (\<lambda>r. \<forall>s \<in> set (register_cells r). trim s = s) (sg_rows ?b)" by code_simp
  have fields: "stringField ?request ''institutionId'' = Some (sg_institutionId ?b)"
    "stringField ?request ''entryDate'' = sg_entryDate ?b"
    "stringField ?request ''csvText'' = Some (register_csv (sg_rows ?b))" "inlineRows ?request = []"
    "detectFormat ?request (stringField ?request ''fileName'') = ''csv''"
    by code_simp+
  show ?thesis unfolding csv_upload_roundtrip [OF ok tidy fields] by (simp add: read_back_def)
qed

end
