(* ===== verification/Cache.thy ===== *)
theory Cache
  imports Token ResultBatches
begin

text \<open>
  \<open>platform/services/cache.service.ts\<close>: the cache of one process, a \<open>Map\<close> of entries with an index from tags
  to keys, in front of an optional remote store that the processes share, and the adapter that drives such a
  store over HTTP. \<open>Map\<close>s are association lists in insertion order and \<open>Set\<close>s are lists without duplicates.
  Calls of the remote store that nobody awaits run to their end in the order in which they are made, and their
  failures are ignored, as the code ignores them. One operation runs at one instant \<open>t\<close>.
\<close>

section \<open>Maps and sets\<close>

definition drop_key :: "string \<Rightarrow> (string \<times> 'a) list \<Rightarrow> (string \<times> 'a) list" where
  "drop_key k xs = filter (\<lambda>p. fst p \<noteq> k) xs"

definition set_add :: "'a \<Rightarrow> 'a list \<Rightarrow> 'a list" where
  "set_add x xs = (if x \<in> set xs then xs else xs @ [x])"

lemma map_of_drop_key [simp]: "map_of (drop_key k xs) = (map_of xs)(k := None)"
  by (induction xs) (auto simp: drop_key_def)

lemma keys_drop_key: "map fst (drop_key k xs) = filter (\<lambda>x. x \<noteq> k) (map fst xs)"
  by (induction xs) (auto simp: drop_key_def)

lemma set_set_add [simp]: "set (set_add x xs) = insert x (set xs)"
  by (auto simp: set_add_def)

lemma distinct_set_add [simp]: "distinct (set_add x xs) = distinct xs"
  by (auto simp: set_add_def)

section \<open>State\<close>

record 'v cache_entry =
  ce_value :: 'v
  ce_expiresAt :: int
  ce_tags :: "string list"

record cache_metrics =
  cm_localHits :: int
  cm_localMisses :: int
  cm_remoteHits :: int
  cm_remoteMisses :: int
  cm_loads :: int
  cm_sets :: int
  cm_deletes :: int
  cm_tagInvalidations :: int
  cm_prefixInvalidations :: int

record 'v cache =
  ca_entries :: "(string \<times> 'v cache_entry) list"
  ca_tagIndex :: "(string \<times> string list) list"
  ca_metrics :: cache_metrics

definition new_cache :: "'v cache" where
  "new_cache = \<lparr>ca_entries = [], ca_tagIndex = [],
     ca_metrics = \<lparr>cm_localHits = 0, cm_localMisses = 0, cm_remoteHits = 0, cm_remoteMisses = 0, cm_loads = 0,
       cm_sets = 0, cm_deletes = 0, cm_tagInvalidations = 0, cm_prefixInvalidations = 0\<rparr>\<rparr>"

definition count :: "(cache_metrics \<Rightarrow> cache_metrics) \<Rightarrow> 'v cache \<Rightarrow> 'v cache" where
  "count f c = c\<lparr>ca_metrics := f (ca_metrics c)\<rparr>"

text \<open>The remote adapter works on a store of its own, whose type is a parameter: reading answers a record, nothing or
  an exception, and the other calls leave the store as they leave it, whether they succeed or not.\<close>

record ('v, 'r) remote =
  rm_name :: string
  rm_get :: "string \<Rightarrow> 'r \<Rightarrow> 'v cache_entry option res \<times> 'r"
  rm_set :: "string \<Rightarrow> 'v cache_entry \<Rightarrow> int \<Rightarrow> 'r \<Rightarrow> 'r"
  rm_delete :: "string \<Rightarrow> 'r \<Rightarrow> 'r"
  rm_invalidateTag :: "string \<Rightarrow> 'r \<Rightarrow> 'r"
  rm_invalidatePrefix :: "string \<Rightarrow> 'r \<Rightarrow> 'r"
  rm_clear :: "'r \<Rightarrow> 'r"

definition tell :: "('v, 'r) remote option \<Rightarrow> (('v, 'r) remote \<Rightarrow> 'r \<Rightarrow> 'r) \<Rightarrow> 'r \<Rightarrow> 'r" where
  "tell rm f r = (case rm of None \<Rightarrow> r | Some a \<Rightarrow> f a r)"

section \<open>The entries of the process\<close>

definition index_add :: "string \<Rightarrow> string \<Rightarrow> (string \<times> string list) list \<Rightarrow> (string \<times> string list) list" where
  "index_add key tag index = set_prop tag (set_add key (getOr (map_of index tag) [])) index"

definition index_remove :: "string \<Rightarrow> string \<Rightarrow> (string \<times> string list) list \<Rightarrow> (string \<times> string list) list" where
  "index_remove key tag index =
     (case map_of index tag of
        None \<Rightarrow> index
      | Some keys \<Rightarrow>
          (let keys' = removeAll key keys in if keys' = [] then drop_key tag index else set_prop tag keys' index))"

definition deleteLocal :: "string \<Rightarrow> 'v cache \<Rightarrow> bool \<times> 'v cache" where
  "deleteLocal key c =
     (case map_of (ca_entries c) key of
        None \<Rightarrow> (False, c)
      | Some entry \<Rightarrow>
          (True, c\<lparr>ca_entries := drop_key key (ca_entries c),
             ca_tagIndex := fold (index_remove key) (ce_tags entry) (ca_tagIndex c)\<rparr>))"

definition setLocal :: "int \<Rightarrow> string \<Rightarrow> 'v \<Rightarrow> int \<Rightarrow> string list \<Rightarrow> int option \<Rightarrow> 'v cache \<Rightarrow> string list \<times> 'v cache" where
  "setLocal t key value ttlSeconds tagList expiresAt c =
     (let c1 = snd (deleteLocal key c);
          tags = first_occurrences tagList;
          entry = \<lparr>ce_value = value, ce_expiresAt = getOr expiresAt (t + ttlSeconds * 1000), ce_tags = tags\<rparr>
      in (tags, c1\<lparr>ca_entries := set_prop key entry (ca_entries c1),
           ca_tagIndex := fold (index_add key) tags (ca_tagIndex c1)\<rparr>))"

section \<open>Operations\<close>

text \<open>Only an entry that the process itself holds is deleted from the remote store.\<close>

definition cacheDelete :: "('v, 'r) remote option \<Rightarrow> string \<Rightarrow> 'v cache \<times> 'r \<Rightarrow> 'v cache \<times> 'r" where
  "cacheDelete rm key = (\<lambda>(c, r).
     case deleteLocal key c of
       (False, c') \<Rightarrow> (c', r)
     | (True, c') \<Rightarrow> (count (\<lambda>m. m\<lparr>cm_deletes := cm_deletes m + 1\<rparr>) c', tell rm (\<lambda>a. rm_delete a key) r))"

definition cacheGet :: "('v, 'r) remote option \<Rightarrow> int \<Rightarrow> string \<Rightarrow> 'v cache \<times> 'r \<Rightarrow> 'v option \<times> 'v cache \<times> 'r" where
  "cacheGet rm t key = (\<lambda>(c, r).
     case map_of (ca_entries c) key of
       None \<Rightarrow> (None, count (\<lambda>m. m\<lparr>cm_localMisses := cm_localMisses m + 1\<rparr>) c, r)
     | Some entry \<Rightarrow>
         (if ce_expiresAt entry \<le> t then
            (let (c', r') = cacheDelete rm key (c, r)
             in (None, count (\<lambda>m. m\<lparr>cm_localMisses := cm_localMisses m + 1\<rparr>) c', r'))
          else (Some (ce_value entry), count (\<lambda>m. m\<lparr>cm_localHits := cm_localHits m + 1\<rparr>) c, r)))"

definition cacheSet ::
    "('v, 'r) remote option \<Rightarrow> int \<Rightarrow> string \<Rightarrow> 'v \<Rightarrow> int \<Rightarrow> string list \<Rightarrow> 'v cache \<times> 'r \<Rightarrow> 'v cache \<times> 'r" where
  "cacheSet rm t key value ttlSeconds tagList = (\<lambda>(c, r).
     if ttlSeconds \<le> 0 then (c, r)
     else
       (let expiresAt = t + ttlSeconds * 1000;
            (tags, c') = setLocal t key value ttlSeconds tagList (Some expiresAt)
              (count (\<lambda>m. m\<lparr>cm_sets := cm_sets m + 1\<rparr>) c)
        in (c', tell rm (\<lambda>a. rm_set a key \<lparr>ce_value = value, ce_expiresAt = expiresAt, ce_tags = tags\<rparr> ttlSeconds) r)))"

definition invalidateTag :: "('v, 'r) remote option \<Rightarrow> string \<Rightarrow> 'v cache \<times> 'r \<Rightarrow> 'v cache \<times> 'r" where
  "invalidateTag rm tag = (\<lambda>(c, r).
     let c1 = count (\<lambda>m. m\<lparr>cm_tagInvalidations := cm_tagInvalidations m + 1\<rparr>) c;
         keys = getOr (map_of (ca_tagIndex c1) tag) []
     in (fold (\<lambda>key c. snd (deleteLocal key c)) keys c1, tell rm (\<lambda>a. rm_invalidateTag a tag) r))"

definition invalidatePrefix :: "('v, 'r) remote option \<Rightarrow> string \<Rightarrow> 'v cache \<times> 'r \<Rightarrow> 'v cache \<times> 'r" where
  "invalidatePrefix rm pre = (\<lambda>(c, r).
     let c1 = count (\<lambda>m. m\<lparr>cm_prefixInvalidations := cm_prefixInvalidations m + 1\<rparr>) c;
         keys = filter (\<lambda>key. startsWith key pre) (map fst (ca_entries c1))
     in (fold (\<lambda>key c. snd (deleteLocal key c)) keys c1, tell rm (\<lambda>a. rm_invalidatePrefix a pre) r))"

definition cacheClear :: "('v, 'r) remote option \<Rightarrow> 'v cache \<times> 'r \<Rightarrow> 'v cache \<times> 'r" where
  "cacheClear rm = (\<lambda>(c, r).
     (count (\<lambda>m. m\<lparr>cm_deletes := cm_deletes m + 1\<rparr>) (c\<lparr>ca_entries := [], ca_tagIndex := []\<rparr>), tell rm rm_clear r))"

definition getRemote :: "('v, 'r) remote option \<Rightarrow> int \<Rightarrow> string \<Rightarrow> 'v cache \<times> 'r \<Rightarrow> 'v cache_entry option \<times> 'v cache \<times> 'r" where
  "getRemote rm t key = (\<lambda>(c, r).
     case rm of
       None \<Rightarrow> (None, c, r)
     | Some a \<Rightarrow>
         (let miss = count (\<lambda>m. m\<lparr>cm_remoteMisses := cm_remoteMisses m + 1\<rparr>) in
          case rm_get a key r of
            (Inl err, r') \<Rightarrow> (None, miss c, r')
          | (Inr None, r') \<Rightarrow> (None, miss c, r')
          | (Inr (Some entry), r') \<Rightarrow>
              (if ce_expiresAt entry \<le> t then (None, miss c, rm_delete a key r')
               else (Some entry, count (\<lambda>m. m\<lparr>cm_remoteHits := cm_remoteHits m + 1\<rparr>) c, r'))))"

text \<open>\<open>Math.max(1, Math.ceil((expiresAt - Date.now()) / 1000))\<close>\<close>

definition remaining_seconds :: "int \<Rightarrow> int \<Rightarrow> int" where
  "remaining_seconds t expiresAt = max 1 ((expiresAt - t + 999) div 1000)"

text \<open>\<open>getOrSet\<close> up to the call of the loader, and what follows when the loader has answered: between the two the
  process serves other requests.\<close>

definition cachedValue :: "('v, 'r) remote option \<Rightarrow> int \<Rightarrow> string \<Rightarrow> 'v cache \<times> 'r \<Rightarrow> 'v option \<times> 'v cache \<times> 'r" where
  "cachedValue rm t key s =
     (case cacheGet rm t key s of
        (Some v, s1) \<Rightarrow> (Some v, s1)
      | (None, s1) \<Rightarrow>
          (case getRemote rm t key s1 of
             (Some entry, c, r) \<Rightarrow>
               (Some (ce_value entry),
                snd (setLocal t key (ce_value entry) (remaining_seconds t (ce_expiresAt entry)) (ce_tags entry) None c), r)
           | (None, c, r) \<Rightarrow> (None, count (\<lambda>m. m\<lparr>cm_loads := cm_loads m + 1\<rparr>) c, r)))"

definition getOrSet ::
    "('v, 'r) remote option \<Rightarrow> int \<Rightarrow> int \<Rightarrow> string \<Rightarrow> 'v res \<Rightarrow> int \<Rightarrow> string list \<Rightarrow> 'v cache \<times> 'r \<Rightarrow> 'v res \<times> 'v cache \<times> 'r" where
  "getOrSet rm t t' key loader ttlSeconds tagList s =
     (case cachedValue rm t key s of
        (Some v, s1) \<Rightarrow> (Inr v, s1)
      | (None, s1) \<Rightarrow>
          (case loader of Inl err \<Rightarrow> (Inl err, s1) | Inr v \<Rightarrow> (Inr v, cacheSet rm t' key v ttlSeconds tagList s1)))"

section \<open>Figures\<close>

definition totalHits :: "cache_metrics \<Rightarrow> int" where
  "totalHits m = cm_localHits m + cm_remoteHits m"

definition totalMisses :: "cache_metrics \<Rightarrow> int" where
  "totalMisses m = cm_localMisses m + cm_remoteMisses m"

definition hitRate :: "cache_metrics \<Rightarrow> rat" where
  "hitRate m =
     (if totalHits m + totalMisses m > 0
      then round_to (of_int (totalHits m) / of_int (totalHits m + totalMisses m) * 100) 2 else 0)"

record cache_stats =
  cs_entries :: nat
  cs_tags :: nat
  cs_adapter :: string
  cs_distributedConfigured :: bool
  cs_metrics :: cache_metrics
  cs_totalHits :: int
  cs_totalMisses :: int
  cs_hitRate :: rat

definition cacheStats :: "('v, 'r) remote option \<Rightarrow> 'v cache \<Rightarrow> cache_stats" where
  "cacheStats rm c =
     (let m = ca_metrics c in
      \<lparr>cs_entries = length (ca_entries c), cs_tags = length (ca_tagIndex c),
       cs_adapter = getOr (map_option rm_name rm) ''memory'', cs_distributedConfigured = (rm \<noteq> None),
       cs_metrics = m, cs_totalHits = totalHits m, cs_totalMisses = totalMisses m, cs_hitRate = hitRate m\<rparr>)"

section \<open>The index mirrors the entries\<close>

definition holders :: "(string \<times> 'v cache_entry) list \<Rightarrow> string \<Rightarrow> string list" where
  "holders entries tag = map fst (filter (\<lambda>p. tag \<in> set (ce_tags (snd p))) entries)"

definition index_wf :: "(string \<times> string list) list \<Rightarrow> bool" where
  "index_wf index \<longleftrightarrow> distinct (map fst index) \<and> list_all (\<lambda>p. snd p \<noteq> [] \<and> distinct (snd p)) index"

definition indexed :: "(string \<times> string list) list \<Rightarrow> string \<Rightarrow> string set" where
  "indexed index tag = set (getOr (map_of index tag) [])"

definition cache_ok :: "'v cache \<Rightarrow> bool" where
  "cache_ok c \<longleftrightarrow> distinct (map fst (ca_entries c)) \<and> index_wf (ca_tagIndex c) \<and>
     (\<forall>tag. indexed (ca_tagIndex c) tag = set (holders (ca_entries c) tag))"

lemma in_set_prop: "(k', v') \<in> set (set_prop k v xs) \<Longrightarrow> (k', v') = (k, v) \<or> (k', v') \<in> set xs"
  by (induction xs) (auto split: if_splits)

lemma index_wf_set_prop: "index_wf index \<Longrightarrow> keys \<noteq> [] \<Longrightarrow> distinct keys \<Longrightarrow> index_wf (set_prop tag keys index)"
  by (auto simp: index_wf_def distinct_set_prop list_all_iff dest: in_set_prop)

lemma index_wf_drop: "index_wf index \<Longrightarrow> index_wf (drop_key tag index)"
  by (auto simp: index_wf_def keys_drop_key list_all_iff) (auto simp: drop_key_def)

lemma index_wf_get: "index_wf index \<Longrightarrow> map_of index tag = Some keys \<Longrightarrow> keys \<noteq> [] \<and> distinct keys"
  by (auto simp: index_wf_def list_all_iff dest!: map_of_SomeD)

lemma index_add_effect:
  "index_wf index \<Longrightarrow> index_wf (index_add key tag index)"
  "indexed (index_add key tag index) t = indexed index t \<union> (if t = tag then {key} else {})"
proof -
  show "index_wf (index_add key tag index)" if "index_wf index"
    unfolding index_add_def using that
    by (intro index_wf_set_prop) (cases "map_of index tag"; auto simp: set_add_def dest: index_wf_get [OF that])+
  show "indexed (index_add key tag index) t = indexed index t \<union> (if t = tag then {key} else {})"
    by (auto simp: index_add_def indexed_def)
qed

lemma index_remove_effect:
  "index_wf index \<Longrightarrow> index_wf (index_remove key tag index)"
  "indexed (index_remove key tag index) t = indexed index t - (if t = tag then {key} else {})"
proof -
  show "index_wf (index_remove key tag index)" if "index_wf index"
    unfolding index_remove_def using that
    by (cases "map_of index tag")
      (auto simp: Let_def index_wf_drop intro!: index_wf_set_prop distinct_removeAll dest: index_wf_get [OF that])
  have "x = key" if "removeAll key keys = []" "x \<in> set keys" for keys x
    using that by (induction keys) (auto split: if_splits)
  then show "indexed (index_remove key tag index) t = indexed index t - (if t = tag then {key} else {})"
    by (cases "map_of index tag") (auto simp: index_remove_def indexed_def Let_def)
qed

lemma fold_index_add:
  "index_wf index \<Longrightarrow> index_wf (fold (index_add key) tags index)"
  "indexed (fold (index_add key) tags index) t = indexed index t \<union> (if t \<in> set tags then {key} else {})"
  by (induction tags arbitrary: index) (auto simp: index_add_effect)

lemma fold_index_remove:
  "index_wf index \<Longrightarrow> index_wf (fold (index_remove key) tags index)"
  "indexed (fold (index_remove key) tags index) t = indexed index t - (if t \<in> set tags then {key} else {})"
  by (induction tags arbitrary: index) (auto simp: index_remove_effect)

lemma in_holders:
  "distinct (map fst entries) \<Longrightarrow>
     key \<in> set (holders entries tag) \<longleftrightarrow> (\<exists>entry. map_of entries key = Some entry \<and> tag \<in> set (ce_tags entry))"
  by (force simp: holders_def dest: map_of_SomeD)

lemma holders_drop: "set (holders (drop_key key entries) tag) = set (holders entries tag) - {key}"
  by (auto simp: holders_def drop_key_def)

lemma deleteLocal_effect:
  assumes "cache_ok c"
  shows "cache_ok (snd (deleteLocal key c))"
    and "map_of (ca_entries (snd (deleteLocal key c))) = (map_of (ca_entries c))(key := None)"
    and "fst (deleteLocal key c) = (map_of (ca_entries c) key \<noteq> None)"
proof -
  have distinct: "distinct (map fst (ca_entries c))" and wf: "index_wf (ca_tagIndex c)"
    and mirror: "indexed (ca_tagIndex c) tag = set (holders (ca_entries c) tag)" for tag
    using assms by (simp_all add: cache_ok_def)
  show "cache_ok (snd (deleteLocal key c))"
  proof (cases "map_of (ca_entries c) key")
    case None
    then show ?thesis using assms by (simp add: deleteLocal_def)
  next
    case (Some entry)
    have "indexed (ca_tagIndex c) tag - (if tag \<in> set (ce_tags entry) then {key} else {}) =
        set (holders (drop_key key (ca_entries c)) tag)" for tag
      using Some in_holders [OF distinct, of key tag] by (auto simp: mirror holders_drop)
    then show ?thesis
      using Some distinct wf by (simp add: deleteLocal_def cache_ok_def fold_index_remove keys_drop_key)
  qed
qed (auto simp: deleteLocal_def split: option.split)

lemma set_first_occurrences [simp]: "set (first_occurrences xs) = set xs" "distinct (first_occurrences xs)"
  by (simp_all add: first_occurrences_def)

lemma setLocal_effect:
  assumes "cache_ok c"
  shows "cache_ok (snd (setLocal t key value ttl tags expiresAt c))"
    and "map_of (ca_entries (snd (setLocal t key value ttl tags expiresAt c))) = (map_of (ca_entries c))
      (key \<mapsto> \<lparr>ce_value = value, ce_expiresAt = getOr expiresAt (t + ttl * 1000), ce_tags = first_occurrences tags\<rparr>)"
    and "fst (setLocal t key value ttl tags expiresAt c) = first_occurrences tags"
proof -
  define c1 where "c1 = snd (deleteLocal key c)"
  let ?entry = "\<lparr>ce_value = value, ce_expiresAt = getOr expiresAt (t + ttl * 1000), ce_tags = first_occurrences tags\<rparr>"
  let ?c2 = "c1\<lparr>ca_entries := set_prop key ?entry (ca_entries c1),
    ca_tagIndex := fold (index_add key) (first_occurrences tags) (ca_tagIndex c1)\<rparr>"
  have run: "setLocal t key value ttl tags expiresAt c = (first_occurrences tags, ?c2)"
    by (simp add: setLocal_def c1_def Let_def)
  have ok: "cache_ok c1" and view: "map_of (ca_entries c1) = (map_of (ca_entries c))(key := None)"
    using deleteLocal_effect [OF assms] by (simp_all add: c1_def)
  have distinct: "distinct (map fst (ca_entries c1))" "distinct (map fst (set_prop key ?entry (ca_entries c1)))"
    using ok by (simp_all add: cache_ok_def distinct_set_prop)
  have "set (holders (set_prop key ?entry (ca_entries c1)) tag) =
      set (holders (ca_entries c1) tag) \<union> (if tag \<in> set tags then {key} else {})" for tag
  proof (rule set_eqI)
    fix k
    show "k \<in> set (holders (set_prop key ?entry (ca_entries c1)) tag) \<longleftrightarrow>
        k \<in> set (holders (ca_entries c1) tag) \<union> (if tag \<in> set tags then {key} else {})"
      using view by (auto simp: in_holders [OF distinct(1)] in_holders [OF distinct(2)])
  qed
  then show "cache_ok (snd (setLocal t key value ttl tags expiresAt c))"
    using ok distinct(2) by (simp add: run cache_ok_def fold_index_add)
qed (simp_all add: setLocal_def Let_def deleteLocal_effect [OF assms])

lemma cache_ok_count [simp]: "cache_ok (count f c) = cache_ok c" "ca_entries (count f c) = ca_entries c"
  "ca_tagIndex (count f c) = ca_tagIndex c"
  by (simp_all add: cache_ok_def count_def)

lemma drop_all_effect:
  "cache_ok c \<Longrightarrow> cache_ok (fold (\<lambda>key c. snd (deleteLocal key c)) keys c) \<and>
     map_of (ca_entries (fold (\<lambda>key c. snd (deleteLocal key c)) keys c)) =
       (\<lambda>k. if k \<in> set keys then None else map_of (ca_entries c) k)"
  by (induction keys arbitrary: c) (auto simp: deleteLocal_effect fun_eq_iff)

section \<open>The cache as a map\<close>

text \<open>
  What a process asks of the cache, and what that means for a map from keys to entries in front of the remote
  store: the index, the order of the entries and the figures are not seen any more. \<open>Look\<close> is \<open>getOrSet\<close> up to
  the call of its loader, after which other calls may come before its \<open>Put\<close>; \<open>Through\<close> is \<open>getOrSet\<close> whose
  loader answers at \<open>t'\<close> with nothing in between.
\<close>

datatype 'v cache_call =
    Put string 'v int "string list"
  | Ask string
  | Look string
  | Through int string "'v res" int "string list"
  | Forget string
  | Forget_tag string
  | Forget_prefix string
  | Forget_all

type_synonym 'v view = "string \<rightharpoonup> 'v cache_entry"

fun perform :: "('v, 'r) remote option \<Rightarrow> int \<times> 'v cache_call \<Rightarrow> 'v cache \<times> 'r \<Rightarrow> 'v res option \<times> 'v cache \<times> 'r" where
  "perform rm (t, Put key value ttl tags) s = (None, cacheSet rm t key value ttl tags s)"
| "perform rm (t, Ask key) s = map_prod (map_option Inr) id (cacheGet rm t key s)"
| "perform rm (t, Look key) s = map_prod (map_option Inr) id (cachedValue rm t key s)"
| "perform rm (t, Through t' key loader ttl tags) s = map_prod Some id (getOrSet rm t t' key loader ttl tags s)"
| "perform rm (t, Forget key) s = (None, cacheDelete rm key s)"
| "perform rm (t, Forget_tag tag) s = (None, invalidateTag rm tag s)"
| "perform rm (t, Forget_prefix pre) s = (None, invalidatePrefix rm pre s)"
| "perform rm (t, Forget_all) s = (None, cacheClear rm s)"

definition keep_entries :: "(string \<Rightarrow> 'v cache_entry \<Rightarrow> bool) \<Rightarrow> 'v view \<Rightarrow> 'v view" where
  "keep_entries P m = (\<lambda>k. case m k of None \<Rightarrow> None | Some entry \<Rightarrow> if P k entry then Some entry else None)"

text \<open>The value that a map holds at a time, and the one that the remote store offers.\<close>

definition held :: "int \<Rightarrow> string \<Rightarrow> 'v view \<Rightarrow> 'v option" where
  "held t key m = (case m key of None \<Rightarrow> None | Some entry \<Rightarrow> if t < ce_expiresAt entry then Some (ce_value entry) else None)"

definition offered :: "('v, 'r) remote option \<Rightarrow> int \<Rightarrow> string \<Rightarrow> 'r \<Rightarrow> 'v cache_entry option \<times> 'r" where
  "offered rm t key r =
     (case rm of None \<Rightarrow> (None, r)
      | Some a \<Rightarrow>
          (case rm_get a key r of
             (Inr (Some entry), r') \<Rightarrow> (if t < ce_expiresAt entry then (Some entry, r') else (None, rm_delete a key r'))
           | (_, r') \<Rightarrow> (None, r')))"

definition put_in :: "('v, 'r) remote option \<Rightarrow> int \<Rightarrow> string \<Rightarrow> 'v \<Rightarrow> int \<Rightarrow> string list \<Rightarrow> 'v view \<times> 'r \<Rightarrow> 'v view \<times> 'r" where
  "put_in rm t key value ttl tags = (\<lambda>(m, r).
     let entry = \<lparr>ce_value = value, ce_expiresAt = t + ttl * 1000, ce_tags = first_occurrences tags\<rparr>
     in if ttl \<le> 0 then (m, r) else (m(key \<mapsto> entry), tell rm (\<lambda>a. rm_set a key entry ttl) r))"

definition forget_in :: "('v, 'r) remote option \<Rightarrow> string \<Rightarrow> 'v view \<times> 'r \<Rightarrow> 'v view \<times> 'r" where
  "forget_in rm key = (\<lambda>(m, r). (m(key := None), if m key = None then r else tell rm (\<lambda>a. rm_delete a key) r))"

lemma held_Some: "held t key m = Some v \<Longrightarrow> \<exists>entry. m key = Some entry \<and> ce_value entry = v \<and> t < ce_expiresAt entry"
  by (auto simp: held_def split: option.splits if_splits)

text \<open>A value that is held is answered; otherwise one that the store offers, which the map then holds for the rest
  of its time, in whole seconds.\<close>

definition look_in :: "('v, 'r) remote option \<Rightarrow> int \<Rightarrow> string \<Rightarrow> 'v view \<times> 'r \<Rightarrow> 'v option \<times> 'v view \<times> 'r" where
  "look_in rm t key = (\<lambda>(m, r).
     case held t key m of
       Some v \<Rightarrow> (Some v, m, r)
     | None \<Rightarrow>
         (let (m1, r1) = forget_in rm key (m, r) in
          case offered rm t key r1 of
            (None, r2) \<Rightarrow> (None, m1, r2)
          | (Some entry, r2) \<Rightarrow>
              (Some (ce_value entry),
               m1(key \<mapsto> \<lparr>ce_value = ce_value entry, ce_expiresAt = t + remaining_seconds t (ce_expiresAt entry) * 1000,
                          ce_tags = first_occurrences (ce_tags entry)\<rparr>), r2)))"

fun meant ::
    "('v, 'r) remote option \<Rightarrow> int \<times> 'v cache_call \<Rightarrow> 'v view \<times> 'r \<Rightarrow> 'v res option \<times> 'v view \<times> 'r" where
  "meant rm (t, Put key value ttl tags) s = (None, put_in rm t key value ttl tags s)"
| "meant rm (t, Ask key) s =
     (case held t key (fst s) of Some v \<Rightarrow> (Some (Inr v), s) | None \<Rightarrow> (None, forget_in rm key s))"
| "meant rm (t, Look key) s = map_prod (map_option Inr) id (look_in rm t key s)"
| "meant rm (t, Through t' key loader ttl tags) s =
     (case look_in rm t key s of
        (Some v, s1) \<Rightarrow> (Some (Inr v), s1)
      | (None, s1) \<Rightarrow>
          (case loader of Inl err \<Rightarrow> (Some (Inl err), s1) | Inr v \<Rightarrow> (Some (Inr v), put_in rm t' key v ttl tags s1)))"
| "meant rm (t, Forget key) s = (None, forget_in rm key s)"
| "meant rm (t, Forget_tag tag) (m, r) =
     (None, keep_entries (\<lambda>k entry. tag \<notin> set (ce_tags entry)) m, tell rm (\<lambda>a. rm_invalidateTag a tag) r)"
| "meant rm (t, Forget_prefix pre) (m, r) =
     (None, keep_entries (\<lambda>k entry. \<not> startsWith k pre) m, tell rm (\<lambda>a. rm_invalidatePrefix a pre) r)"
| "meant rm (t, Forget_all) (m, r) = (None, Map.empty, tell rm rm_clear r)"

fun run_calls :: "('c \<Rightarrow> 's \<Rightarrow> 'a \<times> 's) \<Rightarrow> 'c list \<Rightarrow> 's \<Rightarrow> 'a list \<times> 's" where
  "run_calls call [] s = ([], s)"
| "run_calls call (c # cs) s =
     (let (a, s1) = call c s; (rest, s2) = run_calls call cs s1 in (a # rest, s2))"

text \<open>Calls that are simulated one by one are simulated in every sequence.\<close>

locale call_refinement =
  fixes ok :: "'s \<Rightarrow> bool" and view :: "'s \<Rightarrow> 'm" and call :: "'c \<Rightarrow> 's \<Rightarrow> 'a \<times> 's" and spec :: "'c \<Rightarrow> 'm \<Rightarrow> 'a \<times> 'm"
  assumes keeps: "ok s \<Longrightarrow> ok (snd (call c s))"
    and means: "ok s \<Longrightarrow> spec c (view s) = (fst (call c s), view (snd (call c s)))"
begin

lemma run_refines:
  "ok s \<Longrightarrow> ok (snd (run_calls call cs s)) \<and>
     run_calls spec cs (view s) = (fst (run_calls call cs s), view (snd (run_calls call cs s)))"
  by (induction cs arbitrary: s) (simp_all add: keeps means split_beta Let_def)

end

definition view_of :: "'v cache \<times> 'r \<Rightarrow> 'v view \<times> 'r" where
  "view_of s = (map_of (ca_entries (fst s)), snd s)"

lemma cacheDelete_effect:
  assumes "cache_ok c"
  shows "cache_ok (fst (cacheDelete rm key (c, r)))" and "view_of (cacheDelete rm key (c, r)) = forget_in rm key (view_of (c, r))"
  using deleteLocal_effect [OF assms, of key]
  by (auto simp: cacheDelete_def view_of_def forget_in_def split: prod.split bool.split)

lemma invalidateTag_effect:
  assumes "cache_ok c"
  shows "cache_ok (fst (invalidateTag rm tag (c, r))) \<and>
    map_of (ca_entries (fst (invalidateTag rm tag (c, r)))) =
      keep_entries (\<lambda>k entry. tag \<notin> set (ce_tags entry)) (map_of (ca_entries c))"
proof -
  have "k \<in> set (getOr (map_of (ca_tagIndex c) tag) []) \<longleftrightarrow>
      (\<exists>entry. map_of (ca_entries c) k = Some entry \<and> tag \<in> set (ce_tags entry))" for k
    using assms in_holders [of "ca_entries c" k tag] unfolding cache_ok_def by (simp add: indexed_def [symmetric])
  then show ?thesis
    using assms by (auto simp: invalidateTag_def Let_def drop_all_effect keep_entries_def fun_eq_iff split: option.split)
qed

lemma invalidatePrefix_effect:
  assumes "cache_ok c"
  shows "cache_ok (fst (invalidatePrefix rm pre (c, r))) \<and>
    map_of (ca_entries (fst (invalidatePrefix rm pre (c, r)))) =
      keep_entries (\<lambda>k entry. \<not> startsWith k pre) (map_of (ca_entries c))"
proof -
  have "k \<in> set (map fst (ca_entries c)) \<longleftrightarrow> map_of (ca_entries c) k \<noteq> None" for k
    by (simp add: map_of_eq_None_iff)
  then show ?thesis
    using assms by (auto simp: invalidatePrefix_def Let_def drop_all_effect keep_entries_def fun_eq_iff split: option.split)
qed

lemma cacheSet_effect:
  assumes "cache_ok c"
  shows "cache_ok (fst (cacheSet rm t key value ttl tags (c, r)))"
    and "view_of (cacheSet rm t key value ttl tags (c, r)) = put_in rm t key value ttl tags (view_of (c, r))"
  using assms by (auto simp: cacheSet_def put_in_def view_of_def Let_def split_beta setLocal_effect)

lemma cacheGet_effect:
  assumes "cache_ok c"
  shows "cache_ok (fst (snd (cacheGet rm t key (c, r))))"
    and "fst (cacheGet rm t key (c, r)) = held t key (map_of (ca_entries c))"
    and "view_of (snd (cacheGet rm t key (c, r))) =
      (if held t key (map_of (ca_entries c)) = None then forget_in rm key (view_of (c, r)) else view_of (c, r))"
proof -
  note del = cacheDelete_effect [OF assms, of rm key r]
  have seen: "view_of (count f x, r') = view_of (x, r')" for f x r' by (simp add: view_of_def)
  show "cache_ok (fst (snd (cacheGet rm t key (c, r))))" "fst (cacheGet rm t key (c, r)) = held t key (map_of (ca_entries c))"
    using assms del by (auto simp: cacheGet_def held_def Let_def split_beta split: option.split)
  show "view_of (snd (cacheGet rm t key (c, r))) =
      (if held t key (map_of (ca_entries c)) = None then forget_in rm key (view_of (c, r)) else view_of (c, r))"
  proof (cases "map_of (ca_entries c) key")
    case None
    then show ?thesis by (simp add: cacheGet_def held_def seen) (simp add: view_of_def forget_in_def fun_upd_idem)
  next
    case (Some entry)
    then show ?thesis using del(2) by (auto simp: cacheGet_def held_def seen Let_def split_beta)
  qed
qed

lemma getRemote_effect:
  "ca_entries (fst (snd (getRemote rm t key (c, r)))) = ca_entries c"
  "cache_ok (fst (snd (getRemote rm t key (c, r)))) = cache_ok c"
  by (auto simp: getRemote_def Let_def split: option.split prod.split sum.split)

lemma getRemote_offered:
  "fst (getRemote rm t key (c, r)) = fst (offered rm t key r)"
  "snd (snd (getRemote rm t key (c, r))) = snd (offered rm t key r)"
  by (auto simp: getRemote_def offered_def Let_def split: option.split prod.split sum.split)

lemma cachedValue_look:
  assumes "cache_ok c"
  shows "cache_ok (fst (snd (cachedValue rm t key (c, r)))) \<and>
    (fst (cachedValue rm t key (c, r)), view_of (snd (cachedValue rm t key (c, r)))) = look_in rm t key (view_of (c, r))"
proof -
  obtain found c1 r1 where get: "cacheGet rm t key (c, r) = (found, c1, r1)" by (metis prod.collapse)
  note got = cacheGet_effect [OF assms, of rm t key r, unfolded get, simplified]
  obtain remote c2 r2 where far: "getRemote rm t key (c1, r1) = (remote, c2, r2)" by (metis prod.collapse)
  have ok2: "cache_ok c2" and same: "ca_entries c2 = ca_entries c1"
    using getRemote_effect [of rm t key c1 r1] got(1) by (simp_all add: far)
  have off: "offered rm t key r1 = (remote, r2)"
    using getRemote_offered [of rm t key c1 r1] by (simp add: far prod_eq_iff)
  have start: "view_of (c, r) = (map_of (ca_entries c), r)" by (simp add: view_of_def)
  show ?thesis
  proof (cases found)
    case None
    then have "held t key (map_of (ca_entries c)) = None" "forget_in rm key (map_of (ca_entries c), r) = (map_of (ca_entries c1), r1)"
      using got start by (simp_all add: view_of_def)
    with None show ?thesis
      using ok2 off unfolding start look_in_def
      by (cases remote) (simp_all add: cachedValue_def get far view_of_def same setLocal_effect [OF ok2])
  next
    case (Some v)
    then have "held t key (map_of (ca_entries c)) = Some v" "view_of (c1, r1) = view_of (c, r)"
      using got by simp_all
    with Some show ?thesis using got(1) unfolding start look_in_def by (simp add: cachedValue_def get)
  qed
qed

lemma getOrSet_through:
  assumes "cache_ok c"
  shows "cache_ok (fst (snd (getOrSet rm t t' key loader ttl tags (c, r)))) \<and>
    (Some (fst (getOrSet rm t t' key loader ttl tags (c, r))), view_of (snd (getOrSet rm t t' key loader ttl tags (c, r)))) =
      meant rm (t, Through t' key loader ttl tags) (view_of (c, r))"
proof -
  obtain found c1 r1 where got: "cachedValue rm t key (c, r) = (found, c1, r1)" by (metis prod.collapse)
  have ok1: "cache_ok c1" and look: "look_in rm t key (view_of (c, r)) = (found, view_of (c1, r1))"
    using cachedValue_look [OF assms, of rm t key r] by (simp_all add: got)
  show ?thesis
    using ok1 cacheSet_effect [OF ok1] by (auto simp: getOrSet_def got look split: option.split sum.split)
qed

interpretation cm: call_refinement "\<lambda>s. cache_ok (fst s)" view_of "perform rm" "meant rm"
  for rm :: "('v, 'r) remote option"
proof
  fix s :: "'v cache \<times> 'r" and c :: "int \<times> 'v cache_call"
  obtain cache r where s: "s = (cache, r)" by fastforce
  obtain t call where c: "c = (t, call)" by fastforce
  assume "cache_ok (fst s)"
  then have ok: "cache_ok cache" by (simp add: s)
  note effects = cacheDelete_effect [OF ok] invalidateTag_effect [OF ok] invalidatePrefix_effect [OF ok]
    cacheSet_effect [OF ok] cacheGet_effect [OF ok]
  have clear: "cache_ok (fst (cacheClear rm (cache, r)))" "ca_entries (fst (cacheClear rm (cache, r))) = []"
    by (simp_all add: cacheClear_def cache_ok_def index_wf_def indexed_def holders_def)
  have far: "snd (invalidateTag rm tag (cache, r)) = tell rm (\<lambda>a. rm_invalidateTag a tag) r"
      "snd (invalidatePrefix rm pre (cache, r)) = tell rm (\<lambda>a. rm_invalidatePrefix a pre) r"
      "snd (cacheClear rm (cache, r)) = tell rm rm_clear r" for tag pre
    by (simp_all add: invalidateTag_def invalidatePrefix_def cacheClear_def Let_def)
  show "cache_ok (fst (snd (perform rm c s)))"
    using cachedValue_look [OF ok, of rm t] getOrSet_through [OF ok, of rm t]
    by (cases call) (simp_all add: s c effects clear)
  show "meant rm c (view_of s) = (fst (perform rm c s), view_of (snd (perform rm c s)))"
  proof (cases call)
    case (Ask key)
    then show ?thesis
      using cacheGet_effect(2,3) [OF ok, of rm t key r] by (cases "held t key (map_of (ca_entries cache))") (simp_all add: s c view_of_def)
  next
    case (Look key)
    have "look_in rm t key (view_of (cache, r)) =
        (fst (cachedValue rm t key (cache, r)), view_of (snd (cachedValue rm t key (cache, r))))"
      using cachedValue_look [OF ok, of rm t key r] by simp
    then show ?thesis by (simp add: s c Look)
  next
    case (Through t' key loader ttl tags)
    then show ?thesis using getOrSet_through [OF ok, of rm t t' key loader ttl tags r] by (simp add: s c del: meant.simps)
  qed (simp_all add: s c effects clear far, simp_all add: view_of_def effects clear far)
qed

text \<open>C30. The cache of a process is a map with times and tags in front of the remote store: whatever sequence of
  calls it serves, \<open>getOrSet\<close> among them, whole or with other calls while its loader runs, it answers what the map
  answers, holds what the map holds and leaves the store as the map does. A value that is held and has not
  expired is answered without asking anyone; otherwise one that the store offers is answered and held; otherwise
  what the loader gives is, and goes to the store. The index finds exactly the entries that carry a tag, and it is
  never left with a key that is gone or a tag without keys.\<close>

theorem cache_refines_map:
  assumes "cache_ok c" and "run_calls (perform rm) calls (c, r) = (answers, c', r')"
  shows "run_calls (meant rm) calls (map_of (ca_entries c), r) = (answers, map_of (ca_entries c'), r') \<and> cache_ok c'"
  using cm.run_refines [of "(c, r)" rm calls] assms by (simp add: view_of_def)

text \<open>A remote store of one record.\<close>

definition one_record :: "(string, (string \<times> string cache_entry) option) remote" where
  "one_record = \<lparr>rm_name = ''one'',
     rm_get = (\<lambda>k r. (Inr (case r of Some (k', entry) \<Rightarrow> if k = k' then Some entry else None | None \<Rightarrow> None), r)),
     rm_set = (\<lambda>k entry ttl r. Some (k, entry)), rm_delete = (\<lambda>k r. None), rm_invalidateTag = (\<lambda>tag r. None),
     rm_invalidatePrefix = (\<lambda>pre r. None), rm_clear = (\<lambda>r. None)\<rparr>"

definition some_calls :: "(int \<times> string cache_call) list" where
  "some_calls = [(0, Through 10 ''a'' (Inr ''one'') 30 [''x'', ''y'', ''x'']), (1000, Put ''b'' ''two'' 60 [''y'']), (2000, Ask ''a''),
     (3000, Forget_tag ''x''), (4000, Ask ''a''), (61000, Look ''b''), (62000, Through 62000 ''b'' (Inl NotFound) 5 [])]"

theorem cache_refines_map_witness:
  "fst (run_calls (perform (Some one_record)) some_calls (new_cache, None)) =
     [Some (Inr ''one''), None, Some (Inr ''one''), None, None, None, Some (Inl NotFound)] \<and>
   fst (run_calls (meant (Some one_record)) some_calls (Map.empty, None)) =
     [Some (Inr ''one''), None, Some (Inr ''one''), None, None, None, Some (Inl NotFound)]"
proof -
  let ?answers = "[Some (Inr ''one''), None, Some (Inr ''one''), None, None, None, Some (Inl NotFound)]"
  have ok: "cache_ok (new_cache :: string cache)"
    by (simp add: new_cache_def cache_ok_def index_wf_def indexed_def holders_def)
  have answers: "fst (run_calls (perform (Some one_record)) some_calls (new_cache, None)) = ?answers"
    by code_simp
  obtain c' r' where run: "run_calls (perform (Some one_record)) some_calls (new_cache, None) = (?answers, c', r')"
    using answers by (metis prod.collapse)
  from cache_refines_map [OF ok run] answers show ?thesis by (simp add: new_cache_def)
qed

section \<open>Reading through the cache\<close>

lemma getRemote_hit:
  "getRemote rm t key (c, r) = (Some entry, s) \<Longrightarrow>
     \<exists>a. rm = Some a \<and> rm_get a key r = (Inr (Some entry), snd s) \<and> t < ce_expiresAt entry"
  by (cases s) (auto simp: getRemote_def Let_def split: option.splits prod.splits sum.splits if_splits)

text \<open>The time to live of a copy is rounded up to whole seconds.\<close>

lemma remaining_seconds_bounds:
  assumes "t < expiresAt"
  shows "expiresAt \<le> t + remaining_seconds t expiresAt * 1000"
    and "t + remaining_seconds t expiresAt * 1000 < expiresAt + 1000"
  using assms by (simp_all add: remaining_seconds_def)

text \<open>\<open>P\<close> is what the remote store is known to keep under reads and deletions.\<close>

lemma cacheGet_remote:
  assumes "P r" and "\<And>a x. rm = Some a \<Longrightarrow> P x \<Longrightarrow> P (rm_delete a key x)"
  shows "P (snd (snd (cacheGet rm t key (c, r))))"
  using assms by (auto simp: cacheGet_def cacheDelete_def tell_def split: option.split prod.split bool.split)

lemma getRemote_remote:
  assumes "P r" and "\<And>a x. rm = Some a \<Longrightarrow> P x \<Longrightarrow> P (rm_delete a key x)" and "\<And>a x. rm = Some a \<Longrightarrow> P x \<Longrightarrow> P (snd (rm_get a key x))"
  shows "P (snd (snd (getRemote rm t key (c, r))))"
proof (cases rm)
  case (Some a)
  obtain z r' where "rm_get a key r = (z, r')" by fastforce
  with Some assms(1) assms(2,3) [OF Some] show ?thesis
    by (force simp: getRemote_def Let_def split: option.split sum.split)
qed (simp add: getRemote_def assms(1))

definition copied_from :: "('v, 'r) remote option \<Rightarrow> ('r \<Rightarrow> bool) \<Rightarrow> int \<Rightarrow> string \<Rightarrow> 'v cache_entry \<Rightarrow> bool" where
  "copied_from rm P t key entry \<longleftrightarrow>
     (\<exists>a r r' kept. rm = Some a \<and> P r \<and> rm_get a key r = (Inr (Some kept), r') \<and>
        ce_value entry = ce_value kept \<and> t < ce_expiresAt kept \<and> ce_expiresAt entry < ce_expiresAt kept + 1000)"

lemma cachedValue_effect:
  assumes "cache_ok c" and "cachedValue rm t key (c, r) = (answer, c', r')"
    and P: "P r" "\<And>a x. rm = Some a \<Longrightarrow> P x \<Longrightarrow> P (rm_delete a key x)" "\<And>a x. rm = Some a \<Longrightarrow> P x \<Longrightarrow> P (snd (rm_get a key x))"
  shows "cache_ok c' \<and> P r' \<and>
    (\<forall>k entry. map_of (ca_entries c') k = Some entry \<longrightarrow> map_of (ca_entries c) k = Some entry \<or> k = key \<and> copied_from rm P t key entry) \<and>
    (\<forall>v. answer = Some v \<longrightarrow> (\<exists>entry. map_of (ca_entries c') key = Some entry \<and> ce_value entry = v \<and> t < ce_expiresAt entry))"
proof -
  obtain found c1 r1 where get: "cacheGet rm t key (c, r) = (found, c1, r1)" by (metis prod.collapse)
  have ok1: "cache_ok c1" and found: "found = held t key (map_of (ca_entries c))"
      and view1: "view_of (c1, r1) = (if held t key (map_of (ca_entries c)) = None then forget_in rm key (view_of (c, r)) else view_of (c, r))"
    using cacheGet_effect [OF assms(1), where rm = rm and t = t and key = key and r = r] by (simp_all add: get)
  have P1: "P r1" using cacheGet_remote [of P r rm key t c] P(1,2) by (simp add: get)
  have old: "map_of (ca_entries c1) k = Some entry \<Longrightarrow> map_of (ca_entries c) k = Some entry" for k entry
  proof -
    have "map_of (ca_entries c1) = map_of (ca_entries c) \<or> map_of (ca_entries c1) = (map_of (ca_entries c))(key := None)"
      using view1 by (auto simp: view_of_def forget_in_def split: if_splits)
    then show "map_of (ca_entries c1) k = Some entry \<Longrightarrow> map_of (ca_entries c) k = Some entry"
      by (auto split: if_splits)
  qed
  obtain remote c2 r2 where far: "getRemote rm t key (c1, r1) = (remote, c2, r2)" by (metis prod.collapse)
  have ok2: "cache_ok c2" and same: "ca_entries c2 = ca_entries c1"
    using getRemote_effect [of rm t key c1 r1] ok1 by (simp_all add: far)
  have P2: "P r2" using getRemote_remote [of P r1 rm key t c1] P1 P(2,3) by (simp add: far)
  consider v where "found = Some v" | "found = None" "remote = None"
    | kept where "found = None" "remote = Some kept" by (cases found; cases remote) auto
  then show ?thesis
  proof cases
    case 1
    then have "answer = Some v" "c' = c1" "r' = r1" using assms(2) by (simp_all add: cachedValue_def get)
    moreover have "map_of (ca_entries c1) = map_of (ca_entries c)" using 1 found view1 by (simp add: view_of_def)
    moreover obtain entry where "map_of (ca_entries c) key = Some entry" "ce_value entry = v" "t < ce_expiresAt entry"
      using held_Some [of t key "map_of (ca_entries c)" v] 1 found by auto
    ultimately show ?thesis using ok1 P1 by auto
  next
    case 2
    then have "answer = None" "c' = count (\<lambda>m. m\<lparr>cm_loads := cm_loads m + 1\<rparr>) c2" "r' = r2"
      using assms(2) by (simp_all add: cachedValue_def get far)
    with ok2 same old P2 show ?thesis by simp
  next
    case 3
    let ?ttl = "remaining_seconds t (ce_expiresAt kept)"
    let ?entry = "\<lparr>ce_value = ce_value kept, ce_expiresAt = t + ?ttl * 1000, ce_tags = first_occurrences (ce_tags kept)\<rparr>"
    have run: "answer = Some (ce_value kept)" "c' = snd (setLocal t key (ce_value kept) ?ttl (ce_tags kept) None c2)" "r' = r2"
      using assms(2) 3 by (simp_all add: cachedValue_def get far)
    obtain a where a: "rm = Some a" "rm_get a key r1 = (Inr (Some kept), r2)" "t < ce_expiresAt kept"
      using getRemote_hit [of rm t key c1 r1 kept "(c2, r2)"] far 3 by auto
    have view: "map_of (ca_entries c') = (map_of (ca_entries c1))(key \<mapsto> ?entry)"
      using setLocal_effect(2) [OF ok2, of t key "ce_value kept" ?ttl "ce_tags kept" None] by (simp add: run same)
    have "copied_from rm P t key ?entry"
      using a P1 remaining_seconds_bounds [OF a(3)] by (auto simp: copied_from_def)
    moreover have "cache_ok c'" using setLocal_effect(1) [OF ok2] by (simp add: run)
    ultimately show ?thesis
      using remaining_seconds_bounds [OF a(3)] a(3) run(1,3) old P2 by (auto simp: view)
  qed
qed

text \<open>Deleting a key that the process does not hold leaves the remote record in place.\<close>

lemma delete_leaves_remote:
  "map_of (ca_entries c) key = None \<Longrightarrow> cacheDelete rm key (c, r) = (c, r)"
  by (simp add: cacheDelete_def deleteLocal_def)

end
