(* ===== verification/Upstash.thy ===== *)
theory Upstash
  imports Cache
begin

text \<open>
  The remote store of \<open>platform/services/cache.service.ts\<close>: the choice of the adapter from the environment, and
  \<open>UpstashRedisCacheAdapter\<close>, which sends Redis commands as JSON over HTTP. What the server answers is the
  parameter \<open>server\<close> of the theory \<open>Http\<close>; the state of the remote store is the log of the requests.
\<close>

section \<open>Configuration\<close>

record cache_config =
  cc_baseUrl :: string
  cc_token :: string
  cc_prefix :: string

record cache_environment =
  ce_ACADID_CACHE_ADAPTER :: "string option"
  ce_UPSTASH_REDIS_REST_URL :: "string option"
  ce_UPSTASH_REDIS_REST_TOKEN :: "string option"
  ce_ACADID_CACHE_KEY_PREFIX :: "string option"

definition createRemoteAdapter :: "cache_environment \<Rightarrow> cache_config option" where
  "createRemoteAdapter env =
     (let adapter = map_option (\<lambda>s. toLowerCase (trim s)) (ce_ACADID_CACHE_ADAPTER env);
          url = map_option trim (ce_UPSTASH_REDIS_REST_URL env);
          token = map_option trim (ce_UPSTASH_REDIS_REST_TOKEN env)
      in if truthy_text adapter \<and> adapter \<noteq> Some ''memory'' \<and> adapter \<noteq> Some ''upstash'' then None
         else if (adapter = Some ''upstash'' \<or> truthy_text url \<or> truthy_text token) \<and> truthy_text url \<and> truthy_text token
         then Some \<lparr>cc_baseUrl = getOr url [], cc_token = getOr token [],
           cc_prefix = getOr (ce_ACADID_CACHE_KEY_PREFIX env) ''acadid:cache''\<rparr>
         else None)"

definition cacheKey :: "cache_config \<Rightarrow> string \<Rightarrow> string" where
  "cacheKey cfg key = cc_prefix cfg @ '':entry:'' @ key"

definition tagKey :: "cache_config \<Rightarrow> string \<Rightarrow> string" where
  "tagKey cfg tag = cc_prefix cfg @ '':tag:'' @ tag"

section \<open>Commands\<close>

text \<open>A step that talks to the server: it answers or throws, and the log has grown.\<close>

type_synonym 'a talk = "http_log \<Rightarrow> 'a res \<times> http_log"

definition andThen :: "'a talk \<Rightarrow> ('a \<Rightarrow> 'b talk) \<Rightarrow> 'b talk" where
  "andThen f g sent = (case f sent of (Inl err, sent') \<Rightarrow> (Inl err, sent') | (Inr x, sent') \<Rightarrow> g x sent')"

definition answer :: "'a res \<Rightarrow> 'a talk" where
  "answer x sent = (x, sent)"

fun eachOf :: "('a \<Rightarrow> 'b talk) \<Rightarrow> 'a list \<Rightarrow> unit talk" where
  "eachOf f [] = answer (Inr ())"
| "eachOf f (x # xs) = andThen (f x) (\<lambda>_. eachOf f xs)"

definition command_post :: "cache_config \<Rightarrow> string list \<Rightarrow> http_post" where
  "command_post cfg parts =
     \<lparr>hp_url = (if endsWith (cc_baseUrl cfg) ''/'' then butlast (cc_baseUrl cfg) else cc_baseUrl cfg) @ ''/pipeline'',
      hp_headers = [(''authorization'', ''Bearer '' @ cc_token cfg), (''content-type'', ''application/json'')],
      hp_body = getOr (JSON_stringify (JArr [JArr (map JStr parts)])) []\<rparr>"

text \<open>\<open>const [first] = await response.json()\<close>: a text is a list of characters, without the fields.\<close>

definition command_result :: "http_result \<Rightarrow> jval res" where
  "command_result response =
     (case response of
        Http_error m \<Rightarrow> Inl (Failure m)
      | Http_response status body \<Rightarrow>
          (if \<not> status_ok status then Inl (Failure (''Cache adapter failed with HTTP '' @ show_int status @ ''.''))
           else
             (case (case body of None \<Rightarrow> None | Some s \<Rightarrow> JSON_parse s) of
                Some (JArr []) \<Rightarrow> Inr JUndef
              | Some (JArr (first # _)) \<Rightarrow>
                  (let fs = asRecord first in
                   if truthy (getProp fs ''error'') then Inl (Failure (String_of (getProp fs ''error'')))
                   else Inr (getProp fs ''result''))
              | Some (JStr _) \<Rightarrow> Inr JUndef
              | _ \<Rightarrow> Inl (Failure ''Cache adapter answered no list.''))))"

definition command :: "cache_config \<Rightarrow> server \<Rightarrow> string list \<Rightarrow> jval talk" where
  "command cfg server parts sent =
     (command_result (server sent (command_post cfg parts)), sent @ [command_post cfg parts])"

section \<open>The adapter\<close>

definition entry_json :: "jval cache_entry \<Rightarrow> jval" where
  "entry_json entry = JObj [(''value'', ce_value entry), (''expiresAt'', jint (ce_expiresAt entry)),
     (''tags'', JArr (map JStr (ce_tags entry)))]"

definition entry_text :: "jval cache_entry \<Rightarrow> string" where
  "entry_text entry = getOr (JSON_stringify (entry_json entry)) []"

fun all_texts :: "jval list \<Rightarrow> string list option" where
  "all_texts [] = Some []"
| "all_texts (JStr s # xs) = map_option ((#) s) (all_texts xs)"
| "all_texts (_ # xs) = None"

text \<open>\<open>isRecord\<close> asks for the three fields only. A stored record whose fields are there with other types than this
  service writes is outside the model; it is read as nothing here.\<close>

definition entry_of_json :: "jval \<Rightarrow> jval cache_entry option" where
  "entry_of_json v =
     (case v of
        JObj ob \<Rightarrow>
          (if ''value'' \<notin> fst ` set ob then None
           else
             (case (getProp ob ''expiresAt'', getProp ob ''tags'') of
                (JNum (Fin x), JArr ts) \<Rightarrow>
                  (case all_texts ts of
                     Some tags \<Rightarrow> Some \<lparr>ce_value = getProp ob ''value'', ce_expiresAt = \<lfloor>x\<rfloor>, ce_tags = tags\<rparr>
                   | None \<Rightarrow> None)
              | _ \<Rightarrow> None))
      | _ \<Rightarrow> None)"

definition read_entry :: "jval \<Rightarrow> jval cache_entry option res" where
  "read_entry result =
     (if \<not> truthy result then Inr None
      else
        (case (case result of JStr s \<Rightarrow> JSON_parse s | v \<Rightarrow> Some v) of
           None \<Rightarrow> Inl (Failure ''Unexpected token in JSON'')
         | Some parsed \<Rightarrow> Inr (entry_of_json parsed)))"

definition upstashGet :: "cache_config \<Rightarrow> server \<Rightarrow> string \<Rightarrow> jval cache_entry option talk" where
  "upstashGet cfg server key =
     andThen (command cfg server [''GET'', cacheKey cfg key]) (\<lambda>result. answer (read_entry result))"

definition upstashSet :: "cache_config \<Rightarrow> server \<Rightarrow> string \<Rightarrow> jval cache_entry \<Rightarrow> int \<Rightarrow> unit talk" where
  "upstashSet cfg server key entry ttlSeconds =
     andThen (command cfg server [''SET'', cacheKey cfg key, entry_text entry, ''EX'', show_int ttlSeconds]) (\<lambda>_.
     eachOf (\<lambda>tag.
       andThen (command cfg server [''SADD'', tagKey cfg tag, key]) (\<lambda>_.
       command cfg server [''EXPIRE'', tagKey cfg tag, show_int ttlSeconds])) (ce_tags entry))"

definition upstashDelete :: "cache_config \<Rightarrow> server \<Rightarrow> string \<Rightarrow> unit talk" where
  "upstashDelete cfg server key = andThen (command cfg server [''DEL'', cacheKey cfg key]) (\<lambda>_. answer (Inr ()))"

definition text_items :: "jval \<Rightarrow> string list" where
  "text_items v = (case v of JArr xs \<Rightarrow> List.map_filter (\<lambda>x. case x of JStr s \<Rightarrow> Some s | _ \<Rightarrow> None) xs | _ \<Rightarrow> [])"

definition upstashInvalidateTag :: "cache_config \<Rightarrow> server \<Rightarrow> string \<Rightarrow> unit talk" where
  "upstashInvalidateTag cfg server tag =
     andThen (command cfg server [''SMEMBERS'', tagKey cfg tag]) (\<lambda>result.
     andThen (eachOf (upstashDelete cfg server) (text_items result)) (\<lambda>_.
     andThen (command cfg server [''DEL'', tagKey cfg tag]) (\<lambda>_. answer (Inr ()))))"

text \<open>The loop over the pages of a scan goes on as long as the server gives out cursors; the model looks at its first
  \<open>rounds\<close> pages.\<close>

fun scanPages :: "nat \<Rightarrow> cache_config \<Rightarrow> server \<Rightarrow> string \<Rightarrow> string \<Rightarrow> unit talk" where
  "scanPages 0 cfg server pat cursor = answer (Inr ())"
| "scanPages (Suc rounds) cfg server pat cursor =
     andThen (command cfg server [''SCAN'', cursor, ''MATCH'', pat, ''COUNT'', ''100'']) (\<lambda>result.
       case result of
         JArr (next # page # _) \<Rightarrow>
           andThen (eachOf (\<lambda>key. command cfg server [''DEL'', key]) (text_items page)) (\<lambda>_.
             if String_of next = ''0'' then answer (Inr ())
             else scanPages rounds cfg server pat (String_of next))
       | _ \<Rightarrow> answer (Inr ()))"

definition upstashInvalidatePrefix :: "nat \<Rightarrow> cache_config \<Rightarrow> server \<Rightarrow> string \<Rightarrow> unit talk" where
  "upstashInvalidatePrefix rounds cfg server pre = scanPages rounds cfg server (cacheKey cfg (pre @ ''*'')) ''0''"

definition upstash :: "nat \<Rightarrow> cache_config \<Rightarrow> server \<Rightarrow> (jval, http_log) remote" where
  "upstash rounds cfg server =
     \<lparr>rm_name = ''upstash-redis'', rm_get = upstashGet cfg server,
      rm_set = (\<lambda>key entry ttlSeconds sent. snd (upstashSet cfg server key entry ttlSeconds sent)),
      rm_delete = (\<lambda>key sent. snd (upstashDelete cfg server key sent)),
      rm_invalidateTag = (\<lambda>tag sent. snd (upstashInvalidateTag cfg server tag sent)),
      rm_invalidatePrefix = (\<lambda>pre sent. snd (upstashInvalidatePrefix rounds cfg server pre sent)),
      rm_clear = (\<lambda>sent. snd (upstashInvalidatePrefix rounds cfg server [] sent))\<rparr>"

section \<open>What the store remembers\<close>

text \<open>The command of a request, read back from its body.\<close>

definition command_parts :: "http_post \<Rightarrow> string list option" where
  "command_parts p = (case JSON_parse (hp_body p) of Some (JArr [JArr xs]) \<Rightarrow> all_texts xs | _ \<Rightarrow> None)"

lemma all_texts_JStr [simp]: "all_texts (map JStr xs) = Some xs"
  by (induction xs) simp_all

lemma command_parts_post [simp]: "command_parts (command_post cfg parts) = Some parts"
proof -
  have "wire (JArr [JArr (map JStr parts)])" by (simp add: list_all_iff)
  from json_roundtrip [OF this] obtain t where
    "JSON_stringify (JArr [JArr (map JStr parts)]) = Some t" "JSON_parse t = Some (toJson (JArr [JArr (map JStr parts)]))"
    by auto
  moreover have "toJson (JArr [JArr (map JStr parts)]) = JArr [JArr (map JStr parts)]"
    by (simp add: toJson.simps comp_def)
  ultimately show ?thesis by (simp add: command_parts_def command_post_def comp_def)
qed

text \<open>What Redis promises: a read answers a text that was stored under the key before.\<close>

definition redis_keeps :: "cache_config \<Rightarrow> server \<Rightarrow> bool" where
  "redis_keeps cfg server \<longleftrightarrow>
     (\<forall>sent key v. command_result (server sent (command_post cfg [''GET'', key])) = Inr v \<longrightarrow> truthy v \<longrightarrow>
        (\<exists>stored ttl. v = JStr stored \<and> (\<exists>p \<in> set sent. command_parts p = Some [''SET'', key, stored, ''EX'', ttl])))"

definition held :: "cache_config \<Rightarrow> http_log \<Rightarrow> string \<Rightarrow> jval cache_entry \<Rightarrow> bool" where
  "held cfg sent key entry \<longleftrightarrow>
     (\<exists>p \<in> set sent. \<exists>stored ttl parsed. command_parts p = Some [''SET'', cacheKey cfg key, stored, ''EX'', ttl] \<and>
        JSON_parse stored = Some parsed \<and> entry_of_json parsed = Some entry)"

lemma upstashGet_held:
  assumes "redis_keeps cfg server" and "upstashGet cfg server key sent = (Inr (Some entry), sent')"
  shows "held cfg sent key entry"
proof -
  obtain v where v: "command_result (server sent (command_post cfg [''GET'', cacheKey cfg key])) = Inr v"
    and "read_entry v = Inr (Some entry)"
    using assms(2) by (auto simp: upstashGet_def andThen_def answer_def command_def split: sum.splits)
  then have "truthy v" and read: "\<exists>j. (case v of JStr s \<Rightarrow> JSON_parse s | w \<Rightarrow> Some w) = Some j \<and> entry_of_json j = Some entry"
    by (auto simp: read_entry_def split: if_splits option.splits)
  with assms(1) v obtain stored ttl where "v = JStr stored"
    and "\<exists>p \<in> set sent. command_parts p = Some [''SET'', cacheKey cfg key, stored, ''EX'', ttl]"
    unfolding redis_keeps_def by blast
  with read show ?thesis by (auto simp: held_def)
qed

text \<open>A talk that sends no \<open>SET\<close>.\<close>

definition sends :: "(http_post \<Rightarrow> bool) \<Rightarrow> 'a talk \<Rightarrow> bool" where
  "sends P f \<longleftrightarrow> (\<forall>sent. \<exists>later. snd (f sent) = sent @ later \<and> list_all P later)"

lemma sends_andThen: "sends P f \<Longrightarrow> (\<And>x. sends P (g x)) \<Longrightarrow> sends P (andThen f g)"
  unfolding sends_def
proof
  fix sent
  assume f: "\<forall>sent. \<exists>later. snd (f sent) = sent @ later \<and> list_all P later"
    and g: "\<And>x. \<forall>sent. \<exists>later. snd (g x sent) = sent @ later \<and> list_all P later"
  obtain r sent' later where run: "f sent = (r, sent')" "sent' = sent @ later" "list_all P later"
    using f by (metis prod.collapse)
  show "\<exists>later. snd (andThen f g sent) = sent @ later \<and> list_all P later"
  proof (cases r)
    case (Inl err)
    with run show ?thesis by (simp add: andThen_def)
  next
    case (Inr x)
    obtain later' where "snd (g x sent') = sent' @ later'" "list_all P later'" using g by blast
    with run Inr show ?thesis by (intro exI [of _ "later @ later'"]) (simp add: andThen_def)
  qed
qed

lemma sends_answer: "sends P (answer x)"
  by (simp add: sends_def answer_def)

lemma sends_eachOf: "(\<And>x. sends P (f x)) \<Longrightarrow> sends P (eachOf f xs)"
  by (induction xs) (simp_all add: sends_answer sends_andThen)

lemma sends_command: "P (command_post cfg parts) \<Longrightarrow> sends P (command cfg server parts)"
  by (simp add: sends_def command_def)

lemmas sends_rules = sends_andThen sends_answer sends_eachOf sends_command

definition not_set :: "http_post \<Rightarrow> bool" where
  "not_set p \<longleftrightarrow> (case command_parts p of Some (name # _) \<Rightarrow> name \<noteq> ''SET'' | _ \<Rightarrow> True)"

lemma not_set_post: "name \<noteq> ''SET'' \<Longrightarrow> not_set (command_post cfg (name # args))"
  by (simp add: not_set_def)

lemma scanPages_sends: "sends not_set (scanPages rounds cfg server pat cursor)"
proof (induction rounds arbitrary: cursor)
  case 0
  show ?case by (simp add: sends_answer)
next
  case (Suc rounds)
  show ?case by (auto intro!: sends_rules not_set_post Suc split: jval.split list.split)
qed

lemma adapter_sends:
  "sends not_set (upstashGet cfg server key)" "sends not_set (upstashDelete cfg server key)"
  "sends not_set (upstashInvalidateTag cfg server tag)" "sends not_set (upstashInvalidatePrefix rounds cfg server pre)"
  by (auto simp: upstashGet_def upstashDelete_def upstashInvalidateTag_def upstashInvalidatePrefix_def scanPages_sends
      intro!: sends_rules not_set_post)

lemma held_append: "held cfg (sent @ later) key entry \<longleftrightarrow> held cfg sent key entry \<or> held cfg later key entry"
  by (auto simp: held_def)

lemma not_set_held: "list_all not_set later \<Longrightarrow> \<not> held cfg later key entry"
  by (auto simp: held_def list_all_iff not_set_def)

lemma held_sends: "sends not_set f \<Longrightarrow> held cfg (snd (f sent)) key entry \<Longrightarrow> held cfg sent key entry"
  by (metis sends_def held_append not_set_held)

lemma entry_text_parses:
  assumes "wire (entry_json entry)"
  shows "JSON_parse (entry_text entry) = Some (toJson (entry_json entry))"
proof -
  have "entry_json entry \<noteq> JUndef" by (simp add: entry_json_def)
  from json_roundtrip [OF assms this] obtain t where
    "JSON_stringify (entry_json entry) = Some t" "JSON_parse t = Some (toJson (entry_json entry))" by blast
  then show ?thesis by (simp add: entry_text_def)
qed

definition through_json :: "jval cache_entry \<Rightarrow> jval cache_entry" where
  "through_json entry = entry\<lparr>ce_value := toJson (ce_value entry)\<rparr>"

lemma entry_through_json:
  assumes "entry_of_json (toJson (entry_json entry)) = Some entry'"
  shows "entry' = through_json entry"
proof -
  have "toJson (JArr (map JStr tags)) = JArr (map JStr tags)" for tags
    by (simp add: comp_def)
  then show ?thesis
    using assms by (auto simp: entry_json_def entry_of_json_def jint_def getProp_def through_json_def
        simp del: toJson.simps(2) split: if_splits)
qed

lemma upstashSet_held:
  assumes "wire (entry_json entry)" and "held cfg (snd (upstashSet cfg server key entry ttl sent)) k entry'"
  shows "held cfg sent k entry' \<or> k = key \<and> entry' = through_json entry"
proof -
  let ?post = "command_post cfg [''SET'', cacheKey cfg key, entry_text entry, ''EX'', show_int ttl]"
  let ?tags = "eachOf (\<lambda>tag. andThen (command cfg server [''SADD'', tagKey cfg tag, key])
    (\<lambda>_. command cfg server [''EXPIRE'', tagKey cfg tag, show_int ttl])) (ce_tags entry)"
  have "sends not_set ?tags" by (intro sends_rules not_set_post) simp_all
  moreover have "snd (upstashSet cfg server key entry ttl sent) = sent @ [?post] \<or>
      snd (upstashSet cfg server key entry ttl sent) = snd (?tags (sent @ [?post]))"
    by (auto simp: upstashSet_def andThen_def command_def split: sum.splits)
  ultimately have "held cfg (sent @ [?post]) k entry'" using assms(2) held_sends by auto
  then consider "held cfg sent k entry'" | "held cfg [?post] k entry'" by (auto simp: held_append)
  then show ?thesis
  proof cases
    case 2
    then have "k = key" "entry_of_json (toJson (entry_json entry)) = Some entry'"
      by (simp_all add: held_def cacheKey_def entry_text_parses [OF assms(1)])
    then show ?thesis using entry_through_json by blast
  qed simp
qed

text \<open>What the cache needs of a remote store: it answers records that were stored under the key, and stores none by
  itself.\<close>

definition remembers :: "(jval, 'r) remote \<Rightarrow> ('r \<Rightarrow> string \<Rightarrow> jval cache_entry \<Rightarrow> bool) \<Rightarrow> bool" where
  "remembers a has \<longleftrightarrow>
     (\<forall>key r entry r'. rm_get a key r = (Inr (Some entry), r') \<longrightarrow> has r key entry) \<and>
     (\<forall>key r k entry. has (snd (rm_get a key r)) k entry \<longrightarrow> has r k entry) \<and>
     (\<forall>key r k entry. has (rm_delete a key r) k entry \<longrightarrow> has r k entry) \<and>
     (\<forall>tag r k entry. has (rm_invalidateTag a tag r) k entry \<longrightarrow> has r k entry) \<and>
     (\<forall>pre r k entry. has (rm_invalidatePrefix a pre r) k entry \<longrightarrow> has r k entry) \<and>
     (\<forall>r k entry. has (rm_clear a r) k entry \<longrightarrow> has r k entry) \<and>
     (\<forall>key entry ttl r k entry'. wire (entry_json entry) \<longrightarrow> has (rm_set a key entry ttl r) k entry' \<longrightarrow>
        has r k entry' \<or> k = key \<and> entry' = through_json entry)"

lemma upstash_remembers:
  assumes "redis_keeps cfg server"
  shows "remembers (upstash rounds cfg server) (held cfg)"
  unfolding remembers_def
proof (intro conjI allI impI)
  let ?a = "upstash rounds cfg server"
  show "held cfg r key entry" if "rm_get ?a key r = (Inr (Some entry), r')" for key r entry r'
    using upstashGet_held [OF assms] that by (simp add: upstash_def)
  show "held cfg r k entry" if "held cfg (snd (rm_get ?a key r)) k entry" for key r k entry
    using held_sends [OF adapter_sends(1)] that by (simp add: upstash_def)
  show "held cfg r k entry" if "held cfg (rm_delete ?a key r) k entry" for key r k entry
    using held_sends [OF adapter_sends(2)] that by (simp add: upstash_def)
  show "held cfg r k entry" if "held cfg (rm_invalidateTag ?a tag r) k entry" for tag r k entry
    using held_sends [OF adapter_sends(3)] that by (simp add: upstash_def)
  show "held cfg r k entry" if "held cfg (rm_invalidatePrefix ?a pre r) k entry" for pre r k entry
    using held_sends [OF adapter_sends(4)] that by (simp add: upstash_def)
  show "held cfg r k entry" if "held cfg (rm_clear ?a r) k entry" for r k entry
    using held_sends [OF adapter_sends(4)] that by (simp add: upstash_def)
  show "held cfg r k entry' \<or> k = key \<and> entry' = through_json entry"
    if "wire (entry_json entry)" "held cfg (rm_set ?a key entry ttl r) k entry'" for key entry ttl r k entry'
    using upstashSet_held that by (simp add: upstash_def)
qed

text \<open>A server that answers a read with the text stored last, and every other command with \<open>null\<close>.\<close>

fun last_text :: "string \<Rightarrow> http_log \<Rightarrow> string option" where
  "last_text key [] = None"
| "last_text key (p # ps) =
     (case last_text key ps of
        Some s \<Rightarrow> Some s
      | None \<Rightarrow>
          (case command_parts p of
             Some [c, k, s, ex, ttl] \<Rightarrow> (if c = ''SET'' \<and> k = key \<and> ex = ''EX'' then Some s else None)
           | _ \<Rightarrow> None))"

definition result_body :: "jval \<Rightarrow> string" where
  "result_body v = getOr (JSON_stringify (JArr [JObj [(''result'', v)]])) []"

definition small_redis :: server where
  "small_redis sent p =
     (case command_parts p of
        Some [c, k] \<Rightarrow> (if c = ''GET'' then Http_response 200 (Some (result_body (jnull (last_text k sent)))) else Http_response 200 None)
      | _ \<Rightarrow> Http_response 200 (Some (result_body JNull)))"

lemma last_text_sent:
  "last_text key sent = Some s \<Longrightarrow> \<exists>p \<in> set sent. \<exists>ttl. command_parts p = Some [''SET'', key, s, ''EX'', ttl]"
  by (induction sent) (auto split: option.splits list.splits if_splits)

lemma command_result_body:
  assumes "wire v" and "v \<noteq> JUndef" and "toJson v = v"
  shows "command_result (Http_response 200 (Some (result_body v))) = Inr v"
proof -
  have "wire (JArr [JObj [(''result'', v)]])" using assms(1) by simp
  from json_roundtrip [OF this] obtain t where
    "JSON_stringify (JArr [JObj [(''result'', v)]]) = Some t" "JSON_parse t = Some (toJson (JArr [JObj [(''result'', v)]]))"
    by auto
  then have "JSON_parse (result_body v) = Some (JArr [JObj [(''result'', v)]])"
    using assms by (simp add: result_body_def)
  then show ?thesis
    by (simp add: command_result_def status_ok_def getProp_def asRecord_def truthy_def)
qed

lemma small_redis_keeps: "redis_keeps cfg small_redis"
  unfolding redis_keeps_def
proof (intro allI impI)
  fix sent key v
  assume result: "command_result (small_redis sent (command_post cfg [''GET'', key])) = Inr v" and "truthy v"
  have "v = jnull (last_text key sent)"
    using result command_result_body [of "jnull (last_text key sent)"]
    by (cases "last_text key sent") (simp_all add: small_redis_def jnull_def)
  then show "\<exists>s ttl. v = JStr s \<and> (\<exists>p \<in> set sent. command_parts p = Some [''SET'', key, s, ''EX'', ttl])"
    using \<open>truthy v\<close> last_text_sent [of key sent] by (cases "last_text key sent") (auto simp: jnull_def truthy_def)
qed

end
