(* ===== verification/StatusCache.thy ===== *)
theory StatusCache
  imports Upstash Verification
begin

text \<open>
  The status of a credential is served through the cache: \<open>credentialStatus\<close> of
  \<open>verification/verification.service.ts\<close>, and the invalidation by \<open>amend\<close> and \<open>revoke\<close> of
  \<open>governance/governance.service.ts\<close>. Several processes with a cache each, the remote store they share and the
  database make a system whose events interleave: the answer of the database to a request comes back later than the
  request, and in between the database and the caches change. How old an answer can be is the main theorem.
\<close>

section \<open>Handlers\<close>

definition statusKey :: "string \<Rightarrow> string" where
  "statusKey credId = ''credential-status:'' @ credId"

definition statusTags :: "string \<Rightarrow> string list" where
  "statusTags credId = [''credential-status'', ''credential:'' @ credId]"

definition statusTtl :: int where "statusTtl = 30"

definition credentialStatus ::
    "(jval, 'r) remote option \<Rightarrow> int \<Rightarrow> int \<Rightarrow> db \<Rightarrow> string \<Rightarrow> jval cache \<times> 'r \<Rightarrow> jval res \<times> jval cache \<times> 'r" where
  "credentialStatus rm t t' d credId s =
     getOrSet rm t t' (statusKey credId) (Inr (readCredentialStatus d credId)) statusTtl (statusTags credId) s"

definition invalidateCredentialStatusFromBody :: "(jval, 'r) remote option \<Rightarrow> jval \<Rightarrow> jval cache \<times> 'r \<Rightarrow> jval cache \<times> 'r" where
  "invalidateCredentialStatusFromBody rm body s =
     (case getProp (asRecord body) ''credentialRef'' of
        JStr ref \<Rightarrow> (if ref \<noteq> [] then invalidateTag rm (''credential:'' @ ref) s else s)
      | _ \<Rightarrow> s)"

definition accepted_answer :: "string \<Rightarrow> string \<Rightarrow> jval \<Rightarrow> jval" where
  "accepted_answer operation whatNext body =
     JObj [(''accepted'', JBool True), (''operation'', JStr operation), (''next'', JStr whatNext), (''received'', body)]"

definition amend :: "(jval, 'r) remote option \<Rightarrow> jval \<Rightarrow> jval cache \<times> 'r \<Rightarrow> jval \<times> jval cache \<times> 'r" where
  "amend rm body s =
     (accepted_answer ''amend'' ''Registrar-only amendment will create signed new version without overwriting original'' body,
      invalidateCredentialStatusFromBody rm body s)"

definition revoke :: "(jval, 'r) remote option \<Rightarrow> jval \<Rightarrow> jval cache \<times> 'r \<Rightarrow> jval \<times> jval cache \<times> 'r" where
  "revoke rm body s =
     (accepted_answer ''revoke'' ''Registrar-only revocation will update credential status and reason'' body,
      invalidateCredentialStatusFromBody rm body s)"

section \<open>Processes that share a database and a remote store\<close>

text \<open>A request that waits for the database: the process, the credential, the answer under way and the instant at
  which the database was read. The history holds the database at every event; only the statements look at it.\<close>

record 'r status_system =
  sy_now :: int
  sy_db :: db
  sy_caches :: "nat \<Rightarrow> jval cache"
  sy_remote :: 'r
  sy_waiting :: "(nat \<times> string \<times> jval \<times> int) list"
  sy_history :: "(int \<times> db) list"
  sy_answers :: "(string \<times> jval \<times> int) list"

datatype system_event =
    Status_request nat string
  | Database_answers nat
  | Database_becomes db
  | Revocation nat jval
  | Time_passes nat

definition last_instant :: int where "last_instant = 8640000000000000" \<comment> \<open>of a \<open>Date\<close>\<close>

definition cache_of :: "nat \<Rightarrow> 'r status_system \<Rightarrow> jval cache \<times> 'r" where
  "cache_of i s = (sy_caches s i, sy_remote s)"

definition with_cache :: "nat \<Rightarrow> jval cache \<times> 'r \<Rightarrow> 'r status_system \<Rightarrow> 'r status_system" where
  "with_cache i p s = s\<lparr>sy_caches := (sy_caches s)(i := fst p), sy_remote := snd p\<rparr>"

text \<open>The database answers within \<open>latency\<close> milliseconds.\<close>

fun status_event :: "(jval, 'r) remote option \<Rightarrow> int \<Rightarrow> system_event \<Rightarrow> 'r status_system \<Rightarrow> 'r status_system" where
  "status_event rm latency (Status_request i credId) s =
     (case cachedValue rm (sy_now s) (statusKey credId) (cache_of i s) of
        (Some v, p) \<Rightarrow> with_cache i p s\<lparr>sy_answers := sy_answers s @ [(credId, v, sy_now s)]\<rparr>
      | (None, p) \<Rightarrow>
          with_cache i p s\<lparr>sy_waiting := sy_waiting s @ [(i, credId, readCredentialStatus (sy_db s) credId, sy_now s)]\<rparr>)"
| "status_event rm latency (Database_answers n) s =
     (if n < length (sy_waiting s) then
        (case sy_waiting s ! n of
           (i, credId, v, t0) \<Rightarrow>
             (if sy_now s \<le> t0 + latency then
                with_cache i (cacheSet rm (sy_now s) (statusKey credId) v statusTtl (statusTags credId) (cache_of i s))
                  s\<lparr>sy_waiting := take n (sy_waiting s) @ drop (Suc n) (sy_waiting s),
                    sy_answers := sy_answers s @ [(credId, v, sy_now s)]\<rparr>
              else s))
      else s)"
| "status_event rm latency (Database_becomes d) s = s\<lparr>sy_db := d\<rparr>"
| "status_event rm latency (Revocation i body) s =
     with_cache i (snd (revoke rm body (cache_of i s))) s"
| "status_event rm latency (Time_passes ms) s =
     s\<lparr>sy_now := (if sy_now s + int ms \<le> last_instant then sy_now s + int ms else sy_now s)\<rparr>"

definition status_step :: "(jval, 'r) remote option \<Rightarrow> int \<Rightarrow> system_event \<Rightarrow> 'r status_system \<Rightarrow> 'r status_system" where
  "status_step rm latency ev s = status_event rm latency ev (s\<lparr>sy_history := sy_history s @ [(sy_now s, sy_db s)]\<rparr>)"

definition status_run :: "(jval, 'r) remote option \<Rightarrow> int \<Rightarrow> system_event list \<Rightarrow> 'r status_system \<Rightarrow> 'r status_system" where
  "status_run rm latency evs s = fold (status_step rm latency) evs s"

definition status_start :: "int \<Rightarrow> db \<Rightarrow> 'r \<Rightarrow> 'r status_system" where
  "status_start t d r = \<lparr>sy_now = t, sy_db = d, sy_caches = (\<lambda>_. new_cache), sy_remote = r, sy_waiting = [],
     sy_history = [], sy_answers = []\<rparr>"

section \<open>How old an answer can be\<close>

text \<open>The status that the database had at an instant of the run.\<close>

definition was_status :: "'r status_system \<Rightarrow> string \<Rightarrow> jval \<Rightarrow> int \<Rightarrow> bool" where
  "was_status s credId v t0 \<longleftrightarrow> (\<exists>d. (t0, d) \<in> set (sy_history s) \<and> v = readCredentialStatus d credId) \<and> t0 \<le> sy_now s"

text \<open>What the cache of a process and the remote store may hold after an event.\<close>

definition good_entry :: "int \<Rightarrow> 'r status_system \<Rightarrow> string \<Rightarrow> int \<Rightarrow> jval cache_entry \<Rightarrow> bool" where
  "good_entry latency s key slack entry \<longleftrightarrow>
     (\<forall>credId. key = statusKey credId \<longrightarrow>
        (\<exists>t0. was_status s credId (ce_value entry) t0 \<and> ce_expiresAt entry < t0 + latency + 30000 + slack))"

definition no_older :: "int \<Rightarrow> (jval, 'r) remote option \<Rightarrow> ('r \<Rightarrow> string \<Rightarrow> jval cache_entry \<Rightarrow> bool) \<Rightarrow> 'r status_system \<Rightarrow> bool" where
  "no_older latency rm has s \<longleftrightarrow>
     0 \<le> sy_now s \<and> sy_now s \<le> last_instant \<and> (\<forall>i. cache_ok (sy_caches s i)) \<and>
     (\<forall>i credId v t0. (i, credId, v, t0) \<in> set (sy_waiting s) \<longrightarrow> was_status s credId v t0) \<and>
     (\<forall>i k entry. map_of (ca_entries (sy_caches s i)) k = Some entry \<longrightarrow> good_entry latency s k 1000 entry) \<and>
     (\<forall>k entry. rm \<noteq> None \<longrightarrow> has (sy_remote s) k entry \<longrightarrow> good_entry latency s k 1 entry) \<and>
     (\<forall>credId v t. (credId, v, t) \<in> set (sy_answers s) \<longrightarrow>
        (\<exists>t0. was_status s credId v t0 \<and> t0 \<le> t \<and> t < t0 + latency + 31000))"

lemma no_older_cong:
  assumes "no_older latency rm has s" and "set (sy_history s) \<subseteq> set (sy_history s')"
    and "sy_now s \<le> sy_now s'" "sy_now s' \<le> last_instant"
    and "sy_waiting s' = sy_waiting s" "sy_caches s' = sy_caches s" "sy_remote s' = sy_remote s" "sy_answers s' = sy_answers s"
  shows "no_older latency rm has s'"
proof -
  have "was_status s credId v t0 \<Longrightarrow> was_status s' credId v t0" for credId v t0
    using assms(2,3) by (auto simp: was_status_def)
  moreover from this have "good_entry latency s k slack entry \<Longrightarrow> good_entry latency s' k slack entry" for k slack entry
    unfolding good_entry_def by blast
  ultimately show ?thesis using assms unfolding no_older_def by auto metis+
qed

lemma was_status_with_cache [simp]:
  "was_status (with_cache i p s) = was_status s" "was_status (s\<lparr>sy_answers := as\<rparr>) = was_status s"
  "was_status (s\<lparr>sy_waiting := ws\<rparr>) = was_status s" "was_status (s\<lparr>sy_waiting := ws, sy_answers := as\<rparr>) = was_status s"
  by (simp_all add: was_status_def with_cache_def fun_eq_iff)

lemma readCredentialStatus_json:
  "wire (readCredentialStatus d credId)" "toJson (readCredentialStatus d credId) = readCredentialStatus d credId"
  by (auto simp: readCredentialStatus_def jdate_def jnull_def split: option.split)

lemma statusKey_inj [simp]: "statusKey a = statusKey b \<longleftrightarrow> a = b"
  by (simp add: statusKey_def)

text \<open>One process changes its cache and the remote store.\<close>

lemma no_older_with_cache:
  assumes "no_older latency rm has s" and "cache_ok c'"
    and "\<And>k entry. map_of (ca_entries c') k = Some entry \<Longrightarrow>
      map_of (ca_entries (sy_caches s i)) k = Some entry \<or> good_entry latency s k 1000 entry"
    and "\<And>k entry. rm \<noteq> None \<Longrightarrow> has r' k entry \<Longrightarrow> has (sy_remote s) k entry \<or> good_entry latency s k 1 entry"
  shows "no_older latency rm has (with_cache i (c', r') s)"
proof -
  have same: "good_entry latency (with_cache i (c', r') s) = good_entry latency s"
    by (simp add: good_entry_def fun_eq_iff)
  show ?thesis
    using assms unfolding no_older_def same
    by (auto simp: with_cache_def was_status_def) metis+
qed

lemma no_older_answer:
  assumes "no_older latency rm has s" and "was_status s credId v t0" "sy_now s < t0 + latency + 31000"
    and "set ws \<subseteq> set (sy_waiting s)"
  shows "no_older latency rm has (s\<lparr>sy_waiting := ws, sy_answers := sy_answers s @ [(credId, v, sy_now s)]\<rparr>)"
proof -
  have "t0 \<le> sy_now s" using assms(2) by (simp add: was_status_def)
  moreover have "good_entry latency (s\<lparr>sy_waiting := ws, sy_answers := as\<rparr>) = good_entry latency s" for as
    by (simp add: good_entry_def fun_eq_iff)
  ultimately show ?thesis using assms unfolding no_older_def by (auto simp: subset_iff) metis+
qed

lemma no_older_wait:
  assumes "no_older latency rm has s" and "was_status s credId v t0"
  shows "no_older latency rm has (s\<lparr>sy_waiting := sy_waiting s @ [(i, credId, v, t0)]\<rparr>)"
proof -
  have "good_entry latency (s\<lparr>sy_waiting := ws\<rparr>) = good_entry latency s" for ws
    by (simp add: good_entry_def fun_eq_iff)
  with assms show ?thesis unfolding no_older_def by auto
qed

definition remote_ok :: "(jval, 'r) remote option \<Rightarrow> ('r \<Rightarrow> string \<Rightarrow> jval cache_entry \<Rightarrow> bool) \<Rightarrow> bool" where
  "remote_ok rm has \<longleftrightarrow> (case rm of None \<Rightarrow> True | Some a \<Rightarrow> remembers a has)"

lemma remote_rules:
  assumes "remote_ok rm has" and "rm = Some a"
  shows "rm_get a key r = (Inr (Some entry), r') \<Longrightarrow> has r key entry"
    and "has (snd (rm_get a key r)) k entry \<Longrightarrow> has r k entry"
    and "has (rm_delete a key r) k entry \<Longrightarrow> has r k entry"
    and "has (rm_invalidateTag a tag r) k entry \<Longrightarrow> has r k entry"
    and "wire (entry_json entry) \<Longrightarrow> has (rm_set a key entry ttl r) k entry' \<Longrightarrow>
      has r k entry' \<or> k = key \<and> entry' = through_json entry"
proof -
  have r: "remembers a has" using assms by (simp add: remote_ok_def)
  note parts = r [unfolded remembers_def]
  show "rm_get a key r = (Inr (Some entry), r') \<Longrightarrow> has r key entry"
    using parts [THEN conjunct1] by simp
  show "has (snd (rm_get a key r)) k entry \<Longrightarrow> has r k entry"
    using parts [THEN conjunct2, THEN conjunct1] by simp
  show "has (rm_delete a key r) k entry \<Longrightarrow> has r k entry"
    using parts [THEN conjunct2, THEN conjunct2, THEN conjunct1] by simp
  show "has (rm_invalidateTag a tag r) k entry \<Longrightarrow> has r k entry"
    using parts [THEN conjunct2, THEN conjunct2, THEN conjunct2, THEN conjunct1] by simp
  show "wire (entry_json entry) \<Longrightarrow> has (rm_set a key entry ttl r) k entry' \<Longrightarrow>
      has r k entry' \<or> k = key \<and> entry' = through_json entry"
    using parts [THEN conjunct2, THEN conjunct2, THEN conjunct2, THEN conjunct2, THEN conjunct2, THEN conjunct2] by simp
qed

lemma lookup_no_older:
  assumes inv: "no_older latency rm has s" and remote: "remote_ok rm has"
    and run: "cachedValue rm (sy_now s) (statusKey credId) (cache_of i s) = (found, p)"
  shows "no_older latency rm has (with_cache i p s)"
    and "\<And>v. found = Some v \<Longrightarrow> \<exists>t0. was_status s credId v t0 \<and> sy_now s < t0 + latency + 31000"
proof -
  obtain c' r' where p: "p = (c', r')" by fastforce
  let ?P = "\<lambda>r. rm \<noteq> None \<longrightarrow> (\<forall>k entry. has r k entry \<longrightarrow> has (sy_remote s) k entry)"
  have P: "?P (sy_remote s)" "\<And>a x. rm = Some a \<Longrightarrow> ?P x \<Longrightarrow> ?P (rm_delete a (statusKey credId) x)"
    "\<And>a x. rm = Some a \<Longrightarrow> ?P x \<Longrightarrow> ?P (snd (rm_get a (statusKey credId) x))"
    using remote_rules(2,3) [OF remote] by blast+
  have ok: "cache_ok (sy_caches s i)" using inv by (simp add: no_older_def)
  note effect = cachedValue_effect [OF ok run [unfolded p cache_of_def] P]
  have new: "good_entry latency s (statusKey credId) 1000 entry"
    if "copied_from rm ?P (sy_now s) (statusKey credId) entry" for entry
  proof -
    from that obtain a r r'' kept where a: "rm = Some a" "?P r" "rm_get a (statusKey credId) r = (Inr (Some kept), r'')"
      "ce_value entry = ce_value kept" "ce_expiresAt entry < ce_expiresAt kept + 1000"
      by (auto simp: copied_from_def)
    then have "has (sy_remote s) (statusKey credId) kept" using remote_rules(1) [OF remote a(1,3)] by blast
    then have "good_entry latency s (statusKey credId) 1 kept" using inv a(1) by (auto simp: no_older_def)
    with a(4,5) show ?thesis by (fastforce simp: good_entry_def)
  qed
  have view: "map_of (ca_entries (sy_caches s i)) k = Some entry \<or> good_entry latency s k 1000 entry"
    if "map_of (ca_entries c') k = Some entry" for k entry
    using effect that new by blast
  show "no_older latency rm has (with_cache i p s)"
    unfolding p using effect view by (intro no_older_with_cache [OF inv]) auto
  show "\<exists>t0. was_status s credId v t0 \<and> sy_now s < t0 + latency + 31000" if "found = Some v" for v
  proof -
    from effect that obtain entry where entry: "map_of (ca_entries c') (statusKey credId) = Some entry"
      "ce_value entry = v" "sy_now s < ce_expiresAt entry" by blast
    have "good_entry latency s k 1000 entry" if "map_of (ca_entries (sy_caches s i)) k = Some entry" for k
      using inv that unfolding no_older_def by blast
    with view [OF entry(1)] have "good_entry latency s (statusKey credId) 1000 entry" by blast
    with entry show ?thesis by (fastforce simp: good_entry_def)
  qed
qed

lemma store_no_older:
  assumes inv: "no_older latency rm has s" and remote: "remote_ok rm has"
    and was: "was_status s credId v t0" and soon: "sy_now s \<le> t0 + latency"
  shows "no_older latency rm has
    (with_cache i (cacheSet rm (sy_now s) (statusKey credId) v statusTtl (statusTags credId) (cache_of i s)) s)"
proof -
  obtain c' r' where p: "cacheSet rm (sy_now s) (statusKey credId) v statusTtl (statusTags credId) (cache_of i s) = (c', r')"
    by fastforce
  let ?entry = "\<lparr>ce_value = v, ce_expiresAt = sy_now s + 30000, ce_tags = first_occurrences (statusTags credId)\<rparr>"
  have ok: "cache_ok (sy_caches s i)" using inv by (simp add: no_older_def)
  have c': "cache_ok c'" "map_of (ca_entries c') = (map_of (ca_entries (sy_caches s i)))(statusKey credId \<mapsto> ?entry)"
    using cacheSet_effect [OF ok, of rm "sy_now s" "statusKey credId" v statusTtl "statusTags credId" "sy_remote s"] p
    by (simp_all add: cache_of_def statusTtl_def view_of_def put_in_def Let_def)
  have good: "good_entry latency s (statusKey credId) slack ?entry" if "0 < slack" for slack
    using was soon that by (auto simp: good_entry_def)
  have r': "r' = tell rm (\<lambda>a. rm_set a (statusKey credId) ?entry 30) (sy_remote s)"
    using p by (simp add: cacheSet_def cache_of_def statusTtl_def Let_def split_beta setLocal_def)
  obtain d where v: "v = readCredentialStatus d credId" using was by (auto simp: was_status_def)
  have json: "wire (entry_json ?entry)" "through_json ?entry = ?entry"
    using inv by (simp_all add: entry_json_def through_json_def v readCredentialStatus_json whole_def jint_def
        list_all_iff no_older_def last_instant_def)
  have kept: "has (sy_remote s) k entry \<or> good_entry latency s k 1 entry" if far: "rm \<noteq> None" "has r' k entry" for k entry
  proof -
    obtain a where a: "rm = Some a" using far(1) by (cases rm) auto
    then have "has (rm_set a (statusKey credId) ?entry 30 (sy_remote s)) k entry" using far(2) r' by (simp add: tell_def)
    then have "has (sy_remote s) k entry \<or> k = statusKey credId \<and> entry = through_json ?entry"
      using remote_rules(5) [OF remote a json(1)] by blast
    with good [of 1] show ?thesis by (auto simp: json(2))
  qed
  show ?thesis
    unfolding p using c' good [of 1000] kept by (intro no_older_with_cache [OF inv]) (auto split: if_splits)
qed

lemma revocation_no_older:
  assumes inv: "no_older latency rm has s" and remote: "remote_ok rm has"
  shows "no_older latency rm has (with_cache i (snd (revoke rm body (cache_of i s))) s)"
proof -
  have ok: "cache_ok (sy_caches s i)" using inv by (simp add: no_older_def)
  have drop: "no_older latency rm has (with_cache i (invalidateTag rm tag (cache_of i s)) s)" for tag
  proof -
    obtain c' r' where p: "invalidateTag rm tag (cache_of i s) = (c', r')" by fastforce
    have c': "cache_ok c'" "map_of (ca_entries c') = keep_entries (\<lambda>k entry. tag \<notin> set (ce_tags entry)) (map_of (ca_entries (sy_caches s i)))"
      using invalidateTag_effect [OF ok, of rm tag "sy_remote s"] p by (simp_all add: cache_of_def)
    have "r' = tell rm (\<lambda>a. rm_invalidateTag a tag) (sy_remote s)"
      using p by (simp add: invalidateTag_def cache_of_def Let_def)
    then have "has (sy_remote s) k entry" if "rm \<noteq> None" "has r' k entry" for k entry
      using remote_rules(4) [OF remote] that by (auto simp: tell_def)
    then show ?thesis
      unfolding p using c' by (intro no_older_with_cache [OF inv]) (auto simp: keep_entries_def split: option.splits if_splits)
  qed
  have "with_cache i (cache_of i s) s = s" by (simp add: with_cache_def cache_of_def)
  then show ?thesis using drop inv by (simp add: revoke_def invalidateCredentialStatusFromBody_def split: jval.split)
qed

lemma event_no_older:
  assumes inv: "no_older latency rm has s" and remote: "remote_ok rm has"
    and now: "(sy_now s, sy_db s) \<in> set (sy_history s)"
  shows "no_older latency rm has (status_event rm latency ev s)"
proof (cases ev)
  case (Status_request i credId)
  obtain found p where run: "cachedValue rm (sy_now s) (statusKey credId) (cache_of i s) = (found, p)" by (rule prod.exhaust)
  note look = lookup_no_older [OF inv remote run]
  have clock: "sy_now (with_cache i p s) = sy_now s" "sy_answers (with_cache i p s) = sy_answers s"
    "sy_waiting (with_cache i p s) = sy_waiting s" by (simp_all add: with_cache_def)
  show ?thesis
  proof (cases found)
    case None
    have "was_status (with_cache i p s) credId (readCredentialStatus (sy_db s) credId) (sy_now s)"
      using now by (auto simp: was_status_def)
    from no_older_wait [OF look(1) this, of i] show ?thesis by (simp add: Status_request run None clock)
  next
    case (Some v)
    obtain t0 where "was_status (with_cache i p s) credId v t0" "sy_now (with_cache i p s) < t0 + latency + 31000"
      using look(2) [OF Some] by (auto simp: clock)
    from no_older_answer [OF look(1) this subset_refl]
    have "no_older latency rm has (with_cache i p s\<lparr>sy_answers := sy_answers s @ [(credId, v, sy_now s)]\<rparr>)"
      by (simp add: with_cache_def)
    then show ?thesis by (simp add: Status_request run Some)
  qed
next
  case (Database_answers n)
  show ?thesis
  proof (cases "n < length (sy_waiting s)")
    case True
    obtain i credId v t0 where w: "sy_waiting s ! n = (i, credId, v, t0)" by (cases "sy_waiting s ! n") auto
    with True have "(i, credId, v, t0) \<in> set (sy_waiting s)" by (metis nth_mem)
    then have was: "was_status s credId v t0" using inv unfolding no_older_def by blast
    show ?thesis
    proof (cases "sy_now s \<le> t0 + latency")
      case soon: True
      let ?p = "cacheSet rm (sy_now s) (statusKey credId) v statusTtl (statusTags credId) (cache_of i s)"
      let ?ws = "take n (sy_waiting s) @ drop (Suc n) (sy_waiting s)"
      let ?s = "s\<lparr>sy_waiting := ?ws, sy_answers := sy_answers s @ [(credId, v, sy_now s)]\<rparr>"
      have "set ?ws \<subseteq> set (sy_waiting s)" by (auto dest: in_set_takeD in_set_dropD)
      then have answered: "no_older latency rm has ?s" using soon by (intro no_older_answer [OF inv was]) simp_all
      have "was_status ?s credId v t0" "sy_now ?s \<le> t0 + latency" using was soon by simp_all
      from store_no_older [OF answered remote this, of i]
      have "no_older latency rm has (with_cache i ?p ?s)" by (simp add: cache_of_def)
      moreover have "with_cache i ?p s\<lparr>sy_waiting := ?ws, sy_answers := sy_answers s @ [(credId, v, sy_now s)]\<rparr> = with_cache i ?p ?s"
        by (simp add: with_cache_def)
      ultimately show ?thesis using soon True by (simp add: Database_answers w)
    qed (use inv in \<open>simp add: Database_answers w\<close>)
  qed (use inv in \<open>simp add: Database_answers\<close>)
next
  case (Database_becomes d)
  have "sy_now s \<le> last_instant" using inv by (simp add: no_older_def)
  then show ?thesis unfolding Database_becomes by (intro no_older_cong [OF inv]) simp_all
next
  case (Revocation i body)
  then show ?thesis using revocation_no_older [OF inv remote] by simp
next
  case (Time_passes ms)
  have "sy_now s \<le> last_instant" using inv by (simp add: no_older_def)
  then show ?thesis unfolding Time_passes by (intro no_older_cong [OF inv]) simp_all
qed

lemma run_no_older:
  "remote_ok rm has \<Longrightarrow> no_older latency rm has s \<Longrightarrow> no_older latency rm has (status_run rm latency evs s)"
proof (induction evs arbitrary: s)
  case Nil
  then show ?case by (simp add: status_run_def)
next
  case (Cons ev evs)
  let ?s = "s\<lparr>sy_history := sy_history s @ [(sy_now s, sy_db s)]\<rparr>"
  have "sy_now s \<le> last_instant" using Cons.prems(2) by (simp add: no_older_def)
  then have "no_older latency rm has ?s" by (intro no_older_cong [OF Cons.prems(2)]) auto
  from event_no_older [OF this Cons.prems(1), of ev] Cons.IH [OF Cons.prems(1)]
  show ?case by (simp add: status_run_def status_step_def)
qed

text \<open>C29. However many processes serve the status of credentials through their caches and the remote store that
  the environment configures, and however requests, answers of the database, changes and revocations interleave: an
  answer is the status that the database had at most 31 seconds and the time of a query before. The store has to
  answer reads with what was stored under the key, and the database to answer within \<open>latency\<close>.\<close>

theorem credential_status_bounded_staleness:
  assumes "\<And>cfg. redis_keeps cfg server" and "0 \<le> t" and "t \<le> last_instant"
    and "s = status_run (map_option (\<lambda>cfg. upstash rounds cfg server) (createRemoteAdapter env)) latency evs (status_start t d [])"
    and "(credId, v, at_time) \<in> set (sy_answers s)"
  shows "\<exists>t0 d0. (t0, d0) \<in> set (sy_history s) \<and> v = readCredentialStatus d0 credId \<and>
    t0 \<le> at_time \<and> at_time < t0 + latency + 31000"
proof -
  let ?rm = "map_option (\<lambda>cfg. upstash rounds cfg server) (createRemoteAdapter env)"
  obtain has where has: "remote_ok ?rm has" "\<And>k entry. \<not> has [] k entry"
  proof (cases "createRemoteAdapter env")
    case None
    then show ?thesis using that [of "\<lambda>_ _ _. False"] by (simp add: remote_ok_def)
  next
    case (Some cfg)
    then show ?thesis
      using that [of "held cfg"] upstash_remembers [OF assms(1)] by (simp add: remote_ok_def held_def)
  qed
  have "cache_ok new_cache" by (simp add: new_cache_def cache_ok_def index_wf_def indexed_def holders_def)
  then have "no_older latency ?rm has (status_start t d [])"
    using assms(2,3) has(2) by (simp add: no_older_def status_start_def new_cache_def)
  from run_no_older [OF has(1) this, of evs] assms(4,5) show ?thesis
    unfolding no_older_def was_status_def by blast
qed

section \<open>A revocation in another process\<close>

definition certificate :: credential where
  "certificate = \<lparr>cr_uuid = ''c1'', cr_credentialRef = ''ref-1'', cr_learnerId = ''l1'', cr_institutionId = school,
     cr_academicRecordId = None, cr_recordRequestId = None, cr_type = RESULT_SLIP, cr_scope = JObj [],
     cr_vcPayload = JObj [], cr_signature = ''x'', cr_status = Cred_ACTIVE, cr_issuedAt = 900, cr_revokedAt = None,
     cr_revocationReason = None\<rparr>"

definition certificate_db :: "credential_status \<Rightarrow> db" where
  "certificate_db st = sample_db\<lparr>credentials := [certificate\<lparr>cr_status := st\<rparr>]\<rparr>"

definition local_only :: cache_environment where
  "local_only = \<lparr>ce_ACADID_CACHE_ADAPTER = Some ''memory'', ce_UPSTASH_REDIS_REST_URL = None,
     ce_UPSTASH_REDIS_REST_TOKEN = None, ce_ACADID_CACHE_KEY_PREFIX = None\<rparr>"

text \<open>The first process revokes; the second one, which has asked before, goes on with the old status for its time to
  live and then asks again. The first one stores the old status anew when an answer was under way.\<close>

definition revoked_elsewhere :: "system_event list" where
  "revoked_elsewhere =
     [Status_request 1 ''ref-1'', Database_answers 0, Status_request 0 ''ref-1'', Database_becomes (certificate_db Cred_REVOKED),
      Revocation 0 (JObj [(''credentialRef'', JStr ''ref-1'')]), Time_passes 20, Database_answers 0, Time_passes 29000,
      Status_request 0 ''ref-1'', Status_request 1 ''ref-1'', Time_passes 980, Status_request 0 ''ref-1'', Status_request 1 ''ref-1'', Database_answers 0]"

definition status_json :: "string \<Rightarrow> jval" where
  "status_json status = JObj [(''credentialRef'', JStr ''ref-1''), (''status'', JStr status), (''revokedAt'', JNull),
     (''revocationReason'', JNull)]"

definition revoked_run :: "http_log status_system" where
  "revoked_run = status_run (map_option (\<lambda>cfg. upstash 5 cfg small_redis) (createRemoteAdapter local_only)) 50 revoked_elsewhere
     (status_start 1000 (certificate_db Cred_ACTIVE) [])"

lemma certificate_status:
  "readCredentialStatus (certificate_db Cred_ACTIVE) ''ref-1'' = status_json ''ACTIVE''"
  "readCredentialStatus (certificate_db Cred_REVOKED) ''ref-1'' = status_json ''REVOKED''"
  by code_simp+

lemma revoked_answers:
  "sy_answers revoked_run = [(''ref-1'', status_json ''ACTIVE'', 1000), (''ref-1'', status_json ''ACTIVE'', 1020),
     (''ref-1'', status_json ''ACTIVE'', 30020), (''ref-1'', status_json ''ACTIVE'', 30020),
     (''ref-1'', status_json ''ACTIVE'', 31000), (''ref-1'', status_json ''REVOKED'', 31000)]"
proof -
  have "createRemoteAdapter local_only = None" by code_simp
  then show ?thesis
    by (simp add: revoked_run_def revoked_elsewhere_def status_run_def status_step_def status_start_def with_cache_def
        cache_of_def cachedValue_def cacheGet_def getRemote_def new_cache_def count_def certificate_status cacheSet_def
        statusTtl_def statusTags_def setLocal_def deleteLocal_def cacheDelete_def drop_key_def index_remove_def
        first_occurrences_def statusKey_def last_instant_def revoke_def
        invalidateCredentialStatusFromBody_def getProp_def asRecord_def invalidateTag_def index_add_def set_add_def
        tell_def Let_def)
qed

theorem credential_status_bounded_staleness_witness:
  "\<exists>t0 d0. (''ref-1'', status_json ''ACTIVE'', 31000) \<in> set (sy_answers revoked_run) \<and>
     (t0, d0) \<in> set (sy_history revoked_run) \<and> status_json ''ACTIVE'' = readCredentialStatus d0 ''ref-1'' \<and>
     t0 \<le> 31000 \<and> 31000 < t0 + 50 + 31000"
proof -
  have "(''ref-1'', status_json ''ACTIVE'', 31000) \<in> set (sy_answers revoked_run)" by (simp add: revoked_answers)
  from credential_status_bounded_staleness [OF small_redis_keeps _ _ revoked_run_def this] this show ?thesis
    by (simp add: last_instant_def)
qed

end
