(* ===== verification/PaystackWebhook.thy ===== *)
theory PaystackWebhook
  imports Paystack Queue Token RowMachine "HOL-Library.Sublist"
begin

text \<open>
  \<open>payments/paystack-webhook.service.ts\<close>: a signed webhook of the payment provider becomes a job that confirms the
  payment of a record request. HMAC-SHA512 is a parameter, as are the environment variables with the secret. The
  503 of a missing secret is a \<open>Failure\<close> here.
\<close>

section \<open>The signature\<close>

datatype raw_body = Raw_buffer "nat list" | Raw_text string

record webhook_request =
  wq_payload :: jval
  wq_rawBody :: "raw_body option"
  wq_signature :: "string option"

record paystack_env =
  px_PAYSTACK_SECRET_KEY :: "string option"
  px_PAYSTACK_WEBHOOK_SECRET :: "string option"
  px_hmac512 :: "string \<Rightarrow> nat list \<Rightarrow> string" \<comment> \<open>\<open>createHmac("sha512", secret).update(body).digest("hex")\<close>\<close>

definition signed_body :: "webhook_request \<Rightarrow> nat list" where
  "signed_body w =
     (case wq_rawBody w of
        Some (Raw_buffer b) \<Rightarrow> b
      | Some (Raw_text s) \<Rightarrow> utf8 s
      | None \<Rightarrow> utf8 (getOr (JSON_stringify (if wq_payload w = JUndef \<or> wq_payload w = JNull then JObj [] else wq_payload w)) []))"

text \<open>\<open>timingSafeEqual\<close> on buffers of the same length.\<close>

definition secureEqual :: "string \<Rightarrow> string \<Rightarrow> bool" where
  "secureEqual left right \<longleftrightarrow> length (utf8 left) = length (utf8 right) \<and> utf8 left = utf8 right"

definition assertValidSignature :: "paystack_env \<Rightarrow> webhook_request \<Rightarrow> unit res" where
  "assertValidSignature px w =
     (let secret = orElse (px_PAYSTACK_SECRET_KEY px) (px_PAYSTACK_WEBHOOK_SECRET px) in
      bindE (failIf (\<not> truthy_text secret) (Failure ''Paystack webhook secret is not configured.'')) (\<lambda>_.
      bindE (failIf (\<not> truthy_text (wq_signature w)) (Unauthorized ''Paystack webhook signature is required.'')) (\<lambda>_.
      failIf (\<not> secureEqual (getOr (wq_signature w) []) (px_hmac512 px (getOr secret []) (signed_body w)))
        (Unauthorized ''Invalid Paystack webhook signature.''))))"

section \<open>The fields of the payload\<close>

text \<open>\<open>Number.parseInt(value, 10)\<close>\<close>

definition parseInt :: "string \<Rightarrow> int option" where
  "parseInt s =
     (let t = dropWhile is_space s;
          (neg, u) = (case t of c # cs \<Rightarrow> (if c = CHR ''-'' then (True, cs) else if c = CHR ''+'' then (False, cs) else (False, t))
                      | [] \<Rightarrow> (False, t));
          ds = takeWhile is_digit u
      in if ds = [] then None else Some (if neg then - int (dec_val ds) else int (dec_val ds)))"

definition asPositiveInteger :: "jval \<Rightarrow> int option" where
  "asPositiveInteger v =
     (case v of
        JNum (Fin x) \<Rightarrow> (if x \<le> 0 then None else Some \<lfloor>x\<rfloor>)
      | JStr s \<Rightarrow> (case parseInt s of None \<Rightarrow> None | Some n \<Rightarrow> if n \<le> 0 then None else Some n)
      | _ \<Rightarrow> None)"

definition parseJsonRecord :: "string \<Rightarrow> (string \<times> jval) list" where
  "parseJsonRecord s = (case JSON_parse s of None \<Rightarrow> [] | Some v \<Rightarrow> asRecord v)"

definition extractMetadata :: "jval \<Rightarrow> (string \<times> string) list" where
  "extractMetadata v =
     fold (\<lambda>(key, entry) output. case asString entry of None \<Rightarrow> output | Some s \<Rightarrow> set_prop key s output)
       (case v of JStr s \<Rightarrow> parseJsonRecord s | _ \<Rightarrow> asRecord v) []"

definition metadataRecordId :: "(string \<times> string) list \<Rightarrow> string option" where
  "metadataRecordId m = orElse (map_of m ''recordRequestId'') (map_of m ''record_request_id'')"

definition metadataRequestId :: "(string \<times> string) list \<Rightarrow> string option" where
  "metadataRequestId m = orElse (map_of m ''requestId'') (map_of m ''request_id'')"

definition findRecordRequest :: "db \<Rightarrow> string option \<Rightarrow> string option \<Rightarrow> string \<Rightarrow> record_request option" where
  "findRecordRequest d recordRequestId requestId reference =
     orElse (case asString (jstr recordRequestId) of None \<Rightarrow> None
         | Some i \<Rightarrow> if uuidPattern i then find_by rr_uuid i (recordRequests d) else None)
       (orElse (case asString (jstr requestId) of None \<Rightarrow> None | Some i \<Rightarrow> find_by rr_requestId i (recordRequests d))
         (List.find (\<lambda>r. rr_paymentReference r = Some reference \<or> rr_requestId r = reference) (recordRequests d)))"

section \<open>The handler\<close>

record paystack_charge =
  pk_event :: string
  pk_reference :: string
  pk_amountMinor :: int
  pk_currency :: string
  pk_status :: "string option"
  pk_paidAt :: "string option"
  pk_metadata :: "(string \<times> string) list"
  pk_eventId :: string
  pk_customerEmail :: "string option"

text \<open>A charge that has succeeded; \<open>None\<close> is another event, which is acknowledged and ignored.\<close>

definition readCharge :: "jval \<Rightarrow> (string \<times> paystack_charge option) res" where
  "readCharge body =
     (let payload = asRecord body;
          data = asRecord (getProp payload ''data'');
          amountMinor = getOr (asPositiveInteger (getProp data ''amount'')) 0
      in
      bindE (require (asString (getProp payload ''event'')) (BadRequest ''Paystack webhook event is required.'')) (\<lambda>event.
      if event \<noteq> ''charge.success'' then Inr (event, None)
      else
        bindE (require (asString (getProp data ''reference''))
          (BadRequest ''Paystack charge.success webhook requires a transaction reference.'')) (\<lambda>reference.
        bindE (failIf (amountMinor = 0) (BadRequest ''Paystack charge.success webhook requires a positive amount.'')) (\<lambda>_.
        Inr (event, Some
          \<lparr>pk_event = event, pk_reference = reference, pk_amountMinor = amountMinor,
           pk_currency = getOr (map_option toUpperCase (asString (getProp data ''currency''))) ''NGN'',
           pk_status = asString (getProp data ''status''),
           pk_paidAt = orElse (asString (getProp data ''paid_at''))
             (orElse (asString (getProp data ''paidAt'')) (asString (getProp data ''created_at''))),
           pk_metadata = extractMetadata (getProp data ''metadata''),
           pk_eventId = getOr (orElse (asString (getProp payload ''id'')) (asString (getProp data ''id''))) reference,
           pk_customerEmail = asString (getProp (asRecord (getProp data ''customer'')) ''email'')\<rparr>)))))"

definition chargedRequest :: "db \<Rightarrow> paystack_charge \<Rightarrow> record_request option" where
  "chargedRequest d k =
     findRecordRequest d (orElse (metadataRecordId (pk_metadata k)) (map_of (pk_metadata k) ''recordRequestUuid''))
       (metadataRequestId (pk_metadata k)) (pk_reference k)"

definition chargePayload :: "env \<Rightarrow> paystack_charge \<Rightarrow> record_request option \<Rightarrow> jval" where
  "chargePayload e k request =
     toJson (JObj
       [(''provider'', JStr ''PAYSTACK''), (''event'', JStr (pk_event k)), (''eventId'', JStr (pk_eventId k)),
        (''reference'', JStr (pk_reference k)), (''status'', jstr (pk_status k)), (''amountMinor'', jint (pk_amountMinor k)),
        (''currency'', JStr (pk_currency k)), (''paidAt'', jstr (pk_paidAt k)), (''customerEmail'', jstr (pk_customerEmail k)),
        (''recordRequestId'', jnull (orElse (map_option rr_uuid request) (metadataRecordId (pk_metadata k)))),
        (''requestId'', jnull (orElse (map_option rr_requestId request) (metadataRequestId (pk_metadata k)))),
        (''metadata'', JObj (map (\<lambda>(n, s). (n, JStr s)) (pk_metadata k))), (''receivedAt'', JStr (toISOString (now e)))])"

definition chargeJob :: "env \<Rightarrow> paystack_charge \<Rightarrow> record_request option \<Rightarrow> enqueue_input" where
  "chargeJob e k request =
     (plain_job PAYSTACK_PAYMENT_CONFIRMATION (case request of None \<Rightarrow> None | Some r \<Rightarrow> rr_institutionId r)
        (chargePayload e k request))
     \<lparr>ej_relatedEntityType := Some ''RecordRequest'', ej_relatedEntityId := map_option rr_uuid request,
      ej_priority := Some 4, ej_eventType := Some ''paystack.payment.webhook_received'',
      ej_eventPayload := Some (toJson (JObj [(''event'', JStr (pk_event k)), (''reference'', JStr (pk_reference k)),
        (''amountMinor'', jint (pk_amountMinor k)), (''currency'', JStr (pk_currency k)),
        (''recordRequestId'', jnull (map_option rr_uuid request)), (''requestId'', jnull (map_option rr_requestId request))])),
      ej_idempotencyScope := Some ''webhook:paystack'',
      ej_idempotencyKey := Some (pk_event k @ '':'' @ pk_eventId k @ '':'' @ pk_reference k),
      ej_idempotencyTtlHours := Some (Fin (24 * 31))\<rparr>"

definition receiveWebhook ::
    "(string \<Rightarrow> 'k::linorder) \<Rightarrow> paystack_env \<Rightarrow> env \<Rightarrow> db \<Rightarrow> webhook_request \<Rightarrow> jval res \<times> db" where
  "receiveWebhook collate px e d w =
     (case bindE (assertValidSignature px w) (\<lambda>_. readCharge (wq_payload w)) of
        Inl err \<Rightarrow> (Inl err, d)
      | Inr (event, None) \<Rightarrow>
          (Inr (JObj [(''accepted'', JBool True), (''ignored'', JBool True), (''event'', JStr event),
             (''reason'', JStr ''Only charge.success events change AcadID record request payment state.'')]), d)
      | Inr (event, Some k) \<Rightarrow>
          (let request = chargedRequest d k in
           case enqueueJob collate e d (chargeJob e k request) of
             (Inl err, d') \<Rightarrow> (Inl err, d')
           | (Inr job, d') \<Rightarrow>
               (Inr (JObj [(''accepted'', JBool True), (''event'', JStr event), (''reference'', JStr (pk_reference k)),
                  (''recordRequestId'', jnull (map_option rr_uuid request)),
                  (''requestId'', jnull (map_option rr_requestId request)),
                  (''jobId'', getProp (asRecord job) ''jobId''), (''pollingUrl'', getProp (asRecord job) ''pollingUrl'')]), d')))"

section \<open>Texts that differ in one property\<close>

lemma join_middle: "\<exists>P Q. \<forall>x. join sep (xs @ x # ys) = P @ x @ Q"
proof (induction xs)
  case Nil
  show ?case
  proof (cases ys)
    case Nil
    then show ?thesis by (intro exI [of _ "[]"] exI [of _ "[]"]) simp
  next
    case (Cons y ys')
    then show ?thesis by (intro exI [of _ "[]"] exI [of _ "sep @ join sep ys"]) simp
  qed
next
  case (Cons a xs)
  then obtain P Q where "\<forall>x. join sep (xs @ x # ys) = P @ x @ Q" by blast
  then show ?case by (intro exI [of _ "a @ sep @ P"] exI [of _ Q]) (cases xs; simp)
qed

lemma sort_key_keep: "(\<And>x. f (g x) = f x) \<Longrightarrow> sort_key f (map g xs) = map g (sort_key f xs)"
proof (induction xs)
  case Nil
  then show ?case by simp
next
  case (Cons x xs)
  have "insort_key f (g x) (map g ys) = map g (insort_key f x ys)" for ys
    by (induction ys) (simp_all add: Cons.prems)
  then show ?case using Cons by simp
qed

lemma members_append: "members collate (xs @ ys) = members collate xs @ members collate ys"
  by (induction xs) (auto split: option.split)

lemma stable_object: "stableStringify collate (JObj ob) =
    Some (''{'' @ join '','' (map (\<lambda>(k, s). json_quote k @ '':'' @ s) (sort_key (\<lambda>(k, s). collate k) (members collate ob))) @ ''}'')"
  by (simp add: members_def)

text \<open>Only the value of one property differs, and its text differs: then the texts of the objects differ.\<close>

lemma stable_differs:
  assumes "stableStringify collate v = Some s" and "stableStringify collate v' = Some s'" and "s \<noteq> s'"
    and "k \<notin> fst ` set xs" and "k \<notin> fst ` set ys"
  shows "stableStringify collate (JObj (xs @ (k, v) # ys)) \<noteq> stableStringify collate (JObj (xs @ (k, v') # ys))"
proof -
  let ?A = "members collate xs" and ?B = "members collate ys"
  let ?f = "\<lambda>(k, s :: string). collate k" and ?h = "\<lambda>(k, s). json_quote k @ '':'' @ s"
  define g where "g = (\<lambda>p :: string \<times> string. if fst p = k then (k, s') else p)"
  have other: "k \<notin> fst ` set ?A" "k \<notin> fst ` set ?B" using assms(4,5) fst_members by blast+
  have same: "map g zs = zs" if "k \<notin> fst ` set zs" for zs
    using that by (induction zs) (auto simp: g_def)
  from other have "map g ?A = ?A" "map g ?B = ?B" by (auto intro!: same)
  then have renamed: "?A @ (k, s') # ?B = map g (?A @ (k, s) # ?B)" by (simp add: g_def)
  let ?L = "sort_key ?f (?A @ (k, s) # ?B)"
  have "?f (g p) = ?f p" for p by (simp add: g_def split_beta)
  then have sorted': "sort_key ?f (?A @ (k, s') # ?B) = map g ?L" unfolding renamed by (rule sort_key_keep)
  have "(k, s) \<in> set ?L" by simp
  then obtain L1 L2 where L: "?L = L1 @ (k, s) # L2" by (meson split_list)
  have "mset ?L = mset (?A @ (k, s) # ?B)" by simp
  then have "set L1 \<union> set L2 \<subseteq> set ?A \<union> set ?B"
    unfolding L by (metis (no_types, lifting) Un_commute add_mset_add_single mset.simps(2) mset_append set_append set_eq_subset
      set_mset_mset union_mset_add_mset_right add_right_cancel)
  then have "k \<notin> fst ` set L1" "k \<notin> fst ` set L2" using other by blast+
  then have "map g L1 = L1" "map g L2 = L2" by (auto intro!: same)
  then have L': "map g ?L = L1 @ (k, s') # L2" unfolding L by (simp add: g_def)
  obtain P Q where PQ: "\<And>x. join '','' (map ?h L1 @ x # map ?h L2) = P @ x @ Q" using join_middle by blast
  have "members collate (xs @ (k, v) # ys) = ?A @ (k, s) # ?B" "members collate (xs @ (k, v') # ys) = ?A @ (k, s') # ?B"
    by (simp_all add: members_append assms(1,2))
  then have texts: "stableStringify collate (JObj (xs @ (k, v) # ys)) = Some (''{'' @ join '','' (map ?h ?L) @ ''}'')"
    "stableStringify collate (JObj (xs @ (k, v') # ys)) = Some (''{'' @ join '','' (map ?h (map g ?L)) @ ''}'')"
    by (simp_all only: stable_object sorted')
  have "join '','' (map ?h ?L) = P @ ?h (k, s) @ Q" unfolding L by (simp only: map_append list.map PQ)
  moreover have "join '','' (map ?h (map g ?L)) = P @ ?h (k, s') @ Q" unfolding L' by (simp only: map_append list.map PQ)
  ultimately have "join '','' (map ?h ?L) \<noteq> join '','' (map ?h (map g ?L))" using assms(3) by simp
  then show ?thesis by (simp only: texts option.inject append_same_eq same_append_eq not_False_eq_True)
qed

section \<open>A webhook that is delivered again\<close>

lemma json_quote_inj: "json_quote a = json_quote b \<longleftrightarrow> a = b"
proof
  assume "json_quote a = json_quote b"
  then have "JSON_stringify (JStr a) = JSON_stringify (JStr b)" by simp
  moreover have "\<exists>t. JSON_stringify (JStr c) = Some t \<and> JSON_parse t = Some (JStr c)" for c
    using json_roundtrip [of "JStr c"] by (simp add: toJson.simps)
  ultimately show "a = b" by (metis jval.inject(3) option.inject)
qed simp

definition ids_of :: "record_request option \<Rightarrow> (string \<times> string \<times> string option) option" where
  "ids_of = map_option (\<lambda>r. (rr_uuid r, rr_requestId r, rr_institutionId r))"

lemma ids_of_eq:
  "ids_of r = ids_of r' \<Longrightarrow> map_option rr_uuid r = map_option rr_uuid r' \<and> map_option rr_requestId r = map_option rr_requestId r' \<and>
     (case r of None \<Rightarrow> None | Some r \<Rightarrow> rr_institutionId r) = (case r' of None \<Rightarrow> None | Some r \<Rightarrow> rr_institutionId r)"
  by (cases r; cases r') (simp_all add: ids_of_def)

lemma toJson_snoc: "toJson (JObj (ob @ [(k, JStr s)])) = JObj (filter (\<lambda>(k, v). v \<noteq> JUndef) (map (\<lambda>(k, v). (k, toJson v)) ob) @ [(k, JStr s)])"
  by (simp add: toJson.simps)

lemma chargePayload_time:
  "\<exists>fs. (\<forall>e r'. ids_of r' = ids_of r \<longrightarrow> chargePayload e k r' = JObj (fs @ [(''receivedAt'', JStr (toISOString (now e)))])) \<and>
     ''receivedAt'' \<notin> fst ` set fs"
proof -
  let ?ob = "\<lambda>r. [(''provider'', JStr ''PAYSTACK''), (''event'', JStr (pk_event k)), (''eventId'', JStr (pk_eventId k)),
    (''reference'', JStr (pk_reference k)), (''status'', jstr (pk_status k)), (''amountMinor'', jint (pk_amountMinor k)),
    (''currency'', JStr (pk_currency k)), (''paidAt'', jstr (pk_paidAt k)), (''customerEmail'', jstr (pk_customerEmail k)),
    (''recordRequestId'', jnull (orElse (map_option rr_uuid r) (metadataRecordId (pk_metadata k)))),
    (''requestId'', jnull (orElse (map_option rr_requestId r) (metadataRequestId (pk_metadata k)))),
    (''metadata'', JObj (map (\<lambda>(n, s). (n, JStr s)) (pk_metadata k)))]"
  let ?fs = "filter (\<lambda>(k, v). v \<noteq> JUndef) (map (\<lambda>(k, v). (k, toJson v)) (?ob r))"
  have "chargePayload e k r' = JObj (?fs @ [(''receivedAt'', JStr (toISOString (now e)))])" if "ids_of r' = ids_of r" for e r'
  proof -
    have "chargePayload e k r' = toJson (JObj (?ob r' @ [(''receivedAt'', JStr (toISOString (now e)))]))"
      by (simp add: chargePayload_def)
    then show ?thesis using ids_of_eq [OF that] by (simp only: toJson_snoc)
  qed
  moreover have "''receivedAt'' \<notin> fst ` set ?fs" by auto
  ultimately show ?thesis by blast
qed

lemma chargeJob_texts_differ:
  assumes "toISOString (now e) \<noteq> toISOString (now e')" and "ids_of r' = ids_of r"
  shows "stableStringify collate (jobRequest (chargeJob e k r)) \<noteq> stableStringify collate (jobRequest (chargeJob e' k r'))"
proof -
  obtain fs where fs: "\<And>e r'. ids_of r' = ids_of r \<Longrightarrow> chargePayload e k r' = JObj (fs @ [(''receivedAt'', JStr (toISOString (now e)))])"
    and no: "''receivedAt'' \<notin> fst ` set fs"
    using chargePayload_time [of r k] by blast
  have "stableStringify collate (chargePayload e k r) \<noteq> stableStringify collate (chargePayload e' k r')"
    unfolding fs [OF refl] fs [OF assms(2)]
    by (rule stable_differs [of _ _ "json_quote (toISOString (now e))" _ "json_quote (toISOString (now e'))"])
      (use assms(1) no in \<open>simp_all add: json_quote_inj\<close>)
  then obtain s s' where texts: "stableStringify collate (chargePayload e k r) = Some s"
    "stableStringify collate (chargePayload e' k r') = Some s'" "s \<noteq> s'"
    unfolding fs [OF refl] fs [OF assms(2)] by auto
  let ?xs = "[(''type'', JStr (job_type_text PAYSTACK_PAYMENT_CONFIRMATION)),
    (''institutionId'', jor_null (case r of None \<Rightarrow> None | Some r \<Rightarrow> rr_institutionId r)),
    (''relatedEntityType'', jor_null (Some ''RecordRequest'')), (''relatedEntityId'', jor_null (map_option rr_uuid r))]"
  have "jobRequest (chargeJob e k r) = JObj (?xs @ (''payload'', chargePayload e k r) # [])"
    "jobRequest (chargeJob e' k r') = JObj (?xs @ (''payload'', chargePayload e' k r') # [])"
    using ids_of_eq [OF assms(2)] by (simp_all add: jobRequest_def chargeJob_def plain_job_def)
  then show ?thesis using stable_differs [OF texts, of "''payload''" ?xs "[]"] by simp
qed

definition charge_key :: "paystack_charge \<Rightarrow> string" where
  "charge_key k = pk_event k @ '':'' @ pk_eventId k @ '':'' @ pk_reference k"

lemma chargeJob_fields:
  "ej_idempotencyKey (chargeJob e k r) = Some (charge_key k)" "ej_idempotencyScope (chargeJob e k r) = Some ''webhook:paystack''"
  "ej_payload (chargeJob e k r) = chargePayload e k r" "ej_type (chargeJob e k r) = PAYSTACK_PAYMENT_CONFIRMATION"
  by (simp_all add: chargeJob_def plain_job_def charge_key_def)

lemma chargeJob_execute:
  "enqueueJob collate e d (chargeJob e k r) =
     execute collate e d (jobInput (chargeJob e k r) (charge_key k)) (createJob e (chargeJob e k r)) responseJobId"
  "ip_scope (jobInput (chargeJob e k r) (charge_key k)) = ''webhook:paystack''"
  by (simp_all add: enqueueJob_def chargeJob_fields orElse_def getOr_def truthy_text_def jobInput_def Let_def)
    (simp add: charge_key_def)

lemma receiveWebhook_charge:
  assumes "assertValidSignature px w = Inr ()" and "readCharge (wq_payload w) = Inr (event, Some k)"
  shows "snd (receiveWebhook collate px e d w) = snd (enqueueJob collate e d (chargeJob e k (chargedRequest d k)))"
    and "fst (enqueueJob collate e d (chargeJob e k (chargedRequest d k))) = Inl err \<Longrightarrow>
      fst (receiveWebhook collate px e d w) = Inl err"
    and "fst (receiveWebhook collate px e d w) = Inr v \<Longrightarrow>
      \<exists>job. fst (enqueueJob collate e d (chargeJob e k (chargedRequest d k))) = Inr job"
proof -
  obtain res d' where run: "enqueueJob collate e d (chargeJob e k (chargedRequest d k)) = (res, d')" by (rule prod.exhaust)
  show "snd (receiveWebhook collate px e d w) = snd (enqueueJob collate e d (chargeJob e k (chargedRequest d k)))"
    "fst (enqueueJob collate e d (chargeJob e k (chargedRequest d k))) = Inl err \<Longrightarrow> fst (receiveWebhook collate px e d w) = Inl err"
    "fst (receiveWebhook collate px e d w) = Inr v \<Longrightarrow>
      \<exists>job. fst (enqueueJob collate e d (chargeJob e k (chargedRequest d k))) = Inr job"
    using assms by (cases res; simp add: receiveWebhook_def run Let_def)+
qed

text \<open>The record that an accepted charge leaves under its key.\<close>

lemma charge_recorded:
  assumes "enqueueJob collate e d (chargeJob e k r) = (Inr v, d1)"
  shows "\<exists>key t rec. normaliseKey (charge_key k) = Inr key \<and>
    stableStringify collate (jobRequest (chargeJob e k r)) = Some t \<and>
    List.find (same_key ''webhook:paystack'' (sha256 e key)) (idempotencyRecords d1) = Some rec \<and> ir_requestHash rec = sha256 e t"
proof -
  let ?in = "jobInput (chargeJob e k r) (charge_key k)"
  have run: "execute collate e d ?in (createJob e (chargeJob e k r)) responseJobId = (Inr v, d1)"
    using assms by (simp only: chargeJob_execute)
  have ip: "ip_key ?in = charge_key k" "ip_request ?in = jobRequest (chargeJob e k r)" by (simp_all add: jobInput_def)
  obtain key where key: "normaliseKey (charge_key k) = Inr key"
    using run by (cases "normaliseKey (charge_key k)") (simp_all add: execute_def ip)
  obtain w where w: "stableStringify collate (jobRequest (chargeJob e k r)) = Some w" using jobRequest_text by blast
  show ?thesis
  proof (cases "List.find (same_key ''webhook:paystack'' (sha256 e key)) (idempotencyRecords d)")
    case None
    from job_handler.record_after [OF run, unfolded ip chargeJob_execute(2), OF key w None] key w show ?thesis by blast
  next
    case (Some rec)
    then have "answerExisting (sha256 e w) rec = Inr v" "d1 = d"
      using run key w by (simp_all add: execute_def ip chargeJob_execute(2) Let_def)
    moreover from this have "ir_requestHash rec = sha256 e w" by (simp add: answerExisting_def split: if_splits)
    ultimately show ?thesis using Some key w by blast
  qed
qed

text \<open>A webhook that the provider delivers again after it has been accepted is refused, at whatever later instant
  it comes: the instant of receipt is part of the request that the idempotency record compares, so the second
  delivery counts as another request under the same key. Nothing is written.\<close>

theorem webhook_redelivery_refused:
  assumes "receiveWebhook collate px e d w = (Inr v, d1)" and "readCharge (wq_payload w) = Inr (event, Some k)"
    and "inj (sha256 e)" and "sha256 e' = sha256 e" and "idempotencyRecords d2 = idempotencyRecords d1"
    and "ids_of (chargedRequest d2 k) = ids_of (chargedRequest d k)"
    and "toISOString (now e') \<noteq> toISOString (now e)"
  shows "receiveWebhook collate px e' d2 w =
    (Inl (BadRequest ''Idempotency key was already used with a different request payload.''), d2)"
proof -
  let ?r = "chargedRequest d k" and ?r2 = "chargedRequest d2 k"
  let ?err = "BadRequest ''Idempotency key was already used with a different request payload.''"
  have signed: "assertValidSignature px w = Inr ()"
    using assms(1) by (cases "assertValidSignature px w") (simp_all add: receiveWebhook_def)
  obtain j where run: "enqueueJob collate e d (chargeJob e k ?r) = (Inr j, d1)"
    using receiveWebhook_charge(1,3) [OF signed assms(2), of collate e d] assms(1) by (auto simp: prod_eq_iff)
  obtain key t rec where rec: "normaliseKey (charge_key k) = Inr key"
    "stableStringify collate (jobRequest (chargeJob e k ?r)) = Some t"
    "List.find (same_key ''webhook:paystack'' (sha256 e key)) (idempotencyRecords d1) = Some rec" "ir_requestHash rec = sha256 e t"
    using charge_recorded [OF run] by blast
  obtain text2 where text2: "stableStringify collate (jobRequest (chargeJob e' k ?r2)) = Some text2"
    using jobRequest_text by blast
  have "t \<noteq> text2"
    using chargeJob_texts_differ [OF assms(7) [symmetric] assms(6), of collate k] rec(2) text2 by simp
  then have "sha256 e t \<noteq> sha256 e text2" using assms(3) by (simp add: inj_eq)
  moreover have ip: "ip_key (jobInput (chargeJob e' k ?r2) (charge_key k)) = charge_key k"
    "ip_request (jobInput (chargeJob e' k ?r2) (charge_key k)) = jobRequest (chargeJob e' k ?r2)"
    by (simp_all add: jobInput_def)
  ultimately have "enqueueJob collate e' d2 (chargeJob e' k ?r2) = (Inl ?err, d2)"
    unfolding chargeJob_execute
    using rec text2 assms(4,5) ip by (simp add: execute_def chargeJob_execute(2) answerExisting_def Let_def)
  then show ?thesis
    using receiveWebhook_charge(1,2) [OF signed assms(2), of collate e' d2] by (simp add: prod_eq_iff)
qed

section \<open>From the webhook to the escrow\<close>

lemma trim_ends:
  assumes some: "trim s \<noteq> []"
  shows "\<not> is_space (hd (trim s))" and "\<not> is_space (last (trim s))"
proof -
  define t where "t = dropWhile is_space s"
  have trim: "trim s = rev (dropWhile is_space (rev t))" by (simp add: trim_def t_def)
  have "dropWhile is_space (rev t) \<noteq> []" using some by (simp add: trim)
  then have "\<not> is_space (hd (dropWhile is_space (rev t)))" by (rule hd_dropWhile)
  then have last: "\<not> is_space (last (trim s))" using some by (simp add: trim last_rev)
  have "prefix (trim s) t" unfolding trim by (metis rev_rev_ident suffix_dropWhile suffix_to_prefix)
  then have "hd (trim s) = hd t" "t \<noteq> []" using some by (auto simp: prefix_def)
  then show "\<not> is_space (hd (trim s))" using hd_dropWhile [of is_space s] by (auto simp: t_def)
  show "\<not> is_space (last (trim s))" by (rule last)
qed

lemma trim_trim: "trim (trim s) = trim s"
  by (cases "trim s = []") (simp_all add: trim_id trim_ends)

lemma asString_again: "asString v = Some s \<Longrightarrow> asString (JStr s) = Some s"
  by (auto simp: asString_def trim_trim split: jval.splits if_splits)

lemma matches_chars: "matches ps s \<Longrightarrow> c \<in> set s \<Longrightarrow> \<exists>p \<in> set ps. p c"
  unfolding matches_def by (induction rule: list_all2_induct) auto

lemma uuid_char: "is_hex c \<or> dash c \<or> version_digit c \<or> variant_digit c \<Longrightarrow> \<not> is_space c"
  by (auto simp: is_hex_def is_digit_def is_space_def dash_def version_digit_def variant_digit_def Let_def)

lemma uuid_plain:
  assumes "uuidPattern i"
  shows "asString (JStr i) = Some i" and "i \<noteq> []"
proof -
  let ?ps = "replicate 8 is_hex @ [dash] @ replicate 4 is_hex @ [dash] @ [version_digit] @ replicate 3 is_hex @ [dash] @
    [variant_digit] @ replicate 3 is_hex @ [dash] @ replicate 12 is_hex"
  have m: "matches ?ps i" using assms by (simp only: uuidPattern_def)
  have plain: "\<not> is_space c" if c: "c \<in> set i" for c
  proof -
    obtain p where "p \<in> set ?ps" "p c" using matches_chars [OF m c] by blast
    then have "is_hex c \<or> dash c \<or> version_digit c \<or> variant_digit c" by (simp only: set_append) auto
    then show ?thesis by (rule uuid_char)
  qed
  show "i \<noteq> []" using matches_length [OF m] by auto
  with plain have "trim i = i" by (intro trim_id) simp_all
  then show "asString (JStr i) = Some i" using \<open>i \<noteq> []\<close> by (simp add: asString_def)
qed

lemma upper_char_code:
  "(of_char (upper_char c) :: nat) = (let n = of_char c :: nat
     in if (97 \<le> n \<and> n \<le> 122) \<or> (224 \<le> n \<and> n \<le> 254 \<and> n \<noteq> 247) then n - 32 else n)"
proof -
  have "(of_char c :: nat) < 256" by simp
  then have "((of_char c :: nat) - 32) mod 256 = of_char c - 32" by (meson diff_le_self le_less_trans mod_less)
  then show ?thesis by (simp add: upper_char_def Let_def)
qed

lemma upper_char_space: "is_space (upper_char c) = is_space c"
  unfolding is_space_def upper_char_code by (auto simp: Let_def)

lemma upper_char_again: "upper_char (upper_char c) = upper_char c"
proof -
  have "(of_char (upper_char (upper_char c)) :: nat) = of_char (upper_char c)"
    unfolding upper_char_code [of "upper_char c"] unfolding upper_char_code by (auto simp: Let_def)
  then show ?thesis by simp
qed

lemma asString_upper:
  assumes "asString v = Some s"
  shows "asString (JStr (toUpperCase s)) = Some (toUpperCase s)"
proof -
  have s: "trim s = s" "s \<noteq> []" using assms by (auto simp: asString_def trim_trim split: jval.splits if_splits)
  then have "\<not> is_space (hd s)" "\<not> is_space (last s)" using trim_ends [of s] by simp_all
  with s(2) have "trim (toUpperCase s) = toUpperCase s"
    by (intro trim_id) (simp_all add: toUpperCase_def hd_map last_map upper_char_space)
  then show ?thesis using s(2) by (simp add: asString_def toUpperCase_def)
qed

lemma readCharge_fields:
  assumes "readCharge body = Inr (event, Some k)"
  shows "pk_event k = ''charge.success''" and "asString (JStr (pk_reference k)) = Some (pk_reference k)"
    and "0 < pk_amountMinor k" and "\<And>s. pk_status k = Some s \<Longrightarrow> asString (JStr s) = Some s"
    and "asString (JStr (pk_currency k)) = Some (pk_currency k)" and "toUpperCase (pk_currency k) = pk_currency k"
proof -
  let ?data = "asRecord (getProp (asRecord body) ''data'')"
  have k: "pk_event k = ''charge.success''" "asString (getProp ?data ''reference'') = Some (pk_reference k)"
    "pk_amountMinor k = getOr (asPositiveInteger (getProp ?data ''amount'')) 0" "pk_amountMinor k \<noteq> 0"
    "pk_status k = asString (getProp ?data ''status'')"
    "pk_currency k = getOr (map_option toUpperCase (asString (getProp ?data ''currency''))) ''NGN''"
    using assms by (auto simp: readCharge_def err_simps Let_def split: if_splits)
  have "0 \<le> getOr (asPositiveInteger v) 0" for v
    by (auto simp: asPositiveInteger_def getOr_def split: jval.split jsnum.split option.split)
  then show "0 < pk_amountMinor k" using k(3,4) by (metis order_le_imp_less_or_eq)
  show "pk_event k = ''charge.success''" by (fact k(1))
  show "asString (JStr (pk_reference k)) = Some (pk_reference k)" using k(2) by (rule asString_again)
  show "asString (JStr s) = Some s" if "pk_status k = Some s" for s using that k(5) asString_again by simp
  show "asString (JStr (pk_currency k)) = Some (pk_currency k)"
    using k(6) asString_upper by (cases "asString (getProp ?data ''currency'')") (auto simp: getOr_def asString_def trim_def is_space_def)
  show "toUpperCase (pk_currency k) = pk_currency k"
  proof (cases "asString (getProp ?data ''currency'')")
    case None
    with k(6) show ?thesis by (simp add: toUpperCase_def upper_char_def)
  next
    case (Some a)
    with k(6) show ?thesis by (simp add: toUpperCase_def upper_char_again comp_def)
  qed
qed

lemma chargePayload_props:
  assumes "pk_event k = ''charge.success''"
  shows "getProp (asRecord (chargePayload e k (Some r))) ''event'' = JStr ''charge.success''"
    and "getProp (asRecord (chargePayload e k (Some r))) ''reference'' = JStr (pk_reference k)"
    and "getProp (asRecord (chargePayload e k (Some r))) ''status'' = jstr (pk_status k)"
    and "getProp (asRecord (chargePayload e k (Some r))) ''amountMinor'' = jint (pk_amountMinor k)"
    and "getProp (asRecord (chargePayload e k (Some r))) ''currency'' = JStr (pk_currency k)"
    and "getProp (asRecord (chargePayload e k (Some r))) ''recordRequestId'' = JStr (rr_uuid r)"
  by (auto simp: chargePayload_def toJson.simps getProp_def asRecord_def assms jstr_def jint_def jnull_def orElse_def
      split: option.split)

lemma orElse_find: "orElse (find_by key i rows) y = Some r \<Longrightarrow> r \<in> set rows \<or> y = Some r"
  by (cases "find_by key i rows") (auto simp: orElse_def dest: find_by_Some)

lemma chargedRequest_row: "chargedRequest d k = Some r \<Longrightarrow> r \<in> set (recordRequests d)"
  unfolding chargedRequest_def findRecordRequest_def
  by (auto simp: orElse_def find_by_def dest!: find_Some_in split: option.splits if_splits)

lemma confirm_found:
  assumes "\<not> closedRequest r" and "rr_paymentStatus r \<noteq> Pay_PAID"
    and "amount = getOr (rr_amountMinor r) paid" and "0 < amount" and "amount \<le> paid"
    and "rr_currency r = [] \<or> toUpperCase (rr_currency r) = currency"
    and "find_by rr_uuid (rr_uuid r) (recordRequests d) = Some r" and "distinct (map rr_uuid (recordRequests d))"
  shows "\<exists>v d3 r'. confirmFoundRequest d jobId ref paid currency paidAt r = Inr (v, d3) \<and>
    recordRequests d3 = set_by rr_uuid (rr_uuid r) (\<lambda>_. r') (recordRequests d) \<and> rr_uuid r' = rr_uuid r \<and>
    rr_paymentStatus r' = Pay_PAID \<and> rr_escrowStatus r' = Esc_HELD \<and> rr_amountMinor r' = Some amount \<and>
    rr_paymentReference r' = Some ref"
proof -
  let ?pay = "paidRequest paidAt amount (paystackNote jobId paidAt ref r) ref ''PAYSTACK'' currency"
  have "\<exists>v d3. confirmFoundRequest d jobId ref paid currency paidAt r = Inr (v, d3) \<and>
      recordRequests d3 = set_by rr_uuid (rr_uuid r) ?pay (recordRequests d)"
  proof -
    have "(rr_currency r \<noteq> [] \<and> toUpperCase (rr_currency r) \<noteq> currency) = False" using assms(6) by blast
    with assms(1-5,7) show ?thesis
      by (simp only: confirmFoundRequest_def Let_def failIf_False bindE_Inr if_False simp_thms not_less not_le)
        (simp add: update_by_def del: toJson.simps)
  qed
  moreover have "set_by rr_uuid (rr_uuid r) ?pay (recordRequests d) = set_by rr_uuid (rr_uuid r) (\<lambda>_. ?pay r) (recordRequests d)"
    using set_by_const [OF assms(8,7), of ?pay] by simp
  ultimately obtain v d3 where run: "confirmFoundRequest d jobId ref paid currency paidAt r = Inr (v, d3)"
    "recordRequests d3 = set_by rr_uuid (rr_uuid r) (\<lambda>_. ?pay r) (recordRequests d)" by auto
  show ?thesis
    by (rule exI [of _ v], rule exI [of _ d3], rule exI [of _ "?pay r"]) (simp add: run, simp add: paidRequest_def)
qed

text \<open>The secret of the environment, the webhook's own one only when there is no other.\<close>

lemma accepted_signature:
  assumes "assertValidSignature px w = Inr ()"
  shows "\<exists>secret. (px_PAYSTACK_SECRET_KEY px = Some secret \<or>
      px_PAYSTACK_SECRET_KEY px = None \<and> px_PAYSTACK_WEBHOOK_SECRET px = Some secret) \<and>
    secret \<noteq> [] \<and> wq_signature w = Some (px_hmac512 px secret (signed_body w))"
proof -
  obtain secret where secret: "orElse (px_PAYSTACK_SECRET_KEY px) (px_PAYSTACK_WEBHOOK_SECRET px) = Some secret" "secret \<noteq> []"
    using assms by (cases "orElse (px_PAYSTACK_SECRET_KEY px) (px_PAYSTACK_WEBHOOK_SECRET px)")
      (auto simp: assertValidSignature_def err_simps Let_def truthy_text_def)
  obtain sig where "wq_signature w = Some sig" "utf8 sig = utf8 (px_hmac512 px secret (signed_body w))"
    using assms secret by (cases "wq_signature w")
      (auto simp: assertValidSignature_def secureEqual_def err_simps Let_def truthy_text_def)
  then have "wq_signature w = Some (px_hmac512 px secret (signed_body w))" using utf8_inj by blast
  with secret show ?thesis by (cases "px_PAYSTACK_SECRET_KEY px") (auto simp: orElse_def)
qed


section \<open>Witnesses\<close>

definition transcript_request :: record_request where
  "transcript_request = \<lparr>rr_uuid = ''22222222-2222-4222-8222-222222222222'', rr_requestId = ''REQ-1'', rr_learnerId = None,
     rr_institutionId = Some school, rr_educationLevel = ''SECONDARY'', rr_yearsAttendedFrom = None,
     rr_yearsAttendedTo = None, rr_studentNumber = None, rr_departmentOrClass = None,
     rr_recordTypesRequested = [''TRANSCRIPT''], rr_status = RR_AWAITING_PAYMENT,
     rr_paymentStatus = Pay_PENDING, rr_escrowStatus = Esc_NONE, rr_paymentReference = None,
     rr_paymentProvider = None, rr_amountMinor = Some 500, rr_currency = ''ngn'', rr_paymentHeldAt = None,
     rr_paymentReleasedAt = None, rr_refundRequestedAt = None, rr_assignedToId = None, rr_assignedAt = None,
     rr_fulfilledCredentialId = None, rr_rejectionReason = None, rr_rejectedAt = None,
     rr_escalationReason = None, rr_escalatedAt = None, rr_resolutionNote = None, rr_fulfilledAt = None,
     rr_notes = JArr [], rr_institutionNameSubmitted = ''School'', rr_proofDocumentUrls = [],
     rr_requesterName = None, rr_requesterEmail = None\<rparr>"

definition awaiting_db :: db where
  "awaiting_db = sample_db\<lparr>recordRequests := [transcript_request]\<rparr>"

definition toy_paystack :: paystack_env where
  "toy_paystack = \<lparr>px_PAYSTACK_SECRET_KEY = Some ''sk'', px_PAYSTACK_WEBHOOK_SECRET = None,
     px_hmac512 = (\<lambda>secret body. secret @ ''-signed'')\<rparr>"

definition paid_webhook :: webhook_request where
  "paid_webhook = \<lparr>wq_payload = JObj [(''event'', JStr ''charge.success''), (''data'', JObj [(''reference'', JStr ''ref-1''),
       (''amount'', jint 700), (''status'', JStr ''success''), (''currency'', JStr ''ngn''),
       (''metadata'', JObj [(''request_id'', JStr '' REQ-1 '')])])],
     wq_rawBody = Some (Raw_text ''...''), wq_signature = Some ''sk-signed''\<rparr>"

definition paid_charge :: paystack_charge where
  "paid_charge = \<lparr>pk_event = ''charge.success'', pk_reference = ''ref-1'', pk_amountMinor = 700, pk_currency = ''NGN'',
     pk_status = Some ''success'', pk_paidAt = None, pk_metadata = [(''request_id'', ''REQ-1'')], pk_eventId = ''ref-1'',
     pk_customerEmail = None\<rparr>"

lemma paid_webhook_facts:
  "assertValidSignature toy_paystack paid_webhook = Inr ()"
  "readCharge (wq_payload paid_webhook) = Inr (''charge.success'', Some paid_charge)"
  "chargedRequest awaiting_db paid_charge = Some transcript_request"
  by code_simp+

lemma paid_webhook_accepted:
  "\<exists>v d1 job. receiveWebhook (\<lambda>s. s) toy_paystack sample_env awaiting_db paid_webhook = (Inr v, d1) \<and>
     job \<in> set (backgroundJobs d1) \<and> job \<notin> set (backgroundJobs awaiting_db)"
proof -
  let ?job = "chargeJob sample_env paid_charge (Some transcript_request)"
  have key: "normaliseKey (charge_key paid_charge) = Inr (charge_key paid_charge)" "charge_key paid_charge \<noteq> []"
    by code_simp+
  have none: "idempotencyRecords awaiting_db = []" "backgroundJobs awaiting_db = []"
    by (simp_all add: awaiting_db_def sample_db_def empty_db_def)
  obtain j d1 d0 where run: "enqueueJob (\<lambda>s. s) sample_env awaiting_db ?job = (Inr j, d1)"
    and job: "newJob sample_env d0 ?job \<in> set (backgroundJobs d1)"
    using first_keyed [OF key chargeJob_fields(1) none(1), where collate = "\<lambda>s. s" and e = sample_env] by blast
  have "\<exists>v. receiveWebhook (\<lambda>s. s) toy_paystack sample_env awaiting_db paid_webhook = (Inr v, d1)"
    by (simp add: receiveWebhook_def paid_webhook_facts run Let_def)
  with job none show ?thesis by auto
qed

theorem webhook_redelivery_refused_witness:
  "\<exists>v d1. receiveWebhook (\<lambda>s. s) toy_paystack sample_env awaiting_db paid_webhook = (Inr v, d1) \<and>
     receiveWebhook (\<lambda>s. s) toy_paystack (sample_env\<lparr>now := 2000\<rparr>) (d1\<lparr>recordRequests := recordRequests awaiting_db\<rparr>) paid_webhook =
       (Inl (BadRequest ''Idempotency key was already used with a different request payload.''),
        d1\<lparr>recordRequests := recordRequests awaiting_db\<rparr>)"
proof -
  obtain v d1 where run: "receiveWebhook (\<lambda>s. s) toy_paystack sample_env awaiting_db paid_webhook = (Inr v, d1)"
    using paid_webhook_accepted by blast
  have "chargedRequest (d1\<lparr>recordRequests := recordRequests awaiting_db\<rparr>) paid_charge = chargedRequest awaiting_db paid_charge"
  proof -
    have "recordRequests (d1\<lparr>recordRequests := recordRequests awaiting_db\<rparr>) = recordRequests awaiting_db" by simp
    then show ?thesis by (simp only: chargedRequest_def findRecordRequest_def)
  qed
  moreover have "toISOString 2000 \<noteq> toISOString 1000" by code_simp
  moreover have "inj (sha256 sample_env)" "now sample_env = 1000" by (simp_all add: sample_env_def inj_def)
  ultimately show ?thesis
    using webhook_redelivery_refused [OF run paid_webhook_facts(2), where e' = "sample_env\<lparr>now := 2000\<rparr>" and
      ?d2.0 = "d1\<lparr>recordRequests := recordRequests awaiting_db\<rparr>"] run by simp
qed


end
