(* ===== verification/Portal.thy ===== *)
theory Portal
  imports Accounts Idempotency RecordRequests
begin

text \<open>
  \<open>portal/portal.service.ts\<close> and the application schema of \<open>packages/shared/src/schemas.ts\<close>: applications of
  institutions, upload addresses for their documents, and the staff of an institution that its own managers
  invite and update. A body is the JSON value that arrives; a \<open>Date\<close> of a response is its JSON text.
\<close>

section \<open>Institution categories\<close>

definition supportedInstitutionCategories :: "string list" where
  "supportedInstitutionCategories = [''NURSERY'', ''PRIMARY'', ''SECONDARY'', ''NURSERY_PRIMARY'', ''PRIMARY_SECONDARY'',
     ''NURSERY_PRIMARY_SECONDARY'', ''FEDERAL_UNIVERSITY'', ''STATE_UNIVERSITY'', ''PRIVATE_UNIVERSITY'', ''POLYTECHNIC'',
     ''COLLEGE_OF_EDUCATION'', ''EXAM_BODY'', ''OTHER_ACCREDITED'']"

definition legacyInstitutionApplicationTypes :: "string list" where
  "legacyInstitutionApplicationTypes = [''SECONDARY_JSS'', ''SECONDARY_SSS'', ''COMBINED_SCHOOL'', ''UNIVERSITY'']"

record academic_template =
  at_code :: string
  at_label :: string
  at_periodType :: string
  at_structureHint :: string
  at_gradingEngine :: string

definition institutionAcademicTemplates :: "(string \<times> academic_template) list" where
  "institutionAcademicTemplates = [
     (''NURSERY'', \<lparr>at_code = ''BASIC_TERM_CLASS_SUBJECT'', at_label = ''Nursery term, level/class, arm and subject setup'',
        at_periodType = ''TERM'', at_structureHint = ''Terms, nursery levels/classes, arms and subjects.'',
        at_gradingEngine = ''PRIMARY_SECONDARY''\<rparr>),
     (''PRIMARY'', \<lparr>at_code = ''BASIC_TERM_CLASS_SUBJECT'', at_label = ''Primary term, class, arm and subject setup'',
        at_periodType = ''TERM'', at_structureHint = ''Terms, primary classes, arms and subjects.'',
        at_gradingEngine = ''PRIMARY_SECONDARY''\<rparr>),
     (''SECONDARY'', \<lparr>at_code = ''SECONDARY_TERM_CLASS_SUBJECT'',
        at_label = ''Secondary JSS/SSS term, arm and subject setup'', at_periodType = ''TERM'',
        at_structureHint = ''JSS/SSS levels, terms, arms and subjects.'', at_gradingEngine = ''PRIMARY_SECONDARY''\<rparr>),
     (''NURSERY_PRIMARY'', \<lparr>at_code = ''BASIC_TERM_CLASS_SUBJECT'', at_label = ''Nursery and primary combined setup'',
        at_periodType = ''TERM'', at_structureHint = ''Nursery plus primary levels, terms, arms and subjects.'',
        at_gradingEngine = ''PRIMARY_SECONDARY''\<rparr>),
     (''PRIMARY_SECONDARY'', \<lparr>at_code = ''BASIC_SECONDARY_COMBINED_TERM_CLASS_SUBJECT'',
        at_label = ''Primary and secondary combined setup'', at_periodType = ''TERM'',
        at_structureHint = ''Primary classes, JSS/SSS levels, terms, arms and subjects.'',
        at_gradingEngine = ''PRIMARY_SECONDARY''\<rparr>),
     (''NURSERY_PRIMARY_SECONDARY'', \<lparr>at_code = ''FULL_BASIC_SECONDARY_TERM_CLASS_SUBJECT'',
        at_label = ''Nursery, primary and secondary combined setup'', at_periodType = ''TERM'',
        at_structureHint = ''Nursery, primary, JSS/SSS levels, terms, arms and subjects.'',
        at_gradingEngine = ''PRIMARY_SECONDARY''\<rparr>),
     (''FEDERAL_UNIVERSITY'', \<lparr>at_code = ''UNIVERSITY_SEMESTER_COURSE_CREDIT'',
        at_label = ''Federal university semester, faculty, department and course setup'', at_periodType = ''SEMESTER'',
        at_structureHint = ''Semesters, faculties, departments, programmes, levels, courses and credit units.'',
        at_gradingEngine = ''TERTIARY_GPA''\<rparr>),
     (''STATE_UNIVERSITY'', \<lparr>at_code = ''UNIVERSITY_SEMESTER_COURSE_CREDIT'',
        at_label = ''State university semester, faculty, department and course setup'', at_periodType = ''SEMESTER'',
        at_structureHint = ''Semesters, faculties, departments, programmes, levels, courses and credit units.'',
        at_gradingEngine = ''TERTIARY_GPA''\<rparr>),
     (''PRIVATE_UNIVERSITY'', \<lparr>at_code = ''UNIVERSITY_SEMESTER_COURSE_CREDIT'',
        at_label = ''Private university semester, faculty, department and course setup'', at_periodType = ''SEMESTER'',
        at_structureHint = ''Semesters, faculties, departments, programmes, levels, courses and credit units.'',
        at_gradingEngine = ''TERTIARY_GPA''\<rparr>),
     (''POLYTECHNIC'', \<lparr>at_code = ''POLYTECHNIC_SEMESTER_ND_HND_COURSE'',
        at_label = ''Polytechnic semester, ND/HND and course setup'', at_periodType = ''SEMESTER'',
        at_structureHint = ''Semesters, schools/faculties, departments, programmes, ND/HND levels, courses and credit units.'',
        at_gradingEngine = ''TERTIARY_GPA''\<rparr>),
     (''COLLEGE_OF_EDUCATION'', \<lparr>at_code = ''COLLEGE_SEMESTER_NCE_COURSE'',
        at_label = ''College of Education semester, NCE and course setup'', at_periodType = ''SEMESTER'',
        at_structureHint = ''Semesters, schools, departments, NCE levels, courses and credit units.'',
        at_gradingEngine = ''TERTIARY_GPA''\<rparr>),
     (''EXAM_BODY'', \<lparr>at_code = ''EXAM_BODY_SERIES_PAPER'', at_label = ''Exam body series, candidate and paper setup'',
        at_periodType = ''EXAM_SERIES'',
        at_structureHint = ''Exam series, candidates, subjects or papers, and result release windows.'',
        at_gradingEngine = ''EXAM_BODY''\<rparr>),
     (''OTHER_ACCREDITED'', \<lparr>at_code = ''CUSTOM_ACADEMIC_STRUCTURE'', at_label = ''Custom accredited institution setup'',
        at_periodType = ''CUSTOM'',
        at_structureHint = ''Custom sessions and academic structures configured through Data Center APIs.'',
        at_gradingEngine = ''CUSTOM''\<rparr>)]"

definition legacyInstitutionCategoryMap :: "(string \<times> string) list" where
  "legacyInstitutionCategoryMap = [(''SECONDARY_JSS'', ''SECONDARY''), (''SECONDARY_SSS'', ''SECONDARY''),
     (''COMBINED_SCHOOL'', ''NURSERY_PRIMARY_SECONDARY''), (''UNIVERSITY'', ''OTHER_ACCREDITED'')]"

definition normalizeInstitutionCategory :: "string option \<Rightarrow> string" where
  "normalizeInstitutionCategory category =
     (if \<not> truthy_text category then ''OTHER_ACCREDITED''
      else let s = getOr category [] in
        if s \<in> set supportedInstitutionCategories then s
        else getOr (map_of legacyInstitutionCategoryMap s) ''OTHER_ACCREDITED'')"

definition institutionCategoryToBroadType :: "string option \<Rightarrow> string" where
  "institutionCategoryToBroadType category =
     (let normalized = normalizeInstitutionCategory category in
      if normalized = ''EXAM_BODY'' then ''EXAM_BODY''
      else if normalized \<in> {''FEDERAL_UNIVERSITY'', ''STATE_UNIVERSITY'', ''PRIVATE_UNIVERSITY'', ''POLYTECHNIC'',
        ''COLLEGE_OF_EDUCATION''} then ''TERTIARY''
      else if normalized \<in> {''SECONDARY'', ''PRIMARY_SECONDARY'', ''NURSERY_PRIMARY_SECONDARY''} then ''SECONDARY''
      else ''PRIMARY'')"

text \<open>The record of templates has every category, so the lookup never misses.\<close>

definition academicTemplateForInstitutionCategory :: "string option \<Rightarrow> academic_template" where
  "academicTemplateForInstitutionCategory category =
     getOr (map_of institutionAcademicTemplates (normalizeInstitutionCategory category))
       (snd (last institutionAcademicTemplates))"

lemma normalize_supported: "normalizeInstitutionCategory category \<in> set supportedInstitutionCategories"
  by (auto simp: normalizeInstitutionCategory_def Let_def supportedInstitutionCategories_def legacyInstitutionCategoryMap_def)

lemma templates_total: "map fst institutionAcademicTemplates = supportedInstitutionCategories"
  by (simp add: institutionAcademicTemplates_def supportedInstitutionCategories_def)

lemma template_found:
  "map_of institutionAcademicTemplates (normalizeInstitutionCategory category) = Some (academicTemplateForInstitutionCategory category)"
proof -
  have "normalizeInstitutionCategory category \<in> fst ` set institutionAcademicTemplates"
    using normalize_supported [of category] templates_total by (metis set_map)
  then have "map_of institutionAcademicTemplates (normalizeInstitutionCategory category) \<noteq> None"
    by (simp only: map_of_eq_None_iff not_not)
  then show ?thesis by (auto simp: academicTemplateForInstitutionCategory_def)
qed

section \<open>The schemas\<close>

text \<open>\<open>z.string().min(lo).max(hi)\<close>, \<open>z.enum(...)\<close>, \<open>.optional()\<close>, and integers in a range.\<close>

definition zod_text :: "nat \<Rightarrow> nat \<Rightarrow> jval \<Rightarrow> string option" where
  "zod_text lo hi v = (case v of JStr s \<Rightarrow> (if lo \<le> length s \<and> length s \<le> hi then Some s else None) | _ \<Rightarrow> None)"

definition zod_enum :: "string list \<Rightarrow> jval \<Rightarrow> string option" where
  "zod_enum values v = (case v of JStr s \<Rightarrow> (if s \<in> set values then Some s else None) | _ \<Rightarrow> None)"

definition zod_optional :: "(jval \<Rightarrow> 'a option) \<Rightarrow> jval \<Rightarrow> 'a option option" where
  "zod_optional p v = (if v = JUndef then Some None else map_option Some (p v))"

definition zod_format :: "(string \<Rightarrow> bool) \<Rightarrow> jval \<Rightarrow> string option" where
  "zod_format p v = (case v of JStr s \<Rightarrow> (if p s then Some s else None) | _ \<Rightarrow> None)"

definition zod_positive :: "int \<Rightarrow> jval \<Rightarrow> int option" where
  "zod_positive hi v =
     (case v of JNum (Fin r) \<Rightarrow> (if of_int \<lfloor>r\<rfloor> = r \<and> 0 < r \<and> r \<le> of_int hi then Some \<lfloor>r\<rfloor> else None) | _ \<Rightarrow> None)"

definition bindO :: "'a option \<Rightarrow> ('a \<Rightarrow> 'b option) \<Rightarrow> 'b option" where
  "bindO x f = (case x of None \<Rightarrow> None | Some y \<Rightarrow> f y)"

lemma bindO_simps [simp]: "bindO None f = None" "bindO (Some x) f = f x"
  by (simp_all add: bindO_def)

lemma bindO_eq_Some: "bindO x f = Some y \<longleftrightarrow> (\<exists>z. x = Some z \<and> f z = Some y)"
  by (cases x) simp_all

fun all_some :: "'a option list \<Rightarrow> 'a list option" where
  "all_some [] = Some []"
| "all_some (x # xs) = bindO x (\<lambda>y. map_option (Cons y) (all_some xs))"

definition documentUpload :: "jval \<Rightarrow> jval option" where
  "documentUpload v =
     (case v of
        JObj ob \<Rightarrow>
          bindO (zod_text 2 80 (getProp ob ''label'')) (\<lambda>label.
          bindO (zod_text 3 500 (getProp ob ''storageUrl'')) (\<lambda>storageUrl.
          bindO (zod_optional (zod_text 0 160) (getProp ob ''checksum'')) (\<lambda>checksum.
          Some (JObj ([(''label'', JStr label), (''storageUrl'', JStr storageUrl)] @
            (case checksum of None \<Rightarrow> [] | Some c \<Rightarrow> [(''checksum'', JStr c)]))))))
      | _ \<Rightarrow> None)"

definition documentUploads :: "jval \<Rightarrow> jval option" where
  "documentUploads v =
     (case v of
        JUndef \<Rightarrow> Some (JArr [])
      | JArr xs \<Rightarrow> (if 20 < length xs then None else map_option JArr (all_some (map documentUpload xs)))
      | _ \<Rightarrow> None)"

record application_body =
  qa_officialName :: string
  qa_type :: string
  qa_institutionCategory :: string
  qa_broadType :: string
  qa_academicTemplateCode :: string
  qa_state :: string
  qa_address :: string
  qa_contactPersonName :: string
  qa_contactEmail :: string
  qa_studentVolume :: int
  qa_documentUploads :: jval

definition createInstitutionApplicationSchema :: "env \<Rightarrow> jval \<Rightarrow> application_body option" where
  "createInstitutionApplicationSchema e v =
     (case v of
        JObj ob \<Rightarrow>
          bindO (zod_text 2 180 (getProp ob ''officialName'')) (\<lambda>officialName.
          bindO (zod_optional (zod_enum supportedInstitutionCategories) (getProp ob ''institutionCategory'')) (\<lambda>category.
          bindO (zod_optional (zod_enum (supportedInstitutionCategories @ legacyInstitutionApplicationTypes))
            (getProp ob ''type'')) (\<lambda>type.
          bindO (zod_text 2 80 (getProp ob ''state'')) (\<lambda>state.
          bindO (zod_text 5 300 (getProp ob ''address'')) (\<lambda>address.
          bindO (zod_text 2 120 (getProp ob ''contactPersonName'')) (\<lambda>contactPersonName.
          bindO (zod_format (\<lambda>s. zod_email e s \<and> length s \<le> 254) (getProp ob ''contactEmail'')) (\<lambda>contactEmail.
          bindO (zod_positive 10000000 (getProp ob ''studentVolume'')) (\<lambda>studentVolume.
          bindO (documentUploads (getProp ob ''documentUploads'')) (\<lambda>uploads.
          if getProp ob ''mouAccepted'' \<noteq> JBool True \<or> (category = None \<and> type = None) then None
          else let institutionCategory = normalizeInstitutionCategory (orElse category type) in
            Some \<lparr>qa_officialName = officialName, qa_type = getOr type institutionCategory,
              qa_institutionCategory = institutionCategory,
              qa_broadType = institutionCategoryToBroadType (Some institutionCategory),
              qa_academicTemplateCode = at_code (academicTemplateForInstitutionCategory (Some institutionCategory)),
              qa_state = state, qa_address = address, qa_contactPersonName = contactPersonName,
              qa_contactEmail = contactEmail, qa_studentVolume = studentVolume, qa_documentUploads = uploads\<rparr>)))))))))
      | _ \<Rightarrow> None)"

definition portalUploadPurposes :: "string list" where
  "portalUploadPurposes = [''REGISTRATION_CERTIFICATE'', ''ACCREDITATION_LETTER'', ''SIGNED_MOU'', ''OTHER_SUPPORTING_DOCUMENT'']"

record upload_body =
  qp_fileName :: string
  qp_contentType :: string
  qp_sizeBytes :: int
  qp_checksum :: "string option"
  qp_purpose :: string

definition createPortalUploadUrlSchema :: "jval \<Rightarrow> upload_body option" where
  "createPortalUploadUrlSchema v =
     (case v of
        JObj ob \<Rightarrow>
          bindO (zod_text 3 180 (getProp ob ''fileName'')) (\<lambda>fileName.
          bindO (zod_enum [''application/pdf'', ''image/jpeg'', ''image/png'', ''image/webp''] (getProp ob ''contentType''))
            (\<lambda>contentType.
          bindO (zod_positive (15 * 1024 * 1024) (getProp ob ''sizeBytes'')) (\<lambda>sizeBytes.
          bindO (zod_optional (zod_text 8 160) (getProp ob ''checksum'')) (\<lambda>checksum.
          bindO (zod_enum portalUploadPurposes (getProp ob ''purpose'')) (\<lambda>purpose.
          Some \<lparr>qp_fileName = fileName, qp_contentType = contentType, qp_sizeBytes = sizeBytes, qp_checksum = checksum,
            qp_purpose = purpose\<rparr>)))))
      | _ \<Rightarrow> None)"

section \<open>The memorandum and upload addresses\<close>

text \<open>The environment variables that the service reads.\<close>

record portal_env =
  pe_mouVersion :: "string option"
  pe_mouEffectiveFrom :: "string option"
  pe_mouTemplateUrl :: "string option"
  pe_mouTemplateChecksum :: "string option"
  pe_uploadBaseUrl :: "string option"
  pe_supabaseBucket :: "string option"
  pe_objectBucket :: "string option"
  pe_storageBucket :: "string option"

definition or_null :: "string option \<Rightarrow> jval" where
  \<comment> \<open>\<open>a ?? null\<close>\<close>
  "or_null a = (case a of None \<Rightarrow> JNull | Some s \<Rightarrow> JStr s)"

definition readMouVersion :: "portal_env \<Rightarrow> jval" where
  "readMouVersion pe =
     JObj [(''version'', JStr (getOr (pe_mouVersion pe) ''2026.1'')),
       (''title'', JStr ''ACAD.ID Institution Authority MOU''),
       (''effectiveFrom'', JStr (getOr (pe_mouEffectiveFrom pe) ''2026-05-01'')),
       (''templateUrl'', or_null (pe_mouTemplateUrl pe)), (''acceptanceRequired'', JBool True),
       (''acceptanceField'', JStr ''mouAccepted''), (''checksum'', or_null (pe_mouTemplateChecksum pe))]"

definition storageBucket :: "portal_env \<Rightarrow> string" where
  "storageBucket pe =
     getOr (orElse (pe_supabaseBucket pe) (orElse (pe_objectBucket pe) (pe_storageBucket pe))) ''acadid-portal-intake''"

text \<open>\<open>[a-z0-9._-]\<close>; every maximal run of other characters becomes one dash.\<close>

definition key_safe :: "char \<Rightarrow> bool" where
  "key_safe c \<longleftrightarrow> (97 \<le> (of_char c :: nat) \<and> (of_char c :: nat) \<le> 122) \<or> is_digit c \<or> c \<in> set ''._-''"

fun dash_runs :: "bool \<Rightarrow> string \<Rightarrow> string" where
  "dash_runs inside [] = []"
| "dash_runs inside (c # cs) =
     (if key_safe c then c # dash_runs False cs
      else if inside then dash_runs True cs else CHR ''-'' # dash_runs True cs)"

definition strip_dashes :: "string \<Rightarrow> string" where
  "strip_dashes s = rev (dropWhile dash (rev (dropWhile dash s)))"

definition safeName :: "string \<Rightarrow> string" where
  "safeName fileName = take 120 (strip_dashes (dash_runs False (toLowerCase (trim fileName))))"

definition buildStorageKey :: "env \<Rightarrow> string \<Rightarrow> string \<Rightarrow> string" where
  "buildStorageKey e uploadId fileName =
     ''portal-applications/'' @ take 10 (toISOString (now e)) @ ''/'' @ uploadId @ ''-'' @
     (if safeName fileName = [] then ''document'' else safeName fileName)"

definition documentLabel :: "string \<Rightarrow> string" where
  "documentLabel purpose = join '' '' (map (\<lambda>part. take 1 part @ toLowerCase (drop 1 part)) (split_on (CHR ''_'') purpose))"

text \<open>\<open>text.replace(/\/$/, "")\<close>\<close>

definition without_slash :: "string \<Rightarrow> string" where
  "without_slash s = (if s \<noteq> [] \<and> last s = CHR ''/'' then butlast s else s)"

definition portalActor :: "auth_token \<Rightarrow> audit_input \<Rightarrow> audit_input" where
  "portalActor auth event =
     event\<lparr>ai_actorId := (if au_kind auth = Some API_KEY then None else Some (au_sub auth)),
       ai_actorRole := Some (role_text (au_role auth)),
       ai_actorType := Some (if au_kind auth = Some API_KEY then ''API_KEY'' else ''USER''), ai_clientId := au_clientId auth\<rparr>"

record upload_ticket =
  ut_uploadId :: string
  ut_status :: string
  ut_uploadUrl :: "string option"
  ut_storageUrl :: string
  ut_storageKey :: string
  ut_expiresAt :: int
  ut_maxBytes :: int
  ut_contentType :: string
  ut_label :: string
  ut_document :: upload_body
  ut_warning :: string

definition issueUploadUrl :: "portal_env \<Rightarrow> env \<Rightarrow> db \<Rightarrow> auth_token \<Rightarrow> jval \<Rightarrow> (upload_ticket \<times> db) res" where
  "issueUploadUrl pe e d auth input =
     bindE (require (createPortalUploadUrlSchema input) (BadRequest ''validation'')) (\<lambda>parsed.
     let uploadId = fresh e d;
         storageKey = buildStorageKey e uploadId (qp_fileName parsed);
         storageUrl = ''storage://'' @ storageBucket pe @ ''/'' @ storageKey;
         uploadUrl = (if truthy_text (pe_uploadBaseUrl pe)
           then Some (without_slash (getOr (pe_uploadBaseUrl pe) []) @ ''/'' @ storageKey) else None)
     in Inr (\<lparr>ut_uploadId = uploadId,
          ut_status = (if uploadUrl = None then ''PROVIDER_CONFIGURATION_REQUIRED'' else ''ISSUED''),
          ut_uploadUrl = uploadUrl, ut_storageUrl = storageUrl, ut_storageKey = storageKey,
          ut_expiresAt = now e + 15 * 60 * 1000, ut_maxBytes = 15 * 1024 * 1024, ut_contentType = qp_contentType parsed,
          ut_label = documentLabel (qp_purpose parsed), ut_document = parsed,
          ut_warning = (if uploadUrl = None
            then ''Storage signing is not configured in this environment. Use storageUrl as a metadata placeholder for sandbox application submission.''
            else ''Upload URL expires in 15 minutes. Submit the returned storageUrl in documentUploads after upload succeeds.'')\<rparr>,
        audit_write (portalActor auth (audit_event_of ''portal.upload_url.issue'' ''PortalUpload'' uploadId None
          (JObj [(''purpose'', JStr (qp_purpose parsed)), (''contentType'', JStr (qp_contentType parsed)),
            (''sizeBytes'', jint (qp_sizeBytes parsed)), (''checksumProvided'', JBool (truthy_text (qp_checksum parsed))),
            (''storageConfigured'', JBool (uploadUrl \<noteq> None)), (''productCode'', jstr (au_productCode auth))])))
          (drawn d)))"

section \<open>Applications\<close>

definition pendingFor :: "string \<Rightarrow> institution_application \<Rightarrow> bool" where
  "pendingFor email a \<longleftrightarrow> ap_contactEmail a = email \<and> ap_status a = App_PENDING"

definition newApplication :: "env \<Rightarrow> string \<Rightarrow> application_body \<Rightarrow> institution_application" where
  "newApplication e i b =
     \<lparr>ap_uuid = i, ap_officialName = trim (qa_officialName b), ap_type = qa_type b,
      ap_institutionCategory = qa_institutionCategory b, ap_academicTemplateCode = qa_academicTemplateCode b,
      ap_state = trim (qa_state b), ap_address = trim (qa_address b), ap_contactPersonName = trim (qa_contactPersonName b),
      ap_contactEmail = toLowerCase (trim (qa_contactEmail b)), ap_studentVolume = qa_studentVolume b,
      ap_documentUploads = qa_documentUploads b, ap_mouAcceptedAt = Some (now e), ap_status = App_PENDING,
      ap_reviewFeedback = None, ap_reviewedById = None, ap_reviewedAt = None, ap_approvedInstitutionId = None,
      ap_createdAt = now e\<rparr>"

definition createInstitutionApplicationRecord :: "env \<Rightarrow> db \<Rightarrow> jval \<Rightarrow> (jval \<times> db) res" where
  "createInstitutionApplicationRecord e d input =
     bindE (require (createInstitutionApplicationSchema e input) (BadRequest ''validation'')) (\<lambda>parsed.
     bindE (failIf (\<exists>a \<in> set (institutionApplications d). pendingFor (toLowerCase (trim (qa_contactEmail parsed))) a)
       (BadRequest ''An institution application is already pending for this contact email.'')) (\<lambda>_.
     let application = newApplication e (fresh e d) parsed;
         academicTemplate = academicTemplateForInstitutionCategory (Some (ap_institutionCategory application))
     in Inr (JObj [(''accepted'', JBool True), (''applicationId'', JStr (ap_uuid application)), (''status'', JStr ''PENDING''),
          (''institutionName'', JStr (ap_officialName application)), (''institutionType'', JStr (ap_type application)),
          (''institutionCategory'', JStr (ap_institutionCategory application)), (''broadType'', JStr (qa_broadType parsed)),
          (''academicTemplate'', JObj [(''code'', JStr (ap_academicTemplateCode application)),
             (''label'', JStr (at_label academicTemplate)), (''structureHint'', JStr (at_structureHint academicTemplate))]),
          (''submittedAt'', JStr (toISOString (ap_createdAt application)))],
        drawn (d\<lparr>institutionApplications := institutionApplications d @ [application]\<rparr>))))"

text \<open>The handler as the idempotency service calls it: an error leaves the database as it was.\<close>

definition applicationHandler :: "env \<Rightarrow> jval \<Rightarrow> db \<Rightarrow> jval res \<times> db" where
  "applicationHandler e input d =
     (case createInstitutionApplicationRecord e d input of Inl err \<Rightarrow> (Inl err, d) | Inr (r, d') \<Rightarrow> (Inr r, d'))"

definition createInstitutionApplication ::
    "(string \<Rightarrow> 'k::linorder) \<Rightarrow> env \<Rightarrow> db \<Rightarrow> auth_token \<Rightarrow> jval \<Rightarrow> string option \<Rightarrow> jval res \<times> db" where
  "createInstitutionApplication collate e d auth input idempotencyKey =
     (if truthy_text idempotencyKey then
        execute collate e d \<lparr>ip_scope = ''portal:institution_application'', ip_key = getOr idempotencyKey [],
          ip_operation = ''portal.institution_application.create'', ip_request = input, ip_auth = Some auth,
          ip_institutionId = None, ip_ttlHours = Some (Fin 72)\<rparr> (applicationHandler e input) (\<lambda>_. None)
      else applicationHandler e input d)"

text \<open>An application under an idempotency key: the handler leaves the records of the keys alone, so the same request
  under the same key is answered as the first one was and records nothing more.\<close>

lemma applicationHandler_frame: "idempotencyRecords (snd (applicationHandler e input d)) = idempotencyRecords d"
  by (auto simp: applicationHandler_def createInstitutionApplicationRecord_def Let_def err_simps drawn_def split: sum.splits)

interpretation application_handler: idempotent_handler "applicationHandler e input" for e input
  by unfold_locales (rule applicationHandler_frame)

lemma application_repeated:
  assumes "createInstitutionApplication collate e d auth input (Some key) = (r, d')" and "key \<noteq> []"
    and "normaliseKey key = Inr k" and "stableStringify collate input = Some w" and "sha256 e' = sha256 e"
    and "List.find (same_key ''portal:institution_application'' (sha256 e k)) (idempotencyRecords d) = None"
  shows "createInstitutionApplication collate e' d' auth' input (Some key) = (replayed r, d')"
proof -
  let ?ip = "\<lambda>a. \<lparr>ip_scope = ''portal:institution_application'', ip_key = key,
      ip_operation = ''portal.institution_application.create'', ip_request = input, ip_auth = Some a,
      ip_institutionId = None, ip_ttlHours = Some (Fin 72)\<rparr>"
  have run: "execute collate e d (?ip auth) (applicationHandler e input) (\<lambda>_. None) = (r, d')"
    using assms(1,2) by (simp add: createInstitutionApplication_def truthy_text_def)
  have "execute collate e' d' (?ip auth') (applicationHandler e' input) (\<lambda>_. None) =
      (if sha256 e w = sha256 e w then replayed r
       else Inl (BadRequest ''Idempotency key was already used with a different request payload.''), d')"
    by (rule application_handler.later_execution [OF run, of k w]) (simp_all add: assms)
  then show ?thesis using assms(2) by (simp add: createInstitutionApplication_def truthy_text_def)
qed

section \<open>Staff\<close>

definition requireInstitutionStaffManager :: "auth_token \<Rightarrow> string res" where
  "requireInstitutionStaffManager auth =
     bindE (failIf (au_kind auth = Some API_KEY)
       (Forbidden ''Human institution session is required to manage staff.'')) (\<lambda>_.
     bindE (failIf (\<not> truthy_text (au_institutionUuid auth)) (Forbidden ''Institution-scoped session is required.'')) (\<lambda>_.
     bindE (failIf (au_role auth \<noteq> REGISTRAR \<and> ''staff:manage'' \<notin> set (au_permissions auth) \<and> ''*'' \<notin> set (au_permissions auth))
       (Forbidden ''staff:manage permission is required.'')) (\<lambda>_.
     Inr (getOr (au_institutionUuid auth) []))))"

definition requiredString :: "string \<Rightarrow> jval \<Rightarrow> string res" where
  "requiredString field v = require (asString v) (BadRequest (field @ '' is required.''))"

definition parseRole :: "string \<Rightarrow> user_role res" where
  "parseRole role =
     require (List.find (\<lambda>r. role_text r = toUpperCase (trim role)) staffRoles) (BadRequest ''Staff role is invalid.'')"

fun member_status_text :: "member_status \<Rightarrow> string" where
  "member_status_text Member_INVITED = ''INVITED''"
| "member_status_text Member_ACTIVE = ''ACTIVE''"
| "member_status_text Member_SUSPENDED = ''SUSPENDED''"
| "member_status_text Member_DISABLED = ''DISABLED''"

definition parseStatus :: "string \<Rightarrow> member_status res" where
  "parseStatus status =
     require (List.find (\<lambda>x. member_status_text x = toUpperCase (trim status))
         [Member_INVITED, Member_ACTIVE, Member_SUSPENDED, Member_DISABLED])
       (BadRequest ''Staff status is invalid.'')"

fun mapE :: "('a \<Rightarrow> 'e + 'b) \<Rightarrow> 'a list \<Rightarrow> 'e + 'b list" where
  "mapE f [] = Inr []"
| "mapE f (x # xs) = bindE (f x) (\<lambda>y. bindE (mapE f xs) (\<lambda>ys. Inr (y # ys)))"

definition parseStringArray :: "string \<Rightarrow> nat \<Rightarrow> jval list \<Rightarrow> string list res" where
  "parseStringArray field maxItems items =
     bindE (failIf (maxItems < length items)
       (BadRequest (field @ '' cannot contain more than '' @ digits maxItems @ '' entries.''))) (\<lambda>_.
     mapE (\<lambda>item. require (asString item) (BadRequest (field @ '' must contain non-empty strings.''))) items)"

definition scopeEntries :: "(string \<times> jval) list \<Rightarrow> (string \<times> jval) list" where
  "scopeEntries ob =
     map (\<lambda>(k, v). (trim k, JStr (trim (String_of v))))
       (filter (\<lambda>(k, v). v \<noteq> JUndef \<and> v \<noteq> JNull \<and> trim (String_of v) \<noteq> []) ob)"

definition parseScope :: "jval \<Rightarrow> jval res" where
  "parseScope v =
     (case v of
        JObj ob \<Rightarrow> bindE (failIf (scopeEntries ob = []) (BadRequest ''Assigned scope objects cannot be empty.'')) (\<lambda>_.
          Inr (JObj (fold (\<lambda>(k, v). set_prop k v) (scopeEntries ob) [])))
      | _ \<Rightarrow> Inl (BadRequest ''Each assigned scope must be an object.''))"

definition parseAssignedScopes :: "jval list \<Rightarrow> jval list res" where
  "parseAssignedScopes scopes =
     bindE (failIf (25 < length scopes) (BadRequest ''assignedScopes cannot contain more than 25 entries.'')) (\<lambda>_.
     mapE parseScope scopes)"

record staff_input =
  sf_email :: "string option"
  sf_fullName :: "string option"
  sf_phone :: "string option"
  sf_role :: "user_role option"
  sf_status :: "member_status option"
  sf_permissions :: "string list option"
  sf_assignedScopes :: "jval list option"
  sf_twoFactorRequired :: "bool option"

definition if_string :: "(string \<Rightarrow> 'a res) \<Rightarrow> jval \<Rightarrow> 'a option res" where
  "if_string p v = (case v of JStr s \<Rightarrow> bindE (p s) (\<lambda>x. Inr (Some x)) | _ \<Rightarrow> Inr None)"

definition if_array :: "(jval list \<Rightarrow> 'a res) \<Rightarrow> jval \<Rightarrow> 'a option res" where
  "if_array p v = (case v of JArr xs \<Rightarrow> bindE (p xs) (\<lambda>x. Inr (Some x)) | _ \<Rightarrow> Inr None)"

definition parseStaffInput :: "jval \<Rightarrow> bool \<Rightarrow> staff_input res" where
  "parseStaffInput input invite =
     (let body = asRecord input in
      bindE (if invite then bindE (requiredString ''email'' (getProp body ''email'')) (\<lambda>s. Inr (Some (toLowerCase s)))
        else Inr (asString (getProp body ''email''))) (\<lambda>email.
      bindE (if invite then bindE (requiredString ''fullName'' (getProp body ''fullName'')) (\<lambda>s. Inr (Some s))
        else Inr (asString (getProp body ''fullName''))) (\<lambda>fullName.
      bindE (if_string parseRole (getProp body ''role'')) (\<lambda>role.
      bindE (if_string parseStatus (getProp body ''status'')) (\<lambda>status.
      bindE (if_array (parseStringArray ''permissions'' 30) (getProp body ''permissions'')) (\<lambda>permissions.
      bindE (if_array parseAssignedScopes (getProp body ''assignedScopes'')) (\<lambda>assignedScopes.
      Inr \<lparr>sf_email = email, sf_fullName = fullName, sf_phone = asString (getProp body ''phone''), sf_role = role,
        sf_status = status, sf_permissions = permissions, sf_assignedScopes = assignedScopes,
        sf_twoFactorRequired = (case getProp body ''twoFactorRequired'' of JBool b \<Rightarrow> Some b | _ \<Rightarrow> None)\<rparr>)))))))"

text \<open>\<open>safeStaff\<close>: the columns that leave the service; the hash of the invitation does not.\<close>

record staff_view =
  sv_uuid :: string
  sv_role :: user_role
  sv_status :: member_status
  sv_permissions :: "string list"
  sv_assignedScopes :: jval
  sv_twoFactorRequired :: bool
  sv_invitedAt :: "int option"
  sv_inviteExpiresAt :: "int option"
  sv_inviteAcceptedAt :: "int option"
  sv_lastLoginAt :: "int option"
  sv_suspendedAt :: "int option"
  sv_user :: "(string \<times> string \<times> string \<times> string option \<times> bool) option"
  sv_invitedBy :: "(string \<times> string \<times> string) option"
  sv_institution :: "(string \<times> string \<times> string) option"

definition safeStaff :: "db \<Rightarrow> institution_user \<Rightarrow> staff_view" where
  "safeStaff d m =
     \<lparr>sv_uuid = iu_uuid m, sv_role = iu_role m, sv_status = iu_status m, sv_permissions = iu_permissions m,
      sv_assignedScopes = assignedScopesOf (iu_assignedScopes m), sv_twoFactorRequired = iu_twoFactorRequired m,
      sv_invitedAt = iu_invitedAt m, sv_inviteExpiresAt = iu_inviteExpiresAt m,
      sv_inviteAcceptedAt = iu_inviteAcceptedAt m, sv_lastLoginAt = iu_lastLoginAt m, sv_suspendedAt = iu_suspendedAt m,
      sv_user = map_option (\<lambda>u. (us_uuid u, us_email u, us_fullName u, us_phone u, us_mfaEnabled u))
        (find_by us_uuid (iu_userId m) (users d)),
      sv_invitedBy = (case iu_invitedById m of None \<Rightarrow> None | Some i \<Rightarrow>
        map_option (\<lambda>u. (us_uuid u, us_email u, us_fullName u)) (find_by us_uuid i (users d))),
      sv_institution = map_option (\<lambda>i. (in_uuid i, in_institutionId i, in_officialName i))
        (find_by in_uuid (iu_institutionId m) (institutions d))\<rparr>"

text \<open>The database sorts an enum in the order of its declaration.\<close>

fun member_status_rank :: "member_status \<Rightarrow> nat" where
  "member_status_rank Member_INVITED = 0" | "member_status_rank Member_ACTIVE = 1"
| "member_status_rank Member_SUSPENDED = 2" | "member_status_rank Member_DISABLED = 3"

fun role_rank :: "user_role \<Rightarrow> nat" where
  "role_rank ACADID_SUPER_ADMIN = 0" | "role_rank REGISTRAR = 1" | "role_rank EXAM_OFFICER = 2"
| "role_rank DATA_ENTRY_OFFICER = 3" | "role_rank DEPARTMENTAL_OFFICER = 4" | "role_rank READ_ONLY = 5"
| "role_rank STUDENT = 6" | "role_rank GUARDIAN = 7" | "role_rank VERIFIER = 8"

fun structure_rank :: "structure_type \<Rightarrow> nat" where
  "structure_rank LEVEL = 0" | "structure_rank CLASS = 1" | "structure_rank ARM = 2" | "structure_rank STREAM = 3"
| "structure_rank SUBJECT = 4" | "structure_rank FACULTY = 5" | "structure_rank DEPARTMENT = 6"
| "structure_rank PROGRAMME = 7" | "structure_rank COURSE = 8"

instantiation member_status :: linorder
begin

definition less_eq_member_status :: "member_status \<Rightarrow> member_status \<Rightarrow> bool" where
  "less_eq_member_status x y \<longleftrightarrow> member_status_rank x \<le> member_status_rank y"

definition less_member_status :: "member_status \<Rightarrow> member_status \<Rightarrow> bool" where
  "less_member_status x y \<longleftrightarrow> member_status_rank x < member_status_rank y"

instance
proof
  show "x = y" if "x \<le> y" "y \<le> x" for x y :: member_status
    using that by (cases x; cases y) (simp_all add: less_eq_member_status_def)
qed (auto simp: less_eq_member_status_def less_member_status_def)

end

instantiation user_role :: linorder
begin

definition less_eq_user_role :: "user_role \<Rightarrow> user_role \<Rightarrow> bool" where
  "less_eq_user_role x y \<longleftrightarrow> role_rank x \<le> role_rank y"

definition less_user_role :: "user_role \<Rightarrow> user_role \<Rightarrow> bool" where
  "less_user_role x y \<longleftrightarrow> role_rank x < role_rank y"

instance
proof
  show "x = y" if "x \<le> y" "y \<le> x" for x y :: user_role
    using that by (cases x; cases y) (simp_all add: less_eq_user_role_def)
qed (auto simp: less_eq_user_role_def less_user_role_def)

end

instantiation structure_type :: linorder
begin

definition less_eq_structure_type :: "structure_type \<Rightarrow> structure_type \<Rightarrow> bool" where
  "less_eq_structure_type x y \<longleftrightarrow> structure_rank x \<le> structure_rank y"

definition less_structure_type :: "structure_type \<Rightarrow> structure_type \<Rightarrow> bool" where
  "less_structure_type x y \<longleftrightarrow> structure_rank x < structure_rank y"

instance
proof
  show "x = y" if "x \<le> y" "y \<le> x" for x y :: structure_type
    using that by (cases x; cases y) (simp_all add: less_eq_structure_type_def)
qed (auto simp: less_eq_structure_type_def less_structure_type_def)

end

text \<open>By status, then role, then the newest row first.\<close>

definition listStaff :: "db \<Rightarrow> auth_token \<Rightarrow> staff_view list res" where
  "listStaff d auth =
     bindE (requireInstitutionStaffManager auth) (\<lambda>institutionId.
     Inr (map (safeStaff d) (sort_key iu_status (sort_key iu_role
         (rev (filter (\<lambda>m. iu_institutionId m = institutionId) (institutionUsers d)))))))"

lemma listStaff_sorted:
  assumes "listStaff d auth = Inr views"
  shows "sorted (map sv_status views)" and "set (map sv_uuid views) \<subseteq> iu_uuid ` set (institutionUsers d)"
proof -
  obtain ms where v: "views = map (safeStaff d) (sort_key iu_status ms)" and ms: "set ms \<subseteq> set (institutionUsers d)"
    using assms by (auto simp: listStaff_def err_simps)
  have "map sv_status views = map iu_status (sort_key iu_status ms)" by (simp add: v safeStaff_def)
  then show "sorted (map sv_status views)" by simp
  show "set (map sv_uuid views) \<subseteq> iu_uuid ` set (institutionUsers d)" using ms by (auto simp: v safeStaff_def)
qed

definition inviteStaff ::
    "secrets \<Rightarrow> env \<Rightarrow> db \<Rightarrow> auth_token \<Rightarrow> jval \<Rightarrow> (institution_user \<times> string \<times> db) res" where
  "inviteStaff sx e d auth input =
     bindE (requireInstitutionStaffManager auth) (\<lambda>_.
     bindE (parseStaffInput input True) (\<lambda>body.
     bindE (failIf (sf_role body = Some REGISTRAR)
       (Forbidden ''Registrar-to-registrar invitation requires founder approval.'')) (\<lambda>_.
     inviteInstitutionUser sx e d auth \<lparr>vi_institutionId = au_institutionUuid auth, vi_email = sf_email body,
       vi_fullName = sf_fullName body, vi_phone = sf_phone body, vi_role = map_option role_text (sf_role body),
       vi_permissions = sf_permissions body,
       vi_assignedScopes = (case sf_assignedScopes body of None \<Rightarrow> JUndef | Some xs \<Rightarrow> JArr xs)\<rparr>)))"

definition staffUpdate :: "int \<Rightarrow> staff_input \<Rightarrow> institution_user \<Rightarrow> institution_user" where
  "staffUpdate t body m =
     m\<lparr>iu_role := getOr (sf_role body) (iu_role m), iu_status := getOr (sf_status body) (iu_status m),
       iu_suspendedAt := (case sf_status body of None \<Rightarrow> iu_suspendedAt m
         | Some s \<Rightarrow> if s = Member_SUSPENDED then Some t else None),
       iu_permissions := getOr (sf_permissions body) (iu_permissions m),
       iu_assignedScopes := (case sf_assignedScopes body of None \<Rightarrow> iu_assignedScopes m | Some xs \<Rightarrow> JArr xs),
       iu_twoFactorRequired := getOr (sf_twoFactorRequired body) (iu_twoFactorRequired m)\<rparr>"

definition no_staff_fields :: "staff_input \<Rightarrow> bool" where
  "no_staff_fields body \<longleftrightarrow> sf_role body = None \<and> sf_status body = None \<and> sf_permissions body = None \<and>
     sf_assignedScopes body = None \<and> sf_twoFactorRequired body = None"

text \<open>The unique index of a membership is its user, institution and role.\<close>

definition membershipIndex :: "institution_user \<Rightarrow> (string \<times> string \<times> user_role) option" where
  "membershipIndex m = Some (iu_userId m, iu_institutionId m, iu_role m)"

definition staffUpdateEvent :: "auth_token \<Rightarrow> string \<Rightarrow> string \<Rightarrow> staff_input \<Rightarrow> institution_user \<Rightarrow> institution_user \<Rightarrow> audit_input" where
  "staffUpdateEvent auth action institutionId body existing updated =
     humanActor auth (audit_event_of action ''InstitutionUser'' (iu_uuid existing) (Some institutionId)
       (JObj [(''previousStatus'', JStr (member_status_text (iu_status existing))),
         (''nextStatus'', JStr (member_status_text (iu_status updated))),
         (''previousRole'', JStr (role_text (iu_role existing))), (''nextRole'', JStr (role_text (iu_role updated))),
         (''permissionsUpdated'', JBool (sf_permissions body \<noteq> None)),
         (''assignedScopesUpdated'', JBool (sf_assignedScopes body \<noteq> None)),
         (''twoFactorRequired'', JBool (iu_twoFactorRequired updated))]))"

definition updateStaff :: "env \<Rightarrow> db \<Rightarrow> auth_token \<Rightarrow> string \<Rightarrow> jval \<Rightarrow> (staff_view \<times> db) res" where
  "updateStaff e d auth staffId input =
     bindE (requireInstitutionStaffManager auth) (\<lambda>institutionId.
     bindE (require (case find_by iu_uuid staffId (institutionUsers d) of None \<Rightarrow> None
         | Some m \<Rightarrow> if iu_institutionId m \<noteq> institutionId then None else Some m)
       (BadRequest ''Institution staff member was not found in this workspace.'')) (\<lambda>existing.
     bindE (failIf (iu_role existing = REGISTRAR)
       (Forbidden ''Registrar membership changes require founder approval.'')) (\<lambda>_.
     bindE (parseStaffInput input False) (\<lambda>body.
     bindE (failIf (sf_role body = Some REGISTRAR)
       (Forbidden ''Registrar role assignment requires founder approval.'')) (\<lambda>_.
     bindE (failIf (no_staff_fields body) (BadRequest ''No staff fields were provided for update.'')) (\<lambda>_.
     bindE (update_by iu_uuid staffId (staffUpdate (now e) body) (institutionUsers d)) (\<lambda>rows.
     bindE (check_unique ''InstitutionUser_userId_institutionId_role_key'' membershipIndex rows) (\<lambda>rows.
     let updated = staffUpdate (now e) body existing;
         d' = audit_write (staffUpdateEvent auth ''portal.institution_user.update'' institutionId body existing updated)
           (d\<lparr>institutionUsers := rows\<rparr>)
     in Inr (safeStaff d' updated, d')))))))))"

record scope_options =
  so_institution :: "string option \<times> string option"
  so_recommendedScopeKeys :: "string list"
  so_sessions :: "academic_session list"
  so_structures :: "academic_structure list"

text \<open>\<open>collate\<close> is the order of texts in the database; the rows of a table are in the order of their creation.\<close>

definition readStaffScopeOptions :: "(string \<Rightarrow> 'k::linorder) \<Rightarrow> db \<Rightarrow> auth_token \<Rightarrow> scope_options res" where
  "readStaffScopeOptions collate d auth =
     bindE (requireInstitutionStaffManager auth) (\<lambda>institutionId.
     Inr \<lparr>so_institution = (au_institutionUuid auth, au_institutionId auth),
       so_recommendedScopeKeys = [''sessionId'', ''structureScopeId'', ''level'', ''class_arm'', ''subject'', ''faculty'',
         ''department'', ''programme'', ''course_code''],
       so_sessions = take 25 (sort_key (\<lambda>s. if se_isCurrent s then 0 else 1 :: nat)
         (rev (filter (\<lambda>s. se_institutionId s = institutionId) (academicSessions d)))),
       so_structures = take 500 (sort_key st_type (sort_key (\<lambda>s. collate (st_name s))
         (filter (\<lambda>s. st_institutionId s = institutionId \<and> st_status s = Structure_ACTIVE) (academicStructures d))))\<rparr>)"

section \<open>Storage keys\<close>

lemma digits_set: "set (digits n) \<subseteq> {c. is_digit c}"
proof (induction n rule: digits.induct)
  case (1 n)
  have d: "is_digit (char_of (48 + m))" if "m < 10" for m :: nat
    using that by (simp add: is_digit_def of_char_char)
  show ?case
  proof (cases "n < 10")
    case True
    then show ?thesis using d by (simp add: digits.simps [of n])
  next
    case False
    then show ?thesis using 1 [OF False] d [of "n mod 10"] by (subst digits.simps) auto
  qed
qed

lemma no_slash_digits: "CHR ''/'' \<notin> set (digits n)"
  using digits_set [of n] by (auto simp: is_digit_def)

lemma no_slash_padded: "CHR ''/'' \<notin> set (padStart k (digits n))"
  using no_slash_digits [of n] by (auto simp: padStart_def)

lemma no_slash_date: "CHR ''/'' \<notin> set (take k (toISOString t))"
proof
  assume "CHR ''/'' \<in> set (take k (toISOString t))"
  then have "CHR ''/'' \<in> set (toISOString t)" by (rule in_set_takeD)
  then show False
    by (auto simp: toISOString_def year_text_def Let_def no_slash_padded split: prod.splits if_splits)
qed

lemma dash_runs_safe: "list_all key_safe (dash_runs inside s)"
  by (induction inside s rule: dash_runs.induct) (simp_all add: key_safe_def)

lemma safe_dropWhile: "list_all P s \<Longrightarrow> list_all P (dropWhile Q s)"
  by (induction s) auto

lemma safe_take: "list_all P s \<Longrightarrow> list_all P (take n s)"
  unfolding list_all_iff by (blast dest: in_set_takeD)

lemma safeName_safe: "list_all key_safe (safeName fileName)" and safeName_length: "length (safeName fileName) \<le> 120"
proof -
  let ?s = "dash_runs False (toLowerCase (trim fileName))"
  have "list_all key_safe (dropWhile dash ?s)" by (rule safe_dropWhile [OF dash_runs_safe])
  then have "list_all key_safe (rev (dropWhile dash ?s))" by (simp only: list_all_rev)
  then have "list_all key_safe (dropWhile dash (rev (dropWhile dash ?s)))" by (rule safe_dropWhile)
  then have "list_all key_safe (strip_dashes ?s)" unfolding strip_dashes_def by (simp only: list_all_rev)
  then show "list_all key_safe (safeName fileName)" unfolding safeName_def by (rule safe_take)
qed (simp add: safeName_def)

lemma strip_dashes_first:
  assumes "strip_dashes s \<noteq> []"
  shows "\<not> dash (hd (strip_dashes s))"
proof -
  define r where "r = dropWhile dash s"
  have strip: "strip_dashes s = rev (dropWhile dash (rev r))" by (simp add: strip_dashes_def r_def)
  obtain ds where ds: "r = strip_dashes s @ ds"
    unfolding strip by (metis rev_append rev_rev_ident takeWhile_dropWhile_id)
  then have "r \<noteq> []" "hd r = hd (strip_dashes s)" using assms by (auto simp: hd_append)
  then show ?thesis using hd_dropWhile [of dash s] by (simp add: r_def)
qed

lemma safeName_first: "safeName fileName \<noteq> [] \<Longrightarrow> hd (safeName fileName) \<noteq> CHR ''-''"
proof -
  let ?s = "strip_dashes (dash_runs False (toLowerCase (trim fileName)))"
  assume "safeName fileName \<noteq> []"
  then have "?s \<noteq> []" "hd (safeName fileName) = hd ?s" by (auto simp: safeName_def)
  then show ?thesis using strip_dashes_first [of "dash_runs False (toLowerCase (trim fileName))"] by (simp add: dash_def)
qed

text \<open>The key of an upload stays in the folder of applications under the day of the request: it has exactly
  three components, and whatever the file name was, the name in it has between 1 and 120 characters of
  \<open>a-z\<close>, \<open>0-9\<close>, dot, underscore and dash, does not begin with a dash, and follows the identifier of the upload.\<close>

theorem upload_key_confined:
  assumes "issueUploadUrl pe e d auth input = Inr (t, d')" and "CHR ''/'' \<notin> set (fresh e d)"
  shows "\<exists>day name. ut_storageKey t = ''portal-applications/'' @ day @ ''/'' @ fresh e d @ ''-'' @ name \<and>
    split_on (CHR ''/'') (ut_storageKey t) = [''portal-applications'', day, fresh e d @ ''-'' @ name] \<and>
    day = take 10 (toISOString (now e)) \<and> list_all key_safe name \<and> name \<noteq> [] \<and> length name \<le> 120 \<and> hd name \<noteq> CHR ''-''"
proof -
  obtain b where b: "createPortalUploadUrlSchema input = Some b"
    using assms(1) by (cases "createPortalUploadUrlSchema input") (auto simp: issueUploadUrl_def)
  have t: "ut_storageKey t = buildStorageKey e (fresh e d) (qp_fileName b)"
    using assms(1) by (auto simp: issueUploadUrl_def Let_def b)
  let ?day = "take 10 (toISOString (now e))"
  let ?name = "if safeName (qp_fileName b) = [] then ''document'' else safeName (qp_fileName b)"
  have safe: "list_all key_safe ?name" using safeName_safe [of "qp_fileName b"] by (simp add: key_safe_def is_digit_def)
  moreover have "\<not> key_safe (CHR ''/'')" by (simp add: key_safe_def is_digit_def)
  ultimately have "CHR ''/'' \<notin> set ?name" unfolding list_all_iff by blast
  then have last: "CHR ''/'' \<notin> set (fresh e d @ ''-'' @ ?name)" using assms(2) by simp
  have "split_on (CHR ''/'') (join [CHR ''/''] [''portal-applications'', ?day, fresh e d @ ''-'' @ ?name]) =
      [''portal-applications'', ?day, fresh e d @ ''-'' @ ?name]"
    by (rule split_on_join) (use last no_slash_date [of 10 "now e"] in auto)
  then have "split_on (CHR ''/'') (ut_storageKey t) = [''portal-applications'', ?day, fresh e d @ ''-'' @ ?name]"
    unfolding t buildStorageKey_def by simp
  moreover have "?name \<noteq> [] \<and> length ?name \<le> 120 \<and> hd ?name \<noteq> CHR ''-''"
    using safeName_length [of "qp_fileName b"] safeName_first [of "qp_fileName b"] by simp
  ultimately show ?thesis using safe unfolding t buildStorageKey_def by blast
qed

definition sample_portal :: portal_env where
  "sample_portal = \<lparr>pe_mouVersion = None, pe_mouEffectiveFrom = None, pe_mouTemplateUrl = None,
     pe_mouTemplateChecksum = None, pe_uploadBaseUrl = Some ''https://up/'', pe_supabaseBucket = None,
     pe_objectBucket = None, pe_storageBucket = None\<rparr>"

definition sample_upload :: jval where
  "sample_upload = JObj [(''fileName'', JStr ''../My  MOU.pdf''), (''contentType'', JStr ''application/pdf''),
     (''sizeBytes'', jint 1000), (''purpose'', JStr ''SIGNED_MOU'')]"

theorem upload_key_confined_witness:
  "\<exists>t d'. issueUploadUrl sample_portal sample_env empty_db api_key sample_upload = Inr (t, d') \<and>
     split_on (CHR ''/'') (ut_storageKey t) = [''portal-applications'', take 10 (toISOString 1000), ''-..-my-mou.pdf'']"
proof -
  have "zod_positive (15 * 1024 * 1024) (jint 1000) = Some 1000" by (simp add: zod_positive_def jint_def)
  then have parsed: "createPortalUploadUrlSchema sample_upload = Some \<lparr>qp_fileName = ''../My  MOU.pdf'',
      qp_contentType = ''application/pdf'', qp_sizeBytes = 1000, qp_checksum = None, qp_purpose = ''SIGNED_MOU''\<rparr>"
    by (simp add: createPortalUploadUrlSchema_def sample_upload_def getProp_def zod_text_def zod_enum_def zod_optional_def
        portalUploadPurposes_def)
  have fresh: "fresh sample_env empty_db = []" by (simp add: fresh_def sample_env_def empty_db_def)
  have name: "safeName ''../My  MOU.pdf'' = ''..-my-mou.pdf''" by code_simp
  obtain t d' where t: "issueUploadUrl sample_portal sample_env empty_db api_key sample_upload = Inr (t, d')"
      "ut_storageKey t = buildStorageKey sample_env [] ''../My  MOU.pdf''"
    using parsed fresh by (auto simp: issueUploadUrl_def Let_def)
  from upload_key_confined [OF t(1)] fresh obtain day n where
      "ut_storageKey t = ''portal-applications/'' @ day @ ''/'' @ ''-'' @ n"
      "split_on (CHR ''/'') (ut_storageKey t) = [''portal-applications'', day, ''-'' @ n]"
      "day = take 10 (toISOString (now sample_env))" by auto
  moreover from this t(2) name have "n = ''..-my-mou.pdf''" by (simp add: buildStorageKey_def)
  ultimately show ?thesis using t(1) by (auto simp: sample_env_def)
qed

end
