(* ===== verification/StaffRules.thy ===== *)
theory StaffRules
  imports Portal
begin

text \<open>
  What the staff handlers of \<open>Portal\<close> keep: the registrars of an institution and every other institution are out
  of the reach of a staff manager. And what they do not: a manager who is no registrar may widen their own rights.
\<close>

lemma filter_set_by:
  assumes "\<And>r. r \<in> set rows \<Longrightarrow> key r = k \<Longrightarrow> \<not> P r \<and> \<not> P (f r)"
  shows "filter P (set_by key k f rows) = filter P rows"
  using assms by (induction rows) auto

lemma filter_update_rows:
  assumes "\<And>r. r \<in> set rows \<Longrightarrow> q r \<Longrightarrow> \<not> P r \<and> \<not> P (f r)"
  shows "filter P (update_rows q f rows) = filter P rows"
  using assms by (induction rows) auto

text \<open>The memberships after an invitation: one row, keyed by account, institution and role, is set or added.\<close>

lemma invited_rows:
  assumes "inviteInstitutionUser sx e d auth input = Inr (m, token, d')"
  obtains role i userId k f where "parseInstitutionRole (vi_role input) = Inr role"
    "resolveInviteInstitution d auth (vi_institutionId input) = Inr i"
    "\<And>x. iu_role (f x) = iu_role x" "\<And>x. iu_institutionId (f x) = iu_institutionId x"
    "institutionUsers d' = update_rows (memberKey userId i role) f (institutionUsers d) \<or>
     institutionUsers d' = institutionUsers d @ [f (newMember userId i role k)]"
proof -
  let ?u = "\<lambda>role. upsertUser e (drawn (drawn (drawn d))) (toLowerCase (trim (getOr (vi_email input) [])))
     (trim (getOr (vi_fullName input) [])) (trimmed (vi_phone input)) role
     (hashPassword sx (randomBytes sx (drawn (drawn d)) 16) (base64url_bytes (randomBytes sx (drawn d) 32)))"
  let ?f = "\<lambda>role. invitedMember e auth (if getOr (vi_permissions input) [] \<noteq> [] then getOr (vi_permissions input) []
     else defaultPermissionsForRole role) (assignedScopesOf (vi_assignedScopes input)) (sha256 e token)"
  obtain role i d2 where run: "parseInstitutionRole (vi_role input) = Inr role"
      "resolveInviteInstitution d auth (vi_institutionId input) = Inr i"
      "upsertMember e (snd (?u role)) (us_uuid (fst (?u role))) i role (?f role) = Inr (m, d2)"
      "institutionUsers d' = institutionUsers d2"
    using assms unfolding inviteInstitutionUser_def Let_def split_beta by (auto simp: err_simps)
  let ?rows = "institutionUsers d" and ?id = "us_uuid (fst (?u role))"
  have same: "institutionUsers (snd (?u role)) = ?rows"
    by (auto simp: upsertUser_def Let_def drawn_def split: option.splits)
  have f: "iu_role (?f role x) = iu_role x" "iu_institutionId (?f role x) = iu_institutionId x" for x
    by (simp_all add: invitedMember_def)
  have "\<exists>k. institutionUsers d' = update_rows (memberKey ?id i role) (?f role) ?rows \<or>
      institutionUsers d' = ?rows @ [?f role (newMember ?id i role k)]"
    using run(3,4) same
    by (cases "List.find (memberKey ?id i role) ?rows") (auto simp: upsertMember_def Let_def err_simps drawn_def)
  then obtain k where "institutionUsers d' = update_rows (memberKey ?id i role) (?f role) ?rows \<or>
      institutionUsers d' = ?rows @ [?f role (newMember ?id i role k)]" by blast
  with run(1,2) f show thesis using that by blast
qed

lemma staffUpdate_fields [simp]:
  "iu_uuid (staffUpdate t body m) = iu_uuid m" "iu_userId (staffUpdate t body m) = iu_userId m"
  "iu_institutionId (staffUpdate t body m) = iu_institutionId m"
  "iu_role (staffUpdate t body m) = getOr (sf_role body) (iu_role m)"
  by (simp_all add: staffUpdate_def)

lemma manager_institution:
  "requireInstitutionStaffManager auth = Inr i \<Longrightarrow> au_institutionUuid auth = Some i \<and> i \<noteq> [] \<and> au_kind auth \<noteq> Some API_KEY"
  by (auto simp: requireInstitutionStaffManager_def err_simps truthy_text_def split: option.splits)

lemma updateStaff_Inr:
  assumes "updateStaff e d auth staffId input = Inr (v, d')"
  obtains i m body where "requireInstitutionStaffManager auth = Inr i" "find_by iu_uuid staffId (institutionUsers d) = Some m"
    "iu_institutionId m = i" "iu_role m \<noteq> REGISTRAR" "sf_role body \<noteq> Some REGISTRAR" "parseStaffInput input False = Inr body"
    "institutionUsers d' = set_by iu_uuid staffId (staffUpdate (now e) body) (institutionUsers d)"
    "users d' = users d" "institutions d' = institutions d"
  using assms by (auto simp: updateStaff_def err_simps Let_def split: option.splits if_splits)

text \<open>What the managers of the institution \<open>i\<close> do, on a table that keeps its primary key.\<close>

inductive portal_step :: "string \<Rightarrow> db \<Rightarrow> db \<Rightarrow> bool" for i where
  invite: "inviteStaff sx e d auth input = Inr (m, token, d') \<Longrightarrow> au_institutionUuid auth = Some i \<Longrightarrow>
    au_role auth \<noteq> ACADID_SUPER_ADMIN \<Longrightarrow> portal_step i d d'"
| update: "updateStaff e d auth staffId input = Inr (v, d') \<Longrightarrow> au_institutionUuid auth = Some i \<Longrightarrow>
    distinct (map iu_uuid (institutionUsers d)) \<Longrightarrow> portal_step i d d'"

definition out_of_reach :: "string \<Rightarrow> institution_user \<Rightarrow> bool" where
  "out_of_reach i m \<longleftrightarrow> iu_role m = REGISTRAR \<or> iu_institutionId m \<noteq> i"

lemma role_text_upper: "toUpperCase (trim (role_text x)) = role_text x"
proof -
  have "list_all (\<lambda>x. toUpperCase (trim (role_text x)) = role_text x) [ACADID_SUPER_ADMIN, REGISTRAR, EXAM_OFFICER,
      DATA_ENTRY_OFFICER, DEPARTMENTAL_OFFICER, READ_ONLY, STUDENT, GUARDIAN, VERIFIER]" by code_simp
  then show ?thesis by (cases x) simp_all
qed

lemma invite_reach:
  assumes "inviteStaff sx e d auth input = Inr (m, token, d')" and "au_institutionUuid auth = Some i"
    and "au_role auth \<noteq> ACADID_SUPER_ADMIN"
  shows "filter (out_of_reach i) (institutionUsers d') = filter (out_of_reach i) (institutionUsers d)"
proof -
  obtain inp role where inv: "inviteInstitutionUser sx e d auth inp = Inr (m, token, d')"
      and inp: "vi_role inp = map_option role_text role" "role \<noteq> Some REGISTRAR" "vi_institutionId inp = Some i"
    using assms by (auto simp: inviteStaff_def err_simps)
  from inv obtain r j userId k f where r: "parseInstitutionRole (vi_role inp) = Inr r"
      and j: "resolveInviteInstitution d auth (vi_institutionId inp) = Inr j"
      and f: "\<And>x. iu_role (f x) = iu_role x" "\<And>x. iu_institutionId (f x) = iu_institutionId x"
      and rows: "institutionUsers d' = update_rows (memberKey userId j r) f (institutionUsers d) \<or>
        institutionUsers d' = institutionUsers d @ [f (newMember userId j r k)]"
    by (rule invited_rows) blast
  have "j = i" using j inp(3) assms(2,3) by (auto simp: resolveInviteInstitution_def err_simps split: if_splits)
  moreover have "r \<noteq> REGISTRAR"
  proof
    assume "r = REGISTRAR"
    with r have "\<exists>s. vi_role inp = Some s \<and> toUpperCase (trim s) = ''REGISTRAR''"
      by (auto simp: parseInstitutionRole_def err_simps dest!: find_Some_in split: option.splits)
    then obtain x where "role = Some x" "toUpperCase (trim (role_text x)) = ''REGISTRAR''" using inp(1) by (cases role) auto
    then show False using inp(2) role_text_upper [of x] by (cases x) auto
  qed
  ultimately show ?thesis
    using rows f by (auto simp: out_of_reach_def newMember_def memberKey_def intro!: filter_update_rows)
qed

text \<open>C22. Whatever the staff managers of an institution do, invitations and updates in any order, no membership
  of another institution and no registrar's changes, and none is added: making or changing a registrar is the
  founder's.\<close>

theorem staff_managers_confined:
  assumes "(portal_step i)\<^sup>*\<^sup>* d d'"
  shows "filter (\<lambda>m. iu_role m = REGISTRAR \<or> iu_institutionId m \<noteq> i) (institutionUsers d') =
    filter (\<lambda>m. iu_role m = REGISTRAR \<or> iu_institutionId m \<noteq> i) (institutionUsers d)"
proof -
  have "filter (out_of_reach i) (institutionUsers d') = filter (out_of_reach i) (institutionUsers d)"
    using assms
  proof (induction rule: rtranclp_induct)
    case (step d1 d2)
    from step(2) have "filter (out_of_reach i) (institutionUsers d2) = filter (out_of_reach i) (institutionUsers d1)"
    proof cases
      case (invite sx e auth input m token)
      then show ?thesis using invite_reach by blast
    next
      case (update e auth staffId input v)
      from update(1) obtain j m body where j: "requireInstitutionStaffManager auth = Inr j"
          and m: "find_by iu_uuid staffId (institutionUsers d1) = Some m" "iu_institutionId m = j" "iu_role m \<noteq> REGISTRAR"
          and role: "sf_role body \<noteq> Some REGISTRAR"
          and rows: "institutionUsers d2 = set_by iu_uuid staffId (staffUpdate (now e) body) (institutionUsers d1)"
        by (rule updateStaff_Inr) blast
      have "j = i" using manager_institution [OF j] update(2) by simp
      have "r = m" if "r \<in> set (institutionUsers d1)" "iu_uuid r = staffId" for r
        using that update(3) find_by_distinct m(1) by fastforce
      then show ?thesis
        unfolding rows using m role \<open>j = i\<close> by (intro filter_set_by) (auto simp: out_of_reach_def getOr_def split: option.splits)
    qed
    with step show ?case by simp
  qed simp
  then show ?thesis by (simp add: out_of_reach_def [abs_def])
qed

definition self_update :: jval where
  "self_update = JObj [(''permissions'', JArr [JStr ''*'']), (''twoFactorRequired'', JBool False)]"

definition escalated :: "institution_user \<Rightarrow> institution_user" where
  "escalated m = m\<lparr>iu_permissions := [''*''], iu_twoFactorRequired := False\<rparr>"

lemma self_update_runs:
  assumes "au_kind auth \<noteq> Some API_KEY" and "au_institutionUuid auth = Some i" and "i \<noteq> []"
    and "''staff:manage'' \<in> set (au_permissions auth)"
    and "find_by iu_uuid own (institutionUsers d) = Some m" and "iu_institutionId m = i" and "iu_role m \<noteq> REGISTRAR"
    and "distinct (map (\<lambda>m. (iu_userId m, iu_institutionId m, iu_role m)) (institutionUsers d))"
  obtains v d' where "updateStaff e d auth own self_update = Inr (v, d')"
    "institutionUsers d' = set_by iu_uuid own escalated (institutionUsers d)"
proof -
  let ?body = "\<lparr>sf_email = None, sf_fullName = None, sf_phone = None, sf_role = None, sf_status = None,
    sf_permissions = Some [''*''], sf_assignedScopes = None, sf_twoFactorRequired = Some False\<rparr>"
  have f: "staffUpdate (now e) ?body = escalated" by (rule ext) (simp add: staffUpdate_def escalated_def)
  have star: "asString (JStr ''*'') = Some ''*''" by code_simp
  have body: "parseStaffInput self_update False = Inr ?body"
    using star by (simp add: self_update_def parseStaffInput_def asRecord_def getProp_def asString_def if_string_def if_array_def
        parseStringArray_def)
  have index: "membershipIndex (escalated x) = membershipIndex x" for x by (simp add: membershipIndex_def escalated_def)
  have "List.map_filter membershipIndex (set_by iu_uuid own escalated (institutionUsers d)) =
      map (\<lambda>m. (iu_userId m, iu_institutionId m, iu_role m)) (institutionUsers d)"
    by (induction "institutionUsers d") (auto simp: List.map_filter_def membershipIndex_def index map_set_by escalated_def)
  with assms that show thesis
    by (auto simp: updateStaff_def requireInstitutionStaffManager_def truthy_text_def body no_staff_fields_def update_by_def
        check_unique_def Let_def f)
qed

text \<open>A staff manager who is not a registrar may give themself every permission and switch off their own second
  factor: the update of their own membership succeeds, and the session of the next login passes every scope.\<close>

theorem staff_manager_escalates:
  assumes "au_kind auth \<noteq> Some API_KEY" and "au_institutionUuid auth = Some i" and "i \<noteq> []"
    and "''staff:manage'' \<in> set (au_permissions auth)"
    and "find_by iu_uuid own (institutionUsers d) = Some m" and "iu_institutionId m = i" and "iu_role m \<noteq> REGISTRAR"
    and "distinct (map (\<lambda>m. (iu_userId m, iu_institutionId m, iu_role m)) (institutionUsers d))"
  shows "\<exists>v d' m'. updateStaff e d auth own self_update = Inr (v, d') \<and>
    find_by iu_uuid own (institutionUsers d') = Some m' \<and> iu_userId m' = iu_userId m \<and>
    iu_permissions m' = [''*''] \<and> \<not> iu_twoFactorRequired m' \<and> iu_role m' = iu_role m \<and>
    (\<forall>how u s d'' scopes. activeMembership d' (us_uuid u) = Some m' \<longrightarrow>
       openSession sx e d' u how = Inr (s, d'') \<longrightarrow>
       scopesGuard scopes (loginPayload d' u (Some m') (lg_role s) (lg_permissions s) (fresh e d')) = Inr True)"
proof -
  obtain v d' where run: "updateStaff e d auth own self_update = Inr (v, d')"
      and rows: "institutionUsers d' = set_by iu_uuid own escalated (institutionUsers d)"
    using self_update_runs [OF assms] by blast
  have same: "iu_uuid (escalated x) = iu_uuid x" for x by (simp add: escalated_def)
  have found: "find_by iu_uuid own (institutionUsers d') = Some (escalated m)"
    unfolding rows using assms(5) set_by_same [of iu_uuid escalated, OF same] by simp
  have perms: "iu_permissions (escalated m) = [''*'']" by (simp add: escalated_def)
  have "scopesGuard scopes (loginPayload d' u (Some (escalated m)) (lg_role s) (lg_permissions s) (fresh e d')) = Inr True"
    if h: "activeMembership d' (us_uuid u) = Some (escalated m)" "openSession sx e d' u how = Inr (s, d'')" for how u s d'' scopes
  proof -
    have "lg_permissions s = [''*'']" using openSession_Inr(1) [OF h(2)] h(1) perms by (simp add: session_of_def Let_def)
    then show ?thesis by (simp add: scopesGuard_def loginPayload_def Let_def getProp_def text_list_def List.map_filter_def list_all_iff)
  qed
  with run found perms show ?thesis
    by (intro exI [of _ v] exI [of _ d'] exI [of _ "escalated m"]) (auto simp: escalated_def)
qed

section \<open>Witnesses\<close>

text \<open>A departmental officer whom the registrar lets manage staff.\<close>

definition officer_row :: institution_user where
  "officer_row = (newMember ''off'' school DEPARTMENTAL_OFFICER ''m2'')\<lparr>iu_status := Member_ACTIVE, iu_twoFactorRequired := True,
     iu_permissions := [''staff:manage'']\<rparr>"

definition officer :: auth_token where
  "officer = registrar\<lparr>au_sub := ''off'', au_role := DEPARTMENTAL_OFFICER, au_permissions := [''staff:manage'']\<rparr>"

definition staffed :: db where
  "staffed = sample_db\<lparr>institutionUsers := institutionUsers sample_db @ [officer_row]\<rparr>"

lemma staffed_hyps:
  "au_kind officer \<noteq> Some API_KEY" "au_institutionUuid officer = Some school" "school \<noteq> []"
  "''staff:manage'' \<in> set (au_permissions officer)" "find_by iu_uuid ''m2'' (institutionUsers staffed) = Some officer_row"
  "iu_institutionId officer_row = school" "iu_role officer_row \<noteq> REGISTRAR"
  "distinct (map (\<lambda>m. (iu_userId m, iu_institutionId m, iu_role m)) (institutionUsers staffed))"
  "distinct (map iu_uuid (institutionUsers staffed))"
  by (simp_all add: officer_def officer_row_def staffed_def newMember_def sample_defs)

theorem staff_managers_confined_witness:
  "\<exists>d'. (portal_step school)\<^sup>*\<^sup>* staffed d' \<and> institutionUsers d' \<noteq> institutionUsers staffed \<and>
     filter (\<lambda>m. iu_role m = REGISTRAR \<or> iu_institutionId m \<noteq> school) (institutionUsers d') = institutionUsers sample_db"
proof -
  obtain v d' where run: "updateStaff sample_env staffed officer ''m2'' self_update = Inr (v, d')"
      and rows: "institutionUsers d' = set_by iu_uuid ''m2'' escalated (institutionUsers staffed)"
    using self_update_runs [OF staffed_hyps(1-8)] by blast
  have "portal_step school staffed d'" by (rule portal_step.update [OF run staffed_hyps(2,9)])
  then have step: "(portal_step school)\<^sup>*\<^sup>* staffed d'" by blast
  have "institutionUsers d' \<noteq> institutionUsers staffed"
    unfolding rows by (simp add: staffed_def sample_db_def officer_row_def newMember_def escalated_def)
  moreover have "filter (\<lambda>m. iu_role m = REGISTRAR \<or> iu_institutionId m \<noteq> school) (institutionUsers staffed) =
      institutionUsers sample_db"
    by (simp add: staffed_def sample_db_def officer_row_def newMember_def)
  ultimately show ?thesis using step staff_managers_confined [OF step] by auto
qed

theorem staff_manager_escalates_witness:
  "\<exists>v d' m'. updateStaff sample_env staffed officer ''m2'' self_update = Inr (v, d') \<and>
     find_by iu_uuid ''m2'' (institutionUsers d') = Some m' \<and> iu_permissions m' = [''*''] \<and>
     iu_role m' = DEPARTMENTAL_OFFICER \<and> iu_permissions officer_row = [''staff:manage''] \<and> iu_twoFactorRequired officer_row"
proof -
  from staff_manager_escalates [OF staffed_hyps(1-8), of sample_env toy_secrets] obtain v d' m' where
      "updateStaff sample_env staffed officer ''m2'' self_update = Inr (v, d')"
      "find_by iu_uuid ''m2'' (institutionUsers d') = Some m'" "iu_permissions m' = [''*'']" "iu_role m' = iu_role officer_row"
    by blast
  then show ?thesis by (simp add: officer_row_def newMember_def)
qed

end
