(* ===== verification/Onboarding.thy ===== *)
theory Onboarding
  imports Portal AcademicSetup
begin

text \<open>
  The part of \<open>admin/admin.service.ts\<close> that brings an institution onto the platform: the founder reviews
  applications, creates institutions, grants authority and manages their staff. The routes are behind the role
  guard of the founder. The cache of the founder's list, which three of the handlers drop, is not in the database.
\<close>

section \<open>Institutions\<close>

definition nextInstitutionDisplayId :: "db \<Rightarrow> string" where
  "nextInstitutionDisplayId d = ''AINi-'' @ padStart 5 (digits (length (institutions d) + 1))"

definition assertInstitutionExists :: "db \<Rightarrow> string \<Rightarrow> unit res" where
  "assertInstitutionExists d institutionId =
     bindE (require (find_by in_uuid institutionId (institutions d)) (BadRequest ''Institution not found.'')) (\<lambda>_. Inr ())"

definition createInstitutionRow ::
    "env \<Rightarrow> db \<Rightarrow> string \<Rightarrow> string \<Rightarrow> string \<Rightarrow> string \<Rightarrow> string \<Rightarrow> int option \<Rightarrow> (institution \<times> db) res" where
  "createInstitutionRow e d officialName broadType institutionCategory state tier mouSignedAt =
     (let r = \<lparr>in_uuid = fresh e d, in_institutionId = nextInstitutionDisplayId d, in_officialName = officialName,
            in_type = broadType, in_institutionCategory = institutionCategory,
            in_academicTemplateCode = at_code (academicTemplateForInstitutionCategory (Some institutionCategory)),
            in_state = state, in_tier = tier, in_mouSignedAt = mouSignedAt, in_status = Inst_ACTIVE\<rparr>
      in bindE (check_unique ''Institution_institutionId_key'' (\<lambda>r. Some (in_institutionId r)) (institutions d @ [r])) (\<lambda>rows.
         Inr (r, drawn (d\<lparr>institutions := rows\<rparr>))))"

record institution_body =
  qi_officialName :: string
  qi_type :: string
  qi_institutionCategory :: "string option"
  qi_state :: string
  qi_tier :: string

definition zod_default :: "'a \<Rightarrow> (jval \<Rightarrow> 'a option) \<Rightarrow> jval \<Rightarrow> 'a option" where
  "zod_default a p v = (if v = JUndef then Some a else p v)"

definition zod_min :: "nat \<Rightarrow> jval \<Rightarrow> string option" where
  "zod_min lo v = (case v of JStr s \<Rightarrow> (if lo \<le> length s then Some s else None) | _ \<Rightarrow> None)"

definition createInstitutionSchema :: "jval \<Rightarrow> institution_body option" where
  "createInstitutionSchema v =
     (case v of
        JObj ob \<Rightarrow>
          bindO (zod_min 2 (getProp ob ''officialName'')) (\<lambda>officialName.
          bindO (zod_enum [''PRIMARY'', ''SECONDARY'', ''TERTIARY'', ''EXAM_BODY''] (getProp ob ''type'')) (\<lambda>type.
          bindO (zod_optional (zod_enum supportedInstitutionCategories) (getProp ob ''institutionCategory'')) (\<lambda>category.
          bindO (zod_min 2 (getProp ob ''state'')) (\<lambda>state.
          bindO (zod_default ''FOUNDING'' (zod_enum [''FOUNDING'', ''ACTIVE'', ''VERIFIED'']) (getProp ob ''tier'')) (\<lambda>tier.
          Some \<lparr>qi_officialName = officialName, qi_type = type, qi_institutionCategory = category, qi_state = state,
            qi_tier = tier\<rparr>)))))
      | _ \<Rightarrow> None)"

definition defaultCategoryForBroadType :: "string \<Rightarrow> string" where
  "defaultCategoryForBroadType type =
     (if type = ''SECONDARY'' then ''SECONDARY'' else if type = ''TERTIARY'' then ''OTHER_ACCREDITED''
      else if type = ''EXAM_BODY'' then ''EXAM_BODY'' else ''PRIMARY'')"

text \<open>Neither this handler nor the next two names the founder in the audit event.\<close>

definition createInstitution :: "env \<Rightarrow> db \<Rightarrow> jval \<Rightarrow> (institution \<times> db) res" where
  "createInstitution e d input =
     bindE (require (createInstitutionSchema input) (BadRequest ''validation'')) (\<lambda>parsed.
     let institutionCategory = (case qi_institutionCategory parsed of
           Some c \<Rightarrow> normalizeInstitutionCategory (Some c) | None \<Rightarrow> defaultCategoryForBroadType (qi_type parsed));
         broadType = (if qi_institutionCategory parsed = None then qi_type parsed
           else institutionCategoryToBroadType (Some institutionCategory))
     in bindE (createInstitutionRow e d (qi_officialName parsed) broadType institutionCategory (qi_state parsed)
          (qi_tier parsed) None) (\<lambda>(institution, d1).
        Inr (institution, audit_write (audit_event_of ''institution.create'' ''Institution'' (in_uuid institution)
          (Some (in_uuid institution))
          (JObj [(''broadType'', JStr broadType), (''institutionCategory'', JStr institutionCategory),
            (''academicTemplateCode'', JStr (in_academicTemplateCode institution))])) d1)))"

fun institution_status_text :: "institution_status \<Rightarrow> string" where
  "institution_status_text Inst_ACTIVE = ''ACTIVE''"
| "institution_status_text Inst_SUSPENDED = ''SUSPENDED''"

definition updateInstitutionStatus :: "db \<Rightarrow> string \<Rightarrow> institution_status \<Rightarrow> db res" where
  "updateInstitutionStatus d i status =
     bindE (update_by in_uuid i (in_status_update (\<lambda>_. status)) (institutions d)) (\<lambda>rows.
     Inr (audit_write (audit_event_of ''institution.status.update'' ''Institution'' i (Some i)
       (JObj [(''status'', JStr (institution_status_text status))])) (d\<lparr>institutions := rows\<rparr>)))"

record grant_body =
  qg_signedByName :: string
  qg_signedByTitle :: string
  qg_effectiveFrom :: int
  qg_expiresAt :: "int option"
  qg_permissions :: jval

definition createAuthorityGrantSchema :: "env \<Rightarrow> string \<Rightarrow> jval \<Rightarrow> grant_body option" where
  "createAuthorityGrantSchema e institutionId v =
     (let ob = asRecord v in
      if \<not> zod_uuid e institutionId then None
      else
        bindO (zod_min 2 (getProp ob ''signedByName'')) (\<lambda>signedByName.
        bindO (zod_min 2 (getProp ob ''signedByTitle'')) (\<lambda>signedByTitle.
        bindO (case getProp ob ''effectiveFrom'' of JStr s \<Rightarrow> zod_date s | _ \<Rightarrow> None) (\<lambda>effectiveFrom.
        bindO (zod_optional (\<lambda>v. case v of JStr s \<Rightarrow> zod_date s | _ \<Rightarrow> None) (getProp ob ''expiresAt'')) (\<lambda>expiresAt.
        bindO (case getProp ob ''permissions'' of JObj p \<Rightarrow> Some (JObj p) | _ \<Rightarrow> None) (\<lambda>permissions.
        Some \<lparr>qg_signedByName = signedByName, qg_signedByTitle = signedByTitle, qg_effectiveFrom = effectiveFrom,
          qg_expiresAt = expiresAt, qg_permissions = permissions\<rparr>))))))"

definition createAuthorityGrant :: "env \<Rightarrow> db \<Rightarrow> string \<Rightarrow> jval \<Rightarrow> (authority_grant \<times> db) res" where
  "createAuthorityGrant e d institutionId input =
     bindE (require (createAuthorityGrantSchema e institutionId input) (BadRequest ''validation'')) (\<lambda>parsed.
     bindE (failIf (find_by in_uuid institutionId (institutions d) = None) (Failure ''Foreign key constraint failed.'')) (\<lambda>_.
     let grant = \<lparr>ag_uuid = fresh e d, ag_institutionId = institutionId,
           ag_mouDocumentUrl = ''pending-secure-storage-url'', ag_signedByName = qg_signedByName parsed,
           ag_signedByTitle = qg_signedByTitle parsed, ag_effectiveFrom = qg_effectiveFrom parsed,
           ag_expiresAt = qg_expiresAt parsed, ag_permissions = qg_permissions parsed, ag_status = Grant_ACTIVE\<rparr>
     in Inr (grant, audit_write (audit_event_of ''authority_grant.create'' ''AuthorityGrant'' (ag_uuid grant)
          (Some institutionId) JUndef) (drawn (d\<lparr>authorityGrants := authorityGrants d @ [grant]\<rparr>)))))"

section \<open>Staff of any institution\<close>

definition listInstitutionStaff :: "db \<Rightarrow> string \<Rightarrow> staff_view list res" where
  "listInstitutionStaff d institutionId =
     bindE (assertInstitutionExists d institutionId) (\<lambda>_.
     Inr (map (safeStaff d) (sort_key iu_status
       (rev (filter (\<lambda>m. iu_institutionId m = institutionId) (institutionUsers d))))))"

text \<open>The items that are not blank texts, trimmed; a list that holds anything else is refused.\<close>

definition adminStringArray :: "string \<Rightarrow> nat \<Rightarrow> jval list \<Rightarrow> string list res" where
  "adminStringArray field maxItems xs =
     (let items = List.map_filter asString xs in
      bindE (failIf (length items \<noteq> length xs \<or> maxItems < length items)
        (BadRequest (field @ '' must contain '' @ digits maxItems @ '' or fewer string values.''))) (\<lambda>_.
      Inr (first_occurrences items)))"

definition scope_key_char :: "char \<Rightarrow> bool" where
  "scope_key_char c \<longleftrightarrow> is_alpha c \<or> is_digit c \<or> c \<in> set ''_.-''"

definition adminScope :: "jval \<Rightarrow> jval res" where
  "adminScope v =
     (case v of
        JObj ob \<Rightarrow>
          bindE (failIf (scopeEntries ob = [] \<or> 8 < length (scopeEntries ob) \<or>
              list_ex (\<lambda>(k, v). k = [] \<or> 64 < length k \<or> \<not> list_all scope_key_char k) (scopeEntries ob))
            (BadRequest ''Assigned scope entries are invalid.'')) (\<lambda>_.
          Inr (JObj (fold (\<lambda>(k, v). set_prop k v) (scopeEntries ob) [])))
      | _ \<Rightarrow> Inl (BadRequest ''Each assigned scope must be an object.''))"

definition adminAssignedScopes :: "jval \<Rightarrow> jval list option res" where
  "adminAssignedScopes v =
     (case v of
        JUndef \<Rightarrow> Inr None
      | JArr xs \<Rightarrow>
          bindE (failIf (25 < length xs) (BadRequest ''assignedScopes cannot contain more than 25 entries.'')) (\<lambda>_.
          bindE (mapE adminScope xs) (\<lambda>ys. Inr (Some ys)))
      | _ \<Rightarrow> Inl (BadRequest ''assignedScopes must be an array.''))"

definition string_prop :: "(string \<times> jval) list \<Rightarrow> string \<Rightarrow> string option" where
  "string_prop ob k = (case getProp ob k of JStr s \<Rightarrow> Some s | _ \<Rightarrow> None)"

definition inviteInstitutionStaff ::
    "secrets \<Rightarrow> env \<Rightarrow> db \<Rightarrow> auth_token \<Rightarrow> string \<Rightarrow> jval \<Rightarrow> (institution_user \<times> string \<times> db) res" where
  "inviteInstitutionStaff sx e d auth institutionId input =
     bindE (assertInstitutionExists d institutionId) (\<lambda>_.
     let body = asRecord input in
     bindE (if_array (adminStringArray ''permissions'' 30) (getProp body ''permissions'')) (\<lambda>permissions.
     bindE (adminAssignedScopes (getProp body ''assignedScopes'')) (\<lambda>scopes.
     inviteInstitutionUser sx e d auth \<lparr>vi_institutionId = Some institutionId, vi_email = string_prop body ''email'',
       vi_fullName = string_prop body ''fullName'', vi_phone = string_prop body ''phone'',
       vi_role = string_prop body ''role'', vi_permissions = permissions,
       vi_assignedScopes = (case scopes of None \<Rightarrow> JUndef | Some xs \<Rightarrow> JArr xs)\<rparr>)))"

definition adminStaffInput :: "jval \<Rightarrow> staff_input res" where
  "adminStaffInput input =
     (let body = asRecord input in
      bindE (if_string parseRole (getProp body ''role'')) (\<lambda>role.
      bindE (if_string parseStatus (getProp body ''status'')) (\<lambda>status.
      bindE (if_array (adminStringArray ''permissions'' 30) (getProp body ''permissions'')) (\<lambda>permissions.
      bindE (case getProp body ''assignedScopes'' of JArr xs \<Rightarrow> adminAssignedScopes (JArr xs) | _ \<Rightarrow> Inr None) (\<lambda>scopes.
      Inr \<lparr>sf_email = None, sf_fullName = None, sf_phone = None, sf_role = role, sf_status = status,
        sf_permissions = permissions, sf_assignedScopes = scopes,
        sf_twoFactorRequired = (case getProp body ''twoFactorRequired'' of JBool b \<Rightarrow> Some b | _ \<Rightarrow> None)\<rparr>)))))"

definition updateInstitutionStaff :: "env \<Rightarrow> db \<Rightarrow> auth_token \<Rightarrow> string \<Rightarrow> jval \<Rightarrow> (staff_view \<times> db) res" where
  "updateInstitutionStaff e d auth staffId input =
     bindE (require (find_by iu_uuid staffId (institutionUsers d)) (BadRequest ''Institution staff member not found.''))
       (\<lambda>existing.
     bindE (adminStaffInput input) (\<lambda>body.
     bindE (failIf (no_staff_fields body) (BadRequest ''No staff fields were provided for update.'')) (\<lambda>_.
     bindE (update_by iu_uuid staffId (staffUpdate (now e) body) (institutionUsers d)) (\<lambda>rows.
     bindE (check_unique ''InstitutionUser_userId_institutionId_role_key'' membershipIndex rows) (\<lambda>rows.
     let updated = staffUpdate (now e) body existing;
         d' = audit_write (staffUpdateEvent auth ''institution_user.update'' (iu_institutionId existing) body existing updated)
           (d\<lparr>institutionUsers := rows\<rparr>)
     in Inr (safeStaff d' updated, d'))))))"

section \<open>Applications\<close>

definition listInstitutionApplications :: "db \<Rightarrow> application_status option \<Rightarrow> institution_application list" where
  "listInstitutionApplications d status =
     take 200 (sort_key (\<lambda>a. - ap_createdAt a)
       (filter (\<lambda>a. status = None \<or> status = Some (ap_status a)) (institutionApplications d)))"

fun adminPermissionsForRole :: "user_role \<Rightarrow> string list" where
  "adminPermissionsForRole REGISTRAR = [''staff:manage'', ''ingest:write'', ''govern:review'', ''govern:publish'',
     ''records:amend'', ''developer_tools:manage'', ''record_requests:approve'']"
| "adminPermissionsForRole EXAM_OFFICER = [''students:read'', ''results:read'', ''govern:review'', ''record_requests:verify'']"
| "adminPermissionsForRole DATA_ENTRY_OFFICER = [''students:write'', ''ingest:write'', ''results:draft'',
     ''govern:submit'', ''record_requests:upload'']"
| "adminPermissionsForRole READ_ONLY = [''students:read'', ''results:read'', ''credentials:read'', ''reports:read'']"
| "adminPermissionsForRole _ = []"

definition hashInviteToken :: "env \<Rightarrow> string \<Rightarrow> string" where
  "hashInviteToken e token = sha256 e token"

definition approvedRegistrar :: "string \<Rightarrow> user \<Rightarrow> user" where
  "approvedRegistrar fullName u = u\<lparr>us_fullName := fullName, us_role := REGISTRAR\<rparr>"

definition upsertRegistrar :: "env \<Rightarrow> db \<Rightarrow> string \<Rightarrow> string \<Rightarrow> string \<Rightarrow> user \<times> db" where
  "upsertRegistrar e d email fullName passwordHash =
     (case find_by us_email email (users d) of
        Some u \<Rightarrow> (approvedRegistrar fullName u,
          d\<lparr>users := set_by us_email email (approvedRegistrar fullName) (users d)\<rparr>)
      | None \<Rightarrow>
          let u = newInvitedUser email fullName None REGISTRAR passwordHash (fresh e d)
          in (u, drawn d\<lparr>users := users d @ [u]\<rparr>))"

definition registrarInvite :: "int \<Rightarrow> auth_token \<Rightarrow> string \<Rightarrow> institution_user \<Rightarrow> institution_user" where
  "registrarInvite t auth tokenHash m =
     m\<lparr>iu_status := Member_INVITED, iu_permissions := adminPermissionsForRole REGISTRAR,
       iu_invitedById := Some (au_sub auth), iu_inviteTokenHash := Some tokenHash, iu_invitedAt := Some t,
       iu_inviteExpiresAt := Some (t + 7 * 24 * 60 * 60 * 1000), iu_inviteAcceptedAt := None, iu_suspendedAt := None\<rparr>"

definition approvedApplication :: "int \<Rightarrow> auth_token \<Rightarrow> string \<Rightarrow> institution_application \<Rightarrow> institution_application" where
  "approvedApplication t auth institutionUuid a =
     a\<lparr>ap_status := App_APPROVED, ap_reviewedById := Some (au_sub auth), ap_reviewedAt := Some t,
       ap_approvedInstitutionId := Some institutionUuid\<rparr>"

record approval =
  av_institution :: institution
  av_member :: institution_user
  av_inviteToken :: string

definition approveInstitutionApplication ::
    "secrets \<Rightarrow> env \<Rightarrow> db \<Rightarrow> auth_token \<Rightarrow> string \<Rightarrow> (approval \<times> db) res" where
  "approveInstitutionApplication sx e d auth i =
     bindE (require (find_by ap_uuid i (institutionApplications d)) (BadRequest ''Institution application not found.''))
       (\<lambda>application.
     bindE (failIf (ap_status application \<noteq> App_PENDING)
       (BadRequest ''Only pending institution applications can be approved.'')) (\<lambda>_.
     let token = createInviteToken (randomBytes sx d 32); d1 = drawn d;
         institutionCategory = normalizeInstitutionCategory
           (or_text (Some (ap_institutionCategory application)) (Some (ap_type application)));
         broadType = institutionCategoryToBroadType (Some institutionCategory)
     in
     bindE (createInstitutionRow e d1 (ap_officialName application) broadType institutionCategory (ap_state application)
       ''FOUNDING'' (ap_mouAcceptedAt application)) (\<lambda>(institution, d2).
     bindE (update_by ap_uuid i (approvedApplication (now e) auth (in_uuid institution)) (institutionApplications d2)) (\<lambda>apps.
     let d3 = d2\<lparr>institutionApplications := apps\<rparr>;
         passwordHash = hashPassword sx (randomBytes sx (drawn d3) 16) (base64url_bytes (randomBytes sx d3 32));
         (u, d4) = upsertRegistrar e (drawn (drawn d3)) (toLowerCase (trim (ap_contactEmail application)))
           (trim (ap_contactPersonName application)) passwordHash in
     bindE (upsertMember e d4 (us_uuid u) (in_uuid institution) REGISTRAR
       (registrarInvite (now e) auth (hashInviteToken e token))) (\<lambda>(m, d5).
     Inr (\<lparr>av_institution = institution, av_member = m, av_inviteToken = token\<rparr>,
       audit_write (humanActor auth (audit_event_of ''institution_application.approve'' ''InstitutionApplication'' i
         (Some (in_uuid institution))
         (JObj [(''institutionId'', JStr (in_institutionId institution)), (''applicationType'', JStr (ap_type application)),
           (''broadType'', JStr broadType), (''institutionCategory'', JStr institutionCategory),
           (''academicTemplateCode'', JStr (in_academicTemplateCode institution)),
           (''registrarInviteId'', JStr (iu_uuid m))]))) d5))))))"

text \<open>\<open>feedback?.trim() || null\<close>\<close>

definition reviewEvent :: "auth_token \<Rightarrow> string \<Rightarrow> string \<Rightarrow> string option \<Rightarrow> audit_input" where
  "reviewEvent auth action i reason =
     (humanActor auth (audit_event_of action ''InstitutionApplication'' i None JUndef))\<lparr>ai_reason := reason\<rparr>"

definition rejectedApplication :: "int \<Rightarrow> auth_token \<Rightarrow> string option \<Rightarrow> institution_application \<Rightarrow> institution_application" where
  "rejectedApplication t auth feedback a =
     a\<lparr>ap_status := App_REJECTED, ap_reviewedById := Some (au_sub auth), ap_reviewedAt := Some t,
       ap_reviewFeedback := trimmed feedback\<rparr>"

definition rejectInstitutionApplication :: "env \<Rightarrow> db \<Rightarrow> auth_token \<Rightarrow> string \<Rightarrow> string option \<Rightarrow> db res" where
  "rejectInstitutionApplication e d auth i feedback =
     bindE (update_by ap_uuid i (rejectedApplication (now e) auth feedback) (institutionApplications d)) (\<lambda>apps.
     Inr (audit_write (reviewEvent auth ''institution_application.reject'' i feedback)
       (d\<lparr>institutionApplications := apps\<rparr>)))"

definition requestInstitutionApplicationInfo :: "env \<Rightarrow> db \<Rightarrow> auth_token \<Rightarrow> string \<Rightarrow> string option \<Rightarrow> db res" where
  "requestInstitutionApplicationInfo e d auth i info =
     bindE (require (trimmed info) (BadRequest ''A request message is required.'')) (\<lambda>trimmedMessage.
     bindE (require (find_by ap_uuid i (institutionApplications d)) (BadRequest ''Institution application not found.''))
       (\<lambda>application.
     bindE (failIf (ap_status application \<noteq> App_PENDING)
       (BadRequest ''More information can only be requested for pending applications.'')) (\<lambda>_.
     bindE (update_by ap_uuid i (\<lambda>a. a\<lparr>ap_reviewFeedback := Some trimmedMessage, ap_reviewedById := Some (au_sub auth),
         ap_reviewedAt := Some (now e)\<rparr>) (institutionApplications d)) (\<lambda>apps.
     Inr (audit_write (reviewEvent auth ''institution_application.request_info'' i (Some trimmedMessage))
       (d\<lparr>institutionApplications := apps\<rparr>))))))"

fun application_status_text :: "application_status \<Rightarrow> string" where
  "application_status_text App_PENDING = ''PENDING''"
| "application_status_text App_APPROVED = ''APPROVED''"
| "application_status_text App_REJECTED = ''REJECTED''"

text \<open>The address and the subject; no mail is sent, the audit event records it.\<close>

definition sendInstitutionApplicationEmail ::
    "db \<Rightarrow> auth_token \<Rightarrow> string \<Rightarrow> string option \<Rightarrow> string option \<Rightarrow> (string \<times> string \<times> db) res" where
  "sendInstitutionApplicationEmail d auth i subject0 body =
     (let subject = getOr (trimmed subject0) ''ACAD.ID institution application update'' in
     bindE (require (trimmed body) (BadRequest ''Email message is required.'')) (\<lambda>_.
     bindE (require (find_by ap_uuid i (institutionApplications d)) (BadRequest ''Institution application not found.''))
       (\<lambda>application.
     Inr (ap_contactEmail application, subject,
       audit_write (humanActor auth (audit_event_of ''institution_application.email.record'' ''InstitutionApplication'' i None
         (JObj [(''subject'', JStr subject), (''contactEmail'', JStr (ap_contactEmail application)),
           (''officialName'', JStr (ap_officialName application)),
           (''status'', JStr (application_status_text (ap_status application)))]))) d))))"

end
