(* ===== verification/OnboardingRules.thy ===== *)
theory OnboardingRules
  imports Onboarding RowMachine
begin

text \<open>
  The life of an application and what an approval brings about: applications as the rows of a \<open>row_machine\<close>,
  the way of an applicant from the approval to a session in the new institution, and two things an approval does
  that it should not.
\<close>

section \<open>What an approval does\<close>

lemma createInstitutionRow_Inr:
  assumes "createInstitutionRow e d name broad category state tier mou = Inr (r, d')"
  shows "in_uuid r = fresh e d" "in_institutionId r = nextInstitutionDisplayId d" "in_status r = Inst_ACTIVE"
    and "d' = drawn (d\<lparr>institutions := institutions d @ [r]\<rparr>)"
    and "distinct (map in_institutionId (institutions d @ [r]))"
  using assms by (auto simp: createInstitutionRow_def Let_def err_simps List.map_filter_def comp_def)

lemma upsertRegistrar_frame:
  "institutionUsers (snd (upsertRegistrar e d email name h)) = institutionUsers d"
  "institutions (snd (upsertRegistrar e d email name h)) = institutions d"
  "institutionApplications (snd (upsertRegistrar e d email name h)) = institutionApplications d"
  by (auto simp: upsertRegistrar_def Let_def drawn_def split: option.splits)

lemma upsertMember_Inr:
  assumes "upsertMember e d userId i role f = Inr (m, d')"
  shows "(\<exists>x \<in> set (institutionUsers d). memberKey userId i role x \<and> m = f x \<and>
      institutionUsers d' = update_rows (memberKey userId i role) f (institutionUsers d)) \<or>
    List.find (memberKey userId i role) (institutionUsers d) = None \<and>
      (\<exists>k. m = f (newMember userId i role k) \<and> institutionUsers d' = institutionUsers d @ [m])"
    and "institutions d' = institutions d" and "institutionApplications d' = institutionApplications d" and "users d' = users d"
  using assms by (auto simp: upsertMember_def Let_def err_simps drawn_def dest!: find_Some_in split: option.splits)

lemma approve_Inr:
  assumes "approveInstitutionApplication sx e d auth i = Inr (r, d')"
  obtains a h where "find_by ap_uuid i (institutionApplications d) = Some a" "ap_status a = App_PENDING"
    "in_uuid (av_institution r) = fresh e (drawn d)" "in_status (av_institution r) = Inst_ACTIVE"
    "institutions d' = institutions d @ [av_institution r]"
    "institutionApplications d' = set_by ap_uuid i (approvedApplication (now e) auth (in_uuid (av_institution r))) (institutionApplications d)"
    "users d' = (case find_by us_email (toLowerCase (trim (ap_contactEmail a))) (users d) of
       Some u \<Rightarrow> set_by us_email (toLowerCase (trim (ap_contactEmail a))) (approvedRegistrar (trim (ap_contactPersonName a))) (users d)
     | None \<Rightarrow> users d @ [newInvitedUser (toLowerCase (trim (ap_contactEmail a))) (trim (ap_contactPersonName a)) None REGISTRAR h
         (fresh e (drawn (drawn (drawn (drawn d)))))])"
    "(\<exists>x \<in> set (institutionUsers d). iu_institutionId x = in_uuid (av_institution r)) \<or>
     (\<exists>k. av_member r = registrarInvite (now e) auth (hashInviteToken e (av_inviteToken r))
        (newMember (case find_by us_email (toLowerCase (trim (ap_contactEmail a))) (users d) of
            Some u \<Rightarrow> us_uuid u | None \<Rightarrow> fresh e (drawn (drawn (drawn (drawn d))))) (in_uuid (av_institution r)) REGISTRAR k) \<and>
      institutionUsers d' = institutionUsers d @ [av_member r])"
    "av_inviteToken r = createInviteToken (randomBytes sx d 32)"
    "distinct (map in_institutionId (institutions d'))" "in_institutionId (av_institution r) = nextInstitutionDisplayId d"
proof -
  let ?token = "createInviteToken (randomBytes sx d 32)"
  obtain a broad category state tier mou inst d2 apps where a: "find_by ap_uuid i (institutionApplications d) = Some a" "ap_status a = App_PENDING"
      and inst: "createInstitutionRow e (drawn d) (ap_officialName a) broad category state tier mou = Inr (inst, d2)"
      and apps: "apps = set_by ap_uuid i (approvedApplication (now e) auth (in_uuid inst)) (institutionApplications d2)"
      and run: "\<exists>m d5. upsertMember e
          (snd (upsertRegistrar e (drawn (drawn (d2\<lparr>institutionApplications := apps\<rparr>))) (toLowerCase (trim (ap_contactEmail a)))
            (trim (ap_contactPersonName a))
            (hashPassword sx (randomBytes sx (drawn (d2\<lparr>institutionApplications := apps\<rparr>)) 16)
              (base64url_bytes (randomBytes sx (d2\<lparr>institutionApplications := apps\<rparr>) 32)))))
          (us_uuid (fst (upsertRegistrar e (drawn (drawn (d2\<lparr>institutionApplications := apps\<rparr>))) (toLowerCase (trim (ap_contactEmail a)))
            (trim (ap_contactPersonName a))
            (hashPassword sx (randomBytes sx (drawn (d2\<lparr>institutionApplications := apps\<rparr>)) 16)
              (base64url_bytes (randomBytes sx (d2\<lparr>institutionApplications := apps\<rparr>) 32))))))
          (in_uuid inst) REGISTRAR (registrarInvite (now e) auth (hashInviteToken e ?token)) = Inr (m, d5) \<and>
        r = \<lparr>av_institution = inst, av_member = m, av_inviteToken = ?token\<rparr> \<and>
        institutionUsers d' = institutionUsers d5 \<and> institutions d' = institutions d5 \<and>
        institutionApplications d' = institutionApplications d5 \<and> users d' = users d5"
    using assms unfolding approveInstitutionApplication_def Let_def split_beta by (auto simp: err_simps)
  define d3 where "d3 = d2\<lparr>institutionApplications := apps\<rparr>"
  define h where "h = hashPassword sx (randomBytes sx (drawn d3) 16) (base64url_bytes (randomBytes sx d3 32))"
  let ?email = "toLowerCase (trim (ap_contactEmail a))" and ?name = "trim (ap_contactPersonName a)"
  let ?up = "upsertRegistrar e (drawn (drawn d3)) ?email ?name h"
  obtain m d5 where m: "upsertMember e (snd ?up) (us_uuid (fst ?up)) (in_uuid inst) REGISTRAR
          (registrarInvite (now e) auth (hashInviteToken e ?token)) = Inr (m, d5)"
      and r: "r = \<lparr>av_institution = inst, av_member = m, av_inviteToken = ?token\<rparr>"
      and d': "institutionUsers d' = institutionUsers d5" "institutions d' = institutions d5"
        "institutionApplications d' = institutionApplications d5" "users d' = users d5"
    using run unfolding d3_def [symmetric] h_def [symmetric] by blast
  note row = createInstitutionRow_Inr [OF inst]
  have d3: "institutionUsers d3 = institutionUsers d" "users d3 = users d" "institutions d3 = institutions d @ [inst]"
      "institutionApplications d3 = set_by ap_uuid i (approvedApplication (now e) auth (in_uuid inst)) (institutionApplications d)"
      "draws d3 = Suc (Suc (draws d))"
    by (simp_all add: d3_def row(4) drawn_def apps)
  have fresh: "fresh e (drawn (drawn d3)) = fresh e (drawn (drawn (drawn (drawn d))))" by (simp add: fresh_def drawn_def d3)
  have up: "us_uuid (fst ?up) = (case find_by us_email ?email (users d) of Some u \<Rightarrow> us_uuid u
      | None \<Rightarrow> fresh e (drawn (drawn (drawn (drawn d)))))"
    using fresh by (auto simp: upsertRegistrar_def Let_def d3 approvedRegistrar_def newInvitedUser_def split: option.splits)
  have us: "users d' = (case find_by us_email ?email (users d) of
       Some u \<Rightarrow> set_by us_email ?email (approvedRegistrar ?name) (users d)
     | None \<Rightarrow> users d @ [newInvitedUser ?email ?name None REGISTRAR h (fresh e (drawn (drawn (drawn (drawn d)))))])"
    using d'(4) upsertMember_Inr(4) [OF m] fresh by (auto simp: upsertRegistrar_def Let_def d3 drawn_def split: option.splits)
  note frame = upsertRegistrar_frame [of e "drawn (drawn d3)" ?email ?name h]
  have members: "(\<exists>x \<in> set (institutionUsers d). iu_institutionId x = in_uuid inst) \<or>
     (\<exists>k. m = registrarInvite (now e) auth (hashInviteToken e ?token) (newMember (us_uuid (fst ?up)) (in_uuid inst) REGISTRAR k) \<and>
      institutionUsers d' = institutionUsers d @ [m])"
    using upsertMember_Inr(1) [OF m] frame(1) d3(1) d'(1) by (auto simp: drawn_def memberKey_def)
  have "institutions d' = institutions d @ [inst]"
    using d'(2) upsertMember_Inr(2) [OF m] frame(2) d3(3) by (simp add: drawn_def)
  moreover have "institutionApplications d' = set_by ap_uuid i (approvedApplication (now e) auth (in_uuid inst)) (institutionApplications d)"
    using d'(3) upsertMember_Inr(3) [OF m] frame(3) d3(4) by (simp add: drawn_def)
  moreover have "in_uuid inst = fresh e (drawn d)" "in_status inst = Inst_ACTIVE" by (simp_all add: row(1,3))
  moreover have "distinct (map in_institutionId (institutions d @ [inst]))" "in_institutionId inst = nextInstitutionDisplayId d"
    using row(5) by (simp_all add: row(2) drawn_def nextInstitutionDisplayId_def)
  ultimately show thesis
    using that [of a h] a us members unfolding up r by simp
qed

section \<open>The life of an application\<close>

definition app_new :: "institution_application \<Rightarrow> bool" where
  "app_new a \<longleftrightarrow> ap_status a = App_PENDING \<and> ap_approvedInstitutionId a = None"

definition app_ok :: "institution_application \<Rightarrow> bool" where
  "app_ok a \<longleftrightarrow> (ap_status a = App_PENDING \<longrightarrow> ap_approvedInstitutionId a = None) \<and>
     (ap_status a = App_APPROVED \<longrightarrow> ap_approvedInstitutionId a \<noteq> None)"

inductive app_move :: "institution_application \<Rightarrow> institution_application \<Rightarrow> bool" where
  approve: "ap_status a = App_PENDING \<Longrightarrow> app_move a (approvedApplication t auth i a)"
| reject: "app_move a (rejectedApplication t auth feedback a)"
| inform: "ap_status a = App_PENDING \<Longrightarrow>
    app_move a (a\<lparr>ap_reviewFeedback := Some s, ap_reviewedById := Some r, ap_reviewedAt := Some t\<rparr>)"

inductive_cases app_moveE: "app_move a b"

interpretation applications: row_machine ap_uuid app_move app_new app_ok
  by unfold_locales
    (auto elim!: app_moveE simp: approvedApplication_def rejectedApplication_def app_ok_def app_new_def)

text \<open>Applications arrive and the founder reviews them; institutions are also created and suspended without one.
  The tables keep their primary keys.\<close>

inductive review_step :: "db \<Rightarrow> db \<Rightarrow> bool" where
  arrive: "createInstitutionApplicationRecord e d input = Inr (v, d') \<Longrightarrow>
    distinct (map ap_uuid (institutionApplications d')) \<Longrightarrow> review_step d d'"
| approve: "approveInstitutionApplication sx e d auth i = Inr (r, d') \<Longrightarrow> distinct (map in_uuid (institutions d')) \<Longrightarrow>
    review_step d d'"
| reject: "rejectInstitutionApplication e d auth i feedback = Inr d' \<Longrightarrow> review_step d d'"
| inform: "requestInstitutionApplicationInfo e d auth i info = Inr d' \<Longrightarrow> review_step d d'"
| create: "createInstitution e d input = Inr (inst, d') \<Longrightarrow> review_step d d'"
| status: "updateInstitutionStatus d i st = Inr d' \<Longrightarrow> review_step d d'"

lemma apply_Inr:
  assumes "createInstitutionApplicationRecord e d input = Inr (v, d')"
  obtains a where "app_new a" "institutionApplications d' = institutionApplications d @ [a]" "institutions d' = institutions d"
    "\<forall>b \<in> set (institutionApplications d). ap_status b = App_PENDING \<longrightarrow> ap_contactEmail b \<noteq> ap_contactEmail a"
proof -
  obtain b where b: "createInstitutionApplicationSchema e input = Some b"
    using assms by (cases "createInstitutionApplicationSchema e input") (auto simp: createInstitutionApplicationRecord_def)
  have run: "\<forall>a \<in> set (institutionApplications d). \<not> pendingFor (toLowerCase (trim (qa_contactEmail b))) a"
      "d' = drawn (d\<lparr>institutionApplications := institutionApplications d @ [newApplication e (fresh e d) b]\<rparr>)"
    using assms by (auto simp: createInstitutionApplicationRecord_def b err_simps Let_def)
  show thesis
    by (rule that [of "newApplication e (fresh e d) b"])
      (use run in \<open>auto simp: drawn_def app_new_def newApplication_def pendingFor_def\<close>)
qed

lemma review_rows:
  assumes "review_step d d'" and "distinct (map ap_uuid (institutionApplications d))"
  shows "rows_step ap_uuid app_move app_new (institutionApplications d) (institutionApplications d')"
  using assms(1)
proof cases
  case (arrive e input v)
  from arrive(1) obtain a where a: "app_new a" "institutionApplications d' = institutionApplications d @ [a]" by (rule apply_Inr)
  then show ?thesis using arrive(2) rows_step.add [of app_new a ap_uuid] by simp
next
  case (approve sx e auth i r)
  from approve(1) obtain a where a: "find_by ap_uuid i (institutionApplications d) = Some a" "ap_status a = App_PENDING"
      "institutionApplications d' = set_by ap_uuid i (approvedApplication (now e) auth (in_uuid (av_institution r))) (institutionApplications d)"
    by (rule approve_Inr) blast
  show ?thesis unfolding a(3)
    by (subst set_by_const [OF assms(2) a(1)]) (intro rows_step.move [OF a(1)] app_move.approve a(2))
next
  case (reject e auth i feedback)
  then have key: "i \<in> ap_uuid ` set (institutionApplications d)"
      and rows: "institutionApplications d' = set_by ap_uuid i (rejectedApplication (now e) auth feedback) (institutionApplications d)"
    by (auto simp: rejectInstitutionApplication_def err_simps)
  from key obtain a where a: "find_by ap_uuid i (institutionApplications d) = Some a"
    using find_by_None [of ap_uuid i] by (metis not_Some_eq)
  show ?thesis unfolding rows by (subst set_by_const [OF assms(2) a]) (intro rows_step.move [OF a] app_move.reject)
next
  case (inform e auth i info)
  then obtain a s where a: "find_by ap_uuid i (institutionApplications d) = Some a" "ap_status a = App_PENDING"
      and rows: "institutionApplications d' = set_by ap_uuid i (\<lambda>a. a\<lparr>ap_reviewFeedback := Some s,
        ap_reviewedById := Some (au_sub auth), ap_reviewedAt := Some (now e)\<rparr>) (institutionApplications d)"
    by (auto simp: requestInstitutionApplicationInfo_def err_simps)
  show ?thesis unfolding rows
    by (subst set_by_const [OF assms(2) a(1)]) (intro rows_step.move [OF a(1)] app_move.inform a(2))
next
  case (create e input inst)
  then have "institutionApplications d' = institutionApplications d"
    by (auto simp: createInstitution_def createInstitutionRow_def Let_def err_simps drawn_def)
  then show ?thesis by (simp add: rows_step.stay)
next
  case (status i st)
  then have "institutionApplications d' = institutionApplications d" by (auto simp: updateInstitutionStatus_def err_simps)
  then show ?thesis by (simp add: rows_step.stay)
qed

lemma review_institutions: "review_step d d' \<Longrightarrow> in_uuid ` set (institutions d) \<subseteq> in_uuid ` set (institutions d')"
proof (induction rule: review_step.induct)
  case (arrive e d input v d')
  from arrive(1) show ?case by (rule apply_Inr) simp
next
  case (approve sx e d auth i r d')
  from approve(1) show ?case by (rule approve_Inr) auto
next
  case (create e d input inst d')
  then show ?case by (auto simp: createInstitution_def createInstitutionRow_def Let_def err_simps drawn_def)
next
  case (status d i st d')
  then have "map in_uuid (institutions d') = map in_uuid (institutions d)"
    by (auto simp: updateInstitutionStatus_def err_simps keys_set_by)
  then show ?case by (metis list.set_map order_refl)
qed (auto simp: rejectInstitutionApplication_def requestInstitutionApplicationInfo_def err_simps)

text \<open>One pending application for an address, one application for an institution, which exists.\<close>

definition apps_ok :: "db \<Rightarrow> bool" where
  "apps_ok d \<longleftrightarrow>
     distinct (map ap_uuid (institutionApplications d)) \<and> list_all app_ok (institutionApplications d) \<and>
     tells_apart (\<lambda>a. ap_status a = App_PENDING) ap_contactEmail (institutionApplications d) \<and>
     tells_apart (\<lambda>a. ap_approvedInstitutionId a \<noteq> None) ap_approvedInstitutionId (institutionApplications d) \<and>
     (\<forall>a \<in> set (institutionApplications d). \<forall>i. ap_approvedInstitutionId a = Some i \<longrightarrow> i \<in> in_uuid ` set (institutions d))"

lemma apps_ok_step:
  assumes "review_step d d'" and "apps_ok d"
  shows "apps_ok d'"
proof -
  let ?A = "institutionApplications d" and ?A' = "institutionApplications d'"
  have ids: "distinct (map ap_uuid ?A)" using assms(2) by (simp add: apps_ok_def)
  note rows = review_rows [OF assms(1) ids]
  have base: "distinct (map ap_uuid ?A')" "list_all app_ok ?A'"
    using applications.distinct_step [OF rows ids] applications.ok_step [OF rows] assms(2) by (simp_all add: apps_ok_def)
  have inst: "i \<in> in_uuid ` set (institutions d')" if "i \<in> in_uuid ` set (institutions d)" for i
    using review_institutions [OF assms(1)] that by blast
  from assms(1) show ?thesis
  proof cases
    case (arrive e input v)
    from arrive(1) obtain a where "app_new a" "?A' = ?A @ [a]" "institutions d' = institutions d"
      "\<forall>b \<in> set ?A. ap_status b = App_PENDING \<longrightarrow> ap_contactEmail b \<noteq> ap_contactEmail a" by (rule apply_Inr)
    then show ?thesis using assms(2) base by (auto simp: apps_ok_def app_new_def tells_apart_def)
  next
    case (approve sx e auth i r)
    let ?j = "in_uuid (av_institution r)" and ?f = "approvedApplication (now e) auth (in_uuid (av_institution r))"
    from approve(1) obtain a where a: "find_by ap_uuid i ?A = Some a"
        and new: "institutions d' = institutions d @ [av_institution r]" and rows': "?A' = set_by ap_uuid i ?f ?A"
      by (rule approve_Inr) blast
    have f: "ap_status (?f x) = App_APPROVED" "ap_approvedInstitutionId (?f x) = Some ?j" for x
      by (simp_all add: approvedApplication_def)
    have one: "x = a" if "x \<in> set ?A" "ap_uuid x = i" for x using that find_by_distinct [OF ids, of x] a by simp
    have in': "x = ?f a \<or> x \<in> set ?A" if "x \<in> set ?A'" for x using that one unfolding rows' in_set_by by auto
    have "?j \<notin> in_uuid ` set (institutions d)" using approve(2) new by auto
    then have other: "ap_approvedInstitutionId x \<noteq> Some ?j" if "x \<in> set ?A" for x
      using assms(2) that by (auto simp: apps_ok_def)
    have "tells_apart (\<lambda>a. ap_approvedInstitutionId a \<noteq> None) ap_approvedInstitutionId ?A'"
      unfolding tells_apart_def
    proof (intro ballI impI)
      fix x y
      assume x: "x \<in> set ?A'" "y \<in> set ?A'" "ap_approvedInstitutionId x \<noteq> None" "ap_approvedInstitutionId x = ap_approvedInstitutionId y"
      show "x = y"
      proof (cases "ap_approvedInstitutionId x = Some ?j")
        case True
        then have "x = ?f a" "y = ?f a" using in' [OF x(1)] in' [OF x(2)] x(4) other by auto
        then show ?thesis by simp
      next
        case False
        then have "x \<in> set ?A" "y \<in> set ?A" using in' [OF x(1)] in' [OF x(2)] x(4) f by auto
        then show ?thesis using assms(2) x(3,4) by (auto simp: apps_ok_def tells_apart_def)
      qed
    qed
    moreover have "tells_apart (\<lambda>a. ap_status a = App_PENDING) ap_contactEmail ?A'"
      unfolding rows' using assms(2) f by (intro tells_apart_set_by) (auto simp: apps_ok_def)
    moreover have "j \<in> in_uuid ` set (institutions d')" if "x \<in> set ?A'" "ap_approvedInstitutionId x = Some j" for x j
      using in' [OF that(1)] that(2) f new assms(2) by (auto simp: apps_ok_def)
    ultimately show ?thesis using base by (simp add: apps_ok_def)
  next
    case (reject e auth i feedback)
    let ?f = "rejectedApplication (now e) auth feedback"
    have rows': "?A' = set_by ap_uuid i ?f ?A" and same: "institutions d' = institutions d"
      using reject by (auto simp: rejectInstitutionApplication_def err_simps)
    have f: "ap_status (?f x) = App_REJECTED" "ap_approvedInstitutionId (?f x) = ap_approvedInstitutionId x" for x
      by (simp_all add: rejectedApplication_def)
    have "tells_apart (\<lambda>a. ap_status a = App_PENDING) ap_contactEmail ?A'"
      "tells_apart (\<lambda>a. ap_approvedInstitutionId a \<noteq> None) ap_approvedInstitutionId ?A'"
      unfolding rows' using assms(2) f by (auto intro!: tells_apart_set_by simp: apps_ok_def)
    moreover have "j \<in> in_uuid ` set (institutions d')" if "x \<in> set ?A'" "ap_approvedInstitutionId x = Some j" for x j
      using that f assms(2) unfolding rows' in_set_by same by (auto simp: apps_ok_def)
    ultimately show ?thesis using base by (simp add: apps_ok_def)
  next
    case (inform e auth i info)
    then obtain s where rows': "?A' = set_by ap_uuid i (\<lambda>a. a\<lparr>ap_reviewFeedback := Some s,
        ap_reviewedById := Some (au_sub auth), ap_reviewedAt := Some (now e)\<rparr>) ?A" and same: "institutions d' = institutions d"
      by (auto simp: requestInstitutionApplicationInfo_def err_simps)
    have "tells_apart (\<lambda>a. ap_status a = App_PENDING) ap_contactEmail ?A'"
      "tells_apart (\<lambda>a. ap_approvedInstitutionId a \<noteq> None) ap_approvedInstitutionId ?A'"
      unfolding rows' using assms(2) by (auto intro!: tells_apart_set_by simp: apps_ok_def)
    moreover have "j \<in> in_uuid ` set (institutions d')" if "x \<in> set ?A'" "ap_approvedInstitutionId x = Some j" for x j
      using that assms(2) unfolding rows' in_set_by same by (auto simp: apps_ok_def)
    ultimately show ?thesis using base by (simp add: apps_ok_def)
  next
    case (create e input inst')
    then have "?A' = ?A" by (auto simp: createInstitution_def createInstitutionRow_def Let_def err_simps drawn_def)
    then show ?thesis using assms(2) inst by (auto simp: apps_ok_def)
  next
    case (status i st)
    then have "?A' = ?A" by (auto simp: updateInstitutionStatus_def err_simps)
    then show ?thesis using assms(2) inst by (auto simp: apps_ok_def)
  qed
qed

lemma review_settled:
  assumes "review_step d d'" and "apps_ok d" and "a \<in> set (institutionApplications d)" and "ap_status a \<noteq> App_PENDING"
  shows "\<exists>b \<in> set (institutionApplications d'). ap_uuid b = ap_uuid a \<and> ap_status b \<noteq> App_PENDING \<and>
    ap_approvedInstitutionId b = ap_approvedInstitutionId a"
proof -
  have ids: "distinct (map ap_uuid (institutionApplications d))" using assms(2) by (simp add: apps_ok_def)
  have found: "find_by ap_uuid (ap_uuid a) (institutionApplications d) = Some a" by (rule find_by_distinct [OF ids assms(3)])
  from applications.row_step [OF review_rows [OF assms(1) ids] found] show ?thesis
  proof
    assume "find_by ap_uuid (ap_uuid a) (institutionApplications d') = Some a"
    then show ?thesis using assms(4) find_by_Some by fastforce
  next
    assume "\<exists>b. app_move a b \<and> find_by ap_uuid (ap_uuid a) (institutionApplications d') = Some b"
    then obtain b where b: "app_move a b" "find_by ap_uuid (ap_uuid a) (institutionApplications d') = Some b" by blast
    from b(1) have "ap_status b \<noteq> App_PENDING \<and> ap_approvedInstitutionId b = ap_approvedInstitutionId a"
      by (rule app_moveE) (use assms(4) in \<open>auto simp: rejectedApplication_def\<close>)
    then show ?thesis using find_by_Some [OF b(2)] by blast
  qed
qed

text \<open>C19. Over any course of applications and reviews there is at most one pending application for a contact
  address and at most one application for an institution, which exists; and an application that was decided
  never becomes pending again and keeps its institution, so it is approved at most once.\<close>

theorem application_lifecycle:
  assumes "review_step\<^sup>*\<^sup>* d d'" and "apps_ok d"
  shows "(\<forall>a \<in> set (institutionApplications d'). \<forall>b \<in> set (institutionApplications d').
      (ap_status a = App_PENDING \<and> ap_status b = App_PENDING \<and> ap_contactEmail a = ap_contactEmail b \<longrightarrow> a = b) \<and>
      (ap_approvedInstitutionId a \<noteq> None \<and> ap_approvedInstitutionId a = ap_approvedInstitutionId b \<longrightarrow> a = b)) \<and>
    (\<forall>a \<in> set (institutionApplications d'). \<forall>i. ap_approvedInstitutionId a = Some i \<longrightarrow> i \<in> in_uuid ` set (institutions d')) \<and>
    (\<forall>a \<in> set (institutionApplications d). ap_status a \<noteq> App_PENDING \<longrightarrow>
      (\<exists>b \<in> set (institutionApplications d'). ap_uuid b = ap_uuid a \<and> ap_status b \<noteq> App_PENDING \<and>
        ap_approvedInstitutionId b = ap_approvedInstitutionId a))"
proof -
  have "apps_ok d' \<and> (\<forall>a \<in> set (institutionApplications d). ap_status a \<noteq> App_PENDING \<longrightarrow>
      (\<exists>b \<in> set (institutionApplications d'). ap_uuid b = ap_uuid a \<and> ap_status b \<noteq> App_PENDING \<and>
        ap_approvedInstitutionId b = ap_approvedInstitutionId a))"
    using assms
  proof (induction rule: rtranclp_induct)
    case base
    then show ?case by blast
  next
    case (step d1 d2)
    then have ok: "apps_ok d1" by blast
    from apps_ok_step [OF step(2) ok] review_settled [OF step(2) ok] step(3) [OF step(4)] show ?case by metis
  qed
  then have ok: "apps_ok d'" and settled: "\<forall>a \<in> set (institutionApplications d). ap_status a \<noteq> App_PENDING \<longrightarrow>
      (\<exists>b \<in> set (institutionApplications d'). ap_uuid b = ap_uuid a \<and> ap_status b \<noteq> App_PENDING \<and>
        ap_approvedInstitutionId b = ap_approvedInstitutionId a)" by simp_all
  have pending: "a = b" if "a \<in> set (institutionApplications d')" "b \<in> set (institutionApplications d')"
      "ap_status a = App_PENDING" "ap_status b = App_PENDING" "ap_contactEmail a = ap_contactEmail b" for a b
    using ok that by (simp add: apps_ok_def tells_apart_def)
  have approved: "a = b" if "a \<in> set (institutionApplications d')" "b \<in> set (institutionApplications d')"
      "ap_approvedInstitutionId a \<noteq> None" "ap_approvedInstitutionId a = ap_approvedInstitutionId b" for a b
  proof -
    have "ap_approvedInstitutionId b \<noteq> None" using that(3,4) by simp
    with ok that show ?thesis unfolding apps_ok_def tells_apart_def by simp
  qed
  have "\<forall>a \<in> set (institutionApplications d'). \<forall>b \<in> set (institutionApplications d').
      (ap_status a = App_PENDING \<and> ap_status b = App_PENDING \<and> ap_contactEmail a = ap_contactEmail b \<longrightarrow> a = b) \<and>
      (ap_approvedInstitutionId a \<noteq> None \<and> ap_approvedInstitutionId a = ap_approvedInstitutionId b \<longrightarrow> a = b)"
    using pending approved by blast
  moreover have "\<forall>a \<in> set (institutionApplications d'). \<forall>i. ap_approvedInstitutionId a = Some i \<longrightarrow>
      i \<in> in_uuid ` set (institutions d')"
    using ok by (simp add: apps_ok_def)
  ultimately show ?thesis using settled by (intro conjI)
qed

text \<open>An application that was approved can still be rejected: its row then says \<open>REJECTED\<close>, and the active
  institution and the registrar's invitation that the approval made stay.\<close>

theorem approved_application_rejected:
  assumes "approveInstitutionApplication sx e d auth i = Inr (r, d1)"
    and "\<And>x. x \<in> set (institutionUsers d) \<Longrightarrow> iu_institutionId x \<noteq> in_uuid (av_institution r)"
  shows "\<exists>d2 a. rejectInstitutionApplication e' d1 auth i feedback = Inr d2 \<and>
    find_by ap_uuid i (institutionApplications d2) = Some a \<and> ap_status a = App_REJECTED \<and>
    ap_approvedInstitutionId a = Some (in_uuid (av_institution r)) \<and>
    av_institution r \<in> set (institutions d2) \<and> in_status (av_institution r) = Inst_ACTIVE \<and>
    av_member r \<in> set (institutionUsers d2) \<and> iu_status (av_member r) = Member_INVITED \<and> iu_role (av_member r) = REGISTRAR"
proof -
  let ?f = "approvedApplication (now e) auth (in_uuid (av_institution r))" and ?g = "rejectedApplication (now e') auth feedback"
  from assms(1) obtain a where a: "find_by ap_uuid i (institutionApplications d) = Some a"
      and inst: "institutions d1 = institutions d @ [av_institution r]" "in_status (av_institution r) = Inst_ACTIVE"
      and rows: "institutionApplications d1 = set_by ap_uuid i ?f (institutionApplications d)"
      and m: "iu_status (av_member r) = Member_INVITED" "iu_role (av_member r) = REGISTRAR" "av_member r \<in> set (institutionUsers d1)"
    by (rule approve_Inr) (use assms(2) in \<open>auto simp: registrarInvite_def newMember_def\<close>)
  have keep: "ap_uuid (?f x) = ap_uuid x" "ap_uuid (?g x) = ap_uuid x" for x
    by (simp_all add: approvedApplication_def rejectedApplication_def)
  have found: "find_by ap_uuid i (institutionApplications d1) = Some (?f a)"
    unfolding rows using a by (simp add: set_by_same keep)
  then have "rejectInstitutionApplication e' d1 auth i feedback = Inr
      (audit_write (reviewEvent auth ''institution_application.reject'' i feedback)
        (d1\<lparr>institutionApplications := set_by ap_uuid i ?g (institutionApplications d1)\<rparr>))"
    by (simp add: rejectInstitutionApplication_def update_by_def)
  moreover have "find_by ap_uuid i (set_by ap_uuid i ?g (institutionApplications d1)) = Some (?g (?f a))"
    using found by (simp add: set_by_same keep)
  ultimately show ?thesis using inst m by (auto simp: approvedApplication_def rejectedApplication_def)
qed

section \<open>The account of the applicant\<close>

lemma activeMembership_after:
  assumes "institutionUsers d' = institutionUsers d @ [m]" and "institutions d' = institutions d @ [inst]"
    and "iu_status m = Member_INVITED" and "\<And>x. x \<in> set (institutionUsers d) \<Longrightarrow> iu_institutionId x \<noteq> in_uuid inst"
  shows "activeMembership d' userId = activeMembership d userId"
proof -
  have "active_institution d' (iu_institutionId x) = active_institution d (iu_institutionId x)" if "x \<in> set (institutionUsers d)" for x
    using assms(4) [OF that] by (auto simp: active_institution_def assms(2) find_by_append split: option.splits)
  then have "List.find (\<lambda>m. iu_status m = Member_ACTIVE \<and> active_institution d' (iu_institutionId m)) (filter (\<lambda>m. iu_userId m = userId \<and>
      iu_status m \<in> {Member_ACTIVE, Member_INVITED, Member_SUSPENDED}) (institutionUsers d)) = activeMembership d userId"
    unfolding activeMembership_def membershipsOf_def by (intro find_cong) auto
  then show ?thesis using assms(1,3) by (auto simp: activeMembership_def membershipsOf_def find_append split: option.splits)
qed

text \<open>Approving an application whose contact address is the founder's locks the founder out: the account becomes
  a registrar's, and no password and no second factor opens a session for it.\<close>

theorem approval_demotes_founder:
  assumes "approveInstitutionApplication sx e d auth i = Inr (r, d1)"
    and "find_by ap_uuid i (institutionApplications d) = Some a"
    and "find_by us_email (toLowerCase (trim (ap_contactEmail a))) (users d) = Some u" and "us_role u = ACADID_SUPER_ADMIN"
    and "activeMembership d (us_uuid u) = None"
    and "\<And>x. x \<in> set (institutionUsers d) \<Longrightarrow> iu_institutionId x \<noteq> in_uuid (av_institution r)"
  shows "(\<exists>v. find_by us_email (us_email u) (users d1) = Some v \<and> us_uuid v = us_uuid u \<and> us_role v = REGISTRAR) \<and>
    (\<forall>sx' e' password totpCode recoveryCode. \<exists>err d2.
       login sx' e' d1 (ap_contactEmail a) password totpCode recoveryCode = (Inl err, d2))"
proof -
  let ?email = "toLowerCase (trim (ap_contactEmail a))" and ?f = "approvedRegistrar (trim (ap_contactPersonName a))"
  from assms(1) obtain inst: "institutions d1 = institutions d @ [av_institution r]"
      and us: "users d1 = set_by us_email ?email ?f (users d)"
      and m: "institutionUsers d1 = institutionUsers d @ [av_member r]" "iu_status (av_member r) = Member_INVITED"
    by (rule approve_Inr) (use assms(2,3,6) in \<open>auto simp: registrarInvite_def\<close>)
  have keep: "us_email (?f x) = us_email x" for x by (simp add: approvedRegistrar_def)
  have found: "find_by us_email ?email (users d1) = Some (?f u)" unfolding us using assms(3) by (simp add: set_by_same keep)
  have none: "activeMembership d1 (us_uuid u) = None"
    using activeMembership_after [OF m(1) inst m(2) assms(6)] assms(5) by simp
  have "\<exists>err d2. login sx' e' d1 (ap_contactEmail a) password totpCode recoveryCode = (Inl err, d2)"
    for sx' e' password totpCode recoveryCode
  proof (cases "fst (login sx' e' d1 (ap_contactEmail a) password totpCode recoveryCode)")
    case (Inl err)
    then show ?thesis by (metis prod.collapse)
  next
    case (Inr s)
    then obtain d2 where "login sx' e' d1 (ap_contactEmail a) password totpCode recoveryCode = (Inr s, d2)" by (metis prod.collapse)
    then obtain v how d3 where v: "find_by us_email ?email (users d1) = Some v"
        "checkMfa sx' e' d1 v totpCode recoveryCode = (Inr how, d3)" "openSession sx' e' d3 v how = Inr (s, d2)"
      by (rule login_Inr)
    have "v = ?f u" using v(1) found by simp
    then have role: "us_role v = REGISTRAR" "us_uuid v = us_uuid u" by (simp_all add: approvedRegistrar_def)
    have "activeMembership d3 (us_uuid v) = None"
      using checkMfa_frame [OF v(2)] none role(2)
      by (simp add: activeMembership_def membershipsOf_def active_institution_def)
    with openSession_Inr(2) [OF v(3)] role(1) show ?thesis by simp
  qed
  moreover have "us_email u = ?email" using find_by_key [OF assms(3)] .
  ultimately show ?thesis using found by (auto simp: approvedRegistrar_def)
qed

section \<open>From the approval to the first session\<close>

definition first_login :: "string \<Rightarrow> string \<Rightarrow> accept_input" where
  "first_login token password = \<lparr>vp_token = Some token, vp_password = Some password, vp_fullName = None, vp_phone = None\<rparr>"

text \<open>What holds of the identifiers that an approval draws: none of them is in use, also as a foreign key, and
  that of the account is a text that is not empty.\<close>

definition new_identifiers :: "env \<Rightarrow> db \<Rightarrow> approval \<Rightarrow> db \<Rightarrow> bool" where
  "new_identifiers e d r d1 \<longleftrightarrow>
     iu_userId (av_member r) \<noteq> [] \<and> (\<forall>g \<in> set (authorityGrants d). ag_institutionId g \<noteq> in_uuid (av_institution r)) \<and>
     distinct (map in_uuid (institutions d1)) \<and> distinct (map iu_uuid (institutionUsers d1)) \<and> distinct (map us_uuid (users d1)) \<and>
     (\<forall>m \<in> set (institutionUsers d). iu_institutionId m \<noteq> in_uuid (av_institution r) \<and>
        iu_userId m \<noteq> iu_userId (av_member r) \<and> iu_inviteTokenHash m \<noteq> Some (sha256 e (av_inviteToken r)))"

lemma approve_grants:
  assumes "approveInstitutionApplication sx e d auth i = Inr (r, d')"
  shows "authorityGrants d' = authorityGrants d"
proof -
  have inst: "authorityGrants d2 = authorityGrants d1" if "createInstitutionRow e d1 name broad category state tier mou = Inr (x, d2)"
    for d1 name broad category state tier mou x d2
    using createInstitutionRow_Inr(4) [OF that] by (simp add: drawn_def)
  have up: "authorityGrants (snd (upsertRegistrar e d1 email name h)) = authorityGrants d1" for d1 email name h
    by (auto simp: upsertRegistrar_def Let_def drawn_def split: option.splits)
  have member: "authorityGrants d2 = authorityGrants d1" if "upsertMember e d1 userId k role f = Inr (m, d2)"
    for d1 userId k role f m d2
    using that by (auto simp: upsertMember_def Let_def err_simps drawn_def split: option.splits)
  from assms show ?thesis
    unfolding approveInstitutionApplication_def Let_def split_beta
    by (auto simp: err_simps up drawn_def dest!: inst member)
qed

lemma accept_grants:
  "acceptInstitutionInvite sx e d input = Inr (m, d') \<Longrightarrow> authorityGrants d' = authorityGrants d"
  by (auto simp: acceptInstitutionInvite_def Let_def err_simps drawn_def)

lemma session_grants: "openSession sx e d u how = Inr (r, d') \<Longrightarrow> authorityGrants d' = authorityGrants d"
  by (auto simp: openSession_def Let_def err_simps drawn_def split: option.splits)

lemma approved_and_accepted:
  assumes "secrets_ok sx" and "approveInstitutionApplication sx e d auth i = Inr (r, d1)" and "new_identifiers e d r d1"
    and "find_by ap_uuid i (institutionApplications d) = Some a"
    and "find_by us_email (toLowerCase (trim (ap_contactEmail a))) (users d) = None"
    and "sha256 e' = sha256 e" and "now e' \<le> now e + 7 * 24 * 60 * 60 * 1000" and "8 \<le> length password"
  obtains d2 u where
    "acceptInstitutionInvite sx e' d1 (first_login (av_inviteToken r) password) = Inr (acceptedMember (now e') (av_member r), d2)"
    "find_by us_email (toLowerCase (trim (ap_contactEmail a))) (users d2) = Some u" "us_uuid u = iu_userId (av_member r)"
    "us_passwordHash u = hashPassword sx (randomBytes sx d1 16) password" "\<not> us_mfaEnabled u"
    "activeMembership d2 (us_uuid u) = Some (acceptedMember (now e') (av_member r))"
    "institutions d2 = institutions d1" "acceptedMember (now e') (av_member r) \<in> set (institutionUsers d2)"
    "iu_role (av_member r) = REGISTRAR" "iu_institutionId (av_member r) = in_uuid (av_institution r)"
    "iu_permissions (av_member r) = adminPermissionsForRole REGISTRAR"
    "wire (iu_assignedScopes (av_member r))" "authorityGrants d2 = authorityGrants d"
proof -
  let ?email = "toLowerCase (trim (ap_contactEmail a))" and ?m = "av_member r" and ?inst = "av_institution r"
  obtain h k where inst: "institutions d1 = institutions d @ [?inst]" "in_status ?inst = Inst_ACTIVE"
      and us: "users d1 = users d @ [newInvitedUser ?email (trim (ap_contactPersonName a)) None REGISTRAR h
          (fresh e (drawn (drawn (drawn (drawn d)))))]"
      and m: "?m = registrarInvite (now e) auth (hashInviteToken e (av_inviteToken r))
         (newMember (fresh e (drawn (drawn (drawn (drawn d))))) (in_uuid ?inst) REGISTRAR k)"
      and members: "institutionUsers d1 = institutionUsers d @ [?m]"
      and token: "av_inviteToken r = createInviteToken (randomBytes sx d 32)"
    by (rule approve_Inr [OF assms(2)]) (use assms(3,4,5) in \<open>auto simp: new_identifiers_def\<close>)
  let ?u = "newInvitedUser ?email (trim (ap_contactPersonName a)) None REGISTRAR h (fresh e (drawn (drawn (drawn (drawn d)))))"
  have mf: "iu_userId ?m = us_uuid ?u" "iu_institutionId ?m = in_uuid ?inst" "iu_role ?m = REGISTRAR" "iu_status ?m = Member_INVITED"
      "iu_inviteTokenHash ?m = Some (sha256 e' (av_inviteToken r))"
      "iu_inviteExpiresAt ?m = Some (now e + 7 * 24 * 60 * 60 * 1000)" "iu_permissions ?m = adminPermissionsForRole REGISTRAR"
      "wire (iu_assignedScopes ?m)"
    by (simp_all add: m registrarInvite_def newMember_def newInvitedUser_def hashInviteToken_def assms(6))
  have "find_by in_uuid (in_uuid ?inst) (institutions d1) = Some ?inst"
    using find_by_distinct [of in_uuid "institutions d1" ?inst] assms(3) inst(1) by (simp add: new_identifiers_def)
  then have active: "active_institution d1 (iu_institutionId ?m)" using inst(2) mf(2) by (simp add: active_institution_def)
  have others: "iu_inviteTokenHash x \<noteq> Some (sha256 e' (av_inviteToken r)) \<and> iu_uuid x \<noteq> iu_uuid ?m"
    if "x \<in> set (institutionUsers d)" for x
  proof -
    have "iu_uuid ?m \<notin> iu_uuid ` set (institutionUsers d)" using assms(3) members by (simp add: new_identifiers_def)
    then show ?thesis using that assms(3) by (metis new_identifiers_def assms(6) imageI)
  qed
  have user: "iu_userId ?m \<in> us_uuid ` set (users d1)" by (simp add: us mf(1))
  have "av_inviteToken r \<noteq> []" "trim (av_inviteToken r) = av_inviteToken r" using trim_token by (simp_all add: token createInviteToken_def)
  then obtain d2 where d2: "acceptInstitutionInvite sx e' d1 (first_login (av_inviteToken r) password) = Inr (acceptedMember (now e') ?m, d2)"
      "users d2 = set_by us_uuid (us_uuid ?u) (us_passwordHash_update (\<lambda>_. hashPassword sx (randomBytes sx d1 16) password)) (users d1)"
      "institutionUsers d2 = institutionUsers d @ [acceptedMember (now e') ?m]" "institutions d2 = institutions d1"
    using accept_invited [OF assms(1) mf(5) _ _ members others mf(4,6) assms(7) active user assms(8)] mf(1)
    unfolding first_login_def by auto
  let ?v = "?u\<lparr>us_passwordHash := hashPassword sx (randomBytes sx d1 16) password\<rparr>"
  have fresh: "us_uuid ?u \<notin> us_uuid ` set (users d)" using assms(3) us by (auto simp: new_identifiers_def)
  have "users d2 = users d @ [?v]" using d2(2) us set_by_id [OF fresh] by (simp add: set_by_def update_rows_def)
  then have found: "find_by us_email ?email (users d2) = Some ?v" using assms(5) by (simp add: find_by_append newInvitedUser_def)
  have "filter (\<lambda>m. iu_userId m = us_uuid ?u \<and> P m) (institutionUsers d) = []" for P
    using assms(3) mf(1) by (auto simp: new_identifiers_def filter_empty_conv)
  then have "membershipsOf d2 (us_uuid ?u) = [acceptedMember (now e') ?m]"
    using mf(1) d2(3) by (simp add: membershipsOf_def acceptedMember_def)
  then have "activeMembership d2 (us_uuid ?u) = Some (acceptedMember (now e') ?m)"
    using active d2(4) by (simp add: activeMembership_def acceptedMember_def active_institution_def)
  moreover have "authorityGrants d2 = authorityGrants d" using accept_grants [OF d2(1)] approve_grants [OF assms(2)] by simp
  ultimately show thesis using that [of d2 ?v] d2 found mf by (simp add: newInvitedUser_def)
qed

lemma display_id_no_uuid: "\<not> uuidPattern (nextInstitutionDisplayId d)"
  by (auto simp: uuidPattern_def matches_def nextInstitutionDisplayId_def list_all2_Cons2 eval_nat_numeral is_hex_def is_digit_def)

text \<open>A registrar with an active membership may use the first grant of the institution that an approval made.\<close>

lemma granted_registrar_can:
  assumes "createAuthorityGrant e d (in_uuid inst) body = Inr (grant, d')"
    and "\<forall>g \<in> set (authorityGrants d). ag_institutionId g \<noteq> in_uuid inst"
    and "grantInForce (now e) permission grant" and "institutions d = old @ [inst]" and "in_status inst = Inst_ACTIVE"
    and "distinct (map in_uuid (institutions d))" and "distinct (map in_institutionId (institutions d))"
    and "in_institutionId inst = nextInstitutionDisplayId d0" and "m \<in> set (institutionUsers d)"
    and "iu_institutionId m = in_uuid inst" and "iu_role m = REGISTRAR" and "iu_status m = Member_ACTIVE"
    and "au_sub caller = iu_userId m" and "au_role caller = REGISTRAR" and "au_kind caller \<noteq> Some API_KEY"
    and "au_institutionUserId caller = Some (iu_uuid m)"
  shows "assertInstitutionCan e d' (in_institutionId inst) permission (Some caller) =
    Inr \<lparr>ia_institutionUuid = in_uuid inst, ia_institutionId = in_institutionId inst, ia_authorityGrantId = ag_uuid grant\<rparr>"
proof -
  have d': "authorityGrants d' = authorityGrants d @ [grant]" "ag_institutionId grant = in_uuid inst"
      "ag_status grant = Grant_ACTIVE" "institutions d' = old @ [inst]" "institutionUsers d' = institutionUsers d"
    using assms(1,4) by (auto simp: createAuthorityGrant_def err_simps Let_def drawn_def)
  have "filter (\<lambda>g. ag_institutionId g = in_uuid inst \<and> ag_status g = Grant_ACTIVE) (authorityGrants d) = []"
    using assms(2) by (auto simp: filter_empty_conv)
  then have own: "filter (\<lambda>g. ag_institutionId g = in_uuid inst \<and> ag_status g = Grant_ACTIVE) (authorityGrants d') = [grant]"
    using d'(1-3) by simp
  have "in_institutionId inst \<notin> in_institutionId ` set old" using assms(4,7) by simp
  then have "\<forall>x \<in> set old. in_institutionId x \<noteq> in_institutionId inst" by (metis imageI)
  then have "List.find (institutionWhere (in_institutionId inst)) old = None"
    unfolding find_None_iff' institutionWhere_def assms(8) using display_id_no_uuid by simp
  then have found: "List.find (institutionWhere (in_institutionId inst)) (institutions d') = Some inst"
    by (simp add: d'(4) find_append institutionWhere_def)
  have "active_institution d' (in_uuid inst)"
    using find_by_distinct [OF assms(6), of inst] assms(4,5) by (simp add: active_institution_def d'(4))
  then have "may_operate d' caller (in_uuid inst)"
    using assms(9-16) by (auto simp: may_operate_def d'(5) intro!: bexI [of _ m])
  then have "assertActorCanOperateInstitution d' caller (in_uuid inst) = Inr ()" by (rule assertActor_complete)
  with found assms(3,5) own show ?thesis by (simp add: assertInstitutionCan_def)
qed

text \<open>C18. Onboarding: after the approval of an application with a new contact address, by identifiers that were not
  in use, the applicant accepts the invitation within its seven days and logs in with the password of their
  choice; the session is a registrar's of the new active institution. Once the founder has given that institution
  its first grant, whatever grants others hold, the token of that very session verifies for its eight hours, and
  the caller read out of it may do there what the grant names while it is in force.\<close>

theorem onboarding_opens_workspace:
  assumes "secrets_ok sx" and "approveInstitutionApplication sx e d auth i = Inr (r, d1)" and "new_identifiers e d r d1"
    and "find_by ap_uuid i (institutionApplications d) = Some a"
    and "find_by us_email (toLowerCase (trim (ap_contactEmail a))) (users d) = None"
    and "sha256 e' = sha256 e" and "now e' \<le> now e + 7 * 24 * 60 * 60 * 1000" and "8 \<le> length password"
    and "toLowerCase (trim (ap_contactEmail a)) \<noteq> []" and "\<And>h m. sx_hmac256 sx h m \<noteq> []"
    and "0 \<le> now e'" and "now e' < 10 ^ 20"
  shows "\<exists>d2 s d3 m.
    acceptInstitutionInvite sx e' d1 (first_login (av_inviteToken r) password) = Inr (m, d2) \<and>
    login sx e' d2 (ap_contactEmail a) password None None = (Inr s, d3) \<and>
    lg_role s = REGISTRAR \<and> lg_membership s = Some m \<and> iu_institutionId m = in_uuid (av_institution r) \<and>
    av_institution r \<in> set (institutions d3) \<and> in_status (av_institution r) = Inst_ACTIVE \<and>
    (\<forall>e'' body grant d4 permission.
       createAuthorityGrant e'' d3 (in_uuid (av_institution r)) body = Inr (grant, d4) \<longrightarrow>
       grantInForce (now e'') permission grant \<longrightarrow> now e'' div 1000 \<le> now e' div 1000 + 8 * 60 * 60 \<longrightarrow>
       (\<exists>payload caller.
          verifyToken (sx_hmac256 sx) (jwtSecret (sx_jwtSecret sx)) (now e'') (lg_accessToken s) = Inr payload \<and>
          auth_of payload = Some caller \<and>
          assertInstitutionCan e'' d4 (in_institutionId (av_institution r)) permission (Some caller) =
            Inr \<lparr>ia_institutionUuid = in_uuid (av_institution r), ia_institutionId = in_institutionId (av_institution r),
                 ia_authorityGrantId = ag_uuid grant\<rparr>))"
proof -
  let ?inst = "av_institution r"
  obtain d2 u where acc: "acceptInstitutionInvite sx e' d1 (first_login (av_inviteToken r) password) =
        Inr (acceptedMember (now e') (av_member r), d2)"
      and u: "find_by us_email (toLowerCase (trim (ap_contactEmail a))) (users d2) = Some u" "us_uuid u = iu_userId (av_member r)"
        "us_passwordHash u = hashPassword sx (randomBytes sx d1 16) password" "\<not> us_mfaEnabled u"
      and act: "activeMembership d2 (us_uuid u) = Some (acceptedMember (now e') (av_member r))"
      and inst: "institutions d2 = institutions d1" and m: "acceptedMember (now e') (av_member r) \<in> set (institutionUsers d2)"
        "iu_role (av_member r) = REGISTRAR" "iu_institutionId (av_member r) = in_uuid ?inst" "wire (iu_assignedScopes (av_member r))"
      and grants2: "authorityGrants d2 = authorityGrants d"
    by (rule approved_and_accepted [OF assms(1-8)])
  let ?m = "acceptedMember (now e') (av_member r)" and ?s = "session_of sx e' d2 u"
  obtain d3 where session: "openSession sx e' d2 u ''NONE'' = Inr (?s, d3)" by (rule openSession_member [OF act])
  have "length (randomBytes sx d1 16) = 16" "list_all (\<lambda>b. b < 256) (randomBytes sx d1 16)"
    using assms(1) by (simp_all add: secrets_ok_def randomBytes_def)
  then have "verifyPassword sx password (us_passwordHash u)"
    using verify_hashPassword [OF assms(1), of "randomBytes sx d1 16" password password] u(3) by fastforce
  then have log: "login sx e' d2 (ap_contactEmail a) password None None = (Inr ?s, d3)"
    using u(1,4) session by (simp add: login_def checkMfa_def)
  have s: "lg_role ?s = REGISTRAR" "lg_membership ?s = Some ?m" "iu_institutionId ?m = in_uuid ?inst" "lg_user ?s = u"
    using act m by (simp_all add: session_of_def Let_def acceptedMember_def)
  note after = openSession_Inr [OF session]
  have inst1: "institutions d1 = institutions d @ [?inst]" "in_status ?inst = Inst_ACTIVE"
      "distinct (map in_institutionId (institutions d1))" "in_institutionId ?inst = nextInstitutionDisplayId d"
    by (rule approve_Inr [OF assms(2)], blast)+
  have inst3: "institutions d3 = institutions d @ [?inst]" using after(5) inst inst1(1) by simp
  have keys: "distinct (map in_uuid (institutions d3))" "distinct (map in_institutionId (institutions d3))"
    using assms(3) after(5) inst inst1(3) by (simp_all add: new_identifiers_def)
  have none: "\<forall>g \<in> set (authorityGrants d3). ag_institutionId g \<noteq> in_uuid ?inst"
    using assms(3) session_grants [OF session] grants2 by (simp add: new_identifiers_def)
  let ?now = "iu_lastLoginAt_update (\<lambda>_. Some (now e')) ?m"
  have now: "?now \<in> set (institutionUsers d3)" using after(6) act m(1) by (auto simp: in_set_by)
  have fields: "iu_institutionId ?now = in_uuid ?inst" "iu_role ?now = REGISTRAR" "iu_status ?now = Member_ACTIVE"
      "iu_userId ?now = us_uuid (lg_user ?s)" "iu_uuid ?now = iu_uuid ?m"
    using s(3,4) m(2) u(2) by (simp_all add: acceptedMember_def)
  have ids: "us_uuid u \<noteq> []" "us_email u \<noteq> []"
    using assms(3,9) u(2) find_by_key [OF u(1)] by (simp_all add: new_identifiers_def)
  have "wire (iu_assignedScopes q)" if "activeMembership d2 (us_uuid u) = Some q" for q
  proof -
    have "q = ?m" using that act by simp
    then show ?thesis using m(4) by (simp add: acceptedMember_def)
  qed
  then have token: "\<exists>payload caller. verifyToken (sx_hmac256 sx) (jwtSecret (sx_jwtSecret sx)) t (lg_accessToken ?s) = Inr payload \<and>
      auth_of payload = Some caller \<and> session_caller ?s caller"
    if "t div 1000 \<le> now e' div 1000 + 8 * 60 * 60" for t
    using session_token [OF session assms(10) ids assms(11,12)] that by (simp add: defaultTokenTtlSeconds_def)
  have can: "assertInstitutionCan e'' d4 (in_institutionId ?inst) permission (Some caller) =
         Inr \<lparr>ia_institutionUuid = in_uuid ?inst, ia_institutionId = in_institutionId ?inst, ia_authorityGrantId = ag_uuid grant\<rparr>"
    if "createAuthorityGrant e'' d3 (in_uuid ?inst) body = Inr (grant, d4)" and "grantInForce (now e'') permission grant"
      and "session_caller ?s caller"
    for e'' body grant d4 permission caller
    using granted_registrar_can [OF that(1) none that(2) inst3 inst1(2) keys inst1(4) now fields(1-3), of caller]
      that(3) fields(4,5) s(1,2) by (simp add: session_caller_def)
  have works: "\<forall>e'' body grant d4 permission.
       createAuthorityGrant e'' d3 (in_uuid ?inst) body = Inr (grant, d4) \<longrightarrow>
       grantInForce (now e'') permission grant \<longrightarrow> now e'' div 1000 \<le> now e' div 1000 + 8 * 60 * 60 \<longrightarrow>
       (\<exists>payload caller.
          verifyToken (sx_hmac256 sx) (jwtSecret (sx_jwtSecret sx)) (now e'') (lg_accessToken ?s) = Inr payload \<and>
          auth_of payload = Some caller \<and>
          assertInstitutionCan e'' d4 (in_institutionId ?inst) permission (Some caller) =
            Inr \<lparr>ia_institutionUuid = in_uuid ?inst, ia_institutionId = in_institutionId ?inst,
                 ia_authorityGrantId = ag_uuid grant\<rparr>)"
    using can token by meson
  have "?inst \<in> set (institutions d3)" by (simp add: inst3)
  with acc log s(1-3) inst1(2) works show ?thesis
    by (intro exI [of _ d2] exI [of _ ?s] exI [of _ d3] exI [of _ ?m] conjI)
qed

lemma guard_of_login:
  assumes "role \<noteq> ACADID_SUPER_ADMIN"
  shows "scopesGuard scopes (loginPayload d u m role permissions sid) =
    (if list_all (\<lambda>scope. scope \<in> set permissions \<or> ''*'' \<in> set permissions) scopes then Inr True
     else Inl (Forbidden ''Authenticated actor scope does not allow this operation.''))"
proof -
  have texts: "text_list (JArr (map JStr permissions)) = permissions"
    by (induction permissions) (simp_all add: text_list_def List.map_filter_def)
  have "role_text role \<noteq> ''ACADID_SUPER_ADMIN''" using assms by (cases role) simp_all
  then show ?thesis using texts by (auto simp: scopesGuard_def loginPayload_def Let_def getProp_def)
qed

text \<open>The registrar of an approved application cannot set the institution up: the permissions that the approval
  stores are fewer than the registrar's defaults, so the scope guard refuses every route of the academic setup,
  which it opens for a registrar whom the founder invites.\<close>

theorem approved_registrar_cannot_set_up:
  assumes "secrets_ok sx" and "approveInstitutionApplication sx e d auth i = Inr (r, d1)" and "new_identifiers e d r d1"
    and "find_by ap_uuid i (institutionApplications d) = Some a"
    and "find_by us_email (toLowerCase (trim (ap_contactEmail a))) (users d) = None"
    and "sha256 e' = sha256 e" and "now e' \<le> now e + 7 * 24 * 60 * 60 * 1000" and "8 \<le> length password"
  shows "\<exists>d2 s d3 m.
    acceptInstitutionInvite sx e' d1 (first_login (av_inviteToken r) password) = Inr (m, d2) \<and>
    login sx e' d2 (ap_contactEmail a) password None None = (Inr s, d3) \<and>
    (\<forall>d4 sid. scopesGuard [''academic_setup:write''] (loginPayload d4 (lg_user s) (lg_membership s) (lg_role s) (lg_permissions s) sid) =
      Inl (Forbidden ''Authenticated actor scope does not allow this operation.'')) \<and>
    (\<forall>d4 sid. scopesGuard [''academic_setup:write'']
      (loginPayload d4 (lg_user s) (lg_membership s) (lg_role s) (defaultPermissionsForRole REGISTRAR) sid) = Inr True)"
proof -
  obtain d2 u where acc: "acceptInstitutionInvite sx e' d1 (first_login (av_inviteToken r) password) =
        Inr (acceptedMember (now e') (av_member r), d2)"
      and u: "find_by us_email (toLowerCase (trim (ap_contactEmail a))) (users d2) = Some u"
        "us_passwordHash u = hashPassword sx (randomBytes sx d1 16) password" "\<not> us_mfaEnabled u"
      and act: "activeMembership d2 (us_uuid u) = Some (acceptedMember (now e') (av_member r))"
      and m: "iu_role (av_member r) = REGISTRAR" "iu_permissions (av_member r) = adminPermissionsForRole REGISTRAR"
    by (rule approved_and_accepted [OF assms])
  let ?s = "session_of sx e' d2 u"
  obtain d3 where session: "openSession sx e' d2 u ''NONE'' = Inr (?s, d3)" by (rule openSession_member [OF act])
  have "length (randomBytes sx d1 16) = 16" "list_all (\<lambda>b. b < 256) (randomBytes sx d1 16)"
    using assms(1) by (simp_all add: secrets_ok_def randomBytes_def)
  then have "verifyPassword sx password (us_passwordHash u)"
    using verify_hashPassword [OF assms(1), of "randomBytes sx d1 16" password password] u(2) by fastforce
  then have "login sx e' d2 (ap_contactEmail a) password None None = (Inr ?s, d3)"
    using u(1,3) session by (simp add: login_def checkMfa_def)
  moreover have "lg_role ?s = REGISTRAR" "lg_permissions ?s = adminPermissionsForRole REGISTRAR"
    using act m by (simp_all add: session_of_def Let_def acceptedMember_def)
  ultimately show ?thesis using acc by (intro exI conjI) (assumption | simp add: guard_of_login)+
qed

section \<open>Witnesses\<close>

lemma approve_runs:
  assumes "find_by ap_uuid i (institutionApplications d) = Some a" and "ap_status a = App_PENDING"
    and "institutions d = []" and "institutionUsers d = []"
  obtains r d1 where "approveInstitutionApplication sx e d auth i = Inr (r, d1)"
proof -
  have frame: "institutionUsers (snd (upsertRegistrar e' d' email name h)) = institutionUsers d'" for e' d' email name h
    by (rule upsertRegistrar_frame)
  have "\<exists>x. approveInstitutionApplication sx e d auth i = Inr x"
    unfolding approveInstitutionApplication_def Let_def split_beta
    by (simp add: assms createInstitutionRow_def check_unique_def update_by_def drawn_def upsertMember_def frame
        List.map_filter_def Let_def registrarInvite_def)
  then show thesis using that by (metis prod.collapse)
qed

definition applicant :: institution_application where
  "applicant = \<lparr>ap_uuid = ''a1'', ap_officialName = ''Unity College'', ap_type = ''SECONDARY'', ap_institutionCategory = ''SECONDARY'',
     ap_academicTemplateCode = ''SECONDARY_TERM_CLASS_SUBJECT'', ap_state = ''Lagos'', ap_address = ''1 Road'',
     ap_contactPersonName = ''Ada'', ap_contactEmail = ''ada@unity'', ap_studentVolume = 300, ap_documentUploads = JArr [],
     ap_mouAcceptedAt = Some 1, ap_status = App_PENDING, ap_reviewFeedback = None, ap_reviewedById = None,
     ap_reviewedAt = None, ap_approvedInstitutionId = None, ap_createdAt = 1\<rparr>"

definition waiting :: db where
  "waiting = empty_db\<lparr>institutionApplications := [applicant]\<rparr>"

lemma waiting_approved:
  obtains r d1 where "approveInstitutionApplication toy_secrets sample_env waiting founder ''a1'' = Inr (r, d1)"
    "new_identifiers sample_env waiting r d1" "av_member r \<in> set (institutionUsers d1)"
proof -
  obtain r d1 where run: "approveInstitutionApplication toy_secrets sample_env waiting founder ''a1'' = Inr (r, d1)"
    by (rule approve_runs) (auto simp: waiting_def applicant_def empty_db_def)
  have tables: "users waiting = []" "institutionUsers waiting = []" "authorityGrants waiting = []" "institutions waiting = []"
    by (simp_all add: waiting_def empty_db_def)
  have "fresh sample_env (drawn x) \<noteq> []" for x by (simp add: fresh_def sample_env_def drawn_def)
  with run have "new_identifiers sample_env waiting r d1 \<and> av_member r \<in> set (institutionUsers d1)"
    by (rule_tac approve_Inr) (auto simp: tables new_identifiers_def registrarInvite_def newMember_def)
  with run that show thesis by blast
qed

lemma waiting_facts:
  "find_by ap_uuid ''a1'' (institutionApplications waiting) = Some applicant"
  "find_by us_email (toLowerCase (trim (ap_contactEmail applicant))) (users waiting) = None"
  "institutionUsers waiting = []" "institutions waiting = []"
  by (simp_all add: waiting_def applicant_def empty_db_def)

lemma address: "toLowerCase (trim (ap_contactEmail applicant)) = ''ada@unity''"
  unfolding applicant_def by code_simp

definition first_grant :: jval where
  "first_grant = JObj [(''signedByName'', JStr ''Ada''), (''signedByTitle'', JStr ''Principal''),
     (''effectiveFrom'', JStr ''1970-01-01''), (''permissions'', JObj [(''all'', JBool True)])]"

lemma first_grant_given:
  assumes "find_by in_uuid i (institutions d) \<noteq> None" and "i \<noteq> []"
  shows "\<exists>grant d'. createAuthorityGrant sample_env d i first_grant = Inr (grant, d') \<and> grantInForce 1000 ''ingest'' grant"
proof -
  have date: "zod_date ''1970-01-01'' = Some 0" by code_simp
  have "\<exists>p. createAuthorityGrantSchema sample_env i first_grant = Some p \<and> qg_effectiveFrom p \<le> 1000 \<and>
      qg_expiresAt p = None \<and> permissionAllows (qg_permissions p) ''ingest''"
    using assms(2) date by (simp add: createAuthorityGrantSchema_def first_grant_def asRecord_def getProp_def sample_env_def
        zod_min_def zod_optional_def permissionAllows_def Let_def)
  then show ?thesis using assms by (auto simp: createAuthorityGrant_def Let_def grantInForce_def)
qed

theorem onboarding_opens_workspace_witness:
  "\<exists>r d1 d2 s d3 m grant d4 payload caller.
     approveInstitutionApplication toy_secrets sample_env waiting founder ''a1'' = Inr (r, d1) \<and>
     acceptInstitutionInvite toy_secrets sample_env d1 (first_login (av_inviteToken r) ''password'') = Inr (m, d2) \<and>
     login toy_secrets sample_env d2 ''ada@unity'' ''password'' None None = (Inr s, d3) \<and> lg_role s = REGISTRAR \<and>
     createAuthorityGrant sample_env d3 (in_uuid (av_institution r)) first_grant = Inr (grant, d4) \<and>
     verifyToken (sx_hmac256 toy_secrets) (jwtSecret (sx_jwtSecret toy_secrets)) (now sample_env) (lg_accessToken s) = Inr payload \<and>
     auth_of payload = Some caller \<and>
     assertInstitutionCan sample_env d4 (in_institutionId (av_institution r)) ''ingest'' (Some caller) =
       Inr \<lparr>ia_institutionUuid = in_uuid (av_institution r), ia_institutionId = in_institutionId (av_institution r),
            ia_authorityGrantId = ag_uuid grant\<rparr>"
proof -
  obtain r d1 where run: "approveInstitutionApplication toy_secrets sample_env waiting founder ''a1'' = Inr (r, d1)"
      "new_identifiers sample_env waiting r d1" by (rule waiting_approved)
  have facts: "sha256 sample_env = sha256 sample_env" "now sample_env \<le> now sample_env + 7 * 24 * 60 * 60 * 1000"
      "8 \<le> length ''password''" "toLowerCase (trim (ap_contactEmail applicant)) \<noteq> []" by (simp_all add: address)
  have digest: "sx_hmac256 toy_secrets h m \<noteq> []" for h m by (simp add: toy_secrets_def)
  have times: "0 \<le> now sample_env" "now sample_env < 10 ^ 20" "now sample_env div 1000 \<le> now sample_env div 1000 + 8 * 60 * 60"
    by (simp_all add: sample_env_def)
  have contact: "ap_contactEmail applicant = ''ada@unity''" by (simp add: applicant_def)
  from onboarding_opens_workspace [OF toy_secrets_ok run waiting_facts(1,2) facts digest times(1,2)] show ?thesis
  proof (elim exE conjE, goal_cases)
    case (1 d2 s d3 m)
    have "find_by in_uuid (in_uuid (av_institution r)) (institutions d3) \<noteq> None"
      using 1(6) unfolding find_by_None by blast
    moreover have "in_uuid (av_institution r) = fresh sample_env (drawn waiting)" by (rule approve_Inr [OF run(1)])
    then have "in_uuid (av_institution r) \<noteq> []" by (simp add: fresh_def sample_env_def drawn_def)
    ultimately obtain grant d4 where grant: "createAuthorityGrant sample_env d3 (in_uuid (av_institution r)) first_grant = Inr (grant, d4)"
        "grantInForce 1000 ''ingest'' grant" using first_grant_given by blast
    then have force: "grantInForce (now sample_env) ''ingest'' grant" by (simp add: sample_env_def)
    from 1(8) [rule_format, OF grant(1) force times(3)] 1(1-3) grant(1) run(1) show ?case unfolding contact by blast
  qed
qed

theorem approved_registrar_cannot_set_up_witness:
  "\<exists>r d1 d2 s d3 m. approveInstitutionApplication toy_secrets sample_env waiting founder ''a1'' = Inr (r, d1) \<and>
     acceptInstitutionInvite toy_secrets sample_env d1 (first_login (av_inviteToken r) ''password'') = Inr (m, d2) \<and>
     login toy_secrets sample_env d2 ''ada@unity'' ''password'' None None = (Inr s, d3) \<and>
     scopesGuard [''academic_setup:write''] (loginPayload d3 (lg_user s) (lg_membership s) (lg_role s) (lg_permissions s) ''sid'') =
       Inl (Forbidden ''Authenticated actor scope does not allow this operation.'')"
proof -
  obtain r d1 where run: "approveInstitutionApplication toy_secrets sample_env waiting founder ''a1'' = Inr (r, d1)"
      "new_identifiers sample_env waiting r d1" by (rule waiting_approved)
  have "sha256 sample_env = sha256 sample_env" "now sample_env \<le> now sample_env + 7 * 24 * 60 * 60 * 1000"
      "8 \<le> length ''password''" by simp_all
  from approved_registrar_cannot_set_up [OF toy_secrets_ok run waiting_facts(1,2) this] run(1) show ?thesis
    unfolding applicant_def institution_application.simps by blast
qed

theorem approved_application_rejected_witness:
  "\<exists>r d1 d2 a. approveInstitutionApplication toy_secrets sample_env waiting founder ''a1'' = Inr (r, d1) \<and>
     rejectInstitutionApplication sample_env d1 founder ''a1'' (Some ''late'') = Inr d2 \<and>
     find_by ap_uuid ''a1'' (institutionApplications d2) = Some a \<and> ap_status a = App_REJECTED \<and>
     av_institution r \<in> set (institutions d2) \<and> in_status (av_institution r) = Inst_ACTIVE"
proof -
  obtain r d1 where run: "approveInstitutionApplication toy_secrets sample_env waiting founder ''a1'' = Inr (r, d1)"
    by (rule waiting_approved)
  have "iu_institutionId x \<noteq> in_uuid (av_institution r)" if "x \<in> set (institutionUsers waiting)" for x
    using that by (simp add: waiting_facts)
  from approved_application_rejected [OF run this] run show ?thesis by blast
qed

text \<open>The founder's account, and an application that names its address.\<close>

definition founder_account :: user where
  "founder_account = (newInvitedUser ''ada@unity'' ''Founder'' None ACADID_SUPER_ADMIN ''scrypt:aa:bb'' ''founder'')"

definition waiting_founder :: db where
  "waiting_founder = waiting\<lparr>users := [founder_account]\<rparr>"

theorem approval_demotes_founder_witness:
  "\<exists>r d1 v. approveInstitutionApplication toy_secrets sample_env waiting_founder founder ''a1'' = Inr (r, d1) \<and>
     us_role founder_account = ACADID_SUPER_ADMIN \<and> find_by us_email ''ada@unity'' (users d1) = Some v \<and> us_role v = REGISTRAR \<and>
     (\<exists>err d2. login toy_secrets sample_env d1 ''ada@unity'' ''any password'' None None = (Inl err, d2))"
proof -
  have facts: "find_by ap_uuid ''a1'' (institutionApplications waiting_founder) = Some applicant"
      "find_by us_email (toLowerCase (trim (ap_contactEmail applicant))) (users waiting_founder) = Some founder_account"
      "us_role founder_account = ACADID_SUPER_ADMIN" "activeMembership waiting_founder (us_uuid founder_account) = None"
    using waiting_facts(1) address by (simp_all add: waiting_founder_def waiting_def founder_account_def newInvitedUser_def
        activeMembership_def membershipsOf_def empty_db_def)
  have none: "institutions waiting_founder = []" "institutionUsers waiting_founder = []" "ap_status applicant = App_PENDING"
    by (simp_all add: waiting_founder_def waiting_def empty_db_def applicant_def)
  obtain r d1 where run: "approveInstitutionApplication toy_secrets sample_env waiting_founder founder ''a1'' = Inr (r, d1)"
    by (rule approve_runs [OF facts(1) none(3,1,2)])
  have "iu_institutionId x \<noteq> in_uuid (av_institution r)" if "x \<in> set (institutionUsers waiting_founder)" for x
    using that none(2) by simp
  from approval_demotes_founder [OF run facts this] run facts(3) show ?thesis
    unfolding address [symmetric] by (simp add: founder_account_def newInvitedUser_def address) (simp add: applicant_def, blast)
qed

theorem application_lifecycle_witness:
  "\<exists>d'. review_step\<^sup>*\<^sup>* waiting d' \<and> (\<exists>a \<in> set (institutionApplications d'). ap_status a = App_APPROVED) \<and>
     (\<forall>a \<in> set (institutionApplications d'). \<forall>i. ap_approvedInstitutionId a = Some i \<longrightarrow> i \<in> in_uuid ` set (institutions d'))"
proof -
  obtain r d1 where run: "approveInstitutionApplication toy_secrets sample_env waiting founder ''a1'' = Inr (r, d1)"
      and ids: "new_identifiers sample_env waiting r d1" by (rule waiting_approved)
  have "review_step waiting d1" by (rule review_step.approve [OF run]) (use ids in \<open>simp add: new_identifiers_def\<close>)
  then have steps: "review_step\<^sup>*\<^sup>* waiting d1" by blast
  have "apps_ok waiting" by (simp add: apps_ok_def tells_apart_def app_ok_def waiting_def applicant_def)
  note life = application_lifecycle [OF steps this]
  have "institutionApplications d1 =
      set_by ap_uuid ''a1'' (approvedApplication (now sample_env) founder (in_uuid (av_institution r))) (institutionApplications waiting)"
    by (rule approve_Inr [OF run])
  then have "institutionApplications d1 = [approvedApplication (now sample_env) founder (in_uuid (av_institution r)) applicant]"
    by (simp add: waiting_def applicant_def)
  then have "\<exists>a \<in> set (institutionApplications d1). ap_status a = App_APPROVED" by (simp add: approvedApplication_def)
  with steps life show ?thesis by blast
qed

end
