(* ===== verification/ApiKeys.thy ===== *)
theory ApiKeys
  imports Portal
begin

text \<open>
  The part of \<open>admin/admin.service.ts\<close> behind the developer interface: an institution asks for developer access,
  the founder reviews the request, creates keys for institutions and products, revokes, regenerates, and locks
  every key at once. A secret leaves the service once, beside the row, and the row holds its digest only.
\<close>

section \<open>Developer access\<close>

definition developerAccessRequestScopes :: "string list" where
  "developerAccessRequestScopes = [''ingest:write'', ''govern:write'', ''verify:read'', ''webhook:manage'']"

record access_body =
  qd_institutionId :: string
  qd_developerName :: string
  qd_developerEmail :: string
  qd_developerPhone :: "string option"
  qd_reason :: string
  qd_requestedScopes :: "string list"

definition createDeveloperAccessRequestSchema :: "env \<Rightarrow> jval \<Rightarrow> access_body option" where
  "createDeveloperAccessRequestSchema e v =
     (case v of
        JObj ob \<Rightarrow>
          bindO (zod_format (zod_uuid e) (getProp ob ''institutionId'')) (\<lambda>i.
          bindO (zod_text 2 120 (getProp ob ''developerName'')) (\<lambda>developerName.
          bindO (zod_format (\<lambda>s. zod_email e s \<and> length s \<le> 254) (getProp ob ''developerEmail'')) (\<lambda>developerEmail.
          bindO (zod_optional (zod_text 5 40) (getProp ob ''developerPhone'')) (\<lambda>developerPhone.
          bindO (zod_text 10 1000 (getProp ob ''reason'')) (\<lambda>reason.
          bindO (case getProp ob ''requestedScopes'' of
              JArr xs \<Rightarrow> (if xs = [] \<or> length developerAccessRequestScopes < length xs then None
                else all_some (map (zod_enum developerAccessRequestScopes) xs))
            | _ \<Rightarrow> None) (\<lambda>requestedScopes.
          Some \<lparr>qd_institutionId = i, qd_developerName = developerName, qd_developerEmail = developerEmail,
            qd_developerPhone = developerPhone, qd_reason = reason, qd_requestedScopes = requestedScopes\<rparr>))))))
      | _ \<Rightarrow> None)"

fun access_status_text :: "access_request_status \<Rightarrow> string" where
  "access_status_text Dev_PENDING = ''PENDING''"
| "access_status_text Dev_APPROVED = ''APPROVED''"
| "access_status_text Dev_REJECTED = ''REJECTED''"
| "access_status_text Dev_SUSPENDED = ''SUSPENDED''"

definition openRequest :: "string \<Rightarrow> developer_access_request \<Rightarrow> bool" where
  "openRequest institutionId r \<longleftrightarrow> dv_institutionId r = institutionId \<and> dv_status r \<in> {Dev_PENDING, Dev_APPROVED}"

definition createDeveloperAccessRequest ::
    "env \<Rightarrow> db \<Rightarrow> auth_token \<Rightarrow> jval \<Rightarrow> (developer_access_request \<times> db) res" where
  "createDeveloperAccessRequest e d auth input =
     bindE (require (createDeveloperAccessRequestSchema e input) (BadRequest ''validation'')) (\<lambda>parsed.
     bindE (require (find_by in_uuid (qd_institutionId parsed) (institutions d)) (BadRequest ''Institution not found.''))
       (\<lambda>institution.
     bindE (failIf (in_status institution \<noteq> Inst_ACTIVE)
       (BadRequest ''Only active institutions can request developer access.'')) (\<lambda>_.
     bindE (case List.find (openRequest (in_uuid institution)) (developerAccessRequests d) of
         None \<Rightarrow> Inr ()
       | Some r \<Rightarrow> Inl (BadRequest (''Institution already has a '' @ toLowerCase (access_status_text (dv_status r)) @
           '' developer access request.''))) (\<lambda>_.
     let request = \<lparr>dv_uuid = fresh e d, dv_institutionId = in_uuid institution,
           dv_requestedById = (if au_kind auth = Some API_KEY then None else Some (au_sub auth)),
           dv_developerName = trim (qd_developerName parsed),
           dv_developerEmail = toLowerCase (trim (qd_developerEmail parsed)),
           dv_developerPhone = map_option trim (qd_developerPhone parsed), dv_reason = trim (qd_reason parsed),
           dv_requestedScopes = qd_requestedScopes parsed, dv_status = Dev_PENDING, dv_reviewFeedback = None,
           dv_reviewedById = None, dv_reviewedAt = None, dv_approvedAt = None, dv_suspendedAt = None,
           dv_createdAt = now e\<rparr>;
         event = audit_event_of ''developer_access_request.create'' ''DeveloperAccessRequest'' (dv_uuid request)
           (Some (in_uuid institution))
           (JObj [(''institutionId'', JStr (in_institutionId institution)),
             (''requestedScopes'', JArr (map JStr (dv_requestedScopes request)))])
     in Inr (request,
          audit_write (event\<lparr>ai_actorId := dv_requestedById request, ai_actorRole := Some (role_text (au_role auth))\<rparr>)
            (drawn (d\<lparr>developerAccessRequests := developerAccessRequests d @ [request]\<rparr>)))))))"

definition reviewedRequest ::
    "int \<Rightarrow> auth_token \<Rightarrow> access_request_status \<Rightarrow> string option \<Rightarrow> developer_access_request \<Rightarrow> developer_access_request" where
  "reviewedRequest t auth status feedback r =
     r\<lparr>dv_status := status, dv_reviewedById := Some (au_sub auth), dv_reviewedAt := Some t,
       dv_reviewFeedback := trimmed feedback,
       dv_approvedAt := (if status = Dev_APPROVED then Some t else dv_approvedAt r),
       dv_suspendedAt := (if status = Dev_SUSPENDED then Some t else None)\<rparr>"

text \<open>The institution of a request is there: its key is a foreign key.\<close>

definition reviewDeveloperAccessRequest ::
    "env \<Rightarrow> db \<Rightarrow> auth_token \<Rightarrow> string \<Rightarrow> access_request_status \<Rightarrow> string option \<Rightarrow>
     (developer_access_request \<times> db) res" where
  "reviewDeveloperAccessRequest e d auth i status feedback =
     bindE (failIf (case feedback of None \<Rightarrow> False | Some s \<Rightarrow> 1000 < length s) (BadRequest ''validation'')) (\<lambda>_.
     bindE (require (find_by dv_uuid i (developerAccessRequests d)) (BadRequest ''Developer access request not found.''))
       (\<lambda>existing.
     bindE (failIf ((status = Dev_APPROVED \<or> status = Dev_REJECTED) \<and> dv_status existing \<noteq> Dev_PENDING)
       (BadRequest ''Only pending developer access requests can be approved or rejected.'')) (\<lambda>_.
     bindE (failIf (status = Dev_SUSPENDED \<and> dv_status existing \<noteq> Dev_APPROVED)
       (BadRequest ''Only approved developer access requests can be suspended.'')) (\<lambda>_.
     bindE (update_by dv_uuid i (reviewedRequest (now e) auth status feedback) (developerAccessRequests d)) (\<lambda>rows.
     let event = audit_event_of (''developer_access_request.'' @ toLowerCase (access_status_text status))
           ''DeveloperAccessRequest'' i (Some (dv_institutionId existing))
           (JObj [(''institutionId'', jstr (map_option in_institutionId (find_by in_uuid (dv_institutionId existing) (institutions d)))),
             (''previousStatus'', JStr (access_status_text (dv_status existing))),
             (''nextStatus'', JStr (access_status_text status))])
     in Inr (reviewedRequest (now e) auth status feedback existing,
          audit_write ((humanActor auth event)\<lparr>ai_reason := feedback\<rparr>) (d\<lparr>developerAccessRequests := rows\<rparr>)))))))"

definition approveDeveloperAccessRequest where
  "approveDeveloperAccessRequest e d auth i feedback = reviewDeveloperAccessRequest e d auth i Dev_APPROVED feedback"

definition rejectDeveloperAccessRequest where
  "rejectDeveloperAccessRequest e d auth i feedback = reviewDeveloperAccessRequest e d auth i Dev_REJECTED feedback"

definition suspendDeveloperAccessRequest where
  "suspendDeveloperAccessRequest e d auth i feedback = reviewDeveloperAccessRequest e d auth i Dev_SUSPENDED feedback"

definition listDeveloperAccessRequests ::
    "db \<Rightarrow> access_request_status option \<Rightarrow> (developer_access_request \<times> institution option) list" where
  "listDeveloperAccessRequests d status =
     map (\<lambda>r. (r, find_by in_uuid (dv_institutionId r) (institutions d)))
       (take 200 (sort_key (\<lambda>r. - dv_createdAt r)
         (filter (\<lambda>r. status = None \<or> status = Some (dv_status r)) (developerAccessRequests d))))"

section \<open>Keys\<close>

definition allowedApiKeyScopes :: "string list" where
  "allowedApiKeyScopes = [''institution:apply'', ''ingest:write'', ''govern:write'', ''access:read'', ''verify:read'',
     ''identity:write'', ''webhook:manage'', ''*'']"

record key_body =
  qk_label :: string
  qk_scopes :: "string list"
  qk_environment :: api_key_environment
  qk_rateLimitPerMinute :: int
  qk_expiresAt :: "string option"

definition parseApiKeyInput :: "env \<Rightarrow> jval \<Rightarrow> key_body res" where
  "parseApiKeyInput e input =
     (let body = asRecord input;
          label = (case getProp body ''label'' of JStr s \<Rightarrow> trim s | _ \<Rightarrow> []);
          scopes = text_list (getProp body ''scopes'');
          rate = (case getProp body ''rateLimitPerMinute'' of
              JNum (Fin r) \<Rightarrow> (if of_int \<lfloor>r\<rfloor> = r then \<lfloor>r\<rfloor> else 100) | _ \<Rightarrow> 100);
          expiresAt = (case getProp body ''expiresAt'' of JStr s \<Rightarrow> (if s = [] then None else Some s) | _ \<Rightarrow> None)
      in
      bindE (failIf (length label < 2) (BadRequest ''API key label is required.'')) (\<lambda>_.
      bindE (failIf (scopes = [] \<or> \<not> set scopes \<subseteq> set allowedApiKeyScopes)
        (BadRequest ''API key scopes are invalid.'')) (\<lambda>_.
      bindE (failIf (rate < 1 \<or> 10000 < rate)
        (BadRequest ''API key rate limit must be between 1 and 10000 requests per minute.'')) (\<lambda>_.
      bindE (failIf (case expiresAt of None \<Rightarrow> False | Some s \<Rightarrow> Date_parse e s = None)
        (BadRequest ''API key expiry must be a valid date.'')) (\<lambda>_.
      Inr \<lparr>qk_label = label, qk_scopes = scopes,
        qk_environment = (if getProp body ''environment'' = JStr ''PRODUCTION'' then PRODUCTION else SANDBOX),
        qk_rateLimitPerMinute = rate, qk_expiresAt = expiresAt\<rparr>)))))"

definition parseProductApiKeyInput :: "env \<Rightarrow> jval \<Rightarrow> (key_body \<times> string \<times> string) res" where
  "parseProductApiKeyInput e input =
     bindE (parseApiKeyInput e input) (\<lambda>parsed.
     let body = asRecord input;
         productCode = (case getProp body ''productCode'' of JStr s \<Rightarrow> toUpperCase (trim s) | _ \<Rightarrow> []);
         productName = (case getProp body ''productName'' of JStr s \<Rightarrow> trim s | _ \<Rightarrow> [])
     in
     bindE (failIf (productCode \<notin> {''INSTITUTION_PORTAL'', ''STUDENT_APP'', ''EMPLOYER_VERIFICATION_PORTAL'', ''EXAM_BODY_API''})
       (BadRequest ''Product code must be one of INSTITUTION_PORTAL, STUDENT_APP, EMPLOYER_VERIFICATION_PORTAL, or EXAM_BODY_API.''))
       (\<lambda>_.
     bindE (failIf (length productName < 2) (BadRequest ''Product name is required.'')) (\<lambda>_.
     Inr (parsed, productCode, productName))))"

definition createClientId :: "api_key_environment \<Rightarrow> bytes \<Rightarrow> string" where
  "createClientId environment random =
     (if environment = PRODUCTION then ''ak_live'' else ''ak_sandbox'') @ ''_'' @ base64url_bytes random"

definition createClientSecret :: "api_key_environment \<Rightarrow> bytes \<Rightarrow> string" where
  "createClientSecret environment random =
     (if environment = PRODUCTION then ''sk_live'' else ''sk_sandbox'') @ ''_'' @ base64url_bytes random"

text \<open>The identifier, the secret, the digest of the secret, and the database after the three draws.\<close>

definition drawCredentials :: "secrets \<Rightarrow> db \<Rightarrow> api_key_environment \<Rightarrow> string \<times> string \<times> string \<times> db" where
  "drawCredentials sx d environment =
     (let clientId = createClientId environment (randomBytes sx d 18);
          clientSecret = createClientSecret environment (randomBytes sx (drawn d) 32);
          digest = hashPassword sx (randomBytes sx (drawn (drawn d)) 16) clientSecret
      in (clientId, clientSecret, digest, drawn (drawn (drawn d))))"

definition newKey ::
    "env \<Rightarrow> auth_token \<Rightarrow> string \<Rightarrow> api_key_owner \<Rightarrow> string option \<Rightarrow> (string \<times> string) option \<Rightarrow> string \<Rightarrow> string \<Rightarrow> key_body \<Rightarrow> api_key_row" where
  "newKey e auth i ownerType institutionId product clientId digest parsed =
     \<lparr>ak_uuid = i, ak_ownerType = ownerType, ak_institutionId = institutionId, ak_productCode = map_option fst product,
      ak_productName = map_option snd product, ak_clientId = clientId, ak_clientSecretHash = digest,
      ak_label = qk_label parsed, ak_scopes = qk_scopes parsed, ak_environment = qk_environment parsed,
      ak_status = Key_ACTIVE, ak_rateLimitPerMinute = qk_rateLimitPerMinute parsed,
      ak_expiresAt = bindO (qk_expiresAt parsed) (Date_parse e), ak_lastUsedAt = None, ak_revokedAt = None,
      ak_revokedReason = None, ak_createdById = Some (au_sub auth)\<rparr>"

text \<open>\<open>safeApiKeySelect\<close>: the columns that leave the service; the digest of the secret does not.\<close>

record safe_key =
  ky_uuid :: string
  ky_ownerType :: api_key_owner
  ky_institutionId :: "string option"
  ky_productCode :: "string option"
  ky_productName :: "string option"
  ky_clientId :: string
  ky_label :: string
  ky_scopes :: "string list"
  ky_environment :: api_key_environment
  ky_status :: api_key_status
  ky_rateLimitPerMinute :: int
  ky_expiresAt :: "int option"
  ky_lastUsedAt :: "int option"
  ky_revokedAt :: "int option"
  ky_revokedReason :: "string option"

definition safeApiKey :: "api_key_row \<Rightarrow> safe_key" where
  "safeApiKey k =
     \<lparr>ky_uuid = ak_uuid k, ky_ownerType = ak_ownerType k, ky_institutionId = ak_institutionId k,
      ky_productCode = ak_productCode k, ky_productName = ak_productName k, ky_clientId = ak_clientId k,
      ky_label = ak_label k, ky_scopes = ak_scopes k, ky_environment = ak_environment k, ky_status = ak_status k,
      ky_rateLimitPerMinute = ak_rateLimitPerMinute k, ky_expiresAt = ak_expiresAt k, ky_lastUsedAt = ak_lastUsedAt k,
      ky_revokedAt = ak_revokedAt k, ky_revokedReason = ak_revokedReason k\<rparr>"

definition keyMetadata :: "string \<Rightarrow> (string \<times> jval) list \<Rightarrow> key_body \<Rightarrow> jval" where
  "keyMetadata clientId product parsed =
     JObj ([(''clientId'', JStr clientId)] @ product @
       [(''label'', JStr (qk_label parsed)), (''scopes'', JArr (map JStr (qk_scopes parsed))),
        (''environment'', JStr (environment_text (qk_environment parsed))),
        (''rateLimitPerMinute'', jint (qk_rateLimitPerMinute parsed))])"

definition createApiKey ::
    "secrets \<Rightarrow> env \<Rightarrow> db \<Rightarrow> auth_token \<Rightarrow> string \<Rightarrow> jval \<Rightarrow> (safe_key \<times> string \<times> db) res" where
  "createApiKey sx e d auth institutionId input =
     bindE (parseApiKeyInput e input) (\<lambda>parsed.
     bindE (require (find_by in_uuid institutionId (institutions d)) (BadRequest ''Institution not found.'')) (\<lambda>institution.
     bindE (failIf (\<not> (\<exists>r \<in> set (developerAccessRequests d). dv_institutionId r = in_uuid institution \<and> dv_status r = Dev_APPROVED))
       (BadRequest ''Institution needs approved developer access before Live Results API keys can be created.'')) (\<lambda>_.
     let (clientId, clientSecret, digest, d1) = drawCredentials sx d (qk_environment parsed);
         key = newKey e auth (fresh e d1) Owner_INSTITUTION (Some (in_uuid institution)) None clientId digest parsed in
     bindE (check_unique ''ApiKey_clientId_key'' (\<lambda>k. Some (ak_clientId k)) (apiKeys d1 @ [key])) (\<lambda>keys.
     Inr (safeApiKey key, clientSecret,
       audit_write (humanActor auth (audit_event_of ''api_key.create'' ''ApiKey'' (ak_uuid key) (Some (in_uuid institution))
         (keyMetadata clientId [] parsed))) (drawn (d1\<lparr>apiKeys := keys\<rparr>)))))))"

definition createProductApiKey ::
    "secrets \<Rightarrow> env \<Rightarrow> db \<Rightarrow> auth_token \<Rightarrow> jval \<Rightarrow> (safe_key \<times> string \<times> db) res" where
  "createProductApiKey sx e d auth input =
     bindE (parseProductApiKeyInput e input) (\<lambda>(parsed, productCode, productName).
     let (clientId, clientSecret, digest, d1) = drawCredentials sx d (qk_environment parsed);
         key = newKey e auth (fresh e d1) Owner_PRODUCT None (Some (productCode, productName)) clientId digest parsed in
     bindE (check_unique ''ApiKey_clientId_key'' (\<lambda>k. Some (ak_clientId k)) (apiKeys d1 @ [key])) (\<lambda>keys.
     Inr (safeApiKey key, clientSecret,
       audit_write (humanActor auth (audit_event_of ''api_key.product.create'' ''ApiKey'' (ak_uuid key) None
         (keyMetadata clientId [(''productCode'', JStr productCode), (''productName'', JStr productName)] parsed)))
         (drawn (d1\<lparr>apiKeys := keys\<rparr>)))))"

text \<open>The newest row first; the founder's list shows every key with its owner.\<close>

definition listApiKeys :: "db \<Rightarrow> string \<Rightarrow> safe_key list" where
  "listApiKeys d institutionId = map safeApiKey (rev (filter (\<lambda>k. ak_institutionId k = Some institutionId) (apiKeys d)))"

definition listGlobalApiKeys :: "db \<Rightarrow> (safe_key \<times> institution option \<times> string option \<times> string option) list" where
  "listGlobalApiKeys d =
     map (\<lambda>k. let institution = apiKeyInstitution d k in
         (safeApiKey k, institution,
          if ak_ownerType k = Owner_PRODUCT then ak_productName k else map_option in_officialName institution,
          if ak_ownerType k = Owner_PRODUCT then ak_productCode k else map_option in_institutionId institution))
       (rev (apiKeys d))"

definition revokedKey :: "int \<Rightarrow> string \<Rightarrow> api_key_row \<Rightarrow> api_key_row" where
  "revokedKey t reason k = k\<lparr>ak_status := Key_REVOKED, ak_revokedAt := Some t, ak_revokedReason := Some reason\<rparr>"

definition revokeApiKey :: "env \<Rightarrow> db \<Rightarrow> auth_token \<Rightarrow> string \<Rightarrow> string option \<Rightarrow> (safe_key option \<times> db) res" where
  "revokeApiKey e d auth i reason =
     bindE (update_by ak_uuid i (revokedKey (now e) (getOr reason ''Revoked by founder.'')) (apiKeys d)) (\<lambda>keys.
     let institutionId = bindO (find_by ak_uuid i (apiKeys d)) ak_institutionId in
     Inr (map_option safeApiKey (find_by ak_uuid i keys), audit_write ((humanActor auth (audit_event_of ''api_key.revoke'' ''ApiKey'' i institutionId JUndef))
       \<lparr>ai_reason := reason\<rparr>) (d\<lparr>apiKeys := keys\<rparr>)))"

definition regeneratedKey :: "string \<Rightarrow> string \<Rightarrow> api_key_row \<Rightarrow> api_key_row" where
  "regeneratedKey clientId digest k =
     k\<lparr>ak_clientId := clientId, ak_clientSecretHash := digest, ak_status := Key_ACTIVE, ak_revokedAt := None,
       ak_revokedReason := None\<rparr>"

definition regenerateApiKey :: "secrets \<Rightarrow> env \<Rightarrow> db \<Rightarrow> auth_token \<Rightarrow> string \<Rightarrow> (safe_key \<times> string \<times> db) res" where
  "regenerateApiKey sx e d auth i =
     bindE (require (find_by ak_uuid i (apiKeys d)) (BadRequest ''API key not found.'')) (\<lambda>existing.
     let (clientId, clientSecret, digest, d1) = drawCredentials sx d (ak_environment existing) in
     bindE (update_by ak_uuid i (regeneratedKey clientId digest) (apiKeys d1)) (\<lambda>keys.
     bindE (check_unique ''ApiKey_clientId_key'' (\<lambda>k. Some (ak_clientId k)) keys) (\<lambda>keys.
     Inr (safeApiKey (regeneratedKey clientId digest existing), clientSecret,
       audit_write (humanActor auth (audit_event_of
           (if ak_ownerType existing = Owner_PRODUCT then ''api_key.product.regenerate'' else ''api_key.regenerate'')
           ''ApiKey'' i (ak_institutionId existing)
           (JObj [(''clientId'', JStr clientId), (''ownerType'', JStr (owner_text (ak_ownerType existing))),
             (''productCode'', or_null (ak_productCode existing)), (''productName'', or_null (ak_productName existing)),
             (''label'', JStr (ak_label existing)), (''environment'', JStr (environment_text (ak_environment existing)))])))
         (d1\<lparr>apiKeys := keys\<rparr>)))))"

text \<open>The number of revoked keys, and the reason that is kept.\<close>

definition emergencyLockdown :: "env \<Rightarrow> db \<Rightarrow> auth_token \<Rightarrow> string option \<Rightarrow> nat \<times> string \<times> db" where
  "emergencyLockdown e d auth reason =
     (let finalReason = getOr (trimmed reason) ''Emergency lockdown triggered from Founder Console.'';
          revoked = length (filter (\<lambda>k. ak_status k = Key_ACTIVE) (apiKeys d))
      in (revoked, finalReason,
          audit_write ((humanActor auth (audit_event_of ''founder.emergency_lockdown'' ''Platform'' ''api-gateway'' None
              (JObj [(''revokedApiKeys'', jint (int revoked))])))\<lparr>ai_reason := Some finalReason\<rparr>)
            (d\<lparr>apiKeys := update_rows (\<lambda>k. ak_status k = Key_ACTIVE) (revokedKey (now e) finalReason) (apiKeys d)\<rparr>)))"

end
