(* ===== verification/ApiKeyRules.thy ===== *)
theory ApiKeyRules
  imports ApiKeys
begin

text \<open>
  What keeps the keys of \<open>ApiKeys\<close> in order: whose keys they are and what they may ask for; that a new key works
  with the secret that was shown once; and what revoking reaches. The tokens that a key has already been given are
  signed and not looked up, so neither a lockdown nor the suspension of developer access reaches them.
\<close>

section \<open>The operations\<close>

lemma parseApiKeyInput_Inr:
  assumes "parseApiKeyInput e input = Inr b"
  shows "qk_scopes b \<noteq> []" and "set (qk_scopes b) \<subseteq> set allowedApiKeyScopes" and "1 \<le> qk_rateLimitPerMinute b"
    and "qk_rateLimitPerMinute b \<le> 10000"
  using assms by (auto simp: parseApiKeyInput_def Let_def err_simps)

lemma drawCredentials_frame:
  assumes "drawCredentials sx d environment = (clientId, clientSecret, digest, d1)"
  shows "apiKeys d1 = apiKeys d" and "institutions d1 = institutions d" and "developerAccessRequests d1 = developerAccessRequests d"
    and "clientId \<noteq> []" and "clientSecret \<noteq> []"
    and "digest = hashPassword sx (sx_random sx (Suc (Suc (draws d))) 16) clientSecret" and "draws d1 = Suc (Suc (Suc (draws d)))"
  using assms by (auto simp: drawCredentials_def Let_def drawn_def createClientId_def createClientSecret_def randomBytes_def)

lemma createApiKey_Inr:
  assumes "createApiKey sx e d auth i input = Inr (k, secret, d')"
  obtains b clientId digest d1 j where "parseApiKeyInput e input = Inr b"
    "drawCredentials sx d (qk_environment b) = (clientId, secret, digest, d1)"
    "k = safeApiKey (newKey e auth j Owner_INSTITUTION (Some i) None clientId digest b)"
    "apiKeys d' = apiKeys d @ [newKey e auth j Owner_INSTITUTION (Some i) None clientId digest b]"
    "distinct (map ak_clientId (apiKeys d'))" "institutions d' = institutions d"
    "developerAccessRequests d' = developerAccessRequests d"
    "\<exists>r \<in> set (developerAccessRequests d). dv_institutionId r = i \<and> dv_status r = Dev_APPROVED"
    "find_by in_uuid i (institutions d) \<noteq> None" "j = gen e (Suc (Suc (Suc (draws d))))"
proof -
  obtain b inst where b: "parseApiKeyInput e input = Inr b" and inst: "find_by in_uuid i (institutions d) = Some inst"
      and access: "\<exists>r \<in> set (developerAccessRequests d). dv_institutionId r = in_uuid inst \<and> dv_status r = Dev_APPROVED"
    using assms by (auto simp: createApiKey_def err_simps)
  obtain clientId s digest d1 where draw: "drawCredentials sx d (qk_environment b) = (clientId, s, digest, d1)"
    by (rule prod_cases4)
  note frame = drawCredentials_frame [OF draw]
  have i: "in_uuid inst = i" by (rule find_by_key [OF inst])
  have "s = secret" "k = safeApiKey (newKey e auth (fresh e d1) Owner_INSTITUTION (Some i) None clientId digest b)"
    "apiKeys d' = apiKeys d @ [newKey e auth (fresh e d1) Owner_INSTITUTION (Some i) None clientId digest b]"
    "distinct (map ak_clientId (apiKeys d'))" "institutions d' = institutions d"
    "developerAccessRequests d' = developerAccessRequests d"
    using assms b inst access draw frame i
    by (auto simp: createApiKey_def err_simps Let_def drawn_def List.map_filter_def comp_def)
  moreover have "fresh e d1 = gen e (Suc (Suc (Suc (draws d))))" using frame(7) by (simp add: fresh_def)
  ultimately show thesis using that b draw access inst i by auto
qed

lemma createProductApiKey_Inr:
  assumes "createProductApiKey sx e d auth input = Inr (k, secret, d')"
  obtains b key where "parseApiKeyInput e input = Inr b" "ak_ownerType key = Owner_PRODUCT" "ak_scopes key = qk_scopes b"
    "ak_rateLimitPerMinute key = qk_rateLimitPerMinute b" "apiKeys d' = apiKeys d @ [key]"
    "distinct (map ak_clientId (apiKeys d'))" "developerAccessRequests d' = developerAccessRequests d"
proof -
  obtain b code name where b: "parseProductApiKeyInput e input = Inr (b, code, name)"
    using assms by (auto simp: createProductApiKey_def err_simps)
  then have b': "parseApiKeyInput e input = Inr b" by (auto simp: parseProductApiKeyInput_def err_simps Let_def)
  obtain clientId s digest d1 where draw: "drawCredentials sx d (qk_environment b) = (clientId, s, digest, d1)"
    by (rule prod_cases4)
  note frame = drawCredentials_frame [OF draw]
  show thesis
    by (rule that [of b "newKey e auth (fresh e d1) Owner_PRODUCT None (Some (code, name)) clientId digest b"])
      (use assms b b' draw frame in \<open>auto simp: createProductApiKey_def err_simps Let_def drawn_def newKey_def
         List.map_filter_def comp_def\<close>)
qed

lemma review_Inr:
  assumes "reviewDeveloperAccessRequest e d auth i status feedback = Inr (r, d')"
  obtains old where "find_by dv_uuid i (developerAccessRequests d) = Some old"
    "r = reviewedRequest (now e) auth status feedback old"
    "developerAccessRequests d' = set_by dv_uuid i (reviewedRequest (now e) auth status feedback) (developerAccessRequests d)"
    "apiKeys d' = apiKeys d" "institutions d' = institutions d"
    "status = Dev_APPROVED \<or> status = Dev_REJECTED \<Longrightarrow> dv_status old = Dev_PENDING"
    "status = Dev_SUSPENDED \<Longrightarrow> dv_status old = Dev_APPROVED"
  using assms by (auto simp: reviewDeveloperAccessRequest_def err_simps Let_def)

lemma regenerate_Inr:
  assumes "regenerateApiKey sx e d auth i = Inr (k, secret, d')"
  obtains clientId digest where "apiKeys d' = set_by ak_uuid i (regeneratedKey clientId digest) (apiKeys d)"
    "distinct (map ak_clientId (apiKeys d'))" "developerAccessRequests d' = developerAccessRequests d"
proof -
  obtain old where old: "find_by ak_uuid i (apiKeys d) = Some old" using assms by (auto simp: regenerateApiKey_def err_simps)
  obtain clientId s digest d1 where draw: "drawCredentials sx d (ak_environment old) = (clientId, s, digest, d1)"
    by (rule prod_cases4)
  show thesis
    by (rule that [of clientId digest])
      (use assms old draw drawCredentials_frame [OF draw] in \<open>auto simp: regenerateApiKey_def err_simps Let_def
         List.map_filter_def comp_def\<close>)
qed

section \<open>Keys and the access behind them\<close>

text \<open>Everything that touches developer access and keys, by callers of any kind.\<close>

inductive key_step :: "db \<Rightarrow> db \<Rightarrow> bool" where
  ask: "createDeveloperAccessRequest e d auth input = Inr (r, d') \<Longrightarrow>
    distinct (map dv_uuid (developerAccessRequests d')) \<Longrightarrow> key_step d d'"
| review: "reviewDeveloperAccessRequest e d auth i status feedback = Inr (r, d') \<Longrightarrow>
    status \<in> {Dev_APPROVED, Dev_REJECTED, Dev_SUSPENDED} \<Longrightarrow> key_step d d'"
| create: "createApiKey sx e d auth i input = Inr (k, secret, d') \<Longrightarrow> key_step d d'"
| product: "createProductApiKey sx e d auth input = Inr (k, secret, d') \<Longrightarrow> key_step d d'"
| revoke: "revokeApiKey e d auth i reason = Inr (v, d') \<Longrightarrow> key_step d d'"
| regenerate: "regenerateApiKey sx e d auth i = Inr (k, secret, d') \<Longrightarrow> key_step d d'"
| lockdown: "emergencyLockdown e d auth reason = (n, why, d') \<Longrightarrow> key_step d d'"
| token: "issueApiToken sx e d clientId clientSecret = Inr (t, d') \<Longrightarrow> key_step d d'"

definition key_ok :: "db \<Rightarrow> api_key_row \<Rightarrow> bool" where
  "key_ok d k \<longleftrightarrow> ak_scopes k \<noteq> [] \<and> set (ak_scopes k) \<subseteq> set allowedApiKeyScopes \<and>
     1 \<le> ak_rateLimitPerMinute k \<and> ak_rateLimitPerMinute k \<le> 10000 \<and>
     (ak_ownerType k = Owner_INSTITUTION \<longrightarrow>
       (\<exists>r \<in> set (developerAccessRequests d). ak_institutionId k = Some (dv_institutionId r) \<and> dv_approvedAt r \<noteq> None))"

definition is_open :: "developer_access_request \<Rightarrow> bool" where
  "is_open r \<longleftrightarrow> dv_status r \<in> {Dev_PENDING, Dev_APPROVED}"

definition keys_ok :: "db \<Rightarrow> bool" where
  "keys_ok d \<longleftrightarrow> list_all (key_ok d) (apiKeys d) \<and> distinct (map ak_clientId (apiKeys d)) \<and>
     distinct (map dv_uuid (developerAccessRequests d)) \<and>
     tells_apart is_open dv_institutionId (developerAccessRequests d) \<and>
     (\<forall>r \<in> set (developerAccessRequests d). dv_status r = Dev_APPROVED \<longrightarrow> dv_approvedAt r \<noteq> None)"

text \<open>The columns of a key that the invariant reads.\<close>

definition key_cols :: "api_key_row \<Rightarrow> string list \<times> int \<times> api_key_owner \<times> string option" where
  "key_cols k = (ak_scopes k, ak_rateLimitPerMinute k, ak_ownerType k, ak_institutionId k)"

lemma key_ok_cols: "key_cols k' = key_cols k \<Longrightarrow> key_ok d k \<Longrightarrow> key_ok d k'"
  by (simp add: key_cols_def key_ok_def)

lemma key_ok_update_rows:
  assumes "list_all (key_ok d) ks" and "\<And>k. key_cols (f k) = key_cols k"
  shows "list_all (key_ok d) (update_rows p f ks)"
  using assms by (induction ks) (auto intro: key_ok_cols)

lemma clientIds_update_rows:
  "(\<And>k. ak_clientId (f k) = ak_clientId k) \<Longrightarrow> map ak_clientId (update_rows p f ks) = map ak_clientId ks"
  by (induction ks) simp_all

lemma keys_ok_rows:
  assumes "keys_ok d" and "developerAccessRequests d' = developerAccessRequests d"
    and "list_all (key_ok d) (apiKeys d')" and "distinct (map ak_clientId (apiKeys d'))"
  shows "keys_ok d'"
proof -
  have "key_ok d' = key_ok d" using assms(2) by (simp add: key_ok_def fun_eq_iff)
  with assms show ?thesis by (simp add: keys_ok_def)
qed

text \<open>A step that leaves the requests and adds or rewrites keys that are in order.\<close>

lemma keys_ok_add:
  assumes "keys_ok d" and "developerAccessRequests d' = developerAccessRequests d" and "apiKeys d' = apiKeys d @ [k]"
    and "key_ok d k" and "distinct (map ak_clientId (apiKeys d'))"
  shows "keys_ok d'"
  using assms(1,3,4) by (intro keys_ok_rows [OF assms(1,2) _ assms(5)]) (simp add: keys_ok_def)

lemma keys_ok_rewrite:
  assumes "keys_ok d" and "developerAccessRequests d' = developerAccessRequests d" and "apiKeys d' = update_rows p f (apiKeys d)"
    and "\<And>k. key_cols (f k) = key_cols k" and "distinct (map ak_clientId (apiKeys d'))"
  shows "keys_ok d'"
proof (rule keys_ok_rows [OF assms(1,2) _ assms(5)])
  have "list_all (key_ok d) (apiKeys d)" using assms(1) by (simp add: keys_ok_def)
  then show "list_all (key_ok d) (apiKeys d')" unfolding assms(3) by (rule key_ok_update_rows) (rule assms(4))
qed

lemma keys_ok_same_ids:
  assumes "keys_ok d" and "developerAccessRequests d' = developerAccessRequests d" and "apiKeys d' = update_rows p f (apiKeys d)"
    and "\<And>k. key_cols (f k) = key_cols k" and "\<And>k. ak_clientId (f k) = ak_clientId k"
  shows "keys_ok d'"
proof (rule keys_ok_rewrite [OF assms(1-4)])
  show "distinct (map ak_clientId (apiKeys d'))"
    using assms(1) unfolding assms(3) clientIds_update_rows [OF assms(5)] by (simp add: keys_ok_def)
qed

lemma keys_ok_step: "key_step d d' \<Longrightarrow> keys_ok d \<Longrightarrow> keys_ok d'"
proof (induction rule: key_step.induct)
  case (ask e d auth input r d')
  then have rows: "developerAccessRequests d' = developerAccessRequests d @ [r]" "apiKeys d' = apiKeys d"
      and new: "dv_status r = Dev_PENDING" "List.find (openRequest (dv_institutionId r)) (developerAccessRequests d) = None"
    by (auto simp: createDeveloperAccessRequest_def err_simps Let_def drawn_def split: option.splits)
  from new(2) have "\<forall>x \<in> set (developerAccessRequests d). is_open x \<longrightarrow> dv_institutionId x \<noteq> dv_institutionId r"
    by (auto simp: find_None_iff' openRequest_def is_open_def)
  then show ?case
    using ask(2,3) rows new(1) by (auto simp: keys_ok_def tells_apart_def key_ok_def list_all_iff)
next
  case (review e d auth i status feedback r d')
  let ?f = "reviewedRequest (now e) auth status feedback"
  from review(1) obtain old where old: "find_by dv_uuid i (developerAccessRequests d) = Some old"
      and rows: "developerAccessRequests d' = set_by dv_uuid i ?f (developerAccessRequests d)" "apiKeys d' = apiKeys d"
      and was: "status = Dev_APPROVED \<or> status = Dev_REJECTED \<Longrightarrow> dv_status old = Dev_PENDING"
    by (rule review_Inr) blast
  have keep: "dv_institutionId (?f x) = dv_institutionId x" "dv_approvedAt x \<noteq> None \<Longrightarrow> dv_approvedAt (?f x) \<noteq> None"
      "dv_status (?f x) = status" for x by (simp_all add: reviewedRequest_def)
  have later: "\<exists>s \<in> set (developerAccessRequests d'). dv_institutionId s = dv_institutionId x \<and> dv_approvedAt s \<noteq> None"
    if "x \<in> set (developerAccessRequests d)" "dv_approvedAt x \<noteq> None" for x
  proof (cases "dv_uuid x = i")
    case True
    then have "?f x \<in> set (developerAccessRequests d')" unfolding rows(1) in_set_by using that(1) by blast
    then show ?thesis using keep that(2) by blast
  next
    case False
    then have "x \<in> set (developerAccessRequests d')" unfolding rows(1) in_set_by using that(1) by blast
    then show ?thesis using that(2) by blast
  qed
  have "key_ok d' k" if "key_ok d k" for k
    using that later unfolding key_ok_def by metis
  then have "list_all (key_ok d') (apiKeys d')"
    using review(3) unfolding keys_ok_def rows(2) list_all_iff by blast
  moreover have "tells_apart is_open dv_institutionId (developerAccessRequests d')"
    unfolding rows(1)
  proof (rule tells_apart_set_by)
    show "tells_apart is_open dv_institutionId (developerAccessRequests d)" using review(3) by (simp add: keys_ok_def)
    fix x
    assume x: "x \<in> set (developerAccessRequests d)" "dv_uuid x = i" "is_open (?f x)"
    then have "x = old" using review(3) old find_by_distinct [of dv_uuid "developerAccessRequests d" x] by (simp add: keys_ok_def)
    then show "is_open x \<and> dv_institutionId (?f x) = dv_institutionId x" using x(3) was keep review(2) by (auto simp: is_open_def)
  qed
  moreover have "distinct (map dv_uuid (developerAccessRequests d'))"
    using review(3) unfolding rows(1) by (simp add: keys_ok_def keys_set_by reviewedRequest_def)
  moreover have "dv_approvedAt s \<noteq> None" if "s \<in> set (developerAccessRequests d')" "dv_status s = Dev_APPROVED" for s
    using that review(3) unfolding rows in_set_by by (auto simp: keys_ok_def reviewedRequest_def)
  ultimately show ?case using review(3) rows(2) by (simp add: keys_ok_def)
next
  case (create sx e d auth i input k secret d')
  from create(1) obtain b clientId digest d1 j where b: "parseApiKeyInput e input = Inr b"
      and rows: "apiKeys d' = apiKeys d @ [newKey e auth j Owner_INSTITUTION (Some i) None clientId digest b]"
        "distinct (map ak_clientId (apiKeys d'))" "developerAccessRequests d' = developerAccessRequests d"
      and access: "\<exists>r \<in> set (developerAccessRequests d). dv_institutionId r = i \<and> dv_status r = Dev_APPROVED"
    by (rule createApiKey_Inr)
  from access create(2) obtain r where "r \<in> set (developerAccessRequests d)" "dv_institutionId r = i" "dv_approvedAt r \<noteq> None"
    unfolding keys_ok_def by blast
  then have "key_ok d (newKey e auth j Owner_INSTITUTION (Some i) None clientId digest b)"
    using parseApiKeyInput_Inr [OF b] by (auto simp: key_ok_def newKey_def)
  with keys_ok_add [OF create(2) rows(3,1) _ rows(2)] show ?case .
next
  case (product sx e d auth input k secret d')
  from product(1) obtain b key where b: "parseApiKeyInput e input = Inr b"
      and key: "ak_ownerType key = Owner_PRODUCT" "ak_scopes key = qk_scopes b" "ak_rateLimitPerMinute key = qk_rateLimitPerMinute b"
      and rows: "apiKeys d' = apiKeys d @ [key]" "distinct (map ak_clientId (apiKeys d'))"
        "developerAccessRequests d' = developerAccessRequests d"
    by (rule createProductApiKey_Inr)
  have "key_ok d key" using parseApiKeyInput_Inr [OF b] key by (simp add: key_ok_def)
  with keys_ok_add [OF product(2) rows(3,1) _ rows(2)] show ?case .
next
  case (revoke e d auth i reason v d')
  then have "developerAccessRequests d' = developerAccessRequests d"
      "apiKeys d' = update_rows (\<lambda>k. ak_uuid k = i) (revokedKey (now e) (getOr reason ''Revoked by founder.'')) (apiKeys d)"
    by (auto simp: revokeApiKey_def err_simps Let_def set_by_def)
  from keys_ok_same_ids [OF revoke(2) this] show ?case by (simp add: key_cols_def revokedKey_def)
next
  case (regenerate sx e d auth i k secret d')
  from regenerate(1) obtain clientId digest where "apiKeys d' = set_by ak_uuid i (regeneratedKey clientId digest) (apiKeys d)"
      and rest: "distinct (map ak_clientId (apiKeys d'))" "developerAccessRequests d' = developerAccessRequests d"
    by (rule regenerate_Inr)
  then have "apiKeys d' = update_rows (\<lambda>k. ak_uuid k = i) (regeneratedKey clientId digest) (apiKeys d)" by (simp add: set_by_def)
  from keys_ok_rewrite [OF regenerate(2) rest(2) this _ rest(1)] show ?case by (simp add: key_cols_def regeneratedKey_def)
next
  case (lockdown e d auth reason n why d')
  then have "developerAccessRequests d' = developerAccessRequests d"
      "apiKeys d' = update_rows (\<lambda>k. ak_status k = Key_ACTIVE) (revokedKey (now e) why) (apiKeys d)"
    by (auto simp: emergencyLockdown_def Let_def)
  from keys_ok_same_ids [OF lockdown(2) this] show ?case by (simp add: key_cols_def revokedKey_def)
next
  case (token sx e d clientId clientSecret t d')
  then obtain i where "developerAccessRequests d' = developerAccessRequests d"
      "apiKeys d' = update_rows (\<lambda>k. ak_uuid k = i) (ak_lastUsedAt_update (\<lambda>_. Some (now e))) (apiKeys d)"
    by (auto simp: issueApiToken_def err_simps set_by_def)
  from keys_ok_same_ids [OF token(2) this] show ?case by (simp add: key_cols_def)
qed

text \<open>C20. Over any course of requests, reviews and keys: every key of an institution stands behind a request of that
  institution that the founder once approved; every key has scopes of the list only and a limit between 1 and
  10,000 calls a minute; client identifiers are unique; and an institution never has two open requests.\<close>

theorem keys_behind_access:
  assumes "key_step\<^sup>*\<^sup>* d d'" and "keys_ok d"
  shows "(\<forall>k \<in> set (apiKeys d'). set (ak_scopes k) \<subseteq> set allowedApiKeyScopes \<and>
      1 \<le> ak_rateLimitPerMinute k \<and> ak_rateLimitPerMinute k \<le> 10000 \<and>
      (ak_ownerType k = Owner_INSTITUTION \<longrightarrow> (\<exists>r \<in> set (developerAccessRequests d').
         ak_institutionId k = Some (dv_institutionId r) \<and> dv_approvedAt r \<noteq> None))) \<and>
    distinct (map ak_clientId (apiKeys d')) \<and>
    (\<forall>r \<in> set (developerAccessRequests d'). \<forall>s \<in> set (developerAccessRequests d').
       is_open r \<and> is_open s \<and> dv_institutionId r = dv_institutionId s \<longrightarrow> r = s)"
proof -
  have "keys_ok d'" using assms by (induction rule: rtranclp_induct) (auto intro: keys_ok_step)
  then show ?thesis unfolding keys_ok_def key_ok_def tells_apart_def list_all_iff by blast
qed

section \<open>The token of a key\<close>

text \<open>What a token of a key gives to the guards until it expires.\<close>

definition token_of_key :: "secrets \<Rightarrow> int \<Rightarrow> string \<Rightarrow> db \<Rightarrow> api_key_row \<Rightarrow> payload \<Rightarrow> bool" where
  "token_of_key sx t token d k payload \<longleftrightarrow>
     verifyToken (sx_hmac256 sx) (jwtSecret (sx_jwtSecret sx)) t token = Inr payload \<and>
     getProp payload ''sub'' = JStr (ak_uuid k) \<and> getProp payload ''kind'' = JStr ''API_KEY'' \<and>
     getProp payload ''role'' = JStr ''REGISTRAR'' \<and>
     getProp payload ''institutionUuid'' = toJson (jstr (map_option in_uuid (apiKeyInstitution d k))) \<and>
     text_list (getProp payload ''scopes'') = ak_scopes k"

lemma issued_token_verifies:
  assumes "issueApiToken sx e d clientId secret = Inr (t, d1)"
    and "\<And>k m. sx_hmac256 sx k m \<noteq> []" and "ak_uuid (at_apiClient t) \<noteq> []"
    and "0 \<le> ak_rateLimitPerMinute (at_apiClient t)" and "ak_rateLimitPerMinute (at_apiClient t) \<le> 10000"
    and "0 \<le> now e" and "now e < 10 ^ 20" and "t' div 1000 \<le> now e div 1000 + at_expiresIn t"
  shows "\<exists>payload. token_of_key sx t' (at_accessToken t) d (at_apiClient t) payload"
proof -
  let ?k = "at_apiClient t" and ?p = "apiClientPayload d (at_apiClient t)"
  let ?ttl = "if getProp ?p ''environment'' = JStr ''PRODUCTION'' then productionApiTokenTtlSeconds else sandboxApiTokenTtlSeconds"
  have t: "at_accessToken t = signToken (sx_hmac256 sx) (jwtSecret (sx_jwtSecret sx)) (now e) ?p ?ttl"
      "at_expiresIn t = (if ak_environment ?k = PRODUCTION then 3600 else 86400)"
    using assms(1) by (auto simp: issueApiToken_def err_simps signApiClient_def)
  have env: "getProp ?p ''environment'' = JStr (environment_text (ak_environment ?k))"
    by (simp add: apiClientPayload_def getProp_def)
  then have ttl: "?ttl = at_expiresIn t"
    unfolding t(2) by (cases "ak_environment ?k") (simp_all add: productionApiTokenTtlSeconds_def sandboxApiTokenTtlSeconds_def)
  have "\<bar>ak_rateLimitPerMinute ?k\<bar> < 10 ^ 21" using assms(4,5) by simp
  then have "wire (jint (ak_rateLimitPerMinute ?k))" by (rule whole_int)
  moreover have "wire (jstr x)" for x by (cases x) (simp_all add: jstr_def)
  ultimately have wire: "wire (JObj ?p)" by (simp add: apiClientPayload_def list_all_iff del: jint_def)
  have texts: "list_all (\<lambda>k. \<exists>s. getProp ?p k = JStr s \<and> s \<noteq> []) [''sub'', ''email'', ''role'']"
    using assms(3) by (simp add: apiClientPayload_def getProp_def)
  have range: "0 < ?ttl" "?ttl < 10 ^ 20" by (simp_all add: productionApiTokenTtlSeconds_def sandboxApiTokenTtlSeconds_def)
  obtain payload where payload: "verifyToken (sx_hmac256 sx) (jwtSecret (sx_jwtSecret sx)) t' (at_accessToken t) = Inr payload"
      and props: "\<And>k. getProp payload k = toJson (getProp (tokenPayload (now e) ?p ?ttl) k)"
    using signed_token_verifies [where hmac = "sx_hmac256 sx" and key = "jwtSecret (sx_jwtSecret sx)" and t' = t',
        OF wire assms(6,7) range texts assms(2)] assms(8)
    unfolding t(1) ttl by auto
  have "getProp payload ''role'' = JStr ''REGISTRAR''" "getProp payload ''kind'' = JStr ''API_KEY''"
      "getProp payload ''sub'' = JStr (ak_uuid ?k)"
      "getProp payload ''institutionUuid'' = toJson (jstr (map_option in_uuid (apiKeyInstitution d ?k)))"
      "getProp payload ''scopes'' = toJson (JArr (map JStr (ak_scopes ?k)))"
    unfolding props tokenPayload_props by (simp_all add: apiClientPayload_def getProp_def toJson.simps del: toJson.simps(2))
  moreover have "text_list (toJson (JArr (map JStr ss))) = ss" for ss
    by (induction ss) (simp_all add: text_list_def List.map_filter_def toJson.simps)
  ultimately show ?thesis using payload unfolding token_of_key_def by auto
qed

lemma token_of_key_scopes:
  assumes "token_of_key sx t token d k payload"
  shows "scopesGuard scopes payload =
    (if ''*'' \<in> set (ak_scopes k) \<or> set scopes \<subseteq> set (ak_scopes k) then Inr True
     else Inl (Forbidden ''Authenticated actor scope does not allow this operation.''))"
  using assms by (auto simp: token_of_key_def scopesGuard_def Let_def list_all_iff)

section \<open>A key and its secret\<close>

lemma created_key:
  assumes "secrets_ok sx" and "createApiKey sx e d auth i input = Inr (k, secret, d1)"
    and "active_institution d i" and "case ky_expiresAt k of None \<Rightarrow> True | Some t \<Rightarrow> now e' < t"
  shows "\<exists>t d2 salt. issueApiToken sx e' d1 (Some (ky_clientId k)) (Some secret) = Inr (t, d2) \<and>
    ak_uuid (at_apiClient t) = ky_uuid k \<and> ak_institutionId (at_apiClient t) = Some i \<and>
    map_option in_uuid (apiKeyInstitution d1 (at_apiClient t)) = Some i \<and> ak_scopes (at_apiClient t) = ky_scopes k \<and>
    1 \<le> ak_rateLimitPerMinute (at_apiClient t) \<and> ak_rateLimitPerMinute (at_apiClient t) \<le> 10000 \<and>
    set (ky_scopes k) \<subseteq> set allowedApiKeyScopes \<and>
    ak_clientSecretHash (at_apiClient t) = hashPassword sx salt secret \<and>
    (\<forall>other. other \<noteq> [] \<longrightarrow> ((\<exists>x. issueApiToken sx e' d1 (Some (ky_clientId k)) (Some other) = Inr x) \<longleftrightarrow>
       sx_scrypt sx other (hex salt) = sx_scrypt sx secret (hex salt)))"
proof -
  from assms(2) obtain b clientId digest d0 j where b: "parseApiKeyInput e input = Inr b"
      and draw: "drawCredentials sx d (qk_environment b) = (clientId, secret, digest, d0)"
      and k: "k = safeApiKey (newKey e auth j Owner_INSTITUTION (Some i) None clientId digest b)"
      and keys: "apiKeys d1 = apiKeys d @ [newKey e auth j Owner_INSTITUTION (Some i) None clientId digest b]"
      and ids: "distinct (map ak_clientId (apiKeys d1))" and inst: "institutions d1 = institutions d"
    by (rule createApiKey_Inr)
  let ?key = "newKey e auth j Owner_INSTITUTION (Some i) None clientId digest b"
  let ?salt = "sx_random sx (Suc (Suc (draws d))) 16"
  note frame = drawCredentials_frame [OF draw]
  have salt: "list_all (\<lambda>b. b < 256) ?salt" "?salt \<noteq> []"
  proof -
    have "length ?salt = 16" "list_all (\<lambda>b. b < 256) ?salt" using assms(1) by (simp_all add: secrets_ok_def)
    then show "list_all (\<lambda>b. b < 256) ?salt" "?salt \<noteq> []" by auto
  qed
  have view: "ky_clientId k = clientId" "ky_expiresAt k = ak_expiresAt ?key" "ky_scopes k = qk_scopes b" "ky_uuid k = ak_uuid ?key"
    by (simp_all add: k safeApiKey_def newKey_def)
  have row: "ak_clientId ?key = clientId" "ak_clientSecretHash ?key = hashPassword sx ?salt secret" "ak_status ?key = Key_ACTIVE"
      "ak_institutionId ?key = Some i" "ak_scopes ?key = qk_scopes b" by (simp_all add: newKey_def frame(6))
  have "?key \<in> set (apiKeys d1)" by (simp add: keys)
  then have found: "find_by ak_clientId clientId (apiKeys d1) = Some ?key" using find_by_distinct [OF ids] row(1) by metis
  have present: "find_by ak_uuid (ak_uuid ?key) (apiKeys d1) \<noteq> None"
    unfolding find_by_None keys by simp
  have active: "map_option in_status (apiKeyInstitution d1 ?key) = Some Inst_ACTIVE"
    using assms(3) inst row(4) by (auto simp: apiKeyInstitution_def active_institution_def split: option.splits)
  have fresh: "\<not> (case ak_expiresAt ?key of None \<Rightarrow> False | Some t \<Rightarrow> t \<le> now e')"
    using assms(4) view(2) by (auto split: option.splits)
  have usable: "apiKeyUsable sx e' d1 s ?key \<longleftrightarrow> sx_scrypt sx s (hex ?salt) = sx_scrypt sx secret (hex ?salt)" for s
    unfolding apiKeyUsable_def row(2) using verify_hashPassword [OF assms(1) salt] active fresh row(3) by auto
  have issue: "(\<exists>x. issueApiToken sx e' d1 (Some clientId) (Some s) = Inr x) \<longleftrightarrow> apiKeyUsable sx e' d1 s ?key" if "s \<noteq> []" for s
    using that found present frame(4) by (auto simp: issueApiToken_def truthy_text_def update_by_def)
  have "apiKeyUsable sx e' d1 secret ?key" by (simp add: usable)
  then obtain t d2 where t: "issueApiToken sx e' d1 (Some clientId) (Some secret) = Inr (t, d2)" "at_apiClient t = ?key"
    using found present frame(4,5) by (auto simp: issueApiToken_def truthy_text_def update_by_def)
  have owner: "map_option in_uuid (apiKeyInstitution d1 ?key) = Some i"
    using active row(4) find_by_key by (fastforce simp: apiKeyInstitution_def split: option.splits)
  have rate: "ak_rateLimitPerMinute ?key = qk_rateLimitPerMinute b" by (simp add: newKey_def)
  show ?thesis
    using t view row owner rate parseApiKeyInput_Inr [OF b] issue usable
    by (intro exI [of _ t] exI [of _ d2] exI [of _ ?salt]) auto
qed

text \<open>C21. A key that was created works: while its institution is active and it has not expired, the identifier and
  the secret that the founder is shown get a token; until that token expires it verifies, names the key and its
  institution, and passes the scope guard for exactly the scopes the key was created with (for all with \<open>*\<close>). The row keeps the secret
  only as a digest, so that another secret gets a token only if it has the same digest under the key's salt.\<close>

theorem created_key_works:
  assumes "secrets_ok sx" and "\<And>h m. sx_hmac256 sx h m \<noteq> []" and "createApiKey sx e d auth i input = Inr (k, secret, d1)"
    and "active_institution d i" and "case ky_expiresAt k of None \<Rightarrow> True | Some t \<Rightarrow> now e' < t"
    and "ky_uuid k \<noteq> []" and "0 \<le> now e'" and "now e' < 10 ^ 20"
  shows "\<exists>t d2 salt. issueApiToken sx e' d1 (Some (ky_clientId k)) (Some secret) = Inr (t, d2) \<and>
    (\<forall>t'. t' div 1000 \<le> now e' div 1000 + at_expiresIn t \<longrightarrow> (\<exists>payload.
       verifyToken (sx_hmac256 sx) (jwtSecret (sx_jwtSecret sx)) t' (at_accessToken t) = Inr payload \<and>
       getProp payload ''sub'' = JStr (ky_uuid k) \<and> getProp payload ''kind'' = JStr ''API_KEY'' \<and>
       getProp payload ''institutionUuid'' = JStr i \<and>
       (\<forall>scopes. scopesGuard scopes payload =
         (if ''*'' \<in> set (ky_scopes k) \<or> set scopes \<subseteq> set (ky_scopes k) then Inr True
          else Inl (Forbidden ''Authenticated actor scope does not allow this operation.''))))) \<and>
    at_expiresIn t \<in> {3600, 86400} \<and> set (ky_scopes k) \<subseteq> set allowedApiKeyScopes \<and>
    ak_clientSecretHash (at_apiClient t) = hashPassword sx salt secret \<and>
    (\<forall>other. other \<noteq> [] \<longrightarrow> ((\<exists>x. issueApiToken sx e' d1 (Some (ky_clientId k)) (Some other) = Inr x) \<longleftrightarrow>
       sx_scrypt sx other (hex salt) = sx_scrypt sx secret (hex salt)))"
proof -
  from created_key [OF assms(1,3,4,5)] obtain t d2 salt where
      t: "issueApiToken sx e' d1 (Some (ky_clientId k)) (Some secret) = Inr (t, d2)"
      and key: "ak_uuid (at_apiClient t) = ky_uuid k" "map_option in_uuid (apiKeyInstitution d1 (at_apiClient t)) = Some i"
        "ak_scopes (at_apiClient t) = ky_scopes k" "1 \<le> ak_rateLimitPerMinute (at_apiClient t)"
        "ak_rateLimitPerMinute (at_apiClient t) \<le> 10000"
      and rest: "set (ky_scopes k) \<subseteq> set allowedApiKeyScopes" "ak_clientSecretHash (at_apiClient t) = hashPassword sx salt secret"
        "\<forall>other. other \<noteq> [] \<longrightarrow> ((\<exists>x. issueApiToken sx e' d1 (Some (ky_clientId k)) (Some other) = Inr x) \<longleftrightarrow>
           sx_scrypt sx other (hex salt) = sx_scrypt sx secret (hex salt))" by blast
  have some: "\<exists>payload. token_of_key sx t' (at_accessToken t) d1 (at_apiClient t) payload"
    if "t' div 1000 \<le> now e' div 1000 + at_expiresIn t" for t'
    using key assms(6-8) that by (intro issued_token_verifies [OF t assms(2)]) simp_all
  have tokens: "\<exists>payload. verifyToken (sx_hmac256 sx) (jwtSecret (sx_jwtSecret sx)) t' (at_accessToken t) = Inr payload \<and>
       getProp payload ''sub'' = JStr (ky_uuid k) \<and> getProp payload ''kind'' = JStr ''API_KEY'' \<and>
       getProp payload ''institutionUuid'' = JStr i \<and>
       (\<forall>scopes. scopesGuard scopes payload =
         (if ''*'' \<in> set (ky_scopes k) \<or> set scopes \<subseteq> set (ky_scopes k) then Inr True
          else Inl (Forbidden ''Authenticated actor scope does not allow this operation.'')))"
    if t': "t' div 1000 \<le> now e' div 1000 + at_expiresIn t" for t'
  proof -
    obtain payload where payload: "token_of_key sx t' (at_accessToken t) d1 (at_apiClient t) payload"
      using some [OF t'] by blast
    show ?thesis
      using payload token_of_key_scopes [OF payload] key(1-3)
      by (intro exI [of _ payload]) (simp add: token_of_key_def jstr_def toJson.simps)
  qed
  have "at_expiresIn t \<in> {3600, 86400}" using t by (auto simp: issueApiToken_def err_simps split: if_splits)
  with t rest tokens show ?thesis by blast
qed

section \<open>What revoking reaches\<close>

lemma no_token:
  assumes "\<And>k. k \<in> set (apiKeys d) \<Longrightarrow> ak_status k \<noteq> Key_ACTIVE"
  shows "\<exists>m. issueApiToken sx e d clientId secret = Inl (Unauthorized m)"
proof -
  have none: "(case find_by ak_clientId (getOr clientId []) (apiKeys d) of None \<Rightarrow> None
      | Some k \<Rightarrow> if apiKeyUsable sx e d (getOr secret []) k then Some k else None) = None"
    using assms by (auto simp: apiKeyUsable_def dest: find_by_Some split: option.splits)
  show ?thesis
    by (cases "\<not> truthy_text clientId \<or> \<not> truthy_text secret") (simp_all add: issueApiToken_def none)
qed

text \<open>C23. After an emergency lockdown no key is active and none gets a token. But a token that a key was given before
  still verifies until it expires, and its payload passes the scope guard for every scope of the key: the guards
  look at the signature and at the clock, not at the key.\<close>

theorem lockdown_spares_issued_tokens:
  assumes "issueApiToken sx e d clientId secret = Inr (t, d1)" and "emergencyLockdown e' d1 auth reason = (n, why, d2)"
    and "\<And>k m. sx_hmac256 sx k m \<noteq> []" and "ak_uuid (at_apiClient t) \<noteq> []"
    and "0 \<le> ak_rateLimitPerMinute (at_apiClient t)" and "ak_rateLimitPerMinute (at_apiClient t) \<le> 10000"
    and "0 \<le> now e" and "now e < 10 ^ 20" and "now e' div 1000 \<le> now e div 1000 + at_expiresIn t"
  shows "n = length (filter (\<lambda>k. ak_status k = Key_ACTIVE) (apiKeys d1)) \<and>
    (\<forall>k \<in> set (apiKeys d2). ak_status k \<noteq> Key_ACTIVE) \<and>
    (\<forall>sx' e'' clientId' secret'. \<exists>m. issueApiToken sx' e'' d2 clientId' secret' = Inl (Unauthorized m)) \<and>
    (\<exists>payload. verifyToken (sx_hmac256 sx) (jwtSecret (sx_jwtSecret sx)) (now e') (at_accessToken t) = Inr payload \<and>
       (\<forall>scopes. set scopes \<subseteq> set (ak_scopes (at_apiClient t)) \<longrightarrow> scopesGuard scopes payload = Inr True))"
proof -
  have n: "n = length (filter (\<lambda>k. ak_status k = Key_ACTIVE) (apiKeys d1))"
      and keys: "apiKeys d2 = update_rows (\<lambda>k. ak_status k = Key_ACTIVE) (revokedKey (now e') why) (apiKeys d1)"
    using assms(2) by (auto simp: emergencyLockdown_def Let_def)
  have revoked: "ak_status k \<noteq> Key_ACTIVE" if "k \<in> set (apiKeys d2)" for k
    using that by (auto simp: keys set_update_rows revokedKey_def)
  obtain payload where payload: "token_of_key sx (now e') (at_accessToken t) d (at_apiClient t) payload"
    using issued_token_verifies [OF assms(1,3-9)] by blast
  have "scopesGuard scopes payload = Inr True" if "set scopes \<subseteq> set (ak_scopes (at_apiClient t))" for scopes
    using that token_of_key_scopes [OF payload] by simp
  with n revoked no_token [of d2] payload show ?thesis unfolding token_of_key_def by blast
qed

lemma map_bindE: "map_sum id g (bindE m f) = bindE m (\<lambda>x. map_sum id g (f x))"
  by (cases m) simp_all

text \<open>Suspending the developer access of an institution leaves its keys as they are: afterwards a key gets
  exactly the tokens that it got before.\<close>

theorem suspension_keeps_keys:
  assumes "suspendDeveloperAccessRequest e d auth i feedback = Inr (r, d')"
  shows "dv_status r = Dev_SUSPENDED \<and> apiKeys d' = apiKeys d \<and>
    (\<forall>sx e' clientId secret. map_sum id fst (issueApiToken sx e' d' clientId secret) =
       map_sum id fst (issueApiToken sx e' d clientId secret))"
proof -
  from assms obtain old where r: "r = reviewedRequest (now e) auth Dev_SUSPENDED feedback old"
      and same: "apiKeys d' = apiKeys d" "institutions d' = institutions d"
    unfolding suspendDeveloperAccessRequest_def by (rule review_Inr)
  have inst: "apiKeyInstitution d' = apiKeyInstitution d"
    using same(2) by (intro ext) (simp add: apiKeyInstitution_def split: option.splits)
  then have use: "apiKeyUsable sx e' d' = apiKeyUsable sx e' d" for sx e' by (simp add: apiKeyUsable_def fun_eq_iff)
  have pay: "apiClientPayload d' = apiClientPayload d" using inst by (simp add: apiClientPayload_def fun_eq_iff)
  have "map_sum id fst (issueApiToken sx e' d' clientId secret) = map_sum id fst (issueApiToken sx e' d clientId secret)"
    for sx e' clientId secret
    unfolding issueApiToken_def same(1) use pay map_bindE by simp
  then show ?thesis using r same(1) by (simp add: reviewedRequest_def)
qed

section \<open>Witnesses\<close>

text \<open>The school of the samples with developer access, and the body of a key for verification.\<close>

definition school_access :: developer_access_request where
  "school_access = \<lparr>dv_uuid = ''q1'', dv_institutionId = school, dv_requestedById = None, dv_developerName = ''Dev'',
     dv_developerEmail = ''d@x'', dv_developerPhone = None, dv_reason = ''integration'', dv_requestedScopes = [''verify:read''],
     dv_status = Dev_APPROVED, dv_reviewFeedback = None, dv_reviewedById = Some ''founder'', dv_reviewedAt = Some 5,
     dv_approvedAt = Some 5, dv_suspendedAt = None, dv_createdAt = 1\<rparr>"

definition with_access :: db where
  "with_access = sample_db\<lparr>developerAccessRequests := [school_access]\<rparr>"

definition key_request :: jval where
  "key_request = JObj [(''label'', JStr ''Live''), (''scopes'', JArr [JStr ''verify:read''])]"

lemma key_request_parsed:
  "parseApiKeyInput e key_request = Inr \<lparr>qk_label = ''Live'', qk_scopes = [''verify:read''], qk_environment = SANDBOX,
     qk_rateLimitPerMinute = 100, qk_expiresAt = None\<rparr>"
proof -
  have "trim ''Live'' = ''Live''" by code_simp
  moreover have "text_list (JArr [JStr ''verify:read'']) = [''verify:read'']" by code_simp
  ultimately show ?thesis
    by (simp add: parseApiKeyInput_def key_request_def asRecord_def getProp_def allowedApiKeyScopes_def Let_def)
qed

lemma sample_key:
  obtains k secret d1 where "createApiKey toy_secrets sample_env with_access founder school key_request = Inr (k, secret, d1)"
    "ky_expiresAt k = None" "\<forall>x \<in> set (apiKeys d1). ak_uuid x = ''uuu'' \<and> ak_rateLimitPerMinute x = 100"
proof -
  obtain clientId s digest d0 where draw: "drawCredentials toy_secrets with_access SANDBOX = (clientId, s, digest, d0)"
    by (rule prod_cases4)
  have rows: "apiKeys with_access = []" "developerAccessRequests with_access = [school_access]"
      "find_by in_uuid school (institutions with_access) = Some (hd (institutions with_access))"
      "dv_institutionId school_access = school" "dv_status school_access = Dev_APPROVED"
      "in_uuid (hd (institutions with_access)) = school"
    by (simp_all add: with_access_def school_access_def sample_db_def empty_db_def)
  have "\<exists>x. createApiKey toy_secrets sample_env with_access founder school key_request = Inr x"
    using drawCredentials_frame [OF draw] rows
    by (simp add: createApiKey_def key_request_parsed draw check_unique_def List.map_filter_def Let_def)
  then obtain k secret d1 where run: "createApiKey toy_secrets sample_env with_access founder school key_request = Inr (k, secret, d1)"
    by auto
  have "ky_expiresAt k = None \<and> (\<forall>x \<in> set (apiKeys d1). ak_uuid x = ''uuu'' \<and> ak_rateLimitPerMinute x = 100)"
    by (rule createApiKey_Inr [OF run])
      (auto simp: key_request_parsed safeApiKey_def newKey_def with_access_def sample_db_def empty_db_def sample_env_def)
  with run that show thesis by blast
qed

lemma access_active: "active_institution with_access school"
  by (simp add: active_institution_def with_access_def sample_db_def)

theorem created_key_works_witness:
  "\<exists>k secret d1 t d2. createApiKey toy_secrets sample_env with_access founder school key_request = Inr (k, secret, d1) \<and>
     issueApiToken toy_secrets sample_env d1 (Some (ky_clientId k)) (Some secret) = Inr (t, d2) \<and>
     (\<exists>payload. verifyToken (sx_hmac256 toy_secrets) (jwtSecret (sx_jwtSecret toy_secrets)) 1000 (at_accessToken t) = Inr payload \<and>
       scopesGuard (ky_scopes k) payload = Inr True)"
proof -
  obtain k secret d1 where k: "createApiKey toy_secrets sample_env with_access founder school key_request = Inr (k, secret, d1)"
      "ky_expiresAt k = None" and row: "\<forall>x \<in> set (apiKeys d1). ak_uuid x = ''uuu'' \<and> ak_rateLimitPerMinute x = 100"
    by (rule sample_key)
  have id: "ky_uuid k \<noteq> []"
    by (rule createApiKey_Inr [OF k(1)]) (use row in \<open>auto simp: safeApiKey_def\<close>)
  have facts: "case ky_expiresAt k of None \<Rightarrow> True | Some t \<Rightarrow> now sample_env < t" "0 \<le> now sample_env" "now sample_env < 10 ^ 20"
    using k(2) by (simp_all add: sample_env_def)
  have digest: "sx_hmac256 toy_secrets h m \<noteq> []" for h m by (simp add: toy_secrets_def)
  from created_key_works [OF toy_secrets_ok digest k(1) access_active facts(1) id facts(2,3)] show ?thesis
  proof (elim exE conjE, goal_cases)
    case (1 t d2 salt)
    have "(1000 :: int) div 1000 \<le> now sample_env div 1000 + at_expiresIn t" using 1(3) by (auto simp: sample_env_def)
    from 1(2) [rule_format, OF this] have "\<exists>payload.
        verifyToken (sx_hmac256 toy_secrets) (jwtSecret (sx_jwtSecret toy_secrets)) 1000 (at_accessToken t) = Inr payload \<and>
        scopesGuard (ky_scopes k) payload = Inr True" by auto
    with 1(1) k(1) show ?case by blast
  qed
qed

theorem lockdown_spares_issued_tokens_witness:
  "\<exists>d d1 t id secret n why d2 payload. issueApiToken toy_secrets sample_env d id secret = Inr (t, d1) \<and>
     emergencyLockdown sample_env d1 founder None = (n, why, d2) \<and> (\<forall>k \<in> set (apiKeys d2). ak_status k \<noteq> Key_ACTIVE) \<and>
     verifyToken (sx_hmac256 toy_secrets) (jwtSecret (sx_jwtSecret toy_secrets)) (now sample_env) (at_accessToken t) = Inr payload"
proof -
  obtain k secret d where k: "createApiKey toy_secrets sample_env with_access founder school key_request = Inr (k, secret, d)"
      "ky_expiresAt k = None" and row: "\<forall>x \<in> set (apiKeys d). ak_uuid x = ''uuu'' \<and> ak_rateLimitPerMinute x = 100"
    by (rule sample_key)
  from k(2) have "case ky_expiresAt k of None \<Rightarrow> True | Some t \<Rightarrow> now sample_env < t" by simp
  from created_key [OF toy_secrets_ok k(1) access_active this] obtain t d1 where
      t: "issueApiToken toy_secrets sample_env d (Some (ky_clientId k)) (Some secret) = Inr (t, d1)" by blast
  have "at_apiClient t \<in> set (apiKeys d)" "at_expiresIn t \<in> {3600, 86400}"
    using t by (auto simp: issueApiToken_def err_simps dest: find_by_Some split: option.splits if_splits)
  with row [rule_format, of "at_apiClient t"] have facts: "ak_uuid (at_apiClient t) \<noteq> []" "0 \<le> ak_rateLimitPerMinute (at_apiClient t)"
      "ak_rateLimitPerMinute (at_apiClient t) \<le> 10000" "0 \<le> now sample_env" "now sample_env < 10 ^ 20"
      "now sample_env div 1000 \<le> now sample_env div 1000 + at_expiresIn t"
    by (auto simp: sample_env_def)
  obtain n why d2 where lock: "emergencyLockdown sample_env d1 founder None = (n, why, d2)" by (rule prod_cases3)
  have "sx_hmac256 toy_secrets h m \<noteq> []" for h m by (simp add: toy_secrets_def)
  from lockdown_spares_issued_tokens [OF t lock this facts] t lock show ?thesis by blast
qed

theorem suspension_keeps_keys_witness:
  "\<exists>r d'. suspendDeveloperAccessRequest sample_env with_access founder ''q1'' None = Inr (r, d') \<and> dv_status r = Dev_SUSPENDED \<and>
     apiKeys d' = apiKeys with_access"
proof -
  have "\<exists>x. suspendDeveloperAccessRequest sample_env with_access founder ''q1'' None = Inr x"
    by (simp add: suspendDeveloperAccessRequest_def reviewDeveloperAccessRequest_def with_access_def school_access_def
        update_by_def Let_def)
  then obtain r d' where run: "suspendDeveloperAccessRequest sample_env with_access founder ''q1'' None = Inr (r, d')" by auto
  from suspension_keeps_keys [OF run] run show ?thesis by blast
qed

theorem keys_behind_access_witness:
  "\<exists>d'. key_step\<^sup>*\<^sup>* with_access d' \<and> apiKeys d' \<noteq> [] \<and> distinct (map ak_clientId (apiKeys d')) \<and>
     (\<forall>k \<in> set (apiKeys d'). set (ak_scopes k) \<subseteq> set allowedApiKeyScopes)"
proof -
  obtain k secret d where k: "createApiKey toy_secrets sample_env with_access founder school key_request = Inr (k, secret, d)"
    by (rule sample_key)
  then have steps: "key_step\<^sup>*\<^sup>* with_access d" using key_step.create by blast
  have "keys_ok with_access"
    by (simp add: keys_ok_def tells_apart_def with_access_def school_access_def sample_db_def empty_db_def)
  note ok = keys_behind_access [OF steps this]
  have "apiKeys d \<noteq> []" by (rule createApiKey_Inr [OF k]) simp
  with steps ok show ?thesis by blast
qed

end
